(* ===== verification/Tap_Prelude.thy ===== *)
theory Tap_Prelude
  imports Main "HOL-Library.Word"
begin

text \<open>
  Shared vocabulary of the development: the byte and machine-integer types of the Go
  code, results with an error branch, loops with an early return, big-endian integers,
  decimal text, and the string helpers of Go's \<open>strings\<close> package that the code uses
  (on ASCII text).
\<close>

section \<open>Types\<close>

type_synonym byte = "8 word"
type_synonym bytes = "8 word list"
type_synonym u16 = "16 word"
type_synonym u32 = "32 word"
type_synonym u64 = "64 word"

named_theorems result_simps \<open>inversion rules for results with an error branch\<close>
named_theorems codec_simps \<open>evaluation rules of the encoders and decoders\<close>

section \<open>Results\<close>

text \<open>
  A fallible Go function returns a value and an error. Its model returns a sum:
  \<open>Inl\<close> the error, \<open>Inr\<close> the value. \<open>and_then\<close> is the \<open>if err != nil { return err }\<close>
  that follows a call.
\<close>

definition and_then :: "'e + 'a \<Rightarrow> ('a \<Rightarrow> 'e + 'b) \<Rightarrow> 'e + 'b" where
  "and_then r f = (case r of Inl e \<Rightarrow> Inl e | Inr x \<Rightarrow> f x)"

lemma and_then_Inl [simp]: "and_then (Inl e) f = Inl e"
  by (simp add: and_then_def)

lemma and_then_Inr [simp]: "and_then (Inr x) f = f x"
  by (simp add: and_then_def)

lemma and_then_eq_Inr [result_simps]:
  "and_then r f = Inr y \<longleftrightarrow> (\<exists>x. r = Inr x \<and> f x = Inr y)"
  by (cases r) auto

lemma and_then_eq_Inl [result_simps]:
  "and_then r f = Inl e \<longleftrightarrow> r = Inl e \<or> (\<exists>x. r = Inr x \<and> f x = Inl e)"
  by (cases r) auto

lemma if_Inl_eq_Inr [result_simps]:
  "((if b then Inl e else r) = Inr y) \<longleftrightarrow> \<not> b \<and> r = Inr y"
  by simp

definition is_ok :: "'e + 'a \<Rightarrow> bool" where
  "is_ok r \<longleftrightarrow> (case r of Inl _ \<Rightarrow> False | Inr _ \<Rightarrow> True)"

lemma is_ok_simps [simp]: "\<not> is_ok (Inl e)" "is_ok (Inr x)"
  by (simp_all add: is_ok_def)

lemma is_ok_iff: "is_ok r \<longleftrightarrow> (\<exists>x. r = Inr x)"
  by (cases r) auto

definition wrap_with :: "('e \<Rightarrow> 'e) \<Rightarrow> 'e + 'a \<Rightarrow> 'e + 'a" where
  "wrap_with w r = (case r of Inl e \<Rightarrow> Inl (w e) | Inr x \<Rightarrow> Inr x)"

lemma wrap_with_simps [simp]:
  "wrap_with w (Inl e) = Inl (w e)" "wrap_with w (Inr x) = Inr x"
  by (simp_all add: wrap_with_def)

lemma wrap_with_eq_Inr [simp]: "wrap_with w r = Inr x \<longleftrightarrow> r = Inr x"
  by (cases r) auto

subsection \<open>Loops with an early return\<close>

text \<open>
  \<open>fold_res f s xs\<close> is the Go loop over \<open>xs\<close> that updates the state \<open>s\<close> and returns from the
  function at the first error.
\<close>

fun fold_res :: "('s \<Rightarrow> 'a \<Rightarrow> 'e + 's) \<Rightarrow> 's \<Rightarrow> 'a list \<Rightarrow> 'e + 's" where
  "fold_res f s [] = Inr s"
| "fold_res f s (x # xs) = and_then (f s x) (\<lambda>s'. fold_res f s' xs)"

text \<open>
  The same loop with the index of the element, as in \<open>for idx := range xs\<close>.
\<close>

fun fold_idx :: "(nat \<Rightarrow> 's \<Rightarrow> 'a \<Rightarrow> 'e + 's) \<Rightarrow> nat \<Rightarrow> 's \<Rightarrow> 'a list \<Rightarrow> 'e + 's" where
  "fold_idx f i s [] = Inr s"
| "fold_idx f i s (x # xs) = and_then (f i s x) (\<lambda>s'. fold_idx f (Suc i) s' xs)"

lemma fold_idx_prefix:
  assumes "fold_idx f i s xs = Inr t" and "P [] s"
    and "\<And>j ys x u u'. x \<in> set xs \<Longrightarrow> P ys u \<Longrightarrow> f j u x = Inr u' \<Longrightarrow> P (ys @ [x]) u'"
  shows "P xs t"
proof -
  have "fold_idx f i s zs = Inr t \<Longrightarrow> P ys s \<Longrightarrow> set zs \<subseteq> set xs \<Longrightarrow> P (ys @ zs) t" for zs ys i s
  proof (induction zs arbitrary: i s ys)
    case Nil
    then show ?case by simp
  next
    case (Cons z zs)
    from Cons.prems(1) obtain s' where
      step: "f i s z = Inr s'" and rest: "fold_idx f (Suc i) s' zs = Inr t"
      by (auto simp: result_simps)
    from Cons.prems(2,3) step have "P (ys @ [z]) s'" by (auto intro: assms(3))
    from Cons.IH [OF rest this] Cons.prems(3) show ?case by simp
  qed
  from this [of i s xs "[]"] assms(1,2) show ?thesis by simp
qed

lemma fold_idx_forall:
  assumes "fold_idx f i s xs = Inr t"
    and "\<And>j u x u'. x \<in> set xs \<Longrightarrow> f j u x = Inr u' \<Longrightarrow> Q x"
  shows "\<forall>x \<in> set xs. Q x"
  using assms
proof (induction xs arbitrary: i s)
  case Nil
  then show ?case by simp
next
  case (Cons x xs)
  from Cons.prems(1) obtain s' where
    step: "f i s x = Inr s'" and rest: "fold_idx f (Suc i) s' xs = Inr t"
    by (auto simp: result_simps)
  have "\<forall>y \<in> set xs. Q y"
    using rest Cons.prems(2) by (intro Cons.IH [OF rest]) (auto intro: Cons.prems(2))
  with Cons.prems(2) [OF _ step] show ?case by simp
qed

text \<open>Loops that carry no state succeed exactly when every iteration does.\<close>

lemma fold_idx_unit_ok:
  fixes f :: "nat \<Rightarrow> unit \<Rightarrow> 'a \<Rightarrow> 'e + unit"
  shows "is_ok (fold_idx f k () xs) \<longleftrightarrow> (\<forall>j < length xs. is_ok (f (k + j) () (xs ! j)))"
proof (induction xs arbitrary: k)
  case Nil
  show ?case by simp
next
  case (Cons x xs)
  have "(\<forall>j < length (x # xs). is_ok (f (k + j) () ((x # xs) ! j))) \<longleftrightarrow>
      is_ok (f k () x) \<and> (\<forall>j < length xs. is_ok (f (Suc k + j) () (xs ! j)))"
    by (simp add: All_less_Suc2)
  then show ?case by (cases "f k () x") (simp_all add: Cons.IH)
qed

lemma fold_res_unit_ok:
  fixes f :: "unit \<Rightarrow> 'a \<Rightarrow> 'e + unit"
  shows "is_ok (fold_res f () xs) \<longleftrightarrow> (\<forall>x \<in> set xs. is_ok (f () x))"
proof (induction xs)
  case Nil
  show ?case by simp
next
  case (Cons x xs)
  then show ?case by (cases "f () x") simp_all
qed

text \<open>A loop that collects distinct keys.\<close>

lemma fold_res_distinct:
  assumes "\<And>seen x. step seen x = (if key x \<in> seen then Inl (err x) else Inr (insert (key x) seen))"
  shows "fold_res step seen xs = Inr seen' \<longleftrightarrow>
    distinct (map key xs) \<and> key ` set xs \<inter> seen = {} \<and> seen' = key ` set xs \<union> seen"
proof (induction xs arbitrary: seen)
  case Nil
  show ?case by auto
next
  case (Cons x xs)
  then show ?case by (auto simp: assms)
qed

lemma is_ok_wrap_with [simp]: "is_ok (wrap_with f r) \<longleftrightarrow> is_ok r"
  by (auto simp: is_ok_iff)

lemma is_ok_and_then_unit: "is_ok (and_then r (\<lambda>_. s)) \<longleftrightarrow> is_ok r \<and> is_ok s"
  by (cases r) simp_all

lemma is_ok_unit: "is_ok (r :: 'e + unit) \<longleftrightarrow> r = Inr ()"
  by (simp add: is_ok_iff)

lemma fold_res_append: "fold_res f s (xs @ ys) = and_then (fold_res f s xs) (\<lambda>t. fold_res f t ys)"
  by (induction xs arbitrary: s) (auto simp: and_then_def split: sum.splits)

lemma fold_res_invariant:
  assumes "fold_res f s xs = Inr t" and "P s"
    and "\<And>u x u'. x \<in> set xs \<Longrightarrow> P u \<Longrightarrow> f u x = Inr u' \<Longrightarrow> P u'"
  shows "P t"
  using assms
proof (induction xs arbitrary: s)
  case Nil
  then show ?case by simp
next
  case (Cons x xs)
  from Cons.prems(1) obtain s' where
    step: "f s x = Inr s'" and rest: "fold_res f s' xs = Inr t"
    by (auto simp: result_simps)
  from Cons.prems(2) step have "P s'" by (auto intro: Cons.prems(3))
  with rest show ?case by (rule Cons.IH) (auto intro: Cons.prems(3))
qed

section \<open>Machine integers\<close>

text \<open>\<open>bits.Add64\<close> followed by a test of the carry: \<open>None\<close> on overflow.\<close>

definition add64 :: "u64 \<Rightarrow> u64 \<Rightarrow> u64 option" where
  "add64 a b = (if a + b < a then None else Some (a + b))"

lemma add64_eq: "add64 a b = (if unat a + unat b < 2 ^ 64 then Some (a + b) else None)"
proof -
  have "a + b < a \<longleftrightarrow> \<not> unat a + unat b < 2 ^ 64"
    using no_olen_add_nat [of a b] by (auto simp: not_le)
  then show ?thesis by (simp add: add64_def)
qed

lemma add64_Some: "add64 a b = Some c \<longleftrightarrow> unat a + unat b < 2 ^ 64 \<and> unat c = unat a + unat b"
  by (auto simp: add64_eq word_unat_eq_iff unat_word_ariths)

lemma add64_None: "add64 a b = None \<longleftrightarrow> 2 ^ 64 \<le> unat a + unat b"
  by (auto simp: add64_eq)

lemma unat_of_nat_u64: "n < 2 ^ 64 \<Longrightarrow> unat (of_nat n :: u64) = n"
  by (simp add: unat_of_nat take_bit_eq_mod)

section \<open>Big-endian integers\<close>

fun be_bytes :: "nat \<Rightarrow> nat \<Rightarrow> bytes" where
  "be_bytes 0 x = []"
| "be_bytes (Suc n) x = be_bytes n (x div 256) @ [of_nat x]"

definition be_nat :: "bytes \<Rightarrow> nat" where
  "be_nat bs = foldl (\<lambda>a b. a * 256 + unat b) 0 bs"

definition le_bytes :: "nat \<Rightarrow> nat \<Rightarrow> bytes" where
  "le_bytes n x = rev (be_bytes n x)"

lemma length_be_bytes [simp]: "length (be_bytes n x) = n"
  by (induction n arbitrary: x) auto

lemma length_le_bytes [simp]: "length (le_bytes n x) = n"
  by (simp add: le_bytes_def)

lemma be_nat_Nil [simp]: "be_nat [] = 0"
  by (simp add: be_nat_def)

lemma be_nat_snoc [simp]: "be_nat (bs @ [b]) = be_nat bs * 256 + unat b"
  by (simp add: be_nat_def)

lemma unat_byte_of_nat: "unat (of_nat x :: byte) = x mod 256"
  by (simp add: unat_of_nat)

lemma unat_byte_less [simp]: "unat (b :: byte) < 256"
  using unsigned_less [of b] by simp

lemma be_nat_less: "be_nat bs < 256 ^ length bs"
proof (induction bs rule: rev_induct)
  case Nil
  then show ?case by simp
next
  case (snoc b bs)
  have "be_nat bs * 256 + unat b < (be_nat bs + 1) * 256" by simp
  also have "\<dots> \<le> 256 ^ length bs * 256"
    using snoc by (intro mult_le_mono1) simp
  finally show ?case by simp
qed

lemma be_nat_be_bytes: "be_nat (be_bytes n x) = x mod 256 ^ n"
proof (induction n arbitrary: x)
  case 0
  then show ?case by simp
next
  case (Suc n)
  have "x mod (256 * 256 ^ n) = 256 * (x div 256 mod 256 ^ n) + x mod 256"
    by (rule mod_mult2_eq)
  with Suc show ?case by (simp add: unat_byte_of_nat)
qed

lemma be_bytes_be_nat: "be_bytes (length bs) (be_nat bs) = bs"
proof (induction bs rule: rev_induct)
  case Nil
  then show ?case by simp
next
  case (snoc b bs)
  have "(be_nat bs * 256 + unat b) div 256 = be_nat bs" by simp
  moreover have "(of_nat (be_nat bs * 256 + unat b) :: byte) = b"
    by (simp only: word_unat_eq_iff unat_byte_of_nat mod_mult_self3 unat_byte_less mod_less)
  ultimately show ?case using snoc by simp
qed

section \<open>Text\<close>

text \<open>
  Go strings are byte strings; Isabelle's \<open>string\<close> is a list of 8-bit characters. The helpers
  follow \<open>strings.ToLower\<close>, \<open>strings.TrimSpace\<close>, \<open>strings.Contains\<close>, \<open>strings.LastIndexByte\<close>,
  \<open>strings.Cut\<close> and \<open>strings.HasPrefix\<close> on ASCII text; bytes above 127 are left alone.
\<close>

definition to_lower_char :: "char \<Rightarrow> char" where
  "to_lower_char c =
     (if 65 \<le> (of_char c :: nat) \<and> (of_char c :: nat) \<le> 90 then char_of ((of_char c :: nat) + 32) else c)"

definition to_lower :: "string \<Rightarrow> string" where
  "to_lower s = map to_lower_char s"

definition is_space :: "char \<Rightarrow> bool" where
  "is_space c \<longleftrightarrow> (of_char c :: nat) = 32 \<or> (9 \<le> (of_char c :: nat) \<and> (of_char c :: nat) \<le> 13)"

definition trim_space :: "string \<Rightarrow> string" where
  "trim_space s = rev (dropWhile is_space (rev (dropWhile is_space s)))"

fun starts_with :: "'a list \<Rightarrow> 'a list \<Rightarrow> bool" where
  "starts_with s [] = True"
| "starts_with [] (p # ps) = False"
| "starts_with (c # s) (p # ps) = (c = p \<and> starts_with s ps)"

fun contains :: "'a list \<Rightarrow> 'a list \<Rightarrow> bool" where
  "contains [] p = (p = [])"
| "contains (c # s) p = (starts_with (c # s) p \<or> contains s p)"

text \<open>\<open>split_last b s\<close>: what precedes the last occurrence of \<open>b\<close>, if there is one.\<close>

fun split_last :: "char \<Rightarrow> string \<Rightarrow> string option" where
  "split_last b [] = None"
| "split_last b (c # s) =
     (case split_last b s of
        Some pre \<Rightarrow> Some (c # pre)
      | None \<Rightarrow> (if c = b then Some [] else None))"

fun cut :: "char \<Rightarrow> string \<Rightarrow> string \<times> string \<times> bool" where
  "cut b [] = ([], [], False)"
| "cut b (c # s) =
     (if c = b then ([], s, True)
      else (case cut b s of (before, after, found) \<Rightarrow> (c # before, after, found)))"

lemma to_lower_char_idem: "to_lower_char (to_lower_char c) = to_lower_char c"
  by (auto simp: to_lower_char_def)

lemma to_lower_idem [simp]: "to_lower (to_lower s) = to_lower s"
  by (simp add: to_lower_def to_lower_char_idem)

lemma to_lower_append: "to_lower (s @ t) = to_lower s @ to_lower t"
  by (simp add: to_lower_def)

lemma to_lower_eq_Nil [simp]: "to_lower s = [] \<longleftrightarrow> s = []"
  by (simp add: to_lower_def)

lemma starts_with_append [simp]: "starts_with (p @ s) p"
  by (induction p) auto

lemma contains_append: "contains s p \<Longrightarrow> contains (t @ s) p"
  by (induction t) auto

lemma cut_no_sep: "b \<notin> set s \<Longrightarrow> cut b s = (s, [], False)"
  by (induction s) auto

lemma cut_sep: "b \<notin> set s \<Longrightarrow> cut b (s @ b # t) = (s, t, True)"
  by (induction s) auto

lemma split_last_sep: "b \<notin> set t \<Longrightarrow> split_last b (s @ b # t) = Some s"
proof (induction s)
  case Nil
  then have "split_last b t = None" by (induction t) auto
  then show ?case by simp
next
  case (Cons c s)
  then show ?case by simp
qed

section \<open>Decimal numbers\<close>

definition digit_char :: "nat \<Rightarrow> char" where
  "digit_char d = char_of (48 + d)"

definition is_digit :: "char \<Rightarrow> bool" where
  "is_digit c \<longleftrightarrow> 48 \<le> (of_char c :: nat) \<and> (of_char c :: nat) \<le> 57"

text \<open>\<open>strconv.FormatUint(n, 10)\<close>.\<close>

fun dec_string :: "nat \<Rightarrow> string" where
  "dec_string n = (if n < 10 then [digit_char n] else dec_string (n div 10) @ [digit_char (n mod 10)])"

declare dec_string.simps [simp del]

text \<open>The value \<open>strconv.ParseUint\<close> reads from a string of decimal digits.\<close>

definition dec_value :: "string \<Rightarrow> nat" where
  "dec_value s = foldl (\<lambda>a c. a * 10 + (of_char c - 48)) 0 s"

lemma dec_value_Nil [simp]: "dec_value [] = 0"
  by (simp add: dec_value_def)

lemma dec_value_snoc [simp]: "dec_value (s @ [c]) = dec_value s * 10 + (of_char c - 48)"
  by (simp add: dec_value_def)

lemma of_char_digit [simp]: "d < 10 \<Longrightarrow> (of_char (digit_char d) :: nat) = 48 + d"
  by (simp add: digit_char_def)

lemma is_digit_digit_char [simp]: "d < 10 \<Longrightarrow> is_digit (digit_char d)"
  by (simp add: is_digit_def)

lemma dec_string_digits: "c \<in> set (dec_string n) \<Longrightarrow> is_digit c"
proof (induction n rule: dec_string.induct)
  case (1 n)
  then show ?case
    by (subst (asm) (2) dec_string.simps) (auto split: if_splits)
qed

lemma dec_string_nonempty [simp]: "dec_string n \<noteq> []"
  by (subst dec_string.simps) simp

lemma dec_value_dec_string [simp]: "dec_value (dec_string n) = n"
proof (induction n rule: dec_string.induct)
  case (1 n)
  show ?case
  proof (cases "n < 10")
    case True
    then show ?thesis
      by (subst dec_string.simps) (simp add: dec_value_def)
  next
    case False
    with 1 show ?thesis by (subst dec_string.simps) simp
  qed
qed

end
