(* ===== verification/Tap_Errors.thy ===== *)
theory Tap_Errors
  imports Tap_Prelude
begin

text \<open>
  The error surface of the SDK (\<open>errors.go\<close>): sentinel errors, the \<open>Error\<close> wrapper with its
  operation name, the classification of backend errors by message text and by grpc status
  code, and the identity test \<open>errors.Is\<close>.

  A Go error is a value of \<open>go_error\<close>. Text interpolated into a message with a format verb
  other than \<open>%w\<close> is left out; the text is only read by \<open>matchErrorMessage\<close>.
  \<open>status.FromError\<close> belongs to grpc and is the parameter \<open>status_of\<close>: the status code and
  message of an error, \<open>None\<close> where it reports false.
\<close>

section \<open>Sentinel errors\<close>

text \<open>
  The sentinels of \<open>errors.go\<close> in the order of the source, then those declared in other
  files and the two of the \<open>context\<close> package.
\<close>

datatype sentinel =
    ErrBuilderFinished
  | ErrNotFunded
  | ErrNotSigned
  | ErrNotCommitted
  | ErrNoRecipients
  | ErrNoReceiverKeys
  | ErrNoAssetRef
  | ErrZeroAmount
  | ErrGroupKeyNotSupported
  | ErrInsufficientBalance
  | ErrInvalidAssetRef
  | ErrPermissionDenied
  | ErrUnauthenticated
  | ErrProofNotFound
  | ErrTapdPrecondition
  | ErrUnsupportedByTapd
  | ErrUnsupportedCustomAnchorCapability
  | ErrUnconfirmedCustomAnchorPublish
  | ErrMixedAssetBatchUnsupported
  | ErrAmountRequired
  | ErrAmountMismatch
  | ErrAssetUnknown
  | ErrNoProofs
  | ErrIncompleteProofBundle
  | ErrOwnershipProofRequired
  | ErrInvalidChallenge
  | ErrOwnershipAmountRequired
  | ErrOwnershipProofInvalid
  | ErrAssetNameRequired
  | ErrMintBatchActive
  | ErrWrongAssetType
  | ErrAssetNotIssuable
  | ErrMintResolveTimeout
  | ErrMintResultNotFound
  | ErrExternalIssuanceKeyRequired
  | ErrExternalIssuanceSignerRequired
  | ErrExternalIssuanceRequestNotFound
  | ErrExternalIssuanceSignatureRequired
  | ErrUniverseHostRequired
  | ErrInvalidUniverseHost
  | ErrDuplicateAssetRef
  | ErrUniverseProofTypeRequired
  | ErrInvalidPagination
  | ErrInvalidFeeRate
  | ErrMixedRecipientAmounts
  | ErrMintResultNotReady
  | ErrAssetProofPathInvalid
  | ErrAssetProofPathUnknownFormat
  | ErrAssetProofPathUnknownPassiveAssets
  | ErrAssetProofPathPassiveAssets
  | ErrAssetProofPathUnconfirmedAnchor
  | ContextCanceled
  | ContextDeadlineExceeded

section \<open>Error values\<close>

datatype grpc_code =
    OK | Canceled | Unknown | InvalidArgument | DeadlineExceeded | NotFound | AlreadyExists
  | PermissionDenied | ResourceExhausted | FailedPrecondition | Aborted | OutOfRange
  | Unimplemented | Internal | Unavailable | DataLoss | Unauthenticated

text \<open>
  \<open>Plain\<close> is \<open>errors.New\<close> or \<open>fmt.Errorf\<close> without \<open>%w\<close>; \<open>External\<close> an error made outside the
  SDK, with the grpc status it carries (if any) and its text; \<open>Wrapf pre e post\<close> is
  \<open>fmt.Errorf\<close> with one \<open>%w\<close>; \<open>Wrap2 a b\<close> is \<open>fmt.Errorf("%w: %w", a, b)\<close>; \<open>OpError\<close> is the
  SDK's \<open>Error\<close> struct.
\<close>

datatype go_error =
    Sentinel sentinel
  | Plain string
  | External "(grpc_code \<times> string) option" string
  | Wrapf string go_error string
  | Wrap2 go_error go_error
  | OpError string go_error

type_synonym 'a result = "go_error + 'a"
type_synonym status_fun = "go_error \<Rightarrow> (grpc_code \<times> string) option"

primrec sentinel_msg :: "sentinel \<Rightarrow> string" where
  "sentinel_msg ErrBuilderFinished = ''builder already finished''"
| "sentinel_msg ErrNotFunded = ''transaction not funded''"
| "sentinel_msg ErrNotSigned = ''transaction not signed''"
| "sentinel_msg ErrNotCommitted = ''transaction not committed''"
| "sentinel_msg ErrNoRecipients = ''no recipients configured''"
| "sentinel_msg ErrNoReceiverKeys = ''receiver keys not set''"
| "sentinel_msg ErrNoAssetRef = ''asset ref not set''"
| "sentinel_msg ErrZeroAmount = ''amount must be greater than zero''"
| "sentinel_msg ErrGroupKeyNotSupported = ''group-key AssetRef requires a wallet-backed asset resolver''"
| "sentinel_msg ErrInsufficientBalance = ''insufficient asset balance''"
| "sentinel_msg ErrInvalidAssetRef = ''invalid asset ref''"
| "sentinel_msg ErrPermissionDenied = ''permission denied''"
| "sentinel_msg ErrUnauthenticated = ''unauthenticated''"
| "sentinel_msg ErrProofNotFound = ''proof not found''"
| "sentinel_msg ErrTapdPrecondition = ''tapd precondition failed''"
| "sentinel_msg ErrUnsupportedByTapd = ''operation unsupported by tapd''"
| "sentinel_msg ErrUnsupportedCustomAnchorCapability = ''custom-anchor capability unsupported''"
| "sentinel_msg ErrUnconfirmedCustomAnchorPublish = ''unconfirmed custom-anchor package cannot be published through tapd''"
| "sentinel_msg ErrMixedAssetBatchUnsupported = ''mixed-asset send batch unsupported''"
| "sentinel_msg ErrAmountRequired = ''amount required for V2 address without an embedded amount''"
| "sentinel_msg ErrAmountMismatch = ''amount does not match the address-embedded amount''"
| "sentinel_msg ErrAssetUnknown = ''asset ref is unknown to the wallet''"
| "sentinel_msg ErrNoProofs = ''no proofs found for asset ref''"
| "sentinel_msg ErrIncompleteProofBundle = ''proof bundle is incomplete''"
| "sentinel_msg ErrOwnershipProofRequired = ''ownership proof is required''"
| "sentinel_msg ErrInvalidChallenge = ''invalid ownership proof challenge''"
| "sentinel_msg ErrOwnershipAmountRequired = ''ownership proof amount is required''"
| "sentinel_msg ErrOwnershipProofInvalid = ''ownership proof is invalid''"
| "sentinel_msg ErrAssetNameRequired = ''asset name is required''"
| "sentinel_msg ErrMintBatchActive = ''mint batch is already active''"
| "sentinel_msg ErrWrongAssetType = ''asset ref has the wrong asset type''"
| "sentinel_msg ErrAssetNotIssuable = ''asset ref is not an issuable grouped asset''"
| "sentinel_msg ErrMintResolveTimeout = ''mint result resolution timed out''"
| "sentinel_msg ErrMintResultNotFound = ''mint result could not be mapped''"
| "sentinel_msg ErrExternalIssuanceKeyRequired = ''external issuance key is required''"
| "sentinel_msg ErrExternalIssuanceSignerRequired = ''external issuance signer is required''"
| "sentinel_msg ErrExternalIssuanceRequestNotFound = ''external issuance signing request not found''"
| "sentinel_msg ErrExternalIssuanceSignatureRequired = ''external issuance signature is required''"
| "sentinel_msg ErrUniverseHostRequired = ''universe host is required''"
| "sentinel_msg ErrInvalidUniverseHost = ''invalid universe host''"
| "sentinel_msg ErrDuplicateAssetRef = ''duplicate asset ref''"
| "sentinel_msg ErrUniverseProofTypeRequired = ''universe proof type is required''"
| "sentinel_msg ErrInvalidPagination = ''invalid pagination''"
| "sentinel_msg ErrInvalidFeeRate = ''invalid fee rate''"
| "sentinel_msg ErrMixedRecipientAmounts = ''recipients mix explicit and embedded amounts''"
| "sentinel_msg ErrMintResultNotReady = ''mint result is not visible yet''"
| "sentinel_msg ErrAssetProofPathInvalid = ''invalid asset proof path''"
| "sentinel_msg ErrAssetProofPathUnknownFormat = ''unknown asset proof path format''"
| "sentinel_msg ErrAssetProofPathUnknownPassiveAssets = ''asset proof path passive asset inventory is unknown''"
| "sentinel_msg ErrAssetProofPathPassiveAssets = ''asset proof path contains passive assets''"
| "sentinel_msg ErrAssetProofPathUnconfirmedAnchor = ''asset proof path unconfirmed anchor is not verified''"
| "sentinel_msg ContextCanceled = ''context canceled''"
| "sentinel_msg ContextDeadlineExceeded = ''context deadline exceeded''"

text \<open>\<open>Error()\<close>.\<close>

fun err_text :: "go_error \<Rightarrow> string" where
  "err_text (Sentinel s) = sentinel_msg s"
| "err_text (Plain m) = m"
| "err_text (External st m) = m"
| "err_text (Wrapf pre e post) = pre @ err_text e @ post"
| "err_text (Wrap2 a b) = err_text a @ '': '' @ err_text b"
| "err_text (OpError op e) = (if op \<noteq> [] then op @ '': '' @ err_text e else err_text e)"

text \<open>\<open>errors.Is(err, sentinel)\<close>: the tree of wrapped errors is searched.\<close>

fun errors_is :: "go_error \<Rightarrow> sentinel \<Rightarrow> bool" where
  "errors_is (Sentinel t) s = (t = s)"
| "errors_is (Plain m) s = False"
| "errors_is (External st m) s = False"
| "errors_is (Wrapf pre e post) s = errors_is e s"
| "errors_is (Wrap2 a b) s = (errors_is a s \<or> errors_is b s)"
| "errors_is (OpError op e) s = errors_is e s"

section \<open>Status accessors of the Error struct\<close>

text \<open>The wrapped error of the struct is a field that may be nil.\<close>

definition is_not_found :: "status_fun \<Rightarrow> go_error option \<Rightarrow> bool" where
  "is_not_found status_of err =
     (case err of None \<Rightarrow> False
      | Some e \<Rightarrow> (case status_of e of None \<Rightarrow> False | Some (c, _) \<Rightarrow> c = NotFound))"

definition is_unavailable :: "status_fun \<Rightarrow> go_error option \<Rightarrow> bool" where
  "is_unavailable status_of err =
     (case err of None \<Rightarrow> False
      | Some e \<Rightarrow> (case status_of e of None \<Rightarrow> False | Some (c, _) \<Rightarrow> c = Unavailable))"

definition is_invalid_argument :: "status_fun \<Rightarrow> go_error option \<Rightarrow> bool" where
  "is_invalid_argument status_of err =
     (case err of None \<Rightarrow> False
      | Some e \<Rightarrow> (case status_of e of None \<Rightarrow> False | Some (c, _) \<Rightarrow> c = InvalidArgument))"

definition grpc_code_of :: "status_fun \<Rightarrow> go_error option \<Rightarrow> grpc_code" where
  "grpc_code_of status_of err =
     (case err of None \<Rightarrow> OK
      | Some e \<Rightarrow> (case status_of e of None \<Rightarrow> Unknown | Some (c, _) \<Rightarrow> c))"

section \<open>Classification of backend errors\<close>

definition known_sentinels :: "sentinel list" where
  "known_sentinels =
    [ErrBuilderFinished,
     ErrNotFunded,
     ErrNotSigned,
     ErrNotCommitted,
     ErrNoRecipients,
     ErrNoReceiverKeys,
     ErrNoAssetRef,
     ErrZeroAmount,
     ErrGroupKeyNotSupported,
     ErrInsufficientBalance,
     ErrInvalidAssetRef,
     ErrPermissionDenied,
     ErrUnauthenticated,
     ErrProofNotFound,
     ErrTapdPrecondition,
     ErrUnsupportedByTapd,
     ErrUnsupportedCustomAnchorCapability,
     ErrUnconfirmedCustomAnchorPublish,
     ErrMixedAssetBatchUnsupported,
     ErrAmountRequired,
     ErrAmountMismatch,
     ErrAssetUnknown,
     ErrNoProofs,
     ErrIncompleteProofBundle,
     ErrOwnershipProofRequired,
     ErrInvalidChallenge,
     ErrOwnershipAmountRequired,
     ErrOwnershipProofInvalid,
     ErrAssetNameRequired,
     ErrMintBatchActive,
     ErrWrongAssetType,
     ErrAssetNotIssuable,
     ErrMintResolveTimeout,
     ErrMintResultNotFound,
     ErrExternalIssuanceKeyRequired,
     ErrExternalIssuanceSignerRequired,
     ErrExternalIssuanceRequestNotFound,
     ErrExternalIssuanceSignatureRequired,
     ErrUniverseHostRequired,
     ErrInvalidUniverseHost,
     ErrDuplicateAssetRef,
     ErrUniverseProofTypeRequired,
     ErrInvalidPagination]"

definition wraps_known_err :: "go_error \<Rightarrow> bool" where
  "wraps_known_err e \<longleftrightarrow> list_ex (errors_is e) known_sentinels"

definition is_proof_op :: "string \<Rightarrow> bool" where
  "is_proof_op op = contains op ''Proof''"

definition match_error_message :: "string \<Rightarrow> string \<Rightarrow> sentinel option" where
  "match_error_message op msg =
     (let lower = to_lower msg in
      if contains lower ''all addrs must be of the same asset id or group key''
      then Some ErrMixedAssetBatchUnsupported
      else if contains lower ''invalid asset ref'' then Some ErrInvalidAssetRef
      else if contains lower ''insufficient'' \<and> contains lower ''balance''
      then Some ErrInsufficientBalance
      else if is_proof_op op \<and> contains lower ''proof'' \<and>
              (contains lower ''not found'' \<or> contains lower ''missing'')
      then Some ErrProofNotFound
      else if contains lower ''unable to find asset'' \<or> contains lower ''asset lookup failed'' \<or>
              contains lower ''unknown asset''
      then Some ErrAssetUnknown
      else if contains lower ''permission denied'' then Some ErrPermissionDenied
      else if contains lower ''unauthenticated'' then Some ErrUnauthenticated
      else if contains lower ''unimplemented'' \<or> contains lower ''unsupported''
      then Some ErrUnsupportedByTapd
      else None)"

definition status_sentinel :: "string \<Rightarrow> grpc_code \<Rightarrow> string \<Rightarrow> sentinel option" where
  "status_sentinel op code msg =
     (case code of
        Unauthenticated \<Rightarrow> Some ErrUnauthenticated
      | PermissionDenied \<Rightarrow> Some ErrPermissionDenied
      | NotFound \<Rightarrow> (if is_proof_op op then Some ErrProofNotFound else Some ErrAssetUnknown)
      | InvalidArgument \<Rightarrow>
          (if contains (to_lower msg) ''asset ref'' then Some ErrInvalidAssetRef
           else Some ErrTapdPrecondition)
      | FailedPrecondition \<Rightarrow> Some ErrTapdPrecondition
      | Unimplemented \<Rightarrow> Some ErrUnsupportedByTapd
      | _ \<Rightarrow> None)"

definition normalize_err :: "status_fun \<Rightarrow> string \<Rightarrow> go_error \<Rightarrow> go_error" where
  "normalize_err status_of op err =
     (if wraps_known_err err then err
      else (case match_error_message op (err_text err) of
              Some s \<Rightarrow> Wrap2 (Sentinel s) err
            | None \<Rightarrow>
                (case status_of err of
                   None \<Rightarrow> err
                 | Some (code, msg) \<Rightarrow>
                     (case status_sentinel op code msg of
                        None \<Rightarrow> err
                      | Some s \<Rightarrow> Wrap2 (Sentinel s) err))))"

text \<open>\<open>wrapErr\<close> of an error; on a nil error the caller's result is \<open>Inr\<close> and stays as it is.\<close>

definition wrap_err :: "status_fun \<Rightarrow> string \<Rightarrow> go_error \<Rightarrow> go_error" where
  "wrap_err status_of op err = OpError op (normalize_err status_of op err)"

section \<open>What wrapping does to the identity of an error\<close>

text \<open>The sentinel that \<open>normalizeErr\<close> adds, if any.\<close>

definition added_sentinel :: "status_fun \<Rightarrow> string \<Rightarrow> go_error \<Rightarrow> sentinel option" where
  "added_sentinel status_of op err =
     (if wraps_known_err err then None
      else (case match_error_message op (err_text err) of
              Some s \<Rightarrow> Some s
            | None \<Rightarrow> (case status_of err of None \<Rightarrow> None
                        | Some (code, msg) \<Rightarrow> status_sentinel op code msg)))"

lemma normalize_err_eq:
  "normalize_err status_of op err =
     (case added_sentinel status_of op err of None \<Rightarrow> err | Some s \<Rightarrow> Wrap2 (Sentinel s) err)"
  by (simp add: normalize_err_def added_sentinel_def split: option.split prod.split)

lemma wrap_err_identity:
  "errors_is (wrap_err status_of op err) s \<longleftrightarrow>
     errors_is err s \<or> added_sentinel status_of op err = Some s"
  by (auto simp: wrap_err_def normalize_err_eq split: option.split)

lemma wraps_known_errI: "errors_is e s \<Longrightarrow> s \<in> set known_sentinels \<Longrightarrow> wraps_known_err e"
  by (auto simp: wraps_known_err_def list_ex_iff)

lemma match_error_message_known:
  "match_error_message op msg = Some s \<Longrightarrow> s \<in> set known_sentinels"
  by (auto simp: match_error_message_def known_sentinels_def Let_def split: if_splits)

lemma status_sentinel_known:
  "status_sentinel op code msg = Some s \<Longrightarrow> s \<in> set known_sentinels"
  by (cases code) (auto simp: status_sentinel_def known_sentinels_def split: if_splits)

lemma added_sentinel_known:
  "added_sentinel status_of op err = Some s \<Longrightarrow> s \<in> set known_sentinels"
  by (auto simp: added_sentinel_def match_error_message_known status_sentinel_known
      split: if_splits option.splits)

lemma wraps_known_wrap_err:
  "wraps_known_err (wrap_err status_of op err)
     \<longleftrightarrow> wraps_known_err err \<or> added_sentinel status_of op err \<noteq> None"
  by (auto simp: wraps_known_err_def list_ex_iff wrap_err_identity dest: added_sentinel_known)

lemma added_sentinel_of_known: "wraps_known_err err \<Longrightarrow> added_sentinel status_of op err = None"
  by (simp add: added_sentinel_def)

text \<open>
  Wrapping an SDK error never loses an error identity, adds at most one sentinel, adds
  none to an error that already carries a known sentinel, and what it adds is one of the known
  sentinels: for any sentinel \<open>s\<close>, the wrapped error is \<open>s\<close> exactly if the error was, or \<open>s\<close>
  is the one classification of an error that had none.
\<close>

theorem wrap_err_classifies_once:
  "(\<forall>s. errors_is err s \<longrightarrow> errors_is (wrap_err status_of op err) s) \<and>
   (wraps_known_err err \<longrightarrow> wrap_err status_of op err = OpError op err) \<and>
   (\<forall>s t. errors_is (wrap_err status_of op err) s \<longrightarrow> \<not> errors_is err s \<longrightarrow>
          errors_is (wrap_err status_of op err) t \<longrightarrow> \<not> errors_is err t \<longrightarrow>
          s = t \<and> s \<in> set known_sentinels \<and> \<not> wraps_known_err err)"
  by (auto simp: wrap_err_identity wrap_err_def normalize_err_eq added_sentinel_of_known
      dest: added_sentinel_known split: option.split)

theorem wrap_err_classifies_once_witness:
  "errors_is (wrap_err (\<lambda>_. None) ''Send'' (Wrapf [] (Sentinel ErrAmountMismatch) '': x'')) ErrAmountMismatch \<and>
   \<not> errors_is (wrap_err (\<lambda>_. None) ''Send'' (Wrapf [] (Sentinel ErrAmountMismatch) '': x'')) ErrAssetUnknown"
proof -
  let ?e = "Wrapf [] (Sentinel ErrAmountMismatch) '': x''"
  have amt: "errors_is ?e ErrAmountMismatch" by simp
  then have known: "wraps_known_err ?e"
    by (rule wraps_known_errI) (simp add: known_sentinels_def)
  note facts = wrap_err_classifies_once [of ?e "\<lambda>_. None" "''Send''"]
  from facts amt have "errors_is (wrap_err (\<lambda>_. None) ''Send'' ?e) ErrAmountMismatch" by blast
  moreover from facts known have "wrap_err (\<lambda>_. None) ''Send'' ?e = OpError ''Send'' ?e" by blast
  ultimately show ?thesis by simp
qed

text \<open>
  Nested wrapping is stable: once an error has been classified, a second wrap under any
  other operation only adds the operation name, so the sentinel seen by the caller is the one
  chosen where the error entered the SDK.
\<close>

theorem rewrap_is_stable:
  assumes "wraps_known_err (wrap_err status_of op err)"
  shows "wrap_err status_of op' (wrap_err status_of op err)
           = OpError op' (wrap_err status_of op err)"
  using assms by (simp add: wrap_err_def [of _ op'] normalize_err_def)

theorem rewrap_is_stable_witness:
  "wrap_err (\<lambda>_. None) ''GetBalance'' (wrap_err (\<lambda>_. None) ''ListBalances'' (Sentinel ErrAssetUnknown))
     = OpError ''GetBalance'' (OpError ''ListBalances'' (Sentinel ErrAssetUnknown))"
proof -
  have known: "wraps_known_err (Sentinel ErrAssetUnknown)"
    by (rule wraps_known_errI [of _ ErrAssetUnknown]) (simp_all add: known_sentinels_def)
  have once: "wrap_err (\<lambda>_. None) ''ListBalances'' (Sentinel ErrAssetUnknown)
      = OpError ''ListBalances'' (Sentinel ErrAssetUnknown)"
    by (simp add: wrap_err_def normalize_err_def known)
  have "wraps_known_err (wrap_err (\<lambda>_. None) ''ListBalances'' (Sentinel ErrAssetUnknown))"
    by (simp add: wraps_known_wrap_err known)
  from rewrap_is_stable [OF this, of "''GetBalance''"] show ?thesis by (simp add: once)
qed

end
