(* ===== verification/Tap_Lib.thy ===== *)
theory Tap_Lib
  imports Tap_Errors
begin

text \<open>
  The packages the SDK calls and does not contain, as one record of functions: secp256k1 keys
  (btcec, schnorr, txscript), bech32, and \<open>status.FromError\<close>. Every definition that reaches
  one of them takes the record as its first argument; what a property relies on is a named
  predicate over the record. \<open>sample_lib\<close> is a concrete record on which the witnesses evaluate.
\<close>

datatype bech32_version = Version0 | VersionM | VersionUnknown

text \<open>\<open>'k\<close> is the type of parsed public keys (\<open>btcec.PublicKey\<close>).\<close>

record 'k lib =
  btcec_parse_pub_key :: "bytes \<Rightarrow> 'k result"
  schnorr_parse_pub_key :: "bytes \<Rightarrow> 'k result"
  schnorr_serialize_pub_key :: "'k \<Rightarrow> bytes"
  serialize_compressed :: "'k \<Rightarrow> bytes"
  compute_taproot_output_key :: "'k \<Rightarrow> bytes \<Rightarrow> 'k"
  wire_write_outpoint :: "bytes \<Rightarrow> u32 \<Rightarrow> bytes"
  convert_bits :: "bytes \<Rightarrow> nat \<Rightarrow> nat \<Rightarrow> bool \<Rightarrow> bytes result"
  bech32_encode_m :: "string \<Rightarrow> bytes \<Rightarrow> string result"
  bech32_decode_generic :: "string \<Rightarrow> (string \<times> bytes \<times> bech32_version) result"
  bech32_decode_no_limit :: "string \<Rightarrow> (string \<times> bytes) result"
  status_from_error :: status_fun

text \<open>\<open>wrapErr(op, err)\<close> on the error of a call.\<close>

definition wrap_op :: "'k lib \<Rightarrow> string \<Rightarrow> 'a result \<Rightarrow> 'a result" where
  "wrap_op L op r = wrap_with (wrap_err (status_from_error L) op) r"

lemma wrap_op_simps [simp]:
  "wrap_op L op (Inr x) = Inr x"
  "wrap_op L op (Inl e) = Inl (wrap_err (status_from_error L) op e)"
  by (simp_all add: wrap_op_def)

lemma wrap_op_eq_Inr [simp]: "wrap_op L op r = Inr x \<longleftrightarrow> r = Inr x"
  by (simp add: wrap_op_def)

section \<open>A concrete instance\<close>

definition nibble_char :: "nat \<Rightarrow> char" where
  "nibble_char n = char_of (97 + n)"

definition sample_text :: "bytes \<Rightarrow> string" where
  "sample_text bs = concat (map (\<lambda>b. [nibble_char (unat b div 16), nibble_char (unat b mod 16)]) bs)"

fun sample_untext :: "string \<Rightarrow> bytes option" where
  "sample_untext [] = Some []"
| "sample_untext [c] = None"
| "sample_untext (c # d # s) =
     (if 97 \<le> (of_char c :: nat) \<and> (of_char c :: nat) < 113 \<and>
         97 \<le> (of_char d :: nat) \<and> (of_char d :: nat) < 113
      then map_option (\<lambda>bs. of_nat ((of_char c - 97) * 16 + (of_char d - 97)) # bs) (sample_untext s)
      else None)"

definition sample_decode :: "string \<Rightarrow> (string \<times> bytes) result" where
  "sample_decode s =
     (case cut CHR ''1'' s of (hrp, body, found) \<Rightarrow>
        (case sample_untext body of
           Some bs \<Rightarrow> (if found \<and> hrp \<noteq> [] then Inr (hrp, bs) else Inl (Plain ''invalid separator''))
         | None \<Rightarrow> Inl (Plain ''invalid character'')))"

definition sample_pad :: "bytes \<Rightarrow> bytes" where
  "sample_pad d = take 32 (rev d @ replicate 32 0)"

lemma length_sample_pad [simp]: "length (sample_pad d) = 32"
  by (simp add: sample_pad_def)

definition sample_lib :: "bytes lib" where
  "sample_lib = \<lparr>
     btcec_parse_pub_key =
       (\<lambda>b. if length b = 33 \<and> (hd b = 2 \<or> hd b = 3) then Inr b else Inl (Plain ''invalid public key'')),
     schnorr_parse_pub_key = (\<lambda>b. if length b = 32 then Inr (2 # b) else Inl (Plain ''bad pubkey'')),
     schnorr_serialize_pub_key = tl,
     serialize_compressed = (\<lambda>k. k),
     compute_taproot_output_key = (\<lambda>k d. 3 # sample_pad d),
     wire_write_outpoint = (\<lambda>h i. h @ le_bytes 4 (unat i)),
     convert_bits = (\<lambda>d f t pad. Inr d),
     bech32_encode_m = (\<lambda>hrp d. Inr (hrp @ ''1'' @ sample_text d)),
     bech32_decode_generic =
       (\<lambda>s. and_then (sample_decode s) (\<lambda>(hrp, d). Inr (hrp, d, VersionM))),
     bech32_decode_no_limit = sample_decode,
     status_from_error =
       (\<lambda>e. case e of External st m \<Rightarrow> st | _ \<Rightarrow> None) \<rparr>"

lemma sample_lib_sel [simp]:
  "btcec_parse_pub_key sample_lib b =
     (if length b = 33 \<and> (hd b = 2 \<or> hd b = 3) then Inr b else Inl (Plain ''invalid public key''))"
  "schnorr_parse_pub_key sample_lib b =
     (if length b = 32 then Inr (2 # b) else Inl (Plain ''bad pubkey''))"
  "schnorr_serialize_pub_key sample_lib k = tl k"
  "serialize_compressed sample_lib k = k"
  "compute_taproot_output_key sample_lib k d = 3 # sample_pad d"
  "wire_write_outpoint sample_lib h i = h @ le_bytes 4 (unat i)"
  "convert_bits sample_lib d f t pad = Inr d"
  "bech32_encode_m sample_lib hrp d = Inr (hrp @ ''1'' @ sample_text d)"
  "bech32_decode_generic sample_lib s = and_then (sample_decode s) (\<lambda>(hrp, d). Inr (hrp, d, VersionM))"
  "bech32_decode_no_limit sample_lib s = sample_decode s"
  "status_from_error sample_lib e = (case e of External st m \<Rightarrow> st | _ \<Rightarrow> None)"
  by (simp_all add: sample_lib_def)

lemma sample_text_Nil [simp]: "sample_text [] = []"
  by (simp add: sample_text_def)

lemma sample_text_Cons [simp]:
  "sample_text (b # bs) = nibble_char (unat b div 16) # nibble_char (unat b mod 16) # sample_text bs"
  by (simp add: sample_text_def)

lemma nibble_less: "unat (b :: byte) div 16 < 16"
  using unat_byte_less [of b] by (simp add: less_mult_imp_div_less)

lemma of_nibble_char: "n < 16 \<Longrightarrow> (of_char (nibble_char n) :: nat) = 97 + n"
  by (simp add: nibble_char_def)

lemma sample_untext_text [simp]: "sample_untext (sample_text bs) = Some bs"
proof (induction bs)
  case Nil
  then show ?case by simp
next
  case (Cons b bs)
  have "(of_nat (unat b div 16 * 16 + unat b mod 16) :: byte) = b"
    by (simp add: word_unat_eq_iff unat_byte_of_nat)
  with Cons show ?case by (simp add: of_nibble_char nibble_less)
qed

lemma to_lower_nibble: "n < 16 \<Longrightarrow> to_lower_char (nibble_char n) = nibble_char n"
  by (simp add: to_lower_char_def of_nibble_char)

lemma to_lower_sample_text [simp]: "to_lower (sample_text bs) = sample_text bs"
  by (induction bs) (simp_all add: to_lower_def to_lower_nibble nibble_less)

lemma nibble_not_sep: "n < 16 \<Longrightarrow> nibble_char n \<noteq> CHR ''1''"
proof
  assume n: "n < 16" and eq: "nibble_char n = CHR ''1''"
  have "(of_char (nibble_char n) :: nat) = of_char (CHR ''1'')" by (simp only: eq)
  then show False by (simp only: of_nibble_char [OF n]) simp
qed

lemma sep_not_in_sample_text [simp]: "CHR ''1'' \<notin> set (sample_text bs)"
proof (induction bs)
  case Nil
  then show ?case by simp
next
  case (Cons b bs)
  have "nibble_char (unat b div 16) \<noteq> CHR ''1''" "nibble_char (unat b mod 16) \<noteq> CHR ''1''"
    by (rule nibble_not_sep, simp add: nibble_less)+
  with Cons show ?case by (simp only: sample_text_Cons) auto
qed

end
