(* ===== verification/Tap_Codec.thy ===== *)
theory Tap_Codec
  imports Tap_Lib
begin

text \<open>
  The byte encodings of \<open>internal/codec\<close>: the variable-length integer (\<open>varint.go\<close>, and its
  private copy in \<open>decode_addr.go\<close>), the alt-leaf container (\<open>altleaves.go\<close>) and the STXO leaves
  (\<open>stxo.go\<close>).

  A reader is the list of the bytes not yet read; a writer is the bytes it appends. The locale
  \<open>prefix_codec\<close> is the contract between an encoder and a decoder that works in front of any
  remaining input; the containers are proved from it once.
\<close>

section \<open>Readers\<close>

text \<open>\<open>io.ReadFull(r, buf)\<close> for a buffer of \<open>n\<close> bytes.\<close>

definition read_full :: "nat \<Rightarrow> bytes \<Rightarrow> (bytes \<times> bytes) result" where
  "read_full n r =
     (if n \<le> length r then Inr (take n r, drop n r)
      else if r = [] then Inl (Plain ''EOF'') else Inl (Plain ''unexpected EOF''))"

lemma read_full_append [codec_simps]: "length xs = n \<Longrightarrow> read_full n (xs @ rest) = Inr (xs, rest)"
  by (simp add: read_full_def)

lemma read_full_eq_Inr [result_simps]:
  "read_full n r = Inr (xs, rest) \<longleftrightarrow> length xs = n \<and> r = xs @ rest"
  by (auto simp: read_full_def)

section \<open>The variable-length integer\<close>

definition write_var_int :: "u64 \<Rightarrow> nat \<Rightarrow> bytes result" where
  "write_var_int val scratch_len =
     (if scratch_len < 9 then Inl (Plain ''scratch buffer too small'')
      else if val < 0xfd then Inr (be_bytes 1 (unat val))
      else if val \<le> 0xffff then Inr (0xfd # be_bytes 2 (unat val))
      else if val \<le> 0xffffffff then Inr (0xfe # be_bytes 4 (unat val))
      else Inr (0xff # be_bytes 8 (unat val)))"

definition read_var_int :: "bytes \<Rightarrow> nat \<Rightarrow> (u64 \<times> bytes) result" where
  "read_var_int r scratch_len =
     (if scratch_len < 8 then Inl (Plain ''scratch buffer too small'')
      else and_then (read_full 1 r) (\<lambda>(d, r1).
        (let disc = be_nat d in
         if disc < 0xfd then Inr (of_nat disc, r1)
         else if disc = 0xfd
         then and_then (read_full 2 r1) (\<lambda>(bs, r2). Inr (of_nat (be_nat bs), r2))
         else if disc = 0xfe
         then and_then (read_full 4 r1) (\<lambda>(bs, r2). Inr (of_nat (be_nat bs), r2))
         else and_then (read_full 8 r1) (\<lambda>(bs, r2). Inr (of_nat (be_nat bs), r2)))))"

text \<open>The two private copies in \<open>decode_addr.go\<close>, named \<open>BigSize\<close> there.\<close>

definition write_big_size :: "u64 \<Rightarrow> nat \<Rightarrow> bytes result" where
  "write_big_size val scratch_len =
     (if scratch_len < 9 then Inl (Plain ''scratch buffer too small'')
      else if val < 0xfd then Inr (be_bytes 1 (unat val))
      else if val \<le> 0xffff then Inr (0xfd # be_bytes 2 (unat val))
      else if val \<le> 0xffffffff then Inr (0xfe # be_bytes 4 (unat val))
      else Inr (0xff # be_bytes 8 (unat val)))"

definition read_big_size :: "bytes \<Rightarrow> nat \<Rightarrow> (u64 \<times> bytes) result" where
  "read_big_size r scratch_len =
     (if scratch_len < 8 then Inl (Plain ''scratch buffer too small'')
      else and_then (read_full 1 r) (\<lambda>(d, r1).
        (let disc = be_nat d in
         if disc < 0xfd then Inr (of_nat disc, r1)
         else if disc = 0xfd
         then and_then (read_full 2 r1) (\<lambda>(bs, r2). Inr (of_nat (be_nat bs), r2))
         else if disc = 0xfe
         then and_then (read_full 4 r1) (\<lambda>(bs, r2). Inr (of_nat (be_nat bs), r2))
         else and_then (read_full 8 r1) (\<lambda>(bs, r2). Inr (of_nat (be_nat bs), r2)))))"

text \<open>The bytes the encoder writes when its scratch buffer is large enough.\<close>

definition var_int_bytes :: "u64 \<Rightarrow> bytes" where
  "var_int_bytes val =
     (if val < 0xfd then be_bytes 1 (unat val)
      else if val \<le> 0xffff then 0xfd # be_bytes 2 (unat val)
      else if val \<le> 0xffffffff then 0xfe # be_bytes 4 (unat val)
      else 0xff # be_bytes 8 (unat val))"

lemma write_var_int_9 [codec_simps]: "9 \<le> n \<Longrightarrow> write_var_int val n = Inr (var_int_bytes val)"
  by (simp add: write_var_int_def var_int_bytes_def)

lemma big_size_eq [codec_simps]:
  "write_big_size = write_var_int" "read_big_size = read_var_int"
  by (intro ext, simp add: write_big_size_def write_var_int_def)
    (intro ext, simp add: read_big_size_def read_var_int_def)

lemma be_nat_single [simp]: "be_nat [b] = unat b"
  using be_nat_snoc [of "[]" b] by simp

lemma read_full_1: "read_full (Suc 0) (b # rest) = Inr ([b], rest)"
  by (simp add: read_full_def)

lemma read_var_int_tag:
  assumes "8 \<le> n"
  shows "length bs = 2 \<Longrightarrow> read_var_int (0xfd # bs @ rest) n = Inr (of_nat (be_nat bs), rest)"
    and "length bs = 4 \<Longrightarrow> read_var_int (0xfe # bs @ rest) n = Inr (of_nat (be_nat bs), rest)"
    and "length bs = 8 \<Longrightarrow> read_var_int (0xff # bs @ rest) n = Inr (of_nat (be_nat bs), rest)"
  using assms
  by (simp_all add: read_var_int_def read_full_1 Let_def read_full_append)

lemma read_var_int_small:
  assumes "8 \<le> n" and "unat b < 0xfd"
  shows "read_var_int (b # rest) n = Inr (of_nat (unat b), rest)"
  using assms by (simp add: read_var_int_def read_full_1)

lemma var_int_roundtrip [codec_simps]:
  assumes "8 \<le> n"
  shows "read_var_int (var_int_bytes val @ rest) n = Inr (val, rest)"
proof -
  consider "val < 0xfd" | "\<not> val < 0xfd" "val \<le> 0xffff" | "\<not> val < 0xfd" "\<not> val \<le> 0xffff" "val \<le> 0xffffffff"
    | "\<not> val < 0xfd" "\<not> val \<le> 0xffff" "\<not> val \<le> 0xffffffff" by blast
  then show ?thesis
  proof cases
    case 1
    then have lt: "unat val < 0xfd" by (simp add: word_less_nat_alt)
    have "be_bytes 1 (unat val) = [of_nat (unat val)]" by simp
    moreover have "unat (of_nat (unat val) :: byte) = unat val"
      by (subst unat_byte_of_nat) (use lt in simp)
    ultimately show ?thesis
      using 1 lt assms by (simp add: var_int_bytes_def read_var_int_small)
  next
    case 2
    then have "unat val < 256 ^ 2" by (simp add: word_le_nat_alt)
    with 2 assms show ?thesis
      by (simp add: var_int_bytes_def read_var_int_tag be_nat_be_bytes)
  next
    case 3
    then have "unat val < 256 ^ 4" by (simp add: word_le_nat_alt)
    with 3 assms show ?thesis
      by (simp add: var_int_bytes_def read_var_int_tag be_nat_be_bytes)
  next
    case 4
    have "unat val < 256 ^ 8" using unsigned_less [of val] by simp
    with 4 assms show ?thesis
      by (simp add: var_int_bytes_def read_var_int_tag be_nat_be_bytes)
  qed
qed

lemma read_full_suffix:
  "and_then (read_full n r) (\<lambda>(bs, r2). Inr (f bs, r2)) = Inr (v, rest) \<Longrightarrow> \<exists>bs. r = bs @ rest"
  by (auto simp: result_simps)

lemma read_var_int_used:
  assumes "read_var_int r n = Inr (v, rest)"
  shows "\<exists>used. r = used @ rest \<and> used \<noteq> []"
proof -
  from assms obtain d r1 where d: "r = d # r1"
    by (cases r) (auto simp: read_var_int_def read_full_def split: if_splits)
  have "\<exists>bs. r1 = bs @ rest"
    using assms unfolding d read_var_int_def
    by (simp add: read_full_1 Let_def split: if_splits) (erule read_full_suffix)+
  then show ?thesis using d by auto
qed

lemma var_int_bytes_bounds: "0 < length (var_int_bytes v)" "length (var_int_bytes v) \<le> 9"
  by (simp_all add: var_int_bytes_def)

section \<open>The contract of a decoder in front of its input\<close>

text \<open>\<open>read_n dec n\<close> is the loop \<open>for range n\<close> that reads one item per round.\<close>

fun read_n :: "(bytes \<Rightarrow> ('a \<times> bytes) result) \<Rightarrow> nat \<Rightarrow> bytes \<Rightarrow> ('a list \<times> bytes) result" where
  "read_n dec 0 r = Inr ([], r)"
| "read_n dec (Suc n) r =
     and_then (dec r) (\<lambda>(x, r1). and_then (read_n dec n r1) (\<lambda>(xs, r2). Inr (x # xs, r2)))"

locale prefix_codec =
  fixes enc :: "'a \<Rightarrow> bytes" and dec :: "bytes \<Rightarrow> ('a \<times> bytes) result" and ok :: "'a \<Rightarrow> bool"
  assumes dec_enc: "ok x \<Longrightarrow> dec (enc x @ rest) = Inr (x, rest)"
begin

lemma read_n_concat:
  "\<forall>x \<in> set xs. ok x \<Longrightarrow> read_n dec (length xs) (concat (map enc xs) @ rest) = Inr (xs, rest)"
  by (induction xs) (simp_all add: dec_enc)

lemma enc_prefix_free:
  assumes "ok x" and "ok y" and "enc x @ r = enc y @ s"
  shows "x = y \<and> r = s"
proof -
  have "Inr (x, r) = dec (enc x @ r)" using assms(1) by (rule dec_enc [symmetric])
  also have "\<dots> = dec (enc y @ s)" by (simp only: assms(3))
  also have "\<dots> = Inr (y, s)" using assms(2) by (rule dec_enc)
  finally show ?thesis by simp
qed

end

text \<open>A decoder that always reads at least one byte: the number of items is bounded by the input.\<close>

locale consuming_codec = prefix_codec +
  assumes dec_consumes: "dec r = Inr (x, r') \<Longrightarrow> \<exists>used. r = used @ r' \<and> used \<noteq> []"
begin

lemma read_n_bound:
  "read_n dec n r = Inr (xs, r') \<Longrightarrow> length xs = n \<and> n + length r' \<le> length r"
proof (induction n arbitrary: r xs)
  case 0
  then show ?case by simp
next
  case (Suc n)
  from Suc.prems obtain x r1 ys where
    x: "dec r = Inr (x, r1)" and ys: "read_n dec n r1 = Inr (ys, r')" and xs: "xs = x # ys"
    by (auto simp: result_simps split: prod.splits)
  from dec_consumes [OF x] have "Suc (length r1) \<le> length r"
    by (auto simp: Suc_le_eq)
  with Suc.IH [OF ys] xs show ?case by simp
qed

end

interpretation var_int: consuming_codec var_int_bytes "\<lambda>r. read_var_int r 8" "\<lambda>_. True"
proof
  show "read_var_int (var_int_bytes x @ rest) 8 = Inr (x, rest)" for x rest
    by (simp add: var_int_roundtrip)
next
  fix r x r'
  assume "read_var_int r 8 = Inr (x, r')"
  then show "\<exists>used. r = used @ r' \<and> used \<noteq> []"
    by (rule read_var_int_used)
qed

text \<open>
  A decoder that accepts exactly what one encoding relation produces: the items it reads in a
  row are the concatenation of their encodings, and nothing else is accepted.
\<close>

locale exact_codec =
  fixes wire :: "'a \<Rightarrow> bytes \<Rightarrow> bool" and dec :: "bytes \<Rightarrow> ('a \<times> bytes) result"
  assumes dec_iff: "dec r = Inr (x, rest) \<longleftrightarrow> (\<exists>e. wire x e \<and> r = e @ rest)"
begin

lemma read_n_iff:
  "read_n dec n r = Inr (xs, rest) \<longleftrightarrow>
     length xs = n \<and> (\<exists>es. list_all2 wire xs es \<and> r = concat es @ rest)"
proof (induction n arbitrary: r xs)
  case 0
  then show ?case by auto
next
  case (Suc n)
  have "read_n dec (Suc n) r = Inr (xs, rest) \<longleftrightarrow>
      (\<exists>x r1 ys. dec r = Inr (x, r1) \<and> read_n dec n r1 = Inr (ys, rest) \<and> xs = x # ys)"
    by (fastforce simp: result_simps)
  also have "\<dots> \<longleftrightarrow> (\<exists>x ys e es. wire x e \<and> length ys = n \<and> list_all2 wire ys es \<and>
      r = e @ concat es @ rest \<and> xs = x # ys)"
    by (auto simp: dec_iff Suc.IH)
  also have "\<dots> \<longleftrightarrow> length xs = Suc n \<and> (\<exists>es. list_all2 wire xs es \<and> r = concat es @ rest)"
    by (cases xs) (auto simp: list_all2_Cons1, (metis append.assoc concat.simps(2))+)
  finally show ?case .
qed

lemma wire_prefix_free: "wire x e \<Longrightarrow> wire y f \<Longrightarrow> e @ r = f @ s \<Longrightarrow> x = y \<and> r = s"
  using dec_iff [of "e @ r" x r] dec_iff [of "e @ r" y s] by auto

end

section \<open>Alt leaves\<close>

definition max_alt_leaves_size :: nat where
  "max_alt_leaves_size = 65535"

definition encode_alt_leaf :: "'k lib \<Rightarrow> u16 \<Rightarrow> bytes \<Rightarrow> bytes result" where
  "encode_alt_leaf L script_version script_key =
     (case btcec_parse_pub_key L script_key of
        Inl e \<Rightarrow> Inl (Wrapf ''invalid script key: '' e [])
      | Inr _ \<Rightarrow>
          and_then (write_var_int 14 9) (\<lambda>ver_type.
          and_then (write_var_int 2 9) (\<lambda>ver_len.
          and_then (write_var_int 16 9) (\<lambda>key_type.
          and_then (write_var_int 33 9) (\<lambda>key_len.
            Inr (ver_type @ ver_len @ be_bytes 2 (unat script_version) @
                 key_type @ key_len @ script_key))))))"

definition encode_alt_leaves :: "bytes list \<Rightarrow> bytes result" where
  "encode_alt_leaves leaves =
     and_then (write_var_int (of_nat (length leaves)) 9) (\<lambda>count.
       fold_res (\<lambda>buf leaf.
         and_then (write_var_int (of_nat (length leaf)) 9) (\<lambda>len. Inr (buf @ len @ leaf)))
         count leaves)"

definition decode_alt_leaf_entry :: "bytes \<Rightarrow> (bytes \<times> bytes) result" where
  "decode_alt_leaf_entry r =
     and_then (wrap_with (\<lambda>e. Wrapf ''read alt leaf length: '' e []) (read_var_int r 8)) (\<lambda>(leaf_len, r1).
       if length r1 < unat leaf_len
       then Inl (Plain ''alt leaf length exceeds remaining bytes'')
       else wrap_with (\<lambda>e. Wrapf ''read alt leaf bytes: '' e []) (read_full (unat leaf_len) r1))"

definition decode_alt_leaves :: "bytes \<Rightarrow> bytes list result" where
  "decode_alt_leaves encoded =
     (if encoded = [] then Inr []
      else if length encoded > max_alt_leaves_size
      then Inl (Plain ''alt leaves payload too large'')
      else and_then (wrap_with (\<lambda>e. Wrapf ''read alt leaves count: '' e []) (read_var_int encoded 8))
        (\<lambda>(num_leaves, r).
          if num_leaves = 0
          then (if r \<noteq> [] then Inl (Plain ''alt leaves has trailing bytes'') else Inr [])
          else if length r < unat num_leaves
          then Inl (Plain ''alt leaves count exceeds remaining bytes'')
          else and_then (read_n decode_alt_leaf_entry (unat num_leaves) r) (\<lambda>(leaves, r').
            if r' \<noteq> [] then Inl (Plain ''alt leaves has trailing bytes'') else Inr leaves)))"

text \<open>What one container entry looks like on the wire.\<close>

definition alt_leaf_entry :: "bytes \<Rightarrow> bytes" where
  "alt_leaf_entry leaf = var_int_bytes (of_nat (length leaf)) @ leaf"

interpretation alt_leaf: consuming_codec alt_leaf_entry decode_alt_leaf_entry "\<lambda>leaf. length leaf < 2 ^ 64"
proof
  fix leaf rest :: bytes
  assume "length leaf < 2 ^ 64"
  then show "decode_alt_leaf_entry (alt_leaf_entry leaf @ rest) = Inr (leaf, rest)"
    using unat_of_nat_u64 [of "length leaf"]
    by (simp add: decode_alt_leaf_entry_def alt_leaf_entry_def var_int_roundtrip read_full_append)
next
  fix r x r'
  assume "decode_alt_leaf_entry r = Inr (x, r')"
  then show "\<exists>used. r = used @ r' \<and> used \<noteq> []"
    by (auto simp: decode_alt_leaf_entry_def result_simps split: if_splits
        dest!: var_int.dec_consumes)
qed

lemma encode_alt_leaves_eq [codec_simps]:
  "encode_alt_leaves leaves =
     Inr (var_int_bytes (of_nat (length leaves)) @ concat (map alt_leaf_entry leaves))"
proof -
  have "fold_res (\<lambda>buf leaf. and_then (write_var_int (of_nat (length leaf)) 9) (\<lambda>len. Inr (buf @ len @ leaf)))
      acc xs = Inr (acc @ concat (map alt_leaf_entry xs))" for acc :: bytes and xs
    by (induction xs arbitrary: acc) (simp_all add: write_var_int_9 alt_leaf_entry_def)
  then show ?thesis by (simp add: encode_alt_leaves_def write_var_int_9)
qed

lemma encode_alt_leaf_eq [codec_simps]:
  "encode_alt_leaf L v key =
     (case btcec_parse_pub_key L key of
        Inl e \<Rightarrow> Inl (Wrapf ''invalid script key: '' e [])
      | Inr _ \<Rightarrow> Inr ([14, 2] @ be_bytes 2 (unat v) @ [16, 33] @ key))"
  by (simp add: encode_alt_leaf_def write_var_int_9 var_int_bytes_def split: sum.split)

lemma length_alt_leaf_entries: "length xs \<le> length (concat (map alt_leaf_entry xs))"
proof (induction xs)
  case Nil
  then show ?case by simp
next
  case (Cons x xs)
  have "1 \<le> length (alt_leaf_entry x)"
    using var_int_bytes_bounds(1) by (simp add: alt_leaf_entry_def Suc_le_eq)
  with Cons show ?case by (simp del: One_nat_def)
qed

lemma alt_leaf_fits:
  "leaf \<in> set leaves \<Longrightarrow> length leaf \<le> length (concat (map alt_leaf_entry leaves))"
  by (induction leaves) (auto simp: alt_leaf_entry_def)

lemma decode_alt_leaf_entry_used:
  "decode_alt_leaf_entry r = Inr (x, r') \<Longrightarrow> Suc (length x + length r') \<le> length r"
  by (auto simp: decode_alt_leaf_entry_def result_simps split: if_splits
      dest!: read_var_int_used) (auto simp: Suc_le_eq)

lemma read_alt_leaves_used:
  "read_n decode_alt_leaf_entry n r = Inr (xs, r') \<Longrightarrow>
     length xs + sum_list (map length xs) + length r' \<le> length r"
proof (induction n arbitrary: r xs)
  case 0
  then show ?case by simp
next
  case (Suc n)
  from Suc.prems obtain x r1 ys where
    x: "decode_alt_leaf_entry r = Inr (x, r1)" and
    ys: "read_n decode_alt_leaf_entry n r1 = Inr (ys, r')" and xs: "xs = x # ys"
    by (auto simp: result_simps split: prod.splits)
  from decode_alt_leaf_entry_used [OF x] Suc.IH [OF ys] xs show ?case by simp
qed

lemma decode_encode_alt_leaves:
  assumes "encode_alt_leaves leaves = Inr encoded" and "length encoded \<le> max_alt_leaves_size"
  shows "decode_alt_leaves encoded = Inr leaves"
proof -
  let ?n = "of_nat (length leaves) :: u64" and ?body = "concat (map alt_leaf_entry leaves)"
  from assms(1) have enc: "encoded = var_int_bytes ?n @ ?body"
    by (simp add: encode_alt_leaves_eq)
  with assms(2) have body: "length ?body \<le> 65535"
    by (simp add: max_alt_leaves_size_def)
  have small: "length leaf < 2 ^ 64" if "leaf \<in> set leaves" for leaf
    using alt_leaf_fits [OF that] body by simp
  have count: "length leaves \<le> length ?body" by (rule length_alt_leaf_entries)
  with body have n: "unat ?n = length leaves" by (intro unat_of_nat_u64) simp
  then have zero: "?n = 0 \<longleftrightarrow> leaves = []" by (auto simp: unat_eq_zero)
  have ne: "encoded \<noteq> []" using var_int_bytes_bounds(1) [of ?n] enc by auto
  have "read_n decode_alt_leaf_entry (length leaves) ?body = Inr (leaves, [])"
    using alt_leaf.read_n_concat [of leaves "[]"] small by simp
  moreover have "read_var_int encoded 8 = Inr (?n, ?body)"
    unfolding enc by (rule var_int_roundtrip) simp
  ultimately show ?thesis
    using assms(2) ne n count zero by (simp add: decode_alt_leaves_def)
qed

text \<open>
  Round trip of the alt-leaf container: whatever list of leaves \<open>EncodeAltLeaves\<close> writes,
  \<open>DecodeAltLeaves\<close> reads back the same list, provided the encoding respects the protocol's
  size cap (beyond it the decoder refuses by design).
\<close>

theorem alt_leaves_roundtrip:
  assumes "encode_alt_leaves leaves = Inr encoded" and "length encoded \<le> max_alt_leaves_size"
  shows "decode_alt_leaves encoded = Inr leaves"
  using assms by (rule decode_encode_alt_leaves)

theorem alt_leaves_roundtrip_witness:
  "decode_alt_leaves [2, 3, 7, 8, 9, 0] = Inr [[7, 8, 9], []]"
proof -
  have "encode_alt_leaves [[7, 8, 9], []] = Inr [2, 3, 7, 8, 9, 0]"
    by (simp add: encode_alt_leaves_eq alt_leaf_entry_def var_int_bytes_def)
  then show ?thesis
    by (rule alt_leaves_roundtrip) (simp add: max_alt_leaves_size_def)
qed

text \<open>
  The decoder of the alt-leaf container accepts nothing outside its bounds: the leaf count
  plus all leaf bytes never exceed the payload, which never exceeds 65535 bytes, so the
  allocation made from the announced count is bounded; a payload of one byte count or more
  is accepted only when it is consumed to the last byte.
\<close>

theorem alt_leaves_decode_bounded:
  assumes "decode_alt_leaves encoded = Inr leaves"
  shows "length leaves + sum_list (map length leaves) \<le> length encoded \<and>
         length encoded \<le> max_alt_leaves_size"
proof (cases "encoded = []")
  case True
  with assms show ?thesis by (simp add: decode_alt_leaves_def)
next
  case False
  with assms obtain n r where size: "length encoded \<le> max_alt_leaves_size"
    and head: "read_var_int encoded 8 = Inr (n, r)"
    and rest: "n = 0 \<and> leaves = [] \<or> read_n decode_alt_leaf_entry (unat n) r = Inr (leaves, [])"
    by (auto simp: decode_alt_leaves_def result_simps split: if_splits)
  from rest have "length leaves + sum_list (map length leaves) \<le> length r"
    by (auto dest: read_alt_leaves_used)
  moreover from read_var_int_used [OF head] have "length r \<le> length encoded" by auto
  ultimately show ?thesis using size by simp
qed

theorem alt_leaves_decode_bounded_witness:
  "length [[7, 8, 9], [] :: bytes] + sum_list (map length [[7, 8, 9], [] :: bytes])
     \<le> length ([2, 3, 7, 8, 9, 0] :: bytes)"
proof -
  have "decode_alt_leaves [2, 3, 7, 8, 9, 0] = Inr [[7, 8, 9], []]"
    by (rule decode_encode_alt_leaves)
      (simp_all add: encode_alt_leaves_eq alt_leaf_entry_def var_int_bytes_def max_alt_leaves_size_def)
  from alt_leaves_decode_bounded [OF this] show ?thesis by simp
qed

section \<open>STXO leaves\<close>

text \<open>\<open>codec.Outpoint\<close> and \<open>codec.PrevID\<close>; byte arrays are lists of their bytes.\<close>

record outpoint =
  op_txid :: bytes
  op_index :: u32

record prev_id =
  pid_outpoint :: outpoint
  pid_issuance_id :: bytes
  pid_script_key :: bytes

definition nums_key_bytes :: bytes where
  "nums_key_bytes =
     [0x02, 0x7c, 0x79, 0xb9, 0xb2, 0x6e, 0x46, 0x38, 0x95, 0xee, 0xf5, 0x67, 0x9d, 0x85, 0x58, 0x94,
      0x2c, 0x86, 0xc4, 0xad, 0x22, 0x33, 0xad, 0xef, 0x01, 0xbc, 0x3e, 0x6d, 0x54, 0x0b, 0x36, 0x53,
      0xfe]"

text \<open>
  The parse errors that the source drops leave a nil key; using it panics, which is an error
  here.
\<close>

definition derive_burn_key :: "'k lib \<Rightarrow> prev_id \<Rightarrow> bytes result" where
  "derive_burn_key L p =
     (case btcec_parse_pub_key L nums_key_bytes of
        Inl _ \<Rightarrow> Inl (Plain ''panic: nil NUMS key'')
      | Inr nums \<Rightarrow>
          (let buf = wire_write_outpoint L (op_txid (pid_outpoint p)) (op_index (pid_outpoint p))
                     @ pid_issuance_id p @ drop 1 (pid_script_key p);
               burn_key = compute_taproot_output_key L nums buf
           in case schnorr_parse_pub_key L (schnorr_serialize_pub_key L burn_key) of
                Inl _ \<Rightarrow> Inl (Plain ''panic: nil burn key'')
              | Inr k \<Rightarrow> Inr (serialize_compressed L k)))"

definition derive_stxo_alt_leaves :: "'k lib \<Rightarrow> prev_id list \<Rightarrow> bytes list result" where
  "derive_stxo_alt_leaves L prev_ids =
     (if prev_ids = [] then Inr []
      else and_then
        (fold_idx (\<lambda>idx (leaves, seen) p.
           and_then (wrap_with (\<lambda>e. Wrapf ''derive burn key for prevID: '' e []) (derive_burn_key L p))
             (\<lambda>burn_key.
               if burn_key \<in> set seen then Inl (Plain ''duplicate derived burn key for prevID'')
               else and_then (wrap_with (\<lambda>e. Wrapf ''encode STXO leaf: '' e []) (encode_alt_leaf L 0 burn_key))
                 (\<lambda>leaf. Inr (leaves @ [leaf], burn_key # seen))))
          0 ([], []) prev_ids)
        (\<lambda>(leaves, seen). Inr leaves))"

definition stxo_leaf :: "bytes \<Rightarrow> bytes" where
  "stxo_leaf burn_key = [14, 2, 0, 0, 16, 33] @ burn_key"

lemma encode_stxo_leaf: "encode_alt_leaf L 0 k = Inr leaf \<Longrightarrow> leaf = stxo_leaf k"
  by (auto simp: encode_alt_leaf_eq stxo_leaf_def numeral_2_eq_2 split: sum.splits)

lemma derive_stxo_fold:
  assumes "derive_stxo_alt_leaves L prev_ids = Inr leaves"
  shows "\<exists>keys. map (derive_burn_key L) prev_ids = map Inr keys \<and> distinct keys \<and>
                leaves = map stxo_leaf keys"
proof (cases "prev_ids = []")
  case True
  with assms show ?thesis by (simp add: derive_stxo_alt_leaves_def)
next
  case False
  define inv where "inv ps st \<longleftrightarrow>
     (case st of (ls, seen) \<Rightarrow>
        map (derive_burn_key L) ps = map Inr (rev seen) \<and> distinct seen \<and> ls = map stxo_leaf (rev seen))"
    for ps :: "prev_id list" and st :: "bytes list \<times> bytes list"
  from False assms obtain seen where
    fold: "fold_idx (\<lambda>idx (leaves, seen) p.
           and_then (wrap_with (\<lambda>e. Wrapf ''derive burn key for prevID: '' e []) (derive_burn_key L p))
             (\<lambda>burn_key.
               if burn_key \<in> set seen then Inl (Plain ''duplicate derived burn key for prevID'')
               else and_then (wrap_with (\<lambda>e. Wrapf ''encode STXO leaf: '' e []) (encode_alt_leaf L 0 burn_key))
                 (\<lambda>leaf. Inr (leaves @ [leaf], burn_key # seen))))
          0 ([], []) prev_ids = Inr (leaves, seen)"
    by (auto simp: derive_stxo_alt_leaves_def result_simps)
  have "inv prev_ids (leaves, seen)"
    by (rule fold_idx_prefix [OF fold, where P = inv])
      (auto simp: inv_def result_simps encode_stxo_leaf split: if_splits)
  then show ?thesis unfolding inv_def by (intro exI [of _ "rev seen"]) simp
qed

text \<open>
  STXO leaves are one-to-one with the spent inputs: when \<open>DeriveSTXOAltLeaves\<close> succeeds,
  leaf \<open>i\<close> is the version-0 leaf of the burn key of prevID \<open>i\<close>, in order, the burn keys are
  pairwise distinct, and so are the leaves; in particular a repeated prevID is always refused.
\<close>

theorem stxo_leaves_distinct:
  assumes "derive_stxo_alt_leaves L prev_ids = Inr leaves"
  shows "distinct prev_ids \<and> distinct leaves \<and> length leaves = length prev_ids \<and>
         (\<forall>i < length prev_ids. \<exists>key. derive_burn_key L (prev_ids ! i) = Inr key \<and>
            leaves ! i = [14, 2, 0, 0, 16, 33] @ key)"
proof -
  from derive_stxo_fold [OF assms] obtain keys where
    keys: "map (derive_burn_key L) prev_ids = map Inr keys" "distinct keys" "leaves = map stxo_leaf keys"
    by blast
  from keys(1) have len: "length prev_ids = length keys"
    by (metis length_map)
  have nth: "derive_burn_key L (prev_ids ! i) = Inr (keys ! i)" if "i < length keys" for i
    using keys(1) that len by (metis nth_map)
  have "distinct (map (derive_burn_key L) prev_ids)"
    unfolding keys(1) using keys(2) by (simp add: distinct_map)
  then have "distinct prev_ids" by (simp add: distinct_map)
  moreover have "distinct leaves"
    using keys(2,3) by (simp add: distinct_map inj_on_def stxo_leaf_def)
  ultimately show ?thesis
    using keys(3) len nth by (auto simp: stxo_leaf_def)
qed

lemma derive_burn_key_sample:
  "derive_burn_key sample_lib p =
     Inr (2 # sample_pad (op_txid (pid_outpoint p) @ le_bytes 4 (unat (op_index (pid_outpoint p)))
            @ pid_issuance_id p @ drop 1 (pid_script_key p)))"
  by (simp add: derive_burn_key_def nums_key_bytes_def)

theorem stxo_leaves_distinct_witness:
  "distinct [\<lparr>pid_outpoint = \<lparr>op_txid = [1], op_index = 0\<rparr>, pid_issuance_id = [5], pid_script_key = [2, 6]\<rparr>,
             \<lparr>pid_outpoint = \<lparr>op_txid = [1], op_index = 0\<rparr>, pid_issuance_id = [5], pid_script_key = [2, 7]\<rparr>]"
proof -
  let ?p = "\<lambda>k. \<lparr>pid_outpoint = \<lparr>op_txid = [1], op_index = 0\<rparr>, pid_issuance_id = [5], pid_script_key = [2, k]\<rparr>"
  have "is_ok (derive_stxo_alt_leaves sample_lib [?p 6, ?p 7])"
    by (simp add: derive_stxo_alt_leaves_def derive_burn_key_sample encode_alt_leaf_eq)
      (simp add: sample_pad_def)
  then obtain leaves where "derive_stxo_alt_leaves sample_lib [?p 6, ?p 7] = Inr leaves"
    by (auto simp: is_ok_iff)
  from stxo_leaves_distinct [OF this] show ?thesis by simp
qed

end
