(* ===== verification/Tap_AssetRef.thy ===== *)
theory Tap_AssetRef
  imports Tap_Codec
begin

text \<open>
  Keys, hashes and the \<open>AssetRef\<close> handle (\<open>keys.go\<close>, \<open>hash.go\<close>, \<open>asset.go\<close>, \<open>asset_ref.go\<close>).

  Fixed-size Go arrays (\<open>PubKey\<close> of 33 bytes, \<open>AssetID\<close>, \<open>Hash\<close> and x-only keys of 32) are
  lists of their bytes; \<open>pub_key\<close> and \<open>id32\<close> state the length where a property needs it. An
  \<open>AssetRef\<close> is a string, as in the code.
\<close>

section \<open>Hexadecimal text\<close>

text \<open>\<open>hex.DecodeString\<close>: two digits of either case per byte.\<close>

definition hex_digit :: "char \<Rightarrow> nat option" where
  "hex_digit c =
     (let n = (of_char c :: nat) in
      if 48 \<le> n \<and> n \<le> 57 then Some (n - 48)
      else if 97 \<le> n \<and> n \<le> 102 then Some (n - 87)
      else if 65 \<le> n \<and> n \<le> 70 then Some (n - 55)
      else None)"

fun hex_decode :: "string \<Rightarrow> bytes result" where
  "hex_decode [] = Inr []"
| "hex_decode [c] =
     (case hex_digit c of
        None \<Rightarrow> Inl (Plain ''encoding/hex: invalid byte'')
      | Some _ \<Rightarrow> Inl (Plain ''encoding/hex: odd length hex string''))"
| "hex_decode (c # d # s) =
     (case (hex_digit c, hex_digit d) of
        (Some h, Some l) \<Rightarrow> and_then (hex_decode s) (\<lambda>bs. Inr (of_nat (16 * h + l) # bs))
      | _ \<Rightarrow> Inl (Plain ''encoding/hex: invalid byte''))"

section \<open>Keys and hashes\<close>

definition parse_pub_key :: "'k lib \<Rightarrow> bytes \<Rightarrow> bytes result" where
  "parse_pub_key L b =
     (if length b \<noteq> 33 then Inl (Plain ''public key must be 33 bytes'')
      else case btcec_parse_pub_key L b of
        Inl e \<Rightarrow> Inl (Wrapf ''invalid public key: '' e [])
      | Inr _ \<Rightarrow> Inr b)"

definition parse_taproot_pub_key :: "'k lib \<Rightarrow> bytes \<Rightarrow> bytes result" where
  "parse_taproot_pub_key L b =
     (if length b = 32
      then (case schnorr_parse_pub_key L b of
              Inl e \<Rightarrow> Inl (Wrapf ''invalid x-only public key: '' e [])
            | Inr pk \<Rightarrow> Inr (serialize_compressed L pk))
      else if length b = 33
      then (case btcec_parse_pub_key L b of
              Inl e \<Rightarrow> Inl (Wrapf ''invalid public key: '' e [])
            | Inr pk0 \<Rightarrow>
                (case schnorr_parse_pub_key L (schnorr_serialize_pub_key L pk0) of
                   Inl e \<Rightarrow> Inl (Wrapf ''invalid public key: '' e [])
                 | Inr pk \<Rightarrow> Inr (serialize_compressed L pk)))
      else Inl (Plain ''taproot public key must be 32 or 33 bytes''))"

definition parse_script_key :: "'k lib \<Rightarrow> bytes \<Rightarrow> bytes result" where
  "parse_script_key L b = parse_taproot_pub_key L b"

definition x_only :: "bytes \<Rightarrow> bytes" where
  "x_only k = drop 1 k"

definition parse_pub_key_hex :: "'k lib \<Rightarrow> string \<Rightarrow> bytes result" where
  "parse_pub_key_hex L s =
     (case hex_decode s of
        Inl e \<Rightarrow> Inl (Wrapf ''invalid hex: '' e [])
      | Inr b \<Rightarrow> parse_pub_key L b)"

definition parse_group_ref_key :: "'k lib \<Rightarrow> string \<Rightarrow> bytes result" where
  "parse_group_ref_key L s =
     (case hex_decode s of
        Inl e \<Rightarrow> Inl (Wrapf ''invalid group key hex: '' e [])
      | Inr b \<Rightarrow>
          (if length b = 33 then parse_pub_key L b
           else if length b = 32 then parse_taproot_pub_key L b
           else Inl (Plain ''group key hex: expected 32 or 33 bytes'')))"

definition parse_x_only_pub_key :: "'k lib \<Rightarrow> bytes \<Rightarrow> bytes result" where
  "parse_x_only_pub_key L b =
     (if length b \<noteq> 32 then Inl (Plain ''x-only public key must be 32 bytes'')
      else case schnorr_parse_pub_key L b of
        Inl e \<Rightarrow> Inl (Wrapf ''invalid x-only public key: '' e [])
      | Inr _ \<Rightarrow> Inr b)"

definition parse_hash :: "bytes \<Rightarrow> bytes result" where
  "parse_hash b =
     (if b = [] then Inr (replicate 32 0)
      else if length b \<noteq> 32 then Inl (Plain ''hash must be 32 bytes'')
      else Inr b)"

definition parse_hash_hex :: "string \<Rightarrow> bytes result" where
  "parse_hash_hex s =
     (if s = [] then Inr (replicate 32 0) else and_then (hex_decode s) parse_hash)"

definition zero32 :: bytes where
  "zero32 = replicate 32 0"

definition asset_id_is_zero :: "bytes \<Rightarrow> bool" where
  "asset_id_is_zero i \<longleftrightarrow> i = zero32"

definition parse_asset_id :: "bytes \<Rightarrow> bytes result" where
  "parse_asset_id b = (if length b \<noteq> 32 then Inl (Plain ''asset ID must be 32 bytes'') else Inr b)"

definition parse_asset_id_hex :: "string \<Rightarrow> bytes result" where
  "parse_asset_id_hex s = and_then (hex_decode s) parse_asset_id"

definition pub_key :: "'k lib \<Rightarrow> bytes \<Rightarrow> bool" where
  "pub_key L k \<longleftrightarrow> length k = 33 \<and> is_ok (btcec_parse_pub_key L k)"

definition id32 :: "bytes \<Rightarrow> bool" where
  "id32 i \<longleftrightarrow> length i = 32"

lemma parse_pub_key_ok [simp]: "is_ok (parse_pub_key L k) \<longleftrightarrow> pub_key L k"
  by (auto simp: parse_pub_key_def pub_key_def is_ok_iff split: sum.split)

lemma parse_pub_key_eq [result_simps]: "parse_pub_key L k = Inr k' \<longleftrightarrow> pub_key L k \<and> k' = k"
  by (auto simp: parse_pub_key_def pub_key_def is_ok_iff split: sum.split)

lemma parse_asset_id_eq [result_simps]: "parse_asset_id i = Inr i' \<longleftrightarrow> id32 i \<and> i' = i"
  by (auto simp: parse_asset_id_def id32_def)

section \<open>Asset references\<close>

definition asset_ref_hrp :: string where
  "asset_ref_hrp = ''tapr''"

definition asset_ref_format_version :: byte where
  "asset_ref_format_version = 0"

definition kind_asset_id :: byte where
  "kind_asset_id = 0"

definition kind_group_key :: byte where
  "kind_group_key = 1"

text \<open>The two failures of the encoder are panics in the source; they are errors here.\<close>

definition encode_asset_ref :: "'k lib \<Rightarrow> byte \<Rightarrow> bytes \<Rightarrow> string result" where
  "encode_asset_ref L kind payload =
     (let base256 = asset_ref_format_version # kind # payload in
      case convert_bits L base256 8 5 True of
        Inl e \<Rightarrow> Inl (Wrapf ''panic: invalid asset ref payload: '' e [])
      | Inr base32 \<Rightarrow>
          (case bech32_encode_m L asset_ref_hrp base32 of
             Inl e \<Rightarrow> Inl (Wrapf ''panic: failed to encode asset ref: '' e [])
           | Inr encoded \<Rightarrow> Inr encoded))"

definition decode_asset_ref_string :: "'k lib \<Rightarrow> string \<Rightarrow> (byte \<times> bytes \<times> string) result" where
  "decode_asset_ref_string L s =
     (if s = [] then Inl (Plain ''asset ref is empty'')
      else
        and_then (wrap_with (\<lambda>e. Wrapf ''invalid asset ref: '' e [])
                   (bech32_decode_generic L (to_lower s))) (\<lambda>(hrp, data, version).
        if version \<noteq> VersionM then Inl (Plain ''asset ref must use bech32m encoding'')
        else if hrp \<noteq> asset_ref_hrp then Inl (Plain ''asset ref must use hrp'')
        else
        and_then (wrap_with (\<lambda>e. Wrapf ''invalid asset ref payload: '' e [])
                   (convert_bits L data 5 8 False)) (\<lambda>base256.
        if length base256 < 2 then Inl (Plain ''asset ref payload is too short'')
        else if base256 ! 0 \<noteq> asset_ref_format_version
        then Inl (Plain ''unsupported asset ref version'')
        else
        (let kind = base256 ! 1; payload = drop 2 base256 in
        and_then
          (if kind = kind_asset_id
           then wrap_with (\<lambda>e. Wrapf ''invalid asset ref asset ID: '' e []) (parse_asset_id payload)
           else if kind = kind_group_key
           then wrap_with (\<lambda>e. Wrapf ''invalid asset ref group key: '' e []) (parse_pub_key L payload)
           else Inl (Plain ''unknown asset ref kind'')) (\<lambda>_.
        and_then (wrap_with (\<lambda>e. Wrapf ''invalid asset ref payload: '' e [])
                   (convert_bits L base256 8 5 True)) (\<lambda>canonical_base32.
        and_then (wrap_with (\<lambda>e. Wrapf ''failed to canonicalize asset ref: '' e [])
                   (bech32_encode_m L asset_ref_hrp canonical_base32)) (\<lambda>canonical.
        Inr (kind, payload, to_lower canonical))))))))"

definition asset_ref_from_group_key :: "'k lib \<Rightarrow> bytes \<Rightarrow> string result" where
  "asset_ref_from_group_key L group_key = encode_asset_ref L kind_group_key group_key"

definition asset_ref_from_asset_id :: "'k lib \<Rightarrow> bytes \<Rightarrow> string result" where
  "asset_ref_from_asset_id L asset_id = encode_asset_ref L kind_asset_id asset_id"

definition asset_ref_from_specifier :: "'k lib \<Rightarrow> bytes option \<Rightarrow> bytes option \<Rightarrow> string result" where
  "asset_ref_from_specifier L asset_id group_key =
     (case group_key of
        Some k \<Rightarrow> asset_ref_from_group_key L k
      | None \<Rightarrow>
          (case asset_id of
             Some i \<Rightarrow> asset_ref_from_asset_id L i
           | None \<Rightarrow> Inl (Plain ''asset ref requires either an asset ID or group key'')))"

definition asset_ref_from_asset :: "'k lib \<Rightarrow> bytes \<Rightarrow> bytes option \<Rightarrow> string result" where
  "asset_ref_from_asset L issuance_id group_key =
     (case group_key of
        Some k \<Rightarrow> asset_ref_from_group_key L k
      | None \<Rightarrow> asset_ref_from_asset_id L issuance_id)"

text \<open>\<open>AssetType\<close> is a \<open>uint8\<close>; \<open>AssetTypeFungible\<close> and \<open>AssetTypeNFT\<close> are second names.\<close>

type_synonym asset_type = byte

definition asset_type_normal :: asset_type where
  "asset_type_normal = 0"

definition asset_type_collectible :: asset_type where
  "asset_type_collectible = 1"

definition asset_ref_from_typed_asset :: "'k lib \<Rightarrow> bytes \<Rightarrow> bytes option \<Rightarrow> asset_type \<Rightarrow> string result" where
  "asset_ref_from_typed_asset L issuance_id group_key ty =
     (if ty = asset_type_collectible then asset_ref_from_asset_id L issuance_id
      else asset_ref_from_asset L issuance_id group_key)"

definition parse_asset_ref :: "'k lib \<Rightarrow> string \<Rightarrow> string result" where
  "parse_asset_ref L s =
     and_then (decode_asset_ref_string L s) (\<lambda>(kind, payload, canonical). Inr canonical)"

definition asset_ref_is_zero :: "string \<Rightarrow> bool" where
  "asset_ref_is_zero r \<longleftrightarrow> r = []"

definition asset_ref_validate :: "'k lib \<Rightarrow> string \<Rightarrow> unit result" where
  "asset_ref_validate L r = and_then (decode_asset_ref_string L r) (\<lambda>_. Inr ())"

definition is_group_ref :: "'k lib \<Rightarrow> string \<Rightarrow> bool" where
  "is_group_ref L r =
     (case decode_asset_ref_string L r of
        Inl _ \<Rightarrow> False | Inr (kind, _, _) \<Rightarrow> kind = kind_group_key)"

definition is_asset_id_ref :: "'k lib \<Rightarrow> string \<Rightarrow> bool" where
  "is_asset_id_ref L r =
     (case decode_asset_ref_string L r of
        Inl _ \<Rightarrow> False | Inr (kind, _, _) \<Rightarrow> kind = kind_asset_id)"

definition ref_group_key :: "'k lib \<Rightarrow> string \<Rightarrow> bytes option" where
  "ref_group_key L r =
     (case decode_asset_ref_string L r of
        Inl _ \<Rightarrow> None
      | Inr (kind, payload, _) \<Rightarrow>
          (if kind \<noteq> kind_group_key then None
           else case parse_pub_key L payload of Inl _ \<Rightarrow> None | Inr k \<Rightarrow> Some k))"

definition ref_asset_id :: "'k lib \<Rightarrow> string \<Rightarrow> bytes option" where
  "ref_asset_id L r =
     (case decode_asset_ref_string L r of
        Inl _ \<Rightarrow> None
      | Inr (kind, payload, _) \<Rightarrow>
          (if kind \<noteq> kind_asset_id then None
           else case parse_asset_id payload of Inl _ \<Rightarrow> None | Inr i \<Rightarrow> Some i))"

definition asset_ref_equivalent :: "'k lib \<Rightarrow> string \<Rightarrow> string \<Rightarrow> bool" where
  "asset_ref_equivalent L r other =
     (if r = other then True
      else if is_asset_id_ref L r \<and> is_asset_id_ref L other
      then (case (ref_asset_id L r, ref_asset_id L other) of
              (Some left, Some right) \<Rightarrow> left = right
            | _ \<Rightarrow> False)
      else if is_group_ref L r \<and> is_group_ref L other
      then (case (ref_group_key L r, ref_group_key L other) of
              (Some left, Some right) \<Rightarrow> x_only left = x_only right
            | _ \<Rightarrow> False)
      else False)"

section \<open>What a reference identifies\<close>

lemma kinds_differ [simp]: "kind_asset_id \<noteq> kind_group_key" "kind_group_key \<noteq> kind_asset_id"
  by (simp_all add: kind_asset_id_def kind_group_key_def)

lemma types_differ [simp]:
  "asset_type_normal \<noteq> asset_type_collectible" "asset_type_collectible \<noteq> asset_type_normal"
  by (simp_all add: asset_type_normal_def asset_type_collectible_def)

lemma decode_kind:
  assumes "decode_asset_ref_string L s = Inr (kind, payload, canonical)"
  shows "kind = kind_asset_id \<and> id32 payload \<or> kind = kind_group_key \<and> pub_key L payload"
proof -
  from assms have "\<exists>x. (if kind = kind_asset_id
           then wrap_with (\<lambda>e. Wrapf ''invalid asset ref asset ID: '' e []) (parse_asset_id payload)
           else if kind = kind_group_key
           then wrap_with (\<lambda>e. Wrapf ''invalid asset ref group key: '' e []) (parse_pub_key L payload)
           else Inl (Plain ''unknown asset ref kind'')) = Inr x"
    by (auto simp: decode_asset_ref_string_def result_simps Let_def split: if_splits)
  then show ?thesis by (auto simp: result_simps split: if_splits)
qed

text \<open>
  The identity behind a reference: the asset ID, the x-only group key, or, for a string that
  does not decode, the string itself.
\<close>

datatype ref_identity = Asset_identity bytes | Group_identity bytes | No_identity string

definition ref_identity_of :: "'k lib \<Rightarrow> string \<Rightarrow> ref_identity" where
  "ref_identity_of L r =
     (case decode_asset_ref_string L r of
        Inl _ \<Rightarrow> No_identity r
      | Inr (kind, payload, _) \<Rightarrow>
          (if kind = kind_asset_id then Asset_identity payload else Group_identity (x_only payload)))"

lemma ref_cases:
  obtains (malformed) e where "decode_asset_ref_string L r = Inl e"
  | (asset) i c where "decode_asset_ref_string L r = Inr (kind_asset_id, i, c)" "id32 i"
  | (group) k c where "decode_asset_ref_string L r = Inr (kind_group_key, k, c)" "pub_key L k"
proof (cases "decode_asset_ref_string L r")
  case (Inl e)
  then show thesis by (rule malformed)
next
  case (Inr t)
  obtain kind p c where t: "t = (kind, p, c)" by (cases t)
  from decode_kind [of L r kind p c] Inr t show thesis
    by (auto intro: asset group)
qed

lemma ref_facts_malformed:
  assumes "decode_asset_ref_string L r = Inl e"
  shows "\<not> is_group_ref L r" "\<not> is_asset_id_ref L r" "ref_group_key L r = None"
    "ref_asset_id L r = None" "ref_identity_of L r = No_identity r"
  using assms
  by (simp_all add: is_group_ref_def is_asset_id_ref_def ref_group_key_def ref_asset_id_def ref_identity_of_def)

lemma ref_facts_asset:
  assumes "decode_asset_ref_string L r = Inr (kind_asset_id, i, c)" and "id32 i"
  shows "\<not> is_group_ref L r" "is_asset_id_ref L r" "ref_group_key L r = None"
    "ref_asset_id L r = Some i" "ref_identity_of L r = Asset_identity i"
  using assms parse_asset_id_eq [of i i]
  by (simp_all add: is_group_ref_def is_asset_id_ref_def ref_group_key_def ref_asset_id_def ref_identity_of_def)

lemma ref_facts_group:
  assumes "decode_asset_ref_string L r = Inr (kind_group_key, k, c)" and "pub_key L k"
  shows "is_group_ref L r" "\<not> is_asset_id_ref L r" "ref_group_key L r = Some k"
    "ref_asset_id L r = None" "ref_identity_of L r = Group_identity (x_only k)"
  using assms parse_pub_key_eq [of L k k]
  by (simp_all add: is_group_ref_def is_asset_id_ref_def ref_group_key_def ref_asset_id_def ref_identity_of_def)

lemmas ref_facts = ref_facts_malformed ref_facts_asset ref_facts_group

lemma equivalent_iff_identity:
  "asset_ref_equivalent L r s \<longleftrightarrow> ref_identity_of L r = ref_identity_of L s"
  by (cases r rule: ref_cases [where L = L]; cases s rule: ref_cases [where L = L])
    (auto simp: asset_ref_equivalent_def ref_facts)

lemma equivalent_refl [simp]: "asset_ref_equivalent L r r"
  by (simp add: asset_ref_equivalent_def)

lemma equivalent_sym: "asset_ref_equivalent L r s \<Longrightarrow> asset_ref_equivalent L s r"
  by (simp add: equivalent_iff_identity)

lemma equivalent_trans:
  "asset_ref_equivalent L r s \<Longrightarrow> asset_ref_equivalent L s t \<Longrightarrow> asset_ref_equivalent L r t"
  by (simp add: equivalent_iff_identity)

text \<open>
  \<open>Equivalent\<close> decides sameness of identity: two references are equivalent exactly if they
  decode to the same asset ID, or to group keys with the same x coordinate (whatever the parity
  byte), or are the same undecodable string; hence it is an equivalence relation on all strings.
\<close>

theorem equivalent_is_identity_equivalence:
  "(\<forall>r s. asset_ref_equivalent L r s = (ref_identity_of L r = ref_identity_of L s)) \<and>
   equivp (asset_ref_equivalent L)"
proof -
  have "equivp (asset_ref_equivalent L)"
    by (rule equivpI)
      (auto simp: reflp_def symp_def transp_def intro: equivalent_sym equivalent_trans)
  then show ?thesis by (simp add: equivalent_iff_identity)
qed

section \<open>Encoding and decoding\<close>

text \<open>
  What the SDK relies on from bech32m and the 8-to-5 bit regrouping, for the payloads of an
  asset reference (at most 35 bytes, within the 90-character limit of the checked decoder):
  both succeed, decode what they encode, and produce non-empty lowercase text.
\<close>

definition bech32m_laws :: "'k lib \<Rightarrow> bool" where
  "bech32m_laws L \<longleftrightarrow>
     (\<forall>data. length data \<le> 35 \<longrightarrow>
        (\<exists>d5 s. convert_bits L data 8 5 True = Inr d5 \<and> bech32_encode_m L asset_ref_hrp d5 = Inr s \<and>
                s \<noteq> [] \<and> to_lower s = s \<and>
                bech32_decode_generic L s = Inr (asset_ref_hrp, d5, VersionM) \<and>
                convert_bits L d5 5 8 False = Inr data))"

definition valid_payload :: "'k lib \<Rightarrow> byte \<Rightarrow> bytes \<Rightarrow> bool" where
  "valid_payload L kind payload \<longleftrightarrow>
     kind = kind_asset_id \<and> id32 payload \<or> kind = kind_group_key \<and> pub_key L payload"

lemma encode_asset_ref_ok:
  assumes "bech32m_laws L" and "valid_payload L kind payload"
  shows "\<exists>s. encode_asset_ref L kind payload = Inr s \<and>
             decode_asset_ref_string L s = Inr (kind, payload, s) \<and> to_lower s = s"
proof -
  let ?data = "asset_ref_format_version # kind # payload"
  have "length ?data \<le> 35"
    using assms(2) by (auto simp: valid_payload_def id32_def pub_key_def)
  with assms(1) obtain d5 s where
    conv: "convert_bits L ?data 8 5 True = Inr d5" and
    enc: "bech32_encode_m L asset_ref_hrp d5 = Inr s" and
    lower: "s \<noteq> []" "to_lower s = s" and
    dec: "bech32_decode_generic L s = Inr (asset_ref_hrp, d5, VersionM)" and
    regroup: "convert_bits L d5 5 8 False = Inr ?data"
    unfolding bech32m_laws_def by blast
  have kind: "is_ok (if kind = kind_asset_id
           then wrap_with (\<lambda>e. Wrapf ''invalid asset ref asset ID: '' e []) (parse_asset_id payload)
           else if kind = kind_group_key
           then wrap_with (\<lambda>e. Wrapf ''invalid asset ref group key: '' e []) (parse_pub_key L payload)
           else Inl (Plain ''unknown asset ref kind''))"
    using assms(2) parse_asset_id_eq [of payload payload] parse_pub_key_eq [of L payload payload]
    by (auto simp: valid_payload_def is_ok_iff)
  have "encode_asset_ref L kind payload = Inr s"
    by (simp add: encode_asset_ref_def conv enc)
  moreover have "decode_asset_ref_string L s = Inr (kind, payload, s)"
  proof -
    from kind obtain x where "(if kind = kind_asset_id
           then wrap_with (\<lambda>e. Wrapf ''invalid asset ref asset ID: '' e []) (parse_asset_id payload)
           else if kind = kind_group_key
           then wrap_with (\<lambda>e. Wrapf ''invalid asset ref group key: '' e []) (parse_pub_key L payload)
           else Inl (Plain ''unknown asset ref kind'')) = Inr x"
      by (auto simp: is_ok_iff)
    with lower show ?thesis
      by (simp add: decode_asset_ref_string_def dec regroup conv enc Let_def del: if_split_asm)
  qed
  ultimately show ?thesis using lower(2) by blast
qed

lemma encode_then_decode:
  assumes "bech32m_laws L" and "valid_payload L kind payload" and "encode_asset_ref L kind payload = Inr s"
  shows "decode_asset_ref_string L s = Inr (kind, payload, s)"
  using encode_asset_ref_ok [OF assms(1,2)] assms(3) by auto

lemma decode_canonical:
  assumes "decode_asset_ref_string L s = Inr (kind, payload, canonical)"
  shows "\<exists>c. encode_asset_ref L kind payload = Inr c \<and> canonical = to_lower c"
proof -
  from assms obtain base256 base32 c where base: "2 \<le> length base256" "base256 ! 0 = asset_ref_format_version"
      "base256 ! 1 = kind" "drop 2 base256 = payload" and
    enc: "convert_bits L base256 8 5 True = Inr base32" "bech32_encode_m L asset_ref_hrp base32 = Inr c"
      "canonical = to_lower c"
    by (fastforce simp: decode_asset_ref_string_def result_simps Let_def not_less split: if_splits)
  obtain x y zs where "base256 = x # y # zs"
    using base(1) by (cases base256; cases "tl base256") auto
  with base have "base256 = asset_ref_format_version # kind # payload"
    by simp
  with enc show ?thesis by (simp add: encode_asset_ref_def)
qed

text \<open>
  Round trip of the handle: the reference built from an asset ID decodes to that asset ID
  and the one built from a valid group key to that key, the string is its own canonical form,
  its kind is the right one, and no asset-ID reference equals or is equivalent to a group
  reference.
\<close>

theorem asset_ref_roundtrip:
  assumes "bech32m_laws L" and "id32 i" and "pub_key L k"
  shows "\<exists>ri rk. asset_ref_from_asset_id L i = Inr ri \<and> asset_ref_from_group_key L k = Inr rk \<and>
           ref_asset_id L ri = Some i \<and> ref_group_key L rk = Some k \<and>
           is_asset_id_ref L ri \<and> is_group_ref L rk \<and>
           parse_asset_ref L ri = Inr ri \<and> parse_asset_ref L rk = Inr rk \<and>
           \<not> asset_ref_equivalent L ri rk"
proof -
  have vi: "valid_payload L kind_asset_id i" and vk: "valid_payload L kind_group_key k"
    using assms(2,3) by (simp_all add: valid_payload_def)
  obtain ri where ri: "asset_ref_from_asset_id L i = Inr ri"
      "decode_asset_ref_string L ri = Inr (kind_asset_id, i, ri)"
    using encode_asset_ref_ok [OF assms(1) vi] by (auto simp: asset_ref_from_asset_id_def)
  obtain rk where rk: "asset_ref_from_group_key L k = Inr rk"
      "decode_asset_ref_string L rk = Inr (kind_group_key, k, rk)"
    using encode_asset_ref_ok [OF assms(1) vk] by (auto simp: asset_ref_from_group_key_def)
  show ?thesis
    by (rule exI [of _ ri], rule exI [of _ rk])
      (simp add: parse_asset_ref_def equivalent_iff_identity ri rk
        ref_facts_asset [OF ri(2) assms(2)] ref_facts_group [OF rk(2) assms(3)])
qed

lemma sample_decode_text [simp]:
  "hrp \<noteq> [] \<Longrightarrow> CHR ''1'' \<notin> set hrp \<Longrightarrow> sample_decode (hrp @ ''1'' @ sample_text d) = Inr (hrp, d)"
  by (simp add: sample_decode_def cut_sep [of "CHR ''1''" hrp "sample_text d", simplified])

lemma sample_bech32m_laws [simp]: "bech32m_laws sample_lib"
proof -
  have "to_lower (asset_ref_hrp @ ''1'' @ sample_text d) = asset_ref_hrp @ ''1'' @ sample_text d" for d
    by (simp add: to_lower_append del: append_Cons) (simp add: to_lower_def to_lower_char_def asset_ref_hrp_def)
  moreover have "sample_decode (asset_ref_hrp @ ''1'' @ sample_text d) = Inr (asset_ref_hrp, d)" for d
    by (rule sample_decode_text) (simp_all add: asset_ref_hrp_def)
  ultimately show ?thesis by (simp add: bech32m_laws_def)
qed

lemma sample_pub_key: "length k = 33 \<Longrightarrow> hd k = 2 \<Longrightarrow> pub_key sample_lib k"
  by (simp add: pub_key_def)

theorem asset_ref_roundtrip_witness:
  "\<exists>ri rk. asset_ref_from_asset_id sample_lib (replicate 32 7) = Inr ri \<and>
     asset_ref_from_group_key sample_lib (2 # replicate 32 9) = Inr rk \<and>
     \<not> asset_ref_equivalent sample_lib ri rk"
  using asset_ref_roundtrip [of sample_lib "replicate 32 7" "2 # replicate 32 9"]
  by (simp add: id32_def sample_pub_key) blast

text \<open>
  Parsing canonicalises: a string that \<open>ParseAssetRef\<close> accepts yields a reference that
  parses to itself and is equivalent to the string it came from, so storing the parsed form
  changes neither the identity nor, on a second pass, the text.
\<close>

theorem parse_asset_ref_canonical:
  assumes "bech32m_laws L" and "parse_asset_ref L s = Inr r"
  shows "parse_asset_ref L r = Inr r \<and> asset_ref_equivalent L s r"
proof -
  from assms(2) obtain kind p where dec: "decode_asset_ref_string L s = Inr (kind, p, r)"
    by (auto simp: parse_asset_ref_def result_simps)
  then have valid: "valid_payload L kind p"
    using decode_kind by (fastforce simp: valid_payload_def)
  from decode_canonical [OF dec] obtain c0 where c0: "encode_asset_ref L kind p = Inr c0" "r = to_lower c0"
    by blast
  with encode_asset_ref_ok [OF assms(1) valid] have "decode_asset_ref_string L r = Inr (kind, p, r)"
    by auto
  with dec show ?thesis by (simp add: parse_asset_ref_def equivalent_iff_identity ref_identity_of_def)
qed

lemma parse_asset_ref_lower: "parse_asset_ref L (to_lower s) = parse_asset_ref L s"
  by (simp add: parse_asset_ref_def decode_asset_ref_string_def)

theorem parse_asset_ref_canonical_witness:
  "parse_asset_ref sample_lib (''tapr1'' @ sample_text (0 # 0 # replicate 32 7))
     = Inr (''tapr1'' @ sample_text (0 # 0 # replicate 32 7)) \<and>
   asset_ref_equivalent sample_lib (''TAPR1'' @ sample_text (0 # 0 # replicate 32 7))
     (''tapr1'' @ sample_text (0 # 0 # replicate 32 7))"
proof -
  let ?t = "''tapr1'' @ sample_text (0 # 0 # replicate 32 7)"
  let ?u = "''TAPR1'' @ sample_text (0 # 0 # replicate 32 7)"
  have enc: "encode_asset_ref sample_lib kind_asset_id (replicate 32 7) = Inr ?t"
    by (simp add: encode_asset_ref_def asset_ref_hrp_def asset_ref_format_version_def kind_asset_id_def)
  have "decode_asset_ref_string sample_lib ?t = Inr (kind_asset_id, replicate 32 7, ?t)"
    by (rule encode_then_decode [OF sample_bech32m_laws _ enc]) (simp add: valid_payload_def id32_def)
  then have "parse_asset_ref sample_lib ?t = Inr ?t" by (simp add: parse_asset_ref_def)
  moreover have "to_lower ?u = ?t"
  proof -
    have "to_lower ''TAPR1'' = ''tapr1''" by code_simp
    then show ?thesis by (simp only: to_lower_append to_lower_sample_text)
  qed
  ultimately have "parse_asset_ref sample_lib ?u = Inr ?t"
    by (metis parse_asset_ref_lower)
  from parse_asset_ref_canonical [OF sample_bech32m_laws this] show ?thesis by blast
qed

end
