(* ===== verification/Tap_Address.thy ===== *)
theory Tap_Address
  imports Tap_AssetRef
begin

text \<open>
  Local encoding and decoding of Taproot Asset addresses (\<open>decode_addr.go\<close>, \<open>address.go\<close>,
  \<open>network.go\<close>): the network prefixes, the TLV records in strictly ascending type order, and the
  choice of the asset reference from the asset ID and group key records.
\<close>

section \<open>Networks and prefixes\<close>

text \<open>\<open>Network\<close> is a string type with six known values.\<close>

definition network_mainnet :: string where "network_mainnet = ''mainnet''"
definition network_testnet :: string where "network_testnet = ''testnet''"
definition network_testnet4 :: string where "network_testnet4 = ''testnet4''"
definition network_regtest :: string where "network_regtest = ''regtest''"
definition network_simnet :: string where "network_simnet = ''simnet''"
definition network_signet :: string where "network_signet = ''signet''"

lemmas network_defs = network_mainnet_def network_testnet_def network_testnet4_def
  network_regtest_def network_simnet_def network_signet_def

definition tap_hrp_for_network :: "string \<Rightarrow> string option" where
  "tap_hrp_for_network net =
     (if net = network_mainnet then Some ''tapbc''
      else if net = network_testnet then Some ''taptb''
      else if net = network_testnet4 then Some ''taptb''
      else if net = network_regtest then Some ''taprt''
      else if net = network_signet then Some ''taptb''
      else if net = network_simnet then Some ''tapsb''
      else None)"

definition is_known_tap_hrp :: "string \<Rightarrow> bool" where
  "is_known_tap_hrp hrp \<longleftrightarrow> hrp \<in> set [''tapbc'', ''taptb'', ''taprt'', ''tapsb'']"

text \<open>\<open>getNetworkParams\<close> of \<open>wallet.go\<close>: prefix and BIP-44 coin type.\<close>

definition get_network_params :: "string \<Rightarrow> (string \<times> u32) result" where
  "get_network_params network =
     (if network = network_mainnet then Inr (''tapbc'', 0)
      else if network = network_testnet then Inr (''taptb'', 1)
      else if network = network_testnet4 then Inr (''taptb'', 1)
      else if network = network_signet then Inr (''taptb'', 1)
      else if network = network_simnet then Inr (''tapsb'', 1)
      else if network = network_regtest then Inr (''taprt'', 1)
      else Inl (Plain ''unsupported network''))"

section \<open>Addresses\<close>

record address =
  addr_encoded :: string
  addr_asset_ref :: string
  addr_asset_type :: asset_type
  addr_amount :: u64
  addr_script_key :: bytes
  addr_internal_key :: bytes
  addr_tapscript_sibling :: bytes
  addr_taproot_output_key :: bytes
  addr_proof_courier :: string
  addr_asset_version :: byte
  addr_version :: byte

text \<open>The zero value of the struct, as \<open>&Address{Encoded: normalized}\<close> makes it.\<close>

definition zero_address :: "string \<Rightarrow> address" where
  "zero_address encoded =
     \<lparr>addr_encoded = encoded, addr_asset_ref = [], addr_asset_type = asset_type_normal,
      addr_amount = 0, addr_script_key = replicate 33 0, addr_internal_key = replicate 33 0,
      addr_tapscript_sibling = [], addr_taproot_output_key = replicate 32 0,
      addr_proof_courier = [], addr_asset_version = 0, addr_version = 0\<rparr>"

text \<open>The TLV types.\<close>

definition tlv_version :: u64 where "tlv_version = 0"
definition tlv_asset_version :: u64 where "tlv_asset_version = 2"
definition tlv_asset_id :: u64 where "tlv_asset_id = 4"
definition tlv_group_key :: u64 where "tlv_group_key = 5"
definition tlv_script_key :: u64 where "tlv_script_key = 6"
definition tlv_internal_key :: u64 where "tlv_internal_key = 8"
definition tlv_tapscript_sibling :: u64 where "tlv_tapscript_sibling = 9"
definition tlv_amount :: u64 where "tlv_amount = 10"
definition tlv_proof_courier :: u64 where "tlv_proof_courier = 12"

lemmas tlv_types = tlv_version_def tlv_asset_version_def tlv_asset_id_def tlv_group_key_def
  tlv_script_key_def tlv_internal_key_def tlv_tapscript_sibling_def tlv_amount_def tlv_proof_courier_def

definition decode_address_version :: "bytes \<Rightarrow> byte result" where
  "decode_address_version b =
     (if length b \<noteq> 1 then Inl (Plain ''bad address version length'')
      else if b ! 0 = 0 then Inr 1
      else if b ! 0 = 1 then Inr 2
      else if b ! 0 = 2 then Inr 3
      else Inl (Plain ''unknown address version''))"

definition decode_asset_version :: "bytes \<Rightarrow> byte result" where
  "decode_asset_version b =
     (if length b \<noteq> 1 then Inl (Plain ''bad asset version length'')
      else if b ! 0 = 0 then Inr 0
      else if b ! 0 = 1 then Inr 1
      else Inl (Plain ''unknown asset version''))"

text \<open>The local variables of the decoding loop.\<close>

record tlv_state =
  ts_result :: address
  ts_have_asset_id :: bool
  ts_have_group_key :: bool
  ts_asset_id :: bytes
  ts_asset_id_ref :: string
  ts_group_key_ref :: string
  ts_prev_type :: u64
  ts_seen_any :: bool

definition init_tlv_state :: "string \<Rightarrow> tlv_state" where
  "init_tlv_state normalized =
     \<lparr>ts_result = zero_address normalized, ts_have_asset_id = False, ts_have_group_key = False,
      ts_asset_id = zero32, ts_asset_id_ref = [], ts_group_key_ref = [], ts_prev_type = 0,
      ts_seen_any = False\<rparr>"

text \<open>The \<open>switch\<close> on the record type.\<close>

definition apply_tlv :: "'k lib \<Rightarrow> u64 \<Rightarrow> bytes \<Rightarrow> tlv_state \<Rightarrow> tlv_state result" where
  "apply_tlv L t v st =
     (if t = tlv_version
      then and_then (decode_address_version v) (\<lambda>ver. Inr (st\<lparr>ts_result := (ts_result st)\<lparr>addr_version := ver\<rparr>\<rparr>))
      else if t = tlv_asset_version
      then and_then (decode_asset_version v) (\<lambda>ver. Inr (st\<lparr>ts_result := (ts_result st)\<lparr>addr_asset_version := ver\<rparr>\<rparr>))
      else if t = tlv_asset_id
      then (if length v \<noteq> 32 then Inl (Plain ''bad asset id length'')
            else and_then (asset_ref_from_asset_id L v) (\<lambda>ref.
              Inr (st\<lparr>ts_asset_id := v, ts_asset_id_ref := ref, ts_have_asset_id := True\<rparr>)))
      else if t = tlv_group_key
      then (if length v \<noteq> 33 then Inl (Plain ''bad group key length'')
            else and_then (wrap_with (\<lambda>e. Wrapf ''bad group key: '' e []) (parse_pub_key L v)) (\<lambda>gk.
              and_then (asset_ref_from_group_key L gk) (\<lambda>ref.
                Inr (st\<lparr>ts_group_key_ref := ref, ts_have_group_key := True\<rparr>))))
      else if t = tlv_script_key
      then (if length v \<noteq> 33 then Inl (Plain ''bad script key length'')
            else and_then (wrap_with (\<lambda>e. Wrapf ''bad script key: '' e []) (parse_pub_key L v)) (\<lambda>pk.
              Inr (st\<lparr>ts_result := (ts_result st)\<lparr>addr_script_key := pk\<rparr>\<rparr>)))
      else if t = tlv_internal_key
      then (if length v \<noteq> 33 then Inl (Plain ''bad internal key length'')
            else and_then (wrap_with (\<lambda>e. Wrapf ''bad internal key: '' e []) (parse_pub_key L v)) (\<lambda>pk.
              Inr (st\<lparr>ts_result := (ts_result st)\<lparr>addr_internal_key := pk\<rparr>\<rparr>)))
      else if t = tlv_tapscript_sibling
      then Inr (st\<lparr>ts_result := (ts_result st)\<lparr>addr_tapscript_sibling := v\<rparr>\<rparr>)
      else if t = tlv_amount
      then and_then (wrap_with (\<lambda>e. Wrapf ''bad amount: '' e []) (read_big_size v 9)) (\<lambda>(amt, _).
             Inr (st\<lparr>ts_result := (ts_result st)\<lparr>addr_amount := amt\<rparr>\<rparr>))
      else if t = tlv_proof_courier
      then Inr (st\<lparr>ts_result := (ts_result st)\<lparr>addr_proof_courier := map (\<lambda>b. char_of (unat b)) v\<rparr>\<rparr>)
      else Inr st)"

text \<open>One round of the loop \<open>for r.Len() > 0\<close>.\<close>

definition tlv_step :: "'k lib \<Rightarrow> tlv_state \<Rightarrow> bytes \<Rightarrow> (tlv_state \<times> bytes) result" where
  "tlv_step L st r =
     and_then (wrap_with (\<lambda>e. Wrapf ''read tlv type: '' e []) (read_big_size r 9)) (\<lambda>(t, r1).
       if ts_seen_any st \<and> t \<le> ts_prev_type st then Inl (Plain ''tlv records not sorted'')
       else and_then (wrap_with (\<lambda>e. Wrapf ''read tlv length: '' e []) (read_big_size r1 9)) (\<lambda>(l, r2).
         if length r2 < unat l then Inl (Plain ''tlv length exceeds remaining payload'')
         else and_then (wrap_with (\<lambda>e. Wrapf ''read tlv value: '' e []) (read_full (unat l) r2)) (\<lambda>(v, r3).
           and_then (apply_tlv L t v (st\<lparr>ts_prev_type := t, ts_seen_any := True\<rparr>)) (\<lambda>st'. Inr (st', r3)))))"

lemma and_then_cong [fundef_cong]:
  "r = r' \<Longrightarrow> (\<And>x. r' = Inr x \<Longrightarrow> f x = g x) \<Longrightarrow> and_then r f = and_then r' g"
  by (cases r') auto

lemma tlv_step_consumes: "tlv_step L st r = Inr (st', r') \<Longrightarrow> length r' < length r"
  by (auto simp: tlv_step_def result_simps big_size_eq split: if_splits dest!: read_var_int_used)

function tlv_loop :: "'k lib \<Rightarrow> tlv_state \<Rightarrow> bytes \<Rightarrow> tlv_state result" where
  "tlv_loop L st r =
     (if r = [] then Inr st else and_then (tlv_step L st r) (\<lambda>(st', r'). tlv_loop L st' r'))"
  by pat_completeness auto
termination
  by (relation "measure (\<lambda>(L, st, r). length r)") (auto dest: tlv_step_consumes)

declare tlv_loop.simps [simp del]

text \<open>The choice of the semantic reference after the loop.\<close>

definition finish_address :: "tlv_state \<Rightarrow> address" where
  "finish_address st =
     (if ts_have_group_key st \<and> ts_have_asset_id st \<and> \<not> asset_id_is_zero (ts_asset_id st)
      then (ts_result st)\<lparr>addr_asset_ref := ts_asset_id_ref st\<rparr>
      else if ts_have_group_key st then (ts_result st)\<lparr>addr_asset_ref := ts_group_key_ref st\<rparr>
      else if ts_have_asset_id st then (ts_result st)\<lparr>addr_asset_ref := ts_asset_id_ref st\<rparr>
      else ts_result st)"

definition decode_address :: "'k lib \<Rightarrow> string \<Rightarrow> address result" where
  "decode_address L addr =
     (let normalized = to_lower (trim_space addr) in
      case split_last CHR ''1'' normalized of
        None \<Rightarrow> Inl (Plain ''invalid tap address: missing HRP separator'')
      | Some hrp \<Rightarrow>
        (if hrp = [] then Inl (Plain ''invalid tap address: missing HRP separator'')
         else if \<not> is_known_tap_hrp hrp then Inl (Plain ''unknown tap address HRP'')
         else
         and_then (wrap_with (\<lambda>e. Wrapf ''invalid bech32m: '' e [])
                    (bech32_decode_no_limit L normalized)) (\<lambda>(dec_hrp, data5).
         if dec_hrp \<noteq> hrp then Inl (Plain ''bech32m HRP mismatch'')
         else
         and_then (wrap_with (\<lambda>e. Wrapf ''invalid address payload: '' e [])
                    (convert_bits L data5 5 8 False)) (\<lambda>payload.
         and_then (tlv_loop L (init_tlv_state normalized) payload) (\<lambda>st.
         Inr (finish_address st))))))"

section \<open>Encoding\<close>

definition write_tlv :: "u64 \<Rightarrow> bytes \<Rightarrow> bytes \<Rightarrow> bytes result" where
  "write_tlv t v buf =
     and_then (write_big_size t 9) (\<lambda>ty.
     and_then (write_big_size (of_nat (length v)) 9) (\<lambda>len.
     Inr (buf @ ty @ len @ v)))"

definition string_bytes :: "string \<Rightarrow> bytes" where
  "string_bytes s = map (\<lambda>c. of_nat (of_char c)) s"

text \<open>A nil address pointer is \<open>None\<close>.\<close>

definition encode_address :: "'k lib \<Rightarrow> address option \<Rightarrow> string \<Rightarrow> string result" where
  "encode_address L addr_ptr network =
     (case addr_ptr of
        None \<Rightarrow> Inl (Plain ''nil address'')
      | Some addr \<Rightarrow>
        (case tap_hrp_for_network network of
           None \<Rightarrow> Inl (Plain ''unsupported network for tap address encoding'')
         | Some hrp \<Rightarrow>
           and_then (write_tlv tlv_version [addr_version addr - 1] []) (\<lambda>b1.
           and_then (write_tlv tlv_asset_version [addr_asset_version addr] b1) (\<lambda>b2.
           and_then (write_tlv tlv_asset_id
                      (case ref_asset_id L (addr_asset_ref addr) of Some i \<Rightarrow> i | None \<Rightarrow> zero32) b2) (\<lambda>b3.
           and_then (case ref_group_key L (addr_asset_ref addr) of
                       Some gk \<Rightarrow> write_tlv tlv_group_key gk b3 | None \<Rightarrow> Inr b3) (\<lambda>b4.
           and_then (write_tlv tlv_script_key (addr_script_key addr) b4) (\<lambda>b5.
           and_then (write_tlv tlv_internal_key (addr_internal_key addr) b5) (\<lambda>b6.
           and_then (if addr_tapscript_sibling addr \<noteq> []
                     then write_tlv tlv_tapscript_sibling (addr_tapscript_sibling addr) b6 else Inr b6) (\<lambda>b7.
           and_then (if addr_amount addr > 0
                     then and_then (write_big_size (addr_amount addr) 9) (\<lambda>amt. write_tlv tlv_amount amt b7)
                     else Inr b7) (\<lambda>b8.
           and_then (if addr_proof_courier addr \<noteq> []
                     then write_tlv tlv_proof_courier (string_bytes (addr_proof_courier addr)) b8
                     else Inr b8) (\<lambda>b9.
           and_then (wrap_with (\<lambda>e. Wrapf ''pack bits: '' e []) (convert_bits L b9 8 5 True)) (\<lambda>data5.
           wrap_with (\<lambda>e. Wrapf ''bech32m encode: '' e []) (bech32_encode_m L hrp data5)))))))))))))"


section \<open>The record sequence behind an address payload\<close>

definition tlv_record :: "u64 \<times> bytes \<Rightarrow> bytes" where
  "tlv_record = (\<lambda>(t, v). var_int_bytes t @ var_int_bytes (of_nat (length v)) @ v)"

text \<open>One record applied to the loop's state, with the order check in front.\<close>

definition apply_record :: "'k lib \<Rightarrow> tlv_state \<Rightarrow> u64 \<times> bytes \<Rightarrow> tlv_state result" where
  "apply_record L st = (\<lambda>(t, v).
     if ts_seen_any st \<and> t \<le> ts_prev_type st then Inl (Plain ''tlv records not sorted'')
     else apply_tlv L t v (st\<lparr>ts_prev_type := t, ts_seen_any := True\<rparr>))"

lemma tlv_step_record:
  assumes "length v < 2 ^ 64"
  shows "tlv_step L st (tlv_record (t, v) @ r) =
         and_then (apply_record L st (t, v)) (\<lambda>st'. Inr (st', r))"
  using unat_of_nat_u64 [OF assms]
  by (simp add: tlv_step_def tlv_record_def apply_record_def codec_simps)

lemma tlv_loop_records:
  assumes "\<forall>(t, v) \<in> set rs. length v < 2 ^ 64"
  shows "tlv_loop L st (concat (map tlv_record rs)) = fold_res (apply_record L) st rs"
  using assms
proof (induction rs arbitrary: st)
  case Nil
  then show ?case by (simp add: tlv_loop.simps)
next
  case (Cons rv rs)
  obtain t v where rv: "rv = (t, v)" by (cases rv)
  have len: "length v < 2 ^ 64" using Cons.prems rv by simp
  have ne: "tlv_record (t, v) \<noteq> []"
    using var_int_bytes_bounds(1) [of t] by (auto simp: tlv_record_def)
  show ?case
    using Cons.IH Cons.prems
    by (subst tlv_loop.simps) (simp add: rv ne tlv_step_record [OF len], cases "apply_record L st (t, v)", auto)
qed

text \<open>Conversely, a payload the loop accepts is a sequence of records that it applies in order.\<close>

fun tlv_reads :: "bytes \<Rightarrow> (u64 \<times> bytes) list \<Rightarrow> bool" where
  "tlv_reads r [] \<longleftrightarrow> r = []"
| "tlv_reads r ((t, v) # rs) \<longleftrightarrow>
     (\<exists>r1 r2 r3 l. read_big_size r 9 = Inr (t, r1) \<and> read_big_size r1 9 = Inr (l, r2) \<and>
        read_full (unat l) r2 = Inr (v, r3) \<and> tlv_reads r3 rs)"

lemma tlv_step_apply:
  assumes "tlv_step L st r = Inr (st', r')"
  shows "\<exists>tv. apply_record L st tv = Inr st' \<and> (\<forall>rs. tlv_reads r' rs \<longrightarrow> tlv_reads r (tv # rs))"
  using assms by (fastforce simp: tlv_step_def apply_record_def result_simps split: if_splits)

lemma tlv_loop_apply:
  "tlv_loop L st r = Inr st' \<Longrightarrow> \<exists>rs. tlv_reads r rs \<and> fold_res (apply_record L) st rs = Inr st'"
proof (induction L st r rule: tlv_loop.induct)
  case (1 L st r)
  show ?case
  proof (cases "r = []")
    case True
    with 1 show ?thesis by (auto simp: tlv_loop.simps intro: exI [of _ "[]"])
  next
    case False
    with 1 obtain st1 r1 where step: "tlv_step L st r = Inr (st1, r1)" and rest: "tlv_loop L st1 r1 = Inr st'"
      by (subst (asm) (3) tlv_loop.simps) (auto simp: result_simps)
    from 1(1) [OF False step refl rest] obtain rs where
      "tlv_reads r1 rs" "fold_res (apply_record L) st1 rs = Inr st'" by blast
    moreover obtain tv where "apply_record L st tv = Inr st1"
        "\<forall>rs. tlv_reads r1 rs \<longrightarrow> tlv_reads r (tv # rs)"
      using tlv_step_apply [OF step] by blast
    ultimately show ?thesis by (intro exI [of _ "tv # rs"]) simp
  qed
qed

lemma apply_tlv_order: "apply_tlv L t v st = Inr st' \<Longrightarrow> ts_prev_type st' = ts_prev_type st \<and> ts_seen_any st' = ts_seen_any st"
  by (auto simp: apply_tlv_def result_simps split: if_splits)

lemma apply_record_order:
  assumes "apply_record L st (t, v) = Inr st'"
  shows "ts_prev_type st' = t \<and> ts_seen_any st' \<and> (ts_seen_any st \<longrightarrow> ts_prev_type st < t)"
  using assms by (auto simp: apply_record_def dest: apply_tlv_order split: if_splits)

lemma fold_apply_record_sorted:
  assumes "fold_res (apply_record L) st rs = Inr st'"
  shows "sorted_wrt (<) (map fst rs) \<and> (ts_seen_any st \<longrightarrow> (\<forall>t \<in> set (map fst rs). ts_prev_type st < t))"
  using assms
proof (induction rs arbitrary: st)
  case Nil
  then show ?case by simp
next
  case (Cons rv rs)
  obtain t v where rv: "rv = (t, v)" by (cases rv)
  from Cons.prems obtain st1 where step: "apply_record L st (t, v) = Inr st1"
    and rest: "fold_res (apply_record L) st1 rs = Inr st'"
    by (auto simp: rv result_simps)
  have ord: "ts_prev_type st1 = t" "ts_seen_any st1" "ts_seen_any st \<longrightarrow> ts_prev_type st < t"
    using apply_record_order [OF step] by auto
  from Cons.IH [OF rest] ord show ?case by (auto simp: rv)
qed


text \<open>The records \<open>EncodeAddress\<close> writes.\<close>

definition address_records :: "'k lib \<Rightarrow> address \<Rightarrow> (u64 \<times> bytes) list" where
  "address_records L a =
     [(tlv_version, [addr_version a - 1]), (tlv_asset_version, [addr_asset_version a]),
      (tlv_asset_id, case ref_asset_id L (addr_asset_ref a) of Some i \<Rightarrow> i | None \<Rightarrow> zero32)]
     @ (case ref_group_key L (addr_asset_ref a) of Some gk \<Rightarrow> [(tlv_group_key, gk)] | None \<Rightarrow> [])
     @ [(tlv_script_key, addr_script_key a), (tlv_internal_key, addr_internal_key a)]
     @ (if addr_tapscript_sibling a \<noteq> [] then [(tlv_tapscript_sibling, addr_tapscript_sibling a)] else [])
     @ (if addr_amount a > 0 then [(tlv_amount, var_int_bytes (addr_amount a))] else [])
     @ (if addr_proof_courier a \<noteq> [] then [(tlv_proof_courier, string_bytes (addr_proof_courier a))] else [])"

lemma write_tlv_eq [codec_simps]: "write_tlv t v buf = Inr (buf @ tlv_record (t, v))"
  by (simp add: write_tlv_def tlv_record_def codec_simps)

lemma encode_address_payload:
  assumes "tap_hrp_for_network network = Some hrp"
  shows "encode_address L (Some a) network =
     and_then (wrap_with (\<lambda>e. Wrapf ''pack bits: '' e [])
                (convert_bits L (concat (map tlv_record (address_records L a))) 8 5 True)) (\<lambda>data5.
     wrap_with (\<lambda>e. Wrapf ''bech32m encode: '' e []) (bech32_encode_m L hrp data5))"
  using assms
  by (cases "ref_group_key L (addr_asset_ref a)"; cases "addr_tapscript_sibling a = []";
      cases "addr_amount a > 0"; cases "addr_proof_courier a = []")
    (simp_all add: encode_address_def address_records_def codec_simps)

text \<open>
  What the address codec relies on from bech32m without the length limit and from the bit
  regrouping, for one network prefix.
\<close>

definition bech32_no_limit_laws :: "'k lib \<Rightarrow> string \<Rightarrow> bool" where
  "bech32_no_limit_laws L hrp \<longleftrightarrow>
     (\<forall>data. \<exists>d5 s. convert_bits L data 8 5 True = Inr d5 \<and> bech32_encode_m L hrp d5 = Inr s \<and>
        to_lower (trim_space s) = s \<and> split_last CHR ''1'' s = Some hrp \<and>
        bech32_decode_no_limit L s = Inr (hrp, d5) \<and> convert_bits L d5 5 8 False = Inr data)"

text \<open>An address whose fields are values of their Go types and whose reference is one the SDK builds.\<close>

definition valid_address :: "'k lib \<Rightarrow> address \<Rightarrow> bool" where
  "valid_address L a \<longleftrightarrow>
     addr_version a \<in> {1, 2, 3} \<and> addr_asset_version a \<in> {0, 1} \<and>
     ((\<exists>i. id32 i \<and> asset_ref_from_asset_id L i = Inr (addr_asset_ref a)) \<or>
      (\<exists>k. pub_key L k \<and> asset_ref_from_group_key L k = Inr (addr_asset_ref a))) \<and>
     pub_key L (addr_script_key a) \<and> pub_key L (addr_internal_key a) \<and>
     length (addr_tapscript_sibling a) < 2 ^ 64 \<and> length (addr_proof_courier a) < 2 ^ 64"

text \<open>The fields that an encoded address carries.\<close>

definition wire_part :: "string \<Rightarrow> address \<Rightarrow> address" where
  "wire_part encoded a = a\<lparr>addr_encoded := encoded, addr_asset_type := asset_type_normal,
     addr_taproot_output_key := replicate 32 0\<rparr>"

lemma known_network_hrp: "tap_hrp_for_network network = Some hrp \<Longrightarrow> is_known_tap_hrp hrp \<and> hrp \<noteq> []"
  by (auto simp: tap_hrp_for_network_def is_known_tap_hrp_def split: if_splits)

lemma char_of_string_bytes: "map (\<lambda>b. char_of (unat b)) (string_bytes s) = s"
  by (simp add: string_bytes_def o_def unat_byte_of_nat)



lemma apply_tlv_fields:
  "w \<in> {1, 2, 3} \<Longrightarrow> apply_tlv L tlv_version [w - 1] st =
     Inr (st\<lparr>ts_result := (ts_result st)\<lparr>addr_version := w\<rparr>\<rparr>)"
  "w \<in> {0, 1} \<Longrightarrow> apply_tlv L tlv_asset_version [w] st =
     Inr (st\<lparr>ts_result := (ts_result st)\<lparr>addr_asset_version := w\<rparr>\<rparr>)"
  "id32 i \<Longrightarrow> asset_ref_from_asset_id L i = Inr r \<Longrightarrow> apply_tlv L tlv_asset_id i st =
     Inr (st\<lparr>ts_asset_id := i, ts_asset_id_ref := r, ts_have_asset_id := True\<rparr>)"
  "pub_key L k \<Longrightarrow> asset_ref_from_group_key L k = Inr r \<Longrightarrow> apply_tlv L tlv_group_key k st =
     Inr (st\<lparr>ts_group_key_ref := r, ts_have_group_key := True\<rparr>)"
  "pub_key L k \<Longrightarrow> apply_tlv L tlv_script_key k st =
     Inr (st\<lparr>ts_result := (ts_result st)\<lparr>addr_script_key := k\<rparr>\<rparr>)"
  "pub_key L k \<Longrightarrow> apply_tlv L tlv_internal_key k st =
     Inr (st\<lparr>ts_result := (ts_result st)\<lparr>addr_internal_key := k\<rparr>\<rparr>)"
  "apply_tlv L tlv_tapscript_sibling b st =
     Inr (st\<lparr>ts_result := (ts_result st)\<lparr>addr_tapscript_sibling := b\<rparr>\<rparr>)"
  "apply_tlv L tlv_amount (var_int_bytes n) st = Inr (st\<lparr>ts_result := (ts_result st)\<lparr>addr_amount := n\<rparr>\<rparr>)"
  "apply_tlv L tlv_proof_courier (string_bytes c) st =
     Inr (st\<lparr>ts_result := (ts_result st)\<lparr>addr_proof_courier := c\<rparr>\<rparr>)"
  using parse_pub_key_eq [of L k k] var_int_roundtrip [of 9 n "[]"]
  by (auto simp: apply_tlv_def tlv_types decode_address_version_def decode_asset_version_def id32_def
      pub_key_def char_of_string_bytes big_size_eq)

text \<open>The optional records at the end of an address.\<close>

definition tail_records :: "address \<Rightarrow> (u64 \<times> bytes) list" where
  "tail_records a =
     (if addr_tapscript_sibling a \<noteq> [] then [(tlv_tapscript_sibling, addr_tapscript_sibling a)] else [])
     @ (if addr_amount a > 0 then [(tlv_amount, var_int_bytes (addr_amount a))] else [])
     @ (if addr_proof_courier a \<noteq> [] then [(tlv_proof_courier, string_bytes (addr_proof_courier a))] else [])"

lemma fold_tail_records:
  assumes "ts_seen_any st" "ts_prev_type st = tlv_internal_key"
    and "addr_tapscript_sibling (ts_result st) = []" "addr_amount (ts_result st) = 0"
    and "addr_proof_courier (ts_result st) = []"
  shows "\<exists>p. fold_res (apply_record L) st (tail_records a) =
     Inr (st\<lparr>ts_prev_type := p,
             ts_result := (ts_result st)\<lparr>addr_tapscript_sibling := addr_tapscript_sibling a,
               addr_amount := addr_amount a, addr_proof_courier := addr_proof_courier a\<rparr>\<rparr>)"
  using assms
  by (cases st; cases "ts_result st"; cases "addr_tapscript_sibling a = []"; cases "addr_amount a = 0";
      cases "addr_proof_courier a = []")
    (simp_all add: tail_records_def apply_record_def apply_tlv_fields word_gt_0, simp_all add: tlv_types)


lemma address_records_split:
  "address_records L a =
     [(tlv_version, [addr_version a - 1]), (tlv_asset_version, [addr_asset_version a]),
      (tlv_asset_id, case ref_asset_id L (addr_asset_ref a) of Some i \<Rightarrow> i | None \<Rightarrow> zero32)]
     @ (case ref_group_key L (addr_asset_ref a) of Some gk \<Rightarrow> [(tlv_group_key, gk)] | None \<Rightarrow> [])
     @ [(tlv_script_key, addr_script_key a), (tlv_internal_key, addr_internal_key a)] @ tail_records a"
  by (simp add: address_records_def tail_records_def)

lemma tlv_order:
  "\<not> tlv_asset_version \<le> tlv_version" "\<not> tlv_asset_id \<le> tlv_asset_version"
  "\<not> tlv_group_key \<le> tlv_asset_id" "\<not> tlv_script_key \<le> tlv_asset_id"
  "\<not> tlv_script_key \<le> tlv_group_key" "\<not> tlv_internal_key \<le> tlv_script_key"
  by (simp_all add: tlv_types)

lemma address_fields:
  assumes "valid_address L a"
  shows "addr_version a \<in> {1, 2, 3}" "addr_asset_version a \<in> {0, 1}"
    "pub_key L (addr_script_key a)" "pub_key L (addr_internal_key a)"
  using assms by (auto simp: valid_address_def)

lemma fold_address:
  assumes "valid_address L a"
    and "id32 i" "asset_ref_from_asset_id L i = Inr r"
    and "gk \<noteq> None \<Longrightarrow> asset_id_is_zero i \<and> pub_key L (the gk) \<and> asset_ref_from_group_key L (the gk) = Inr r'"
    and "addr_asset_ref a = (if gk = None then r else r')"
    and recs: "address_records L a =
      [(tlv_version, [addr_version a - 1]), (tlv_asset_version, [addr_asset_version a]), (tlv_asset_id, i)]
      @ (case gk of Some k \<Rightarrow> [(tlv_group_key, k)] | None \<Rightarrow> [])
      @ [(tlv_script_key, addr_script_key a), (tlv_internal_key, addr_internal_key a)] @ tail_records a"
  shows "\<exists>st. fold_res (apply_record L) (init_tlv_state s) (address_records L a) = Inr st \<and>
              finish_address st = wire_part s a"
proof -
  note fields = address_fields [OF assms(1)]
  have "\<exists>st. fold_res (apply_record L) (init_tlv_state s)
          ([(tlv_version, [addr_version a - 1]), (tlv_asset_version, [addr_asset_version a]), (tlv_asset_id, i)]
           @ (case gk of Some k \<Rightarrow> [(tlv_group_key, k)] | None \<Rightarrow> [])
           @ [(tlv_script_key, addr_script_key a), (tlv_internal_key, addr_internal_key a)]) = Inr st \<and>
        ts_seen_any st \<and> ts_prev_type st = tlv_internal_key \<and> ts_have_group_key st = (gk \<noteq> None) \<and>
        ts_have_asset_id st \<and> ts_asset_id st = i \<and>
        ts_asset_id_ref st = r \<and> (gk \<noteq> None \<longrightarrow> ts_group_key_ref st = r') \<and>
        ts_result st = (zero_address s)\<lparr>addr_version := addr_version a, addr_asset_version := addr_asset_version a,
          addr_script_key := addr_script_key a, addr_internal_key := addr_internal_key a\<rparr>"
    using assms(2-4) fields
    by (cases gk)
      (simp_all add: apply_record_def apply_tlv_fields tlv_order init_tlv_state_def zero_address_def del: insert_iff)
  then obtain st where st: "fold_res (apply_record L) (init_tlv_state s)
          ([(tlv_version, [addr_version a - 1]), (tlv_asset_version, [addr_asset_version a]), (tlv_asset_id, i)]
           @ (case gk of Some k \<Rightarrow> [(tlv_group_key, k)] | None \<Rightarrow> [])
           @ [(tlv_script_key, addr_script_key a), (tlv_internal_key, addr_internal_key a)]) = Inr st"
    and flags: "ts_seen_any st" "ts_prev_type st = tlv_internal_key" "ts_have_group_key st = (gk \<noteq> None)"
      "ts_have_asset_id st" "ts_asset_id st = i" "ts_asset_id_ref st = r"
      "gk \<noteq> None \<longrightarrow> ts_group_key_ref st = r'"
    and res: "ts_result st = (zero_address s)\<lparr>addr_version := addr_version a, addr_asset_version := addr_asset_version a,
          addr_script_key := addr_script_key a, addr_internal_key := addr_internal_key a\<rparr>"
    by blast
  from fold_tail_records [OF flags(1,2), of L a] res obtain p where
    tl: "fold_res (apply_record L) st (tail_records a) = Inr (st\<lparr>ts_prev_type := p,
             ts_result := (ts_result st)\<lparr>addr_tapscript_sibling := addr_tapscript_sibling a,
               addr_amount := addr_amount a, addr_proof_courier := addr_proof_courier a\<rparr>\<rparr>)"
    by (auto simp: zero_address_def)
  have "fold_res (apply_record L) (init_tlv_state s) (address_records L a) = and_then (Inr st)
      (\<lambda>t. fold_res (apply_record L) t (tail_records a))"
    unfolding recs st [symmetric] by (simp only: fold_res_append [symmetric] append_assoc)
  then show ?thesis
    using tl flags res assms(4,5)
    by (auto simp: finish_address_def wire_part_def zero_address_def)
qed


lemma address_records_length:
  assumes "valid_address L a"
  shows "\<forall>(t, v) \<in> set (address_records L a). length v < 2 ^ 64"
proof -
  have i: "length (case ref_asset_id L r of Some i \<Rightarrow> i | None \<Rightarrow> zero32) = 32" for r
    by (auto simp: ref_asset_id_def id32_def zero32_def parse_asset_id_eq split: sum.splits option.splits if_splits)
  have k: "ref_group_key L r = Some g \<Longrightarrow> length g = 33" for r g
    by (auto simp: ref_group_key_def pub_key_def parse_pub_key_eq split: sum.splits if_splits)
  have n: "length (var_int_bytes n) < 2 ^ 64" for n
    using var_int_bytes_bounds(2) [of n] by simp
  have valid: "length (addr_script_key a) = 33" "length (addr_internal_key a) = 33"
      "length (addr_tapscript_sibling a) < 2 ^ 64" "length (addr_proof_courier a) < 2 ^ 64"
    using assms by (auto simp: valid_address_def pub_key_def)
  show ?thesis
    using valid k [of "addr_asset_ref a"] n
    by (cases "ref_group_key L (addr_asset_ref a)")
      (auto simp: address_records_def i string_bytes_def)
qed

lemma zero32_id [simp]: "id32 zero32" "asset_id_is_zero zero32"
  by (simp_all add: id32_def zero32_def asset_id_is_zero_def)

lemma fold_valid_address:
  assumes laws: "bech32m_laws L" and valid: "valid_address L a"
  shows "\<exists>st. fold_res (apply_record L) (init_tlv_state s) (address_records L a) = Inr st \<and>
              finish_address st = wire_part s a"
proof -
  from valid consider
    (asset) i where "id32 i" "asset_ref_from_asset_id L i = Inr (addr_asset_ref a)"
    | (grp) k where "pub_key L k" "asset_ref_from_group_key L k = Inr (addr_asset_ref a)"
    unfolding valid_address_def by blast
  then show ?thesis
  proof cases
    case asset
    then have "decode_asset_ref_string L (addr_asset_ref a) = Inr (kind_asset_id, i, addr_asset_ref a)"
      by (intro encode_then_decode [OF laws]) (simp_all add: valid_payload_def asset_ref_from_asset_id_def)
    from ref_facts_asset [OF this asset(1)] show ?thesis
      by (intro fold_address [OF valid asset, of None "[]"]) (simp_all add: address_records_split)
  next
    case grp
    then have "decode_asset_ref_string L (addr_asset_ref a) = Inr (kind_group_key, k, addr_asset_ref a)"
      by (intro encode_then_decode [OF laws]) (simp_all add: valid_payload_def asset_ref_from_group_key_def)
    from ref_facts_group [OF this grp(1)] have refs:
      "ref_asset_id L (addr_asset_ref a) = None" "ref_group_key L (addr_asset_ref a) = Some k" by simp_all
    obtain z where z: "asset_ref_from_asset_id L zero32 = Inr z"
      using encode_asset_ref_ok [OF laws, of kind_asset_id zero32]
      by (auto simp: valid_payload_def asset_ref_from_asset_id_def)
    show ?thesis
      by (rule fold_address [OF valid zero32_id(1) z, of "Some k" "addr_asset_ref a"])
        (use grp refs in \<open>simp_all add: address_records_split\<close>)
  qed
qed

lemma encode_decode_address:
  assumes "bech32m_laws L" and "tap_hrp_for_network network = Some hrp"
    and "bech32_no_limit_laws L hrp" and "valid_address L a"
  shows "\<exists>s. encode_address L (Some a) network = Inr s \<and> decode_address L s = Inr (wire_part s a)"
proof -
  let ?data = "concat (map tlv_record (address_records L a))"
  from assms(3) obtain d5 s where
    text_: "convert_bits L ?data 8 5 True = Inr d5" "bech32_encode_m L hrp d5 = Inr s"
      "to_lower (trim_space s) = s" "split_last CHR ''1'' s = Some hrp"
      "bech32_decode_no_limit L s = Inr (hrp, d5)" "convert_bits L d5 5 8 False = Inr ?data"
    unfolding bech32_no_limit_laws_def by blast
  obtain st where st: "fold_res (apply_record L) (init_tlv_state s) (address_records L a) = Inr st"
      "finish_address st = wire_part s a"
    using fold_valid_address [OF assms(1,4)] by blast
  have "tlv_loop L (init_tlv_state s) ?data = Inr st"
    using st(1) by (simp only: tlv_loop_records [OF address_records_length [OF assms(4)]])
  then have "decode_address L s = Inr (wire_part s a)"
    using known_network_hrp [OF assms(2)] st(2) by (simp add: decode_address_def text_ Let_def)
  then show ?thesis
    by (simp add: encode_address_payload [OF assms(2)] text_)
qed

text \<open>
  C30. Round trip of Tap addresses: on every known network, an address with valid keys, versions
  and reference encodes, and decoding the text gives back every field the payload carries,
  whichever optional records (tapscript sibling, amount, proof courier) it has and whether it
  names an asset ID or a group key; the text is stored as the address's encoded form.
\<close>

theorem address_roundtrip:
  assumes "bech32m_laws L" and "tap_hrp_for_network network = Some hrp"
    and "bech32_no_limit_laws L hrp" and "valid_address L a"
  shows "\<exists>s. encode_address L (Some a) network = Inr s \<and> decode_address L s = Inr (wire_part s a)"
  using assms by (rule encode_decode_address)

lemma trim_space_ends: "s \<noteq> [] \<Longrightarrow> \<not> is_space (hd s) \<Longrightarrow> \<not> is_space (last s) \<Longrightarrow> trim_space s = s"
  using dropWhile_eq_self_iff [of is_space s] dropWhile_eq_self_iff [of is_space "rev s"]
  by (simp add: trim_space_def hd_rev)

lemma sample_text_no_space: "c \<in> set (sample_text bs) \<Longrightarrow> \<not> is_space c"
  by (induction bs) (auto simp: is_space_def of_nibble_char nibble_less)

lemma sample_no_limit_laws:
  assumes "hrp \<noteq> []" "to_lower hrp = hrp" "CHR ''1'' \<notin> set hrp" "\<not> is_space (hd hrp)"
  shows "bech32_no_limit_laws sample_lib hrp"
proof -
  have "last (hrp @ ''1'' @ sample_text d) \<in> set (''1'' @ sample_text d)" for d
    by (metis last_appendR last_in_set append_is_Nil_conv list.discI)
  then have last_: "\<not> is_space (last (hrp @ ''1'' @ sample_text d))" for d
    using sample_text_no_space [of "last (hrp @ ''1'' @ sample_text d)" d]
    by (auto simp: is_space_def)
  have lower: "to_lower (hrp @ ''1'' @ sample_text d) = hrp @ ''1'' @ sample_text d" for d
    by (simp only: to_lower_append to_lower_sample_text assms(2)) (simp add: to_lower_def to_lower_char_def)
  have trim: "trim_space (hrp @ ''1'' @ sample_text d) = hrp @ ''1'' @ sample_text d" for d
    using assms(1,4) last_ [of d] by (intro trim_space_ends) simp_all
  have hrp: "split_last CHR ''1'' (hrp @ ''1'' @ sample_text d) = Some hrp" for d
    using split_last_sep [of "CHR ''1''" "sample_text d" hrp] by simp
  have dec: "sample_decode (hrp @ ''1'' @ sample_text d) = Inr (hrp, d)" for d
    using assms(1,3) by (rule sample_decode_text)
  show ?thesis
    unfolding bech32_no_limit_laws_def sample_lib_sel
    by (intro allI exI conjI) (rule refl | simp only: lower trim dec hrp)+
qed

definition sample_address :: address where
  "sample_address = (zero_address [])\<lparr>addr_version := 2, addr_asset_version := 1, addr_amount := 500,
     addr_asset_ref := ''tapr1'' @ sample_text (0 # 1 # 2 # replicate 32 9),
     addr_script_key := 2 # replicate 32 5, addr_internal_key := 3 # replicate 32 6,
     addr_proof_courier := ''universerpc://host''\<rparr>"

lemma sample_address_valid: "valid_address sample_lib sample_address"
proof -
  have "asset_ref_from_group_key sample_lib (2 # replicate 32 9) = Inr (addr_asset_ref sample_address)"
    by (simp add: asset_ref_from_group_key_def encode_asset_ref_def asset_ref_hrp_def sample_address_def
        asset_ref_format_version_def kind_group_key_def)
  moreover have "pub_key sample_lib (2 # replicate 32 9)" by (simp add: sample_pub_key)
  ultimately show ?thesis
    unfolding valid_address_def by (auto simp: sample_address_def zero_address_def pub_key_def)
qed

lemma sample_address_text: "\<exists>s. decode_address sample_lib s = Inr (wire_part s sample_address)"
proof -
  have laws: "bech32_no_limit_laws sample_lib ''tapbc''"
    by (rule sample_no_limit_laws) (simp_all add: to_lower_def to_lower_char_def is_space_def)
  have "tap_hrp_for_network ''mainnet'' = Some ''tapbc''"
    by (simp add: tap_hrp_for_network_def network_defs)
  from encode_decode_address [OF _ this laws sample_address_valid] show ?thesis by simp blast
qed

theorem address_roundtrip_witness:
  "\<exists>s. encode_address sample_lib (Some sample_address) ''mainnet'' = Inr s \<and>
       decode_address sample_lib s = Inr (wire_part s sample_address)"
proof (rule address_roundtrip)
  show "tap_hrp_for_network ''mainnet'' = Some ''tapbc''"
    by (simp add: tap_hrp_for_network_def network_defs)
  show "bech32_no_limit_laws sample_lib ''tapbc''"
    by (rule sample_no_limit_laws) (simp_all add: to_lower_def to_lower_char_def is_space_def)
qed (simp_all add: sample_address_valid)

text \<open>
  Reading is order-checked and the reference is chosen by precedence: every text the decoder
  accepts carries a payload that reads as records of strictly ascending types, each applied once
  in that order; the address names the asset ID when a non-zero asset ID is present, the group key
  when the asset ID is absent or all zero and a group key is present, and the asset ID otherwise.
\<close>

theorem decode_address_ordered:
  assumes "decode_address L encoded = Inr a"
  shows "\<exists>hrp d5 payload rs st.
           bech32_decode_no_limit L (to_lower (trim_space encoded)) = Inr (hrp, d5) \<and> is_known_tap_hrp hrp \<and>
           convert_bits L d5 5 8 False = Inr payload \<and> tlv_reads payload rs \<and> sorted_wrt (<) (map fst rs) \<and>
           fold_res (apply_record L) (init_tlv_state (to_lower (trim_space encoded))) rs = Inr st \<and>
           addr_asset_ref a =
             (if ts_have_asset_id st \<and> (\<not> ts_have_group_key st \<or> \<not> asset_id_is_zero (ts_asset_id st))
              then ts_asset_id_ref st
              else if ts_have_group_key st then ts_group_key_ref st
              else addr_asset_ref (ts_result st))"
proof -
  from assms obtain hrp d5 payload st where
    "bech32_decode_no_limit L (to_lower (trim_space encoded)) = Inr (hrp, d5)" "is_known_tap_hrp hrp"
    "convert_bits L d5 5 8 False = Inr payload"
    "tlv_loop L (init_tlv_state (to_lower (trim_space encoded))) payload = Inr st" and a: "a = finish_address st"
    by (fastforce simp: decode_address_def result_simps Let_def split: option.splits if_splits)
  moreover then obtain rs where "tlv_reads payload rs"
      "fold_res (apply_record L) (init_tlv_state (to_lower (trim_space encoded))) rs = Inr st"
    using tlv_loop_apply by blast
  moreover then have "sorted_wrt (<) (map fst rs)" using fold_apply_record_sorted by blast
  moreover have "addr_asset_ref a =
      (if ts_have_asset_id st \<and> (\<not> ts_have_group_key st \<or> \<not> asset_id_is_zero (ts_asset_id st))
       then ts_asset_id_ref st
       else if ts_have_group_key st then ts_group_key_ref st else addr_asset_ref (ts_result st))"
    by (auto simp: a finish_address_def)
  ultimately show ?thesis by blast
qed


lemma decode_sample_text:
  assumes "\<forall>(t, v) \<in> set rs. length v < 2 ^ 64"
    and "fold_res (apply_record sample_lib) (init_tlv_state (''tapbc1'' @ sample_text (concat (map tlv_record rs)))) rs = Inr st"
  shows "decode_address sample_lib (''tapbc1'' @ sample_text (concat (map tlv_record rs))) = Inr (finish_address st)"
proof -
  define d where "d = concat (map tlv_record rs)"
  have "bech32_no_limit_laws sample_lib ''tapbc''"
    by (rule sample_no_limit_laws) (simp_all add: to_lower_def to_lower_char_def is_space_def)
  then have t: "to_lower (trim_space (''tapbc1'' @ sample_text d)) = ''tapbc1'' @ sample_text d"
    "split_last CHR ''1'' (''tapbc1'' @ sample_text d) = Some ''tapbc''"
    "sample_decode (''tapbc1'' @ sample_text d) = Inr (''tapbc'', d)"
    by (simp_all add: bech32_no_limit_laws_def)
  have hrp: "is_known_tap_hrp ''tapbc''" by (simp add: is_known_tap_hrp_def)
  have loop: "tlv_loop sample_lib (init_tlv_state (''tapbc1'' @ sample_text d)) d = Inr st"
    using assms(2) unfolding d_def by (simp only: tlv_loop_records [OF assms(1)])
  show ?thesis
    unfolding d_def [symmetric] decode_address_def sample_lib_sel Let_def t
    using hrp by (simp only: option.case wrap_with_simps and_then_Inr prod.case loop simp_thms if_False
        if_True list.distinct not_True_eq_False)
qed

theorem decode_address_ordered_witness:
  "\<exists>payload rs st. convert_bits sample_lib (tlv_record (tlv_asset_id, replicate 32 7)) 5 8 False = Inr payload \<and>
     tlv_reads payload rs \<and> sorted_wrt (<) (map fst rs) \<and>
     fold_res (apply_record sample_lib)
       (init_tlv_state (''tapbc1'' @ sample_text (tlv_record (tlv_asset_id, replicate 32 7)))) rs = Inr st"
proof -
  define d where "d = tlv_record (tlv_asset_id, replicate 32 7)"
  let ?t = "''tapbc1'' @ sample_text d"
  obtain st where "apply_record sample_lib (init_tlv_state ?t) (tlv_asset_id, replicate 32 7) = Inr st"
    by (simp add: apply_record_def init_tlv_state_def apply_tlv_def tlv_types asset_ref_from_asset_id_def
        encode_asset_ref_def)
  then have dec: "decode_address sample_lib ?t = Inr (finish_address st)"
    using decode_sample_text [of "[(tlv_asset_id, replicate 32 7)]" st] by (simp add: d_def)
  have "bech32_no_limit_laws sample_lib ''tapbc''"
    by (rule sample_no_limit_laws) (simp_all add: to_lower_def to_lower_char_def is_space_def)
  then have "to_lower (trim_space ?t) = ?t" "sample_decode ?t = Inr (''tapbc'', d)"
    by (simp_all add: bech32_no_limit_laws_def)
  with decode_address_ordered [OF dec] show ?thesis
    unfolding d_def [symmetric] by (simp only: sample_lib_sel) blast
qed

end
