(* ===== verification/Tap_Assets.thy ===== *)
theory Tap_Assets
  imports Tap_AssetRef
begin

text \<open>
  The semantic asset model (\<open>asset.go\<close>, \<open>requests.go\<close>, the aggregation half of \<open>wallet.go\<close>):
  tapd's per-output rows are folded into assets, collections and issuances. The three loops share
  one shape, a map of accumulators plus the order in which keys first appeared; the locale
  \<open>keyed_aggregation\<close> states what that shape guarantees and is interpreted for each of them.
\<close>

section \<open>Rows and business entities\<close>

record key_locator =
  kl_family :: u32
  kl_index :: u32

record key_descriptor =
  kd_raw_key_bytes :: bytes
  kd_locator :: key_locator

record script_key =
  sk_pub_key :: bytes
  sk_key_desc :: key_descriptor
  sk_tap_tweak :: bytes

record internal_key =
  ik_pub_key :: bytes
  ik_locator :: key_locator

record issuance_genesis =
  ig_first_prev_out :: outpoint
  ig_tag :: string
  ig_meta_hash :: bytes
  ig_issuance_id :: bytes
  ig_output_index :: u32
  ig_type :: asset_type

record asset_record =
  ar_asset_ref :: string
  ar_version :: byte
  ar_genesis :: issuance_genesis
  ar_amount :: u64
  ar_lock_time :: u64
  ar_relative_lock_time :: u64
  ar_script_version :: u16
  ar_script_key :: script_key
  ar_anchor_outpoint :: "outpoint option"
  ar_alt_leaves :: "bytes list"

record asset =
  as_asset_ref :: string
  as_type :: asset_type
  as_name :: string
  as_meta_hash :: bytes
  as_amount :: u64
  as_collection_ref :: "string option"

record collection =
  co_asset_ref :: string
  co_item_count :: u64

record issuance =
  is_asset_ref :: string
  is_issuance_id :: bytes
  is_name :: string
  is_meta_hash :: bytes
  is_amount :: u64

definition issuance_ref :: "'k lib \<Rightarrow> issuance \<Rightarrow> string result" where
  "issuance_ref L i = asset_ref_from_asset_id L (is_issuance_id i)"

section \<open>Script-key type queries\<close>

text \<open>\<open>ScriptKeyType\<close> is a \<open>uint8\<close> with the known values 0 to 6.\<close>

definition script_key_type_valid :: "byte \<Rightarrow> bool" where
  "script_key_type_valid t \<longleftrightarrow> t \<in> set [0, 1, 2, 3, 4, 5, 6]"

record script_key_type_query =
  sq_explicit_type :: "byte option"
  sq_all_types :: bool

definition script_key_type_query_validate :: "script_key_type_query option \<Rightarrow> unit result" where
  "script_key_type_query_validate query =
     (case query of
        None \<Rightarrow> Inr ()
      | Some q \<Rightarrow>
          (if sq_explicit_type q \<noteq> None \<and> sq_all_types q
           then Inl (Plain ''script key type query cannot set both explicit type and all types'')
           else case sq_explicit_type q of
                  Some t \<Rightarrow> (if \<not> script_key_type_valid t then Inl (Plain ''unknown script key type'') else Inr ())
                | None \<Rightarrow> Inr ()))"

section \<open>Requests\<close>

record list_assets_request =
  lr_with_witness :: bool
  lr_include_spent :: bool
  lr_include_leased :: bool
  lr_include_unconfirmed_mints :: bool
  lr_min_amount :: u64
  lr_max_amount :: u64
  lr_asset_ref :: "string option"
  lr_anchor_outpoint :: "outpoint option"
  lr_script_key_type :: "script_key_type_query option"

text \<open>The zero value of the request, with a filter on the reference.\<close>

definition list_assets_by_ref :: "string option \<Rightarrow> list_assets_request" where
  "list_assets_by_ref ref =
     \<lparr>lr_with_witness = False, lr_include_spent = False, lr_include_leased = False,
      lr_include_unconfirmed_mints = False, lr_min_amount = 0, lr_max_amount = 0,
      lr_asset_ref = ref, lr_anchor_outpoint = None, lr_script_key_type = None\<rparr>"

text \<open>\<open>ListIssuancesRequest\<close> and \<open>ListCollectionsRequest\<close> hold one optional reference.\<close>

record list_ref_request =
  rr_asset_ref :: "string option"

record list_collection_items_request =
  ci_collection_ref :: "string option"
  ci_asset_ref :: "string option"

definition list_assets_to_records_req :: "list_assets_request option \<Rightarrow> list_assets_request option" where
  "list_assets_to_records_req req =
     (case req of
        None \<Rightarrow> None
      | Some r \<Rightarrow> Some (r\<lparr>lr_min_amount := 0, lr_max_amount := 0\<rparr>))"

definition list_issuances_to_records_req :: "list_ref_request option \<Rightarrow> list_assets_request option" where
  "list_issuances_to_records_req req =
     (case req of None \<Rightarrow> None | Some r \<Rightarrow> Some (list_assets_by_ref (rr_asset_ref r)))"

definition list_collections_to_records_req :: "list_ref_request option \<Rightarrow> list_assets_request option" where
  "list_collections_to_records_req req =
     (case req of None \<Rightarrow> None | Some r \<Rightarrow> Some (list_assets_by_ref (rr_asset_ref r)))"

definition list_collection_items_to_records_req ::
  "list_collection_items_request option \<Rightarrow> list_assets_request option" where
  "list_collection_items_to_records_req req =
     (case req of
        None \<Rightarrow> None
      | Some r \<Rightarrow> Some (list_assets_by_ref
          (case ci_collection_ref r of
             Some c \<Rightarrow> Some c
           | None \<Rightarrow> (case ci_asset_ref r of Some a \<Rightarrow> Some a | None \<Rightarrow> None))))"

section \<open>Aggregation loops\<close>

text \<open>The map of accumulators and the slice of keys that the loops build.\<close>

type_synonym ('k, 'a) accs = "('k \<rightharpoonup> 'a) \<times> 'k list"

definition no_accs :: "('k, 'a) accs" where
  "no_accs = (Map.empty, [])"

text \<open>\<open>acc, ok := accs[key]; if !ok { accs[key] = fresh; order = append(order, key) }\<close>.\<close>

definition find_or_add :: "'k \<Rightarrow> 'a \<Rightarrow> ('k, 'a) accs \<Rightarrow> 'a \<times> ('k, 'a) accs" where
  "find_or_add key fresh = (\<lambda>(accs, order).
     (case accs key of
        Some acc \<Rightarrow> (acc, accs, order)
      | None \<Rightarrow> (fresh, accs(key \<mapsto> fresh), order @ [key])))"

text \<open>The closing loop \<open>for _, key := range order { out = append(out, accs[key]) }\<close>.\<close>

definition collect :: "('k, 'a) accs \<Rightarrow> 'a list" where
  "collect = (\<lambda>(accs, order). map (the \<circ> accs) order)"

definition add_saturating_uint64 :: "u64 \<Rightarrow> u64 \<Rightarrow> u64" where
  "add_saturating_uint64 a b = (case add64 a b of None \<Rightarrow> 0xffffffffffffffff | Some s \<Rightarrow> s)"

subsection \<open>Assets\<close>

definition asset_from_record :: "'k lib \<Rightarrow> asset_record \<Rightarrow> asset result" where
  "asset_from_record L r =
     (let asset = (\<lambda>ref coll.
            \<lparr>as_asset_ref = ref, as_type = ig_type (ar_genesis r), as_name = ig_tag (ar_genesis r),
             as_meta_hash = ig_meta_hash (ar_genesis r), as_amount = 0, as_collection_ref = coll\<rparr>) in
      if ig_type (ar_genesis r) = asset_type_collectible \<and> is_group_ref L (ar_asset_ref r)
      then and_then (asset_ref_from_asset_id L (ig_issuance_id (ar_genesis r)))
             (\<lambda>ref. Inr (asset ref (Some (ar_asset_ref r))))
      else Inr (asset (ar_asset_ref r) None))"

record asset_accumulator =
  aa_asset :: asset
  aa_seen_nft_ids :: "bytes list"

text \<open>
  One round of the loop of \<open>assetsFromRecords\<close>. The set of NFT IDs is a list of distinct
  elements.
\<close>

definition assets_step ::
  "'k lib \<Rightarrow> (string, asset_accumulator) accs \<Rightarrow> asset_record option \<Rightarrow>
   (string, asset_accumulator) accs result" where
  "assets_step L st record_ptr =
     (case record_ptr of
        None \<Rightarrow> Inr st
      | Some r \<Rightarrow>
        and_then (asset_from_record L r) (\<lambda>asset.
          (let key = as_asset_ref asset;
               (acc, accs, order) = find_or_add key \<lparr>aa_asset = asset, aa_seen_nft_ids = []\<rparr> st;
               iid = ig_issuance_id (ar_genesis r);
               add = (\<lambda>acc. acc\<lparr>aa_asset := (aa_asset acc)\<lparr>as_amount :=
                        add_saturating_uint64 (as_amount (aa_asset acc)) (ar_amount r)\<rparr>\<rparr>)
           in if ig_type (ar_genesis r) = asset_type_collectible
              then (if iid \<in> set (aa_seen_nft_ids acc) then Inr (accs, order)
                    else Inr (accs(key \<mapsto> add (acc\<lparr>aa_seen_nft_ids := iid # aa_seen_nft_ids acc\<rparr>)), order))
              else Inr (accs(key \<mapsto> add acc), order))))"

definition assets_from_records :: "'k lib \<Rightarrow> asset_record option list \<Rightarrow> asset list result" where
  "assets_from_records L records =
     and_then (fold_res (assets_step L) no_accs records) (\<lambda>st. Inr (map aa_asset (collect st)))"

definition filter_assets_by_amount :: "asset list \<Rightarrow> list_assets_request option \<Rightarrow> asset list" where
  "filter_assets_by_amount assets req =
     (case req of
        None \<Rightarrow> assets
      | Some r \<Rightarrow>
          (if lr_min_amount r = 0 \<and> lr_max_amount r = 0 then assets
           else filter (\<lambda>a. \<not> (lr_min_amount r \<noteq> 0 \<and> as_amount a < lr_min_amount r) \<and>
                            \<not> (lr_max_amount r \<noteq> 0 \<and> lr_max_amount r < as_amount a)) assets))"

subsection \<open>Collections\<close>

record collection_accumulator =
  ca_collection :: collection
  ca_item_ids :: "bytes list"

definition collections_step ::
  "'k lib \<Rightarrow> (string, collection_accumulator) accs \<Rightarrow> asset_record option \<Rightarrow>
   (string, collection_accumulator) accs result" where
  "collections_step L st record_ptr =
     (case record_ptr of
        None \<Rightarrow> Inr st
      | Some r \<Rightarrow>
        (if ig_type (ar_genesis r) \<noteq> asset_type_collectible \<or> \<not> is_group_ref L (ar_asset_ref r) then Inr st
         else
           (let key = ar_asset_ref r;
                (acc, accs, order) = find_or_add key
                  \<lparr>ca_collection = \<lparr>co_asset_ref = ar_asset_ref r, co_item_count = 0\<rparr>, ca_item_ids = []\<rparr> st;
                ids = List.insert (ig_issuance_id (ar_genesis r)) (ca_item_ids acc)
            in Inr (accs(key \<mapsto> acc\<lparr>ca_item_ids := ids,
                      ca_collection := (ca_collection acc)\<lparr>co_item_count := of_nat (length ids)\<rparr>\<rparr>), order))))"

definition collections_from_records :: "'k lib \<Rightarrow> asset_record option list \<Rightarrow> collection list result" where
  "collections_from_records L records =
     and_then (fold_res (collections_step L) no_accs records) (\<lambda>st. Inr (map ca_collection (collect st)))"

subsection \<open>Issuances\<close>

definition hex_char :: "nat \<Rightarrow> char" where
  "hex_char n = (if n < 10 then char_of (48 + n) else char_of (87 + n))"

text \<open>\<open>hex.EncodeToString\<close>, which \<open>AssetID.String\<close> returns.\<close>

definition hex_encode :: "bytes \<Rightarrow> string" where
  "hex_encode bs = concat (map (\<lambda>b. [hex_char (unat b div 16), hex_char (unat b mod 16)]) bs)"

definition issuance_key :: "asset_record \<Rightarrow> string" where
  "issuance_key r = ar_asset_ref r @ ''/'' @ hex_encode (ig_issuance_id (ar_genesis r))"

definition issuances_step ::
  "(string, issuance) accs \<Rightarrow> asset_record option \<Rightarrow> (string, issuance) accs result" where
  "issuances_step st record_ptr =
     (case record_ptr of
        None \<Rightarrow> Inr st
      | Some r \<Rightarrow>
        (if ig_type (ar_genesis r) \<noteq> asset_type_normal then Inr st
         else
           (let key = issuance_key r;
                (acc, accs, order) = find_or_add key
                  \<lparr>is_asset_ref = ar_asset_ref r, is_issuance_id = ig_issuance_id (ar_genesis r),
                   is_name = ig_tag (ar_genesis r), is_meta_hash = ig_meta_hash (ar_genesis r),
                   is_amount = 0\<rparr> st
            in Inr (accs(key \<mapsto> acc\<lparr>is_amount := add_saturating_uint64 (is_amount acc) (ar_amount r)\<rparr>),
                    order))))"

definition issuances_from_records :: "asset_record option list \<Rightarrow> issuance list result" where
  "issuances_from_records records =
     and_then (fold_res issuances_step no_accs records) (\<lambda>st. Inr (collect st))"


section \<open>What the loops guarantee\<close>

text \<open>
  The shape of the three loops: \<open>proj\<close> says whether a row is skipped, or else its key and the
  accumulator a first row of that key starts; \<open>upd\<close> adds a row to its accumulator.
\<close>

definition keyed_step ::
  "('r \<Rightarrow> 'e + ('k \<times> 'a) option) \<Rightarrow> ('a \<Rightarrow> 'r \<Rightarrow> 'a) \<Rightarrow> ('k, 'a) accs \<Rightarrow> 'r \<Rightarrow> 'e + ('k, 'a) accs" where
  "keyed_step proj upd st r =
     and_then (proj r) (\<lambda>p.
       case p of
         None \<Rightarrow> Inr st
       | Some (key, fresh) \<Rightarrow>
           (let (acc, accs, order) = find_or_add key fresh st in Inr (accs(key \<mapsto> upd acc r), order)))"

definition has_key :: "('r \<Rightarrow> 'e + ('k \<times> 'a) option) \<Rightarrow> 'k \<Rightarrow> 'r \<Rightarrow> bool" where
  "has_key proj key r \<longleftrightarrow> (case proj r of Inr (Some (k, _)) \<Rightarrow> k = key | _ \<Rightarrow> False)"

lemma has_key_iff: "has_key proj key r \<longleftrightarrow> (\<exists>a. proj r = Inr (Some (key, a)))"
  by (auto simp: has_key_def split: sum.splits option.splits)

lemma find_append:
  "find P xs = Some x \<Longrightarrow> find P (xs @ ys) = Some x"
  "find P xs = None \<Longrightarrow> find P (xs @ ys) = find P ys"
  by (induction xs) (auto split: if_splits)

text \<open>The entry of a key: the fold of its rows, in order, from what the first of them starts.\<close>

definition entry_of ::
  "('r \<Rightarrow> 'e + ('k \<times> 'a) option) \<Rightarrow> ('a \<Rightarrow> 'r \<Rightarrow> 'a) \<Rightarrow> 'r list \<Rightarrow> 'k \<Rightarrow> 'a \<Rightarrow> bool" where
  "entry_of proj upd rows k acc \<longleftrightarrow>
     (\<exists>r0 fresh. find (has_key proj k) rows = Some r0 \<and> proj r0 = Inr (Some (k, fresh)) \<and>
        acc = foldl upd fresh (filter (has_key proj k) rows))"

lemma entry_new:
  assumes "\<forall>r' \<in> set rows. \<not> has_key proj k r'" and "proj r = Inr (Some (k, fresh))"
  shows "entry_of proj upd (rows @ [r]) k (upd fresh r)"
proof -
  have "has_key proj k r" using assms(2) by (simp add: has_key_def)
  moreover have "find (has_key proj k) rows = None" "filter (has_key proj k) rows = []"
    using assms(1) by (auto simp: find_None_iff filter_empty_conv)
  ultimately show ?thesis using assms(2) by (simp add: entry_of_def find_append)
qed

lemma entry_more:
  "entry_of proj upd rows k acc \<Longrightarrow> has_key proj k r \<Longrightarrow> entry_of proj upd (rows @ [r]) k (upd acc r)"
  by (auto simp: entry_of_def find_append)

lemma entry_keep:
  "entry_of proj upd rows k acc \<Longrightarrow> \<not> has_key proj k r \<Longrightarrow> entry_of proj upd (rows @ [r]) k acc"
  by (auto simp: entry_of_def find_append)

text \<open>The elements of a list in the order of their first appearance.\<close>

primrec first_seen :: "'a list \<Rightarrow> 'a list" where
  "first_seen [] = []"
| "first_seen (x # xs) = x # filter (\<lambda>y. y \<noteq> x) (first_seen xs)"

lemma set_first_seen [simp]: "set (first_seen xs) = set xs"
  by (induction xs) auto

lemma first_seen_snoc: "first_seen (xs @ [y]) = (if y \<in> set xs then first_seen xs else first_seen xs @ [y])"
  by (induction xs) auto

text \<open>The keys of the rows that are not skipped.\<close>

definition row_keys :: "('r \<Rightarrow> 'e + ('k \<times> 'a) option) \<Rightarrow> 'r list \<Rightarrow> 'k list" where
  "row_keys proj rows =
     List.map_filter (\<lambda>r. case proj r of Inl _ \<Rightarrow> None | Inr p \<Rightarrow> map_option fst p) rows"

lemma row_keys_snoc:
  "row_keys proj (rows @ [r]) =
     row_keys proj rows @ (case proj r of Inl _ \<Rightarrow> [] | Inr None \<Rightarrow> [] | Inr (Some (k, _)) \<Rightarrow> [k])"
  by (simp add: row_keys_def List.map_filter_def split: sum.split option.split)

locale keyed_aggregation =
  fixes proj :: "'r \<Rightarrow> 'e + ('k \<times> 'a) option"
    and upd :: "'a \<Rightarrow> 'r \<Rightarrow> 'a"
    and key_of :: "'a \<Rightarrow> 'k"
  assumes key_fresh: "proj r = Inr (Some (key, fresh)) \<Longrightarrow> key_of fresh = key"
    and key_upd: "proj r = Inr (Some (key, fresh)) \<Longrightarrow> key_of acc = key \<Longrightarrow> key_of (upd acc r) = key"
begin

lemma aggregated:
  assumes "fold_res (keyed_step proj upd) no_accs rows = Inr (accs, order)"
  shows "distinct order \<and> dom accs = set order \<and> order = first_seen (row_keys proj rows) \<and>
         (\<forall>r \<in> set rows. \<forall>k. has_key proj k r \<longrightarrow> k \<in> set order) \<and>
         (\<forall>k acc. accs k = Some acc \<longrightarrow> key_of acc = k \<and> entry_of proj upd rows k acc)"
  using assms
proof (induction rows arbitrary: accs order rule: rev_induct)
  case Nil
  then show ?case by (auto simp: no_accs_def row_keys_def List.map_filter_simps)
next
  case (snoc r rows)
  from snoc.prems obtain accs' order' where
    pre: "fold_res (keyed_step proj upd) no_accs rows = Inr (accs', order')" and
    step: "keyed_step proj upd (accs', order') r = Inr (accs, order)"
    by (auto simp: fold_res_append result_simps)
  note IH = snoc.IH [OF pre]
  from step consider (skip) "proj r = Inr None" | (row) key fresh where "proj r = Inr (Some (key, fresh))"
    unfolding keyed_step_def and_then_eq_Inr by (metis option.exhaust surj_pair)
  then show ?case
  proof cases
    case skip
    then have "\<not> has_key proj k r" for k by (simp add: has_key_def)
    with IH step skip show ?thesis
      by (auto simp: keyed_step_def row_keys_snoc intro: entry_keep)
  next
    case row
    have hk: "has_key proj k r \<longleftrightarrow> k = key" for k by (auto simp: has_key_def row)
    have doms: "x \<in> set order' \<longleftrightarrow> (\<exists>y. accs' x = Some y)" for x
      using IH by blast
    have keys: "first_seen (row_keys proj (rows @ [r])) = (if key \<in> set order' then order' else order' @ [key])"
      using IH by (simp add: row_keys_snoc row first_seen_snoc)
    show ?thesis
    proof (cases "accs' key")
      case None
      then have absent: "key \<notin> set order'" using IH by blast
      then have "entry_of proj upd (rows @ [r]) key (upd fresh r)"
        using IH row by (intro entry_new) blast+
      moreover from step None have "accs = accs'(key \<mapsto> upd fresh r)" "order = order' @ [key]"
        by (auto simp: keyed_step_def row find_or_add_def)
      ultimately show ?thesis
        using IH absent doms key_upd [OF row key_fresh [OF row]] by (auto simp: hk keys intro: entry_keep split: if_splits)
    next
      case (Some acc)
      from step Some have "accs = accs'(key \<mapsto> upd acc r)" "order = order'"
        by (auto simp: keyed_step_def row find_or_add_def)
      moreover from IH Some have "key_of acc = key" "key \<in> set order'" "entry_of proj upd rows key acc"
        by auto
      ultimately show ?thesis
        using IH doms key_upd [OF row] by (auto simp: hk keys intro: entry_keep entry_more split: if_splits)
    qed
  qed
qed

lemma collected:
  assumes "fold_res (keyed_step proj upd) no_accs rows = Inr st"
  shows "distinct (map key_of (collect st))"
    and "set (map key_of (collect st)) = {k. \<exists>r \<in> set rows. has_key proj k r}"
    and "acc \<in> set (collect st) \<Longrightarrow> entry_of proj upd rows (key_of acc) acc"
    and "map key_of (collect st) = first_seen (row_keys proj rows)"
proof -
  obtain accs order where st: "st = (accs, order)" by (cases st)
  note agg = aggregated [OF assms [unfolded st]]
  have known: "k \<in> set order \<Longrightarrow> \<exists>acc. accs k = Some acc \<and> key_of acc = k \<and> entry_of proj upd rows k acc" for k
    using agg by (metis domD)
  then have keys: "map key_of (collect st) = order"
    by (force simp: st collect_def intro!: map_idI)
  show "distinct (map key_of (collect st))" "map key_of (collect st) = first_seen (row_keys proj rows)"
    unfolding keys using agg by blast+
  have "k \<in> set order \<longleftrightarrow> (\<exists>r \<in> set rows. has_key proj k r)" for k
  proof (rule iffI)
    assume "k \<in> set order"
    with known [of k] obtain r0 where "find (has_key proj k) rows = Some r0" by (auto simp: entry_of_def)
    then show "\<exists>r \<in> set rows. has_key proj k r" by (metis find_Some_iff nth_mem)
  qed (use agg in blast)
  then show "set (map key_of (collect st)) = {k. \<exists>r \<in> set rows. has_key proj k r}"
    unfolding keys by blast
  show "entry_of proj upd rows (key_of acc) acc" if "acc \<in> set (collect st)"
    using that known by (force simp: st collect_def)
qed

end


section \<open>The three loops as keyed aggregations\<close>

text \<open>Nil rows are skipped; \<open>lift_row\<close> adds that case.\<close>

definition lift_row :: "('r \<Rightarrow> ('k \<times> 'a) option result) \<Rightarrow> 'r option \<Rightarrow> ('k \<times> 'a) option result" where
  "lift_row proj r = (case r of None \<Rightarrow> Inr None | Some row \<Rightarrow> proj row)"

definition lift_upd :: "('a \<Rightarrow> 'r \<Rightarrow> 'a) \<Rightarrow> 'a \<Rightarrow> 'r option \<Rightarrow> 'a" where
  "lift_upd upd acc r = (case r of None \<Rightarrow> acc | Some row \<Rightarrow> upd acc row)"

lemma lift_simps [simp]:
  "lift_row proj None = Inr None" "lift_row proj (Some row) = proj row"
  "lift_upd upd acc None = acc" "lift_upd upd acc (Some row) = upd acc row"
  by (simp_all add: lift_row_def lift_upd_def)

lemma lift_row_eq [simp]:
  "lift_row proj r = Inr (Some p) \<longleftrightarrow> (\<exists>row. r = Some row \<and> proj row = Inr (Some p))"
  by (cases r) auto

definition assets_proj :: "'k lib \<Rightarrow> asset_record \<Rightarrow> (string \<times> asset_accumulator) option result" where
  "assets_proj L r = and_then (asset_from_record L r)
     (\<lambda>a. Inr (Some (as_asset_ref a, \<lparr>aa_asset = a, aa_seen_nft_ids = []\<rparr>)))"

definition assets_upd :: "asset_accumulator \<Rightarrow> asset_record \<Rightarrow> asset_accumulator" where
  "assets_upd acc r =
     (let iid = ig_issuance_id (ar_genesis r);
          add = (\<lambda>acc. acc\<lparr>aa_asset := (aa_asset acc)\<lparr>as_amount :=
                   add_saturating_uint64 (as_amount (aa_asset acc)) (ar_amount r)\<rparr>\<rparr>)
      in if ig_type (ar_genesis r) = asset_type_collectible
         then (if iid \<in> set (aa_seen_nft_ids acc) then acc
               else add (acc\<lparr>aa_seen_nft_ids := iid # aa_seen_nft_ids acc\<rparr>))
         else add acc)"

lemma find_or_add_stored:
  "find_or_add key fresh st = (acc, accs, order) \<Longrightarrow> accs(key \<mapsto> acc) = accs"
  by (auto simp: find_or_add_def split: prod.splits option.splits)

lemma assets_step_keyed: "assets_step L = keyed_step (lift_row (assets_proj L)) (lift_upd assets_upd)"
proof (intro ext)
  fix st r
  show "assets_step L st r = keyed_step (lift_row (assets_proj L)) (lift_upd assets_upd) st r"
  proof (cases r)
    case None
    then show ?thesis by (simp add: assets_step_def keyed_step_def)
  next
    case (Some row)
    show ?thesis
    proof (cases "asset_from_record L row")
      case (Inl e)
      then show ?thesis by (simp add: Some assets_step_def keyed_step_def assets_proj_def)
    next
      case (Inr a)
      obtain acc accs order where fa:
        "find_or_add (as_asset_ref a) \<lparr>aa_asset = a, aa_seen_nft_ids = []\<rparr> st = (acc, accs, order)"
        by (metis prod_cases3)
      from find_or_add_stored [OF fa] show ?thesis
        by (simp add: Some Inr fa assets_step_def keyed_step_def assets_proj_def assets_upd_def Let_def)
    qed
  qed
qed

interpretation assets_agg: keyed_aggregation
  "lift_row (assets_proj L)" "lift_upd assets_upd" "\<lambda>acc. as_asset_ref (aa_asset acc)" for L :: "'k lib"
  by unfold_locales (auto simp: assets_proj_def assets_upd_def result_simps Let_def)

definition collections_proj :: "'k lib \<Rightarrow> asset_record \<Rightarrow> (string \<times> collection_accumulator) option result" where
  "collections_proj L r =
     (if ig_type (ar_genesis r) \<noteq> asset_type_collectible \<or> \<not> is_group_ref L (ar_asset_ref r) then Inr None
      else Inr (Some (ar_asset_ref r,
        \<lparr>ca_collection = \<lparr>co_asset_ref = ar_asset_ref r, co_item_count = 0\<rparr>, ca_item_ids = []\<rparr>)))"

definition collections_upd :: "collection_accumulator \<Rightarrow> asset_record \<Rightarrow> collection_accumulator" where
  "collections_upd acc r =
     (let ids = List.insert (ig_issuance_id (ar_genesis r)) (ca_item_ids acc)
      in acc\<lparr>ca_item_ids := ids, ca_collection := (ca_collection acc)\<lparr>co_item_count := of_nat (length ids)\<rparr>\<rparr>)"

lemma collections_step_keyed:
  "collections_step L = keyed_step (lift_row (collections_proj L)) (lift_upd collections_upd)"
  by (intro ext)
    (auto simp: collections_step_def keyed_step_def lift_row_def lift_upd_def collections_proj_def
      collections_upd_def Let_def split: option.splits prod.splits)

interpretation collections_agg: keyed_aggregation
  "lift_row (collections_proj L)" "lift_upd collections_upd" "\<lambda>acc. co_asset_ref (ca_collection acc)"
  for L :: "'k lib"
  by unfold_locales (auto simp: collections_proj_def collections_upd_def Let_def split: if_splits)

definition issuances_proj :: "asset_record \<Rightarrow> (string \<times> issuance) option result" where
  "issuances_proj r =
     (if ig_type (ar_genesis r) \<noteq> asset_type_normal then Inr None
      else Inr (Some (issuance_key r,
        \<lparr>is_asset_ref = ar_asset_ref r, is_issuance_id = ig_issuance_id (ar_genesis r),
         is_name = ig_tag (ar_genesis r), is_meta_hash = ig_meta_hash (ar_genesis r), is_amount = 0\<rparr>)))"

definition issuances_upd :: "issuance \<Rightarrow> asset_record \<Rightarrow> issuance" where
  "issuances_upd acc r = acc\<lparr>is_amount := add_saturating_uint64 (is_amount acc) (ar_amount r)\<rparr>"

lemma issuances_step_keyed:
  "issuances_step = keyed_step (lift_row issuances_proj) (lift_upd issuances_upd)"
  by (intro ext)
    (auto simp: issuances_step_def keyed_step_def lift_row_def lift_upd_def issuances_proj_def
      issuances_upd_def Let_def split: option.splits prod.splits)

interpretation issuances_agg: keyed_aggregation
  "lift_row issuances_proj" "lift_upd issuances_upd"
  "\<lambda>i. is_asset_ref i @ ''/'' @ hex_encode (is_issuance_id i)"
  by unfold_locales (auto simp: issuances_proj_def issuances_upd_def issuance_key_def split: if_splits)


section \<open>Functional contracts\<close>

text \<open>The rows that are there, nil pointers left out.\<close>

definition present :: "'r option list \<Rightarrow> 'r list" where
  "present rs = List.map_filter (\<lambda>r. r) rs"

lemma present_simps [simp]:
  "present [] = []" "present (None # rs) = present rs" "present (Some r # rs) = r # present rs"
  by (simp_all add: present_def List.map_filter_simps)

lemma set_present [simp]: "set (present rs) = {r. Some r \<in> set rs}"
proof (induction rs)
  case (Cons r rs)
  then show ?case by (cases r) auto
qed simp

lemma has_key_lift [simp]:
  "has_key (lift_row proj) k None = False" "has_key (lift_row proj) k (Some r) = has_key proj k r"
  by (simp_all add: has_key_def)

lemma foldl_lift:
  "foldl (lift_upd upd) acc (filter (has_key (lift_row proj) k) rs) =
   foldl upd acc (filter (has_key proj k) (present rs))"
proof (induction rs arbitrary: acc)
  case (Cons r rs)
  then show ?case by (cases r) simp_all
qed simp

lemma find_lift: "find (has_key (lift_row proj) k) rs = map_option Some (find (has_key proj k) (present rs))"
proof (induction rs)
  case (Cons r rs)
  then show ?case by (cases r) simp_all
qed simp

lemma entry_of_lift: "entry_of (lift_row proj) (lift_upd upd) rs k acc \<longleftrightarrow> entry_of proj upd (present rs) k acc"
  by (auto simp: entry_of_def foldl_lift find_lift)

lemma ex_lift: "(\<exists>r \<in> set rs. has_key (lift_row proj) k r) \<longleftrightarrow> (\<exists>r \<in> set (present rs). has_key proj k r)"
proof (induction rs)
  case (Cons r rs)
  then show ?case by (cases r) simp_all
qed simp

lemma find_filter_hd: "find P rs = Some r \<Longrightarrow> \<exists>rest. filter P rs = r # rest"
  by (induction rs) (auto split: if_splits)

text \<open>Saturating sums.\<close>

definition sat :: "nat \<Rightarrow> nat" where
  "sat n = min n (2 ^ 64 - 1)"

lemma unat_add_saturating: "unat (add_saturating_uint64 a b) = sat (unat a + unat b)"
proof (cases "add64 a b")
  case None
  then have "2 ^ 64 \<le> unat a + unat b" by (simp only: add64_None)
  with None show ?thesis by (simp add: add_saturating_uint64_def sat_def)
next
  case (Some c)
  then have "unat a + unat b < 2 ^ 64" "unat c = unat a + unat b" by (auto simp only: add64_Some)
  with Some show ?thesis by (simp add: add_saturating_uint64_def sat_def)
qed

lemma sat_add: "sat (sat m + n) = sat (m + n)"
  by (simp add: sat_def)

lemma foldl_assets_fungible:
  assumes "\<forall>r \<in> set rows. ig_type (ar_genesis r) \<noteq> asset_type_collectible"
  shows "unat (as_amount (aa_asset (foldl assets_upd acc rows))) =
         sat (unat (as_amount (aa_asset acc)) + (\<Sum>r\<leftarrow>rows. unat (ar_amount r)))"
  using assms
proof (induction rows arbitrary: acc)
  case Nil
  have "unat (as_amount (aa_asset acc)) < 2 ^ 64"
    using unsigned_less [of "as_amount (aa_asset acc)", where 'a = nat] by simp
  then show ?case by (simp add: sat_def)
next
  case (Cons r rows)
  then show ?case by (simp add: assets_upd_def Let_def unat_add_saturating sat_add add.assoc)
qed

lemma foldl_assets_seen:
  assumes "\<forall>r \<in> set rows. ig_type (ar_genesis r) = asset_type_collectible \<and>
             ig_issuance_id (ar_genesis r) \<in> set (aa_seen_nft_ids acc)"
  shows "foldl assets_upd acc rows = acc"
  using assms by (induction rows) (auto simp: assets_upd_def Let_def)

lemma foldl_assets_fields:
  "as_asset_ref (aa_asset (foldl assets_upd acc rows)) = as_asset_ref (aa_asset acc)"
  "as_type (aa_asset (foldl assets_upd acc rows)) = as_type (aa_asset acc)"
  "as_collection_ref (aa_asset (foldl assets_upd acc rows)) = as_collection_ref (aa_asset acc)"
  by (induction rows arbitrary: acc) (auto simp: assets_upd_def Let_def)

text \<open>The rows that belong to one asset of the list.\<close>

definition rows_of :: "'k lib \<Rightarrow> string \<Rightarrow> asset_record option list \<Rightarrow> asset_record list" where
  "rows_of L ref records =
     filter (\<lambda>r. case asset_from_record L r of Inr a \<Rightarrow> as_asset_ref a = ref | Inl _ \<Rightarrow> False) (present records)"

lemma rows_of_key: "rows_of L ref records = filter (has_key (assets_proj L) ref) (present records)"
  by (auto simp: rows_of_def has_key_def assets_proj_def and_then_def intro!: filter_cong split: sum.splits)

lemma assets_entry:
  assumes "assets_from_records L records = Inr out" and "a \<in> set out"
  shows "\<exists>r0 a0 rest. rows_of L (as_asset_ref a) records = r0 # rest \<and> asset_from_record L r0 = Inr a0 \<and>
           a = aa_asset (foldl assets_upd \<lparr>aa_asset = a0, aa_seen_nft_ids = []\<rparr> (r0 # rest))"
proof -
  from assms(1) obtain st where
    st: "fold_res (keyed_step (lift_row (assets_proj L)) (lift_upd assets_upd)) no_accs records = Inr st"
    and out: "out = map aa_asset (collect st)"
    by (auto simp: assets_from_records_def assets_step_keyed result_simps)
  from assms(2) out obtain acc where "acc \<in> set (collect st)" and a: "a = aa_asset acc" by auto
  then have "entry_of (assets_proj L) assets_upd (present records) (as_asset_ref a) acc"
    using assets_agg.collected(3) [OF st] by (simp add: entry_of_lift)
  then obtain r0 fresh where fnd: "find (has_key (assets_proj L) (as_asset_ref a)) (present records) = Some r0"
    and r0: "assets_proj L r0 = Inr (Some (as_asset_ref a, fresh))"
    and acc: "acc = foldl assets_upd fresh (rows_of L (as_asset_ref a) records)"
    by (auto simp: entry_of_def rows_of_key)
  from find_filter_hd [OF fnd] obtain rest where rows: "rows_of L (as_asset_ref a) records = r0 # rest"
    by (auto simp: rows_of_key)
  from r0 obtain a0 where a0: "asset_from_record L r0 = Inr a0" "fresh = \<lparr>aa_asset = a0, aa_seen_nft_ids = []\<rparr>"
    by (auto simp: assets_proj_def result_simps)
  have "acc = foldl assets_upd \<lparr>aa_asset = a0, aa_seen_nft_ids = []\<rparr> (r0 # rest)"
    using acc unfolding rows a0(2) .
  with a have "a = aa_asset (foldl assets_upd \<lparr>aa_asset = a0, aa_seen_nft_ids = []\<rparr> (r0 # rest))"
    by (simp only:)
  with rows a0(1) show ?thesis by blast
qed

text \<open>The reference of each row, in the order of the rows.\<close>

definition row_refs :: "'k lib \<Rightarrow> asset_record option list \<Rightarrow> string list" where
  "row_refs L records =
     List.map_filter (\<lambda>r. case asset_from_record L r of Inr a \<Rightarrow> Some (as_asset_ref a) | Inl _ \<Rightarrow> None) (present records)"

lemma row_keys_refs: "row_keys (lift_row (assets_proj L)) records = row_refs L records"
proof (induction records)
  case (Cons r records)
  then show ?case
    by (cases r)
      (auto simp: row_keys_def row_refs_def List.map_filter_simps assets_proj_def and_then_def split: sum.split option.split)
qed (simp add: row_keys_def row_refs_def List.map_filter_simps)

lemma asset_from_record_amount: "asset_from_record L r = Inr a \<Longrightarrow> as_amount a = 0"
  by (auto simp: asset_from_record_def Let_def result_simps split: if_splits)

text \<open>
  C31. One row per asset: \<open>ListAssets\<close> returns the references of the rows it was given, each once, in
  the order in which they first appear; a fungible asset's amount is the sum of all its rows, capped at the largest
  \<open>uint64\<close>; and an NFT seen in several rows of one issuance counts the first of them only.
\<close>

theorem assets_aggregate:
  assumes "assets_from_records L records = Inr out"
  shows "map as_asset_ref out = first_seen (row_refs L records) \<and> distinct (map as_asset_ref out) \<and>
         (\<forall>ref. ref \<in> set (map as_asset_ref out) \<longleftrightarrow> rows_of L ref records \<noteq> []) \<and>
         (\<forall>a \<in> set out.
            ((\<forall>r \<in> set (rows_of L (as_asset_ref a) records). ig_type (ar_genesis r) \<noteq> asset_type_collectible) \<longrightarrow>
               unat (as_amount a) =
                 min (\<Sum>r\<leftarrow>rows_of L (as_asset_ref a) records. unat (ar_amount r)) (2 ^ 64 - 1)) \<and>
            (\<forall>i. (\<forall>r \<in> set (rows_of L (as_asset_ref a) records).
                    ig_type (ar_genesis r) = asset_type_collectible \<and> ig_issuance_id (ar_genesis r) = i) \<longrightarrow>
               as_amount a = ar_amount (hd (rows_of L (as_asset_ref a) records))))"
proof (intro conjI allI ballI impI)
  from assms obtain st where
    st: "fold_res (keyed_step (lift_row (assets_proj L)) (lift_upd assets_upd)) no_accs records = Inr st"
    and out: "out = map aa_asset (collect st)"
    by (auto simp: assets_from_records_def assets_step_keyed result_simps)
  from assets_agg.collected(1) [OF st] show "distinct (map as_asset_ref out)" by (simp add: out o_def)
  from assets_agg.collected(4) [OF st] show "map as_asset_ref out = first_seen (row_refs L records)"
    by (simp add: out o_def row_keys_refs)
  show "ref \<in> set (map as_asset_ref out) \<longleftrightarrow> rows_of L ref records \<noteq> []" for ref
    using assets_agg.collected(2) [OF st]
    by (auto simp: out o_def rows_of_key filter_empty_conv ex_lift image_image)
next
  fix a
  assume "a \<in> set out"
  from assets_entry [OF assms this] obtain r0 a0 rest where
    e: "rows_of L (as_asset_ref a) records = r0 # rest" "asset_from_record L r0 = Inr a0"
    and a: "a = aa_asset (foldl assets_upd \<lparr>aa_asset = a0, aa_seen_nft_ids = []\<rparr> (r0 # rest))" by blast
  note zero = asset_from_record_amount [OF e(2)]
  show "unat (as_amount a) = min (\<Sum>r\<leftarrow>rows_of L (as_asset_ref a) records. unat (ar_amount r)) (2 ^ 64 - 1)"
    if "\<forall>r \<in> set (rows_of L (as_asset_ref a) records). ig_type (ar_genesis r) \<noteq> asset_type_collectible"
    using that foldl_assets_fungible [of "r0 # rest" "\<lparr>aa_asset = a0, aa_seen_nft_ids = []\<rparr>"] zero
    unfolding e(1) by (simp add: a sat_def)
  show "as_amount a = ar_amount (hd (rows_of L (as_asset_ref a) records))"
    if nft: "\<forall>r \<in> set (rows_of L (as_asset_ref a) records).
               ig_type (ar_genesis r) = asset_type_collectible \<and> ig_issuance_id (ar_genesis r) = i" for i
  proof -
    from nft e(1) have r0: "ig_type (ar_genesis r0) = asset_type_collectible" "ig_issuance_id (ar_genesis r0) = i"
      and rest: "\<forall>r \<in> set rest. ig_type (ar_genesis r) = asset_type_collectible \<and> ig_issuance_id (ar_genesis r) = i"
      by auto
    have "foldl assets_upd \<lparr>aa_asset = a0, aa_seen_nft_ids = []\<rparr> (r0 # rest) =
          assets_upd \<lparr>aa_asset = a0, aa_seen_nft_ids = []\<rparr> r0"
      using r0 rest by (simp add: foldl_assets_seen assets_upd_def Let_def)
    then show ?thesis
      using r0 zero e(1) by (simp add: a assets_upd_def Let_def add_saturating_uint64_def add64_def)
  qed
qed


definition sample_row :: "string \<Rightarrow> byte \<Rightarrow> u64 \<Rightarrow> asset_type \<Rightarrow> asset_record" where
  "sample_row ref n amount ty =
     \<lparr>ar_asset_ref = ref, ar_version = 0,
      ar_genesis = \<lparr>ig_first_prev_out = \<lparr>op_txid = zero32, op_index = 0\<rparr>, ig_tag = ''usd'',
        ig_meta_hash = zero32, ig_issuance_id = replicate 32 n, ig_output_index = 0, ig_type = ty\<rparr>,
      ar_amount = amount, ar_lock_time = 0, ar_relative_lock_time = 0, ar_script_version = 0,
      ar_script_key = \<lparr>sk_pub_key = 2 # zero32,
        sk_key_desc = \<lparr>kd_raw_key_bytes = 2 # zero32, kd_locator = \<lparr>kl_family = 0, kl_index = 0\<rparr>\<rparr>,
        sk_tap_tweak = []\<rparr>,
      ar_anchor_outpoint = None, ar_alt_leaves = []\<rparr>"

lemmas aggregation_eval = find_or_add_def no_accs_def collect_def sample_row_def Let_def
  add_saturating_uint64_def add64_def

lemma sample_assets:
  "assets_from_records sample_lib
     [Some (sample_row ''g'' 1 60 asset_type_normal), None, Some (sample_row ''g'' 2 40 asset_type_normal)] =
   Inr [\<lparr>as_asset_ref = ''g'', as_type = asset_type_normal, as_name = ''usd'', as_meta_hash = zero32,
         as_amount = 100, as_collection_ref = None\<rparr>]"
  by (simp add: assets_from_records_def assets_step_def asset_from_record_def aggregation_eval)

theorem assets_aggregate_witness:
  "first_seen (row_refs sample_lib
     [Some (sample_row ''g'' 1 60 asset_type_normal), None, Some (sample_row ''g'' 2 40 asset_type_normal)]) = [''g'']"
  using assets_aggregate [OF sample_assets] by simp

definition item_rows :: "'k lib \<Rightarrow> string \<Rightarrow> asset_record option list \<Rightarrow> asset_record list" where
  "item_rows L ref records =
     filter (\<lambda>r. ig_type (ar_genesis r) = asset_type_collectible \<and> is_group_ref L (ar_asset_ref r) \<and>
                 ar_asset_ref r = ref) (present records)"

lemma item_rows_key: "item_rows L ref records = filter (has_key (collections_proj L) ref) (present records)"
  by (auto simp: item_rows_def has_key_iff collections_proj_def intro!: filter_cong split: if_splits)

lemma foldl_collections:
  "distinct (ca_item_ids acc) \<Longrightarrow>
   distinct (ca_item_ids (foldl collections_upd acc rows)) \<and>
   set (ca_item_ids (foldl collections_upd acc rows)) =
     set (ca_item_ids acc) \<union> (\<lambda>r. ig_issuance_id (ar_genesis r)) ` set rows \<and>
   (rows \<noteq> [] \<longrightarrow> co_item_count (ca_collection (foldl collections_upd acc rows)) =
     of_nat (length (ca_item_ids (foldl collections_upd acc rows))))"
proof (induction rows arbitrary: acc)
  case (Cons r rows)
  let ?acc = "collections_upd acc r"
  have "distinct (ca_item_ids ?acc)"
    "set (ca_item_ids ?acc) = insert (ig_issuance_id (ar_genesis r)) (set (ca_item_ids acc))"
    "co_item_count (ca_collection ?acc) = of_nat (length (ca_item_ids ?acc))"
    using Cons.prems by (auto simp: collections_upd_def Let_def)
  then show ?case using Cons.IH [of ?acc] by (cases "rows = []") auto
qed simp


text \<open>
  Collections are the groups of NFT rows: pairwise different references, exactly the group
  references of the collectible rows, each with the number of different items seen, however many
  rows repeat an item.
\<close>

theorem collections_count_items:
  assumes "collections_from_records L records = Inr out"
  shows "distinct (map co_asset_ref out) \<and>
         (\<forall>ref. ref \<in> set (map co_asset_ref out) \<longleftrightarrow> item_rows L ref records \<noteq> []) \<and>
         (\<forall>c \<in> set out. co_item_count c =
            of_nat (card ((\<lambda>r. ig_issuance_id (ar_genesis r)) ` set (item_rows L (co_asset_ref c) records))))"
proof (intro conjI allI ballI)
  from assms obtain st where
    st: "fold_res (keyed_step (lift_row (collections_proj L)) (lift_upd collections_upd)) no_accs records = Inr st"
    and out: "out = map ca_collection (collect st)"
    by (auto simp: collections_from_records_def collections_step_keyed result_simps)
  note col = collections_agg.collected [OF st]
  from col(1) show "distinct (map co_asset_ref out)" by (simp add: out o_def)
  show "ref \<in> set (map co_asset_ref out) \<longleftrightarrow> item_rows L ref records \<noteq> []" for ref
    using col(2) by (auto simp: out o_def item_rows_key filter_empty_conv ex_lift image_image)
  fix c
  assume "c \<in> set out"
  then obtain acc where "acc \<in> set (collect st)" and c: "c = ca_collection acc" by (auto simp: out)
  then have "entry_of (collections_proj L) collections_upd (present records) (co_asset_ref c) acc"
    using col(3) by (simp add: entry_of_lift)
  then obtain r0 fresh where fnd: "find (has_key (collections_proj L) (co_asset_ref c)) (present records) = Some r0"
    and fresh: "collections_proj L r0 = Inr (Some (co_asset_ref c, fresh))"
    and acc: "acc = foldl collections_upd fresh (item_rows L (co_asset_ref c) records)"
    by (auto simp: entry_of_def item_rows_key)
  have "item_rows L (co_asset_ref c) records \<noteq> []"
    using find_filter_hd [OF fnd] by (auto simp: item_rows_key)
  moreover have "ca_item_ids fresh = []"
    using fresh by (auto simp: collections_proj_def split: if_splits)
  ultimately have "co_item_count c = of_nat (length (ca_item_ids acc))" "distinct (ca_item_ids acc)"
    "set (ca_item_ids acc) = (\<lambda>r. ig_issuance_id (ar_genesis r)) ` set (item_rows L (co_asset_ref c) records)"
    using foldl_collections [of fresh "item_rows L (co_asset_ref c) records"] c
    unfolding acc [symmetric] by auto
  then show "co_item_count c =
      of_nat (card ((\<lambda>r. ig_issuance_id (ar_genesis r)) ` set (item_rows L (co_asset_ref c) records)))"
    by (metis distinct_card)
qed

lemma sample_group_ref: "\<exists>ref. is_group_ref sample_lib ref"
proof -
  have "valid_payload sample_lib kind_group_key (2 # replicate 32 9)"
    by (simp add: valid_payload_def sample_pub_key)
  from encode_asset_ref_ok [OF sample_bech32m_laws this] obtain s where
    "decode_asset_ref_string sample_lib s = Inr (kind_group_key, 2 # replicate 32 9, s)" by blast
  then have "is_group_ref sample_lib s" by (simp add: is_group_ref_def)
  then show ?thesis by blast
qed

lemma sample_collections:
  assumes "is_group_ref sample_lib ref"
  shows "collections_from_records sample_lib
     [Some (sample_row ref 1 1 asset_type_collectible), Some (sample_row ref 1 1 asset_type_collectible),
      Some (sample_row ref 2 1 asset_type_collectible)] = Inr [\<lparr>co_asset_ref = ref, co_item_count = 2\<rparr>]"
  using assms by (simp add: collections_from_records_def collections_step_def aggregation_eval List.insert_def)

theorem collections_count_items_witness:
  "\<exists>ref. card ((\<lambda>r. ig_issuance_id (ar_genesis r)) ` set (item_rows sample_lib ref
     [Some (sample_row ref 1 1 asset_type_collectible), Some (sample_row ref 1 1 asset_type_collectible),
      Some (sample_row ref 2 1 asset_type_collectible)])) > 0 \<and> is_group_ref sample_lib ref"
proof -
  obtain ref where ref: "is_group_ref sample_lib ref" using sample_group_ref by blast
  define n where "n = card ((\<lambda>r. ig_issuance_id (ar_genesis r)) ` set (item_rows sample_lib ref
     [Some (sample_row ref 1 1 asset_type_collectible), Some (sample_row ref 1 1 asset_type_collectible),
      Some (sample_row ref 2 1 asset_type_collectible)]))"
  from collections_count_items [OF sample_collections [OF ref]] have "(2 :: u64) = of_nat n"
    by (simp add: n_def)
  then have "n \<noteq> 0" by (cases n) simp_all
  with ref show ?thesis unfolding n_def by blast
qed

lemma length_hex_encode [simp]: "length (hex_encode bs) = 2 * length bs"
  by (induction bs) (simp_all add: hex_encode_def)

lemma hex_digit_char: "n < 16 \<Longrightarrow> hex_digit (hex_char n) = Some n"
  by (simp add: hex_digit_def hex_char_def)

lemma hex_decode_encode [simp]: "hex_decode (hex_encode bs) = Inr bs"
proof (induction bs)
  case (Cons b bs)
  have "unat b div 16 < 16" by (rule nibble_less)
  moreover have "(of_nat (16 * (unat b div 16) + unat b mod 16) :: byte) = b"
    unfolding mult_div_mod_eq by simp
  ultimately show ?case using Cons
    by (simp add: hex_encode_def hex_digit_char del: of_nat_add of_nat_mult)
qed (simp add: hex_encode_def)

lemma hex_encode_inj: "hex_encode a = hex_encode b \<longleftrightarrow> a = b"
  by (metis hex_decode_encode sum.inject(2))

lemma issuance_text_inj:
  assumes "length i = length j"
  shows "r @ ''/'' @ hex_encode i = s @ ''/'' @ hex_encode j \<longleftrightarrow> r = s \<and> i = j"
  using assms by (auto simp: hex_encode_inj)

definition tranche_rows :: "string \<Rightarrow> bytes \<Rightarrow> asset_record option list \<Rightarrow> asset_record list" where
  "tranche_rows ref i records =
     filter (\<lambda>r. ig_type (ar_genesis r) = asset_type_normal \<and> ar_asset_ref r = ref \<and>
                 ig_issuance_id (ar_genesis r) = i) (present records)"

lemma foldl_issuances:
  "unat (is_amount (foldl issuances_upd acc rows)) =
     sat (unat (is_amount acc) + (\<Sum>r\<leftarrow>rows. unat (ar_amount r)))"
proof (induction rows arbitrary: acc)
  case Nil
  have "unat (is_amount acc) < 2 ^ 64"
    using unsigned_less [of "is_amount acc", where 'a = nat] by simp
  then show ?case by (simp add: sat_def)
next
  case (Cons r rows)
  then show ?case by (simp add: issuances_upd_def unat_add_saturating sat_add add.assoc)
qed

lemma foldl_issuances_fields:
  "is_asset_ref (foldl issuances_upd acc rows) = is_asset_ref acc"
  "is_issuance_id (foldl issuances_upd acc rows) = is_issuance_id acc"
  by (induction rows arbitrary: acc) (auto simp: issuances_upd_def)

text \<open>
  Tranches: \<open>ListIssuances\<close> returns one row per pair of asset reference and 32-byte issuance ID
  although its map key is their text joined by a slash, and the amount of a tranche is the sum of
  exactly the fungible rows with that reference and that issuance ID, capped at the largest
  \<open>uint64\<close>.
\<close>

theorem issuances_sum_tranches:
  assumes "issuances_from_records records = Inr out"
    and "\<forall>r \<in> set (present records). id32 (ig_issuance_id (ar_genesis r))"
  shows "distinct (map (\<lambda>i. (is_asset_ref i, is_issuance_id i)) out) \<and>
         (\<forall>i \<in> set out. unat (is_amount i) =
            min (\<Sum>r\<leftarrow>tranche_rows (is_asset_ref i) (is_issuance_id i) records. unat (ar_amount r)) (2 ^ 64 - 1))"
proof (intro conjI ballI)
  from assms(1) obtain st where
    fold: "fold_res (keyed_step (lift_row issuances_proj) (lift_upd issuances_upd)) no_accs records = Inr st"
    and out: "out = collect st"
    by (auto simp: issuances_from_records_def issuances_step_keyed result_simps)
  note col = issuances_agg.collected [OF fold]
  have "distinct (map (\<lambda>(r, i). r @ ''/'' @ hex_encode i) (map (\<lambda>i. (is_asset_ref i, is_issuance_id i)) out))"
    using col(1) by (simp add: out o_def)
  then show "distinct (map (\<lambda>i. (is_asset_ref i, is_issuance_id i)) out)"
    unfolding distinct_map [of "\<lambda>(r, i). r @ ''/'' @ hex_encode i"] by blast
  fix i
  assume "i \<in> set out"
  define ref iid where "ref = is_asset_ref i" and "iid = is_issuance_id i"
  define k where "k = ref @ ''/'' @ hex_encode iid"
  from \<open>i \<in> set out\<close> col(3) have "entry_of issuances_proj issuances_upd (present records) k i"
    by (simp add: entry_of_lift out k_def ref_def iid_def)
  then obtain r0 fresh where
    fnd: "find (has_key issuances_proj k) (present records) = Some r0"
    and fresh: "issuances_proj r0 = Inr (Some (k, fresh))"
    and i: "i = foldl issuances_upd fresh (filter (has_key issuances_proj k) (present records))"
    unfolding entry_of_def by blast
  from fnd have r0: "r0 \<in> set (present records)" by (metis find_Some_iff nth_mem)
  from fresh have fr: "is_issuance_id fresh = ig_issuance_id (ar_genesis r0)" "is_amount fresh = 0"
    by (auto simp: issuances_proj_def split: if_splits)
  have "iid = ig_issuance_id (ar_genesis r0)"
    unfolding iid_def fr(1) [symmetric] by (subst i) (rule foldl_issuances_fields)
  with r0 assms(2) have len: "length iid = 32" by (auto simp: id32_def)
  have "has_key issuances_proj k r \<longleftrightarrow>
      ig_type (ar_genesis r) = asset_type_normal \<and> ar_asset_ref r = ref \<and> ig_issuance_id (ar_genesis r) = iid"
    if "r \<in> set (present records)" for r
  proof -
    have "length (ig_issuance_id (ar_genesis r)) = length iid"
      using that assms(2) len by (simp add: id32_def)
    from issuance_text_inj [OF this] show ?thesis
      by (auto simp: has_key_iff issuances_proj_def issuance_key_def k_def)
  qed
  then have "filter (has_key issuances_proj k) (present records) = tranche_rows ref iid records"
    unfolding tranche_rows_def by (rule filter_cong [OF refl])
  with i have "is_amount i = is_amount (foldl issuances_upd fresh (tranche_rows ref iid records))"
    by (simp only:)
  then show "unat (is_amount i) =
      min (\<Sum>r\<leftarrow>tranche_rows (is_asset_ref i) (is_issuance_id i) records. unat (ar_amount r)) (2 ^ 64 - 1)"
    by (simp only: foldl_issuances fr sat_def ref_def iid_def) simp
qed

theorem issuances_sum_tranches_witness:
  "\<exists>out. issuances_from_records [Some (sample_row ''g'' 1 60 asset_type_normal)] = Inr out \<and>
     distinct (map (\<lambda>i. (is_asset_ref i, is_issuance_id i)) out) \<and> out \<noteq> []"
proof -
  obtain i where "issuances_from_records [Some (sample_row ''g'' 1 60 asset_type_normal)] = Inr [i]"
    by (simp add: issuances_from_records_def issuances_step_def aggregation_eval)
  with issuances_sum_tranches [OF this] show ?thesis by (simp add: id32_def sample_row_def)
qed

end
