(* ===== verification/Tap_FeeRate.thy ===== *)
theory Tap_FeeRate
  imports Tap_Errors
begin

text \<open>
  On-chain fee rates (\<open>fee_rate.go\<close>): a fee rate is stored in sat/kvB, parsed from and printed
  as decimal sat/vB with at most three decimals. Amounts are 64-bit words, as in the code.
\<close>

record fee_rate =
  sat_per_kvbyte :: u64

definition max_uint64 :: u64 where
  "max_uint64 = 0xffffffffffffffff"

definition vbytes_per_kvbyte :: u64 where
  "vbytes_per_kvbyte = 1000"

definition weight_units_per_vbyte :: u64 where
  "weight_units_per_vbyte = 4"

definition new_fee_rate_sat_per_kvbyte :: "u64 \<Rightarrow> fee_rate" where
  "new_fee_rate_sat_per_kvbyte v = \<lparr>sat_per_kvbyte = v\<rparr>"

definition new_fee_rate_sat_per_vbyte :: "u64 \<Rightarrow> fee_rate result" where
  "new_fee_rate_sat_per_vbyte v =
     (if v > max_uint64 div vbytes_per_kvbyte
      then Inl (Wrapf [] (Sentinel ErrInvalidFeeRate) '': sat/vB overflows'')
      else Inr (new_fee_rate_sat_per_kvbyte (v * vbytes_per_kvbyte)))"

definition fee_rate_is_zero :: "fee_rate \<Rightarrow> bool" where
  "fee_rate_is_zero r \<longleftrightarrow> sat_per_kvbyte r = 0"

definition ceil_div :: "u64 \<Rightarrow> u64 \<Rightarrow> u64" where
  "ceil_div numerator denominator =
     (if numerator = 0 then 0 else 1 + (numerator - 1) div denominator)"

definition sat_per_kweight :: "fee_rate \<Rightarrow> u64" where
  "sat_per_kweight r = ceil_div (sat_per_kvbyte r) weight_units_per_vbyte"

definition sat_per_vbyte_floor :: "fee_rate \<Rightarrow> u64" where
  "sat_per_vbyte_floor r = sat_per_kvbyte r div vbytes_per_kvbyte"

definition sat_per_vbyte_ceil :: "fee_rate \<Rightarrow> u64" where
  "sat_per_vbyte_ceil r = ceil_div (sat_per_kvbyte r) vbytes_per_kvbyte"

text \<open>\<open>strconv.ParseUint\<close> is only reached with decimal digits; it fails beyond 64 bits.\<close>

definition parse_fee_rate_part :: "string \<Rightarrow> u64 result" where
  "parse_fee_rate_part value =
     (if value = [] then Inr 0
      else if list_ex (\<lambda>c. \<not> is_digit c) value
      then Inl (Wrapf [] (Sentinel ErrInvalidFeeRate) '': part contains non-digit characters'')
      else if 2 ^ 64 \<le> dec_value value
      then Inl (Wrapf [] (Sentinel ErrInvalidFeeRate) '': part: value out of range'')
      else Inr (of_nat (dec_value value)))"

fun pad_fraction :: "nat \<Rightarrow> string \<Rightarrow> string" where
  "pad_fraction 0 s = s"
| "pad_fraction (Suc n) s = (if length s < 3 then pad_fraction n (s @ ''0'') else s)"

text \<open>The loop \<open>for len(fraction) < 3\<close> appends one zero per round; three rounds are enough.\<close>

definition parse_fee_rate_sat_per_vbyte :: "string \<Rightarrow> fee_rate result" where
  "parse_fee_rate_sat_per_vbyte text =
     (let value = trim_space text in
      if value = [] then Inl (Wrapf [] (Sentinel ErrInvalidFeeRate) '': empty sat/vB value'')
      else if starts_with value ''-''
      then Inl (Wrapf [] (Sentinel ErrInvalidFeeRate) '': negative sat/vB value'')
      else case cut CHR ''.'' value of (whole0, fraction, found) \<Rightarrow>
        (let whole = (if whole0 = [] then ''0'' else whole0) in
         and_then (parse_fee_rate_part whole) (\<lambda>whole_sats.
           if \<not> found then new_fee_rate_sat_per_vbyte whole_sats
           else if length fraction > 3
           then Inl (Wrapf [] (Sentinel ErrInvalidFeeRate) '': more than three decimal places'')
           else and_then (parse_fee_rate_part (pad_fraction 3 fraction)) (\<lambda>fraction_sats.
             if whole_sats > max_uint64 div vbytes_per_kvbyte
             then Inl (Wrapf [] (Sentinel ErrInvalidFeeRate) '': overflows'')
             else let kvbyte = whole_sats * vbytes_per_kvbyte in
               if fraction_sats > max_uint64 - kvbyte
               then Inl (Wrapf [] (Sentinel ErrInvalidFeeRate) '': overflows'')
               else Inr (new_fee_rate_sat_per_kvbyte (kvbyte + fraction_sats))))))"

text \<open>\<open>fmt.Sprintf("%03d", n)\<close> for \<open>n < 1000\<close>, and \<open>strings.TrimRight(s, "0")\<close>.\<close>

definition pad3 :: "nat \<Rightarrow> string" where
  "pad3 n = [digit_char (n div 100), digit_char (n div 10 mod 10), digit_char (n mod 10)]"

definition trim_right_zeros :: "string \<Rightarrow> string" where
  "trim_right_zeros s = rev (dropWhile (\<lambda>c. c = CHR ''0'') (rev s))"

definition format_fee_rate_sat_per_vbyte :: "u64 \<Rightarrow> string" where
  "format_fee_rate_sat_per_vbyte v =
     (let whole = v div vbytes_per_kvbyte; fraction = v mod vbytes_per_kvbyte in
      if fraction = 0 then dec_string (unat whole)
      else dec_string (unat whole) @ ''.'' @ trim_right_zeros (pad3 (unat fraction)))"

definition fee_rate_string :: "fee_rate \<Rightarrow> string" where
  "fee_rate_string r = format_fee_rate_sat_per_vbyte (sat_per_kvbyte r) @ '' sat/vB''"

definition marshal_text :: "fee_rate \<Rightarrow> string result" where
  "marshal_text r = Inr (format_fee_rate_sat_per_vbyte (sat_per_kvbyte r))"

text \<open>\<open>UnmarshalText\<close> overwrites the receiver only on success.\<close>

definition unmarshal_text :: "fee_rate \<Rightarrow> string \<Rightarrow> go_error option \<times> fee_rate" where
  "unmarshal_text r text =
     (case parse_fee_rate_sat_per_vbyte text of
        Inl e \<Rightarrow> (Some e, r)
      | Inr feeRate \<Rightarrow> (None, feeRate))"

section \<open>Arithmetic\<close>

lemma unat_max_div: "unat (max_uint64 div vbytes_per_kvbyte) = (2 ^ 64 - 1) div 1000"
  by (simp add: max_uint64_def vbytes_per_kvbyte_def)

lemma unat_max_uint64 [simp]: "unat max_uint64 = 2 ^ 64 - 1"
  by (simp add: max_uint64_def)

lemma max_div_less: "(2 ^ 64 - 1) div 1000 < n \<longleftrightarrow> \<not> n * 1000 < (2 :: nat) ^ 64"
proof -
  have "(2 ^ 64 - 1) div 1000 = (18446744073709551 :: nat)" by simp
  moreover have "(2 :: nat) ^ 64 = 18446744073709551616" by simp
  moreover have "18446744073709551 < n \<longleftrightarrow> \<not> n * 1000 < (18446744073709551616 :: nat)"
    by (rule iffI) linarith+
  ultimately show ?thesis by (simp only:)
qed

lemma whole_too_big:
  "n < 2 ^ 64 \<Longrightarrow> max_uint64 div vbytes_per_kvbyte < of_nat n \<longleftrightarrow> \<not> n * 1000 < 2 ^ 64"
  by (simp only: word_less_nat_alt unat_max_div unat_of_nat_u64 max_div_less)

lemma mult_1000_bound:
  assumes "\<not> max_uint64 div vbytes_per_kvbyte < w"
  shows "unat (w * vbytes_per_kvbyte) = unat w * 1000"
proof -
  from assms have "unat w \<le> (2 ^ 64 - 1) div 1000"
    by (simp add: word_less_nat_alt unat_max_div not_less)
  then have "unat w * 1000 < 2 ^ 64" by simp
  then show ?thesis by (simp add: unat_word_ariths vbytes_per_kvbyte_def)
qed

lemma unat_ceil_div: "d \<noteq> 0 \<Longrightarrow> unat (ceil_div n d) = (unat n + unat d - 1) div unat d"
proof (cases "n = 0")
  case True
  then show "d \<noteq> 0 \<Longrightarrow> ?thesis"
    using unat_gt_0 [of d] by (simp add: ceil_div_def)
next
  case False
  assume d: "d \<noteq> 0"
  then have dpos: "0 < unat d" by (simp add: unat_gt_0)
  from False have npos: "0 < unat n" by (simp add: unat_gt_0)
  have sub: "unat (n - 1) = unat n - 1"
    using False by (simp add: unat_minus_one)
  have le: "(unat n - 1) div unat d \<le> unat n - 1" by (rule div_le_dividend)
  have "unat n < 2 ^ 64" using unsigned_less [of n] by simp
  with le npos have small: "1 + (unat n - 1) div unat d < 2 ^ 64" by linarith
  have "unat (ceil_div n d) = (1 + unat ((n - 1) div d)) mod 2 ^ 64"
    using False by (simp add: ceil_div_def unat_word_ariths)
  also have "\<dots> = 1 + (unat n - 1) div unat d"
    using small by (simp add: unat_div_distrib sub)
  also have "\<dots> = (unat n + unat d - 1) div unat d"
  proof -
    have "unat n + unat d - 1 = (unat n - 1) + unat d" using npos by linarith
    moreover have "((unat n - 1) + unat d) div unat d = (unat n - 1) div unat d + 1"
      using dpos by (intro div_add_self2) linarith
    ultimately show ?thesis by (simp only: add.commute)
  qed
  finally show ?thesis .
qed

section \<open>Parsing decimal text\<close>

definition digits :: "string \<Rightarrow> bool" where
  "digits s \<longleftrightarrow> (\<forall>c \<in> set s. is_digit c)"

lemma digits_simps [simp]: "digits []" "digits (c # s) \<longleftrightarrow> is_digit c \<and> digits s"
  "digits (s @ t) \<longleftrightarrow> digits s \<and> digits t"
  by (auto simp: digits_def)

lemma digits_dec_string [simp]: "digits (dec_string n)"
  by (auto simp: digits_def dest: dec_string_digits)

lemma is_digit_props:
  assumes "is_digit c" shows "\<not> is_space c" and "c \<noteq> CHR ''-''" and "c \<noteq> CHR ''.''"
  using assms by (auto simp: is_digit_def is_space_def)

lemma trim_space_id:
  assumes "s \<noteq> []" and "\<not> is_space (hd s)" and "\<not> is_space (last s)"
  shows "trim_space s = s"
proof -
  have "dropWhile is_space s = s" using assms by (simp add: dropWhile_eq_self_iff)
  moreover have "dropWhile is_space (rev s) = rev s"
    using assms by (simp add: dropWhile_eq_self_iff hd_rev)
  ultimately show ?thesis by (simp add: trim_space_def)
qed

lemma starts_with_single: "s \<noteq> [] \<Longrightarrow> starts_with s [c] \<longleftrightarrow> hd s = c"
  by (cases s) auto

lemma digits_no_point: "digits s \<Longrightarrow> CHR ''.'' \<notin> set s"
  by (auto simp: digits_def is_digit_def)

lemma pad_fraction_eq:
  "length s \<le> 3 \<Longrightarrow> 3 - length s \<le> n \<Longrightarrow> pad_fraction n s = s @ replicate (3 - length s) CHR ''0''"
proof (induction n arbitrary: s)
  case 0
  then show ?case by simp
next
  case (Suc n)
  show ?case
  proof (cases "length s < 3")
    case True
    have "pad_fraction (Suc n) s = pad_fraction n (s @ ''0'')" using True by simp
    also have "\<dots> = (s @ ''0'') @ replicate (3 - length (s @ ''0'')) CHR ''0''"
      using True Suc.prems by (intro Suc.IH) auto
    also have "\<dots> = s @ replicate (Suc (3 - length (s @ ''0''))) CHR ''0''" by simp
    also have "Suc (3 - length (s @ ''0'')) = 3 - length s" using True by simp
    finally show ?thesis .
  qed (use Suc.prems in simp)
qed

lemma dec_value_zeros: "dec_value (s @ replicate k CHR ''0'') = dec_value s * 10 ^ k"
proof (induction k)
  case 0
  then show ?case by simp
next
  case (Suc k)
  have "s @ replicate (Suc k) CHR ''0'' = (s @ replicate k CHR ''0'') @ ''0''"
    by (simp add: replicate_append_same)
  then have "dec_value (s @ replicate (Suc k) CHR ''0'') = dec_value (s @ replicate k CHR ''0'') * 10"
    by (simp only: dec_value_snoc) simp
  with Suc show ?case by simp
qed

lemma dec_value_less: "digits s \<Longrightarrow> dec_value s < 10 ^ length s"
proof (induction s rule: rev_induct)
  case Nil
  then show ?case by simp
next
  case (snoc c s)
  then have "dec_value s * 10 + 10 \<le> 10 ^ length s * 10" and "of_char c - 48 < (10 :: nat)"
    by (auto simp: is_digit_def)
  then show ?case by simp
qed

lemma parse_part_digits:
  "digits s \<Longrightarrow> parse_fee_rate_part s =
     (if 2 ^ 64 \<le> dec_value s
      then Inl (Wrapf [] (Sentinel ErrInvalidFeeRate) '': part: value out of range'')
      else Inr (of_nat (dec_value s)))"
  by (auto simp: parse_fee_rate_part_def digits_def list_ex_iff)

text \<open>The number a decimal text denotes, in units of a thousandth.\<close>

definition decimal_millis :: "string \<Rightarrow> string \<Rightarrow> nat" where
  "decimal_millis whole fraction = dec_value whole * 1000 + dec_value fraction * 10 ^ (3 - length fraction)"

lemma parse_whole:
  assumes "digits w" and "w \<noteq> []"
  shows "is_ok (parse_fee_rate_sat_per_vbyte w) \<longleftrightarrow> dec_value w * 1000 < 2 ^ 64"
    and "dec_value w * 1000 < 2 ^ 64 \<Longrightarrow>
           parse_fee_rate_sat_per_vbyte w = Inr \<lparr>sat_per_kvbyte = of_nat (dec_value w * 1000)\<rparr>"
proof -
  have hd: "is_digit (hd w)" "is_digit (last w)"
    using assms by (auto simp: digits_def)
  have trim: "trim_space w = w"
    using assms(2) hd by (intro trim_space_id) (auto dest: is_digit_props)
  have minus: "\<not> starts_with w ''-''"
    using assms(2) hd by (simp add: starts_with_single is_digit_props)
  have cut: "cut CHR ''.'' w = (w, [], False)"
    by (rule cut_no_sep) (rule digits_no_point [OF assms(1)])
  have eq: "parse_fee_rate_sat_per_vbyte w = and_then (parse_fee_rate_part w) new_fee_rate_sat_per_vbyte"
    using assms(2) minus by (simp add: parse_fee_rate_sat_per_vbyte_def trim cut)
  note big = whole_too_big [of "dec_value w"]
  show "is_ok (parse_fee_rate_sat_per_vbyte w) \<longleftrightarrow> dec_value w * 1000 < 2 ^ 64"
    using big by (auto simp: eq parse_part_digits [OF assms(1)] new_fee_rate_sat_per_vbyte_def)
  show "parse_fee_rate_sat_per_vbyte w = Inr \<lparr>sat_per_kvbyte = of_nat (dec_value w * 1000)\<rparr>"
    if "dec_value w * 1000 < 2 ^ 64"
    using big that
    by (simp add: eq parse_part_digits [OF assms(1)] new_fee_rate_sat_per_vbyte_def
        new_fee_rate_sat_per_kvbyte_def vbytes_per_kvbyte_def)
qed

lemma parse_point:
  assumes "digits w" and "w \<noteq> []" and "digits f" and "length f \<le> 3"
  shows "is_ok (parse_fee_rate_sat_per_vbyte (w @ ''.'' @ f)) \<longleftrightarrow> decimal_millis w f < 2 ^ 64"
    and "decimal_millis w f < 2 ^ 64 \<Longrightarrow>
           parse_fee_rate_sat_per_vbyte (w @ ''.'' @ f) = Inr \<lparr>sat_per_kvbyte = of_nat (decimal_millis w f)\<rparr>"
proof -
  let ?s = "w @ ''.'' @ f" and ?fv = "dec_value f * 10 ^ (3 - length f)" and ?wv = "dec_value w"
  let ?ws = "of_nat ?wv :: u64"
  define fs :: u64 where "fs = of_nat ?fv"
  have hd: "is_digit (hd w)" using assms by (auto simp: digits_def)
  have last: "\<not> is_space (last ?s)"
    using assms(3) by (cases "f = []") (auto simp: is_space_def digits_def dest!: is_digit_props(1))
  have trim: "trim_space ?s = ?s"
    using assms(2) hd last by (intro trim_space_id) (auto dest: is_digit_props)
  have minus: "\<not> starts_with ?s ''-''"
    using assms(2) hd by (simp add: starts_with_single is_digit_props)
  have cut: "cut CHR ''.'' ?s = (w, f, True)"
    using cut_sep [OF digits_no_point [OF assms(1)], of f] by simp
  have padded: "digits (f @ replicate (3 - length f) CHR ''0'')"
    using assms(3) by (auto simp: digits_def is_digit_def)
  have fv: "?fv < 1000"
    using dec_value_less [OF padded] assms(4) by (simp add: dec_value_zeros)
  have part: "parse_fee_rate_part (pad_fraction 3 f) = Inr fs"
    using fv padded assms(4) by (simp add: pad_fraction_eq parse_part_digits dec_value_zeros fs_def)
  have millis: "decimal_millis w f = ?wv * 1000 + ?fv" by (simp add: decimal_millis_def)
  note whole_big = whole_too_big [of ?wv]
  have fs: "unat fs = ?fv"
    unfolding fs_def by (rule unat_of_nat_u64) (rule less_trans [OF fv], simp)
  have sum: "max_uint64 - ?ws * vbytes_per_kvbyte < fs \<longleftrightarrow> \<not> decimal_millis w f < 2 ^ 64"
    if "?wv * 1000 < 2 ^ 64"
  proof -
    have ws: "unat (?ws * vbytes_per_kvbyte) = ?wv * 1000"
      using that by (simp add: vbytes_per_kvbyte_def unat_word_ariths unat_of_nat take_bit_eq_mod)
    have "?ws * vbytes_per_kvbyte \<le> max_uint64"
      using that ws by (simp add: word_le_nat_alt)
    then have "unat (max_uint64 - ?ws * vbytes_per_kvbyte) = 2 ^ 64 - 1 - ?wv * 1000"
      by (simp add: unat_sub ws)
    then show ?thesis using that by (simp only: word_less_nat_alt fs millis) linarith
  qed
  have eq: "parse_fee_rate_sat_per_vbyte ?s =
      and_then (parse_fee_rate_part w) (\<lambda>whole_sats.
        if max_uint64 div vbytes_per_kvbyte < whole_sats
        then Inl (Wrapf [] (Sentinel ErrInvalidFeeRate) '': overflows'')
        else if max_uint64 - whole_sats * vbytes_per_kvbyte < fs
        then Inl (Wrapf [] (Sentinel ErrInvalidFeeRate) '': overflows'')
        else Inr \<lparr>sat_per_kvbyte = whole_sats * vbytes_per_kvbyte + fs\<rparr>)"
    using assms(2,4) minus
    by (simp add: parse_fee_rate_sat_per_vbyte_def trim cut part Let_def new_fee_rate_sat_per_kvbyte_def
        del: append_Cons append_Nil cong: if_cong)
  have cases: "is_ok (parse_fee_rate_sat_per_vbyte ?s) \<longleftrightarrow>
      ?wv < 2 ^ 64 \<and> ?wv * 1000 < 2 ^ 64 \<and> decimal_millis w f < 2 ^ 64"
    unfolding eq parse_part_digits [OF assms(1)] using whole_big sum
    by (cases "?wv < 2 ^ 64"; cases "?wv * 1000 < 2 ^ 64"; cases "decimal_millis w f < 2 ^ 64") simp_all
  show "is_ok (parse_fee_rate_sat_per_vbyte ?s) \<longleftrightarrow> decimal_millis w f < 2 ^ 64"
    unfolding cases millis by linarith
  show "parse_fee_rate_sat_per_vbyte ?s = Inr \<lparr>sat_per_kvbyte = of_nat (decimal_millis w f)\<rparr>"
    if "decimal_millis w f < 2 ^ 64"
  proof -
    from that have "?wv < 2 ^ 64" and "?wv * 1000 < 2 ^ 64" unfolding millis by linarith+
    with whole_big sum that show ?thesis
      unfolding eq parse_part_digits [OF assms(1)]
      by (simp add: fs_def) (simp add: millis vbytes_per_kvbyte_def mult.commute)
  qed
qed

section \<open>Printing\<close>

lemma trim_right_zeros_split:
  "\<exists>k. s = trim_right_zeros s @ replicate k CHR ''0'' \<and> length (trim_right_zeros s) + k = length s"
proof -
  let ?z = "takeWhile (\<lambda>c. c = CHR ''0'') (rev s)"
  have "rev s = ?z @ dropWhile (\<lambda>c. c = CHR ''0'') (rev s)" by simp
  then have s: "s = trim_right_zeros s @ rev ?z"
    unfolding trim_right_zeros_def by (metis rev_append rev_rev_ident)
  have "?z = replicate (length ?z) CHR ''0''"
    by (rule replicate_length_same [symmetric]) (auto dest: set_takeWhileD)
  then have "rev ?z = replicate (length ?z) CHR ''0''" by (metis rev_replicate)
  with s have "s = trim_right_zeros s @ replicate (length ?z) CHR ''0''" by simp
  moreover from this have "length (trim_right_zeros s) + length ?z = length s"
    by (metis length_append length_replicate)
  ultimately show ?thesis by blast
qed

lemma pad3_digits:
  assumes "n < 1000"
  shows "digits (pad3 n)" and "dec_value (pad3 n) = n" and "length (pad3 n) = 3"
proof -
  have d: "n div 100 < 10" using assms by simp
  show "digits (pad3 n)" using d by (simp add: pad3_def)
  show "length (pad3 n) = 3" by (simp add: pad3_def)
  have "n div 100 = n div 10 div 10" by (simp add: div_mult2_eq [symmetric])
  moreover have "n div 10 = n div 10 div 10 * 10 + n div 10 mod 10" "n = n div 10 * 10 + n mod 10"
    by simp_all
  ultimately have "n div 100 * 100 + n div 10 mod 10 * 10 + n mod 10 = n" by linarith
  then show "dec_value (pad3 n) = n" using d by (simp add: pad3_def dec_value_def)
qed

lemma format_parse:
  "parse_fee_rate_sat_per_vbyte (format_fee_rate_sat_per_vbyte v) = Inr \<lparr>sat_per_kvbyte = v\<rparr>"
proof -
  let ?w = "unat v div 1000" and ?f = "unat v mod 1000"
  have w: "unat (v div vbytes_per_kvbyte) = ?w" and f: "unat (v mod vbytes_per_kvbyte) = ?f"
    by (simp_all add: vbytes_per_kvbyte_def unat_div unat_mod)
  have v: "?w * 1000 + ?f = unat v" by simp
  have bound: "unat v < 2 ^ 64" using unsigned_less [of v] by simp
  show ?thesis
  proof (cases "v mod vbytes_per_kvbyte = 0")
    case True
    then have "?f = 0" using f by simp
    with v have eq: "?w * 1000 = unat v" by linarith
    have "dec_value (dec_string ?w) * 1000 = unat v" by (simp add: eq)
    with bound parse_whole(2) [of "dec_string ?w"]
    have "parse_fee_rate_sat_per_vbyte (dec_string ?w) = Inr \<lparr>sat_per_kvbyte = of_nat (unat v)\<rparr>"
      by (simp only: digits_dec_string dec_string_nonempty not_False_eq_True simp_thms)
    then show ?thesis using True
      by (simp add: format_fee_rate_sat_per_vbyte_def Let_def w)
  next
    case False
    let ?t = "trim_right_zeros (pad3 ?f)"
    have p: "digits (pad3 ?f)" "dec_value (pad3 ?f) = ?f" "length (pad3 ?f) = 3"
      by (rule pad3_digits, simp)+
    obtain k where k: "pad3 ?f = ?t @ replicate k CHR ''0''" "length ?t + k = 3"
      using trim_right_zeros_split [of "pad3 ?f"] p(3) by auto
    from k p(1) have dig: "digits ?t" by (metis digits_simps(3))
    have "dec_value ?t * 10 ^ (3 - length ?t) = dec_value (?t @ replicate k CHR ''0'')"
      using k(2) by (simp add: dec_value_zeros flip: k(2))
    also have "\<dots> = ?f" using k(1) p(2) by simp
    finally have mil: "decimal_millis (dec_string ?w) ?t = unat v"
      using v by (simp add: decimal_millis_def)
    have "parse_fee_rate_sat_per_vbyte (dec_string ?w @ ''.'' @ ?t)
        = Inr \<lparr>sat_per_kvbyte = of_nat (decimal_millis (dec_string ?w) ?t)\<rparr>"
      by (rule parse_point(2)) (use dig k(2) bound mil in simp_all)
    then have "parse_fee_rate_sat_per_vbyte (dec_string ?w @ ''.'' @ ?t) = Inr \<lparr>sat_per_kvbyte = v\<rparr>"
      by (simp add: mil)
    then show ?thesis using False
      by (simp add: format_fee_rate_sat_per_vbyte_def Let_def w f)
  qed
qed

section \<open>Properties\<close>

text \<open>
  A fee rate survives \<open>MarshalText\<close> and \<open>UnmarshalText\<close>: for every 64-bit sat/kvB value,
  what is printed parses back to the same value without error.
\<close>

theorem fee_rate_text_roundtrip:
  "\<exists>text. marshal_text r = Inr text \<and> unmarshal_text old text = (None, r)"
  by (simp add: marshal_text_def unmarshal_text_def format_parse)

text \<open>
  The parser is exact and never wraps: a text of decimal digits, a point and at most three
  decimals is accepted exactly if its value in thousandths of a sat/vB fits in 64 bits, and
  then the stored sat/kvB is that value.
\<close>

theorem parse_fee_rate_exact:
  assumes "digits whole" and "whole \<noteq> []" and "digits fraction" and "length fraction \<le> 3"
  shows "is_ok (parse_fee_rate_sat_per_vbyte (whole @ ''.'' @ fraction)) =
           (dec_value whole * 1000 + dec_value fraction * 10 ^ (3 - length fraction) < 2 ^ 64) \<and>
         (\<forall>r. parse_fee_rate_sat_per_vbyte (whole @ ''.'' @ fraction) = Inr r \<longrightarrow>
            unat (sat_per_kvbyte r) = dec_value whole * 1000 + dec_value fraction * 10 ^ (3 - length fraction))"
proof -
  note ok = parse_point(1) [OF assms] and eq = parse_point(2) [OF assms]
  have "unat (sat_per_kvbyte r) = decimal_millis whole fraction"
    if r: "parse_fee_rate_sat_per_vbyte (whole @ ''.'' @ fraction) = Inr r" for r
  proof -
    from r ok have "decimal_millis whole fraction < 2 ^ 64" by (simp add: is_ok_iff)
    with eq [OF this] r show ?thesis
      using unat_of_nat_u64 [of "decimal_millis whole fraction"] by auto
  qed
  with ok show ?thesis by (simp add: decimal_millis_def)
qed

theorem parse_fee_rate_exact_witness:
  "\<exists>r. parse_fee_rate_sat_per_vbyte ''12.5'' = Inr r \<and> unat (sat_per_kvbyte r) = 12500"
  using parse_fee_rate_exact [of "''12''" "''5''"] by (auto simp: is_digit_def dec_value_def is_ok_iff)

text \<open>
  Unit conversions bracket the exact rate and never overflow: sat/vB rounded down times 1000
  is at most the stored rate, sat/vB rounded up times 1000 is at least the stored rate and less
  than 1000 above it, and sat/kWU rounded up is the ceiling of a quarter of it.
\<close>

theorem fee_rate_conversions_bracket:
  "unat (sat_per_vbyte_floor r) * 1000 \<le> unat (sat_per_kvbyte r) \<and>
   unat (sat_per_kvbyte r) \<le> unat (sat_per_vbyte_ceil r) * 1000 \<and>
   unat (sat_per_vbyte_ceil r) * 1000 < unat (sat_per_kvbyte r) + 1000 \<and>
   unat (sat_per_kweight r) = (unat (sat_per_kvbyte r) + 3) div 4"
proof -
  have ceil: "unat (sat_per_vbyte_ceil r) = (unat (sat_per_kvbyte r) + 999) div 1000"
    by (simp add: sat_per_vbyte_ceil_def unat_ceil_div vbytes_per_kvbyte_def)
  have "unat (sat_per_vbyte_floor r) = unat (sat_per_kvbyte r) div 1000"
    by (simp add: sat_per_vbyte_floor_def vbytes_per_kvbyte_def unat_div)
  moreover have "unat (sat_per_kweight r) = (unat (sat_per_kvbyte r) + 3) div 4"
    by (simp add: sat_per_kweight_def unat_ceil_div weight_units_per_vbyte_def)
  ultimately show ?thesis unfolding ceil by simp linarith
qed

end
