(* ===== verification/Tap_Capabilities.thy ===== *)
theory Tap_Capabilities
  imports Tap_Errors
begin

text \<open>
  The capability profile of a backend for custom anchors (\<open>custom_anchor_capabilities.go\<close>). The
  capabilities and the backend modes are string constants in the code; other strings are
  \<open>CapOther\<close> and \<open>BackendOther\<close>.

  \<open>UnsupportedCustomAnchorCapabilityError\<close> is an error that unwraps to its sentinel; the
  capability, the status and the mode of its message are left out.
\<close>

datatype backend_mode = BackendUnknown | BackendLocalTapd | BackendRemoteTapd | BackendHosted | BackendLightweight
  | BackendOther string

datatype capability =
    CapCommit | CapCallerAnchorPSBT | CapSkipFunding | CapNoChangeOutput | CapWalletFunding | CapSkipBroadcast
  | CapP2AAnchorOutput | CapExternalFeeBump | CapProofRegistration | CapLocalVerification | CapBackendVerification
  | CapOther string

datatype capability_status = CapabilityUnknown | CapabilityUnsupported | CapabilitySupported | CapabilityStatusOther byte

definition status_supported :: "capability_status \<Rightarrow> bool" where
  "status_supported s \<longleftrightarrow> s = CapabilitySupported"

definition status_string :: "capability_status \<Rightarrow> string" where
  "status_string s = (case s of CapabilitySupported \<Rightarrow> ''supported'' | CapabilityUnsupported \<Rightarrow> ''unsupported''
     | _ \<Rightarrow> ''unknown'')"

record capabilities =
  cap_backend_mode :: backend_mode
  cap_commit :: capability_status
  cap_caller_anchor_psbt :: capability_status
  cap_skip_funding :: capability_status
  cap_no_change_output :: capability_status
  cap_wallet_funding :: capability_status
  cap_skip_broadcast :: capability_status
  cap_p2a_anchor_output :: capability_status
  cap_external_fee_bump :: capability_status
  cap_proof_registration :: capability_status
  cap_local_verification :: capability_status
  cap_backend_verification :: capability_status

definition default_tapd_capabilities :: capabilities where
  "default_tapd_capabilities =
     \<lparr>cap_backend_mode = BackendUnknown, cap_commit = CapabilitySupported, cap_caller_anchor_psbt = CapabilitySupported,
      cap_skip_funding = CapabilitySupported, cap_no_change_output = CapabilityUnknown,
      cap_wallet_funding = CapabilitySupported, cap_skip_broadcast = CapabilitySupported,
      cap_p2a_anchor_output = CapabilityUnknown, cap_external_fee_bump = CapabilityUnknown,
      cap_proof_registration = CapabilityUnknown, cap_local_verification = CapabilityUnsupported,
      cap_backend_verification = CapabilityUnknown\<rparr>"

text \<open>The zero value: every status is unknown.\<close>

definition no_capabilities :: capabilities where
  "no_capabilities =
     \<lparr>cap_backend_mode = BackendOther [], cap_commit = CapabilityUnknown, cap_caller_anchor_psbt = CapabilityUnknown,
      cap_skip_funding = CapabilityUnknown, cap_no_change_output = CapabilityUnknown,
      cap_wallet_funding = CapabilityUnknown, cap_skip_broadcast = CapabilityUnknown,
      cap_p2a_anchor_output = CapabilityUnknown, cap_external_fee_bump = CapabilityUnknown,
      cap_proof_registration = CapabilityUnknown, cap_local_verification = CapabilityUnknown,
      cap_backend_verification = CapabilityUnknown\<rparr>"

definition support :: "capabilities \<Rightarrow> capability \<Rightarrow> capability_status" where
  "support c k =
     (case k of
        CapCommit \<Rightarrow> cap_commit c
      | CapCallerAnchorPSBT \<Rightarrow> cap_caller_anchor_psbt c
      | CapSkipFunding \<Rightarrow> cap_skip_funding c
      | CapNoChangeOutput \<Rightarrow> cap_no_change_output c
      | CapWalletFunding \<Rightarrow> cap_wallet_funding c
      | CapSkipBroadcast \<Rightarrow> cap_skip_broadcast c
      | CapP2AAnchorOutput \<Rightarrow> cap_p2a_anchor_output c
      | CapExternalFeeBump \<Rightarrow> cap_external_fee_bump c
      | CapProofRegistration \<Rightarrow> cap_proof_registration c
      | CapLocalVerification \<Rightarrow> cap_local_verification c
      | CapBackendVerification \<Rightarrow> cap_backend_verification c
      | CapOther _ \<Rightarrow> CapabilityUnknown)"

definition unsupported_capability :: go_error where
  "unsupported_capability = Wrapf ''custom-anchor capability: '' (Sentinel ErrUnsupportedCustomAnchorCapability) []"

definition require_capabilities :: "capabilities \<Rightarrow> capability list \<Rightarrow> unit result" where
  "require_capabilities c ks =
     fold_res (\<lambda>_ k. if \<not> status_supported (support c k) then Inl unsupported_capability else Inr ()) () ks"

lemma require_capabilities_ok: "is_ok (require_capabilities c ks) \<longleftrightarrow> (\<forall>k \<in> set ks. support c k = CapabilitySupported)"
  by (auto simp: require_capabilities_def fold_res_unit_ok status_supported_def)

lemma no_capabilities_refuse: "is_ok (require_capabilities no_capabilities ks) \<longleftrightarrow> ks = []"
proof -
  have "support no_capabilities k \<noteq> CapabilitySupported" for k
    by (cases k) (simp_all add: support_def no_capabilities_def)
  then show ?thesis by (cases ks) (auto simp: require_capabilities_ok)
qed

end
