(* ===== verification/Tap_Client.thy ===== *)
theory Tap_Client
  imports Tap_Address Tap_Assets Tap_FeeRate Tap_Capabilities
begin

text \<open>
  The daemon behind the SDK (\<open>clients.go\<close> and the request and response types of \<open>transfer.go\<close>,
  \<open>send.go\<close>, \<open>burn.go\<close>, \<open>proof.go\<close>, \<open>mint.go\<close>, \<open>virtual_psbt.go\<close>). A client is a record of
  response functions; each may depend on the whole sequence of calls made before, so the record
  ranges over every daemon behaviour, failures included. An operation of the SDK is a function from
  the calls made so far to its result and the longer sequence of calls: what the SDK sends, and in
  which order, is part of what the definitions compute.
\<close>

section \<open>Requests and responses\<close>

text \<open>\<open>transfer.go\<close>\<close>

record recipient =
  rc_address :: string
  rc_amount :: u64
  rc_has_amount :: bool

definition recipient_with_amount :: "string \<Rightarrow> u64 \<Rightarrow> recipient" where
  "recipient_with_amount addr amount = \<lparr>rc_address = addr, rc_amount = amount, rc_has_amount = True\<rparr>"

definition recipient_with_embedded_amount :: "string \<Rightarrow> recipient" where
  "recipient_with_embedded_amount addr = \<lparr>rc_address = addr, rc_amount = 0, rc_has_amount = False\<rparr>"

definition recipient_amount :: "recipient \<Rightarrow> u64 \<times> bool" where
  "recipient_amount r = (rc_amount r, rc_has_amount r)"

record transfer_output =
  to_anchor_outpoint :: outpoint
  to_issuance_id :: bytes
  to_asset_type :: asset_type
  to_anchor_value :: int
  to_script_key :: bytes
  to_amount :: u64
  to_proof_blob :: bytes
  to_alt_leaves :: "bytes list"
  to_group_key :: "bytes option"

record transfer_input =
  ti_anchor_point :: outpoint
  ti_issuance_id :: bytes
  ti_asset_type :: asset_type
  ti_script_key :: bytes
  ti_amount :: u64
  ti_group_key :: "bytes option"

record asset_transfer =
  at_timestamp :: int
  at_txid :: bytes
  at_anchor_txid :: string
  at_height_hint :: u32
  at_chain_fees :: int
  at_inputs :: "transfer_input list"
  at_outputs :: "transfer_output list"
  at_block_hash :: bytes
  at_block_hash_str :: string
  at_block_height :: u32
  at_label :: string
  at_anchor_tx :: bytes

record transfer_asset =
  ta_asset_ref :: string
  ta_issuance_id :: bytes
  ta_type :: asset_type
  ta_amount :: u64
  ta_script_key :: bytes
  ta_outpoint :: outpoint

record transfer =
  tr_timestamp :: int
  tr_anchor_txid :: string
  tr_block_height :: u32
  tr_chain_fees :: int
  tr_label :: string
  tr_inputs :: "transfer_asset list"
  tr_outputs :: "transfer_asset list"

record funded_transfer =
  ft_funded_psbt :: bytes
  ft_passive_asset_psbts :: "bytes list"

record committed_transfer =
  ct_anchor_psbt :: bytes
  ct_virtual_psbts :: "bytes list"
  ct_passive_asset_psbts :: "bytes list"

record asset_packet =
  ap_anchor_transaction :: bytes
  ap_virtual_transactions :: "bytes list"
  ap_passive_asset_transactions :: "bytes list"

text \<open>\<open>send.go\<close>, \<open>burn.go\<close>, \<open>address.go\<close>, \<open>balance.go\<close>\<close>

record send_asset_request =
  sr_recipients :: "recipient list"
  sr_fee_rate :: fee_rate
  sr_label :: string
  sr_skip_ping :: bool

record burn_asset_request =
  br_asset_ref :: string
  br_amount_to_burn :: u64
  br_confirmation_text :: string
  br_note :: string

record new_address_request =
  na_asset_ref :: string
  na_amount :: u64
  na_script_key :: "script_key option"
  na_internal_key :: "key_descriptor option"
  na_tapscript_sibling :: bytes
  na_proof_courier_addr :: string
  na_asset_version :: "byte option"
  na_address_version :: "byte option"

record list_balances_request =
  lb_asset_ref :: "string option"
  lb_include_leased :: bool
  lb_script_key_type :: "script_key_type_query option"

record balance =
  ba_asset_ref :: string
  ba_balance :: u64

record list_balances_response =
  lp_balances :: "string \<rightharpoonup> balance"
  lp_unconfirmed_transfers :: u64

text \<open>\<open>proof.go\<close>\<close>

record proof_file =
  pf_raw :: bytes
  pf_genesis_point :: outpoint

record proof_entry =
  pe_asset_ref :: string
  pe_issuance_id :: bytes
  pe_script_key :: bytes
  pe_outpoint :: "outpoint option"
  pe_amount :: u64
  pe_proof_file :: bytes

record proof_bundle =
  pb_asset_ref :: string
  pb_entries :: "proof_entry list"

record decoded_proof =
  dp_proof_at_depth :: u32
  dp_number_of_proofs :: u32
  dp_asset_ref :: string
  dp_issuance_id :: bytes
  dp_script_key :: bytes
  dp_amount :: u64
  dp_outpoint :: outpoint
  dp_alt_leaves :: "bytes list"
  dp_prev_ids :: "prev_id list"
  dp_is_issuance :: bool

record verify_proof_response =
  vp_valid :: bool
  vp_decoded_proof :: "decoded_proof option"

record registered_asset =
  ra_asset_ref :: string
  ra_issuance_id :: bytes
  ra_script_key :: bytes
  ra_amount :: u64
  ra_outpoint :: outpoint

record burn_asset_response =
  bp_burn_transfer :: "asset_transfer option"
  bp_burn_proof :: "decoded_proof option"

record burn =
  bu_asset_ref :: string
  bu_amount :: u64
  bu_note :: string
  bu_transfer :: "asset_transfer option"
  bu_proof :: "decoded_proof option"


text \<open>\<open>meta.go\<close> and \<open>mint.go\<close>\<close>

record asset_meta =
  am_data :: bytes
  am_type :: byte
  am_meta_hash :: bytes
  am_unknown_odd_types :: "u64 \<rightharpoonup> bytes"
  am_decimal_display :: u32
  am_universe_commitments :: bool
  am_canonical_universe_urls :: "string list"
  am_delegation_key :: bytes

record external_key =
  ek_xpub :: string
  ek_master_fingerprint :: bytes
  ek_derivation_path :: string

datatype issuance_operation =
    IssuanceOperationUnknown | IssuanceOperationCreateAsset | IssuanceOperationIssueAsset
  | IssuanceOperationCreateCollection | IssuanceOperationMintCollectionItem

record genesis_info =
  gi_genesis_point :: string
  gi_name :: string
  gi_meta_hash :: bytes
  gi_issuance_id :: bytes
  gi_asset_type :: asset_type
  gi_output_index :: u32

record tx_out =
  txo_value :: int
  txo_pk_script :: bytes

record group_virtual_tx =
  gv_transaction :: bytes
  gv_prev_out :: "tx_out option"
  gv_genesis_id :: bytes
  gv_tweaked_key :: "bytes option"

record group_key_request =
  gk_raw_key :: "key_descriptor option"
  gk_anchor_genesis :: "genesis_info option"
  gk_tapscript_root :: bytes
  gk_new_asset :: bytes
  gk_external_key :: "external_key option"

record issuance_signing_request =
  is_req_operation :: issuance_operation
  is_req_asset_ref :: string
  is_req_name :: string
  is_req_asset_type :: asset_type
  is_req_amount :: u64
  is_req_script_key :: "script_key option"
  is_req_external_key :: external_key
  is_req_anchor_genesis :: "genesis_info option"
  is_req_virtual_psbt :: string
  is_req_virtual_tx :: "group_virtual_tx option"

record pending_mint_asset =
  pm_asset_version :: byte
  pm_asset_type :: asset_type
  pm_name :: string
  pm_asset_meta :: "asset_meta option"
  pm_amount :: u64
  pm_new_grouped_asset :: bool
  pm_group_key :: "bytes option"
  pm_group_anchor :: string
  pm_group_internal_key :: "key_descriptor option"
  pm_group_tapscript_root :: bytes
  pm_script_key :: "script_key option"

datatype batch_state =
    BatchStateUnknown | BatchStatePending | BatchStateFrozen | BatchStateCommitted
  | BatchStateBroadcast | BatchStateConfirmed | BatchStateFinalized
  | BatchStateSeedlingCancelled | BatchStateSproutCancelled | BatchStateOther byte

record unsealed_mint_asset =
  um_asset :: "pending_mint_asset option"
  um_group_key_request :: "group_key_request option"
  um_group_virtual_tx :: "group_virtual_tx option"
  um_group_virtual_psbt :: string

record minting_batch =
  mb_batch_key :: bytes
  mb_batch_txid :: string
  mb_state :: batch_state
  mb_assets :: "pending_mint_asset list"
  mb_created_at :: int
  mb_height_hint :: u32
  mb_batch_psbt :: bytes

record verbose_minting_batch =
  vb_batch :: minting_batch
  vb_unsealed_assets :: "unsealed_mint_asset list"

record mint_asset =
  ma_asset_version :: byte
  ma_asset_type :: asset_type
  ma_name :: string
  ma_asset_meta :: "asset_meta option"
  ma_initial_supply :: u64
  ma_allow_issuance :: bool
  ma_decimal_display :: u32
  ma_script_key :: "script_key option"
  ma_group_internal_key :: "key_descriptor option"
  ma_group_tapscript_root :: bytes
  ma_external_group_key :: "external_key option"
  ma_enable_supply_commitments :: bool

record mint_issuance =
  mi_asset_ref :: string
  mi_name :: string
  mi_asset_type :: asset_type
  mi_asset_meta :: "asset_meta option"
  mi_amount :: u64
  mi_asset_version :: byte
  mi_decimal_display :: u32
  mi_script_key :: "script_key option"
  mi_external_group_key :: "external_key option"

text \<open>
  \<open>virtual_psbt.go\<close>: the requests of the advanced wallet-kit client that the plain
  transaction builder uses too. The modes are \<open>uint8\<close> constants; other values are \<open>...Other\<close>.
\<close>

datatype anchor_change_output_mode =
    AnchorChangeOutputUnspecified | AnchorChangeOutputAdd | AnchorChangeOutputExisting
  | AnchorChangeOutputNoNew | AnchorChangeOutputOther byte

record anchor_change_output =
  aco_mode :: anchor_change_output_mode
  aco_existing_output_index :: "32 word"

datatype anchor_fee_mode =
    AnchorFeeUnspecified | AnchorFeeSatPerVByte | AnchorFeeTargetConf | AnchorFeeOther byte

record anchor_fee =
  af_mode :: anchor_fee_mode
  af_fee_rate :: fee_rate
  af_target_conf :: u32

record anchor_funding_plan =
  afp_change_output :: anchor_change_output
  afp_fee :: anchor_fee
  afp_custom_lock_id :: bytes
  afp_lock_expiration_seconds :: u64
  afp_skip_funding :: bool

record commit_virtual_psbts_request =
  cv_anchor_psbt :: bytes
  cv_virtual_psbts :: "bytes list"
  cv_passive_asset_psbts :: "bytes list"
  cv_funding :: anchor_funding_plan

text \<open>\<open>ChangeOutputIndex\<close> is an \<open>int32\<close>.\<close>

record commit_virtual_psbts_response =
  cr_anchor_psbt :: bytes
  cr_virtual_psbts :: "bytes list"
  cr_passive_asset_psbts :: "bytes list"
  cr_change_output_index :: int
  cr_locked_utxos :: "outpoint list"

record publish_and_log_transfer_request =
  pl_anchor_psbt :: bytes
  pl_virtual_psbts :: "bytes list"
  pl_passive_asset_psbts :: "bytes list"
  pl_change_output_index :: int
  pl_locked_utxos :: "outpoint list"
  pl_skip_anchor_tx_broadcast :: bool
  pl_label :: string

text \<open>\<open>utxo.go\<close> and \<open>ownership_entities.go\<close>\<close>

record managed_utxo =
  mu_out_point :: outpoint
  mu_amt_sat :: int
  mu_internal_key :: bytes
  mu_taproot_asset_root :: bytes
  mu_merkle_root :: bytes
  mu_assets :: "asset_record option list"
  mu_lease_owner :: bytes
  mu_lease_expiry_unix :: int

record list_utxos_request =
  lu_include_leased :: bool
  lu_script_key_type :: "script_key_type_query option"

record prove_ownership_request =
  po_asset_ref :: string
  po_script_key :: bytes
  po_outpoint :: outpoint
  po_challenge :: bytes

record verify_ownership_request =
  vo_proof_with_witness :: bytes
  vo_challenge :: bytes

record verify_ownership_response =
  vr_valid :: bool
  vr_outpoint :: outpoint
  vr_block_hash :: bytes
  vr_block_height :: u32

text \<open>\<open>universe_entities.go\<close>; the constants of \<open>int\<close> types are the numbers they stand for.\<close>

type_synonym proof_type = int

definition proof_type_unspecified :: proof_type where "proof_type_unspecified = 0"
definition proof_type_issuance :: proof_type where "proof_type_issuance = 1"
definition proof_type_transfer :: proof_type where "proof_type_transfer = 2"

record universe_id =
  un_asset_ref :: string
  un_proof_type :: proof_type

record merkle_sum_node =
  ms_root_hash :: bytes
  ms_root_sum :: int

record universe_root =
  ur_id :: universe_id
  ur_mssmt_root :: "merkle_sum_node option"
  ur_asset_name :: string
  ur_amounts_by_issuance_id :: "string \<rightharpoonup> u64"

record query_root_response =
  qr_issuance_root :: "universe_root option"
  qr_transfer_root :: "universe_root option"

record asset_leaf_key =
  lk_outpoint :: outpoint
  lk_script_key :: bytes

record asset_leaf_keys_request =
  kq_id :: universe_id
  kq_offset :: int
  kq_limit :: int
  kq_direction :: int

record asset_leaf =
  al_asset :: "asset_record option"
  al_proof :: bytes

record universe_key =
  uk_id :: universe_id
  uk_leaf_key :: asset_leaf_key

record asset_proof_response =
  apr_key :: universe_key
  apr_universe_root :: "universe_root option"
  apr_universe_inclusion_proof :: bytes
  apr_asset_leaf :: "asset_leaf option"
  apr_multiverse_root :: "merkle_sum_node option"
  apr_multiverse_inclusion_proof :: bytes

record synced_universe =
  su_old_asset_root :: "universe_root option"
  su_new_asset_root :: "universe_root option"
  su_new_asset_leaves :: "asset_leaf list"

record sync_request =
  sy_universe_host :: string
  sy_sync_mode :: int
  sy_sync_targets :: "universe_id list"

section \<open>The client\<close>

text \<open>One constructor per call of the client interfaces that the modelled code makes.\<close>

datatype call =
    NewAddr new_address_request
  | ListAssetGroups
  | ListBalances "list_balances_request option"
  | QueryAssetRoots universe_id
  | VerifyProof bytes
  | QueryScriptKey bytes
  | CustomAnchorCapabilitiesCall
  | AssetLeafKeys asset_leaf_keys_request
  | QueryProof universe_key
  | SyncUniverse sync_request
  | ListUtxos list_utxos_request
  | ProveAssetOwnership prove_ownership_request
  | VerifyAssetOwnership verify_ownership_request
  | DeriveScriptKey
  | DeriveInternalKey
  | ListAssetRecords "list_assets_request option"
  | ListTransfers "string option"
  | ExportProof string bytes "outpoint option"
  | UnpackProofFile bytes
  | DecodeProof bytes
  | InsertProof bytes decoded_proof
  | RegisterTransfer string bytes outpoint
  | RegisterTransferWithIssuance string bytes bytes outpoint
  | BurnAsset burn_asset_request
  | SendAsset send_asset_request
  | MintAssetCall mint_asset
  | MintIssuanceCall mint_issuance
  | FundBatch fee_rate
  | SignIssuance issuance_signing_request
  | SealBatch "string list"
  | FinalizeBatch fee_rate
  | CancelBatch
  | ListBatches
  | FundTransfer "recipient list" "prev_id list"
  | FundInteractivePsbt bytes
  | SignVirtualPsbt bytes
  | CommitVirtualPsbts "bytes list" "bytes list" fee_rate
  | CommitVirtualPsbtsWithRequest commit_virtual_psbts_request
  | AnchorVirtualPsbts "bytes list"
  | SignAnchor bytes
  | PublishAndLogTransfer bytes "bytes list" "bytes list" bool
  | PublishAndLogTransferWithRequest publish_and_log_transfer_request

text \<open>
  The responses. A response function gets the calls made before this one and the call's arguments.
  Results that the code tests for nil are options. \<open>ListAssetGroups\<close> yields the references of the
  groups, \<open>ProveAssetOwnership\<close> the bytes of \<open>ProofWithWitness\<close>. The last three fields are the
  optional interfaces the code asks for with a type assertion: \<open>None\<close> when it does not hold.
\<close>

record client =
  c_new_addr :: "call list \<Rightarrow> new_address_request \<Rightarrow> address result"
  c_list_asset_groups :: "call list \<Rightarrow> string list result"
  c_list_balances :: "call list \<Rightarrow> list_balances_request option \<Rightarrow> list_balances_response option result"
  c_query_asset_roots :: "call list \<Rightarrow> universe_id \<Rightarrow> query_root_response option result"
  c_verify_proof :: "call list \<Rightarrow> bytes \<Rightarrow> verify_proof_response option result"
  c_query_script_key :: "call list \<Rightarrow> bytes \<Rightarrow> script_key option result"
  c_asset_leaf_keys :: "call list \<Rightarrow> asset_leaf_keys_request \<Rightarrow> asset_leaf_key list result"
  c_query_proof :: "call list \<Rightarrow> universe_key \<Rightarrow> asset_proof_response option result"
  c_sync_universe :: "call list \<Rightarrow> sync_request \<Rightarrow> synced_universe list result"
  c_list_utxos :: "call list \<Rightarrow> list_utxos_request \<Rightarrow> managed_utxo option list result"
  c_prove_asset_ownership :: "call list \<Rightarrow> prove_ownership_request \<Rightarrow> bytes option result"
  c_verify_asset_ownership :: "call list \<Rightarrow> verify_ownership_request \<Rightarrow> verify_ownership_response option result"
  c_derive_script_key :: "call list \<Rightarrow> script_key result"
  c_derive_internal_key :: "call list \<Rightarrow> internal_key result"
  c_list_asset_records :: "call list \<Rightarrow> list_assets_request option \<Rightarrow> asset_record option list result"
  c_list_transfers :: "call list \<Rightarrow> string option \<Rightarrow> asset_transfer option list result"
  c_export_proof :: "call list \<Rightarrow> string \<Rightarrow> bytes \<Rightarrow> outpoint option \<Rightarrow> proof_file option result"
  c_unpack_proof_file :: "call list \<Rightarrow> bytes \<Rightarrow> bytes list result"
  c_decode_proof :: "call list \<Rightarrow> bytes \<Rightarrow> decoded_proof result"
  c_insert_proof :: "call list \<Rightarrow> bytes \<Rightarrow> decoded_proof \<Rightarrow> unit result"
  c_register_transfer :: "call list \<Rightarrow> string \<Rightarrow> bytes \<Rightarrow> outpoint \<Rightarrow> registered_asset result"
  c_burn_asset :: "call list \<Rightarrow> burn_asset_request \<Rightarrow> burn_asset_response option result"
  c_send_asset :: "call list \<Rightarrow> send_asset_request \<Rightarrow> asset_transfer result"
  c_mint_asset :: "call list \<Rightarrow> mint_asset \<Rightarrow> unit result"
  c_mint_issuance :: "call list \<Rightarrow> mint_issuance \<Rightarrow> unit result"
  c_fund_batch :: "call list \<Rightarrow> fee_rate \<Rightarrow> verbose_minting_batch option result"
  c_seal_batch :: "call list \<Rightarrow> string list \<Rightarrow> unit result"
  c_finalize_batch :: "call list \<Rightarrow> fee_rate \<Rightarrow> unit result"
  c_cancel_batch :: "call list \<Rightarrow> unit result"
  c_list_batches :: "call list \<Rightarrow> verbose_minting_batch option list result"
  c_fund_transfer :: "call list \<Rightarrow> recipient list \<Rightarrow> prev_id list \<Rightarrow> funded_transfer result"
  c_fund_interactive_psbt :: "call list \<Rightarrow> bytes \<Rightarrow> funded_transfer result"
  c_sign_virtual_psbt :: "call list \<Rightarrow> bytes \<Rightarrow> bytes result"
  c_commit_virtual_psbts :: "call list \<Rightarrow> bytes list \<Rightarrow> bytes list \<Rightarrow> fee_rate \<Rightarrow> committed_transfer result"
  c_anchor_virtual_psbts :: "call list \<Rightarrow> bytes list \<Rightarrow> asset_transfer result"
  c_publish_and_log :: "call list \<Rightarrow> bytes \<Rightarrow> bytes list \<Rightarrow> bytes list \<Rightarrow> bool \<Rightarrow> asset_packet option result"
  c_register_with_issuance ::
    "(call list \<Rightarrow> string \<Rightarrow> bytes \<Rightarrow> bytes \<Rightarrow> outpoint \<Rightarrow> registered_asset result) option"
  c_custom_anchor ::
    "((call list \<Rightarrow> commit_virtual_psbts_request \<Rightarrow> commit_virtual_psbts_response option result) \<times>
      (call list \<Rightarrow> publish_and_log_transfer_request \<Rightarrow> asset_packet option result)) option"
  c_capability_provider :: "(call list \<Rightarrow> capabilities option result) option"

section \<open>Operations that call the client\<close>

type_synonym 'a io = "call list \<Rightarrow> 'a result \<times> call list"

definition return_io :: "'a \<Rightarrow> 'a io" where
  "return_io x = (\<lambda>h. (Inr x, h))"

definition lift_io :: "'a result \<Rightarrow> 'a io" where
  "lift_io r = (\<lambda>h. (r, h))"

definition bind_io :: "'a io \<Rightarrow> ('a \<Rightarrow> 'b io) \<Rightarrow> 'b io" where
  "bind_io m f = (\<lambda>h. case m h of (Inl e, h') \<Rightarrow> (Inl e, h') | (Inr x, h') \<Rightarrow> f x h')"

text \<open>The result of an operation as a value, for code that looks at the error itself.\<close>

definition try_io :: "'a io \<Rightarrow> 'a result io" where
  "try_io m = (\<lambda>h. case m h of (r, h') \<Rightarrow> (Inr r, h'))"

text \<open>The value a pointer result points to.\<close>

definition deref_result :: "'a option result \<Rightarrow> 'a result" where
  "deref_result r = and_then r (\<lambda>x. case x of None \<Rightarrow> Inl (Plain ''nil pointer dereference'') | Some y \<Rightarrow> Inr y)"

definition call_io :: "call \<Rightarrow> (call list \<Rightarrow> 'a result) \<Rightarrow> 'a io" where
  "call_io c resp = (\<lambda>h. (resp h, h @ [c]))"

text \<open>\<open>if err != nil { return nil, wrapErr(op, err) }\<close> around an operation.\<close>

definition wrap_io :: "'k lib \<Rightarrow> string \<Rightarrow> 'a io \<Rightarrow> 'a io" where
  "wrap_io L op m = (\<lambda>h. case m h of (r, h') \<Rightarrow> (wrap_op L op r, h'))"

fun for_io :: "('s \<Rightarrow> 'a \<Rightarrow> 's io) \<Rightarrow> 's \<Rightarrow> 'a list \<Rightarrow> 's io" where
  "for_io f s [] = return_io s"
| "for_io f s (x # xs) = bind_io (f s x) (\<lambda>s'. for_io f s' xs)"

lemma io_simps [simp]:
  "return_io x h = (Inr x, h)" "lift_io r h = (r, h)" "call_io c resp h = (resp h, h @ [c])"
  by (simp_all add: return_io_def lift_io_def call_io_def)

lemma bind_io_apply: "bind_io m f h = (case m h of (Inl e, h') \<Rightarrow> (Inl e, h') | (Inr x, h') \<Rightarrow> f x h')"
  by (simp add: bind_io_def)

lemma wrap_io_apply: "wrap_io L op m h = (wrap_op L op (fst (m h)), snd (m h))"
  by (simp add: wrap_io_def split: prod.splits)

lemma try_io_apply: "try_io m h = (Inr (fst (m h)), snd (m h))"
  by (simp add: try_io_def split: prod.splits)

lemmas io_apply = bind_io_apply wrap_io_apply try_io_apply

text \<open>The calls of an operation: it only ever appends to the calls made before.\<close>

definition calls_of :: "'a io \<Rightarrow> call list \<Rightarrow> call list" where
  "calls_of m h = drop (length h) (snd (m h))"

definition appends :: "'a io \<Rightarrow> bool" where
  "appends m \<longleftrightarrow> (\<forall>h. \<exists>cs. snd (m h) = h @ cs)"

lemma appends_basic [intro, simp]:
  "appends (return_io x)" "appends (lift_io r)" "appends (call_io c resp)"
  by (auto simp: appends_def)

lemma appends_wrap [intro]: "appends m \<Longrightarrow> appends (wrap_io L op m)"
  by (auto simp: appends_def wrap_io_apply)

lemma appends_try [intro]: "appends m \<Longrightarrow> appends (try_io m)"
  by (auto simp: appends_def try_io_apply)

lemma appends_bind [intro]:
  assumes "appends m" and "\<And>x. appends (f x)"
  shows "appends (bind_io m f)"
  unfolding appends_def
proof
  fix h
  obtain cs where cs: "snd (m h) = h @ cs" using assms(1) by (auto simp: appends_def)
  show "\<exists>cs. snd (bind_io m f h) = h @ cs"
  proof (cases "fst (m h)")
    case (Inl e)
    with cs show ?thesis by (auto simp: bind_io_apply split: prod.splits)
  next
    case (Inr x)
    obtain ds where "snd (f x (h @ cs)) = (h @ cs) @ ds" using assms(2) [of x] unfolding appends_def by blast
    with Inr cs show ?thesis by (auto simp: bind_io_apply split: prod.splits)
  qed
qed

lemma appends_if [intro]: "appends a \<Longrightarrow> appends b \<Longrightarrow> appends (if p then a else b)"
  by simp

lemma appends_option [intro]:
  "appends a \<Longrightarrow> (\<And>x. appends (f x)) \<Longrightarrow> appends (case r of None \<Rightarrow> a | Some x \<Rightarrow> f x)"
  by (cases r) simp_all

lemma bind_io_first:
  assumes "\<And>x. appends (f x)"
  shows "\<exists>cs. snd (bind_io m f h) = snd (m h) @ cs"
proof (cases "m h")
  case (Pair r h')
  show ?thesis
  proof (cases r)
    case (Inl e)
    with Pair show ?thesis by (simp add: bind_io_apply)
  next
    case (Inr x)
    have "\<exists>cs. snd (f x h') = h' @ cs" using assms [of x] unfolding appends_def by blast
    with Inr Pair show ?thesis by (simp add: bind_io_apply)
  qed
qed

lemma appends_for [intro]: "(\<And>s x. appends (f s x)) \<Longrightarrow> appends (for_io f s xs)"
  by (induction xs arbitrary: s) auto


section \<open>A concrete client\<close>

text \<open>A daemon that answers every call with an error; the examples replace single answers.\<close>

definition offline :: go_error where
  "offline = External (Some (Unavailable, ''offline'')) ''rpc error: offline''"

definition offline_client :: client where
  "offline_client =
     \<lparr>c_new_addr = (\<lambda>_ _. Inl offline), c_list_asset_groups = (\<lambda>_. Inl offline),
      c_list_balances = (\<lambda>_ _. Inl offline), c_query_asset_roots = (\<lambda>_ _. Inl offline),
      c_verify_proof = (\<lambda>_ _. Inl offline), c_query_script_key = (\<lambda>_ _. Inl offline),
      c_asset_leaf_keys = (\<lambda>_ _. Inl offline), c_query_proof = (\<lambda>_ _. Inl offline),
      c_sync_universe = (\<lambda>_ _. Inl offline), c_list_utxos = (\<lambda>_ _. Inl offline),
      c_prove_asset_ownership = (\<lambda>_ _. Inl offline), c_verify_asset_ownership = (\<lambda>_ _. Inl offline),
      c_derive_script_key = (\<lambda>_. Inl offline), c_derive_internal_key = (\<lambda>_. Inl offline),
      c_list_asset_records = (\<lambda>_ _. Inl offline), c_list_transfers = (\<lambda>_ _. Inl offline),
      c_export_proof = (\<lambda>_ _ _ _. Inl offline), c_unpack_proof_file = (\<lambda>_ _. Inl offline),
      c_decode_proof = (\<lambda>_ _. Inl offline), c_insert_proof = (\<lambda>_ _ _. Inl offline),
      c_register_transfer = (\<lambda>_ _ _ _. Inl offline), c_burn_asset = (\<lambda>_ _. Inl offline),
      c_send_asset = (\<lambda>_ _. Inl offline), c_mint_asset = (\<lambda>_ _. Inl offline),
      c_mint_issuance = (\<lambda>_ _. Inl offline), c_fund_batch = (\<lambda>_ _. Inl offline),
      c_seal_batch = (\<lambda>_ _. Inl offline), c_finalize_batch = (\<lambda>_ _. Inl offline),
      c_cancel_batch = (\<lambda>_. Inl offline), c_list_batches = (\<lambda>_. Inl offline),
      c_fund_transfer = (\<lambda>_ _ _. Inl offline), c_fund_interactive_psbt = (\<lambda>_ _. Inl offline),
      c_sign_virtual_psbt = (\<lambda>_ _. Inl offline), c_commit_virtual_psbts = (\<lambda>_ _ _ _. Inl offline),
      c_anchor_virtual_psbts = (\<lambda>_ _. Inl offline), c_publish_and_log = (\<lambda>_ _ _ _ _. Inl offline),
      c_register_with_issuance = None, c_custom_anchor = None, c_capability_provider = None\<rparr>"

end
