(* ===== verification/Tap_Issuer.thy ===== *)
theory Tap_Issuer
  imports Tap_Client
begin

text \<open>
  The high-level issuer (\<open>issuer.go\<close>, \<open>mint.go\<close>): readiness check, staging, external signing,
  finalisation with cleanup of a failed batch, and the polling that maps an accepted mint to the
  wallet row it produced. Calls of one issuer are serialised by a lock, so each method is modelled
  as one operation.
\<close>

section \<open>Constants and names\<close>

definition default_mint_resolve_timeout :: int where
  "default_mint_resolve_timeout = 10000000000"

primrec issuance_operation_string :: "issuance_operation \<Rightarrow> string" where
  "issuance_operation_string IssuanceOperationUnknown = ''unknown''"
| "issuance_operation_string IssuanceOperationCreateAsset = ''create_asset''"
| "issuance_operation_string IssuanceOperationIssueAsset = ''issue_asset''"
| "issuance_operation_string IssuanceOperationCreateCollection = ''create_collection''"
| "issuance_operation_string IssuanceOperationMintCollectionItem = ''mint_collection_item''"

primrec batch_state_string :: "batch_state \<Rightarrow> string" where
  "batch_state_string BatchStateUnknown = ''unknown''"
| "batch_state_string BatchStatePending = ''pending''"
| "batch_state_string BatchStateFrozen = ''frozen''"
| "batch_state_string BatchStateCommitted = ''committed''"
| "batch_state_string BatchStateBroadcast = ''broadcast''"
| "batch_state_string BatchStateConfirmed = ''confirmed''"
| "batch_state_string BatchStateFinalized = ''finalized''"
| "batch_state_string BatchStateSeedlingCancelled = ''seedling_cancelled''"
| "batch_state_string BatchStateSproutCancelled = ''sprout_cancelled''"
| "batch_state_string (BatchStateOther _) = ''unrecognized''"

section \<open>Specifications and options\<close>

record fungible_asset_spec =
  fs_name :: string
  fs_amount :: u64
  fs_asset_meta :: "asset_meta option"
  fs_asset_version :: byte
  fs_decimal_display :: u32
  fs_script_key :: "script_key option"
  fs_enable_supply_commitments :: bool

record nft_spec =
  ns_name :: string
  ns_asset_meta :: "asset_meta option"
  ns_asset_version :: byte
  ns_script_key :: "script_key option"

record collection_mint_result =
  cm_collection :: collection
  cm_first_item :: asset

text \<open>The signer is an interface of the caller; it answers with the signed PSBT text.\<close>

record mint_options =
  mo_fee_rate :: fee_rate
  mo_resolve_timeout :: int
  mo_external_issuance_key :: "external_key option"
  mo_external_issuance_signer :: "(call list \<Rightarrow> issuance_signing_request \<Rightarrow> string result) option"

definition no_mint_options :: mint_options where
  "no_mint_options = \<lparr>mo_fee_rate = \<lparr>sat_per_kvbyte = 0\<rparr>, mo_resolve_timeout = 0,
     mo_external_issuance_key = None, mo_external_issuance_signer = None\<rparr>"

type_synonym mint_option = "(mint_options \<Rightarrow> mint_options) option"

definition with_mint_fee_rate :: "fee_rate \<Rightarrow> mint_option" where
  "with_mint_fee_rate fr = Some (\<lambda>opts. opts\<lparr>mo_fee_rate := fr\<rparr>)"

definition with_mint_resolve_timeout :: "int \<Rightarrow> mint_option" where
  "with_mint_resolve_timeout t = Some (\<lambda>opts. opts\<lparr>mo_resolve_timeout := t\<rparr>)"

definition with_external_issuance_key :: "external_key \<Rightarrow> mint_option" where
  "with_external_issuance_key key = Some (\<lambda>opts. opts\<lparr>mo_external_issuance_key := Some key\<rparr>)"

definition with_external_issuance_signer ::
  "(call list \<Rightarrow> issuance_signing_request \<Rightarrow> string result) option \<Rightarrow> mint_option" where
  "with_external_issuance_signer signer = Some (\<lambda>opts. opts\<lparr>mo_external_issuance_signer := signer\<rparr>)"

definition apply_mint_options :: "mint_option list \<Rightarrow> mint_options" where
  "apply_mint_options opts =
     foldl (\<lambda>acc opt. case opt of None \<Rightarrow> acc | Some f \<Rightarrow> f acc) no_mint_options opts"

definition resolve_timeout_or_default :: "mint_options \<Rightarrow> int" where
  "resolve_timeout_or_default opts =
     (if mo_resolve_timeout opts \<le> 0 then default_mint_resolve_timeout else mo_resolve_timeout opts)"

definition validate_fungible_spec :: "fungible_asset_spec \<Rightarrow> unit result" where
  "validate_fungible_spec spec =
     (if fs_name spec = [] then Inl (Sentinel ErrAssetNameRequired)
      else if fs_amount spec = 0 then Inl (Sentinel ErrZeroAmount)
      else Inr ())"

definition validate_nft_spec :: "nft_spec \<Rightarrow> unit result" where
  "validate_nft_spec spec =
     (if ns_name spec = [] then Inl (Sentinel ErrAssetNameRequired) else Inr ())"

definition validate_grouped_ref :: "'k lib \<Rightarrow> string \<Rightarrow> unit result" where
  "validate_grouped_ref L ref =
     and_then (asset_ref_validate L ref) (\<lambda>_.
       if \<not> is_group_ref L ref then Inl (Sentinel ErrAssetNotIssuable) else Inr ())"

definition mint_nft_asset :: "nft_spec \<Rightarrow> bool \<Rightarrow> mint_asset" where
  "mint_nft_asset spec coll =
     \<lparr>ma_asset_version = ns_asset_version spec, ma_asset_type = asset_type_collectible,
      ma_name = ns_name spec, ma_asset_meta = ns_asset_meta spec, ma_initial_supply = 1,
      ma_allow_issuance = coll, ma_decimal_display = 0, ma_script_key = ns_script_key spec,
      ma_group_internal_key = None, ma_group_tapscript_root = [], ma_external_group_key = None,
      ma_enable_supply_commitments = False\<rparr>"

definition apply_external_issuance_key_to_asset :: "mint_asset \<Rightarrow> mint_options \<Rightarrow> mint_asset" where
  "apply_external_issuance_key_to_asset stage opts =
     (if mo_external_issuance_key opts = None then stage
      else if \<not> ma_allow_issuance stage then stage
      else stage\<lparr>ma_external_group_key := mo_external_issuance_key opts\<rparr>)"

definition apply_external_issuance_key_to_issuance :: "mint_issuance \<Rightarrow> mint_options \<Rightarrow> mint_issuance" where
  "apply_external_issuance_key_to_issuance stage opts =
     stage\<lparr>mi_external_group_key := mo_external_issuance_key opts\<rparr>"

definition signing_operation_for_mint_asset :: "mint_asset \<Rightarrow> issuance_operation" where
  "signing_operation_for_mint_asset stage =
     (if \<not> ma_allow_issuance stage then IssuanceOperationUnknown
      else if ma_asset_type stage = asset_type_normal then IssuanceOperationCreateAsset
      else if ma_asset_type stage = asset_type_collectible then IssuanceOperationCreateCollection
      else IssuanceOperationUnknown)"

section \<open>Batches\<close>

definition is_active_mint_batch :: "batch_state \<Rightarrow> bool" where
  "is_active_mint_batch s \<longleftrightarrow>
     (case s of
        BatchStatePending \<Rightarrow> True
      | BatchStateFrozen \<Rightarrow> True
      | BatchStateCommitted \<Rightarrow> True
      | BatchStateBroadcast \<Rightarrow> True
      | _ \<Rightarrow> False)"

text \<open>An issuer is a client pointer; \<open>None\<close> is nil.\<close>

definition nil_issuer :: go_error where
  "nil_issuer = Plain ''issuer client is nil''"

definition ensure_ready :: "client option \<Rightarrow> unit io" where
  "ensure_ready issuer =
     (case issuer of
        None \<Rightarrow> lift_io (Inl nil_issuer)
      | Some c \<Rightarrow>
        bind_io (call_io ListBatches (\<lambda>h. c_list_batches c h)) (\<lambda>batches.
          if list_ex (\<lambda>b. case b of None \<Rightarrow> False | Some v \<Rightarrow> is_active_mint_batch (mb_state (vb_batch v))) batches
          then lift_io (Inl (Wrapf [] (Sentinel ErrMintBatchActive) '': batch is active''))
          else return_io ()))"

definition cancel_batch_best_effort :: "client \<Rightarrow> unit io" where
  "cancel_batch_best_effort c =
     bind_io (try_io (call_io CancelBatch (\<lambda>h. c_cancel_batch c h))) (\<lambda>_. return_io ())"

section \<open>External signing\<close>

record issuance_signing_context =
  sc_operation :: issuance_operation
  sc_asset_ref :: string

text \<open>The request for one unsealed asset; \<open>None\<close> when it carries no group PSBT.\<close>

definition signing_request ::
  "'k lib \<Rightarrow> external_key \<Rightarrow> issuance_signing_context \<Rightarrow> unsealed_mint_asset \<Rightarrow>
   issuance_signing_request option result" where
  "signing_request L key ctx u =
     (if um_group_virtual_psbt u = [] then Inr None
      else
      (let req0 = \<lparr>is_req_operation = sc_operation ctx, is_req_asset_ref = sc_asset_ref ctx,
                   is_req_name = [], is_req_asset_type = 0, is_req_amount = 0, is_req_script_key = None,
                   is_req_external_key = key, is_req_anchor_genesis = None,
                   is_req_virtual_psbt = um_group_virtual_psbt u, is_req_virtual_tx = um_group_virtual_tx u\<rparr>;
           req1 = (case um_asset u of
                     None \<Rightarrow> req0
                   | Some a \<Rightarrow> req0\<lparr>is_req_name := pm_name a, is_req_asset_type := pm_asset_type a,
                       is_req_amount := pm_amount a, is_req_script_key := pm_script_key a\<rparr>);
           req2 = (case um_group_key_request u of
                     None \<Rightarrow> req1
                   | Some g \<Rightarrow>
                       (let r = req1\<lparr>is_req_anchor_genesis := gk_anchor_genesis g\<rparr> in
                        case gk_external_key g of
                          None \<Rightarrow> r | Some k \<Rightarrow> r\<lparr>is_req_external_key := k\<rparr>))
       in case um_group_virtual_tx u of
            None \<Rightarrow> Inr (Some req2)
          | Some tx \<Rightarrow>
            (case gv_tweaked_key tx of
               None \<Rightarrow> Inr (Some req2)
             | Some tweaked \<Rightarrow>
               (if asset_ref_is_zero (is_req_asset_ref req2)
                then and_then (asset_ref_from_group_key L tweaked)
                       (\<lambda>ref. Inr (Some (req2\<lparr>is_req_asset_ref := ref\<rparr>)))
                else Inr (Some req2)))))"

definition issuance_signing_requests ::
  "'k lib \<Rightarrow> verbose_minting_batch option \<Rightarrow> external_key option \<Rightarrow> issuance_signing_context \<Rightarrow>
   issuance_signing_request list result" where
  "issuance_signing_requests L batch_ptr key_ptr ctx =
     (case batch_ptr of
        None \<Rightarrow> Inl (Plain ''nil funded minting batch'')
      | Some batch \<Rightarrow>
        (case key_ptr of
           None \<Rightarrow> Inl (Sentinel ErrExternalIssuanceKeyRequired)
         | Some key \<Rightarrow>
           and_then (fold_res (\<lambda>reqs u. and_then (signing_request L key ctx u) (\<lambda>r.
                        Inr (case r of None \<Rightarrow> reqs | Some req \<Rightarrow> reqs @ [req])))
                      [] (vb_unsealed_assets batch)) (\<lambda>reqs.
             if reqs = [] then Inl (Sentinel ErrExternalIssuanceRequestNotFound) else Inr reqs)))"

definition sign_one ::
  "(call list \<Rightarrow> issuance_signing_request \<Rightarrow> string result) \<Rightarrow> string list \<Rightarrow> issuance_signing_request \<Rightarrow>
   string list io" where
  "sign_one signer signed_psbts req =
     bind_io (call_io (SignIssuance req) (\<lambda>h. signer h req)) (\<lambda>signed.
       if signed = [] then lift_io (Inl (Sentinel ErrExternalIssuanceSignatureRequired))
       else return_io (signed_psbts @ [signed]))"

definition sign_and_finalize_external_issuance ::
  "'k lib \<Rightarrow> client \<Rightarrow> mint_options \<Rightarrow> (call list \<Rightarrow> issuance_signing_request \<Rightarrow> string result) \<Rightarrow>
   issuance_signing_context \<Rightarrow> unit io" where
  "sign_and_finalize_external_issuance L c opts signer ctx =
     (if mo_external_issuance_key opts = None
      then lift_io (Inl (Sentinel ErrExternalIssuanceKeyRequired))
      else
      bind_io (call_io (FundBatch (mo_fee_rate opts)) (\<lambda>h. c_fund_batch c h (mo_fee_rate opts))) (\<lambda>funded.
      bind_io (lift_io (issuance_signing_requests L funded (mo_external_issuance_key opts) ctx)) (\<lambda>requests.
      bind_io (for_io (sign_one signer) [] requests) (\<lambda>signed_psbts.
      bind_io (call_io (SealBatch signed_psbts) (\<lambda>h. c_seal_batch c h signed_psbts)) (\<lambda>_.
      call_io (FinalizeBatch \<lparr>sat_per_kvbyte = 0\<rparr>) (\<lambda>h. c_finalize_batch c h \<lparr>sat_per_kvbyte = 0\<rparr>))))))"

section \<open>Minting\<close>

text \<open>\<open>mintAndFinalize\<close>; \<open>stage\<close> is the call that stages the asset or the issuance.\<close>

definition mint_and_finalize ::
  "'k lib \<Rightarrow> client option \<Rightarrow> (client \<Rightarrow> unit io) \<Rightarrow> mint_options \<Rightarrow> issuance_signing_context \<Rightarrow> unit io" where
  "mint_and_finalize L issuer stage opts ctx =
     (case issuer of
        None \<Rightarrow> lift_io (Inl nil_issuer)
      | Some c \<Rightarrow>
        (if mo_external_issuance_key opts \<noteq> None \<and> mo_external_issuance_signer opts = None
         then lift_io (Inl (Sentinel ErrExternalIssuanceSignerRequired))
         else if mo_external_issuance_signer opts \<noteq> None \<and> mo_external_issuance_key opts = None
         then lift_io (Inl (Sentinel ErrExternalIssuanceKeyRequired))
         else
         bind_io (stage c) (\<lambda>_.
         bind_io (try_io
           (case mo_external_issuance_signer opts of
              Some signer \<Rightarrow> sign_and_finalize_external_issuance L c opts signer ctx
            | None \<Rightarrow> call_io (FinalizeBatch (mo_fee_rate opts))
                        (\<lambda>h. c_finalize_batch c h (mo_fee_rate opts)))) (\<lambda>r.
           case r of
             Inr _ \<Rightarrow> return_io ()
           | Inl err \<Rightarrow> bind_io (cancel_batch_best_effort c) (\<lambda>_. lift_io (Inl err))))))"

definition stage_asset :: "mint_asset \<Rightarrow> client \<Rightarrow> unit io" where
  "stage_asset stage c = call_io (MintAssetCall stage) (\<lambda>h. c_mint_asset c h stage)"

definition stage_issuance :: "mint_issuance \<Rightarrow> client \<Rightarrow> unit io" where
  "stage_issuance stage c = call_io (MintIssuanceCall stage) (\<lambda>h. c_mint_issuance c h stage)"

section \<open>Finding the minted row\<close>

definition list_mint_records :: "client option \<Rightarrow> string option \<Rightarrow> asset_record option list io" where
  "list_mint_records issuer ref =
     (case issuer of
        None \<Rightarrow> lift_io (Inl nil_issuer)
      | Some c \<Rightarrow>
        (let req = Some ((list_assets_by_ref ref)\<lparr>lr_include_unconfirmed_mints := True\<rparr>) in
         call_io (ListAssetRecords req) (\<lambda>h. c_list_asset_records c h req)))"

text \<open>\<open>recordIDs\<close> builds a set; the model keeps the IDs in a list.\<close>

definition record_ids :: "asset_record option list \<Rightarrow> bytes list" where
  "record_ids records = map (\<lambda>r. ig_issuance_id (ar_genesis r)) (present records)"

definition is_record :: "asset_record \<Rightarrow> asset_type \<Rightarrow> string \<Rightarrow> u64 \<Rightarrow> bool" where
  "is_record r ty name amount \<longleftrightarrow>
     ig_type (ar_genesis r) = ty \<and> ig_tag (ar_genesis r) = name \<and> ar_amount r = amount"

definition find_new_record_once ::
  "client option \<Rightarrow> string option \<Rightarrow> bytes list \<Rightarrow> (asset_record \<Rightarrow> bool) \<Rightarrow> asset_record io" where
  "find_new_record_once issuer ref before matches =
     bind_io (list_mint_records issuer ref) (\<lambda>records.
       case find (\<lambda>r. ig_issuance_id (ar_genesis r) \<notin> set before \<and> matches r) (present records) of
         Some r \<Rightarrow> return_io r
       | None \<Rightarrow> lift_io (Inl (Sentinel ErrMintResultNotReady)))"

text \<open>
  Time is a schedule: how often the poll ticker fires before one of the two other channels of the
  \<open>select\<close> does, the deadline timer or the end of the context. The timer fires after finitely many
  ticks, so a schedule is a number and an end.
\<close>

datatype wait_end = DeadlineFired | ContextDone go_error

type_synonym schedule = "nat \<times> wait_end"

fun find_new_record ::
  "client option \<Rightarrow> string option \<Rightarrow> bytes list \<Rightarrow> (asset_record \<Rightarrow> bool) \<Rightarrow> nat \<Rightarrow> wait_end \<Rightarrow> asset_record io" where
  "find_new_record issuer ref before matches ticks fin =
     bind_io (try_io (find_new_record_once issuer ref before matches)) (\<lambda>r.
       case r of
         Inr record \<Rightarrow> return_io record
       | Inl err \<Rightarrow>
           (if \<not> errors_is err ErrMintResultNotReady then lift_io (Inl err)
            else case ticks of
                   Suc n \<Rightarrow> find_new_record issuer ref before matches n fin
                 | 0 \<Rightarrow> (case fin of
                           ContextDone e \<Rightarrow> lift_io (Inl e)
                         | DeadlineFired \<Rightarrow> lift_io (Inl (Wrapf [] (Sentinel ErrMintResolveTimeout)
                                              ('': '' @ err_text err))))))"


section \<open>Existing assets and collections\<close>

text \<open>The loops of \<open>resolveFungibleAsset\<close> and \<open>resolveCollection\<close> return at the first row that is there.\<close>

definition resolve_fungible_asset :: "'k lib \<Rightarrow> client option \<Rightarrow> string \<Rightarrow> asset_record io" where
  "resolve_fungible_asset L issuer ref =
     bind_io (list_mint_records issuer (Some ref)) (\<lambda>records.
       case present records of
         [] \<Rightarrow> lift_io (Inl (Wrapf [] (Sentinel ErrAssetUnknown) '': ref''))
       | r # _ \<Rightarrow>
           (if ig_type (ar_genesis r) \<noteq> asset_type_normal
            then lift_io (Inl (Wrapf [] (Sentinel ErrWrongAssetType) '': expected fungible asset''))
            else if \<not> is_group_ref L (ar_asset_ref r) then lift_io (Inl (Sentinel ErrAssetNotIssuable))
            else return_io r))"

definition only :: "go_error \<Rightarrow> 'a list \<Rightarrow> 'a io" where
  "only e xs = (if length xs \<noteq> 1 then lift_io (Inl e) else return_io (hd xs))"

definition mint_result_not_found :: go_error where
  "mint_result_not_found = Wrapf [] (Sentinel ErrMintResultNotFound) '': name''"

definition resolve_collection :: "'k lib \<Rightarrow> client option \<Rightarrow> string \<Rightarrow> collection io" where
  "resolve_collection L issuer ref =
     bind_io (list_mint_records issuer (Some ref)) (\<lambda>records.
       case present records of
         [] \<Rightarrow> lift_io (Inl (Wrapf [] (Sentinel ErrAssetUnknown) '': ref''))
       | r # _ \<Rightarrow>
           (if ig_type (ar_genesis r) \<noteq> asset_type_collectible
            then lift_io (Inl (Wrapf [] (Sentinel ErrWrongAssetType) '': expected NFT collection''))
            else if \<not> is_group_ref L (ar_asset_ref r)
            then lift_io (Inl (Wrapf [] (Sentinel ErrWrongAssetType) '': expected collection ref''))
            else bind_io (lift_io (collections_from_records L [Some r])) (only mint_result_not_found)))"

section \<open>Issuer operations\<close>

definition mint_asset_and_resolve ::
  "'k lib \<Rightarrow> client option \<Rightarrow> mint_asset \<Rightarrow> string option \<Rightarrow> (asset_record \<Rightarrow> bool) \<Rightarrow> mint_option list \<Rightarrow>
   schedule \<Rightarrow> asset_record io" where
  "mint_asset_and_resolve L issuer stage ref matches opts sched =
     (let mint_opts = apply_mint_options opts;
          signing_operation = signing_operation_for_mint_asset stage in
      if mo_external_issuance_signer mint_opts \<noteq> None \<and> signing_operation = IssuanceOperationUnknown
      then lift_io (Inl (Sentinel ErrAssetNotIssuable))
      else
      bind_io (ensure_ready issuer) (\<lambda>_.
      bind_io (list_mint_records issuer ref) (\<lambda>before.
      bind_io (mint_and_finalize L issuer
                 (stage_asset (apply_external_issuance_key_to_asset stage mint_opts)) mint_opts
                 \<lparr>sc_operation = signing_operation, sc_asset_ref = []\<rparr>) (\<lambda>_.
      find_new_record issuer ref (record_ids before) matches (fst sched) (snd sched)))))"

definition fungible_stage :: "fungible_asset_spec \<Rightarrow> mint_asset" where
  "fungible_stage spec =
     \<lparr>ma_asset_version = fs_asset_version spec, ma_asset_type = asset_type_normal,
      ma_name = fs_name spec, ma_asset_meta = fs_asset_meta spec, ma_initial_supply = fs_amount spec,
      ma_allow_issuance = True, ma_decimal_display = fs_decimal_display spec,
      ma_script_key = fs_script_key spec, ma_group_internal_key = None, ma_group_tapscript_root = [],
      ma_external_group_key = None, ma_enable_supply_commitments = fs_enable_supply_commitments spec\<rparr>"

definition create_fungible ::
  "'k lib \<Rightarrow> client option \<Rightarrow> fungible_asset_spec \<Rightarrow> mint_option list \<Rightarrow> schedule \<Rightarrow> asset io" where
  "create_fungible L issuer spec opts sched =
     wrap_io L ''CreateFungible''
     (bind_io (lift_io (validate_fungible_spec spec)) (\<lambda>_.
      bind_io (mint_asset_and_resolve L issuer (fungible_stage spec) None
        (\<lambda>r. is_record r asset_type_normal (fs_name spec) (fs_amount spec) \<and> is_group_ref L (ar_asset_ref r))
        opts sched) (\<lambda>record.
      bind_io (lift_io (assets_from_records L [Some record])) (only mint_result_not_found))))"

definition create_nft ::
  "'k lib \<Rightarrow> client option \<Rightarrow> nft_spec \<Rightarrow> mint_option list \<Rightarrow> schedule \<Rightarrow> asset io" where
  "create_nft L issuer spec opts sched =
     wrap_io L ''CreateNFT''
     (bind_io (lift_io (validate_nft_spec spec)) (\<lambda>_.
      bind_io (mint_asset_and_resolve L issuer (mint_nft_asset spec False) None
        (\<lambda>r. is_record r asset_type_collectible (ns_name spec) 1 \<and> is_asset_id_ref L (ar_asset_ref r))
        opts sched) (\<lambda>record.
      bind_io (lift_io (assets_from_records L [Some record])) (only mint_result_not_found))))"

definition create_collection ::
  "'k lib \<Rightarrow> client option \<Rightarrow> nft_spec \<Rightarrow> mint_option list \<Rightarrow> schedule \<Rightarrow> collection_mint_result io" where
  "create_collection L issuer first_item opts sched =
     wrap_io L ''CreateCollection''
     (bind_io (lift_io (validate_nft_spec first_item)) (\<lambda>_.
      bind_io (mint_asset_and_resolve L issuer (mint_nft_asset first_item True) None
        (\<lambda>r. is_record r asset_type_collectible (ns_name first_item) 1 \<and> is_group_ref L (ar_asset_ref r))
        opts sched) (\<lambda>record.
      bind_io (bind_io (lift_io (collections_from_records L [Some record])) (only mint_result_not_found)) (\<lambda>coll.
      bind_io (bind_io (lift_io (assets_from_records L [Some record])) (only mint_result_not_found)) (\<lambda>item.
      return_io \<lparr>cm_collection = coll, cm_first_item = item\<rparr>)))))"

definition issue_fungible ::
  "'k lib \<Rightarrow> client option \<Rightarrow> string \<Rightarrow> u64 \<Rightarrow> mint_option list \<Rightarrow> schedule \<Rightarrow> issuance io" where
  "issue_fungible L issuer ref amount opts sched =
     wrap_io L ''IssueFungible''
     (bind_io (lift_io (validate_grouped_ref L ref)) (\<lambda>_.
      if amount = 0 then lift_io (Inl (Sentinel ErrZeroAmount))
      else
      (let mint_opts = apply_mint_options opts in
      bind_io (ensure_ready issuer) (\<lambda>_.
      bind_io (resolve_fungible_asset L issuer ref) (\<lambda>base.
      bind_io (list_mint_records issuer (Some (ar_asset_ref base))) (\<lambda>before.
      (let stage = apply_external_issuance_key_to_issuance
             \<lparr>mi_asset_ref = ar_asset_ref base, mi_name = ig_tag (ar_genesis base),
              mi_asset_type = asset_type_normal, mi_asset_meta = None, mi_amount = amount,
              mi_asset_version = 0, mi_decimal_display = 0, mi_script_key = None,
              mi_external_group_key = None\<rparr> mint_opts in
      bind_io (mint_and_finalize L issuer (stage_issuance stage) mint_opts
        \<lparr>sc_operation = IssuanceOperationIssueAsset, sc_asset_ref = ar_asset_ref base\<rparr>) (\<lambda>_.
      bind_io (find_new_record issuer (Some (ar_asset_ref base)) (record_ids before)
        (\<lambda>r. is_record r asset_type_normal (ig_tag (ar_genesis base)) amount) (fst sched) (snd sched)) (\<lambda>record.
      bind_io (lift_io (issuances_from_records [Some record])) (only mint_result_not_found)))))))))) "

definition mint_collection_item ::
  "'k lib \<Rightarrow> client option \<Rightarrow> string \<Rightarrow> nft_spec \<Rightarrow> mint_option list \<Rightarrow> schedule \<Rightarrow> asset io" where
  "mint_collection_item L issuer collection_ref item opts sched =
     wrap_io L ''MintCollectionItem''
     (bind_io (lift_io (validate_grouped_ref L collection_ref)) (\<lambda>_.
      bind_io (lift_io (validate_nft_spec item)) (\<lambda>_.
      (let mint_opts = apply_mint_options opts in
      bind_io (ensure_ready issuer) (\<lambda>_.
      bind_io (resolve_collection L issuer collection_ref) (\<lambda>coll.
      bind_io (list_mint_records issuer (Some (co_asset_ref coll))) (\<lambda>before.
      (let stage = apply_external_issuance_key_to_issuance
             \<lparr>mi_asset_ref = co_asset_ref coll, mi_name = ns_name item,
              mi_asset_type = asset_type_collectible, mi_asset_meta = ns_asset_meta item, mi_amount = 1,
              mi_asset_version = ns_asset_version item, mi_decimal_display = 0,
              mi_script_key = ns_script_key item, mi_external_group_key = None\<rparr> mint_opts in
      bind_io (mint_and_finalize L issuer (stage_issuance stage) mint_opts
        \<lparr>sc_operation = IssuanceOperationMintCollectionItem, sc_asset_ref = co_asset_ref coll\<rparr>) (\<lambda>_.
      bind_io (find_new_record issuer (Some (co_asset_ref coll)) (record_ids before)
        (\<lambda>r. is_record r asset_type_collectible (ns_name item) 1 \<and>
             asset_ref_equivalent L (ar_asset_ref r) (co_asset_ref coll)) (fst sched) (snd sched)) (\<lambda>record.
      bind_io (lift_io (assets_from_records L [Some record])) (only mint_result_not_found))))))))))) "

section \<open>Polling\<close>

definition mint_list_call :: "string option \<Rightarrow> call" where
  "mint_list_call ref = ListAssetRecords (Some ((list_assets_by_ref ref)\<lparr>lr_include_unconfirmed_mints := True\<rparr>))"

definition mint_list_req :: "string option \<Rightarrow> list_assets_request option" where
  "mint_list_req ref = Some ((list_assets_by_ref ref)\<lparr>lr_include_unconfirmed_mints := True\<rparr>)"

lemma find_once_apply:
  "find_new_record_once (Some c) ref before matches h =
     (case c_list_asset_records c h (mint_list_req ref) of
        Inl e \<Rightarrow> (Inl e, h @ [mint_list_call ref])
      | Inr records \<Rightarrow>
          (case find (\<lambda>r. ig_issuance_id (ar_genesis r) \<notin> set before \<and> matches r) (present records) of
             Some r \<Rightarrow> (Inr r, h @ [mint_list_call ref])
           | None \<Rightarrow> (Inl (Sentinel ErrMintResultNotReady), h @ [mint_list_call ref])))"
  by (simp add: find_new_record_once_def list_mint_records_def io_apply mint_list_req_def mint_list_call_def
      Let_def split: sum.splits option.splits)

declare find_new_record.simps [simp del]

definition poll_outcome ::
  "client \<Rightarrow> string option \<Rightarrow> bytes list \<Rightarrow> (asset_record \<Rightarrow> bool) \<Rightarrow> nat \<Rightarrow> wait_end \<Rightarrow> call list \<Rightarrow>
   nat \<Rightarrow> asset_record result \<Rightarrow> bool" where
  "poll_outcome c ref before matches ticks fin h n out \<longleftrightarrow>
     n \<le> ticks \<and>
     (let answer = c_list_asset_records c (h @ replicate n (mint_list_call ref)) (mint_list_req ref) in
      case out of
        Inr r \<Rightarrow> ig_issuance_id (ar_genesis r) \<notin> set before \<and> matches r \<and>
          (case answer of Inr rows \<Rightarrow> Some r \<in> set rows | Inl _ \<Rightarrow> False)
      | Inl e \<Rightarrow> errors_is e ErrMintResolveTimeout \<longrightarrow>
          n = ticks \<and> fin = DeadlineFired \<or> fin = ContextDone e \<or> answer = Inl e)"

lemma find_new_record_outcome:
  assumes "find_new_record (Some c) ref before matches ticks fin h = (out, h')"
  shows "\<exists>n. h' = h @ replicate (Suc n) (mint_list_call ref) \<and> poll_outcome c ref before matches ticks fin h n out"
  using assms
proof (induction ticks arbitrary: h)
  case 0
  show ?case
  proof (cases "find_new_record_once (Some c) ref before matches h")
    case (Pair r h1)
    with 0 show ?thesis
      by (intro exI [of _ 0], subst (asm) find_new_record.simps)
        (auto simp: io_apply find_once_apply poll_outcome_def find_Some_iff nth_mem split: sum.splits option.splits
          if_splits wait_end.splits; force dest: nth_mem)
  qed
next
  case (Suc ticks)
  show ?case
  proof (cases "\<exists>e. fst (find_new_record_once (Some c) ref before matches h) = Inl e \<and>
      errors_is e ErrMintResultNotReady")
    case False
    with Suc.prems show ?thesis
      by (intro exI [of _ 0], subst (asm) find_new_record.simps)
        (auto simp: io_apply find_once_apply poll_outcome_def find_Some_iff nth_mem split: sum.splits option.splits
          if_splits; force dest: nth_mem)
  next
    case True
    moreover have "snd (find_new_record_once (Some c) ref before matches h) = h @ [mint_list_call ref]"
      by (auto simp: find_once_apply split: sum.splits option.splits)
    ultimately have "find_new_record (Some c) ref before matches ticks fin (h @ [mint_list_call ref]) = (out, h')"
      using Suc.prems by (subst (asm) find_new_record.simps) (auto simp: io_apply)
    from Suc.IH [OF this] obtain n where n: "h' = (h @ [mint_list_call ref]) @ replicate (Suc n) (mint_list_call ref)"
      "poll_outcome c ref before matches ticks fin (h @ [mint_list_call ref]) n out" by blast
    then show ?thesis
      by (intro exI [of _ "Suc n"]) (cases out, auto simp: poll_outcome_def Let_def)
  qed
qed


text \<open>
  Polling stops and is honest: the search for the minted row lists the rows at most one time
  more than the ticker fires; the row it returns was not there before the mint, matches, and is in
  the daemon's last answer; and a resolution timeout is reported only when the deadline fired.
\<close>

theorem find_new_record_polls:
  assumes "find_new_record (Some c) ref before matches ticks fin h = (out, h')"
  shows "\<exists>n \<le> ticks. h' = h @ replicate (Suc n) (mint_list_call ref) \<and>
     (let answer = c_list_asset_records c (h @ replicate n (mint_list_call ref)) (mint_list_req ref) in
      case out of
        Inr r \<Rightarrow> ig_issuance_id (ar_genesis r) \<notin> set before \<and> matches r \<and>
          (case answer of Inr rows \<Rightarrow> Some r \<in> set rows | Inl _ \<Rightarrow> False)
      | Inl e \<Rightarrow> errors_is e ErrMintResolveTimeout \<longrightarrow>
          n = ticks \<and> fin = DeadlineFired \<or> fin = ContextDone e \<or> answer = Inl e)"
  using find_new_record_outcome [OF assms] unfolding poll_outcome_def by blast

theorem find_new_record_polls_witness:
  "\<exists>n \<le> 3. snd (find_new_record (Some offline_client) None [] (\<lambda>_. True) 3 DeadlineFired []) =
     replicate (Suc n) (mint_list_call None)"
  using find_new_record_polls [of offline_client None "[]" "\<lambda>_. True" 3 DeadlineFired "[]",
      OF prod.collapse [symmetric]]
  by (simp only: append_Nil) blast


section \<open>Staging, signing and cleanup\<close>

lemma sign_one_apply:
  "sign_one signer acc req h =
     (case signer h req of
        Inl e \<Rightarrow> (Inl e, h @ [SignIssuance req])
      | Inr answer \<Rightarrow>
          ((if answer = [] then Inl (Sentinel ErrExternalIssuanceSignatureRequired) else Inr (acc @ [answer])),
           h @ [SignIssuance req]))"
  by (simp add: sign_one_def io_apply split: sum.splits)

lemma for_sign:
  "for_io (sign_one signer) acc reqs h = (r, h') \<Longrightarrow>
   \<exists>k \<le> length reqs. h' = h @ map SignIssuance (take k reqs) \<and>
     (\<forall>out. r = Inr out \<longrightarrow> k = length reqs \<and>
        (\<exists>sigs. out = acc @ sigs \<and> length sigs = length reqs \<and> [] \<notin> set sigs))"
proof (induction reqs arbitrary: acc h)
  case Nil
  then show ?case by auto
next
  case (Cons req reqs)
  show ?case
  proof (cases "signer h req")
    case (Inl e)
    with Cons.prems show ?thesis
      by (intro exI [of _ 1]) (auto simp: sign_one_apply bind_io_apply)
  next
    case (Inr answer)
    show ?thesis
    proof (cases "answer = []")
      case True
      with Cons.prems Inr show ?thesis
        by (intro exI [of _ 1]) (auto simp: sign_one_apply bind_io_apply)
    next
      case False
      with Inr have "sign_one signer acc req h = (Inr (acc @ [answer]), h @ [SignIssuance req])"
        by (simp add: sign_one_apply)
      with Cons.prems have "for_io (sign_one signer) (acc @ [answer]) reqs (h @ [SignIssuance req]) = (r, h')"
        by (simp add: bind_io_apply)
      from Cons.IH [OF this] obtain k where k: "k \<le> length reqs"
        "h' = (h @ [SignIssuance req]) @ map SignIssuance (take k reqs)"
        "\<forall>out. r = Inr out \<longrightarrow> k = length reqs \<and>
           (\<exists>sigs. out = (acc @ [answer]) @ sigs \<and> length sigs = length reqs \<and> [] \<notin> set sigs)" by blast
      have "\<exists>sigs. out = acc @ sigs \<and> length sigs = length (req # reqs) \<and> [] \<notin> set sigs"
        if "r = Inr out" for out
      proof -
        from k(3) that obtain sigs where "out = (acc @ [answer]) @ sigs" "length sigs = length reqs" "[] \<notin> set sigs"
          by blast
        with False show ?thesis by (intro exI [of _ "answer # sigs"]) simp
      qed
      with k show ?thesis by (intro exI [of _ "Suc k"]) auto
    qed
  qed
qed

text \<open>What the external signing flow sends.\<close>

definition external_trace ::
  "issuance_signing_request list \<Rightarrow> string list \<Rightarrow> fee_rate \<Rightarrow> call list" where
  "external_trace reqs sigs fr =
     [FundBatch fr] @ map SignIssuance reqs @ [SealBatch sigs, FinalizeBatch \<lparr>sat_per_kvbyte = 0\<rparr>]"

lemma sign_and_finalize_trace:
  assumes "sign_and_finalize_external_issuance L c opts signer ctx h = (out, h')"
  shows "\<exists>cs. h' = h @ cs \<and> CancelBatch \<notin> set cs \<and>
     (is_ok out \<longrightarrow> (\<exists>reqs sigs. cs = external_trace reqs sigs (mo_fee_rate opts) \<and> reqs \<noteq> [] \<and>
        length sigs = length reqs \<and> [] \<notin> set sigs))"
proof (cases "mo_external_issuance_key opts = None")
  case True
  with assms show ?thesis by (auto simp: sign_and_finalize_external_issuance_def)
next
  case False
  let ?fr = "mo_fee_rate opts" and ?zero = "\<lparr>sat_per_kvbyte = 0\<rparr> :: fee_rate"
  let ?h = "h @ [FundBatch ?fr]"
  show ?thesis
  proof (cases "c_fund_batch c h ?fr")
    case (Inl e)
    with assms False show ?thesis by (auto simp: sign_and_finalize_external_issuance_def io_apply)
  next
    case (Inr funded)
    show ?thesis
    proof (cases "issuance_signing_requests L funded (mo_external_issuance_key opts) ctx")
      case (Inl e)
      with assms False Inr show ?thesis
        by (auto simp: sign_and_finalize_external_issuance_def io_apply)
    next
      case reqs: (Inr reqs)
      then have ne: "reqs \<noteq> []"
        by (auto simp: issuance_signing_requests_def result_simps split: option.splits if_splits)
      obtain r h2 where loop: "for_io (sign_one signer) [] reqs ?h = (r, h2)" by fastforce
      from for_sign [OF this] obtain k where k: "h2 = ?h @ map SignIssuance (take k reqs)"
        "\<forall>out. r = Inr out \<longrightarrow> k = length reqs \<and> (\<exists>sigs. out = [] @ sigs \<and> length sigs = length reqs \<and> [] \<notin> set sigs)"
        by blast
      show ?thesis
      proof (cases r)
        case (Inl e)
        with assms False Inr reqs loop k show ?thesis
          by (auto simp: sign_and_finalize_external_issuance_def io_apply)
      next
        case sigs: (Inr sigs)
        with k have sg: "length sigs = length reqs" "[] \<notin> set sigs" and h2: "h2 = ?h @ map SignIssuance reqs" by auto
        show ?thesis
        proof (cases "c_seal_batch c h2 sigs")
          case (Inl e)
          with assms False Inr reqs loop sigs h2 show ?thesis
            by (auto simp: sign_and_finalize_external_issuance_def io_apply is_ok_iff)
        next
          case sealed: (Inr u)
          with assms False Inr reqs loop sigs h2 have
            "h' = h @ external_trace reqs sigs ?fr"
            by (auto simp: sign_and_finalize_external_issuance_def io_apply external_trace_def)
          with ne sg show ?thesis
            by (intro exI [of _ "external_trace reqs sigs ?fr"]) (auto simp: external_trace_def)
        qed
      qed
    qed
  qed
qed

text \<open>
  C23. A staged batch is finalised or cancelled: nothing is staged when only one of external key
  and signer is given; once staging has succeeded, \<open>mintAndFinalize\<close> either succeeds, ending with
  the finalisation and without ever cancelling (with a signer: funding, one signing request per
  group PSBT, sealing with exactly as many non-empty signatures), or fails and ends with the one
  cancellation of the batch.
\<close>

theorem staged_batch_finalised_or_cancelled:
  assumes "mint_and_finalize L (Some c) stage opts ctx h = (out, h')"
    and "\<forall>g. snd (stage c g) = g @ [x]" and "x \<noteq> CancelBatch"
  shows "if (mo_external_issuance_key opts = None) \<noteq> (mo_external_issuance_signer opts = None)
         then h' = h \<and> \<not> is_ok out
         else if \<not> is_ok (fst (stage c h)) then h' = h @ [x] \<and> \<not> is_ok out
         else \<exists>cs. h' = h @ [x] @ cs \<and>
           (if is_ok out
            then CancelBatch \<notin> set cs \<and>
              (if mo_external_issuance_signer opts = None then cs = [FinalizeBatch (mo_fee_rate opts)]
               else \<exists>reqs sigs. cs = external_trace reqs sigs (mo_fee_rate opts) \<and> reqs \<noteq> [] \<and>
                      length sigs = length reqs \<and> [] \<notin> set sigs)
            else \<exists>ds. cs = ds @ [CancelBatch] \<and> CancelBatch \<notin> set ds)"
proof (cases "(mo_external_issuance_key opts = None) \<noteq> (mo_external_issuance_signer opts = None)")
  case True
  with assms(1) show ?thesis by (auto simp: mint_and_finalize_def)
next
  case ok: False
  obtain r where stage: "stage c h = (r, h @ [x])" using assms(2) by (metis prod.collapse)
  show ?thesis
  proof (cases r)
    case (Inl e)
    with assms(1) ok stage show ?thesis by (auto simp: mint_and_finalize_def io_apply)
  next
    case (Inr u)
    let ?body = "case mo_external_issuance_signer opts of
              Some signer \<Rightarrow> sign_and_finalize_external_issuance L c opts signer ctx
            | None \<Rightarrow> call_io (FinalizeBatch (mo_fee_rate opts)) (\<lambda>h. c_finalize_batch c h (mo_fee_rate opts))"
    obtain r2 h2 where body: "?body (h @ [x]) = (r2, h2)" by fastforce
    have "\<exists>cs. h2 = (h @ [x]) @ cs \<and> CancelBatch \<notin> set cs \<and> (is_ok r2 \<longrightarrow>
        (if mo_external_issuance_signer opts = None then cs = [FinalizeBatch (mo_fee_rate opts)]
         else \<exists>reqs sigs. cs = external_trace reqs sigs (mo_fee_rate opts) \<and> reqs \<noteq> [] \<and>
                length sigs = length reqs \<and> [] \<notin> set sigs))"
      using body sign_and_finalize_trace [of L c opts _ ctx "h @ [x]" r2 h2]
      by (cases "mo_external_issuance_signer opts") auto
    then obtain cs where cs: "h2 = (h @ [x]) @ cs" "CancelBatch \<notin> set cs" "is_ok r2 \<longrightarrow>
        (if mo_external_issuance_signer opts = None then cs = [FinalizeBatch (mo_fee_rate opts)]
         else \<exists>reqs sigs. cs = external_trace reqs sigs (mo_fee_rate opts) \<and> reqs \<noteq> [] \<and>
                length sigs = length reqs \<and> [] \<notin> set sigs)" by blast
    have "(out, h') = (case r2 of Inr _ \<Rightarrow> (Inr (), h2) | Inl err \<Rightarrow> (Inl err, h2 @ [CancelBatch]))"
      unfolding assms(1) [symmetric]
      using ok stage Inr body
      by (auto simp: mint_and_finalize_def bind_io_apply try_io_apply cancel_batch_best_effort_def
          split: sum.splits)
    then show ?thesis
      using ok stage Inr cs by (cases r2) auto
  qed
qed


text \<open>A daemon that stages but fails to finalise.\<close>

definition staging_client :: client where
  "staging_client = offline_client\<lparr>c_mint_asset := \<lambda>_ _. Inr ()\<rparr>"

definition sample_stage :: mint_asset where
  "sample_stage = mint_nft_asset \<lparr>ns_name = ''cat'', ns_asset_meta = None, ns_asset_version = 0, ns_script_key = None\<rparr> False"

definition sample_signing :: issuance_signing_context where
  "sample_signing = \<lparr>sc_operation = IssuanceOperationCreateAsset, sc_asset_ref = []\<rparr>"

theorem staged_batch_finalised_or_cancelled_witness:
  "\<exists>ds. snd (mint_and_finalize sample_lib (Some staging_client) (stage_asset sample_stage) no_mint_options sample_signing []) =
     MintAssetCall sample_stage # ds @ [CancelBatch]"
proof -
  obtain out h' where run:
    "mint_and_finalize sample_lib (Some staging_client) (stage_asset sample_stage) no_mint_options sample_signing [] = (out, h')"
    by fastforce
  moreover have "out = Inl offline"
    using run by (simp add: mint_and_finalize_def no_mint_options_def stage_asset_def io_apply staging_client_def
        offline_client_def cancel_batch_best_effort_def)
  ultimately show ?thesis
    using staged_batch_finalised_or_cancelled [OF run, of "MintAssetCall sample_stage"]
    by (auto simp: stage_asset_def no_mint_options_def staging_client_def)
qed

section \<open>Readiness\<close>

definition no_active_batch :: "client \<Rightarrow> call list \<Rightarrow> bool" where
  "no_active_batch c h \<longleftrightarrow>
     (case c_list_batches c h of
        Inl _ \<Rightarrow> False
      | Inr batches \<Rightarrow> (\<forall>v. Some v \<in> set batches \<longrightarrow> \<not> is_active_mint_batch (mb_state (vb_batch v))))"

lemma ensure_ready_apply:
  "snd (ensure_ready (Some c) h) = h @ [ListBatches]"
  "is_ok (fst (ensure_ready (Some c) h)) \<longleftrightarrow> no_active_batch c h"
  by (auto simp: ensure_ready_def io_apply no_active_batch_def list_ex_iff split: sum.splits option.splits)

lemma bind_ready:
  "\<not> no_active_batch c h \<Longrightarrow> snd (bind_io (ensure_ready (Some c)) f h) = h @ [ListBatches] \<and>
     \<not> is_ok (fst (bind_io (ensure_ready (Some c)) f h))"
  using ensure_ready_apply [of c h]
  by (cases "ensure_ready (Some c) h"; cases "fst (ensure_ready (Some c) h)") (auto simp: bind_io_apply)

lemma wrap_op_ok [simp]: "is_ok (wrap_op L op r) \<longleftrightarrow> is_ok r"
  by (cases r) simp_all

lemma bind_lift: "bind_io (lift_io r) f h = (case r of Inl e \<Rightarrow> (Inl e, h) | Inr x \<Rightarrow> f x h)"
  by (simp add: bind_io_apply split: sum.splits)

definition stops_when_busy :: "client \<Rightarrow> call list \<Rightarrow> 'a result \<times> call list \<Rightarrow> bool" where
  "stops_when_busy c h out \<longleftrightarrow>
     no_active_batch c h \<or> (snd out \<in> {h, h @ [ListBatches]} \<and> \<not> is_ok (fst out))"

lemma stops_when_busy_simps:
  "stops_when_busy c h (Inl e, h)"
  "stops_when_busy c h (wrap_io L op m h) \<longleftrightarrow> stops_when_busy c h (m h)"
  "stops_when_busy c h (bind_io (ensure_ready (Some c)) f h)"
  using bind_ready [of c h f] by (auto simp: stops_when_busy_def wrap_io_apply)

lemma stops_when_busy_lift:
  "(\<And>x. stops_when_busy c h (f x h)) \<Longrightarrow> stops_when_busy c h (bind_io (lift_io r) f h)"
  by (cases r) (simp_all add: bind_lift stops_when_busy_simps)

lemma mint_asset_and_resolve_ready:
  "stops_when_busy c h (mint_asset_and_resolve L (Some c) stage ref matches opts sched h)"
  by (simp add: mint_asset_and_resolve_def Let_def stops_when_busy_simps)

lemma stops_when_busy_bind:
  "stops_when_busy c h (m h) \<Longrightarrow> stops_when_busy c h (bind_io m f h)"
  by (cases "m h"; cases "fst (m h)") (auto simp: stops_when_busy_def bind_io_apply)

text \<open>
  One batch at a time: while the daemon has a batch that is pending, frozen, committed or
  broadcast, or does not answer, none of the five issuer operations gets past the readiness check:
  they fail, and at most the listing of the batches has been sent, so nothing is staged.
\<close>

theorem issuer_waits_for_active_batch:
  assumes "\<not> no_active_batch c h"
  shows "(let out = create_fungible L (Some c) spec opts sched h in
            snd out \<in> {h, h @ [ListBatches]} \<and> \<not> is_ok (fst out)) \<and>
         (let out = create_nft L (Some c) nft opts sched h in
            snd out \<in> {h, h @ [ListBatches]} \<and> \<not> is_ok (fst out)) \<and>
         (let out = create_collection L (Some c) nft opts sched h in
            snd out \<in> {h, h @ [ListBatches]} \<and> \<not> is_ok (fst out)) \<and>
         (let out = issue_fungible L (Some c) ref amount opts sched h in
            snd out \<in> {h, h @ [ListBatches]} \<and> \<not> is_ok (fst out)) \<and>
         (let out = mint_collection_item L (Some c) ref nft opts sched h in
            snd out \<in> {h, h @ [ListBatches]} \<and> \<not> is_ok (fst out))"
proof -
  have "stops_when_busy c h (create_fungible L (Some c) spec opts sched h)"
    "stops_when_busy c h (create_nft L (Some c) nft opts sched h)"
    "stops_when_busy c h (create_collection L (Some c) nft opts sched h)"
    unfolding create_fungible_def create_nft_def create_collection_def stops_when_busy_simps
    by (intro stops_when_busy_lift stops_when_busy_bind mint_asset_and_resolve_ready)+
  moreover have "stops_when_busy c h (issue_fungible L (Some c) ref amount opts sched h)"
    unfolding issue_fungible_def stops_when_busy_simps
    by (rule stops_when_busy_lift) (simp add: Let_def stops_when_busy_simps)
  moreover have "stops_when_busy c h (mint_collection_item L (Some c) ref nft opts sched h)"
    unfolding mint_collection_item_def stops_when_busy_simps
    by (intro stops_when_busy_lift) (simp add: Let_def stops_when_busy_simps)
  ultimately show ?thesis
    using assms by (simp add: stops_when_busy_def Let_def)
qed

theorem issuer_waits_for_active_batch_witness:
  "\<not> is_ok (fst (issue_fungible sample_lib (Some offline_client) ''g'' 5 [] (3, DeadlineFired) []))"
proof -
  have "\<not> no_active_batch offline_client []" by (simp add: no_active_batch_def offline_client_def)
  from issuer_waits_for_active_batch [OF this, of sample_lib _ "[]" "(3, DeadlineFired)" _ "''g''" 5]
  show ?thesis by (simp add: Let_def)
qed


section \<open>What an issuer call returns\<close>

lemma single_asset:
  "assets_from_records L [Some r] =
     and_then (asset_from_record L r) (\<lambda>a. Inr [a\<lparr>as_amount := ar_amount r\<rparr>])"
proof (cases "asset_from_record L r")
  case (Inl e)
  then show ?thesis by (simp add: assets_from_records_def assets_step_def)
next
  case (Inr a)
  then have "as_amount a = 0" by (rule asset_from_record_amount)
  with Inr show ?thesis
    by (simp add: assets_from_records_def assets_step_def aggregation_eval)
qed

lemma fst_only [simp]: "fst (only e xs h) = Inr y \<longleftrightarrow> xs = [y]"
  by (cases xs) (auto simp: only_def)

lemma bind_ok:
  "fst (bind_io m f h) = Inr y \<longleftrightarrow> (\<exists>x h'. m h = (Inr x, h') \<and> fst (f x h') = Inr y)"
  by (cases "m h"; cases "fst (m h)") (auto simp: bind_io_apply)

lemma mint_and_finalize_ok:
  assumes "mint_and_finalize L (Some c) (stage_asset s) opts ctx h = (Inr u, h')"
  shows "\<exists>cs fr. h' = h @ [MintAssetCall s] @ cs \<and> FinalizeBatch fr \<in> set cs"
proof -
  let ?h = "h @ [MintAssetCall s]"
  let ?body = "case mo_external_issuance_signer opts of
            Some signer \<Rightarrow> sign_and_finalize_external_issuance L c opts signer ctx
          | None \<Rightarrow> call_io (FinalizeBatch (mo_fee_rate opts)) (\<lambda>h. c_finalize_batch c h (mo_fee_rate opts))"
  obtain r2 h2 where body: "?body ?h = (r2, h2)" by fastforce
  from assms have ok: "is_ok r2" "h' = h2"
    using body by (auto simp: mint_and_finalize_def stage_asset_def io_apply
        split: if_split_asm sum.split_asm prod.split_asm)
  show ?thesis
  proof (cases "mo_external_issuance_signer opts")
    case None
    with body ok show ?thesis by auto
  next
    case (Some signer)
    with body have "sign_and_finalize_external_issuance L c opts signer ctx ?h = (r2, h2)" by simp
    from sign_and_finalize_trace [OF this] ok obtain reqs sigs where
      "h2 = ?h @ external_trace reqs sigs (mo_fee_rate opts)" by blast
    with ok show ?thesis
      by (intro exI [of _ "external_trace reqs sigs (mo_fee_rate opts)"] exI [of _ "\<lparr>sat_per_kvbyte = 0\<rparr>"])
        (simp add: external_trace_def)
  qed
qed

text \<open>
  A row that the daemon lists for the first time after a mint: its issuance is not in the listing
  taken before the staging, and the row is in a listing taken after the staging and the finalisation.
\<close>

definition newly_listed :: "client \<Rightarrow> string option \<Rightarrow> mint_asset \<Rightarrow> call list \<Rightarrow> asset_record \<Rightarrow> bool" where
  "newly_listed c ref s h r \<longleftrightarrow>
     (\<exists>before cs fr n rows.
        c_list_asset_records c (h @ [ListBatches]) (mint_list_req ref) = Inr before \<and>
        ig_issuance_id (ar_genesis r) \<notin> set (record_ids before) \<and>
        FinalizeBatch fr \<in> set cs \<and>
        c_list_asset_records c
          (h @ [ListBatches, mint_list_call ref, MintAssetCall s] @ cs @ replicate n (mint_list_call ref))
          (mint_list_req ref) = Inr rows \<and>
        Some r \<in> set rows)"

lemma mint_asset_and_resolve_ok:
  assumes "fst (mint_asset_and_resolve L (Some c) stage ref matches opts sched h) = Inr r"
  shows "newly_listed c ref (apply_external_issuance_key_to_asset stage (apply_mint_options opts)) h r \<and> matches r"
proof -
  let ?opts = "apply_mint_options opts"
  let ?s = "apply_external_issuance_key_to_asset stage ?opts"
  let ?op = "\<lparr>sc_operation = signing_operation_for_mint_asset stage, sc_asset_ref = []\<rparr>"
  from assms obtain u h1 before h2 v h3 where
    ready: "ensure_ready (Some c) h = (Inr u, h1)" and
    listed: "list_mint_records (Some c) ref h1 = (Inr before, h2)" and
    minted: "mint_and_finalize L (Some c) (stage_asset ?s) ?opts ?op h2 = (Inr v, h3)" and
    found: "fst (find_new_record (Some c) ref (record_ids before) matches (fst sched) (snd sched) h3) = Inr r"
    by (auto simp: mint_asset_and_resolve_def Let_def bind_ok split: if_splits)
  from ready ensure_ready_apply(1) [of c h] have h1: "h1 = h @ [ListBatches]" by simp
  have before: "c_list_asset_records c h1 (mint_list_req ref) = Inr before" and h2: "h2 = h1 @ [mint_list_call ref]"
    using listed by (simp_all add: list_mint_records_def Let_def mint_list_req_def mint_list_call_def)
  from mint_and_finalize_ok [OF minted] obtain cs fr where
    h3: "h3 = h2 @ [MintAssetCall ?s] @ cs" and cs: "FinalizeBatch fr \<in> set cs" by blast
  obtain h' where
    "find_new_record (Some c) ref (record_ids before) matches (fst sched) (snd sched) h3 = (Inr r, h')"
    using found by (metis prod.collapse)
  from find_new_record_outcome [OF this] obtain n where
    "poll_outcome c ref (record_ids before) matches (fst sched) (snd sched) h3 n (Inr r)" by blast
  then obtain rows where
    "ig_issuance_id (ar_genesis r) \<notin> set (record_ids before)" "matches r" "Some r \<in> set rows"
    "c_list_asset_records c (h3 @ replicate n (mint_list_call ref)) (mint_list_req ref) = Inr rows"
    by (cases "c_list_asset_records c (h3 @ replicate n (mint_list_call ref)) (mint_list_req ref)")
      (auto simp: poll_outcome_def)
  with before cs show ?thesis unfolding newly_listed_def h1 h2 h3 by (simp, blast)
qed

text \<open>
  C24. The answer describes the new mint: an asset returned by \<open>CreateFungible\<close> has the name and the
  non-zero amount asked for, is fungible and named by a group reference, and comes from a wallet row
  of that name, amount and type which the daemon listed after the batch had been staged and finalised and
  whose issuance was not in the wallet's listing taken before the mint; one returned by \<open>CreateNFT\<close>
  likewise has the name, the amount one, and an asset-ID reference outside any collection.
\<close>

theorem created_asset_is_new:
  "(fst (create_fungible L (Some c) spec opts sched h) = Inr a \<longrightarrow>
      fs_name spec \<noteq> [] \<and> fs_amount spec \<noteq> 0 \<and> as_name a = fs_name spec \<and> as_amount a = fs_amount spec \<and>
      as_type a = asset_type_normal \<and> is_group_ref L (as_asset_ref a) \<and>
      (\<exists>r. newly_listed c None (apply_external_issuance_key_to_asset (fungible_stage spec) (apply_mint_options opts)) h r \<and>
         is_record r asset_type_normal (fs_name spec) (fs_amount spec) \<and> as_asset_ref a = ar_asset_ref r)) \<and>
   (fst (create_nft L (Some c) nft opts sched h) = Inr a \<longrightarrow>
      ns_name nft \<noteq> [] \<and> as_name a = ns_name nft \<and> as_amount a = 1 \<and>
      as_type a = asset_type_collectible \<and> is_asset_id_ref L (as_asset_ref a) \<and> as_collection_ref a = None \<and>
      (\<exists>r. newly_listed c None (apply_external_issuance_key_to_asset (mint_nft_asset nft False) (apply_mint_options opts)) h r \<and>
         is_record r asset_type_collectible (ns_name nft) 1 \<and> as_asset_ref a = ar_asset_ref r))"
proof (intro conjI impI)
  assume "fst (create_fungible L (Some c) spec opts sched h) = Inr a"
  then obtain r h1 where valid: "validate_fungible_spec spec = Inr ()" and
    r: "mint_asset_and_resolve L (Some c) (fungible_stage spec) None
        (\<lambda>r. is_record r asset_type_normal (fs_name spec) (fs_amount spec) \<and> is_group_ref L (ar_asset_ref r))
        opts sched h = (Inr r, h1)" and
    a: "assets_from_records L [Some r] = Inr [a]"
    by (auto simp: create_fungible_def wrap_io_apply bind_ok)
  from mint_asset_and_resolve_ok [OF arg_cong [OF r, of fst, unfolded fst_conv]]
  have listed: "newly_listed c None (apply_external_issuance_key_to_asset (fungible_stage spec) (apply_mint_options opts)) h r"
    and row: "is_record r asset_type_normal (fs_name spec) (fs_amount spec)" "is_group_ref L (ar_asset_ref r)" by blast+
  from a row(1) have "as_asset_ref a = ar_asset_ref r"
    by (auto simp: single_asset result_simps asset_from_record_def Let_def is_record_def split: if_splits)
  with listed row(1) show
    "\<exists>r. newly_listed c None (apply_external_issuance_key_to_asset (fungible_stage spec) (apply_mint_options opts)) h r \<and>
       is_record r asset_type_normal (fs_name spec) (fs_amount spec) \<and> as_asset_ref a = ar_asset_ref r" by blast
  from row a valid show "fs_name spec \<noteq> []" "fs_amount spec \<noteq> 0" "as_name a = fs_name spec"
      "as_amount a = fs_amount spec" "as_type a = asset_type_normal" "is_group_ref L (as_asset_ref a)"
    by (auto simp: single_asset result_simps asset_from_record_def Let_def is_record_def
        validate_fungible_spec_def split: if_splits)
next
  assume "fst (create_nft L (Some c) nft opts sched h) = Inr a"
  then obtain r h1 where valid: "validate_nft_spec nft = Inr ()" and
    r: "mint_asset_and_resolve L (Some c) (mint_nft_asset nft False) None
        (\<lambda>r. is_record r asset_type_collectible (ns_name nft) 1 \<and> is_asset_id_ref L (ar_asset_ref r))
        opts sched h = (Inr r, h1)" and
    a: "assets_from_records L [Some r] = Inr [a]"
    by (auto simp: create_nft_def wrap_io_apply bind_ok)
  from mint_asset_and_resolve_ok [OF arg_cong [OF r, of fst, unfolded fst_conv]]
  have listed: "newly_listed c None (apply_external_issuance_key_to_asset (mint_nft_asset nft False) (apply_mint_options opts)) h r"
    and row: "is_record r asset_type_collectible (ns_name nft) 1" "is_asset_id_ref L (ar_asset_ref r)" by blast+
  from row(2) have not_group: "\<not> is_group_ref L (ar_asset_ref r)"
    by (auto simp: is_asset_id_ref_def is_group_ref_def split: sum.splits)
  from a this have "as_asset_ref a = ar_asset_ref r"
    by (auto simp: single_asset result_simps asset_from_record_def Let_def)
  with listed row(1) show
    "\<exists>r. newly_listed c None (apply_external_issuance_key_to_asset (mint_nft_asset nft False) (apply_mint_options opts)) h r \<and>
       is_record r asset_type_collectible (ns_name nft) 1 \<and> as_asset_ref a = ar_asset_ref r" by blast
  from not_group a valid row show "ns_name nft \<noteq> []" "as_name a = ns_name nft" "as_amount a = 1"
      "as_type a = asset_type_collectible" "is_asset_id_ref L (as_asset_ref a)" "as_collection_ref a = None"
    by (auto simp: single_asset result_simps asset_from_record_def Let_def is_record_def
        validate_nft_spec_def split: if_splits)
qed

text \<open>A daemon whose listing shows a new grouped row once the batch has been finalised.\<close>

definition mint_client :: "string \<Rightarrow> client" where
  "mint_client ref = offline_client
     \<lparr>c_list_batches := \<lambda>_. Inr [], c_mint_asset := \<lambda>_ _. Inr (), c_finalize_batch := \<lambda>_ _. Inr (),
      c_list_asset_records := \<lambda>h _. Inr (if FinalizeBatch \<lparr>sat_per_kvbyte = 0\<rparr> \<in> set h
        then [Some (sample_row ref 1 60 asset_type_normal)] else [])\<rparr>"

definition sample_fungible_spec :: fungible_asset_spec where
  "sample_fungible_spec = \<lparr>fs_name = ''usd'', fs_amount = 60, fs_asset_meta = None, fs_asset_version = 0,
     fs_decimal_display = 2, fs_script_key = None, fs_enable_supply_commitments = False\<rparr>"

lemma create_sample:
  assumes "is_group_ref sample_lib ref"
  shows "\<exists>a. fst (create_fungible sample_lib (Some (mint_client ref)) sample_fungible_spec [] (0, DeadlineFired) []) = Inr a"
proof -
  define c where "c = mint_client ref"
  let ?r = "sample_row ref 1 60 asset_type_normal"
  have c [simp]: "c_list_batches c g = Inr []" "c_mint_asset c g m = Inr ()" "c_finalize_batch c g fr = Inr ()"
    "c_list_asset_records c g req = Inr (if FinalizeBatch \<lparr>sat_per_kvbyte = 0\<rparr> \<in> set g then [Some ?r] else [])"
    for g m fr req by (simp_all add: c_def mint_client_def)
  have row: "is_record ?r asset_type_normal ''usd'' 60" "is_group_ref sample_lib (ar_asset_ref ?r)"
    using assms by (simp_all add: is_record_def sample_row_def)
  have "asset_from_record sample_lib ?r = Inr \<lparr>as_asset_ref = ref, as_type = asset_type_normal, as_name = ''usd'',
      as_meta_hash = zero32, as_amount = 0, as_collection_ref = None\<rparr>"
    by (simp add: asset_from_record_def sample_row_def)
  with row show ?thesis
    unfolding c_def [symmetric]
    by (simp add: create_fungible_def mint_asset_and_resolve_def io_apply Let_def validate_fungible_spec_def
        sample_fungible_spec_def apply_mint_options_def no_mint_options_def ensure_ready_def list_mint_records_def
        mint_and_finalize_def stage_asset_def record_ids_def find_new_record.simps find_once_apply single_asset
        only_def)
qed

theorem created_asset_is_new_witness:
  "\<exists>ref a r. fst (create_fungible sample_lib (Some (mint_client ref)) sample_fungible_spec [] (0, DeadlineFired) []) = Inr a \<and>
     as_amount a = 60 \<and> is_group_ref sample_lib (as_asset_ref a) \<and>
     newly_listed (mint_client ref) None
       (apply_external_issuance_key_to_asset (fungible_stage sample_fungible_spec) (apply_mint_options [])) [] r"
proof -
  obtain ref where "is_group_ref sample_lib ref" using sample_group_ref by blast
  from create_sample [OF this] obtain a where
    a: "fst (create_fungible sample_lib (Some (mint_client ref)) sample_fungible_spec [] (0, DeadlineFired) []) = Inr a"
    by blast
  with created_asset_is_new [of sample_lib "mint_client ref" sample_fungible_spec "[]" "(0, DeadlineFired)" "[]" a]
  obtain r where "as_amount a = fs_amount sample_fungible_spec" "is_group_ref sample_lib (as_asset_ref a)"
    "newly_listed (mint_client ref) None
       (apply_external_issuance_key_to_asset (fungible_stage sample_fungible_spec) (apply_mint_options [])) [] r"
    by blast
  with a show ?thesis by (auto simp: sample_fungible_spec_def)
qed

end
