(* ===== verification/Tap_Wallet.thy ===== *)
theory Tap_Wallet
  imports Tap_Client
begin

text \<open>
  The high-level wallet (\<open>wallet.go\<close>, \<open>recipient.go\<close>, \<open>send_options.go\<close>, \<open>burn_options.go\<close>, the
  projection in \<open>transfer.go\<close>): receive addresses, balances, listings, proofs, burns and sends. Each
  method is an operation on a client, so the theorems speak of what is sent to the daemon as well
  as of what is returned.
\<close>

record wallet =
  w_client :: client
  w_network_hrp :: string
  w_coin_type :: u32
  w_default_proof_courier_addr :: string

definition burn_confirmation_text :: string where
  "burn_confirmation_text = ''assets will be destroyed''"

definition auth_mailbox_universe_courier_scheme :: string where
  "auth_mailbox_universe_courier_scheme = ''authmailbox+universerpc://''"

text \<open>A \<open>WalletOption\<close> is a function on the wallet; \<open>NewWallet\<close> panics on an unknown network.\<close>

definition with_default_proof_courier_addr :: "string \<Rightarrow> wallet \<Rightarrow> wallet" where
  "with_default_proof_courier_addr addr w = w\<lparr>w_default_proof_courier_addr := addr\<rparr>"

definition with_auth_mailbox_courier :: "string \<Rightarrow> wallet \<Rightarrow> wallet" where
  "with_auth_mailbox_courier host = with_default_proof_courier_addr (auth_mailbox_universe_courier_scheme @ host)"

definition new_wallet :: "client \<Rightarrow> string \<Rightarrow> (wallet \<Rightarrow> wallet) list \<Rightarrow> wallet result" where
  "new_wallet c network opts =
     and_then (get_network_params network) (\<lambda>(hrp, coin_type).
       Inr (foldl (\<lambda>w opt. opt w)
         \<lparr>w_client = c, w_network_hrp = hrp, w_coin_type = coin_type, w_default_proof_courier_addr = []\<rparr> opts))"

section \<open>Receive addresses\<close>

definition new_addr :: "client \<Rightarrow> new_address_request \<Rightarrow> address io" where
  "new_addr c req = call_io (NewAddr req) (\<lambda>h. c_new_addr c h req)"

definition should_retry_collectible_amount :: "string \<Rightarrow> go_error \<Rightarrow> bool" where
  "should_retry_collectible_amount ref err \<longleftrightarrow>
     \<not> asset_ref_is_zero ref \<and> contains (err_text err) ''collectible asset amount not one''"

definition should_retry_exact_group_ref :: "'k lib \<Rightarrow> string \<Rightarrow> go_error \<Rightarrow> bool" where
  "should_retry_exact_group_ref L ref err \<longleftrightarrow>
     is_group_ref L ref \<and>
     (contains (err_text err) ''unable to find asset or group'' \<or>
      contains (err_text err) ''asset lookup failed'')"

definition resolve_exact_group_ref :: "'k lib \<Rightarrow> client \<Rightarrow> string \<Rightarrow> string io" where
  "resolve_exact_group_ref L c ref =
     (if \<not> is_group_ref L ref then return_io ref
      else bind_io (try_io (call_io ListAssetGroups (\<lambda>h. c_list_asset_groups c h))) (\<lambda>r.
        case r of
          Inl err \<Rightarrow> return_io ref
        | Inr groups \<Rightarrow>
            (case find (\<lambda>g. asset_ref_equivalent L g ref) groups of
               Some g \<Rightarrow> return_io g
             | None \<Rightarrow> return_io ref)))"

definition receive_request :: "wallet \<Rightarrow> string \<Rightarrow> new_address_request" where
  "receive_request w ref =
     \<lparr>na_asset_ref = ref, na_amount = 0, na_script_key = None, na_internal_key = None,
      na_tapscript_sibling = [], na_proof_courier_addr = w_default_proof_courier_addr w,
      na_asset_version = None, na_address_version = Some 3\<rparr>"

text \<open>The part of \<open>NewReceiveAddress\<close> after the collectible retry: the group reference as tapd spells it.\<close>

definition receive_exact_group :: "'k lib \<Rightarrow> client \<Rightarrow> string \<Rightarrow> new_address_request \<Rightarrow> go_error \<Rightarrow> address io" where
  "receive_exact_group L c ref req err =
     (let failed = lift_io (Inl (wrap_err (status_from_error L) ''NewReceiveAddress'' err)) in
      if should_retry_exact_group_ref L ref err
      then bind_io (resolve_exact_group_ref L c ref) (\<lambda>exact_ref.
        if exact_ref \<noteq> ref
        then bind_io (try_io (new_addr c (req\<lparr>na_asset_ref := exact_ref\<rparr>))) (\<lambda>r.
               case r of Inr addr \<Rightarrow> return_io addr | Inl retry_err \<Rightarrow> failed)
        else failed)
      else failed)"

definition new_receive_address :: "'k lib \<Rightarrow> wallet \<Rightarrow> string \<Rightarrow> address io" where
  "new_receive_address L w ref =
     (let c = w_client w; req = receive_request w ref in
      bind_io (try_io (new_addr c req)) (\<lambda>r.
        case r of
          Inr addr \<Rightarrow> return_io addr
        | Inl err \<Rightarrow>
            (if should_retry_collectible_amount ref err
             then bind_io (try_io (new_addr c (req\<lparr>na_amount := 1\<rparr>))) (\<lambda>r.
               case r of
                 Inr addr \<Rightarrow> return_io addr
               | Inl retry_err \<Rightarrow> receive_exact_group L c ref (req\<lparr>na_amount := 1\<rparr>) retry_err)
             else receive_exact_group L c ref req err)))"

section \<open>Balances\<close>

definition issuance_universe :: "string \<Rightarrow> universe_id" where
  "issuance_universe ref = \<lparr>un_asset_ref = ref, un_proof_type = proof_type_issuance\<rparr>"

definition asset_known :: "client \<Rightarrow> string \<Rightarrow> bool io" where
  "asset_known c ref =
     bind_io (call_io (QueryAssetRoots (issuance_universe ref)) (\<lambda>h. c_query_asset_roots c h (issuance_universe ref))) (\<lambda>roots.
       case roots of
         Some r \<Rightarrow> return_io (qr_issuance_root r \<noteq> None \<or> qr_transfer_root r \<noteq> None)
       | None \<Rightarrow> return_io False)"

definition unknown_asset :: go_error where
  "unknown_asset = Wrapf [] (Sentinel ErrAssetUnknown) '': ref''"

definition wallet_list_balances ::
  "'k lib \<Rightarrow> wallet \<Rightarrow> list_balances_request option \<Rightarrow> list_balances_response io" where
  "wallet_list_balances L w req =
     bind_io (wrap_io L ''ListBalances''
                (call_io (ListBalances req) (\<lambda>h. c_list_balances (w_client w) h req))) (\<lambda>resp_ptr.
       (let resp = (case resp_ptr of
                      Some resp \<Rightarrow> resp
                    | None \<Rightarrow> \<lparr>lp_balances = Map.empty, lp_unconfirmed_transfers = 0\<rparr>) in
        case req of
          None \<Rightarrow> return_io resp
        | Some r \<Rightarrow>
            (case lb_asset_ref r of
               None \<Rightarrow> return_io resp
             | Some ref \<Rightarrow>
                 (if lp_balances resp ref \<noteq> None then return_io resp
                  else bind_io (wrap_io L ''ListBalances'' (asset_known (w_client w) ref)) (\<lambda>known.
                    if known
                    then return_io (resp\<lparr>lp_balances :=
                           (lp_balances resp)(ref \<mapsto> \<lparr>ba_asset_ref = ref, ba_balance = 0\<rparr>)\<rparr>)
                    else lift_io (Inl (wrap_err (status_from_error L) ''ListBalances'' unknown_asset)))))))"

definition get_balance :: "'k lib \<Rightarrow> wallet \<Rightarrow> string \<Rightarrow> u64 io" where
  "get_balance L w ref =
     bind_io (wrap_io L ''GetBalance'' (wallet_list_balances L w
                (Some \<lparr>lb_asset_ref = Some ref, lb_include_leased = False, lb_script_key_type = None\<rparr>))) (\<lambda>resp.
       case lp_balances resp ref of
         Some balance \<Rightarrow> return_io (ba_balance balance)
       | None \<Rightarrow> lift_io (Inl (wrap_err (status_from_error L) ''GetBalance'' unknown_asset)))"

section \<open>Keys and listings\<close>

definition derive_keys :: "'k lib \<Rightarrow> wallet \<Rightarrow> (script_key \<times> internal_key) io" where
  "derive_keys L w =
     bind_io (wrap_io L ''DeriveKeys'' (call_io DeriveScriptKey (\<lambda>h. c_derive_script_key (w_client w) h))) (\<lambda>sk.
     bind_io (wrap_io L ''DeriveKeys'' (call_io DeriveInternalKey (\<lambda>h. c_derive_internal_key (w_client w) h))) (\<lambda>ik.
     return_io (sk, ik)))"

definition list_asset_records :: "client \<Rightarrow> list_assets_request option \<Rightarrow> asset_record option list io" where
  "list_asset_records c req = call_io (ListAssetRecords req) (\<lambda>h. c_list_asset_records c h req)"

definition wallet_list_assets :: "'k lib \<Rightarrow> wallet \<Rightarrow> list_assets_request option \<Rightarrow> asset list io" where
  "wallet_list_assets L w req =
     bind_io (wrap_io L ''ListAssets'' (list_asset_records (w_client w) (list_assets_to_records_req req))) (\<lambda>records.
     bind_io (lift_io (assets_from_records L records)) (\<lambda>assets.
     return_io (filter_assets_by_amount assets req)))"

definition wallet_list_collections :: "'k lib \<Rightarrow> wallet \<Rightarrow> list_ref_request option \<Rightarrow> collection list io" where
  "wallet_list_collections L w req =
     bind_io (wrap_io L ''ListCollections''
       (list_asset_records (w_client w) (list_collections_to_records_req req))) (\<lambda>records.
     lift_io (collections_from_records L records))"

definition wallet_list_issuances :: "'k lib \<Rightarrow> wallet \<Rightarrow> list_ref_request option \<Rightarrow> issuance list io" where
  "wallet_list_issuances L w req =
     bind_io (wrap_io L ''ListIssuances''
       (list_asset_records (w_client w) (list_issuances_to_records_req req))) (\<lambda>records.
     lift_io (issuances_from_records records))"

definition wallet_list_collection_items ::
  "'k lib \<Rightarrow> wallet \<Rightarrow> list_collection_items_request option \<Rightarrow> asset list io" where
  "wallet_list_collection_items L w req =
     bind_io (wrap_io L ''ListCollectionItems''
       (list_asset_records (w_client w) (list_collection_items_to_records_req req))) (\<lambda>records.
     bind_io (lift_io (assets_from_records L records)) (\<lambda>assets.
     return_io (filter (\<lambda>a. as_type a = asset_type_collectible \<and> as_collection_ref a \<noteq> None) assets)))"

text \<open>\<open>NewTransfer\<close> of a transfer that is there, and \<open>ListTransfers\<close>.\<close>

definition transfer_input_asset :: "'k lib \<Rightarrow> transfer_input \<Rightarrow> transfer_asset result" where
  "transfer_input_asset L i =
     and_then (asset_ref_from_typed_asset L (ti_issuance_id i) (ti_group_key i) (ti_asset_type i)) (\<lambda>ref.
       Inr \<lparr>ta_asset_ref = ref, ta_issuance_id = ti_issuance_id i, ta_type = ti_asset_type i,
            ta_amount = ti_amount i, ta_script_key = ti_script_key i, ta_outpoint = ti_anchor_point i\<rparr>)"

definition transfer_output_asset :: "'k lib \<Rightarrow> transfer_output \<Rightarrow> transfer_asset result" where
  "transfer_output_asset L i =
     and_then (asset_ref_from_typed_asset L (to_issuance_id i) (to_group_key i) (to_asset_type i)) (\<lambda>ref.
       Inr \<lparr>ta_asset_ref = ref, ta_issuance_id = to_issuance_id i, ta_type = to_asset_type i,
            ta_amount = to_amount i, ta_script_key = to_script_key i, ta_outpoint = to_anchor_outpoint i\<rparr>)"

definition append_res :: "('a \<Rightarrow> 'b result) \<Rightarrow> 'b list \<Rightarrow> 'a \<Rightarrow> 'b list result" where
  "append_res f out x = and_then (f x) (\<lambda>y. Inr (out @ [y]))"

definition new_transfer :: "'k lib \<Rightarrow> asset_transfer \<Rightarrow> transfer result" where
  "new_transfer L raw =
     and_then (fold_res (append_res (transfer_input_asset L)) [] (at_inputs raw)) (\<lambda>inputs.
     and_then (fold_res (append_res (transfer_output_asset L)) [] (at_outputs raw)) (\<lambda>outputs.
     Inr \<lparr>tr_timestamp = at_timestamp raw, tr_anchor_txid = at_anchor_txid raw,
          tr_block_height = at_block_height raw, tr_chain_fees = at_chain_fees raw,
          tr_label = at_label raw, tr_inputs = inputs, tr_outputs = outputs\<rparr>))"

definition wallet_list_transfers :: "'k lib \<Rightarrow> wallet \<Rightarrow> string option \<Rightarrow> transfer list io" where
  "wallet_list_transfers L w req =
     bind_io (wrap_io L ''ListTransfers''
       (call_io (ListTransfers req) (\<lambda>h. c_list_transfers (w_client w) h req))) (\<lambda>raws.
     lift_io (fold_res (\<lambda>out raw. case raw of None \<Rightarrow> Inr out | Some r \<Rightarrow> append_res (new_transfer L) out r) [] raws))"


section \<open>Proofs\<close>

definition export_proof_file ::
  "'k lib \<Rightarrow> wallet \<Rightarrow> string \<Rightarrow> bytes \<Rightarrow> outpoint option \<Rightarrow> string \<Rightarrow> proof_file option io" where
  "export_proof_file L w ref key outpoint op =
     wrap_io L op (call_io (ExportProof ref key outpoint) (\<lambda>h. c_export_proof (w_client w) h ref key outpoint))"

definition proof_bundle_entry_ref :: "'k lib \<Rightarrow> string \<Rightarrow> asset_record \<Rightarrow> string result" where
  "proof_bundle_entry_ref L ref r =
     (if is_group_ref L ref \<and> ig_type (ar_genesis r) = asset_type_collectible
      then asset_ref_from_asset_id L (ig_issuance_id (ar_genesis r))
      else Inr ref)"

definition export_entry ::
  "'k lib \<Rightarrow> wallet \<Rightarrow> string \<Rightarrow> proof_entry list \<Rightarrow> asset_record option \<Rightarrow> proof_entry list io" where
  "export_entry L w ref entries record_ptr =
     (case record_ptr of
        None \<Rightarrow> return_io entries
      | Some r \<Rightarrow>
        bind_io (lift_io (asset_ref_from_asset_id L (ig_issuance_id (ar_genesis r)))) (\<lambda>proof_ref.
        bind_io (export_proof_file L w proof_ref (sk_pub_key (ar_script_key r)) None ''ExportProof'') (\<lambda>proof.
        (case proof of
           None \<Rightarrow> lift_io (Inl (wrap_err (status_from_error L) ''ExportProof''
                     (Wrapf [] (Sentinel ErrNoProofs) '': empty proof for issuance'')))
         | Some pf \<Rightarrow>
           (if pf_raw pf = []
            then lift_io (Inl (wrap_err (status_from_error L) ''ExportProof''
                   (Wrapf [] (Sentinel ErrNoProofs) '': empty proof for issuance'')))
            else bind_io (lift_io (proof_bundle_entry_ref L ref r)) (\<lambda>entry_ref.
              return_io (entries @
                [\<lparr>pe_asset_ref = entry_ref, pe_issuance_id = ig_issuance_id (ar_genesis r),
                  pe_script_key = sk_pub_key (ar_script_key r), pe_outpoint = None,
                  pe_amount = ar_amount r, pe_proof_file = pf_raw pf\<rparr>])))))))"

definition export_proof :: "'k lib \<Rightarrow> wallet \<Rightarrow> string \<Rightarrow> proof_bundle io" where
  "export_proof L w ref =
     bind_io (wrap_io L ''ExportProof'' (lift_io (asset_ref_validate L ref))) (\<lambda>_.
     bind_io (wrap_io L ''ExportProof''
       (list_asset_records (w_client w) (Some (list_assets_by_ref (Some ref))))) (\<lambda>assets.
     if assets = []
     then lift_io (Inl (wrap_err (status_from_error L) ''ExportProof'' unknown_asset))
     else bind_io (for_io (export_entry L w ref) [] assets) (\<lambda>entries.
       if entries = []
       then lift_io (Inl (wrap_err (status_from_error L) ''ExportProof''
              (Wrapf [] (Sentinel ErrNoProofs) '': ref'')))
       else return_io \<lparr>pb_asset_ref = ref, pb_entries = entries\<rparr>)))"

text \<open>One round of the import loop: decode the proof, then insert it.\<close>

definition insert_raw_proof ::
  "'k lib \<Rightarrow> client \<Rightarrow> string \<Rightarrow> decoded_proof option \<Rightarrow> bytes \<Rightarrow> decoded_proof option io" where
  "insert_raw_proof L c op prev raw =
     bind_io (wrap_io L op (call_io (DecodeProof raw) (\<lambda>h. c_decode_proof c h raw))) (\<lambda>decoded.
     bind_io (wrap_io L op (call_io (InsertProof raw decoded) (\<lambda>h. c_insert_proof c h raw decoded))) (\<lambda>_.
     return_io (Some decoded)))"

definition register_decoded :: "'k lib \<Rightarrow> client \<Rightarrow> string \<Rightarrow> decoded_proof \<Rightarrow> registered_asset io" where
  "register_decoded L c op d =
     wrap_io L op
       (case c_register_with_issuance c of
          Some registrar \<Rightarrow>
            call_io (RegisterTransferWithIssuance (dp_asset_ref d) (dp_issuance_id d) (dp_script_key d) (dp_outpoint d))
              (\<lambda>h. registrar h (dp_asset_ref d) (dp_issuance_id d) (dp_script_key d) (dp_outpoint d))
        | None \<Rightarrow>
            call_io (RegisterTransfer (dp_asset_ref d) (dp_script_key d) (dp_outpoint d))
              (\<lambda>h. c_register_transfer c h (dp_asset_ref d) (dp_script_key d) (dp_outpoint d)))"

text \<open>A nil \<open>*ProofFile\<close> is \<open>None\<close>; only the raw bytes are used.\<close>

definition import_proof_file :: "'k lib \<Rightarrow> wallet \<Rightarrow> bytes option \<Rightarrow> string \<Rightarrow> registered_asset io" where
  "import_proof_file L w proof_file op =
     (let c = w_client w in
      case proof_file of
        None \<Rightarrow> lift_io (Inl (wrap_err (status_from_error L) op (Sentinel ErrNoProofs)))
      | Some raw \<Rightarrow>
        (if raw = [] then lift_io (Inl (wrap_err (status_from_error L) op (Sentinel ErrNoProofs)))
         else
         bind_io (wrap_io L op (call_io (UnpackProofFile raw) (\<lambda>h. c_unpack_proof_file c h raw))) (\<lambda>raw_proofs.
         if raw_proofs = []
         then lift_io (Inl (wrap_err (status_from_error L) op (Plain ''proof file contains no proofs'')))
         else
         bind_io (for_io (insert_raw_proof L c op) None raw_proofs) (\<lambda>last_decoded.
         case last_decoded of
           None \<Rightarrow> lift_io (Inl (Plain ''nil pointer dereference''))
         | Some d \<Rightarrow> register_decoded L c op d))))"

definition import_proof :: "'k lib \<Rightarrow> wallet \<Rightarrow> proof_bundle option \<Rightarrow> registered_asset list io" where
  "import_proof L w bundle_ptr =
     (let incomplete = (\<lambda>e. lift_io (Inl (wrap_err (status_from_error L) ''ImportProof'' e))) in
      case bundle_ptr of
        None \<Rightarrow> incomplete (Sentinel ErrIncompleteProofBundle)
      | Some bundle \<Rightarrow>
        (if pb_entries bundle = [] then incomplete (Sentinel ErrIncompleteProofBundle)
         else if list_ex (\<lambda>e. pe_proof_file e = []) (pb_entries bundle)
         then incomplete (Wrapf [] (Sentinel ErrIncompleteProofBundle) '': entry has empty proof file'')
         else for_io (\<lambda>registered e.
                bind_io (import_proof_file L w (Some (pe_proof_file e)) ''ImportProof'') (\<lambda>reg.
                  return_io (registered @ [reg]))) [] (pb_entries bundle)))"

section \<open>Burns\<close>

text \<open>A \<open>BurnOption\<close> is a function on the options, here the note alone.\<close>

definition apply_burn_options :: "(string \<Rightarrow> string) list \<Rightarrow> string" where
  "apply_burn_options opts = foldl (\<lambda>note opt. opt note) [] opts"

definition with_burn_note :: "string \<Rightarrow> string \<Rightarrow> string" where
  "with_burn_note note = (\<lambda>_. note)"

definition wallet_burn :: "'k lib \<Rightarrow> wallet \<Rightarrow> string \<Rightarrow> u64 \<Rightarrow> (string \<Rightarrow> string) list \<Rightarrow> burn io" where
  "wallet_burn L w ref amount opts =
     (if amount = 0 then lift_io (Inl (wrap_err (status_from_error L) ''Burn'' (Sentinel ErrZeroAmount)))
      else
      bind_io (wrap_io L ''Burn'' (lift_io (asset_ref_validate L ref))) (\<lambda>_.
      (let note = apply_burn_options opts;
           req = \<lparr>br_asset_ref = ref, br_amount_to_burn = amount,
                  br_confirmation_text = burn_confirmation_text, br_note = note\<rparr> in
       bind_io (wrap_io L ''Burn'' (call_io (BurnAsset req) (\<lambda>h. c_burn_asset (w_client w) h req))) (\<lambda>resp_ptr.
       (let resp = (case resp_ptr of
                      Some resp \<Rightarrow> resp | None \<Rightarrow> \<lparr>bp_burn_transfer = None, bp_burn_proof = None\<rparr>) in
        return_io \<lparr>bu_asset_ref = ref, bu_amount = amount, bu_note = note,
                   bu_transfer = bp_burn_transfer resp, bu_proof = bp_burn_proof resp\<rparr>)))))"

section \<open>Sends\<close>

record send_options =
  so_amount :: u64
  so_fee_rate :: fee_rate
  so_label :: string
  so_skip_ping :: bool

definition with_amount :: "u64 \<Rightarrow> send_options \<Rightarrow> send_options" where
  "with_amount amount opt = opt\<lparr>so_amount := amount\<rparr>"

definition with_fee_rate :: "fee_rate \<Rightarrow> send_options \<Rightarrow> send_options" where
  "with_fee_rate fr opt = opt\<lparr>so_fee_rate := fr\<rparr>"

definition with_label :: "string \<Rightarrow> send_options \<Rightarrow> send_options" where
  "with_label label opt = opt\<lparr>so_label := label\<rparr>"

definition with_skip_proof_courier_ping_check :: "send_options \<Rightarrow> send_options" where
  "with_skip_proof_courier_ping_check opt = opt\<lparr>so_skip_ping := True\<rparr>"

definition apply_send_options :: "(send_options \<Rightarrow> send_options) list \<Rightarrow> send_options" where
  "apply_send_options opts =
     foldl (\<lambda>acc opt. opt acc)
       \<lparr>so_amount = 0, so_fee_rate = \<lparr>sat_per_kvbyte = 0\<rparr>, so_label = [], so_skip_ping = False\<rparr> opts"

definition amount_mismatch :: go_error where
  "amount_mismatch = Wrapf [] (Sentinel ErrAmountMismatch) '': address embeds another amount''"

definition validate_send_amount :: "address \<Rightarrow> u64 \<Rightarrow> unit result" where
  "validate_send_amount addr amount =
     (if addr_amount addr = 0 \<and> amount = 0 then Inl (Sentinel ErrAmountRequired)
      else if addr_amount addr > 0 \<and> amount > 0 \<and> amount \<noteq> addr_amount addr then Inl amount_mismatch
      else Inr ())"

definition send_request :: "recipient list \<Rightarrow> send_options \<Rightarrow> send_asset_request" where
  "send_request recipients opt =
     \<lparr>sr_recipients = recipients, sr_fee_rate = so_fee_rate opt, sr_label = so_label opt,
      sr_skip_ping = so_skip_ping opt\<rparr>"

definition send_asset :: "client \<Rightarrow> send_asset_request \<Rightarrow> asset_transfer io" where
  "send_asset c req = call_io (SendAsset req) (\<lambda>h. c_send_asset c h req)"

definition wallet_send ::
  "'k lib \<Rightarrow> wallet \<Rightarrow> string \<Rightarrow> (send_options \<Rightarrow> send_options) list \<Rightarrow> asset_transfer io" where
  "wallet_send L w addr opts =
     bind_io (wrap_io L ''Send'' (lift_io (decode_address L addr))) (\<lambda>decoded.
     (let opt = apply_send_options opts in
      bind_io (wrap_io L ''Send'' (lift_io (validate_send_amount decoded (so_amount opt)))) (\<lambda>_.
      (let r = (if so_amount opt \<noteq> 0 then recipient_with_amount addr (so_amount opt)
                else recipient_with_embedded_amount addr) in
       wrap_io L ''Send'' (send_asset (w_client w) (send_request [r] opt))))))"

text \<open>The loop of \<open>validateSingleAssetSendBatch\<close>; the state is \<open>batchRef\<close>.\<close>

definition check_batch_ref :: "'k lib \<Rightarrow> nat \<Rightarrow> string \<Rightarrow> address \<Rightarrow> string result" where
  "check_batch_ref L idx batch_ref addr =
     (if asset_ref_is_zero (addr_asset_ref addr)
      then Inl (Wrapf [] (Sentinel ErrInvalidAssetRef) '': recipient has no asset ref'')
      else if idx = 0 then Inr (addr_asset_ref addr)
      else if asset_ref_equivalent L batch_ref (addr_asset_ref addr) then Inr batch_ref
      else Inl (Wrapf [] (Sentinel ErrMixedAssetBatchUnsupported) '': recipients use different refs''))"

definition validate_single_asset_send_batch :: "'k lib \<Rightarrow> address list \<Rightarrow> unit result" where
  "validate_single_asset_send_batch L addrs =
     and_then (fold_idx (check_batch_ref L) 0 [] addrs) (\<lambda>_. Inr ())"

text \<open>The amounts of one recipient, the body of the second loop of \<open>normaliseSendRecipients\<close>.\<close>

definition normalise_recipient :: "bool \<Rightarrow> recipient \<times> address \<Rightarrow> recipient result" where
  "normalise_recipient use_explicit_amounts = (\<lambda>(r, decoded).
     (let (amount, has_amount) = recipient_amount r in
      if has_amount
      then (if amount = 0 then Inl (Sentinel ErrZeroAmount)
            else if addr_amount decoded > 0 \<and> addr_amount decoded \<noteq> amount then Inl amount_mismatch
            else Inr (recipient_with_amount (rc_address r) amount))
      else (if addr_amount decoded = 0 then Inl (Sentinel ErrAmountRequired)
            else if use_explicit_amounts
            then Inr (recipient_with_amount (rc_address r) (addr_amount decoded))
            else Inr (recipient_with_embedded_amount (rc_address r)))))"

definition normalise_send_recipients :: "'k lib \<Rightarrow> recipient list \<Rightarrow> bool \<Rightarrow> recipient list result" where
  "normalise_send_recipients L recipients force_explicit =
     (if recipients = [] then Inl (Sentinel ErrNoRecipients)
      else
      and_then (fold_res (\<lambda>(decoded, any_explicit) r.
                  and_then (decode_address L (rc_address r)) (\<lambda>addr.
                    Inr (decoded @ [addr], any_explicit \<or> snd (recipient_amount r))))
                ([], False) recipients) (\<lambda>(decoded, any_explicit).
      and_then (validate_single_asset_send_batch L decoded) (\<lambda>_.
      fold_res (append_res (normalise_recipient (force_explicit \<or> any_explicit))) [] (zip recipients decoded))))"

definition wallet_send_multi ::
  "'k lib \<Rightarrow> wallet \<Rightarrow> recipient list \<Rightarrow> (send_options \<Rightarrow> send_options) list \<Rightarrow> asset_transfer io" where
  "wallet_send_multi L w recipients opts =
     (if recipients = []
      then lift_io (Inl (wrap_err (status_from_error L) ''SendMulti'' (Sentinel ErrNoRecipients)))
      else
      bind_io (wrap_io L ''SendMulti'' (lift_io (normalise_send_recipients L recipients False))) (\<lambda>normalised.
      wrap_io L ''SendMulti''
        (send_asset (w_client w) (send_request normalised (apply_send_options opts)))))"


section \<open>Send batches\<close>

lemma fold_append_res:
  "fold_res (append_res f) out xs = Inr ys \<longleftrightarrow>
     (\<exists>zs. list_all2 (\<lambda>x z. f x = Inr z) xs zs \<and> ys = out @ zs)"
proof (induction xs arbitrary: out)
  case Nil
  then show ?case by auto
next
  case (Cons x xs)
  then show ?case by (auto simp: append_res_def result_simps list_all2_Cons1)
qed

lemma fold_decode:
  "fold_res (\<lambda>(decoded, any_explicit) r.
       and_then (decode_address L (rc_address r)) (\<lambda>addr.
         Inr (decoded @ [addr], any_explicit \<or> snd (recipient_amount r)))) (ds, b) rs = Inr (ds', b') \<longleftrightarrow>
     (\<exists>addrs. list_all2 (\<lambda>r a. decode_address L (rc_address r) = Inr a) rs addrs \<and>
        ds' = ds @ addrs \<and> b' = (b \<or> (\<exists>r \<in> set rs. rc_has_amount r)))"
proof (induction rs arbitrary: ds b)
  case Nil
  then show ?case by auto
next
  case (Cons r rs)
  then show ?case by (auto simp: result_simps list_all2_Cons1 recipient_amount_def)
qed

text \<open>Every address of the batch names an asset, and all name the same one as the first.\<close>

definition one_asset :: "'k lib \<Rightarrow> address list \<Rightarrow> bool" where
  "one_asset L addrs \<longleftrightarrow>
     (\<forall>a \<in> set addrs. addr_asset_ref a \<noteq> [] \<and>
        asset_ref_equivalent L (addr_asset_ref (hd addrs)) (addr_asset_ref a))"

lemma check_batch_rest:
  "0 < idx \<Longrightarrow> is_ok (fold_idx (check_batch_ref L) idx ref addrs) \<longleftrightarrow>
     (\<forall>a \<in> set addrs. addr_asset_ref a \<noteq> [] \<and> asset_ref_equivalent L ref (addr_asset_ref a))"
proof (induction addrs arbitrary: idx)
  case Nil
  then show ?case by simp
next
  case (Cons a addrs)
  then show ?case by (auto simp: check_batch_ref_def asset_ref_is_zero_def)
qed

lemma validate_batch_iff:
  "validate_single_asset_send_batch L addrs = Inr () \<longleftrightarrow> one_asset L addrs"
proof (cases addrs)
  case Nil
  then show ?thesis by (simp add: validate_single_asset_send_batch_def one_asset_def)
next
  case (Cons a as)
  have "validate_single_asset_send_batch L addrs = Inr () \<longleftrightarrow> is_ok (fold_idx (check_batch_ref L) 0 [] addrs)"
    by (auto simp: validate_single_asset_send_batch_def is_ok_iff result_simps)
  then show ?thesis
    using check_batch_rest [of 1 L "addr_asset_ref a" as]
    by (auto simp: Cons one_asset_def check_batch_ref_def asset_ref_is_zero_def)
qed

text \<open>The amount that a recipient is to get.\<close>

definition sent_amount :: "recipient \<Rightarrow> address \<Rightarrow> u64" where
  "sent_amount r a = (if rc_has_amount r then rc_amount r else addr_amount a)"

definition amount_ok :: "recipient \<Rightarrow> address \<Rightarrow> bool" where
  "amount_ok r a \<longleftrightarrow> sent_amount r a \<noteq> 0 \<and> (addr_amount a \<noteq> 0 \<longrightarrow> sent_amount r a = addr_amount a)"

lemma normalise_recipient_iff:
  "normalise_recipient e (r, a) = Inr r' \<longleftrightarrow>
     amount_ok r a \<and>
     r' = (if e \<or> rc_has_amount r then recipient_with_amount (rc_address r) (sent_amount r a)
           else recipient_with_embedded_amount (rc_address r))"
  by (auto simp: normalise_recipient_def recipient_amount_def amount_ok_def sent_amount_def word_gt_0
      amount_mismatch_def)

lemma normalise_pairs:
  assumes "length rs = length addrs"
  shows "list_all2 (\<lambda>x z. normalise_recipient e x = Inr z) (zip rs addrs) zs \<longleftrightarrow>
     list_all2 amount_ok rs addrs \<and>
     zs = map2 (\<lambda>r a. if e \<or> rc_has_amount r then recipient_with_amount (rc_address r) (sent_amount r a)
                      else recipient_with_embedded_amount (rc_address r)) rs addrs"
  using assms
  by (induction rs addrs arbitrary: zs rule: list_induct2) (auto simp: normalise_recipient_iff list_all2_Cons1)

text \<open>
  What a batch must be, exactly: normalising succeeds if and only if there is a recipient,
  every address decodes, all of them name equivalent assets, and every recipient gets a non-zero
  amount that agrees with the one its address embeds. The result keeps the recipients in order
  and has one shape: all amounts explicit when one was given explicitly or the caller forces it,
  all embedded otherwise.
\<close>

theorem normalised_batch_iff:
  "normalise_send_recipients L rs force = Inr out \<longleftrightarrow>
     rs \<noteq> [] \<and>
     (\<exists>addrs. list_all2 (\<lambda>r a. decode_address L (rc_address r) = Inr a) rs addrs \<and>
        one_asset L addrs \<and> list_all2 amount_ok rs addrs \<and>
        out = (if force \<or> (\<exists>r \<in> set rs. rc_has_amount r)
               then map2 (\<lambda>r a. recipient_with_amount (rc_address r) (sent_amount r a)) rs addrs
               else map (\<lambda>r. recipient_with_embedded_amount (rc_address r)) rs))"
proof (cases "rs = []")
  case True
  then show ?thesis by (simp add: normalise_send_recipients_def)
next
  case False
  define e where "e \<longleftrightarrow> force \<or> (\<exists>r \<in> set rs. rc_has_amount r)"
  have shape: "map2 (\<lambda>r a. if e \<or> rc_has_amount r then recipient_with_amount (rc_address r) (sent_amount r a)
                      else recipient_with_embedded_amount (rc_address r)) rs addrs =
       (if e then map2 (\<lambda>r a. recipient_with_amount (rc_address r) (sent_amount r a)) rs addrs
        else map (\<lambda>r. recipient_with_embedded_amount (rc_address r)) rs)"
    if "length rs = length addrs" for addrs :: "address list"
  proof (cases e)
    case False
    then have "\<forall>r \<in> set rs. \<not> rc_has_amount r" by (auto simp: e_def)
    with that False show ?thesis by (auto intro: nth_equalityI)
  qed simp
  have step: "list_all2 (\<lambda>x z. normalise_recipient e x = Inr z) (zip rs addrs) out \<longleftrightarrow>
        list_all2 amount_ok rs addrs \<and>
        out = (if e then map2 (\<lambda>r a. recipient_with_amount (rc_address r) (sent_amount r a)) rs addrs
               else map (\<lambda>r. recipient_with_embedded_amount (rc_address r)) rs)"
    if "list_all2 (\<lambda>r a. decode_address L (rc_address r) = Inr a) rs addrs" for addrs
    using normalise_pairs [OF list_all2_lengthD [OF that], of e out] shape [OF list_all2_lengthD [OF that]]
    by simp
  have "normalise_send_recipients L rs force = Inr out \<longleftrightarrow>
      (\<exists>addrs. list_all2 (\<lambda>r a. decode_address L (rc_address r) = Inr a) rs addrs \<and> one_asset L addrs \<and>
        list_all2 (\<lambda>x z. normalise_recipient e x = Inr z) (zip rs addrs) out)"
    using False
    by (auto simp: normalise_send_recipients_def and_then_eq_Inr fold_decode fold_append_res
        validate_batch_iff e_def)
  also have "\<dots> \<longleftrightarrow> (\<exists>addrs. list_all2 (\<lambda>r a. decode_address L (rc_address r) = Inr a) rs addrs \<and>
        one_asset L addrs \<and> list_all2 amount_ok rs addrs \<and>
        out = (if e then map2 (\<lambda>r a. recipient_with_amount (rc_address r) (sent_amount r a)) rs addrs
               else map (\<lambda>r. recipient_with_embedded_amount (rc_address r)) rs))"
    using step by blast
  finally show ?thesis using False by (simp add: e_def)
qed


text \<open>
  One send, or nothing: \<open>Send\<close> and \<open>SendMulti\<close> make at most one call, a \<open>SendAsset\<close>, and only
  after every local check has passed; what they send is the caller's address with an amount that
  is explicit, non-zero and equal to any embedded one, or left to the address, which then embeds a
  non-zero amount; a batch is sent in the normalised form.
\<close>

theorem send_calls:
  "snd (wallet_send L w addr opts h) =
     (case decode_address L addr of
        Inl _ \<Rightarrow> h
      | Inr a \<Rightarrow>
          (let amount = so_amount (apply_send_options opts);
               r = \<lparr>rc_address = addr, rc_amount = amount, rc_has_amount = (amount \<noteq> 0)\<rparr> in
           if amount_ok r a then h @ [SendAsset (send_request [r] (apply_send_options opts))] else h)) \<and>
   snd (wallet_send_multi L w recipients opts h) =
     (case normalise_send_recipients L recipients False of
        Inl _ \<Rightarrow> h
      | Inr out \<Rightarrow> h @ [SendAsset (send_request out (apply_send_options opts))])"
proof
  show "snd (wallet_send L w addr opts h) =
     (case decode_address L addr of
        Inl _ \<Rightarrow> h
      | Inr a \<Rightarrow>
          (let amount = so_amount (apply_send_options opts);
               r = \<lparr>rc_address = addr, rc_amount = amount, rc_has_amount = (amount \<noteq> 0)\<rparr> in
           if amount_ok r a then h @ [SendAsset (send_request [r] (apply_send_options opts))] else h))"
  proof (cases "decode_address L addr")
    case (Inl e)
    then show ?thesis by (simp add: wallet_send_def io_apply)
  next
    case (Inr a)
    let ?amount = "so_amount (apply_send_options opts)"
    have "validate_send_amount a ?amount = Inr () \<longleftrightarrow>
        amount_ok \<lparr>rc_address = addr, rc_amount = ?amount, rc_has_amount = (?amount \<noteq> 0)\<rparr> a"
      by (auto simp: validate_send_amount_def amount_ok_def sent_amount_def word_gt_0)
    then show ?thesis
      by (cases "validate_send_amount a ?amount")
        (auto simp: wallet_send_def io_apply Inr Let_def send_asset_def recipient_with_amount_def
          recipient_with_embedded_amount_def)
  qed
  show "snd (wallet_send_multi L w recipients opts h) =
     (case normalise_send_recipients L recipients False of
        Inl _ \<Rightarrow> h
      | Inr out \<Rightarrow> h @ [SendAsset (send_request out (apply_send_options opts))])"
    by (cases "normalise_send_recipients L recipients False")
      (auto simp: wallet_send_multi_def normalise_send_recipients_def io_apply send_asset_def)
qed

section \<open>Balances\<close>

lemma unknown_asset_wrapped [simp]:
  "wrap_err st op unknown_asset = OpError op unknown_asset"
  "wrap_err st op (OpError op' unknown_asset) = OpError op (OpError op' unknown_asset)"
proof -
  have "wraps_known_err unknown_asset" "wraps_known_err (OpError op' unknown_asset)"
    by (simp_all add: wraps_known_err_def known_sentinels_def unknown_asset_def)
  then show "wrap_err st op unknown_asset = OpError op unknown_asset"
    "wrap_err st op (OpError op' unknown_asset) = OpError op (OpError op' unknown_asset)"
    by (simp_all add: wrap_err_def normalize_err_def)
qed

definition balance_request :: "string \<Rightarrow> list_balances_request option" where
  "balance_request ref = Some \<lparr>lb_asset_ref = Some ref, lb_include_leased = False, lb_script_key_type = None\<rparr>"

definition listed_balance :: "list_balances_response option \<Rightarrow> string \<Rightarrow> balance option" where
  "listed_balance resp ref = (case resp of None \<Rightarrow> None | Some r \<Rightarrow> lp_balances r ref)"

definition has_root :: "query_root_response option \<Rightarrow> bool" where
  "has_root roots \<longleftrightarrow>
     (case roots of None \<Rightarrow> False | Some r \<Rightarrow> qr_issuance_root r \<noteq> None \<or> qr_transfer_root r \<noteq> None)"

text \<open>
  Zero and unknown are told apart: when the daemon lists a balance for the reference, that is
  the answer and it costs one call; otherwise the universe is asked once, and the answer is zero
  when it knows an issuance or transfer root, and an \<open>ErrAssetUnknown\<close> error when it knows none.
\<close>

theorem get_balance_known_or_unknown:
  assumes "c_list_balances (w_client w) h (balance_request ref) = Inr resp"
    and "c_query_asset_roots (w_client w) (h @ [ListBalances (balance_request ref)]) (issuance_universe ref) = Inr roots"
  shows "(case listed_balance resp ref of
            Some b \<Rightarrow> get_balance L w ref h = (Inr (ba_balance b), h @ [ListBalances (balance_request ref)])
          | None \<Rightarrow>
              snd (get_balance L w ref h) = h @ [ListBalances (balance_request ref), QueryAssetRoots (issuance_universe ref)] \<and>
              (case fst (get_balance L w ref h) of
                 Inr n \<Rightarrow> n = 0 \<and> has_root roots
               | Inl e \<Rightarrow> errors_is e ErrAssetUnknown \<and> \<not> has_root roots))"
proof (cases "listed_balance resp ref")
  case (Some b)
  then obtain r where "resp = Some r" "lp_balances r ref = Some b"
    by (auto simp: listed_balance_def split: option.splits)
  with assms(1) Some show ?thesis
    by (simp add: get_balance_def wallet_list_balances_def io_apply balance_request_def)
next
  case None
  then have "lp_balances (case resp of Some resp \<Rightarrow> resp
      | None \<Rightarrow> \<lparr>lp_balances = Map.empty, lp_unconfirmed_transfers = 0\<rparr>) ref = None"
    by (auto simp: listed_balance_def split: option.splits)
  with assms None show ?thesis
    by (cases roots)
      (auto simp: get_balance_def wallet_list_balances_def io_apply balance_request_def asset_known_def Let_def
        has_root_def unknown_asset_def [symmetric], simp_all add: unknown_asset_def)
qed

definition sample_wallet :: "client \<Rightarrow> wallet" where
  "sample_wallet c = \<lparr>w_client = c, w_network_hrp = ''taprt'', w_coin_type = 1, w_default_proof_courier_addr = []\<rparr>"

lemma sample_wallet_client [simp]: "w_client (sample_wallet c) = c"
  by (simp add: sample_wallet_def)

definition sample_root :: universe_root where
  "sample_root = \<lparr>ur_id = issuance_universe ''g'', ur_mssmt_root = None, ur_asset_name = [],
     ur_amounts_by_issuance_id = Map.empty\<rparr>"

theorem get_balance_known_or_unknown_witness:
  "\<exists>c. fst (get_balance sample_lib (sample_wallet c) ''g'' []) \<noteq> Inr 1 \<and>
       snd (get_balance sample_lib (sample_wallet c) ''g'' []) =
         [ListBalances (balance_request ''g''), QueryAssetRoots (issuance_universe ''g'')]"
proof -
  define c where "c = offline_client
    \<lparr>c_list_balances := \<lambda>_ _. Inr None, c_query_asset_roots := \<lambda>_ _. Inr (Some \<lparr>qr_issuance_root = None, qr_transfer_root = Some sample_root\<rparr>)\<rparr>"
  have "c_list_balances (w_client (sample_wallet c)) [] (balance_request ''g'') = Inr None"
    "c_query_asset_roots (w_client (sample_wallet c)) ([] @ [ListBalances (balance_request ''g'')]) (issuance_universe ''g'')
       = Inr (Some \<lparr>qr_issuance_root = None, qr_transfer_root = Some sample_root\<rparr>)"
    by (simp_all add: c_def)
  from get_balance_known_or_unknown [OF this, of sample_lib] show ?thesis
    by (intro exI [of _ c]) (auto simp: listed_balance_def)
qed

section \<open>Burns\<close>

text \<open>
  A burn is explicit and bounded: \<open>Burn\<close> sends at most one \<open>BurnAsset\<close>, only for a non-zero
  amount and a reference that validates, with exactly that reference and amount and tapd's
  confirmation text; when the daemon accepts, the answer repeats the reference and the amount.
\<close>

theorem burn_calls:
  "(let req = \<lparr>br_asset_ref = ref, br_amount_to_burn = amount,
               br_confirmation_text = ''assets will be destroyed'', br_note = apply_burn_options opts\<rparr>
    in snd (wallet_burn L w ref amount opts h) =
         (if amount \<noteq> 0 \<and> is_ok (asset_ref_validate L ref) then h @ [BurnAsset req] else h) \<and>
       (case fst (wallet_burn L w ref amount opts h) of
          Inr b \<Rightarrow> bu_asset_ref b = ref \<and> bu_amount b = amount \<and> amount \<noteq> 0 \<and>
                   is_ok (asset_ref_validate L ref) \<and> is_ok (c_burn_asset (w_client w) h req)
        | Inl e \<Rightarrow> \<not> (amount \<noteq> 0 \<and> is_ok (asset_ref_validate L ref) \<and>
                      is_ok (c_burn_asset (w_client w) h req))))"
proof -
  define req where "req = \<lparr>br_asset_ref = ref, br_amount_to_burn = amount,
               br_confirmation_text = burn_confirmation_text, br_note = apply_burn_options opts\<rparr>"
  show ?thesis
    unfolding Let_def burn_confirmation_text_def [symmetric] req_def [symmetric]
    by (cases "asset_ref_validate L ref"; cases "c_burn_asset (w_client w) h req"; cases "amount = 0")
      (simp_all add: wallet_burn_def io_apply Let_def req_def)
qed

section \<open>Imports\<close>

text \<open>What importing the raw proofs does, call by call.\<close>

definition insert_calls :: "(bytes \<times> decoded_proof) list \<Rightarrow> call list" where
  "insert_calls ps = concat (map (\<lambda>(raw, d). [DecodeProof raw, InsertProof raw d]) ps)"

lemma for_insert:
  assumes "for_io (insert_raw_proof L c op) s raws h = (r, h')"
  shows "\<exists>ds rest. length ds \<le> length raws \<and> h' = h @ insert_calls (zip raws ds) @ rest \<and>
           (\<forall>x \<in> set rest. (\<exists>raw. x = DecodeProof raw) \<or> (\<exists>raw d. x = InsertProof raw d)) \<and>
           (\<forall>d'. r = Inr d' \<longrightarrow> length ds = length raws \<and> rest = [] \<and>
              d' = (if ds = [] then s else Some (last ds)))"
  using assms
proof (induction raws arbitrary: s h)
  case Nil
  then show ?case by (auto simp: insert_calls_def intro: exI [of _ "[]"])
next
  case (Cons raw raws)
  show ?case
  proof (cases "insert_raw_proof L c op s raw h")
    case (Pair r1 h1)
    show ?thesis
    proof (cases r1)
      case (Inl e)
      with Pair Cons.prems have "r = Inl e" "h' = h1" by (simp_all add: io_apply)
      moreover have "\<exists>rest. h1 = h @ rest \<and>
          (\<forall>x \<in> set rest. (\<exists>raw. x = DecodeProof raw) \<or> (\<exists>raw d. x = InsertProof raw d))"
        using Pair by (auto simp: insert_raw_proof_def io_apply split: sum.splits prod.splits)
      then obtain rest where "h1 = h @ rest"
          "\<forall>x \<in> set rest. (\<exists>raw. x = DecodeProof raw) \<or> (\<exists>raw d. x = InsertProof raw d)" by blast
      ultimately show ?thesis
        by (intro exI [of _ "[]"] exI [of _ rest]) (auto simp: insert_calls_def)
    next
      case (Inr d1)
      from Pair Inr obtain d where d1: "d1 = Some d" and h1: "h1 = h @ [DecodeProof raw, InsertProof raw d]"
        by (auto simp: insert_raw_proof_def io_apply split: sum.splits prod.splits)
      from Cons.prems Pair Inr have "for_io (insert_raw_proof L c op) d1 raws h1 = (r, h')"
        by (simp add: io_apply)
      from Cons.IH [OF this] obtain ds rest where
        len: "length ds \<le> length raws" and h': "h' = h1 @ insert_calls (zip raws ds) @ rest" and
        rest: "\<forall>x \<in> set rest. (\<exists>raw. x = DecodeProof raw) \<or> (\<exists>raw d. x = InsertProof raw d)"
        and res: "\<forall>d'. r = Inr d' \<longrightarrow> length ds = length raws \<and> rest = [] \<and>
           d' = (if ds = [] then d1 else Some (last ds))" by blast
      have "h' = h @ insert_calls (zip (raw # raws) (d # ds)) @ rest"
        by (simp add: h' h1 insert_calls_def)
      moreover have "\<forall>d'. r = Inr d' \<longrightarrow> length (d # ds) = length (raw # raws) \<and> rest = [] \<and>
           d' = Some (last (d # ds))"
      proof (intro allI impI)
        fix d'
        assume "r = Inr d'"
        with res have "length ds = length raws \<and> rest = [] \<and> d' = (if ds = [] then d1 else Some (last ds))"
          by blast
        with d1 show "length (d # ds) = length (raw # raws) \<and> rest = [] \<and> d' = Some (last (d # ds))"
          by simp
      qed
      ultimately show ?thesis using len rest
        by (intro exI [of _ "d # ds"] exI [of _ rest]) simp
    qed
  qed
qed


definition register_call :: "client \<Rightarrow> decoded_proof \<Rightarrow> call" where
  "register_call c d =
     (if c_register_with_issuance c = None
      then RegisterTransfer (dp_asset_ref d) (dp_script_key d) (dp_outpoint d)
      else RegisterTransferWithIssuance (dp_asset_ref d) (dp_issuance_id d) (dp_script_key d) (dp_outpoint d))"

lemma register_decoded_calls: "snd (register_decoded L c op d h) = h @ [register_call c d]"
  by (auto simp: register_decoded_def register_call_def io_apply split: option.splits)

text \<open>
  Registration comes last: importing a proof file unpacks it, then decodes and inserts its
  proofs one by one in file order, and registers a transfer only when every proof of the file has
  been inserted, once, with the details of the last proof; an import that succeeds has registered.
\<close>

theorem import_registers_last:
  assumes "raw \<noteq> []"
  shows "\<exists>raws ds rest reg.
     snd (import_proof_file L w (Some raw) op h) =
       h @ [UnpackProofFile raw] @ insert_calls (zip raws ds) @ rest @ reg \<and>
     (\<forall>x \<in> set rest. (\<exists>raw. x = DecodeProof raw) \<or> (\<exists>raw d. x = InsertProof raw d)) \<and>
     (reg = [] \<or> raws \<noteq> [] \<and> length ds = length raws \<and> rest = [] \<and> reg = [register_call (w_client w) (last ds)] \<and>
        c_unpack_proof_file (w_client w) h raw = Inr raws) \<and>
     (is_ok (fst (import_proof_file L w (Some raw) op h)) \<longrightarrow> reg \<noteq> [])"
proof -
  let ?c = "w_client w"
  let ?h = "h @ [UnpackProofFile raw]"
  show ?thesis
  proof (cases "c_unpack_proof_file ?c h raw")
    case (Inl e)
    then show ?thesis
      using assms
      by (intro exI [of _ "[]"]) (auto simp: import_proof_file_def Let_def io_apply insert_calls_def)
  next
    case (Inr raws)
    show ?thesis
    proof (cases "raws = []")
      case True
      then show ?thesis
        using assms Inr
        by (intro exI [of _ "[]"]) (auto simp: import_proof_file_def Let_def io_apply insert_calls_def)
    next
      case False
      obtain r h' where loop: "for_io (insert_raw_proof L ?c op) None raws ?h = (r, h')" by fastforce
      from for_insert [OF this] obtain ds rest where ds:
        "h' = ?h @ insert_calls (zip raws ds) @ rest"
        "\<forall>x \<in> set rest. (\<exists>raw. x = DecodeProof raw) \<or> (\<exists>raw d. x = InsertProof raw d)"
        "\<forall>d'. r = Inr d' \<longrightarrow> length ds = length raws \<and> rest = [] \<and> d' = (if ds = [] then None else Some (last ds))"
        by blast
      show ?thesis
      proof (cases r)
        case (Inl e)
        then have "import_proof_file L w (Some raw) op h = (Inl e, h')"
          using assms Inr False loop by (simp add: import_proof_file_def Let_def io_apply)
        with ds show ?thesis
          by (intro exI [of _ raws] exI [of _ ds] exI [of _ rest] exI [of _ "[]"]) simp
      next
        case r: (Inr d')
        with ds False have "d' = Some (last ds)" "rest = []" "length ds = length raws" by auto
        moreover have "import_proof_file L w (Some raw) op h = register_decoded L ?c op (last ds) h'"
          using assms Inr False loop r calculation by (simp add: import_proof_file_def Let_def io_apply)
        ultimately show ?thesis
          using ds(1) False Inr
          by (intro exI [of _ raws] exI [of _ ds] exI [of _ "[]"] exI [of _ "[register_call ?c (last ds)]"])
            (simp add: register_decoded_calls)
      qed
    qed
  qed
qed

theorem import_registers_last_witness:
  "\<exists>raws ds rest reg. snd (import_proof_file sample_lib (sample_wallet offline_client) (Some [1]) ''ImportProof'' []) =
     [UnpackProofFile [1]] @ insert_calls (zip raws ds) @ rest @ reg"
  using import_registers_last [of "[1]" sample_lib "sample_wallet offline_client" "''ImportProof''" "[]"]
  by (simp only: append_Nil) blast

lemma appends_insert_raw_proof [intro]: "appends (insert_raw_proof L c op prev raw)"
  unfolding insert_raw_proof_def by auto

lemma appends_register_decoded [intro]: "appends (register_decoded L c op d)"
  unfolding register_decoded_def by (intro appends_wrap appends_option appends_basic)

lemma appends_import_file [intro]: "appends (import_proof_file L w raw op)"
  unfolding import_proof_file_def Let_def
  by (intro appends_option appends_if appends_bind appends_wrap appends_for appends_basic
      appends_insert_raw_proof appends_register_decoded)

lemma import_first_call:
  assumes "raw \<noteq> []"
  shows "\<exists>cs. snd (import_proof_file L w (Some raw) op h) = h @ UnpackProofFile raw # cs"
proof -
  define f where "f = (\<lambda>raw_proofs.
         if raw_proofs = []
         then lift_io (Inl (wrap_err (status_from_error L) op (Plain ''proof file contains no proofs'')))
         else bind_io (for_io (insert_raw_proof L (w_client w) op) None raw_proofs) (\<lambda>last_decoded.
         case last_decoded of
           None \<Rightarrow> lift_io (Inl (Plain ''nil pointer dereference''))
         | Some d \<Rightarrow> register_decoded L (w_client w) op d))"
  have eq: "import_proof_file L w (Some raw) op =
      bind_io (wrap_io L op (call_io (UnpackProofFile raw) (\<lambda>h. c_unpack_proof_file (w_client w) h raw))) f"
    using assms by (simp add: import_proof_file_def f_def Let_def)
  have "appends (f x)" for x
    unfolding f_def
    by (intro appends_option appends_if appends_bind appends_for appends_basic
      appends_insert_raw_proof appends_register_decoded)
  from bind_io_first [of f, OF this,
      of "wrap_io L op (call_io (UnpackProofFile raw) (\<lambda>h. c_unpack_proof_file (w_client w) h raw))" h]
  show ?thesis by (simp add: eq wrap_io_apply)
qed

definition complete_bundle :: "proof_bundle option \<Rightarrow> bool" where
  "complete_bundle bundle \<longleftrightarrow>
     (case bundle of
        None \<Rightarrow> False
      | Some b \<Rightarrow> pb_entries b \<noteq> [] \<and> (\<forall>e \<in> set (pb_entries b). pe_proof_file e \<noteq> []))"

definition import_entry :: "'k lib \<Rightarrow> wallet \<Rightarrow> registered_asset list \<Rightarrow> proof_entry \<Rightarrow> registered_asset list io" where
  "import_entry L w registered e =
     bind_io (import_proof_file L w (Some (pe_proof_file e)) ''ImportProof'') (\<lambda>reg.
       return_io (registered @ [reg]))"

lemma for_import_length:
  "for_io (import_entry L w) acc es h = (Inr out, h') \<Longrightarrow> length out = length acc + length es"
proof (induction es arbitrary: acc h)
  case Nil
  then show ?case by simp
next
  case (Cons e es)
  from Cons.prems obtain acc1 h1 where step: "import_entry L w acc e h = (Inr acc1, h1)"
    and rest: "for_io (import_entry L w) acc1 es h1 = (Inr out, h')"
    by (auto simp: io_apply split: sum.splits prod.splits)
  from step have "length acc1 = Suc (length acc)"
    by (auto simp: import_entry_def io_apply split: sum.splits prod.splits)
  with Cons.IH [OF rest] show ?case by simp
qed

text \<open>
  Bundles are checked before anything is sent: \<open>ImportProof\<close> makes no call and reports
  \<open>ErrIncompleteProofBundle\<close> when the bundle is nil, empty, or has an entry without a proof file;
  when it succeeds, it returns one registered asset for each entry.
\<close>

theorem import_proof_complete:
  "(complete_bundle bundle \<longleftrightarrow> snd (import_proof L w bundle h) \<noteq> h) \<and>
   (case fst (import_proof L w bundle h) of
      Inr out \<Rightarrow> (\<exists>b. bundle = Some b \<and> length out = length (pb_entries b))
    | Inl e \<Rightarrow> complete_bundle bundle \<or> errors_is e ErrIncompleteProofBundle)"
proof -
  have incomplete: "errors_is (wrap_err st op (Sentinel ErrIncompleteProofBundle)) ErrIncompleteProofBundle"
    "errors_is (wrap_err st op (Wrapf [] (Sentinel ErrIncompleteProofBundle) m)) ErrIncompleteProofBundle"
    for st op m by (simp_all add: wrap_err_identity)
  show ?thesis
  proof (cases "complete_bundle bundle")
    case False
    then show ?thesis
      by (cases "bundle") (auto simp: import_proof_def Let_def complete_bundle_def incomplete list_ex_iff)
  next
    case True
    then obtain b e es where b: "bundle = Some b" "pb_entries b = e # es" "\<forall>e \<in> set (pb_entries b). pe_proof_file e \<noteq> []"
      by (cases "bundle"; cases "pb_entries (the bundle)") (auto simp: complete_bundle_def)
    have eq: "import_proof L w bundle h = for_io (import_entry L w) [] (e # es) h"
      using b by (auto simp: import_proof_def Let_def list_ex_iff import_entry_def [abs_def])
    have "appends (import_entry L w acc e)" for acc e
      unfolding import_entry_def by auto
    then have "\<exists>cs. snd (for_io (import_entry L w) [] (e # es) h) = snd (import_entry L w [] e h) @ cs"
      unfolding for_io.simps by (intro bind_io_first) auto
    moreover have "\<exists>cs. snd (import_entry L w [] e h) = snd (import_proof_file L w (Some (pe_proof_file e)) ''ImportProof'' h) @ cs"
      unfolding import_entry_def by (intro bind_io_first) auto
    moreover have "\<exists>cs. snd (import_proof_file L w (Some (pe_proof_file e)) ''ImportProof'' h) = h @ UnpackProofFile (pe_proof_file e) # cs"
      using b by (intro import_first_call) simp
    ultimately have "snd (import_proof L w bundle h) \<noteq> h" by (auto simp: eq)
    moreover have "length out = length (pb_entries b)" if "fst (import_proof L w bundle h) = Inr out" for out
    proof -
      have "for_io (import_entry L w) [] (e # es) h = (Inr out, snd (import_proof L w bundle h))"
        using that unfolding eq [symmetric] by (simp add: prod_eq_iff)
      from for_import_length [OF this] b(2) show ?thesis by simp
    qed
    ultimately show ?thesis using True b by (auto split: sum.splits)
  qed
qed


section \<open>Receive addresses\<close>

text \<open>The requests a receive address may be asked for with.\<close>

definition receive_ok :: "'k lib \<Rightarrow> wallet \<Rightarrow> string \<Rightarrow> new_address_request \<Rightarrow> bool" where
  "receive_ok L w ref req \<longleftrightarrow>
     (\<exists>r n. req = (receive_request w ref)\<lparr>na_asset_ref := r, na_amount := n\<rparr> \<and>
        n \<in> {0, 1} \<and> asset_ref_equivalent L r ref)"

definition receive_trace ::
  "'k lib \<Rightarrow> wallet \<Rightarrow> string \<Rightarrow> nat \<Rightarrow> call list \<Rightarrow> address result \<times> call list \<Rightarrow> bool" where
  "receive_trace L w ref n h out \<longleftrightarrow>
     (\<exists>cs. snd out = h @ cs \<and> length cs \<le> n \<and>
        (\<forall>x \<in> set cs. x = ListAssetGroups \<or> (\<exists>req. x = NewAddr req \<and> receive_ok L w ref req)) \<and>
        (\<forall>addr. fst out = Inr addr \<longrightarrow>
           (\<exists>pre req. cs = pre @ [NewAddr req] \<and> c_new_addr (w_client w) (h @ pre) req = Inr addr)))"

lemma receive_trace_fail: "receive_trace L w ref n h (Inl e, h)"
  by (simp add: receive_trace_def)

lemma receive_trace_step:
  assumes "receive_trace L w ref n (h @ [x]) out"
    and "x = ListAssetGroups \<or> (\<exists>req. x = NewAddr req \<and> receive_ok L w ref req)"
  shows "receive_trace L w ref (Suc n) h out"
proof -
  from assms(1) obtain cs where cs: "snd out = (h @ [x]) @ cs" "length cs \<le> n"
    "\<forall>x \<in> set cs. x = ListAssetGroups \<or> (\<exists>req. x = NewAddr req \<and> receive_ok L w ref req)"
    "\<forall>addr. fst out = Inr addr \<longrightarrow>
       (\<exists>pre req. cs = pre @ [NewAddr req] \<and> c_new_addr (w_client w) ((h @ [x]) @ pre) req = Inr addr)"
    using assms(1) [unfolded receive_trace_def] by (elim exE conjE)
  have "\<exists>pre req. x # cs = pre @ [NewAddr req] \<and> c_new_addr (w_client w) (h @ pre) req = Inr addr"
    if "fst out = Inr addr" for addr
  proof -
    from that cs(4) obtain pre req where "cs = pre @ [NewAddr req]"
      "c_new_addr (w_client w) ((h @ [x]) @ pre) req = Inr addr" by blast
    then show ?thesis by (intro exI [of _ "x # pre"] exI [of _ req]) simp
  qed
  then show ?thesis
    unfolding receive_trace_def
    by (intro exI [of _ "x # cs"] conjI) (use cs(1-3) assms(2) in \<open>simp_all\<close>)
qed

lemma receive_trace_answer:
  "c_new_addr (w_client w) h req = Inr addr \<Longrightarrow> receive_ok L w ref req \<Longrightarrow>
   receive_trace L w ref 1 h (Inr addr, h @ [NewAddr req])"
  by (auto simp: receive_trace_def)

lemma receive_trace_mono: "receive_trace L w ref n h out \<Longrightarrow> n \<le> m \<Longrightarrow> receive_trace L w ref m h out"
  by (auto simp: receive_trace_def)

lemma receive_exact_group_trace:
  assumes "req = (receive_request w ref)\<lparr>na_amount := n\<rparr>" and "n \<in> {0, 1}"
  shows "receive_trace L w ref 2 h (receive_exact_group L (w_client w) ref req err h)"
proof (cases "should_retry_exact_group_ref L ref err")
  case False
  then show ?thesis by (simp add: receive_exact_group_def Let_def receive_trace_fail)
next
  case True
  then have grp: "is_group_ref L ref" by (simp add: should_retry_exact_group_ref_def)
  let ?c = "w_client w" and ?h = "h @ [ListAssetGroups]"
  let ?fail = "(Inl (wrap_err (status_from_error L) ''NewReceiveAddress'' err), ?h)"
  show ?thesis
  proof (cases "\<exists>groups g. c_list_asset_groups ?c h = Inr groups \<and>
      find (\<lambda>g. asset_ref_equivalent L g ref) groups = Some g \<and> g \<noteq> ref")
    case False
    then have "receive_exact_group L ?c ref req err h = ?fail"
      using True grp
      by (cases "c_list_asset_groups ?c h")
        (auto simp: receive_exact_group_def resolve_exact_group_ref_def io_apply Let_def split: option.splits)
    then show ?thesis
      using receive_trace_step [OF receive_trace_fail [of L w ref 1 "h @ [ListAssetGroups]"]]
      by (simp add: numeral_2_eq_2)
  next
    case found: True
    then obtain groups g where g: "c_list_asset_groups ?c h = Inr groups"
      "find (\<lambda>g. asset_ref_equivalent L g ref) groups = Some g" "g \<noteq> ref" by blast
    then have "asset_ref_equivalent L g ref" by (metis find_Some_iff)
    then have ok: "receive_ok L w ref (req\<lparr>na_asset_ref := g\<rparr>)"
      unfolding receive_ok_def by (intro exI [of _ g] exI [of _ n]) (use assms in simp)
    show ?thesis
    proof (cases "c_new_addr ?c ?h (req\<lparr>na_asset_ref := g\<rparr>)")
      case (Inl e)
      then have "receive_exact_group L ?c ref req err h =
          (Inl (wrap_err (status_from_error L) ''NewReceiveAddress'' err), ?h @ [NewAddr (req\<lparr>na_asset_ref := g\<rparr>)])"
        using True grp g
        by (simp add: receive_exact_group_def resolve_exact_group_ref_def io_apply Let_def new_addr_def)
      moreover have "receive_trace L w ref 2 h
          (Inl (wrap_err (status_from_error L) ''NewReceiveAddress'' err), ?h @ [NewAddr (req\<lparr>na_asset_ref := g\<rparr>)])"
        using ok by (auto simp: receive_trace_def)
      ultimately show ?thesis by simp
    next
      case (Inr addr)
      then have "receive_exact_group L ?c ref req err h = (Inr addr, ?h @ [NewAddr (req\<lparr>na_asset_ref := g\<rparr>)])"
        using True grp g
        by (simp add: receive_exact_group_def resolve_exact_group_ref_def io_apply Let_def new_addr_def)
      with receive_trace_step [OF receive_trace_answer [OF Inr ok]]
      show ?thesis by (simp add: numeral_2_eq_2)
    qed
  qed
qed

text \<open>
  Retries stay within the request: \<open>NewReceiveAddress\<close> asks for an address at most three times
  and lists the asset groups at most once; every request is a V2 request with the wallet's courier,
  for a reference equivalent to the caller's and for the amount zero or one; and the address
  returned is the daemon's answer to the last request.
\<close>

theorem receive_requests:
  "\<exists>cs. snd (new_receive_address L w ref h) = h @ cs \<and> length cs \<le> 4 \<and>
     (\<forall>x \<in> set cs. x = ListAssetGroups \<or> (\<exists>req. x = NewAddr req \<and> receive_ok L w ref req)) \<and>
     (\<forall>addr. fst (new_receive_address L w ref h) = Inr addr \<longrightarrow>
        (\<exists>pre req. cs = pre @ [NewAddr req] \<and> c_new_addr (w_client w) (h @ pre) req = Inr addr))"
proof -
  let ?c = "w_client w" and ?req = "receive_request w ref"
  have ok: "receive_ok L w ref ?req" "receive_ok L w ref (?req\<lparr>na_amount := 1\<rparr>)"
    unfolding receive_ok_def receive_request_def by auto
  have eq: "?req = ?req\<lparr>na_amount := 0\<rparr>" by (simp add: receive_request_def)
  have "receive_trace L w ref 4 h (new_receive_address L w ref h)"
  proof (cases "c_new_addr ?c h ?req")
    case (Inr addr)
    from receive_trace_answer [OF Inr ok(1)] Inr show ?thesis
      by (auto simp: new_receive_address_def new_addr_def io_apply Let_def intro: receive_trace_mono)
  next
    case (Inl err)
    let ?h = "h @ [NewAddr ?req]"
    show ?thesis
    proof (cases "should_retry_collectible_amount ref err")
      case False
      have "receive_trace L w ref 2 ?h (receive_exact_group L ?c ref ?req err ?h)"
        by (rule receive_exact_group_trace [OF eq]) simp
      from receive_trace_step [OF this] ok(1) Inl False show ?thesis
        by (auto simp: new_receive_address_def new_addr_def io_apply Let_def intro: receive_trace_mono)
    next
      case True
      show ?thesis
      proof (cases "c_new_addr ?c ?h (?req\<lparr>na_amount := 1\<rparr>)")
        case (Inr addr)
        from receive_trace_step [OF receive_trace_answer [OF Inr ok(2)]] ok(1) Inl True Inr show ?thesis
          by (auto simp: new_receive_address_def new_addr_def io_apply Let_def intro: receive_trace_mono)
      next
        case inl2: (Inl err2)
        have "receive_trace L w ref 2 (?h @ [NewAddr (?req\<lparr>na_amount := 1\<rparr>)])
            (receive_exact_group L ?c ref (?req\<lparr>na_amount := 1\<rparr>) err2 (?h @ [NewAddr (?req\<lparr>na_amount := 1\<rparr>)]))"
          by (rule receive_exact_group_trace [OF refl]) simp
        from receive_trace_step [OF receive_trace_step [OF this]] ok Inl True inl2 show ?thesis
          by (auto simp: new_receive_address_def new_addr_def io_apply Let_def intro: receive_trace_mono)
      qed
    qed
  qed
  then show ?thesis by (simp add: receive_trace_def)
qed

theorem receive_requests_witness:
  "\<exists>cs. snd (new_receive_address sample_lib (sample_wallet offline_client) ''g'' []) = cs \<and> length cs \<le> 4"
  using receive_requests [of sample_lib "sample_wallet offline_client" "''g''" "[]"] by auto


section \<open>Exports\<close>

text \<open>The entry that a row gives, and the call that fetched its proof.\<close>

definition entry_matches :: "'k lib \<Rightarrow> asset_record \<Rightarrow> proof_entry \<Rightarrow> bool" where
  "entry_matches L r e \<longleftrightarrow>
     pe_issuance_id e = ig_issuance_id (ar_genesis r) \<and> pe_script_key e = sk_pub_key (ar_script_key r) \<and>
     pe_amount e = ar_amount r \<and> pe_proof_file e \<noteq> [] \<and> pe_outpoint e = None"

definition export_call :: "'k lib \<Rightarrow> asset_record \<Rightarrow> call \<Rightarrow> bool" where
  "export_call L r x \<longleftrightarrow>
     (\<exists>ref. asset_ref_from_asset_id L (ig_issuance_id (ar_genesis r)) = Inr ref \<and>
        x = ExportProof ref (sk_pub_key (ar_script_key r)) None)"

lemma export_entry_ok:
  assumes "export_entry L w ref acc (Some r) h = (Inr out, h')"
  shows "\<exists>e x. out = acc @ [e] \<and> h' = h @ [x] \<and> entry_matches L r e \<and> export_call L r x"
  using assms
  by (auto simp: export_entry_def export_proof_file_def io_apply entry_matches_def export_call_def
      split: sum.splits option.splits if_splits)

lemma for_export:
  "for_io (export_entry L w ref) acc rows h = (Inr out, h') \<Longrightarrow>
   \<exists>es xs. out = acc @ es \<and> h' = h @ xs \<and>
     list_all2 (entry_matches L) (present rows) es \<and> list_all2 (export_call L) (present rows) xs"
proof (induction rows arbitrary: acc h)
  case Nil
  then show ?case by simp
next
  case (Cons row rows)
  show ?case
  proof (cases row)
    case None
    with Cons show ?thesis by (simp add: export_entry_def io_apply)
  next
    case (Some r)
    with Cons.prems obtain acc1 h1 where step: "export_entry L w ref acc (Some r) h = (Inr acc1, h1)"
      and rest: "for_io (export_entry L w ref) acc1 rows h1 = (Inr out, h')"
      by (auto simp: io_apply split: sum.splits prod.splits)
    from export_entry_ok [OF step] obtain e x where
      "acc1 = acc @ [e]" "h1 = h @ [x]" "entry_matches L r e" "export_call L r x" by blast
    moreover from Cons.IH [OF rest] obtain es xs where
      "out = acc1 @ es" "h' = h1 @ xs" "list_all2 (entry_matches L) (present rows) es"
      "list_all2 (export_call L) (present rows) xs" by blast
    ultimately show ?thesis
      by (intro exI [of _ "e # es"] exI [of _ "x # xs"]) (simp add: Some)
  qed
qed

text \<open>
  A bundle has one entry per wallet row: when \<open>ExportProof\<close> succeeds, it has listed the rows of
  the reference once and fetched one non-empty proof for each of them, and the entries carry the
  issuance ID, script key and amount of the rows in the order listed. The rows' anchor outpoints
  are neither sent to the daemon nor stored in the entries.
\<close>

theorem export_bundle_entries:
  assumes "fst (export_proof L w ref h) = Inr b"
  shows "\<exists>rows xs.
     c_list_asset_records (w_client w) h (Some (list_assets_by_ref (Some ref))) = Inr rows \<and>
     snd (export_proof L w ref h) = h @ [ListAssetRecords (Some (list_assets_by_ref (Some ref)))] @ xs \<and>
     list_all2 (export_call L) (present rows) xs \<and>
     pb_asset_ref b = ref \<and> pb_entries b \<noteq> [] \<and>
     list_all2 (entry_matches L) (present rows) (pb_entries b)"
proof -
  let ?c = "w_client w" and ?req = "Some (list_assets_by_ref (Some ref))"
  let ?h = "h @ [ListAssetRecords ?req]"
  from assms have valid: "asset_ref_validate L ref = Inr ()"
    by (cases "asset_ref_validate L ref") (simp_all add: export_proof_def io_apply)
  from assms valid obtain rows where rows: "c_list_asset_records ?c h ?req = Inr rows" "rows \<noteq> []"
    by (cases "c_list_asset_records ?c h ?req")
      (auto simp: export_proof_def io_apply list_asset_records_def split: if_splits)
  obtain r h' where loop: "for_io (export_entry L w ref) [] rows ?h = (r, h')" by fastforce
  have eq: "export_proof L w ref h =
      bind_io (for_io (export_entry L w ref) [] rows) (\<lambda>entries.
       if entries = []
       then lift_io (Inl (wrap_err (status_from_error L) ''ExportProof''
              (Wrapf [] (Sentinel ErrNoProofs) '': ref'')))
       else return_io \<lparr>pb_asset_ref = ref, pb_entries = entries\<rparr>) ?h"
    using valid rows by (simp add: export_proof_def bind_io_apply wrap_io_apply list_asset_records_def)
  from assms obtain es where "r = Inr es" "es \<noteq> []" "b = \<lparr>pb_asset_ref = ref, pb_entries = es\<rparr>"
      "snd (export_proof L w ref h) = h'"
    unfolding eq by (cases r) (auto simp: bind_io_apply loop split: if_splits)
  moreover from for_export [OF loop [unfolded \<open>r = Inr es\<close>]] obtain xs where
    "h' = ?h @ xs" "list_all2 (entry_matches L) (present rows) es" "list_all2 (export_call L) (present rows) xs"
    by auto
  ultimately show ?thesis
    using rows(1) by (intro exI [of _ rows] exI [of _ xs]) simp
qed

text \<open>A wallet with one row, whose proof the daemon has.\<close>

definition export_client :: client where
  "export_client = offline_client
     \<lparr>c_list_asset_records := \<lambda>_ _. Inr [Some (sample_row ''g'' 1 60 asset_type_normal)],
      c_export_proof := \<lambda>_ _ _ _. Inr (Some \<lparr>pf_raw = [9], pf_genesis_point = \<lparr>op_txid = zero32, op_index = 0\<rparr>\<rparr>)\<rparr>"

lemma export_sample:
  assumes "is_ok (asset_ref_validate sample_lib ref)"
  shows "\<exists>b. fst (export_proof sample_lib (sample_wallet export_client) ref []) = Inr b"
proof -
  obtain i where "asset_ref_from_asset_id sample_lib (replicate 32 1) = Inr i"
    using encode_asset_ref_ok [OF sample_bech32m_laws, of kind_asset_id "replicate 32 1"]
    by (auto simp: valid_payload_def asset_ref_from_asset_id_def id32_def)
  with assms show ?thesis
    by (auto simp: export_proof_def io_apply list_asset_records_def export_client_def export_entry_def
        export_proof_file_def is_ok_iff proof_bundle_entry_ref_def sample_row_def asset_type_normal_def
        asset_type_collectible_def)
qed

theorem export_bundle_entries_witness:
  "\<exists>ref b. fst (export_proof sample_lib (sample_wallet export_client) ref []) = Inr b \<and> pb_entries b \<noteq> []"
proof -
  obtain ref where ref: "is_group_ref sample_lib ref" using sample_group_ref by blast
  then have "is_ok (asset_ref_validate sample_lib ref)"
    by (auto simp: is_group_ref_def asset_ref_validate_def split: sum.splits)
  then obtain b where b: "fst (export_proof sample_lib (sample_wallet export_client) ref []) = Inr b"
    using export_sample by blast
  with export_bundle_entries [OF b] show ?thesis by blast
qed

section \<open>Transfers\<close>

definition names_item :: "'k lib \<Rightarrow> bytes \<Rightarrow> bytes option \<Rightarrow> asset_type \<Rightarrow> string \<Rightarrow> bool" where
  "names_item L i gk ty ref \<longleftrightarrow>
     (if ty = asset_type_collectible \<or> gk = None then asset_ref_from_asset_id L i = Inr ref
      else asset_ref_from_group_key L (the gk) = Inr ref)"

text \<open>
  Transfers keep what they move: the projection of a raw transfer keeps the inputs and the
  outputs one for one, with their amounts, issuance IDs and script keys, and names each by the
  reference the SDK uses everywhere: the item's asset ID for a collectible, the group key for a
  grouped fungible, the issuance ID otherwise.
\<close>

theorem transfer_projection:
  "new_transfer L raw = Inr t \<longleftrightarrow>
     list_all2 (\<lambda>i a. names_item L (ti_issuance_id i) (ti_group_key i) (ti_asset_type i) (ta_asset_ref a) \<and>
        ta_issuance_id a = ti_issuance_id i \<and> ta_type a = ti_asset_type i \<and> ta_amount a = ti_amount i \<and>
        ta_script_key a = ti_script_key i \<and> ta_outpoint a = ti_anchor_point i) (at_inputs raw) (tr_inputs t) \<and>
     list_all2 (\<lambda>i a. names_item L (to_issuance_id i) (to_group_key i) (to_asset_type i) (ta_asset_ref a) \<and>
        ta_issuance_id a = to_issuance_id i \<and> ta_type a = to_asset_type i \<and> ta_amount a = to_amount i \<and>
        ta_script_key a = to_script_key i \<and> ta_outpoint a = to_anchor_outpoint i) (at_outputs raw) (tr_outputs t) \<and>
     tr_timestamp t = at_timestamp raw \<and> tr_anchor_txid t = at_anchor_txid raw \<and>
     tr_block_height t = at_block_height raw \<and> tr_chain_fees t = at_chain_fees raw \<and> tr_label t = at_label raw"
proof -
  have typed: "asset_ref_from_typed_asset L i gk ty = Inr ref \<longleftrightarrow> names_item L i gk ty ref" for i gk ty ref
    by (auto simp: asset_ref_from_typed_asset_def asset_ref_from_asset_def names_item_def split: option.splits)
  have "transfer_input_asset L i = Inr a \<longleftrightarrow>
      names_item L (ti_issuance_id i) (ti_group_key i) (ti_asset_type i) (ta_asset_ref a) \<and>
        ta_issuance_id a = ti_issuance_id i \<and> ta_type a = ti_asset_type i \<and> ta_amount a = ti_amount i \<and>
        ta_script_key a = ti_script_key i \<and> ta_outpoint a = ti_anchor_point i" for i a
    by (cases a) (auto simp: transfer_input_asset_def result_simps typed)
  moreover have "transfer_output_asset L i = Inr a \<longleftrightarrow>
      names_item L (to_issuance_id i) (to_group_key i) (to_asset_type i) (ta_asset_ref a) \<and>
        ta_issuance_id a = to_issuance_id i \<and> ta_type a = to_asset_type i \<and> ta_amount a = to_amount i \<and>
        ta_script_key a = to_script_key i \<and> ta_outpoint a = to_anchor_outpoint i" for i a
    by (cases a) (auto simp: transfer_output_asset_def result_simps typed)
  ultimately show ?thesis
    by (cases t) (auto simp: new_transfer_def result_simps fold_append_res)
qed

end
