(* ===== verification/Tap_Psbt.thy ===== *)
theory Tap_Psbt
  imports Tap_Client
begin

text \<open>
  The PSBT structures the SDK builds itself (\<open>internal/vpsbt\<close>, \<open>internal/anchor\<close>): the virtual packet
  of an interactive send with its custom fields, and the anchor template that collects the inputs
  and outputs of virtual packets. Parsing and serialising PSBTs, script building and the derivation
  helpers of tapd are functions of the record \<open>psbt_lib\<close>.
\<close>

section \<open>Virtual packets of interactive sends\<close>

text \<open>A custom PSBT field: key and value.\<close>

type_synonym psbt_unknown = "bytes \<times> bytes"

record virtual_psbt =
  vp_tx_version :: nat
  vp_tx_in_count :: nat
  vp_tx_out :: tx_out
  vp_global_unknowns :: "psbt_unknown list"
  vp_input_unknowns :: "psbt_unknown list"
  vp_output_internal_key :: bytes
  vp_output_unknowns :: "psbt_unknown list"

text \<open>The parts of a tapd virtual packet that the anchor template reads.\<close>

record 'k vpkt_input =
  vi_outpoint :: outpoint
  vi_value :: u64
  vi_pk_script :: bytes
  vi_sighash_type :: u32
  vi_bip32 :: "bytes list"
  vi_tr_bip32 :: "bytes list"
  vi_internal_key :: 'k
  vi_merkle_root :: bytes

record 'k vpkt_output =
  vo_anchor_output_index :: u32
  vo_anchor_internal_key :: 'k
  vo_bip32 :: "bytes list"
  vo_tr_bip32 :: "bytes list"

record 'k vpkt =
  vk_inputs :: "'k vpkt_input list"
  vk_outputs :: "'k vpkt_output list"

text \<open>The anchor PSBT: per-input and per-output maps beside the unsigned transaction.\<close>

record anchor_input =
  ai_witness_value :: int
  ai_witness_script :: bytes
  ai_sighash_type :: u32
  ai_bip32 :: "bytes list"
  ai_tr_bip32 :: "bytes list"
  ai_internal_key :: bytes
  ai_merkle_root :: bytes

record anchor_output =
  ao_internal_key :: bytes
  ao_bip32 :: "bytes list"
  ao_tr_bip32 :: "bytes list"

record anchor_psbt =
  an_tx_ins :: "outpoint list"
  an_tx_outs :: "tx_out list"
  an_inputs :: "anchor_input list"
  an_outputs :: "anchor_output list"

record 'k psbt_lib =
  pl_taproot_script :: "bytes \<Rightarrow> bytes result"
  pl_serialize_virtual :: "virtual_psbt \<Rightarrow> bytes result"
  pl_decode_vpacket :: "bytes \<Rightarrow> 'k vpkt result"
  pl_serialize_anchor :: "anchor_psbt \<Rightarrow> bytes result"
  pl_add_bip32 :: "bytes list \<Rightarrow> bytes \<Rightarrow> bytes list"
  pl_add_tr_bip32 :: "bytes list \<Rightarrow> bytes \<Rightarrow> bytes list"

record interactive_vpacket =
  iv_asset_id :: bytes
  iv_amount :: u64
  iv_script_key :: bytes
  iv_anchor_internal_key :: bytes
  iv_anchor_key_locator :: key_locator
  iv_alt_leaves :: "bytes list"
  iv_lock_time :: u64
  iv_relative_lock_time :: u64
  iv_anchor_output_index :: u32
  iv_asset_version :: byte
  iv_network_hrp :: string
  iv_coin_type :: u32

text \<open>The key prefixes of \<open>keys.go\<close>.\<close>

definition key_global_is_virtual_tx :: bytes where "key_global_is_virtual_tx = [0x70]"
definition key_global_chain_params_hrp :: bytes where "key_global_chain_params_hrp = [0x71]"
definition key_global_psbt_version :: bytes where "key_global_psbt_version = [0x72]"
definition key_input_prev_id :: bytes where "key_input_prev_id = [0x70]"
definition key_output_type :: bytes where "key_output_type = [0x70]"
definition key_output_is_interactive :: bytes where "key_output_is_interactive = [0x71]"
definition key_output_anchor_output_index :: bytes where "key_output_anchor_output_index = [0x72]"
definition key_output_anchor_internal_key :: bytes where "key_output_anchor_internal_key = [0x73]"
definition key_output_bip32 :: bytes where "key_output_bip32 = [0x74]"
definition key_output_tr_bip32 :: bytes where "key_output_tr_bip32 = [0x75]"
definition key_output_asset_version :: bytes where "key_output_asset_version = [0x79]"
definition key_output_lock_time :: bytes where "key_output_lock_time = [0x7c]"
definition key_output_relative_lock_time :: bytes where "key_output_relative_lock_time = [0x7d]"
definition key_output_alt_leaves :: bytes where "key_output_alt_leaves = [0x7e]"

lemmas psbt_keys = key_global_is_virtual_tx_def key_global_chain_params_hrp_def key_global_psbt_version_def
  key_input_prev_id_def key_output_type_def key_output_is_interactive_def key_output_anchor_output_index_def
  key_output_anchor_internal_key_def key_output_bip32_def key_output_tr_bip32_def key_output_asset_version_def
  key_output_lock_time_def key_output_relative_lock_time_def key_output_alt_leaves_def

definition bip0043_purpose :: u32 where "bip0043_purpose = 1017"
definition hardened_key_start :: u32 where "hardened_key_start = 0x80000000"

definition encode_tlv_uint64 :: "u64 \<Rightarrow> bytes" where
  "encode_tlv_uint64 val = be_bytes 8 (unat val)"

definition encode_tlv_uint8 :: "byte \<Rightarrow> bytes" where
  "encode_tlv_uint8 val = [val]"

definition encode_prev_id :: "bytes \<Rightarrow> bytes" where
  "encode_prev_id asset_id = replicate 36 0 @ asset_id @ replicate 33 0"

text \<open>\<open>makeBip32Derivation\<close>: public key, x-only key and path; the sums wrap at 32 bits.\<close>

definition make_bip32_path :: "key_locator \<Rightarrow> u32 \<Rightarrow> u32 list" where
  "make_bip32_path loc coin_type =
     [bip0043_purpose + hardened_key_start, coin_type + hardened_key_start,
      kl_family loc + hardened_key_start, 0, kl_index loc]"

definition encode_bip32_derivation :: "u32 \<Rightarrow> u32 list \<Rightarrow> bytes" where
  "encode_bip32_derivation fingerprint path =
     be_bytes 4 (unat fingerprint) @ concat (map (\<lambda>e. le_bytes 4 (unat e)) path)"

definition encode_taproot_bip32_derivation :: "bytes list \<Rightarrow> u32 \<Rightarrow> u32 list \<Rightarrow> bytes" where
  "encode_taproot_bip32_derivation leaf_hashes fingerprint path =
     [of_nat (length leaf_hashes)] @ concat leaf_hashes @
     be_bytes 4 (unat fingerprint) @ concat (map (\<lambda>e. le_bytes 4 (unat e)) path)"

definition encode_global_fields :: "interactive_vpacket \<Rightarrow> psbt_unknown list" where
  "encode_global_fields v =
     [(key_global_is_virtual_tx, [1]),
      (key_global_chain_params_hrp, string_bytes (iv_network_hrp v)),
      (key_global_psbt_version, [1])]"

definition encode_input_fields :: "interactive_vpacket \<Rightarrow> psbt_unknown list" where
  "encode_input_fields v = [(key_input_prev_id, encode_prev_id (iv_asset_id v))]"

definition encode_output_fields :: "interactive_vpacket \<Rightarrow> (psbt_unknown list \<times> bytes) result" where
  "encode_output_fields v =
     (let unknowns =
            [(key_output_type, encode_tlv_uint8 0),
             (key_output_is_interactive, [1]),
             (key_output_anchor_output_index, encode_tlv_uint64 (ucast (iv_anchor_output_index v))),
             (key_output_anchor_internal_key, iv_anchor_internal_key v),
             (key_output_asset_version, encode_tlv_uint8 (iv_asset_version v))];
          path = make_bip32_path (iv_anchor_key_locator v) (iv_coin_type v);
          bip32 =
            [(key_output_bip32 @ iv_anchor_internal_key v, encode_bip32_derivation 0 path),
             (key_output_tr_bip32 @ drop 1 (iv_anchor_internal_key v),
              encode_taproot_bip32_derivation [] 0 path)];
          lock = (if iv_lock_time v > 0
                  then [(key_output_lock_time, encode_tlv_uint64 (iv_lock_time v))] else []);
          relative = (if iv_relative_lock_time v > 0
                  then [(key_output_relative_lock_time, encode_tlv_uint64 (iv_relative_lock_time v))] else []) in
      and_then (if iv_alt_leaves v \<noteq> []
                then and_then (encode_alt_leaves (iv_alt_leaves v)) (\<lambda>enc. Inr [(key_output_alt_leaves, enc)])
                else Inr []) (\<lambda>alt.
      Inr (unknowns @ bip32 @ lock @ relative @ alt, drop 1 (iv_script_key v))))"

text \<open>\<open>Value: int64(v.Amount)\<close> reads the word as signed.\<close>

definition to_psbt :: "'k psbt_lib \<Rightarrow> interactive_vpacket \<Rightarrow> virtual_psbt result" where
  "to_psbt P v =
     and_then (wrap_with (\<lambda>e. Wrapf ''failed to create pk script: '' e [])
                (pl_taproot_script P (drop 1 (iv_script_key v)))) (\<lambda>pk_script.
     and_then (wrap_with (\<lambda>e. Wrapf ''failed to encode output: '' e []) (encode_output_fields v))
       (\<lambda>(output_unknowns, internal_key).
     Inr \<lparr>vp_tx_version = 2, vp_tx_in_count = 1,
          vp_tx_out = \<lparr>txo_value = sint (iv_amount v), txo_pk_script = pk_script\<rparr>,
          vp_global_unknowns = encode_global_fields v, vp_input_unknowns = encode_input_fields v,
          vp_output_internal_key = internal_key, vp_output_unknowns = output_unknowns\<rparr>))"

definition encode_vpacket :: "'k psbt_lib \<Rightarrow> interactive_vpacket \<Rightarrow> bytes result" where
  "encode_vpacket P v =
     and_then (wrap_with (\<lambda>e. Wrapf ''failed to build PSBT: '' e []) (to_psbt P v)) (\<lambda>packet.
     wrap_with (\<lambda>e. Wrapf ''failed to serialize PSBT: '' e []) (pl_serialize_virtual P packet))"

section \<open>The anchor template\<close>

definition dummy_amt_sats :: int where "dummy_amt_sats = 1000"

definition dummy_p2tr_script :: bytes where
  "dummy_p2tr_script = [0x51, 0x20] @ replicate 32 0"

definition dummy_tx_out :: tx_out where
  "dummy_tx_out = \<lparr>txo_value = dummy_amt_sats, txo_pk_script = dummy_p2tr_script\<rparr>"

text \<open>
  The loop \<open>for i := uint32(0); i <= maxOutputIndex; i++\<close>. Its counter wraps, so it is a partial
  function: \<open>None\<close> means that the loop does not end.
\<close>

partial_function (option) add_dummy_outputs :: "u32 \<Rightarrow> u32 \<Rightarrow> tx_out list \<Rightarrow> tx_out list option" where
  [code]: "add_dummy_outputs i max_index outs =
     (if i \<le> max_index then add_dummy_outputs (i + 1) max_index (outs @ [dummy_tx_out]) else Some outs)"

text \<open>The first loop of \<open>createAnchorTx\<close>: the largest anchor output index.\<close>

definition max_output_index :: "'k vpkt list \<Rightarrow> u32 result" where
  "max_output_index vpkts =
     fold_res (\<lambda>m p.
       if vk_outputs p = [] then Inl (Plain ''virtual packet has no outputs'')
       else Inr (foldl (\<lambda>m vo. if vo_anchor_output_index vo > m then vo_anchor_output_index vo else m) m (vk_outputs p)))
       0 vpkts"

definition empty_anchor_output :: anchor_output where
  "empty_anchor_output = \<lparr>ao_internal_key = [], ao_bip32 = [], ao_tr_bip32 = []\<rparr>"

definition set_output :: "'k lib \<Rightarrow> 'k psbt_lib \<Rightarrow> anchor_output list \<Rightarrow> 'k vpkt_output \<Rightarrow> anchor_output list" where
  "set_output L P outs vo =
     (let i = unat (vo_anchor_output_index vo); out = outs ! i in
      outs[i := \<lparr>ao_internal_key = schnorr_serialize_pub_key L (vo_anchor_internal_key vo),
                 ao_bip32 = foldl (pl_add_bip32 P) (ao_bip32 out) (vo_bip32 vo),
                 ao_tr_bip32 = foldl (pl_add_tr_bip32 P) (ao_tr_bip32 out) (vo_tr_bip32 vo)\<rparr>])"

definition create_anchor_tx :: "'k lib \<Rightarrow> 'k psbt_lib \<Rightarrow> 'k vpkt list \<Rightarrow> anchor_psbt result option" where
  "create_anchor_tx L P vpkts =
     (case max_output_index vpkts of
        Inl e \<Rightarrow> Some (Inl e)
      | Inr m \<Rightarrow>
        (case add_dummy_outputs 0 m [] of
           None \<Rightarrow> None
         | Some tx_outs \<Rightarrow>
           Some (Inr \<lparr>an_tx_ins = [], an_tx_outs = tx_outs, an_inputs = [],
             an_outputs = foldl (\<lambda>outs p. foldl (set_output L P) outs (vk_outputs p))
               (replicate (length tx_outs) empty_anchor_output) vpkts\<rparr>)))"

definition has_input :: "outpoint list \<Rightarrow> outpoint \<Rightarrow> bool" where
  "has_input tx_ins op \<longleftrightarrow> list_ex (\<lambda>i. i = op) tx_ins"

definition add_input :: "'k lib \<Rightarrow> anchor_psbt \<Rightarrow> 'k vpkt_input \<Rightarrow> anchor_psbt" where
  "add_input L a vi =
     (if has_input (an_tx_ins a) (vi_outpoint vi) then a
      else a\<lparr>an_inputs := an_inputs a @
               [\<lparr>ai_witness_value = sint (vi_value vi), ai_witness_script = vi_pk_script vi,
                 ai_sighash_type = vi_sighash_type vi, ai_bip32 = vi_bip32 vi, ai_tr_bip32 = vi_tr_bip32 vi,
                 ai_internal_key = schnorr_serialize_pub_key L (vi_internal_key vi),
                 ai_merkle_root = vi_merkle_root vi\<rparr>],
             an_tx_ins := an_tx_ins a @ [vi_outpoint vi]\<rparr>)"

definition prepare_template :: "'k lib \<Rightarrow> 'k psbt_lib \<Rightarrow> 'k vpkt list \<Rightarrow> anchor_psbt result option" where
  "prepare_template L P vpkts =
     (case create_anchor_tx L P vpkts of
        None \<Rightarrow> None
      | Some (Inl e) \<Rightarrow> Some (Inl e)
      | Some (Inr a) \<Rightarrow> Some (Inr (foldl (\<lambda>a p. foldl (add_input L) a (vk_inputs p)) a vpkts)))"

definition decode_packet :: "'k psbt_lib \<Rightarrow> bytes \<Rightarrow> 'k vpkt result" where
  "decode_packet P b =
     (if b = [] then Inl (Plain ''empty virtual PSBT'') else pl_decode_vpacket P b)"

definition prepare_psbt :: "'k lib \<Rightarrow> 'k psbt_lib \<Rightarrow> bytes list \<Rightarrow> bytes list \<Rightarrow> bytes result option" where
  "prepare_psbt L P active_psbts passive_psbts =
     (let decode = (\<lambda>kind acc b.
            and_then (wrap_with (\<lambda>e. Wrapf kind e []) (decode_packet P b)) (\<lambda>p. Inr (acc @ [p]))) in
      case and_then (fold_res (decode ''active packet: '') [] active_psbts) (\<lambda>packets.
             fold_res (decode ''passive packet: '') packets passive_psbts) of
        Inl e \<Rightarrow> Some (Inl e)
      | Inr packets \<Rightarrow>
        (if packets = [] then Some (Inl (Plain ''no virtual PSBTs specified''))
         else case prepare_template L P packets of
                None \<Rightarrow> None
              | Some (Inl e) \<Rightarrow> Some (Inl e)
              | Some (Inr a) \<Rightarrow>
                  Some (wrap_with (\<lambda>e. Wrapf ''serialize anchor PSBT: '' e []) (pl_serialize_anchor P a))))"


section \<open>Virtual packets\<close>

text \<open>
  The custom fields of an interactive packet are a map: no key occurs twice, whatever the key
  bytes are; lock times are present exactly when they are set, with their value; and the alt leaves
  field is present exactly when there are leaves and decodes to them, up to the decoder's size limit.
\<close>

theorem vpacket_fields:
  assumes "encode_output_fields v = Inr (ufs, internal_key)"
  shows "distinct (map fst ufs) \<and>
     map_of ufs key_output_lock_time =
       (if iv_lock_time v = 0 then None else Some (be_bytes 8 (unat (iv_lock_time v)))) \<and>
     map_of ufs key_output_relative_lock_time =
       (if iv_relative_lock_time v = 0 then None else Some (be_bytes 8 (unat (iv_relative_lock_time v)))) \<and>
     map_of ufs (key_output_bip32 @ iv_anchor_internal_key v) \<noteq> None \<and>
     (case map_of ufs key_output_alt_leaves of
        None \<Rightarrow> iv_alt_leaves v = []
      | Some enc \<Rightarrow> iv_alt_leaves v \<noteq> [] \<and> (length enc \<le> max_alt_leaves_size \<longrightarrow> decode_alt_leaves enc = Inr (iv_alt_leaves v)))"
proof (cases "iv_alt_leaves v = []")
  case True
  with assms show ?thesis
    by (auto simp: encode_output_fields_def Let_def psbt_keys word_gt_0 encode_tlv_uint64_def)
next
  case False
  with assms obtain enc where enc: "encode_alt_leaves (iv_alt_leaves v) = Inr enc"
    by (auto simp: encode_output_fields_def Let_def result_simps)
  from decode_encode_alt_leaves [OF enc] assms False enc show ?thesis
    by (auto simp: encode_output_fields_def Let_def psbt_keys word_gt_0 encode_tlv_uint64_def)
qed

definition sample_vpacket :: interactive_vpacket where
  "sample_vpacket =
     \<lparr>iv_asset_id = replicate 32 7, iv_amount = 5, iv_script_key = 2 # replicate 32 1,
      iv_anchor_internal_key = 2 # replicate 32 3,
      iv_anchor_key_locator = \<lparr>kl_family = 212, kl_index = 4\<rparr>, iv_alt_leaves = [[7]],
      iv_lock_time = 10, iv_relative_lock_time = 0, iv_anchor_output_index = 0, iv_asset_version = 0,
      iv_network_hrp = ''taprt'', iv_coin_type = 1\<rparr>"

lemma sample_vpacket_encodes:
  "\<exists>ufs key. encode_output_fields sample_vpacket = Inr (ufs, key)"
proof -
  have "\<exists>enc. encode_alt_leaves (iv_alt_leaves sample_vpacket) = Inr enc"
    by (simp add: sample_vpacket_def encode_alt_leaves_eq alt_leaf_entry_def var_int_bytes_def
        max_alt_leaves_size_def)
  then show ?thesis by (auto simp: encode_output_fields_def Let_def)
qed

theorem vpacket_fields_witness:
  "\<exists>ufs key. encode_output_fields sample_vpacket = Inr (ufs, key) \<and> distinct (map fst ufs) \<and>
     map_of ufs key_output_lock_time = Some (be_bytes 8 10)"
proof -
  from sample_vpacket_encodes obtain ufs key where "encode_output_fields sample_vpacket = Inr (ufs, key)"
    by blast
  with vpacket_fields [OF this] show ?thesis by (simp add: sample_vpacket_def)
qed

definition sample_psbt_lib :: "bytes psbt_lib" where
  "sample_psbt_lib =
     \<lparr>pl_taproot_script = (\<lambda>k. Inr (0x51 # k)), pl_serialize_virtual = (\<lambda>_. Inr [7]),
      pl_decode_vpacket = (\<lambda>_. Inl (Plain ''not decoded'')), pl_serialize_anchor = (\<lambda>_. Inr [8]),
      pl_add_bip32 = (\<lambda>ds d. ds @ [d]), pl_add_tr_bip32 = (\<lambda>ds d. ds @ [d])\<rparr>"

lemma sint_u64:
  "sint (w :: u64) = (if unat w < 2 ^ 63 then int (unat w) else int (unat w) - 2 ^ 64)"
proof -
  define u where "u = uint w"
  have bound: "0 \<le> u" "u < 2 ^ 64"
    using unsigned_less [of w, where 'a = int] by (simp_all add: u_def)
  have l: "LENGTH(64) - Suc 0 = 63" by simp
  have "sint w = signed_take_bit 63 u" by (simp only: u_def sint_uint l)
  also have "\<dots> = take_bit (Suc 63) (u + 2 ^ 63) - 2 ^ 63" by (rule signed_take_bit_eq_take_bit_shift)
  finally have eq: "sint w = take_bit 64 (u + 2 ^ 63) - 2 ^ 63" by simp
  have u: "unat w = nat u" by (simp only: u_def unat_eq_nat_uint)
  show ?thesis
  proof (cases "u < 2 ^ 63")
    case True
    with bound have "take_bit 64 (u + 2 ^ 63) = u + 2 ^ 63"
      by (intro take_bit_int_eq_self) simp_all
    with True eq u bound show ?thesis by (simp add: nat_less_iff)
  next
    case False
    have "u + 2 ^ 63 = u - 2 ^ 63 + 2 ^ 64" by simp
    then have "(u + 2 ^ 63) mod 2 ^ 64 = (u - 2 ^ 63 + 2 ^ 64) mod 2 ^ 64" by (rule arg_cong)
    also have "\<dots> = (u - 2 ^ 63) mod 2 ^ 64" by (rule mod_add_self2)
    also have "\<dots> = u - 2 ^ 63" using False bound by (intro mod_pos_pos_trivial) simp_all
    finally have "take_bit 64 (u + 2 ^ 63) = u - 2 ^ 63" by (simp add: take_bit_eq_mod)
    with False eq u bound show ?thesis by (simp add: nat_less_iff)
  qed
qed

text \<open>
  The amount of an interactive packet keeps its value up to 2^63 - 1 units; from 2^63 units on,
  the signed output value of the placeholder transaction is negative, the amount less 2^64.
\<close>

theorem vpacket_amount:
  assumes "to_psbt P v = Inr p"
  shows "txo_value (vp_tx_out p) =
     (if unat (iv_amount v) < 2 ^ 63 then int (unat (iv_amount v)) else int (unat (iv_amount v)) - 2 ^ 64)"
proof -
  have "txo_value (vp_tx_out p) = sint (iv_amount v)"
    using assms by (auto simp: to_psbt_def result_simps wrap_with_def split: sum.splits prod.splits)
  then show ?thesis by (simp only: sint_u64)
qed

theorem vpacket_amount_witness:
  "\<exists>p. to_psbt sample_psbt_lib sample_vpacket = Inr p \<and> txo_value (vp_tx_out p) = 5"
proof -
  have "\<exists>p. to_psbt sample_psbt_lib sample_vpacket = Inr p"
    using sample_vpacket_encodes by (auto simp: to_psbt_def sample_psbt_lib_def)
  then obtain p where p: "to_psbt sample_psbt_lib sample_vpacket = Inr p" by blast
  from vpacket_amount [OF p] p show ?thesis by (auto simp: sample_vpacket_def)
qed

section \<open>The anchor template\<close>

lemma foldl_nested: "foldl (\<lambda>acc p. foldl g acc (f p)) a ps = foldl g a (concat (map f ps))"
  by (induction ps arbitrary: a) simp_all

lemma u32_less_max:
  fixes m :: u32
  assumes "m \<noteq> 0xffffffff"
  shows "unat m < 2 ^ 32 - 1"
proof -
  have "unat m < 2 ^ 32" using unsigned_less [of m, where 'a = nat] by simp
  moreover have "unat m \<noteq> 2 ^ 32 - 1"
    using assms by (auto simp: word_unat_eq_iff)
  ultimately show ?thesis by simp
qed

lemma add_dummy_outputs_ends:
  assumes "max_index \<noteq> 0xffffffff" and "unat i + n = unat max_index + 1"
  shows "add_dummy_outputs i max_index outs = Some (outs @ replicate n dummy_tx_out)"
  using assms(2)
proof (induction n arbitrary: i outs)
  case 0
  then have "\<not> i \<le> max_index" by (simp add: word_le_nat_alt)
  then show ?case by (subst add_dummy_outputs.simps) simp
next
  case (Suc n)
  then have le: "i \<le> max_index" by (simp add: word_le_nat_alt)
  with u32_less_max [OF assms(1)] have "unat (i + 1) = unat i + 1"
    by (simp add: word_le_nat_alt unat_word_ariths)
  with Suc(2) have "unat (i + 1) + n = unat max_index + 1" by simp
  from Suc(1) [OF this] le show ?case by (subst add_dummy_outputs.simps) simp
qed

lemma add_dummy_outputs_returns:
  assumes "add_dummy_outputs i max_index outs = Some res"
  shows "max_index \<noteq> 0xffffffff"
proof (rule add_dummy_outputs.raw_induct [where P = "\<lambda>_ m _ _. m \<noteq> 0xffffffff", OF _ assms])
  fix add i m outs res
  assume IH: "\<And>i m outs res. add i m outs = Some res \<Longrightarrow> m \<noteq> (0xffffffff :: u32)"
    and eq: "(if i \<le> m then add (i + 1) m (outs @ [dummy_tx_out]) else Some outs) = Some res"
  show "m \<noteq> 0xffffffff"
  proof (cases "i \<le> m")
    case True
    with IH eq show ?thesis by metis
  next
    case False
    then show ?thesis
      using unsigned_less [of i, where 'a = nat] by (auto simp: word_le_nat_alt)
  qed
qed

lemma max_output_index_eq:
  fixes vpkts :: "'k vpkt list"
  assumes "\<forall>p \<in> set vpkts. vk_outputs p \<noteq> []"
  shows "max_output_index vpkts =
    Inr (foldl max 0 (map vo_anchor_output_index (concat (map vk_outputs vpkts))))"
proof -
  have inner: "foldl (\<lambda>m vo. if vo_anchor_output_index vo > m then vo_anchor_output_index vo else m) m vos =
      foldl max m (map vo_anchor_output_index vos)" for m and vos :: "'k vpkt_output list"
    by (induction vos arbitrary: m) (auto simp: max_def)
  have "fold_res (\<lambda>m p. if vk_outputs p = [] then Inl (Plain ''virtual packet has no outputs'')
         else Inr (foldl max m (map vo_anchor_output_index (vk_outputs p)))) m vpkts =
      Inr (foldl max m (map vo_anchor_output_index (concat (map vk_outputs vpkts))))" for m
    using assms by (induction vpkts arbitrary: m) simp_all
  then show ?thesis unfolding max_output_index_def inner .
qed

lemma foldl_max_bounds:
  fixes m :: "'a :: linorder"
  shows "m \<le> foldl max m xs \<and> (\<forall>x \<in> set xs. x \<le> foldl max m xs) \<and> foldl max m xs \<in> insert m (set xs)"
proof (induction xs arbitrary: m)
  case (Cons x xs)
  from Cons [of "max m x"] show ?case by (auto simp: max_def split: if_splits)
qed simp

text \<open>What the template records of one input.\<close>

definition template_input :: "'k lib \<Rightarrow> 'k vpkt_input \<Rightarrow> anchor_input" where
  "template_input L vi =
     \<lparr>ai_witness_value = sint (vi_value vi), ai_witness_script = vi_pk_script vi,
      ai_sighash_type = vi_sighash_type vi, ai_bip32 = vi_bip32 vi, ai_tr_bip32 = vi_tr_bip32 vi,
      ai_internal_key = schnorr_serialize_pub_key L (vi_internal_key vi),
      ai_merkle_root = vi_merkle_root vi\<rparr>"

definition inputs_describe :: "'k lib \<Rightarrow> 'k vpkt_input list \<Rightarrow> anchor_psbt \<Rightarrow> bool" where
  "inputs_describe L vis a \<longleftrightarrow>
     distinct (an_tx_ins a) \<and> set (an_tx_ins a) = set (map vi_outpoint vis) \<and>
     list_all2 (\<lambda>op ai. list_ex (\<lambda>vi. vi_outpoint vi = op \<and> ai = template_input L vi) vis)
       (an_tx_ins a) (an_inputs a)"

lemma add_input_describes:
  assumes "inputs_describe L vis a"
  shows "inputs_describe L (vis @ [vi]) (add_input L a vi)"
  using assms
  by (auto simp: inputs_describe_def add_input_def has_input_def list_ex_iff template_input_def
      intro!: list_all2_appendI elim!: list_all2_mono)

lemma add_inputs_describe:
  assumes "inputs_describe L vis a"
  shows "inputs_describe L (vis @ vis') (foldl (add_input L) a vis')"
  using assms
proof (induction vis' arbitrary: vis a)
  case (Cons vi vis')
  from Cons(1) [OF add_input_describes [OF Cons(2)]] show ?case by simp
qed simp

lemma add_inputs_outputs:
  "an_tx_outs (foldl (add_input L) a vis) = an_tx_outs a \<and> an_outputs (foldl (add_input L) a vis) = an_outputs a"
proof (induction vis arbitrary: a)
  case (Cons vi vis)
  from Cons [of "add_input L a vi"] show ?case by (simp add: add_input_def)
qed simp

text \<open>The internal key that output \<open>i\<close> gets from a list of virtual outputs: the last one wins.\<close>

definition output_key :: "'k lib \<Rightarrow> 'k vpkt_output list \<Rightarrow> nat \<Rightarrow> bytes" where
  "output_key L vos i =
     (case rev (filter (\<lambda>vo. unat (vo_anchor_output_index vo) = i) vos) of
        [] \<Rightarrow> []
      | vo # _ \<Rightarrow> schnorr_serialize_pub_key L (vo_anchor_internal_key vo))"

lemma length_set_output [simp]: "length (set_output L P outs vo) = length outs"
  by (simp add: set_output_def Let_def)

lemma set_output_key:
  "i < length outs \<Longrightarrow> ao_internal_key (set_output L P outs vo ! i) =
     (if unat (vo_anchor_output_index vo) = i then schnorr_serialize_pub_key L (vo_anchor_internal_key vo)
      else ao_internal_key (outs ! i))"
  by (simp add: set_output_def Let_def nth_list_update)

lemma set_outputs_keys:
  "map ao_internal_key (foldl (set_output L P) (replicate n empty_anchor_output) vos) =
     map (output_key L vos) [0..<n]"
proof (induction vos rule: rev_induct)
  case Nil
  show ?case by (auto intro!: nth_equalityI simp: output_key_def empty_anchor_output_def)
next
  case (snoc vo vos)
  let ?outs = "foldl (set_output L P) (replicate n empty_anchor_output) vos"
  from snoc have len: "length ?outs = n" using map_eq_imp_length_eq by fastforce
  have key: "i < n \<Longrightarrow> ao_internal_key (?outs ! i) = output_key L vos i" for i
    using arg_cong [OF snoc, of "\<lambda>ks. ks ! i"] len by simp
  show ?case
    by (rule nth_equalityI) (auto simp: len key set_output_key output_key_def)
qed

text \<open>
  The anchor template of packets with outputs, none at index 2^32 - 1, is built: its inputs are
  the distinct outpoints of all virtual inputs, each described by a virtual input that spends it;
  it has one placeholder output up to the largest anchor output index, so every virtual output has
  its place; and output i carries the internal key of the last virtual output anchored there.
\<close>

theorem anchor_template:
  fixes vpkts :: "'k vpkt list"
  assumes "\<forall>p \<in> set vpkts. vk_outputs p \<noteq> []"
    and "\<forall>p \<in> set vpkts. \<forall>vo \<in> set (vk_outputs p). vo_anchor_output_index vo \<noteq> 0xffffffff"
    and "vpkts \<noteq> []"
  defines "vis \<equiv> concat (map vk_inputs vpkts)" and "vos \<equiv> concat (map vk_outputs vpkts)"
  shows "\<exists>a n. prepare_template L P vpkts = Some (Inr a) \<and>
     distinct (an_tx_ins a) \<and> set (an_tx_ins a) = set (map vi_outpoint vis) \<and>
     list_all2 (\<lambda>op ai. list_ex (\<lambda>vi. vi_outpoint vi = op \<and> ai = template_input L vi) vis)
       (an_tx_ins a) (an_inputs a) \<and>
     an_tx_outs a = replicate (Suc n) dummy_tx_out \<and>
     (\<forall>vo \<in> set vos. unat (vo_anchor_output_index vo) \<le> n) \<and>
     (\<exists>vo \<in> set vos. unat (vo_anchor_output_index vo) = n) \<and>
     map ao_internal_key (an_outputs a) = map (output_key L vos) [0..<Suc n]"
proof -
  define m where "m = foldl max 0 (map vo_anchor_output_index vos)"
  have "vos \<noteq> []" using assms(1,3) by (cases vpkts) (auto simp: vos_def)
  have bound: "\<forall>vo \<in> set vos. vo_anchor_output_index vo \<le> m"
    and mem: "m \<in> insert 0 (set (map vo_anchor_output_index vos))"
    using foldl_max_bounds [of 0 "map vo_anchor_output_index vos"] by (auto simp: m_def)
  from mem \<open>vos \<noteq> []\<close> bound have attained: "\<exists>vo \<in> set vos. vo_anchor_output_index vo = m"
    by (cases vos) auto
  with assms(2) have m: "m \<noteq> 0xffffffff" by (auto simp: vos_def)
  then have outs: "add_dummy_outputs 0 m [] = Some (replicate (Suc (unat m)) dummy_tx_out)"
    using add_dummy_outputs_ends [of m 0 "Suc (unat m)" "[]"] by simp
  define os where "os = foldl (set_output L P) (replicate (Suc (unat m)) empty_anchor_output) vos"
  define a where "a = foldl (add_input L) \<lparr>an_tx_ins = [], an_tx_outs = replicate (Suc (unat m)) dummy_tx_out,
      an_inputs = [], an_outputs = os\<rparr> vis"
  have "prepare_template L P vpkts = Some (Inr a)"
    using max_output_index_eq [OF assms(1)] outs
    by (simp add: prepare_template_def create_anchor_tx_def foldl_nested a_def os_def m_def vis_def vos_def
        del: replicate_Suc)
  moreover have "inputs_describe L vis a"
    using add_inputs_describe [of L "[]" "\<lparr>an_tx_ins = [], an_tx_outs = replicate (Suc (unat m)) dummy_tx_out,
      an_inputs = [], an_outputs = os\<rparr>" vis] by (simp add: a_def inputs_describe_def)
  moreover have "an_tx_outs a = replicate (Suc (unat m)) dummy_tx_out" and "an_outputs a = os"
    using add_inputs_outputs [of L _ vis] by (simp_all add: a_def)
  moreover have "\<forall>vo \<in> set vos. unat (vo_anchor_output_index vo) \<le> unat m"
    using bound by (auto simp: word_le_nat_alt)
  moreover have "map ao_internal_key os = map (output_key L vos) [0..<Suc (unat m)]"
    unfolding os_def by (rule set_outputs_keys)
  ultimately show ?thesis using attained
    unfolding inputs_describe_def by (intro exI [of _ a] exI [of _ "unat m"]) (auto simp del: replicate_Suc upt_Suc)
qed

text \<open>
  C32. A packet with an anchor output index of 2^32 - 1 is never answered: the counter of the output
  loop wraps to zero and the loop does not end.
\<close>

theorem anchor_template_diverges:
  assumes "\<forall>p \<in> set vpkts. vk_outputs p \<noteq> []"
    and "\<exists>p \<in> set vpkts. \<exists>vo \<in> set (vk_outputs p). vo_anchor_output_index vo = 0xffffffff"
  shows "prepare_template L P vpkts = None"
proof -
  define idx where "idx = map vo_anchor_output_index (concat (map vk_outputs vpkts))"
  have "0xffffffff \<in> set idx" using assms(2) by (force simp: idx_def)
  with foldl_max_bounds [of 0 idx] have "(0xffffffff :: u32) \<le> foldl max 0 idx" by blast
  then have "foldl max 0 idx = (0xffffffff :: u32)"
    using unsigned_less [of "foldl max 0 idx", where 'a = nat]
    by (simp add: word_le_nat_alt word_unat_eq_iff)
  then have "add_dummy_outputs 0 (foldl max 0 idx) [] = None"
    using add_dummy_outputs_returns by (metis option.exhaust)
  with max_output_index_eq [OF assms(1)] show ?thesis
    by (simp add: prepare_template_def create_anchor_tx_def idx_def)
qed

definition sample_vout :: "u32 \<Rightarrow> bytes vpkt_output" where
  "sample_vout i = \<lparr>vo_anchor_output_index = i, vo_anchor_internal_key = [2, 1], vo_bip32 = [], vo_tr_bip32 = []\<rparr>"

theorem anchor_template_witness:
  "\<exists>a. prepare_template sample_lib sample_psbt_lib [\<lparr>vk_inputs = [], vk_outputs = [sample_vout 2]\<rparr>] = Some (Inr a) \<and>
     length (an_tx_outs a) = 3"
proof -
  obtain a n where "prepare_template sample_lib sample_psbt_lib [\<lparr>vk_inputs = [], vk_outputs = [sample_vout 2]\<rparr>] = Some (Inr a)"
      and "an_tx_outs a = replicate (Suc n) dummy_tx_out" and "unat (2 :: u32) = n"
    using anchor_template [of "[\<lparr>vk_inputs = [], vk_outputs = [sample_vout 2]\<rparr>]" sample_lib sample_psbt_lib]
    by (auto simp: sample_vout_def)
  then show ?thesis by auto
qed

theorem anchor_template_diverges_witness:
  "prepare_template sample_lib sample_psbt_lib [\<lparr>vk_inputs = [], vk_outputs = [sample_vout 0xffffffff]\<rparr>] = None"
  by (rule anchor_template_diverges) (simp_all add: sample_vout_def)

end
