(* ===== verification/Tap_TxBuilder.thy ===== *)
theory Tap_TxBuilder
  imports Tap_Wallet Tap_Psbt
begin

text \<open>
  The two transaction builders: \<open>tx_builder.go\<close> (transfers to addresses) and
  \<open>interactive_tx_builder.go\<close> (transfers to keys the receiver derived). A method reads and writes
  the builder and calls the daemon, and its writes stay when a later call fails; so it is a function
  from the builder and the calls made so far to its result, the new builder and the calls. The
  mutex makes methods run one at a time, so a sequence of method calls is a sequence of steps.
\<close>

section \<open>Methods of a builder\<close>

text \<open>\<open>None\<close>: the method does not return (the loop of the anchor template may not end).\<close>

type_synonym ('s, 'a) act = "'s \<Rightarrow> call list \<Rightarrow> ('a result \<times> 's \<times> call list) option"

definition ret_act :: "'a \<Rightarrow> ('s, 'a) act" where
  "ret_act x = (\<lambda>b h. Some (Inr x, b, h))"

definition fail_act :: "go_error \<Rightarrow> ('s, 'a) act" where
  "fail_act e = (\<lambda>b h. Some (Inl e, b, h))"

definition bind_act :: "('s, 'a) act \<Rightarrow> ('a \<Rightarrow> ('s, 'b) act) \<Rightarrow> ('s, 'b) act" where
  "bind_act m f = (\<lambda>b h.
     case m b h of
       None \<Rightarrow> None
     | Some (Inl e, b', h') \<Rightarrow> Some (Inl e, b', h')
     | Some (Inr x, b', h') \<Rightarrow> f x b' h')"

definition get_act :: "('s, 's) act" where
  "get_act = (\<lambda>b h. Some (Inr b, b, h))"

definition modify_act :: "('s \<Rightarrow> 's) \<Rightarrow> ('s, unit) act" where
  "modify_act f = (\<lambda>b h. Some (Inr (), f b, h))"

definition io_act :: "'a io \<Rightarrow> ('s, 'a) act" where
  "io_act m = (\<lambda>b h. case m h of (r, h') \<Rightarrow> Some (r, b, h'))"

definition opt_act :: "'a result option \<Rightarrow> ('s, 'a) act" where
  "opt_act r = (\<lambda>b h. case r of None \<Rightarrow> None | Some x \<Rightarrow> Some (x, b, h))"

definition wrap_act :: "'k lib \<Rightarrow> string \<Rightarrow> ('s, 'a) act \<Rightarrow> ('s, 'a) act" where
  "wrap_act L op m = (\<lambda>b h.
     case m b h of None \<Rightarrow> None | Some (r, b', h') \<Rightarrow> Some (wrap_op L op r, b', h'))"

lemma act_apply:
  "ret_act x b h = Some (Inr x, b, h)"
  "fail_act e b h = Some (Inl e, b, h)"
  "get_act b h = Some (Inr b, b, h)"
  "modify_act f b h = Some (Inr (), f b, h)"
  "io_act m b h = Some (fst (m h), b, snd (m h))"
  "opt_act r b h = (case r of None \<Rightarrow> None | Some x \<Rightarrow> Some (x, b, h))"
  by (simp_all add: ret_act_def fail_act_def get_act_def modify_act_def io_act_def opt_act_def
      split: prod.splits)

lemma bind_act_Some:
  "bind_act m f b h = Some (r, b', h') \<longleftrightarrow>
     (\<exists>e. m b h = Some (Inl e, b', h') \<and> r = Inl e) \<or>
     (\<exists>x b1 h1. m b h = Some (Inr x, b1, h1) \<and> f x b1 h1 = Some (r, b', h'))"
  by (auto simp: bind_act_def split: option.splits sum.splits prod.splits)

lemma bind_act_Inr:
  "bind_act m f b h = Some (Inr y, b', h') \<longleftrightarrow>
     (\<exists>x b1 h1. m b h = Some (Inr x, b1, h1) \<and> f x b1 h1 = Some (Inr y, b', h'))"
  by (auto simp: bind_act_Some)

lemma wrap_act_Some:
  "wrap_act L op m b h = Some (r, b', h') \<longleftrightarrow> (\<exists>r'. m b h = Some (r', b', h') \<and> r = wrap_op L op r')"
  by (auto simp: wrap_act_def split: option.splits prod.splits)

lemma wrap_act_Inr [simp]:
  "wrap_act L op m b h = Some (Inr x, b', h') \<longleftrightarrow> m b h = Some (Inr x, b', h')"
  by (auto simp: wrap_act_Some) (metis wrap_op_eq_Inr)

section \<open>The transaction builder\<close>

text \<open>The anchor signer is the caller's callback; it sees the calls made before it.\<close>

type_synonym anchor_signer = "call list \<Rightarrow> bytes \<Rightarrow> bytes result"

record txb_options =
  txo_skip_broadcast :: bool

definition with_skip_broadcast :: "txb_options \<Rightarrow> txb_options" where
  "with_skip_broadcast o1 = o1\<lparr>txo_skip_broadcast := True\<rparr>"

definition apply_tx_builder_options :: "(txb_options \<Rightarrow> txb_options) list \<Rightarrow> txb_options" where
  "apply_tx_builder_options opts = foldl (\<lambda>o1 opt. opt o1) \<lparr>txo_skip_broadcast = False\<rparr> opts"

record tx_builder =
  tb_wallet_kit :: client
  tb_recipients :: "recipient list"
  tb_inputs :: "prev_id list"
  tb_fee_rate :: fee_rate
  tb_funded_psbt :: bytes
  tb_passive_psbts :: "bytes list"
  tb_signed_psbt :: bytes
  tb_anchor_psbt :: bytes
  tb_change_output_index :: int
  tb_locked_utxos :: "outpoint list"
  tb_anchor_signer :: "anchor_signer option"
  tb_finished :: bool

definition new_tx_builder :: "client \<Rightarrow> tx_builder" where
  "new_tx_builder C =
     \<lparr>tb_wallet_kit = C, tb_recipients = [], tb_inputs = [],
      tb_fee_rate = (case new_fee_rate_sat_per_vbyte 1 of Inr f \<Rightarrow> f | Inl _ \<Rightarrow> \<lparr>sat_per_kvbyte = 0\<rparr>),
      tb_funded_psbt = [], tb_passive_psbts = [], tb_signed_psbt = [], tb_anchor_psbt = [],
      tb_change_output_index = -1, tb_locked_utxos = [], tb_anchor_signer = None, tb_finished = False\<rparr>"

definition add_recipient :: "string \<Rightarrow> u64 \<Rightarrow> tx_builder \<Rightarrow> tx_builder" where
  "add_recipient addr amount b = b\<lparr>tb_recipients := tb_recipients b @ [recipient_with_amount addr amount]\<rparr>"

definition add_tap_address :: "string \<Rightarrow> tx_builder \<Rightarrow> tx_builder" where
  "add_tap_address addr b = b\<lparr>tb_recipients := tb_recipients b @ [recipient_with_embedded_amount addr]\<rparr>"

definition set_recipients :: "recipient list \<Rightarrow> tx_builder \<Rightarrow> tx_builder" where
  "set_recipients rs b = b\<lparr>tb_recipients := rs\<rparr>"

definition add_prev_input :: "prev_id \<Rightarrow> tx_builder \<Rightarrow> tx_builder" where
  "add_prev_input input b = b\<lparr>tb_inputs := tb_inputs b @ [input]\<rparr>"

definition set_fee_rate :: "fee_rate \<Rightarrow> tx_builder \<Rightarrow> tx_builder" where
  "set_fee_rate f b = b\<lparr>tb_fee_rate := f\<rparr>"

definition set_funded_psbt :: "bytes \<Rightarrow> tx_builder \<Rightarrow> tx_builder" where
  "set_funded_psbt p b = b\<lparr>tb_funded_psbt := p\<rparr>"

definition set_signed_psbt :: "bytes \<Rightarrow> tx_builder \<Rightarrow> tx_builder" where
  "set_signed_psbt p b = b\<lparr>tb_signed_psbt := p\<rparr>"

definition set_anchor_psbt :: "bytes \<Rightarrow> tx_builder \<Rightarrow> tx_builder" where
  "set_anchor_psbt p b = b\<lparr>tb_anchor_psbt := p\<rparr>"

definition set_passive_psbts :: "bytes list \<Rightarrow> tx_builder \<Rightarrow> tx_builder" where
  "set_passive_psbts ps b = b\<lparr>tb_passive_psbts := ps\<rparr>"

definition set_anchor_signer :: "anchor_signer option \<Rightarrow> tx_builder \<Rightarrow> tx_builder" where
  "set_anchor_signer s b = b\<lparr>tb_anchor_signer := s\<rparr>"

text \<open>\<open>if b.finished\<close> and the stage guards: an unwrapped sentinel, nothing else happens.\<close>

definition require :: "('s \<Rightarrow> bool) \<Rightarrow> sentinel \<Rightarrow> ('s, unit) act" where
  "require ok s = bind_act get_act (\<lambda>b. if ok b then ret_act () else fail_act (Sentinel s))"

definition sign_virtual_psbt :: "client \<Rightarrow> bytes \<Rightarrow> bytes io" where
  "sign_virtual_psbt C p = call_io (SignVirtualPsbt p) (\<lambda>h. c_sign_virtual_psbt C h p)"

text \<open>The body that \<open>Fund\<close> and \<open>Execute\<close> share.\<close>

definition fund_transfer :: "'k lib \<Rightarrow> (tx_builder, funded_transfer) act" where
  "fund_transfer L =
     bind_act (require (\<lambda>b. tb_recipients b \<noteq> []) ErrNoRecipients) (\<lambda>_.
     bind_act get_act (\<lambda>b.
     bind_act (wrap_act L ''Fund'' (io_act (lift_io (normalise_send_recipients L (tb_recipients b) True)))) (\<lambda>rs.
     bind_act (wrap_act L ''Fund'' (io_act (call_io (FundTransfer rs (tb_inputs b))
                 (\<lambda>h. c_fund_transfer (tb_wallet_kit b) h rs (tb_inputs b))))) (\<lambda>resp.
     bind_act (modify_act (\<lambda>b. b\<lparr>tb_funded_psbt := ft_funded_psbt resp,
                                tb_passive_psbts := ft_passive_asset_psbts resp\<rparr>)) (\<lambda>_.
     ret_act resp)))))"

definition fund :: "'k lib \<Rightarrow> (tx_builder, funded_transfer) act" where
  "fund L = bind_act (require (\<lambda>b. \<not> tb_finished b) ErrBuilderFinished) (\<lambda>_. fund_transfer L)"

definition sign_funded :: "'k lib \<Rightarrow> (tx_builder, bytes) act" where
  "sign_funded L =
     bind_act get_act (\<lambda>b.
     bind_act (wrap_act L ''Sign'' (io_act (sign_virtual_psbt (tb_wallet_kit b) (tb_funded_psbt b)))) (\<lambda>p.
     bind_act (modify_act (\<lambda>b. b\<lparr>tb_signed_psbt := p\<rparr>)) (\<lambda>_.
     ret_act p)))"

definition tx_sign :: "'k lib \<Rightarrow> (tx_builder, bytes) act" where
  "tx_sign L =
     bind_act (require (\<lambda>b. \<not> tb_finished b) ErrBuilderFinished) (\<lambda>_.
     bind_act (require (\<lambda>b. tb_funded_psbt b \<noteq> []) ErrNotFunded) (\<lambda>_. sign_funded L))"

definition commit_request :: "tx_builder \<Rightarrow> bytes \<Rightarrow> commit_virtual_psbts_request" where
  "commit_request b anchor =
     \<lparr>cv_anchor_psbt = anchor, cv_virtual_psbts = [tb_signed_psbt b],
      cv_passive_asset_psbts = tb_passive_psbts b,
      cv_funding =
        \<lparr>afp_change_output = \<lparr>aco_mode = AnchorChangeOutputAdd, aco_existing_output_index = 0\<rparr>,
         afp_fee = \<lparr>af_mode = AnchorFeeSatPerVByte, af_fee_rate = tb_fee_rate b, af_target_conf = 0\<rparr>,
         afp_custom_lock_id = [], afp_lock_expiration_seconds = 0, afp_skip_funding = False\<rparr>\<rparr>"

definition commit_virtual_psbts ::
  "'k lib \<Rightarrow> 'k psbt_lib \<Rightarrow> (tx_builder, commit_virtual_psbts_response) act" where
  "commit_virtual_psbts L P =
     bind_act get_act (\<lambda>b.
       let C = tb_wallet_kit b; vps = [tb_signed_psbt b]; passive = tb_passive_psbts b in
       case c_custom_anchor C of
         None \<Rightarrow>
           bind_act (io_act (call_io (CommitVirtualPsbts vps passive (tb_fee_rate b))
                       (\<lambda>h. c_commit_virtual_psbts C h vps passive (tb_fee_rate b)))) (\<lambda>legacy.
           ret_act \<lparr>cr_anchor_psbt = ct_anchor_psbt legacy, cr_virtual_psbts = ct_virtual_psbts legacy,
                    cr_passive_asset_psbts = ct_passive_asset_psbts legacy,
                    cr_change_output_index = -1, cr_locked_utxos = []\<rparr>)
       | Some (commit, _) \<Rightarrow>
           bind_act (opt_act (prepare_psbt L P vps passive)) (\<lambda>anchor.
           io_act (call_io (CommitVirtualPsbtsWithRequest (commit_request b anchor))
                     (\<lambda>h. deref_result (commit h (commit_request b anchor))))))"

definition apply_commit_response :: "commit_virtual_psbts_response \<Rightarrow> tx_builder \<Rightarrow> tx_builder" where
  "apply_commit_response resp b =
     (let b1 = b\<lparr>tb_anchor_psbt := cr_anchor_psbt resp,
                 tb_change_output_index := cr_change_output_index resp,
                 tb_locked_utxos := cr_locked_utxos resp\<rparr>;
          b2 = (case cr_virtual_psbts resp of [] \<Rightarrow> b1 | p # _ \<Rightarrow> b1\<lparr>tb_signed_psbt := p\<rparr>) in
      if cr_passive_asset_psbts resp \<noteq> [] then b2\<lparr>tb_passive_psbts := cr_passive_asset_psbts resp\<rparr> else b2)"

definition committed_transfer_from_response :: "commit_virtual_psbts_response \<Rightarrow> committed_transfer" where
  "committed_transfer_from_response resp =
     \<lparr>ct_anchor_psbt = cr_anchor_psbt resp, ct_virtual_psbts = cr_virtual_psbts resp,
      ct_passive_asset_psbts = cr_passive_asset_psbts resp\<rparr>"

text \<open>
  The commit step that \<open>Commit\<close> and \<open>Execute\<close> share. A nil reply without an error, which it would
  dereference, is an error here.
\<close>

definition commit_signed :: "'k lib \<Rightarrow> 'k psbt_lib \<Rightarrow> (tx_builder, commit_virtual_psbts_response) act" where
  "commit_signed L P =
     bind_act (wrap_act L ''Commit'' (commit_virtual_psbts L P)) (\<lambda>resp.
     bind_act (modify_act (apply_commit_response resp)) (\<lambda>_. ret_act resp))"

definition tx_commit :: "'k lib \<Rightarrow> 'k psbt_lib \<Rightarrow> (tx_builder, committed_transfer) act" where
  "tx_commit L P =
     bind_act (require (\<lambda>b. \<not> tb_finished b) ErrBuilderFinished) (\<lambda>_.
     bind_act (require (\<lambda>b. tb_signed_psbt b \<noteq> []) ErrNotSigned) (\<lambda>_.
     bind_act (commit_signed L P) (\<lambda>resp. ret_act (committed_transfer_from_response resp))))"

definition sign_anchor :: "(tx_builder, unit) act" where
  "sign_anchor =
     bind_act get_act (\<lambda>b.
       case tb_anchor_signer b of
         None \<Rightarrow> ret_act ()
       | Some signer \<Rightarrow>
           bind_act (io_act (call_io (SignAnchor (tb_anchor_psbt b)) (\<lambda>h. signer h (tb_anchor_psbt b)))) (\<lambda>p.
           modify_act (\<lambda>b. b\<lparr>tb_anchor_psbt := p\<rparr>)))"

definition publish_request :: "tx_builder \<Rightarrow> bool \<Rightarrow> publish_and_log_transfer_request" where
  "publish_request b skip =
     \<lparr>pl_anchor_psbt = tb_anchor_psbt b, pl_virtual_psbts = [tb_signed_psbt b],
      pl_passive_asset_psbts = tb_passive_psbts b, pl_change_output_index = tb_change_output_index b,
      pl_locked_utxos = tb_locked_utxos b, pl_skip_anchor_tx_broadcast = skip, pl_label = []\<rparr>"

definition publish_call :: "tx_builder \<Rightarrow> bool \<Rightarrow> call" where
  "publish_call b skip =
     (case c_custom_anchor (tb_wallet_kit b) of
        Some _ \<Rightarrow> PublishAndLogTransferWithRequest (publish_request b skip)
      | None \<Rightarrow> PublishAndLogTransfer (tb_anchor_psbt b) [tb_signed_psbt b] (tb_passive_psbts b) skip)"

text \<open>The packet is an option: a nil reply without an error is handed on as it is.\<close>

definition publish_and_log :: "bool \<Rightarrow> (tx_builder, asset_packet option) act" where
  "publish_and_log skip =
     bind_act get_act (\<lambda>b.
       case c_custom_anchor (tb_wallet_kit b) of
         Some (_, publish) \<Rightarrow>
           io_act (call_io (PublishAndLogTransferWithRequest (publish_request b skip))
                     (\<lambda>h. publish h (publish_request b skip)))
       | None \<Rightarrow>
           io_act (call_io (PublishAndLogTransfer (tb_anchor_psbt b) [tb_signed_psbt b] (tb_passive_psbts b) skip)
                     (\<lambda>h. c_publish_and_log (tb_wallet_kit b) h (tb_anchor_psbt b) [tb_signed_psbt b]
                            (tb_passive_psbts b) skip)))"

text \<open>The tail that \<open>Finish\<close> and \<open>Execute\<close> share.\<close>

definition publish_signed :: "'k lib \<Rightarrow> (txb_options \<Rightarrow> txb_options) list \<Rightarrow> (tx_builder, asset_packet option) act" where
  "publish_signed L opts =
     bind_act (wrap_act L ''Finish'' sign_anchor) (\<lambda>_.
     bind_act (wrap_act L ''Finish'' (publish_and_log (txo_skip_broadcast (apply_tx_builder_options opts)))) (\<lambda>resp.
     bind_act (modify_act (\<lambda>b. b\<lparr>tb_finished := True\<rparr>)) (\<lambda>_. ret_act resp)))"

definition finish :: "'k lib \<Rightarrow> (txb_options \<Rightarrow> txb_options) list \<Rightarrow> (tx_builder, asset_packet option) act" where
  "finish L opts =
     bind_act (require (\<lambda>b. \<not> tb_finished b) ErrBuilderFinished) (\<lambda>_.
     bind_act (require (\<lambda>b. tb_anchor_psbt b \<noteq> []) ErrNotCommitted) (\<lambda>_. publish_signed L opts))"

definition execute ::
  "'k lib \<Rightarrow> 'k psbt_lib \<Rightarrow> (txb_options \<Rightarrow> txb_options) list \<Rightarrow> (tx_builder, asset_packet option) act" where
  "execute L P opts =
     bind_act (require (\<lambda>b. \<not> tb_finished b) ErrBuilderFinished) (\<lambda>_.
     bind_act get_act (\<lambda>b.
     bind_act (if tb_funded_psbt b = [] then bind_act (fund_transfer L) (\<lambda>_. ret_act ()) else ret_act ()) (\<lambda>_.
     bind_act (sign_funded L) (\<lambda>_.
     bind_act (commit_signed L P) (\<lambda>_.
     publish_signed L opts)))))"

section \<open>Execute is the four stages in a row\<close>

text \<open>The stages, from \<open>Sign\<close> on and from \<open>Fund\<close> on.\<close>

definition staged_from_sign ::
  "'k lib \<Rightarrow> 'k psbt_lib \<Rightarrow> (txb_options \<Rightarrow> txb_options) list \<Rightarrow> (tx_builder, asset_packet option) act" where
  "staged_from_sign L P opts =
     bind_act (tx_sign L) (\<lambda>_. bind_act (tx_commit L P) (\<lambda>_. finish L opts))"

definition staged ::
  "'k lib \<Rightarrow> 'k psbt_lib \<Rightarrow> (txb_options \<Rightarrow> txb_options) list \<Rightarrow> (tx_builder, asset_packet option) act" where
  "staged L P opts =
     bind_act (fund L) (\<lambda>_. staged_from_sign L P opts)"

text \<open>Successful replies of the daemon carry a PSBT.\<close>

definition replies_nonempty :: "client \<Rightarrow> bool" where
  "replies_nonempty C \<longleftrightarrow>
     (\<forall>h rs ins r. c_fund_transfer C h rs ins = Inr r \<longrightarrow> ft_funded_psbt r \<noteq> []) \<and>
     (\<forall>h p r. c_sign_virtual_psbt C h p = Inr r \<longrightarrow> r \<noteq> []) \<and>
     (\<forall>h vps ps f r. c_commit_virtual_psbts C h vps ps f = Inr r \<longrightarrow> ct_anchor_psbt r \<noteq> []) \<and>
     (\<forall>commit publish h req r. c_custom_anchor C = Some (commit, publish) \<longrightarrow>
        deref_result (commit h req) = Inr r \<longrightarrow> cr_anchor_psbt r \<noteq> [])"

lemma replies_nonemptyD:
  "replies_nonempty C \<Longrightarrow> c_fund_transfer C h rs ins = Inr resp \<Longrightarrow> ft_funded_psbt resp \<noteq> []"
  "replies_nonempty C \<Longrightarrow> c_sign_virtual_psbt C h p = Inr q \<Longrightarrow> q \<noteq> []"
  unfolding replies_nonempty_def by blast+

lemma bind_act_assoc: "bind_act (bind_act m f) g = bind_act m (\<lambda>x. bind_act (f x) g)"
  by (auto simp: bind_act_def fun_eq_iff split: option.splits sum.splits prod.splits)

lemma bind_get_act [simp]: "bind_act get_act f b h = f b b h"
  by (simp add: bind_act_def get_act_def)

lemma bind_ret_act [simp]: "bind_act (ret_act x) f = f x"
  by (simp add: bind_act_def ret_act_def fun_eq_iff)

text \<open>A guard that holds whenever the operation before it succeeds can be dropped.\<close>

lemma bind_require:
  assumes "\<And>x b' h'. m b h = Some (Inr x, b', h') \<Longrightarrow> ok b'"
  shows "bind_act m (\<lambda>x. bind_act (require ok s) (\<lambda>_. f x)) b h = bind_act m f b h"
  using assms
  by (auto simp: bind_act_def require_def act_apply split: option.splits sum.splits prod.splits)

lemma bind_cong_act:
  assumes "\<And>x b' h'. m b h = Some (Inr x, b', h') \<Longrightarrow> f x b' h' = g x b' h'"
  shows "bind_act m f b h = bind_act m g b h"
  using assms by (auto simp: bind_act_def split: option.splits sum.splits prod.splits)

lemma fund_transfer_Inr:
  assumes "fund_transfer L b h = Some (Inr resp, b', h')"
  shows "\<exists>rs. normalise_send_recipients L (tb_recipients b) True = Inr rs \<and>
     c_fund_transfer (tb_wallet_kit b) h rs (tb_inputs b) = Inr resp \<and> h' = h @ [FundTransfer rs (tb_inputs b)] \<and>
     b' = b\<lparr>tb_funded_psbt := ft_funded_psbt resp, tb_passive_psbts := ft_passive_asset_psbts resp\<rparr>"
  using assms
  by (auto simp: fund_transfer_def bind_act_Inr act_apply require_def split: if_splits)

lemma sign_funded_Inr:
  assumes "sign_funded L b h = Some (Inr p, b', h')"
  shows "c_sign_virtual_psbt (tb_wallet_kit b) h (tb_funded_psbt b) = Inr p \<and>
     h' = h @ [SignVirtualPsbt (tb_funded_psbt b)] \<and> b' = b\<lparr>tb_signed_psbt := p\<rparr>"
  using assms by (auto simp: sign_funded_def bind_act_Inr act_apply sign_virtual_psbt_def)

definition is_commit :: "call \<Rightarrow> bool" where
  "is_commit c = (case c of CommitVirtualPsbts _ _ _ \<Rightarrow> True | CommitVirtualPsbtsWithRequest _ \<Rightarrow> True | _ \<Rightarrow> False)"

definition commit_sends :: "tx_builder \<Rightarrow> call \<Rightarrow> bool" where
  "commit_sends b c =
     (case c of
        CommitVirtualPsbts vps ps f \<Rightarrow>
          vps = [tb_signed_psbt b] \<and> ps = tb_passive_psbts b \<and> f = tb_fee_rate b
      | CommitVirtualPsbtsWithRequest req \<Rightarrow> req = commit_request b (cv_anchor_psbt req)
      | _ \<Rightarrow> False)"

lemma commit_signed_Inr:
  assumes "commit_signed L P b h = Some (Inr resp, b', h')"
  shows "\<exists>c. h' = h @ [c] \<and> commit_sends b c \<and> b' = apply_commit_response resp b"
    and "replies_nonempty (tb_wallet_kit b) \<Longrightarrow> cr_anchor_psbt resp \<noteq> []"
proof -
  from assms have run: "commit_virtual_psbts L P b h = Some (Inr resp, b, h')"
      and b': "b' = apply_commit_response resp b"
    by (auto simp: commit_signed_def commit_virtual_psbts_def bind_act_Inr act_apply Let_def
        split: option.splits prod.splits)
  show "\<exists>c. h' = h @ [c] \<and> commit_sends b c \<and> b' = apply_commit_response resp b"
    using run b' by (auto simp: commit_virtual_psbts_def bind_act_Inr act_apply Let_def commit_sends_def
        commit_request_def split: option.splits prod.splits)
  show "replies_nonempty (tb_wallet_kit b) \<Longrightarrow> cr_anchor_psbt resp \<noteq> []"
    using run by (auto simp: commit_virtual_psbts_def bind_act_Inr act_apply Let_def replies_nonempty_def
        split: option.splits prod.splits)
qed

lemma apply_commit_response_sel [simp]:
  "tb_anchor_psbt (apply_commit_response resp b) = cr_anchor_psbt resp"
  "tb_finished (apply_commit_response resp b) = tb_finished b"
  "tb_wallet_kit (apply_commit_response resp b) = tb_wallet_kit b"
  "tb_change_output_index (apply_commit_response resp b) = cr_change_output_index resp"
  "tb_locked_utxos (apply_commit_response resp b) = cr_locked_utxos resp"
  "tb_funded_psbt (apply_commit_response resp b) = tb_funded_psbt b"
  "tb_anchor_signer (apply_commit_response resp b) = tb_anchor_signer b"
  by (simp_all add: apply_commit_response_def Let_def split: list.split)

lemma apply_commit_response_psbts:
  "tb_signed_psbt (apply_commit_response resp b) =
     (case cr_virtual_psbts resp of [] \<Rightarrow> tb_signed_psbt b | p # _ \<Rightarrow> p)"
  "tb_passive_psbts (apply_commit_response resp b) =
     (if cr_passive_asset_psbts resp = [] then tb_passive_psbts b else cr_passive_asset_psbts resp)"
  by (simp_all add: apply_commit_response_def Let_def split: list.split)

lemma commit_sends_cong:
  assumes "tb_signed_psbt b = tb_signed_psbt b'" and "tb_passive_psbts b = tb_passive_psbts b'"
    and "tb_fee_rate b = tb_fee_rate b'"
  shows "commit_sends b c = commit_sends b' c"
  using assms by (cases c) (simp_all add: commit_sends_def commit_request_def)

lemma require_apply:
  "bind_act (require ok s) f b h = (if ok b then f () b h else Some (Inl (Sentinel s), b, h))"
  by (simp add: bind_act_def require_def act_apply)

text \<open>
  C2. \<open>Execute\<close> does what the stage methods do one after the other, \<open>Fund\<close>, \<open>Sign\<close>, \<open>Commit\<close> and
  \<open>Finish\<close> on a builder with nothing funded, \<open>Sign\<close>, \<open>Commit\<close> and \<open>Finish\<close> on a funded one: the same
  result or error, the same calls to the daemon and the same builder afterwards, provided that the
  daemon's successful replies are not empty.
\<close>

theorem execute_is_staged:
  assumes "replies_nonempty (tb_wallet_kit b)"
  shows "execute L P opts b h =
    (if tb_funded_psbt b = [] then staged L P opts b h else staged_from_sign L P opts b h)"
proof (cases "tb_finished b")
  case True
  then show ?thesis by (simp add: execute_def staged_def staged_from_sign_def fund_def tx_sign_def bind_act_assoc require_apply)
next
  case False
  have commit: "bind_act (commit_signed L P) (\<lambda>_. publish_signed L opts) b2 h2 =
      bind_act (tx_commit L P) (\<lambda>_. finish L opts) b2 h2"
    if "\<not> tb_finished b2" and "tb_signed_psbt b2 \<noteq> []" and "replies_nonempty (tb_wallet_kit b2)" for b2 h2
    unfolding tx_commit_def bind_act_assoc require_apply bind_ret_act
    using that commit_signed_Inr(1) [of L P b2 h2] commit_signed_Inr(2) [of L P b2 h2]
    by (simp, intro bind_cong_act) (fastforce simp: finish_def require_apply)
  have sign: "bind_act (sign_funded L) (\<lambda>_. bind_act (commit_signed L P) (\<lambda>_. publish_signed L opts)) b1 h1 =
      bind_act (tx_sign L) (\<lambda>_. bind_act (tx_commit L P) (\<lambda>_. finish L opts)) b1 h1"
    if b1: "\<not> tb_finished b1" "tb_funded_psbt b1 \<noteq> []" "replies_nonempty (tb_wallet_kit b1)" for b1 h1
    unfolding tx_sign_def bind_act_assoc require_apply
    using b1 by (simp, intro bind_cong_act commit)
      (auto dest!: sign_funded_Inr dest: replies_nonemptyD)
  show ?thesis
  proof (cases "tb_funded_psbt b = []")
    case True
    then have "execute L P opts b h = bind_act (fund_transfer L) (\<lambda>_. bind_act (sign_funded L) (\<lambda>_.
        bind_act (commit_signed L P) (\<lambda>_. publish_signed L opts))) b h"
      using False by (simp add: execute_def require_apply bind_act_assoc)
    also have "\<dots> = staged L P opts b h"
      unfolding staged_def staged_from_sign_def fund_def bind_act_assoc require_apply
      using False assms
      by (simp, intro bind_cong_act sign) (auto dest!: fund_transfer_Inr dest: replies_nonemptyD)
    finally show ?thesis using True by simp
  next
    case funded: False
    with False have "execute L P opts b h = bind_act (sign_funded L) (\<lambda>_.
        bind_act (commit_signed L P) (\<lambda>_. publish_signed L opts)) b h"
      by (simp add: execute_def require_apply)
    also have "\<dots> = staged_from_sign L P opts b h"
      unfolding staged_from_sign_def using sign [of b h] False funded assms by simp
    finally show ?thesis using funded by simp
  qed
qed

definition working_client :: client where
  "working_client = offline_client
     \<lparr>c_fund_transfer := (\<lambda>_ _ _. Inr \<lparr>ft_funded_psbt = [1], ft_passive_asset_psbts = []\<rparr>),
      c_sign_virtual_psbt := (\<lambda>_ _. Inr [2]),
      c_commit_virtual_psbts := (\<lambda>_ vps ps _. Inr \<lparr>ct_anchor_psbt = [3], ct_virtual_psbts = vps,
         ct_passive_asset_psbts = ps\<rparr>),
      c_publish_and_log := (\<lambda>_ a vps ps _. Inr (Some \<lparr>ap_anchor_transaction = a, ap_virtual_transactions = vps,
         ap_passive_asset_transactions = ps\<rparr>))\<rparr>"

theorem execute_is_staged_witness:
  "execute sample_lib sample_psbt_lib [] (new_tx_builder working_client) [] =
     staged sample_lib sample_psbt_lib [] (new_tx_builder working_client) [] \<and>
   execute sample_lib sample_psbt_lib [] (set_funded_psbt [9] (new_tx_builder working_client)) [] =
     staged_from_sign sample_lib sample_psbt_lib [] (set_funded_psbt [9] (new_tx_builder working_client)) []"
proof -
  have "replies_nonempty working_client"
    by (simp add: replies_nonempty_def working_client_def offline_client_def)
  then show ?thesis
    using execute_is_staged [of "new_tx_builder working_client" sample_lib sample_psbt_lib "[]" "[]"]
      execute_is_staged [of "set_funded_psbt [9] (new_tx_builder working_client)" sample_lib sample_psbt_lib "[]" "[]"]
    by (simp add: new_tx_builder_def set_funded_psbt_def)
qed

section \<open>What an execution sends\<close>

lemma publish_signed_Inr:
  assumes "publish_signed L opts b h = Some (Inr pkt, b', h')"
  shows "\<exists>scalls. h' = h @ scalls @ [publish_call b' (txo_skip_broadcast (apply_tx_builder_options opts))] \<and>
     (case tb_anchor_signer b of
        None \<Rightarrow> scalls = [] \<and> tb_anchor_psbt b' = tb_anchor_psbt b
      | Some signer \<Rightarrow> scalls = [SignAnchor (tb_anchor_psbt b)] \<and>
          signer h (tb_anchor_psbt b) = Inr (tb_anchor_psbt b')) \<and>
     b' = b\<lparr>tb_anchor_psbt := tb_anchor_psbt b', tb_finished := True\<rparr>"
proof (cases "tb_anchor_signer b")
  case None
  with assms show ?thesis
    by (auto simp: publish_signed_def sign_anchor_def publish_and_log_def publish_call_def publish_request_def
        bind_act_Inr act_apply split: option.splits)
next
  case (Some signer)
  with assms show ?thesis
    by (auto simp: publish_signed_def sign_anchor_def publish_and_log_def publish_call_def publish_request_def
        bind_act_Inr act_apply split: option.splits)
qed

text \<open>
  A successful execution is a pipeline: it funds the normalised recipients unless a packet is
  funded already, has exactly the funded packet signed, commits exactly the signed packet, passes
  the committed anchor to the anchor signer if there is one, and publishes what the commit step
  and the signer returned. Nothing else is sent, and the builder is finished.
\<close>

theorem execute_pipeline:
  assumes "execute L P opts b h = Some (Inr pkt, b', h')"
  shows "\<exists>fcalls funded passive signed commit (resp :: commit_virtual_psbts_response) scalls.
     h' = h @ fcalls @ [SignVirtualPsbt funded, commit] @ scalls @
            [publish_call b' (txo_skip_broadcast (apply_tx_builder_options opts))] \<and>
     (if tb_funded_psbt b = []
      then \<exists>rs f. normalise_send_recipients L (tb_recipients b) True = Inr rs \<and>
             fcalls = [FundTransfer rs (tb_inputs b)] \<and>
             c_fund_transfer (tb_wallet_kit b) h rs (tb_inputs b) = Inr f \<and>
             funded = ft_funded_psbt f \<and> passive = ft_passive_asset_psbts f
      else fcalls = [] \<and> funded = tb_funded_psbt b \<and> passive = tb_passive_psbts b) \<and>
     c_sign_virtual_psbt (tb_wallet_kit b) (h @ fcalls) funded = Inr signed \<and>
     commit_sends (b\<lparr>tb_passive_psbts := passive, tb_signed_psbt := signed\<rparr>) commit \<and>
     (case tb_anchor_signer b of
        None \<Rightarrow> scalls = [] \<and> tb_anchor_psbt b' = cr_anchor_psbt resp
      | Some signer \<Rightarrow> scalls = [SignAnchor (cr_anchor_psbt resp)] \<and>
          signer (h @ fcalls @ [SignVirtualPsbt funded, commit]) (cr_anchor_psbt resp) = Inr (tb_anchor_psbt b')) \<and>
     tb_signed_psbt b' = (case cr_virtual_psbts resp of [] \<Rightarrow> signed | p # _ \<Rightarrow> p) \<and>
     tb_passive_psbts b' = (if cr_passive_asset_psbts resp = [] then passive else cr_passive_asset_psbts resp) \<and>
     tb_change_output_index b' = cr_change_output_index resp \<and> tb_locked_utxos b' = cr_locked_utxos resp \<and>
     tb_finished b'"
proof -
  from assms obtain b1 h1 where
      start: "(if tb_funded_psbt b = [] then bind_act (fund_transfer L) (\<lambda>_. ret_act ()) else ret_act ()) b h =
        Some (Inr (), b1, h1)"
      and rest: "bind_act (sign_funded L) (\<lambda>_. bind_act (commit_signed L P) (\<lambda>_. publish_signed L opts)) b1 h1 =
        Some (Inr pkt, b', h')"
    by (auto simp: execute_def require_apply bind_act_Inr act_apply split: if_splits)
  from rest obtain signed b2 h2 resp b3 h3 where
      sign: "sign_funded L b1 h1 = Some (Inr signed, b2, h2)"
      and commit: "commit_signed L P b2 h2 = Some (Inr resp, b3, h3)"
      and publish: "publish_signed L opts b3 h3 = Some (Inr pkt, b', h')"
    by (auto simp: bind_act_Inr)
  note s = sign_funded_Inr [OF sign]
  from commit_signed_Inr(1) [OF commit] obtain c where
      c: "h3 = h2 @ [c]" "commit_sends b2 c" "b3 = apply_commit_response resp b2" by blast
  from publish_signed_Inr [OF publish] obtain scalls where
      p: "h' = h3 @ scalls @ [publish_call b' (txo_skip_broadcast (apply_tx_builder_options opts))]"
         "case tb_anchor_signer b3 of
            None \<Rightarrow> scalls = [] \<and> tb_anchor_psbt b' = tb_anchor_psbt b3
          | Some signer \<Rightarrow> scalls = [SignAnchor (tb_anchor_psbt b3)] \<and>
              signer h3 (tb_anchor_psbt b3) = Inr (tb_anchor_psbt b')"
         "b' = b3\<lparr>tb_anchor_psbt := tb_anchor_psbt b', tb_finished := True\<rparr>" by blast
  have b2: "b2 = b1\<lparr>tb_signed_psbt := signed\<rparr>" using s by simp
  have fields: "tb_signed_psbt b' = (case cr_virtual_psbts resp of [] \<Rightarrow> signed | p # _ \<Rightarrow> p)"
      "tb_passive_psbts b' = (if cr_passive_asset_psbts resp = [] then tb_passive_psbts b1 else cr_passive_asset_psbts resp)"
      "tb_change_output_index b' = cr_change_output_index resp" "tb_locked_utxos b' = cr_locked_utxos resp"
      "tb_finished b'"
    by (subst p(3), simp add: c(3) b2 apply_commit_response_psbts split: list.split)+
  have signer: "case tb_anchor_signer b1 of
        None \<Rightarrow> scalls = [] \<and> tb_anchor_psbt b' = cr_anchor_psbt resp
      | Some signer \<Rightarrow> scalls = [SignAnchor (cr_anchor_psbt resp)] \<and>
          signer (h1 @ [SignVirtualPsbt (tb_funded_psbt b1), c]) (cr_anchor_psbt resp) = Inr (tb_anchor_psbt b')"
    using p(2) s c(1) by (cases "tb_anchor_signer b1") (simp_all add: c(3) b2)
  have sends: "commit_sends (b\<lparr>tb_passive_psbts := tb_passive_psbts b1, tb_signed_psbt := signed\<rparr>) c"
    if "tb_fee_rate b1 = tb_fee_rate b"
    using c(2) by (subst commit_sends_cong [of _ b2]) (simp_all add: b2 that)
  have calls: "h' = h1 @ [SignVirtualPsbt (tb_funded_psbt b1), c] @ scalls @
      [publish_call b' (txo_skip_broadcast (apply_tx_builder_options opts))]"
    using s c(1) p(1) by simp
  show ?thesis
  proof (cases "tb_funded_psbt b = []")
    case True
    with start obtain f where f: "fund_transfer L b h = Some (Inr f, b1, h1)"
      by (auto simp: bind_act_Inr act_apply)
    from fund_transfer_Inr [OF f] obtain rs where
        rs: "normalise_send_recipients L (tb_recipients b) True = Inr rs"
            "c_fund_transfer (tb_wallet_kit b) h rs (tb_inputs b) = Inr f"
            "h1 = h @ [FundTransfer rs (tb_inputs b)]"
            "b1 = b\<lparr>tb_funded_psbt := ft_funded_psbt f, tb_passive_psbts := ft_passive_asset_psbts f\<rparr>" by blast
    show ?thesis
      by (rule exI [of _ "[FundTransfer rs (tb_inputs b)]"], rule exI [of _ "ft_funded_psbt f"], rule exI [of _ "ft_passive_asset_psbts f"],
          rule exI [of _ signed], rule exI [of _ c], rule exI [of _ resp], rule exI [of _ scalls], intro conjI)
        (insert True s sends fields signer calls rs, simp_all split: option.splits)
  next
    case False
    with start have same: "b1 = b" "h1 = h" by (simp_all add: act_apply)
    show ?thesis
      by (rule exI [of _ "[]"], rule exI [of _ "tb_funded_psbt b"], rule exI [of _ "tb_passive_psbts b"],
          rule exI [of _ signed], rule exI [of _ c], rule exI [of _ resp], rule exI [of _ scalls], intro conjI)
        (insert False same s sends fields signer calls, simp_all split: option.splits)
  qed
qed

text \<open>A client with the advanced interface, and the concrete packets of the example.\<close>

theorem execute_pipeline_witness:
  "\<exists>b'. execute sample_lib sample_psbt_lib [with_skip_broadcast] (set_funded_psbt [9] (new_tx_builder working_client)) [] =
       Some (Inr (Some \<lparr>ap_anchor_transaction = [3], ap_virtual_transactions = [[2]],
                  ap_passive_asset_transactions = []\<rparr>), b',
             [SignVirtualPsbt [9], CommitVirtualPsbts [[2]] [] \<lparr>sat_per_kvbyte = 1000\<rparr>,
              PublishAndLogTransfer [3] [[2]] [] True]) \<and> tb_finished b' \<and> tb_signed_psbt b' = [2]"
proof -
  define b where "b = set_funded_psbt [9] (new_tx_builder working_client)"
  have fee: "tb_fee_rate b = \<lparr>sat_per_kvbyte = 1000\<rparr>"
    by (simp add: b_def set_funded_psbt_def new_tx_builder_def new_fee_rate_sat_per_vbyte_def
        vbytes_per_kvbyte_def max_uint64_def new_fee_rate_sat_per_kvbyte_def)
  have sel: "tb_finished b = False" "tb_funded_psbt b = [9]" "tb_wallet_kit b = working_client"
      "tb_anchor_signer b = None" "tb_passive_psbts b = []"
    by (simp_all add: b_def set_funded_psbt_def new_tx_builder_def)
  have client: "c_sign_virtual_psbt working_client = (\<lambda>_ _. Inr [2])" "c_custom_anchor working_client = None"
      "c_commit_virtual_psbts working_client = (\<lambda>_ vps ps _. Inr \<lparr>ct_anchor_psbt = [3], ct_virtual_psbts = vps,
         ct_passive_asset_psbts = ps\<rparr>)"
      "c_publish_and_log working_client = (\<lambda>_ a vps ps _. Inr (Some \<lparr>ap_anchor_transaction = a,
         ap_virtual_transactions = vps, ap_passive_asset_transactions = ps\<rparr>))"
    by (simp_all add: working_client_def offline_client_def)
  have "\<exists>b'. execute sample_lib sample_psbt_lib [with_skip_broadcast] b [] =
       Some (Inr (Some \<lparr>ap_anchor_transaction = [3], ap_virtual_transactions = [[2]],
                  ap_passive_asset_transactions = []\<rparr>), b',
             [SignVirtualPsbt [9], CommitVirtualPsbts [[2]] [] \<lparr>sat_per_kvbyte = 1000\<rparr>,
              PublishAndLogTransfer [3] [[2]] [] True])"
    by (simp add: execute_def require_def sel client fee sign_funded_def commit_signed_def publish_signed_def
        commit_virtual_psbts_def sign_anchor_def publish_and_log_def sign_virtual_psbt_def bind_act_def act_apply
        wrap_act_def apply_commit_response_def Let_def apply_tx_builder_options_def with_skip_broadcast_def)
  then obtain b' where run: "execute sample_lib sample_psbt_lib [with_skip_broadcast] b [] =
       Some (Inr (Some \<lparr>ap_anchor_transaction = [3], ap_virtual_transactions = [[2]],
                  ap_passive_asset_transactions = []\<rparr>), b',
             [SignVirtualPsbt [9], CommitVirtualPsbts [[2]] [] \<lparr>sat_per_kvbyte = 1000\<rparr>,
              PublishAndLogTransfer [3] [[2]] [] True])" by blast
  from execute_pipeline [OF run] have "tb_finished b'" by blast
  moreover from execute_pipeline [OF run] have "publish_call b' True = PublishAndLogTransfer [3] [[2]] [] True"
    by (auto simp: apply_tx_builder_options_def with_skip_broadcast_def split: option.splits)
  then have "tb_signed_psbt b' = [2]" by (auto simp: publish_call_def split: option.splits)
  ultimately show ?thesis using run unfolding b_def by blast
qed

section \<open>Sequences of method calls\<close>

datatype tx_op =
    AddRecipient string u64
  | AddTapAddress string
  | SetRecipients "recipient list"
  | AddInput prev_id
  | SetFeeRate fee_rate
  | SetAnchorSigner "anchor_signer option"
  | SetFundedPsbt bytes
  | SetSignedPsbt bytes
  | SetAnchorPsbt bytes
  | SetPassivePsbts "bytes list"
  | Fund
  | Sign
  | Commit
  | Finish "(txb_options \<Rightarrow> txb_options) list"
  | Execute "(txb_options \<Rightarrow> txb_options) list"

definition void :: "('s, 'a) act \<Rightarrow> ('s, unit) act" where
  "void m = bind_act m (\<lambda>_. ret_act ())"

primrec run_op :: "'k lib \<Rightarrow> 'k psbt_lib \<Rightarrow> tx_op \<Rightarrow> (tx_builder, unit) act" where
  "run_op L P (AddRecipient addr amount) = modify_act (add_recipient addr amount)"
| "run_op L P (AddTapAddress addr) = modify_act (add_tap_address addr)"
| "run_op L P (SetRecipients rs) = modify_act (set_recipients rs)"
| "run_op L P (AddInput input) = modify_act (add_prev_input input)"
| "run_op L P (SetFeeRate f) = modify_act (set_fee_rate f)"
| "run_op L P (SetAnchorSigner s) = modify_act (set_anchor_signer s)"
| "run_op L P (SetFundedPsbt p) = modify_act (set_funded_psbt p)"
| "run_op L P (SetSignedPsbt p) = modify_act (set_signed_psbt p)"
| "run_op L P (SetAnchorPsbt p) = modify_act (set_anchor_psbt p)"
| "run_op L P (SetPassivePsbts ps) = modify_act (set_passive_psbts ps)"
| "run_op L P Fund = void (fund L)"
| "run_op L P Sign = void (tx_sign L)"
| "run_op L P Commit = void (tx_commit L P)"
| "run_op L P (Finish opts) = void (finish L opts)"
| "run_op L P (Execute opts) = void (execute L P opts)"

text \<open>The setters that put an externally made packet into the builder.\<close>

definition injects :: "tx_op \<Rightarrow> bool" where
  "injects op =
     (case op of SetFundedPsbt _ \<Rightarrow> True | SetSignedPsbt _ \<Rightarrow> True | SetAnchorPsbt _ \<Rightarrow> True | _ \<Rightarrow> False)"

inductive tx_step ::
  "'k lib \<Rightarrow> 'k psbt_lib \<Rightarrow> (tx_op \<Rightarrow> bool) \<Rightarrow> tx_builder \<times> call list \<Rightarrow> tx_builder \<times> call list \<Rightarrow> bool"
  for L P allowed where
  call_made: "allowed op \<Longrightarrow> run_op L P op b h = Some (r, b', h') \<Longrightarrow> tx_step L P allowed (b, h) (b', h')"

inductive_cases tx_stepE: "tx_step L P allowed (b, h) (b', h')"

text \<open>A triple holds of a method when its result and effects meet the postcondition.\<close>

definition triple ::
  "('s \<Rightarrow> call list \<Rightarrow> bool) \<Rightarrow> ('s, 'a) act \<Rightarrow> ('s \<Rightarrow> call list \<Rightarrow> bool) \<Rightarrow> ('s \<Rightarrow> call list \<Rightarrow> bool) \<Rightarrow> bool" where
  "triple A m B E \<longleftrightarrow>
     (\<forall>b h r b' h'. A b h \<longrightarrow> m b h = Some (r, b', h') \<longrightarrow> (case r of Inl _ \<Rightarrow> E b' h' | Inr _ \<Rightarrow> B b' h'))"

lemma triple_ret: "triple A (ret_act x) A E"
  by (simp add: triple_def act_apply)

lemma triple_bind: "triple A m B E \<Longrightarrow> (\<And>x. triple B (f x) D E) \<Longrightarrow> triple A (bind_act m f) D E"
  by (fastforce simp: triple_def bind_act_Some split: sum.splits)

lemma triple_get: "(\<And>s. triple (\<lambda>b h. A b h \<and> b = s) (f s) B E) \<Longrightarrow> triple A (bind_act get_act f) B E"
  by (fastforce simp: triple_def act_apply)

lemma triple_require:
  "triple (\<lambda>b h. A b h \<and> ok b) (f ()) B E \<Longrightarrow> (\<And>b h. A b h \<Longrightarrow> E b h) \<Longrightarrow>
     triple A (bind_act (require ok s) f) B E"
  by (auto simp: triple_def require_apply)

lemma triple_wrap:
  assumes "triple A m B E"
  shows "triple A (wrap_act L op m) B E"
  unfolding triple_def
proof (intro allI impI)
  fix b h r b' h'
  assume A: "A b h" and "wrap_act L op m b h = Some (r, b', h')"
  then obtain r' where "m b h = Some (r', b', h')" and r: "r = wrap_op L op r'"
    by (auto simp: wrap_act_Some)
  with assms A have "case r' of Inl _ \<Rightarrow> E b' h' | Inr _ \<Rightarrow> B b' h'" unfolding triple_def by blast
  with r show "case r of Inl _ \<Rightarrow> E b' h' | Inr _ \<Rightarrow> B b' h'" by (cases r') simp_all
qed

lemma triple_conseq:
  "triple A' m B' E' \<Longrightarrow> (\<And>b h. A b h \<Longrightarrow> A' b h) \<Longrightarrow> (\<And>b h. B' b h \<Longrightarrow> B b h) \<Longrightarrow>
     (\<And>b h. E' b h \<Longrightarrow> E b h) \<Longrightarrow> triple A m B E"
  by (fastforce simp: triple_def split: sum.splits)

lemma triple_void: "triple A m B E \<Longrightarrow> triple A (void m) B E"
  unfolding void_def by (rule triple_bind, assumption) (rule triple_ret)

section \<open>The order of the stages\<close>

definition is_fund :: "call \<Rightarrow> bool" where
  "is_fund c = (case c of FundTransfer _ _ \<Rightarrow> True | _ \<Rightarrow> False)"

definition is_sign :: "call \<Rightarrow> bool" where
  "is_sign c = (case c of SignVirtualPsbt _ \<Rightarrow> True | _ \<Rightarrow> False)"

definition is_publish :: "call \<Rightarrow> bool" where
  "is_publish c =
     (case c of PublishAndLogTransfer _ _ _ _ \<Rightarrow> True | PublishAndLogTransferWithRequest _ \<Rightarrow> True | _ \<Rightarrow> False)"

text \<open>What must have been called before a call.\<close>

definition stage_ok :: "call list \<Rightarrow> call \<Rightarrow> bool" where
  "stage_ok h c \<longleftrightarrow>
     (is_sign c \<longrightarrow> list_ex is_fund h) \<and> (is_commit c \<longrightarrow> list_ex is_sign h) \<and>
     (is_publish c \<longrightarrow> list_ex is_commit h)"

fun ordered_from :: "call list \<Rightarrow> call list \<Rightarrow> bool" where
  "ordered_from h [] \<longleftrightarrow> True"
| "ordered_from h (c # cs) \<longleftrightarrow> stage_ok h c \<and> ordered_from (h @ [c]) cs"

lemma ordered_from_append: "ordered_from h (cs @ ds) \<longleftrightarrow> ordered_from h cs \<and> ordered_from (h @ cs) ds"
  by (induction cs arbitrary: h) simp_all

definition stages_inv :: "tx_builder \<Rightarrow> call list \<Rightarrow> bool" where
  "stages_inv b h \<longleftrightarrow>
     ordered_from [] h \<and>
     (tb_funded_psbt b \<noteq> [] \<longrightarrow> list_ex is_fund h) \<and>
     (tb_signed_psbt b \<noteq> [] \<longrightarrow> list_ex is_sign h) \<and>
     (tb_anchor_psbt b \<noteq> [] \<longrightarrow> list_ex is_commit h) \<and>
     (tb_finished b \<longrightarrow> h \<noteq> [] \<and> is_publish (last h))"

lemmas call_kinds = is_fund_def is_sign_def is_commit_def is_publish_def

text \<open>The stages, each on a builder that is not finished.\<close>

definition active_with :: "(call \<Rightarrow> bool) \<Rightarrow> tx_builder \<Rightarrow> call list \<Rightarrow> bool" where
  "active_with stage b h \<longleftrightarrow> stages_inv b h \<and> \<not> tb_finished b \<and> list_ex stage h"

lemmas stage_defs = active_with_def stages_inv_def ordered_from_append stage_ok_def call_kinds

lemma triple_fund_transfer:
  "triple (\<lambda>b h. stages_inv b h \<and> \<not> tb_finished b) (fund_transfer L) (active_with is_fund) stages_inv"
  unfolding triple_def fund_transfer_def
  by (auto simp: require_apply bind_act_Some wrap_act_Some act_apply stage_defs wrap_op_def wrap_with_def
      split: if_splits sum.splits)

lemma triple_sign_funded: "triple (active_with is_fund) (sign_funded L) (active_with is_sign) stages_inv"
  unfolding triple_def sign_funded_def
  by (auto simp: bind_act_Some wrap_act_Some act_apply stage_defs sign_virtual_psbt_def wrap_op_def wrap_with_def
      split: sum.splits)

lemma commit_effect:
  assumes "commit_virtual_psbts L P b h = Some (r, b', h')"
  shows "b' = b \<and> (h' = h \<and> (\<exists>e. r = Inl e) \<or> (\<exists>c. h' = h @ [c] \<and> is_commit c))"
  using assms
  by (auto simp: commit_virtual_psbts_def Let_def bind_act_Some act_apply is_commit_def
      split: option.splits prod.splits)

lemma stages_inv_snoc:
  "stages_inv b h \<Longrightarrow> stage_ok h c \<Longrightarrow> tb_finished b \<longrightarrow> is_publish c \<Longrightarrow> stages_inv b (h @ [c])"
  by (simp add: stages_inv_def ordered_from_append)

lemma stage_ok_kinds:
  "is_commit c \<Longrightarrow> list_ex is_sign h \<Longrightarrow> stage_ok h c"
  "is_publish c \<Longrightarrow> list_ex is_commit h \<Longrightarrow> stage_ok h c"
  "stage_ok h (SignAnchor p)"
  by (cases c; simp add: stage_ok_def call_kinds)+

lemma ordered_commit:
  "ordered_from h cs \<Longrightarrow> list_ex is_commit cs \<Longrightarrow> list_ex is_sign (h @ cs)"
proof (induction cs arbitrary: h)
  case (Cons c cs)
  show ?case
  proof (cases "is_commit c")
    case True
    with Cons(2) show ?thesis by (simp add: stage_ok_def)
  next
    case False
    with Cons(2,3) Cons(1) [of "h @ [c]"] show ?thesis by simp
  qed
qed simp

lemma active_with_iff:
  "active_with stage b h \<longleftrightarrow> stages_inv b h \<and> \<not> tb_finished b \<and> list_ex stage h"
  by (simp add: active_with_def)

lemma triple_commit: "triple (active_with is_sign) (commit_virtual_psbts L P) (active_with is_commit) stages_inv"
  unfolding triple_def
proof (intro allI impI)
  fix b h r b' h'
  assume A: "active_with is_sign b h" and run: "commit_virtual_psbts L P b h = Some (r, b', h')"
  from commit_effect [OF run] consider "b' = b" "h' = h" "\<exists>e. r = Inl e" | c where "b' = b" "h' = h @ [c]" "is_commit c"
    by blast
  then show "case r of Inl _ \<Rightarrow> stages_inv b' h' | Inr _ \<Rightarrow> active_with is_commit b' h'"
  proof cases
    case 1
    with A show ?thesis by (auto simp: active_with_iff)
  next
    case 2
    with A have "stages_inv b' h'"
      by (simp add: active_with_iff stages_inv_snoc stage_ok_kinds(1))
    with A 2 show ?thesis by (cases r) (simp_all add: active_with_iff)
  qed
qed

lemma triple_commit_signed: "triple (active_with is_sign) (commit_signed L P) (active_with is_commit) stages_inv"
  unfolding commit_signed_def
proof (rule triple_bind [OF triple_wrap [OF triple_commit]], rule triple_bind)
  fix resp
  have "active_with is_commit (apply_commit_response resp b) h" if "active_with is_commit b h" for b h
    using that ordered_commit [of "[]" h] by (simp add: active_with_iff stages_inv_def)
  then show "triple (active_with is_commit) (modify_act (apply_commit_response resp)) (active_with is_commit) stages_inv"
    by (simp add: triple_def act_apply)
qed (rule triple_ret)

lemma triple_sign_anchor: "triple (active_with is_commit) sign_anchor (active_with is_commit) stages_inv"
  unfolding triple_def sign_anchor_def
proof (intro allI impI)
  fix b h r b' h'
  assume A: "active_with is_commit b h"
    and run: "bind_act get_act (\<lambda>b. case tb_anchor_signer b of None \<Rightarrow> ret_act ()
       | Some signer \<Rightarrow> bind_act (io_act (call_io (SignAnchor (tb_anchor_psbt b)) (\<lambda>h. signer h (tb_anchor_psbt b))))
           (\<lambda>p. modify_act (tb_anchor_psbt_update (\<lambda>_. p)))) b h = Some (r, b', h')"
  have ok: "active_with is_commit b (h @ [SignAnchor p])" for p
    using A by (simp add: active_with_iff stages_inv_snoc stage_ok_kinds)
  then have "active_with is_commit (b\<lparr>tb_anchor_psbt := q\<rparr>) (h @ [SignAnchor p])" for p q
    by (simp add: active_with_iff stages_inv_def)
  with A ok run show "case r of Inl _ \<Rightarrow> stages_inv b' h' | Inr _ \<Rightarrow> active_with is_commit b' h'"
    by (auto simp: bind_act_Some act_apply active_with_iff split: option.splits)
qed

lemma publish_effect:
  "publish_and_log skip b h = Some (r, b', h') \<Longrightarrow> b' = b \<and> (\<exists>c. h' = h @ [c] \<and> is_publish c)"
  by (auto simp: publish_and_log_def act_apply is_publish_def split: option.splits prod.splits)

definition published :: "tx_builder \<Rightarrow> call list \<Rightarrow> bool" where
  "published b h \<longleftrightarrow> stages_inv b h \<and> h \<noteq> [] \<and> is_publish (last h)"

lemma triple_publish: "triple (active_with is_commit) (publish_and_log skip) published stages_inv"
  unfolding triple_def
proof (intro allI impI)
  fix b h r b' h'
  assume A: "active_with is_commit b h" and run: "publish_and_log skip b h = Some (r, b', h')"
  from publish_effect [OF run] obtain c where c: "b' = b" "h' = h @ [c]" "is_publish c" by blast
  with A have "stages_inv b' h'"
    by (simp add: active_with_iff stages_inv_snoc stage_ok_kinds(2))
  with c show "case r of Inl _ \<Rightarrow> stages_inv b' h' | Inr _ \<Rightarrow> published b' h'"
    by (cases r) (simp_all add: published_def)
qed

lemma triple_publish_signed: "triple (active_with is_commit) (publish_signed L opts) stages_inv stages_inv"
  unfolding publish_signed_def
proof (rule triple_bind [OF triple_wrap [OF triple_sign_anchor]],
    rule triple_bind [OF triple_wrap [OF triple_publish]], rule triple_bind)
  show "triple published (modify_act (\<lambda>b. b\<lparr>tb_finished := True\<rparr>)) stages_inv stages_inv"
    by (auto simp: triple_def act_apply published_def stages_inv_def)
qed (rule triple_ret)

lemmas stage_triples = triple_fund_transfer triple_sign_funded triple_commit_signed triple_publish_signed

lemma triple_guarded:
  assumes "triple B m D stages_inv" and "\<And>b h. stages_inv b h \<Longrightarrow> \<not> tb_finished b \<Longrightarrow> ok b \<Longrightarrow> B b h"
    and "\<And>b h. D b h \<Longrightarrow> stages_inv b h"
  shows "triple stages_inv (bind_act (require (\<lambda>b. \<not> tb_finished b) ErrBuilderFinished)
           (\<lambda>_. bind_act (require ok s) (\<lambda>_. m))) stages_inv stages_inv"
  by (intro triple_require triple_conseq [OF assms(1)]) (auto intro: assms(2,3))

lemma triple_not_finished:
  assumes "triple (\<lambda>b h. stages_inv b h \<and> \<not> tb_finished b) m D stages_inv" and "\<And>b h. D b h \<Longrightarrow> stages_inv b h"
  shows "triple stages_inv (bind_act (require (\<lambda>b. \<not> tb_finished b) ErrBuilderFinished) (\<lambda>_. m)) stages_inv stages_inv"
  by (intro triple_require triple_conseq [OF assms(1)]) (auto intro: assms(2))

lemma active_stages: "active_with stage b h \<Longrightarrow> stages_inv b h"
  by (simp add: active_with_def)

lemma triple_execute: "triple stages_inv (execute L P opts) stages_inv stages_inv"
proof -
  have start: "triple (\<lambda>b h. stages_inv b h \<and> \<not> tb_finished b \<and> b = s)
      (if tb_funded_psbt s = [] then bind_act (fund_transfer L) (\<lambda>_. ret_act ()) else ret_act ())
      (active_with is_fund) stages_inv" for s
  proof (cases "tb_funded_psbt s = []")
    case True
    have "triple (\<lambda>b h. stages_inv b h \<and> \<not> tb_finished b)
        (bind_act (fund_transfer L) (\<lambda>_. ret_act ())) (active_with is_fund) stages_inv"
      by (rule triple_bind [OF triple_fund_transfer triple_ret])
    with True show ?thesis by (auto intro: triple_conseq)
  next
    case False
    then show ?thesis by (auto simp: triple_def act_apply active_with_def stages_inv_def)
  qed
  have "triple (\<lambda>b h. stages_inv b h \<and> \<not> tb_finished b) (bind_act get_act (\<lambda>b.
      bind_act (if tb_funded_psbt b = [] then bind_act (fund_transfer L) (\<lambda>_. ret_act ()) else ret_act ()) (\<lambda>_.
      bind_act (sign_funded L) (\<lambda>_. bind_act (commit_signed L P) (\<lambda>_. publish_signed L opts))))) stages_inv stages_inv"
  proof (rule triple_get, rule triple_bind)
    fix s
    show "triple (\<lambda>b h. (stages_inv b h \<and> \<not> tb_finished b) \<and> b = s)
        (if tb_funded_psbt s = [] then bind_act (fund_transfer L) (\<lambda>_. ret_act ()) else ret_act ())
        (active_with is_fund) stages_inv"
      by (rule triple_conseq [OF start]) auto
  qed (rule triple_bind [OF triple_sign_funded triple_bind [OF triple_commit_signed triple_publish_signed]])
  then show ?thesis
    unfolding execute_def by (rule triple_not_finished)
qed

text \<open>Every method but the injecting setters keeps the invariant.\<close>

lemma run_op_stages:
  assumes "\<not> injects op"
  shows "triple stages_inv (run_op L P op) stages_inv stages_inv"
proof (cases op)
  case Fund
  have "triple stages_inv (fund L) stages_inv stages_inv"
    unfolding fund_def by (rule triple_not_finished [OF triple_fund_transfer]) (rule active_stages)
  with Fund show ?thesis by (simp add: triple_void)
next
  case Sign
  have "triple stages_inv (tx_sign L) stages_inv stages_inv"
    unfolding tx_sign_def
    by (rule triple_guarded [OF triple_sign_funded]) (auto simp: active_with_def stages_inv_def)
  with Sign show ?thesis by (simp add: triple_void)
next
  case Commit
  have "triple stages_inv (tx_commit L P) stages_inv stages_inv"
    unfolding tx_commit_def
    by (rule triple_guarded [OF triple_bind [OF triple_commit_signed triple_ret]])
      (auto simp: active_with_def stages_inv_def)
  with Commit show ?thesis by (simp add: triple_void)
next
  case (Finish opts)
  have "triple stages_inv (finish L opts) stages_inv stages_inv"
    unfolding finish_def
    by (rule triple_guarded [OF triple_publish_signed]) (auto simp: active_with_def stages_inv_def)
  with Finish show ?thesis by (simp add: triple_void)
next
  case (Execute opts)
  then show ?thesis by (simp add: triple_void triple_execute)
qed (use assms in \<open>simp_all add: triple_def act_apply stages_inv_def injects_def add_recipient_def
  add_tap_address_def set_recipients_def add_prev_input_def set_fee_rate_def set_anchor_signer_def
  set_passive_psbts_def\<close>)

text \<open>One recipient, executed by a working daemon.\<close>

lemma sample_batch:
  "\<exists>s. normalise_send_recipients sample_lib [recipient_with_embedded_amount s] True =
         Inr [recipient_with_amount s 500]"
proof -
  obtain s where "decode_address sample_lib s = Inr (wire_part s sample_address)"
    using sample_address_text by blast
  then have "normalise_send_recipients sample_lib [recipient_with_embedded_amount s] True =
      Inr [recipient_with_amount s 500]"
    by (simp add: normalise_send_recipients_def recipient_with_embedded_amount_def recipient_with_amount_def
        recipient_amount_def validate_single_asset_send_batch_def check_batch_ref_def asset_ref_is_zero_def
        append_res_def normalise_recipient_def wire_part_def sample_address_def)
  then show ?thesis by blast
qed

lemma sample_execution:
  "\<exists>b s. (tx_step sample_lib P (\<lambda>op. \<not> injects op))\<^sup>*\<^sup>* (new_tx_builder working_client, [])
       (b, [FundTransfer [recipient_with_amount s 500] [], SignVirtualPsbt [1],
            CommitVirtualPsbts [[2]] [] (tb_fee_rate (new_tx_builder working_client)),
            PublishAndLogTransfer [3] [[2]] [] False]) \<and> tb_finished b"
proof -
  let ?step = "tx_step sample_lib P (\<lambda>op. \<not> injects op)"
  obtain s where s: "normalise_send_recipients sample_lib [recipient_with_embedded_amount s] True =
         Inr [recipient_with_amount s 500]" using sample_batch by blast
  define b0 where "b0 = new_tx_builder working_client"
  define b1 where "b1 = add_tap_address s b0"
  have "?step (b0, []) (b1, [])"
    by (rule tx_step.call_made [of _ "AddTapAddress s" _ _ _ _ "Inr ()"]) (simp_all add: injects_def act_apply b1_def)
  moreover have "\<exists>b. execute sample_lib P [] b1 [] = Some
       (Inr (Some \<lparr>ap_anchor_transaction = [3], ap_virtual_transactions = [[2]], ap_passive_asset_transactions = []\<rparr>), b,
        [FundTransfer [recipient_with_amount s 500] [], SignVirtualPsbt [1],
         CommitVirtualPsbts [[2]] [] (tb_fee_rate b0), PublishAndLogTransfer [3] [[2]] [] False]) \<and> tb_finished b"
    by (simp add: execute_def require_def fund_transfer_def sign_funded_def commit_signed_def publish_signed_def
        commit_virtual_psbts_def sign_anchor_def publish_and_log_def sign_virtual_psbt_def bind_act_def act_apply
        wrap_act_def apply_commit_response_def Let_def apply_tx_builder_options_def s b1_def b0_def
        add_tap_address_def new_tx_builder_def working_client_def offline_client_def)
  then obtain b where run: "execute sample_lib P [] b1 [] = Some
       (Inr (Some \<lparr>ap_anchor_transaction = [3], ap_virtual_transactions = [[2]], ap_passive_asset_transactions = []\<rparr>), b,
        [FundTransfer [recipient_with_amount s 500] [], SignVirtualPsbt [1],
         CommitVirtualPsbts [[2]] [] (tb_fee_rate b0), PublishAndLogTransfer [3] [[2]] [] False])"
      and fin: "tb_finished b" by blast
  from run have "?step (b1, []) (b, [FundTransfer [recipient_with_amount s 500] [], SignVirtualPsbt [1],
         CommitVirtualPsbts [[2]] [] (tb_fee_rate b0), PublishAndLogTransfer [3] [[2]] [] False])"
    by (intro tx_step.call_made [of _ "Execute []" _ _ _ _ "Inr ()"]) (simp_all add: injects_def void_def bind_act_def act_apply)
  ultimately show ?thesis using fin unfolding b0_def by (meson converse_rtranclp_into_rtranclp rtranclp.rtrancl_refl)
qed

text \<open>
  C1. However the methods of a fresh builder are called, in whatever order and however often, with
  calls that fail in between, as long as no externally made packet is put in: nothing is signed
  before a transfer was funded, nothing is committed before a signature, nothing is published
  before a commitment; and once the builder is finished, the last call it made was to publish.
\<close>

theorem stages_in_order:
  assumes "(tx_step L P (\<lambda>op. \<not> injects op))\<^sup>*\<^sup>* (new_tx_builder C, []) (b, h)"
  shows "ordered_from [] h \<and> (tb_finished b \<longrightarrow> h \<noteq> [] \<and> is_publish (last h))"
proof -
  have "stages_inv (fst s) (snd s)" if "(tx_step L P (\<lambda>op. \<not> injects op))\<^sup>*\<^sup>* (new_tx_builder C, []) s" for s
    using that
  proof (induction rule: rtranclp_induct)
    case base
    show ?case by (simp add: stages_inv_def new_tx_builder_def)
  next
    case (step s s')
    from step(2,3) show ?case
    proof (cases rule: tx_step.cases)
      case (call_made op b h r b' h')
      with step(3) run_op_stages [of op L P] show ?thesis
        by (fastforce simp: triple_def split: sum.splits)
    qed
  qed
  from this [OF assms] show ?thesis by (simp add: stages_inv_def)
qed

theorem stages_in_order_witness:
  "\<exists>b s h. (tx_step sample_lib sample_psbt_lib (\<lambda>op. \<not> injects op))\<^sup>*\<^sup>* (new_tx_builder working_client, []) (b, h) \<and>
     hd h = FundTransfer [recipient_with_amount s 500] [] \<and> ordered_from [] h \<and> is_publish (last h)"
proof -
  from sample_execution obtain b s h where
      path: "(tx_step sample_lib sample_psbt_lib (\<lambda>op. \<not> injects op))\<^sup>*\<^sup>* (new_tx_builder working_client, []) (b, h)"
      and h: "hd h = FundTransfer [recipient_with_amount s 500] []" and fin: "tb_finished b"
    by (metis list.sel(1))
  from stages_in_order [OF path] fin path h show ?thesis by blast
qed

text \<open>
  A finished builder stays finished, whatever is called on it, injecting setters included: it
  makes no further call to the daemon, and each of the five stage methods fails with
  \<open>ErrBuilderFinished\<close>.
\<close>

theorem finished_is_terminal:
  assumes "(tx_step L P allowed)\<^sup>*\<^sup>* (b, h) (b', h')" and "tb_finished b"
  shows "tb_finished b' \<and> h' = h \<and>
     fund L b' h' = Some (Inl (Sentinel ErrBuilderFinished), b', h') \<and>
     tx_sign L b' h' = Some (Inl (Sentinel ErrBuilderFinished), b', h') \<and>
     tx_commit L P b' h' = Some (Inl (Sentinel ErrBuilderFinished), b', h') \<and>
     finish L opts b' h' = Some (Inl (Sentinel ErrBuilderFinished), b', h') \<and>
     execute L P opts b' h' = Some (Inl (Sentinel ErrBuilderFinished), b', h')"
proof -
  have refuse: "fund L b h = Some (Inl (Sentinel ErrBuilderFinished), b, h)"
      "tx_sign L b h = Some (Inl (Sentinel ErrBuilderFinished), b, h)"
      "tx_commit L P b h = Some (Inl (Sentinel ErrBuilderFinished), b, h)"
      "finish L opts b h = Some (Inl (Sentinel ErrBuilderFinished), b, h)"
      "execute L P opts b h = Some (Inl (Sentinel ErrBuilderFinished), b, h)" if "tb_finished b" for b h opts
    using that by (simp_all add: fund_def tx_sign_def tx_commit_def finish_def execute_def require_apply)
  have one: "tb_finished b2 \<and> h2 = h1"
    if "run_op L P op b1 h1 = Some (r, b2, h2)" and "tb_finished b1" for op b1 h1 r b2 h2
    using that
    by (cases op) (auto simp: act_apply void_def bind_act_Some refuse add_recipient_def
        add_tap_address_def set_recipients_def add_prev_input_def set_fee_rate_def set_anchor_signer_def
        set_passive_psbts_def set_funded_psbt_def set_signed_psbt_def set_anchor_psbt_def)
  have "tb_finished (fst s) \<and> snd s = h" if "(tx_step L P allowed)\<^sup>*\<^sup>* (b, h) s" for s
    using that
  proof (induction rule: rtranclp_induct)
    case base
    show ?case using assms(2) by simp
  next
    case (step s s')
    from step(2,3) show ?case
      by (cases rule: tx_step.cases) (auto dest: one)
  qed
  from this [OF assms(1)] show ?thesis by (simp add: refuse)
qed

theorem finished_is_terminal_witness:
  "\<exists>b :: tx_builder. tb_finished b \<and>
     execute sample_lib sample_psbt_lib [] b [ListBatches] = Some (Inl (Sentinel ErrBuilderFinished), b, [ListBatches])"
proof -
  obtain b :: tx_builder where fin: "tb_finished b"
    using sample_execution [of sample_psbt_lib] by blast
  have "(tx_step sample_lib sample_psbt_lib (\<lambda>_. True))\<^sup>*\<^sup>* (b, [ListBatches]) (b, [ListBatches])" by simp
  from finished_is_terminal [OF this fin, of "[]"] fin show ?thesis by (elim conjE) (intro exI conjI)
qed

end
