(* ===== verification/Tap_Interactive.thy ===== *)
theory Tap_Interactive
  imports Tap_TxBuilder
begin

text \<open>
  Interactive transfers (\<open>interactive_tx_builder.go\<close>): the receiver's keys are given, the builder
  resolves the asset to one issuance, builds the virtual packet itself and has it funded, signed
  and anchored.
\<close>

type_synonym asset_lister = "call list \<Rightarrow> list_assets_request option \<Rightarrow> asset_record option list result"

record interactive_builder =
  ib_wallet_kit :: client
  ib_list_assets :: "asset_lister option"
  ib_network_hrp :: string
  ib_coin_type :: u32
  ib_asset_ref :: string
  ib_amount :: u64
  ib_receiver_keys :: "(script_key \<times> internal_key) option"
  ib_lock_time :: u64
  ib_relative_lock_time :: u64
  ib_alt_leaves :: "bytes \<rightharpoonup> bytes list"
  ib_vpacket_bytes :: bytes
  ib_funded_psbt :: bytes
  ib_signed_psbt :: bytes
  ib_finished :: bool

text \<open>
  \<open>newInteractiveTxBuilder\<close>: the two type assertions are parameters, the row resolver first.
\<close>

definition new_interactive_tx_builder ::
  "client \<Rightarrow> asset_lister option \<Rightarrow> asset_lister option \<Rightarrow> string \<Rightarrow> u32 \<Rightarrow> interactive_builder" where
  "new_interactive_tx_builder C row_resolver resolver hrp coin_type =
     \<lparr>ib_wallet_kit = C, ib_list_assets = (case row_resolver of Some f \<Rightarrow> Some f | None \<Rightarrow> resolver),
      ib_network_hrp = hrp, ib_coin_type = coin_type, ib_asset_ref = [], ib_amount = 0,
      ib_receiver_keys = None, ib_lock_time = 0, ib_relative_lock_time = 0, ib_alt_leaves = Map.empty,
      ib_vpacket_bytes = [], ib_funded_psbt = [], ib_signed_psbt = [], ib_finished = False\<rparr>"

definition set_asset :: "string \<Rightarrow> u64 \<Rightarrow> interactive_builder \<Rightarrow> interactive_builder" where
  "set_asset ref amount b = b\<lparr>ib_asset_ref := ref, ib_amount := amount\<rparr>"

definition set_receiver_keys :: "script_key \<times> internal_key \<Rightarrow> interactive_builder \<Rightarrow> interactive_builder" where
  "set_receiver_keys keys b = b\<lparr>ib_receiver_keys := Some keys\<rparr>"

definition set_lock_time :: "u64 \<Rightarrow> interactive_builder \<Rightarrow> interactive_builder" where
  "set_lock_time t b = b\<lparr>ib_lock_time := t\<rparr>"

definition set_relative_lock_time :: "u64 \<Rightarrow> interactive_builder \<Rightarrow> interactive_builder" where
  "set_relative_lock_time t b = b\<lparr>ib_relative_lock_time := t\<rparr>"

definition with_alt_leaves :: "bytes \<Rightarrow> bytes list \<Rightarrow> interactive_builder \<Rightarrow> interactive_builder" where
  "with_alt_leaves key leaves b = b\<lparr>ib_alt_leaves := (ib_alt_leaves b)(key \<mapsto> leaves)\<rparr>"

definition validate_builder :: "'k lib \<Rightarrow> interactive_builder \<Rightarrow> unit result" where
  "validate_builder L b =
     (if ib_receiver_keys b = None then Inl (OpError ''Execute'' (Sentinel ErrNoReceiverKeys))
      else if asset_ref_is_zero (ib_asset_ref b) then Inl (OpError ''Execute'' (Sentinel ErrNoAssetRef))
      else case asset_ref_validate L (ib_asset_ref b) of
             Inl e \<Rightarrow> Inl (OpError ''Execute'' e)
           | Inr _ \<Rightarrow>
               if ib_amount b = 0 then Inl (OpError ''Execute'' (Sentinel ErrZeroAmount)) else Inr ())"

text \<open>The loop over the listed records: the issuance found, and the total counted so far.\<close>

fun pick_tranche :: "u64 \<Rightarrow> u64 \<Rightarrow> asset_record option list \<Rightarrow> bytes option \<times> u64" where
  "pick_tranche amount tot [] = (None, tot)"
| "pick_tranche amount tot (None # rs) = pick_tranche amount tot rs"
| "pick_tranche amount tot (Some r # rs) =
     (let tot' = add_saturating_uint64 tot (ar_amount r) in
      if ar_amount r \<ge> amount then (Some (ig_issuance_id (ar_genesis r)), tot')
      else pick_tranche amount tot' rs)"

definition resolve_err :: "'k lib \<Rightarrow> sentinel \<Rightarrow> string \<Rightarrow> go_error" where
  "resolve_err L s msg = wrap_err (status_from_error L) ''ResolveAssetRef'' (Wrapf [] (Sentinel s) msg)"

definition tranche_result :: "'k lib \<Rightarrow> u64 \<Rightarrow> asset_record option list \<Rightarrow> bytes result" where
  "tranche_result L amount assets =
     (case pick_tranche amount 0 assets of
        (Some issuance, _) \<Rightarrow> Inr issuance
      | (None, tot) \<Rightarrow>
          Inl (if tot = 0 then resolve_err L ErrAssetUnknown '': asset ref''
               else resolve_err L ErrInsufficientBalance '': largest spendable tranche is less than that amount''))"

definition resolve_asset_id :: "'k lib \<Rightarrow> interactive_builder \<Rightarrow> bytes io" where
  "resolve_asset_id L b =
     (let no_ref = OpError ''Execute'' (Sentinel ErrNoAssetRef) in
      case ref_asset_id L (ib_asset_ref b) of
        Some asset_id \<Rightarrow> lift_io (if asset_id_is_zero asset_id then Inl no_ref else Inr asset_id)
      | None \<Rightarrow>
        (if \<not> is_group_ref L (ib_asset_ref b) then lift_io (Inl no_ref)
         else case ib_list_assets b of
                None \<Rightarrow> lift_io (Inl (OpError ''Execute'' (Sentinel ErrGroupKeyNotSupported)))
              | Some list_assets \<Rightarrow>
                  let req = Some (list_assets_by_ref (Some (ib_asset_ref b))) in
                  bind_io (wrap_io L ''ResolveAssetRef'' (call_io (ListAssetRecords req) (\<lambda>h. list_assets h req)))
                    (\<lambda>assets. lift_io (tranche_result L (ib_amount b) assets))))"

text \<open>\<open>buildVPacket\<close>; without receiver keys the Go code would panic, \<open>validate\<close> rules that out.\<close>

definition interactive_packet :: "interactive_builder \<Rightarrow> script_key \<times> internal_key \<Rightarrow> bytes \<Rightarrow> interactive_vpacket" where
  "interactive_packet b = (\<lambda>(sk, ik) asset_id.
     \<lparr>iv_asset_id = asset_id, iv_amount = ib_amount b, iv_script_key = sk_pub_key sk,
      iv_anchor_internal_key = ik_pub_key ik, iv_anchor_key_locator = ik_locator ik,
      iv_alt_leaves = (case ib_alt_leaves b (sk_pub_key sk) of Some ls \<Rightarrow> ls | None \<Rightarrow> []),
      iv_lock_time = ib_lock_time b, iv_relative_lock_time = ib_relative_lock_time b,
      iv_anchor_output_index = 0, iv_asset_version = 0, iv_network_hrp = ib_network_hrp b,
      iv_coin_type = ib_coin_type b\<rparr>)"

definition build_vpacket :: "'k psbt_lib \<Rightarrow> bytes \<Rightarrow> (interactive_builder, unit) act" where
  "build_vpacket P asset_id =
     bind_act get_act (\<lambda>b.
       case ib_receiver_keys b of
         None \<Rightarrow> fail_act (Plain ''panic: nil receiver keys'')
       | Some keys \<Rightarrow>
           bind_act (io_act (lift_io (encode_vpacket P (interactive_packet b keys asset_id)))) (\<lambda>encoded.
           modify_act (\<lambda>b. b\<lparr>ib_vpacket_bytes := encoded\<rparr>)))"

definition fund_packet :: "'k lib \<Rightarrow> (interactive_builder, unit) act" where
  "fund_packet L =
     bind_act get_act (\<lambda>b.
     bind_act (wrap_act L ''Fund'' (io_act (call_io (FundInteractivePsbt (ib_vpacket_bytes b))
                 (\<lambda>h. c_fund_interactive_psbt (ib_wallet_kit b) h (ib_vpacket_bytes b))))) (\<lambda>resp.
     modify_act (\<lambda>b. b\<lparr>ib_funded_psbt := ft_funded_psbt resp\<rparr>)))"

definition sign_packet :: "'k lib \<Rightarrow> (interactive_builder, unit) act" where
  "sign_packet L =
     bind_act get_act (\<lambda>b.
     bind_act (wrap_act L ''Sign'' (io_act (sign_virtual_psbt (ib_wallet_kit b) (ib_funded_psbt b)))) (\<lambda>p.
     modify_act (\<lambda>b. b\<lparr>ib_signed_psbt := p\<rparr>)))"

definition complete :: "'k lib \<Rightarrow> (interactive_builder, asset_transfer) act" where
  "complete L =
     bind_act get_act (\<lambda>b.
     wrap_act L ''Complete'' (io_act (call_io (AnchorVirtualPsbts [ib_signed_psbt b])
       (\<lambda>h. c_anchor_virtual_psbts (ib_wallet_kit b) h [ib_signed_psbt b]))))"

definition interactive_execute :: "'k lib \<Rightarrow> 'k psbt_lib \<Rightarrow> (interactive_builder, asset_transfer) act" where
  "interactive_execute L P =
     bind_act (require (\<lambda>b. \<not> ib_finished b) ErrBuilderFinished) (\<lambda>_.
     bind_act get_act (\<lambda>b.
     bind_act (io_act (lift_io (validate_builder L b))) (\<lambda>_.
     bind_act (io_act (resolve_asset_id L b)) (\<lambda>asset_id.
     bind_act (wrap_act L ''Execute'' (build_vpacket P asset_id)) (\<lambda>_.
     bind_act (fund_packet L) (\<lambda>_.
     bind_act (sign_packet L) (\<lambda>_.
     bind_act (complete L) (\<lambda>result.
     bind_act (modify_act (\<lambda>b. b\<lparr>ib_finished := True\<rparr>)) (\<lambda>_. ret_act result)))))))))"

section \<open>Which issuance is sent\<close>

text \<open>The records a listing really holds.\<close>

definition listed :: "asset_record option list \<Rightarrow> asset_record list" where
  "listed assets = map the (filter (\<lambda>r. r \<noteq> None) assets)"

lemma listed_simps [simp]:
  "listed [] = []" "listed (None # rs) = listed rs" "listed (Some r # rs) = r # listed rs"
  by (simp_all add: listed_def)

lemma pick_tranche_found:
  "fst (pick_tranche amount tot assets) =
     map_option (\<lambda>r. ig_issuance_id (ar_genesis r)) (find (\<lambda>r. ar_amount r \<ge> amount) (listed assets))"
  by (induction amount tot assets rule: pick_tranche.induct) (simp_all add: Let_def)

lemma saturating_zero: "add_saturating_uint64 a b = 0 \<longleftrightarrow> a = 0 \<and> b = 0"
proof -
  have "unat (add_saturating_uint64 a b) = 0 \<longleftrightarrow> unat a = 0 \<and> unat b = 0"
    by (auto simp: unat_add_saturating sat_def min_def split: if_splits)
  then show ?thesis by (simp add: unat_eq_zero)
qed

lemma pick_tranche_total:
  assumes "fst (pick_tranche amount tot assets) = None"
  shows "snd (pick_tranche amount tot assets) = 0 \<longleftrightarrow> tot = 0 \<and> (\<forall>r \<in> set (listed assets). ar_amount r = 0)"
  using assms
  by (induction amount tot assets rule: pick_tranche.induct) (auto simp: Let_def saturating_zero split: if_splits)

lemma group_ref_no_asset_id: "is_group_ref L ref \<Longrightarrow> ref_asset_id L ref = None"
  by (auto simp: is_group_ref_def ref_asset_id_def kind_group_key_def kind_asset_id_def split: sum.splits)

text \<open>
  A group reference is resolved to the first listed record, in the daemon's order, that covers
  the whole requested amount: its issuance is sent. If no record does, the error says so: the asset
  is unknown when nothing of it is listed at all, the balance insufficient when the pieces are too
  small, even if their sum is enough. One listing is requested, for exactly that reference.
\<close>

theorem group_ref_resolution:
  assumes "is_group_ref L (ib_asset_ref b)" and "ib_list_assets b = Some list_assets"
    and "list_assets h (Some (list_assets_by_ref (Some (ib_asset_ref b)))) = Inr assets"
    and "ib_amount b \<noteq> 0"
  shows "snd (resolve_asset_id L b h) = h @ [ListAssetRecords (Some (list_assets_by_ref (Some (ib_asset_ref b))))] \<and>
     (case fst (resolve_asset_id L b h) of
        Inr issuance \<Rightarrow>
          \<exists>before r after. listed assets = before @ r # after \<and> issuance = ig_issuance_id (ar_genesis r) \<and>
            ar_amount r \<ge> ib_amount b \<and> (\<forall>q \<in> set before. ar_amount q < ib_amount b)
      | Inl e \<Rightarrow>
          (\<forall>r \<in> set (listed assets). ar_amount r < ib_amount b) \<and>
          errors_is e (if \<forall>r \<in> set (listed assets). ar_amount r = 0 then ErrAssetUnknown else ErrInsufficientBalance))"
proof -
  have "ref_asset_id L (ib_asset_ref b) = None"
    using assms(1) by (rule group_ref_no_asset_id)
  then have run: "resolve_asset_id L b h =
      (tranche_result L (ib_amount b) assets, h @ [ListAssetRecords (Some (list_assets_by_ref (Some (ib_asset_ref b))))])"
    using assms(1,2,3) by (simp add: resolve_asset_id_def Let_def bind_io_apply wrap_io_apply)
  obtain found tot where pick: "pick_tranche (ib_amount b) 0 assets = (found, tot)" by fastforce
  show ?thesis
  proof (cases "find (\<lambda>r. ar_amount r \<ge> ib_amount b) (listed assets)")
    case (Some r)
    then obtain i where i: "i < length (listed assets)" "ar_amount (listed assets ! i) \<ge> ib_amount b"
        "r = listed assets ! i" "\<forall>j < i. \<not> ar_amount (listed assets ! j) \<ge> ib_amount b"
      by (auto simp: find_Some_iff)
    then have "\<forall>q \<in> set (take i (listed assets)). ar_amount q < ib_amount b"
      by (auto simp: in_set_conv_nth not_le)
    moreover have "listed assets = take i (listed assets) @ r # drop (Suc i) (listed assets)"
      using i(1,3) by (simp add: id_take_nth_drop)
    moreover have "tranche_result L (ib_amount b) assets = Inr (ig_issuance_id (ar_genesis r))"
      using pick_tranche_found [of "ib_amount b" 0 assets] Some pick by (simp add: tranche_result_def)
    ultimately show ?thesis using run i(2,3) by auto
  next
    case None
    then have small: "\<forall>r \<in> set (listed assets). ar_amount r < ib_amount b"
      by (auto simp: find_None_iff not_le)
    have found: "found = None" using pick_tranche_found [of "ib_amount b" 0 assets] None pick by simp
    with pick_tranche_total [of "ib_amount b" 0 assets] pick
    have "tot = 0 \<longleftrightarrow> (\<forall>r \<in> set (listed assets). ar_amount r = 0)" by simp
    with small run pick found show ?thesis
      by (simp add: tranche_result_def resolve_err_def wrap_err_identity)
  qed
qed

definition sample_interactive :: "string \<Rightarrow> u64 \<Rightarrow> interactive_builder" where
  "sample_interactive ref amount =
     set_receiver_keys
       (\<lparr>sk_pub_key = 2 # replicate 32 1,
         sk_key_desc = \<lparr>kd_raw_key_bytes = [], kd_locator = \<lparr>kl_family = 0, kl_index = 0\<rparr>\<rparr>, sk_tap_tweak = []\<rparr>,
        \<lparr>ik_pub_key = 2 # replicate 32 3, ik_locator = \<lparr>kl_family = 212, kl_index = 4\<rparr>\<rparr>)
       (set_asset ref amount
         (new_interactive_tx_builder
           (working_client
             \<lparr>c_fund_interactive_psbt := (\<lambda>_ _. Inr \<lparr>ft_funded_psbt = [1], ft_passive_asset_psbts = []\<rparr>),
              c_anchor_virtual_psbts := (\<lambda>_ vps. Inr
                \<lparr>at_timestamp = 0, at_txid = [], at_anchor_txid = [], at_height_hint = 0, at_chain_fees = 0,
                 at_inputs = [], at_outputs = [], at_block_hash = [], at_block_hash_str = [], at_block_height = 0,
                 at_label = [], at_anchor_tx = concat vps\<rparr>)\<rparr>)
           None (Some (\<lambda>_ _. Inr [Some (sample_row ref 1 20 asset_type_normal),
                                  Some (sample_row ref 2 60 asset_type_normal)]))
           ''taprt'' 1))"

lemmas sample_interactive_eval = sample_interactive_def set_receiver_keys_def set_asset_def
  new_interactive_tx_builder_def working_client_def offline_client_def

theorem group_ref_resolution_witness:
  "\<exists>ref issuance. is_group_ref sample_lib ref \<and> fst (resolve_asset_id sample_lib (sample_interactive ref 50) []) = Inr issuance"
proof -
  obtain ref where ref: "is_group_ref sample_lib ref" using sample_group_ref by blast
  let ?b = "sample_interactive ref 50"
  let ?rows = "[Some (sample_row ref 1 20 asset_type_normal), Some (sample_row ref 2 60 asset_type_normal)]"
  have b: "ib_asset_ref ?b = ref" "ib_amount ?b = 50" "ib_list_assets ?b = Some (\<lambda>_ _. Inr ?rows)"
    by (simp_all add: sample_interactive_eval)
  have "\<not> (\<forall>r \<in> set (listed ?rows). ar_amount r < ib_amount ?b)"
    by (simp add: b(2) sample_row_def)
  with group_ref_resolution [of sample_lib ?b "\<lambda>_ _. Inr ?rows" "[]" ?rows] ref
  show ?thesis by (auto simp: b simp del: listed_simps split: sum.splits)
qed

section \<open>What an execution sends\<close>

text \<open>
  A successful interactive transfer resolves the asset first, then has exactly the packet built
  from the receiver's keys and the builder's settings funded, the funded packet signed and the
  signed packet anchored; nothing else is sent, and the builder is finished.
\<close>

theorem interactive_pipeline:
  assumes "interactive_execute L P b h = Some (Inr result, b', h')"
  shows "\<exists>keys asset_id vpkt signed (f :: funded_transfer) h1.
     ib_receiver_keys b = Some keys \<and> validate_builder L b = Inr () \<and>
     resolve_asset_id L b h = (Inr asset_id, h1) \<and>
     encode_vpacket P (interactive_packet b keys asset_id) = Inr vpkt \<and>
     c_fund_interactive_psbt (ib_wallet_kit b) h1 vpkt = Inr f \<and>
     c_sign_virtual_psbt (ib_wallet_kit b) (h1 @ [FundInteractivePsbt vpkt]) (ft_funded_psbt f) = Inr signed \<and>
     h' = h1 @ [FundInteractivePsbt vpkt, SignVirtualPsbt (ft_funded_psbt f), AnchorVirtualPsbts [signed]] \<and>
     c_anchor_virtual_psbts (ib_wallet_kit b)
       (h1 @ [FundInteractivePsbt vpkt, SignVirtualPsbt (ft_funded_psbt f)]) [signed] = Inr result \<and>
     b' = b\<lparr>ib_vpacket_bytes := vpkt, ib_funded_psbt := ft_funded_psbt f, ib_signed_psbt := signed,
            ib_finished := True\<rparr>"
proof -
  from assms obtain asset_id h1 b2 h2 b3 h3 b4 h4 b5 where
      v: "validate_builder L b = Inr ()" and res: "resolve_asset_id L b h = (Inr asset_id, h1)"
      and build: "build_vpacket P asset_id b h1 = Some (Inr (), b2, h2)"
      and funded: "fund_packet L b2 h2 = Some (Inr (), b3, h3)"
      and sign: "sign_packet L b3 h3 = Some (Inr (), b4, h4)"
      and done_: "complete L b4 h4 = Some (Inr result, b5, h')"
      and b': "b' = b5\<lparr>ib_finished := True\<rparr>"
    by (auto simp: interactive_execute_def require_apply bind_act_Inr act_apply prod_eq_iff split: if_splits)
  from build obtain keys vpkt where b2: "ib_receiver_keys b = Some keys"
      "encode_vpacket P (interactive_packet b keys asset_id) = Inr vpkt"
      "b2 = b\<lparr>ib_vpacket_bytes := vpkt\<rparr>" "h2 = h1"
    by (auto simp: build_vpacket_def bind_act_Inr act_apply split: option.splits)
  from funded obtain f :: funded_transfer where b3: "c_fund_interactive_psbt (ib_wallet_kit b) h1 vpkt = Inr f"
      "b3 = b2\<lparr>ib_funded_psbt := ft_funded_psbt f\<rparr>" "h3 = h1 @ [FundInteractivePsbt vpkt]"
    by (auto simp: fund_packet_def bind_act_Inr act_apply b2(3,4))
  from sign obtain signed where b4: "c_sign_virtual_psbt (ib_wallet_kit b) h3 (ft_funded_psbt f) = Inr signed"
      "b4 = b3\<lparr>ib_signed_psbt := signed\<rparr>" "h4 = h3 @ [SignVirtualPsbt (ft_funded_psbt f)]"
    by (auto simp: sign_packet_def sign_virtual_psbt_def bind_act_Inr act_apply b2(3) b3(2))
  from done_ have b5: "b5 = b4" "c_anchor_virtual_psbts (ib_wallet_kit b) h4 [signed] = Inr result"
      "h' = h4 @ [AnchorVirtualPsbts [signed]]"
    by (auto simp: complete_def act_apply b2(3) b3(2) b4(2))
  show ?thesis
    by (rule exI [of _ keys], rule exI [of _ asset_id], rule exI [of _ vpkt], rule exI [of _ signed],
        rule exI [of _ f], rule exI [of _ h1], intro conjI)
      (use v res b2 b3 b4 b5 b' in simp_all)
qed

lemma sample_interactive_runs:
  "\<exists>ref result b' h'. interactive_execute sample_lib sample_psbt_lib (sample_interactive ref 50) [] =
     Some (Inr result, b', h') \<and> at_anchor_tx result = [2]"
proof -
  obtain ref where ref: "is_group_ref sample_lib ref" using sample_group_ref by blast
  have zero: "ref \<noteq> []"
    using ref by (auto simp: is_group_ref_def decode_asset_ref_string_def)
  have val: "asset_ref_validate sample_lib ref = Inr ()"
    using ref by (auto simp: is_group_ref_def asset_ref_validate_def split: sum.splits)
  have enc: "encode_vpacket sample_psbt_lib v = Inr [7]" for v
    by (auto simp: encode_vpacket_def to_psbt_def encode_output_fields_def Let_def encode_alt_leaves_eq sample_psbt_lib_def)
  have "\<exists>result b' h'. interactive_execute sample_lib sample_psbt_lib (sample_interactive ref 50) [] =
     Some (Inr result, b', h') \<and> at_anchor_tx result = [2]"
    using ref group_ref_no_asset_id [OF ref]
    by (simp add: interactive_execute_def require_def bind_act_def act_apply validate_builder_def val zero
        asset_ref_is_zero_def resolve_asset_id_def Let_def bind_io_apply wrap_io_apply tranche_result_def
        sample_row_def build_vpacket_def enc fund_packet_def sign_packet_def sign_virtual_psbt_def complete_def
        wrap_act_def sample_interactive_eval)
  then show ?thesis by blast
qed

theorem interactive_pipeline_witness:
  "\<exists>ref result b' h1 signed. interactive_execute sample_lib sample_psbt_lib (sample_interactive ref 50) [] =
     Some (Inr result, b', h1 @ [FundInteractivePsbt [7], SignVirtualPsbt [1], AnchorVirtualPsbts [signed]]) \<and>
     ib_finished b' \<and> ib_signed_psbt b' = signed"
proof -
  obtain ref result b' h' where run: "interactive_execute sample_lib sample_psbt_lib (sample_interactive ref 50) [] =
     Some (Inr result, b', h')" using sample_interactive_runs by blast
  have funds: "c_fund_interactive_psbt (ib_wallet_kit (sample_interactive ref 50)) =
      (\<lambda>_ _. Inr \<lparr>ft_funded_psbt = [1], ft_passive_asset_psbts = []\<rparr>)"
    by (simp add: sample_interactive_eval)
  have enc: "encode_vpacket sample_psbt_lib v = Inr vpkt \<Longrightarrow> vpkt = [7]" for v vpkt
    by (auto simp: encode_vpacket_def sample_psbt_lib_def result_simps)
  from interactive_pipeline [OF run] obtain keys asset_id vpkt signed h1 and f :: funded_transfer where
      vpkt: "encode_vpacket sample_psbt_lib (interactive_packet (sample_interactive ref 50) keys asset_id) = Inr vpkt"
      and f: "c_fund_interactive_psbt (ib_wallet_kit (sample_interactive ref 50)) h1 vpkt = Inr f"
      and h': "h' = h1 @ [FundInteractivePsbt vpkt, SignVirtualPsbt (ft_funded_psbt f), AnchorVirtualPsbts [signed]]"
      and b': "b' = sample_interactive ref 50\<lparr>ib_vpacket_bytes := vpkt, ib_funded_psbt := ft_funded_psbt f,
        ib_signed_psbt := signed, ib_finished := True\<rparr>"
    by (elim exE conjE)
  from f have "f = \<lparr>ft_funded_psbt = [1], ft_passive_asset_psbts = []\<rparr>" by (simp add: funds)
  with h' enc [OF vpkt]
  have "h' = h1 @ [FundInteractivePsbt [7], SignVirtualPsbt [1], AnchorVirtualPsbts [signed]]" by simp
  with run have "interactive_execute sample_lib sample_psbt_lib (sample_interactive ref 50) [] =
      Some (Inr result, b', h1 @ [FundInteractivePsbt [7], SignVirtualPsbt [1], AnchorVirtualPsbts [signed]])"
    by simp
  moreover have "ib_finished b'" "ib_signed_psbt b' = signed" using b' by simp_all
  ultimately show ?thesis by blast
qed

text \<open>
  A builder with a missing part does nothing: without receiver keys, without a reference, with
  a reference that does not parse or with amount zero, execution fails with the matching error, and
  neither the daemon nor the builder sees a change; a finished builder refuses before that.
\<close>

theorem interactive_rejects_first:
  assumes "ib_finished b \<or> ib_receiver_keys b = None \<or> asset_ref_is_zero (ib_asset_ref b) \<or>
      (\<exists>e. asset_ref_validate L (ib_asset_ref b) = Inl e) \<or> ib_amount b = 0"
  shows "\<exists>e. interactive_execute L P b h = Some (Inl e, b, h) \<and>
     (ib_finished b \<longrightarrow> e = Sentinel ErrBuilderFinished) \<and>
     (\<not> ib_finished b \<longrightarrow> ib_receiver_keys b = None \<longrightarrow> errors_is e ErrNoReceiverKeys) \<and>
     (\<not> ib_finished b \<longrightarrow> ib_receiver_keys b \<noteq> None \<longrightarrow> asset_ref_is_zero (ib_asset_ref b) \<longrightarrow>
        errors_is e ErrNoAssetRef)"
proof (cases "ib_finished b")
  case True
  then show ?thesis by (simp add: interactive_execute_def require_apply)
next
  case False
  with assms have "\<exists>e. validate_builder L b = Inl e"
    by (cases "asset_ref_validate L (ib_asset_ref b)") (auto simp: validate_builder_def)
  then obtain e where e: "validate_builder L b = Inl e" by blast
  with False have "interactive_execute L P b h = Some (Inl e, b, h)"
    by (simp add: interactive_execute_def require_apply) (simp add: bind_act_def act_apply)
  with False e show ?thesis by (auto simp: validate_builder_def split: if_splits)
qed

theorem interactive_rejects_first_witness:
  "\<exists>e. interactive_execute sample_lib sample_psbt_lib (sample_interactive [] 50) [] =
     Some (Inl e, sample_interactive [] 50, []) \<and> errors_is e ErrNoAssetRef"
  using interactive_rejects_first [of "sample_interactive [] 50" sample_lib sample_psbt_lib "[]"]
  by (auto simp: sample_interactive_eval asset_ref_is_zero_def)

end
