(* ===== verification/Tap_ProofPath.thy ===== *)
theory Tap_ProofPath
  imports Tap_Codec
begin

text \<open>
  Compact asset proof paths (\<open>custom_anchor_proof_path.go\<close>): the path tree, its size and
  depth limits, and its checksummed binary encoding. SHA-256 is the parameter \<open>sha\<close>; what the
  round trips need of it is that a digest has 32 bytes.

  A path is a confirmed proof file and a list of steps; a step may merge further paths, so the
  type is nested and every operation is a recursion over paths, step lists and co-input lists
  at once. \<open>Nil_path\<close> is the nil pointer, which a slice of path pointers may hold.
\<close>

section \<open>Paths and limits\<close>

datatype proof_path =
    Nil_path
  | Path (confirmed_base_proof: bytes) (path_steps: "path_step list")
and path_step =
    Step (transition_proof: bytes) (co_input_paths: "proof_path list")

definition max_depth :: nat where "max_depth = 64"
definition max_confirmed_proof_size :: nat where "max_confirmed_proof_size = 32 * 1024 * 1024"
definition max_step_size :: nat where "max_step_size = 4 * 1024 * 1024"
definition max_path_size :: nat where "max_path_size = 64 * 1024 * 1024"
definition max_step_co_paths :: nat where "max_step_co_paths = 15"
definition max_co_path_depth :: nat where "max_co_path_depth = 3"
definition checksum_size :: nat where "checksum_size = 32"
definition path_magic :: bytes where
  "path_magic = [0x54, 0x41, 0x50, 0x50, 0x41, 0x54, 0x48, 0]"
definition path_header_size :: nat where "path_header_size = length path_magic + 2 + 4 + 2"
definition path_format :: nat where "path_format = 0"

lemmas limit_defs = max_depth_def max_confirmed_proof_size_def max_step_size_def max_path_size_def
  max_step_co_paths_def max_co_path_depth_def checksum_size_def path_magic_def
  path_header_size_def path_format_def

text \<open>\<open>fmt.Errorf("%w: ...", ErrAssetProofPathInvalid)\<close>.\<close>

definition invalid_path :: "string \<Rightarrow> go_error" where
  "invalid_path m = Wrapf [] (Sentinel ErrAssetProofPathInvalid) ('': '' @ m)"

section \<open>Shape\<close>

text \<open>
  \<open>validateShape\<close>: the depth and the running total are passed along, the total as the
  \<open>uint64\<close> it is. The three functions are the body, the loop over steps and the loop over
  co-input paths.
\<close>

fun validate_shape :: "nat \<Rightarrow> proof_path \<Rightarrow> u64 \<Rightarrow> u64 result"
and validate_shape_steps :: "nat \<Rightarrow> path_step list \<Rightarrow> u64 \<Rightarrow> u64 result"
and validate_shape_co_paths :: "nat \<Rightarrow> proof_path list \<Rightarrow> u64 \<Rightarrow> u64 result" where
  "validate_shape depth Nil_path total_size = Inl (invalid_path ''nil path'')"
| "validate_shape depth (Path base steps) total_size =
     (if depth > max_co_path_depth then Inl (invalid_path ''co-input path depth exceeds limit'')
      else if length base = 0 then Inl (invalid_path ''confirmed base proof is required'')
      else if length base > max_confirmed_proof_size
      then Inl (invalid_path ''confirmed base proof exceeds limit'')
      else if length steps > max_depth then Inl (invalid_path ''path depth exceeds limit'')
      else
        (let total1 = total_size + of_nat (path_header_size + checksum_size + length base) in
         if total1 > of_nat max_path_size then Inl (invalid_path ''encoded path exceeds limit'')
         else validate_shape_steps depth steps total1))"
| "validate_shape_steps depth [] total_size = Inr total_size"
| "validate_shape_steps depth (Step proof co_paths # rest) total_size =
     (if length proof > max_step_size then Inl (invalid_path ''transition proof exceeds limit'')
      else
        (let total1 = total_size + of_nat (4 + length proof) in
         if total1 > of_nat max_path_size then Inl (invalid_path ''encoded path exceeds limit'')
         else if length co_paths > max_step_co_paths
         then Inl (invalid_path ''step has too many co-input paths'')
         else and_then (validate_shape_co_paths depth co_paths total1)
                (\<lambda>total2. validate_shape_steps depth rest total2)))"
| "validate_shape_co_paths depth [] total_size = Inr total_size"
| "validate_shape_co_paths depth (co_path # rest) total_size =
     and_then (wrap_with (\<lambda>e. Wrapf ''step co-input path: '' e [])
                 (validate_shape (Suc depth) co_path (total_size + 4)))
       (\<lambda>total1. validate_shape_co_paths depth rest total1)"

section \<open>Encoding\<close>

text \<open>\<open>writeAssetProofPathBytes\<close>.\<close>

definition write_path_bytes :: "bytes \<Rightarrow> bytes" where
  "write_path_bytes v = be_bytes 4 (length v) @ v"

text \<open>
  \<open>marshalBody\<close>, with its two loops; \<open>encode\<close> appends the checksum. Writing to a
  \<open>bytes.Buffer\<close> does not fail; encoding a nil path dereferences it.
\<close>

fun marshal_body :: "(bytes \<Rightarrow> bytes) \<Rightarrow> proof_path \<Rightarrow> bytes result"
and marshal_steps :: "(bytes \<Rightarrow> bytes) \<Rightarrow> path_step list \<Rightarrow> bytes result"
and marshal_co_paths :: "(bytes \<Rightarrow> bytes) \<Rightarrow> proof_path list \<Rightarrow> bytes result" where
  "marshal_body sha Nil_path = Inl (Plain ''nil pointer dereference'')"
| "marshal_body sha (Path base steps) =
     and_then (marshal_steps sha steps) (\<lambda>bs.
       Inr (path_magic @ be_bytes 2 path_format @ write_path_bytes base @
            be_bytes 2 (length steps) @ bs))"
| "marshal_steps sha [] = Inr []"
| "marshal_steps sha (Step proof co_paths # rest) =
     and_then (marshal_co_paths sha co_paths) (\<lambda>cs.
     and_then (marshal_steps sha rest) (\<lambda>bs.
       Inr (write_path_bytes proof @ be_bytes 2 (length co_paths) @ cs @ bs)))"
| "marshal_co_paths sha [] = Inr []"
| "marshal_co_paths sha (co_path # rest) =
     and_then (marshal_body sha co_path) (\<lambda>body.
     and_then (marshal_co_paths sha rest) (\<lambda>bs.
       Inr (write_path_bytes (body @ sha body) @ bs)))"

definition encode_path :: "(bytes \<Rightarrow> bytes) \<Rightarrow> proof_path \<Rightarrow> bytes result" where
  "encode_path sha p = and_then (marshal_body sha p) (\<lambda>body. Inr (body @ sha body))"

section \<open>Decoding\<close>

text \<open>\<open>readAssetProofPathBytes\<close>.\<close>

definition read_path_bytes :: "nat \<Rightarrow> string \<Rightarrow> bytes \<Rightarrow> (bytes \<times> bytes) result" where
  "read_path_bytes maximum label r =
     and_then (wrap_with (\<lambda>_. invalid_path (''read '' @ label @ '' length'')) (read_full 4 r)) (\<lambda>(len_bytes, r1).
       (let len = be_nat len_bytes in
        if len = 0 then Inl (invalid_path (label @ '' is empty''))
        else if len > maximum then Inl (invalid_path (label @ '' exceeds limit''))
        else if len > length r1 then Inl (invalid_path (''truncated '' @ label))
        else Inr (take len r1, drop len r1)))"

definition read_uint16 :: "string \<Rightarrow> bytes \<Rightarrow> (nat \<times> bytes) result" where
  "read_uint16 what r =
     and_then (wrap_with (\<lambda>_. invalid_path (''read '' @ what)) (read_full 2 r))
       (\<lambda>(bs, r1). Inr (be_nat bs, r1))"

text \<open>
  The body of \<open>unmarshalBinaryAt\<close>, its step loop and its co-input loop; \<open>dec\<close> decodes a
  nested encoding.
\<close>

definition read_co_path :: "(bytes \<Rightarrow> proof_path result) \<Rightarrow> bytes \<Rightarrow> (proof_path \<times> bytes) result" where
  "read_co_path dec r =
     wrap_with (\<lambda>e. Wrapf ''step co-input path: '' e [])
       (and_then (read_path_bytes max_path_size ''co-input path'' r) (\<lambda>(blob, r1).
        and_then (dec blob) (\<lambda>p. Inr (p, r1))))"

definition read_step :: "(bytes \<Rightarrow> proof_path result) \<Rightarrow> bytes \<Rightarrow> (path_step \<times> bytes) result" where
  "read_step dec r =
     and_then (wrap_with (\<lambda>e. Wrapf ''step: '' e [])
                 (read_path_bytes max_step_size ''transition proof'' r)) (\<lambda>(proof, r1).
     and_then (read_uint16 ''step co-input path count'' r1) (\<lambda>(co_path_count, r2).
       if co_path_count > max_step_co_paths
       then Inl (invalid_path ''step has too many co-input paths'')
       else and_then (read_n (read_co_path dec) co_path_count r2) (\<lambda>(co_paths, r3).
         Inr (Step proof co_paths, r3))))"

definition decode_body :: "(bytes \<Rightarrow> proof_path result) \<Rightarrow> bytes \<Rightarrow> proof_path result" where
  "decode_body dec body =
     (let magic = take (length path_magic) body; r0 = drop (length path_magic) body in
      if magic \<noteq> path_magic then Inl (invalid_path ''invalid magic'')
      else and_then (read_uint16 ''format'' r0) (\<lambda>(format, r1).
        if format \<noteq> path_format then Inl (Wrapf [] (Sentinel ErrAssetProofPathUnknownFormat) '': '')
        else
        and_then (read_path_bytes max_confirmed_proof_size ''confirmed base proof'' r1) (\<lambda>(base, r2).
        and_then (read_uint16 ''step count'' r2) (\<lambda>(step_count, r3).
          if step_count > max_depth then Inl (invalid_path ''path depth exceeds limit'')
          else and_then (read_n (read_step dec) step_count r3) (\<lambda>(steps, r4).
            if r4 \<noteq> [] then Inl (invalid_path ''trailing bytes'') else Inr (Path base steps))))))"

text \<open>\<open>unmarshalBinaryAt\<close>: the depth is checked before anything is parsed, so the recursion ends.\<close>

function unmarshal_binary_at :: "(bytes \<Rightarrow> bytes) \<Rightarrow> bytes \<Rightarrow> nat \<Rightarrow> proof_path result" where
  "unmarshal_binary_at sha encoded depth =
     (if depth > max_co_path_depth then Inl (invalid_path ''co-input path depth exceeds limit'')
      else if length encoded > max_path_size then Inl (invalid_path ''encoded path exceeds limit'')
      else if length encoded < path_header_size + checksum_size
      then Inl (invalid_path ''truncated encoding'')
      else
        (let body_end = length encoded - checksum_size; body = take body_end encoded in
         if sha body \<noteq> drop body_end encoded then Inl (invalid_path ''checksum mismatch'')
         else decode_body (\<lambda>blob. unmarshal_binary_at sha blob (Suc depth)) body))"
  by pat_completeness auto
termination
  by (relation "measure (\<lambda>(sha, encoded, depth). Suc max_co_path_depth - depth)") auto

declare unmarshal_binary_at.simps [simp del]

section \<open>Statistics\<close>

text \<open>\<open>coInputStats\<close>: how many co-input paths the tree holds and how deep they nest.\<close>

fun co_input_stats :: "proof_path \<Rightarrow> (nat \<times> nat) result"
and step_stats :: "path_step list \<Rightarrow> nat \<times> nat \<Rightarrow> (nat \<times> nat) result"
and co_path_stats :: "proof_path list \<Rightarrow> nat \<times> nat \<Rightarrow> (nat \<times> nat) result" where
  "co_input_stats Nil_path = Inl (Plain ''nil pointer dereference'')"
| "co_input_stats (Path base steps) = step_stats steps (0, 0)"
| "step_stats [] acc = Inr acc"
| "step_stats (Step proof co_paths # rest) acc =
     and_then (co_path_stats co_paths acc) (\<lambda>acc1. step_stats rest acc1)"
| "co_path_stats [] acc = Inr acc"
| "co_path_stats (co_path # rest) (seen, deepest) =
     and_then (co_input_stats co_path) (\<lambda>(nested_total, nested_depth).
       co_path_stats rest (seen + (1 + nested_total), max (nested_depth + 1) deepest))"

section \<open>What the limits admit\<close>

text \<open>
  The reference form of the checks: limits that hold at every level of the tree, with transition
  proofs of at least \<open>m\<close> bytes, and the size of the tree as \<open>validateShape\<close> counts it.
\<close>

fun within_limits :: "nat \<Rightarrow> nat \<Rightarrow> proof_path \<Rightarrow> bool"
and steps_within :: "nat \<Rightarrow> nat \<Rightarrow> path_step list \<Rightarrow> bool"
and co_paths_within :: "nat \<Rightarrow> nat \<Rightarrow> proof_path list \<Rightarrow> bool" where
  "within_limits m depth Nil_path = False"
| "within_limits m depth (Path base steps) =
     (depth \<le> max_co_path_depth \<and> base \<noteq> [] \<and> length base \<le> max_confirmed_proof_size \<and>
      length steps \<le> max_depth \<and> steps_within m depth steps)"
| "steps_within m depth [] = True"
| "steps_within m depth (Step proof co_paths # rest) =
     (m \<le> length proof \<and> length proof \<le> max_step_size \<and>
      length co_paths \<le> max_step_co_paths \<and> co_paths_within m depth co_paths \<and>
      steps_within m depth rest)"
| "co_paths_within m depth [] = True"
| "co_paths_within m depth (co_path # rest) =
     (within_limits m (Suc depth) co_path \<and> co_paths_within m depth rest)"

fun path_size :: "proof_path \<Rightarrow> nat"
and steps_size :: "path_step list \<Rightarrow> nat"
and co_paths_size :: "proof_path list \<Rightarrow> nat" where
  "path_size Nil_path = 0"
| "path_size (Path base steps) = path_header_size + checksum_size + length base + steps_size steps"
| "steps_size [] = 0"
| "steps_size (Step proof co_paths # rest) =
     4 + length proof + co_paths_size co_paths + steps_size rest"
| "co_paths_size [] = 0"
| "co_paths_size (co_path # rest) = 4 + path_size co_path + co_paths_size rest"

text \<open>The number of steps in the whole tree.\<close>

fun path_step_count :: "proof_path \<Rightarrow> nat"
and steps_count :: "path_step list \<Rightarrow> nat"
and co_paths_step_count :: "proof_path list \<Rightarrow> nat" where
  "path_step_count Nil_path = 0"
| "path_step_count (Path base steps) = steps_count steps"
| "steps_count [] = 0"
| "steps_count (Step proof co_paths # rest) =
     1 + co_paths_step_count co_paths + steps_count rest"
| "co_paths_step_count [] = 0"
| "co_paths_step_count (co_path # rest) = path_step_count co_path + co_paths_step_count rest"

text \<open>The running total stays far below \<open>2 ^ 64\<close>: adding to it does not wrap.\<close>

lemma total_add:
  fixes t :: u64
  assumes "unat t \<le> max_path_size + 4" and "n \<le> 2 ^ 32"
  shows "unat (t + of_nat n) = unat t + n"
    and "t + of_nat n > of_nat max_path_size \<longleftrightarrow> unat t + n > max_path_size"
proof -
  have n: "unat (of_nat n :: u64) = n"
    using assms(2) by (intro unat_of_nat_u64) simp
  have lt: "unat t + unat (of_nat n :: u64) < 2 ^ LENGTH(64)"
    using assms by (simp only: n) (simp add: limit_defs)
  show sum: "unat (t + of_nat n) = unat t + n"
    using lt by (simp only: unat_add_lem [THEN iffD1, OF lt] n)
  have m: "unat (of_nat max_path_size :: u64) = max_path_size"
    by (intro unat_of_nat_u64) (simp add: limit_defs)
  show "t + of_nat n > of_nat max_path_size \<longleftrightarrow> unat t + n > max_path_size"
    by (simp only: word_less_nat_alt sum m)
qed

lemma path_size_pos: "within_limits m d p \<Longrightarrow> 48 \<le> path_size p"
  by (cases p) (simp_all add: limit_defs)

text \<open>Two counting loops in a row count the sum.\<close>

lemma counted_seq:
  fixes u :: u64 and f :: "'e + u64" and g :: "u64 \<Rightarrow> 'e + u64"
  assumes f: "\<And>v. f = Inr v \<longleftrightarrow> P \<and> a + x \<le> max_path_size \<and> unat v = a + x"
    and g: "\<And>v. unat v \<le> max_path_size \<Longrightarrow>
      g v = Inr u \<longleftrightarrow> Q \<and> unat v + y \<le> max_path_size \<and> unat u = unat v + y"
  shows "and_then f g = Inr u \<longleftrightarrow> P \<and> Q \<and> a + x + y \<le> max_path_size \<and> unat u = a + x + y"
proof
  assume "and_then f g = Inr u"
  then obtain v where v: "f = Inr v" and u: "g v = Inr u" by (auto simp: result_simps)
  with f have "unat v = a + x" "a + x \<le> max_path_size" P by auto
  with g [of v] u show "P \<and> Q \<and> a + x + y \<le> max_path_size \<and> unat u = a + x + y" by simp
next
  assume r: "P \<and> Q \<and> a + x + y \<le> max_path_size \<and> unat u = a + x + y"
  define v :: u64 where "v = of_nat (a + x)"
  have "a + x < 2 ^ 64" using r by (simp add: limit_defs)
  then have v: "unat v = a + x" unfolding v_def by (rule unat_of_nat_u64)
  with r f have "f = Inr v" by simp
  moreover from r v g [of v] have "g v = Inr u" by simp
  ultimately show "and_then f g = Inr u" by simp
qed

text \<open>Each loop accepts exactly what the limits admit, and returns the size it has added.\<close>

lemma validate_shape_aux:
  "unat t \<le> max_path_size + 4 \<Longrightarrow>
     validate_shape d p t = Inr u \<longleftrightarrow>
       within_limits 0 d p \<and> unat t + path_size p \<le> max_path_size \<and> unat u = unat t + path_size p"
  "unat t \<le> max_path_size \<Longrightarrow>
     validate_shape_steps d ss t = Inr u \<longleftrightarrow>
       steps_within 0 d ss \<and> unat t + steps_size ss \<le> max_path_size \<and> unat u = unat t + steps_size ss"
  "unat t \<le> max_path_size \<Longrightarrow>
     validate_shape_co_paths d cs t = Inr u \<longleftrightarrow>
       co_paths_within 0 d cs \<and> unat t + co_paths_size cs \<le> max_path_size \<and>
       unat u = unat t + co_paths_size cs"
proof (induction d p t and d ss t and d cs t arbitrary: u and u and u
    rule: validate_shape_validate_shape_steps_validate_shape_co_paths.induct)
  case (1 depth t)
  then show ?case by simp
next
  case (2 depth base steps t)
  define n where "n = path_header_size + checksum_size + length base"
  show ?case
  proof (cases "depth \<le> max_co_path_depth \<and> base \<noteq> [] \<and> length base \<le> max_confirmed_proof_size \<and>
      length steps \<le> max_depth")
    case False
    then show ?thesis by (auto simp: Let_def)
  next
    case True
    then have "n \<le> 2 ^ 32" by (simp add: n_def limit_defs)
    note add = total_add [OF "2.prems" this]
    show ?thesis
    proof (cases "unat t + n \<le> max_path_size")
      case False
      with True show ?thesis
        by (simp add: Let_def not_less add(2) flip: n_def)
    next
      case fits: True
      have "validate_shape depth (Path base steps) t = validate_shape_steps depth steps (t + of_nat n)"
        using True fits by (simp add: Let_def not_less add(2) flip: n_def)
      moreover have "validate_shape_steps depth steps (t + of_nat n) = Inr u \<longleftrightarrow>
          steps_within 0 depth steps \<and> unat (t + of_nat n) + steps_size steps \<le> max_path_size \<and>
          unat u = unat (t + of_nat n) + steps_size steps"
        using True fits add by (intro "2.IH") (simp_all add: n_def not_less)
      ultimately show ?thesis using True add(1) by (auto simp: n_def)
    qed
  qed
next
  case (3 depth t)
  then show ?case by (auto simp: word_unat_eq_iff)
next
  case (4 depth tp co_paths rest t)
  define n where "n = 4 + length tp"
  show ?case
  proof (cases "length tp \<le> max_step_size \<and> length co_paths \<le> max_step_co_paths")
    case False
    then show ?thesis by (auto simp: Let_def)
  next
    case True
    then have n: "n \<le> 2 ^ 32" by (simp add: n_def limit_defs)
    have "unat t \<le> max_path_size + 4" using "4.prems" by simp
    note add = total_add [OF this n]
    show ?thesis
    proof (cases "unat t + n \<le> max_path_size")
      case False
      with True show ?thesis by (simp add: Let_def not_less add(2) flip: n_def)
    next
      case fits: True
      have "and_then (validate_shape_co_paths depth co_paths (t + of_nat n)) (validate_shape_steps depth rest)
          = Inr u \<longleftrightarrow> co_paths_within 0 depth co_paths \<and> steps_within 0 depth rest \<and>
            unat t + n + co_paths_size co_paths + steps_size rest \<le> max_path_size \<and>
            unat u = unat t + n + co_paths_size co_paths + steps_size rest"
        using "4.IH" [OF _ refl] True fits add
        by (intro counted_seq) (simp_all add: n_def not_less)
      with True fits show ?thesis
        by (simp add: Let_def not_less add(2) flip: n_def) (auto simp: n_def)
    qed
  qed
next
  case (5 depth t)
  then show ?case by (auto simp: word_unat_eq_iff)
next
  case (6 depth co_path rest t)
  have n: "(4::nat) \<le> 2 ^ 32" by simp
  have "unat t \<le> max_path_size + 4" using "6.prems" by simp
  note add = total_add [OF this n]
  have "and_then (wrap_with (\<lambda>e. Wrapf ''step co-input path: '' e []) (validate_shape (Suc depth) co_path (t + 4)))
      (validate_shape_co_paths depth rest) = Inr u \<longleftrightarrow>
        within_limits 0 (Suc depth) co_path \<and> co_paths_within 0 depth rest \<and>
        (unat t + 4) + path_size co_path + co_paths_size rest \<le> max_path_size \<and>
        unat u = (unat t + 4) + path_size co_path + co_paths_size rest"
    using "6.IH" "6.prems" add(1) by (intro counted_seq) simp_all
  then show ?case by (simp add: add.assoc)
qed

section \<open>The encoding and its inverse\<close>

definition digest32 :: "(bytes \<Rightarrow> bytes) \<Rightarrow> bool" where
  "digest32 sha \<longleftrightarrow> (\<forall>bs. length (sha bs) = 32)"

lemma digest32D [simp]: "digest32 sha \<Longrightarrow> length (sha bs) = 32"
  by (simp add: digest32_def)

lemma length_write_path_bytes [simp]: "length (write_path_bytes v) = 4 + length v"
  by (simp add: write_path_bytes_def)

text \<open>What is read was written, and nothing else was.\<close>

lemma read_path_bytes_eq_Inr [result_simps]:
  assumes "maximum < 2 ^ 32"
  shows "read_path_bytes maximum label r = Inr (v, rest) \<longleftrightarrow>
    r = write_path_bytes v @ rest \<and> v \<noteq> [] \<and> length v \<le> maximum"
proof
  assume "read_path_bytes maximum label r = Inr (v, rest)"
  then obtain h r1 where r: "r = h @ r1" and h: "length h = 4"
    and v: "v = take (be_nat h) r1" "rest = drop (be_nat h) r1"
    and len: "be_nat h \<noteq> 0" "be_nat h \<le> maximum" "be_nat h \<le> length r1"
    by (auto simp: read_path_bytes_def result_simps Let_def split: if_splits)
  have "be_bytes 4 (be_nat h) = h"
    using be_bytes_be_nat [of h] by (simp only: h)
  moreover have "length v = be_nat h" using v len by simp
  ultimately show "r = write_path_bytes v @ rest \<and> v \<noteq> [] \<and> length v \<le> maximum"
    using r v len by (auto simp: write_path_bytes_def)
next
  assume "r = write_path_bytes v @ rest \<and> v \<noteq> [] \<and> length v \<le> maximum"
  with assms show "read_path_bytes maximum label r = Inr (v, rest)"
    by (simp add: read_path_bytes_def write_path_bytes_def read_full_append be_nat_be_bytes)
qed

text \<open>The entries of a path are therefore prefix-free on the wire.\<close>

interpretation path_entry: exact_codec
    "\<lambda>v e. e = write_path_bytes v \<and> v \<noteq> [] \<and> length v \<le> max_step_size" "read_path_bytes max_step_size label"
  for label :: string
  by unfold_locales (auto simp: read_path_bytes_eq_Inr max_step_size_def)

lemma read_uint16_eq_Inr [result_simps]:
  "read_uint16 what r = Inr (n, rest) \<longleftrightarrow> n < 2 ^ 16 \<and> r = be_bytes 2 n @ rest"
proof
  assume "read_uint16 what r = Inr (n, rest)"
  then obtain h where r: "r = h @ rest" and h: "length h = 2" and n: "n = be_nat h"
    by (auto simp: read_uint16_def result_simps)
  have "be_bytes 2 (be_nat h) = h"
    using be_bytes_be_nat [of h] by (simp only: h)
  with r n be_nat_less [of h] h show "n < 2 ^ 16 \<and> r = be_bytes 2 n @ rest" by simp
next
  assume "n < 2 ^ 16 \<and> r = be_bytes 2 n @ rest"
  then show "read_uint16 what r = Inr (n, rest)"
    by (simp add: read_uint16_def read_full_append be_nat_be_bytes)
qed

text \<open>The size of an encoding: what \<open>validateShape\<close> counts and two bytes for every step.\<close>

lemma marshal_size_aux:
  assumes "digest32 sha"
  shows "marshal_body sha p = Inr bs \<Longrightarrow> length bs + 32 = path_size p + 2 * path_step_count p"
    and "marshal_steps sha ss = Inr bs \<Longrightarrow> length bs = steps_size ss + 2 * steps_count ss"
    and "marshal_co_paths sha cs = Inr bs \<Longrightarrow> length bs = co_paths_size cs + 2 * co_paths_step_count cs"
  using assms
proof (induction sha p and sha ss and sha cs arbitrary: bs and bs and bs
    rule: marshal_body_marshal_steps_marshal_co_paths.induct)
  case (4 sha tp co_paths rest)
  then show ?case by (fastforce simp: result_simps)
next
  case (6 sha co_path rest)
  from "6.prems"(1) obtain body cs where
    body: "marshal_body sha co_path = Inr body" and cs: "marshal_co_paths sha rest = Inr cs"
    and bs: "bs = write_path_bytes (body @ sha body) @ cs"
    by (auto simp: result_simps)
  from "6.IH"(1) [OF body "6.prems"(2)] "6.IH"(2) [OF cs "6.prems"(2)] bs "6.prems"(2)
  show ?case by simp
qed (auto simp: result_simps limit_defs)

lemma encode_path_size:
  "digest32 sha \<Longrightarrow> encode_path sha p = Inr enc \<Longrightarrow> length enc = path_size p + 2 * path_step_count p"
  using marshal_size_aux(1) [of sha p] by (fastforce simp: encode_path_def result_simps)

text \<open>A path without nil pointers has an encoding.\<close>

lemma marshal_total_aux:
  "within_limits m d p \<Longrightarrow> \<exists>bs. marshal_body sha p = Inr bs"
  "steps_within m d ss \<Longrightarrow> \<exists>bs. marshal_steps sha ss = Inr bs"
  "co_paths_within m d cs \<Longrightarrow> \<exists>bs. marshal_co_paths sha cs = Inr bs"
  by (induction sha p and sha ss and sha cs arbitrary: d and d and d
      rule: marshal_body_marshal_steps_marshal_co_paths.induct) fastforce+

text \<open>
  What one co-input path, one step and one path look like on the wire, within the limits of
  their level.
\<close>

definition path_wire :: "(bytes \<Rightarrow> bytes) \<Rightarrow> nat \<Rightarrow> proof_path \<Rightarrow> bytes \<Rightarrow> bool" where
  "path_wire sha d p enc \<longleftrightarrow>
     within_limits 1 d p \<and> encode_path sha p = Inr enc \<and> length enc \<le> max_path_size"

definition co_path_wire :: "(bytes \<Rightarrow> bytes) \<Rightarrow> nat \<Rightarrow> proof_path \<Rightarrow> bytes \<Rightarrow> bool" where
  "co_path_wire sha d p e \<longleftrightarrow> (\<exists>blob. path_wire sha (Suc d) p blob \<and> e = write_path_bytes blob)"

definition step_wire :: "(bytes \<Rightarrow> bytes) \<Rightarrow> nat \<Rightarrow> path_step \<Rightarrow> bytes \<Rightarrow> bool" where
  "step_wire sha d s e \<longleftrightarrow>
     (case s of Step tp cs \<Rightarrow> tp \<noteq> [] \<and> length tp \<le> max_step_size \<and> length cs \<le> max_step_co_paths \<and>
        (\<exists>es. list_all2 (co_path_wire sha d) cs es \<and>
              e = write_path_bytes tp @ be_bytes 2 (length cs) @ concat es))"

lemma limits_small [simp]:
  "max_confirmed_proof_size < 4294967296" "max_step_size < 4294967296" "max_path_size < 4294967296"
  "n \<le> max_step_co_paths \<Longrightarrow> n < 65536" "n \<le> max_depth \<Longrightarrow> n < 65536"
  by (simp_all add: limit_defs)

lemma path_wire_nonempty: "digest32 sha \<Longrightarrow> path_wire sha d p e \<Longrightarrow> e \<noteq> []"
  using encode_path_size [of sha p e] path_size_pos [of 1 d p]
  by (auto simp: path_wire_def)

lemma read_co_path_exact:
  assumes "digest32 sha" and "\<And>blob p. dec blob = Inr p \<longleftrightarrow> path_wire sha (Suc d) p blob"
  shows "exact_codec (co_path_wire sha d) (read_co_path dec)"
proof
  fix r p rest
  have "read_co_path dec r = Inr (p, rest) \<longleftrightarrow>
      (\<exists>blob. r = write_path_bytes blob @ rest \<and> blob \<noteq> [] \<and> length blob \<le> max_path_size \<and>
              dec blob = Inr p)"
    by (fastforce simp: read_co_path_def result_simps)
  also have "\<dots> \<longleftrightarrow> (\<exists>e. co_path_wire sha d p e \<and> r = e @ rest)"
    using path_wire_nonempty [OF assms(1)] by (auto simp: assms(2) co_path_wire_def path_wire_def)
  finally show "read_co_path dec r = Inr (p, rest) \<longleftrightarrow> (\<exists>e. co_path_wire sha d p e \<and> r = e @ rest)" .
qed

lemma read_step_exact:
  assumes "digest32 sha" and "\<And>blob p. dec blob = Inr p \<longleftrightarrow> path_wire sha (Suc d) p blob"
  shows "exact_codec (step_wire sha d) (read_step dec)"
proof
  fix r s rest
  note cos = exact_codec.read_n_iff [OF read_co_path_exact [OF assms]]
  obtain tp cs where s: "s = Step tp cs" by (cases s)
  have "read_step dec r = Inr (s, rest) \<longleftrightarrow>
      (\<exists>n r2. r = write_path_bytes tp @ be_bytes 2 n @ r2 \<and> tp \<noteq> [] \<and> length tp \<le> max_step_size \<and>
        n \<le> max_step_co_paths \<and> read_n (read_co_path dec) n r2 = Inr (cs, rest))"
    by (auto simp: read_step_def s result_simps not_less) (blast intro: limits_small(4))
  also have "\<dots> \<longleftrightarrow> (\<exists>es. r = write_path_bytes tp @ be_bytes 2 (length cs) @ concat es @ rest \<and>
      tp \<noteq> [] \<and> length tp \<le> max_step_size \<and> length cs \<le> max_step_co_paths \<and>
      list_all2 (co_path_wire sha d) cs es)"
    by (auto simp: cos)
  also have "\<dots> \<longleftrightarrow> (\<exists>e. step_wire sha d s e \<and> r = e @ rest)"
    by (auto simp: step_wire_def s)
  finally show "read_step dec r = Inr (s, rest) \<longleftrightarrow> (\<exists>e. step_wire sha d s e \<and> r = e @ rest)" .
qed

lemma decode_body_eq_Inr:
  assumes "digest32 sha" and "\<And>blob p. dec blob = Inr p \<longleftrightarrow> path_wire sha (Suc d) p blob"
  shows "decode_body dec body = Inr p \<longleftrightarrow>
    (\<exists>base ss es. p = Path base ss \<and> base \<noteq> [] \<and> length base \<le> max_confirmed_proof_size \<and>
       length ss \<le> max_depth \<and> list_all2 (step_wire sha d) ss es \<and>
       body = path_magic @ be_bytes 2 path_format @ write_path_bytes base @ be_bytes 2 (length ss) @ concat es)"
proof -
  note steps = exact_codec.read_n_iff [OF read_step_exact [OF assms]]
  have magic: "take (length path_magic) body = path_magic \<and> drop (length path_magic) body = r0 \<longleftrightarrow>
      body = path_magic @ r0" for r0
    by (metis append_take_drop_id append_eq_conv_conj)
  have "decode_body dec body = Inr p \<longleftrightarrow>
      (\<exists>r0 r1 r2 r3 base n ss. body = path_magic @ r0 \<and> r0 = be_bytes 2 path_format @ r1 \<and>
         r1 = write_path_bytes base @ r2 \<and> base \<noteq> [] \<and> length base \<le> max_confirmed_proof_size \<and>
         r2 = be_bytes 2 n @ r3 \<and> n \<le> max_depth \<and> read_n (read_step dec) n r3 = Inr (ss, []) \<and>
         p = Path base ss)" (is "?l \<longleftrightarrow> ?r")
  proof
    assume ?l
    then show ?r
      unfolding magic [symmetric] decode_body_def Let_def
      by (auto simp: result_simps not_less split: if_splits) blast
  next
    assume ?r
    then show ?l
      by (auto simp: decode_body_def Let_def result_simps not_less limits_small(5) path_format_def)
        (blast intro: limits_small(5))
  qed
  also have "\<dots> \<longleftrightarrow> (\<exists>base ss es. p = Path base ss \<and> base \<noteq> [] \<and>
      length base \<le> max_confirmed_proof_size \<and> length ss \<le> max_depth \<and>
      list_all2 (step_wire sha d) ss es \<and>
      body = path_magic @ be_bytes 2 path_format @ write_path_bytes base @ be_bytes 2 (length ss) @ concat es)"
    by (auto simp: steps)
  finally show ?thesis .
qed

text \<open>From the wire of the parts to the encoder, and back.\<close>

lemma co_paths_wire:
  "list_all2 (co_path_wire sha d) cs es \<Longrightarrow>
     co_paths_within 1 d cs \<and> marshal_co_paths sha cs = Inr (concat es)"
  by (induction cs es rule: list_all2_induct)
    (auto simp: co_path_wire_def path_wire_def encode_path_def result_simps)

lemma steps_wire:
  "list_all2 (step_wire sha d) ss es \<Longrightarrow>
     steps_within 1 d ss \<and> marshal_steps sha ss = Inr (concat es)"
proof (induction ss es rule: list_all2_induct)
  case Nil
  then show ?case by simp
next
  case (Cons s ss e es)
  obtain tp cs where s: "s = Step tp cs" by (cases s)
  from Cons.hyps(1) obtain fs where
    fs: "list_all2 (co_path_wire sha d) cs fs"
    and e: "e = write_path_bytes tp @ be_bytes 2 (length cs) @ concat fs"
    and tp: "tp \<noteq> []" "length tp \<le> max_step_size" "length cs \<le> max_step_co_paths"
    by (auto simp: step_wire_def s)
  from co_paths_wire [OF fs] Cons.IH e tp show ?case
    by (auto simp: s Suc_le_eq)
qed

lemma wire_Cons:
  "R x e \<Longrightarrow> \<exists>es. list_all2 R xs es \<and> bs = concat es \<Longrightarrow>
     \<exists>es. list_all2 R (x # xs) es \<and> e @ bs = concat es"
  by (metis concat.simps(2) list_all2_Cons)

lemma wire_of_co_paths:
  assumes "marshal_co_paths sha cs = Inr bs" and "co_paths_within 1 d cs" and "length bs \<le> max_path_size"
  shows "\<exists>es. list_all2 (co_path_wire sha d) cs es \<and> bs = concat es"
  using assms
proof (induction cs arbitrary: bs)
  case Nil
  then show ?case by simp
next
  case (Cons c cs)
  from Cons.prems(1) obtain body bs' where
    body: "marshal_body sha c = Inr body" and bs': "marshal_co_paths sha cs = Inr bs'"
    and bs: "bs = write_path_bytes (body @ sha body) @ bs'"
    by (auto simp: result_simps)
  have "co_path_wire sha d c (write_path_bytes (body @ sha body))"
    using Cons.prems(2,3) body bs by (auto simp: co_path_wire_def path_wire_def encode_path_def)
  moreover have "\<exists>es. list_all2 (co_path_wire sha d) cs es \<and> bs' = concat es"
    using Cons.IH [OF bs'] Cons.prems(2,3) bs by simp
  ultimately show ?case unfolding bs by (rule wire_Cons)
qed

lemma wire_of_steps:
  assumes "marshal_steps sha ss = Inr bs" and "steps_within 1 d ss" and "length bs \<le> max_path_size"
  shows "\<exists>es. list_all2 (step_wire sha d) ss es \<and> bs = concat es"
  using assms
proof (induction ss arbitrary: bs)
  case Nil
  then show ?case by simp
next
  case (Cons s ss)
  obtain tp cs where s: "s = Step tp cs" by (cases s)
  from Cons.prems(1) obtain bcs bss where
    bcs: "marshal_co_paths sha cs = Inr bcs" and bss: "marshal_steps sha ss = Inr bss"
    and bs: "bs = write_path_bytes tp @ be_bytes 2 (length cs) @ bcs @ bss"
    by (auto simp: s result_simps)
  obtain fs where "list_all2 (co_path_wire sha d) cs fs" "bcs = concat fs"
    using wire_of_co_paths [OF bcs] Cons.prems(2,3) bs by (auto simp: s)
  then have "step_wire sha d s (write_path_bytes tp @ be_bytes 2 (length cs) @ bcs)"
    using Cons.prems(2) by (auto simp: step_wire_def s)
  moreover have "\<exists>es. list_all2 (step_wire sha d) ss es \<and> bss = concat es"
    using Cons.IH [OF bss] Cons.prems(2,3) bs by (simp add: s)
  ultimately have "\<exists>es. list_all2 (step_wire sha d) (s # ss) es \<and>
      (write_path_bytes tp @ be_bytes 2 (length cs) @ bcs) @ bss = concat es"
    by (rule wire_Cons)
  then show ?case by (simp add: bs)
qed

lemma path_wire_Path:
  assumes "digest32 sha"
  shows "path_wire sha d (Path base ss) enc \<longleftrightarrow>
    d \<le> max_co_path_depth \<and> base \<noteq> [] \<and> length base \<le> max_confirmed_proof_size \<and>
    length ss \<le> max_depth \<and> length enc \<le> max_path_size \<and>
    (\<exists>body. enc = body @ sha body \<and> (\<exists>es. list_all2 (step_wire sha d) ss es \<and>
       body = path_magic @ be_bytes 2 path_format @ write_path_bytes base @ be_bytes 2 (length ss) @ concat es))"
    (is "?l \<longleftrightarrow> ?r")
proof
  assume ?l
  then obtain bs body where bs: "marshal_steps sha ss = Inr bs" and enc: "enc = body @ sha body"
    and body: "body = path_magic @ be_bytes 2 path_format @ write_path_bytes base @ be_bytes 2 (length ss) @ bs"
    and lims: "d \<le> max_co_path_depth" "base \<noteq> []" "length base \<le> max_confirmed_proof_size"
      "length ss \<le> max_depth" "length enc \<le> max_path_size" "steps_within 1 d ss"
    by (auto simp: path_wire_def encode_path_def result_simps)
  have "length bs \<le> max_path_size" using lims(5) by (simp add: enc body)
  from wire_of_steps [OF bs lims(6) this] obtain es where
    es: "list_all2 (step_wire sha d) ss es" "bs = concat es" by blast
  from enc body [unfolded es(2)] es(1) lims show ?r by blast
next
  assume ?r
  then show ?l
    by (auto simp: path_wire_def encode_path_def dest!: steps_wire)
qed

lemma split_checksum:
  assumes "length enc \<ge> checksum_size" and "length dig = 32"
  shows "take (length enc - checksum_size) enc = body \<and> drop (length enc - checksum_size) enc = dig
    \<longleftrightarrow> enc = body @ dig"
  using assms by (auto simp: checksum_size_def)

lemma unmarshal_exact:
  assumes sha: "digest32 sha"
  shows "unmarshal_binary_at sha enc d = Inr p \<longleftrightarrow> path_wire sha d p enc"
proof (induction "Suc max_co_path_depth - d" arbitrary: d enc p)
  case 0
  then have "max_co_path_depth < d" by simp
  moreover then have "\<not> path_wire sha d p enc" by (cases p) (simp_all add: path_wire_def)
  ultimately show ?case by (simp add: unmarshal_binary_at.simps)
next
  case (Suc k)
  then have d: "\<not> d > max_co_path_depth" by simp
  have IH: "unmarshal_binary_at sha blob (Suc d) = Inr q \<longleftrightarrow> path_wire sha (Suc d) q blob" for blob q
    using Suc.hyps by (intro Suc.hyps(1)) simp
  note body = decode_body_eq_Inr [of sha "\<lambda>blob. unmarshal_binary_at sha blob (Suc d)", OF sha IH]
  have long: "48 \<le> length enc" if "path_wire sha d p enc"
    using that encode_path_size [OF sha] path_size_pos [of 1 d p]
    by (fastforce simp: path_wire_def)
  have "unmarshal_binary_at sha enc d = Inr p \<longleftrightarrow>
      length enc \<le> max_path_size \<and> 48 \<le> length enc \<and>
      (\<exists>bd. enc = bd @ sha bd \<and>
        decode_body (\<lambda>blob. unmarshal_binary_at sha blob (Suc d)) bd = Inr p)" (is "?l \<longleftrightarrow> ?r")
  proof
    assume ?l
    with d sha show ?r
      by (subst (asm) unmarshal_binary_at.simps)
        (auto simp: Let_def limit_defs not_less split: if_splits intro!: exI)
  next
    assume ?r
    with d sha show ?l
      by (subst unmarshal_binary_at.simps) (auto simp: Let_def limit_defs)
  qed
  also have "\<dots> \<longleftrightarrow> path_wire sha d p enc"
  proof (cases p)
    case Nil_path
    then show ?thesis by (simp add: body path_wire_def)
  next
    case (Path base ss)
    have "(\<exists>bd. enc = bd @ sha bd \<and>
          decode_body (\<lambda>blob. unmarshal_binary_at sha blob (Suc d)) bd = Inr p) \<and>
        length enc \<le> max_path_size \<longleftrightarrow> path_wire sha d p enc"
      unfolding Path body path_wire_Path [OF sha] proof_path.inject using d not_less by blast
    with long show ?thesis by blast
  qed
  finally show ?case .
qed

end
