(* ===== verification/Tap_PathVerify.thy ===== *)
theory Tap_PathVerify
  imports Tap_ProofPath Tap_Client
begin

text \<open>
  The content checks and the local verification of asset proof paths
  (\<open>custom_anchor_proof_path.go\<close>), and the assembly of a confirmed proof file
  (\<open>custom_anchor_proof_confirm.go\<close>).

  Proofs, assets and proof files are types of taproot-assets. Of a proof and an asset the model
  has the fields the SDK reads; what their packages compute is a function of the record
  \<open>native_lib\<close>, which extends \<open>lib\<close>. A commitment is carried as bytes and never looked into.
\<close>

section \<open>Native proofs\<close>

text \<open>
  \<open>asset.Asset\<close> and \<open>asset.Witness\<close>. A witness of a split output holds the root asset of the
  split, so the types are mutually recursive.
\<close>

datatype ('k, 'g) native_asset =
  Native_asset (na_version: byte) (na_type: byte) (na_genesis: bytes) (na_amount: u64)
    (na_lock_time: u64) (na_relative_lock_time: u64) (na_script_key: "'k option")
    (na_group_key: "'g option") (na_prev_witnesses: "('k, 'g) native_witness list")
and ('k, 'g) native_witness =
  Native_witness (nw_prev_id: "prev_id option") (nw_tx_witness: "bytes list")
    (nw_split_root: "('k, 'g) native_asset option")

record ('k, 'g, 'f) native_proof =
  np_version :: u32
  np_asset :: "('k, 'g) native_asset"
  np_prev_out :: outpoint
  np_anchor_inputs :: "outpoint option list"
  np_anchor_outputs :: "tx_out option list"
  np_output_index :: u32
  np_internal_key :: "'k option"
  np_commitment_version :: "byte option"
  np_sibling :: "bytes option"
  np_alt_leaves :: "bytes list"
  np_additional_inputs :: "'f list"
  np_has_challenge_witness :: bool
  np_has_split_root_proof :: bool
  np_block_header :: bytes
  np_block_height :: u32
  np_tx_merkle_proof :: bytes

text \<open>\<open>proof.AssetSnapshot\<close>: the verified asset and where it is anchored.\<close>

record ('k, 'g) snapshot =
  sn_asset :: "('k, 'g) native_asset"
  sn_out_point :: outpoint

record ('k, 'g, 'f) native_lib = "'k lib" +
  nl_sha256 :: "bytes \<Rightarrow> bytes"
  nl_asset_v1 :: byte
  nl_transition_v1 :: u32
  nl_type_normal :: byte
  nl_type_collectible :: byte
  nl_decode_file :: "bytes \<Rightarrow> 'f result"
  nl_last_proof :: "'f \<Rightarrow> ('k, 'g, 'f) native_proof result"
  nl_decode_proof :: "bytes \<Rightarrow> ('k, 'g, 'f) native_proof result"
  nl_asset_validate :: "('k, 'g) native_asset \<Rightarrow> unit result"
  nl_asset_id :: "('k, 'g) native_asset \<Rightarrow> bytes"
  nl_is_genesis_asset :: "('k, 'g) native_asset \<Rightarrow> bool"
  nl_has_split_witness :: "('k, 'g) native_asset \<Rightarrow> bool"
  nl_check_activation :: "('k, 'g, 'f) native_proof \<Rightarrow> unit result"
  nl_out_point :: "('k, 'g, 'f) native_proof \<Rightarrow> outpoint"
  nl_group_is_equal :: "'g option \<Rightarrow> 'g option \<Rightarrow> bool"
  nl_group_pub_key :: "'g \<Rightarrow> 'k"
  nl_key_is_equal :: "'k \<Rightarrow> 'k \<Rightarrow> bool"
  nl_serialize_anchor_tx :: "('k, 'g, 'f) native_proof \<Rightarrow> bytes result"
  nl_verify :: "('k, 'g, 'f) native_proof \<Rightarrow> ('k, 'g) snapshot \<Rightarrow> ('k option \<Rightarrow> unit result) \<Rightarrow> bool \<Rightarrow>
    ('k, 'g) snapshot result"
  nl_append_proof :: "'f \<Rightarrow> ('k, 'g, 'f) native_proof \<Rightarrow> 'f result"
  nl_new_asset_commitment :: "('k, 'g) native_asset \<Rightarrow> bytes result"
  nl_new_tap_commitment :: "byte \<Rightarrow> bytes \<Rightarrow> bytes result"
  nl_valid_alt_leaves :: "bytes list \<Rightarrow> unit result"
  nl_merge_alt_leaves :: "bytes \<Rightarrow> bytes list \<Rightarrow> bytes result"
  nl_sibling_tap_hash :: "bytes \<Rightarrow> bytes result"
  nl_tapscript_root :: "bytes \<Rightarrow> bytes option \<Rightarrow> bytes"
  nl_pay_to_taproot_script :: "'k \<Rightarrow> bytes result"
  nl_anchor_txid :: "('k, 'g, 'f) native_proof \<Rightarrow> bytes"
  nl_deserialize_block :: "bytes \<Rightarrow> (bytes \<times> bytes list) result"
  nl_new_tx_merkle_proof :: "bytes list \<Rightarrow> nat \<Rightarrow> bytes result"
  nl_proof_bytes :: "('k, 'g, 'f) native_proof \<Rightarrow> bytes result"
  nl_append_proof_raw :: "'f \<Rightarrow> bytes \<Rightarrow> 'f result"
  nl_encode_file :: "'f \<Rightarrow> bytes result"
  nl_file_max_proof_size :: nat

text \<open>\<open>fmt.Errorf("%w: ...: %v", ErrAssetProofPathInvalid, err)\<close> around the error of a call.\<close>

definition as_invalid :: "string \<Rightarrow> 'a result \<Rightarrow> 'a result" where
  "as_invalid m r = wrap_with (\<lambda>_. invalid_path (m @ '': '')) r"

lemma as_invalid_simps [simp]:
  "as_invalid m (Inr x) = Inr x" "as_invalid m r = Inr y \<longleftrightarrow> r = Inr y"
  by (simp_all add: as_invalid_def)

section \<open>Content checks\<close>

definition decode_base :: "('k, 'g, 'f, 'z) native_lib_scheme \<Rightarrow> bytes \<Rightarrow> ('k, 'g, 'f) native_proof result" where
  "decode_base N raw_proof_file =
     and_then (as_invalid ''decode confirmed base proof'' (nl_decode_file N raw_proof_file)) (\<lambda>proof_file.
     and_then (as_invalid ''read confirmed base proof tip'' (nl_last_proof N proof_file)) (\<lambda>base_proof.
     and_then (as_invalid ''validate confirmed base asset'' (nl_asset_validate N (np_asset base_proof))) (\<lambda>_.
       Inr base_proof)))"

text \<open>
  The witnesses that authorise a transition: those of the asset, or those of the root asset for
  a split output. \<open>decodeAssetProofPathStep\<close> checks the root asset on the way.
\<close>

definition step_witnesses ::
    "('k, 'g, 'f, 'z) native_lib_scheme \<Rightarrow> ('k, 'g, 'f) native_proof \<Rightarrow> ('k, 'g) native_witness list result" where
  "step_witnesses N t =
     (if nl_has_split_witness N (np_asset t)
      then if \<not> np_has_split_root_proof t
           then Inl (invalid_path ''split output proof is missing its root proof'')
           else
             (case na_prev_witnesses (np_asset t) of
                Native_witness _ _ (Some root) # _ \<Rightarrow>
                  (if na_version root \<noteq> nl_asset_v1 N
                   then Inl (invalid_path ''split root asset must be v1'')
                   else if na_lock_time root \<noteq> 0 \<or> na_relative_lock_time root \<noteq> 0
                   then Inl (invalid_path ''split root asset timelocks are unsupported'')
                   else and_then (as_invalid ''validate split root asset'' (nl_asset_validate N root))
                          (\<lambda>_. Inr (na_prev_witnesses root)))
              | _ \<Rightarrow> Inl (Plain ''nil pointer dereference''))
      else if np_has_split_root_proof t
      then Inl (invalid_path ''non-split transition has a split root proof'')
      else Inr (na_prev_witnesses (np_asset t)))"

text \<open>The loop over the witnesses: each is complete; those that spend \<open>prev\<close> are counted.\<close>

fun count_predecessors :: "outpoint \<Rightarrow> nat \<Rightarrow> ('k, 'g) native_witness list \<Rightarrow> nat result" where
  "count_predecessors prev n [] = Inr n"
| "count_predecessors prev n (Native_witness prev_id tx_witness split_root # ws) =
     (case prev_id of
        None \<Rightarrow> Inl (invalid_path ''asset witness is incomplete'')
      | Some pid \<Rightarrow>
          (if tx_witness = [] \<or> split_root \<noteq> None
           then Inl (invalid_path ''asset witness is incomplete'')
           else count_predecessors prev (if pid_outpoint pid = prev then n + 1 else n) ws))"

fun count_anchor_spends :: "outpoint \<Rightarrow> nat \<Rightarrow> outpoint option list \<Rightarrow> nat result" where
  "count_anchor_spends prev n [] = Inr n"
| "count_anchor_spends prev n (None # ins) = Inl (invalid_path ''anchor input is nil'')"
| "count_anchor_spends prev n (Some op # ins) =
     count_anchor_spends prev (if op = prev then n + 1 else n) ins"

text \<open>
  \<open>decodeAssetProofPathStep\<close>; a nil step is not modelled, the callers pass an element of a
  slice. Zero wanted witnesses accept any number.
\<close>

definition decode_step ::
    "('k, 'g, 'f, 'z) native_lib_scheme \<Rightarrow> path_step \<Rightarrow> nat \<Rightarrow> ('k, 'g, 'f) native_proof result" where
  "decode_step N s want_witnesses =
     (if transition_proof s = [] then Inl (invalid_path ''transition proof is required'')
      else if length (transition_proof s) > max_step_size
      then Inl (invalid_path ''transition proof exceeds limit'')
      else and_then (as_invalid ''decode transition proof'' (nl_decode_proof N (transition_proof s))) (\<lambda>t.
      if np_version t \<noteq> nl_transition_v1 N then Inl (invalid_path ''transition proof must be v1'')
      else if na_version (np_asset t) \<noteq> nl_asset_v1 N
      then Inl (invalid_path ''transition asset must be v1'')
      else and_then (as_invalid ''validate transition asset'' (nl_asset_validate N (np_asset t))) (\<lambda>_.
      if nl_is_genesis_asset N (np_asset t)
      then Inl (invalid_path ''unconfirmed genesis proofs are unsupported'')
      else and_then (wrap_with (Wrap2 (Sentinel ErrAssetProofPathInvalid)) (nl_check_activation N t)) (\<lambda>_.
      if na_lock_time (np_asset t) \<noteq> 0 \<or> na_relative_lock_time (np_asset t) \<noteq> 0
      then Inl (invalid_path ''asset timelocks are unsupported'')
      else if np_additional_inputs t \<noteq> []
      then Inl (invalid_path ''asset merges and additional input paths are unsupported'')
      else and_then (count_anchor_spends (np_prev_out t) 0 (np_anchor_inputs t)) (\<lambda>asset_predecessors.
      if asset_predecessors \<noteq> 1
      then Inl (invalid_path ''transition must spend its asset predecessor exactly once'')
      else if np_has_challenge_witness t then Inl (invalid_path ''ownership proofs are unsupported'')
      else and_then (step_witnesses N t) (\<lambda>witnesses.
      if witnesses = []
      then Inl (invalid_path ''transition must contain at least one complete asset witness'')
      else if want_witnesses > 0 \<and> length witnesses \<noteq> want_witnesses
      then Inl (invalid_path ''transition has the wrong number of complete asset witnesses'')
      else and_then (count_predecessors (np_prev_out t) 0 witnesses) (\<lambda>predecessors.
      if predecessors \<noteq> 1
      then Inl (invalid_path ''transition must spend its declared predecessor exactly once'')
      else Inr t)))))))"

text \<open>\<open>stepWitnessCount\<close>.\<close>

definition step_witness_count :: "path_step \<Rightarrow> nat" where
  "step_witness_count s = 1 + length (co_input_paths s)"

fun validate_content :: "('k, 'g, 'f, 'z) native_lib_scheme \<Rightarrow> proof_path \<Rightarrow> unit result"
and validate_content_steps :: "('k, 'g, 'f, 'z) native_lib_scheme \<Rightarrow> path_step list \<Rightarrow> unit result"
and validate_content_co_paths :: "('k, 'g, 'f, 'z) native_lib_scheme \<Rightarrow> proof_path list \<Rightarrow> unit result" where
  "validate_content N Nil_path = Inl (Plain ''nil pointer dereference'')"
| "validate_content N (Path base steps) =
     and_then (decode_base N base) (\<lambda>base_proof.
       if na_lock_time (np_asset base_proof) \<noteq> 0 \<or> na_relative_lock_time (np_asset base_proof) \<noteq> 0
       then Inl (invalid_path ''confirmed asset timelocks are unsupported'')
       else if length steps > 0 \<and> na_version (np_asset base_proof) \<noteq> nl_asset_v1 N
       then Inl (invalid_path ''unconfirmed paths require a v1 base asset'')
       else validate_content_steps N steps)"
| "validate_content_steps N [] = Inr ()"
| "validate_content_steps N (Step tp co_paths # rest) =
     and_then (wrap_with (\<lambda>e. Wrapf ''step: '' e [])
                 (decode_step N (Step tp co_paths) (step_witness_count (Step tp co_paths)))) (\<lambda>_.
     and_then (validate_content_co_paths N co_paths) (\<lambda>_. validate_content_steps N rest))"
| "validate_content_co_paths N [] = Inr ()"
| "validate_content_co_paths N (co_path # rest) =
     and_then (wrap_with (\<lambda>e. Wrapf ''step co-input path: '' e []) (validate_content N co_path))
       (\<lambda>_. validate_content_co_paths N rest)"

text \<open>\<open>Validate\<close>, \<open>MarshalBinary\<close> and \<open>UnmarshalBinary\<close>; the receiver is unchanged on an error.\<close>

definition validate_path :: "('k, 'g, 'f, 'z) native_lib_scheme \<Rightarrow> proof_path \<Rightarrow> unit result" where
  "validate_path N p = and_then (validate_shape 0 p 0) (\<lambda>_. validate_content N p)"

definition marshal_binary :: "('k, 'g, 'f, 'z) native_lib_scheme \<Rightarrow> proof_path \<Rightarrow> bytes result" where
  "marshal_binary N p = and_then (validate_path N p) (\<lambda>_. encode_path (nl_sha256 N) p)"

definition unmarshal_binary ::
    "('k, 'g, 'f, 'z) native_lib_scheme \<Rightarrow> proof_path \<Rightarrow> bytes \<Rightarrow> go_error option \<times> proof_path" where
  "unmarshal_binary N receiver encoded =
     (case and_then (unmarshal_binary_at (nl_sha256 N) encoded 0)
             (\<lambda>decoded. and_then (validate_path N decoded) (\<lambda>_. Inr decoded)) of
        Inl e \<Rightarrow> (Some e, receiver)
      | Inr decoded \<Rightarrow> (None, decoded))"

section \<open>Summaries\<close>

record derived_summary =
  ds_asset_ref :: string
  ds_issuance_id :: bytes
  ds_asset_type :: asset_type
  ds_amount :: u64
  ds_script_key :: bytes
  ds_anchor_outpoint :: outpoint
  ds_anchor_value_sat :: int

text \<open>\<open>assetProof.AnchorTx.TxOut[outputIndex]\<close> with its range, nil and sign checks.\<close>

definition anchor_output_at :: "('k, 'g, 'f) native_proof \<Rightarrow> tx_out result" where
  "anchor_output_at t =
     (if unat (np_output_index t) \<ge> length (np_anchor_outputs t)
      then Inl (invalid_path ''anchor output index is out of range'')
      else case np_anchor_outputs t ! unat (np_output_index t) of
        None \<Rightarrow> Inl (invalid_path ''anchor output is nil'')
      | Some out \<Rightarrow> Inr out)"

definition summarize_asset_proof ::
    "('k, 'g, 'f, 'z) native_lib_scheme \<Rightarrow> ('k, 'g, 'f) native_proof \<Rightarrow> derived_summary result" where
  "summarize_asset_proof N t =
     (let a = np_asset t in
      if na_type a \<noteq> nl_type_normal N \<and> na_type a \<noteq> nl_type_collectible N
      then Inl (invalid_path ''unknown asset type'')
      else case na_script_key a of
        None \<Rightarrow> Inl (invalid_path ''missing asset script key'')
      | Some script_key \<Rightarrow>
          and_then (case na_group_key a of
                      None \<Rightarrow> Inr None
                    | Some g \<Rightarrow> and_then (as_invalid ''invalid group key''
                        (parse_pub_key (lib.truncate N) (serialize_compressed N (nl_group_pub_key N g))))
                        (\<lambda>k. Inr (Some k))) (\<lambda>group_key.
          and_then (asset_ref_from_typed_asset (lib.truncate N) (nl_asset_id N a) group_key (na_type a)) (\<lambda>ref.
          and_then (as_invalid ''invalid script key''
                      (parse_taproot_pub_key (lib.truncate N) (serialize_compressed N script_key))) (\<lambda>sk.
          and_then (anchor_output_at t) (\<lambda>out.
            if txo_value out < 0 then Inl (invalid_path ''anchor output value is negative'')
            else Inr \<lparr>ds_asset_ref = ref, ds_issuance_id = nl_asset_id N a, ds_asset_type = na_type a,
                   ds_amount = na_amount a, ds_script_key = sk, ds_anchor_outpoint = nl_out_point N t,
                   ds_anchor_value_sat = txo_value out\<rparr>)))))"

text \<open>\<open>taggedAssetProofPathHash\<close>: the BIP-340 tagged hash.\<close>

definition tagged_path_hash :: "('k, 'g, 'f, 'z) native_lib_scheme \<Rightarrow> string \<Rightarrow> bytes \<Rightarrow> bytes" where
  "tagged_path_hash N tag content =
     (let tag_hash = nl_sha256 N (map of_char tag) in nl_sha256 N (tag_hash @ tag_hash @ content))"

definition path_content_id :: "('k, 'g, 'f, 'z) native_lib_scheme \<Rightarrow> proof_path \<Rightarrow> bytes result" where
  "path_content_id N p =
     and_then (validate_path N p) (\<lambda>_. and_then (marshal_body (nl_sha256 N) p)
       (\<lambda>body. Inr (tagged_path_hash N ''tapsdk/asset-proof-path/v0'' body)))"

definition step_content_id :: "('k, 'g, 'f, 'z) native_lib_scheme \<Rightarrow> path_step \<Rightarrow> bytes result" where
  "step_content_id N s =
     and_then (decode_step N s 0)
       (\<lambda>_. Inr (tagged_path_hash N ''tapsdk/asset-proof-path-step/v0'' (transition_proof s)))"

record step_summary =
  ss_content_id :: bytes
  ss_previous_anchor_outpoint :: outpoint
  ss_derived :: derived_summary
  ss_split_asset :: bool

definition summarize_step ::
    "('k, 'g, 'f, 'z) native_lib_scheme \<Rightarrow> path_step \<Rightarrow> ('k, 'g, 'f) native_proof \<Rightarrow> step_summary result" where
  "summarize_step N s t =
     and_then (summarize_asset_proof N t) (\<lambda>derived.
     and_then (step_content_id N s) (\<lambda>content_id.
       Inr \<lparr>ss_content_id = content_id, ss_previous_anchor_outpoint = np_prev_out t,
             ss_derived = derived, ss_split_asset = nl_has_split_witness N (np_asset t)\<rparr>))"

definition step_summary_of :: "('k, 'g, 'f, 'z) native_lib_scheme \<Rightarrow> path_step \<Rightarrow> step_summary result" where
  "step_summary_of N s = and_then (decode_step N s 0) (\<lambda>t. summarize_step N s t)"

section \<open>Verification\<close>

record confirmed_verification =
  cv_inventory_complete :: bool
  cv_passive_asset_count :: u32

record unconfirmed_verification =
  uv_step_index :: u16
  uv_previous_anchor_outpoint :: outpoint
  uv_anchor_outpoint :: outpoint
  uv_anchor_transaction :: bytes
  uv_previous_anchor_outpoints :: "outpoint list"

text \<open>
  The host's verifier; its answers are taken as a function of what it is asked. The second
  method is an optional extension.
\<close>

record path_verifier =
  vf_confirmed :: "bytes \<Rightarrow> confirmed_verification option result"
  vf_unconfirmed :: "(unconfirmed_verification \<Rightarrow> unit result) option"

definition verify_asset_identity ::
    "('k, 'g, 'f, 'z) native_lib_scheme \<Rightarrow> ('k, 'g) native_asset \<Rightarrow> ('k, 'g) native_asset \<Rightarrow> unit result" where
  "verify_asset_identity N previous next_asset =
     (if na_type next_asset \<noteq> na_type previous then Inl (invalid_path ''asset type changed'')
      else if na_genesis next_asset \<noteq> na_genesis previous
      then Inl (invalid_path ''asset genesis changed'')
      else if \<not> nl_group_is_equal N (na_group_key previous) (na_group_key next_asset)
      then Inl (invalid_path ''asset group key changed'')
      else Inr ())"

definition verify_identity ::
    "('k, 'g, 'f, 'z) native_lib_scheme \<Rightarrow> ('k, 'g) native_asset \<Rightarrow> ('k, 'g, 'f) native_proof \<Rightarrow> unit result" where
  "verify_identity N previous t =
     and_then (verify_asset_identity N previous (np_asset t)) (\<lambda>_.
       if \<not> nl_has_split_witness N (np_asset t) then Inr ()
       else case na_prev_witnesses (np_asset t) of
         [Native_witness _ _ (Some root)] \<Rightarrow> verify_asset_identity N previous root
       | _ \<Rightarrow> Inl (invalid_path ''split asset is missing its root asset''))"

text \<open>
  The outpoints a step may consume are the keys of a map, here a list without duplicates.
  \<open>verifyAssetProofPathStepInputBinding\<close> and \<open>verifyAssetProofPathAnchorSpend\<close> compare them
  with what the asset witnesses and the anchor transaction spend.
\<close>

definition effective_witnesses ::
    "('k, 'g, 'f, 'z) native_lib_scheme \<Rightarrow> ('k, 'g, 'f) native_proof \<Rightarrow> ('k, 'g) native_witness list result" where
  "effective_witnesses N t =
     (if nl_has_split_witness N (np_asset t)
      then case na_prev_witnesses (np_asset t) of
        [Native_witness _ _ (Some root)] \<Rightarrow> Inr (na_prev_witnesses root)
      | _ \<Rightarrow> Inl (invalid_path ''split asset is missing its root asset'')
      else Inr (na_prev_witnesses (np_asset t)))"

definition bind_witness :: "outpoint list \<Rightarrow> outpoint list \<Rightarrow> ('k, 'g) native_witness \<Rightarrow> outpoint list result" where
  "bind_witness expected spent w =
     (case nw_prev_id w of
        None \<Rightarrow> Inl (invalid_path ''transition witness misses its previous ID'')
      | Some pid \<Rightarrow>
          (if pid_outpoint pid \<notin> set expected
           then Inl (invalid_path ''transition spends undeclared outpoint'')
           else Inr (List.insert (pid_outpoint pid) spent)))"

definition verify_input_binding ::
    "('k, 'g, 'f, 'z) native_lib_scheme \<Rightarrow> ('k, 'g, 'f) native_proof \<Rightarrow> outpoint list \<Rightarrow> unit result" where
  "verify_input_binding N t expected =
     and_then (effective_witnesses N t) (\<lambda>witnesses.
     and_then (fold_res (bind_witness expected) [] witnesses) (\<lambda>spent.
       if length spent \<noteq> length expected
       then Inl (invalid_path ''transition does not spend every declared co-input'')
       else Inr ()))"

definition verify_anchor_spend :: "('k, 'g, 'f) native_proof \<Rightarrow> outpoint list \<Rightarrow> unit result" where
  "verify_anchor_spend t expected =
     (if None \<in> set (np_anchor_inputs t) then Inl (Plain ''nil pointer dereference'')
      else if list_all (\<lambda>op. length (filter (\<lambda>i. i = Some op) (np_anchor_inputs t)) = 1) expected
      then Inr ()
      else Inl (invalid_path ''anchor transaction must spend asset outpoint exactly once''))"

text \<open>\<open>verifyAssetProofPathIsolatedOutput\<close>: the anchor output commits to the asset and its disclosed leaves alone.\<close>

definition strip_split_commitment ::
    "('k, 'g, 'f, 'z) native_lib_scheme \<Rightarrow> ('k, 'g) native_asset \<Rightarrow> ('k, 'g) native_asset" where
  "strip_split_commitment N a =
     (if nl_has_split_witness N a
      then case a of
        Native_asset v ty gen amt lt rlt sk gk (Native_witness pid tw root # ws) \<Rightarrow>
          Native_asset v ty gen amt lt rlt sk gk (Native_witness pid tw None # ws)
      | _ \<Rightarrow> a
      else a)"

definition isolated_script ::
    "('k, 'g, 'f, 'z) native_lib_scheme \<Rightarrow> ('k, 'g, 'f) native_proof \<Rightarrow> 'k \<Rightarrow> byte \<Rightarrow> bytes result" where
  "isolated_script N t internal_key version =
     and_then (wrap_with (\<lambda>e. Wrapf ''rebuild asset commitment: '' e [])
                 (nl_new_asset_commitment N (strip_split_commitment N (np_asset t)))) (\<lambda>asset_commitment.
     and_then (wrap_with (\<lambda>e. Wrapf ''rebuild tap commitment: '' e [])
                 (nl_new_tap_commitment N version asset_commitment)) (\<lambda>tap.
     and_then (wrap_with (\<lambda>e. Wrapf ''validate alternate leaves: '' e []) (nl_valid_alt_leaves N (np_alt_leaves t))) (\<lambda>_.
     and_then (wrap_with (\<lambda>e. Wrapf ''merge alternate leaves: '' e [])
                 (nl_merge_alt_leaves N tap (np_alt_leaves t))) (\<lambda>merged.
     and_then (case np_sibling t of
                 None \<Rightarrow> Inr None
               | Some sibling \<Rightarrow> and_then (wrap_with (\<lambda>e. Wrapf ''derive tapscript sibling hash: '' e [])
                   (nl_sibling_tap_hash N sibling)) (\<lambda>h. Inr (Some h))) (\<lambda>sibling_hash.
       wrap_with (\<lambda>e. Wrapf ''derive isolated anchor output: '' e [])
         (nl_pay_to_taproot_script N
            (compute_taproot_output_key N internal_key (nl_tapscript_root N merged sibling_hash))))))))"

definition verify_isolated_output ::
    "('k, 'g, 'f, 'z) native_lib_scheme \<Rightarrow> ('k, 'g, 'f) native_proof \<Rightarrow> unit result" where
  "verify_isolated_output N t =
     (case np_commitment_version t of
        None \<Rightarrow> Inl (invalid_path ''missing inclusion commitment proof'')
      | Some version \<Rightarrow>
          (case np_internal_key t of
             None \<Rightarrow> Inl (invalid_path ''missing anchor internal key'')
           | Some internal_key \<Rightarrow>
               and_then (isolated_script N t internal_key version) (\<lambda>expected_script.
               and_then (anchor_output_at t) (\<lambda>out.
                 if expected_script \<noteq> txo_pk_script out
                 then Inl (Wrapf [] (Sentinel ErrAssetProofPathPassiveAssets)
                        '': selected output is not an isolated asset commitment'')
                 else Inr ()))))"

definition derive_confirmed_inventory ::
    "('k, 'g, 'f, 'z) native_lib_scheme \<Rightarrow> bytes \<Rightarrow> confirmed_verification result" where
  "derive_confirmed_inventory N proof_file =
     (if length proof_file > max_confirmed_proof_size
      then Inl (invalid_path ''confirmed proof exceeds limit'')
      else and_then (decode_base N proof_file) (\<lambda>tip.
           and_then (verify_isolated_output N tip) (\<lambda>_.
             Inr \<lparr>cv_inventory_complete = True, cv_passive_asset_count = 0\<rparr>)))"

text \<open>\<open>assetProofPathGroupVerifier\<close>.\<close>

definition group_verifier ::
    "('k, 'g, 'f, 'z) native_lib_scheme \<Rightarrow> 'g option \<Rightarrow> 'k option \<Rightarrow> unit result" where
  "group_verifier N expected group_key =
     (case expected of
        None \<Rightarrow> Inl (Plain ''unexpected asset group key'')
      | Some g \<Rightarrow>
          (case group_key of
             None \<Rightarrow> Inl (Plain ''asset group key does not match confirmed base'')
           | Some k \<Rightarrow> (if nl_key_is_equal N (nl_group_pub_key N g) k then Inr ()
                        else Inl (Plain ''asset group key does not match confirmed base''))))"

text \<open>
  \<open>syntheticProofFile\<close>: the confirmed file of a co-input path with its transitions appended,
  each carrying the files of its own co-inputs and no block data.
\<close>

fun synthetic_proof_file :: "('k, 'g, 'f, 'z) native_lib_scheme \<Rightarrow> proof_path \<Rightarrow> 'f result"
and append_steps :: "('k, 'g, 'f, 'z) native_lib_scheme \<Rightarrow> 'f \<Rightarrow> path_step list \<Rightarrow> 'f result"
and synthetic_co_files :: "('k, 'g, 'f, 'z) native_lib_scheme \<Rightarrow> proof_path list \<Rightarrow> 'f list result" where
  "synthetic_proof_file N Nil_path = Inl (Plain ''nil pointer dereference'')"
| "synthetic_proof_file N (Path base steps) =
     and_then (as_invalid ''decode co-input base file'' (nl_decode_file N base))
       (\<lambda>file. append_steps N file steps)"
| "append_steps N file [] = Inr file"
| "append_steps N file (Step tp co_paths # rest) =
     and_then (wrap_with (\<lambda>e. Wrapf ''step: '' e [])
                 (decode_step N (Step tp co_paths) (step_witness_count (Step tp co_paths)))) (\<lambda>t.
     and_then (synthetic_co_files N co_paths) (\<lambda>co_files.
     and_then (wrap_with (\<lambda>e. Wrapf ''append step proof: '' e [])
                 (nl_append_proof N file
                    (t\<lparr>np_additional_inputs := np_additional_inputs t @ co_files, np_block_header := [],
                       np_block_height := 0, np_tx_merkle_proof := []\<rparr>)))
       (\<lambda>file1. append_steps N file1 rest)))"
| "synthetic_co_files N [] = Inr []"
| "synthetic_co_files N (co_path # rest) =
     and_then (wrap_with (\<lambda>e. Wrapf ''step co-input path: '' e []) (synthetic_proof_file N co_path)) (\<lambda>f.
     and_then (synthetic_co_files N rest) (\<lambda>fs. Inr (f # fs)))"

text \<open>
  The body of the step loop of \<open>verifyChain\<close> after the co-inputs are resolved: \<open>spent\<close> are the
  outpoints the step may consume, the spine tip first, \<open>co_files\<close> the lineages of the co-inputs.
  The additional inputs are set for the native verifier only and cleared again.
\<close>

definition verify_transition ::
    "('k, 'g, 'f, 'z) native_lib_scheme \<Rightarrow> (unconfirmed_verification \<Rightarrow> unit result) \<Rightarrow> nat \<Rightarrow> path_step \<Rightarrow>
     ('k, 'g) snapshot \<Rightarrow> ('k, 'g, 'f) native_proof \<Rightarrow> outpoint list \<Rightarrow> 'f list \<Rightarrow> ('k, 'g) snapshot result" where
  "verify_transition N host i s previous t spent co_files =
     and_then (wrap_with (\<lambda>e. Wrapf ''verify step input binding: '' e []) (verify_input_binding N t spent)) (\<lambda>_.
     and_then (wrap_with (\<lambda>e. Wrapf ''verify step anchor inputs: '' e []) (verify_anchor_spend t spent)) (\<lambda>_.
     and_then (wrap_with (\<lambda>e. Wrapf ''verify unconfirmed step identity: '' e [])
                 (verify_identity N (sn_asset previous) t)) (\<lambda>_.
     and_then (wrap_with (\<lambda>e. Wrapf ''summarize unconfirmed step: '' e []) (summarize_step N s t)) (\<lambda>summary.
     and_then (wrap_with (\<lambda>e. Wrapf ''serialize unconfirmed step anchor: '' e [])
                 (nl_serialize_anchor_tx N t)) (\<lambda>anchor_transaction.
     and_then (wrap_with (\<lambda>_. Wrapf [] (Sentinel ErrAssetProofPathUnconfirmedAnchor) '': step'')
                 (host \<lparr>uv_step_index = of_nat i,
                    uv_previous_anchor_outpoint = ss_previous_anchor_outpoint summary,
                    uv_anchor_outpoint = ds_anchor_outpoint (ss_derived summary),
                    uv_anchor_transaction = anchor_transaction,
                    uv_previous_anchor_outpoints = spent\<rparr>)) (\<lambda>_.
     and_then (wrap_with (\<lambda>e. Wrapf ''verify unconfirmed step: '' e [])
                 (nl_verify N (if co_files \<noteq> [] then t\<lparr>np_additional_inputs := co_files\<rparr> else t) previous
                    (group_verifier N (na_group_key (sn_asset previous))) (co_files \<noteq> []))) (\<lambda>next_state.
     and_then (wrap_with (\<lambda>e. Wrapf ''verify unconfirmed step isolation: '' e [])
                 (verify_isolated_output N (t\<lparr>np_additional_inputs := []\<rparr>))) (\<lambda>_.
       Inr next_state))))))))"

fun verify_chain ::
    "('k, 'g, 'f, 'z) native_lib_scheme \<Rightarrow> path_verifier \<Rightarrow> (unconfirmed_verification \<Rightarrow> unit result) option \<Rightarrow>
     proof_path \<Rightarrow> ('k, 'g, 'f) native_proof result"
and verify_steps ::
    "('k, 'g, 'f, 'z) native_lib_scheme \<Rightarrow> path_verifier \<Rightarrow> (unconfirmed_verification \<Rightarrow> unit result) option \<Rightarrow>
     nat \<Rightarrow> ('k, 'g) snapshot \<Rightarrow> ('k, 'g, 'f) native_proof \<Rightarrow> path_step list \<Rightarrow> ('k, 'g, 'f) native_proof result"
and resolve_co_paths ::
    "('k, 'g, 'f, 'z) native_lib_scheme \<Rightarrow> path_verifier \<Rightarrow> (unconfirmed_verification \<Rightarrow> unit result) option \<Rightarrow>
     ('k, 'g) snapshot \<Rightarrow> outpoint list \<Rightarrow> proof_path list \<Rightarrow> (outpoint list \<times> 'f list) result" where
  "verify_chain N V unconfirmed Nil_path = Inl (Plain ''nil pointer dereference'')"
| "verify_chain N V unconfirmed (Path base steps) =
     and_then (wrap_with (\<lambda>e. Wrapf ''verify confirmed base proof: '' e []) (vf_confirmed V base)) (\<lambda>verification.
       case verification of
         None \<Rightarrow> Inl (Sentinel ErrAssetProofPathUnknownPassiveAssets)
       | Some cv \<Rightarrow>
           (if \<not> cv_inventory_complete cv then Inl (Sentinel ErrAssetProofPathUnknownPassiveAssets)
            else if cv_passive_asset_count cv \<noteq> 0
            then Inl (Wrapf [] (Sentinel ErrAssetProofPathPassiveAssets) '': '')
            else and_then (decode_base N base) (\<lambda>base_proof.
              verify_steps N V unconfirmed 0
                \<lparr>sn_asset = np_asset base_proof, sn_out_point = nl_out_point N base_proof\<rparr> base_proof steps)))"
| "verify_steps N V unconfirmed i previous final [] = Inr final"
| "verify_steps N V unconfirmed i previous final (Step tp co_paths # rest) =
     and_then (wrap_with (\<lambda>e. Wrapf ''step: '' e [])
                 (decode_step N (Step tp co_paths) (step_witness_count (Step tp co_paths)))) (\<lambda>t.
       case unconfirmed of
         None \<Rightarrow> Inl (Wrapf [] (Sentinel ErrAssetProofPathUnconfirmedAnchor) '': verifier extension is required'')
       | Some host \<Rightarrow>
           and_then (resolve_co_paths N V unconfirmed previous [sn_out_point previous] co_paths) (\<lambda>(spent, co_files).
           and_then (verify_transition N host i (Step tp co_paths) previous t spent co_files) (\<lambda>next_state.
             verify_steps N V unconfirmed (Suc i) next_state (t\<lparr>np_additional_inputs := []\<rparr>) rest)))"
| "resolve_co_paths N V unconfirmed previous spent [] = Inr (spent, [])"
| "resolve_co_paths N V unconfirmed previous spent (co_path # rest) =
     and_then (wrap_with (\<lambda>e. Wrapf ''step co-input path: '' e []) (verify_chain N V unconfirmed co_path)) (\<lambda>co_tip.
       if nl_out_point N co_tip \<in> set spent then Inl (invalid_path ''step duplicate co-input outpoint'')
       else and_then (wrap_with (\<lambda>e. Wrapf ''step co-input path: '' e [])
                   (verify_asset_identity N (sn_asset previous) (np_asset co_tip))) (\<lambda>_.
            and_then (wrap_with (\<lambda>e. Wrapf ''step co-input path: '' e []) (synthetic_proof_file N co_path)) (\<lambda>co_input.
            and_then (resolve_co_paths N V unconfirmed previous (spent @ [nl_out_point N co_tip]) rest)
              (\<lambda>(spent1, co_files). Inr (spent1, co_input # co_files)))))"

record path_summary =
  ps_content_id :: bytes
  ps_confirmed_base_proof_id :: bytes
  ps_depth :: u16
  ps_derived :: derived_summary

definition verify_path ::
    "('k, 'g, 'f, 'z) native_lib_scheme \<Rightarrow> path_verifier option \<Rightarrow> proof_path \<Rightarrow> path_summary result" where
  "verify_path N verifier p =
     and_then (validate_path N p) (\<lambda>_.
       case verifier of
         None \<Rightarrow> Inl (invalid_path ''confirmed proof verifier is required'')
       | Some V \<Rightarrow>
           (if path_steps p \<noteq> [] \<and> vf_unconfirmed V = None
            then Inl (Wrapf [] (Sentinel ErrAssetProofPathUnconfirmedAnchor) '': verifier extension is required'')
            else and_then (verify_chain N V (if path_steps p \<noteq> [] then vf_unconfirmed V else None) p) (\<lambda>final_proof.
                 and_then (summarize_asset_proof N final_proof) (\<lambda>derived.
                 and_then (path_content_id N p) (\<lambda>content_id.
                   Inr \<lparr>ps_content_id = content_id,
                        ps_confirmed_base_proof_id = nl_sha256 N (confirmed_base_proof p),
                        ps_depth = of_nat (length (path_steps p)), ps_derived = derived\<rparr>)))))"

section \<open>Confirmation\<close>

record anchor_confirmation =
  cf_block_height :: u32
  cf_block :: bytes

text \<open>The index of the first transaction of the block with the wanted ID.\<close>

fun tx_index :: "bytes \<Rightarrow> nat \<Rightarrow> bytes list \<Rightarrow> nat option" where
  "tx_index txid i [] = None"
| "tx_index txid i (tx # txs) = (if tx = txid then Some i else tx_index txid (Suc i) txs)"

definition confirm_transition ::
    "('k, 'g, 'f, 'z) native_lib_scheme \<Rightarrow> (bytes \<rightharpoonup> anchor_confirmation) \<Rightarrow> ('k, 'g, 'f) native_proof \<Rightarrow>
     ('k, 'g, 'f) native_proof result" where
  "confirm_transition N confirmations t =
     (case confirmations (nl_anchor_txid N t) of
        None \<Rightarrow> Inl (Plain ''missing block confirmation for anchor transaction'')
      | Some c \<Rightarrow>
          (if cf_block c = [] then Inl (Plain ''empty block for anchor transaction'')
           else and_then (wrap_with (\<lambda>e. Wrapf ''decode block for anchor transaction: '' e [])
                            (nl_deserialize_block N (cf_block c))) (\<lambda>(header, txids).
                case tx_index (nl_anchor_txid N t) 0 txids of
                  None \<Rightarrow> Inl (Plain ''anchor transaction is not in the supplied block'')
                | Some i \<Rightarrow>
                    and_then (wrap_with (\<lambda>e. Wrapf ''build merkle proof for anchor transaction: '' e [])
                                (nl_new_tx_merkle_proof N txids i)) (\<lambda>merkle.
                      Inr (t\<lparr>np_block_header := header, np_block_height := cf_block_height c,
                             np_tx_merkle_proof := merkle\<rparr>)))))"

text \<open>
  \<open>ConfirmProofFile\<close>. A co-input path is confirmed by the exported method, which validates it
  again, and its bytes are decoded into a file.
\<close>

fun confirm_proof_file ::
    "('k, 'g, 'f, 'z) native_lib_scheme \<Rightarrow> (bytes \<rightharpoonup> anchor_confirmation) \<Rightarrow> proof_path \<Rightarrow> bytes result"
and confirm_steps ::
    "('k, 'g, 'f, 'z) native_lib_scheme \<Rightarrow> (bytes \<rightharpoonup> anchor_confirmation) \<Rightarrow> 'f \<Rightarrow> path_step list \<Rightarrow> 'f result"
and confirm_co_paths ::
    "('k, 'g, 'f, 'z) native_lib_scheme \<Rightarrow> (bytes \<rightharpoonup> anchor_confirmation) \<Rightarrow> proof_path list \<Rightarrow> 'f list result" where
  "confirm_proof_file N confirmations Nil_path = and_then (validate_path N Nil_path) (\<lambda>_. Inr [])"
| "confirm_proof_file N confirmations (Path base steps) =
     and_then (validate_path N (Path base steps)) (\<lambda>_.
       if steps = [] then Inr base
       else and_then (wrap_with (\<lambda>e. Wrapf ''decode confirmed base proof file: '' e [])
                        (nl_decode_file N base)) (\<lambda>file.
            and_then (confirm_steps N confirmations file steps) (\<lambda>file1.
              wrap_with (\<lambda>e. Wrapf ''encode confirmed proof file: '' e []) (nl_encode_file N file1))))"
| "confirm_steps N confirmations file [] = Inr file"
| "confirm_steps N confirmations file (Step tp co_paths # rest) =
     and_then (wrap_with (\<lambda>e. Wrapf ''step: '' e [])
                 (decode_step N (Step tp co_paths) (step_witness_count (Step tp co_paths)))) (\<lambda>t.
     and_then (confirm_co_paths N confirmations co_paths) (\<lambda>co_files.
     and_then (wrap_with (\<lambda>e. Wrapf ''confirm step: '' e [])
                 (confirm_transition N confirmations
                    (t\<lparr>np_additional_inputs := np_additional_inputs t @ co_files\<rparr>))) (\<lambda>confirmed.
     and_then (wrap_with (\<lambda>e. Wrapf ''encode step proof: '' e []) (nl_proof_bytes N confirmed)) (\<lambda>proof_bytes.
       if length proof_bytes > nl_file_max_proof_size N
       then Inl (Plain ''assembled step proof size exceeds the proof file limit'')
       else and_then (wrap_with (\<lambda>e. Wrapf ''append step proof: '' e [])
                        (nl_append_proof_raw N file proof_bytes))
              (\<lambda>file1. confirm_steps N confirmations file1 rest)))))"
| "confirm_co_paths N confirmations [] = Inr []"
| "confirm_co_paths N confirmations (co_path # rest) =
     and_then (wrap_with (\<lambda>e. Wrapf ''step co-input path: '' e [])
                 (confirm_proof_file N confirmations co_path)) (\<lambda>confirmed.
     and_then (wrap_with (\<lambda>e. Wrapf ''decode step co-input file: '' e []) (nl_decode_file N confirmed)) (\<lambda>f.
     and_then (confirm_co_paths N confirmations rest) (\<lambda>fs. Inr (f # fs))))"

section \<open>A concrete instance\<close>

text \<open>
  Proof bytes \<open>k # n # a1 ... an # padding\<close> stand for a transition that creates outpoint \<open>k\<close>
  and spends the outpoints \<open>a1 ... an\<close>; a proof file is the list of its proofs.
\<close>

definition sample_op :: "byte \<Rightarrow> outpoint" where
  "sample_op k = \<lparr>op_txid = [k], op_index = 0\<rparr>"

definition sample_asset :: "byte \<Rightarrow> byte list \<Rightarrow> (bytes, bytes) native_asset" where
  "sample_asset k spent =
     Native_asset 1 0 [7] (ucast k) 0 0 (Some (2 # replicate 32 0)) None
       (map (\<lambda>a. Native_witness (Some \<lparr>pid_outpoint = sample_op a, pid_issuance_id = [], pid_script_key = []\<rparr>)
                   [[1]] None) spent)"

definition sample_transition :: "bytes \<Rightarrow> (bytes, bytes, bytes list) native_proof" where
  "sample_transition bs =
     (let spent = (case bs of k # n # r \<Rightarrow> take (unat n) r | _ \<Rightarrow> []) in
      \<lparr>np_version = 1, np_asset = sample_asset (hd bs) spent, np_prev_out = (case spent of [] \<Rightarrow> sample_op 0 | a # _ \<Rightarrow> sample_op a),
       np_anchor_inputs = map (Some \<circ> sample_op) spent,
       np_anchor_outputs = [Some \<lparr>txo_value = 1000, txo_pk_script = [0x51]\<rparr>],
       np_output_index = 0, np_internal_key = Some [2], np_commitment_version = Some 2, np_sibling = None,
       np_alt_leaves = [], np_additional_inputs = [], np_has_challenge_witness = False,
       np_has_split_root_proof = False, np_block_header = [], np_block_height = 0,
       np_tx_merkle_proof = []\<rparr>)"

definition sample_native :: "(bytes, bytes, bytes list) native_lib" where
  "sample_native = lib.extend sample_lib \<lparr>
     nl_sha256 = (\<lambda>_. replicate 32 0), nl_asset_v1 = 1, nl_transition_v1 = 1,
     nl_type_normal = 0, nl_type_collectible = 1,
     nl_decode_file = (\<lambda>bs. if bs = [] then Inl (Plain ''EOF'') else Inr [bs]),
     nl_last_proof = (\<lambda>f. if f = [] then Inl (Plain ''no proofs'') else Inr (sample_transition (last f))),
     nl_decode_proof = (\<lambda>bs. Inr (sample_transition bs)),
     nl_asset_validate = (\<lambda>_. Inr ()), nl_asset_id = na_genesis,
     nl_is_genesis_asset = (\<lambda>a. na_prev_witnesses a = []),
     nl_has_split_witness = (\<lambda>_. False), nl_check_activation = (\<lambda>_. Inr ()),
     nl_out_point = (\<lambda>p. sample_op (ucast (na_amount (np_asset p)))),
     nl_group_is_equal = (=), nl_group_pub_key = (\<lambda>g. g), nl_key_is_equal = (=),
     nl_serialize_anchor_tx = (\<lambda>p. Inr [ucast (na_amount (np_asset p))]),
     nl_verify = (\<lambda>p prev gv co. Inr \<lparr>sn_asset = np_asset p,
        sn_out_point = sample_op (ucast (na_amount (np_asset p)))\<rparr>),
     nl_append_proof = (\<lambda>f p. Inr (f @ [[ucast (na_amount (np_asset p))]])),
     nl_new_asset_commitment = (\<lambda>_. Inr []), nl_new_tap_commitment = (\<lambda>v c. Inr c),
     nl_valid_alt_leaves = (\<lambda>_. Inr ()), nl_merge_alt_leaves = (\<lambda>c ls. Inr c),
     nl_sibling_tap_hash = Inr, nl_tapscript_root = (\<lambda>c s. c),
     nl_pay_to_taproot_script = (\<lambda>k. Inr [0x51]),
     nl_anchor_txid = (\<lambda>p. [ucast (na_amount (np_asset p))]),
     nl_deserialize_block = (\<lambda>b. Inr (b, map (\<lambda>x. [x]) b)),
     nl_new_tx_merkle_proof = (\<lambda>txs i. Inr [of_nat i]),
     nl_proof_bytes = (\<lambda>p. Inr (ucast (na_amount (np_asset p)) # np_tx_merkle_proof p)),
     nl_append_proof_raw = (\<lambda>f b. Inr (f @ [b])), nl_encode_file = (\<lambda>f. Inr (concat f)),
     nl_file_max_proof_size = 1000 \<rparr>"

lemma sample_native_sel [simp]:
  "nl_sha256 sample_native bs = replicate 32 0" "nl_asset_v1 sample_native = 1"
  "nl_transition_v1 sample_native = 1" "nl_type_normal sample_native = 0"
  "nl_type_collectible sample_native = 1"
  "nl_decode_file sample_native bs = (if bs = [] then Inl (Plain ''EOF'') else Inr [bs])"
  "nl_last_proof sample_native f =
     (if f = [] then Inl (Plain ''no proofs'') else Inr (sample_transition (last f)))"
  "nl_decode_proof sample_native bs = Inr (sample_transition bs)"
  "nl_asset_validate sample_native a = Inr ()" "nl_asset_id sample_native a = na_genesis a"
  "nl_is_genesis_asset sample_native a \<longleftrightarrow> na_prev_witnesses a = []"
  "\<not> nl_has_split_witness sample_native a" "nl_check_activation sample_native t = Inr ()"
  "nl_out_point sample_native t = sample_op (ucast (na_amount (np_asset t)))"
  "nl_group_is_equal sample_native g h \<longleftrightarrow> g = h"
  "nl_serialize_anchor_tx sample_native t = Inr [ucast (na_amount (np_asset t))]"
  "nl_verify sample_native t prev gv co = Inr \<lparr>sn_asset = np_asset t,
     sn_out_point = sample_op (ucast (na_amount (np_asset t)))\<rparr>"
  "nl_append_proof sample_native f t = Inr (f @ [[ucast (na_amount (np_asset t))]])"
  by (simp_all add: sample_native_def lib.defs)

lemma sample_native_commitments [simp]:
  "nl_new_asset_commitment sample_native a = Inr []" "nl_new_tap_commitment sample_native v c = Inr c"
  "nl_valid_alt_leaves sample_native ls = Inr ()" "nl_merge_alt_leaves sample_native c ls = Inr c"
  "nl_sibling_tap_hash sample_native b = Inr b" "nl_tapscript_root sample_native c h = c"
  "nl_pay_to_taproot_script sample_native k = Inr [0x51]"
  "serialize_compressed sample_native k = k" "compute_taproot_output_key sample_native k d = 3 # sample_pad d"
  "lib.truncate sample_native = sample_lib"
  by (simp_all add: sample_native_def lib.defs sample_lib_def)

lemma sample_native_blocks [simp]:
  "nl_anchor_txid sample_native t = [ucast (na_amount (np_asset t))]"
  "nl_deserialize_block sample_native b = Inr (b, map (\<lambda>x. [x]) b)"
  "nl_new_tx_merkle_proof sample_native txs i = Inr [of_nat i]"
  "nl_proof_bytes sample_native t = Inr (ucast (na_amount (np_asset t)) # np_tx_merkle_proof t)"
  "nl_append_proof_raw sample_native f b = Inr (f @ [b])" "nl_encode_file sample_native f = Inr (concat f)"
  "nl_file_max_proof_size sample_native = 1000"
  by (simp_all add: sample_native_def lib.defs)

lemma sample_transition_asset [simp]:
  "na_version (np_asset (sample_transition bs)) = 1"
  "na_lock_time (np_asset (sample_transition bs)) = 0"
  "na_relative_lock_time (np_asset (sample_transition bs)) = 0"
  by (simp_all add: sample_transition_def sample_asset_def Let_def)

lemma sample_digest32 [simp]: "digest32 (nl_sha256 sample_native)"
  by (simp add: digest32_def)

section \<open>Round trip\<close>

text \<open>Every transition proof of a path with valid content has at least one byte.\<close>

lemma validate_content_aux:
  "validate_content N p = Inr u \<Longrightarrow> within_limits 0 d p \<Longrightarrow> within_limits 1 d p"
  "validate_content_steps N ss = Inr u \<Longrightarrow> steps_within 0 d ss \<Longrightarrow> steps_within 1 d ss"
  "validate_content_co_paths N cs = Inr u \<Longrightarrow> co_paths_within 0 d cs \<Longrightarrow> co_paths_within 1 d cs"
proof (induction N p and N ss and N cs arbitrary: d u and d u and d u
    rule: validate_content_validate_content_steps_validate_content_co_paths.induct)
  case (4 N tp co_paths rest)
  then have "tp \<noteq> []" by (auto simp: result_simps decode_step_def)
  with 4 show ?case by (auto simp: result_simps Suc_le_eq)
qed (auto simp: result_simps split: if_splits)

lemma validate_path_ok:
  assumes "validate_path N p = Inr u"
  shows "within_limits 1 0 p \<and> path_size p \<le> max_path_size"
proof -
  from assms obtain t where "validate_shape 0 p 0 = Inr t" "validate_content N p = Inr u"
    by (auto simp: validate_path_def result_simps)
  with validate_shape_aux(1) [of 0 0 p t] validate_content_aux(1) [of N p u 0] show ?thesis
    by simp
qed

text \<open>
  C19. Decoding what \<open>MarshalBinary\<close> wrote gives the path back, for every path it accepts whose
  encoding has at most \<open>AssetProofPathMaxSize\<close> bytes; a longer one is refused and the receiver
  keeps its value. The encoding has two bytes per step of the tree more than the size that
  \<open>Validate\<close> has checked against the same limit.
\<close>

theorem path_marshal_roundtrip:
  assumes sha: "digest32 (nl_sha256 N)" and enc: "marshal_binary N p = Inr enc"
  shows "length enc = path_size p + 2 * path_step_count p \<and> path_size p \<le> max_path_size \<and>
    unmarshal_binary N receiver enc =
      (if length enc \<le> max_path_size then (None, p)
       else (Some (invalid_path ''encoded path exceeds limit''), receiver))"
proof -
  from enc have valid: "validate_path N p = Inr ()" and e: "encode_path (nl_sha256 N) p = Inr enc"
    by (auto simp: marshal_binary_def result_simps)
  note lims = validate_path_ok [OF valid]
  have "unmarshal_binary N receiver enc = (None, p)" if "length enc \<le> max_path_size"
  proof -
    have "unmarshal_binary_at (nl_sha256 N) enc 0 = Inr p"
      using lims e that by (simp add: unmarshal_exact [OF sha] path_wire_def)
    with valid show ?thesis by (simp add: unmarshal_binary_def)
  qed
  moreover have "unmarshal_binary_at (nl_sha256 N) enc 0 = Inl (invalid_path ''encoded path exceeds limit'')"
    if "\<not> length enc \<le> max_path_size"
    using that by (subst unmarshal_binary_at.simps) simp
  ultimately show ?thesis
    using encode_path_size [OF sha e] lims by (simp add: unmarshal_binary_def)
qed

definition sample_path :: proof_path where
  "sample_path = Path [1] [Step [2, 2, 1, 9] [Path [9] []]]"

lemma sample_path_valid: "validate_path sample_native sample_path = Inr ()"
  by (simp add: validate_path_def sample_path_def limit_defs decode_base_def decode_step_def
      step_witnesses_def step_witness_count_def sample_transition_def sample_asset_def sample_op_def)

lemma sample_path_encodes: "\<exists>enc. encode_path (nl_sha256 sample_native) sample_path = Inr enc"
  by (simp add: encode_path_def sample_path_def)

theorem path_marshal_roundtrip_witness:
  "\<exists>enc. marshal_binary sample_native sample_path = Inr enc \<and> length enc = 112 \<and>
     unmarshal_binary sample_native Nil_path enc = (None, sample_path)"
proof -
  from sample_path_encodes obtain enc where e: "marshal_binary sample_native sample_path = Inr enc"
    by (auto simp: marshal_binary_def sample_path_valid)
  from path_marshal_roundtrip [OF sample_digest32 e, of Nil_path] e show ?thesis
    by (simp add: sample_path_def limit_defs)
qed

text \<open>
  A blob that \<open>UnmarshalBinary\<close> accepts is the canonical encoding of the path it decodes:
  marshalling the path gives the same bytes, so no two blobs decode to one path. The path keeps
  every limit at every level.
\<close>

theorem path_unmarshal_canonical:
  assumes sha: "digest32 (nl_sha256 N)" and dec: "unmarshal_binary N receiver enc = (None, p)"
  shows "marshal_binary N p = Inr enc \<and> length enc \<le> max_path_size \<and> within_limits 1 0 p"
proof -
  from dec have at: "unmarshal_binary_at (nl_sha256 N) enc 0 = Inr p" and valid: "validate_path N p = Inr ()"
    by (auto simp: unmarshal_binary_def result_simps split: sum.splits)
  from at unmarshal_exact [OF sha] have "path_wire (nl_sha256 N) 0 p enc" by simp
  with valid show ?thesis by (simp add: marshal_binary_def path_wire_def)
qed

theorem path_unmarshal_canonical_witness:
  "\<exists>enc. unmarshal_binary sample_native Nil_path enc = (None, sample_path) \<and>
     marshal_binary sample_native sample_path = Inr enc"
proof -
  from sample_path_encodes obtain enc where
    e: "encode_path (nl_sha256 sample_native) sample_path = Inr enc" by blast
  from encode_path_size [OF sample_digest32 e] have len: "length enc = 112"
    by (simp add: sample_path_def limit_defs)
  have "within_limits 1 0 sample_path" by (simp add: sample_path_def limit_defs)
  with e len have "unmarshal_binary_at (nl_sha256 sample_native) enc 0 = Inr sample_path"
    by (simp add: unmarshal_exact path_wire_def max_path_size_def)
  then have d: "unmarshal_binary sample_native Nil_path enc = (None, sample_path)"
    by (simp add: unmarshal_binary_def sample_path_valid)
  with path_unmarshal_canonical [OF sample_digest32 d] show ?thesis by blast
qed

text \<open>
  A path of eight transition proofs whose counted size is exactly the limit of 64 MiB.
\<close>

definition oversized_path :: proof_path where
  "oversized_path = Path (replicate 33554432 1) (replicate 8 (Step (replicate 4194294 1) []))"

lemma replicate_8: "replicate 8 x = [x, x, x, x, x, x, x, x]"
  by (simp add: numeral_eq_Suc)

lemma oversized_size: "path_size oversized_path = max_path_size" "path_step_count oversized_path = 8"
  by (simp_all add: oversized_path_def replicate_8 limit_defs)

lemma oversized_step:
  "decode_step sample_native (Step (replicate 4194294 1) []) (Suc 0) =
    Inr (sample_transition (replicate 4194294 1))"
proof -
  have "replicate 4194294 (1::byte) = 1 # 1 # 1 # replicate 4194291 1"
    by (simp flip: replicate_Suc)
  then show ?thesis
    by (simp add: decode_step_def limit_defs step_witnesses_def sample_transition_def sample_asset_def)
qed

lemma oversized_valid: "validate_path sample_native oversized_path = Inr ()"
proof -
  have "within_limits 0 0 oversized_path"
    by (simp add: oversized_path_def replicate_8 limit_defs)
  then have "\<exists>t. validate_shape 0 oversized_path 0 = Inr t"
    using validate_shape_aux(1) [of 0 0 oversized_path "of_nat max_path_size"] oversized_size
    by (simp add: max_path_size_def)
  moreover have "validate_content sample_native oversized_path = Inr ()"
    using oversized_step
    by (simp add: oversized_path_def replicate_8 decode_base_def step_witness_count_def)
  ultimately show ?thesis by (auto simp: validate_path_def)
qed

text \<open>
  C20. \<open>Validate\<close> does not count the two bytes of each step's co-input count, so there are valid
  paths that \<open>MarshalBinary\<close> encodes to more than \<open>AssetProofPathMaxSize\<close> bytes, and
  \<open>UnmarshalBinary\<close> refuses the result: a persisted path cannot be read back.
\<close>

theorem marshalled_path_unreadable:
  "validate_path sample_native oversized_path = Inr () \<and>
   (\<exists>enc. marshal_binary sample_native oversized_path = Inr enc \<and> length enc = max_path_size + 16 \<and>
      unmarshal_binary sample_native Nil_path enc =
        (Some (invalid_path ''encoded path exceeds limit''), Nil_path))"
proof -
  have "within_limits 1 0 oversized_path"
    by (simp add: oversized_path_def replicate_8 limit_defs)
  then obtain body where "marshal_body (nl_sha256 sample_native) oversized_path = Inr body"
    using marshal_total_aux(1) by blast
  then obtain enc where e: "marshal_binary sample_native oversized_path = Inr enc"
    by (simp add: marshal_binary_def oversized_valid encode_path_def)
  then have "encode_path (nl_sha256 sample_native) oversized_path = Inr enc"
    by (auto simp: marshal_binary_def result_simps)
  from encode_path_size [OF sample_digest32 this] oversized_size
  have len: "length enc = max_path_size + 16" by simp
  then have "unmarshal_binary_at (nl_sha256 sample_native) enc 0 =
      Inl (invalid_path ''encoded path exceeds limit'')"
    by (subst unmarshal_binary_at.simps) simp
  with e len oversized_valid show ?thesis by (simp add: unmarshal_binary_def)
qed

end
