(* ===== verification/Tap_PathChain.thy ===== *)
theory Tap_PathChain
  imports Tap_PathVerify
begin

text \<open>
  What the local verification of an asset proof path (\<open>AssetProofPath.Verify\<close>) establishes: every
  base is attested, every transition spends exactly the tips it merges, and the whole tree
  carries one asset.
\<close>

section \<open>What a verified path proves\<close>

text \<open>
  What the engine relies on in the native verifier: the state it returns is the one the
  transition creates, and where a proof is anchored does not depend on its additional inputs.
\<close>

definition native_verify_laws :: "('k, 'g, 'f, 'z) native_lib_scheme \<Rightarrow> bool" where
  "native_verify_laws N \<longleftrightarrow>
     (\<forall>t prev gv co next_state. nl_verify N t prev gv co = Inr next_state \<longrightarrow>
        sn_asset next_state = np_asset t \<and> sn_out_point next_state = nl_out_point N t) \<and>
     (\<forall>t fs. nl_out_point N (t\<lparr>np_additional_inputs := fs\<rparr>) = nl_out_point N t)"

fun sub_paths :: "proof_path \<Rightarrow> proof_path list"
and steps_sub_paths :: "path_step list \<Rightarrow> proof_path list"
and co_sub_paths :: "proof_path list \<Rightarrow> proof_path list" where
  "sub_paths Nil_path = [Nil_path]"
| "sub_paths (Path base steps) = Path base steps # steps_sub_paths steps"
| "steps_sub_paths [] = []"
| "steps_sub_paths (Step tp co_paths # rest) = co_sub_paths co_paths @ steps_sub_paths rest"
| "co_sub_paths [] = []"
| "co_sub_paths (co_path # rest) = sub_paths co_path @ co_sub_paths rest"

text \<open>The proof of the state a path ends in.\<close>

definition tip_of :: "('k, 'g, 'f, 'z) native_lib_scheme \<Rightarrow> proof_path \<Rightarrow> ('k, 'g, 'f) native_proof result" where
  "tip_of N p =
     (if path_steps p = [] then decode_base N (confirmed_base_proof p)
      else decode_step N (last (path_steps p)) (step_witness_count (last (path_steps p))))"

definition tip_out :: "('k, 'g, 'f, 'z) native_lib_scheme \<Rightarrow> proof_path \<Rightarrow> outpoint" where
  "tip_out N p = (case tip_of N p of Inr t \<Rightarrow> nl_out_point N t | Inl _ \<Rightarrow> \<lparr>op_txid = [], op_index = 0\<rparr>)"

definition base_attested :: "path_verifier \<Rightarrow> proof_path \<Rightarrow> bool" where
  "base_attested V q \<longleftrightarrow>
     vf_confirmed V (confirmed_base_proof q) =
       Inr (Some \<lparr>cv_inventory_complete = True, cv_passive_asset_count = 0\<rparr>)"

definition same_asset :: "('k, 'g) native_asset \<Rightarrow> ('k, 'g) native_asset \<Rightarrow> bool" where
  "same_asset a b \<longleftrightarrow> na_type a = na_type b \<and> na_genesis a = na_genesis b"

text \<open>
  The outpoints step \<open>i\<close> of a path may consume: where the path up to the step ends, and where
  each of the step's co-input paths ends.
\<close>

definition step_sources :: "('k, 'g, 'f, 'z) native_lib_scheme \<Rightarrow> proof_path \<Rightarrow> nat \<Rightarrow> outpoint list" where
  "step_sources N q i =
     tip_out N (Path (confirmed_base_proof q) (take i (path_steps q))) #
     map (tip_out N) (co_input_paths (path_steps q ! i))"

text \<open>
  The transition of step \<open>i\<close> spends exactly its sources, with its asset witnesses and, each
  once, with its Bitcoin transaction, and the host has attested the spending.
\<close>

definition step_bound ::
    "('k, 'g, 'f, 'z) native_lib_scheme \<Rightarrow> (unconfirmed_verification \<Rightarrow> unit result) option \<Rightarrow> proof_path \<Rightarrow> nat \<Rightarrow> bool" where
  "step_bound N U q i \<longleftrightarrow>
     (\<exists>t ws host req.
        decode_step N (path_steps q ! i) (step_witness_count (path_steps q ! i)) = Inr t \<and>
        distinct (step_sources N q i) \<and>
        effective_witnesses N t = Inr ws \<and>
        (\<lambda>w. map_option pid_outpoint (nw_prev_id w)) ` set ws = Some ` set (step_sources N q i) \<and>
        (\<forall>op \<in> set (step_sources N q i). length (filter (\<lambda>x. x = Some op) (np_anchor_inputs t)) = 1) \<and>
        U = Some host \<and> host req = Inr () \<and> uv_previous_anchor_outpoints req = step_sources N q i \<and>
        uv_anchor_outpoint req = nl_out_point N t)"

subsection \<open>Inversion of the checks\<close>

lemma decode_step_compact:
  "decode_step N s n = Inr t \<Longrightarrow> t\<lparr>np_additional_inputs := []\<rparr> = t"
  by (cases t) (auto simp: decode_step_def result_simps Let_def)

lemma verify_asset_identity_ok:
  "verify_asset_identity N a b = Inr u \<Longrightarrow> same_asset b a"
  by (auto simp: verify_asset_identity_def same_asset_def split: if_splits)

lemma bind_witness_eq_Inr [result_simps]:
  "bind_witness expected spent w = Inr spent' \<longleftrightarrow>
     (\<exists>pid. nw_prev_id w = Some pid \<and> pid_outpoint pid \<in> set expected \<and>
            spent' = List.insert (pid_outpoint pid) spent)"
  by (auto simp: bind_witness_def split: option.splits)

lemma bind_witnesses_ok:
  assumes "fold_res (bind_witness expected) spent ws = Inr spent'" and "distinct spent"
  shows "distinct spent' \<and>
    Some ` set spent' = Some ` set spent \<union> (\<lambda>w. map_option pid_outpoint (nw_prev_id w)) ` set ws \<and>
    set spent' \<subseteq> set spent \<union> set expected"
  using assms
proof (induction ws arbitrary: spent)
  case Nil
  then show ?case by simp
next
  case (Cons w ws)
  from Cons.prems(1) obtain pid where w: "nw_prev_id w = Some pid" and e: "pid_outpoint pid \<in> set expected"
    and rest: "fold_res (bind_witness expected) (List.insert (pid_outpoint pid) spent) ws = Inr spent'"
    by (auto simp: result_simps)
  have "distinct (List.insert (pid_outpoint pid) spent)" using Cons.prems(2) by simp
  from Cons.IH [OF rest this] w e show ?case by auto
qed

lemma verify_input_binding_ok:
  assumes "verify_input_binding N t expected = Inr u" and "distinct expected"
  obtains ws where "effective_witnesses N t = Inr ws"
    and "(\<lambda>w. map_option pid_outpoint (nw_prev_id w)) ` set ws = Some ` set expected"
proof -
  from assms(1) obtain ws spent where ws: "effective_witnesses N t = Inr ws"
    and spent: "fold_res (bind_witness expected) [] ws = Inr spent" and len: "length spent = length expected"
    by (auto simp: verify_input_binding_def result_simps split: if_splits)
  from bind_witnesses_ok [OF spent] have d: "distinct spent" "set spent \<subseteq> set expected"
    and img: "Some ` set spent = (\<lambda>w. map_option pid_outpoint (nw_prev_id w)) ` set ws" by auto
  have "card (set spent) = card (set expected)"
    using d(1) assms(2) len by (simp add: distinct_card)
  with d(2) have "set spent = set expected" by (simp add: card_subset_eq)
  with ws img that show ?thesis by metis
qed

lemma verify_anchor_spend_ok:
  "verify_anchor_spend t expected = Inr u \<Longrightarrow>
     \<forall>op \<in> set expected. length (filter (\<lambda>x. x = Some op) (np_anchor_inputs t)) = 1"
  by (auto simp: verify_anchor_spend_def list_all_iff split: if_splits)

lemma summarize_step_ok:
  "summarize_step N s t = Inr summary \<Longrightarrow> ds_anchor_outpoint (ss_derived summary) = nl_out_point N t"
  by (auto simp: summarize_step_def summarize_asset_proof_def result_simps Let_def
      split: option.splits if_splits)

lemma verify_transition_ok:
  assumes "native_verify_laws N" and "verify_transition N host i s previous t spent co_files = Inr next_state"
    and "distinct spent"
  shows "sn_asset next_state = np_asset t \<and> sn_out_point next_state = nl_out_point N t \<and>
    same_asset (np_asset t) (sn_asset previous) \<and>
    (\<exists>ws req. effective_witnesses N t = Inr ws \<and>
       (\<lambda>w. map_option pid_outpoint (nw_prev_id w)) ` set ws = Some ` set spent \<and>
       (\<forall>op \<in> set spent. length (filter (\<lambda>x. x = Some op) (np_anchor_inputs t)) = 1) \<and>
       host req = Inr () \<and> uv_previous_anchor_outpoints req = spent \<and>
       uv_anchor_outpoint req = nl_out_point N t)"
proof -
  from assms(2) obtain summary tx where
    bind: "verify_input_binding N t spent = Inr ()" and spend: "verify_anchor_spend t spent = Inr ()"
    and ident: "verify_identity N (sn_asset previous) t = Inr ()"
    and sum: "summarize_step N s t = Inr summary"
    and att: "host \<lparr>uv_step_index = of_nat i, uv_previous_anchor_outpoint = ss_previous_anchor_outpoint summary,
        uv_anchor_outpoint = ds_anchor_outpoint (ss_derived summary), uv_anchor_transaction = tx,
        uv_previous_anchor_outpoints = spent\<rparr> = Inr ()" (is "host ?req = _")
    and ver: "nl_verify N (if co_files \<noteq> [] then t\<lparr>np_additional_inputs := co_files\<rparr> else t) previous
        (group_verifier N (na_group_key (sn_asset previous))) (co_files \<noteq> []) = Inr next_state"
    unfolding verify_transition_def by (auto simp: result_simps)
  have state: "sn_asset next_state = np_asset t \<and> sn_out_point next_state = nl_out_point N t"
    using assms(1) ver unfolding native_verify_laws_def by (fastforce split: if_splits)
  from ident have same: "same_asset (np_asset t) (sn_asset previous)"
    by (auto simp: verify_identity_def result_simps dest: verify_asset_identity_ok)
  obtain ws where ws: "effective_witnesses N t = Inr ws"
    "(\<lambda>w. map_option pid_outpoint (nw_prev_id w)) ` set ws = Some ` set spent"
    using verify_input_binding_ok [OF bind assms(3)] by blast
  have "uv_anchor_outpoint ?req = nl_out_point N t"
    using summarize_step_ok [OF sum] by simp
  moreover have "uv_previous_anchor_outpoints ?req = spent" by simp
  ultimately show ?thesis
    using state same ws verify_anchor_spend_ok [OF spend] att by blast
qed

subsection \<open>The engine\<close>

definition path_bound ::
    "('k, 'g, 'f, 'z) native_lib_scheme \<Rightarrow> path_verifier \<Rightarrow> (unconfirmed_verification \<Rightarrow> unit result) option \<Rightarrow>
     ('k, 'g) native_asset \<Rightarrow> proof_path \<Rightarrow> bool" where
  "path_bound N V U a q \<longleftrightarrow>
     base_attested V q \<and> (\<exists>t. tip_of N q = Inr t \<and> same_asset (np_asset t) a) \<and>
     (\<forall>i < length (path_steps q). step_bound N U q i)"

lemma same_asset_refl [simp]: "same_asset a a"
  by (simp add: same_asset_def)

lemma path_bound_same: "same_asset a b \<Longrightarrow> path_bound N V U a q \<Longrightarrow> path_bound N V U b q"
  by (auto simp: path_bound_def same_asset_def)

lemma same_asset_trans: "same_asset a b \<Longrightarrow> same_asset b c \<Longrightarrow> same_asset a c"
  by (simp add: same_asset_def)

lemma same_asset_sym: "same_asset a b \<Longrightarrow> same_asset b a"
  by (simp add: same_asset_def)

lemma tip_of_snoc: "tip_of N (Path base (pre @ [s])) = decode_step N s (step_witness_count s)"
  by (simp add: tip_of_def)

lemma step_sources_at:
  assumes "tip_of N (Path base pre) = Inr final"
  shows "step_sources N (Path base (pre @ Step tp cs # rest)) (length pre) =
    nl_out_point N final # map (tip_out N) cs"
  using assms by (simp add: step_sources_def tip_out_def)

lemma verify_chain_ok:
  assumes "verify_chain N V U (Path base ss) = Inr tip"
  obtains final where "base_attested V (Path base ss)" and "decode_base N base = Inr final"
    and "verify_steps N V U 0 \<lparr>sn_asset = np_asset final, sn_out_point = nl_out_point N final\<rparr> final ss = Inr tip"
proof -
  from assms obtain vo where vo: "vf_confirmed V base = Inr vo"
    by (cases "vf_confirmed V base") simp_all
  with assms obtain cv where cv: "vo = Some cv" by (cases vo) simp_all
  with assms vo have "cv_inventory_complete cv" "cv_passive_asset_count cv = 0"
    by (auto split: if_splits)
  with assms vo cv that show thesis
    by (cases "decode_base N base"; cases cv) (auto simp: base_attested_def)
qed

lemma verify_steps_ok:
  assumes "verify_steps N V U i prev final (Step tp cs # rest) = Inr tip"
  obtains t host spent fs next_state where
    "decode_step N (Step tp cs) (step_witness_count (Step tp cs)) = Inr t" and "U = Some host"
    and "resolve_co_paths N V U prev [sn_out_point prev] cs = Inr (spent, fs)"
    and "verify_transition N host i (Step tp cs) prev t spent fs = Inr next_state"
    and "verify_steps N V U (Suc i) next_state (t\<lparr>np_additional_inputs := []\<rparr>) rest = Inr tip"
proof -
  from assms obtain t where t: "decode_step N (Step tp cs) (step_witness_count (Step tp cs)) = Inr t"
    by (cases "decode_step N (Step tp cs) (step_witness_count (Step tp cs))") simp_all
  with assms obtain host where U: "U = Some host" by (cases U) simp_all
  with assms t obtain spent fs where cos: "resolve_co_paths N V U prev [sn_out_point prev] cs = Inr (spent, fs)"
    by (cases "resolve_co_paths N V U prev [sn_out_point prev] cs") auto
  with assms t U that show thesis
    by (cases "verify_transition N host i (Step tp cs) prev t spent fs") auto
qed

lemma resolve_co_paths_ok:
  assumes "resolve_co_paths N V U prev spent (c # cs) = Inr (spent', fs)"
  obtains ct f fs' where "verify_chain N V U c = Inr ct" and "nl_out_point N ct \<notin> set spent"
    and "verify_asset_identity N (sn_asset prev) (np_asset ct) = Inr ()"
    and "synthetic_proof_file N c = Inr f"
    and "resolve_co_paths N V U prev (spent @ [nl_out_point N ct]) cs = Inr (spent', fs')"
    and "fs = f # fs'"
proof -
  from assms obtain ct where ct: "verify_chain N V U c = Inr ct"
    by (cases "verify_chain N V U c") simp_all
  with assms have new: "nl_out_point N ct \<notin> set spent" by (auto split: if_splits)
  with assms ct obtain f where
    "verify_asset_identity N (sn_asset prev) (np_asset ct) = Inr ()" "synthetic_proof_file N c = Inr f"
    by (cases "verify_asset_identity N (sn_asset prev) (np_asset ct)"; cases "synthetic_proof_file N c") auto
  with assms ct new that show thesis
    by (cases "resolve_co_paths N V U prev (spent @ [nl_out_point N ct]) cs") auto
qed

lemma verify_chain_aux:
  assumes laws: "native_verify_laws N"
  shows "verify_chain N V U p = Inr tip \<Longrightarrow>
      p \<noteq> Nil_path \<and> tip_of N p = Inr tip \<and> (\<forall>q \<in> set (sub_paths p). path_bound N V U (np_asset tip) q)"
    and "verify_steps N V U i prev final ss = Inr tip \<Longrightarrow>
      i = length pre \<Longrightarrow> tip_of N (Path base pre) = Inr final \<Longrightarrow>
      sn_asset prev = np_asset final \<Longrightarrow> sn_out_point prev = nl_out_point N final \<Longrightarrow>
      tip_of N (Path base (pre @ ss)) = Inr tip \<and> same_asset (np_asset tip) (np_asset final) \<and>
      (\<forall>j < length ss. step_bound N U (Path base (pre @ ss)) (length pre + j)) \<and>
      (\<forall>q \<in> set (steps_sub_paths ss). path_bound N V U (np_asset final) q)"
    and "resolve_co_paths N V U prev spent cs = Inr (spent', fs) \<Longrightarrow> distinct spent \<Longrightarrow>
      spent' = spent @ map (tip_out N) cs \<and> distinct spent' \<and>
      (\<forall>q \<in> set (co_sub_paths cs). path_bound N V U (sn_asset prev) q)"
  using laws
proof (induction N V U p and N V U i prev final ss and N V U prev spent cs
    arbitrary: tip and tip pre base and spent' fs
    rule: verify_chain_verify_steps_resolve_co_paths.induct)
  case (1 N V U)
  then show ?case by simp
next
  case (2 N V U base ss)
  obtain final where att: "base_attested V (Path base ss)" and final: "decode_base N base = Inr final"
    and steps: "verify_steps N V U 0 \<lparr>sn_asset = np_asset final, sn_out_point = nl_out_point N final\<rparr> final ss = Inr tip"
    using verify_chain_ok [OF "2.prems"(1)] .
  from att have conf: "wrap_with (\<lambda>e. Wrapf ''verify confirmed base proof: '' e []) (vf_confirmed V base) =
      Inr (Some \<lparr>cv_inventory_complete = True, cv_passive_asset_count = 0\<rparr>)"
    by (simp add: base_attested_def)
  have nil: "tip_of N (Path base []) = Inr final" by (simp add: tip_of_def final)
  then have r: "tip_of N (Path base ([] @ ss)) = Inr tip" "same_asset (np_asset tip) (np_asset final)"
    "\<forall>j < length ss. step_bound N U (Path base ([] @ ss)) (length ([] :: path_step list) + j)"
    "\<forall>q \<in> set (steps_sub_paths ss). path_bound N V U (np_asset final) q"
    using "2.IH" [OF conf refl _ _ final steps _ nil _ _ "2.prems"(2)] by simp_all
  have "path_bound N V U (np_asset tip) (Path base ss)"
    using att r by (auto simp: path_bound_def)
  moreover have "\<forall>q \<in> set (steps_sub_paths ss). path_bound N V U (np_asset tip) q"
    using r(2,4) path_bound_same same_asset_sym by blast
  ultimately show ?case using r(1) by simp
next
  case (3 N V U i prev final)
  then show ?case by simp
next
  case (4 N V U i prev final tp cs rest)
  let ?s = "Step tp cs"
  obtain t host spent fs next_state where
    t: "decode_step N ?s (step_witness_count ?s) = Inr t" and U: "U = Some host"
    and cos: "resolve_co_paths N V U prev [sn_out_point prev] cs = Inr (spent, fs)"
    and tr: "verify_transition N host i ?s prev t spent fs = Inr next_state"
    and rest: "verify_steps N V U (Suc i) next_state (t\<lparr>np_additional_inputs := []\<rparr>) rest = Inr tip"
    using verify_steps_ok [OF "4.prems"(1)] .
  note w = wrap_with_eq_Inr [THEN iffD2]
  from "4.IH"(1) [OF w [OF t] U cos _ "4.prems"(6)] have spent: "spent = sn_out_point prev # map (tip_out N) cs"
    "distinct spent" and cob: "\<forall>q \<in> set (co_sub_paths cs). path_bound N V U (np_asset final) q"
    using "4.prems"(4) by auto
  have src: "step_sources N (Path base (pre @ ?s # rest)) (length pre) = spent"
    using step_sources_at [OF "4.prems"(3)] spent(1) "4.prems"(5) by simp
  note tr_ok = verify_transition_ok [OF "4.prems"(6) tr spent(2)]
  have this_step: "step_bound N U (Path base (pre @ ?s # rest)) (length pre)"
    unfolding step_bound_def src using tr_ok t U spent(2) by (simp add: nth_append)
  from "4.IH"(2) [OF w [OF t] U cos refl tr rest, of "pre @ [?s]"] have
    ih: "tip_of N (Path base ((pre @ [?s]) @ rest)) = Inr tip \<and> same_asset (np_asset tip) (np_asset t) \<and>
      (\<forall>j < length rest. step_bound N U (Path base ((pre @ [?s]) @ rest)) (length (pre @ [?s]) + j)) \<and>
      (\<forall>q \<in> set (steps_sub_paths rest). path_bound N V U (np_asset t) q)"
    using tr_ok t "4.prems"(2,6) decode_step_compact [OF t] by (simp add: tip_of_snoc)
  have same: "same_asset (np_asset t) (np_asset final)" using tr_ok "4.prems"(4) by simp
  have "step_bound N U (Path base (pre @ ?s # rest)) (length pre + j)" if "j < length (?s # rest)" for j
    using that ih this_step by (cases j) auto
  moreover have "\<forall>q \<in> set (steps_sub_paths rest). path_bound N V U (np_asset final) q"
    using ih same path_bound_same by blast
  ultimately show ?case using ih same cob same_asset_trans by auto
next
  case (5 N V U prev spent)
  then show ?case by simp
next
  case (6 N V U prev spent c cs)
  obtain ct f fs' where
    ct: "verify_chain N V U c = Inr ct" and new: "nl_out_point N ct \<notin> set spent"
    and ident: "verify_asset_identity N (sn_asset prev) (np_asset ct) = Inr ()"
    and f: "synthetic_proof_file N c = Inr f"
    and rest: "resolve_co_paths N V U prev (spent @ [nl_out_point N ct]) cs = Inr (spent', fs')"
    and fs: "fs = f # fs'"
    using resolve_co_paths_ok [OF "6.prems"(1)] .
  note w = wrap_with_eq_Inr [THEN iffD2]
  from "6.IH"(1) [OF ct "6.prems"(3)] have c: "tip_of N c = Inr ct"
    "\<forall>q \<in> set (sub_paths c). path_bound N V U (np_asset ct) q" by auto
  have "distinct (spent @ [nl_out_point N ct])" using "6.prems"(2) new by simp
  note ih = "6.IH"(2) [OF w [OF ct] new w [OF ident] w [OF f] rest this "6.prems"(3)]
  from ih have r: "spent' = spent @ nl_out_point N ct # map (tip_out N) cs" by simp
  have "\<forall>q \<in> set (sub_paths c). path_bound N V U (sn_asset prev) q"
    using c(2) verify_asset_identity_ok [OF ident] path_bound_same by blast
  with ih have "\<forall>q \<in> set (co_sub_paths (c # cs)). path_bound N V U (sn_asset prev) q" by auto
  moreover have "spent' = spent @ map (tip_out N) (c # cs)"
    using r c(1) by (simp add: tip_out_def)
  ultimately show ?case using ih by blast
qed

text \<open>
  C7. A path that verifies is bound to its inputs throughout its tree. Every confirmed base, of
  the path and of each co-input path, was attested with a complete inventory and no passive
  asset; every tip carries the asset of the final tip, which is the transition of the last step;
  and every transition spends exactly the tip before it and the tips of its declared co-inputs,
  all different: its asset witnesses name these outpoints and no other, its Bitcoin transaction
  spends each of them once, and the host attested exactly this list.
\<close>

theorem verified_path_binds_inputs:
  assumes "native_verify_laws N" and "verify_chain N V U p = Inr tip"
  shows "tip_of N p = Inr tip \<and>
    (\<forall>q \<in> set (sub_paths p).
       base_attested V q \<and> (\<exists>t. tip_of N q = Inr t \<and> same_asset (np_asset t) (np_asset tip)) \<and>
       (\<forall>i < length (path_steps q). step_bound N U q i))"
  using verify_chain_aux(1) [OF assms(1), of V U p tip] assms by (auto simp: path_bound_def)

definition sample_verifier :: path_verifier where
  "sample_verifier =
     \<lparr>vf_confirmed = (\<lambda>_. Inr (Some \<lparr>cv_inventory_complete = True, cv_passive_asset_count = 0\<rparr>)),
      vf_unconfirmed = Some (\<lambda>req. if length (uv_previous_anchor_outpoints req) = 2 then Inr ()
                                   else Inl (Plain ''unknown transition''))\<rparr>"

lemma sample_native_laws: "native_verify_laws sample_native"
  by (simp add: native_verify_laws_def)

lemma sample_path_tip:
  "verify_chain sample_native sample_verifier (vf_unconfirmed sample_verifier) sample_path =
     Inr (sample_transition [2, 2, 1, 9])"
  by (simp add: sample_path_def sample_verifier_def decode_base_def decode_step_def
      step_witnesses_def step_witness_count_def sample_transition_def sample_asset_def sample_op_def
      limit_defs verify_transition_def verify_asset_identity_def verify_input_binding_def
      effective_witnesses_def bind_witness_def verify_anchor_spend_def verify_identity_def
      summarize_step_def summarize_asset_proof_def step_content_id_def verify_isolated_output_def
      isolated_script_def strip_split_commitment_def anchor_output_at_def
      asset_ref_from_typed_asset_def asset_ref_from_asset_def asset_ref_from_asset_id_def
      encode_asset_ref_def asset_type_collectible_def parse_taproot_pub_key_def)

theorem verified_path_binds_inputs_witness:
  "tip_of sample_native sample_path = Inr (sample_transition [2, 2, 1, 9]) \<and>
   step_bound sample_native (vf_unconfirmed sample_verifier) sample_path 0"
  using verified_path_binds_inputs [OF sample_native_laws sample_path_tip]
  by (simp add: sample_path_def)

section \<open>What a confirmed file covers\<close>

text \<open>The transaction ID of the anchor does not depend on the additional inputs of the proof.\<close>

definition txid_law :: "('k, 'g, 'f, 'z) native_lib_scheme \<Rightarrow> bool" where
  "txid_law N \<longleftrightarrow> (\<forall>t fs. nl_anchor_txid N (t\<lparr>np_additional_inputs := fs\<rparr>) = nl_anchor_txid N t)"

text \<open>
  The supplied block of the step's anchor transaction contains it, and a merkle proof for its
  first position in the block was built.
\<close>

definition step_confirmed ::
    "('k, 'g, 'f, 'z) native_lib_scheme \<Rightarrow> (bytes \<rightharpoonup> anchor_confirmation) \<Rightarrow> path_step \<Rightarrow> bool" where
  "step_confirmed N C s \<longleftrightarrow>
     (\<exists>t c header txids i merkle.
        decode_step N s (step_witness_count s) = Inr t \<and> C (nl_anchor_txid N t) = Some c \<and>
        nl_deserialize_block N (cf_block c) = Inr (header, txids) \<and>
        i < length txids \<and> txids ! i = nl_anchor_txid N t \<and> nl_anchor_txid N t \<notin> set (take i txids) \<and>
        nl_new_tx_merkle_proof N txids i = Inr merkle)"

lemma tx_index_Some:
  "tx_index txid k txids = Some i \<Longrightarrow>
     k \<le> i \<and> i - k < length txids \<and> txids ! (i - k) = txid \<and> txid \<notin> set (take (i - k) txids)"
proof (induction txids arbitrary: k)
  case Nil
  then show ?case by simp
next
  case (Cons tx txids)
  show ?case
  proof (cases "tx = txid")
    case True
    with Cons.prems show ?thesis by simp
  next
    case False
    with Cons.prems have "tx_index txid (Suc k) txids = Some i" by simp
    from Cons.IH [OF this] False obtain m where "i = Suc (k + m)" "m < length txids"
      "txids ! m = txid" "txid \<notin> set (take m txids)"
      by (metis Suc_le_D add_Suc diff_add_inverse le_Suc_ex)
    with False show ?thesis by simp
  qed
qed

lemma tx_index_None: "tx_index txid k txids = None \<longleftrightarrow> txid \<notin> set txids"
  by (induction txids arbitrary: k) auto

lemma confirm_transition_ok:
  assumes "confirm_transition N C t = Inr t'"
  shows "\<exists>c header txids i merkle. C (nl_anchor_txid N t) = Some c \<and>
    nl_deserialize_block N (cf_block c) = Inr (header, txids) \<and>
    i < length txids \<and> txids ! i = nl_anchor_txid N t \<and> nl_anchor_txid N t \<notin> set (take i txids) \<and>
    nl_new_tx_merkle_proof N txids i = Inr merkle \<and>
    t' = t\<lparr>np_block_header := header, np_block_height := cf_block_height c, np_tx_merkle_proof := merkle\<rparr>"
proof -
  from assms obtain c where c: "C (nl_anchor_txid N t) = Some c"
    by (cases "C (nl_anchor_txid N t)") (simp_all add: confirm_transition_def)
  with assms obtain header txids where b: "nl_deserialize_block N (cf_block c) = Inr (header, txids)"
    by (cases "nl_deserialize_block N (cf_block c)") (auto simp: confirm_transition_def split: if_splits)
  with assms c obtain i where i: "tx_index (nl_anchor_txid N t) 0 txids = Some i"
    by (cases "tx_index (nl_anchor_txid N t) 0 txids") (auto simp: confirm_transition_def split: if_splits)
  with assms c b obtain merkle where "nl_new_tx_merkle_proof N txids i = Inr merkle"
      "t' = t\<lparr>np_block_header := header, np_block_height := cf_block_height c, np_tx_merkle_proof := merkle\<rparr>"
    by (cases "nl_new_tx_merkle_proof N txids i") (auto simp: confirm_transition_def split: if_splits)
  with c b tx_index_Some [OF i] show ?thesis by auto
qed

text \<open>
  The proof that a step adds to the file: its transition with the files of its co-inputs added and
  with the header, the height and a merkle proof of the supplied block of its anchor transaction.
\<close>

definition step_proof ::
    "('k, 'g, 'f, 'z) native_lib_scheme \<Rightarrow> (bytes \<rightharpoonup> anchor_confirmation) \<Rightarrow> path_step \<Rightarrow> 'f list \<Rightarrow> bytes \<Rightarrow> bool" where
  "step_proof N C s fs bs \<longleftrightarrow>
     (\<exists>t c header txids i merkle.
        decode_step N s (step_witness_count s) = Inr t \<and> C (nl_anchor_txid N t) = Some c \<and>
        nl_deserialize_block N (cf_block c) = Inr (header, txids) \<and>
        i < length txids \<and> txids ! i = nl_anchor_txid N t \<and> nl_anchor_txid N t \<notin> set (take i txids) \<and>
        nl_new_tx_merkle_proof N txids i = Inr merkle \<and>
        nl_proof_bytes N (t\<lparr>np_additional_inputs := np_additional_inputs t @ fs, np_block_header := header,
          np_block_height := cf_block_height c, np_tx_merkle_proof := merkle\<rparr>) = Inr bs)"

text \<open>
  The file of a path: the base file with the proofs of the steps appended in their order, the co-input
  files of a step being those of its co-input paths.
\<close>

inductive path_file ::
    "('k, 'g, 'f, 'z) native_lib_scheme \<Rightarrow> (bytes \<rightharpoonup> anchor_confirmation) \<Rightarrow> proof_path \<Rightarrow> bytes \<Rightarrow> bool"
  for N C where
  base_file: "path_file N C (Path base []) base"
| step_files: "ss \<noteq> [] \<Longrightarrow> nl_decode_file N base = Inr f0 \<Longrightarrow>
    list_all2 (\<lambda>s bs. \<exists>fs. list_all2 (\<lambda>q f. \<exists>b. path_file N C q b \<and> nl_decode_file N b = Inr f) (co_input_paths s) fs \<and>
      step_proof N C s fs bs) ss bss \<Longrightarrow>
    fold_res (nl_append_proof_raw N) f0 bss = Inr f1 \<Longrightarrow> nl_encode_file N f1 = Inr out \<Longrightarrow>
    path_file N C (Path base ss) out"

lemma confirm_transition_step:
  assumes law: "txid_law N" and "decode_step N s (step_witness_count s) = Inr t"
    and "confirm_transition N C (t\<lparr>np_additional_inputs := np_additional_inputs t @ fs\<rparr>) = Inr t'"
    and "nl_proof_bytes N t' = Inr bs"
  shows "step_proof N C s fs bs"
  using confirm_transition_ok [OF assms(3)] assms(2,4) law
  by (fastforce simp: step_proof_def txid_law_def)

lemma confirm_steps_ok:
  assumes "confirm_steps N C file (Step tp cs # rest) = Inr out"
  obtains t fs t' bs file1 where "decode_step N (Step tp cs) (step_witness_count (Step tp cs)) = Inr t"
    and "confirm_co_paths N C cs = Inr fs"
    and "confirm_transition N C (t\<lparr>np_additional_inputs := np_additional_inputs t @ fs\<rparr>) = Inr t'"
    and "nl_proof_bytes N t' = Inr bs" and "\<not> nl_file_max_proof_size N < length bs"
    and "nl_append_proof_raw N file bs = Inr file1" and "confirm_steps N C file1 rest = Inr out"
proof -
  from assms obtain t where t: "decode_step N (Step tp cs) (step_witness_count (Step tp cs)) = Inr t"
    by (cases "decode_step N (Step tp cs) (step_witness_count (Step tp cs))") simp_all
  with assms obtain fs where fs: "confirm_co_paths N C cs = Inr fs"
    by (cases "confirm_co_paths N C cs") simp_all
  let ?t = "t\<lparr>np_additional_inputs := np_additional_inputs t @ fs\<rparr>"
  from assms t fs obtain t' where t': "confirm_transition N C ?t = Inr t'"
    by (cases "confirm_transition N C ?t") simp_all
  with assms t fs obtain bs where bs: "nl_proof_bytes N t' = Inr bs"
    by (cases "nl_proof_bytes N t'") simp_all
  with assms t fs t' obtain file1 where "nl_append_proof_raw N file bs = Inr file1"
    by (cases "nl_append_proof_raw N file bs") (auto split: if_splits)
  with assms t fs t' bs that show thesis by (auto split: if_splits)
qed

lemma confirm_aux:
  assumes law: "txid_law N"
  shows "confirm_proof_file N C p = Inr out \<Longrightarrow>
      \<forall>q \<in> set (sub_paths p). \<forall>s \<in> set (path_steps q). step_confirmed N C s"
    and "confirm_steps N C pf ss = Inr out' \<Longrightarrow>
      (\<forall>s \<in> set ss. step_confirmed N C s) \<and>
      (\<forall>q \<in> set (steps_sub_paths ss). \<forall>s \<in> set (path_steps q). step_confirmed N C s)"
    and "confirm_co_paths N C cs = Inr fs \<Longrightarrow>
      \<forall>q \<in> set (co_sub_paths cs). \<forall>s \<in> set (path_steps q). step_confirmed N C s"
  using law
proof (induction N C p and N C pf ss and N C cs arbitrary: out and out' and fs
    rule: confirm_proof_file_confirm_steps_confirm_co_paths.induct)
  case (1 N C)
  then show ?case by (simp add: validate_path_def)
next
  case (2 N C base ss)
  show ?case
  proof (cases "ss = []")
    case True
    then show ?thesis by simp
  next
    case False
    from "2.prems"(1) False obtain pf file1 where
      "validate_path N (Path base ss) = Inr ()" "nl_decode_file N base = Inr pf"
      "confirm_steps N C pf ss = Inr file1"
      by (auto simp: result_simps)
    with "2.IH" False "2.prems"(2) show ?thesis by fastforce
  qed
next
  case (4 N C pf tp cs rest)
  obtain t fs t' bs file1 where t: "decode_step N (Step tp cs) (step_witness_count (Step tp cs)) = Inr t"
    and fs: "confirm_co_paths N C cs = Inr fs"
    and t': "confirm_transition N C (t\<lparr>np_additional_inputs := np_additional_inputs t @ fs\<rparr>) = Inr t'"
    and bs: "nl_proof_bytes N t' = Inr bs" "\<not> nl_file_max_proof_size N < length bs"
    and file1: "nl_append_proof_raw N pf bs = Inr file1"
    and rest: "confirm_steps N C file1 rest = Inr out'"
    using confirm_steps_ok [OF "4.prems"(1)] .
  have "step_confirmed N C (Step tp cs)"
    using confirm_transition_step [OF "4.prems"(2) t t' bs(1)] unfolding step_proof_def step_confirmed_def by blast
  moreover have "\<forall>q \<in> set (co_sub_paths cs). \<forall>s \<in> set (path_steps q). step_confirmed N C s"
    using "4.IH" fs "4.prems"(2) t by simp
  moreover have "(\<forall>s \<in> set rest. step_confirmed N C s) \<and>
      (\<forall>q \<in> set (steps_sub_paths rest). \<forall>s \<in> set (path_steps q). step_confirmed N C s)"
    using "4.IH"(2) [OF wrap_with_eq_Inr [THEN iffD2, OF t] fs wrap_with_eq_Inr [THEN iffD2, OF t']
        wrap_with_eq_Inr [THEN iffD2, OF bs(1)] bs(2) wrap_with_eq_Inr [THEN iffD2, OF file1] rest
        "4.prems"(2)] .
  ultimately show ?case by auto
next
  case (6 N C c cs)
  then show ?case by (auto simp: result_simps)
qed simp_all

lemma confirm_path_file:
  assumes law: "txid_law N"
  shows "confirm_proof_file N C p = Inr out \<Longrightarrow> path_file N C p out"
    and "confirm_steps N C pf ss = Inr out' \<Longrightarrow>
      \<exists>bss. list_all2 (\<lambda>s bs. \<exists>fs. list_all2 (\<lambda>q f. \<exists>b. path_file N C q b \<and> nl_decode_file N b = Inr f) (co_input_paths s) fs \<and>
        step_proof N C s fs bs) ss bss \<and> fold_res (nl_append_proof_raw N) pf bss = Inr out'"
    and "confirm_co_paths N C cs = Inr fs \<Longrightarrow>
      list_all2 (\<lambda>q f. \<exists>b. path_file N C q b \<and> nl_decode_file N b = Inr f) cs fs"
  using law
proof (induction N C p and N C pf ss and N C cs arbitrary: out and out' and fs
    rule: confirm_proof_file_confirm_steps_confirm_co_paths.induct)
  case (1 N C)
  then show ?case by (simp add: validate_path_def)
next
  case (2 N C base ss)
  show ?case
  proof (cases "ss = []")
    case True
    with "2.prems"(1) show ?thesis by (auto simp: result_simps intro: base_file)
  next
    case False
    from "2.prems"(1) False obtain pf file1 where valid: "validate_path N (Path base ss) = Inr ()"
      and parts: "nl_decode_file N base = Inr pf" "confirm_steps N C pf ss = Inr file1" "nl_encode_file N file1 = Inr out"
      by (auto simp: result_simps)
    from "2.IH" [OF valid False wrap_with_eq_Inr [THEN iffD2, OF parts(1)] parts(2) "2.prems"(2)] parts False show ?thesis
      by (blast intro: step_files)
  qed
next
  case (4 N C pf tp cs rest)
  obtain t fs t' bs file1 where t: "decode_step N (Step tp cs) (step_witness_count (Step tp cs)) = Inr t"
    and fs: "confirm_co_paths N C cs = Inr fs"
    and t': "confirm_transition N C (t\<lparr>np_additional_inputs := np_additional_inputs t @ fs\<rparr>) = Inr t'"
    and bs: "nl_proof_bytes N t' = Inr bs" "\<not> nl_file_max_proof_size N < length bs"
    and file1: "nl_append_proof_raw N pf bs = Inr file1"
    and rest: "confirm_steps N C file1 rest = Inr out'"
    using confirm_steps_ok [OF "4.prems"(1)] .
  have co: "list_all2 (\<lambda>q f. \<exists>b. path_file N C q b \<and> nl_decode_file N b = Inr f) (co_input_paths (Step tp cs)) fs"
    using "4.IH"(1) [OF wrap_with_eq_Inr [THEN iffD2, OF t] fs "4.prems"(2)] by simp
  obtain bss where "list_all2 (\<lambda>s bs. \<exists>fs. list_all2 (\<lambda>q f. \<exists>b. path_file N C q b \<and> nl_decode_file N b = Inr f) (co_input_paths s) fs \<and>
        step_proof N C s fs bs) rest bss" "fold_res (nl_append_proof_raw N) file1 bss = Inr out'"
    using "4.IH"(2) [OF wrap_with_eq_Inr [THEN iffD2, OF t] fs wrap_with_eq_Inr [THEN iffD2, OF t']
        wrap_with_eq_Inr [THEN iffD2, OF bs(1)] bs(2) wrap_with_eq_Inr [THEN iffD2, OF file1] rest
        "4.prems"(2)] by blast
  then show ?case
    using co confirm_transition_step [OF "4.prems"(2) t t' bs(1)] file1
    by (intro exI [of _ "bs # bss"]) auto
next
  case (6 N C c cs)
  then show ?case by (auto simp: result_simps)
qed simp_all

text \<open>
  C21. \<open>ConfirmProofFile\<close> only assembles a file when every step of the path, and of every co-input
  path below it, has a confirmation for its own anchor transaction whose block contains that
  transaction. The file it returns is the base file with one proof per step, in order: the transition of
  the step with the files of its co-inputs, and with the block header, the height and the merkle proof
  (for the first position of the transaction in the block) of that confirmation.
\<close>

theorem confirmed_file_covers_steps:
  assumes "txid_law N" and "confirm_proof_file N C p = Inr out"
  shows "path_file N C p out \<and> (\<forall>q \<in> set (sub_paths p). \<forall>s \<in> set (path_steps q). step_confirmed N C s)"
  using confirm_aux(1) [OF assms(1) assms(2)] confirm_path_file(1) [OF assms] assms(1) by simp

definition sample_confirmations :: "bytes \<rightharpoonup> anchor_confirmation" where
  "sample_confirmations = [[2] \<mapsto> \<lparr>cf_block_height = 7, cf_block = [5, 2]\<rparr>]"

theorem confirmed_file_covers_steps_witness:
  "confirm_proof_file sample_native sample_confirmations sample_path = Inr [1, 2, 1] \<and>
   path_file sample_native sample_confirmations sample_path [1, 2, 1] \<and>
   step_confirmed sample_native sample_confirmations (Step [2, 2, 1, 9] [Path [9] []])"
proof -
  have co: "validate_path sample_native (Path [9] []) = Inr ()"
    by (simp add: validate_path_def limit_defs decode_base_def)
  have run: "confirm_proof_file sample_native sample_confirmations sample_path = Inr [1, 2, 1]"
    using sample_path_valid co
    by (simp add: sample_path_def decode_step_def step_witnesses_def step_witness_count_def
        sample_transition_def sample_asset_def sample_op_def limit_defs confirm_transition_def
        sample_confirmations_def)
  have "txid_law sample_native" by (simp add: txid_law_def)
  from confirmed_file_covers_steps [OF this run] run show ?thesis by (simp add: sample_path_def)
qed

end
