(* ===== verification/Tap_AnchorTypes.thy ===== *)
theory Tap_AnchorTypes
  imports Tap_PathVerify
begin

text \<open>
  Requests for custom-anchor transactions (\<open>custom_anchor_types.go\<close>) with their validation, the
  verification results, and the validation of the low-level requests they become
  (\<open>virtual_psbt.go\<close>). The deep copies of the file are the identity on values.

  A pointer to an optional variant is an option. A mode is a \<open>uint8\<close> constant; \<open>...Other\<close> stands
  for any value without a name.
\<close>

section \<open>Plans\<close>

text \<open>\<open>custom_anchor_signing.go\<close>: the spend path of one anchor input; keys and hashes are bytes.\<close>

record musig2_plan =
  mp_participants :: "bytes list"
  mp_session_context :: bytes

record script_path_plan =
  sp_leaf_hash :: bytes
  sp_required_signers :: "bytes list"

record signing_plan =
  gp_input_index :: u32
  gp_key_path :: "bytes option"
  gp_musig2 :: "musig2_plan option"
  gp_script_path :: "script_path_plan option"
  gp_caller_signed :: "unit option"

datatype witness_mode = WitnessUnspecified | WitnessBackendSigner | WitnessCallerProvided | WitnessOther byte

record witness_plan =
  wp_mode :: witness_mode
  wp_stack :: "bytes list"

record custom_asset_input =
  xi_id :: string
  xi_asset_ref :: string
  xi_amount :: u64
  xi_proof_file :: bytes
  xi_proof_path :: "proof_path option"
  xi_witness :: witness_plan

datatype script_mode =
    ScriptUnspecified | ScriptWallet | ScriptExternal | ScriptOPTrue | ScriptBurn | ScriptOther byte

record script_plan =
  sl_mode :: script_mode
  sl_wallet :: "key_locator option option"
  sl_external :: "script_key option"
  sl_op_true :: "key_descriptor option"
  sl_burn :: "unit option"

record tapscript_plan =
  tp_tap_leaves :: "bytes list"
  tp_serialized_sibling :: bytes

record anchor_output_plan =
  aop_internal_key :: internal_key
  aop_tapscript :: tapscript_plan

record proof_delivery =
  pd_recipient_id :: string
  pd_courier_address :: string
  pd_opaque_metadata :: bytes

record custom_asset_output =
  xo_id :: string
  xo_asset_ref :: string
  xo_amount :: u64
  xo_anchor_output_index :: u32
  xo_anchor_value_sat :: u64
  xo_script :: script_plan
  xo_anchor :: anchor_output_plan
  xo_proof_delivery :: proof_delivery
  xo_absolute_timelock :: u64
  xo_relative_timelock :: u64

datatype funding_mode =
    FundingUnspecified | FundingWalletFunded | FundingCallerFundedExact | FundingExternalP2AFeeBump
  | FundingOther byte

record wallet_funding =
  wf_change_output :: anchor_change_output
  wf_fee :: anchor_fee
  wf_max_fee_sat :: u64
  wf_custom_lock_id :: bytes
  wf_lock_expiration_seconds :: u64

record funding_plan =
  fp_mode :: funding_mode
  fp_wallet_funded :: "wallet_funding option"
  fp_caller_funded_exact :: "unit option"
  fp_external_p2a :: "u32 option"

datatype passive_policy = PassiveReject | PassivePreserve | PassiveCallerReanchor | PassiveOther byte

record passive_packet =
  pk_id :: string
  pk_asset_ref :: string
  pk_amount :: u64
  pk_virtual_psbt :: bytes
  pk_proof_file :: bytes
  pk_proof_delivery :: proof_delivery

record passive_assets =
  pa_policy :: passive_policy
  pa_packets :: "passive_packet list"

datatype loss_mode = LossReject | LossBurn | LossOther byte

record loss_allowance =
  la_asset_ref :: string
  la_max_amount :: u64

record loss_policy =
  lp_mode :: loss_mode
  lp_allowances :: "loss_allowance list"
  lp_confirm_irreversible_loss :: bool

record custom_anchor_request =
  rq_inputs :: "custom_asset_input list"
  rq_outputs :: "custom_asset_output list"
  rq_anchor_psbt :: bytes
  rq_funding :: funding_plan
  rq_passive_assets :: passive_assets
  rq_loss_policy :: loss_policy
  rq_signing_plans :: "signing_plan list"

section \<open>Helpers\<close>

definition count_variants :: "bool list \<Rightarrow> nat" where
  "count_variants values = length (filter (\<lambda>b. b) values)"

definition validate_anchor_pub_key :: "'k lib \<Rightarrow> string \<Rightarrow> bytes \<Rightarrow> unit result" where
  "validate_anchor_pub_key L label key =
     and_then (wrap_with (\<lambda>e. Wrapf (label @ '': '') e []) (parse_pub_key L key)) (\<lambda>_. Inr ())"

definition checked_add :: "u64 \<Rightarrow> u64 \<Rightarrow> u64 result" where
  "checked_add left right =
     (case add64 left right of None \<Rightarrow> Inl (Plain ''amount overflows uint64'') | Some s \<Rightarrow> Inr s)"

text \<open>A Go string made of raw bytes.\<close>

definition raw_string :: "bytes \<Rightarrow> string" where
  "raw_string bs = map (\<lambda>b. char_of (unat b)) bs"

definition asset_key :: "'k lib \<Rightarrow> string \<Rightarrow> string" where
  "asset_key L ref =
     (case ref_asset_id L ref of
        Some i \<Rightarrow> ''asset:'' @ raw_string i
      | None \<Rightarrow>
          (case ref_group_key L ref of
             Some k \<Rightarrow> ''group:'' @ raw_string (x_only k)
           | None \<Rightarrow> ''invalid:'' @ ref))"

definition same_tapscript :: "tapscript_plan \<Rightarrow> tapscript_plan \<Rightarrow> bool" where
  "same_tapscript left right \<longleftrightarrow>
     tp_serialized_sibling left = tp_serialized_sibling right \<and>
     length (tp_tap_leaves left) = length (tp_tap_leaves right) \<and>
     list_all2 (=) (tp_tap_leaves left) (tp_tap_leaves right)"

definition same_anchor_output :: "custom_asset_output \<Rightarrow> custom_asset_output \<Rightarrow> bool" where
  "same_anchor_output left right \<longleftrightarrow>
     xo_anchor_value_sat left = xo_anchor_value_sat right \<and>
     aop_internal_key (xo_anchor left) = aop_internal_key (xo_anchor right) \<and>
     same_tapscript (aop_tapscript (xo_anchor left)) (aop_tapscript (xo_anchor right))"

section \<open>Low-level request checks\<close>

definition max_lock_expiration_seconds :: u64 where
  "max_lock_expiration_seconds = of_nat ((2 ^ 63 - 1) div 1000000000)"

definition change_output_validate :: "anchor_change_output \<Rightarrow> unit result" where
  "change_output_validate c =
     (case aco_mode c of
        AnchorChangeOutputAdd \<Rightarrow> Inr ()
      | AnchorChangeOutputNoNew \<Rightarrow> Inr ()
      | AnchorChangeOutputExisting \<Rightarrow>
          (if sint (aco_existing_output_index c) < 0
           then Inl (Plain ''existing change output index is negative'') else Inr ())
      | _ \<Rightarrow> Inl (Plain ''anchor change output is required''))"

definition fee_validate :: "anchor_fee \<Rightarrow> unit result" where
  "fee_validate f =
     (case af_mode f of
        AnchorFeeSatPerVByte \<Rightarrow>
          (if fee_rate_is_zero (af_fee_rate f) then Inl (Plain ''anchor fee rate is required'') else Inr ())
      | AnchorFeeTargetConf \<Rightarrow>
          (if af_target_conf f = 0 then Inl (Plain ''anchor target confirmation is required'') else Inr ())
      | _ \<Rightarrow> Inl (Plain ''anchor fee is required''))"

definition validate_lock_id :: "bytes \<Rightarrow> unit result" where
  "validate_lock_id lock_id =
     (if length lock_id \<noteq> 0 \<and> length lock_id \<noteq> 32
      then Inl (Plain ''custom lock ID must be exactly 32 bytes'') else Inr ())"

definition validate_lock_expiration :: "u64 \<Rightarrow> unit result" where
  "validate_lock_expiration seconds =
     (if seconds > max_lock_expiration_seconds
      then Inl (Plain ''lock expiration exceeds the maximum safe duration'') else Inr ())"

definition commit_request_validate :: "commit_virtual_psbts_request option \<Rightarrow> unit result" where
  "commit_request_validate request =
     (case request of
        None \<Rightarrow> Inl (Plain ''nil commit virtual PSBTs request'')
      | Some r \<Rightarrow>
          (if cv_anchor_psbt r = [] then Inl (Plain ''anchor PSBT is required'')
           else if cv_virtual_psbts r = [] then Inl (Plain ''at least one virtual PSBT is required'')
           else and_then (validate_lock_id (afp_custom_lock_id (cv_funding r))) (\<lambda>_.
                and_then (validate_lock_expiration (afp_lock_expiration_seconds (cv_funding r))) (\<lambda>_.
                  if afp_skip_funding (cv_funding r) then Inr ()
                  else and_then (change_output_validate (afp_change_output (cv_funding r))) (\<lambda>_.
                       fee_validate (afp_fee (cv_funding r)))))))"

definition publish_request_validate :: "publish_and_log_transfer_request option \<Rightarrow> unit result" where
  "publish_request_validate request =
     (case request of
        None \<Rightarrow> Inl (Plain ''nil publish and log transfer request'')
      | Some r \<Rightarrow>
          (if pl_anchor_psbt r = [] then Inl (Plain ''anchor PSBT is required'')
           else if pl_virtual_psbts r = [] then Inl (Plain ''at least one virtual PSBT is required'')
           else Inr ()))"

section \<open>Validation of the plans\<close>

definition witness_plan_validate :: "witness_plan \<Rightarrow> unit result" where
  "witness_plan_validate p =
     (case wp_mode p of
        WitnessBackendSigner \<Rightarrow>
          (if wp_stack p \<noteq> [] then Inl (Plain ''backend signer mode cannot include a caller witness stack'')
           else Inr ())
      | WitnessCallerProvided \<Rightarrow>
          (if wp_stack p = [] then Inl (Plain ''caller-provided witness stack is required'') else Inr ())
      | _ \<Rightarrow> Inl (Plain ''asset witness mode is required''))"

definition input_validate :: "('k, 'g, 'f, 'z) native_lib_scheme \<Rightarrow> custom_asset_input \<Rightarrow> unit result" where
  "input_validate N i =
     (if xi_id i = [] then Inl (Plain ''input ID is required'')
      else and_then (wrap_with (\<lambda>e. Wrapf ''asset ref: '' e []) (asset_ref_validate (lib.truncate N) (xi_asset_ref i))) (\<lambda>_.
        if xi_amount i = 0 then Inl (Plain ''amount is required'')
        else if (xi_proof_file i = []) = (xi_proof_path i = None)
        then Inl (Plain ''exactly one proof file or proof path is required'')
        else and_then
          (case xi_proof_path i of
             None \<Rightarrow> Inr ()
           | Some path \<Rightarrow>
               and_then (wrap_with (\<lambda>e. Wrapf ''proof path: '' e []) (validate_path N path)) (\<lambda>_.
                 if wp_mode (xi_witness i) = WitnessBackendSigner
                 then Inl (Plain ''proof path inputs require caller-provided witnesses'')
                 else Inr ()))
          (\<lambda>_. witness_plan_validate (xi_witness i))))"

definition script_plan_validate :: "'k lib \<Rightarrow> script_plan \<Rightarrow> unit result" where
  "script_plan_validate L p =
     (if count_variants [sl_wallet p \<noteq> None, sl_external p \<noteq> None, sl_op_true p \<noteq> None, sl_burn p \<noteq> None] \<noteq> 1
      then Inl (Plain ''asset script plan requires exactly one variant'')
      else case sl_mode p of
        ScriptWallet \<Rightarrow>
          (if sl_wallet p = None then Inl (Plain ''wallet script mode requires wallet variant'') else Inr ())
      | ScriptExternal \<Rightarrow>
          (case sl_external p of
             None \<Rightarrow> Inl (Plain ''external script mode requires external variant'')
           | Some k \<Rightarrow> validate_anchor_pub_key L ''external script key'' (sk_pub_key k))
      | ScriptOPTrue \<Rightarrow>
          (case sl_op_true p of
             None \<Rightarrow> Inl (Plain ''OP_TRUE script mode requires OP_TRUE variant'')
           | Some k \<Rightarrow> validate_anchor_pub_key L ''OP_TRUE internal key'' (kd_raw_key_bytes k))
      | ScriptBurn \<Rightarrow>
          (if sl_burn p = None then Inl (Plain ''burn script mode requires burn variant'') else Inr ())
      | _ \<Rightarrow> Inl (Plain ''asset script mode is required''))"

definition tapscript_plan_validate :: "tapscript_plan \<Rightarrow> unit result" where
  "tapscript_plan_validate p =
     (if tp_tap_leaves p \<noteq> [] \<and> tp_serialized_sibling p \<noteq> []
      then Inl (Plain ''anchor tapscript cannot contain both tap leaves and a serialized sibling'')
      else if \<exists>leaf \<in> set (tp_tap_leaves p). leaf = [] then Inl (Plain ''tap leaf script is empty'')
      else Inr ())"

definition anchor_output_plan_validate :: "'k lib \<Rightarrow> anchor_output_plan \<Rightarrow> unit result" where
  "anchor_output_plan_validate L p =
     and_then (validate_anchor_pub_key L ''anchor internal key'' (ik_pub_key (aop_internal_key p)))
       (\<lambda>_. tapscript_plan_validate (aop_tapscript p))"

definition output_validate :: "'k lib \<Rightarrow> custom_asset_output \<Rightarrow> unit result" where
  "output_validate L out =
     (if xo_id out = [] then Inl (Plain ''output ID is required'')
      else and_then (wrap_with (\<lambda>e. Wrapf ''asset ref: '' e []) (asset_ref_validate L (xo_asset_ref out))) (\<lambda>_.
        if xo_amount out = 0 then Inl (Plain ''amount is required'')
        else and_then (wrap_with (\<lambda>e. Wrapf ''script plan: '' e []) (script_plan_validate L (xo_script out))) (\<lambda>_.
          if xo_anchor_value_sat out = 0 then Inl (Plain ''anchor value is required'')
          else and_then (wrap_with (\<lambda>e. Wrapf ''anchor plan: '' e []) (anchor_output_plan_validate L (xo_anchor out))) (\<lambda>_.
            if xo_absolute_timelock out \<noteq> 0 \<or> xo_relative_timelock out \<noteq> 0
            then Inl (Plain ''asset timelocks are not supported'') else Inr ()))))"

definition wallet_funding_validate :: "wallet_funding \<Rightarrow> unit result" where
  "wallet_funding_validate w =
     and_then (change_output_validate (wf_change_output w)) (\<lambda>_.
     and_then (fee_validate (wf_fee w)) (\<lambda>_.
       if wf_max_fee_sat w = 0 then Inl (Plain ''wallet-funded maximum fee is required'')
       else if wf_custom_lock_id w = [] then Inl (Plain ''wallet-funded custom lock ID is required'')
       else and_then (validate_lock_id (wf_custom_lock_id w)) (\<lambda>_.
         validate_lock_expiration (wf_lock_expiration_seconds w))))"

definition funding_plan_validate :: "funding_plan \<Rightarrow> unit result" where
  "funding_plan_validate p =
     (if count_variants [fp_wallet_funded p \<noteq> None, fp_caller_funded_exact p \<noteq> None, fp_external_p2a p \<noteq> None] \<noteq> 1
      then Inl (Plain ''funding plan requires exactly one variant'')
      else case fp_mode p of
        FundingWalletFunded \<Rightarrow>
          (case fp_wallet_funded p of
             None \<Rightarrow> Inl (Plain ''wallet-funded mode requires wallet variant'')
           | Some w \<Rightarrow> wallet_funding_validate w)
      | FundingCallerFundedExact \<Rightarrow>
          (if fp_caller_funded_exact p = None
           then Inl (Plain ''caller-funded mode requires exact variant'') else Inr ())
      | FundingExternalP2AFeeBump \<Rightarrow>
          (if fp_external_p2a p = None
           then Inl (Plain ''external P2A mode requires fee-bump variant'') else Inr ())
      | _ \<Rightarrow> Inl (Plain ''custom anchor funding mode is required''))"

text \<open>The body of the loop over passive packets: the IDs seen and the amount of every asset.\<close>

definition passive_step ::
    "'k lib \<Rightarrow> string set \<times> (string \<Rightarrow> u64) \<Rightarrow> passive_packet \<Rightarrow> (string set \<times> (string \<Rightarrow> u64)) result" where
  "passive_step L st packet =
     (case st of (ids, amounts) \<Rightarrow>
        if pk_id packet = [] then Inl (Plain ''passive packet ID is required'')
        else if pk_id packet \<in> ids then Inl (Plain ''passive packet has duplicate ID'')
        else and_then (wrap_with (\<lambda>e. Wrapf ''passive packet asset ref: '' e [])
                         (asset_ref_validate L (pk_asset_ref packet))) (\<lambda>_.
          if pk_amount packet = 0 then Inl (Plain ''passive packet amount is required'')
          else if pk_virtual_psbt packet = [] then Inl (Plain ''passive packet virtual PSBT is required'')
          else if pk_proof_file packet = [] then Inl (Plain ''passive packet proof file is required'')
          else and_then (wrap_with (\<lambda>e. Wrapf ''passive packet amount: '' e [])
                           (checked_add (amounts (asset_key L (pk_asset_ref packet))) (pk_amount packet))) (\<lambda>amount.
            Inr (insert (pk_id packet) ids, amounts(asset_key L (pk_asset_ref packet) := amount)))))"

definition passive_assets_validate :: "'k lib \<Rightarrow> passive_assets \<Rightarrow> unit result" where
  "passive_assets_validate L p =
     (case pa_policy p of
        PassiveCallerReanchor \<Rightarrow>
          (if pa_packets p = [] then Inl (Plain ''caller re-anchor requires passive packets'')
           else and_then (fold_res (passive_step L) ({}, \<lambda>_. 0) (pa_packets p)) (\<lambda>_. Inr ()))
      | PassiveOther _ \<Rightarrow> Inl (Plain ''unknown passive-asset policy'')
      | _ \<Rightarrow>
          (if pa_packets p \<noteq> [] then Inl (Plain ''passive packets require caller re-anchor policy'')
           else Inr ()))"

definition loss_step ::
    "'k lib \<Rightarrow> string set \<times> u64 \<Rightarrow> loss_allowance \<Rightarrow> (string set \<times> u64) result" where
  "loss_step L st allowance =
     (case st of (seen, allowed) \<Rightarrow>
        and_then (wrap_with (\<lambda>e. Wrapf ''loss allowance asset ref: '' e [])
                    (asset_ref_validate L (la_asset_ref allowance))) (\<lambda>_.
          if la_max_amount allowance = 0 then Inl (Plain ''loss allowance amount is required'')
          else if asset_key L (la_asset_ref allowance) \<in> seen
          then Inl (Plain ''loss allowance duplicates asset'')
          else and_then (wrap_with (\<lambda>e. Wrapf ''loss allowances: '' e [])
                           (checked_add allowed (la_max_amount allowance))) (\<lambda>s.
            Inr (insert (asset_key L (la_asset_ref allowance)) seen, s))))"

definition loss_policy_validate :: "'k lib \<Rightarrow> loss_policy \<Rightarrow> unit result" where
  "loss_policy_validate L p =
     (case lp_mode p of
        LossReject \<Rightarrow>
          (if lp_allowances p \<noteq> [] \<or> lp_confirm_irreversible_loss p
           then Inl (Plain ''reject loss mode cannot include allowances or confirmation'') else Inr ())
      | LossBurn \<Rightarrow>
          (if \<not> lp_confirm_irreversible_loss p then Inl (Plain ''irreversible asset loss is not confirmed'')
           else if lp_allowances p = [] then Inl (Plain ''at least one loss allowance is required'')
           else and_then (fold_res (loss_step L) ({}, 0) (lp_allowances p)) (\<lambda>_. Inr ()))
      | LossOther _ \<Rightarrow> Inl (Plain ''unknown custom anchor loss mode''))"

definition loss_allowance_for :: "'k lib \<Rightarrow> loss_policy \<Rightarrow> string \<Rightarrow> u64" where
  "loss_allowance_for L p ref =
     (if lp_mode p \<noteq> LossBurn \<or> \<not> lp_confirm_irreversible_loss p then 0
      else case find (\<lambda>a. asset_key L (la_asset_ref a) = asset_key L ref) (lp_allowances p) of
        Some a \<Rightarrow> la_max_amount a | None \<Rightarrow> 0)"

section \<open>Amounts\<close>

record amount_totals =
  mt_ref :: string
  mt_inputs :: u64
  mt_outputs :: u64
  mt_burned :: u64

definition anchor_totals :: "'k lib \<Rightarrow> (string \<rightharpoonup> amount_totals) \<Rightarrow> string \<Rightarrow> amount_totals" where
  "anchor_totals L totals ref =
     (case totals (asset_key L ref) of
        Some entry \<Rightarrow> entry
      | None \<Rightarrow> \<lparr>mt_ref = ref, mt_inputs = 0, mt_outputs = 0, mt_burned = 0\<rparr>)"

definition add_input ::
    "'k lib \<Rightarrow> (string \<rightharpoonup> amount_totals) \<Rightarrow> custom_asset_input \<Rightarrow> (string \<rightharpoonup> amount_totals) result" where
  "add_input L totals i =
     (let entry = anchor_totals L totals (xi_asset_ref i) in
      and_then (wrap_with (\<lambda>e. Wrapf ''input amount for asset: '' e [])
                  (checked_add (mt_inputs entry) (xi_amount i))) (\<lambda>amount.
        Inr (totals(asset_key L (xi_asset_ref i) \<mapsto> entry\<lparr>mt_inputs := amount\<rparr>))))"

definition add_output ::
    "'k lib \<Rightarrow> (string \<rightharpoonup> amount_totals) \<Rightarrow> custom_asset_output \<Rightarrow> (string \<rightharpoonup> amount_totals) result" where
  "add_output L totals out =
     (let entry = anchor_totals L totals (xo_asset_ref out); key = asset_key L (xo_asset_ref out) in
      and_then (wrap_with (\<lambda>e. Wrapf ''output amount for asset: '' e [])
                  (checked_add (mt_outputs entry) (xo_amount out))) (\<lambda>amount.
        let entry1 = entry\<lparr>mt_outputs := amount\<rparr> in
        if sl_mode (xo_script out) = ScriptBurn
        then and_then (wrap_with (\<lambda>e. Wrapf ''burn amount for asset: '' e [])
                         (checked_add (mt_burned entry1) (xo_amount out))) (\<lambda>burned.
               Inr (totals(key \<mapsto> entry1\<lparr>mt_burned := burned\<rparr>)))
        else Inr (totals(key \<mapsto> entry1))))"

definition check_balance ::
    "'k lib \<Rightarrow> (string \<rightharpoonup> amount_totals) \<Rightarrow> string set \<Rightarrow> custom_asset_output \<Rightarrow> string set result" where
  "check_balance L totals seen out =
     (let key = asset_key L (xo_asset_ref out) in
      if key \<in> seen then Inr seen
      else case totals key of
        None \<Rightarrow> Inl (Plain ''nil pointer dereference'')
      | Some entry \<Rightarrow>
          (if mt_outputs entry \<noteq> mt_inputs entry
           then if mt_outputs entry < mt_inputs entry
                then Inl (Plain ''asset has unallocated units; implicit asset loss is unsupported, use an explicit burn output'')
                else Inl (Plain ''asset output amount exceeds input amount'')
           else Inr (insert key seen)))"

definition check_loss ::
    "'k lib \<Rightarrow> loss_policy \<Rightarrow> (string \<rightharpoonup> amount_totals) \<Rightarrow> string set \<Rightarrow> custom_asset_input \<Rightarrow> string set result" where
  "check_loss L policy totals seen i =
     (let key = asset_key L (xi_asset_ref i) in
      if key \<in> seen then Inr seen
      else case totals key of
        None \<Rightarrow> Inl (Plain ''nil pointer dereference'')
      | Some entry \<Rightarrow>
          (if mt_burned entry = 0 then Inr (insert key seen)
           else if mt_burned entry > loss_allowance_for L policy (mt_ref entry)
           then Inl (Plain ''asset irreversible loss exceeds allowance'')
           else Inr (insert key seen)))"

definition validate_amounts :: "'k lib \<Rightarrow> custom_anchor_request \<Rightarrow> unit result" where
  "validate_amounts L r =
     and_then (fold_res (add_input L) Map.empty (rq_inputs r)) (\<lambda>totals0.
     and_then (fold_res (add_output L) totals0 (rq_outputs r)) (\<lambda>totals.
     and_then (fold_res (check_balance L totals) {} (rq_outputs r)) (\<lambda>_.
     and_then (fold_res (check_loss L (rq_loss_policy r) totals) {} (rq_inputs r)) (\<lambda>_.
       Inr ()))))"

section \<open>The request\<close>

definition check_input ::
    "('k, 'g, 'f, 'z) native_lib_scheme \<Rightarrow> string set \<Rightarrow> custom_asset_input \<Rightarrow> string set result" where
  "check_input N ids i =
     and_then (wrap_with (\<lambda>e. Wrapf ''input: '' e []) (input_validate N i)) (\<lambda>_.
       if xi_id i \<in> ids then Inl (Plain ''input has duplicate ID'') else Inr (insert (xi_id i) ids))"

definition check_output ::
    "'k lib \<Rightarrow> string set \<times> (u32 \<rightharpoonup> custom_asset_output) \<Rightarrow> custom_asset_output \<Rightarrow>
     (string set \<times> (u32 \<rightharpoonup> custom_asset_output)) result" where
  "check_output L st out =
     (case st of (ids, anchors) \<Rightarrow>
        and_then (wrap_with (\<lambda>e. Wrapf ''output: '' e []) (output_validate L out)) (\<lambda>_.
          if xo_id out \<in> ids then Inl (Plain ''output has duplicate ID'')
          else case anchors (xo_anchor_output_index out) of
            Some existing \<Rightarrow>
              (if \<not> same_anchor_output existing out then Inl (Plain ''output conflicts with anchor output'')
               else Inr (insert (xo_id out) ids, anchors(xo_anchor_output_index out \<mapsto> out)))
          | None \<Rightarrow> Inr (insert (xo_id out) ids, anchors(xo_anchor_output_index out \<mapsto> out))))"

definition request_validate ::
    "('k, 'g, 'f, 'z) native_lib_scheme \<Rightarrow> custom_anchor_request option \<Rightarrow> unit result" where
  "request_validate N request =
     (case request of
        None \<Rightarrow> Inl (Plain ''nil custom anchor request'')
      | Some r \<Rightarrow>
          (if rq_anchor_psbt r = [] then Inl (Plain ''anchor PSBT is required'')
           else if rq_inputs r = [] then Inl (Plain ''at least one asset input is required'')
           else if rq_outputs r = [] then Inl (Plain ''at least one asset output is required'')
           else
             and_then (wrap_with (\<lambda>e. Wrapf ''funding plan: '' e []) (funding_plan_validate (rq_funding r))) (\<lambda>_.
             and_then (wrap_with (\<lambda>e. Wrapf ''passive assets: '' e [])
                         (passive_assets_validate (lib.truncate N) (rq_passive_assets r))) (\<lambda>_.
             and_then (wrap_with (\<lambda>e. Wrapf ''loss policy: '' e [])
                         (loss_policy_validate (lib.truncate N) (rq_loss_policy r))) (\<lambda>_.
             and_then (fold_res (check_input N) {} (rq_inputs r)) (\<lambda>_.
             and_then (fold_res (check_output (lib.truncate N)) ({}, Map.empty) (rq_outputs r)) (\<lambda>_.
               validate_amounts (lib.truncate N) r)))))))"

section \<open>OP\_TRUE spend data\<close>

text \<open>The functions of \<open>txscript\<close> on control blocks and script leaves.\<close>

record 'k control_block =
  cb_leaf_version :: byte
  cb_internal_key :: 'k
  cb_output_key_y_is_odd :: bool
  cb_inclusion_proof :: bytes

record 'k script_lib =
  sc_parse_control_block :: "bytes \<Rightarrow> 'k control_block result"
  sc_verify_leaf_commitment :: "'k control_block \<Rightarrow> bytes \<Rightarrow> bytes \<Rightarrow> unit result"
  sc_root_hash :: "'k control_block \<Rightarrow> bytes \<Rightarrow> bytes"
  sc_tap_leaf_hash :: "byte \<Rightarrow> bytes \<Rightarrow> bytes"

definition op_true_code :: byte where "op_true_code = 0x51"
definition base_leaf_version :: byte where "base_leaf_version = 0xc0"

record op_true_spend_info =
  si_leaf_script :: bytes
  si_leaf_version :: byte
  si_control_block :: bytes
  si_internal_key :: bytes

definition spend_info_validate ::
    "'k lib \<Rightarrow> ('k, 'z) script_lib_scheme \<Rightarrow> op_true_spend_info option \<Rightarrow> bytes \<Rightarrow> unit result" where
  "spend_info_validate L S info script_key =
     (case info of
        None \<Rightarrow> Inl (Plain ''nil OP_TRUE spend info'')
      | Some i \<Rightarrow>
          (if si_leaf_script i \<noteq> [op_true_code] then Inl (Plain ''OP_TRUE spend leaf must be OP_TRUE'')
           else if si_leaf_version i \<noteq> base_leaf_version
           then Inl (Plain ''unsupported OP_TRUE spend leaf version'')
           else and_then (validate_anchor_pub_key L ''OP_TRUE spend internal key'' (si_internal_key i)) (\<lambda>_.
           and_then (validate_anchor_pub_key L ''OP_TRUE asset script key'' script_key) (\<lambda>_.
           and_then (wrap_with (\<lambda>e. Wrapf ''parse OP_TRUE spend control block: '' e [])
                       (sc_parse_control_block S (si_control_block i))) (\<lambda>cb.
             if cb_leaf_version cb \<noteq> si_leaf_version i
             then Inl (Plain ''OP_TRUE spend leaf version does not match control block'')
             else and_then (wrap_with (\<lambda>e. Wrapf ''parse OP_TRUE spend internal key: '' e [])
                              (schnorr_parse_pub_key L (tl (si_internal_key i)))) (\<lambda>internal_key.
               if schnorr_serialize_pub_key L (cb_internal_key cb) \<noteq> schnorr_serialize_pub_key L internal_key
               then Inl (Plain ''OP_TRUE spend internal key does not match control block'')
               else and_then (wrap_with (\<lambda>e. Wrapf ''parse OP_TRUE asset script key: '' e [])
                                (schnorr_parse_pub_key L (tl script_key))) (\<lambda>output_key.
                    wrap_with (\<lambda>e. Wrapf ''verify OP_TRUE spend commitment: '' e [])
                      (sc_verify_leaf_commitment S cb (schnorr_serialize_pub_key L output_key)
                         (si_leaf_script i)))))))))"

definition witness_stack :: "op_true_spend_info option \<Rightarrow> bytes list" where
  "witness_stack info = (case info of None \<Rightarrow> [] | Some i \<Rightarrow> [si_leaf_script i, si_control_block i])"

section \<open>Verification results\<close>

datatype verification_origin = OriginUnknown | OriginLocal | OriginBackend | OriginHost | OriginOther byte

datatype verification_severity =
    SeverityUnknown | SeverityInfo | SeverityWarning | SeverityError | SeverityOther byte

record verification_check =
  vc_code :: string
  vc_scope :: string
  vc_origin :: verification_origin
  vc_passed :: bool
  vc_input_index :: "u32 option"
  vc_output_index :: "u32 option"
  vc_output_id :: string
  vc_message :: string

record verification_issue =
  vs_code :: string
  vs_scope :: string
  vs_origin :: verification_origin
  vs_severity :: verification_severity
  vs_input_index :: "u32 option"
  vs_output_index :: "u32 option"
  vs_output_id :: string
  vs_message :: string

record verification_result =
  vr_checks :: "verification_check list"
  vr_issues :: "verification_issue list"

definition verification_scopes :: "string list" where
  "verification_scopes =
     [''request'', ''input_proof'', ''asset_identity'', ''amount'', ''output_commitment'',
      ''anchor_output'', ''passive_assets'', ''loss_policy'', ''capability'', ''backend_trust'']"

definition scope_valid :: "string \<Rightarrow> bool" where
  "scope_valid s \<longleftrightarrow> s \<in> set verification_scopes"

definition origin_valid :: "verification_origin \<Rightarrow> bool" where
  "origin_valid orig \<longleftrightarrow> orig = OriginLocal \<or> orig = OriginBackend \<or> orig = OriginHost"

definition severity_valid :: "verification_severity \<Rightarrow> bool" where
  "severity_valid s \<longleftrightarrow> (case s of SeverityInfo \<Rightarrow> True | SeverityWarning \<Rightarrow> True | SeverityError \<Rightarrow> True | _ \<Rightarrow> False)"

definition check_validate :: "unit \<Rightarrow> verification_check \<Rightarrow> unit result" where
  "check_validate u c =
     (if vc_code c = [] then Inl (Plain ''verification check code is required'')
      else if \<not> scope_valid (vc_scope c) then Inl (Plain ''verification check has unknown scope'')
      else if \<not> origin_valid (vc_origin c) then Inl (Plain ''verification check has unknown origin'')
      else Inr ())"

definition issue_validate :: "unit \<Rightarrow> verification_issue \<Rightarrow> unit result" where
  "issue_validate u i =
     (if vs_code i = [] then Inl (Plain ''verification issue code is required'')
      else if \<not> scope_valid (vs_scope i) then Inl (Plain ''verification issue has unknown scope'')
      else if \<not> origin_valid (vs_origin i) then Inl (Plain ''verification issue has unknown origin'')
      else if \<not> severity_valid (vs_severity i) then Inl (Plain ''verification issue has unknown severity'')
      else Inr ())"

definition result_validate :: "verification_result option \<Rightarrow> unit result" where
  "result_validate res =
     (case res of
        None \<Rightarrow> Inl (Plain ''nil custom anchor verification result'')
      | Some r \<Rightarrow>
          (if vr_checks r = [] then Inl (Plain ''at least one verification check is required'')
           else and_then (fold_res check_validate () (vr_checks r))
                  (\<lambda>_. fold_res issue_validate () (vr_issues r))))"

definition result_valid :: "verification_result option \<Rightarrow> bool" where
  "result_valid res \<longleftrightarrow>
     (if \<not> is_ok (result_validate res) then False
      else case res of
        None \<Rightarrow> False
      | Some r \<Rightarrow> list_all vc_passed (vr_checks r) \<and>
          list_all (\<lambda>i. vs_severity i \<noteq> SeverityError) (vr_issues r))"

end
