(* ===== verification/Tap_AnchorAmounts.thy ===== *)
theory Tap_AnchorAmounts
  imports Tap_AnchorTypes
begin

text \<open>
  What an accepted custom-anchor request guarantees: every asset of its outputs is conserved
  without wrap-around, burns stay within the declared allowances, identifiers are unique and
  outputs that share an anchor output agree on it. The loops that sum amounts per asset share
  the contract \<open>totals_loop\<close>.
\<close>

section \<open>Asset keys\<close>

text \<open>Two references have one key exactly when they name one asset or group.\<close>

lemma raw_string_inj [simp]: "raw_string a = raw_string b \<longleftrightarrow> a = b"
proof -
  have "inj (\<lambda>b :: byte. char_of (unat b) :: char)"
  proof (rule injI)
    fix a b :: byte
    assume "(char_of (unat a) :: char) = char_of (unat b)"
    then have "(of_char (char_of (unat a) :: char) :: nat) = of_char (char_of (unat b) :: char)" by simp
    then show "a = b" by (simp add: word_unat_eq_iff)
  qed
  then show ?thesis by (simp add: raw_string_def inj_map_eq_map)
qed

lemma asset_key_equivalent: "asset_key L r = asset_key L s \<longleftrightarrow> asset_ref_equivalent L r s"
  by (cases r rule: ref_cases [where L = L]; cases s rule: ref_cases [where L = L])
    (simp_all add: asset_key_def ref_facts equivalent_iff_identity)

section \<open>Loops over totals\<close>

datatype total_field = Total_in | Total_out | Total_burned

primrec total_of :: "total_field \<Rightarrow> amount_totals \<Rightarrow> u64" where
  "total_of Total_in = mt_inputs"
| "total_of Total_out = mt_outputs"
| "total_of Total_burned = mt_burned"

definition entry_total :: "total_field \<Rightarrow> (string \<rightharpoonup> amount_totals) \<Rightarrow> string \<Rightarrow> nat" where
  "entry_total fd totals k = (case totals k of None \<Rightarrow> 0 | Some e \<Rightarrow> unat (total_of fd e))"

definition refs_named :: "'k lib \<Rightarrow> (string \<rightharpoonup> amount_totals) \<Rightarrow> bool" where
  "refs_named L totals \<longleftrightarrow> (\<forall>k e. totals k = Some e \<longrightarrow> asset_key L (mt_ref e) = k)"

text \<open>The sum of \<open>f\<close> over the elements with key \<open>k\<close>.\<close>

definition keyed_sum :: "('x \<Rightarrow> string) \<Rightarrow> ('x \<Rightarrow> nat) \<Rightarrow> string \<Rightarrow> 'x list \<Rightarrow> nat" where
  "keyed_sum key f k xs = sum_list (map f (filter (\<lambda>x. key x = k) xs))"

text \<open>
  A loop body that adds the contribution of one element to the totals of its key, and fails
  exactly when a total would leave 64 bits.
\<close>

locale totals_loop =
  fixes lib :: "'k lib" and ref_of :: "'x \<Rightarrow> string" and contrib :: "total_field \<Rightarrow> 'x \<Rightarrow> nat"
    and step :: "(string \<rightharpoonup> amount_totals) \<Rightarrow> 'x \<Rightarrow> (string \<rightharpoonup> amount_totals) result"
  assumes step_ok: "is_ok (step totals x) \<longleftrightarrow>
      (\<forall>fd. entry_total fd totals (asset_key lib (ref_of x)) + contrib fd x < 2 ^ 64)"
    and step_total: "step totals x = Inr totals' \<Longrightarrow>
      entry_total fd totals' k = entry_total fd totals k +
        (if k = asset_key lib (ref_of x) then contrib fd x else 0)"
    and step_dom: "step totals x = Inr totals' \<Longrightarrow> dom totals' = insert (asset_key lib (ref_of x)) (dom totals)"
    and step_refs: "step totals x = Inr totals' \<Longrightarrow> refs_named lib totals \<Longrightarrow> refs_named lib totals'"
begin

abbreviation key_of :: "'x \<Rightarrow> string" where
  "key_of x \<equiv> asset_key lib (ref_of x)"

lemma loop_ok:
  "is_ok (fold_res step totals xs) \<longleftrightarrow>
     (\<forall>fd. \<forall>x \<in> set xs. entry_total fd totals (key_of x) +
        keyed_sum key_of (contrib fd) (key_of x) xs < 2 ^ 64)"
proof (induction xs arbitrary: totals)
  case Nil
  then show ?case by simp
next
  case (Cons x xs)
  have zero: "keyed_sum key_of (contrib fd) (key_of x) xs = 0" if "\<forall>y \<in> set xs. key_of y \<noteq> key_of x" for fd
    using that by (simp add: keyed_sum_def filter_empty_conv [THEN iffD2])
  show ?case
  proof (cases "step totals x")
    case (Inl e)
    then have "\<not> is_ok (step totals x)" by simp
    then obtain fd where "\<not> entry_total fd totals (key_of x) + contrib fd x < 2 ^ 64"
      unfolding step_ok by blast
    then have "\<not> entry_total fd totals (key_of x) + keyed_sum key_of (contrib fd) (key_of x) (x # xs) < 2 ^ 64"
      by (simp add: keyed_sum_def)
    with Inl show ?thesis by auto
  next
    case (Inr t)
    then have fits: "entry_total fd totals (key_of x) + contrib fd x < 2 ^ 64" for fd
      using step_ok [of totals x] by simp
    have rest: "is_ok (fold_res step t xs) \<longleftrightarrow>
        (\<forall>fd. \<forall>y \<in> set xs. entry_total fd totals (key_of y) + keyed_sum key_of (contrib fd) (key_of y) (x # xs) < 2 ^ 64)"
    proof -
      have "entry_total fd t (key_of y) + keyed_sum key_of (contrib fd) (key_of y) xs = entry_total fd totals (key_of y) + keyed_sum key_of (contrib fd) (key_of y) (x # xs)"
        for fd y
        by (cases "key_of y = key_of x") (simp_all add: step_total [OF Inr] keyed_sum_def)
      then show ?thesis by (simp only: Cons.IH)
    qed
    have "entry_total fd totals (key_of x) + keyed_sum key_of (contrib fd) (key_of x) (x # xs) < 2 ^ 64"
      if "is_ok (fold_res step t xs)" for fd
    proof (cases "\<exists>y \<in> set xs. key_of y = key_of x")
      case True
      with that rest show ?thesis by metis
    next
      case False
      with zero [of fd] fits [of fd] show ?thesis by (simp add: keyed_sum_def)
    qed
    with rest Inr show ?thesis by auto
  qed
qed

lemma loop_result:
  assumes "fold_res step totals xs = Inr totals'"
  shows "entry_total fd totals' k = entry_total fd totals k + keyed_sum key_of (contrib fd) k xs"
    and "dom totals' = (\<lambda>x. key_of x) ` set xs \<union> dom totals"
    and "refs_named lib totals \<Longrightarrow> refs_named lib totals'"
  using assms
proof (induction xs arbitrary: totals)
  case Nil
  {
    case 1 then show ?case by (simp add: keyed_sum_def)
  next
    case 2 then show ?case by simp
  next
    case 3 then show ?case by simp
  }
next
  case (Cons x xs)
  {
    case 1
    then obtain t where "step totals x = Inr t" "fold_res step t xs = Inr totals'"
      by (auto simp: result_simps)
    then show ?case using Cons.IH(1) by (simp add: step_total keyed_sum_def)
  next
    case 2
    then obtain t where "step totals x = Inr t" "fold_res step t xs = Inr totals'"
      by (auto simp: result_simps)
    then show ?case using Cons.IH(2) by (simp add: step_dom)
  next
    case 3
    then obtain t where "step totals x = Inr t" "fold_res step t xs = Inr totals'"
      by (auto simp: result_simps)
    then show ?case using Cons.IH(3) step_refs 3(1) by blast
  }
qed

end

lemma checked_add_ok: "is_ok (checked_add a b) \<longleftrightarrow> unat a + unat b < 2 ^ 64"
  by (simp add: checked_add_def add64_eq)

lemma checked_add_Inr: "checked_add a b = Inr c \<longleftrightarrow> unat a + unat b < 2 ^ 64 \<and> unat c = unat a + unat b"
  using add64_Some [of a b c] by (cases "add64 a b") (auto simp: checked_add_def)

definition input_contrib :: "total_field \<Rightarrow> custom_asset_input \<Rightarrow> nat" where
  "input_contrib fd i = (case fd of Total_in \<Rightarrow> unat (xi_amount i) | _ \<Rightarrow> 0)"

definition output_contrib :: "total_field \<Rightarrow> custom_asset_output \<Rightarrow> nat" where
  "output_contrib fd out =
     (case fd of
        Total_in \<Rightarrow> 0
      | Total_out \<Rightarrow> unat (xo_amount out)
      | Total_burned \<Rightarrow> (if sl_mode (xo_script out) = ScriptBurn then unat (xo_amount out) else 0))"

lemma all_total_field: "(\<forall>fd. P fd) \<longleftrightarrow> P Total_in \<and> P Total_out \<and> P Total_burned"
  by (metis total_field.exhaust)

lemma entry_total_less: "entry_total fd totals k < 2 ^ 64"
proof (cases "totals k")
  case None
  then show ?thesis by (simp add: entry_total_def)
next
  case (Some e)
  then show ?thesis using unsigned_less [of "total_of fd e"] by (simp add: entry_total_def)
qed

lemma anchor_totals_entry: "unat (total_of fd (anchor_totals L totals ref)) = entry_total fd totals (asset_key L ref)"
  by (cases fd) (simp_all add: anchor_totals_def entry_total_def split: option.splits)

interpretation input_totals: totals_loop L xi_asset_ref input_contrib "add_input L"
  for L :: "'k lib"
proof
  fix totals totals' :: "string \<rightharpoonup> amount_totals" and x :: custom_asset_input and fd k
  let ?key = "asset_key L (xi_asset_ref x)"
  let ?e = "anchor_totals L totals (xi_asset_ref x)"
  have "is_ok (add_input L totals x) \<longleftrightarrow> is_ok (checked_add (mt_inputs ?e) (xi_amount x))"
    by (auto simp: add_input_def Let_def is_ok_iff result_simps)
  also have "\<dots> \<longleftrightarrow> entry_total Total_in totals ?key + unat (xi_amount x) < 2 ^ 64"
    using anchor_totals_entry [of Total_in L totals "xi_asset_ref x"] by (simp add: checked_add_ok)
  finally show "is_ok (add_input L totals x) \<longleftrightarrow>
      (\<forall>fd. entry_total fd totals ?key + input_contrib fd x < 2 ^ 64)"
    using entry_total_less by (simp add: all_total_field input_contrib_def)
  assume "add_input L totals x = Inr totals'"
  then obtain amount where t: "totals' = totals(?key \<mapsto> ?e\<lparr>mt_inputs := amount\<rparr>)"
    and amount: "unat amount = unat (mt_inputs ?e) + unat (xi_amount x)"
    by (auto simp: add_input_def Let_def result_simps checked_add_Inr)
  show "entry_total fd totals' k = entry_total fd totals k + (if k = ?key then input_contrib fd x else 0)"
    using amount anchor_totals_entry [of fd L totals "xi_asset_ref x"]
    by (cases fd) (auto simp: t entry_total_def input_contrib_def)
  show "dom totals' = insert ?key (dom totals)" by (simp add: t)
  assume "refs_named L totals"
  then show "refs_named L totals'"
    by (auto simp: t refs_named_def anchor_totals_def split: option.splits)
qed

interpretation output_totals: totals_loop L xo_asset_ref output_contrib "add_output L"
  for L :: "'k lib"
proof
  fix totals totals' :: "string \<rightharpoonup> amount_totals" and x :: custom_asset_output and fd k
  let ?key = "asset_key L (xo_asset_ref x)"
  let ?e = "anchor_totals L totals (xo_asset_ref x)"
  let ?burn = "sl_mode (xo_script x) = ScriptBurn"
  have "is_ok (add_output L totals x) \<longleftrightarrow> is_ok (checked_add (mt_outputs ?e) (xo_amount x)) \<and>
      (?burn \<longrightarrow> is_ok (checked_add (mt_burned ?e) (xo_amount x)))"
    by (auto simp: add_output_def Let_def is_ok_iff result_simps)
  also have "\<dots> \<longleftrightarrow> entry_total Total_out totals ?key + unat (xo_amount x) < 2 ^ 64 \<and>
      (?burn \<longrightarrow> entry_total Total_burned totals ?key + unat (xo_amount x) < 2 ^ 64)"
    using anchor_totals_entry [of Total_out L totals "xo_asset_ref x"]
      anchor_totals_entry [of Total_burned L totals "xo_asset_ref x"] by (simp add: checked_add_ok)
  finally show "is_ok (add_output L totals x) \<longleftrightarrow>
      (\<forall>fd. entry_total fd totals ?key + output_contrib fd x < 2 ^ 64)"
    using entry_total_less [of Total_in totals ?key] entry_total_less [of Total_burned totals ?key]
    by (simp add: all_total_field output_contrib_def)
  assume "add_output L totals x = Inr totals'"
  then obtain amount burned where
    t: "totals' = totals(?key \<mapsto> ?e\<lparr>mt_outputs := amount, mt_burned := burned\<rparr>)"
    and amount: "unat amount = unat (mt_outputs ?e) + unat (xo_amount x)"
    and burned: "unat burned = unat (mt_burned ?e) + (if ?burn then unat (xo_amount x) else 0)"
  proof (cases ?burn)
    case True
    with \<open>add_output L totals x = Inr totals'\<close> that show ?thesis
      by (auto simp: add_output_def Let_def result_simps checked_add_Inr)
  next
    case False
    with \<open>add_output L totals x = Inr totals'\<close> obtain a where
      a: "totals' = totals(?key \<mapsto> ?e\<lparr>mt_outputs := a\<rparr>)" "unat a = unat (mt_outputs ?e) + unat (xo_amount x)"
      by (auto simp: add_output_def Let_def result_simps checked_add_Inr)
    show ?thesis by (rule that [of "mt_burned ?e" a]) (simp_all add: a False)
  qed
  show "entry_total fd totals' k = entry_total fd totals k + (if k = ?key then output_contrib fd x else 0)"
    using amount burned anchor_totals_entry [of fd L totals "xo_asset_ref x"]
    by (cases fd) (auto simp: t entry_total_def output_contrib_def)
  show "dom totals' = insert ?key (dom totals)" by (simp add: t)
  assume "refs_named L totals"
  then show "refs_named L totals'"
    by (auto simp: t refs_named_def anchor_totals_def split: option.splits)
qed

section \<open>Exactly which amounts are accepted\<close>

definition total_input :: "'k lib \<Rightarrow> custom_anchor_request \<Rightarrow> string \<Rightarrow> nat" where
  "total_input L r ref =
     sum_list (map (unat \<circ> xi_amount) (filter (\<lambda>i. asset_ref_equivalent L (xi_asset_ref i) ref) (rq_inputs r)))"

definition total_output :: "'k lib \<Rightarrow> custom_anchor_request \<Rightarrow> string \<Rightarrow> nat" where
  "total_output L r ref =
     sum_list (map (unat \<circ> xo_amount) (filter (\<lambda>x. asset_ref_equivalent L (xo_asset_ref x) ref) (rq_outputs r)))"

definition burns :: "custom_asset_output \<Rightarrow> bool" where
  "burns x \<longleftrightarrow> sl_mode (xo_script x) = ScriptBurn"

definition total_burned :: "'k lib \<Rightarrow> custom_anchor_request \<Rightarrow> string \<Rightarrow> nat" where
  "total_burned L r ref =
     sum_list (map (unat \<circ> xo_amount)
       (filter (\<lambda>x. burns x \<and> asset_ref_equivalent L (xo_asset_ref x) ref) (rq_outputs r)))"

lemma sum_list_filter_nonzero: "sum_list (map f (filter P xs)) \<noteq> (0 :: nat) \<Longrightarrow> \<exists>x \<in> set xs. P x"
  by auto

lemma contribs:
  "input_contrib Total_in = unat \<circ> xi_amount"
  "input_contrib Total_out = (\<lambda>_. 0)"
  "input_contrib Total_burned = (\<lambda>_. 0)"
  "output_contrib Total_in = (\<lambda>_. 0)"
  "output_contrib Total_out = unat \<circ> xo_amount"
  "output_contrib Total_burned = (\<lambda>x. if burns x then unat (xo_amount x) else 0)"
  by (simp_all add: input_contrib_def output_contrib_def burns_def fun_eq_iff)

lemma sum_list_guarded:
  "sum_list (map (\<lambda>x. if P x then f x else (0 :: nat)) (filter Q xs)) = sum_list (map f (filter (\<lambda>x. P x \<and> Q x) xs))"
  by (induction xs) simp_all

lemma added_totals:
  "keyed_sum (\<lambda>i. asset_key L (xi_asset_ref i)) (input_contrib Total_in) (asset_key L ref) (rq_inputs r) = total_input L r ref"
  "keyed_sum (\<lambda>x. asset_key L (xo_asset_ref x)) (output_contrib Total_out) (asset_key L ref) (rq_outputs r) = total_output L r ref"
  "keyed_sum (\<lambda>x. asset_key L (xo_asset_ref x)) (output_contrib Total_burned) (asset_key L ref) (rq_outputs r) = total_burned L r ref"
  by (simp_all add: keyed_sum_def total_input_def total_output_def total_burned_def asset_key_equivalent
      contribs sum_list_guarded comp_def)

lemma added_zero [simp]:
  "keyed_sum key (input_contrib Total_out) k inputs = 0"
  "keyed_sum key (input_contrib Total_burned) k inputs = 0"
  "keyed_sum key' (output_contrib Total_in) k outs = 0"
  by (simp_all add: keyed_sum_def contribs)

lemma total_burned_le: "total_burned L r ref \<le> total_output L r ref"
proof -
  have "sum_list (map (unat \<circ> xo_amount) (filter (\<lambda>x. burns x \<and> P x) xs)) \<le>
      sum_list (map (unat \<circ> xo_amount) (filter P xs))" for P :: "custom_asset_output \<Rightarrow> bool" and xs
    by (induction xs) auto
  then show ?thesis by (simp add: total_burned_def total_output_def)
qed

text \<open>A loop that looks at the first element of every key only.\<close>

lemma first_of_key_loop:
  assumes old: "\<And>seen x. key x \<in> seen \<Longrightarrow> step seen x = Inr seen"
    and good: "\<And>seen x. key x \<notin> seen \<Longrightarrow> ok (key x) \<Longrightarrow> step seen x = Inr (insert (key x) seen)"
    and bad: "\<And>seen x. key x \<notin> seen \<Longrightarrow> \<not> ok (key x) \<Longrightarrow> \<not> is_ok (step seen x)"
  shows "is_ok (fold_res step seen xs) \<longleftrightarrow> (\<forall>x \<in> set xs. key x \<in> seen \<or> ok (key x))"
proof (induction xs arbitrary: seen)
  case Nil
  show ?case by simp
next
  case (Cons x xs)
  consider "key x \<in> seen" | "key x \<notin> seen" "ok (key x)" | "key x \<notin> seen" "\<not> ok (key x)" by blast
  then show ?case
  proof cases
    case 1
    with old [of x seen] Cons.IH [of seen] show ?thesis by simp
  next
    case 2
    with good [of x seen] Cons.IH [of "insert (key x) seen"] show ?thesis by auto
  next
    case 3
    with bad [of x seen] show ?thesis by (cases "step seen x") auto
  qed
qed

lemma balance_loop:
  "is_ok (fold_res (check_balance L totals) {} outs) \<longleftrightarrow>
     (\<forall>x \<in> set outs. case totals (asset_key L (xo_asset_ref x)) of
        None \<Rightarrow> False | Some e \<Rightarrow> mt_outputs e = mt_inputs e)"
  by (subst first_of_key_loop [where key = "\<lambda>x. asset_key L (xo_asset_ref x)"
        and ok = "\<lambda>k. case totals k of None \<Rightarrow> False | Some e \<Rightarrow> mt_outputs e = mt_inputs e"])
    (auto simp: check_balance_def Let_def split: option.splits)

lemma loss_loop:
  "is_ok (fold_res (check_loss L policy totals) {} inputs) \<longleftrightarrow>
     (\<forall>i \<in> set inputs. case totals (asset_key L (xi_asset_ref i)) of
        None \<Rightarrow> False
      | Some e \<Rightarrow> mt_burned e = 0 \<or> mt_burned e \<le> loss_allowance_for L policy (mt_ref e))"
  by (subst first_of_key_loop [where key = "\<lambda>x. asset_key L (xi_asset_ref x)"
        and ok = "\<lambda>k. case totals k of None \<Rightarrow> False
          | Some e \<Rightarrow> mt_burned e = 0 \<or> mt_burned e \<le> loss_allowance_for L policy (mt_ref e)"])
    (auto simp: check_loss_def Let_def not_less split: option.splits)

lemma entry_total_empty [simp]: "entry_total fd Map.empty k = 0"
  by (simp add: entry_total_def)

lemma input_loop_ok:
  "is_ok (fold_res (add_input L) Map.empty (rq_inputs r)) \<longleftrightarrow>
     (\<forall>i \<in> set (rq_inputs r). total_input L r (xi_asset_ref i) < 2 ^ 64)"
  by (simp add: input_totals.loop_ok all_total_field added_totals del: One_nat_def)

lemma output_loop_ok:
  assumes "fold_res (add_input L) Map.empty (rq_inputs r) = Inr totals"
  shows "is_ok (fold_res (add_output L) totals (rq_outputs r)) \<longleftrightarrow>
     (\<forall>x \<in> set (rq_outputs r). total_output L r (xo_asset_ref x) < 2 ^ 64)"
proof -
  have "entry_total fd totals k = keyed_sum (\<lambda>i. asset_key L (xi_asset_ref i)) (input_contrib fd) k (rq_inputs r)" for fd k
    using input_totals.loop_result(1) [OF assms] by simp
  moreover have "total_burned L r ref < 2 ^ 64" if "total_output L r ref < 2 ^ 64" for ref
    using total_burned_le [of L r ref] that by linarith
  moreover have "total_input L r ref < 2 ^ 64" for ref
    using entry_total_less [of Total_in totals "asset_key L ref"] calculation(1) by (simp add: added_totals)
  ultimately show ?thesis
    by (auto simp: output_totals.loop_ok all_total_field added_totals)
qed

lemma summed_totals:
  assumes "fold_res (add_input L) Map.empty (rq_inputs r) = Inr totals0"
    and "fold_res (add_output L) totals0 (rq_outputs r) = Inr totals"
    and "ref \<in> xi_asset_ref ` set (rq_inputs r) \<union> xo_asset_ref ` set (rq_outputs r)"
  obtains e where "totals (asset_key L ref) = Some e"
    and "unat (mt_inputs e) = total_input L r ref"
    and "unat (mt_outputs e) = total_output L r ref"
    and "unat (mt_burned e) = total_burned L r ref"
    and "asset_key L (mt_ref e) = asset_key L ref"
proof -
  note ins = input_totals.loop_result [OF assms(1)] and outs = output_totals.loop_result [OF assms(2)]
  have "dom totals = (\<lambda>x. asset_key L (xo_asset_ref x)) ` set (rq_outputs r) \<union>
      (\<lambda>i. asset_key L (xi_asset_ref i)) ` set (rq_inputs r)"
    using ins(2) outs(2) by simp
  with assms(3) have "asset_key L ref \<in> dom totals" by auto
  then obtain e where e: "totals (asset_key L ref) = Some e" by blast
  have "refs_named L totals" using ins(3) outs(3) by (simp add: refs_named_def)
  with e have "asset_key L (mt_ref e) = asset_key L ref" by (simp add: refs_named_def)
  moreover have "entry_total fd totals k = keyed_sum (\<lambda>i. asset_key L (xi_asset_ref i)) (input_contrib fd) k (rq_inputs r)
      + keyed_sum (\<lambda>x. asset_key L (xo_asset_ref x)) (output_contrib fd) k (rq_outputs r)" for fd k
    using ins(1) outs(1) by simp
  note this [of Total_in "asset_key L ref"] this [of Total_out "asset_key L ref"] this [of Total_burned "asset_key L ref"]
  ultimately show ?thesis using that [OF e] e by (simp add: entry_total_def added_totals)
qed

lemma equivalent_totals:
  assumes "asset_ref_equivalent L a b"
  shows "total_input L r a = total_input L r b" "total_output L r a = total_output L r b"
    "total_burned L r a = total_burned L r b"
  using assms by (simp_all add: total_input_def total_output_def total_burned_def flip: asset_key_equivalent)

lemma conserved_fits:
  assumes "\<forall>i \<in> set (rq_inputs r). total_input L r (xi_asset_ref i) < 2 ^ 64"
    and "total_output L r ref = total_input L r ref"
  shows "total_output L r ref < 2 ^ 64"
proof (cases "\<exists>i \<in> set (rq_inputs r). asset_ref_equivalent L (xi_asset_ref i) ref")
  case True
  with assms show ?thesis by (metis equivalent_totals(1))
next
  case False
  then have "total_input L r ref = 0" by (simp add: total_input_def filter_empty_conv [THEN iffD2])
  with assms(2) show ?thesis by simp
qed

lemma allowance_of_key: "asset_key L a = asset_key L b \<Longrightarrow> loss_allowance_for L p a = loss_allowance_for L p b"
  by (simp add: loss_allowance_for_def)

theorem validate_amounts_ok:
  "is_ok (validate_amounts L r) \<longleftrightarrow>
     (\<forall>i \<in> set (rq_inputs r). total_input L r (xi_asset_ref i) < 2 ^ 64) \<and>
     (\<forall>x \<in> set (rq_outputs r). total_output L r (xo_asset_ref x) = total_input L r (xo_asset_ref x)) \<and>
     (\<forall>i \<in> set (rq_inputs r).
        total_burned L r (xi_asset_ref i) \<le> unat (loss_allowance_for L (rq_loss_policy r) (xi_asset_ref i)))"
  (is "_ \<longleftrightarrow> ?fits \<and> ?balanced \<and> ?allowed")
proof (cases ?fits)
  case False
  then show ?thesis
    using input_loop_ok [of L r] by (auto simp: validate_amounts_def is_ok_iff result_simps)
next
  case fits: True
  then obtain t0 where t0: "fold_res (add_input L) Map.empty (rq_inputs r) = Inr t0"
    using input_loop_ok [of L r] by (auto simp: is_ok_iff)
  show ?thesis
  proof (cases "\<forall>x \<in> set (rq_outputs r). total_output L r (xo_asset_ref x) < 2 ^ 64")
    case False
    then have "\<not> ?balanced" using conserved_fits [OF fits] by blast
    moreover have "\<not> is_ok (validate_amounts L r)"
      using False output_loop_ok [OF t0] t0 by (auto simp: validate_amounts_def is_ok_iff result_simps)
    ultimately show ?thesis by blast
  next
    case True
    then obtain t where t: "fold_res (add_output L) t0 (rq_outputs r) = Inr t"
      using output_loop_ok [OF t0] by (auto simp: is_ok_iff)
    note entry = summed_totals [OF t0 t]
    have "is_ok (fold_res (check_balance L t) {} (rq_outputs r)) \<longleftrightarrow> ?balanced"
      unfolding balance_loop
    proof (intro ball_cong refl)
      fix x assume "x \<in> set (rq_outputs r)"
      then obtain e where "t (asset_key L (xo_asset_ref x)) = Some e"
        and "unat (mt_inputs e) = total_input L r (xo_asset_ref x)"
        and "unat (mt_outputs e) = total_output L r (xo_asset_ref x)" by (auto intro: entry)
      then show "(case t (asset_key L (xo_asset_ref x)) of None \<Rightarrow> False | Some e \<Rightarrow> mt_outputs e = mt_inputs e) \<longleftrightarrow>
          total_output L r (xo_asset_ref x) = total_input L r (xo_asset_ref x)"
        by (simp add: word_unat_eq_iff)
    qed
    moreover have "is_ok (fold_res (check_loss L (rq_loss_policy r) t) {} (rq_inputs r)) \<longleftrightarrow> ?allowed"
      unfolding loss_loop
    proof (intro ball_cong refl)
      fix i assume "i \<in> set (rq_inputs r)"
      then obtain e where "t (asset_key L (xi_asset_ref i)) = Some e"
        and "unat (mt_burned e) = total_burned L r (xi_asset_ref i)"
        and "asset_key L (mt_ref e) = asset_key L (xi_asset_ref i)" by (auto intro: entry)
      moreover from this(3) have "loss_allowance_for L (rq_loss_policy r) (mt_ref e) =
          loss_allowance_for L (rq_loss_policy r) (xi_asset_ref i)" by (rule allowance_of_key)
      ultimately show "(case t (asset_key L (xi_asset_ref i)) of None \<Rightarrow> False
          | Some e \<Rightarrow> mt_burned e = 0 \<or> mt_burned e \<le> loss_allowance_for L (rq_loss_policy r) (mt_ref e)) \<longleftrightarrow>
        total_burned L r (xi_asset_ref i) \<le> unat (loss_allowance_for L (rq_loss_policy r) (xi_asset_ref i))"
        by (auto simp: word_le_nat_alt)
    qed
    moreover have "is_ok (validate_amounts L r) \<longleftrightarrow> is_ok (fold_res (check_balance L t) {} (rq_outputs r)) \<and>
        is_ok (fold_res (check_loss L (rq_loss_policy r) t) {} (rq_inputs r))"
      by (cases "fold_res (check_balance L t) {} (rq_outputs r)";
          cases "fold_res (check_loss L (rq_loss_policy r) t) {} (rq_inputs r)")
        (simp_all add: validate_amounts_def t0 t)
    ultimately show ?thesis using fits by blast
  qed
qed

section \<open>Exactly which requests are accepted\<close>

lemma same_anchor_output_facts:
  "same_anchor_output x y \<longleftrightarrow> xo_anchor_value_sat x = xo_anchor_value_sat y \<and> xo_anchor x = xo_anchor y"
  by (cases "xo_anchor x"; cases "xo_anchor y"; cases "aop_tapscript (xo_anchor x)"; cases "aop_tapscript (xo_anchor y)")
    (auto simp: same_anchor_output_def same_tapscript_def list.rel_eq)

lemma check_input_ok:
  "check_input N ids i = Inr ids' \<longleftrightarrow> is_ok (input_validate N i) \<and> xi_id i \<notin> ids \<and> ids' = insert (xi_id i) ids"
  by (cases "input_validate N i") (auto simp: check_input_def wrap_with_def)

lemma input_loop:
  "is_ok (fold_res (check_input N) ids inputs) \<longleftrightarrow>
     (\<forall>i \<in> set inputs. is_ok (input_validate N i)) \<and> distinct (map xi_id inputs) \<and> ids \<inter> xi_id ` set inputs = {}"
proof (induction inputs arbitrary: ids)
  case Nil
  show ?case by simp
next
  case (Cons i inputs)
  show ?case
  proof (cases "is_ok (input_validate N i) \<and> xi_id i \<notin> ids")
    case True
    then have "check_input N ids i = Inr (insert (xi_id i) ids)" by (simp add: check_input_ok)
    with True show ?thesis by (auto simp: Cons.IH)
  next
    case False
    then obtain e where "check_input N ids i = Inl e"
      by (cases "check_input N ids i") (auto simp: check_input_ok)
    with False show ?thesis by auto
  qed
qed

lemma check_output_ok:
  "check_output L (ids, anchors) x = Inr st' \<longleftrightarrow>
     is_ok (output_validate L x) \<and> xo_id x \<notin> ids \<and>
     (case anchors (xo_anchor_output_index x) of None \<Rightarrow> True | Some e \<Rightarrow> same_anchor_output e x) \<and>
     st' = (insert (xo_id x) ids, anchors(xo_anchor_output_index x \<mapsto> x))"
  by (cases "output_validate L x") (auto simp: check_output_def wrap_with_def split: option.splits)

lemma output_loop:
  "is_ok (fold_res (check_output L) (ids, anchors) outs) \<longleftrightarrow>
     (\<forall>x \<in> set outs. is_ok (output_validate L x)) \<and> distinct (map xo_id outs) \<and> ids \<inter> xo_id ` set outs = {} \<and>
     (\<forall>x \<in> set outs. \<forall>e. anchors (xo_anchor_output_index x) = Some e \<longrightarrow> same_anchor_output e x) \<and>
     (\<forall>x \<in> set outs. \<forall>y \<in> set outs. xo_anchor_output_index x = xo_anchor_output_index y \<longrightarrow> same_anchor_output x y)"
proof (induction outs arbitrary: ids anchors)
  case Nil
  show ?case by simp
next
  case (Cons x outs)
  let ?free = "case anchors (xo_anchor_output_index x) of None \<Rightarrow> True | Some e \<Rightarrow> same_anchor_output e x"
  show ?case
  proof (cases "is_ok (output_validate L x) \<and> xo_id x \<notin> ids \<and> ?free")
    case True
    then have "check_output L (ids, anchors) x = Inr (insert (xo_id x) ids, anchors(xo_anchor_output_index x \<mapsto> x))"
      by (simp add: check_output_ok)
    then have "is_ok (fold_res (check_output L) (ids, anchors) (x # outs)) \<longleftrightarrow>
        is_ok (fold_res (check_output L) (insert (xo_id x) ids, anchors(xo_anchor_output_index x \<mapsto> x)) outs)" by simp
    also have "\<dots> \<longleftrightarrow>
        (\<forall>y \<in> set outs. is_ok (output_validate L y)) \<and> distinct (map xo_id outs) \<and>
        insert (xo_id x) ids \<inter> xo_id ` set outs = {} \<and>
        (\<forall>y \<in> set outs. \<forall>e. (anchors(xo_anchor_output_index x \<mapsto> x)) (xo_anchor_output_index y) = Some e \<longrightarrow>
          same_anchor_output e y) \<and>
        (\<forall>y \<in> set outs. \<forall>z \<in> set outs. xo_anchor_output_index y = xo_anchor_output_index z \<longrightarrow> same_anchor_output y z)"
      by (rule Cons.IH)
    also have "(\<forall>y \<in> set outs. \<forall>e. (anchors(xo_anchor_output_index x \<mapsto> x)) (xo_anchor_output_index y) = Some e \<longrightarrow>
          same_anchor_output e y) \<longleftrightarrow>
        (\<forall>y \<in> set (x # outs). \<forall>e. anchors (xo_anchor_output_index y) = Some e \<longrightarrow> same_anchor_output e y) \<and>
        (\<forall>y \<in> set outs. xo_anchor_output_index y = xo_anchor_output_index x \<longrightarrow> same_anchor_output x y)"
      using True by (cases "anchors (xo_anchor_output_index x)") (auto simp: same_anchor_output_facts)
    also note chain = calculation
    have ids: "distinct (map xo_id (x # outs)) \<and> ids \<inter> xo_id ` set (x # outs) = {} \<longleftrightarrow>
        distinct (map xo_id outs) \<and> insert (xo_id x) ids \<inter> xo_id ` set outs = {}"
      using True by auto
    have pairs: "(\<forall>y \<in> set (x # outs). \<forall>z \<in> set (x # outs).
          xo_anchor_output_index y = xo_anchor_output_index z \<longrightarrow> same_anchor_output y z) \<longleftrightarrow>
        (\<forall>y \<in> set outs. xo_anchor_output_index y = xo_anchor_output_index x \<longrightarrow> same_anchor_output x y) \<and>
        (\<forall>y \<in> set outs. \<forall>z \<in> set outs. xo_anchor_output_index y = xo_anchor_output_index z \<longrightarrow> same_anchor_output y z)"
    proof -
      have "same_anchor_output a a" "same_anchor_output a b = same_anchor_output b a" for a b
        by (auto simp: same_anchor_output_facts)
      then show ?thesis unfolding list.set by (metis insert_iff)
    qed
    have valid: "(\<forall>y \<in> set (x # outs). is_ok (output_validate L y)) \<longleftrightarrow> (\<forall>y \<in> set outs. is_ok (output_validate L y))"
      using True by simp
    have regroup: "(T \<longleftrightarrow> V' \<and> D' \<and> I' \<and> (A \<and> P1) \<and> P2) \<Longrightarrow> (D \<and> I \<longleftrightarrow> D' \<and> I') \<Longrightarrow>
        (P \<longleftrightarrow> P1 \<and> P2) \<Longrightarrow> (V \<longleftrightarrow> V') \<Longrightarrow> T \<longleftrightarrow> V \<and> D \<and> I \<and> A \<and> P" for T V V' D D' I I' A P P1 P2
      by blast
    show ?thesis by (rule regroup [OF chain ids pairs valid])
  next
    case False
    then obtain e where "check_output L (ids, anchors) x = Inl e"
      by (cases "check_output L (ids, anchors) x") (auto simp: check_output_ok)
    with False show ?thesis by (auto split: option.splits)
  qed
qed

lemma request_validate_parts:
  "is_ok (request_validate N (Some r)) \<longleftrightarrow>
     rq_anchor_psbt r \<noteq> [] \<and> rq_inputs r \<noteq> [] \<and> rq_outputs r \<noteq> [] \<and>
     is_ok (funding_plan_validate (rq_funding r)) \<and>
     is_ok (passive_assets_validate (lib.truncate N) (rq_passive_assets r)) \<and>
     is_ok (loss_policy_validate (lib.truncate N) (rq_loss_policy r)) \<and>
     is_ok (fold_res (check_input N) {} (rq_inputs r)) \<and>
     is_ok (fold_res (check_output (lib.truncate N)) ({}, Map.empty) (rq_outputs r)) \<and>
     is_ok (validate_amounts (lib.truncate N) r)"
  by (simp add: request_validate_def is_ok_and_then_unit)

text \<open>
  C9. A request is accepted exactly when the PSBT, the inputs and the outputs are present, the
  funding plan, the passive assets and the loss policy are valid, inputs and outputs are valid
  and have unique IDs, outputs of one anchor index agree on its value, key and tapscript, the
  inputs of no asset exceed 64 bits, the outputs of every asset that has an output add up to its
  inputs, and what is burned of an asset stays within its allowance. Of an asset that only inputs
  are of, nothing more is asked.
\<close>

theorem request_accepted_iff:
  "is_ok (request_validate N (Some r)) \<longleftrightarrow>
     rq_anchor_psbt r \<noteq> [] \<and> rq_inputs r \<noteq> [] \<and> rq_outputs r \<noteq> [] \<and>
     is_ok (funding_plan_validate (rq_funding r)) \<and>
     is_ok (passive_assets_validate (lib.truncate N) (rq_passive_assets r)) \<and>
     is_ok (loss_policy_validate (lib.truncate N) (rq_loss_policy r)) \<and>
     list_all (\<lambda>i. is_ok (input_validate N i)) (rq_inputs r) \<and> distinct (map xi_id (rq_inputs r)) \<and>
     list_all (\<lambda>x. is_ok (output_validate (lib.truncate N) x)) (rq_outputs r) \<and> distinct (map xo_id (rq_outputs r)) \<and>
     list_all (\<lambda>x. list_all (\<lambda>y. xo_anchor_value_sat x = xo_anchor_value_sat y \<and> xo_anchor x = xo_anchor y)
        (filter (\<lambda>y. xo_anchor_output_index x = xo_anchor_output_index y) (rq_outputs r))) (rq_outputs r) \<and>
     list_all (\<lambda>i. total_input (lib.truncate N) r (xi_asset_ref i) < 2 ^ 64) (rq_inputs r) \<and>
     list_all (\<lambda>x. total_output (lib.truncate N) r (xo_asset_ref x) = total_input (lib.truncate N) r (xo_asset_ref x)) (rq_outputs r) \<and>
     list_all (\<lambda>i. total_burned (lib.truncate N) r (xi_asset_ref i) \<le>
        unat (loss_allowance_for (lib.truncate N) (rq_loss_policy r) (xi_asset_ref i))) (rq_inputs r)"
  unfolding request_validate_parts
  by (auto simp: input_loop output_loop validate_amounts_ok list_all_iff same_anchor_output_facts)

lemma output_validate_amount: "is_ok (output_validate L x) \<Longrightarrow> xo_amount x \<noteq> 0"
  by (auto simp: output_validate_def is_ok_iff result_simps)

lemma member_le_sum: "x \<in> set xs \<Longrightarrow> P x \<Longrightarrow> f x \<le> sum_list (map f (filter P xs))" for f :: "'x \<Rightarrow> nat"
  by (rule member_le_sum_list) auto

lemma accepted_request:
  assumes "request_validate N (Some r) = Inr ()" and "x \<in> set (rq_outputs r)"
  shows "\<exists>i \<in> set (rq_inputs r). asset_ref_equivalent (lib.truncate N) (xi_asset_ref i) (xo_asset_ref x)"
    and "total_output (lib.truncate N) r (xo_asset_ref x) = total_input (lib.truncate N) r (xo_asset_ref x)"
    and "total_input (lib.truncate N) r (xo_asset_ref x) < 2 ^ 64"
    and "total_burned (lib.truncate N) r (xo_asset_ref x) \<le>
      unat (loss_allowance_for (lib.truncate N) (rq_loss_policy r) (xo_asset_ref x))"
    and "burns x \<Longrightarrow> lp_mode (rq_loss_policy r) = LossBurn \<and> lp_confirm_irreversible_loss (rq_loss_policy r)"
proof -
  let ?L = "lib.truncate N" and ?ref = "xo_asset_ref x"
  from assms(1) have ok: "is_ok (request_validate N (Some r))" by simp
  then have outputs: "is_ok (fold_res (check_output ?L) ({}, Map.empty) (rq_outputs r))"
    and amounts: "is_ok (validate_amounts ?L r)" by (simp_all add: request_validate_parts)
  from outputs assms(2) have "is_ok (output_validate ?L x)" by (simp add: output_loop)
  then have amount: "0 < unat (xo_amount x)" by (simp add: output_validate_amount unat_gt_0)
  show balanced: "total_output ?L r ?ref = total_input ?L r ?ref"
    using amounts assms(2) by (simp add: validate_amounts_ok)
  have "unat (xo_amount x) \<le> total_output ?L r ?ref"
    using member_le_sum [OF assms(2), of "\<lambda>y. asset_ref_equivalent ?L (xo_asset_ref y) ?ref" "unat \<circ> xo_amount"]
    by (simp add: total_output_def)
  with amount balanced have "total_input ?L r ?ref \<noteq> 0" by linarith
  then show "\<exists>i \<in> set (rq_inputs r). asset_ref_equivalent ?L (xi_asset_ref i) ?ref"
    by (auto simp: total_input_def dest: sum_list_filter_nonzero)
  then obtain i where i: "i \<in> set (rq_inputs r)" "asset_ref_equivalent ?L (xi_asset_ref i) ?ref" by blast
  with amounts show "total_input ?L r ?ref < 2 ^ 64"
    using equivalent_totals(1) [OF i(2)] by (auto simp: validate_amounts_ok)
  have "loss_allowance_for ?L p (xi_asset_ref i) = loss_allowance_for ?L p ?ref" for p
    using i(2) by (intro allowance_of_key) (simp add: asset_key_equivalent)
  with amounts i show bound: "total_burned ?L r ?ref \<le> unat (loss_allowance_for ?L (rq_loss_policy r) ?ref)"
    using equivalent_totals(3) [OF i(2)] by (auto simp: validate_amounts_ok)
  assume "burns x"
  then have "unat (xo_amount x) \<le> total_burned ?L r ?ref"
    using member_le_sum [OF assms(2), of "\<lambda>y. burns y \<and> asset_ref_equivalent ?L (xo_asset_ref y) ?ref" "unat \<circ> xo_amount"]
    by (simp add: total_burned_def)
  with amount bound have "loss_allowance_for ?L (rq_loss_policy r) ?ref \<noteq> 0" by auto
  then show "lp_mode (rq_loss_policy r) = LossBurn \<and> lp_confirm_irreversible_loss (rq_loss_policy r)"
    by (auto simp: loss_allowance_for_def split: if_splits)
qed

lemma total_input_more:
  "total_input L (r\<lparr>rq_inputs := rq_inputs r @ [i]\<rparr>) ref =
     total_input L r ref + (if asset_ref_equivalent L (xi_asset_ref i) ref then unat (xi_amount i) else 0)"
  by (simp add: total_input_def)

text \<open>
  C36. Any further input of an asset that no output is of is accepted with the request, under every
  loss policy and in any amount that fits: \<open>validateAmounts\<close> compares the assets of the outputs only.
\<close>

theorem unallocated_input_accepted:
  assumes "is_ok (request_validate N (Some r))"
    and "is_ok (input_validate N i)" and "xi_id i \<notin> set (map xi_id (rq_inputs r))"
    and "list_all (\<lambda>x. \<not> asset_ref_equivalent (lib.truncate N) (xo_asset_ref x) (xi_asset_ref i)) (rq_outputs r)"
    and "total_input (lib.truncate N) r (xi_asset_ref i) + unat (xi_amount i) < 2 ^ 64"
  shows "is_ok (request_validate N (Some (r\<lparr>rq_inputs := rq_inputs r @ [i]\<rparr>)))"
proof -
  let ?L = "lib.truncate N" let ?r = "r\<lparr>rq_inputs := rq_inputs r @ [i]\<rparr>"
  have same: "total_output ?L ?r ref = total_output ?L r ref" "total_burned ?L ?r ref = total_burned ?L r ref" for ref
    by (simp_all add: total_output_def total_burned_def)
  have "total_burned ?L r (xi_asset_ref i) = 0"
    using assms(4) by (auto simp: total_burned_def list_all_iff)
  moreover have "total_input ?L ?r (xi_asset_ref j) < 2 ^ 64" if j: "j \<in> set (rq_inputs r)" for j
  proof (cases "asset_ref_equivalent ?L (xi_asset_ref i) (xi_asset_ref j)")
    case True
    then show ?thesis using assms(5) equivalent_totals(1) [OF True, of r] by (simp add: total_input_more)
  next
    case False
    then show ?thesis using assms(1) j by (simp add: total_input_more request_validate_parts validate_amounts_ok)
  qed
  moreover have "total_output ?L r (xo_asset_ref x) = total_input ?L ?r (xo_asset_ref x)" if x: "x \<in> set (rq_outputs r)" for x
  proof -
    have "\<not> asset_ref_equivalent ?L (xi_asset_ref i) (xo_asset_ref x)"
      using assms(4) x equivalent_sym by (fastforce simp: list_all_iff)
    then show ?thesis using assms(1) x by (simp add: total_input_more request_validate_parts validate_amounts_ok)
  qed
  ultimately show ?thesis
    using assms(1,2,3,5)
    unfolding request_validate_parts
    by (simp add: input_loop validate_amounts_ok same total_input_more asset_key_equivalent [symmetric])
qed

text \<open>
  C8. In an accepted request every asset that has an output is conserved: it is among the inputs, its
  outputs add up to its inputs below 2^64, and a burn of it is possible only under a confirmed burn
  policy whose allowance covers everything burned. Inputs of an asset that no output is of are not
  compared with anything here; a plan is not built for them.
\<close>

theorem accepted_request_conserves:
  assumes "request_validate N (Some r) = Inr ()" and "x \<in> set (rq_outputs r)"
  shows "(\<exists>i \<in> set (rq_inputs r). asset_ref_equivalent (lib.truncate N) (xi_asset_ref i) (xo_asset_ref x)) \<and>
    total_output (lib.truncate N) r (xo_asset_ref x) = total_input (lib.truncate N) r (xo_asset_ref x) \<and>
    total_input (lib.truncate N) r (xo_asset_ref x) < 2 ^ 64 \<and>
    total_burned (lib.truncate N) r (xo_asset_ref x) \<le>
      unat (loss_allowance_for (lib.truncate N) (rq_loss_policy r) (xo_asset_ref x)) \<and>
    (burns x \<longrightarrow> lp_mode (rq_loss_policy r) = LossBurn \<and> lp_confirm_irreversible_loss (rq_loss_policy r))"
  using accepted_request [OF assms] by blast

definition sample_anchor_output :: "string \<Rightarrow> string \<Rightarrow> u64 \<Rightarrow> u32 \<Rightarrow> script_plan \<Rightarrow> custom_asset_output" where
  "sample_anchor_output name ref amount index script =
     \<lparr>xo_id = name, xo_asset_ref = ref, xo_amount = amount, xo_anchor_output_index = index, xo_anchor_value_sat = 1000,
      xo_script = script,
      xo_anchor = \<lparr>aop_internal_key = \<lparr>ik_pub_key = 2 # replicate 32 9, ik_locator = \<lparr>kl_family = 0, kl_index = 0\<rparr>\<rparr>,
        aop_tapscript = \<lparr>tp_tap_leaves = [], tp_serialized_sibling = []\<rparr>\<rparr>,
      xo_proof_delivery = \<lparr>pd_recipient_id = [], pd_courier_address = [], pd_opaque_metadata = []\<rparr>,
      xo_absolute_timelock = 0, xo_relative_timelock = 0\<rparr>"

definition sample_anchor_request :: "string \<Rightarrow> custom_anchor_request" where
  "sample_anchor_request ref =
     \<lparr>rq_inputs = [\<lparr>xi_id = ''in'', xi_asset_ref = ref, xi_amount = 5, xi_proof_file = [1], xi_proof_path = None,
        xi_witness = \<lparr>wp_mode = WitnessBackendSigner, wp_stack = []\<rparr>\<rparr>],
      rq_outputs =
        [sample_anchor_output ''keep'' ref 3 0
           \<lparr>sl_mode = ScriptWallet, sl_wallet = Some None, sl_external = None, sl_op_true = None, sl_burn = None\<rparr>,
         sample_anchor_output ''burn'' ref 2 0
           \<lparr>sl_mode = ScriptBurn, sl_wallet = None, sl_external = None, sl_op_true = None, sl_burn = Some ()\<rparr>],
      rq_anchor_psbt = [1],
      rq_funding = \<lparr>fp_mode = FundingCallerFundedExact, fp_wallet_funded = None, fp_caller_funded_exact = Some (),
        fp_external_p2a = None\<rparr>,
      rq_passive_assets = \<lparr>pa_policy = PassiveReject, pa_packets = []\<rparr>,
      rq_loss_policy = \<lparr>lp_mode = LossBurn, lp_allowances = [\<lparr>la_asset_ref = ref, la_max_amount = 2\<rparr>],
        lp_confirm_irreversible_loss = True\<rparr>,
      rq_signing_plans = []\<rparr>"

lemma sample_anchor_key: "validate_anchor_pub_key sample_lib label (2 # replicate 32 9) = Inr ()"
proof -
  have "is_ok (parse_pub_key sample_lib (2 # replicate 32 9))" by (simp add: sample_pub_key)
  then show ?thesis by (auto simp: validate_anchor_pub_key_def is_ok_iff wrap_with_def)
qed

lemma sample_anchor_request_accepted:
  assumes "is_group_ref sample_lib ref"
  shows "request_validate sample_native (Some (sample_anchor_request ref)) = Inr ()"
proof -
  have ref: "asset_ref_validate sample_lib ref = Inr ()"
    using assms by (auto simp: is_group_ref_def asset_ref_validate_def split: sum.splits)
  have "checked_add a b = Inr (a + b)" if "unat a + unat b < 2 ^ 64" for a b :: u64
    using that by (simp add: checked_add_def add64_eq)
  then have adds: "checked_add 0 5 = Inr 5" "checked_add 0 3 = Inr 3" "checked_add 3 2 = Inr 5" "checked_add 0 2 = Inr 2"
    by simp_all
  show ?thesis
    by (simp add: request_validate_def sample_anchor_request_def sample_anchor_output_def ref adds sample_anchor_key
        funding_plan_validate_def passive_assets_validate_def loss_policy_validate_def loss_step_def count_variants_def
        check_input_def input_validate_def witness_plan_validate_def check_output_def output_validate_def
        script_plan_validate_def anchor_output_plan_validate_def tapscript_plan_validate_def same_anchor_output_facts
        validate_amounts_def add_input_def add_output_def anchor_totals_def check_balance_def check_loss_def
        loss_allowance_for_def Let_def wrap_with_def)
qed

theorem accepted_request_conserves_witness:
  "\<exists>ref. total_output sample_lib (sample_anchor_request ref) ref = total_input sample_lib (sample_anchor_request ref) ref \<and>
     total_burned sample_lib (sample_anchor_request ref) ref \<le> 2 \<and>
     lp_mode (rq_loss_policy (sample_anchor_request ref)) = LossBurn"
proof -
  obtain ref where ref: "is_group_ref sample_lib ref" using sample_group_ref by blast
  let ?x = "sample_anchor_output ''burn'' ref 2 0
     \<lparr>sl_mode = ScriptBurn, sl_wallet = None, sl_external = None, sl_op_true = None, sl_burn = Some ()\<rparr>"
  have x: "?x \<in> set (rq_outputs (sample_anchor_request ref))" "burns ?x" "xo_asset_ref ?x = ref"
    by (simp_all add: sample_anchor_request_def burns_def sample_anchor_output_def)
  have allowance: "loss_allowance_for sample_lib (rq_loss_policy (sample_anchor_request ref)) ref = 2"
    by (simp add: sample_anchor_request_def loss_allowance_for_def)
  note facts = accepted_request_conserves [OF sample_anchor_request_accepted [OF ref] x(1)]
  from facts x(2) show ?thesis
    by (intro exI [of _ ref]) (simp add: x(3) allowance)
qed

lemma sample_asset_id_ref: "\<exists>ref. is_asset_id_ref sample_lib ref \<and> \<not> is_group_ref sample_lib ref"
proof -
  have "valid_payload sample_lib kind_asset_id zero32" by (simp add: valid_payload_def)
  from encode_asset_ref_ok [OF sample_bech32m_laws this] obtain s where
    "decode_asset_ref_string sample_lib s = Inr (kind_asset_id, zero32, s)" by blast
  then show ?thesis by (intro exI [of _ s]) (simp add: is_asset_id_ref_def is_group_ref_def)
qed

definition sample_other_input :: "string \<Rightarrow> custom_asset_input" where
  "sample_other_input ref = \<lparr>xi_id = ''other'', xi_asset_ref = ref, xi_amount = 7, xi_proof_file = [1], xi_proof_path = None,
     xi_witness = \<lparr>wp_mode = WitnessBackendSigner, wp_stack = []\<rparr>\<rparr>"

theorem unallocated_input_accepted_witness:
  "\<exists>ref other. is_ok (request_validate sample_native
     (Some ((sample_anchor_request ref)\<lparr>rq_inputs := rq_inputs (sample_anchor_request ref) @ [sample_other_input other]\<rparr>))) \<and>
     is_group_ref sample_lib ref \<and> is_asset_id_ref sample_lib other"
proof -
  obtain ref where ref: "is_group_ref sample_lib ref" using sample_group_ref by blast
  obtain other where other: "is_asset_id_ref sample_lib other" "\<not> is_group_ref sample_lib other" using sample_asset_id_ref by blast
  have differ: "\<not> asset_ref_equivalent sample_lib ref other"
    using ref other by (auto simp: asset_ref_equivalent_def is_group_ref_def is_asset_id_ref_def split: sum.splits prod.splits)
  then have apart: "\<not> asset_ref_equivalent sample_lib other ref"
    using equivalent_sym by blast
  have lib: "lib.truncate sample_native = sample_lib" by simp
  have valid: "asset_ref_validate sample_lib other = Inr ()"
    using other by (auto simp: is_asset_id_ref_def asset_ref_validate_def split: sum.splits)
  have accepted: "is_ok (request_validate sample_native (Some (sample_anchor_request ref)))"
    by (simp add: sample_anchor_request_accepted [OF ref])
  have i: "is_ok (input_validate sample_native (sample_other_input other))"
    by (simp add: input_validate_def sample_other_input_def valid witness_plan_validate_def wrap_with_def)
  have "is_ok (request_validate sample_native
     (Some ((sample_anchor_request ref)\<lparr>rq_inputs := rq_inputs (sample_anchor_request ref) @ [sample_other_input other]\<rparr>)))"
    by (rule unallocated_input_accepted [OF accepted i])
      (simp_all add: sample_anchor_request_def sample_other_input_def sample_anchor_output_def differ apart total_input_def)
  with ref other show ?thesis by blast
qed

end
