(* ===== verification/Tap_AnchorPsbt.thy ===== *)
theory Tap_AnchorPsbt
  imports Tap_AnchorTypes
begin

text \<open>
  The bitcoin-level anchor PSBT of a custom-anchor transfer: previous outputs, the balance of the
  transaction, the caller's template and the metadata merged into it, and what a backend may
  change when it commits (\<open>custom_anchor_builder.go\<close>, \<open>custom_anchor_lifecycle.go\<close>,
  \<open>custom_anchor_signing.go\<close>, \<open>custom_anchor_fields.go\<close>).

  The packet types are those of \<open>btcd/psbt\<close> and \<open>btcd/wire\<close> with the fields the code reads or
  writes; \<open>pin_other\<close>, \<open>pou_other\<close> and \<open>ppk_xpubs\<close> stand for what it only copies or compares.
  A byte slice that is nil is empty. An \<open>int64\<close> amount is an \<open>int\<close>: every sum below is bounded
  before it is taken. The functions of \<open>btcd\<close> are the record \<open>btc_lib\<close>.
\<close>

section \<open>Packets\<close>

record wire_tx_in =
  win_prev_out :: outpoint
  win_sequence :: u32
  win_signature_script :: bytes
  win_witness :: "bytes list"

record wire_tx =
  wtx_version :: int
  wtx_lock_time :: u32
  wtx_ins :: "wire_tx_in list"
  wtx_outs :: "tx_out list"

record tap_leaf_script =
  tl_control_block :: bytes
  tl_script :: bytes
  tl_leaf_version :: byte

record psbt_input =
  pin_non_witness_utxo :: "wire_tx option"
  pin_witness_utxo :: "tx_out option"
  pin_partial_sigs :: "bytes list"
  pin_sighash_type :: u32
  pin_bip32 :: "bytes list"
  pin_final_script_sig :: bytes
  pin_final_script_witness :: bytes
  pin_key_spend_sig :: bytes
  pin_script_spend_sigs :: "bytes list"
  pin_leaf_scripts :: "tap_leaf_script list"
  pin_tr_bip32 :: "bytes list"
  pin_internal_key :: bytes
  pin_merkle_root :: bytes
  pin_other :: bytes

type_synonym psbt_unknowns = "(bytes \<times> bytes) list"

record psbt_output =
  pou_internal_key :: bytes
  pou_bip32 :: "bytes list"
  pou_tr_bip32 :: "bytes list"
  pou_unknowns :: psbt_unknowns
  pou_other :: bytes

record psbt_packet =
  ppk_tx :: wire_tx
  ppk_inputs :: "psbt_input list"
  ppk_outputs :: "psbt_output list"
  ppk_xpubs :: "bytes list"
  ppk_unknowns :: psbt_unknowns

text \<open>
  The functions of \<open>btcd\<close>. The previous outputs of a transaction are passed with their
  outpoints, in input order. \<open>bl_execute\<close> is \<open>txscript.NewEngine\<close> and \<open>Execute\<close> on one input.
\<close>

record ('k, 's) btc_lib = "'k script_lib" +
  bl_decode_psbt :: "bytes \<Rightarrow> psbt_packet result"
  bl_sanity_check :: "psbt_packet \<Rightarrow> unit result"
  bl_serialize_psbt :: "psbt_packet \<Rightarrow> bytes result"
  bl_extract :: "psbt_packet \<Rightarrow> wire_tx result"
  bl_tx_hash :: "wire_tx \<Rightarrow> bytes"
  bl_tx_sanity :: "wire_tx \<Rightarrow> unit result"
  bl_serialize_no_witness :: "wire_tx \<Rightarrow> bytes result"
  bl_serialize_tx :: "wire_tx \<Rightarrow> bytes result"
  bl_write_witness :: "bytes list \<Rightarrow> bytes result"
  bl_is_p2tr :: "bytes \<Rightarrow> bool"
  bl_is_p2wpkh :: "bytes \<Rightarrow> bool"
  bl_is_p2wsh :: "bytes \<Rightarrow> bool"
  bl_is_dust :: "tx_out \<Rightarrow> bool"
  bl_witness_program :: "bytes \<Rightarrow> bytes result"
  bl_key_sighash :: "wire_tx \<Rightarrow> (outpoint \<times> tx_out) list \<Rightarrow> u32 \<Rightarrow> nat \<Rightarrow> bytes result"
  bl_script_sighash :: "wire_tx \<Rightarrow> (outpoint \<times> tx_out) list \<Rightarrow> u32 \<Rightarrow> nat \<Rightarrow> byte \<Rightarrow> bytes \<Rightarrow> bytes result"
  bl_execute :: "bytes \<Rightarrow> wire_tx \<Rightarrow> nat \<Rightarrow> (outpoint \<times> tx_out) list \<Rightarrow> int \<Rightarrow> unit result"
  bl_opcodes :: "bytes \<Rightarrow> byte list \<times> unit result"
  bl_parse_signature :: "bytes \<Rightarrow> 's result"
  bl_verify_signature :: "'s \<Rightarrow> bytes \<Rightarrow> 'k \<Rightarrow> bool"
  bl_musig2_aggregate :: "'k list \<Rightarrow> 'k result"
  bl_sha256 :: "bytes \<Rightarrow> bytes"
  bl_max_satoshi :: int
  bl_merkle_root_key :: bytes
  bl_asset_root_key :: bytes
  bl_extract_field :: "psbt_unknowns \<Rightarrow> bytes \<Rightarrow> bytes"
  bl_add_field :: "psbt_unknowns \<Rightarrow> bytes \<Rightarrow> bytes \<Rightarrow> psbt_unknowns"

section \<open>Reading and writing\<close>

definition decode_anchor_psbt :: "('k, 's, 'z) btc_lib_scheme \<Rightarrow> bytes \<Rightarrow> psbt_packet result" where
  "decode_anchor_psbt B raw =
     (if raw = [] then Inl (Plain ''empty PSBT'')
      else and_then (bl_decode_psbt B raw) (\<lambda>packet.
           and_then (bl_sanity_check B packet) (\<lambda>_. Inr packet)))"

definition serialize_anchor_psbt :: "('k, 's, 'z) btc_lib_scheme \<Rightarrow> psbt_packet \<Rightarrow> bytes result" where
  "serialize_anchor_psbt B packet = wrap_with (\<lambda>e. Wrapf ''serialize anchor PSBT: '' e []) (bl_serialize_psbt B packet)"

definition strip_input_signatures :: "psbt_input \<Rightarrow> psbt_input" where
  "strip_input_signatures i = i\<lparr>pin_partial_sigs := [], pin_final_script_sig := [],
     pin_final_script_witness := [], pin_key_spend_sig := [], pin_script_spend_sigs := []\<rparr>"

definition canonical_anchor_psbt :: "('k, 's, 'z) btc_lib_scheme \<Rightarrow> bytes \<Rightarrow> bool \<Rightarrow> bytes result" where
  "canonical_anchor_psbt B raw strip_signatures =
     and_then (decode_anchor_psbt B raw) (\<lambda>packet.
       serialize_anchor_psbt B
         (if strip_signatures then packet\<lparr>ppk_inputs := map strip_input_signatures (ppk_inputs packet)\<rparr>
          else packet))"

text \<open>\<open>customAnchorDigest\<close>: the hash of the domain, a zero byte and the payload.\<close>

definition anchor_digest :: "('k, 's, 'z) btc_lib_scheme \<Rightarrow> bytes \<Rightarrow> bytes \<Rightarrow> bytes" where
  "anchor_digest B tag payload = bl_sha256 B (tag @ [0] @ payload)"

section \<open>Previous outputs\<close>

definition equal_wire_tx_out :: "tx_out \<Rightarrow> tx_out \<Rightarrow> bool" where
  "equal_wire_tx_out a b \<longleftrightarrow> txo_value a = txo_value b \<and> txo_pk_script a = txo_pk_script b"

text \<open>\<open>anchorPrevOut\<close> on one input map and the outpoint it spends.\<close>

definition anchor_prev_out :: "('k, 's, 'z) btc_lib_scheme \<Rightarrow> psbt_input \<Rightarrow> outpoint \<Rightarrow> tx_out result" where
  "anchor_prev_out B i op =
     and_then
       (case pin_non_witness_utxo i of
          None \<Rightarrow> Inr None
        | Some tx \<Rightarrow>
            (if bl_tx_hash B tx \<noteq> op_txid op
             then Inl (Plain ''input non-witness UTXO transaction mismatch'')
             else if unat (op_index op) \<ge> length (wtx_outs tx)
             then Inl (Plain ''input non-witness UTXO index is out of range'')
             else Inr (Some (wtx_outs tx ! unat (op_index op)))))
       (\<lambda>non_witness_out.
          case (pin_witness_utxo i, non_witness_out) of
            (Some out, Some nw) \<Rightarrow>
              (if \<not> equal_wire_tx_out nw out
               then Inl (Plain ''input witness and non-witness UTXOs differ'') else Inr out)
          | (Some out, None) \<Rightarrow> Inr out
          | (None, Some nw) \<Rightarrow> Inr nw
          | (None, None) \<Rightarrow> Inl (Plain ''input previous output is required''))"

text \<open>
  \<open>anchorPrevOuts\<close>: the loop over the input maps; \<open>TxIn[i]\<close> panics where the transaction has
  fewer inputs. The fetcher maps every outpoint to its output.
\<close>

fun prev_outs_loop ::
    "('k, 's, 'z) btc_lib_scheme \<Rightarrow> (outpoint \<times> tx_out) list \<Rightarrow> psbt_input list \<Rightarrow> wire_tx_in list \<Rightarrow>
     (outpoint \<times> tx_out) list result" where
  "prev_outs_loop B outs [] tx_ins = Inr outs"
| "prev_outs_loop B outs (i # inputs) [] = Inl (Plain ''index out of range'')"
| "prev_outs_loop B outs (i # inputs) (t # tx_ins) =
     (if win_prev_out t \<in> fst ` set outs then Inl (Plain ''anchor input repeats a previous outpoint'')
      else and_then (anchor_prev_out B i (win_prev_out t)) (\<lambda>prev_out.
             prev_outs_loop B (outs @ [(win_prev_out t, prev_out)]) inputs tx_ins))"

definition anchor_prev_outs :: "('k, 's, 'z) btc_lib_scheme \<Rightarrow> psbt_packet \<Rightarrow> (outpoint \<times> tx_out) list result" where
  "anchor_prev_outs B packet = prev_outs_loop B [] (ppk_inputs packet) (wtx_ins (ppk_tx packet))"

definition find_anchor_input :: "psbt_packet \<Rightarrow> outpoint \<Rightarrow> nat option" where
  "find_anchor_input packet op =
     (let n = length (takeWhile (\<lambda>t. win_prev_out t \<noteq> op) (wtx_ins (ppk_tx packet))) in
      if n < length (wtx_ins (ppk_tx packet)) then Some n else None)"

section \<open>The balance of the anchor transaction\<close>

definition canonical_p2a_script :: bytes where
  "canonical_p2a_script = [0x51, 0x02, 0x4e, 0x73]"

text \<open>The loop bodies over input values and over output values share the range checks.\<close>

definition add_satoshis :: "('k, 's, 'z) btc_lib_scheme \<Rightarrow> string \<Rightarrow> int \<Rightarrow> int \<Rightarrow> int result" where
  "add_satoshis B what total_value v =
     (if v < 0 \<or> v > bl_max_satoshi B then Inl (Plain (''anchor '' @ what @ '' value is out of range''))
      else if total_value > bl_max_satoshi B - v
      then Inl (Plain (''anchor '' @ what @ '' value total is out of range''))
      else Inr (total_value + v))"

definition validate_bitcoin_transaction :: "('k, 's, 'z) btc_lib_scheme \<Rightarrow> psbt_packet \<Rightarrow> bool \<Rightarrow> unit result" where
  "validate_bitcoin_transaction B packet require_funded =
     and_then (wrap_with (\<lambda>e. Wrapf ''Bitcoin transaction sanity: '' e []) (bl_tx_sanity B (ppk_tx packet))) (\<lambda>_.
     and_then (anchor_prev_outs B packet) (\<lambda>prev_outs.
     and_then (fold_res (\<lambda>t p. add_satoshis B ''input'' t (txo_value (snd p))) 0 prev_outs) (\<lambda>total_input.
       if \<not> require_funded then Inr ()
       else and_then (fold_res (\<lambda>t out. add_satoshis B ''output'' t (txo_value out)) 0 (wtx_outs (ppk_tx packet))) (\<lambda>total_output.
         if total_output > total_input then Inl (Plain ''anchor outputs exceed inputs'')
         else if (\<exists>out \<in> set (wtx_outs (ppk_tx packet)). txo_value out = 0 \<and> txo_pk_script out = canonical_p2a_script) \<and>
                 total_input - total_output \<noteq> 0
         then Inl (Plain ''anchor transaction with a zero-value P2A output must pay exactly zero fee'')
         else Inr ()))))"

definition transaction_fee :: "('k, 's, 'z) btc_lib_scheme \<Rightarrow> psbt_packet \<Rightarrow> u64 result" where
  "transaction_fee B packet =
     and_then (validate_bitcoin_transaction B packet True) (\<lambda>_.
     and_then (anchor_prev_outs B packet) (\<lambda>prev_outs.
       Inr (of_int (sum_list (map (txo_value \<circ> snd) prev_outs) -
                    sum_list (map txo_value (wtx_outs (ppk_tx packet)))))))"

section \<open>The caller's template\<close>

definition validate_txid_stable_inputs :: "('k, 's, 'z) btc_lib_scheme \<Rightarrow> psbt_packet \<Rightarrow> unit result" where
  "validate_txid_stable_inputs B anchor =
     and_then (wrap_with (\<lambda>e. Wrapf ''validate anchor previous outputs: '' e []) (anchor_prev_outs B anchor)) (\<lambda>prev_outs.
     fold_res (\<lambda>_ tx_in.
       if win_signature_script tx_in \<noteq> [] then Inl (Plain ''anchor input has a pre-commit scriptSig'')
       else case map_of prev_outs (win_prev_out tx_in) of
         None \<Rightarrow> Inl (Plain ''anchor input previous output is missing'')
       | Some prev_out \<Rightarrow>
           (if \<not> bl_is_p2wpkh B (txo_pk_script prev_out) \<and> \<not> bl_is_p2wsh B (txo_pk_script prev_out) \<and>
               \<not> bl_is_p2tr B (txo_pk_script prev_out)
            then Inl (Plain ''anchor input must spend a native SegWit output'') else Inr ()))
       () (wtx_ins (ppk_tx anchor)))"

definition validate_external_p2a :: "('k, 's, 'z) btc_lib_scheme \<Rightarrow> psbt_packet \<Rightarrow> u32 \<Rightarrow> unit result" where
  "validate_external_p2a B anchor index =
     (if wtx_version (ppk_tx anchor) \<noteq> 3
      then Inl (Plain ''external P2A funding requires transaction version 3'')
      else if unat index \<ge> length (wtx_outs (ppk_tx anchor))
      then Inl (Plain ''P2A output index is out of range'')
      else if txo_value (wtx_outs (ppk_tx anchor) ! unat index) \<noteq> 0 \<or>
              txo_pk_script (wtx_outs (ppk_tx anchor) ! unat index) \<noteq> canonical_p2a_script
      then Inl (Plain ''output is not the canonical zero-value P2A output'')
      else fold_idx (\<lambda>i _ out.
             if of_nat i = index then Inr ()
             else if bl_is_dust B out then Inl (Plain ''external P2A parent output is dust'')
             else Inr ()) 0 () (wtx_outs (ppk_tx anchor)))"

definition has_signature_data :: "psbt_input \<Rightarrow> bool" where
  "has_signature_data i \<longleftrightarrow> pin_partial_sigs i \<noteq> [] \<or> pin_final_script_sig i \<noteq> [] \<or>
     pin_final_script_witness i \<noteq> [] \<or> pin_key_spend_sig i \<noteq> [] \<or> pin_script_spend_sigs i \<noteq> []"

definition validate_anchor_template ::
    "('k, 's, 'z) btc_lib_scheme \<Rightarrow> custom_anchor_request \<Rightarrow> psbt_packet \<Rightarrow> unit result" where
  "validate_anchor_template B r anchor =
     (if length (ppk_inputs anchor) \<noteq> length (wtx_ins (ppk_tx anchor)) \<or>
         length (ppk_outputs anchor) \<noteq> length (wtx_outs (ppk_tx anchor))
      then Inl (Plain ''caller anchor PSBT input/output maps are invalid'')
      else if \<exists>i \<in> set (ppk_inputs anchor). has_signature_data i
      then Inl (Plain ''caller anchor PSBT input contains pre-commit signature or finalization data'')
      else and_then (fold_res (\<lambda>_ out.
             if unat (xo_anchor_output_index out) \<ge> length (wtx_outs (ppk_tx anchor))
             then Inl (Plain ''asset output anchor index is out of range'')
             else let v = txo_value (wtx_outs (ppk_tx anchor) ! unat (xo_anchor_output_index out)) in
                  if v < 0 \<or> of_int v \<noteq> xo_anchor_value_sat out
                  then Inl (Plain ''asset output anchor value mismatch'') else Inr ())
             () (rq_outputs r)) (\<lambda>_.
           if fp_mode (rq_funding r) = FundingExternalP2AFeeBump
           then case fp_external_p2a (rq_funding r) of
                  None \<Rightarrow> Inl (Plain ''nil pointer dereference'')
                | Some index \<Rightarrow> validate_external_p2a B anchor index
           else Inr ()))"

section \<open>Merging the metadata the packets require\<close>

text \<open>\<open>mergeBytes\<close> and \<open>mergeDerivations\<close>: an empty source leaves the destination alone.\<close>

definition merge_list :: "string \<Rightarrow> 'a list \<Rightarrow> 'a list \<Rightarrow> 'a list result" where
  "merge_list label dst src =
     (if src = [] then Inr dst
      else if dst \<noteq> [] \<and> dst \<noteq> src then Inl (Plain (label @ '' mismatch''))
      else Inr src)"

definition merge_required_input :: "psbt_input \<Rightarrow> psbt_input \<Rightarrow> psbt_input result" where
  "merge_required_input dst src =
     and_then
       (case pin_witness_utxo src of
          None \<Rightarrow> Inr dst
        | Some out \<Rightarrow>
            (case pin_witness_utxo dst of
               Some have_out \<Rightarrow>
                 (if \<not> equal_wire_tx_out have_out out then Inl (Plain ''witness UTXO mismatch'')
                  else Inr (dst\<lparr>pin_witness_utxo := Some out\<rparr>))
             | None \<Rightarrow> Inr (dst\<lparr>pin_witness_utxo := Some out\<rparr>))) (\<lambda>dst1.
     if pin_sighash_type dst1 \<noteq> 0 \<and> pin_sighash_type src \<noteq> 0 \<and> pin_sighash_type dst1 \<noteq> pin_sighash_type src
     then Inl (Plain ''sighash type mismatch'')
     else
       (let dst2 = (if pin_sighash_type dst1 = 0 then dst1\<lparr>pin_sighash_type := pin_sighash_type src\<rparr> else dst1) in
        and_then (merge_list ''taproot internal key'' (pin_internal_key dst2) (pin_internal_key src)) (\<lambda>key.
        and_then (merge_list ''taproot merkle root'' (pin_merkle_root dst2) (pin_merkle_root src)) (\<lambda>root.
        and_then (merge_list ''BIP32 derivation'' (pin_bip32 dst2) (pin_bip32 src)) (\<lambda>bip32.
        and_then (merge_list ''taproot BIP32 derivation'' (pin_tr_bip32 dst2) (pin_tr_bip32 src)) (\<lambda>tr_bip32.
          Inr (dst2\<lparr>pin_internal_key := key, pin_merkle_root := root, pin_bip32 := bip32,
                    pin_tr_bip32 := tr_bip32\<rparr>)))))))"

definition merge_required_output :: "psbt_output \<Rightarrow> psbt_output \<Rightarrow> psbt_output result" where
  "merge_required_output dst src =
     and_then (merge_list ''taproot internal key'' (pou_internal_key dst) (pou_internal_key src)) (\<lambda>key.
     and_then (merge_list ''BIP32 derivation'' (pou_bip32 dst) (pou_bip32 src)) (\<lambda>bip32.
     and_then (merge_list ''taproot BIP32 derivation'' (pou_tr_bip32 dst) (pou_tr_bip32 src)) (\<lambda>tr_bip32.
       Inr (dst\<lparr>pou_internal_key := key, pou_bip32 := bip32, pou_tr_bip32 := tr_bip32\<rparr>))))"

text \<open>
  \<open>prepareCustomAnchorPSBT\<close> after the caller's PSBT is decoded; \<open>required\<close> is the template that
  \<open>tapsend.PrepareAnchoringTemplate\<close> makes of the packets.
\<close>

definition merge_input_step ::
    "psbt_packet \<Rightarrow> wire_tx_in \<times> psbt_input \<Rightarrow> psbt_packet result" where
  "merge_input_step anchor src =
     (case find_anchor_input anchor (win_prev_out (fst src)) of
        None \<Rightarrow> Inl (Plain ''caller anchor PSBT is missing asset input'')
      | Some i \<Rightarrow>
          and_then (wrap_with (\<lambda>e. Wrapf ''merge anchor input metadata: '' e [])
                      (merge_required_input (ppk_inputs anchor ! i) (snd src))) (\<lambda>merged.
            Inr (anchor\<lparr>ppk_inputs := (ppk_inputs anchor)[i := merged]\<rparr>)))"

definition merge_output_step :: "nat \<Rightarrow> psbt_packet \<Rightarrow> psbt_output \<Rightarrow> psbt_packet result" where
  "merge_output_step i anchor src =
     (if i \<ge> length (ppk_outputs anchor) then Inl (Plain ''caller anchor PSBT is missing required output'')
      else and_then (wrap_with (\<lambda>e. Wrapf ''merge anchor output metadata: '' e [])
                      (merge_required_output (ppk_outputs anchor ! i) src)) (\<lambda>merged.
             Inr (anchor\<lparr>ppk_outputs := (ppk_outputs anchor)[i := merged]\<rparr>)))"

definition prepare_custom_anchor_psbt ::
    "('k, 's, 'z) btc_lib_scheme \<Rightarrow> custom_anchor_request \<Rightarrow> psbt_packet result \<Rightarrow> psbt_packet result" where
  "prepare_custom_anchor_psbt B r required_template =
     and_then (wrap_with (\<lambda>e. Wrapf ''decode caller anchor PSBT: '' e []) (bl_decode_psbt B (rq_anchor_psbt r))) (\<lambda>anchor.
     and_then (validate_anchor_template B r anchor) (\<lambda>_.
     and_then (wrap_with (\<lambda>e. Wrapf ''prepare required anchor metadata: '' e []) required_template) (\<lambda>required.
     and_then (fold_res merge_input_step anchor (zip (wtx_ins (ppk_tx required)) (ppk_inputs required))) (\<lambda>anchor1.
     and_then (fold_idx merge_output_step 0 anchor1 (ppk_outputs required)) (\<lambda>anchor2.
     and_then (validate_txid_stable_inputs B anchor2) (\<lambda>_. Inr anchor2))))))"

section \<open>What a backend may change\<close>

text \<open>The derivations of the caller are kept in any order; every other field is unchanged.\<close>

definition input_metadata_compatible :: "psbt_input \<Rightarrow> psbt_input \<Rightarrow> bool" where
  "input_metadata_compatible before after \<longleftrightarrow>
     before\<lparr>pin_bip32 := [], pin_tr_bip32 := []\<rparr> = after\<lparr>pin_bip32 := [], pin_tr_bip32 := []\<rparr> \<and>
     list_all (\<lambda>d. d \<in> set (pin_bip32 after)) (pin_bip32 before) \<and>
     list_all (\<lambda>d. d \<in> set (pin_tr_bip32 after)) (pin_tr_bip32 before)"

definition filter_commitment_fields :: "('k, 's, 'z) btc_lib_scheme \<Rightarrow> psbt_unknowns \<Rightarrow> psbt_unknowns" where
  "filter_commitment_fields B unknowns =
     filter (\<lambda>u. \<not> (fst u = bl_merkle_root_key B \<or> fst u = bl_asset_root_key B)) unknowns"

definition output_metadata_equal :: "('k, 's, 'z) btc_lib_scheme \<Rightarrow> psbt_output \<Rightarrow> psbt_output \<Rightarrow> bool" where
  "output_metadata_equal B before after \<longleftrightarrow>
     before\<lparr>pou_unknowns := filter_commitment_fields B (pou_unknowns before)\<rparr> =
     after\<lparr>pou_unknowns := filter_commitment_fields B (pou_unknowns after)\<rparr>"

text \<open>
  \<open>verifyCommittedAnchorShape\<close>, in three parts. The first is the loop over the inputs of the
  submitted transaction; the input maps have the length of the inputs in a decoded packet.
\<close>

definition committed_inputs_ok :: "psbt_packet \<Rightarrow> psbt_packet \<Rightarrow> unit result" where
  "committed_inputs_ok before after =
     (if length (wtx_ins (ppk_tx after)) < length (wtx_ins (ppk_tx before))
      then Inl (Plain ''backend removed anchor inputs'')
      else fold_idx (\<lambda>i _ left.
             let right = wtx_ins (ppk_tx after) ! i in
             if win_prev_out left \<noteq> win_prev_out right \<or> win_sequence left \<noteq> win_sequence right
             then Inl (Plain ''backend changed anchor input outpoint or sequence'')
             else if \<not> input_metadata_compatible (ppk_inputs before ! i) (ppk_inputs after ! i)
             then Inl (Plain ''backend changed anchor input PSBT metadata'')
             else Inr ()) 0 () (wtx_ins (ppk_tx before)))"

text \<open>
  The number of outputs and the change index the funding policy admits; the result is the
  existing change output, -1 where there is none.
\<close>

definition committed_change_ok :: "funding_plan \<Rightarrow> nat \<Rightarrow> nat \<Rightarrow> nat \<Rightarrow> nat \<Rightarrow> int \<Rightarrow> int result" where
  "committed_change_ok funding ins_before ins_after outs_before outs_after change_index =
     (if fp_mode funding \<noteq> FundingWalletFunded
      then if ins_after \<noteq> ins_before then Inl (Plain ''skip-funding commit changed anchor inputs'')
           else if outs_after \<noteq> outs_before then Inl (Plain ''skip-funding commit changed anchor output count'')
           else if change_index \<noteq> -1 then Inl (Plain ''skip-funding commit returned change output'')
           else Inr (-1)
      else if outs_after < outs_before then Inl (Plain ''backend removed anchor outputs'')
      else case fp_wallet_funded funding of
        None \<Rightarrow> Inl (Plain ''nil pointer dereference'')
      | Some w \<Rightarrow>
          (let plan = wf_change_output w; added_count = outs_after - outs_before in
           case aco_mode plan of
             AnchorChangeOutputAdd \<Rightarrow>
               (if added_count > 1 then Inl (Plain ''backend added change outputs'')
                else if added_count = 0 \<and> change_index \<noteq> -1
                then Inl (Plain ''backend returned unexpected existing change output'')
                else if added_count = 1 \<and> change_index \<noteq> int outs_before
                then Inl (Plain ''backend returned wrong change output'')
                else Inr (-1))
           | AnchorChangeOutputExisting \<Rightarrow>
               (let existing = sint (aco_existing_output_index plan) in
                if existing < 0 \<or> existing \<ge> int outs_before
                then Inl (Plain ''requested existing change output is out of range'')
                else if outs_after \<noteq> outs_before then Inl (Plain ''existing-change funding added an output'')
                else if change_index \<noteq> existing then Inl (Plain ''backend returned wrong change output'')
                else Inr existing)
           | AnchorChangeOutputNoNew \<Rightarrow>
               (if outs_after \<noteq> outs_before then Inl (Plain ''no-new-change funding added an output'')
                else if change_index \<noteq> -1 then Inl (Plain ''no-new-change funding returned change output'')
                else Inr (-1))
           | _ \<Rightarrow> Inl (Plain ''unknown anchor change policy'')))"

definition committed_output_ok ::
    "('k, 's, 'z) btc_lib_scheme \<Rightarrow> u32 set \<Rightarrow> int \<Rightarrow> psbt_packet \<Rightarrow> psbt_packet \<Rightarrow> nat \<Rightarrow> tx_out \<Rightarrow> unit result" where
  "committed_output_ok B asset_outputs existing before after i left =
     (let right = wtx_outs (ppk_tx after) ! i;
          is_asset_output = of_nat i \<in> asset_outputs;
          is_existing_change = existing = int i in
      if is_existing_change \<and> is_asset_output then Inl (Plain ''asset output cannot be used as BTC change'')
      else if is_asset_output
      then if txo_value left \<noteq> txo_value right then Inl (Plain ''backend changed asset output value'')
           else if \<not> output_metadata_equal B (ppk_outputs before ! i) (ppk_outputs after ! i)
           then Inl (Plain ''backend changed asset output PSBT metadata'')
           else Inr ()
      else if txo_pk_script left \<noteq> txo_pk_script right then Inl (Plain ''backend changed BTC-only output script'')
      else if \<not> is_existing_change \<and> txo_value left \<noteq> txo_value right
      then Inl (Plain ''backend changed BTC-only output value'')
      else if ppk_outputs before ! i \<noteq> ppk_outputs after ! i
      then Inl (Plain ''backend changed BTC-only output PSBT metadata'')
      else Inr ())"

definition verify_committed_shape ::
    "('k, 's, 'z) btc_lib_scheme \<Rightarrow> custom_anchor_request \<Rightarrow> psbt_packet \<Rightarrow> psbt_packet \<Rightarrow> int \<Rightarrow> unit result" where
  "verify_committed_shape B r before after change_index =
     (if ppk_xpubs before \<noteq> ppk_xpubs after \<or> ppk_unknowns before \<noteq> ppk_unknowns after
      then Inl (Plain ''backend changed anchor global PSBT metadata'')
      else if wtx_version (ppk_tx before) \<noteq> wtx_version (ppk_tx after) \<or>
              wtx_lock_time (ppk_tx before) \<noteq> wtx_lock_time (ppk_tx after)
      then Inl (Plain ''backend changed anchor version or locktime'')
      else
        and_then (committed_inputs_ok before after) (\<lambda>_.
        and_then (committed_change_ok (rq_funding r) (length (wtx_ins (ppk_tx before))) (length (wtx_ins (ppk_tx after)))
                    (length (wtx_outs (ppk_tx before))) (length (wtx_outs (ppk_tx after))) change_index) (\<lambda>existing.
        and_then (fold_idx (\<lambda>i _. committed_output_ok B (set (map xo_anchor_output_index (rq_outputs r))) existing before after i)
                    0 () (wtx_outs (ppk_tx before))) (\<lambda>_.
          if fp_mode (rq_funding r) = FundingWalletFunded \<and>
             map_option (aco_mode \<circ> wf_change_output) (fp_wallet_funded (rq_funding r)) = Some AnchorChangeOutputAdd
          then fold_idx (\<lambda>i _ _. if change_index \<noteq> int i then Inl (Plain ''backend added non-change output'') else Inr ())
                 (length (wtx_outs (ppk_tx before))) () (drop (length (wtx_outs (ppk_tx before))) (wtx_outs (ppk_tx after)))
          else Inr ()))))"

definition added_input_indices :: "psbt_packet \<Rightarrow> psbt_packet \<Rightarrow> u32 list" where
  "added_input_indices before after =
     map of_nat [length (wtx_ins (ppk_tx before)) ..< length (wtx_ins (ppk_tx after))]"

text \<open>
  \<open>validateCustomAnchorLockInventory\<close>: the locked outpoints are those of the backend's inputs;
  the maps of the code are sets here.
\<close>

definition backend_outpoint :: "psbt_packet \<Rightarrow> outpoint set \<Rightarrow> u32 \<Rightarrow> outpoint set result" where
  "backend_outpoint anchor expected i =
     (if unat i \<ge> length (wtx_ins (ppk_tx anchor)) then Inl (Plain ''backend-managed input is out of range'')
      else Inr (insert (win_prev_out (wtx_ins (ppk_tx anchor) ! unat i)) expected))"

definition validate_lock_inventory ::
    "funding_mode \<Rightarrow> psbt_packet \<Rightarrow> u32 list \<Rightarrow> outpoint list \<Rightarrow> unit result" where
  "validate_lock_inventory mode anchor backend_managed locked =
     (if mode \<noteq> FundingWalletFunded
      then if locked \<noteq> [] then Inl (Plain ''skip-funding commit returned locked UTXOs'') else Inr ()
      else and_then (fold_res (backend_outpoint anchor) {} backend_managed) (\<lambda>expected.
           and_then (fold_res (\<lambda>actual op. if op \<in> actual then Inl (Plain ''locked UTXO is duplicated'')
                                          else Inr (insert op actual)) {} locked) (\<lambda>actual.
             if card expected \<noteq> card actual \<or> \<not> expected \<subseteq> actual
             then Inl (Plain ''locked UTXOs do not cover backend-funded inputs'')
             else Inr ())))"

section \<open>The asset root field\<close>

definition output_asset_root :: "('k, 's, 'z) btc_lib_scheme \<Rightarrow> bytes \<Rightarrow> int \<Rightarrow> bytes option result" where
  "output_asset_root B anchor_psbt output_index =
     and_then (wrap_with (\<lambda>e. Wrapf ''decoding anchor PSBT: '' e []) (bl_decode_psbt B anchor_psbt)) (\<lambda>packet.
       if output_index < 0 \<or> output_index \<ge> int (length (ppk_outputs packet))
       then Inl (Plain ''anchor output index out of range'')
       else let v = bl_extract_field B (pou_unknowns (ppk_outputs packet ! nat output_index)) (bl_asset_root_key B) in
            if v = [] then Inr None
            else if length v \<noteq> 32 then Inl (Plain ''Taproot Asset root has wrong length'')
            else Inr (Some v))"

definition set_output_asset_root :: "('k, 's, 'z) btc_lib_scheme \<Rightarrow> bytes \<Rightarrow> int \<Rightarrow> bytes \<Rightarrow> bytes result" where
  "set_output_asset_root B anchor_psbt output_index root =
     and_then (wrap_with (\<lambda>e. Wrapf ''decoding anchor PSBT: '' e []) (bl_decode_psbt B anchor_psbt)) (\<lambda>packet.
       if output_index < 0 \<or> output_index \<ge> int (length (ppk_outputs packet))
       then Inl (Plain ''anchor output index out of range'')
       else let i = nat output_index; out = ppk_outputs packet ! i in
            bl_serialize_psbt B (packet\<lparr>ppk_outputs := (ppk_outputs packet)
              [i := out\<lparr>pou_unknowns := bl_add_field B (pou_unknowns out) (bl_asset_root_key B) root\<rparr>]\<rparr>))"

section \<open>Finalisation\<close>

text \<open>\<open>compareUnsignedAnchorTransactions\<close>.\<close>

definition compare_tx_in :: "wire_tx_in list \<Rightarrow> nat \<Rightarrow> unit \<Rightarrow> wire_tx_in \<Rightarrow> unit result" where
  "compare_tx_in finals i u c =
     (let f = finals ! i in
      if win_prev_out c \<noteq> win_prev_out f then Inl (Plain ''anchor input previous outpoint changed'')
      else if win_sequence c \<noteq> win_sequence f then Inl (Plain ''anchor input sequence changed'')
      else if win_signature_script c \<noteq> win_signature_script f then Inl (Plain ''anchor input unsigned script changed'')
      else if length (win_witness f) \<noteq> length (win_witness c) \<or> \<not> list_all2 (=) (win_witness c) (win_witness f)
      then Inl (Plain ''anchor input unsigned witness changed'')
      else Inr ())"

definition compare_tx_out :: "tx_out list \<Rightarrow> nat \<Rightarrow> unit \<Rightarrow> tx_out \<Rightarrow> unit result" where
  "compare_tx_out finals i u c =
     (if txo_value c \<noteq> txo_value (finals ! i) then Inl (Plain ''anchor output value changed'')
      else if txo_pk_script c \<noteq> txo_pk_script (finals ! i) then Inl (Plain ''anchor output script changed'')
      else Inr ())"

definition compare_unsigned_transactions :: "wire_tx \<Rightarrow> wire_tx \<Rightarrow> unit result" where
  "compare_unsigned_transactions committed final =
     (if wtx_version committed \<noteq> wtx_version final then Inl (Plain ''anchor transaction version changed'')
      else if wtx_lock_time committed \<noteq> wtx_lock_time final then Inl (Plain ''anchor transaction locktime changed'')
      else if length (wtx_ins committed) \<noteq> length (wtx_ins final)
      then Inl (Plain ''anchor transaction input count changed'')
      else and_then (fold_idx (compare_tx_in (wtx_ins final)) 0 () (wtx_ins committed)) (\<lambda>_.
           if length (wtx_outs committed) \<noteq> length (wtx_outs final)
           then Inl (Plain ''anchor transaction output count changed'')
           else fold_idx (compare_tx_out (wtx_outs final)) 0 () (wtx_outs committed)))"

text \<open>
  \<open>sanitizeFinalAnchorPSBT\<close>: the committed packet with the final fields of the other. The result
  is the serialised and the in-memory packet.
\<close>

definition take_final_fields :: "psbt_input \<Rightarrow> psbt_input \<Rightarrow> psbt_input" where
  "take_final_fields c f = c\<lparr>pin_final_script_sig := pin_final_script_sig f,
     pin_final_script_witness := pin_final_script_witness f\<rparr>"

definition sanitize_final_psbt ::
    "('k, 's, 'z) btc_lib_scheme \<Rightarrow> bytes \<Rightarrow> bytes \<Rightarrow> (bytes \<times> psbt_packet) result" where
  "sanitize_final_psbt B committed_bytes final_bytes =
     and_then (wrap_with (\<lambda>e. Wrapf ''committed anchor PSBT: '' e []) (decode_anchor_psbt B committed_bytes)) (\<lambda>committed.
     and_then (wrap_with (\<lambda>e. Wrapf ''final anchor PSBT: '' e []) (decode_anchor_psbt B final_bytes)) (\<lambda>final.
     and_then (compare_unsigned_transactions (ppk_tx committed) (ppk_tx final)) (\<lambda>_.
       if length (ppk_inputs committed) \<noteq> length (ppk_inputs final)
       then Inl (Plain ''anchor PSBT input map count changed'')
       else let packet = committed\<lparr>ppk_inputs := map2 take_final_fields (ppk_inputs committed) (ppk_inputs final)\<rparr> in
            and_then (serialize_anchor_psbt B packet) (\<lambda>sanitized. Inr (sanitized, packet)))))"

definition input_finalized :: "psbt_input \<Rightarrow> bool" where
  "input_finalized i \<longleftrightarrow> pin_final_script_sig i \<noteq> [] \<or> pin_final_script_witness i \<noteq> []"

definition all_inputs_finalized :: "psbt_packet \<Rightarrow> bool" where
  "all_inputs_finalized packet \<longleftrightarrow> list_all input_finalized (ppk_inputs packet)"

text \<open>\<open>compareCommittedAnchorPSBTMetadata\<close>.\<close>

definition compare_committed_metadata :: "('k, 's, 'z) btc_lib_scheme \<Rightarrow> bytes \<Rightarrow> bytes \<Rightarrow> unit result" where
  "compare_committed_metadata B committed current =
     and_then (wrap_with (\<lambda>e. Wrapf ''decode current anchor PSBT: '' e []) (decode_anchor_psbt B current)) (\<lambda>current_packet.
       if \<exists>i \<in> set (ppk_inputs current_packet). input_finalized i
       then and_then (sanitize_final_psbt B committed current) (\<lambda>(expected, _).
            and_then (wrap_with (\<lambda>e. Wrapf ''canonical finalized anchor PSBT: '' e [])
                        (canonical_anchor_psbt B expected False)) (\<lambda>expected_canonical.
            and_then (wrap_with (\<lambda>e. Wrapf ''canonical current anchor PSBT: '' e [])
                        (canonical_anchor_psbt B current False)) (\<lambda>current_canonical.
              if expected_canonical \<noteq> current_canonical
              then Inl (Plain ''metadata changed outside finalization fields'') else Inr ())))
       else and_then (wrap_with (\<lambda>e. Wrapf ''canonical committed anchor PSBT: '' e [])
                        (canonical_anchor_psbt B committed True)) (\<lambda>committed_canonical.
            and_then (wrap_with (\<lambda>e. Wrapf ''canonical current anchor PSBT: '' e [])
                        (canonical_anchor_psbt B current True)) (\<lambda>current_canonical.
              if committed_canonical \<noteq> current_canonical
              then Inl (Plain ''metadata changed outside signature and finalization fields'') else Inr ())))"

text \<open>\<open>verifyFinalAnchorWitnesses\<close>: every input of the final transaction is executed.\<close>

definition verify_final_witnesses :: "('k, 's, 'z) btc_lib_scheme \<Rightarrow> psbt_packet \<Rightarrow> wire_tx \<Rightarrow> unit result" where
  "verify_final_witnesses B packet final_tx =
     and_then (wrap_with (\<lambda>e. Wrapf ''load final anchor previous outputs: '' e []) (anchor_prev_outs B packet)) (\<lambda>prev_outs.
     fold_idx (\<lambda>i _ _.
       if i \<ge> length prev_outs then Inl (Plain ''index out of range'')
       else wrap_with (\<lambda>e. Wrapf ''verify final anchor input witness: '' e [])
              (bl_execute B (txo_pk_script (snd (prev_outs ! i))) final_tx i prev_outs (txo_value (snd (prev_outs ! i)))))
       0 () (wtx_ins final_tx))"

end
