(* ===== verification/Tap_VirtualPackets.thy ===== *)
theory Tap_VirtualPackets
  imports Tap_AnchorPsbt
begin

text \<open>
  Virtual packets as the custom-anchor code reads and writes them: identities of assets, witness
  checks, what a backend signer or committer may change, and the comparison of transition proofs
  (\<open>custom_anchor_builder.go\<close>, \<open>custom_anchor_lifecycle.go\<close>).

  The packet types are those of \<open>tappsbt\<close> with the fields the code touches, \<open>tvi_other\<close>,
  \<open>tvo_other\<close> and \<open>tvp_other\<close> stand for what it only copies or compares through the encoding.
  Decoded packets have no nil input or output. What \<open>tappsbt\<close>, \<open>tapsend\<close>, \<open>vm\<close> and \<open>proof\<close> compute
  is a function of the record \<open>vpacket_lib\<close>; \<open>SplitRootOutput\<close> yields the index of the output.
\<close>

section \<open>Packets\<close>

record ('k, 'g, 'f) tap_vinput =
  tvi_asset :: "('k, 'g) native_asset option"
  tvi_prev_id :: prev_id
  tvi_proof :: "('k, 'g, 'f) native_proof option"
  tvi_bip32 :: "bytes list"
  tvi_tr_bip32 :: "bytes list"
  tvi_other :: bytes

datatype vout_type = VOutSimple | VOutSplitRoot | VOutOther byte

record ('k, 'g, 'f) tap_voutput =
  tvo_asset :: "('k, 'g) native_asset option"
  tvo_split_asset :: "('k, 'g) native_asset option"
  tvo_script_key :: "'k option"
  tvo_amount :: u64
  tvo_type :: vout_type
  tvo_interactive :: bool
  tvo_asset_version :: byte
  tvo_anchor_output_index :: u32
  tvo_anchor_internal_key :: "'k option"
  tvo_sibling :: "bytes option"
  tvo_courier :: "string option"
  tvo_alt_leaves :: "bytes list"
  tvo_proof_suffix :: "('k, 'g, 'f) native_proof option"
  tvo_other :: bytes

record ('k, 'g, 'f) tap_vpacket =
  tvp_version :: byte
  tvp_inputs :: "('k, 'g, 'f) tap_vinput list"
  tvp_outputs :: "('k, 'g, 'f) tap_voutput list"
  tvp_other :: bytes

text \<open>Commitments of \<open>commitment.TapCommitment\<close> are of the type \<open>'c\<close>.\<close>

record ('k, 'g, 'f, 'c) vpacket_lib =
  vl_decode :: "bytes \<Rightarrow> ('k, 'g, 'f) tap_vpacket result"
  vl_encode :: "('k, 'g, 'f) tap_vpacket \<Rightarrow> bytes result"
  vl_packet_v1 :: byte
  vl_has_split :: "('k, 'g, 'f) tap_vpacket \<Rightarrow> bool result"
  vl_split_root_output :: "('k, 'g, 'f) tap_vpacket \<Rightarrow> nat result"
  vl_packet_asset_id :: "('k, 'g, 'f) tap_vpacket \<Rightarrow> bytes result"
  vl_validate_witnesses :: "('k, 'g) native_asset \<Rightarrow> (('k, 'g) native_asset \<times> u32) list \<Rightarrow>
    (prev_id \<times> ('k, 'g) native_asset option) list \<Rightarrow> unit result"
  vl_validate_anchor_inputs :: "psbt_packet \<Rightarrow> ('k, 'g, 'f) tap_vpacket list \<Rightarrow> unit result"
  vl_validate_anchor_outputs :: "psbt_packet \<Rightarrow> ('k, 'g, 'f) tap_vpacket list \<Rightarrow> bool \<Rightarrow> unit result"
  vl_create_commitments :: "('k, 'g, 'f) tap_vpacket list \<Rightarrow> bool \<Rightarrow> (u32 \<Rightarrow> 'c option) result"
  vl_anchor_output_script :: "'k \<Rightarrow> bytes option \<Rightarrow> 'c \<Rightarrow> (bytes \<times> bytes \<times> bytes) result"
  vl_create_proof_suffix :: "wire_tx \<Rightarrow> psbt_output list \<Rightarrow> ('k, 'g, 'f) tap_vpacket \<Rightarrow> (u32 \<Rightarrow> 'c option) \<Rightarrow> nat \<Rightarrow>
    ('k, 'g, 'f) tap_vpacket list \<Rightarrow> u32 \<Rightarrow> ('k, 'g, 'f) native_proof result"
  vl_is_unknown_version :: "('k, 'g, 'f) native_proof \<Rightarrow> bool"
  vl_is_burn :: "('k, 'g) native_asset \<Rightarrow> bool"
  vl_to_pub_key :: "bytes \<Rightarrow> 'k result"
  vl_to_serialized :: "'k \<Rightarrow> bytes"
  vl_leaf_key :: "bytes \<Rightarrow> bytes"
  vl_leaf_equal :: "bytes \<Rightarrow> bytes \<Rightarrow> bool"
  vl_asset_equal :: "('k, 'g) native_asset \<Rightarrow> ('k, 'g) native_asset \<Rightarrow> bool"
  vl_proof_equal :: "('k, 'g, 'f) native_proof \<Rightarrow> ('k, 'g, 'f) native_proof \<Rightarrow> bool"

fun decode_virtual_packets ::
    "('k, 'g, 'f, 'c, 'z) vpacket_lib_scheme \<Rightarrow> string \<Rightarrow> bytes list \<Rightarrow> ('k, 'g, 'f) tap_vpacket list result" where
  "decode_virtual_packets V label [] = Inr []"
| "decode_virtual_packets V label (e # encoded) =
     and_then (wrap_with (\<lambda>err. Wrapf (''decode '' @ label @ '' virtual packet: '') err []) (vl_decode V e)) (\<lambda>packet.
     and_then (decode_virtual_packets V label encoded) (\<lambda>packets. Inr (packet # packets)))"

fun encode_virtual_packets ::
    "('k, 'g, 'f, 'c, 'z) vpacket_lib_scheme \<Rightarrow> ('k, 'g, 'f) tap_vpacket list \<Rightarrow> bytes list result" where
  "encode_virtual_packets V [] = Inr []"
| "encode_virtual_packets V (p # packets) =
     and_then (wrap_with (\<lambda>err. Wrapf ''encode virtual packet: '' err []) (vl_encode V p)) (\<lambda>e.
     and_then (encode_virtual_packets V packets) (\<lambda>encoded. Inr (e # encoded)))"

section \<open>Identities\<close>

text \<open>\<open>assetIdentity\<close>: reference, issuance ID and type.\<close>

definition asset_identity ::
    "('k, 'g, 'f, 'z) native_lib_scheme \<Rightarrow> ('k, 'g) native_asset option \<Rightarrow> (string \<times> bytes \<times> byte) result" where
  "asset_identity N a =
     (case a of
        None \<Rightarrow> Inl (Plain ''nil asset'')
      | Some x \<Rightarrow>
          and_then
            (case na_group_key x of
               None \<Rightarrow> Inr None
             | Some g \<Rightarrow> and_then (parse_pub_key (lib.truncate N) (serialize_compressed N (nl_group_pub_key N g)))
                           (\<lambda>k. Inr (Some k))) (\<lambda>group_key.
          and_then (asset_ref_from_typed_asset (lib.truncate N) (nl_asset_id N x) group_key (na_type x)) (\<lambda>ref.
            Inr (ref, nl_asset_id N x, na_type x))))"

definition ref_matches_issuance :: "'k lib \<Rightarrow> string \<Rightarrow> string \<Rightarrow> bytes \<Rightarrow> bool" where
  "ref_matches_issuance L requested semantic issuance_id \<longleftrightarrow>
     asset_ref_equivalent L requested semantic \<or> ref_asset_id L requested = Some issuance_id"

text \<open>\<open>ParsePubKey\<close> of a key that a proof or an asset holds; a missing key panics.\<close>

definition serialized_script_key :: "('k, 'g, 'f, 'z) native_lib_scheme \<Rightarrow> 'k option \<Rightarrow> bytes result" where
  "serialized_script_key N key =
     (case key of
        None \<Rightarrow> Inl (Plain ''nil pointer dereference'')
      | Some k \<Rightarrow> parse_pub_key (lib.truncate N) (serialize_compressed N k))"

definition keys_equal :: "('k, 'g, 'f, 'z) native_lib_scheme \<Rightarrow> 'k option \<Rightarrow> 'k option \<Rightarrow> bool" where
  "keys_equal N a b \<longleftrightarrow> (case (a, b) of (Some x, Some y) \<Rightarrow> nl_key_is_equal N x y | _ \<Rightarrow> False)"

section \<open>Asset witnesses\<close>

text \<open>
  The asset whose witnesses authorise a packet: the split root's, or the first output's. The
  error of the shape check is a parameter, as it is in the two functions that make it.
\<close>

definition root_output ::
    "('k, 'g, 'f, 'c, 'z) vpacket_lib_scheme \<Rightarrow> ('k, 'g, 'f) tap_vpacket \<Rightarrow> (bool \<times> nat) result" where
  "root_output V packet =
     and_then (vl_has_split V packet) (\<lambda>is_split.
       if tvp_outputs packet = [] then Inl (Plain ''index out of range'')
       else if is_split then and_then (vl_split_root_output V packet) (\<lambda>i. Inr (True, i)) else Inr (False, 0))"

definition authorised_asset :: "string \<Rightarrow> ('k, 'g, 'f) tap_vpacket \<Rightarrow> nat \<Rightarrow> ('k, 'g) native_asset result" where
  "authorised_asset shape packet i =
     (case tvo_asset (tvp_outputs packet ! i) of
        None \<Rightarrow> Inl (Plain shape)
      | Some a \<Rightarrow> (if length (na_prev_witnesses a) \<noteq> length (tvp_inputs packet) then Inl (Plain shape) else Inr a))"

definition input_set :: "('k, 'g, 'f) tap_vpacket \<Rightarrow> (prev_id \<times> ('k, 'g) native_asset option) list" where
  "input_set packet = map (\<lambda>i. (tvi_prev_id i, tvi_asset i)) (tvp_inputs packet)"

definition split_asset_of :: "('k, 'g, 'f) tap_voutput \<Rightarrow> ('k, 'g) native_asset option" where
  "split_asset_of out = (if tvo_type out = VOutSplitRoot then tvo_split_asset out else tvo_asset out)"

definition split_assets ::
    "('k, 'g, 'f) tap_voutput list \<Rightarrow> (('k, 'g) native_asset \<times> u32) list result" where
  "split_assets outs =
     fold_res (\<lambda>acc out. case split_asset_of out of
         None \<Rightarrow> Inl (Plain ''virtual split output is incomplete'')
       | Some a \<Rightarrow> Inr (acc @ [(a, tvo_anchor_output_index out)])) [] outs"

definition validate_packet_witnesses ::
    "('k, 'g, 'f, 'c, 'z) vpacket_lib_scheme \<Rightarrow> ('k, 'g, 'f) tap_vpacket \<Rightarrow> unit result" where
  "validate_packet_witnesses V packet =
     (if tvp_inputs packet = [] \<or> tvp_outputs packet = [] then Inl (Plain ''virtual packet is incomplete'')
      else
        and_then (root_output V packet) (\<lambda>(is_split, i).
        and_then (authorised_asset ''virtual packet witness shape is invalid'' packet i) (\<lambda>new_asset.
          if \<exists>vin \<in> set (tvp_inputs packet). tvi_asset vin = None
          then Inl (Plain ''virtual packet input has no asset'')
          else and_then (if is_split then split_assets (tvp_outputs packet) else Inr []) (\<lambda>splits.
                 wrap_with (\<lambda>e. Wrapf ''validate virtual packet witnesses: '' e [])
                   (vl_validate_witnesses V new_asset splits (input_set packet))))))"

definition set_prev_witnesses :: "('k, 'g) native_witness list \<Rightarrow> ('k, 'g) native_asset \<Rightarrow> ('k, 'g) native_asset" where
  "set_prev_witnesses ws a =
     (case a of Native_asset v t g am lt rlt sk gk _ \<Rightarrow> Native_asset v t g am lt rlt sk gk ws)"

definition set_tx_witness :: "bytes list \<Rightarrow> ('k, 'g) native_witness \<Rightarrow> ('k, 'g) native_witness" where
  "set_tx_witness tx w = (case w of Native_witness p _ r \<Rightarrow> Native_witness p tx r)"

text \<open>
  \<open>applyCallerAssetWitnesses\<close> on values: the root asset gets the caller's witnesses, and every split
  asset the new root. The in-place updates of the code are one updated packet here.
\<close>

definition caller_witnesses ::
    "(prev_id \<Rightarrow> bytes list option) \<Rightarrow> ('k, 'g, 'f) tap_vinput list \<Rightarrow> ('k, 'g) native_witness list \<Rightarrow>
     ('k, 'g) native_witness list result" where
  "caller_witnesses witnesses vins ws =
     fold_res (\<lambda>acc (vin, w). case witnesses (tvi_prev_id vin) of
         Some (x # xs) \<Rightarrow> Inr (acc @ [set_tx_witness (x # xs) w])
       | _ \<Rightarrow> Inl (Plain ''caller witness for virtual input is missing'')) [] (zip vins ws)"

definition set_split_root :: "('k, 'g) native_asset \<Rightarrow> ('k, 'g) native_asset option \<Rightarrow> ('k, 'g) native_asset result" where
  "set_split_root root a =
     (case a of
        Some x \<Rightarrow>
          (case na_prev_witnesses x of
             [Native_witness p tx (Some _)] \<Rightarrow> Inr (set_prev_witnesses [Native_witness p tx (Some root)] x)
           | _ \<Rightarrow> Inl (Plain ''virtual split output is incomplete''))
      | None \<Rightarrow> Inl (Plain ''virtual split output is incomplete''))"

definition set_split_roots ::
    "('k, 'g) native_asset \<Rightarrow> ('k, 'g, 'f) tap_voutput list \<Rightarrow> ('k, 'g, 'f) tap_voutput list result" where
  "set_split_roots root outs =
     fold_res (\<lambda>acc out.
       and_then (set_split_root root (split_asset_of out)) (\<lambda>a.
         Inr (acc @ [if tvo_type out = VOutSplitRoot then out\<lparr>tvo_split_asset := Some a\<rparr> else out\<lparr>tvo_asset := Some a\<rparr>])))
       [] outs"

definition apply_caller_witnesses ::
    "('k, 'g, 'f, 'c, 'z) vpacket_lib_scheme \<Rightarrow> ('k, 'g, 'f) tap_vpacket \<Rightarrow> (prev_id \<Rightarrow> bytes list option) \<Rightarrow>
     ('k, 'g, 'f) tap_vpacket result" where
  "apply_caller_witnesses V packet witnesses =
     and_then (root_output V packet) (\<lambda>(is_split, i).
     and_then (authorised_asset ''prepared virtual packet witness shape is invalid'' packet i) (\<lambda>a.
     and_then (caller_witnesses witnesses (tvp_inputs packet) (na_prev_witnesses a)) (\<lambda>ws.
       let new_asset = set_prev_witnesses ws a;
           outs = (tvp_outputs packet)[i := (tvp_outputs packet ! i)\<lparr>tvo_asset := Some new_asset\<rparr>] in
       and_then (if is_split then set_split_roots new_asset outs else Inr outs) (\<lambda>outs1.
       and_then (if is_split then split_assets outs1 else Inr []) (\<lambda>splits.
       and_then (wrap_with (\<lambda>e. Wrapf ''validate caller asset witnesses: '' e [])
                   (vl_validate_witnesses V new_asset splits (input_set packet))) (\<lambda>_.
         Inr (packet\<lparr>tvp_outputs := outs1\<rparr>)))))))"

section \<open>What a backend signer may change\<close>

text \<open>
  \<open>clearCustomAssetTxWitnesses\<close>: the witnesses of the asset and of the split roots below it, three
  levels in all; the first argument counts the levels left.
\<close>

primrec clear_tx_witnesses :: "nat \<Rightarrow> ('k, 'g) native_asset \<Rightarrow> ('k, 'g) native_asset" where
  "clear_tx_witnesses 0 a = a"
| "clear_tx_witnesses (Suc n) a =
     set_prev_witnesses
       (map (\<lambda>w. case w of Native_witness p tx r \<Rightarrow> Native_witness p [] (map_option (clear_tx_witnesses n) r))
            (na_prev_witnesses a)) a"

definition normalize_signing_fields :: "('k, 'g, 'f) tap_vpacket \<Rightarrow> ('k, 'g, 'f) tap_vpacket" where
  "normalize_signing_fields packet =
     packet\<lparr>tvp_inputs := map (\<lambda>i. i\<lparr>tvi_bip32 := [], tvi_tr_bip32 := []\<rparr>) (tvp_inputs packet),
            tvp_outputs := map (\<lambda>out. out\<lparr>tvo_asset := map_option (clear_tx_witnesses 3) (tvo_asset out),
                                          tvo_split_asset := map_option (clear_tx_witnesses 3) (tvo_split_asset out)\<rparr>)
                               (tvp_outputs packet)\<rparr>"

definition verify_backend_signed ::
    "('k, 'g, 'f, 'c, 'z) vpacket_lib_scheme \<Rightarrow> bytes \<Rightarrow> bytes \<Rightarrow> unit result" where
  "verify_backend_signed V unsigned_bytes signed_bytes =
     and_then (wrap_with (\<lambda>e. Wrapf ''decode unsigned packet: '' e []) (vl_decode V unsigned_bytes)) (\<lambda>unsigned_packet.
     and_then (wrap_with (\<lambda>e. Wrapf ''decode signed packet: '' e []) (vl_decode V signed_bytes)) (\<lambda>signed_packet.
     and_then (validate_packet_witnesses V signed_packet) (\<lambda>_.
     and_then (vl_encode V (normalize_signing_fields unsigned_packet)) (\<lambda>unsigned_canonical.
     and_then (vl_encode V (normalize_signing_fields signed_packet)) (\<lambda>signed_canonical.
       if unsigned_canonical \<noteq> signed_canonical
       then Inl (Plain ''backend signer changed non-signing packet fields'') else Inr ())))))"

section \<open>Transition proofs\<close>

text \<open>\<open>rightByKey\<close> keeps the last leaf of a key.\<close>

definition alt_leaves_equal :: "('k, 'g, 'f, 'c, 'z) vpacket_lib_scheme \<Rightarrow> bytes list \<Rightarrow> bytes list \<Rightarrow> bool" where
  "alt_leaves_equal V left right \<longleftrightarrow>
     length left = length right \<and>
     list_all (\<lambda>leaf. case find (\<lambda>r. vl_leaf_key V r = vl_leaf_key V leaf) (rev right) of
                 Some other \<Rightarrow> vl_leaf_equal V leaf other | None \<Rightarrow> False) left"

definition transition_proofs_equal ::
    "('k, 'g, 'f, 'y) native_lib_scheme \<Rightarrow> ('k, 'g, 'f, 'c, 'z) vpacket_lib_scheme \<Rightarrow>
     ('k, 'g, 'f) native_proof option \<Rightarrow> ('k, 'g, 'f) native_proof option \<Rightarrow> bool result" where
  "transition_proofs_equal N V left right =
     (case (left, right) of
        (Some l, Some r) \<Rightarrow>
          and_then (nl_proof_bytes N l) (\<lambda>left_bytes.
          and_then (nl_proof_bytes N r) (\<lambda>right_bytes.
          and_then (nl_decode_proof N left_bytes) (\<lambda>ln.
          and_then (nl_decode_proof N right_bytes) (\<lambda>rn.
            if \<not> alt_leaves_equal V (np_alt_leaves ln) (np_alt_leaves rn) then Inr False
            else Inr (vl_proof_equal V (ln\<lparr>np_alt_leaves := []\<rparr>) (rn\<lparr>np_alt_leaves := []\<rparr>))))))
      | _ \<Rightarrow> Inr (left = None \<and> right = None))"

text \<open>\<open>verifyCommittedVirtualPackets\<close> on one packet and on the list.\<close>

definition without_proof_suffixes :: "('k, 'g, 'f) tap_vpacket \<Rightarrow> ('k, 'g, 'f) tap_vpacket" where
  "without_proof_suffixes packet =
     packet\<lparr>tvp_inputs := map (\<lambda>i. i\<lparr>tvi_proof := None\<rparr>) (tvp_inputs packet),
            tvp_outputs := map (\<lambda>out. out\<lparr>tvo_proof_suffix := None, tvo_alt_leaves := []\<rparr>) (tvp_outputs packet)\<rparr>"

definition committed_voutput_ok ::
    "('k, 'g, 'f, 'c, 'z) vpacket_lib_scheme \<Rightarrow> ('k, 'g, 'f) tap_voutput list \<Rightarrow> nat \<Rightarrow> unit \<Rightarrow>
     ('k, 'g, 'f) tap_voutput \<Rightarrow> unit result" where
  "committed_voutput_ok V expected i u out =
     (if tvo_proof_suffix out = None then Inl (Plain ''committed virtual packet output has no proof suffix'')
      else if i \<ge> length expected then Inr ()
      else if \<not> alt_leaves_equal V (tvo_alt_leaves (expected ! i)) (tvo_alt_leaves out)
      then Inl (Plain ''committed virtual packet output alternate leaves changed'') else Inr ())"

definition committed_vinput_ok ::
    "('k, 'g, 'f, 'y) native_lib_scheme \<Rightarrow> ('k, 'g, 'f, 'c, 'z) vpacket_lib_scheme \<Rightarrow> unit \<Rightarrow>
     ('k, 'g, 'f) tap_vinput \<times> ('k, 'g, 'f) tap_vinput \<Rightarrow> unit result" where
  "committed_vinput_ok N V u ins =
     and_then (wrap_with (\<lambda>e. Wrapf ''compare virtual packet input proof: '' e [])
                 (transition_proofs_equal N V (tvi_proof (fst ins)) (tvi_proof (snd ins)))) (\<lambda>same.
       if \<not> same then Inl (Plain ''committed virtual packet input proof changed'') else Inr ())"

definition committed_vpacket_ok ::
    "('k, 'g, 'f, 'y) native_lib_scheme \<Rightarrow> ('k, 'g, 'f, 'c, 'z) vpacket_lib_scheme \<Rightarrow> unit \<Rightarrow>
     ('k, 'g, 'f) tap_vpacket \<times> ('k, 'g, 'f) tap_vpacket \<Rightarrow> unit result" where
  "committed_vpacket_ok N V u packets =
     (case packets of (expected, committed) \<Rightarrow>
        and_then (fold_idx (committed_voutput_ok V (tvp_outputs expected)) 0 () (tvp_outputs committed)) (\<lambda>_.
          if length (tvp_inputs expected) \<noteq> length (tvp_inputs committed)
          then Inl (Plain ''committed virtual packet input count changed'')
          else
            and_then (fold_res (committed_vinput_ok N V) () (zip (tvp_inputs expected) (tvp_inputs committed))) (\<lambda>_.
            and_then (wrap_with (\<lambda>e. Wrapf ''encode submitted virtual packet: '' e [])
                        (vl_encode V (without_proof_suffixes expected))) (\<lambda>expected_bytes.
            and_then (wrap_with (\<lambda>e. Wrapf ''encode committed virtual packet: '' e [])
                        (vl_encode V (without_proof_suffixes committed))) (\<lambda>committed_bytes.
              if expected_bytes \<noteq> committed_bytes
              then Inl (Plain ''committed virtual packet changed fields other than deterministic alternate leaves and proof suffixes'')
              else Inr ())))))"

definition verify_committed_vpackets ::
    "('k, 'g, 'f, 'y) native_lib_scheme \<Rightarrow> ('k, 'g, 'f, 'c, 'z) vpacket_lib_scheme \<Rightarrow>
     ('k, 'g, 'f) tap_vpacket list \<Rightarrow> ('k, 'g, 'f) tap_vpacket list \<Rightarrow> unit result" where
  "verify_committed_vpackets N V expected committed =
     (if length expected \<noteq> length committed then Inl (Plain ''committed virtual packet count changed'')
      else fold_res (committed_vpacket_ok N V) () (zip expected committed))"

text \<open>\<open>verifyCommittedProofSuffixes\<close>.\<close>

definition proof_suffix_ok ::
    "('k, 'g, 'f, 'y) native_lib_scheme \<Rightarrow> ('k, 'g, 'f, 'c, 'z) vpacket_lib_scheme \<Rightarrow> psbt_packet \<Rightarrow>
     (u32 \<Rightarrow> 'c option) \<Rightarrow> ('k, 'g, 'f) tap_vpacket list \<Rightarrow> ('k, 'g, 'f) tap_vpacket \<Rightarrow>
     ('k, 'g, 'f) tap_vpacket \<Rightarrow> nat \<Rightarrow> unit \<Rightarrow> ('k, 'g, 'f) tap_voutput \<Rightarrow> unit result" where
  "proof_suffix_ok N V anchor commitments all_expected expected committed i u out =
     and_then (wrap_with (\<lambda>e. Wrapf ''recompute committed proof suffix: '' e [])
                 (vl_create_proof_suffix V (ppk_tx anchor) (ppk_outputs anchor) expected commitments i all_expected
                    (nl_transition_v1 N))) (\<lambda>suffix.
       if i \<ge> length (tvp_outputs committed) then Inl (Plain ''index out of range'')
       else
         and_then (transition_proofs_equal N V (Some suffix) (tvo_proof_suffix (tvp_outputs committed ! i))) (\<lambda>same.
           if \<not> same then Inl (Plain ''committed virtual packet output proof suffix mismatch'') else Inr ()))"

definition verify_committed_suffixes ::
    "('k, 'g, 'f, 'y) native_lib_scheme \<Rightarrow> ('k, 'g, 'f, 'c, 'z) vpacket_lib_scheme \<Rightarrow> psbt_packet \<Rightarrow>
     ('k, 'g, 'f) tap_vpacket list \<Rightarrow> ('k, 'g, 'f) tap_vpacket list \<Rightarrow> (u32 \<Rightarrow> 'c option) \<Rightarrow> unit result" where
  "verify_committed_suffixes N V anchor expected committed commitments =
     fold_idx (\<lambda>k _ p.
       fold_idx (\<lambda>i u out.
         if k \<ge> length committed then Inl (Plain ''index out of range'')
         else proof_suffix_ok N V anchor commitments expected p (committed ! k) i u out) 0 () (tvp_outputs p))
       0 () expected"

end
