(* ===== verification/Tap_AnchorSigning.thy ===== *)
theory Tap_AnchorSigning
  imports Tap_AnchorPsbt
begin

text \<open>
  Signing plans of a committed anchor PSBT, the requests derived from them, and the checks on the
  signatures and witnesses that answer them (\<open>custom_anchor_signing.go\<close>).

  Keys, hashes and signatures are bytes; a plan variant is present or not, so a plan with several
  variants or none can be written and is refused as in the code. The deep copies of plans are
  the identity.
\<close>

section \<open>Plans\<close>

definition signature_size :: nat where "signature_size = 64"
definition pub_key_bytes_len :: nat where "pub_key_bytes_len = 32"
definition sighash_default :: u32 where "sighash_default = 0"
definition taproot_annex_tag :: byte where "taproot_annex_tag = 0x50"
definition op_codeseparator :: byte where "op_codeseparator = 0xab"

definition validate_x_only_key :: "'k lib \<Rightarrow> string \<Rightarrow> bytes \<Rightarrow> unit result" where
  "validate_x_only_key L label key =
     and_then (wrap_with (\<lambda>e. Wrapf (''invalid '' @ label @ '': '') e []) (schnorr_parse_pub_key L key)) (\<lambda>_. Inr ())"

definition validate_x_only_keys :: "'k lib \<Rightarrow> string \<Rightarrow> bytes list \<Rightarrow> unit result" where
  "validate_x_only_keys L label keys =
     and_then (fold_res (\<lambda>seen key.
         and_then (wrap_with (\<lambda>e. Wrapf (label @ '': '') e []) (validate_x_only_key L label key)) (\<lambda>_.
           if key \<in> seen then Inl (Plain (''duplicate '' @ label)) else Inr (insert key seen))) {} keys)
       (\<lambda>_. Inr ())"

definition validate_pub_keys :: "'k lib \<Rightarrow> string \<Rightarrow> bytes list \<Rightarrow> unit result" where
  "validate_pub_keys L label keys =
     and_then (fold_res (\<lambda>seen key.
         and_then (wrap_with (\<lambda>e. Wrapf (label @ '': invalid: '') e []) (btcec_parse_pub_key L key)) (\<lambda>_.
           if key \<in> seen then Inl (Plain (''duplicate '' @ label)) else Inr (insert key seen))) {} keys)
       (\<lambda>_. Inr ())"

definition plan_variants :: "signing_plan \<Rightarrow> nat" where
  "plan_variants p = length (filter (\<lambda>b. b)
     [gp_key_path p \<noteq> None, gp_musig2 p \<noteq> None, gp_script_path p \<noteq> None, gp_caller_signed p \<noteq> None])"

definition zero_hash :: bytes where "zero_hash = replicate 32 0"

text \<open>The body of the loop over plans, after the range and duplicate checks.\<close>

definition validate_plan_variants :: "'k lib \<Rightarrow> signing_plan \<Rightarrow> unit result" where
  "validate_plan_variants L p =
     and_then
       (case gp_key_path p of None \<Rightarrow> Inr ()
        | Some signer \<Rightarrow> wrap_with (\<lambda>e. Wrapf ''signing plan: '' e []) (validate_x_only_key L ''key-path signer'' signer)) (\<lambda>_.
     and_then
       (case gp_musig2 p of None \<Rightarrow> Inr ()
        | Some m \<Rightarrow>
            (if length (mp_participants m) < 2
             then Inl (Plain ''signing plan MuSig2 requires at least two participants'')
             else if mp_session_context m = [] then Inl (Plain ''signing plan MuSig2 session context is required'')
             else wrap_with (\<lambda>e. Wrapf ''signing plan: '' e [])
                    (validate_pub_keys L ''MuSig2 participant'' (mp_participants m)))) (\<lambda>_.
     and_then
       (case gp_script_path p of None \<Rightarrow> Inr ()
        | Some s \<Rightarrow>
            (if sp_leaf_hash s = zero_hash then Inl (Plain ''signing plan script-path leaf hash is required'')
             else wrap_with (\<lambda>e. Wrapf ''signing plan: '' e [])
                    (validate_x_only_keys L ''script-path signer'' (sp_required_signers s)))) (\<lambda>_.
       if plan_variants p \<noteq> 1 then Inl (Plain ''signing plan must set exactly one spending path'') else Inr ())))"

definition check_plan :: "'k lib \<Rightarrow> u32 \<Rightarrow> u32 set \<Rightarrow> signing_plan \<Rightarrow> u32 set result" where
  "check_plan L input_count seen p =
     (if gp_input_index p \<ge> input_count then Inl (Plain ''signing plan input index is out of range'')
      else if gp_input_index p \<in> seen then Inl (Plain ''duplicate signing plan for input'')
      else and_then (validate_plan_variants L p) (\<lambda>_. Inr (insert (gp_input_index p) seen)))"

definition check_backend_managed :: "u32 \<Rightarrow> u32 set \<Rightarrow> u32 \<Rightarrow> u32 set result" where
  "check_backend_managed input_count seen i =
     (if i \<ge> input_count then Inl (Plain ''backend-managed input index is out of range'')
      else if i \<in> seen then Inl (Plain ''anchor input is classified more than once'')
      else Inr (insert i seen))"

definition validate_signing_plans :: "'k lib \<Rightarrow> signing_plan list \<Rightarrow> u32 list \<Rightarrow> u32 \<Rightarrow> unit result" where
  "validate_signing_plans L plans backend_managed input_count =
     (if of_nat (length plans + length backend_managed) \<noteq> input_count
      then Inl (Plain ''signing plans and backend-managed inputs must cover all anchor inputs'')
      else
        and_then (fold_res (check_plan L input_count) {} plans) (\<lambda>seen.
        and_then (fold_res (check_backend_managed input_count) seen backend_managed) (\<lambda>seen1.
          if \<exists>i \<in> set [0 ..< unat input_count]. of_nat i \<notin> seen1
          then Inl (Plain ''anchor input is not classified'') else Inr ())))"

section \<open>Requests\<close>

datatype signing_mode = SigningKeyPath | SigningMuSig2 | SigningScriptPath

definition mode_byte :: "signing_mode \<Rightarrow> byte" where
  "mode_byte m = (case m of SigningKeyPath \<Rightarrow> 1 | SigningMuSig2 \<Rightarrow> 2 | SigningScriptPath \<Rightarrow> 3)"

record signing_context =
  sx_input_index :: u32
  sx_prev_out :: outpoint
  sx_prev_out_value :: int
  sx_prev_out_script :: bytes
  sx_sighash_type :: u32
  sx_sighash :: bytes
  sx_internal_key :: bytes
  sx_merkle_root :: bytes

text \<open>The three request types share the context, the ID and the package digest.\<close>

record key_path_request = signing_context +
  kr_id :: bytes
  kr_package_digest :: bytes
  kr_signer :: bytes

record musig2_request = signing_context +
  mr_id :: bytes
  mr_package_digest :: bytes
  mr_participants :: "bytes list"
  mr_session_context :: bytes

record script_path_request = signing_context +
  sr_id :: bytes
  sr_package_digest :: bytes
  sr_leaf_hash :: bytes
  sr_leaf_version :: byte
  sr_leaf_script :: bytes
  sr_control_block :: bytes
  sr_required_signers :: "bytes list"

record signing_requests =
  rs_key_path :: "key_path_request list"
  rs_musig2 :: "musig2_request list"
  rs_script_path :: "script_path_request list"

definition signing_request_domain :: bytes where
  "signing_request_domain = map (\<lambda>c. of_nat (of_char c)) ''tap-sdk/custom-anchor/signing-request/v1''"

definition signing_request_id :: "('k, 's, 'z) btc_lib_scheme \<Rightarrow> bytes \<Rightarrow> signing_mode \<Rightarrow> u32 \<Rightarrow> bytes" where
  "signing_request_id B package_digest mode input_index =
     anchor_digest B signing_request_domain (package_digest @ [mode_byte mode] @ be_bytes 4 (unat input_index))"

text \<open>\<open>copy\<close> into a 32-byte array.\<close>

definition into_hash :: "bytes \<Rightarrow> bytes" where
  "into_hash bs = take 32 bs @ replicate (32 - length bs) 0"

definition new_signing_context ::
    "psbt_packet \<Rightarrow> u32 \<Rightarrow> tx_out \<Rightarrow> u32 \<Rightarrow> bytes \<Rightarrow> bytes \<Rightarrow> bytes \<Rightarrow> signing_context" where
  "new_signing_context packet input_index prev_out sighash_type sighash internal_key merkle_root =
     \<lparr>sx_input_index = input_index,
      sx_prev_out = win_prev_out (wtx_ins (ppk_tx packet) ! unat input_index),
      sx_prev_out_value = txo_value prev_out, sx_prev_out_script = txo_pk_script prev_out,
      sx_sighash_type = sighash_type, sx_sighash = into_hash sighash,
      sx_internal_key = into_hash internal_key, sx_merkle_root = merkle_root\<rparr>"

definition key_path_context ::
    "'k lib \<Rightarrow> ('k, 's, 'z) btc_lib_scheme \<Rightarrow> psbt_packet \<Rightarrow> (outpoint \<times> tx_out) list \<Rightarrow> u32 \<Rightarrow> signing_context result" where
  "key_path_context L B packet prev_outs input_index =
     (let i = ppk_inputs packet ! unat input_index in
      case map_of prev_outs (win_prev_out (wtx_ins (ppk_tx packet) ! unat input_index)) of
        None \<Rightarrow> Inl (Plain ''input previous output is missing'')
      | Some prev_out \<Rightarrow>
          (if \<not> bl_is_p2tr B (txo_pk_script prev_out) then Inl (Plain ''input is not pay-to-taproot'')
           else if length (pin_internal_key i) \<noteq> pub_key_bytes_len
           then Inl (Plain ''input taproot internal key is required'')
           else if pin_merkle_root i \<noteq> [] \<and> length (pin_merkle_root i) \<noteq> 32
           then Inl (Plain ''input taproot merkle root must be 32 bytes'')
           else
             and_then (wrap_with (\<lambda>e. Wrapf ''input invalid taproot internal key: '' e [])
                         (schnorr_parse_pub_key L (pin_internal_key i))) (\<lambda>internal_key.
             and_then (wrap_with (\<lambda>e. Wrapf ''input taproot witness program: '' e [])
                         (bl_witness_program B (txo_pk_script prev_out))) (\<lambda>witness_program.
               if schnorr_serialize_pub_key L (compute_taproot_output_key L internal_key (pin_merkle_root i)) \<noteq> witness_program
               then Inl (Plain ''input internal key and merkle root do not match the previous output'')
               else
                 and_then (wrap_with (\<lambda>e. Wrapf ''input key-path sighash: '' e [])
                             (bl_key_sighash B (ppk_tx packet) prev_outs (pin_sighash_type i) (unat input_index))) (\<lambda>sighash.
                   Inr (new_signing_context packet input_index prev_out (pin_sighash_type i) sighash
                          (pin_internal_key i) (pin_merkle_root i)))))))"

text \<open>The tokenizer yields the opcodes it reaches and its error at the end.\<close>

definition validate_tapscript :: "('k, 's, 'z) btc_lib_scheme \<Rightarrow> bytes \<Rightarrow> unit result" where
  "validate_tapscript B script =
     (case bl_opcodes B script of (opcodes, ended) \<Rightarrow>
        if op_codeseparator \<in> set opcodes then Inl (Plain ''script-path OP_CODESEPARATOR is unsupported'')
        else wrap_with (\<lambda>e. Wrapf ''invalid script-path tapscript: '' e []) ended)"

definition script_path_request_of ::
    "'k lib \<Rightarrow> ('k, 's, 'z) btc_lib_scheme \<Rightarrow> bytes \<Rightarrow> psbt_packet \<Rightarrow> (outpoint \<times> tx_out) list \<Rightarrow> u32 \<Rightarrow>
     script_path_plan \<Rightarrow> script_path_request result" where
  "script_path_request_of L B package_digest packet prev_outs input_index plan =
     (let i = ppk_inputs packet ! unat input_index; prev_out = snd (prev_outs ! unat input_index) in
      case filter (\<lambda>leaf. sc_tap_leaf_hash B (tl_leaf_version leaf) (tl_script leaf) = sp_leaf_hash plan) (pin_leaf_scripts i) of
        [leaf] \<Rightarrow>
          and_then (wrap_with (\<lambda>e. Wrapf ''input: '' e []) (validate_tapscript B (tl_script leaf))) (\<lambda>_.
          and_then (wrap_with (\<lambda>e. Wrapf ''input script-path control block: '' e [])
                      (sc_parse_control_block B (tl_control_block leaf))) (\<lambda>cb.
            if cb_leaf_version cb \<noteq> tl_leaf_version leaf then Inl (Plain ''input control block leaf version mismatch'')
            else
              and_then (wrap_with (\<lambda>e. Wrapf ''input taproot witness program: '' e [])
                          (bl_witness_program B (txo_pk_script prev_out))) (\<lambda>witness_program.
              and_then (wrap_with (\<lambda>e. Wrapf ''input script-path commitment: '' e [])
                          (sc_verify_leaf_commitment B cb witness_program (tl_script leaf))) (\<lambda>_.
                let merkle_root = sc_root_hash B cb (tl_script leaf);
                    internal_key = schnorr_serialize_pub_key L (cb_internal_key cb) in
                if pin_internal_key i \<noteq> [] \<and> pin_internal_key i \<noteq> internal_key
                then Inl (Plain ''input script-path internal key mismatch'')
                else if pin_merkle_root i \<noteq> [] \<and> pin_merkle_root i \<noteq> merkle_root
                then Inl (Plain ''input script-path merkle root mismatch'')
                else
                  and_then (wrap_with (\<lambda>e. Wrapf ''input script-path sighash: '' e [])
                              (bl_script_sighash B (ppk_tx packet) prev_outs (pin_sighash_type i) (unat input_index)
                                 (tl_leaf_version leaf) (tl_script leaf))) (\<lambda>sighash.
                    Inr (signing_context.extend
                           (new_signing_context packet input_index prev_out (pin_sighash_type i) sighash internal_key merkle_root)
                           (script_path_request.fields
                              (signing_request_id B package_digest SigningScriptPath input_index) package_digest
                              (sp_leaf_hash plan) (tl_leaf_version leaf) (tl_script leaf) (tl_control_block leaf)
                              (sp_required_signers plan))))))))
      | _ \<Rightarrow> Inl (Plain ''input script-path leaf must match exactly one PSBT entry''))"

definition validate_musig2_aggregate ::
    "'k lib \<Rightarrow> ('k, 's, 'z) btc_lib_scheme \<Rightarrow> bytes \<Rightarrow> bytes list \<Rightarrow> unit result" where
  "validate_musig2_aggregate L B internal_key participants =
     and_then (fold_res (\<lambda>keys p. and_then (wrap_with (\<lambda>e. Wrapf ''participant: '' e []) (btcec_parse_pub_key L p))
                                    (\<lambda>k. Inr (keys @ [k]))) [] participants) (\<lambda>keys.
     and_then (wrap_with (\<lambda>e. Wrapf ''aggregate participant keys: '' e []) (bl_musig2_aggregate B keys)) (\<lambda>aggregate.
       if schnorr_serialize_pub_key L aggregate \<noteq> internal_key
       then Inl (Plain ''participants do not match the committed internal key'') else Inr ()))"

text \<open>One iteration of the loop over the sorted plans.\<close>

definition add_signing_request ::
    "'k lib \<Rightarrow> ('k, 's, 'z) btc_lib_scheme \<Rightarrow> bytes \<Rightarrow> psbt_packet \<Rightarrow> (outpoint \<times> tx_out) list \<Rightarrow>
     signing_requests \<Rightarrow> signing_plan \<Rightarrow> signing_requests result" where
  "add_signing_request L B package_digest packet prev_outs requests p =
     (case gp_key_path p of
        Some signer \<Rightarrow>
          and_then (key_path_context L B packet prev_outs (gp_input_index p)) (\<lambda>context.
            if sx_internal_key context \<noteq> signer
            then Inl (Plain ''input key-path signer does not match the committed internal key'')
            else Inr (requests\<lparr>rs_key_path := rs_key_path requests @
              [signing_context.extend context (key_path_request.fields
                 (signing_request_id B package_digest SigningKeyPath (gp_input_index p)) package_digest signer)]\<rparr>))
      | None \<Rightarrow>
      (case gp_musig2 p of
        Some m \<Rightarrow>
          and_then (key_path_context L B packet prev_outs (gp_input_index p)) (\<lambda>context.
          and_then (wrap_with (\<lambda>e. Wrapf ''input MuSig2 plan: '' e [])
                      (validate_musig2_aggregate L B (sx_internal_key context) (mp_participants m))) (\<lambda>_.
            Inr (requests\<lparr>rs_musig2 := rs_musig2 requests @
              [signing_context.extend context (musig2_request.fields
                 (signing_request_id B package_digest SigningMuSig2 (gp_input_index p)) package_digest
                 (mp_participants m) (mp_session_context m))]\<rparr>)))
      | None \<Rightarrow>
      (case gp_script_path p of
        Some s \<Rightarrow>
          and_then (script_path_request_of L B package_digest packet prev_outs (gp_input_index p) s) (\<lambda>request.
            Inr (requests\<lparr>rs_script_path := rs_script_path requests @ [request]\<rparr>))
      | None \<Rightarrow> Inr requests)))"

definition derive_signing_requests ::
    "'k lib \<Rightarrow> ('k, 's, 'z) btc_lib_scheme \<Rightarrow> psbt_packet \<Rightarrow> signing_plan list \<Rightarrow> u32 list \<Rightarrow> bytes \<Rightarrow> signing_requests result" where
  "derive_signing_requests L B packet plans backend_managed package_digest =
     and_then (validate_signing_plans L plans backend_managed (of_nat (length (wtx_ins (ppk_tx packet))))) (\<lambda>_.
     and_then (anchor_prev_outs B packet) (\<lambda>prev_outs.
       fold_res (add_signing_request L B package_digest packet prev_outs)
         \<lparr>rs_key_path = [], rs_musig2 = [], rs_script_path = []\<rparr> (sort_key gp_input_index plans)))"

section \<open>Signatures\<close>

definition parse_taproot_signature :: "('k, 's, 'z) btc_lib_scheme \<Rightarrow> bytes \<Rightarrow> u32 \<Rightarrow> 's result" where
  "parse_taproot_signature B signature sighash_type =
     (if length signature \<noteq> signature_size \<and> length signature \<noteq> signature_size + 1
      then Inl (Plain ''taproot signature must be 64 or 65 bytes'')
      else if sighash_type > 0xff then Inl (Plain ''taproot sighash type does not fit in one byte'')
      else if length signature = signature_size \<and> sighash_type \<noteq> sighash_default
      then Inl (Plain ''non-default taproot sighash requires a suffix'')
      else if length signature = signature_size + 1 \<and> sighash_type = sighash_default
      then Inl (Plain ''default taproot sighash must not have a suffix'')
      else if length signature = signature_size + 1 \<and> signature ! signature_size \<noteq> ucast sighash_type
      then Inl (Plain ''taproot signature sighash suffix mismatch'')
      else wrap_with (\<lambda>e. Wrapf ''invalid taproot signature: '' e []) (bl_parse_signature B (take signature_size signature)))"

definition verify_key_path_signature ::
    "'k lib \<Rightarrow> ('k, 's, 'z) btc_lib_scheme \<Rightarrow> bytes \<Rightarrow> u32 \<Rightarrow> bytes \<Rightarrow> bytes \<Rightarrow> unit result" where
  "verify_key_path_signature L B signature sighash_type sighash prev_out_script =
     and_then (parse_taproot_signature B signature sighash_type) (\<lambda>sig.
     and_then (wrap_with (\<lambda>e. Wrapf ''taproot witness program: '' e []) (bl_witness_program B prev_out_script)) (\<lambda>witness_program.
     and_then (wrap_with (\<lambda>e. Wrapf ''taproot output key: '' e []) (schnorr_parse_pub_key L witness_program)) (\<lambda>output_key.
       if \<not> bl_verify_signature B sig sighash output_key
       then Inl (Plain ''taproot key-path signature verification failed'') else Inr ())))"

definition verify_script_path_signature ::
    "'k lib \<Rightarrow> ('k, 's, 'z) btc_lib_scheme \<Rightarrow> bytes \<Rightarrow> u32 \<Rightarrow> bytes \<Rightarrow> bytes \<Rightarrow> unit result" where
  "verify_script_path_signature L B signature sighash_type sighash signer =
     and_then (parse_taproot_signature B signature sighash_type) (\<lambda>sig.
     and_then (wrap_with (\<lambda>e. Wrapf ''script-path signer: '' e []) (schnorr_parse_pub_key L signer)) (\<lambda>public_key.
       if \<not> bl_verify_signature B sig sighash public_key
       then Inl (Plain ''script-path signature verification failed'') else Inr ()))"

section \<open>Final witnesses\<close>

definition witness_has_annex :: "bytes list \<Rightarrow> bool" where
  "witness_has_annex witness \<longleftrightarrow>
     length witness \<ge> 2 \<and> last witness \<noteq> [] \<and> hd (last witness) = taproot_annex_tag"

definition verify_final_key_path ::
    "'k lib \<Rightarrow> ('k, 's, 'z) btc_lib_scheme \<Rightarrow> bytes list \<Rightarrow> u32 \<Rightarrow> bytes \<Rightarrow> bytes \<Rightarrow> unit result" where
  "verify_final_key_path L B witness sighash_type sighash prev_out_script =
     (case witness of
        [element] \<Rightarrow> wrap_with (\<lambda>e. Wrapf ''final anchor input sealed key-path signature: '' e [])
          (verify_key_path_signature L B element sighash_type sighash prev_out_script)
      | _ \<Rightarrow> Inl (Plain ''final anchor input must use its sealed key path''))"

text \<open>
  \<open>verifyRequiredScriptPathSignatures\<close>: an element of the length of a signature must verify for a
  required signer, the first that fits; at the end every signer must have been matched.
\<close>

fun first_match :: "(bytes \<Rightarrow> bool) \<Rightarrow> nat \<Rightarrow> bytes list \<Rightarrow> nat option" where
  "first_match f i [] = None"
| "first_match f i (x # xs) = (if f x then Some i else first_match f (Suc i) xs)"

definition match_element ::
    "'k lib \<Rightarrow> ('k, 's, 'z) btc_lib_scheme \<Rightarrow> script_path_request \<Rightarrow> nat set \<Rightarrow> bytes \<Rightarrow> nat set result" where
  "match_element L B request matched element =
     (if length element \<noteq> signature_size \<and> length element \<noteq> signature_size + 1 then Inr matched
      else case first_match (\<lambda>signer. is_ok (verify_script_path_signature L B element
                  (sx_sighash_type request) (sx_sighash request) signer)) 0 (sr_required_signers request) of
        None \<Rightarrow> Inl (Plain ''signature-shaped witness element does not match a declared signer and the exact sealed sighash'')
      | Some i \<Rightarrow> Inr (insert i matched))"

definition verify_required_signatures ::
    "'k lib \<Rightarrow> ('k, 's, 'z) btc_lib_scheme \<Rightarrow> bytes list \<Rightarrow> script_path_request \<Rightarrow> unit result" where
  "verify_required_signatures L B elements request =
     and_then (fold_res (match_element L B request) {} elements) (\<lambda>matched.
       if \<exists>i \<in> set [0 ..< length (sr_required_signers request)]. i \<notin> matched
       then Inl (Plain ''required signer did not authorize the exact sealed sighash'') else Inr ())"

definition verify_final_script_path ::
    "'k lib \<Rightarrow> ('k, 's, 'z) btc_lib_scheme \<Rightarrow> bytes list \<Rightarrow> script_path_request \<Rightarrow> unit result" where
  "verify_final_script_path L B witness request =
     (if length witness < 2 then Inl (Plain ''final anchor input must use its sealed script path'')
      else if witness ! (length witness - 2) \<noteq> sr_leaf_script request \<or>
              witness ! (length witness - 1) \<noteq> sr_control_block request
      then Inl (Plain ''final anchor input does not use the sealed script leaf and control block'')
      else and_then (wrap_with (\<lambda>e. Wrapf ''final anchor input: '' e []) (validate_tapscript B (sr_leaf_script request))) (\<lambda>_.
           wrap_with (\<lambda>e. Wrapf ''final anchor input sealed script-path signatures: '' e [])
             (verify_required_signatures L B (take (length witness - 2) witness) request)))"

text \<open>
  The loop of \<open>verifyFinalAnchorSigningPlans\<close>. A map from input indices keeps the last request
  put in, which is the first of the reversed list.
\<close>

definition verify_final_input ::
    "'k lib \<Rightarrow> ('k, 's, 'z) btc_lib_scheme \<Rightarrow> signing_requests \<Rightarrow> signing_plan list \<Rightarrow> u32 list \<Rightarrow>
     nat \<Rightarrow> unit \<Rightarrow> wire_tx_in \<Rightarrow> unit result" where
  "verify_final_input L B requests plans backend_managed i u tx_in =
     (let index = of_nat i; witness = win_witness tx_in in
      if index \<in> set backend_managed then Inr ()
      else if witness_has_annex witness then Inl (Plain ''final anchor input annexes are unsupported'')
      else case find (\<lambda>r. sx_input_index r = index) (rev (rs_key_path requests)) of
        Some r \<Rightarrow> verify_final_key_path L B witness (sx_sighash_type r) (sx_sighash r) (sx_prev_out_script r)
      | None \<Rightarrow>
      (case find (\<lambda>r. sx_input_index r = index) (rev (rs_musig2 requests)) of
        Some r \<Rightarrow> verify_final_key_path L B witness (sx_sighash_type r) (sx_sighash r) (sx_prev_out_script r)
      | None \<Rightarrow>
      (case find (\<lambda>r. sx_input_index r = index) (rev (rs_script_path requests)) of
        Some r \<Rightarrow> verify_final_script_path L B witness r
      | None \<Rightarrow>
          (if \<exists>p \<in> set plans. gp_caller_signed p \<noteq> None \<and> gp_input_index p = index
           then if witness = [] then Inl (Plain ''final anchor input misses its caller-signed witness'') else Inr ()
           else Inl (Plain ''final anchor input has no sealed signing plan'')))))"

definition verify_final_signing_plans ::
    "'k lib \<Rightarrow> ('k, 's, 'z) btc_lib_scheme \<Rightarrow> signing_requests result \<Rightarrow> signing_plan list \<Rightarrow> u32 list \<Rightarrow> wire_tx \<Rightarrow> unit result" where
  "verify_final_signing_plans L B derived plans backend_managed final_tx =
     and_then (wrap_with (\<lambda>e. Wrapf ''derive sealed signing requests: '' e []) derived) (\<lambda>requests.
       fold_idx (verify_final_input L B requests plans backend_managed) 0 () (wtx_ins final_tx))"

text \<open>\<open>verifyScriptPathWitness\<close>: the committed transaction with one witness set is executed.\<close>

definition verify_script_path_witness ::
    "('k, 's, 'z) btc_lib_scheme \<Rightarrow> wire_tx \<Rightarrow> nat \<Rightarrow> tx_out \<Rightarrow> (outpoint \<times> tx_out) list \<Rightarrow> bytes list \<Rightarrow> unit result" where
  "verify_script_path_witness B tx i prev_out prev_outs witness =
     wrap_with (\<lambda>e. Wrapf ''script-path witness verification failed: '' e [])
       (bl_execute B (txo_pk_script prev_out)
          (tx\<lparr>wtx_ins := (wtx_ins tx)[i := (wtx_ins tx ! i)\<lparr>win_witness := witness\<rparr>]\<rparr>) i prev_outs (txo_value prev_out))"

end
