(* ===== verification/Tap_AnchorPackage.thy ===== *)
theory Tap_AnchorPackage
  imports Tap_VirtualPackets Tap_AnchorSigning
begin

text \<open>
  The transfer package of a committed custom-anchor transaction and the checks of its structure
  against the anchor transaction and the virtual packets it holds (\<open>custom_anchor_package.go\<close>).

  Roles and kinds are \<open>uint8\<close> constants; \<open>...Other\<close> stands for any other value. An \<open>int32\<close> or
  \<open>int64\<close> field is an \<open>int\<close>. The indices of the code are \<open>uint32\<close>; a list of the model is
  shorter than \<open>2 ^ 32\<close> where the code converts its length.
\<close>

section \<open>The package\<close>

datatype packet_role = RoleActive | RolePassive | RoleOther byte

datatype proof_source_kind = ProofSourceConfirmedFile | ProofSourceCompactPath | ProofSourceOther byte

record proof_source =
  psm_kind :: proof_source_kind
  psm_content_id :: bytes
  psm_blob :: bytes

record funding_lock =
  flk_custom_lock_id :: bytes
  flk_expiration_seconds :: u64

record funding_summary =
  fsm_mode :: funding_mode
  fsm_p2a_output_index :: "u32 option"
  fsm_actual_fee_sat :: u64
  fsm_max_fee_sat :: u64

record input_summary =
  cin_logical_id :: string
  cin_logical_index :: u32
  cin_packet_index :: u32
  cin_packet_role :: packet_role
  cin_virtual_index :: u32
  cin_anchor_index :: u32
  cin_asset_ref :: string
  cin_issuance_id :: bytes
  cin_asset_type :: byte
  cin_anchor_outpoint :: outpoint
  cin_script_key :: bytes
  cin_amount :: u64
  cin_proof_source :: proof_source

record output_summary =
  cou_logical_id :: string
  cou_logical_index :: u32
  cou_packet_index :: u32
  cou_packet_role :: packet_role
  cou_virtual_index :: u32
  cou_anchor_index :: u32
  cou_asset_ref :: string
  cou_issuance_id :: bytes
  cou_asset_type :: byte
  cou_anchor_outpoint :: outpoint
  cou_anchor_value_sat :: int
  cou_asset_root :: bytes
  cou_merkle_root :: bytes
  cou_script_key :: bytes
  cou_amount :: u64
  cou_script_mode :: script_mode
  cou_proof_delivery :: proof_delivery
  cou_op_true_spend :: "op_true_spend_info option"

record proof_update =
  cpu_logical_id :: string
  cpu_logical_index :: u32
  cpu_packet_index :: u32
  cpu_packet_role :: packet_role
  cpu_virtual_index :: u32
  cpu_anchor_index :: u32
  cpu_asset_ref :: string
  cpu_issuance_id :: bytes
  cpu_script_key :: bytes
  cpu_anchor_outpoint :: outpoint
  cpu_proof_blob :: bytes
  cpu_proof_delivery :: proof_delivery

record publish_metadata =
  pmd_skip_anchor_tx_broadcast :: bool
  pmd_label :: string
  pmd_external_broadcast :: bool

record transfer_package =
  tpk_schema_version :: u16
  tpk_plan_id :: bytes
  tpk_committed_digest :: bytes
  tpk_unsigned_digest :: bytes
  tpk_package_digest :: bytes
  tpk_committed_psbt :: bytes
  tpk_anchor_psbt :: bytes
  tpk_active :: "bytes list"
  tpk_passive :: "bytes list"
  tpk_change_output_index :: int
  tpk_locked :: "outpoint list"
  tpk_funding_lock :: funding_lock
  tpk_funding :: funding_summary
  tpk_inputs :: "input_summary list"
  tpk_outputs :: "output_summary list"
  tpk_updates :: "proof_update list"
  tpk_signing_plans :: "signing_plan list"
  tpk_backend_managed :: "u32 list"
  tpk_publish :: publish_metadata

section \<open>Proof sources\<close>

definition proof_file_domain :: bytes where
  "proof_file_domain = map (\<lambda>c. of_nat (of_char c)) ''tap-sdk/custom-anchor/proof-file/v1''"

text \<open>The tip of a compact path: its base, or its last step.\<close>

definition compact_path_tip ::
    "('k, 'g, 'f, 'z) native_lib_scheme \<Rightarrow> proof_path \<Rightarrow> ('k, 'g, 'f) native_proof result" where
  "compact_path_tip N p =
     (if path_steps p = [] then decode_base N (confirmed_base_proof p)
      else decode_step N (last (path_steps p)) (step_witness_count (last (path_steps p))))"

definition proof_source_tip ::
    "('k, 'g, 'f, 'z) native_lib_scheme \<Rightarrow> ('k, 's, 'y) btc_lib_scheme \<Rightarrow> proof_source \<Rightarrow> ('k, 'g, 'f) native_proof result" where
  "proof_source_tip N B src =
     (if psm_blob src = [] then Inl (Plain ''proof source blob is required'')
      else case psm_kind src of
        ProofSourceConfirmedFile \<Rightarrow>
          (if psm_content_id src \<noteq> anchor_digest B proof_file_domain (psm_blob src)
           then Inl (Plain ''confirmed proof content ID mismatch'')
           else
             and_then (wrap_with (\<lambda>e. Wrapf ''decode confirmed proof file: '' e []) (nl_decode_file N (psm_blob src))) (\<lambda>f.
             wrap_with (\<lambda>e. Wrapf ''read confirmed proof tip: '' e []) (nl_last_proof N f)))
      | ProofSourceCompactPath \<Rightarrow>
          (case unmarshal_binary N Nil_path (psm_blob src) of
             (Some e, _) \<Rightarrow> Inl (Wrapf ''decode compact proof path: '' e [])
           | (None, p) \<Rightarrow>
               and_then (path_content_id N p) (\<lambda>expected_id.
                 if psm_content_id src \<noteq> expected_id then Inl (Plain ''compact proof path content ID mismatch'')
                 else wrap_with (\<lambda>e. Wrapf ''decode compact proof path tip: '' e []) (compact_path_tip N p)))
      | ProofSourceOther _ \<Rightarrow> Inl (Plain ''unknown proof source kind''))"

definition validate_proof_source ::
    "('k, 'g, 'f, 'z) native_lib_scheme \<Rightarrow> ('k, 's, 'y) btc_lib_scheme \<Rightarrow> input_summary \<Rightarrow> unit result" where
  "validate_proof_source N B inp =
     and_then (proof_source_tip N B (cin_proof_source inp)) (\<lambda>tip.
     and_then (asset_identity N (Some (np_asset tip))) (\<lambda>(actual_ref, issuance_id, asset_type).
     and_then (serialized_script_key N (na_script_key (np_asset tip))) (\<lambda>script_key.
       if \<not> ref_matches_issuance (lib.truncate N) (cin_asset_ref inp) actual_ref issuance_id \<or>
          cin_issuance_id inp \<noteq> issuance_id \<or> cin_asset_type inp \<noteq> asset_type \<or>
          cin_anchor_outpoint inp \<noteq> nl_out_point N tip \<or>
          cin_script_key inp \<noteq> script_key \<or> cin_amount inp \<noteq> na_amount (np_asset tip)
       then Inl (Plain ''proof source tip does not match input summary'')
       else Inr ())))"

definition reject_unconfirmed_paths ::
    "('k, 'g, 'f, 'z) native_lib_scheme \<Rightarrow> transfer_package \<Rightarrow> unit result" where
  "reject_unconfirmed_paths N p =
     fold_res (\<lambda>_ inp.
       if psm_kind (cin_proof_source inp) \<noteq> ProofSourceCompactPath then Inr ()
       else case unmarshal_binary N Nil_path (psm_blob (cin_proof_source inp)) of
         (Some e, _) \<Rightarrow> Inl (Wrapf ''input compact proof path: '' e [])
       | (None, path) \<Rightarrow>
           (if path_steps path \<noteq> [] then Inl (Wrapf ''input: '' (Sentinel ErrUnconfirmedCustomAnchorPublish) [])
            else Inr ())) () (tpk_inputs p)"

section \<open>Summaries\<close>

definition role_byte :: "packet_role \<Rightarrow> byte" where
  "role_byte r = (case r of RoleActive \<Rightarrow> 1 | RolePassive \<Rightarrow> 2 | RoleOther b \<Rightarrow> b)"

definition mapping_key :: "packet_role \<Rightarrow> u32 \<Rightarrow> u32 \<Rightarrow> bytes" where
  "mapping_key role packet_index virtual_index =
     [role_byte role] @ be_bytes 4 (unat packet_index) @ be_bytes 4 (unat virtual_index)"

definition packet_count :: "packet_role \<Rightarrow> bytes list \<Rightarrow> bytes list \<Rightarrow> nat result" where
  "packet_count role active passive =
     (case role of RoleActive \<Rightarrow> Inr (length active) | RolePassive \<Rightarrow> Inr (length passive)
      | RoleOther _ \<Rightarrow> Inl (Plain ''unknown packet role''))"

definition validate_package_ref :: "'k lib \<Rightarrow> string \<Rightarrow> string \<Rightarrow> unit result" where
  "validate_package_ref L what ref =
     (if asset_ref_is_zero ref then Inl (Plain (what @ '' asset ref is required''))
      else wrap_with (\<lambda>e. Wrapf (what @ '' asset ref: '') e []) (asset_ref_validate L ref))"

definition validate_package_psbts :: "string \<Rightarrow> bytes list \<Rightarrow> unit result" where
  "validate_package_psbts label psbts =
     fold_res (\<lambda>_ psbt. if psbt = [] then Inl (Plain (label @ '' is empty'')) else Inr ()) () psbts"

definition add_mapping :: "string \<Rightarrow> bytes \<Rightarrow> bytes set \<Rightarrow> bytes set result" where
  "add_mapping err key seen = (if key \<in> seen then Inl (Plain err) else Inr (insert key seen))"

definition check_input_summary ::
    "('k, 'g, 'f, 'z) native_lib_scheme \<Rightarrow> ('k, 's, 'y) btc_lib_scheme \<Rightarrow> transfer_package \<Rightarrow> psbt_packet \<Rightarrow>
     bytes set \<Rightarrow> input_summary \<Rightarrow> bytes set result" where
  "check_input_summary N B p anchor seen inp =
     (if cin_logical_id inp = [] then Inl (Plain ''input logical ID is required'')
      else and_then (validate_package_ref (lib.truncate N) ''input'' (cin_asset_ref inp)) (\<lambda>_.
        if cin_amount inp = 0 then Inl (Plain ''input amount is required'')
        else and_then (wrap_with (\<lambda>e. Wrapf ''input: '' e [])
                         (packet_count (cin_packet_role inp) (tpk_active p) (tpk_passive p))) (\<lambda>count.
          if unat (cin_packet_index inp) \<ge> count then Inl (Plain ''input packet index is out of range'')
          else if unat (cin_anchor_index inp) \<ge> length (wtx_ins (ppk_tx anchor))
          then Inl (Plain ''input anchor input index is out of range'')
          else and_then (wrap_with (\<lambda>e. Wrapf ''input proof source: '' e []) (validate_proof_source N B inp)) (\<lambda>_.
                 add_mapping ''input duplicates a virtual input mapping''
                   (mapping_key (cin_packet_role inp) (cin_packet_index inp) (cin_virtual_index inp)) seen))))"

definition check_output_summary ::
    "'k lib \<Rightarrow> ('k, 's, 'y) btc_lib_scheme \<Rightarrow> transfer_package \<Rightarrow> psbt_packet \<Rightarrow> bytes set \<Rightarrow> output_summary \<Rightarrow>
     bytes set result" where
  "check_output_summary L B p anchor seen out =
     (if cou_logical_id out = [] then Inl (Plain ''output logical ID is required'')
      else and_then (validate_package_ref L ''output'' (cou_asset_ref out)) (\<lambda>_.
        if cou_amount out = 0 then Inl (Plain ''output amount is required'')
        else if cou_anchor_value_sat out < 0 then Inl (Plain ''output anchor value is negative'')
        else and_then (wrap_with (\<lambda>e. Wrapf ''output: '' e [])
                         (packet_count (cou_packet_role out) (tpk_active p) (tpk_passive p))) (\<lambda>count.
          if unat (cou_packet_index out) \<ge> count then Inl (Plain ''output packet index is out of range'')
          else if unat (cou_anchor_index out) \<ge> length (wtx_outs (ppk_tx anchor))
          then Inl (Plain ''output anchor output index is out of range'')
          else if cou_packet_role out = RoleActive \<and> cou_script_mode out = ScriptUnspecified
          then Inl (Plain ''output script mode is required'')
          else if cou_script_mode out = ScriptOPTrue \<and> cou_op_true_spend out = None
          then Inl (Plain ''output OP_TRUE spend info is required'')
          else if cou_script_mode out \<noteq> ScriptOPTrue \<and> cou_op_true_spend out \<noteq> None
          then Inl (Plain ''output OP_TRUE spend info requires OP_TRUE script mode'')
          else and_then (if cou_op_true_spend out = None then Inr ()
                         else wrap_with (\<lambda>e. Wrapf ''output OP_TRUE spend info: '' e [])
                                (spend_info_validate L B (cou_op_true_spend out) (cou_script_key out))) (\<lambda>_.
                 add_mapping ''output duplicates a virtual output mapping''
                   (mapping_key (cou_packet_role out) (cou_packet_index out) (cou_virtual_index out)) seen))))"

definition check_proof_update ::
    "'k lib \<Rightarrow> transfer_package \<Rightarrow> psbt_packet \<Rightarrow> bytes set \<Rightarrow> proof_update \<Rightarrow> bytes set result" where
  "check_proof_update L p anchor seen u =
     (if cpu_logical_id u = [] then Inl (Plain ''proof update logical ID is required'')
      else and_then (validate_package_ref L ''proof update'' (cpu_asset_ref u)) (\<lambda>_.
           and_then (wrap_with (\<lambda>e. Wrapf ''proof update: '' e [])
                       (packet_count (cpu_packet_role u) (tpk_active p) (tpk_passive p))) (\<lambda>count.
             if unat (cpu_packet_index u) \<ge> count then Inl (Plain ''proof update packet index is out of range'')
             else if unat (cpu_anchor_index u) \<ge> length (wtx_outs (ppk_tx anchor))
             then Inl (Plain ''proof update anchor output index is out of range'')
             else if cpu_proof_blob u = [] then Inl (Plain ''proof update proof blob is required'')
             else add_mapping ''proof update duplicates a virtual output mapping''
                    (mapping_key (cpu_packet_role u) (cpu_packet_index u) (cpu_virtual_index u)) seen)))"

end
