(* ===== verification/Tap_PackageChecks.thy ===== *)
theory Tap_PackageChecks
  imports Tap_AnchorPackage
begin

text \<open>
  The checks that tie a transfer package to its anchor transaction, its funding policy and its
  virtual packets (\<open>validateStructure\<close> and what it calls in \<open>custom_anchor_package.go\<close>).

  A map keyed by strings is the list of its entries in the order they are put in; the last one of
  a key counts.
\<close>

section \<open>Virtual inputs and outputs\<close>

definition validate_input_mapping ::
    "('k, 'g, 'f, 'z) native_lib_scheme \<Rightarrow> ('k, 'g, 'f, 'c, 'y) vpacket_lib_scheme \<Rightarrow> psbt_packet \<Rightarrow>
     ('k, 'g, 'f) tap_vinput \<Rightarrow> input_summary \<Rightarrow> unit result" where
  "validate_input_mapping N V anchor vin s =
     (case tvi_asset vin of
        None \<Rightarrow> Inl (Plain ''virtual input asset is missing'')
      | Some a \<Rightarrow>
          (if na_script_key a = None then Inl (Plain ''virtual input asset script key is missing'')
           else
             and_then (asset_identity N (Some a)) (\<lambda>(actual_ref, issuance_id, asset_type).
             and_then (vl_to_pub_key V (pid_script_key (tvi_prev_id vin))) (\<lambda>script_pub_key.
             and_then (serialized_script_key N (Some script_pub_key)) (\<lambda>script_key.
               if \<not> keys_equal N (Some script_pub_key) (na_script_key a) \<or>
                  pid_issuance_id (tvi_prev_id vin) \<noteq> nl_asset_id N a
               then Inl (Plain ''virtual input previous ID does not match its asset'')
               else if (case find_anchor_input anchor (pid_outpoint (tvi_prev_id vin)) of
                          None \<Rightarrow> True | Some i \<Rightarrow> cin_anchor_index s \<noteq> of_nat i) \<or>
                       \<not> ref_matches_issuance (lib.truncate N) (cin_asset_ref s) actual_ref issuance_id \<or>
                       cin_issuance_id s \<noteq> issuance_id \<or> cin_asset_type s \<noteq> asset_type \<or>
                       cin_anchor_outpoint s \<noteq> pid_outpoint (tvi_prev_id vin) \<or>
                       cin_script_key s \<noteq> script_key \<or> cin_amount s \<noteq> na_amount a
               then Inl (Plain ''input summary does not match virtual input'')
               else Inr ())))))"

text \<open>\<open>deriveCustomAnchorOutputRoots\<close>: the asset root and the merkle root.\<close>

definition derive_output_roots ::
    "('k, 'g, 'f, 'c, 'y) vpacket_lib_scheme \<Rightarrow> (u32 \<Rightarrow> 'c option) \<Rightarrow> ('k, 'g, 'f) tap_voutput \<Rightarrow> (bytes \<times> bytes) result" where
  "derive_output_roots V commitments out =
     (case tvo_anchor_internal_key out of
        None \<Rightarrow> Inl (Plain ''anchor output internal key is missing'')
      | Some key \<Rightarrow>
          (case commitments (tvo_anchor_output_index out) of
             None \<Rightarrow> Inl (Plain ''anchor output commitment is missing'')
           | Some c \<Rightarrow>
               and_then (vl_anchor_output_script V key (tvo_sibling out) c) (\<lambda>(script, merkle_root, asset_root).
                 Inr (asset_root, merkle_root))))"

definition validate_root_hints ::
    "('k, 's, 'z) btc_lib_scheme \<Rightarrow> psbt_packet \<Rightarrow> u32 \<Rightarrow> bytes \<Rightarrow> bytes \<Rightarrow> unit result" where
  "validate_root_hints B anchor i asset_root merkle_root =
     (if unat i \<ge> length (ppk_outputs anchor) then Inl (Plain ''anchor output metadata is out of range'')
      else
        (let unknowns = pou_unknowns (ppk_outputs anchor ! unat i);
             asset_hint = bl_extract_field B unknowns (bl_asset_root_key B);
             merkle_hint = bl_extract_field B unknowns (bl_merkle_root_key B) in
         if length asset_hint \<noteq> length asset_root
         then Inl (Plain ''Taproot Asset root hint has the wrong length'')
         else if asset_hint \<noteq> asset_root
         then Inl (Plain ''Taproot Asset root hint does not match the committed assets'')
         else if length merkle_hint \<noteq> length merkle_root
         then Inl (Plain ''Taproot merkle root hint has the wrong length'')
         else if merkle_hint \<noteq> merkle_root
         then Inl (Plain ''Taproot merkle root hint does not match the committed assets'')
         else Inr ()))"

text \<open>The parts of \<open>validatePackageOutputMapping\<close>, in its order.\<close>

definition voutput_consistent ::
    "('k, 'g, 'f, 'z) native_lib_scheme \<Rightarrow> ('k, 'g, 'f) tap_voutput \<Rightarrow> ('k, 'g) native_asset \<Rightarrow> unit result" where
  "voutput_consistent N out a =
     (if \<not> keys_equal N (tvo_script_key out) (na_script_key a) \<or> tvo_amount out \<noteq> na_amount a
      then Inl (Plain ''virtual output metadata does not match its asset'')
      else case tvo_split_asset out of
        None \<Rightarrow> Inr ()
      | Some split \<Rightarrow>
          (if \<not> keys_equal N (tvo_script_key out) (na_script_key split) \<or> tvo_amount out \<noteq> na_amount split
           then Inl (Plain ''virtual split output metadata does not match its asset'') else Inr ()))"

definition update_matches_summary :: "'k lib \<Rightarrow> proof_update \<Rightarrow> output_summary \<Rightarrow> bool" where
  "update_matches_summary L u s \<longleftrightarrow>
     cpu_logical_id u = cou_logical_id s \<and> cpu_logical_index u = cou_logical_index s \<and>
     cpu_anchor_index u = cou_anchor_index s \<and>
     asset_ref_equivalent L (cpu_asset_ref u) (cou_asset_ref s) \<and>
     cpu_issuance_id u = cou_issuance_id s \<and> cpu_script_key u = cou_script_key s \<and>
     cpu_anchor_outpoint u = cou_anchor_outpoint s \<and>
     cpu_proof_delivery u = cou_proof_delivery s"

definition courier_string :: "string option \<Rightarrow> string" where
  "courier_string c = (case c of None \<Rightarrow> [] | Some s \<Rightarrow> s)"

definition output_summary_matches ::
    "('k, 'g, 'f, 'z) native_lib_scheme \<Rightarrow> ('k, 's, 'x) btc_lib_scheme \<Rightarrow> ('k, 'g, 'f, 'c, 'y) vpacket_lib_scheme \<Rightarrow>
     psbt_packet \<Rightarrow> (u32 \<Rightarrow> 'c option) \<Rightarrow> ('k, 'g, 'f) tap_voutput \<Rightarrow> ('k, 'g) native_asset \<Rightarrow> output_summary \<Rightarrow>
     unit result" where
  "output_summary_matches N B V anchor commitments out a s =
     and_then (asset_identity N (Some a)) (\<lambda>(actual_ref, issuance_id, asset_type).
       if (cou_script_mode s = ScriptBurn) \<noteq> vl_is_burn V a
       then Inl (Plain ''output burn state does not match script mode'')
       else
         and_then (serialized_script_key N (tvo_script_key out)) (\<lambda>script_key.
         let i = tvo_anchor_output_index out in
         if unat i \<ge> length (wtx_outs (ppk_tx anchor)) then Inl (Plain ''anchor output is out of range'')
         else
           and_then (wrap_with (\<lambda>e. Wrapf ''derive output commitment roots: '' e [])
                       (derive_output_roots V commitments out)) (\<lambda>(asset_root, merkle_root).
             if \<not> ref_matches_issuance (lib.truncate N) (cou_asset_ref s) actual_ref issuance_id \<or>
                cou_issuance_id s \<noteq> issuance_id \<or> cou_asset_type s \<noteq> asset_type \<or>
                cou_anchor_index s \<noteq> i \<or>
                cou_anchor_outpoint s \<noteq> \<lparr>op_txid = bl_tx_hash B (ppk_tx anchor), op_index = i\<rparr> \<or>
                cou_anchor_value_sat s \<noteq> txo_value (wtx_outs (ppk_tx anchor) ! unat i) \<or>
                cou_script_key s \<noteq> script_key \<or> cou_amount s \<noteq> tvo_amount out
             then Inl (Plain ''output summary does not match virtual output'')
             else if cou_asset_root s \<noteq> asset_root \<or> cou_merkle_root s \<noteq> merkle_root
             then Inl (Plain ''output commitment roots do not match virtual output'')
             else and_then (validate_root_hints B anchor i asset_root merkle_root) (\<lambda>_.
                    if courier_string (tvo_courier out) \<noteq> pd_courier_address (cou_proof_delivery s)
                    then Inl (Plain ''output proof courier does not match output summary'')
                    else Inr ()))))"

definition proof_update_matches ::
    "('k, 'g, 'f, 'z) native_lib_scheme \<Rightarrow> ('k, 'g, 'f, 'c, 'y) vpacket_lib_scheme \<Rightarrow> psbt_packet \<Rightarrow>
     (u32 \<Rightarrow> 'c option) \<Rightarrow> ('k, 'g, 'f) tap_vpacket list \<Rightarrow> ('k, 'g, 'f) tap_vpacket \<Rightarrow> nat \<Rightarrow>
     ('k, 'g, 'f) native_proof \<Rightarrow> proof_update \<Rightarrow> unit result" where
  "proof_update_matches N V anchor commitments all_packets packet virtual_index suffix u =
     and_then (wrap_with (\<lambda>e. Wrapf ''decode proof update: '' e []) (nl_decode_proof N (cpu_proof_blob u))) (\<lambda>update_proof.
       if vl_is_unknown_version V update_proof
       then Inl (Plain ''unsupported proof update transition proof version'')
       else if vl_is_unknown_version V suffix
       then Inl (Plain ''unsupported virtual output transition proof version'')
       else if np_version suffix \<noteq> np_version update_proof
       then Inl (Plain ''proof suffix transition proof versions do not match'')
       else
         and_then (nl_check_activation N update_proof) (\<lambda>_.
         and_then (vl_create_proof_suffix V (ppk_tx anchor) (ppk_outputs anchor) packet commitments virtual_index
                     all_packets (np_version update_proof)) (\<lambda>expected.
         and_then (transition_proofs_equal N V (Some expected) (Some suffix)) (\<lambda>actual_matches.
         and_then (transition_proofs_equal N V (Some expected) (Some update_proof)) (\<lambda>update_matches.
           if \<not> actual_matches \<or> \<not> update_matches
           then Inl (Plain ''proof suffix does not match committed anchor'') else Inr ())))))"

definition validate_output_mapping ::
    "('k, 'g, 'f, 'z) native_lib_scheme \<Rightarrow> ('k, 's, 'x) btc_lib_scheme \<Rightarrow> ('k, 'g, 'f, 'c, 'y) vpacket_lib_scheme \<Rightarrow>
     psbt_packet \<Rightarrow> (u32 \<Rightarrow> 'c option) \<Rightarrow> ('k, 'g, 'f) tap_vpacket list \<Rightarrow> ('k, 'g, 'f) tap_vpacket \<Rightarrow> nat \<Rightarrow>
     ('k, 'g, 'f) tap_voutput \<Rightarrow> output_summary \<Rightarrow> proof_update \<Rightarrow> unit result" where
  "validate_output_mapping N B V anchor commitments all_packets packet virtual_index out s u =
     (case (tvo_asset out, tvo_proof_suffix out) of
        (Some a, Some suffix) \<Rightarrow>
          and_then (voutput_consistent N out a) (\<lambda>_.
          and_then (output_summary_matches N B V anchor commitments out a s) (\<lambda>_.
            if \<not> update_matches_summary (lib.truncate N) u s
            then Inl (Plain ''proof update does not match output summary'')
            else proof_update_matches N V anchor commitments all_packets packet virtual_index suffix u))
      | _ \<Rightarrow> Inl (Plain ''virtual output or proof suffix is missing''))"

section \<open>Semantic mappings\<close>

text \<open>The entries of a map built by a loop over a list; the last entry of a key counts.\<close>

definition by_mapping :: "('a \<Rightarrow> bytes) \<Rightarrow> 'a list \<Rightarrow> bytes \<Rightarrow> 'a option" where
  "by_mapping key xs k = find (\<lambda>x. key x = k) (rev xs)"

definition input_key :: "input_summary \<Rightarrow> bytes" where
  "input_key s = mapping_key (cin_packet_role s) (cin_packet_index s) (cin_virtual_index s)"

definition output_key :: "output_summary \<Rightarrow> bytes" where
  "output_key s = mapping_key (cou_packet_role s) (cou_packet_index s) (cou_virtual_index s)"

definition update_key :: "proof_update \<Rightarrow> bytes" where
  "update_key u = mapping_key (cpu_packet_role u) (cpu_packet_index u) (cpu_virtual_index u)"

definition check_virtual_input ::
    "('k, 'g, 'f, 'z) native_lib_scheme \<Rightarrow> ('k, 'g, 'f, 'c, 'y) vpacket_lib_scheme \<Rightarrow> psbt_packet \<Rightarrow> transfer_package \<Rightarrow>
     packet_role \<Rightarrow> nat \<Rightarrow> nat \<Rightarrow> unit \<Rightarrow> ('k, 'g, 'f) tap_vinput \<Rightarrow> unit result" where
  "check_virtual_input N V anchor p role k i u vin =
     (case by_mapping input_key (tpk_inputs p) (mapping_key role (of_nat k) (of_nat i)) of
        None \<Rightarrow> Inl (Plain ''virtual input has no package mapping'')
      | Some s \<Rightarrow> wrap_with (\<lambda>e. Wrapf ''virtual input: '' e []) (validate_input_mapping N V anchor vin s))"

definition check_virtual_output ::
    "('k, 'g, 'f, 'z) native_lib_scheme \<Rightarrow> ('k, 's, 'x) btc_lib_scheme \<Rightarrow> ('k, 'g, 'f, 'c, 'y) vpacket_lib_scheme \<Rightarrow>
     psbt_packet \<Rightarrow> (u32 \<Rightarrow> 'c option) \<Rightarrow> ('k, 'g, 'f) tap_vpacket list \<Rightarrow> transfer_package \<Rightarrow> packet_role \<Rightarrow> nat \<Rightarrow>
     ('k, 'g, 'f) tap_vpacket \<Rightarrow> nat \<Rightarrow> unit \<Rightarrow> ('k, 'g, 'f) tap_voutput \<Rightarrow> unit result" where
  "check_virtual_output N B V anchor commitments all_packets p role k packet i u out =
     (case by_mapping output_key (tpk_outputs p) (mapping_key role (of_nat k) (of_nat i)) of
        None \<Rightarrow> Inl (Plain ''virtual output has no package mapping'')
      | Some s \<Rightarrow>
          (case by_mapping update_key (tpk_updates p) (mapping_key role (of_nat k) (of_nat i)) of
             None \<Rightarrow> Inl (Plain ''virtual output has no proof update'')
           | Some upd \<Rightarrow>
               wrap_with (\<lambda>e. Wrapf ''virtual output: '' e [])
                 (validate_output_mapping N B V anchor commitments all_packets packet i out s upd)))"

definition check_collection ::
    "('k, 'g, 'f, 'z) native_lib_scheme \<Rightarrow> ('k, 's, 'x) btc_lib_scheme \<Rightarrow> ('k, 'g, 'f, 'c, 'y) vpacket_lib_scheme \<Rightarrow>
     psbt_packet \<Rightarrow> (u32 \<Rightarrow> 'c option) \<Rightarrow> ('k, 'g, 'f) tap_vpacket list \<Rightarrow> transfer_package \<Rightarrow> packet_role \<Rightarrow>
     ('k, 'g, 'f) tap_vpacket list \<Rightarrow> unit result" where
  "check_collection N B V anchor commitments all_packets p role packets =
     fold_idx (\<lambda>k _ packet.
       and_then (fold_idx (check_virtual_input N V anchor p role k) 0 () (tvp_inputs packet)) (\<lambda>_.
         fold_idx (check_virtual_output N B V anchor commitments all_packets p role k packet) 0 () (tvp_outputs packet)))
       0 () packets"

definition count_inputs :: "('k, 'g, 'f) tap_vpacket list \<Rightarrow> nat" where
  "count_inputs packets = sum_list (map (\<lambda>q. length (tvp_inputs q)) packets)"

definition count_outputs :: "('k, 'g, 'f) tap_vpacket list \<Rightarrow> nat" where
  "count_outputs packets = sum_list (map (\<lambda>q. length (tvp_outputs q)) packets)"

definition validate_semantic_mappings ::
    "('k, 'g, 'f, 'z) native_lib_scheme \<Rightarrow> ('k, 's, 'x) btc_lib_scheme \<Rightarrow> ('k, 'g, 'f, 'c, 'y) vpacket_lib_scheme \<Rightarrow>
     transfer_package \<Rightarrow> psbt_packet \<Rightarrow> bytes set \<Rightarrow> bytes set \<Rightarrow> bytes set \<Rightarrow> unit result" where
  "validate_semantic_mappings N B V p anchor input_keys output_keys update_keys =
     and_then (decode_virtual_packets V ''active'' (tpk_active p)) (\<lambda>active.
     and_then (decode_virtual_packets V ''passive'' (tpk_passive p)) (\<lambda>passive.
     let all_packets = active @ passive in
     and_then (fold_res (\<lambda>_ packet. if tvp_version packet \<noteq> vl_packet_v1 V
                 then Inl (Plain ''committed virtual packets must use V1'')
                 else validate_packet_witnesses V packet) () all_packets) (\<lambda>_.
     and_then (wrap_with (\<lambda>e. Wrapf ''package anchor inputs: '' e []) (vl_validate_anchor_inputs V anchor all_packets)) (\<lambda>_.
     and_then (wrap_with (\<lambda>e. Wrapf ''package anchor outputs: '' e [])
                 (vl_validate_anchor_outputs V anchor all_packets False)) (\<lambda>_.
     and_then (wrap_with (\<lambda>e. Wrapf ''package output commitments: '' e [])
                 (vl_create_commitments V all_packets True)) (\<lambda>commitments.
     and_then (check_collection N B V anchor commitments all_packets p RoleActive active) (\<lambda>_.
     and_then (check_collection N B V anchor commitments all_packets p RolePassive passive) (\<lambda>_.
       if count_inputs all_packets \<noteq> card input_keys \<or> count_inputs all_packets \<noteq> length (tpk_inputs p)
       then Inl (Plain ''package input mappings do not exactly cover virtual inputs'')
       else if count_outputs all_packets \<noteq> card output_keys \<or> count_outputs all_packets \<noteq> length (tpk_outputs p) \<or>
               count_outputs all_packets \<noteq> card update_keys \<or> count_outputs all_packets \<noteq> length (tpk_updates p)
       then Inl (Plain ''package output mappings do not exactly cover virtual outputs'')
       else Inr ()))))))))"

section \<open>Structure\<close>

definition reject_backend_funding :: "transfer_package \<Rightarrow> string \<Rightarrow> unit result" where
  "reject_backend_funding p mode =
     (if tpk_change_output_index p \<noteq> -1 \<or> flk_custom_lock_id (tpk_funding_lock p) \<noteq> [] \<or>
         flk_expiration_seconds (tpk_funding_lock p) \<noteq> 0 \<or> tpk_locked p \<noteq> [] \<or> tpk_backend_managed p \<noteq> []
      then Inl (Plain (mode @ '' package cannot contain backend funding metadata'')) else Inr ())"

definition package_fields_ok :: "transfer_package \<Rightarrow> unit result" where
  "package_fields_ok p =
     (if tpk_plan_id p = zero_hash then Inl (Plain ''plan ID is required'')
      else if tpk_anchor_psbt p = [] then Inl (Plain ''anchor PSBT is required'')
      else if tpk_committed_psbt p = [] then Inl (Plain ''committed anchor PSBT is required'')
      else if tpk_active p = [] then Inl (Plain ''at least one active virtual PSBT is required'')
      else if tpk_change_output_index p < -1 then Inl (Plain ''change output index must be -1 or greater'')
      else
        and_then (validate_lock_id (flk_custom_lock_id (tpk_funding_lock p))) (\<lambda>_.
        and_then (validate_lock_expiration (flk_expiration_seconds (tpk_funding_lock p))) (\<lambda>_.
          if flk_custom_lock_id (tpk_funding_lock p) = [] \<and>
             (flk_expiration_seconds (tpk_funding_lock p) \<noteq> 0 \<or> tpk_locked p \<noteq> [] \<or> tpk_backend_managed p \<noteq> [])
          then Inl (Plain ''backend-funded package requires a custom lock ID'') else Inr ())))"

definition funding_summary_ok :: "('k, 's, 'x) btc_lib_scheme \<Rightarrow> transfer_package \<Rightarrow> psbt_packet \<Rightarrow> unit result" where
  "funding_summary_ok B p anchor =
     (let f = tpk_funding p in
      case fsm_mode f of
        FundingWalletFunded \<Rightarrow>
          (if flk_custom_lock_id (tpk_funding_lock p) = []
           then Inl (Plain ''wallet-funded package requires a custom lock ID'')
           else if fsm_p2a_output_index f \<noteq> None
           then Inl (Plain ''wallet-funded package cannot declare a P2A output'')
           else if fsm_max_fee_sat f = 0 then Inl (Plain ''wallet-funded package requires a maximum fee'')
           else if fsm_actual_fee_sat f > fsm_max_fee_sat f
           then Inl (Plain ''committed anchor fee exceeds maximum'') else Inr ())
      | FundingCallerFundedExact \<Rightarrow>
          (if fsm_p2a_output_index f \<noteq> None \<or> fsm_max_fee_sat f \<noteq> 0
           then Inl (Plain ''caller-funded exact package has invalid funding metadata'')
           else reject_backend_funding p ''caller-funded exact'')
      | FundingExternalP2AFeeBump \<Rightarrow>
          (case fsm_p2a_output_index f of
             None \<Rightarrow> Inl (Plain ''external P2A package requires an output index'')
           | Some index \<Rightarrow>
               (if fsm_max_fee_sat f \<noteq> 0 \<or> fsm_actual_fee_sat f \<noteq> 0
                then Inl (Plain ''external P2A parent must have zero fee'')
                else and_then (wrap_with (\<lambda>e. Wrapf ''external P2A funding metadata: '' e [])
                                 (validate_external_p2a B anchor index)) (\<lambda>_.
                       reject_backend_funding p ''external P2A'')))
      | _ \<Rightarrow> Inl (Plain ''custom anchor package funding mode is required''))"

definition validate_structure ::
    "('k, 'g, 'f, 'z) native_lib_scheme \<Rightarrow> ('k, 's, 'x) btc_lib_scheme \<Rightarrow> ('k, 'g, 'f, 'c, 'y) vpacket_lib_scheme \<Rightarrow>
     transfer_package \<Rightarrow> unit result" where
  "validate_structure N B V p =
     and_then (package_fields_ok p) (\<lambda>_.
     and_then (wrap_with (\<lambda>e. Wrapf ''anchor PSBT: '' e []) (decode_anchor_psbt B (tpk_committed_psbt p))) (\<lambda>anchor.
     and_then (wrap_with (\<lambda>e. Wrapf ''committed anchor transaction: '' e [])
                 (validate_bitcoin_transaction B anchor True)) (\<lambda>_.
     and_then (wrap_with (\<lambda>e. Wrapf ''committed anchor fee: '' e []) (transaction_fee B anchor)) (\<lambda>actual_fee.
       if fsm_actual_fee_sat (tpk_funding p) \<noteq> actual_fee then Inl (Plain ''funding summary fee mismatch'')
       else
         and_then (funding_summary_ok B p anchor) (\<lambda>_.
           if tpk_change_output_index p \<ge> int (length (wtx_outs (ppk_tx anchor)))
           then Inl (Plain ''change output index is out of range'')
           else
             and_then (validate_package_psbts ''active virtual PSBT'' (tpk_active p)) (\<lambda>_.
             and_then (validate_package_psbts ''passive virtual PSBT'' (tpk_passive p)) (\<lambda>_.
             and_then (fold_res (check_input_summary N B p anchor) {} (tpk_inputs p)) (\<lambda>input_keys.
             and_then (fold_res (check_output_summary (lib.truncate N) B p anchor) {} (tpk_outputs p)) (\<lambda>output_keys.
             and_then (fold_res (check_proof_update (lib.truncate N) p anchor) {} (tpk_updates p)) (\<lambda>update_keys.
             and_then (validate_semantic_mappings N B V p anchor input_keys output_keys update_keys) (\<lambda>_.
             and_then (validate_signing_plans (lib.truncate N) (tpk_signing_plans p) (tpk_backend_managed p)
                         (of_nat (length (wtx_ins (ppk_tx anchor))))) (\<lambda>_.
               if flk_custom_lock_id (tpk_funding_lock p) = [] then Inr ()
               else validate_lock_inventory FundingWalletFunded anchor (tpk_backend_managed p) (tpk_locked p)))))))))))))"

end
