(* ===== verification/Tap_PackageOps.thy ===== *)
theory Tap_PackageOps
  imports Tap_PackageChecks
begin

text \<open>
  Sealing, validating, signing and encoding transfer packages (\<open>custom_anchor_package.go\<close>,
  \<open>custom_anchor_signing.go\<close>). The methods work on deep copies, so the model returns the new package.

  \<open>encoding/json\<close> on the package type without its methods is the pair of functions \<open>kj_marshal\<close> and
  \<open>kj_decode\<close> of the record \<open>package_lib\<close>; the second refuses unknown fields and trailing values.
\<close>

record ('k, 's) package_lib = "('k, 's) btc_lib" +
  kj_marshal :: "transfer_package \<Rightarrow> bytes result"
  kj_decode :: "bytes \<Rightarrow> transfer_package result"

definition package_version :: u16 where "package_version = 1"

definition domain_bytes :: "string \<Rightarrow> bytes" where
  "domain_bytes s = map (\<lambda>c. of_nat (of_char c)) s"

section \<open>Digests\<close>

definition committed_digest :: "('k, 's, 'z) package_lib_scheme \<Rightarrow> transfer_package \<Rightarrow> bytes result" where
  "committed_digest B p =
     and_then (wrap_with (\<lambda>e. Wrapf ''anchor PSBT: '' e []) (canonical_anchor_psbt B (tpk_committed_psbt p) True)) (\<lambda>psbt.
     and_then (wrap_with (\<lambda>e. Wrapf ''encode committed package digest: '' e [])
                 (kj_marshal B (p\<lparr>tpk_committed_digest := zero_hash, tpk_unsigned_digest := zero_hash,
                                  tpk_package_digest := zero_hash, tpk_committed_psbt := psbt,
                                  tpk_anchor_psbt := psbt\<rparr>))) (\<lambda>payload.
       Inr (anchor_digest B (domain_bytes ''tap-sdk/custom-anchor/committed-package/v1'') payload)))"

definition current_package_digest :: "('k, 's, 'z) package_lib_scheme \<Rightarrow> transfer_package \<Rightarrow> bytes result" where
  "current_package_digest B p =
     and_then (wrap_with (\<lambda>e. Wrapf ''anchor PSBT: '' e []) (canonical_anchor_psbt B (tpk_anchor_psbt p) False)) (\<lambda>psbt.
     and_then (wrap_with (\<lambda>e. Wrapf ''encode package digest: '' e [])
                 (kj_marshal B (p\<lparr>tpk_package_digest := zero_hash, tpk_anchor_psbt := psbt\<rparr>))) (\<lambda>payload.
       Inr (anchor_digest B (domain_bytes ''tap-sdk/custom-anchor/package/v1'') payload)))"

definition refresh_package_digest :: "('k, 's, 'z) package_lib_scheme \<Rightarrow> transfer_package \<Rightarrow> transfer_package result" where
  "refresh_package_digest B p =
     and_then (current_package_digest B p) (\<lambda>d. Inr (p\<lparr>tpk_package_digest := d\<rparr>))"

definition unsigned_tx_digest :: "('k, 's, 'z) btc_lib_scheme \<Rightarrow> bytes \<Rightarrow> bytes result" where
  "unsigned_tx_digest B raw =
     and_then (wrap_with (\<lambda>e. Wrapf ''anchor PSBT: '' e []) (decode_anchor_psbt B raw)) (\<lambda>packet.
     and_then (wrap_with (\<lambda>e. Wrapf ''serialize unsigned anchor transaction: '' e [])
                 (bl_serialize_no_witness B (ppk_tx packet))) (\<lambda>tx_bytes.
       Inr (anchor_digest B (domain_bytes ''tap-sdk/custom-anchor/unsigned-tx/v1'') tx_bytes)))"

section \<open>Validation and sealing\<close>

definition validate_package ::
    "('k, 'g, 'f, 'y) native_lib_scheme \<Rightarrow> ('k, 's, 'z) package_lib_scheme \<Rightarrow> ('k, 'g, 'f, 'c, 'x) vpacket_lib_scheme \<Rightarrow>
     transfer_package \<Rightarrow> unit result" where
  "validate_package N B V p =
     (if tpk_schema_version p \<noteq> package_version then Inl (Plain ''unsupported custom anchor package version'')
      else
        and_then (validate_structure N B V p) (\<lambda>_.
        and_then (unsigned_tx_digest B (tpk_committed_psbt p)) (\<lambda>unsigned_digest.
          if tpk_unsigned_digest p \<noteq> unsigned_digest then Inl (Plain ''unsigned transaction digest mismatch'')
          else
            and_then (wrap_with (\<lambda>e. Wrapf ''committed anchor PSBT: '' e []) (decode_anchor_psbt B (tpk_committed_psbt p))) (\<lambda>committed.
            and_then (wrap_with (\<lambda>e. Wrapf ''anchor PSBT: '' e []) (decode_anchor_psbt B (tpk_anchor_psbt p))) (\<lambda>current.
            and_then (wrap_with (\<lambda>e. Wrapf ''current anchor PSBT: '' e [])
                        (compare_unsigned_transactions (ppk_tx committed) (ppk_tx current))) (\<lambda>_.
            and_then (wrap_with (\<lambda>e. Wrapf ''current anchor PSBT: '' e [])
                        (compare_committed_metadata B (tpk_committed_psbt p) (tpk_anchor_psbt p))) (\<lambda>_.
            and_then (committed_digest B p) (\<lambda>committed_d.
              if tpk_committed_digest p \<noteq> committed_d then Inl (Plain ''committed package digest mismatch'')
              else
                and_then (current_package_digest B p) (\<lambda>d.
                  if tpk_package_digest p \<noteq> d then Inl (Plain ''package digest mismatch'') else Inr ())))))))))"

text \<open>
  \<open>Seal\<close>. \<open>sort.Slice\<close> leaves the order of plans of one input open; such plans are refused later.
\<close>

definition seal_committed ::
    "('k, 's, 'z) btc_lib_scheme \<Rightarrow> bytes \<Rightarrow> bytes \<Rightarrow> bytes result" where
  "seal_committed B committed anchor_psbt =
     (if committed = [] then Inr anchor_psbt
      else
        and_then (wrap_with (\<lambda>e. Wrapf ''committed anchor PSBT: '' e []) (canonical_anchor_psbt B committed False)) (\<lambda>c.
        and_then (wrap_with (\<lambda>e. Wrapf ''current anchor PSBT: '' e []) (compare_committed_metadata B c anchor_psbt)) (\<lambda>_.
          Inr c)))"

definition seal ::
    "('k, 'g, 'f, 'y) native_lib_scheme \<Rightarrow> ('k, 's, 'z) package_lib_scheme \<Rightarrow> ('k, 'g, 'f, 'c, 'x) vpacket_lib_scheme \<Rightarrow>
     transfer_package \<Rightarrow> transfer_package result" where
  "seal N B V p =
     and_then (wrap_with (\<lambda>e. Wrapf ''anchor PSBT: '' e []) (canonical_anchor_psbt B (tpk_anchor_psbt p) False)) (\<lambda>anchor_psbt.
     and_then (seal_committed B (tpk_committed_psbt p) anchor_psbt) (\<lambda>committed.
     let p1 = p\<lparr>tpk_schema_version := package_version, tpk_committed_digest := zero_hash,
                tpk_unsigned_digest := zero_hash, tpk_package_digest := zero_hash,
                tpk_anchor_psbt := anchor_psbt, tpk_committed_psbt := committed,
                tpk_signing_plans := sort_key gp_input_index (tpk_signing_plans p),
                tpk_backend_managed := sort (tpk_backend_managed p)\<rparr> in
     and_then (validate_structure N B V p1) (\<lambda>_.
     and_then (unsigned_tx_digest B committed) (\<lambda>unsigned_d.
     let p2 = p1\<lparr>tpk_unsigned_digest := unsigned_d\<rparr> in
     and_then (committed_digest B p2) (\<lambda>committed_d.
     and_then (refresh_package_digest B (p2\<lparr>tpk_committed_digest := committed_d\<rparr>)) (\<lambda>p3.
     and_then (validate_package N B V p3) (\<lambda>_. Inr p3)))))))"

section \<open>Signing\<close>

definition package_signing_requests ::
    "('k, 'g, 'f, 'y) native_lib_scheme \<Rightarrow> ('k, 's, 'z) package_lib_scheme \<Rightarrow> ('k, 'g, 'f, 'c, 'x) vpacket_lib_scheme \<Rightarrow>
     transfer_package \<Rightarrow> signing_requests result" where
  "package_signing_requests N B V p =
     and_then (validate_package N B V p) (\<lambda>_.
     and_then (wrap_with (\<lambda>e. Wrapf ''anchor PSBT: '' e []) (decode_anchor_psbt B (tpk_committed_psbt p))) (\<lambda>packet.
       derive_signing_requests (lib.truncate N) B packet (tpk_signing_plans p) (tpk_backend_managed p) (tpk_committed_digest p)))"

text \<open>The key-path or MuSig2 request of an ID: what is verified, and the input.\<close>

definition find_key_request :: "signing_requests \<Rightarrow> bytes \<Rightarrow> signing_context option" where
  "find_key_request requests request_id =
     (case find (\<lambda>r. kr_id r = request_id) (rs_key_path requests) of
        Some r \<Rightarrow> Some (signing_context.truncate r)
      | None \<Rightarrow> map_option signing_context.truncate (find (\<lambda>r. mr_id r = request_id) (rs_musig2 requests)))"

text \<open>The end of the methods that change the anchor PSBT: serialise, refresh the digest, validate.\<close>

definition store_anchor_packet ::
    "('k, 'g, 'f, 'y) native_lib_scheme \<Rightarrow> ('k, 's, 'z) package_lib_scheme \<Rightarrow> ('k, 'g, 'f, 'c, 'x) vpacket_lib_scheme \<Rightarrow>
     transfer_package \<Rightarrow> psbt_packet \<Rightarrow> transfer_package result" where
  "store_anchor_packet N B V p packet =
     and_then (serialize_anchor_psbt B packet) (\<lambda>psbt.
     and_then (refresh_package_digest B (p\<lparr>tpk_anchor_psbt := psbt\<rparr>)) (\<lambda>clone.
     and_then (validate_package N B V clone) (\<lambda>_. Inr clone)))"

definition put_key_signature :: "psbt_packet \<Rightarrow> nat \<Rightarrow> bytes \<Rightarrow> psbt_packet result" where
  "put_key_signature packet i signature =
     (if i \<ge> length (ppk_inputs packet) then Inl (Plain ''index out of range'')
      else let pin = ppk_inputs packet ! i in
           if pin_final_script_witness pin \<noteq> [] \<or> pin_final_script_sig pin \<noteq> []
           then Inl (Plain ''input is already finalized'')
           else if pin_key_spend_sig pin \<noteq> [] \<and> pin_key_spend_sig pin \<noteq> signature
           then Inl (Plain ''input already has a different key-path signature'')
           else Inr (packet\<lparr>ppk_inputs := (ppk_inputs packet)[i := pin\<lparr>pin_key_spend_sig := signature\<rparr>]\<rparr>))"

definition apply_key_path_signature ::
    "('k, 'g, 'f, 'y) native_lib_scheme \<Rightarrow> ('k, 's, 'z) package_lib_scheme \<Rightarrow> ('k, 'g, 'f, 'c, 'x) vpacket_lib_scheme \<Rightarrow>
     transfer_package \<Rightarrow> bytes \<Rightarrow> bytes \<Rightarrow> transfer_package result" where
  "apply_key_path_signature N B V p request_id signature =
     and_then (package_signing_requests N B V p) (\<lambda>requests.
       case find_key_request requests request_id of
         None \<Rightarrow> Inl (Plain ''unknown key-path signing request'')
       | Some r \<Rightarrow>
           and_then (verify_key_path_signature (lib.truncate N) B signature (sx_sighash_type r) (sx_sighash r)
                       (sx_prev_out_script r)) (\<lambda>_.
           and_then (wrap_with (\<lambda>e. Wrapf ''anchor PSBT: '' e []) (decode_anchor_psbt B (tpk_anchor_psbt p))) (\<lambda>packet.
           and_then (put_key_signature packet (unat (sx_input_index r)) signature) (\<lambda>packet1.
             store_anchor_packet N B V p packet1))))"

text \<open>
  \<open>ApplyScriptPathWitness\<close>: the caller's elements with the sealed leaf script and control block. The
  witness is executed against the current packet.
\<close>

definition put_final_witness ::
    "('k, 's, 'z) btc_lib_scheme \<Rightarrow> psbt_packet \<Rightarrow> nat \<Rightarrow> bytes list \<Rightarrow> psbt_packet result" where
  "put_final_witness B packet i witness =
     (if i \<ge> length (ppk_inputs packet) then Inl (Plain ''index out of range'')
      else let pin = ppk_inputs packet ! i in
        if pin_key_spend_sig pin \<noteq> [] then Inl (Plain ''input already has a key-path signature'')
        else
          and_then (anchor_prev_outs B packet) (\<lambda>prev_outs.
            if i \<ge> length prev_outs then Inl (Plain ''index out of range'')
            else
              and_then (verify_script_path_witness B (ppk_tx packet) i (snd (prev_outs ! i)) prev_outs witness) (\<lambda>_.
              and_then (wrap_with (\<lambda>e. Wrapf ''serialize script-path witness: '' e []) (bl_write_witness B witness)) (\<lambda>serialized.
                if pin_final_script_witness pin \<noteq> [] \<and> pin_final_script_witness pin \<noteq> serialized
                then Inl (Plain ''input already has a different final witness'')
                else Inr (packet\<lparr>ppk_inputs := (ppk_inputs packet)[i := pin\<lparr>pin_final_script_witness := serialized\<rparr>]\<rparr>)))))"

definition apply_script_path_witness ::
    "('k, 'g, 'f, 'y) native_lib_scheme \<Rightarrow> ('k, 's, 'z) package_lib_scheme \<Rightarrow> ('k, 'g, 'f, 'c, 'x) vpacket_lib_scheme \<Rightarrow>
     transfer_package \<Rightarrow> bytes \<Rightarrow> bytes list \<Rightarrow> transfer_package result" where
  "apply_script_path_witness N B V p request_id elements =
     and_then (package_signing_requests N B V p) (\<lambda>requests.
       case find (\<lambda>r. sr_id r = request_id) (rs_script_path requests) of
         None \<Rightarrow> Inl (Plain ''unknown script-path signing request'')
       | Some r \<Rightarrow>
           and_then (wrap_with (\<lambda>e. Wrapf ''anchor PSBT: '' e []) (decode_anchor_psbt B (tpk_anchor_psbt p))) (\<lambda>packet.
           and_then (put_final_witness B packet (unat (sx_input_index r)) (elements @ [sr_leaf_script r, sr_control_block r])) (\<lambda>packet1.
             store_anchor_packet N B V p packet1)))"

text \<open>\<open>verifyFinalAnchorSigningPlans\<close> on the package: the requests are derived again.\<close>

definition verify_final_plans ::
    "('k, 'g, 'f, 'y) native_lib_scheme \<Rightarrow> ('k, 's, 'z) package_lib_scheme \<Rightarrow> ('k, 'g, 'f, 'c, 'x) vpacket_lib_scheme \<Rightarrow>
     transfer_package \<Rightarrow> wire_tx \<Rightarrow> unit result" where
  "verify_final_plans N B V p final_tx =
     verify_final_signing_plans (lib.truncate N) B (package_signing_requests N B V p) (tpk_signing_plans p)
       (tpk_backend_managed p) final_tx"

definition verify_final_anchor_psbt ::
    "('k, 'g, 'f, 'y) native_lib_scheme \<Rightarrow> ('k, 's, 'z) package_lib_scheme \<Rightarrow> ('k, 'g, 'f, 'c, 'x) vpacket_lib_scheme \<Rightarrow>
     transfer_package \<Rightarrow> bytes \<Rightarrow> unit result" where
  "verify_final_anchor_psbt N B V p final_bytes =
     and_then (validate_package N B V p) (\<lambda>_.
     and_then (sanitize_final_psbt B (tpk_committed_psbt p) final_bytes) (\<lambda>(_, final_packet).
       if \<not> all_inputs_finalized final_packet then Inr ()
       else
         and_then (wrap_with (\<lambda>e. Wrapf ''final anchor PSBT is not finalized: '' e []) (bl_extract B final_packet)) (\<lambda>final_tx.
         and_then (verify_final_plans N B V p final_tx) (\<lambda>_.
           verify_final_witnesses B final_packet final_tx))))"

definition with_final_anchor_psbt ::
    "('k, 'g, 'f, 'y) native_lib_scheme \<Rightarrow> ('k, 's, 'z) package_lib_scheme \<Rightarrow> ('k, 'g, 'f, 'c, 'x) vpacket_lib_scheme \<Rightarrow>
     transfer_package \<Rightarrow> bytes \<Rightarrow> transfer_package result" where
  "with_final_anchor_psbt N B V p final_bytes =
     and_then (validate_package N B V p) (\<lambda>_.
     and_then (sanitize_final_psbt B (tpk_committed_psbt p) final_bytes) (\<lambda>(sanitized, final_packet).
     and_then (wrap_with (\<lambda>e. Wrapf ''final anchor PSBT is not finalized: '' e []) (bl_extract B final_packet)) (\<lambda>final_tx.
     and_then (verify_final_plans N B V p final_tx) (\<lambda>_.
     and_then (verify_final_witnesses B final_packet final_tx) (\<lambda>_.
     and_then (refresh_package_digest B (p\<lparr>tpk_anchor_psbt := sanitized\<rparr>)) (\<lambda>clone.
     and_then (validate_package N B V clone) (\<lambda>_. Inr clone)))))))"

section \<open>Encodings\<close>

definition package_magic :: bytes where
  "package_magic = domain_bytes ''TAPCAPKG''"

definition binary_header :: nat where "binary_header = 14"

definition marshal_json ::
    "('k, 'g, 'f, 'y) native_lib_scheme \<Rightarrow> ('k, 's, 'z) package_lib_scheme \<Rightarrow> ('k, 'g, 'f, 'c, 'x) vpacket_lib_scheme \<Rightarrow>
     transfer_package \<Rightarrow> bytes result" where
  "marshal_json N B V p = and_then (validate_package N B V p) (\<lambda>_. kj_marshal B p)"

definition unmarshal_json ::
    "('k, 'g, 'f, 'y) native_lib_scheme \<Rightarrow> ('k, 's, 'z) package_lib_scheme \<Rightarrow> ('k, 'g, 'f, 'c, 'x) vpacket_lib_scheme \<Rightarrow>
     bytes \<Rightarrow> transfer_package result" where
  "unmarshal_json N B V d =
     and_then (wrap_with (\<lambda>e. Wrapf ''decode custom anchor package: '' e []) (kj_decode B d)) (\<lambda>p.
     and_then (validate_package N B V p) (\<lambda>_. Inr p))"

definition marshal_package ::
    "('k, 'g, 'f, 'y) native_lib_scheme \<Rightarrow> ('k, 's, 'z) package_lib_scheme \<Rightarrow> ('k, 'g, 'f, 'c, 'x) vpacket_lib_scheme \<Rightarrow>
     transfer_package \<Rightarrow> bytes result" where
  "marshal_package N B V p =
     and_then (marshal_json N B V p) (\<lambda>payload.
       if length payload > 2 ^ 32 - 1 then Inl (Plain ''custom anchor package is too large'')
       else Inr (package_magic @ be_bytes 2 (unat (tpk_schema_version p)) @ be_bytes 4 (length payload) @ payload))"

definition unmarshal_package ::
    "('k, 'g, 'f, 'y) native_lib_scheme \<Rightarrow> ('k, 's, 'z) package_lib_scheme \<Rightarrow> ('k, 'g, 'f, 'c, 'x) vpacket_lib_scheme \<Rightarrow>
     bytes \<Rightarrow> transfer_package result" where
  "unmarshal_package N B V d =
     (if length d < binary_header then Inl (Plain ''custom anchor package binary envelope is short'')
      else if take 8 d \<noteq> package_magic then Inl (Plain ''invalid custom anchor package binary magic'')
      else if be_nat (take 2 (drop 8 d)) \<noteq> unat package_version
      then Inl (Plain ''unsupported custom anchor package version'')
      else if be_nat (take 4 (drop 10 d)) \<noteq> length d - binary_header
      then Inl (Plain ''custom anchor package binary length mismatch'')
      else and_then (unmarshal_json N B V (drop binary_header d)) (\<lambda>p.
             if unat (tpk_schema_version p) \<noteq> be_nat (take 2 (drop 8 d))
             then Inl (Plain ''custom anchor package header version mismatch'') else Inr p))"

end
