(* ===== verification/Tap_Demo.thy ===== *)
theory Tap_Demo
  imports Tap_PackageOps
begin

text \<open>
  Concrete libraries and a small sealed package on which the properties of custom-anchor packages are
  applied. There is one key, every signature verifies and every hash is zero; a PSBT is the position
  of its packet in a table. The package moves one asset and has two anchor inputs, the first with a
  key-path plan, the second with a script-path plan.
\<close>

section \<open>Libraries\<close>

definition key32 :: bytes where "key32 = replicate 32 2"
definition key33 :: bytes where "key33 = replicate 33 2"
definition id7 :: bytes where "id7 = replicate 32 7"
definition leaf8 :: bytes where "leaf8 = replicate 32 8"

definition demo_lib :: "unit lib" where
  "demo_lib = \<lparr>
     btcec_parse_pub_key = (\<lambda>_. Inr ()), schnorr_parse_pub_key = (\<lambda>_. Inr ()),
     schnorr_serialize_pub_key = (\<lambda>_. key32), serialize_compressed = (\<lambda>_. key33),
     compute_taproot_output_key = (\<lambda>_ _. ()), wire_write_outpoint = (\<lambda>h i. h @ le_bytes 4 (unat i)),
     convert_bits = (\<lambda>d _ _ _. Inr d), bech32_encode_m = (\<lambda>_ _. Inr ''ref''),
     bech32_decode_generic = (\<lambda>_. Inr (''tapr'', 0 # 0 # id7, VersionM)),
     bech32_decode_no_limit = (\<lambda>_. Inr (''tapr'', [])), status_from_error = (\<lambda>_. None)\<rparr>"

definition demo_op :: "u32 \<Rightarrow> outpoint" where
  "demo_op i = \<lparr>op_txid = zero_hash, op_index = i\<rparr>"

definition demo_prev_id :: prev_id where
  "demo_prev_id = \<lparr>pid_outpoint = demo_op 0, pid_issuance_id = id7, pid_script_key = key33\<rparr>"

definition demo_asset :: "(unit, unit) native_asset" where
  "demo_asset = Native_asset 1 0 [] 5 0 0 (Some ()) None [Native_witness (Some demo_prev_id) [[1]] None]"

definition demo_proof :: "(unit, unit, unit) native_proof" where
  "demo_proof = \<lparr>np_version = 1, np_asset = demo_asset, np_prev_out = demo_op 0, np_anchor_inputs = [],
     np_anchor_outputs = [], np_output_index = 0, np_internal_key = Some (), np_commitment_version = None,
     np_sibling = None, np_alt_leaves = [], np_additional_inputs = [], np_has_challenge_witness = False,
     np_has_split_root_proof = False, np_block_header = [], np_block_height = 0, np_tx_merkle_proof = []\<rparr>"

definition demo_native :: "(unit, unit, unit) native_lib" where
  "demo_native = lib.extend demo_lib (native_lib.fields
     (\<lambda>_. zero_hash) 1 1 0 1 (\<lambda>_. Inr ()) (\<lambda>_. Inr demo_proof) (\<lambda>_. Inr demo_proof) (\<lambda>_. Inr ()) (\<lambda>_. id7)
     (\<lambda>_. False) (\<lambda>_. False) (\<lambda>_. Inr ()) (\<lambda>_. demo_op 0) (\<lambda>_ _. True) (\<lambda>_. ()) (\<lambda>_ _. True) (\<lambda>_. Inr [])
     (\<lambda>_ s _ _. Inr s) (\<lambda>f _. Inr f) (\<lambda>_. Inr []) (\<lambda>_ _. Inr []) (\<lambda>_. Inr ()) (\<lambda>c _. Inr c) (\<lambda>b. Inr b)
     (\<lambda>c _. c) (\<lambda>_. Inr []) (\<lambda>_. zero_hash) (\<lambda>_. Inr ([], [])) (\<lambda>_ _. Inr []) (\<lambda>_. Inr [1]) (\<lambda>f _. Inr f)
     (\<lambda>_. Inr [1]) 1000)"

definition demo_vpacket :: "(unit, unit, unit) tap_vpacket" where
  "demo_vpacket = \<lparr>tvp_version = 1,
     tvp_inputs = [\<lparr>tvi_asset = Some demo_asset, tvi_prev_id = demo_prev_id, tvi_proof = None, tvi_bip32 = [],
       tvi_tr_bip32 = [], tvi_other = []\<rparr>],
     tvp_outputs = [\<lparr>tvo_asset = Some demo_asset, tvo_split_asset = None, tvo_script_key = Some (), tvo_amount = 5,
       tvo_type = VOutSimple, tvo_interactive = True, tvo_asset_version = 1, tvo_anchor_output_index = 0,
       tvo_anchor_internal_key = Some (), tvo_sibling = None, tvo_courier = None, tvo_alt_leaves = [],
       tvo_proof_suffix = Some demo_proof, tvo_other = []\<rparr>],
     tvp_other = []\<rparr>"

definition demo_vlib :: "(unit, unit, unit, unit) vpacket_lib" where
  "demo_vlib = \<lparr>vl_decode = (\<lambda>_. Inr demo_vpacket), vl_encode = (\<lambda>_. Inr [1]), vl_packet_v1 = 1,
     vl_has_split = (\<lambda>_. Inr False), vl_split_root_output = (\<lambda>_. Inr 0), vl_packet_asset_id = (\<lambda>_. Inr id7),
     vl_validate_witnesses = (\<lambda>_ _ _. Inr ()), vl_validate_anchor_inputs = (\<lambda>_ _. Inr ()),
     vl_validate_anchor_outputs = (\<lambda>_ _ _. Inr ()), vl_create_commitments = (\<lambda>_ _. Inr (\<lambda>_. Some ())),
     vl_anchor_output_script = (\<lambda>_ _ _. Inr ([], zero_hash, zero_hash)),
     vl_create_proof_suffix = (\<lambda>_ _ _ _ _ _ _. Inr demo_proof), vl_is_unknown_version = (\<lambda>_. False),
     vl_is_burn = (\<lambda>_. False), vl_to_pub_key = (\<lambda>_. Inr ()), vl_to_serialized = (\<lambda>_. key33), vl_leaf_key = (\<lambda>l. l),
     vl_leaf_equal = (=), vl_asset_equal = (\<lambda>_ _. True), vl_proof_equal = (\<lambda>_ _. True)\<rparr>"

section \<open>Anchor PSBTs\<close>

definition demo_script :: bytes where "demo_script = [0x51]"
definition demo_signature :: bytes where "demo_signature = replicate 64 1"

definition demo_tx :: wire_tx where
  "demo_tx = \<lparr>wtx_version = 2, wtx_lock_time = 0,
     wtx_ins = [\<lparr>win_prev_out = demo_op 0, win_sequence = 0, win_signature_script = [], win_witness = []\<rparr>,
                \<lparr>win_prev_out = demo_op 1, win_sequence = 0, win_signature_script = [], win_witness = []\<rparr>],
     wtx_outs = [\<lparr>txo_value = 1500, txo_pk_script = demo_script\<rparr>]\<rparr>"

text \<open>An input with its key-path signature, its final witness, internal key and leaf scripts.\<close>

definition demo_pin :: "bytes \<Rightarrow> bytes \<Rightarrow> bytes \<Rightarrow> tap_leaf_script list \<Rightarrow> psbt_input" where
  "demo_pin signature witness key leaves = \<lparr>pin_non_witness_utxo = None,
     pin_witness_utxo = Some \<lparr>txo_value = 1000, txo_pk_script = demo_script\<rparr>, pin_partial_sigs = [],
     pin_sighash_type = 0, pin_bip32 = [], pin_final_script_sig = [], pin_final_script_witness = witness,
     pin_key_spend_sig = signature, pin_script_spend_sigs = [], pin_leaf_scripts = leaves, pin_tr_bip32 = [],
     pin_internal_key = key, pin_merkle_root = [], pin_other = []\<rparr>"

definition demo_leaf :: tap_leaf_script where
  "demo_leaf = \<lparr>tl_control_block = [1], tl_script = demo_script, tl_leaf_version = 0xc0\<rparr>"

definition demo_psbt :: "bytes \<Rightarrow> bytes \<Rightarrow> bytes \<Rightarrow> psbt_packet" where
  "demo_psbt signature witness0 witness1 = \<lparr>ppk_tx = demo_tx,
     ppk_inputs = [demo_pin signature witness0 key32 [], demo_pin [] witness1 [] [demo_leaf]],
     ppk_outputs = [\<lparr>pou_internal_key = [], pou_bip32 = [], pou_tr_bip32 = [], pou_unknowns = [], pou_other = []\<rparr>],
     ppk_xpubs = [], ppk_unknowns = []\<rparr>"

text \<open>Unsigned, with a key-path signature, final, with a script-path witness.\<close>

definition demo_table :: "(byte \<times> psbt_packet) list" where
  "demo_table = [(1, demo_psbt [] [] []), (2, demo_psbt demo_signature [] []), (3, demo_psbt [] [1] [1]),
     (4, demo_psbt [] [] [1])]"

definition demo_decode :: "bytes \<Rightarrow> psbt_packet result" where
  "demo_decode b =
     (case b of [n] \<Rightarrow> (case map_of demo_table n of Some p \<Rightarrow> Inr p | None \<Rightarrow> Inl (Plain ''no packet''))
      | _ \<Rightarrow> Inl (Plain ''no packet''))"

definition demo_serialize :: "psbt_packet \<Rightarrow> bytes result" where
  "demo_serialize p =
     (case find (\<lambda>(n, q). q = p) demo_table of Some (n, q) \<Rightarrow> Inr [n] | None \<Rightarrow> Inl (Plain ''no bytes''))"

definition demo_extract :: "psbt_packet \<Rightarrow> wire_tx result" where
  "demo_extract p = Inr ((ppk_tx p)\<lparr>wtx_ins := map (\<lambda>t. t\<lparr>win_witness :=
     (if op_index (win_prev_out t) = 0 then [demo_signature] else [demo_script, [1]])\<rparr>) (wtx_ins (ppk_tx p))\<rparr>)"

definition demo_input_summary :: input_summary where
  "demo_input_summary = \<lparr>cin_logical_id = ''in'', cin_logical_index = 0, cin_packet_index = 0,
     cin_packet_role = RoleActive, cin_virtual_index = 0, cin_anchor_index = 0, cin_asset_ref = ''ref'',
     cin_issuance_id = id7, cin_asset_type = 0, cin_anchor_outpoint = demo_op 0, cin_script_key = key33,
     cin_amount = 5, cin_proof_source = \<lparr>psm_kind = ProofSourceConfirmedFile, psm_content_id = zero_hash, psm_blob = [1]\<rparr>\<rparr>"

definition demo_delivery :: proof_delivery where
  "demo_delivery = \<lparr>pd_recipient_id = [], pd_courier_address = [], pd_opaque_metadata = []\<rparr>"

definition demo_output_summary :: output_summary where
  "demo_output_summary = \<lparr>cou_logical_id = ''out'', cou_logical_index = 0, cou_packet_index = 0,
     cou_packet_role = RoleActive, cou_virtual_index = 0, cou_anchor_index = 0, cou_asset_ref = ''ref'',
     cou_issuance_id = id7, cou_asset_type = 0, cou_anchor_outpoint = demo_op 0, cou_anchor_value_sat = 1500,
     cou_asset_root = zero_hash, cou_merkle_root = zero_hash, cou_script_key = key33, cou_amount = 5,
     cou_script_mode = ScriptWallet, cou_proof_delivery = demo_delivery, cou_op_true_spend = None\<rparr>"

definition demo_update :: proof_update where
  "demo_update = \<lparr>cpu_logical_id = ''out'', cpu_logical_index = 0, cpu_packet_index = 0,
     cpu_packet_role = RoleActive, cpu_virtual_index = 0, cpu_anchor_index = 0, cpu_asset_ref = ''ref'',
     cpu_issuance_id = id7, cpu_script_key = key33, cpu_anchor_outpoint = demo_op 0, cpu_proof_blob = [1],
     cpu_proof_delivery = demo_delivery\<rparr>"

definition demo_key_plan :: signing_plan where
  "demo_key_plan = \<lparr>gp_input_index = 0, gp_key_path = Some key32, gp_musig2 = None, gp_script_path = None, gp_caller_signed = None\<rparr>"

definition demo_script_plan :: signing_plan where
  "demo_script_plan = \<lparr>gp_input_index = 1, gp_key_path = None, gp_musig2 = None,
     gp_script_path = Some \<lparr>sp_leaf_hash = leaf8, sp_required_signers = []\<rparr>, gp_caller_signed = None\<rparr>"

definition demo_package :: "bytes \<Rightarrow> transfer_package" where
  "demo_package anchor = \<lparr>tpk_schema_version = 1, tpk_plan_id = id7, tpk_committed_digest = zero_hash,
     tpk_unsigned_digest = zero_hash, tpk_package_digest = zero_hash, tpk_committed_psbt = [1],
     tpk_anchor_psbt = anchor, tpk_active = [[1]], tpk_passive = [], tpk_change_output_index = -1,
     tpk_locked = [], tpk_funding_lock = \<lparr>flk_custom_lock_id = [], flk_expiration_seconds = 0\<rparr>,
     tpk_funding = \<lparr>fsm_mode = FundingCallerFundedExact, fsm_p2a_output_index = None, fsm_actual_fee_sat = 500, fsm_max_fee_sat = 0\<rparr>,
     tpk_inputs = [demo_input_summary], tpk_outputs = [demo_output_summary], tpk_updates = [demo_update],
     tpk_signing_plans = [demo_key_plan, demo_script_plan], tpk_backend_managed = [],
     tpk_publish = \<lparr>pmd_skip_anchor_tx_broadcast = False, pmd_label = [], pmd_external_broadcast = False\<rparr>\<rparr>"

text \<open>The hash of a plan is not zero, so that its package has an identifier.\<close>

definition demo_sha :: "bytes \<Rightarrow> bytes" where
  "demo_sha b = (if 23 < length b \<and> b ! 23 = 0x6c then id7 else zero_hash)"

definition demo_btc :: "(unit, unit) package_lib" where
  "demo_btc = \<lparr>
     sc_parse_control_block = (\<lambda>_. Inr \<lparr>cb_leaf_version = 0xc0, cb_internal_key = (), cb_output_key_y_is_odd = False, cb_inclusion_proof = []\<rparr>),
     sc_verify_leaf_commitment = (\<lambda>_ _ _. Inr ()), sc_root_hash = (\<lambda>_ _. []), sc_tap_leaf_hash = (\<lambda>_ _. leaf8),
     bl_decode_psbt = demo_decode, bl_sanity_check = (\<lambda>_. Inr ()), bl_serialize_psbt = demo_serialize,
     bl_extract = demo_extract, bl_tx_hash = (\<lambda>_. zero_hash), bl_tx_sanity = (\<lambda>_. Inr ()),
     bl_serialize_no_witness = (\<lambda>_. Inr []), bl_serialize_tx = (\<lambda>_. Inr []), bl_write_witness = (\<lambda>_. Inr [1]),
     bl_is_p2tr = (\<lambda>_. True), bl_is_p2wpkh = (\<lambda>_. False), bl_is_p2wsh = (\<lambda>_. False), bl_is_dust = (\<lambda>_. False),
     bl_witness_program = (\<lambda>_. Inr key32), bl_key_sighash = (\<lambda>_ _ _ _. Inr leaf8),
     bl_script_sighash = (\<lambda>_ _ _ _ _ _. Inr leaf8), bl_execute = (\<lambda>_ _ _ _ _. Inr ()),
     bl_opcodes = (\<lambda>_. ([], Inr ())), bl_parse_signature = (\<lambda>_. Inr ()), bl_verify_signature = (\<lambda>_ _ _. True),
     bl_musig2_aggregate = (\<lambda>_. Inr ()), bl_sha256 = demo_sha, bl_max_satoshi = 2100000000000000,
     bl_merkle_root_key = [1], bl_asset_root_key = [2], bl_extract_field = (\<lambda>_ _. zero_hash),
     bl_add_field = (\<lambda>u k v. u @ [(k, v)]), kj_marshal = (\<lambda>_. Inr [1]), kj_decode = (\<lambda>_. Inr (demo_package [1]))\<rparr>"

section \<open>Evaluation\<close>

lemma demo_lib_sel [simp]:
  "lib.truncate demo_native = demo_lib"
  by (simp add: demo_native_def demo_lib_def lib.defs native_lib.defs)

lemma demo_lib_fields [simp]:
  "btcec_parse_pub_key demo_lib b = Inr ()" "schnorr_parse_pub_key demo_lib b = Inr ()"
  "schnorr_serialize_pub_key demo_lib k = key32" "serialize_compressed demo_lib k = key33"
  "compute_taproot_output_key demo_lib k d = ()" "convert_bits demo_lib d f t pad = Inr d"
  "bech32_encode_m demo_lib hrp d = Inr ''ref''"
  "bech32_decode_generic demo_lib s = Inr (''tapr'', 0 # 0 # id7, VersionM)"
  by (simp_all add: demo_lib_def)

lemma demo_native_fields [simp]:
  "serialize_compressed demo_native k = key33" "nl_decode_file demo_native b = Inr ()"
  "nl_last_proof demo_native f = Inr demo_proof" "nl_decode_proof demo_native b = Inr demo_proof"
  "nl_asset_id demo_native a = id7" "nl_check_activation demo_native t = Inr ()"
  "nl_out_point demo_native t = demo_op 0" "nl_key_is_equal demo_native k k' = True"
  "nl_proof_bytes demo_native t = Inr [1]" "nl_transition_v1 demo_native = 1"
  by (simp_all add: demo_native_def demo_lib_def lib.defs native_lib.defs)

lemma demo_lengths [simp]:
  "length key32 = 32" "length key33 = 33" "length id7 = 32" "length zero_hash = 32" "length leaf8 = 32"
  "length demo_signature = 64" "key32 \<noteq> []" "key33 \<noteq> []" "id7 \<noteq> zero_hash" "leaf8 \<noteq> zero_hash" "demo_signature \<noteq> []"
  "[] \<noteq> demo_signature"
  by (simp_all add: key32_def key33_def id7_def zero_hash_def leaf8_def demo_signature_def)

lemma demo_psbt_inj [simp]:
  "demo_psbt a b c = demo_psbt a' b' c' \<longleftrightarrow> a = a' \<and> b = b' \<and> c = c'"
  by (auto simp: demo_psbt_def demo_pin_def)

lemma demo_codec [simp]:
  "demo_decode [1] = Inr (demo_psbt [] [] [])" "demo_decode [2] = Inr (demo_psbt demo_signature [] [])"
  "demo_decode [3] = Inr (demo_psbt [] [1] [1])" "demo_decode [4] = Inr (demo_psbt [] [] [1])"
  "demo_serialize (demo_psbt [] [] []) = Inr [1]" "demo_serialize (demo_psbt demo_signature [] []) = Inr [2]"
  "demo_serialize (demo_psbt [] [1] [1]) = Inr [3]" "demo_serialize (demo_psbt [] [] [1]) = Inr [4]"
  by (simp_all add: demo_decode_def demo_serialize_def demo_table_def)

lemma demo_btc_fields [simp]:
  "bl_decode_psbt demo_btc = demo_decode" "bl_serialize_psbt demo_btc = demo_serialize"
  "bl_sanity_check demo_btc packet = Inr ()" "bl_extract demo_btc = demo_extract" "bl_tx_hash demo_btc tx = zero_hash"
  "bl_tx_sanity demo_btc tx = Inr ()" "bl_serialize_no_witness demo_btc tx = Inr []"
  "bl_write_witness demo_btc w = Inr [1]" "bl_is_p2tr demo_btc b = True" "bl_is_dust demo_btc txo = False"
  "bl_witness_program demo_btc b = Inr key32" "bl_key_sighash demo_btc tx prevs ty n = Inr leaf8"
  "bl_script_sighash demo_btc tx prevs ty n v b = Inr leaf8" "bl_execute demo_btc b tx n prevs amt = Inr ()"
  "bl_opcodes demo_btc b = ([], Inr ())" "bl_parse_signature demo_btc b = Inr ()"
  "bl_verify_signature demo_btc sg b k = True" "bl_sha256 demo_btc = demo_sha"
  "bl_max_satoshi demo_btc = 2100000000000000" "bl_extract_field demo_btc u b = zero_hash"
  "kj_marshal demo_btc pkg = Inr [1]" "kj_decode demo_btc b = Inr (demo_package [1])"
  "sc_verify_leaf_commitment demo_btc cb b b' = Inr ()" "sc_root_hash demo_btc cb b = []"
  "sc_tap_leaf_hash demo_btc v b = leaf8"
  "sc_parse_control_block demo_btc b = Inr \<lparr>cb_leaf_version = 0xc0, cb_internal_key = (), cb_output_key_y_is_odd = False, cb_inclusion_proof = []\<rparr>"
  by (simp_all add: demo_btc_def)

lemma demo_digest [simp]:
  "anchor_digest demo_btc (domain_bytes ''tap-sdk/custom-anchor/committed-package/v1'') b = zero_hash"
  "anchor_digest demo_btc (domain_bytes ''tap-sdk/custom-anchor/package/v1'') b = zero_hash"
  "anchor_digest demo_btc (domain_bytes ''tap-sdk/custom-anchor/unsigned-tx/v1'') b = zero_hash"
  "anchor_digest demo_btc proof_file_domain b = zero_hash"
  "anchor_digest demo_btc signing_request_domain b = zero_hash"
  by (simp_all add: anchor_digest_def demo_sha_def domain_bytes_def proof_file_domain_def signing_request_domain_def)

lemma demo_vlib_fields [simp]:
  "vl_decode demo_vlib b = Inr demo_vpacket" "vl_packet_v1 demo_vlib = 1" "vl_has_split demo_vlib q = Inr False"
  "vl_packet_asset_id demo_vlib q = Inr id7" "vl_validate_witnesses demo_vlib a splits inputs = Inr ()"
  "vl_validate_anchor_inputs demo_vlib packet qs = Inr ()" "vl_validate_anchor_outputs demo_vlib packet qs f = Inr ()"
  "vl_create_commitments demo_vlib qs f = Inr (\<lambda>_. Some ())"
  "vl_anchor_output_script demo_vlib k sib c = Inr ([], zero_hash, zero_hash)"
  "vl_create_proof_suffix demo_vlib tx outs q cs n qs ty = Inr demo_proof" "vl_is_unknown_version demo_vlib np = False"
  "vl_is_burn demo_vlib a = False" "vl_to_pub_key demo_vlib b = Inr ()" "vl_to_serialized demo_vlib k = key33"
  "vl_leaf_key demo_vlib b = b" "vl_leaf_equal demo_vlib = (=)" "vl_asset_equal demo_vlib a a' = True"
  "vl_proof_equal demo_vlib np np' = True"
  by (simp_all add: demo_vlib_def)

section \<open>The package is valid, signed and finished\<close>

lemma demo_psbt_fields [simp]:
  "ppk_tx (demo_psbt a b c) = demo_tx" "ppk_inputs (demo_psbt a b c) = [demo_pin a b key32 [], demo_pin [] c [] [demo_leaf]]"
  "length (ppk_outputs (demo_psbt a b c)) = 1" "pou_unknowns (ppk_outputs (demo_psbt a b c) ! 0) = []"
  by (simp_all add: demo_psbt_def)

lemma demo_op_inj [simp]: "demo_op i = demo_op j \<longleftrightarrow> i = j" "op_txid (demo_op i) = zero_hash" "op_index (demo_op i) = i"
  by (auto simp: demo_op_def)

definition demo_prevs :: "(outpoint \<times> tx_out) list" where
  "demo_prevs = [(demo_op 0, \<lparr>txo_value = 1000, txo_pk_script = demo_script\<rparr>), (demo_op 1, \<lparr>txo_value = 1000, txo_pk_script = demo_script\<rparr>)]"

lemma demo_prev_outs [simp]: "anchor_prev_outs demo_btc (demo_psbt a b c) = Inr demo_prevs"
  by (simp add: anchor_prev_outs_def demo_tx_def anchor_prev_out_def demo_pin_def demo_prevs_def demo_script_def)

lemma demo_decodes [simp]: "decode_anchor_psbt demo_btc [1] = Inr (demo_psbt [] [] [])"
  "decode_anchor_psbt demo_btc [2] = Inr (demo_psbt demo_signature [] [])"
  "decode_anchor_psbt demo_btc [3] = Inr (demo_psbt [] [1] [1])"
  "decode_anchor_psbt demo_btc [4] = Inr (demo_psbt [] [] [1])"
  by (simp_all add: decode_anchor_psbt_def)

lemma demo_transaction [simp]: "validate_bitcoin_transaction demo_btc (demo_psbt a b c) True = Inr ()"
  by (simp add: validate_bitcoin_transaction_def demo_tx_def add_satoshis_def demo_prevs_def)

lemma demo_fee [simp]: "transaction_fee demo_btc (demo_psbt a b c) = Inr 500"
  by (simp add: transaction_fee_def) (simp add: demo_prevs_def demo_tx_def)

lemma demo_fields_ok: "x \<noteq> [] \<Longrightarrow> package_fields_ok (demo_package x) = Inr ()"
  by (simp add: package_fields_ok_def demo_package_def validate_lock_id_def validate_lock_expiration_def)

lemma demo_funding: "funding_summary_ok demo_btc (demo_package x) a = Inr ()"
  by (simp add: funding_summary_ok_def demo_package_def reject_backend_funding_def)

lemma demo_package_fields [simp]:
  "tpk_schema_version (demo_package x) = 1" "tpk_plan_id (demo_package x) = id7" "tpk_committed_digest (demo_package x) = zero_hash"
  "tpk_unsigned_digest (demo_package x) = zero_hash" "tpk_package_digest (demo_package x) = zero_hash"
  "tpk_committed_psbt (demo_package x) = [1]" "tpk_anchor_psbt (demo_package x) = x" "tpk_active (demo_package x) = [[1]]"
  "tpk_passive (demo_package x) = []" "tpk_change_output_index (demo_package x) = -1"
  "flk_custom_lock_id (tpk_funding_lock (demo_package x)) = []"
  "fsm_actual_fee_sat (tpk_funding (demo_package x)) = 500" "tpk_inputs (demo_package x) = [demo_input_summary]"
  "tpk_outputs (demo_package x) = [demo_output_summary]" "tpk_updates (demo_package x) = [demo_update]"
  "tpk_signing_plans (demo_package x) = [demo_key_plan, demo_script_plan]" "tpk_backend_managed (demo_package x) = []"
  by (simp_all add: demo_package_def)

lemma demo_identity [simp]: "asset_identity demo_native (Some demo_asset) = Inr (''ref'', id7, 0)"
  by (simp add: asset_identity_def demo_asset_def asset_ref_from_typed_asset_def asset_ref_from_asset_def
    asset_ref_from_asset_id_def encode_asset_ref_def)

lemma demo_script_key [simp]: "serialized_script_key demo_native (Some k) = Inr key33"
  by (simp add: serialized_script_key_def parse_pub_key_def)

lemma demo_ref [simp]: "asset_ref_validate demo_lib ''ref'' = Inr ()"
  by (simp add: asset_ref_validate_def decode_asset_ref_string_def asset_ref_hrp_def asset_ref_format_version_def
    kind_asset_id_def parse_asset_id_def)

lemma demo_package_ref [simp]: "validate_package_ref demo_lib what ''ref'' = Inr ()"
  by (simp add: validate_package_ref_def asset_ref_is_zero_def)

lemma demo_matches [simp]: "ref_matches_issuance L r r i" "asset_ref_equivalent L r r"
  by (simp_all add: ref_matches_issuance_def asset_ref_equivalent_def)

lemma demo_asset_fields [simp]: "na_script_key demo_asset = Some ()" "na_amount demo_asset = 5"
  "na_prev_witnesses demo_asset = [Native_witness (Some demo_prev_id) [[1]] None]"
  by (simp_all add: demo_asset_def)

lemma demo_input_ok [simp]: "check_input_summary demo_native demo_btc (demo_package x) (demo_psbt a b c) {} demo_input_summary =
   Inr {mapping_key RoleActive 0 0}"
  by (simp add: check_input_summary_def demo_input_summary_def packet_count_def validate_proof_source_def
    proof_source_tip_def demo_proof_def add_mapping_def demo_tx_def)

lemma demo_output_ok [simp]: "check_output_summary demo_lib demo_btc (demo_package x) (demo_psbt a b c) {} demo_output_summary =
   Inr {mapping_key RoleActive 0 0}"
  by (simp add: check_output_summary_def demo_output_summary_def packet_count_def add_mapping_def demo_tx_def)

lemma demo_update_ok [simp]: "check_proof_update demo_lib (demo_package x) (demo_psbt a b c) {} demo_update =
   Inr {mapping_key RoleActive 0 0}"
  by (simp add: check_proof_update_def demo_update_def packet_count_def add_mapping_def demo_tx_def)

lemma demo_two: "{0 ..< 2 :: nat} = {0, 1}" "\<not> (2 :: u32) \<le> 1"
  by (auto simp: word_le_nat_alt)

lemma demo_plans_ok [simp]: "validate_signing_plans demo_lib [demo_key_plan, demo_script_plan] [] 2 = Inr ()"
  by (simp add: validate_signing_plans_def check_plan_def demo_key_plan_def demo_script_plan_def
    validate_plan_variants_def plan_variants_def validate_x_only_key_def validate_x_only_keys_def)
    (simp add: demo_two)

lemma demo_witnesses [simp]: "validate_packet_witnesses demo_vlib demo_vpacket = Inr ()"
  by (simp add: validate_packet_witnesses_def demo_vpacket_def root_output_def authorised_asset_def)

lemma demo_packets [simp]: "decode_virtual_packets demo_vlib l [[1]] = Inr [demo_vpacket]" "tvp_version demo_vpacket = 1"
  by (simp_all add: demo_vpacket_def)

lemma demo_vin: "check_virtual_input demo_native demo_vlib (demo_psbt a b c) (demo_package x) RoleActive 0 0 u
   \<lparr>tvi_asset = Some demo_asset, tvi_prev_id = demo_prev_id, tvi_proof = None, tvi_bip32 = [],
       tvi_tr_bip32 = [], tvi_other = []\<rparr> = Inr ()"
  by (simp add: check_virtual_input_def by_mapping_def input_key_def demo_input_summary_def validate_input_mapping_def
    find_anchor_input_def demo_prev_id_def demo_tx_def keys_equal_def upt_rec)

lemma demo_vout: "check_virtual_output demo_native demo_btc demo_vlib (demo_psbt a b c) (\<lambda>_. Some ()) qs (demo_package x) RoleActive 0 q 0 u
   \<lparr>tvo_asset = Some demo_asset, tvo_split_asset = None, tvo_script_key = Some (), tvo_amount = 5,
       tvo_type = VOutSimple, tvo_interactive = True, tvo_asset_version = 1, tvo_anchor_output_index = 0,
       tvo_anchor_internal_key = Some (), tvo_sibling = None, tvo_courier = None, tvo_alt_leaves = [],
       tvo_proof_suffix = Some demo_proof, tvo_other = []\<rparr> = Inr ()"
  by (simp add: check_virtual_output_def by_mapping_def output_key_def update_key_def demo_output_summary_def demo_update_def
    validate_output_mapping_def voutput_consistent_def keys_equal_def output_summary_matches_def update_matches_summary_def
    derive_output_roots_def validate_root_hints_def demo_tx_def courier_string_def demo_delivery_def proof_update_matches_def
    transition_proofs_equal_def demo_proof_def alt_leaves_equal_def)

lemma demo_semantic: "validate_semantic_mappings demo_native demo_btc demo_vlib (demo_package x) (demo_psbt a b c)
   {mapping_key RoleActive 0 0} {mapping_key RoleActive 0 0} {mapping_key RoleActive 0 0} = Inr ()"
  using demo_vin demo_vout
  by (simp add: validate_semantic_mappings_def check_collection_def count_inputs_def count_outputs_def demo_vpacket_def [symmetric])
    (simp add: demo_vpacket_def)

lemma demo_structure [simp]: "x \<noteq> [] \<Longrightarrow> validate_structure demo_native demo_btc demo_vlib (demo_package x) = Inr ()"
  by (simp add: validate_structure_def demo_fields_ok demo_funding demo_semantic validate_package_psbts_def)
    (simp add: demo_tx_def)

lemma demo_unsigned_digest [simp]: "unsigned_tx_digest demo_btc [1] = Inr zero_hash"
  by (simp add: unsigned_tx_digest_def)

lemma demo_compare [simp]: "compare_unsigned_transactions demo_tx demo_tx = Inr ()"
  by (simp add: compare_unsigned_transactions_def demo_tx_def compare_tx_in_def compare_tx_out_def equal_wire_tx_out_def)

lemma demo_pin_fields [simp]:
  "pin_final_script_sig (demo_pin s w k l) = []" "pin_final_script_witness (demo_pin s w k l) = w"
  "pin_key_spend_sig (demo_pin s w k l) = s" "pin_internal_key (demo_pin s w k l) = k" "pin_leaf_scripts (demo_pin s w k l) = l"
  "pin_merkle_root (demo_pin s w k l) = []" "pin_sighash_type (demo_pin s w k l) = 0"
  "(demo_pin s w k l)\<lparr>pin_final_script_witness := v\<rparr> = demo_pin s v k l"
  "(demo_pin s w k l)\<lparr>pin_key_spend_sig := v\<rparr> = demo_pin v w k l"
  by (simp_all add: demo_pin_def)

lemma demo_take [simp]: "take_final_fields (demo_pin s w k l) (demo_pin s' w' k l) = demo_pin s w' k l"
  "strip_input_signatures (demo_pin s w k l) = demo_pin [] [] k l"
  by (simp_all add: take_final_fields_def strip_input_signatures_def demo_pin_def)

lemma demo_psbt_update [simp]:
  "(demo_psbt a b c)\<lparr>ppk_inputs := [demo_pin a' b' key32 [], demo_pin [] c' [] [demo_leaf]]\<rparr> = demo_psbt a' b' c'"
  by (simp add: demo_psbt_def)

lemma demo_serialized [simp]:
  "serialize_anchor_psbt demo_btc (demo_psbt [] [] []) = Inr [1]"
  "serialize_anchor_psbt demo_btc (demo_psbt demo_signature [] []) = Inr [2]"
  "serialize_anchor_psbt demo_btc (demo_psbt [] [1] [1]) = Inr [3]"
  "serialize_anchor_psbt demo_btc (demo_psbt [] [] [1]) = Inr [4]"
  by (simp_all add: serialize_anchor_psbt_def)

lemma demo_sanitize: "sanitize_final_psbt demo_btc [1] [3] = Inr ([3], demo_psbt [] [1] [1])"
  "sanitize_final_psbt demo_btc [1] [4] = Inr ([4], demo_psbt [] [] [1])"
  "sanitize_final_psbt demo_btc [1] [2] = Inr ([1], demo_psbt [] [] [])"
  by (simp_all add: sanitize_final_psbt_def)

lemma demo_canonical [simp]: "x \<in> {1, 2, 3, 4} \<Longrightarrow> canonical_anchor_psbt demo_btc [x] False = Inr [x]"
  "x \<in> {1, 2, 3, 4} \<Longrightarrow> canonical_anchor_psbt demo_btc [x] True = Inr [1]"
  by (auto simp: canonical_anchor_psbt_def)

lemma demo_finalized: "input_finalized (demo_pin s w k l) \<longleftrightarrow> w \<noteq> []"
  by (simp add: input_finalized_def demo_pin_def)

lemma demo_metadata: "x \<in> {1, 2, 3, 4} \<Longrightarrow> compare_committed_metadata demo_btc [1] [x] = Inr ()"
  by (auto simp: compare_committed_metadata_def demo_finalized demo_sanitize)

lemma demo_digests [simp]: "committed_digest demo_btc (demo_package y) = Inr zero_hash"
  "x \<in> {1, 2, 3, 4} \<Longrightarrow> current_package_digest demo_btc (demo_package [x]) = Inr zero_hash"
  by (simp_all add: committed_digest_def current_package_digest_def)

lemma demo_valid: "x \<in> {1, 2, 3, 4} \<Longrightarrow> validate_package demo_native demo_btc demo_vlib (demo_package [x]) = Inr ()"
  by (auto simp: validate_package_def package_version_def demo_metadata)

definition demo_context :: "u32 \<Rightarrow> bytes \<Rightarrow> signing_context" where
  "demo_context i merkle_root = \<lparr>sx_input_index = i, sx_prev_out = demo_op i, sx_prev_out_value = 1000,
     sx_prev_out_script = demo_script, sx_sighash_type = 0, sx_sighash = leaf8, sx_internal_key = key32,
     sx_merkle_root = merkle_root\<rparr>"

definition demo_requests :: signing_requests where
  "demo_requests = \<lparr>
     rs_key_path = [signing_context.extend (demo_context 0 []) (key_path_request.fields zero_hash zero_hash key32)],
     rs_musig2 = [],
     rs_script_path = [signing_context.extend (demo_context 1 []) (script_path_request.fields zero_hash zero_hash leaf8
       0xc0 demo_script [1] [])]\<rparr>"

lemma demo_into [simp]: "into_hash leaf8 = leaf8" "into_hash key32 = key32"
  by (simp_all add: into_hash_def)

lemma demo_key_request: "add_signing_request demo_lib demo_btc zero_hash (demo_psbt [] [] []) demo_prevs q demo_key_plan =
   Inr (q\<lparr>rs_key_path := rs_key_path q @ rs_key_path demo_requests\<rparr>)"
  by (simp add: add_signing_request_def demo_key_plan_def key_path_context_def new_signing_context_def demo_tx_def demo_prevs_def
    pub_key_bytes_len_def signing_request_id_def demo_requests_def demo_context_def)

lemma demo_script_request: "add_signing_request demo_lib demo_btc zero_hash (demo_psbt [] [] []) demo_prevs q demo_script_plan =
   Inr (q\<lparr>rs_script_path := rs_script_path q @ rs_script_path demo_requests\<rparr>)"
  by (simp add: add_signing_request_def demo_script_plan_def new_signing_context_def demo_tx_def demo_prevs_def demo_leaf_def
    script_path_request_of_def validate_tapscript_def signing_request_id_def demo_requests_def demo_context_def)

lemma demo_signing_requests: "x \<in> {1, 2, 3, 4} \<Longrightarrow>
   package_signing_requests demo_native demo_btc demo_vlib (demo_package [x]) = Inr demo_requests"
  using demo_plans_ok
  by (simp add: package_signing_requests_def demo_valid derive_signing_requests_def demo_key_request demo_script_request
      demo_tx_def sort_key_def del: demo_plans_ok)
   (simp add: demo_key_request demo_script_request demo_requests_def demo_key_plan_def demo_script_plan_def)

lemma demo_find [simp]: "find_key_request demo_requests zero_hash = Some (demo_context 0 [])"
  by (simp add: find_key_request_def demo_requests_def demo_context_def signing_context.defs key_path_request.defs)

lemma demo_key_verified: "verify_key_path_signature demo_lib demo_btc demo_signature 0 d b = Inr ()"
  by (simp add: verify_key_path_signature_def parse_taproot_signature_def signature_size_def sighash_default_def)

lemma demo_put_key: "put_key_signature (demo_psbt [] [] []) 0 demo_signature = Inr (demo_psbt demo_signature [] [])"
  by (simp add: put_key_signature_def)

lemma demo_package_update [simp]: "(demo_package a)\<lparr>tpk_anchor_psbt := b\<rparr> = demo_package b"
  "(demo_package a)\<lparr>tpk_package_digest := zero_hash\<rparr> = demo_package a"
  by (simp_all add: demo_package_def)

lemma demo_refresh [simp]: "x \<in> {1, 2, 3, 4} \<Longrightarrow> refresh_package_digest demo_btc (demo_package [x]) = Inr (demo_package [x])"
  by (simp add: refresh_package_digest_def)

lemma demo_stored:
  "store_anchor_packet demo_native demo_btc demo_vlib (demo_package b) (demo_psbt demo_signature [] []) = Inr (demo_package [2])"
  "store_anchor_packet demo_native demo_btc demo_vlib (demo_package b) (demo_psbt [] [] [1]) = Inr (demo_package [4])"
  by (simp_all add: store_anchor_packet_def demo_valid)

lemma demo_key_applied: "apply_key_path_signature demo_native demo_btc demo_vlib (demo_package [1]) zero_hash demo_signature =
   Inr (demo_package [2])"
  by (simp add: apply_key_path_signature_def demo_signing_requests)
    (simp add: demo_context_def demo_key_verified demo_put_key demo_stored)

lemma demo_put_script: "put_final_witness demo_btc (demo_psbt [] [] []) (Suc 0) w = Inr (demo_psbt [] [] [1])"
  by (simp add: put_final_witness_def demo_prevs_def) (simp add: verify_script_path_witness_def)

lemma demo_find_script: "find (\<lambda>r. sr_id r = zero_hash) (rs_script_path demo_requests) =
   Some (signing_context.extend (demo_context 1 []) (script_path_request.fields zero_hash zero_hash leaf8 0xc0 demo_script [1] []))"
  by (simp add: demo_requests_def demo_context_def signing_context.defs script_path_request.defs)

lemma demo_script_applied: "apply_script_path_witness demo_native demo_btc demo_vlib (demo_package [1]) zero_hash [] =
   Inr (demo_package [4])"
  by (simp add: apply_script_path_witness_def demo_signing_requests demo_find_script)
    (simp add: demo_context_def signing_context.defs script_path_request.defs demo_put_script demo_stored)

definition demo_final_tx :: wire_tx where
  "demo_final_tx = \<lparr>wtx_version = 2, wtx_lock_time = 0,
     wtx_ins = [\<lparr>win_prev_out = demo_op 0, win_sequence = 0, win_signature_script = [], win_witness = [demo_signature]\<rparr>,
                \<lparr>win_prev_out = demo_op 1, win_sequence = 0, win_signature_script = [], win_witness = [demo_script, [1]]\<rparr>],
     wtx_outs = [\<lparr>txo_value = 1500, txo_pk_script = demo_script\<rparr>]\<rparr>"

lemma demo_extracted [simp]: "demo_extract (demo_psbt a b c) = Inr demo_final_tx"
  by (simp add: demo_extract_def demo_tx_def demo_final_tx_def)

lemma demo_final_plans: "verify_final_plans demo_native demo_btc demo_vlib (demo_package [1]) demo_final_tx = Inr ()"
  by (simp add: verify_final_plans_def verify_final_signing_plans_def demo_signing_requests)
    (simp add: demo_final_tx_def verify_final_input_def demo_requests_def demo_context_def signing_context.defs script_path_request.defs
    key_path_request.defs witness_has_annex_def verify_final_key_path_def demo_key_verified verify_final_script_path_def
    validate_tapscript_def verify_required_signatures_def taproot_annex_tag_def)

lemma demo_final: "with_final_anchor_psbt demo_native demo_btc demo_vlib (demo_package [1]) [3] = Inr (demo_package [3])"
  by (simp add: with_final_anchor_psbt_def demo_valid demo_sanitize demo_final_plans verify_final_witnesses_def demo_valid)
   (simp add: demo_final_tx_def demo_prevs_def)

section \<open>A request and its commit\<close>

definition demo_request :: custom_anchor_request where
  "demo_request = \<lparr>rq_inputs = [],
     rq_outputs = [\<lparr>xo_id = ''out'', xo_asset_ref = ''ref'', xo_amount = 5, xo_anchor_output_index = 0,
       xo_anchor_value_sat = 1500,
       xo_script = \<lparr>sl_mode = ScriptWallet, sl_wallet = Some None, sl_external = None, sl_op_true = None, sl_burn = None\<rparr>,
       xo_anchor = \<lparr>aop_internal_key = \<lparr>ik_pub_key = key33, ik_locator = \<lparr>kl_family = 0, kl_index = 0\<rparr>\<rparr>,
         aop_tapscript = \<lparr>tp_tap_leaves = [], tp_serialized_sibling = []\<rparr>\<rparr>,
       xo_proof_delivery = demo_delivery, xo_absolute_timelock = 0, xo_relative_timelock = 0\<rparr>],
     rq_anchor_psbt = [1],
     rq_funding = \<lparr>fp_mode = FundingCallerFundedExact, fp_wallet_funded = None, fp_caller_funded_exact = Some (),
       fp_external_p2a = None\<rparr>,
     rq_passive_assets = \<lparr>pa_policy = PassiveReject, pa_packets = []\<rparr>,
     rq_loss_policy = \<lparr>lp_mode = LossReject, lp_allowances = [], lp_confirm_irreversible_loss = False\<rparr>,
     rq_signing_plans = []\<rparr>"

text \<open>The commit changes the script of the asset output.\<close>

definition demo_committed :: psbt_packet where
  "demo_committed = (demo_psbt [] [] [])\<lparr>ppk_tx := demo_tx\<lparr>wtx_outs := [\<lparr>txo_value = 1500, txo_pk_script = [0x52]\<rparr>]\<rparr>\<rparr>"


lemma demo_metadata_compatible [simp]: "input_metadata_compatible (demo_pin a b k l) (demo_pin a b k l)"
  by (simp add: input_metadata_compatible_def demo_pin_def)

lemma demo_shape: "verify_committed_shape demo_btc demo_request (demo_psbt [] [] []) demo_committed (-1) = Inr ()"
  by (simp add: verify_committed_shape_def demo_committed_def committed_inputs_ok_def committed_change_ok_def
    demo_request_def)
   (simp add: demo_tx_def demo_psbt_def committed_output_ok_def output_metadata_equal_def)

lemma demo_merge [simp]: "merge_required_input (demo_pin [] [] k l) (demo_pin [] [] k l) = Inr (demo_pin [] [] k l)"
  by (simp add: merge_required_input_def merge_list_def demo_pin_def Let_def equal_wire_tx_out_def)

lemma demo_merged: "fold_res merge_input_step (demo_psbt [] [] []) (zip (wtx_ins demo_tx) (ppk_inputs (demo_psbt [] [] []))) =
   Inr (demo_psbt [] [] [])"
  by (simp add: demo_tx_def merge_input_step_def find_anchor_input_def upt_rec)

lemma demo_merged_outputs: "fold_idx merge_output_step 0 (demo_psbt [] [] []) (ppk_outputs (demo_psbt [] [] [])) =
   Inr (demo_psbt [] [] [])"
  by (simp add: demo_psbt_def merge_output_step_def merge_required_output_def merge_list_def)

lemma demo_stable: "validate_txid_stable_inputs demo_btc (demo_psbt [] [] []) = Inr ()"
  by (simp add: validate_txid_stable_inputs_def demo_tx_def) (simp add: demo_prevs_def)

lemma demo_template: "validate_anchor_template demo_btc demo_request (demo_psbt [] [] []) = Inr ()"
  by (simp add: validate_anchor_template_def demo_request_def has_signature_data_def)
   (simp add: demo_tx_def demo_pin_def)

lemma demo_request_psbt: "rq_anchor_psbt demo_request = [1]"
  by (simp add: demo_request_def)

lemma demo_prepared: "prepare_custom_anchor_psbt demo_btc demo_request (Inr (demo_psbt [] [] [])) = Inr (demo_psbt [] [] [])"
  using demo_merged by (simp add: prepare_custom_anchor_psbt_def demo_template demo_merged_outputs demo_stable demo_request_psbt)

lemma demo_decode_Inr: "demo_decode b = Inr p \<Longrightarrow> \<exists>s w v. p = demo_psbt s w v"
  by (auto simp: demo_decode_def demo_table_def split: list.split_asm option.split_asm if_split_asm)

lemma demo_serialize_Inr: "demo_serialize p = Inr b \<Longrightarrow> b \<noteq> [] \<and> demo_decode b = Inr p"
  by (auto simp: demo_serialize_def demo_decode_def demo_table_def split: option.split_asm if_split_asm)

end
