(* ===== verification/Tap_AnchorShape.thy ===== *)
theory Tap_AnchorShape
  imports Tap_AnchorPsbt Tap_Demo
begin

text \<open>
  What the checks on anchor PSBTs guarantee: the balance of a funded transaction, equality of
  unsigned transactions, what a backend's commit leaves alone, the lock inventory, and that
  merging keeps the caller's metadata.
\<close>

lemma is_ok_guard: "is_ok (if c then Inl e else r) \<longleftrightarrow> \<not> c \<and> is_ok r"
  by simp

section \<open>Balance\<close>

lemma add_satoshis_Inr:
  "add_satoshis B what t v = Inr t' \<longleftrightarrow> 0 \<le> v \<and> v \<le> bl_max_satoshi B \<and> t + v \<le> bl_max_satoshi B \<and> t' = t + v"
  by (auto simp: add_satoshis_def)

lemma satoshi_loop:
  "fold_res (\<lambda>t x. add_satoshis B what t (f x)) t xs = Inr t' \<Longrightarrow>
     (\<forall>x \<in> set xs. 0 \<le> f x) \<and> t' = t + sum_list (map f xs) \<and> (t \<le> bl_max_satoshi B \<longrightarrow> t' \<le> bl_max_satoshi B)"
  by (induction xs arbitrary: t) (fastforce simp: result_simps add_satoshis_Inr)+

lemma satoshi_loop_ok:
  "\<forall>x \<in> set xs. 0 \<le> f x \<Longrightarrow> 0 \<le> t \<Longrightarrow> t + sum_list (map f xs) \<le> bl_max_satoshi B \<Longrightarrow>
     fold_res (\<lambda>t x. add_satoshis B what t (f x)) t xs = Inr (t + sum_list (map f xs))"
proof (induction xs arbitrary: t)
  case Nil
  then show ?case by simp
next
  case (Cons x xs)
  have "0 \<le> sum_list (map f xs)" using Cons.prems(1) by (intro sum_list_nonneg) auto
  with Cons.prems have "add_satoshis B what t (f x) = Inr (t + f x)" by (simp add: add_satoshis_Inr)
  with Cons show ?case by (simp add: add.assoc)
qed

definition zero_value_p2a :: "psbt_packet \<Rightarrow> bool" where
  "zero_value_p2a packet \<longleftrightarrow>
     (\<exists>out \<in> set (wtx_outs (ppk_tx packet)). txo_value out = 0 \<and> txo_pk_script out = canonical_p2a_script)"

definition output_total :: "psbt_packet \<Rightarrow> int" where
  "output_total packet = sum_list (map txo_value (wtx_outs (ppk_tx packet)))"

definition input_total :: "(outpoint \<times> tx_out) list \<Rightarrow> int" where
  "input_total prev_outs = sum_list (map (txo_value \<circ> snd) prev_outs)"

lemma funded_transaction:
  assumes "validate_bitcoin_transaction B packet True = Inr ()"
  obtains prev_outs where "anchor_prev_outs B packet = Inr prev_outs"
    and "\<forall>p \<in> set prev_outs. 0 \<le> txo_value (snd p)" "\<forall>out \<in> set (wtx_outs (ppk_tx packet)). 0 \<le> txo_value out"
    and "output_total packet \<le> input_total prev_outs"
    and "0 \<le> bl_max_satoshi B \<Longrightarrow> input_total prev_outs \<le> bl_max_satoshi B"
    and "zero_value_p2a packet \<Longrightarrow> output_total packet = input_total prev_outs"
proof -
  from assms obtain prev_outs ti to where
    prev: "anchor_prev_outs B packet = Inr prev_outs"
    and ins: "fold_res (\<lambda>t p. add_satoshis B ''input'' t (txo_value (snd p))) 0 prev_outs = Inr ti"
    and outs: "fold_res (\<lambda>t out. add_satoshis B ''output'' t (txo_value out)) 0 (wtx_outs (ppk_tx packet)) = Inr to"
    and "\<not> to > ti" "\<not> (zero_value_p2a packet \<and> ti - to \<noteq> 0)"
    by (auto simp: validate_bitcoin_transaction_def result_simps zero_value_p2a_def split: if_splits)
  with satoshi_loop [OF ins] satoshi_loop [OF outs] show ?thesis
    by (intro that [OF prev]) (auto simp: output_total_def input_total_def comp_def)
qed

text \<open>
  C18. The fee of an anchor transaction is what its inputs are worth beyond its outputs: no
  amount is negative, no total leaves the money supply, so the unsigned result does not wrap, and
  a transaction with a zero-value P2A output pays no fee.
\<close>

theorem anchor_fee_exact:
  assumes "transaction_fee B packet = Inr fee" and "0 \<le> bl_max_satoshi B" "bl_max_satoshi B < 2 ^ 64"
  shows "\<exists>prev_outs. anchor_prev_outs B packet = Inr prev_outs \<and>
    output_total packet + uint fee = input_total prev_outs \<and> 0 \<le> output_total packet \<and>
    (zero_value_p2a packet \<longrightarrow> fee = 0)"
proof -
  from assms(1) obtain prev_outs where ok: "validate_bitcoin_transaction B packet True = Inr ()"
    and prev: "anchor_prev_outs B packet = Inr prev_outs"
    and fee: "fee = of_int (input_total prev_outs - output_total packet)"
    by (auto simp: transaction_fee_def result_simps input_total_def output_total_def)
  from funded_transaction [OF ok] prev assms(2) have
    outs: "\<forall>out \<in> set (wtx_outs (ppk_tx packet)). 0 \<le> txo_value out"
    and le: "output_total packet \<le> input_total prev_outs" "input_total prev_outs \<le> bl_max_satoshi B"
    and p2a: "zero_value_p2a packet \<Longrightarrow> output_total packet = input_total prev_outs"
    by (metis sum.inject(2))+
  have nonneg: "0 \<le> output_total packet"
    unfolding output_total_def using outs by (intro sum_list_nonneg) auto
  have "uint (of_int k :: u64) = k" if "0 \<le> k" "k < 2 ^ 64" for k
    using that by (simp add: uint_word_of_int)
  then have "uint fee = input_total prev_outs - output_total packet"
    unfolding fee using le nonneg assms(3) by (simp del: of_int_diff)
  with prev nonneg p2a fee show ?thesis by auto
qed

theorem anchor_fee_exact_witness: "output_total (demo_psbt [] [] []) + 500 = input_total demo_prevs"
  using anchor_fee_exact [OF demo_fee [of "[]" "[]" "[]"]] by simp

section \<open>Unsigned transactions\<close>

lemma compare_tx_in_ok: "is_ok (compare_tx_in finals i u c) \<longleftrightarrow> c = finals ! i"
  by (cases c; cases "finals ! i") (auto simp: compare_tx_in_def Let_def list.rel_eq)

lemma compare_tx_out_ok: "is_ok (compare_tx_out finals i u c) \<longleftrightarrow> c = finals ! i"
  by (cases c; cases "finals ! i") (auto simp: compare_tx_out_def)

lemma list_eq_nth: "length xs = length ys \<Longrightarrow> (\<forall>j < length xs. xs ! j = ys ! j) \<longleftrightarrow> xs = ys"
  by (auto simp: list_eq_iff_nth_eq)

text \<open>
  The final transaction passes the comparison exactly when it is the committed one: version,
  locktime, inputs with sequences and scripts, and outputs in order.
\<close>

theorem unsigned_comparison_exact: "is_ok (compare_unsigned_transactions a b) \<longleftrightarrow> a = b"
proof -
  have "is_ok (compare_unsigned_transactions a b) \<longleftrightarrow>
      wtx_version a = wtx_version b \<and> wtx_lock_time a = wtx_lock_time b \<and>
      wtx_ins a = wtx_ins b \<and> wtx_outs a = wtx_outs b"
    using list_eq_nth [of "wtx_ins a" "wtx_ins b"] list_eq_nth [of "wtx_outs a" "wtx_outs b"]
    by (auto simp: compare_unsigned_transactions_def is_ok_and_then_unit fold_idx_unit_ok compare_tx_in_ok
        compare_tx_out_ok)
  then show ?thesis by (cases a; cases b) auto
qed

section \<open>What a commit leaves alone\<close>

lemma committed_inputs_iff:
  "is_ok (committed_inputs_ok before after) \<longleftrightarrow>
     length (wtx_ins (ppk_tx before)) \<le> length (wtx_ins (ppk_tx after)) \<and>
     (\<forall>i < length (wtx_ins (ppk_tx before)).
        win_prev_out (wtx_ins (ppk_tx after) ! i) = win_prev_out (wtx_ins (ppk_tx before) ! i) \<and>
        win_sequence (wtx_ins (ppk_tx after) ! i) = win_sequence (wtx_ins (ppk_tx before) ! i) \<and>
        input_metadata_compatible (ppk_inputs before ! i) (ppk_inputs after ! i))"
  by (simp only: committed_inputs_ok_def is_ok_guard fold_idx_unit_ok Let_def is_ok_simps not_less add_0
      de_Morgan_disj not_not simp_thms eq_commute) (auto simp: eq_commute)

text \<open>The outputs a policy may add, and where the existing change output can be.\<close>

lemma committed_change:
  assumes "committed_change_ok funding ins0 ins1 outs0 outs1 change = Inr existing"
  shows "(outs1 = outs0 \<and> change = existing \<or> outs1 = Suc outs0 \<and> change = int outs0 \<and> existing = -1) \<and>
    (fp_mode funding \<noteq> FundingWalletFunded \<longrightarrow> ins1 = ins0 \<and> outs1 = outs0 \<and> change = -1)"
  using assms
  by (auto simp: committed_change_ok_def Let_def split: if_splits option.splits anchor_change_output_mode.splits)

lemma committed_output_iff:
  "is_ok (committed_output_ok B assets existing before after i left) \<longleftrightarrow>
     (if of_nat i \<in> assets
      then existing \<noteq> int i \<and> txo_value left = txo_value (wtx_outs (ppk_tx after) ! i) \<and>
        output_metadata_equal B (ppk_outputs before ! i) (ppk_outputs after ! i)
      else txo_pk_script left = txo_pk_script (wtx_outs (ppk_tx after) ! i) \<and>
        (existing = int i \<or> txo_value left = txo_value (wtx_outs (ppk_tx after) ! i)) \<and>
        ppk_outputs before ! i = ppk_outputs after ! i)"
  by (simp add: committed_output_ok_def Let_def is_ok_guard)

lemma committed_shape_parts:
  assumes "verify_committed_shape B r before after change = Inr ()"
  obtains existing where "wtx_version (ppk_tx after) = wtx_version (ppk_tx before)"
    and "wtx_lock_time (ppk_tx after) = wtx_lock_time (ppk_tx before)"
    and "committed_inputs_ok before after = Inr ()"
    and "committed_change_ok (rq_funding r) (length (wtx_ins (ppk_tx before))) (length (wtx_ins (ppk_tx after)))
      (length (wtx_outs (ppk_tx before))) (length (wtx_outs (ppk_tx after))) change = Inr existing"
    and "\<forall>i < length (wtx_outs (ppk_tx before)).
      is_ok (committed_output_ok B (xo_anchor_output_index ` set (rq_outputs r)) existing before after i
        (wtx_outs (ppk_tx before) ! i))"
proof -
  from assms obtain existing where facts:
    "wtx_version (ppk_tx after) = wtx_version (ppk_tx before)"
    "wtx_lock_time (ppk_tx after) = wtx_lock_time (ppk_tx before)"
    "committed_inputs_ok before after = Inr ()"
    "committed_change_ok (rq_funding r) (length (wtx_ins (ppk_tx before))) (length (wtx_ins (ppk_tx after)))
      (length (wtx_outs (ppk_tx before))) (length (wtx_outs (ppk_tx after))) change = Inr existing"
    and outs: "fold_idx (\<lambda>i _. committed_output_ok B (set (map xo_anchor_output_index (rq_outputs r))) existing before after i)
      0 () (wtx_outs (ppk_tx before)) = Inr ()"
    unfolding verify_committed_shape_def if_Inl_eq_Inr and_then_eq_Inr by auto
  from outs have "is_ok (fold_idx (\<lambda>i _. committed_output_ok B (set (map xo_anchor_output_index (rq_outputs r))) existing before after i)
      0 () (wtx_outs (ppk_tx before)))" by simp
  then have "\<forall>i < length (wtx_outs (ppk_tx before)).
      is_ok (committed_output_ok B (xo_anchor_output_index ` set (rq_outputs r)) existing before after i
        (wtx_outs (ppk_tx before) ! i))"
    by (simp add: fold_idx_unit_ok)
  with facts show ?thesis by (rule that)
qed

text \<open>
  C17. What a commit accepted by \<open>verifyCommittedAnchorShape\<close> left alone: the version, the
  locktime, the caller's inputs in their places with their sequences, the value of every asset
  output, and script and value of every other output, the value of the agreed change output
  excepted. At most one output was added, as the declared change output, and without wallet
  funding nothing was added.
\<close>

theorem committed_shape_preserves:
  assumes "verify_committed_shape B r before after change = Inr ()"
  shows "wtx_version (ppk_tx after) = wtx_version (ppk_tx before) \<and>
    wtx_lock_time (ppk_tx after) = wtx_lock_time (ppk_tx before) \<and>
    map (\<lambda>t. (win_prev_out t, win_sequence t)) (take (length (wtx_ins (ppk_tx before))) (wtx_ins (ppk_tx after))) =
      map (\<lambda>t. (win_prev_out t, win_sequence t)) (wtx_ins (ppk_tx before)) \<and>
    (\<forall>i < length (wtx_outs (ppk_tx before)).
       (if of_nat i \<in> xo_anchor_output_index ` set (rq_outputs r)
        then txo_value (wtx_outs (ppk_tx after) ! i) = txo_value (wtx_outs (ppk_tx before) ! i) \<and> change \<noteq> int i
        else txo_pk_script (wtx_outs (ppk_tx after) ! i) = txo_pk_script (wtx_outs (ppk_tx before) ! i) \<and>
          (change \<noteq> int i \<longrightarrow> wtx_outs (ppk_tx after) ! i = wtx_outs (ppk_tx before) ! i))) \<and>
    (length (wtx_outs (ppk_tx after)) = length (wtx_outs (ppk_tx before)) \<or>
     length (wtx_outs (ppk_tx after)) = Suc (length (wtx_outs (ppk_tx before))) \<and>
       change = int (length (wtx_outs (ppk_tx before)))) \<and>
    (fp_mode (rq_funding r) \<noteq> FundingWalletFunded \<longrightarrow>
       length (wtx_ins (ppk_tx after)) = length (wtx_ins (ppk_tx before)) \<and>
       length (wtx_outs (ppk_tx after)) = length (wtx_outs (ppk_tx before)) \<and> change = -1)"
proof -
  from assms obtain existing where
    same: "wtx_version (ppk_tx after) = wtx_version (ppk_tx before)"
      "wtx_lock_time (ppk_tx after) = wtx_lock_time (ppk_tx before)"
    and ins: "committed_inputs_ok before after = Inr ()"
    and change: "committed_change_ok (rq_funding r) (length (wtx_ins (ppk_tx before))) (length (wtx_ins (ppk_tx after)))
      (length (wtx_outs (ppk_tx before))) (length (wtx_outs (ppk_tx after))) change = Inr existing"
    and outs: "\<forall>i < length (wtx_outs (ppk_tx before)).
      is_ok (committed_output_ok B (xo_anchor_output_index ` set (rq_outputs r)) existing before after i
        (wtx_outs (ppk_tx before) ! i))"
    by (rule committed_shape_parts)
  from ins have inputs: "is_ok (committed_inputs_ok before after)" by simp
  have "map (\<lambda>t. (win_prev_out t, win_sequence t)) (take (length (wtx_ins (ppk_tx before))) (wtx_ins (ppk_tx after))) =
      map (\<lambda>t. (win_prev_out t, win_sequence t)) (wtx_ins (ppk_tx before))"
    using inputs by (intro nth_equalityI) (simp_all add: committed_inputs_iff)
  moreover have "if of_nat i \<in> xo_anchor_output_index ` set (rq_outputs r)
      then txo_value (wtx_outs (ppk_tx after) ! i) = txo_value (wtx_outs (ppk_tx before) ! i) \<and> change \<noteq> int i
      else txo_pk_script (wtx_outs (ppk_tx after) ! i) = txo_pk_script (wtx_outs (ppk_tx before) ! i) \<and>
        (change \<noteq> int i \<longrightarrow> wtx_outs (ppk_tx after) ! i = wtx_outs (ppk_tx before) ! i)"
    if i: "i < length (wtx_outs (ppk_tx before))" for i
    using outs [rule_format, OF i] committed_change [OF change] i
    by (cases "wtx_outs (ppk_tx after) ! i"; cases "wtx_outs (ppk_tx before) ! i")
      (auto simp: committed_output_iff split: if_splits)
  moreover note same committed_change [OF change]
  ultimately show ?thesis by auto
qed

theorem committed_shape_preserves_witness:
  "txo_value (wtx_outs (ppk_tx demo_committed) ! 0) = txo_value (wtx_outs demo_tx ! 0) \<and>
   ppk_tx demo_committed \<noteq> demo_tx"
  using committed_shape_preserves [OF demo_shape]
  by (simp add: demo_committed_def demo_request_def) (simp add: demo_tx_def demo_script_def)

section \<open>The lock inventory\<close>

lemma backend_outpoints:
  "fold_res (backend_outpoint anchor) expected managed = Inr expected' \<longleftrightarrow>
     (\<forall>i \<in> set managed. unat i < length (wtx_ins (ppk_tx anchor))) \<and>
     expected' = (\<lambda>i. win_prev_out (wtx_ins (ppk_tx anchor) ! unat i)) ` set managed \<union> expected"
  by (induction managed arbitrary: expected) (auto simp: backend_outpoint_def)

lemma subset_same_card: "finite B \<Longrightarrow> card A = card B \<and> A \<subseteq> B \<longleftrightarrow> A = B"
  by (metis card_subset_eq order_refl)

text \<open>
  The locks a commit reports are accepted exactly when they are, without repetition, the
  outpoints of the inputs the backend added; without wallet funding there are none.
\<close>

theorem lock_inventory_exact:
  "is_ok (validate_lock_inventory mode anchor managed locked) \<longleftrightarrow>
     (if mode \<noteq> FundingWalletFunded then locked = []
      else list_all (\<lambda>i. unat i < length (wtx_ins (ppk_tx anchor))) managed \<and> distinct locked \<and>
        set locked = set (map (\<lambda>i. win_prev_out (wtx_ins (ppk_tx anchor) ! unat i)) managed))"
proof (cases "mode = FundingWalletFunded")
  case True
  note dups = fold_res_distinct [where key = "\<lambda>op :: outpoint. op" and err = "\<lambda>_. Plain ''locked UTXO is duplicated''"
      and step = "\<lambda>actual op. if op \<in> actual then Inl (Plain ''locked UTXO is duplicated'') else Inr (insert op actual)",
      OF refl]
  let ?all = "(\<lambda>i. win_prev_out (wtx_ins (ppk_tx anchor) ! unat i)) ` set managed"
  have "is_ok (validate_lock_inventory mode anchor managed locked) \<longleftrightarrow>
      (\<forall>i \<in> set managed. unat i < length (wtx_ins (ppk_tx anchor))) \<and> distinct locked \<and>
      card ?all = card (set locked) \<and> ?all \<subseteq> set locked"
    unfolding validate_lock_inventory_def is_ok_iff
    using True by (auto simp: and_then_eq_Inr backend_outpoints dups)
  also have "card ?all = card (set locked) \<and> ?all \<subseteq> set locked \<longleftrightarrow> set locked = ?all"
    using subset_same_card [of "set locked" ?all] by blast
  finally show ?thesis using True by (simp add: list_all_iff)
next
  case False
  then show ?thesis by (simp add: validate_lock_inventory_def)
qed

section \<open>Merging\<close>

text \<open>
  A merge of map entries: the result carries what either side sets and keeps the frame of the
  destination. The loop that merges several entries into a list of maps keeps the contract.
\<close>

locale merging =
  fixes merge :: "'m \<Rightarrow> 'm \<Rightarrow> 'm result" and carries :: "'m \<Rightarrow> 'm \<Rightarrow> bool" and frame :: "'m \<Rightarrow> 'f"
  assumes merged: "merge dst src = Inr m \<Longrightarrow> carries dst m \<and> carries src m \<and> frame m = frame dst"
    and carries_refl: "carries m m"
    and carries_trans: "carries a b \<Longrightarrow> carries b c \<Longrightarrow> carries a c"
begin

lemma loop:
  assumes "fold_res (\<lambda>ms (i, src). and_then (wrap_with w (merge (ms ! i) src)) (\<lambda>m. Inr (ms[i := m]))) ms steps = Inr ms'"
    and "\<forall>(i, src) \<in> set steps. i < length ms"
  shows "list_all2 (\<lambda>a b. carries a b \<and> frame b = frame a) ms ms' \<and> (\<forall>(i, src) \<in> set steps. carries src (ms' ! i))"
  using assms
proof (induction steps arbitrary: ms)
  case Nil
  then show ?case by (simp add: list_all2_same carries_refl)
next
  case (Cons step steps)
  obtain i src where step: "step = (i, src)" by (cases step)
  with Cons.prems obtain m where m: "merge (ms ! i) src = Inr m" and i: "i < length ms"
    and rest: "fold_res (\<lambda>ms (i, src). and_then (wrap_with w (merge (ms ! i) src)) (\<lambda>m. Inr (ms[i := m])))
      (ms[i := m]) steps = Inr ms'"
    by (auto simp: and_then_eq_Inr)
  from Cons.IH [OF rest] Cons.prems(2) have
    all: "list_all2 (\<lambda>a b. carries a b \<and> frame b = frame a) (ms[i := m]) ms'"
    and steps: "\<forall>(i, src) \<in> set steps. carries src (ms' ! i)" by auto
  note len = list_all2_lengthD [OF all]
  have here: "carries m (ms' ! i)" using list_all2_nthD [OF all, of i] i by simp
  have "carries (ms ! j) (ms' ! j) \<and> frame (ms' ! j) = frame (ms ! j)" if "j < length ms" for j
    using list_all2_nthD [OF all, of j] that merged [OF m] carries_trans by (cases "j = i") auto
  with len have "list_all2 (\<lambda>a b. carries a b \<and> frame b = frame a) ms ms'"
    by (simp add: list_all2_conv_all_nth)
  moreover have "carries src (ms' ! i)" using merged [OF m] here carries_trans by blast
  ultimately show ?case using steps step by simp
qed

end

text \<open>What an entry sets stays as it is.\<close>

definition keeps :: "'a list \<Rightarrow> 'a list \<Rightarrow> bool" where
  "keeps x y \<longleftrightarrow> x = [] \<or> y = x"

lemma keeps_refl [simp]: "keeps x x"
  by (simp add: keeps_def)

lemma keeps_trans: "keeps x y \<Longrightarrow> keeps y z \<Longrightarrow> keeps x z"
  by (auto simp: keeps_def)

lemma merge_list_Inr: "merge_list label dst src = Inr m \<Longrightarrow> keeps dst m \<and> keeps src m"
  by (auto simp: merge_list_def keeps_def split: if_splits)

definition input_carries :: "psbt_input \<Rightarrow> psbt_input \<Rightarrow> bool" where
  "input_carries a b \<longleftrightarrow>
     (pin_witness_utxo a = None \<or> pin_witness_utxo b = pin_witness_utxo a) \<and>
     (pin_sighash_type a = 0 \<or> pin_sighash_type b = pin_sighash_type a) \<and>
     keeps (pin_internal_key a) (pin_internal_key b) \<and> keeps (pin_merkle_root a) (pin_merkle_root b) \<and>
     keeps (pin_bip32 a) (pin_bip32 b) \<and> keeps (pin_tr_bip32 a) (pin_tr_bip32 b)"

text \<open>The fields no merge touches.\<close>

definition input_frame :: "psbt_input \<Rightarrow> psbt_input" where
  "input_frame i = i\<lparr>pin_witness_utxo := None, pin_sighash_type := 0, pin_internal_key := [], pin_merkle_root := [],
     pin_bip32 := [], pin_tr_bip32 := []\<rparr>"

definition output_carries :: "psbt_output \<Rightarrow> psbt_output \<Rightarrow> bool" where
  "output_carries a b \<longleftrightarrow> keeps (pou_internal_key a) (pou_internal_key b) \<and>
     keeps (pou_bip32 a) (pou_bip32 b) \<and> keeps (pou_tr_bip32 a) (pou_tr_bip32 b)"

definition output_frame :: "psbt_output \<Rightarrow> psbt_output" where
  "output_frame out = out\<lparr>pou_internal_key := [], pou_bip32 := [], pou_tr_bip32 := []\<rparr>"

lemma equal_wire_tx_out_iff: "equal_wire_tx_out a b \<longleftrightarrow> a = b"
  by (cases a; cases b) (simp add: equal_wire_tx_out_def)

lemma merge_required_input_Inr:
  assumes "merge_required_input dst src = Inr m"
  obtains utxo sighash key root bip32 tr_bip32 where
    "m = dst\<lparr>pin_witness_utxo := utxo, pin_sighash_type := sighash, pin_internal_key := key, pin_merkle_root := root,
       pin_bip32 := bip32, pin_tr_bip32 := tr_bip32\<rparr>"
    "pin_witness_utxo dst = None \<or> utxo = pin_witness_utxo dst" "pin_witness_utxo src = None \<or> utxo = pin_witness_utxo src"
    "pin_sighash_type dst = 0 \<or> sighash = pin_sighash_type dst" "pin_sighash_type src = 0 \<or> sighash = pin_sighash_type src"
    "merge_list ''taproot internal key'' (pin_internal_key dst) (pin_internal_key src) = Inr key"
    "merge_list ''taproot merkle root'' (pin_merkle_root dst) (pin_merkle_root src) = Inr root"
    "merge_list ''BIP32 derivation'' (pin_bip32 dst) (pin_bip32 src) = Inr bip32"
    "merge_list ''taproot BIP32 derivation'' (pin_tr_bip32 dst) (pin_tr_bip32 src) = Inr tr_bip32"
proof -
  from assms obtain dst1 where
    utxo: "(case pin_witness_utxo src of
          None \<Rightarrow> Inr dst
        | Some out \<Rightarrow>
            (case pin_witness_utxo dst of
               Some have_out \<Rightarrow>
                 (if \<not> equal_wire_tx_out have_out out then Inl (Plain ''witness UTXO mismatch'')
                  else Inr (dst\<lparr>pin_witness_utxo := Some out\<rparr>))
             | None \<Rightarrow> Inr (dst\<lparr>pin_witness_utxo := Some out\<rparr>))) = Inr dst1"
    and rest: "(if pin_sighash_type dst1 \<noteq> 0 \<and> pin_sighash_type src \<noteq> 0 \<and> pin_sighash_type dst1 \<noteq> pin_sighash_type src
     then Inl (Plain ''sighash type mismatch'')
     else
       (let dst2 = (if pin_sighash_type dst1 = 0 then dst1\<lparr>pin_sighash_type := pin_sighash_type src\<rparr> else dst1) in
        and_then (merge_list ''taproot internal key'' (pin_internal_key dst2) (pin_internal_key src)) (\<lambda>key.
        and_then (merge_list ''taproot merkle root'' (pin_merkle_root dst2) (pin_merkle_root src)) (\<lambda>root.
        and_then (merge_list ''BIP32 derivation'' (pin_bip32 dst2) (pin_bip32 src)) (\<lambda>bip32.
        and_then (merge_list ''taproot BIP32 derivation'' (pin_tr_bip32 dst2) (pin_tr_bip32 src)) (\<lambda>tr_bip32.
          Inr (dst2\<lparr>pin_internal_key := key, pin_merkle_root := root, pin_bip32 := bip32,
                    pin_tr_bip32 := tr_bip32\<rparr>))))))) = Inr m"
    unfolding merge_required_input_def and_then_eq_Inr by blast
  from utxo obtain u where u: "dst1 = dst\<lparr>pin_witness_utxo := u\<rparr>"
    "pin_witness_utxo dst = None \<or> u = pin_witness_utxo dst" "pin_witness_utxo src = None \<or> u = pin_witness_utxo src"
  proof (cases "pin_witness_utxo src")
    case None
    with utxo show ?thesis by (intro that [of "pin_witness_utxo dst"]) auto
  next
    case (Some out)
    with utxo show ?thesis
      by (intro that [of "Some out"]) (auto simp: equal_wire_tx_out_iff split: option.splits if_splits)
  qed
  define sighash where "sighash = (if pin_sighash_type dst = 0 then pin_sighash_type src else pin_sighash_type dst)"
  have dst2: "(if pin_sighash_type dst1 = 0 then dst1\<lparr>pin_sighash_type := pin_sighash_type src\<rparr> else dst1) =
      dst\<lparr>pin_witness_utxo := u, pin_sighash_type := sighash\<rparr>"
    by (simp add: u(1) sighash_def)
  from rest have types: "pin_sighash_type dst = 0 \<or> pin_sighash_type src = 0 \<or> pin_sighash_type dst = pin_sighash_type src"
    by (auto simp: u(1) split: if_splits)
  from rest obtain key root bip32 tr_bip32 where
    "merge_list ''taproot internal key'' (pin_internal_key dst) (pin_internal_key src) = Inr key"
    "merge_list ''taproot merkle root'' (pin_merkle_root dst) (pin_merkle_root src) = Inr root"
    "merge_list ''BIP32 derivation'' (pin_bip32 dst) (pin_bip32 src) = Inr bip32"
    "merge_list ''taproot BIP32 derivation'' (pin_tr_bip32 dst) (pin_tr_bip32 src) = Inr tr_bip32"
    "m = dst\<lparr>pin_witness_utxo := u, pin_sighash_type := sighash, pin_internal_key := key, pin_merkle_root := root,
       pin_bip32 := bip32, pin_tr_bip32 := tr_bip32\<rparr>"
    unfolding dst2 Let_def if_Inl_eq_Inr and_then_eq_Inr by auto
  moreover have "pin_sighash_type dst = 0 \<or> sighash = pin_sighash_type dst" "pin_sighash_type src = 0 \<or> sighash = pin_sighash_type src"
    using types by (auto simp: sighash_def)
  ultimately show ?thesis using u(2,3) that by blast
qed

interpretation input_merge: merging merge_required_input input_carries input_frame
proof
  fix dst src m :: psbt_input
  assume "merge_required_input dst src = Inr m"
  then show "input_carries dst m \<and> input_carries src m \<and> input_frame m = input_frame dst"
    by (rule merge_required_input_Inr) (auto simp: input_carries_def input_frame_def dest!: merge_list_Inr)
qed (auto simp: input_carries_def dest: keeps_trans)

interpretation output_merge: merging merge_required_output output_carries output_frame
  by unfold_locales
    (auto simp: merge_required_output_def result_simps output_carries_def output_frame_def
      dest!: merge_list_Inr dest: keeps_trans)

text \<open>The two loops of \<open>prepareCustomAnchorPSBT\<close> are loops over list positions.\<close>

lemma find_anchor_input_Some:
  "find_anchor_input anchor op = Some i \<Longrightarrow> i < length (wtx_ins (ppk_tx anchor)) \<and> win_prev_out (wtx_ins (ppk_tx anchor) ! i) = op"
  using nth_length_takeWhile [of "\<lambda>t. win_prev_out t \<noteq> op" "wtx_ins (ppk_tx anchor)"]
  by (auto simp: find_anchor_input_def Let_def split: if_splits)

lemma find_anchor_input_cong: "ppk_tx a = ppk_tx b \<Longrightarrow> find_anchor_input a op = find_anchor_input b op"
  by (simp add: find_anchor_input_def)

abbreviation position_of :: "psbt_packet \<Rightarrow> wire_tx_in \<Rightarrow> nat" where
  "position_of anchor t \<equiv> the (find_anchor_input anchor (win_prev_out t))"

lemma merge_input_step_Inr:
  "merge_input_step anchor (t, src) = Inr anchor' \<longleftrightarrow>
     (\<exists>i m. find_anchor_input anchor (win_prev_out t) = Some i \<and> merge_required_input (ppk_inputs anchor ! i) src = Inr m \<and>
       anchor' = anchor\<lparr>ppk_inputs := (ppk_inputs anchor)[i := m]\<rparr>)"
  by (auto simp: merge_input_step_def and_then_eq_Inr split: option.splits)

lemma merge_output_step_Inr:
  "merge_output_step k anchor src = Inr anchor' \<longleftrightarrow> k < length (ppk_outputs anchor) \<and>
     (\<exists>m. merge_required_output (ppk_outputs anchor ! k) src = Inr m \<and>
       anchor' = anchor\<lparr>ppk_outputs := (ppk_outputs anchor)[k := m]\<rparr>)"
  by (auto simp: merge_output_step_def and_then_eq_Inr)

lemma merge_inputs_loop:
  assumes "fold_res merge_input_step anchor srcs = Inr anchor'"
  shows "ppk_tx anchor' = ppk_tx anchor \<and> ppk_xpubs anchor' = ppk_xpubs anchor \<and>
    ppk_unknowns anchor' = ppk_unknowns anchor \<and> ppk_outputs anchor' = ppk_outputs anchor \<and>
    (\<forall>(t, src) \<in> set srcs. find_anchor_input anchor (win_prev_out t) \<noteq> None) \<and>
    fold_res (\<lambda>ms (i, src). and_then (wrap_with (\<lambda>e. Wrapf ''merge anchor input metadata: '' e []) (merge_required_input (ms ! i) src))
        (\<lambda>m. Inr (ms[i := m]))) (ppk_inputs anchor) (map (\<lambda>(t, src). (position_of anchor t, src)) srcs) = Inr (ppk_inputs anchor')"
  using assms
proof (induction srcs arbitrary: anchor)
  case Nil
  then show ?case by simp
next
  case (Cons s srcs)
  obtain t src where s: "s = (t, src)" by (cases s)
  with Cons.prems obtain i m where i: "find_anchor_input anchor (win_prev_out t) = Some i"
    and m: "merge_required_input (ppk_inputs anchor ! i) src = Inr m"
    and rest: "fold_res merge_input_step (anchor\<lparr>ppk_inputs := (ppk_inputs anchor)[i := m]\<rparr>) srcs = Inr anchor'"
    by (auto simp: merge_input_step_Inr and_then_eq_Inr)
  have find: "find_anchor_input (anchor\<lparr>ppk_inputs := (ppk_inputs anchor)[i := m]\<rparr>) op = find_anchor_input anchor op" for op
    by (rule find_anchor_input_cong) simp
  show ?case using Cons.IH [OF rest] i m by (auto simp: s find)
qed

lemma merge_outputs_loop:
  assumes "fold_idx merge_output_step k anchor srcs = Inr anchor'"
  shows "ppk_tx anchor' = ppk_tx anchor \<and> ppk_xpubs anchor' = ppk_xpubs anchor \<and>
    ppk_unknowns anchor' = ppk_unknowns anchor \<and> ppk_inputs anchor' = ppk_inputs anchor \<and>
    k + length srcs \<le> max k (length (ppk_outputs anchor)) \<and>
    fold_res (\<lambda>ms (i, src). and_then (wrap_with (\<lambda>e. Wrapf ''merge anchor output metadata: '' e []) (merge_required_output (ms ! i) src))
        (\<lambda>m. Inr (ms[i := m]))) (ppk_outputs anchor) (enumerate k srcs) = Inr (ppk_outputs anchor')"
  using assms
proof (induction srcs arbitrary: k anchor)
  case Nil
  then show ?case by simp
next
  case (Cons src srcs)
  from Cons.prems obtain m where k: "k < length (ppk_outputs anchor)"
    and m: "merge_required_output (ppk_outputs anchor ! k) src = Inr m"
    and rest: "fold_idx merge_output_step (Suc k) (anchor\<lparr>ppk_outputs := (ppk_outputs anchor)[k := m]\<rparr>) srcs = Inr anchor'"
    by (auto simp: merge_output_step_Inr and_then_eq_Inr)
  show ?case using Cons.IH [OF rest] k m by auto
qed

text \<open>
  Merging what the packets require into the caller's PSBT keeps the caller's transaction and
  globals, every field the caller set, and the fields no packet requires; every required input
  and output is found, and its map carries what is required.
\<close>

theorem prepared_psbt_keeps_template:
  assumes "prepare_custom_anchor_psbt B r required_template = Inr anchor"
    and "bl_decode_psbt B (rq_anchor_psbt r) = Inr template" and "required_template = Inr required"
  shows "ppk_tx anchor = ppk_tx template \<and> ppk_xpubs anchor = ppk_xpubs template \<and>
    ppk_unknowns anchor = ppk_unknowns template \<and>
    list_all2 (\<lambda>a b. input_carries a b \<and> input_frame b = input_frame a) (ppk_inputs template) (ppk_inputs anchor) \<and>
    list_all2 (\<lambda>a b. output_carries a b \<and> output_frame b = output_frame a) (ppk_outputs template) (ppk_outputs anchor) \<and>
    list_all (\<lambda>(t, src). find_anchor_input anchor (win_prev_out t) \<noteq> None \<and>
        input_carries src (ppk_inputs anchor ! position_of anchor t)) (zip (wtx_ins (ppk_tx required)) (ppk_inputs required)) \<and>
    length (ppk_outputs required) \<le> length (ppk_outputs anchor) \<and>
    list_all (\<lambda>(i, src). output_carries src (ppk_outputs anchor ! i)) (enumerate 0 (ppk_outputs required))"
proof -
  from assms obtain anchor1 where template: "validate_anchor_template B r template = Inr ()"
    and ins: "fold_res merge_input_step template (zip (wtx_ins (ppk_tx required)) (ppk_inputs required)) = Inr anchor1"
    and outs: "fold_idx merge_output_step 0 anchor1 (ppk_outputs required) = Inr anchor"
    by (auto simp: prepare_custom_anchor_psbt_def and_then_eq_Inr)
  from template have len: "length (ppk_inputs template) = length (wtx_ins (ppk_tx template))"
    by (auto simp: validate_anchor_template_def split: if_splits)
  note in_loop = merge_inputs_loop [OF ins] and out_loop = merge_outputs_loop [OF outs]
  have same: "ppk_tx anchor = ppk_tx template" "ppk_inputs anchor = ppk_inputs anchor1"
    "ppk_outputs anchor1 = ppk_outputs template"
    using in_loop out_loop by simp_all
  have find: "find_anchor_input anchor op = find_anchor_input template op" for op
    by (rule find_anchor_input_cong) (rule same(1))
  let ?srcs = "zip (wtx_ins (ppk_tx required)) (ppk_inputs required)"
  have "\<forall>(i, src) \<in> set (map (\<lambda>(t, src). (position_of template t, src)) ?srcs). i < length (ppk_inputs template)"
  proof (clarsimp simp: len)
    fix t src
    assume "(t, src) \<in> set ?srcs"
    with in_loop obtain i where "find_anchor_input template (win_prev_out t) = Some i" by fastforce
    then show "position_of template t < length (wtx_ins (ppk_tx template))" using find_anchor_input_Some by fastforce
  qed
  moreover have "fold_res (\<lambda>ms (i, src). and_then (wrap_with (\<lambda>e. Wrapf ''merge anchor input metadata: '' e []) (merge_required_input (ms ! i) src))
        (\<lambda>m. Inr (ms[i := m]))) (ppk_inputs template) (map (\<lambda>(t, src). (position_of template t, src)) ?srcs) = Inr (ppk_inputs anchor)"
    using in_loop by (simp add: same)
  ultimately have inputs: "list_all2 (\<lambda>a b. input_carries a b \<and> input_frame b = input_frame a) (ppk_inputs template) (ppk_inputs anchor)"
    and required_ins: "\<forall>(t, src) \<in> set ?srcs. input_carries src (ppk_inputs anchor ! position_of template t)"
    using input_merge.loop by fastforce+
  have bound: "length (ppk_outputs required) \<le> length (ppk_outputs template)"
    using out_loop by (simp add: same)
  have "\<forall>(i, src) \<in> set (enumerate 0 (ppk_outputs required)). i < length (ppk_outputs template)"
    using bound by (auto simp: in_set_enumerate_eq)
  moreover have "fold_res (\<lambda>ms (i, src). and_then (wrap_with (\<lambda>e. Wrapf ''merge anchor output metadata: '' e []) (merge_required_output (ms ! i) src))
        (\<lambda>m. Inr (ms[i := m]))) (ppk_outputs template) (enumerate 0 (ppk_outputs required)) = Inr (ppk_outputs anchor)"
    using out_loop by (simp add: same)
  ultimately have outputs: "list_all2 (\<lambda>a b. output_carries a b \<and> output_frame b = output_frame a) (ppk_outputs template) (ppk_outputs anchor)"
    and required_outs: "\<forall>(i, src) \<in> set (enumerate 0 (ppk_outputs required)). output_carries src (ppk_outputs anchor ! i)"
    using output_merge.loop by fastforce+
  have "\<forall>(t, src) \<in> set ?srcs. find_anchor_input anchor (win_prev_out t) \<noteq> None"
    using in_loop by (simp add: find)
  with inputs outputs required_ins required_outs bound list_all2_lengthD [OF outputs] in_loop out_loop show ?thesis
    by (auto simp: list_all_iff find same)
qed

theorem prepared_psbt_keeps_template_witness:
  "list_all (\<lambda>(t, src). find_anchor_input (demo_psbt [] [] []) (win_prev_out t) \<noteq> None \<and>
     input_carries src (ppk_inputs (demo_psbt [] [] []) ! position_of (demo_psbt [] [] []) t))
     (zip (wtx_ins demo_tx) (ppk_inputs (demo_psbt [] [] [])))"
  using prepared_psbt_keeps_template [OF demo_prepared, of "demo_psbt [] [] []" "demo_psbt [] [] []"]
  by (simp add: demo_request_psbt)

end
