(* ===== verification/Tap_SigningFacts.thy ===== *)
theory Tap_SigningFacts
  imports Tap_AnchorSigning
begin

text \<open>
  What the signing checks guarantee: plans classify every input once, requests are bound to one
  package, path and input, the accepted signature encodings, and that a finalised transaction
  spends every external input on its sealed path.
\<close>

section \<open>Plans\<close>

lemma check_plan_Inr:
  "check_plan L n seen p = Inr seen' \<longleftrightarrow> gp_input_index p < n \<and> gp_input_index p \<notin> seen \<and>
     is_ok (validate_plan_variants L p) \<and> seen' = insert (gp_input_index p) seen"
  by (cases "validate_plan_variants L p") (auto simp: check_plan_def not_le)

lemma plans_loop:
  "fold_res (check_plan L n) seen plans = Inr seen' \<longleftrightarrow>
     (\<forall>p \<in> set plans. gp_input_index p < n \<and> is_ok (validate_plan_variants L p)) \<and>
     distinct (map gp_input_index plans) \<and> gp_input_index ` set plans \<inter> seen = {} \<and>
     seen' = gp_input_index ` set plans \<union> seen"
  by (induction plans arbitrary: seen) (auto simp: and_then_eq_Inr check_plan_Inr)

lemma backend_loop:
  "fold_res (check_backend_managed n) seen managed = Inr seen' \<longleftrightarrow>
     (\<forall>i \<in> set managed. i < n) \<and> distinct managed \<and> set managed \<inter> seen = {} \<and> seen' = set managed \<union> seen"
  by (induction managed arbitrary: seen) (auto simp: check_backend_managed_def and_then_eq_Inr not_le)

lemma classified_iff: "(\<exists>i \<in> set [0 ..< unat n]. of_nat i \<notin> S) \<longleftrightarrow> \<not> {i :: u32. i < n} \<subseteq> S"
proof -
  have "of_nat i < n" if "i < unat n" for i
    using that by (simp add: word_less_nat_alt unat_of_nat take_bit_nat_eq_self_iff)
  moreover have "\<exists>j \<in> set [0 ..< unat n]. of_nat j = i" if "i < n" for i :: u32
    using that by (intro bexI [of _ "unat i"]) (simp_all add: word_less_nat_alt)
  ultimately show ?thesis by fastforce
qed

lemma card_below: "card {i :: u32. i < n} = unat n"
proof -
  have "unat n < 4294967296" using unsigned_less [of n] by simp
  then have unat_back: "unat (of_nat k :: u32) = k" if "k < unat n" for k
    using that by (simp add: unat_of_nat)
  have "bij_betw unat {i :: u32. i < n} {..<unat n}"
    by (rule bij_betw_byWitness [where f' = of_nat]) (auto simp: word_less_nat_alt unat_back)
  then show ?thesis by (auto dest: bij_betw_same_card)
qed

lemma signing_plans_iff:
  "is_ok (validate_signing_plans L plans managed n) \<longleftrightarrow>
     distinct (map gp_input_index plans @ managed) \<and> set (map gp_input_index plans @ managed) = {i. i < n} \<and>
     list_all (\<lambda>p. is_ok (validate_plan_variants L p)) plans"
proof -
  let ?all = "map gp_input_index plans @ managed"
  have "validate_signing_plans L plans managed n = Inr () \<longleftrightarrow>
      of_nat (length ?all) = n \<and> (\<forall>p \<in> set plans. gp_input_index p < n \<and> is_ok (validate_plan_variants L p)) \<and>
      (\<forall>i \<in> set managed. i < n) \<and> distinct ?all \<and> {i. i < n} \<subseteq> set ?all"
    unfolding validate_signing_plans_def classified_iff
    by (auto simp: and_then_eq_Inr if_Inl_eq_Inr plans_loop backend_loop)
  also have "\<dots> \<longleftrightarrow> distinct ?all \<and> set ?all = {i. i < n} \<and> list_all (\<lambda>p. is_ok (validate_plan_variants L p)) plans"
  proof
    assume *: "distinct ?all \<and> set ?all = {i. i < n} \<and> list_all (\<lambda>p. is_ok (validate_plan_variants L p)) plans"
    then have "length ?all = card {i. i < n}" using distinct_card [of ?all] by simp
    then have "of_nat (length ?all) = n" by (simp add: card_below)
    moreover have "\<forall>i \<in> set ?all. i < n" using * by auto
    ultimately show "of_nat (length ?all) = n \<and> (\<forall>p \<in> set plans. gp_input_index p < n \<and> is_ok (validate_plan_variants L p)) \<and>
        (\<forall>i \<in> set managed. i < n) \<and> distinct ?all \<and> {i. i < n} \<subseteq> set ?all"
      using * by (auto simp: list_all_iff)
  qed (auto simp: list_all_iff)
  finally show ?thesis unfolding is_ok_unit .
qed

lemma validate_signing_plans_ok:
  assumes "is_ok (validate_signing_plans L plans managed n)"
  shows "distinct (map gp_input_index plans @ managed)" "set (map gp_input_index plans @ managed) = {i. i < n}"
    "\<forall>p \<in> set plans. is_ok (validate_plan_variants L p)"
  using assms by (auto simp: signing_plans_iff list_all_iff)

text \<open>
  Signing plans are accepted exactly when plans and backend-managed inputs classify every
  input of the anchor transaction exactly once, and every plan has one valid variant. The test of
  the total, which is taken modulo 2^32, never decides.
\<close>

theorem signing_plans_partition:
  "is_ok (validate_signing_plans L plans managed n) \<longleftrightarrow>
     distinct (map gp_input_index plans @ managed) \<and> set (map gp_input_index plans @ managed) = {i. i < n} \<and>
     list_all (\<lambda>p. is_ok (validate_plan_variants L p)) plans"
  by (rule signing_plans_iff)

section \<open>Signature encodings\<close>

text \<open>
  A Taproot signature is accepted exactly in its BIP-341 encoding: 64 bytes for the default
  sighash type, or 65 bytes whose last is the type, for another type that fits a byte.
\<close>

theorem taproot_signature_encoding:
  "parse_taproot_signature B signature sighash_type = Inr sig \<longleftrightarrow>
     (length signature = 64 \<and> sighash_type = 0 \<or>
      length signature = 65 \<and> sighash_type \<noteq> 0 \<and> sighash_type \<le> 255 \<and> signature ! 64 = ucast sighash_type) \<and>
     bl_parse_signature B (take 64 signature) = Inr sig"
  by (auto simp: parse_taproot_signature_def signature_size_def sighash_default_def not_less)

section \<open>Requests\<close>

lemma signing_request_id_inj:
  assumes "inj (bl_sha256 B)" and "length d = 32" "length d' = 32"
  shows "signing_request_id B d m i = signing_request_id B d' m' i' \<longleftrightarrow> d = d' \<and> m = m' \<and> i = i'"
proof -
  have "unat j < 4294967296" for j :: u32 using unsigned_less [of j] by simp
  then have "be_nat (be_bytes 4 (unat j)) = unat j" for j :: u32 by (simp add: be_nat_be_bytes)
  then have "be_bytes 4 (unat i) = be_bytes 4 (unat i') \<longleftrightarrow> i = i'"
    by (metis word_unat_eq_iff)
  moreover have "mode_byte m = mode_byte m' \<longleftrightarrow> m = m'"
    by (cases m; cases m') (simp_all add: mode_byte_def)
  ultimately show ?thesis using assms
    by (auto simp: signing_request_id_def anchor_digest_def inj_eq append_eq_append_conv)
qed

text \<open>Where the requests of a derivation come from.\<close>

definition key_path_from ::
    "'k lib \<Rightarrow> ('k, 's, 'z) btc_lib_scheme \<Rightarrow> bytes \<Rightarrow> psbt_packet \<Rightarrow> (outpoint \<times> tx_out) list \<Rightarrow> signing_plan \<Rightarrow> key_path_request \<Rightarrow> bool" where
  "key_path_from L B d packet prev_outs p r \<longleftrightarrow>
     (\<exists>signer context. gp_key_path p = Some signer \<and> key_path_context L B packet prev_outs (gp_input_index p) = Inr context \<and>
        sx_internal_key context = signer \<and>
        r = signing_context.extend context (key_path_request.fields
              (signing_request_id B d SigningKeyPath (gp_input_index p)) d signer))"

definition musig2_from ::
    "'k lib \<Rightarrow> ('k, 's, 'z) btc_lib_scheme \<Rightarrow> bytes \<Rightarrow> psbt_packet \<Rightarrow> (outpoint \<times> tx_out) list \<Rightarrow> signing_plan \<Rightarrow> musig2_request \<Rightarrow> bool" where
  "musig2_from L B d packet prev_outs p r \<longleftrightarrow>
     (\<exists>m context. gp_key_path p = None \<and> gp_musig2 p = Some m \<and>
        key_path_context L B packet prev_outs (gp_input_index p) = Inr context \<and>
        validate_musig2_aggregate L B (sx_internal_key context) (mp_participants m) = Inr () \<and>
        r = signing_context.extend context (musig2_request.fields
              (signing_request_id B d SigningMuSig2 (gp_input_index p)) d (mp_participants m) (mp_session_context m)))"

definition script_path_from ::
    "'k lib \<Rightarrow> ('k, 's, 'z) btc_lib_scheme \<Rightarrow> bytes \<Rightarrow> psbt_packet \<Rightarrow> (outpoint \<times> tx_out) list \<Rightarrow> signing_plan \<Rightarrow> script_path_request \<Rightarrow> bool" where
  "script_path_from L B d packet prev_outs p r \<longleftrightarrow>
     (\<exists>s. gp_key_path p = None \<and> gp_musig2 p = None \<and> gp_script_path p = Some s \<and>
        script_path_request_of L B d packet prev_outs (gp_input_index p) s = Inr r)"

lemma add_signing_request_Inr:
  assumes "add_signing_request L B d packet prev_outs rs p = Inr rs'"
  obtains (key) r where "key_path_from L B d packet prev_outs p r" "rs' = rs\<lparr>rs_key_path := rs_key_path rs @ [r]\<rparr>"
  | (musig) r where "musig2_from L B d packet prev_outs p r" "rs' = rs\<lparr>rs_musig2 := rs_musig2 rs @ [r]\<rparr>"
  | (script) r where "script_path_from L B d packet prev_outs p r" "rs' = rs\<lparr>rs_script_path := rs_script_path rs @ [r]\<rparr>"
  | (none) "gp_key_path p = None" "gp_musig2 p = None" "gp_script_path p = None" "rs' = rs"
  using assms
  by (auto simp: add_signing_request_def and_then_eq_Inr key_path_from_def musig2_from_def script_path_from_def
      split: option.splits if_splits)

lemma requests_from_plans:
  assumes "fold_res (add_signing_request L B d packet prev_outs) rs plans = Inr rs'"
  shows "(\<forall>r \<in> set (rs_key_path rs'). r \<in> set (rs_key_path rs) \<or> (\<exists>p \<in> set plans. key_path_from L B d packet prev_outs p r)) \<and>
    (\<forall>r \<in> set (rs_musig2 rs'). r \<in> set (rs_musig2 rs) \<or> (\<exists>p \<in> set plans. musig2_from L B d packet prev_outs p r)) \<and>
    (\<forall>r \<in> set (rs_script_path rs'). r \<in> set (rs_script_path rs) \<or> (\<exists>p \<in> set plans. script_path_from L B d packet prev_outs p r))"
  using assms
proof (induction plans arbitrary: rs)
  case Nil
  then show ?case by simp
next
  case (Cons p plans)
  then obtain rs1 where step: "add_signing_request L B d packet prev_outs rs p = Inr rs1"
    and rest: "fold_res (add_signing_request L B d packet prev_outs) rs1 plans = Inr rs'"
    by (auto simp: and_then_eq_Inr)
  from step show ?case
    by (cases rule: add_signing_request_Inr) (use Cons.IH [OF rest] in auto)
qed

lemma key_path_context_index:
  "key_path_context L B packet prev_outs i = Inr context \<Longrightarrow> sx_input_index context = i"
  by (auto simp: key_path_context_def Let_def and_then_eq_Inr if_Inl_eq_Inr new_signing_context_def split: option.splits)

lemma script_path_request_of_Inr:
  assumes "script_path_request_of L B d packet prev_outs i s = Inr r"
  shows "sx_input_index r = i" "sr_leaf_hash r = sp_leaf_hash s" "sr_required_signers r = sp_required_signers s"
    "sc_tap_leaf_hash B (sr_leaf_version r) (sr_leaf_script r) = sp_leaf_hash s"
    "sr_id r = signing_request_id B d SigningScriptPath i"
proof -
  let ?leaves = "filter (\<lambda>leaf. sc_tap_leaf_hash B (tl_leaf_version leaf) (tl_script leaf) = sp_leaf_hash s)
    (pin_leaf_scripts (ppk_inputs packet ! unat i))"
  from assms obtain leaf where leaf: "?leaves = [leaf]"
    by (auto simp: script_path_request_of_def Let_def split: list.split_asm)
  then have "leaf \<in> set ?leaves" by simp
  then have hash: "sc_tap_leaf_hash B (tl_leaf_version leaf) (tl_script leaf) = sp_leaf_hash s" by simp
  from assms obtain sctx where "r = signing_context.extend sctx (script_path_request.fields
      (signing_request_id B d SigningScriptPath i) d (sp_leaf_hash s) (tl_leaf_version leaf) (tl_script leaf)
      (tl_control_block leaf) (sp_required_signers s))" "sx_input_index sctx = i"
    unfolding script_path_request_of_def Let_def leaf list.case and_then_eq_Inr if_Inl_eq_Inr
    by (auto simp: new_signing_context_def)
  with hash show "sx_input_index r = i" "sr_leaf_hash r = sp_leaf_hash s" "sr_required_signers r = sp_required_signers s"
    "sc_tap_leaf_hash B (sr_leaf_version r) (sr_leaf_script r) = sp_leaf_hash s"
    "sr_id r = signing_request_id B d SigningScriptPath i"
    by (simp_all add: signing_context.defs script_path_request.defs)
qed

lemma request_indices:
  "key_path_from L B d packet prev_outs p r \<Longrightarrow> sx_input_index r = gp_input_index p"
  "musig2_from L B d packet prev_outs p r' \<Longrightarrow> sx_input_index r' = gp_input_index p"
  "script_path_from L B d packet prev_outs p r'' \<Longrightarrow> sx_input_index r'' = gp_input_index p"
  by (auto simp: key_path_from_def musig2_from_def script_path_from_def script_path_request_of_Inr
      signing_context.defs key_path_request.defs musig2_request.defs dest: key_path_context_index)

section \<open>Final witnesses\<close>

text \<open>
  What it means that a witness spends an input on the path its plan seals. A script-path witness
  ends in the sealed leaf and control block, and every required signer has signed the sealed
  sighash in an element before them.
\<close>

definition key_path_spend ::
    "'k lib \<Rightarrow> ('k, 's, 'z) btc_lib_scheme \<Rightarrow> psbt_packet \<Rightarrow> (outpoint \<times> tx_out) list \<Rightarrow> u32 \<Rightarrow> bytes list \<Rightarrow> bool" where
  "key_path_spend L B packet prev_outs i witness \<longleftrightarrow>
     (\<exists>context signature. key_path_context L B packet prev_outs i = Inr context \<and> witness = [signature] \<and>
        verify_key_path_signature L B signature (sx_sighash_type context) (sx_sighash context) (sx_prev_out_script context) = Inr ())"

definition script_path_spend ::
    "'k lib \<Rightarrow> ('k, 's, 'z) btc_lib_scheme \<Rightarrow> bytes \<Rightarrow> psbt_packet \<Rightarrow> (outpoint \<times> tx_out) list \<Rightarrow> u32 \<Rightarrow> script_path_plan \<Rightarrow> bytes list \<Rightarrow> bool" where
  "script_path_spend L B d packet prev_outs i s witness \<longleftrightarrow>
     (\<exists>r elements. script_path_request_of L B d packet prev_outs i s = Inr r \<and>
        witness = elements @ [sr_leaf_script r, sr_control_block r] \<and>
        (\<forall>signer \<in> set (sp_required_signers s). \<exists>e \<in> set elements.
           verify_script_path_signature L B e (sx_sighash_type r) (sx_sighash r) signer = Inr ()))"

definition sealed_spend ::
    "'k lib \<Rightarrow> ('k, 's, 'z) btc_lib_scheme \<Rightarrow> bytes \<Rightarrow> psbt_packet \<Rightarrow> (outpoint \<times> tx_out) list \<Rightarrow> signing_plan \<Rightarrow> bytes list \<Rightarrow> bool" where
  "sealed_spend L B d packet prev_outs p witness \<longleftrightarrow> \<not> witness_has_annex witness \<and>
     (if gp_key_path p \<noteq> None \<or> gp_musig2 p \<noteq> None then key_path_spend L B packet prev_outs (gp_input_index p) witness
      else case gp_script_path p of
        Some s \<Rightarrow> script_path_spend L B d packet prev_outs (gp_input_index p) s witness
      | None \<Rightarrow> gp_caller_signed p \<noteq> None \<and> witness \<noteq> [])"

lemma first_match_Some: "first_match f k xs = Some i \<Longrightarrow> k \<le> i \<and> i - k < length xs \<and> f (xs ! (i - k))"
proof (induction xs arbitrary: k)
  case Nil
  then show ?case by simp
next
  case (Cons x xs)
  show ?case
  proof (cases "f x")
    case True
    with Cons.prems show ?thesis by simp
  next
    case False
    with Cons have "Suc k \<le> i \<and> i - Suc k < length xs \<and> f (xs ! (i - Suc k))" by simp
    moreover have "i - k = Suc (i - Suc k)" using calculation by linarith
    ultimately show ?thesis by simp
  qed
qed

lemma matched_elements:
  assumes "fold_res (match_element L B r) matched elements = Inr matched'"
  shows "\<forall>i \<in> matched'. i \<in> matched \<or> (\<exists>e \<in> set elements. i < length (sr_required_signers r) \<and>
    verify_script_path_signature L B e (sx_sighash_type r) (sx_sighash r) (sr_required_signers r ! i) = Inr ())"
  using assms
proof (induction elements arbitrary: matched)
  case Nil
  then show ?case by simp
next
  case (Cons e elements)
  then obtain m1 where step: "match_element L B r matched e = Inr m1"
    and rest: "fold_res (match_element L B r) m1 elements = Inr matched'"
    by (auto simp: and_then_eq_Inr)
  have "\<forall>i \<in> m1. i \<in> matched \<or> i < length (sr_required_signers r) \<and>
      verify_script_path_signature L B e (sx_sighash_type r) (sx_sighash r) (sr_required_signers r ! i) = Inr ()"
    using step first_match_Some [where k = 0]
    by (fastforce simp: match_element_def is_ok_unit split: if_splits option.splits)
  with Cons.IH [OF rest] show ?case by (simp, blast)
qed

lemma required_signatures:
  assumes "verify_required_signatures L B elements r = Inr ()" and "signer \<in> set (sr_required_signers r)"
  shows "\<exists>e \<in> set elements. verify_script_path_signature L B e (sx_sighash_type r) (sx_sighash r) signer = Inr ()"
proof -
  from assms(1) obtain matched where "fold_res (match_element L B r) {} elements = Inr matched"
    and all: "\<forall>i < length (sr_required_signers r). i \<in> matched"
    by (auto simp: verify_required_signatures_def and_then_eq_Inr split: if_splits)
  from matched_elements [OF this(1)] all assms(2) show ?thesis by (fastforce simp: in_set_conv_nth)
qed

lemma last_two: "2 \<le> length xs \<Longrightarrow> xs = take (length xs - 2) xs @ [xs ! (length xs - 2), xs ! (length xs - 1)]"
  by (cases xs rule: rev_exhaust; cases "butlast xs" rule: rev_exhaust) (auto simp: nth_append)

lemma final_script_path:
  assumes "verify_final_script_path L B witness r = Inr ()"
  shows "\<exists>elements. witness = elements @ [sr_leaf_script r, sr_control_block r] \<and>
    (\<forall>signer \<in> set (sr_required_signers r). \<exists>e \<in> set elements.
       verify_script_path_signature L B e (sx_sighash_type r) (sx_sighash r) signer = Inr ())"
proof -
  from assms have len: "2 \<le> length witness"
    and "witness ! (length witness - 2) = sr_leaf_script r" "witness ! (length witness - 1) = sr_control_block r"
    and sigs: "verify_required_signatures L B (take (length witness - 2) witness) r = Inr ()"
    by (auto simp: verify_final_script_path_def and_then_eq_Inr if_Inl_eq_Inr)
  with last_two [OF len] required_signatures [OF sigs] show ?thesis by metis
qed

text \<open>A request that is found for an input comes from the one plan of that input.\<close>

lemma found_request:
  assumes "find (\<lambda>r. sx_input_index r = gp_input_index p) (rev rs) = Some r"
    and "\<forall>r \<in> set rs. \<exists>q \<in> set plans. from_plan q r \<and> sx_input_index r = gp_input_index q"
    and "p \<in> set plans" and "distinct (map gp_input_index plans)"
  shows "from_plan p r"
proof -
  from assms(1) have "r \<in> set rs" and "sx_input_index r = gp_input_index p"
    by (auto simp: find_Some_iff) (metis length_rev nth_mem set_rev)
  with assms(2) obtain q where "q \<in> set plans" "from_plan q r" "gp_input_index q = gp_input_index p" by metis
  with assms(3,4) show ?thesis by (metis distinct_map inj_on_eq_iff)
qed

lemma derived_requests:
  assumes "derive_signing_requests L B packet plans managed d = Inr rs" and "anchor_prev_outs B packet = Inr prev_outs"
  shows "is_ok (validate_signing_plans L plans managed (of_nat (length (wtx_ins (ppk_tx packet)))))"
    "\<forall>r \<in> set (rs_key_path rs). \<exists>p \<in> set plans. key_path_from L B d packet prev_outs p r \<and> sx_input_index r = gp_input_index p"
    "\<forall>r \<in> set (rs_musig2 rs). \<exists>p \<in> set plans. musig2_from L B d packet prev_outs p r \<and> sx_input_index r = gp_input_index p"
    "\<forall>r \<in> set (rs_script_path rs). \<exists>p \<in> set plans. script_path_from L B d packet prev_outs p r \<and> sx_input_index r = gp_input_index p"
proof -
  from assms have valid: "validate_signing_plans L plans managed (of_nat (length (wtx_ins (ppk_tx packet)))) = Inr ()"
    and loop: "fold_res (add_signing_request L B d packet prev_outs)
      \<lparr>rs_key_path = [], rs_musig2 = [], rs_script_path = []\<rparr> (sort_key gp_input_index plans) = Inr rs"
    by (auto simp: derive_signing_requests_def and_then_eq_Inr)
  show "is_ok (validate_signing_plans L plans managed (of_nat (length (wtx_ins (ppk_tx packet)))))"
    using valid by simp
  have "\<forall>r \<in> set (rs_key_path rs). \<exists>p \<in> set plans. key_path_from L B d packet prev_outs p r"
    "\<forall>r \<in> set (rs_musig2 rs). \<exists>p \<in> set plans. musig2_from L B d packet prev_outs p r"
    "\<forall>r \<in> set (rs_script_path rs). \<exists>p \<in> set plans. script_path_from L B d packet prev_outs p r"
    using requests_from_plans [OF loop] by simp_all
  then show "\<forall>r \<in> set (rs_key_path rs). \<exists>p \<in> set plans. key_path_from L B d packet prev_outs p r \<and> sx_input_index r = gp_input_index p"
    "\<forall>r \<in> set (rs_musig2 rs). \<exists>p \<in> set plans. musig2_from L B d packet prev_outs p r \<and> sx_input_index r = gp_input_index p"
    "\<forall>r \<in> set (rs_script_path rs). \<exists>p \<in> set plans. script_path_from L B d packet prev_outs p r \<and> sx_input_index r = gp_input_index p"
    by (meson request_indices)+
qed

lemma one_variant:
  assumes "validate_plan_variants L p = Inr ()" and "gp_caller_signed p \<noteq> None"
  shows "gp_key_path p = None \<and> gp_musig2 p = None \<and> gp_script_path p = None"
  using assms by (auto simp: validate_plan_variants_def and_then_eq_Inr plan_variants_def if_Inl_eq_Inr split: if_splits)

lemma final_input_sealed:
  assumes rs: "derive_signing_requests L B packet plans managed d = Inr rs" "anchor_prev_outs B packet = Inr prev_outs"
    and p: "p \<in> set plans" "distinct (map gp_input_index plans)" "gp_input_index p \<notin> set managed"
      "validate_plan_variants L p = Inr ()"
    and ok: "verify_final_input L B rs plans managed (unat (gp_input_index p)) () tx_in = Inr ()"
  shows "sealed_spend L B d packet prev_outs p (win_witness tx_in)"
proof -
  note from_plan = derived_requests(2-4) [OF rs]
  let ?find = "\<lambda>rs. find (\<lambda>r. sx_input_index r = gp_input_index p) (rev rs)"
  have plain: "\<not> witness_has_annex (win_witness tx_in)"
    using ok p(3) by (auto simp: verify_final_input_def Let_def if_Inl_eq_Inr)
  note step = ok [unfolded verify_final_input_def Let_def of_nat_unat ucast_id if_not_P [OF p(3)] if_not_P [OF plain]]
  show ?thesis
  proof (cases "?find (rs_key_path rs)")
    case (Some r)
    from found_request [OF Some from_plan(1) p(1,2)] step Some plain show ?thesis
      by (auto simp: sealed_spend_def key_path_from_def key_path_spend_def verify_final_key_path_def
          signing_context.defs key_path_request.defs split: list.split_asm)
  next
    case no_key: None
    show ?thesis
    proof (cases "?find (rs_musig2 rs)")
      case (Some r)
      from found_request [OF Some from_plan(2) p(1,2)] step Some no_key plain show ?thesis
        by (auto simp: sealed_spend_def musig2_from_def key_path_spend_def verify_final_key_path_def
            signing_context.defs musig2_request.defs split: list.split_asm)
    next
      case no_musig: None
      show ?thesis
      proof (cases "?find (rs_script_path rs)")
        case (Some r)
        from found_request [OF Some from_plan(3) p(1,2)] obtain s where
          s: "gp_key_path p = None" "gp_musig2 p = None" "gp_script_path p = Some s"
             "script_path_request_of L B d packet prev_outs (gp_input_index p) s = Inr r"
          by (auto simp: script_path_from_def)
        from step Some no_key no_musig have "verify_final_script_path L B (win_witness tx_in) r = Inr ()" by simp
        from final_script_path [OF this] s plain script_path_request_of_Inr(3) [OF s(4)] show ?thesis
          by (auto simp: sealed_spend_def script_path_spend_def)
      next
        case None
        from step None no_key no_musig have witness: "win_witness tx_in \<noteq> []"
          and "\<exists>q \<in> set plans. gp_caller_signed q \<noteq> None \<and> gp_input_index q = gp_input_index p"
          by (auto split: if_split_asm)
        then have "gp_caller_signed p \<noteq> None"
          using p(1,2) by (metis distinct_map inj_on_eq_iff)
        with one_variant [OF p(4) this] witness plain show ?thesis by (simp add: sealed_spend_def)
      qed
    qed
  qed
qed

text \<open>
  A final transaction that passes the check of the signing plans spends every input the
  backend does not manage on the path its plan sealed: a key path with one signature of the sealed
  sighash, or the sealed leaf with a signature of every required signer; no witness has an annex.
\<close>

lemma final_inputs_use_sealed_paths:
  assumes "anchor_prev_outs B packet = Inr prev_outs"
    and "length (wtx_ins final_tx) = length (wtx_ins (ppk_tx packet))"
    and "verify_final_signing_plans L B (derive_signing_requests L B packet plans managed d) plans managed final_tx = Inr ()"
  shows "set (map gp_input_index plans @ managed) = {i. i < of_nat (length (wtx_ins final_tx))} \<and>
    list_all (\<lambda>p. sealed_spend L B d packet prev_outs p (win_witness (wtx_ins final_tx ! unat (gp_input_index p)))) plans"
proof -
  let ?n = "of_nat (length (wtx_ins (ppk_tx packet)))"
  from assms(3) obtain rs where rs: "derive_signing_requests L B packet plans managed d = Inr rs"
    and loop: "is_ok (fold_idx (verify_final_input L B rs plans managed) 0 () (wtx_ins final_tx))"
    by (auto simp: verify_final_signing_plans_def and_then_eq_Inr)
  note valid = validate_signing_plans_ok [OF derived_requests(1) [OF rs assms(1)]]
  have "sealed_spend L B d packet prev_outs p (win_witness (wtx_ins final_tx ! unat (gp_input_index p)))"
    if p: "p \<in> set plans" for p
  proof -
    from valid(2) p have "gp_input_index p < ?n" by auto
    then have "unat (gp_input_index p) < length (wtx_ins final_tx)"
      using assms(2) by (metis le_unat_uoi not_less order_less_trans unat_mono word_less_nat_alt)
    with loop [unfolded fold_idx_unit_ok] have "verify_final_input L B rs plans managed (unat (gp_input_index p)) ()
        (wtx_ins final_tx ! unat (gp_input_index p)) = Inr ()"
      by (simp add: is_ok_unit)
    moreover have "gp_input_index p \<notin> set managed" "validate_plan_variants L p = Inr ()"
      using valid(1,3) p by (auto simp: is_ok_unit)
    ultimately show ?thesis using final_input_sealed [OF rs assms(1) p] valid(1) by simp
  qed
  with valid(2) assms(2) show ?thesis by (simp add: list_all_iff)
qed

end
