(* ===== verification/Tap_PackageFacts.thy ===== *)
theory Tap_PackageFacts
  imports Tap_PackageOps Tap_SigningFacts Tap_Demo
begin

text \<open>
  What holds of transfer packages: the methods that sign change the current PSBT and the package
  digest only, a stored final transaction spends every input on its sealed path, a validated package
  describes each virtual input and output exactly once, and the binary form is read back. The last
  section shows that key-path signatures and script-path witnesses exclude each other.
\<close>

section \<open>Methods that replace the current PSBT\<close>

text \<open>\<open>q\<close> is \<open>p\<close> up to the current anchor PSBT and the package digest.\<close>

definition same_commitment :: "transfer_package \<Rightarrow> transfer_package \<Rightarrow> bool" where
  "same_commitment p q \<longleftrightarrow>
     q = p\<lparr>tpk_anchor_psbt := tpk_anchor_psbt q, tpk_package_digest := tpk_package_digest q\<rparr>"

lemma same_commitment_refl [simp]: "same_commitment p p"
  by (simp add: same_commitment_def)

lemma same_commitment_trans: "same_commitment p q \<Longrightarrow> same_commitment q r \<Longrightarrow> same_commitment p r"
  by (cases p; cases q; cases r) (auto simp: same_commitment_def)

lemma same_commitment_fields:
  assumes "same_commitment p q"
  shows "tpk_committed_psbt q = tpk_committed_psbt p" "tpk_signing_plans q = tpk_signing_plans p"
    "tpk_backend_managed q = tpk_backend_managed p" "tpk_committed_digest q = tpk_committed_digest p"
    "tpk_schema_version q = tpk_schema_version p"
  using assms by (cases p; cases q; simp add: same_commitment_def)+

lemma refresh_Inr:
  assumes "refresh_package_digest B (p\<lparr>tpk_anchor_psbt := psbt\<rparr>) = Inr q"
  shows "same_commitment p q" "tpk_anchor_psbt q = psbt"
  using assms by (auto simp: refresh_package_digest_def and_then_eq_Inr same_commitment_def)

lemma store_anchor_packet_Inr:
  assumes "store_anchor_packet N B V p packet = Inr q"
  shows "same_commitment p q" "validate_package N B V q = Inr ()"
    "serialize_anchor_psbt B packet = Inr (tpk_anchor_psbt q)"
  using assms by (auto simp: store_anchor_packet_def and_then_eq_Inr dest: refresh_Inr)

inductive package_step ::
    "('k, 'g, 'f, 'y) native_lib_scheme \<Rightarrow> ('k, 's, 'z) package_lib_scheme \<Rightarrow> ('k, 'g, 'f, 'c, 'x) vpacket_lib_scheme \<Rightarrow>
     transfer_package \<Rightarrow> transfer_package \<Rightarrow> bool"
  for N B V where
  key_path: "apply_key_path_signature N B V p request_id signature = Inr q \<Longrightarrow> package_step N B V p q"
| script_path: "apply_script_path_witness N B V p request_id elements = Inr q \<Longrightarrow> package_step N B V p q"
| final_psbt: "with_final_anchor_psbt N B V p final_bytes = Inr q \<Longrightarrow> package_step N B V p q"

lemma package_step_result:
  assumes "package_step N B V p q"
  shows "same_commitment p q \<and> validate_package N B V p = Inr () \<and> validate_package N B V q = Inr ()"
  using assms
proof cases
  case (key_path request_id signature)
  then show ?thesis
    by (auto simp: apply_key_path_signature_def package_signing_requests_def and_then_eq_Inr
        dest: store_anchor_packet_Inr split: option.split_asm)
next
  case (script_path request_id elements)
  then show ?thesis
    by (auto simp: apply_script_path_witness_def package_signing_requests_def and_then_eq_Inr
        dest: store_anchor_packet_Inr split: option.split_asm)
next
  case (final_psbt final_bytes)
  then show ?thesis
    by (auto simp: with_final_anchor_psbt_def and_then_eq_Inr dest: refresh_Inr)
qed

lemma package_steps_result:
  assumes "(package_step N B V)\<^sup>*\<^sup>* p q" and "validate_package N B V p = Inr ()"
  shows "same_commitment p q \<and> validate_package N B V q = Inr ()"
  using assms
proof (induction rule: rtranclp_induct)
  case base
  then show ?case by simp
next
  case (step q r)
  then show ?case using package_step_result [OF step.hyps(2)] same_commitment_trans by blast
qed

text \<open>
  C15. However signatures and final witnesses are applied to a valid package, the result is valid,
  nothing but the current anchor PSBT and the package digest has changed, and the signing requests,
  with their IDs, are those of the package the steps started from.
\<close>

theorem package_steps_keep_commitment:
  assumes "(package_step N B V)\<^sup>*\<^sup>* p q" and "validate_package N B V p = Inr ()"
  shows "validate_package N B V q = Inr () \<and>
    q = p\<lparr>tpk_anchor_psbt := tpk_anchor_psbt q, tpk_package_digest := tpk_package_digest q\<rparr> \<and>
    package_signing_requests N B V q = package_signing_requests N B V p"
proof -
  note result = package_steps_result [OF assms]
  then have "package_signing_requests N B V q = package_signing_requests N B V p"
    using assms(2) by (simp add: package_signing_requests_def same_commitment_fields [of p q])
  with result show ?thesis by (simp add: same_commitment_def)
qed

theorem package_steps_keep_commitment_witness:
  "package_signing_requests demo_native demo_btc demo_vlib (demo_package [3]) = Inr demo_requests"
proof -
  have "(package_step demo_native demo_btc demo_vlib)\<^sup>*\<^sup>* (demo_package [1]) (demo_package [3])"
    by (rule r_into_rtranclp) (rule package_step.final_psbt [OF demo_final])
  from package_steps_keep_commitment [OF this] show ?thesis by (simp add: demo_valid demo_signing_requests)
qed

section \<open>The final transaction\<close>

text \<open>
  A transaction without the scripts and witnesses of its inputs. \<open>psbt.Extract\<close> fills these in and
  leaves the rest of the unsigned transaction as it is.
\<close>

definition unsigned_part :: "wire_tx \<Rightarrow> wire_tx" where
  "unsigned_part tx = tx\<lparr>wtx_ins := map (\<lambda>i. i\<lparr>win_signature_script := [], win_witness := []\<rparr>) (wtx_ins tx)\<rparr>"

definition extract_keeps_inputs :: "('k, 's, 'z) btc_lib_scheme \<Rightarrow> bool" where
  "extract_keeps_inputs B \<longleftrightarrow>
     (\<forall>packet tx. bl_extract B packet = Inr tx \<longrightarrow> unsigned_part tx = unsigned_part (ppk_tx packet))"

lemma unsigned_part_inputs: "unsigned_part tx = unsigned_part tx' \<Longrightarrow> length (wtx_ins tx) = length (wtx_ins tx')"
  by (cases tx; cases tx') (auto simp: unsigned_part_def dest: map_eq_imp_length_eq)

lemma prev_out_final_fields [simp]: "anchor_prev_out B (take_final_fields c f) op = anchor_prev_out B c op"
  by (simp add: anchor_prev_out_def take_final_fields_def)

lemma prev_outs_final_fields:
  "length cs = length fs \<Longrightarrow> prev_outs_loop B outs (map2 take_final_fields cs fs) tx_ins = prev_outs_loop B outs cs tx_ins"
proof (induction cs fs arbitrary: outs tx_ins rule: list_induct2)
  case Nil
  then show ?case by simp
next
  case (Cons c cs f fs)
  then show ?case by (cases tx_ins) simp_all
qed

lemma sanitize_final_Inr:
  assumes "sanitize_final_psbt B committed_bytes final_bytes = Inr (bs, packet)"
  shows "\<exists>c f. decode_anchor_psbt B committed_bytes = Inr c \<and> decode_anchor_psbt B final_bytes = Inr f \<and>
    length (ppk_inputs c) = length (ppk_inputs f) \<and> ppk_tx packet = ppk_tx c \<and>
    packet = c\<lparr>ppk_inputs := map2 take_final_fields (ppk_inputs c) (ppk_inputs f)\<rparr> \<and>
    serialize_anchor_psbt B packet = Inr bs \<and>
    anchor_prev_outs B packet = anchor_prev_outs B c"
  using assms
  by (auto simp: sanitize_final_psbt_def and_then_eq_Inr Let_def if_Inl_eq_Inr anchor_prev_outs_def prev_outs_final_fields)

lemma final_witnesses_Inr:
  assumes "verify_final_witnesses B packet tx = Inr ()"
  shows "\<exists>prev_outs. anchor_prev_outs B packet = Inr prev_outs \<and> length (wtx_ins tx) \<le> length prev_outs \<and>
    (\<forall>i < length (wtx_ins tx). is_ok (bl_execute B (txo_pk_script (snd (prev_outs ! i))) tx i prev_outs
       (txo_value (snd (prev_outs ! i)))))"
proof -
  from assms obtain prev_outs where prev: "anchor_prev_outs B packet = Inr prev_outs"
    and loop: "is_ok (fold_idx (\<lambda>i _ _.
       if i \<ge> length prev_outs then Inl (Plain ''index out of range'')
       else wrap_with (\<lambda>e. Wrapf ''verify final anchor input witness: '' e [])
              (bl_execute B (txo_pk_script (snd (prev_outs ! i))) tx i prev_outs (txo_value (snd (prev_outs ! i)))))
       0 () (wtx_ins tx))"
    by (auto simp: verify_final_witnesses_def and_then_eq_Inr)
  then have all: "i < length prev_outs \<and> is_ok (bl_execute B (txo_pk_script (snd (prev_outs ! i))) tx i prev_outs
      (txo_value (snd (prev_outs ! i))))" if "i < length (wtx_ins tx)" for i
    using that unfolding fold_idx_unit_ok by (auto split: if_splits)
  then have "length (wtx_ins tx) \<le> length prev_outs"
    by (metis not_less less_irrefl)
  with prev all show ?thesis by blast
qed

lemma verify_final_plans_Inr:
  assumes "verify_final_plans N B V p tx = Inr ()" and "decode_anchor_psbt B (tpk_committed_psbt p) = Inr c"
  shows "verify_final_signing_plans (lib.truncate N) B
    (derive_signing_requests (lib.truncate N) B c (tpk_signing_plans p) (tpk_backend_managed p) (tpk_committed_digest p))
    (tpk_signing_plans p) (tpk_backend_managed p) tx = Inr ()"
  using assms
  by (auto simp: verify_final_plans_def verify_final_signing_plans_def package_signing_requests_def and_then_eq_Inr)

text \<open>
  C13. A final PSBT is stored only if its transaction is the committed one but for the scripts and
  witnesses of the inputs: version, lock time, outpoints, sequences and outputs are the same. Every input
  is classified; every input that is not left to the backend is spent on the path its plan seals; and the
  witness of every input executes against the committed previous outputs.
\<close>

theorem stored_final_spends_sealed:
  assumes "extract_keeps_inputs B" and "with_final_anchor_psbt N B V p final_bytes = Inr q"
  shows "\<exists>c prev_outs packet tx. decode_anchor_psbt B (tpk_committed_psbt p) = Inr c \<and>
    anchor_prev_outs B c = Inr prev_outs \<and> serialize_anchor_psbt B packet = Inr (tpk_anchor_psbt q) \<and>
    bl_extract B packet = Inr tx \<and>
    unsigned_part tx = unsigned_part (ppk_tx c) \<and>
    set (map gp_input_index (tpk_signing_plans p) @ tpk_backend_managed p) = {i. i < of_nat (length (wtx_ins tx))} \<and>
    list_all (\<lambda>pl. sealed_spend (lib.truncate N) B (tpk_committed_digest p) c prev_outs pl
      (win_witness (wtx_ins tx ! unat (gp_input_index pl)))) (tpk_signing_plans p) \<and>
    list_all (\<lambda>i. is_ok (bl_execute B (txo_pk_script (snd (prev_outs ! i))) tx i prev_outs
      (txo_value (snd (prev_outs ! i))))) [0 ..< length (wtx_ins tx)]"
proof -
  from assms(2) obtain bs packet tx where san: "sanitize_final_psbt B (tpk_committed_psbt p) final_bytes = Inr (bs, packet)"
    and tx: "bl_extract B packet = Inr tx" and plans: "verify_final_plans N B V p tx = Inr ()"
    and wit: "verify_final_witnesses B packet tx = Inr ()"
    and q: "refresh_package_digest B (p\<lparr>tpk_anchor_psbt := bs\<rparr>) = Inr q"
    by (auto simp: with_final_anchor_psbt_def and_then_eq_Inr)
  from sanitize_final_Inr [OF san] obtain c where c: "decode_anchor_psbt B (tpk_committed_psbt p) = Inr c"
    and same: "ppk_tx packet = ppk_tx c" "anchor_prev_outs B packet = anchor_prev_outs B c"
    and bs: "serialize_anchor_psbt B packet = Inr bs" by blast
  from final_witnesses_Inr [OF wit] same obtain prev_outs where prev: "anchor_prev_outs B c = Inr prev_outs"
    and run: "\<forall>i < length (wtx_ins tx). is_ok (bl_execute B (txo_pk_script (snd (prev_outs ! i))) tx i prev_outs
       (txo_value (snd (prev_outs ! i))))" by auto
  from assms(1) tx same have keeps: "unsigned_part tx = unsigned_part (ppk_tx c)"
    by (auto simp: extract_keeps_inputs_def)
  then have "length (wtx_ins tx) = length (wtx_ins (ppk_tx c))" by (rule unsigned_part_inputs)
  from final_inputs_use_sealed_paths [OF prev this verify_final_plans_Inr [OF plans c]]
  show ?thesis using c prev bs tx keeps run refresh_Inr(2) [OF q]
    by (intro exI [of _ c] exI [of _ prev_outs] exI [of _ packet] exI [of _ tx]) (simp add: list_all_iff)
qed

lemma demo_extract_keeps: "extract_keeps_inputs demo_btc"
  by (auto simp: extract_keeps_inputs_def demo_extract_def unsigned_part_def comp_def)

theorem stored_final_spends_sealed_witness:
  "\<exists>packet. serialize_anchor_psbt demo_btc packet = Inr (tpk_anchor_psbt (demo_package [3])) \<and>
     bl_extract demo_btc packet = Inr demo_final_tx"
  using stored_final_spends_sealed [OF demo_extract_keeps demo_final] demo_serialized(3)
  by (intro exI [of _ "demo_psbt [] [1] [1]"]) auto

section \<open>Mappings\<close>

lemma be_bytes_u32_inj: "be_bytes 4 (unat (i :: u32)) = be_bytes 4 (unat j) \<longleftrightarrow> i = j"
proof -
  have "unat k < 4294967296" for k :: u32 using unsigned_less [of k] by simp
  then have "be_nat (be_bytes 4 (unat k)) = unat k" for k :: u32 by (simp add: be_nat_be_bytes)
  then show ?thesis by (metis word_unat_eq_iff)
qed

lemma mapping_key_inj:
  "mapping_key r i j = mapping_key r' i' j' \<longleftrightarrow> role_byte r = role_byte r' \<and> i = i' \<and> j = j'"
  by (simp add: mapping_key_def append_eq_append_conv be_bytes_u32_inj)

text \<open>The mapping keys of the inputs, or of the outputs, of a list of virtual packets.\<close>

definition slots :: "packet_role \<Rightarrow> ('p \<Rightarrow> 'a list) \<Rightarrow> 'p list \<Rightarrow> bytes set" where
  "slots role items packets = (\<lambda>(k, i). mapping_key role (of_nat k) (of_nat i)) `
     (SIGMA k : {..<length packets}. {..<length (items (packets ! k))})"

definition small :: "('p \<Rightarrow> 'a list) \<Rightarrow> 'p list \<Rightarrow> bool" where
  "small items packets \<longleftrightarrow> length packets < 2 ^ 32 \<and> list_all (\<lambda>q. length (items q) < 2 ^ 32) packets"

lemma unat_of_nat_u32: "n < 2 ^ 32 \<Longrightarrow> unat (of_nat n :: u32) = n"
  by (simp add: unat_of_nat take_bit_eq_mod)

lemma of_nat_u32_inj: "m < 2 ^ 32 \<Longrightarrow> n < 2 ^ 32 \<Longrightarrow> (of_nat m :: u32) = of_nat n \<longleftrightarrow> m = n"
  by (metis unat_of_nat_u32)

lemma card_slots:
  assumes "small items packets"
  shows "card (slots role items packets) = sum_list (map (\<lambda>q. length (items q)) packets)"
    "finite (slots role items packets)"
proof -
  have "inj_on (\<lambda>(k, i). mapping_key role (of_nat k) (of_nat i)) (SIGMA k : {..<length packets}. {..<length (items (packets ! k))})"
    using assms by (auto simp: inj_on_def mapping_key_inj small_def list_all_length of_nat_u32_inj)
  then have "card (slots role items packets) = card (SIGMA k : {..<length packets}. {..<length (items (packets ! k))})"
    unfolding slots_def by (rule card_image)
  also have "\<dots> = (\<Sum>k<length packets. length (items (packets ! k)))" by simp
  also have "\<dots> = sum_list (map (\<lambda>q. length (items q)) packets)"
    by (simp add: sum_list_sum_nth atLeast0LessThan)
  finally show "card (slots role items packets) = sum_list (map (\<lambda>q. length (items q)) packets)" .
  show "finite (slots role items packets)" by (simp add: slots_def)
qed

lemma slots_disjoint: "slots RoleActive items packets \<inter> slots RolePassive items packets' = {}"
  by (auto simp: slots_def mapping_key_inj role_byte_def)

text \<open>
  A list of entries with distinct keys that has an entry for every slot, and as many entries as
  there are slots, has exactly one entry for each.
\<close>

lemma by_mapping_Some: "by_mapping key xs k = Some x \<Longrightarrow> x \<in> set xs \<and> key x = k"
  by (auto simp: by_mapping_def find_Some_iff) (metis length_rev nth_mem set_rev)

lemma exact_cover:
  assumes small: "small items active" "small items passive"
    and cover: "slots RoleActive items active \<union> slots RolePassive items passive \<subseteq> key ` set xs"
    and len: "length xs = sum_list (map (\<lambda>q. length (items q)) (active @ passive))"
  shows "distinct (map key xs) \<and> key ` set xs = slots RoleActive items active \<union> slots RolePassive items passive"
proof -
  let ?slots = "slots RoleActive items active \<union> slots RolePassive items passive"
  have card: "card ?slots = length xs"
    using len by (simp add: card_Un_disjoint card_slots [OF small(1)] card_slots [OF small(2)] slots_disjoint)
  then have "length (map key xs) \<le> card (set (map key xs))"
    using card_mono [OF _ cover] by simp
  then have "card (set (map key xs)) = length (map key xs)"
    using card_length [of "map key xs"] by simp
  then have "distinct (map key xs)" by (rule card_distinct)
  moreover have "?slots = key ` set xs"
    using card card_image_le [of "set xs" key] card_length [of xs] by (intro card_seteq [OF _ cover]) auto
  ultimately show ?thesis by simp
qed

text \<open>What the package says of the virtual inputs and outputs of one collection of packets.\<close>

definition inputs_described ::
    "('k, 'g, 'f, 'z) native_lib_scheme \<Rightarrow> ('k, 'g, 'f, 'c, 'y) vpacket_lib_scheme \<Rightarrow> psbt_packet \<Rightarrow> transfer_package \<Rightarrow>
     packet_role \<Rightarrow> ('k, 'g, 'f) tap_vpacket list \<Rightarrow> bool" where
  "inputs_described N V anchor p role packets \<longleftrightarrow>
     (\<forall>k < length packets. \<forall>i < length (tvp_inputs (packets ! k)). \<exists>s \<in> set (tpk_inputs p).
        input_key s = mapping_key role (of_nat k) (of_nat i) \<and>
        validate_input_mapping N V anchor (tvp_inputs (packets ! k) ! i) s = Inr ())"

definition outputs_described ::
    "('k, 'g, 'f, 'z) native_lib_scheme \<Rightarrow> ('k, 's, 'x) btc_lib_scheme \<Rightarrow> ('k, 'g, 'f, 'c, 'y) vpacket_lib_scheme \<Rightarrow>
     psbt_packet \<Rightarrow> (u32 \<Rightarrow> 'c option) \<Rightarrow> ('k, 'g, 'f) tap_vpacket list \<Rightarrow> transfer_package \<Rightarrow> packet_role \<Rightarrow>
     ('k, 'g, 'f) tap_vpacket list \<Rightarrow> bool" where
  "outputs_described N B V anchor commitments all_packets p role packets \<longleftrightarrow>
     (\<forall>k < length packets. \<forall>i < length (tvp_outputs (packets ! k)). \<exists>s \<in> set (tpk_outputs p). \<exists>u \<in> set (tpk_updates p).
        output_key s = mapping_key role (of_nat k) (of_nat i) \<and> update_key u = mapping_key role (of_nat k) (of_nat i) \<and>
        validate_output_mapping N B V anchor commitments all_packets (packets ! k) i (tvp_outputs (packets ! k) ! i) s u = Inr ())"

lemma check_virtual_input_ok:
  "is_ok (check_virtual_input N V anchor p role k i u vin) \<Longrightarrow>
     \<exists>s \<in> set (tpk_inputs p). input_key s = mapping_key role (of_nat k) (of_nat i) \<and>
       validate_input_mapping N V anchor vin s = Inr ()"
  by (auto simp: check_virtual_input_def is_ok_unit split: option.split_asm dest: by_mapping_Some)

lemma check_virtual_output_ok:
  "is_ok (check_virtual_output N B V anchor commitments all_packets p role k packet i u out) \<Longrightarrow>
     \<exists>s \<in> set (tpk_outputs p). \<exists>upd \<in> set (tpk_updates p).
       output_key s = mapping_key role (of_nat k) (of_nat i) \<and> update_key upd = mapping_key role (of_nat k) (of_nat i) \<and>
       validate_output_mapping N B V anchor commitments all_packets packet i out s upd = Inr ()"
  by (auto simp: check_virtual_output_def is_ok_unit split: option.split_asm dest!: by_mapping_Some)

lemma check_collection_ok:
  assumes "check_collection N B V anchor commitments all_packets p role packets = Inr ()"
  shows "inputs_described N V anchor p role packets \<and> outputs_described N B V anchor commitments all_packets p role packets"
proof -
  from assms have *: "\<forall>k < length packets.
      (\<forall>i < length (tvp_inputs (packets ! k)). is_ok (check_virtual_input N V anchor p role k i () (tvp_inputs (packets ! k) ! i))) \<and>
      (\<forall>i < length (tvp_outputs (packets ! k)). is_ok (check_virtual_output N B V anchor commitments all_packets p role k
         (packets ! k) i () (tvp_outputs (packets ! k) ! i)))"
    unfolding check_collection_def is_ok_unit [symmetric] fold_idx_unit_ok is_ok_and_then_unit by simp
  show ?thesis
    unfolding inputs_described_def outputs_described_def
    by (intro conjI allI impI; rule check_virtual_input_ok check_virtual_output_ok) (use * in blast)+
qed

lemma slots_subset:
  "slots role items packets \<subseteq> S \<longleftrightarrow>
     (\<forall>k < length packets. \<forall>i < length (items (packets ! k)). mapping_key role (of_nat k) (of_nat i) \<in> S)"
  by (auto simp: slots_def)

lemma described_inputs_cover:
  "inputs_described N V anchor p role packets \<Longrightarrow> slots role tvp_inputs packets \<subseteq> input_key ` set (tpk_inputs p)"
  unfolding inputs_described_def slots_subset image_iff by metis

lemma described_outputs_cover:
  assumes "outputs_described N B V anchor commitments all_packets p role packets"
  shows "slots role tvp_outputs packets \<subseteq> output_key ` set (tpk_outputs p)"
    "slots role tvp_outputs packets \<subseteq> update_key ` set (tpk_updates p)"
  using assms unfolding outputs_described_def slots_subset image_iff by metis+

lemma semantic_mappings_Inr:
  assumes "validate_semantic_mappings N B V p anchor input_keys output_keys update_keys = Inr ()"
  shows "\<exists>active passive commitments.
    decode_virtual_packets V ''active'' (tpk_active p) = Inr active \<and>
    decode_virtual_packets V ''passive'' (tpk_passive p) = Inr passive \<and>
    vl_create_commitments V (active @ passive) True = Inr commitments \<and>
    check_collection N B V anchor commitments (active @ passive) p RoleActive active = Inr () \<and>
    check_collection N B V anchor commitments (active @ passive) p RolePassive passive = Inr () \<and>
    length (tpk_inputs p) = count_inputs (active @ passive) \<and>
    length (tpk_outputs p) = count_outputs (active @ passive) \<and> length (tpk_updates p) = count_outputs (active @ passive)"
  using assms
  by (auto simp: validate_semantic_mappings_def and_then_eq_Inr Let_def if_Inl_eq_Inr)

text \<open>
  C14. A valid package describes its virtual packets exactly: there is one input summary for each
  virtual input, and one output summary and one proof update for each virtual output, under distinct
  keys, and each agrees with the asset, the anchor and the proof suffix it describes.
\<close>

theorem package_describes_packets:
  assumes "validate_package N B V p = Inr ()"
    and "decode_virtual_packets V ''active'' (tpk_active p) = Inr active"
    and "decode_virtual_packets V ''passive'' (tpk_passive p) = Inr passive"
    and "small tvp_inputs active \<and> small tvp_outputs active \<and> small tvp_inputs passive \<and> small tvp_outputs passive"
  shows "\<exists>anchor commitments. decode_anchor_psbt B (tpk_committed_psbt p) = Inr anchor \<and>
    vl_create_commitments V (active @ passive) True = Inr commitments \<and>
    inputs_described N V anchor p RoleActive active \<and> inputs_described N V anchor p RolePassive passive \<and>
    outputs_described N B V anchor commitments (active @ passive) p RoleActive active \<and>
    outputs_described N B V anchor commitments (active @ passive) p RolePassive passive \<and>
    distinct (map input_key (tpk_inputs p)) \<and> distinct (map output_key (tpk_outputs p)) \<and>
    distinct (map update_key (tpk_updates p)) \<and>
    input_key ` set (tpk_inputs p) = slots RoleActive tvp_inputs active \<union> slots RolePassive tvp_inputs passive \<and>
    output_key ` set (tpk_outputs p) = slots RoleActive tvp_outputs active \<union> slots RolePassive tvp_outputs passive \<and>
    update_key ` set (tpk_updates p) = slots RoleActive tvp_outputs active \<union> slots RolePassive tvp_outputs passive"
proof -
  from assms(1) have "validate_structure N B V p = Inr ()"
    by (auto simp: validate_package_def and_then_eq_Inr if_Inl_eq_Inr)
  then obtain anchor ik ok uk where anchor: "decode_anchor_psbt B (tpk_committed_psbt p) = Inr anchor"
    and "validate_semantic_mappings N B V p anchor ik ok uk = Inr ()"
    by (auto simp: validate_structure_def and_then_eq_Inr if_Inl_eq_Inr)
  from semantic_mappings_Inr [OF this(2)] assms(2,3) obtain commitments where
    commitments: "vl_create_commitments V (active @ passive) True = Inr commitments"
    and checks: "check_collection N B V anchor commitments (active @ passive) p RoleActive active = Inr ()"
      "check_collection N B V anchor commitments (active @ passive) p RolePassive passive = Inr ()"
    and len: "length (tpk_inputs p) = count_inputs (active @ passive)"
      "length (tpk_outputs p) = count_outputs (active @ passive)" "length (tpk_updates p) = count_outputs (active @ passive)"
    by auto
  note described = check_collection_ok [OF checks(1)] check_collection_ok [OF checks(2)]
  note cover = exact_cover [where items = tvp_inputs and key = input_key and xs = "tpk_inputs p"]
    exact_cover [where items = tvp_outputs and key = output_key and xs = "tpk_outputs p"]
    exact_cover [where items = tvp_outputs and key = update_key and xs = "tpk_updates p"]
  note covered = described_inputs_cover [OF conjunct1 [OF described(1)]] described_inputs_cover [OF conjunct1 [OF described(2)]]
    described_outputs_cover [OF conjunct2 [OF described(1)]] described_outputs_cover [OF conjunct2 [OF described(2)]]
  have "distinct (map input_key (tpk_inputs p)) \<and>
      input_key ` set (tpk_inputs p) = slots RoleActive tvp_inputs active \<union> slots RolePassive tvp_inputs passive"
    using assms(4) covered len(1) by (intro cover) (simp_all add: count_inputs_def)
  moreover have "distinct (map output_key (tpk_outputs p)) \<and>
      output_key ` set (tpk_outputs p) = slots RoleActive tvp_outputs active \<union> slots RolePassive tvp_outputs passive"
    using assms(4) covered len(2) by (intro cover) (simp_all add: count_outputs_def)
  moreover have "distinct (map update_key (tpk_updates p)) \<and>
      update_key ` set (tpk_updates p) = slots RoleActive tvp_outputs active \<union> slots RolePassive tvp_outputs passive"
    using assms(4) covered len(3) by (intro cover) (simp_all add: count_outputs_def)
  ultimately show ?thesis using anchor commitments described
    by (intro exI [of _ anchor] exI [of _ commitments] conjI) (elim conjE, assumption)+
qed

theorem package_describes_packets_witness:
  "input_key ` set (tpk_inputs (demo_package [2])) = slots RoleActive tvp_inputs [demo_vpacket]"
proof -
  have "small tvp_inputs [demo_vpacket]" "small tvp_outputs [demo_vpacket]"
    by (simp_all add: small_def demo_vpacket_def)
  then have "small tvp_inputs [demo_vpacket] \<and> small tvp_outputs [demo_vpacket] \<and>
      small tvp_inputs ([] :: (unit, unit, unit) tap_vpacket list) \<and> small tvp_outputs ([] :: (unit, unit, unit) tap_vpacket list)"
    by (simp add: small_def)
  from package_describes_packets [OF demo_valid [of 2] _ _ this] show ?thesis
    by (auto simp: slots_def)
qed

section \<open>Encodings\<close>

lemma length_package_magic [simp]: "length package_magic = 8"
  by (simp add: package_magic_def domain_bytes_def)

text \<open>
  C22. \<open>UnmarshalBinary\<close> reads back what \<open>MarshalBinary\<close> wrote, for every package whose JSON text
  decodes to it.
\<close>

theorem package_binary_roundtrip:
  assumes "marshal_package N B V p = Inr d" and "and_then (kj_marshal B p) (kj_decode B) = Inr p"
  shows "unmarshal_package N B V d = Inr p"
proof -
  from assms(1) obtain payload where valid: "validate_package N B V p = Inr ()"
    and json: "kj_marshal B p = Inr payload" and len: "length payload < 4294967296"
    and d: "d = package_magic @ be_bytes 2 (unat (tpk_schema_version p)) @ be_bytes 4 (length payload) @ payload"
    by (auto simp: marshal_package_def marshal_json_def and_then_eq_Inr if_Inl_eq_Inr)
  from valid have version: "tpk_schema_version p = package_version"
    by (auto simp: validate_package_def if_Inl_eq_Inr)
  have "be_nat (be_bytes 2 (unat package_version)) = unat package_version"
    by (simp add: be_nat_be_bytes package_version_def)
  moreover have "be_nat (be_bytes 4 (length payload)) = length payload"
    using len by (simp add: be_nat_be_bytes)
  moreover have "unmarshal_json N B V payload = Inr p"
    using assms(2) valid json by (simp add: unmarshal_json_def)
  ultimately show ?thesis
    by (simp add: unmarshal_package_def binary_header_def d version)
qed

theorem package_binary_roundtrip_witness:
  "\<exists>d. marshal_package demo_native demo_btc demo_vlib (demo_package [1]) = Inr d \<and>
     unmarshal_package demo_native demo_btc demo_vlib d = Inr (demo_package [1])"
proof -
  obtain d where "marshal_package demo_native demo_btc demo_vlib (demo_package [1]) = Inr d"
    by (auto simp: marshal_package_def marshal_json_def demo_valid)
  with package_binary_roundtrip [OF this] show ?thesis by simp
qed

end
