(* ===== verification/Tap_MixedSigning.thy ===== *)
theory Tap_MixedSigning
  imports Tap_PackageFacts
begin

text \<open>
  A package whose plans mix key-path and script-path spends: once a signature of one kind is applied,
  applying one of the other kind is always refused. The cause is that \<open>Validate\<close> compares a PSBT with a
  finalised input with the committed PSBT plus final fields, where a key-path signature of another
  input is missing.
\<close>

text \<open>
  What the code relies on of \<open>btcd/psbt\<close>: a written packet is not empty and is read back with its
  transaction; an input stays final or not, and one that is not keeps its key-path signature. A
  written witness is not empty.
\<close>

definition keeps_input :: "psbt_input \<Rightarrow> psbt_input \<Rightarrow> bool" where
  "keeps_input i i' \<longleftrightarrow> input_finalized i' = input_finalized i \<and>
     (\<not> input_finalized i \<longrightarrow> pin_key_spend_sig i' = pin_key_spend_sig i)"

definition psbt_codec_keeps :: "('k, 's, 'z) btc_lib_scheme \<Rightarrow> bool" where
  "psbt_codec_keeps B \<longleftrightarrow>
     (\<forall>p b. bl_serialize_psbt B p = Inr b \<longrightarrow> b \<noteq> [] \<and>
        (\<exists>p'. bl_decode_psbt B b = Inr p' \<and> list_all2 keeps_input (ppk_inputs p) (ppk_inputs p'))) \<and>
     (\<forall>w b. bl_write_witness B w = Inr b \<longrightarrow> b \<noteq> [])"

lemma codec_decodes:
  "psbt_codec_keeps B \<Longrightarrow> serialize_anchor_psbt B p = Inr b \<Longrightarrow>
     \<exists>p'. bl_decode_psbt B b = Inr p' \<and> list_all2 keeps_input (ppk_inputs p) (ppk_inputs p')"
  by (simp add: psbt_codec_keeps_def serialize_anchor_psbt_def)

lemma decode_serialized:
  assumes "psbt_codec_keeps B" and "serialize_anchor_psbt B p = Inr b" and "decode_anchor_psbt B b = Inr p'"
  shows "list_all2 keeps_input (ppk_inputs p) (ppk_inputs p')"
  using assms
  by (fastforce simp: psbt_codec_keeps_def serialize_anchor_psbt_def decode_anchor_psbt_def and_then_eq_Inr if_Inl_eq_Inr)

lemma canonical_Inr:
  assumes "canonical_anchor_psbt B raw False = Inr b"
  shows "\<exists>p. decode_anchor_psbt B raw = Inr p \<and> serialize_anchor_psbt B p = Inr b"
  using assms by (auto simp: canonical_anchor_psbt_def and_then_eq_Inr)

lemma finalized_take_final [simp]: "input_finalized (take_final_fields c f) = input_finalized f"
  by (simp add: input_finalized_def take_final_fields_def)

text \<open>A packet with a final input shows the committed key-path signatures on the others.\<close>

lemma finalized_has_committed_sigs:
  assumes law: "psbt_codec_keeps B"
    and cmp: "compare_committed_metadata B committed current = Inr ()"
    and c: "decode_anchor_psbt B committed = Inr c" and cur: "decode_anchor_psbt B current = Inr cur"
    and fin: "\<exists>j \<in> set (ppk_inputs cur). input_finalized j"
    and i: "i < length (ppk_inputs cur)" "\<not> input_finalized (ppk_inputs cur ! i)"
  shows "i < length (ppk_inputs c) \<and> pin_key_spend_sig (ppk_inputs cur ! i) = pin_key_spend_sig (ppk_inputs c ! i)"
proof -
  from cmp cur fin obtain expected packet x where
    san: "sanitize_final_psbt B committed current = Inr (expected, packet)"
    and can: "canonical_anchor_psbt B expected False = Inr x" "canonical_anchor_psbt B current False = Inr x"
    by (auto simp: compare_committed_metadata_def and_then_eq_Inr if_Inl_eq_Inr split: prod.split_asm)
  from sanitize_final_Inr [OF san] c cur have len: "length (ppk_inputs c) = length (ppk_inputs cur)"
    and packet: "packet = c\<lparr>ppk_inputs := map2 take_final_fields (ppk_inputs c) (ppk_inputs cur)\<rparr>"
    and bytes: "serialize_anchor_psbt B packet = Inr expected" by auto
  from canonical_Inr [OF can(1)] obtain e where e: "decode_anchor_psbt B expected = Inr e" "serialize_anchor_psbt B e = Inr x"
    by blast
  from canonical_Inr [OF can(2)] cur have cur_x: "serialize_anchor_psbt B cur = Inr x" by auto
  from codec_decodes [OF law cur_x] codec_decodes [OF law e(2)] obtain y :: psbt_packet where
    y: "list_all2 keeps_input (ppk_inputs cur) (ppk_inputs y)" "list_all2 keeps_input (ppk_inputs e) (ppk_inputs y)"
    by auto
  from decode_serialized [OF law bytes e(1)] have pe: "list_all2 keeps_input (ppk_inputs packet) (ppk_inputs e)" .
  have "keeps_input (ppk_inputs cur ! i) (ppk_inputs y ! i)" "keeps_input (ppk_inputs e ! i) (ppk_inputs y ! i)"
    "keeps_input (ppk_inputs packet ! i) (ppk_inputs e ! i)"
    using y pe i(1) len packet by (auto simp: list_all2_conv_all_nth)
  moreover have "pin_key_spend_sig (ppk_inputs packet ! i) = pin_key_spend_sig (ppk_inputs c ! i)"
    using i(1) len packet by (simp add: take_final_fields_def)
  ultimately show ?thesis using i len by (auto simp: keeps_input_def)
qed

text \<open>A packet with a key-path signature on one input and a final witness on another.\<close>

definition mixed_signatures :: "psbt_packet \<Rightarrow> bool" where
  "mixed_signatures p \<longleftrightarrow>
     (\<exists>i < length (ppk_inputs p). \<not> input_finalized (ppk_inputs p ! i) \<and> pin_key_spend_sig (ppk_inputs p ! i) \<noteq> []) \<and>
     (\<exists>j < length (ppk_inputs p). input_finalized (ppk_inputs p ! j))"

definition has_key_signature :: "psbt_packet \<Rightarrow> bool" where
  "has_key_signature p \<longleftrightarrow>
     (\<exists>i < length (ppk_inputs p). \<not> input_finalized (ppk_inputs p ! i) \<and> pin_key_spend_sig (ppk_inputs p ! i) \<noteq> [])"

definition has_final_input :: "psbt_packet \<Rightarrow> bool" where
  "has_final_input p \<longleftrightarrow> (\<exists>j < length (ppk_inputs p). input_finalized (ppk_inputs p ! j))"

lemma mixed_signatures_iff: "mixed_signatures p \<longleftrightarrow> has_key_signature p \<and> has_final_input p"
  by (simp add: mixed_signatures_def has_key_signature_def has_final_input_def)

lemma keeps_inputs:
  assumes "list_all2 keeps_input (ppk_inputs p) (ppk_inputs p')"
  shows "has_key_signature p \<Longrightarrow> has_key_signature p'" "has_final_input p \<Longrightarrow> has_final_input p'"
proof -
  have *: "length (ppk_inputs p') = length (ppk_inputs p)"
    "i < length (ppk_inputs p) \<Longrightarrow> keeps_input (ppk_inputs p ! i) (ppk_inputs p' ! i)" for i
    using assms by (auto simp: list_all2_conv_all_nth)
  show "has_key_signature p \<Longrightarrow> has_key_signature p'" "has_final_input p \<Longrightarrow> has_final_input p'"
    using * by (auto simp: has_key_signature_def has_final_input_def keeps_input_def)
qed

definition no_committed_key_sigs :: "('k, 's, 'z) btc_lib_scheme \<Rightarrow> transfer_package \<Rightarrow> bool" where
  "no_committed_key_sigs B p \<longleftrightarrow>
     (case decode_anchor_psbt B (tpk_committed_psbt p) of
        Inr c \<Rightarrow> list_all (\<lambda>i. pin_key_spend_sig i = []) (ppk_inputs c) | Inl _ \<Rightarrow> True)"

lemma valid_not_mixed:
  assumes law: "psbt_codec_keeps B" and valid: "validate_package N B V q = Inr ()"
    and bare: "no_committed_key_sigs B q"
    and packet: "serialize_anchor_psbt B packet = Inr (tpk_anchor_psbt q)"
  shows "\<not> mixed_signatures packet"
proof
  assume mixed: "mixed_signatures packet"
  from valid obtain c cur where c: "decode_anchor_psbt B (tpk_committed_psbt q) = Inr c"
    and cur: "decode_anchor_psbt B (tpk_anchor_psbt q) = Inr cur"
    and cmp: "compare_committed_metadata B (tpk_committed_psbt q) (tpk_anchor_psbt q) = Inr ()"
    by (auto simp: validate_package_def and_then_eq_Inr if_Inl_eq_Inr)
  from mixed keeps_inputs [OF decode_serialized [OF law packet cur]]
  have "has_key_signature cur" "has_final_input cur" by (simp_all add: mixed_signatures_iff)
  then obtain i j where i: "i < length (ppk_inputs cur)" "\<not> input_finalized (ppk_inputs cur ! i)"
    "pin_key_spend_sig (ppk_inputs cur ! i) \<noteq> []"
    and "j < length (ppk_inputs cur)" "input_finalized (ppk_inputs cur ! j)"
    by (auto simp: has_key_signature_def has_final_input_def)
  then have "\<exists>j \<in> set (ppk_inputs cur). input_finalized j" by auto
  from finalized_has_committed_sigs [OF law cmp c cur this i(1,2)] i(3) bare c show False
    by (auto simp: no_committed_key_sigs_def list_all_length)
qed

lemma verified_key_signature:
  "verify_key_path_signature L B signature ty h script = Inr () \<Longrightarrow> signature \<noteq> []"
  by (auto simp: verify_key_path_signature_def and_then_eq_Inr parse_taproot_signature_def signature_size_def if_Inl_eq_Inr)

text \<open>What the two methods leave in the current packet.\<close>

lemma apply_key_path_Inr:
  assumes "apply_key_path_signature N B V p request_id signature = Inr q"
  shows "\<exists>packet packet1. decode_anchor_psbt B (tpk_anchor_psbt p) = Inr packet \<and> has_key_signature packet1 \<and>
    (has_final_input packet \<longrightarrow> has_final_input packet1) \<and>
    serialize_anchor_psbt B packet1 = Inr (tpk_anchor_psbt q) \<and> same_commitment p q \<and> validate_package N B V q = Inr ()"
proof -
  from assms obtain r :: signing_context and packet packet1 where
    "verify_key_path_signature (lib.truncate N) B signature (sx_sighash_type r) (sx_sighash r) (sx_prev_out_script r) = Inr ()"
    and packet: "decode_anchor_psbt B (tpk_anchor_psbt p) = Inr packet"
    and put: "put_key_signature packet (unat (sx_input_index r)) signature = Inr packet1"
    and store: "store_anchor_packet N B V p packet1 = Inr q"
    by (auto simp: apply_key_path_signature_def and_then_eq_Inr split: option.split_asm)
  then have "signature \<noteq> []" by (blast dest: verified_key_signature)
  from put obtain i where i: "i < length (ppk_inputs packet)" "\<not> input_finalized (ppk_inputs packet ! i)"
    and packet1: "packet1 = packet\<lparr>ppk_inputs := (ppk_inputs packet)[i := (ppk_inputs packet ! i)\<lparr>pin_key_spend_sig := signature\<rparr>]\<rparr>"
    by (auto simp: put_key_signature_def Let_def if_Inl_eq_Inr input_finalized_def not_le)
  have "has_key_signature packet1"
    unfolding has_key_signature_def
    by (rule exI [of _ i]) (use i packet1 \<open>signature \<noteq> []\<close> in \<open>simp add: input_finalized_def\<close>)
  moreover have "has_final_input packet \<longrightarrow> has_final_input packet1"
    using i packet1 by (auto simp: has_final_input_def input_finalized_def nth_list_update)
  ultimately show ?thesis using packet store_anchor_packet_Inr [OF store] by blast
qed

lemma apply_script_path_Inr:
  assumes "psbt_codec_keeps B" and "apply_script_path_witness N B V p request_id elements = Inr q"
  shows "\<exists>packet packet1. decode_anchor_psbt B (tpk_anchor_psbt p) = Inr packet \<and> has_final_input packet1 \<and>
    (has_key_signature packet \<longrightarrow> has_key_signature packet1) \<and>
    serialize_anchor_psbt B packet1 = Inr (tpk_anchor_psbt q) \<and> same_commitment p q \<and> validate_package N B V q = Inr ()"
proof -
  from assms(2) obtain i w packet packet1 where packet: "decode_anchor_psbt B (tpk_anchor_psbt p) = Inr packet"
    and put: "put_final_witness B packet i w = Inr packet1"
    and store: "store_anchor_packet N B V p packet1 = Inr q"
    by (auto simp: apply_script_path_witness_def and_then_eq_Inr split: option.split_asm)
  from put obtain b where i: "i < length (ppk_inputs packet)" "pin_key_spend_sig (ppk_inputs packet ! i) = []"
    and b: "bl_write_witness B w = Inr b"
    and packet1: "packet1 = packet\<lparr>ppk_inputs := (ppk_inputs packet)[i := (ppk_inputs packet ! i)\<lparr>pin_final_script_witness := b\<rparr>]\<rparr>"
    by (auto simp: put_final_witness_def Let_def if_Inl_eq_Inr and_then_eq_Inr)
  from assms(1) b have "b \<noteq> []" by (simp add: psbt_codec_keeps_def)
  with i packet1 have "has_final_input packet1" "has_key_signature packet \<longrightarrow> has_key_signature packet1"
    by (auto simp: has_key_signature_def has_final_input_def input_finalized_def nth_list_update)
  with packet store_anchor_packet_Inr [OF store] show ?thesis by blast
qed

lemma no_committed_key_sigs_same: "same_commitment p q \<Longrightarrow> no_committed_key_sigs B q = no_committed_key_sigs B p"
  by (simp add: no_committed_key_sigs_def same_commitment_fields)

text \<open>
  C16. Key-path and script-path signing exclude each other: after a key-path or MuSig2 signature has
  been applied to a package, no script-path witness can be, and the other way round, whichever inputs
  they are for. (A package whose plans mix the two is finished only by storing a final PSBT that was
  completed elsewhere.)
\<close>

theorem mixed_signing_refused:
  assumes "psbt_codec_keeps B" and "no_committed_key_sigs B p"
  shows "\<not> is_ok (and_then (apply_key_path_signature N B V p id1 signature)
      (\<lambda>q. apply_script_path_witness N B V q id2 elements)) \<and>
    \<not> is_ok (and_then (apply_script_path_witness N B V p id2 elements)
      (\<lambda>q. apply_key_path_signature N B V q id1 signature))"
proof -
  have False if key: "apply_key_path_signature N B V p id1 signature = Inr q"
    and script: "apply_script_path_witness N B V q id2 elements = Inr r" for q r
  proof -
    from apply_key_path_Inr [OF key] obtain packet1 where "has_key_signature packet1"
      and bytes: "serialize_anchor_psbt B packet1 = Inr (tpk_anchor_psbt q)" and pq: "same_commitment p q" by blast
    from apply_script_path_Inr [OF assms(1) script] obtain cur packet2 where
      cur: "decode_anchor_psbt B (tpk_anchor_psbt q) = Inr cur" and "has_final_input packet2"
      "has_key_signature cur \<longrightarrow> has_key_signature packet2"
      and r: "serialize_anchor_psbt B packet2 = Inr (tpk_anchor_psbt r)" "same_commitment q r"
        "validate_package N B V r = Inr ()" by blast
    with \<open>has_key_signature packet1\<close> keeps_inputs(1) [OF decode_serialized [OF assms(1) bytes cur]]
    have "mixed_signatures packet2" by (simp add: mixed_signatures_iff)
    with valid_not_mixed [OF assms(1) r(3) _ r(1)] assms(2) pq r(2) show False
      by (simp add: no_committed_key_sigs_same)
  qed
  moreover have False if script: "apply_script_path_witness N B V p id2 elements = Inr q"
    and key: "apply_key_path_signature N B V q id1 signature = Inr r" for q r
  proof -
    from apply_script_path_Inr [OF assms(1) script] obtain packet1 where "has_final_input packet1"
      and bytes: "serialize_anchor_psbt B packet1 = Inr (tpk_anchor_psbt q)" and pq: "same_commitment p q" by blast
    from apply_key_path_Inr [OF key] obtain cur packet2 where
      cur: "decode_anchor_psbt B (tpk_anchor_psbt q) = Inr cur" and "has_key_signature packet2"
      "has_final_input cur \<longrightarrow> has_final_input packet2"
      and r: "serialize_anchor_psbt B packet2 = Inr (tpk_anchor_psbt r)" "same_commitment q r"
        "validate_package N B V r = Inr ()" by blast
    with \<open>has_final_input packet1\<close> keeps_inputs(2) [OF decode_serialized [OF assms(1) bytes cur]]
    have "mixed_signatures packet2" by (simp add: mixed_signatures_iff)
    with valid_not_mixed [OF assms(1) r(3) _ r(1)] assms(2) pq r(2) show False
      by (simp add: no_committed_key_sigs_same)
  qed
  ultimately show ?thesis by (auto simp: is_ok_iff and_then_eq_Inr)
qed

lemma demo_codec_keeps: "psbt_codec_keeps demo_btc"
  by (auto simp: psbt_codec_keeps_def keeps_input_def list_all2_refl dest: demo_serialize_Inr)

lemma demo_no_key_sigs: "no_committed_key_sigs demo_btc (demo_package x)"
  by (simp add: no_committed_key_sigs_def)

theorem mixed_signing_refused_witness:
  "apply_key_path_signature demo_native demo_btc demo_vlib (demo_package [1]) zero_hash demo_signature = Inr (demo_package [2]) \<and>
   apply_script_path_witness demo_native demo_btc demo_vlib (demo_package [1]) zero_hash [] = Inr (demo_package [4]) \<and>
   \<not> is_ok (apply_script_path_witness demo_native demo_btc demo_vlib (demo_package [2]) zero_hash []) \<and>
   \<not> is_ok (apply_key_path_signature demo_native demo_btc demo_vlib (demo_package [4]) zero_hash demo_signature)"
  using mixed_signing_refused [OF demo_codec_keeps demo_no_key_sigs, of demo_native demo_vlib "[1]" zero_hash demo_signature zero_hash "[]"]
  by (simp add: demo_key_applied demo_script_applied)

end
