(* ===== verification/Tap_Universe.thy ===== *)
theory Tap_Universe
  imports Tap_Client
begin

text \<open>
  The asset-reference view of the universe (\<open>universe.go\<close>): which roots and proofs are known
  locally, and the synchronisation with a remote server.

  The integers of the requests are \<open>int\<close>. The text of a reference in a message is left out. The
  \<open>\<dots>Option\<close> functions are updates of the option records, applied in the order of the call.
\<close>

section \<open>Options\<close>

definition sync_issuance_only :: int where "sync_issuance_only = 0"
definition sync_full :: int where "sync_full = 1"

record universe_proof_options =
  uo_proof_type :: proof_type
  uo_proof_type_set :: bool
  uo_offset :: int
  uo_limit :: int
  uo_page_set :: bool
  uo_direction :: int

definition with_universe_proof_type :: "proof_type \<Rightarrow> universe_proof_options \<Rightarrow> universe_proof_options" where
  "with_universe_proof_type t o1 = o1\<lparr>uo_proof_type := t, uo_proof_type_set := True\<rparr>"

definition with_universe_proof_page :: "int \<Rightarrow> int \<Rightarrow> universe_proof_options \<Rightarrow> universe_proof_options" where
  "with_universe_proof_page offset limit o1 = o1\<lparr>uo_offset := offset, uo_limit := limit, uo_page_set := True\<rparr>"

definition with_universe_proof_direction :: "int \<Rightarrow> universe_proof_options \<Rightarrow> universe_proof_options" where
  "with_universe_proof_direction d o1 = o1\<lparr>uo_direction := d\<rparr>"

definition apply_universe_proof_options ::
    "(universe_proof_options \<Rightarrow> universe_proof_options) list \<Rightarrow> universe_proof_options" where
  "apply_universe_proof_options opts = fold (\<lambda>f o1. f o1) opts
     \<lparr>uo_proof_type = proof_type_unspecified, uo_proof_type_set = False, uo_offset = 0, uo_limit = 0,
      uo_page_set = False, uo_direction = 0\<rparr>"

text \<open>The only sync option is the mode.\<close>

definition apply_universe_sync_options :: "(int \<Rightarrow> int) list \<Rightarrow> int" where
  "apply_universe_sync_options opts = fold (\<lambda>f m. f m) opts sync_full"

definition with_universe_sync_mode :: "int \<Rightarrow> int \<Rightarrow> int" where
  "with_universe_sync_mode mode m = mode"

section \<open>Checks\<close>

definition validate_universe_asset_ref :: "'k lib \<Rightarrow> string \<Rightarrow> unit result" where
  "validate_universe_asset_ref L ref =
     (if asset_ref_is_zero ref then Inl (Sentinel ErrNoAssetRef)
      else wrap_with (\<lambda>e. Wrap2 (Sentinel ErrInvalidAssetRef) e) (asset_ref_validate L ref))"

fun validate_distinct_asset_refs :: "'k lib \<Rightarrow> string list \<Rightarrow> unit result" where
  "validate_distinct_asset_refs L [] = Inr ()"
| "validate_distinct_asset_refs L (r # rs) =
     (if \<exists>s \<in> set rs. asset_ref_equivalent L r s
      then Inl (Wrapf [] (Sentinel ErrDuplicateAssetRef) '': ref'') else validate_distinct_asset_refs L rs)"

text \<open>\<open>net.SplitHostPort\<close>.\<close>

definition index_of :: "char \<Rightarrow> string \<Rightarrow> nat option" where
  "index_of c s = (if c \<in> set s then Some (length (takeWhile (\<lambda>x. x \<noteq> c) s)) else None)"

definition split_host_port :: "string \<Rightarrow> (string \<times> string) result" where
  "split_host_port s =
     (case split_last CHR '':'' s of
        None \<Rightarrow> Inl (Plain ''missing port in address'')
      | Some before \<Rightarrow>
          (let i = length before; port = drop (Suc i) s in
           if hd s = CHR ''['' then
             (case index_of CHR '']'' s of
                None \<Rightarrow> Inl (Plain ''missing ']' in address'')
              | Some close \<Rightarrow>
                  (if Suc close = length s then Inl (Plain ''missing port in address'')
                   else if Suc close \<noteq> i
                   then (if s ! Suc close = CHR '':'' then Inl (Plain ''too many colons in address'')
                         else Inl (Plain ''missing port in address''))
                   else if CHR ''['' \<in> set (drop 1 s) then Inl (Plain ''unexpected '[' in address'')
                   else if CHR '']'' \<in> set (drop (Suc close) s) then Inl (Plain ''unexpected ']' in address'')
                   else Inr (drop 1 (take close s), port)))
           else if CHR '':'' \<in> set before then Inl (Plain ''too many colons in address'')
           else if CHR ''['' \<in> set s then Inl (Plain ''unexpected '[' in address'')
           else if CHR '']'' \<in> set s then Inl (Plain ''unexpected ']' in address'')
           else Inr (before, port)))"

definition bad_host_chars :: "char set" where
  "bad_host_chars = {CHR 0x0D, CHR 0x0A, CHR 0x00, CHR '' '', CHR 0x09, CHR ''/'', CHR ''@''}"

definition validate_universe_sync_host :: "string \<Rightarrow> unit result" where
  "validate_universe_sync_host host =
     (if host = [] then Inl (Sentinel ErrUniverseHostRequired)
      else if \<exists>c \<in> set host. c \<in> bad_host_chars
      then Inl (Wrapf [] (Sentinel ErrInvalidUniverseHost) '': host must be a host:port address'')
      else case split_host_port host of
        Inl _ \<Rightarrow> Inl (Wrapf [] (Sentinel ErrInvalidUniverseHost) '': host must be a host:port address'')
      | Inr _ \<Rightarrow> Inr ())"

definition validate_universe_proof_type :: "universe_proof_options \<Rightarrow> unit result" where
  "validate_universe_proof_type o1 =
     (if uo_proof_type_set o1 \<and> uo_proof_type o1 = proof_type_unspecified
      then Inl (Sentinel ErrUniverseProofTypeRequired) else Inr ())"

definition validate_universe_list_proof_options :: "universe_proof_options \<Rightarrow> unit result" where
  "validate_universe_list_proof_options o1 =
     and_then (validate_universe_proof_type o1) (\<lambda>_.
       if uo_offset o1 < 0 \<or> uo_limit o1 < 0 then Inl (Sentinel ErrInvalidPagination)
       else if uo_page_set o1 \<and> uo_proof_type o1 = proof_type_unspecified
       then Inl (Sentinel ErrUniverseProofTypeRequired) else Inr ())"

section \<open>Roots\<close>

record universe_roots =
  us_asset_ref :: string
  us_issuance_root :: "universe_root option"
  us_transfer_root :: "universe_root option"

definition universe_roots_has_roots :: "universe_roots \<Rightarrow> bool" where
  "universe_roots_has_roots r \<longleftrightarrow> us_issuance_root r \<noteq> None \<or> us_transfer_root r \<noteq> None"

definition universe_id_from_ref :: "string \<Rightarrow> proof_type \<Rightarrow> universe_id" where
  "universe_id_from_ref ref t = \<lparr>un_asset_ref = ref, un_proof_type = t\<rparr>"

definition non_empty_universe_root :: "universe_root option \<Rightarrow> universe_root option" where
  "non_empty_universe_root root =
     (case root of
        None \<Rightarrow> None
      | Some r \<Rightarrow> (if asset_ref_is_zero (un_asset_ref (ur_id r)) \<and> ur_mssmt_root r = None then None else Some r))"

definition get_roots :: "'k lib \<Rightarrow> client \<Rightarrow> string \<Rightarrow> universe_roots io" where
  "get_roots L c ref =
     bind_io (lift_io (validate_universe_asset_ref L ref)) (\<lambda>_.
     bind_io (call_io (QueryAssetRoots (universe_id_from_ref ref proof_type_issuance))
                (\<lambda>h. c_query_asset_roots c h (universe_id_from_ref ref proof_type_issuance))) (\<lambda>roots.
     let r = (case roots of
          None \<Rightarrow> \<lparr>us_asset_ref = ref, us_issuance_root = None, us_transfer_root = None\<rparr>
        | Some q \<Rightarrow> \<lparr>us_asset_ref = ref, us_issuance_root = non_empty_universe_root (qr_issuance_root q),
                     us_transfer_root = non_empty_universe_root (qr_transfer_root q)\<rparr>) in
     if \<not> universe_roots_has_roots r then lift_io (Inl (Wrapf [] (Sentinel ErrAssetUnknown) '': ref''))
     else return_io r))"

definition has_asset :: "'k lib \<Rightarrow> client \<Rightarrow> string \<Rightarrow> bool io" where
  "has_asset L c ref =
     bind_io (try_io (get_roots L c ref)) (\<lambda>r.
       case r of
         Inl e \<Rightarrow> (if errors_is e ErrAssetUnknown then return_io False else lift_io (Inl e))
       | Inr roots \<Rightarrow> return_io (universe_roots_has_roots roots))"

definition proof_types_for_roots :: "universe_roots \<Rightarrow> proof_type \<Rightarrow> proof_type list result" where
  "proof_types_for_roots roots t =
     (if t = proof_type_issuance
      then if us_issuance_root roots = None then Inl (Sentinel ErrNoProofs) else Inr [proof_type_issuance]
      else if t = proof_type_transfer
      then if us_transfer_root roots = None then Inl (Sentinel ErrNoProofs) else Inr [proof_type_transfer]
      else if t = proof_type_unspecified
      then let types = (if us_issuance_root roots \<noteq> None then [proof_type_issuance] else []) @
                       (if us_transfer_root roots \<noteq> None then [proof_type_transfer] else []) in
           if types = [] then Inl (Sentinel ErrNoProofs) else Inr types
      else Inl (Plain ''unknown proof type''))"

section \<open>Proofs\<close>

record universe_proof =
  up_asset_ref :: string
  up_proof_type :: proof_type
  up_leaf_key :: asset_leaf_key
  up_proof :: bytes
  up_asset :: "asset_record option"
  up_universe_root :: "universe_root option"
  up_universe_inclusion_proof :: bytes
  up_multiverse_root :: "merkle_sum_node option"
  up_multiverse_inclusion_proof :: bytes

definition universe_proof_from_response ::
    "string \<Rightarrow> proof_type \<Rightarrow> asset_leaf_key \<Rightarrow> asset_proof_response option \<Rightarrow> universe_proof" where
  "universe_proof_from_response ref t key resp =
     (case resp of
        None \<Rightarrow> \<lparr>up_asset_ref = ref, up_proof_type = t, up_leaf_key = key, up_proof = [], up_asset = None,
          up_universe_root = None, up_universe_inclusion_proof = [], up_multiverse_root = None,
          up_multiverse_inclusion_proof = []\<rparr>
      | Some r \<Rightarrow> \<lparr>up_asset_ref = ref, up_proof_type = t, up_leaf_key = key,
          up_proof = (case apr_asset_leaf r of None \<Rightarrow> [] | Some l \<Rightarrow> al_proof l),
          up_asset = (case apr_asset_leaf r of None \<Rightarrow> None | Some l \<Rightarrow> al_asset l),
          up_universe_root = apr_universe_root r, up_universe_inclusion_proof = apr_universe_inclusion_proof r,
          up_multiverse_root = apr_multiverse_root r,
          up_multiverse_inclusion_proof = apr_multiverse_inclusion_proof r\<rparr>)"

definition leaf_key_query :: "string \<Rightarrow> proof_type \<Rightarrow> asset_leaf_key \<Rightarrow> universe_key" where
  "leaf_key_query ref t key = \<lparr>uk_id = universe_id_from_ref ref t, uk_leaf_key = key\<rparr>"

definition query_proof :: "client \<Rightarrow> string \<Rightarrow> proof_type \<Rightarrow> asset_leaf_key \<Rightarrow> universe_proof io" where
  "query_proof c ref t key =
     bind_io (call_io (QueryProof (leaf_key_query ref t key)) (\<lambda>h. c_query_proof c h (leaf_key_query ref t key)))
       (\<lambda>resp. return_io (universe_proof_from_response ref t key resp))"

definition page_request :: "string \<Rightarrow> universe_proof_options \<Rightarrow> proof_type \<Rightarrow> asset_leaf_keys_request" where
  "page_request ref o1 t = \<lparr>kq_id = universe_id_from_ref ref t, kq_offset = uo_offset o1, kq_limit = uo_limit o1,
     kq_direction = uo_direction o1\<rparr>"

definition list_page :: "client \<Rightarrow> string \<Rightarrow> universe_proof_options \<Rightarrow> universe_proof list \<Rightarrow> proof_type \<Rightarrow>
    universe_proof list io" where
  "list_page c ref o1 proofs t =
     bind_io (call_io (AssetLeafKeys (page_request ref o1 t)) (\<lambda>h. c_asset_leaf_keys c h (page_request ref o1 t)))
       (\<lambda>keys. for_io (\<lambda>acc key. bind_io (query_proof c ref t key) (\<lambda>p. return_io (acc @ [p]))) proofs keys)"

definition list_proofs ::
    "'k lib \<Rightarrow> client \<Rightarrow> string \<Rightarrow> universe_proof_options \<Rightarrow> universe_proof list io" where
  "list_proofs L c ref o1 =
     bind_io (lift_io (validate_universe_list_proof_options o1)) (\<lambda>_.
     bind_io (get_roots L c ref) (\<lambda>roots.
     bind_io (lift_io (proof_types_for_roots roots (uo_proof_type o1))) (\<lambda>types.
     bind_io (for_io (list_page c ref o1) [] types) (\<lambda>proofs.
       if proofs = [] then lift_io (Inl (Wrapf [] (Sentinel ErrNoProofs) '': ref'')) else return_io proofs))))"

text \<open>The loop of \<open>getProof\<close> over the proof types with the last error.\<close>

fun try_proof_types ::
    "'k lib \<Rightarrow> client \<Rightarrow> string \<Rightarrow> asset_leaf_key \<Rightarrow> go_error option \<Rightarrow> proof_type list \<Rightarrow> universe_proof io" where
  "try_proof_types L c ref key last_err [] =
     lift_io (Inl (case last_err of
         Some e \<Rightarrow> (if errors_is e ErrAssetUnknown then e else Wrap2 (Sentinel ErrProofNotFound) e)
       | None \<Rightarrow> Wrapf [] (Sentinel ErrProofNotFound) '': ref''))"
| "try_proof_types L c ref key last_err (t # types) =
     bind_io (try_io (query_proof c ref t key)) (\<lambda>r.
       case r of
         Inr p \<Rightarrow> return_io p
       | Inl err \<Rightarrow>
           (let e = normalize_err (status_from_error L) ''GetProof'' err in
            if \<not> errors_is e ErrProofNotFound \<and> \<not> errors_is e ErrAssetUnknown then lift_io (Inl e)
            else try_proof_types L c ref key (Some e) types))"

definition get_proof ::
    "'k lib \<Rightarrow> client \<Rightarrow> string \<Rightarrow> asset_leaf_key \<Rightarrow> universe_proof_options \<Rightarrow> universe_proof io" where
  "get_proof L c ref key o1 =
     bind_io (lift_io (validate_universe_proof_type o1)) (\<lambda>_.
     bind_io (get_roots L c ref) (\<lambda>roots.
     bind_io (lift_io (proof_types_for_roots roots (uo_proof_type o1))) (\<lambda>types.
       try_proof_types L c ref key None types)))"

section \<open>Synchronisation\<close>

record universe_sync_result =
  ry_asset_ref :: string
  ry_issuance :: "synced_universe option"
  ry_transfer :: "synced_universe option"

definition sync_proof_types :: "int \<Rightarrow> proof_type list" where
  "sync_proof_types mode =
     (if mode = sync_issuance_only then [proof_type_issuance] else [proof_type_issuance, proof_type_transfer])"

definition synced_universe_id :: "synced_universe \<Rightarrow> universe_id option" where
  "synced_universe_id s =
     (case su_new_asset_root s of
        Some r \<Rightarrow> Some (ur_id r)
      | None \<Rightarrow> (case su_old_asset_root s of Some r \<Rightarrow> Some (ur_id r) | None \<Rightarrow> None))"

text \<open>\<open>findUniverseSyncResult\<close> yields a pointer to a result: its position here.\<close>

definition find_sync_result :: "'k lib \<Rightarrow> universe_sync_result list \<Rightarrow> string \<Rightarrow> nat option" where
  "find_sync_result L results ref =
     find (\<lambda>i. asset_ref_equivalent L (ry_asset_ref (results ! i)) ref) [0 ..< length results]"

definition record_diff ::
    "'k lib \<Rightarrow> universe_sync_result list \<Rightarrow> synced_universe \<Rightarrow> universe_sync_result list" where
  "record_diff L results diff =
     (case synced_universe_id diff of
        None \<Rightarrow> results
      | Some u \<Rightarrow>
          (case find_sync_result L results (un_asset_ref u) of
             None \<Rightarrow> results
           | Some i \<Rightarrow>
               (if un_proof_type u = proof_type_issuance then results[i := (results ! i)\<lparr>ry_issuance := Some diff\<rparr>]
                else if un_proof_type u = proof_type_transfer then results[i := (results ! i)\<lparr>ry_transfer := Some diff\<rparr>]
                else results)))"

definition sync_targets :: "int \<Rightarrow> string list \<Rightarrow> universe_id list" where
  "sync_targets mode refs = concat (map (\<lambda>ref. map (universe_id_from_ref ref) (sync_proof_types mode)) refs)"

definition sync_request_for :: "string list \<Rightarrow> string \<Rightarrow> int \<Rightarrow> sync_request" where
  "sync_request_for refs host mode =
     \<lparr>sy_universe_host = host, sy_sync_mode = mode, sy_sync_targets = sync_targets mode refs\<rparr>"

definition sync_assets_inner ::
    "'k lib \<Rightarrow> client \<Rightarrow> string list \<Rightarrow> string \<Rightarrow> int \<Rightarrow> universe_sync_result list io" where
  "sync_assets_inner L c refs host mode =
     (if refs = [] then lift_io (Inl (Sentinel ErrNoAssetRef))
      else
        bind_io (lift_io (fold_res (\<lambda>_ ref. validate_universe_asset_ref L ref) () refs)) (\<lambda>_.
        bind_io (lift_io (validate_distinct_asset_refs L refs)) (\<lambda>_.
        bind_io (lift_io (validate_universe_sync_host host)) (\<lambda>_.
        bind_io (call_io (SyncUniverse (sync_request_for refs host mode))
                   (\<lambda>h. c_sync_universe c h (sync_request_for refs host mode))) (\<lambda>diffs.
          return_io (foldl (record_diff L)
            (map (\<lambda>ref. \<lparr>ry_asset_ref = ref, ry_issuance = None, ry_transfer = None\<rparr>) refs) diffs))))))"

section \<open>The exported methods\<close>

definition universe_has_asset :: "'k lib \<Rightarrow> client \<Rightarrow> string \<Rightarrow> bool io" where
  "universe_has_asset L c ref = wrap_io L ''HasAsset'' (has_asset L c ref)"

definition universe_get_roots :: "'k lib \<Rightarrow> client \<Rightarrow> string \<Rightarrow> universe_roots io" where
  "universe_get_roots L c ref = wrap_io L ''GetRoots'' (get_roots L c ref)"

definition universe_list_proofs ::
    "'k lib \<Rightarrow> client \<Rightarrow> string \<Rightarrow> (universe_proof_options \<Rightarrow> universe_proof_options) list \<Rightarrow> universe_proof list io" where
  "universe_list_proofs L c ref opts =
     wrap_io L ''ListProofs'' (list_proofs L c ref (apply_universe_proof_options opts))"

definition universe_get_proof ::
    "'k lib \<Rightarrow> client \<Rightarrow> string \<Rightarrow> asset_leaf_key \<Rightarrow> (universe_proof_options \<Rightarrow> universe_proof_options) list \<Rightarrow>
     universe_proof io" where
  "universe_get_proof L c ref key opts =
     wrap_io L ''GetProof'' (get_proof L c ref key (apply_universe_proof_options opts))"

definition universe_sync_assets ::
    "'k lib \<Rightarrow> client \<Rightarrow> string list \<Rightarrow> string \<Rightarrow> (int \<Rightarrow> int) list \<Rightarrow> universe_sync_result list io" where
  "universe_sync_assets L c refs host opts =
     wrap_io L ''SyncAssets'' (sync_assets_inner L c refs host (apply_universe_sync_options opts))"

definition universe_sync_asset ::
    "'k lib \<Rightarrow> client \<Rightarrow> string \<Rightarrow> string \<Rightarrow> (int \<Rightarrow> int) list \<Rightarrow> universe_sync_result io" where
  "universe_sync_asset L c ref host opts =
     bind_io (wrap_io L ''SyncAsset'' (sync_assets_inner L c [ref] host (apply_universe_sync_options opts)))
       (\<lambda>results. case results of [] \<Rightarrow> lift_io (Inl (Plain ''index out of range'')) | r # _ \<Rightarrow> return_io r)"

section \<open>Accepted hosts\<close>

lemma split_last_Some: "split_last b s = Some before \<longleftrightarrow> (\<exists>t. s = before @ b # t \<and> b \<notin> set t)"
proof
  show "\<exists>t. s = before @ b # t \<and> b \<notin> set t \<Longrightarrow> split_last b s = Some before"
    by (auto simp: split_last_sep)
  show "split_last b s = Some before \<Longrightarrow> \<exists>t. s = before @ b # t \<and> b \<notin> set t"
  proof (induction s arbitrary: before)
    case Nil
    then show ?case by simp
  next
    case (Cons c s)
    have none: "split_last b s = None \<Longrightarrow> b \<notin> set s"
      by (induction s) (auto split: option.splits if_split_asm)
    show ?case
    proof (cases "split_last b s")
      case None
      with Cons.prems none show ?thesis by (auto split: if_split_asm)
    next
      case (Some q)
      with Cons.prems Cons.IH [OF Some] show ?thesis by auto
    qed
  qed
qed

lemma split_last_None: "split_last b s = None \<longleftrightarrow> b \<notin> set s"
  by (induction s) (auto split: option.splits)

text \<open>What precedes and follows the last colon, with or without brackets around the host.\<close>

definition plain_host :: "string \<Rightarrow> bool" where
  "plain_host s \<longleftrightarrow> (\<exists>h p. s = h @ CHR '':'' # p \<and> set (h @ p) \<inter> {CHR '':'', CHR ''['', CHR '']''} = {})"

definition bracketed_host :: "string \<Rightarrow> bool" where
  "bracketed_host s \<longleftrightarrow> (\<exists>h p. s = CHR ''['' # h @ CHR '']'' # CHR '':'' # p \<and>
     set h \<inter> {CHR ''['', CHR '']''} = {} \<and> set p \<inter> {CHR '':'', CHR ''['', CHR '']''} = {})"

lemma plain_split: "plain_host s \<Longrightarrow> is_ok (split_host_port s)"
proof -
  assume "plain_host s"
  then obtain h p where s: "s = h @ CHR '':'' # p" and free: "set (h @ p) \<inter> {CHR '':'', CHR ''['', CHR '']''} = {}"
    by (auto simp: plain_host_def)
  from free have "hd s \<noteq> CHR ''[''" by (cases h) (auto simp: s)
  with free show ?thesis by (auto simp: s split_host_port_def split_last_sep Let_def)
qed

lemma index_of_first: "c \<notin> set h \<Longrightarrow> index_of c (h @ c # t) = Some (length h)"
  by (induction h) (auto simp: index_of_def)

lemma bracketed_split: "bracketed_host s \<Longrightarrow> is_ok (split_host_port s)"
proof -
  assume "bracketed_host s"
  then obtain h p where s: "s = CHR ''['' # h @ CHR '']'' # CHR '':'' # p"
    and free: "set h \<inter> {CHR ''['', CHR '']''} = {}" "set p \<inter> {CHR '':'', CHR ''['', CHR '']''} = {}"
    by (auto simp: bracketed_host_def)
  have "split_last CHR '':'' s = Some (CHR ''['' # h @ [CHR '']''])"
    using split_last_sep [of "CHR '':''" p "CHR ''['' # h @ [CHR '']'']"] free by (simp add: s)
  moreover have "index_of CHR '']'' s = Some (Suc (length h))"
    using index_of_first [of "CHR '']''" "CHR ''['' # h" "CHR '':'' # p"] free by (simp add: s)
  ultimately show ?thesis using free by (auto simp: split_host_port_def s Let_def)
qed

lemma index_of_Some: "index_of c s = Some i \<Longrightarrow> i < length s \<and> s ! i = c \<and> c \<notin> set (take i s)"
proof (induction s arbitrary: i)
  case Nil
  then show ?case by (simp add: index_of_def)
next
  case (Cons x s)
  show ?case
  proof (cases "x = c")
    case True
    with Cons.prems show ?thesis by (auto simp: index_of_def)
  next
    case False
    with Cons.prems obtain j where "i = Suc j" "index_of c s = Some j"
      by (auto simp: index_of_def split: if_split_asm)
    with Cons.IH [of j] False show ?thesis by simp
  qed
qed

lemma split_shape: "is_ok (split_host_port s) \<Longrightarrow> plain_host s \<or> bracketed_host s"
proof -
  assume ok: "is_ok (split_host_port s)"
  then obtain before where before: "split_last CHR '':'' s = Some before"
    by (cases "split_last CHR '':'' s") (auto simp: split_host_port_def)
  then obtain p where s: "s = before @ CHR '':'' # p" "CHR '':'' \<notin> set p" by (auto simp: split_last_Some)
  show ?thesis
  proof (cases "hd s = CHR ''[''")
    case False
    with ok before s show ?thesis
      by (auto simp: split_host_port_def Let_def plain_host_def is_ok_iff if_Inl_eq_Inr)
  next
    case True
    with ok before s obtain i where i: "index_of CHR '']'' s = Some i" "Suc i = length before"
      and free: "CHR ''['' \<notin> set (drop 1 s)" "CHR '']'' \<notin> set (drop (Suc i) s)"
      by (auto simp: split_host_port_def Let_def is_ok_iff if_Inl_eq_Inr split: option.split_asm if_split_asm)
    from index_of_Some [OF i(1)] have at: "s ! i = CHR '']''" "CHR '']'' \<notin> set (take i s)" by auto
    from True s i have "i \<noteq> 0" using at by (cases before) auto
    then obtain j where j: "i = Suc j" by (cases i) auto
    from True s i j obtain rest where rest: "before = CHR ''['' # rest" "length rest = Suc j" by (cases before) auto
    then obtain h x where h: "rest = h @ [x]" by (cases rest rule: rev_cases) auto
    with rest(2) have "length h = j" by simp
    with at j rest h s have "x = CHR '']''" "CHR '']'' \<notin> set h" by (auto simp: nth_append)
    with rest h s free i j \<open>length h = j\<close> have "bracketed_host s"
      unfolding bracketed_host_def by (intro exI [of _ h] exI [of _ p]) auto
    then show ?thesis ..
  qed
qed

text \<open>
  The sync hosts that are accepted: text without blanks, control characters, slashes and at
  signs that is a host and a port around one colon, or a host in brackets, a colon and a port. The
  host and the port may both be empty.
\<close>

theorem sync_host_accepted:
  "is_ok (validate_universe_sync_host host) \<longleftrightarrow>
     set host \<inter> bad_host_chars = {} \<and> (plain_host host \<or> bracketed_host host)"
proof -
  have "\<not> plain_host []" "\<not> bracketed_host []" by (auto simp: plain_host_def bracketed_host_def)
  moreover have "is_ok (split_host_port host) \<longleftrightarrow> plain_host host \<or> bracketed_host host"
    using plain_split bracketed_split split_shape by blast
  ultimately show ?thesis
    by (cases "split_host_port host") (auto simp: validate_universe_sync_host_def)
qed

section \<open>What a synchronisation reports\<close>

definition diff_is_for :: "'k lib \<Rightarrow> string \<Rightarrow> proof_type \<Rightarrow> synced_universe \<Rightarrow> bool" where
  "diff_is_for L ref t d \<longleftrightarrow> (case synced_universe_id d of
     None \<Rightarrow> False | Some u \<Rightarrow> asset_ref_equivalent L ref (un_asset_ref u) \<and> un_proof_type u = t)"

definition last_diff :: "'k lib \<Rightarrow> string \<Rightarrow> proof_type \<Rightarrow> synced_universe list \<Rightarrow> synced_universe option" where
  "last_diff L ref t diffs = find (diff_is_for L ref t) (rev diffs)"

definition sync_report :: "'k lib \<Rightarrow> synced_universe list \<Rightarrow> string \<Rightarrow> universe_sync_result" where
  "sync_report L diffs ref = \<lparr>ry_asset_ref = ref, ry_issuance = last_diff L ref proof_type_issuance diffs,
     ry_transfer = last_diff L ref proof_type_transfer diffs\<rparr>"

definition inequivalent :: "'k lib \<Rightarrow> string list \<Rightarrow> bool" where
  "inequivalent L refs \<longleftrightarrow> (\<forall>i < length refs. \<forall>j < length refs. asset_ref_equivalent L (refs ! i) (refs ! j) \<longrightarrow> i = j)"

lemma distinct_refs: "is_ok (validate_distinct_asset_refs L refs) \<longleftrightarrow> distinct (map (ref_identity_of L) refs)"
  by (induction refs) (auto simp: equivalent_iff_identity)

lemma inequivalent_distinct: "inequivalent L refs \<longleftrightarrow> distinct (map (ref_identity_of L) refs)"
  by (auto simp: inequivalent_def distinct_conv_nth equivalent_iff_identity)

lemma find_sync_result_eq:
  assumes "inequivalent L refs" and "map ry_asset_ref results = refs"
  shows "find_sync_result L results ref = Some i \<longleftrightarrow> i < length refs \<and> asset_ref_equivalent L (refs ! i) ref"
    and "find_sync_result L results ref = None \<longleftrightarrow> (\<forall>i < length refs. \<not> asset_ref_equivalent L (refs ! i) ref)"
proof -
  have len: "length results = length refs" and nth: "\<And>i. i < length refs \<Longrightarrow> ry_asset_ref (results ! i) = refs ! i"
    using assms(2) by auto
  show none: "find_sync_result L results ref = None \<longleftrightarrow> (\<forall>i < length refs. \<not> asset_ref_equivalent L (refs ! i) ref)"
    using len nth by (auto simp: find_sync_result_def find_None_iff)
  have some: "find_sync_result L results ref = Some k \<Longrightarrow> k < length refs \<and> asset_ref_equivalent L (refs ! k) ref" for k
    using len nth by (auto simp: find_sync_result_def find_Some_iff)
  have "i = k" if "i < length refs" "asset_ref_equivalent L (refs ! i) ref" "find_sync_result L results ref = Some k" for k
    using assms(1) that some [OF that(3)] unfolding inequivalent_def equivalent_iff_identity by metis
  with some none show "find_sync_result L results ref = Some i \<longleftrightarrow> i < length refs \<and> asset_ref_equivalent L (refs ! i) ref"
    by (cases "find_sync_result L results ref") auto
qed

lemma record_diff_report:
  assumes "inequivalent L refs"
  shows "record_diff L (map (sync_report L diffs) refs) d = map (sync_report L (diffs @ [d])) refs"
proof -
  let ?results = "map (sync_report L diffs) refs"
  have refs: "map ry_asset_ref ?results = refs" by (simp add: sync_report_def comp_def)
  note found = find_sync_result_eq [OF assms refs]
  have keep: "sync_report L (diffs @ [d]) r = sync_report L diffs r"
    if "\<not> diff_is_for L r proof_type_issuance d" "\<not> diff_is_for L r proof_type_transfer d" for r
    using that by (simp add: sync_report_def last_diff_def)
  have types: "proof_type_issuance \<noteq> proof_type_transfer" by (simp add: proof_type_issuance_def proof_type_transfer_def)
  show ?thesis
  proof (cases "synced_universe_id d")
    case None
    then show ?thesis using keep by (simp add: record_diff_def diff_is_for_def)
  next
    case (Some u)
    show ?thesis
    proof (cases "find_sync_result L ?results (un_asset_ref u)")
      case None
      with found(2) have "\<forall>r \<in> set refs. \<not> asset_ref_equivalent L r (un_asset_ref u)" by (auto simp: in_set_conv_nth)
      with Some None show ?thesis by (auto simp: record_diff_def diff_is_for_def intro!: keep [symmetric])
    next
      case (Some i)
      note i = this [unfolded found(1)]
      have other: "\<not> asset_ref_equivalent L (refs ! j) (un_asset_ref u)" if "j < length refs" "j \<noteq> i" for j
        using assms i that unfolding inequivalent_def equivalent_iff_identity by metis
      show ?thesis
      proof (rule nth_equalityI)
        fix j
        assume "j < length (record_diff L ?results d)"
        then have j: "j < length refs"
          using Some \<open>synced_universe_id d = Some u\<close> by (simp add: record_diff_def split: if_split_asm)
        show "record_diff L ?results d ! j = map (sync_report L (diffs @ [d])) refs ! j"
        proof (cases "j = i")
          case True
          with i j Some \<open>synced_universe_id d = Some u\<close> types show ?thesis
            by (auto simp: record_diff_def sync_report_def last_diff_def diff_is_for_def)
        next
          case False
          with i j Some \<open>synced_universe_id d = Some u\<close> other [OF j] show ?thesis
            by (auto simp: record_diff_def diff_is_for_def intro!: keep [symmetric])
        qed
      qed (use Some \<open>synced_universe_id d = Some u\<close> in \<open>simp add: record_diff_def\<close>)
    qed
  qed
qed

lemma record_diffs:
  assumes "inequivalent L refs"
  shows "foldl (record_diff L) (map (sync_report L ds) refs) diffs = map (sync_report L (ds @ diffs)) refs"
proof (induction diffs arbitrary: ds)
  case Nil
  show ?case by simp
next
  case (Cons d diffs)
  then show ?case by (simp add: record_diff_report [OF assms])
qed

text \<open>
  C29. A synchronisation asks the daemon once, for the issuance and (unless only issuance is synced)
  the transfer universe of every reference, and reports one result per reference, in order, no two
  of them of the same asset; each holds the last change the daemon reported for that asset and type.
\<close>

theorem sync_reports_changes:
  assumes "sync_assets_inner L c refs host mode h = (Inr results, h')"
  shows "\<exists>diffs. c_sync_universe c h (sync_request_for refs host mode) = Inr diffs \<and>
    h' = h @ [SyncUniverse (sync_request_for refs host mode)] \<and>
    results = map (sync_report L diffs) refs \<and> inequivalent L refs \<and> refs \<noteq> [] \<and>
    list_all (\<lambda>ref. is_ok (asset_ref_validate L ref)) refs"
proof -
  from assms obtain diffs where distinct: "validate_distinct_asset_refs L refs = Inr ()" and "refs \<noteq> []"
    and valid: "fold_res (\<lambda>_ ref. validate_universe_asset_ref L ref) () refs = Inr ()"
    and diffs: "c_sync_universe c h (sync_request_for refs host mode) = Inr diffs"
    and h': "h' = h @ [SyncUniverse (sync_request_for refs host mode)]"
    and results: "results = foldl (record_diff L) (map (\<lambda>ref. \<lparr>ry_asset_ref = ref, ry_issuance = None, ry_transfer = None\<rparr>) refs) diffs"
    by (auto simp: sync_assets_inner_def bind_io_apply split: if_split_asm sum.split_asm prod.split_asm)
  from distinct have ineq: "inequivalent L refs"
    using distinct_refs [of L refs] by (simp add: inequivalent_distinct)
  have "(\<lambda>ref. \<lparr>ry_asset_ref = ref, ry_issuance = None, ry_transfer = None\<rparr>) = sync_report L []"
    by (simp add: fun_eq_iff sync_report_def last_diff_def)
  with results record_diffs [OF ineq, of "[]" diffs] have "results = map (sync_report L diffs) refs" by simp
  moreover from valid have "is_ok (fold_res (\<lambda>_ ref. validate_universe_asset_ref L ref) () refs)" by simp
  then have "list_all (\<lambda>ref. is_ok (asset_ref_validate L ref)) refs"
    unfolding fold_res_unit_ok by (auto simp: list_all_iff validate_universe_asset_ref_def split: if_split_asm)
  ultimately show ?thesis using ineq diffs h' \<open>refs \<noteq> []\<close> by blast
qed

definition sample_diff :: "string \<Rightarrow> synced_universe" where
  "sample_diff ref = \<lparr>su_old_asset_root = None, su_new_asset_root =
     Some \<lparr>ur_id = universe_id_from_ref ref proof_type_transfer, ur_mssmt_root = None, ur_asset_name = [],
       ur_amounts_by_issuance_id = Map.empty\<rparr>, su_new_asset_leaves = []\<rparr>"

theorem sync_reports_changes_witness:
  "\<exists>c ref h' r. sync_assets_inner sample_lib c [ref] ''host:10029'' sync_full [] = (Inr [r], h') \<and>
     ry_transfer r = Some (sample_diff ref) \<and> ry_issuance r = None"
proof -
  obtain ref where ref: "is_group_ref sample_lib ref" using sample_group_ref by blast
  then have valid: "is_ok (asset_ref_validate sample_lib ref)"
    by (auto simp: is_group_ref_def asset_ref_validate_def is_ok_iff split: sum.split_asm)
  then obtain u where "asset_ref_validate sample_lib ref = Inr u" by (auto simp: is_ok_iff)
  then have v: "validate_universe_asset_ref sample_lib ref = Inr ()"
    by (auto simp: validate_universe_asset_ref_def asset_ref_is_zero_def asset_ref_validate_def decode_asset_ref_string_def)
  have "plain_host ''host:10029''" unfolding plain_host_def
    by (intro exI [of _ "''host''"] exI [of _ "''10029''"]) simp
  then have "is_ok (split_host_port ''host:10029'')" by (rule plain_split)
  then have host: "validate_universe_sync_host ''host:10029'' = Inr ()"
    by (auto simp: validate_universe_sync_host_def is_ok_iff bad_host_chars_def)
  define c where "c = offline_client\<lparr>c_sync_universe := \<lambda>_ _. Inr [sample_diff ref]\<rparr>"
  have sync: "c_sync_universe c h req = Inr [sample_diff ref]" for h req by (simp add: c_def)
  obtain results h' where run: "sync_assets_inner sample_lib c [ref] ''host:10029'' sync_full [] = (Inr results, h')"
    by (simp add: sync_assets_inner_def bind_io_apply v host sync)
  from sync_reports_changes [OF run] sync have "results = [sync_report sample_lib [sample_diff ref] ref]" by auto
  moreover have "ry_transfer (sync_report sample_lib [sample_diff ref] ref) = Some (sample_diff ref)"
    "ry_issuance (sync_report sample_lib [sample_diff ref] ref) = None"
    by (simp_all add: sync_report_def last_diff_def diff_is_for_def sample_diff_def synced_universe_id_def
        universe_id_from_ref_def proof_type_issuance_def proof_type_transfer_def)
  ultimately show ?thesis using run by blast
qed

end
