(* ===== verification/Tap_Ownership.thy ===== *)
theory Tap_Ownership
  imports Tap_Wallet
begin

text \<open>
  Ownership proofs (\<open>ownership.go\<close>, \<open>ownership_entities.go\<close>): which outputs of the wallet are proven
  for a reference, and the checks around the two calls of the daemon.

  \<open>sort.Slice\<close> leaves outputs that compare equal (same outpoint and issuance) in an order of its own;
  the model keeps the order the daemon listed them in. Pointers to asset records are the records.
\<close>

section \<open>Options and the challenge\<close>

record ownership_options =
  oo_challenge :: bytes
  oo_challenge_set :: bool
  oo_amount :: u64
  oo_has_amount :: bool
  oo_all_items :: bool

definition with_ownership_challenge :: "bytes \<Rightarrow> ownership_options \<Rightarrow> ownership_options" where
  "with_ownership_challenge challenge o1 = o1\<lparr>oo_challenge_set := True, oo_challenge := challenge\<rparr>"

definition with_ownership_amount :: "u64 \<Rightarrow> ownership_options \<Rightarrow> ownership_options" where
  "with_ownership_amount amount o1 = o1\<lparr>oo_amount := amount, oo_has_amount := True\<rparr>"

definition with_all_owned_collection_items :: "ownership_options \<Rightarrow> ownership_options" where
  "with_all_owned_collection_items o1 = o1\<lparr>oo_all_items := True\<rparr>"

definition no_ownership_options :: ownership_options where
  "no_ownership_options = \<lparr>oo_challenge = [], oo_challenge_set = False, oo_amount = 0, oo_has_amount = False,
     oo_all_items = False\<rparr>"

definition apply_ownership_options :: "(ownership_options \<Rightarrow> ownership_options) list \<Rightarrow> ownership_options" where
  "apply_ownership_options opts = fold (\<lambda>f o1. f o1) opts no_ownership_options"

text \<open>\<open>ValidateOwnershipChallenge\<close> and the stricter check of the wallet.\<close>

definition validate_challenge :: "bytes \<Rightarrow> unit result" where
  "validate_challenge challenge =
     (if challenge = [] then Inr ()
      else if length challenge \<noteq> 32 then Inl (Plain ''ownership challenge must be 32 bytes'')
      else if challenge = replicate 32 0 then Inl (Plain ''ownership challenge must not be all zero'')
      else Inr ())"

definition validate_ownership_challenge :: "bytes \<Rightarrow> bool \<Rightarrow> unit result" where
  "validate_ownership_challenge challenge explicit =
     (if \<not> explicit \<and> challenge = [] then Inr ()
      else if explicit \<and> challenge = []
      then Inl (Wrapf [] (Sentinel ErrInvalidChallenge) '': challenge must be 32 non-zero bytes'')
      else case validate_challenge challenge of
        Inl _ \<Rightarrow> Inl (Wrapf [] (Sentinel ErrInvalidChallenge) '': err'')
      | Inr _ \<Rightarrow> Inr ())"

section \<open>Candidates\<close>

record candidate =
  ca_asset :: asset_record
  ca_outpoint :: outpoint

definition candidate_issuance :: "candidate \<Rightarrow> bytes" where
  "candidate_issuance c = ig_issuance_id (ar_genesis (ca_asset c))"

definition ownership_record_matches :: "'k lib \<Rightarrow> asset_record \<Rightarrow> string \<Rightarrow> bool" where
  "ownership_record_matches L a ref \<longleftrightarrow>
     (if is_group_ref L ref then asset_ref_equivalent L (ar_asset_ref a) ref
      else case ref_asset_id L ref of None \<Rightarrow> False | Some i \<Rightarrow> ig_issuance_id (ar_genesis a) = i)"

definition utxo_candidates :: "'k lib \<Rightarrow> string \<Rightarrow> managed_utxo option list \<Rightarrow> candidate list" where
  "utxo_candidates L ref utxos =
     concat (map (\<lambda>u. case u of
         None \<Rightarrow> []
       | Some utxo \<Rightarrow> List.map_filter (\<lambda>a. case a of
             None \<Rightarrow> None
           | Some x \<Rightarrow> (if \<not> ownership_record_matches L x ref then None
                        else Some \<lparr>ca_asset = x, ca_outpoint = mu_out_point utxo\<rparr>)) (mu_assets utxo)) utxos)"

text \<open>\<open>bytes.Compare\<close> less than zero.\<close>

fun bytes_less :: "bytes \<Rightarrow> bytes \<Rightarrow> bool" where
  "bytes_less xs [] = False"
| "bytes_less [] (y # ys) = True"
| "bytes_less (x # xs) (y # ys) = (x < y \<or> x = y \<and> bytes_less xs ys)"

definition candidate_less :: "candidate \<Rightarrow> candidate \<Rightarrow> bool" where
  "candidate_less a b \<longleftrightarrow>
     (if op_txid (ca_outpoint a) \<noteq> op_txid (ca_outpoint b) then bytes_less (op_txid (ca_outpoint a)) (op_txid (ca_outpoint b))
      else if op_index (ca_outpoint a) \<noteq> op_index (ca_outpoint b) then op_index (ca_outpoint a) < op_index (ca_outpoint b)
      else bytes_less (candidate_issuance a) (candidate_issuance b))"

fun insert_candidate :: "candidate \<Rightarrow> candidate list \<Rightarrow> candidate list" where
  "insert_candidate c [] = [c]"
| "insert_candidate c (d # ds) = (if candidate_less d c then d # insert_candidate c ds else c # d # ds)"

definition sort_candidates :: "candidate list \<Rightarrow> candidate list" where
  "sort_candidates cs = foldr insert_candidate cs []"

definition utxos_request :: list_utxos_request where
  "utxos_request = \<lparr>lu_include_leased = True, lu_script_key_type = None\<rparr>"

definition ownership_candidates :: "'k lib \<Rightarrow> client \<Rightarrow> string \<Rightarrow> candidate list io" where
  "ownership_candidates L c ref =
     bind_io (call_io (ListUtxos utxos_request) (\<lambda>h. c_list_utxos c h utxos_request)) (\<lambda>utxos.
       return_io (sort_candidates (utxo_candidates L ref utxos)))"

section \<open>Selection\<close>

definition candidate_type :: "candidate \<Rightarrow> asset_type" where
  "candidate_type c = ig_type (ar_genesis (ca_asset c))"

definition validate_candidate_types :: "'k lib \<Rightarrow> string \<Rightarrow> candidate list \<Rightarrow> bool \<Rightarrow> unit result" where
  "validate_candidate_types L ref cs collection_ref =
     (if \<exists>c \<in> set (tl cs). candidate_type c \<noteq> candidate_type (hd cs)
      then Inl (Wrapf [] (Sentinel ErrWrongAssetType) '': asset ref resolves to multiple asset types'')
      else if collection_ref \<or> \<not> is_group_ref L ref then Inr ()
      else if candidate_type (hd cs) \<noteq> asset_type_normal
      then Inl (Wrapf [] (Sentinel ErrWrongAssetType) '': group ref is not a fungible asset or collection'')
      else Inr ())"

text \<open>The loop that takes candidates until the amount is covered; the first argument is the sum so far.\<close>

fun take_until_covered :: "u64 \<Rightarrow> u64 \<Rightarrow> candidate list \<Rightarrow> candidate list option" where
  "take_until_covered sum_so_far amount [] = None"
| "take_until_covered sum_so_far amount (c # cs) =
     (let s = add_saturating_uint64 sum_so_far (ar_amount (ca_asset c)) in
      if s \<ge> amount then Some [c] else map_option ((#) c) (take_until_covered s amount cs))"

definition select_candidates :: "'k lib \<Rightarrow> string \<Rightarrow> candidate list \<Rightarrow> ownership_options \<Rightarrow> candidate list result" where
  "select_candidates L ref cs o1 =
     (let first_type = candidate_type (hd cs);
          collection_ref = (is_group_ref L ref \<and> first_type = asset_type_collectible) in
      and_then (validate_candidate_types L ref cs collection_ref) (\<lambda>_.
        if collection_ref
        then if oo_has_amount o1 then Inl (Sentinel ErrWrongAssetType)
             else if oo_all_items o1 then Inr cs else Inr (take 1 cs)
        else if oo_all_items o1 then Inl (Sentinel ErrWrongAssetType)
        else if first_type = asset_type_collectible
        then if oo_has_amount o1 \<and> oo_amount o1 > 1
             then Inl (Wrapf [] (Sentinel ErrInsufficientBalance) '': NFT ownership proves one item'')
             else Inr (take 1 cs)
        else if \<not> oo_has_amount o1 then Inl (Sentinel ErrOwnershipAmountRequired)
        else case take_until_covered 0 (oo_amount o1) cs of
          Some selected \<Rightarrow> Inr selected
        | None \<Rightarrow> Inl (Wrapf [] (Sentinel ErrInsufficientBalance) '': owned amount below requested'')))"

section \<open>Proving\<close>

record ownership_proof =
  wp_asset_ref :: string
  wp_issuance_id :: bytes
  wp_script_key :: bytes
  wp_outpoint :: outpoint
  wp_amount :: u64
  wp_proof_with_witness :: bytes

record ownership_proof_set =
  ws_asset_ref :: string
  ws_proofs :: "ownership_proof list"

definition ownership_proof_ref :: "'k lib \<Rightarrow> string \<Rightarrow> asset_record \<Rightarrow> string result" where
  "ownership_proof_ref L ref a =
     (if ig_type (ar_genesis a) = asset_type_collectible then asset_ref_from_asset_id L (ig_issuance_id (ar_genesis a))
      else if is_group_ref L ref then Inr ref
      else asset_ref_from_asset_id L (ig_issuance_id (ar_genesis a)))"

definition all_records_request :: "string \<Rightarrow> list_assets_request" where
  "all_records_request ref = \<lparr>lr_with_witness = False, lr_include_spent = True, lr_include_leased = False,
     lr_include_unconfirmed_mints = False, lr_min_amount = 0, lr_max_amount = 0, lr_asset_ref = Some ref,
     lr_anchor_outpoint = None, lr_script_key_type = Some \<lparr>sq_explicit_type = None, sq_all_types = True\<rparr>\<rparr>"

definition ownership_ref_known :: "client \<Rightarrow> string \<Rightarrow> bool io" where
  "ownership_ref_known c ref =
     bind_io (list_asset_records c (Some (all_records_request ref))) (\<lambda>records. return_io (records \<noteq> []))"

definition no_candidates_error :: "'k lib \<Rightarrow> client \<Rightarrow> string \<Rightarrow> 'a io" where
  "no_candidates_error L c ref =
     bind_io (wrap_io L ''ProveOwnership'' (ownership_ref_known c ref)) (\<lambda>known.
       wrap_io L ''ProveOwnership'' (lift_io (Inl (Wrapf []
         (Sentinel (if known then ErrInsufficientBalance else ErrAssetUnknown)) '': ref''))))"

definition prove_candidate ::
    "'k lib \<Rightarrow> client \<Rightarrow> string \<Rightarrow> bytes \<Rightarrow> ownership_proof list \<Rightarrow> candidate \<Rightarrow> ownership_proof list io" where
  "prove_candidate L c ref challenge proofs ca =
     bind_io (lift_io (asset_ref_from_asset_id L (candidate_issuance ca))) (\<lambda>issuance_ref.
     let req = \<lparr>po_asset_ref = issuance_ref, po_script_key = sk_pub_key (ar_script_key (ca_asset ca)),
                po_outpoint = ca_outpoint ca, po_challenge = challenge\<rparr> in
     bind_io (wrap_io L ''ProveOwnership''
               (call_io (ProveAssetOwnership req) (\<lambda>h. c_prove_asset_ownership c h req))) (\<lambda>answer.
       case answer of
         Some (b # bs) \<Rightarrow>
           bind_io (lift_io (ownership_proof_ref L ref (ca_asset ca))) (\<lambda>proof_ref.
             return_io (proofs @ [\<lparr>wp_asset_ref = proof_ref, wp_issuance_id = candidate_issuance ca,
               wp_script_key = sk_pub_key (ar_script_key (ca_asset ca)), wp_outpoint = ca_outpoint ca,
               wp_amount = ar_amount (ca_asset ca), wp_proof_with_witness = b # bs\<rparr>]))
       | _ \<Rightarrow> wrap_io L ''ProveOwnership'' (lift_io (Inl (Sentinel ErrNoProofs)))))"

definition prove_ownership ::
    "'k lib \<Rightarrow> wallet \<Rightarrow> string \<Rightarrow> (ownership_options \<Rightarrow> ownership_options) list \<Rightarrow> ownership_proof_set io" where
  "prove_ownership L w ref opts =
     (let o1 = apply_ownership_options opts; c = w_client w; op = ''ProveOwnership'' in
      bind_io (wrap_io L op (lift_io (asset_ref_validate L ref))) (\<lambda>_.
      bind_io (wrap_io L op (lift_io (validate_ownership_challenge (oo_challenge o1) (oo_challenge_set o1)))) (\<lambda>_.
        if oo_has_amount o1 \<and> oo_amount o1 = 0 then wrap_io L op (lift_io (Inl (Sentinel ErrZeroAmount)))
        else
          bind_io (wrap_io L op (ownership_candidates L c ref)) (\<lambda>cs.
            if cs = [] then no_candidates_error L c ref
            else
              bind_io (wrap_io L op (lift_io (select_candidates L ref cs o1))) (\<lambda>selected.
              bind_io (for_io (prove_candidate L c ref (oo_challenge o1)) [] selected) (\<lambda>proofs.
                return_io \<lparr>ws_asset_ref = ref, ws_proofs = proofs\<rparr>))))))"

definition verify_ownership ::
    "'k lib \<Rightarrow> wallet \<Rightarrow> bytes \<Rightarrow> (ownership_options \<Rightarrow> ownership_options) list \<Rightarrow> verify_ownership_response io" where
  "verify_ownership L w proof_bytes opts =
     (let o1 = apply_ownership_options opts; op = ''VerifyOwnership'';
          req = \<lparr>vo_proof_with_witness = proof_bytes, vo_challenge = oo_challenge o1\<rparr> in
      if proof_bytes = [] then wrap_io L op (lift_io (Inl (Sentinel ErrOwnershipProofRequired)))
      else if oo_has_amount o1 \<or> oo_all_items o1 then wrap_io L op (lift_io (Inl (Sentinel ErrWrongAssetType)))
      else
        bind_io (wrap_io L op (lift_io (validate_ownership_challenge (oo_challenge o1) (oo_challenge_set o1)))) (\<lambda>_.
        bind_io (wrap_io L op (call_io (VerifyAssetOwnership req) (\<lambda>h. c_verify_asset_ownership (w_client w) h req))) (\<lambda>resp.
          case resp of
            Some r \<Rightarrow> (if vr_valid r then return_io r else wrap_io L op (lift_io (Inl (Sentinel ErrOwnershipProofInvalid))))
          | None \<Rightarrow> wrap_io L op (lift_io (Inl (Sentinel ErrOwnershipProofInvalid))))))"

section \<open>What is proven\<close>

definition total_amount :: "candidate list \<Rightarrow> nat" where
  "total_amount cs = sum_list (map (\<lambda>c. unat (ar_amount (ca_asset c))) cs)"

lemma unat_saturating_sum: "unat (add_saturating_uint64 a b) = min (unat a + unat b) (2 ^ 64 - 1)"
  by (auto simp: add_saturating_uint64_def add64_eq unat_word_ariths)

lemma unat_le_max: "unat (a :: u64) \<le> 2 ^ 64 - 1"
proof -
  have "unat a < 2 ^ 64" using unsigned_less [of a, where 'a = nat] by simp
  then show ?thesis by simp
qed

lemma take_until_covered_Some:
  assumes "take_until_covered s amount cs = Some sel" and "unat s = min total_before (2 ^ 64 - 1)"
  shows "(\<exists>later. cs = sel @ later) \<and> sel \<noteq> [] \<and> unat amount \<le> total_before + total_amount sel \<and>
    (butlast sel \<noteq> [] \<longrightarrow> total_before + total_amount (butlast sel) < unat amount)"
  using assms
proof (induction cs arbitrary: s total_before sel)
  case Nil
  then show ?case by simp
next
  case (Cons c cs)
  let ?s = "add_saturating_uint64 s (ar_amount (ca_asset c))"
  let ?t = "total_before + unat (ar_amount (ca_asset c))"
  have s: "unat ?s = min ?t (2 ^ 64 - 1)" using Cons.prems(2) by (simp add: unat_saturating_sum)
  have bound: "unat amount \<le> 2 ^ 64 - 1" by (rule unat_le_max)
  have covered: "amount \<le> ?s \<longleftrightarrow> unat amount \<le> ?t" using bound by (simp add: word_le_nat_alt s)
  show ?case
  proof (cases "amount \<le> ?s")
    case True
    with Cons.prems(1) covered show ?thesis by (auto simp: Let_def total_amount_def)
  next
    case False
    with Cons.prems(1) obtain rest where rest: "take_until_covered ?s amount cs = Some rest" "sel = c # rest"
      by (auto simp: Let_def)
    from Cons.IH [OF rest(1) s] False rest(2) covered show ?thesis
      by (cases rest) (auto simp: total_amount_def)
  qed
qed

lemma take_until_covered_None:
  assumes "take_until_covered s amount cs = None" and "unat s = min total_before (2 ^ 64 - 1)" and "total_before < unat amount"
  shows "total_before + total_amount cs < unat amount"
  using assms
proof (induction cs arbitrary: s total_before)
  case Nil
  then show ?case by (simp add: total_amount_def)
next
  case (Cons c cs)
  let ?s = "add_saturating_uint64 s (ar_amount (ca_asset c))"
  let ?t = "total_before + unat (ar_amount (ca_asset c))"
  have s: "unat ?s = min ?t (2 ^ 64 - 1)" using Cons.prems(2) by (simp add: unat_saturating_sum)
  have bound: "unat amount \<le> 2 ^ 64 - 1" by (rule unat_le_max)
  have "\<not> amount \<le> ?s" "take_until_covered ?s amount cs = None"
    using Cons.prems(1) by (auto simp: Let_def split: if_split_asm)
  moreover from this have "?t < unat amount" using bound by (auto simp: word_le_nat_alt s)
  ultimately show ?case using Cons.IH [OF _ s] by (simp add: total_amount_def)
qed

text \<open>
  C28. For a fungible asset \<open>ProveOwnership\<close> proves the first outputs, in the order of their
  outpoints, that reach the requested amount, and no more of them than are needed; it fails for lack
  of balance exactly when all outputs together fall short, whatever the sums overflow to.
\<close>

theorem fungible_selection:
  assumes "cs \<noteq> []" and "list_all (\<lambda>c. candidate_type c = asset_type_normal) cs"
    and "oo_has_amount o1" "oo_amount o1 \<noteq> 0" "\<not> oo_all_items o1"
  shows "case select_candidates L ref cs o1 of
      Inr sel \<Rightarrow> (\<exists>later. cs = sel @ later) \<and> sel \<noteq> [] \<and> unat (oo_amount o1) \<le> total_amount sel \<and>
        total_amount (butlast sel) < unat (oo_amount o1)
    | Inl e \<Rightarrow> errors_is e ErrInsufficientBalance \<and> total_amount cs < unat (oo_amount o1)"
proof -
  have types: "candidate_type (hd cs) = asset_type_normal" "\<not> (\<exists>c \<in> set (tl cs). candidate_type c \<noteq> asset_type_normal)"
    using assms(1,2) by (cases cs; auto simp: list_all_iff)+
  have not_collectible: "asset_type_normal \<noteq> asset_type_collectible"
    by (simp add: asset_type_normal_def asset_type_collectible_def)
  have positive: "0 < unat (oo_amount o1)" using assms(4) by (simp add: unat_gt_0)
  have select: "select_candidates L ref cs o1 = (case take_until_covered 0 (oo_amount o1) cs of
      Some selected \<Rightarrow> Inr selected
    | None \<Rightarrow> Inl (Wrapf [] (Sentinel ErrInsufficientBalance) '': owned amount below requested''))"
    using assms types not_collectible by (simp add: select_candidates_def validate_candidate_types_def)
  show ?thesis
  proof (cases "take_until_covered 0 (oo_amount o1) cs")
    case None
    from take_until_covered_None [OF this, of 0] positive None show ?thesis by (simp add: select)
  next
    case (Some sel)
    from take_until_covered_Some [OF this, of 0] positive Some show ?thesis
      by (cases "butlast sel = []") (auto simp: select total_amount_def)
  qed
qed

definition sample_candidate :: "u64 \<Rightarrow> candidate" where
  "sample_candidate amount = \<lparr>ca_asset = (sample_row ''g'' 1 amount asset_type_normal),
     ca_outpoint = \<lparr>op_txid = [], op_index = 0\<rparr>\<rparr>"

theorem fungible_selection_witness:
  "\<exists>sel. select_candidates sample_lib ''g'' [sample_candidate 60, sample_candidate 50, sample_candidate 1]
     (apply_ownership_options [with_ownership_amount 100]) = Inr sel \<and> 100 \<le> total_amount sel"
proof -
  let ?cs = "[sample_candidate 60, sample_candidate 50, sample_candidate 1]"
  let ?o1 = "apply_ownership_options [with_ownership_amount 100]"
  have "list_all (\<lambda>c. candidate_type c = asset_type_normal) ?cs"
    by (simp add: candidate_type_def sample_candidate_def sample_row_def)
  moreover have o1: "oo_has_amount ?o1" "oo_amount ?o1 = 100" "\<not> oo_all_items ?o1"
    by (simp_all add: apply_ownership_options_def with_ownership_amount_def no_ownership_options_def)
  moreover have "total_amount ?cs = 111"
    by (simp add: total_amount_def sample_candidate_def sample_row_def)
  ultimately show ?thesis
    using fungible_selection [of ?cs ?o1 sample_lib "''g''"]
    by (cases "select_candidates sample_lib ''g'' ?cs ?o1") auto
qed

end
