(* ===== verification/Tap_Events.thy ===== *)
theory Tap_Events
  imports Tap_Wallet
begin

text \<open>
  The event listener (\<open>event_listener.go\<close>) and the projections of raw events (\<open>events.go\<close>).

  A stream is a sequence of subscriptions: what each of them came to is given by the outcome of its
  number, and the definitions compute whether the next one is made and which callbacks are invoked.
  Goroutines share only the handlers, so each stream is modelled on its own; inside a subscription
  the channels of the client and the reader are a step relation.

  \<open>float64\<close> values are pairs of a mantissa and a binary exponent, rounded to 53 bits, to even;
  overflow, infinities and subnormal numbers are outside the model.
\<close>

section \<open>Projections\<close>

record receive_event_record =
  rr_timestamp :: int
  rr_address :: "address option"
  rr_outpoint :: string
  rr_status :: int
  rr_confirmation_height :: u32
  rr_error :: string

record receive_event =
  re_timestamp :: int
  re_asset_ref :: string
  re_amount :: u64
  re_status :: int
  re_outpoint :: string
  re_confirmation_height :: u32
  re_error :: string

text \<open>\<open>ParcelType\<close> is a \<open>uint8\<close>, \<open>ChangeOutputIndex\<close> an \<open>int32\<close>.\<close>

record anchor_transaction =
  ax_anchor_psbt :: bytes
  ax_change_output_index :: u32
  ax_chain_fees_sats :: int
  ax_target_fee_rate :: fee_rate
  ax_lnd_locked_utxos :: "outpoint list"
  ax_final_tx :: bytes

record send_event_record =
  sd_timestamp :: int
  sd_send_state :: string
  sd_parcel_type :: byte
  sd_addresses :: "address option list"
  sd_virtual_packets :: "bytes list"
  sd_passive_virtual_packets :: "bytes list"
  sd_anchor_transaction :: "anchor_transaction option"
  sd_transfer :: "asset_transfer option"
  sd_error :: string
  sd_transfer_label :: string
  sd_next_send_state :: string

record send_event =
  se_timestamp :: int
  se_send_state :: string
  se_next_send_state :: string
  se_transfer_label :: string
  se_asset_refs :: "string list"
  se_transfer :: "transfer option"
  se_error :: string

definition append_unique_asset_ref :: "'k lib \<Rightarrow> string list \<Rightarrow> string \<Rightarrow> string list" where
  "append_unique_asset_ref L refs ref =
     (if \<exists>r \<in> set refs. asset_ref_equivalent L r ref then refs else refs @ [ref])"

definition new_receive_event :: "receive_event_record option \<Rightarrow> receive_event option" where
  "new_receive_event r =
     (case r of
        None \<Rightarrow> None
      | Some e \<Rightarrow> Some \<lparr>re_timestamp = rr_timestamp e,
          re_asset_ref = (case rr_address e of None \<Rightarrow> [] | Some a \<Rightarrow> addr_asset_ref a),
          re_amount = (case rr_address e of None \<Rightarrow> 0 | Some a \<Rightarrow> addr_amount a),
          re_status = rr_status e, re_outpoint = rr_outpoint e,
          re_confirmation_height = rr_confirmation_height e, re_error = rr_error e\<rparr>)"

definition address_refs :: "address option list \<Rightarrow> string list" where
  "address_refs addrs =
     List.map_filter (\<lambda>a. case a of
        None \<Rightarrow> None
      | Some x \<Rightarrow> (if asset_ref_is_zero (addr_asset_ref x) then None else Some (addr_asset_ref x))) addrs"

text \<open>Building the references of a transfer may panic, which is an error in the model.\<close>

definition new_send_event :: "'k lib \<Rightarrow> send_event_record option \<Rightarrow> send_event option result" where
  "new_send_event L r =
     (case r of
        None \<Rightarrow> Inr None
      | Some e \<Rightarrow>
          (let event = \<lparr>se_timestamp = sd_timestamp e, se_send_state = sd_send_state e,
                 se_next_send_state = sd_next_send_state e, se_transfer_label = sd_transfer_label e,
                 se_asset_refs = [], se_transfer = None, se_error = sd_error e\<rparr> in
           case sd_transfer e of
             None \<Rightarrow> Inr (Some (event\<lparr>se_asset_refs :=
               foldl (append_unique_asset_ref L) [] (address_refs (sd_addresses e))\<rparr>))
           | Some raw \<Rightarrow>
               and_then (new_transfer L raw) (\<lambda>t.
                 let refs = foldl (append_unique_asset_ref L) [] (map ta_asset_ref (tr_inputs t) @ map ta_asset_ref (tr_outputs t)) in
                 Inr (Some (event\<lparr>se_transfer := Some t,
                   se_asset_refs := (if refs \<noteq> [] then refs
                     else foldl (append_unique_asset_ref L) [] (address_refs (sd_addresses e)))\<rparr>)))))"

text \<open>
  The list of references of an event is a set of assets: appending refines insertion into the set
  of identities, and keeps the list free of duplicates.
\<close>

definition ref_set :: "'k lib \<Rightarrow> string list \<Rightarrow> ref_identity set" where
  "ref_set L refs = ref_identity_of L ` set refs"

lemma append_unique_ref_set:
  "ref_set L (append_unique_asset_ref L refs ref) = insert (ref_identity_of L ref) (ref_set L refs)"
proof (cases "\<exists>r \<in> set refs. asset_ref_equivalent L r ref")
  case True
  then obtain r where "r \<in> set refs" "ref_identity_of L r = ref_identity_of L ref"
    by (auto simp: equivalent_iff_identity)
  then have "ref_identity_of L ref \<in> ref_set L refs" unfolding ref_set_def by (metis imageI)
  with True show ?thesis by (simp add: append_unique_asset_ref_def insert_absorb)
qed (simp add: append_unique_asset_ref_def ref_set_def)

lemma append_unique_distinct:
  "distinct (map (ref_identity_of L) refs) \<Longrightarrow>
     distinct (map (ref_identity_of L) (append_unique_asset_ref L refs ref))"
  by (auto simp: append_unique_asset_ref_def equivalent_iff_identity)

lemma collect_refs:
  "ref_set L (foldl (append_unique_asset_ref L) refs xs) = ref_set L refs \<union> ref_identity_of L ` set xs"
  "distinct (map (ref_identity_of L) refs) \<Longrightarrow>
     distinct (map (ref_identity_of L) (foldl (append_unique_asset_ref L) refs xs))"
  by (induction xs arbitrary: refs) (auto simp: append_unique_ref_set append_unique_distinct)

section \<open>Backoff\<close>

type_synonym f64 = "int \<times> int"

fun bit_length :: "nat \<Rightarrow> nat" where
  "bit_length n = (if n = 0 then 0 else Suc (bit_length (n div 2)))"

declare bit_length.simps [simp del]

text \<open>Division by \<open>2 ^ k\<close>, rounded to the nearest integer, halves to the even one.\<close>

definition round_shift :: "nat \<Rightarrow> int \<Rightarrow> int" where
  "round_shift k m =
     (let q = m div 2 ^ k; r = m mod 2 ^ k in
      if 2 * r < 2 ^ k then q else if 2 * r > 2 ^ k then q + 1 else if even q then q else q + 1)"

definition f64_round :: "f64 \<Rightarrow> f64" where
  "f64_round x = (case x of (m, e) \<Rightarrow>
     let k = bit_length (nat \<bar>m\<bar>) - 53 in (round_shift k m, e + int k))"

definition f64_of_int :: "int \<Rightarrow> f64" where
  "f64_of_int n = f64_round (n, 0)"

definition f64_mult :: "f64 \<Rightarrow> f64 \<Rightarrow> f64" where
  "f64_mult x y = (case (x, y) of ((m, e), (m', e')) \<Rightarrow> f64_round (m * m', e + e'))"

definition f64_add :: "f64 \<Rightarrow> f64 \<Rightarrow> f64" where
  "f64_add x y = (case (x, y) of ((m, e), (m', e')) \<Rightarrow>
     let b = min e e' in f64_round (m * 2 ^ nat (e - b) + m' * 2 ^ nat (e' - b), b))"

definition f64_less :: "f64 \<Rightarrow> f64 \<Rightarrow> bool" where
  "f64_less x y \<longleftrightarrow> (case (x, y) of ((m, e), (m', e')) \<Rightarrow>
     let b = min e e' in m * 2 ^ nat (e - b) < m' * 2 ^ nat (e' - b))"

text \<open>The conversion to an integer cuts the fraction off.\<close>

definition f64_trunc :: "f64 \<Rightarrow> int" where
  "f64_trunc x = (case x of (m, e) \<Rightarrow>
     if e \<ge> 0 then m * 2 ^ nat e else sgn m * (\<bar>m\<bar> div 2 ^ nat (- e)))"

text \<open>Durations are nanoseconds.\<close>

definition default_initial_backoff :: int where "default_initial_backoff = 1000000000"
definition default_max_backoff :: int where "default_max_backoff = 60000000000"
definition default_backoff_multiplier :: f64 where "default_backoff_multiplier = (2, 0)"

text \<open>The \<open>float64\<close> nearest to 0.2.\<close>

definition jitter_fraction :: f64 where "jitter_fraction = (3602879701896397, -54)"

text \<open>\<open>addJitter\<close>, with the 53 random bits of \<open>cryptoFloat64\<close>.\<close>

definition add_jitter :: "int \<Rightarrow> int \<Rightarrow> int" where
  "add_jitter d random =
     (let jitter = f64_mult (f64_of_int d) jitter_fraction;
          offset = f64_mult (f64_add (f64_mult (random, -53) (2, 0)) (-1, 0)) jitter;
          total_delay = f64_add (f64_of_int d) offset;
          floor_delay = f64_of_int 1000000 in
      f64_trunc (if f64_less total_delay floor_delay then floor_delay else total_delay))"

section \<open>Configuration\<close>

record listener_config =
  lc_max_retries :: int
  lc_initial_backoff :: int
  lc_max_backoff :: int
  lc_backoff_multiplier :: f64

text \<open>Which callbacks are set.\<close>

record event_handler =
  eh_on_receive :: bool
  eh_on_send :: bool
  eh_on_mint :: bool
  eh_on_error :: bool
  eh_on_disconnect :: bool

definition with_max_retries :: "int \<Rightarrow> listener_config \<Rightarrow> listener_config" where
  "with_max_retries n c = c\<lparr>lc_max_retries := n\<rparr>"

definition with_initial_backoff :: "int \<Rightarrow> listener_config \<Rightarrow> listener_config" where
  "with_initial_backoff d c = c\<lparr>lc_initial_backoff := d\<rparr>"

definition with_max_backoff :: "int \<Rightarrow> listener_config \<Rightarrow> listener_config" where
  "with_max_backoff d c = c\<lparr>lc_max_backoff := d\<rparr>"

definition with_backoff_multiplier :: "f64 \<Rightarrow> listener_config \<Rightarrow> listener_config" where
  "with_backoff_multiplier m c = c\<lparr>lc_backoff_multiplier := m\<rparr>"

text \<open>The listener: whether it runs, and the streams whose goroutines have been started.\<close>

record event_listener =
  el_config :: listener_config
  el_handler :: event_handler
  el_running :: bool
  el_streams :: "string list"

definition new_event_listener :: "event_handler \<Rightarrow> (listener_config \<Rightarrow> listener_config) list \<Rightarrow> event_listener" where
  "new_event_listener handler opts =
     \<lparr>el_config = fold (\<lambda>f c. f c) opts
        \<lparr>lc_max_retries = 0, lc_initial_backoff = default_initial_backoff, lc_max_backoff = default_max_backoff,
         lc_backoff_multiplier = default_backoff_multiplier\<rparr>,
      el_handler = handler, el_running = False, el_streams = []\<rparr>"

definition listener_start :: "event_listener \<Rightarrow> event_listener result" where
  "listener_start l =
     (if el_running l then Inl (Plain ''event listener already running'')
      else Inr (l\<lparr>el_running := True,
        el_streams := (if eh_on_receive (el_handler l) then [''receive''] else []) @
          (if eh_on_send (el_handler l) then [''send''] else []) @
          (if eh_on_mint (el_handler l) then [''mint''] else [])\<rparr>))"

text \<open>\<open>Stop\<close> cancels the context and waits for the goroutines to return.\<close>

definition listener_stop :: "event_listener \<Rightarrow> event_listener" where
  "listener_stop l = (if \<not> el_running l then l else l\<lparr>el_running := False, el_streams := []\<rparr>)"

section \<open>One stream\<close>

definition is_fatal_error :: "'k lib \<Rightarrow> go_error option \<Rightarrow> bool" where
  "is_fatal_error L err =
     (case err of
        None \<Rightarrow> False
      | Some e \<Rightarrow>
          (case status_from_error L e of
             Some (code, _) \<Rightarrow> code \<in> {PermissionDenied, Unauthenticated, Unimplemented, InvalidArgument}
           | None \<Rightarrow> False))"

text \<open>
  What a subscription came to: the error that ended it and the number of events delivered, whether
  the context is cancelled after it or while waiting, and the random bits of the jitter.
\<close>

record outcome =
  oc_err :: "go_error option"
  oc_delivered :: nat
  oc_cancelled :: bool
  oc_cancelled_waiting :: bool
  oc_random :: int

datatype report = OnError "go_error option" | OnDisconnect "go_error option" int

text \<open>The state between two subscriptions: the backoff and the number of retries.\<close>

definition grow_backoff :: "listener_config \<Rightarrow> int \<Rightarrow> int" where
  "grow_backoff c b = min (f64_trunc (f64_mult (f64_of_int b) (lc_backoff_multiplier c))) (lc_max_backoff c)"

definition stream_step ::
    "'k lib \<Rightarrow> listener_config \<Rightarrow> event_handler \<Rightarrow> int \<times> int \<Rightarrow> outcome \<Rightarrow> report list \<times> (int \<times> int) option" where
  "stream_step L c handler state out =
     (case state of (backoff, retries) \<Rightarrow>
        if oc_cancelled out then ([], None)
        else if is_fatal_error L (oc_err out)
        then (if eh_on_error handler then [OnError (oc_err out)] else [], None)
        else
          (let retries0 = (if oc_delivered out > 0 then 0 else retries);
               backoff0 = (if oc_delivered out > 0 then lc_initial_backoff c else backoff);
               retries1 = retries0 + 1 in
           if lc_max_retries c > 0 \<and> retries1 > lc_max_retries c
           then (if eh_on_error handler then [OnError (oc_err out)] else [], None)
           else
             (let reports = (if eh_on_disconnect handler
                             then [OnDisconnect (oc_err out) (add_jitter backoff0 (oc_random out))] else []) in
              if oc_cancelled_waiting out then (reports, None)
              else (reports, Some (grow_backoff c backoff0, retries1)))))"

text \<open>The state before the subscription of a number, \<open>None\<close> when it is not made.\<close>

primrec stream_at :: "'k lib \<Rightarrow> listener_config \<Rightarrow> event_handler \<Rightarrow> (nat \<Rightarrow> outcome) \<Rightarrow> nat \<Rightarrow> (int \<times> int) option" where
  "stream_at L c handler outs 0 = Some (lc_initial_backoff c, 0)"
| "stream_at L c handler outs (Suc n) =
     (case stream_at L c handler outs n of
        None \<Rightarrow> None
      | Some state \<Rightarrow> snd (stream_step L c handler state (outs n)))"

primrec delivered_before :: "'k lib \<Rightarrow> listener_config \<Rightarrow> event_handler \<Rightarrow> (nat \<Rightarrow> outcome) \<Rightarrow> nat \<Rightarrow> nat" where
  "delivered_before L c handler outs 0 = 0"
| "delivered_before L c handler outs (Suc n) = delivered_before L c handler outs n +
     (if stream_at L c handler outs n = None then 0 else oc_delivered (outs n))"

primrec reports_before :: "'k lib \<Rightarrow> listener_config \<Rightarrow> event_handler \<Rightarrow> (nat \<Rightarrow> outcome) \<Rightarrow> nat \<Rightarrow> report list" where
  "reports_before L c handler outs 0 = []"
| "reports_before L c handler outs (Suc n) = reports_before L c handler outs n @
     (case stream_at L c handler outs n of
        None \<Rightarrow> [] | Some state \<Rightarrow> fst (stream_step L c handler state (outs n)))"

section \<open>One subscription\<close>

text \<open>
  \<open>drainEvents\<close> between the client, which sends events, closes the event channel, sends one terminal
  error and may have its context cancelled, and the reader. The buffer holds the events sent and not
  yet received. The reader polls the events first; with none buffered it waits on all channels; once
  it has taken an error it hands over what is still buffered and returns.
  Every event is counted in \<open>delivered\<close> as it is handed over, and what the reader returns is the
  error together with that count (\<open>streamResult\<close>).
\<close>

datatype reader = Polling | Waiting | Draining "go_error option" | Returned "go_error option" nat

record 'e channels =
  ch_buffer :: "'e list"
  ch_closed :: bool
  ch_error :: "go_error option option"
  ch_cancelled :: "go_error option"
  ch_reader :: reader
  ch_handled :: "'e list"
  ch_delivered :: nat
  ch_sent :: "'e list"

definition idle_channels :: "'e channels" where
  "idle_channels = \<lparr>ch_buffer = [], ch_closed = False, ch_error = None, ch_cancelled = None, ch_reader = Polling,
     ch_handled = [], ch_delivered = 0, ch_sent = []\<rparr>"

definition terminal_error :: "'e channels \<Rightarrow> go_error option" where
  "terminal_error s = (case ch_error s of Some e \<Rightarrow> e | None \<Rightarrow> None)"

definition returned :: "'e channels \<Rightarrow> bool" where
  "returned s \<longleftrightarrow> (case ch_reader s of Returned _ _ \<Rightarrow> True | _ \<Rightarrow> False)"

definition handle_next :: "'e channels \<Rightarrow> 'e channels" where
  "handle_next s = s\<lparr>ch_buffer := tl (ch_buffer s), ch_handled := ch_handled s @ [hd (ch_buffer s)],
     ch_delivered := ch_delivered s + 1\<rparr>"

inductive drain_step :: "'e channels \<Rightarrow> 'e channels \<Rightarrow> bool" where
  send: "\<not> ch_closed s \<Longrightarrow> \<not> returned s \<Longrightarrow>
    drain_step s (s\<lparr>ch_buffer := ch_buffer s @ [e], ch_sent := ch_sent s @ [e]\<rparr>)"
| close: "\<not> returned s \<Longrightarrow> drain_step s (s\<lparr>ch_closed := True\<rparr>)"
| send_error: "ch_error s = None \<Longrightarrow> \<not> returned s \<Longrightarrow> drain_step s (s\<lparr>ch_error := Some err\<rparr>)"
| cancel: "\<not> returned s \<Longrightarrow> drain_step s (s\<lparr>ch_cancelled := Some err\<rparr>)"
| poll_event: "ch_reader s = Polling \<Longrightarrow> ch_buffer s \<noteq> [] \<Longrightarrow> drain_step s (handle_next s)"
| poll_closed: "ch_reader s = Polling \<Longrightarrow> ch_buffer s = [] \<Longrightarrow> ch_closed s \<Longrightarrow>
    drain_step s (s\<lparr>ch_reader := Returned (terminal_error s) (ch_delivered s)\<rparr>)"
| poll_nothing: "ch_reader s = Polling \<Longrightarrow> ch_buffer s = [] \<Longrightarrow> \<not> ch_closed s \<Longrightarrow>
    drain_step s (s\<lparr>ch_reader := Waiting\<rparr>)"
| wait_event: "ch_reader s = Waiting \<Longrightarrow> ch_buffer s \<noteq> [] \<Longrightarrow>
    drain_step s ((handle_next s)\<lparr>ch_reader := Polling\<rparr>)"
| wait_closed: "ch_reader s = Waiting \<Longrightarrow> ch_buffer s = [] \<Longrightarrow> ch_closed s \<Longrightarrow>
    drain_step s (s\<lparr>ch_reader := Returned (terminal_error s) (ch_delivered s)\<rparr>)"
| wait_error: "ch_reader s = Waiting \<Longrightarrow> ch_error s = Some err \<Longrightarrow>
    drain_step s (s\<lparr>ch_error := None, ch_reader := Draining err\<rparr>)"
| wait_cancelled: "ch_reader s = Waiting \<Longrightarrow> ch_cancelled s = Some err \<Longrightarrow>
    drain_step s (s\<lparr>ch_reader := Returned (Some err) (ch_delivered s)\<rparr>)"
| drain_event: "ch_reader s = Draining err \<Longrightarrow> ch_buffer s \<noteq> [] \<Longrightarrow> drain_step s (handle_next s)"
| drain_end: "ch_reader s = Draining err \<Longrightarrow> ch_buffer s = [] \<Longrightarrow>
    drain_step s (s\<lparr>ch_reader := Returned err (ch_delivered s)\<rparr>)"

section \<open>Nothing is lost\<close>

definition drain_ok :: "'e channels \<Rightarrow> bool" where
  "drain_ok s \<longleftrightarrow> ch_handled s @ ch_buffer s = ch_sent s \<and> ch_delivered s = length (ch_handled s) \<and>
     (\<forall>err n. ch_reader s = Returned err n \<longrightarrow> n = length (ch_handled s) \<and> (ch_buffer s = [] \<or> (ch_cancelled s \<noteq> None \<and> err = ch_cancelled s)))"

lemma drain_ok_step: "drain_step s t \<Longrightarrow> drain_ok s \<Longrightarrow> drain_ok t"
  by (induction rule: drain_step.induct) (auto simp: drain_ok_def handle_next_def returned_def split: reader.splits)

lemma drain_ok_reachable:
  assumes "drain_step\<^sup>*\<^sup>* idle_channels s"
  shows "drain_ok s"
  using assms
proof induction
  case base
  show ?case by (simp add: drain_ok_def idle_channels_def)
next
  case (step s t)
  then show ?case by (blast intro: drain_ok_step)
qed

text \<open>
  C26. Whatever the order in which the client sends events, an error, closes its channel or is
  cancelled: the events handed to the handler are the first of those sent, in their order, and when
  the reader returns, all that were sent have been handed over, unless it returns the cancellation.
  In either case the count it returns is the number of events handed over.
\<close>

theorem drain_loses_nothing:
  assumes "drain_step\<^sup>*\<^sup>* idle_channels s"
  shows "ch_handled s @ ch_buffer s = ch_sent s \<and>
    (case ch_reader s of
       Returned err n \<Rightarrow> n = length (ch_handled s) \<and>
         (ch_handled s = ch_sent s \<or> ch_cancelled s \<noteq> None \<and> err = ch_cancelled s)
     | _ \<Rightarrow> True)"
  using drain_ok_reachable [OF assms] by (auto simp: drain_ok_def split: reader.splits)

theorem drain_loses_nothing_witness:
  "\<exists>s :: nat channels. ch_reader s = Returned (Some (Plain ''gone'')) 1 \<and> ch_handled s = ch_sent s \<and> ch_sent s = [7]"
proof -
  let ?s1 = "idle_channels\<lparr>ch_reader := Waiting\<rparr> :: nat channels"
  let ?s2 = "?s1\<lparr>ch_error := Some (Some (Plain ''gone''))\<rparr>"
  let ?s3 = "?s2\<lparr>ch_buffer := ch_buffer ?s2 @ [7], ch_sent := ch_sent ?s2 @ [7]\<rparr>"
  let ?s4 = "?s3\<lparr>ch_error := None, ch_reader := Draining (Some (Plain ''gone''))\<rparr>"
  let ?s5 = "(handle_next ?s4)\<lparr>ch_reader := Returned (Some (Plain ''gone'')) 1\<rparr>"
  have "drain_step idle_channels ?s1" by (rule drain_step.poll_nothing) (simp_all add: idle_channels_def)
  moreover have "drain_step ?s1 ?s2" by (rule drain_step.send_error) (simp_all add: idle_channels_def returned_def)
  moreover have "drain_step ?s2 ?s3" by (rule drain_step.send) (simp_all add: idle_channels_def returned_def)
  moreover have "drain_step ?s3 ?s4" by (rule drain_step.wait_error) (simp_all add: idle_channels_def)
  moreover have "drain_step ?s4 (handle_next ?s4)" by (rule drain_step.drain_event) (simp_all add: idle_channels_def)
  moreover have "drain_step (handle_next ?s4) ?s5"
    using drain_step.drain_end [of "handle_next ?s4" "Some (Plain ''gone'')"]
    by (simp add: idle_channels_def handle_next_def)
  ultimately have "drain_step\<^sup>*\<^sup>* idle_channels ?s5" by (meson converse_rtranclp_into_rtranclp rtranclp.rtrancl_refl)
  from drain_loses_nothing [OF this] show ?thesis
    by (intro exI [of _ ?s5]) (auto simp: idle_channels_def handle_next_def)
qed

section \<open>Streams stay alive\<close>

text \<open>An outcome after which the stream ends whatever the retries are.\<close>

definition ends_stream :: "'k lib \<Rightarrow> outcome \<Rightarrow> bool" where
  "ends_stream L out \<longleftrightarrow> oc_cancelled out \<or> is_fatal_error L (oc_err out) \<or> oc_cancelled_waiting out"

text \<open>The retries that a number of outcomes leaves: those since the last delivery.\<close>

primrec retries_after :: "(nat \<Rightarrow> outcome) \<Rightarrow> nat \<Rightarrow> nat" where
  "retries_after outs 0 = 0"
| "retries_after outs (Suc n) = Suc (if oc_delivered (outs n) > 0 then 0 else retries_after outs n)"

lemma retries_after_outage:
  "retries_after outs (Suc k) > m \<longleftrightarrow> m \<le> k \<and> (\<forall>j \<in> {Suc k - m ..< Suc k}. oc_delivered (outs j) = 0)"
proof (induction k arbitrary: m)
  case 0
  show ?case by (cases m) auto
next
  case (Suc k)
  show ?case
  proof (cases m)
    case 0
    then show ?thesis by simp
  next
    case (Suc l)
    have "{Suc (Suc k) - m ..< Suc (Suc k)} = insert (Suc k) {Suc k - l ..< Suc k}"
      using Suc by (cases "l \<le> k") auto
    then show ?thesis using Suc.IH [of l] Suc by (auto simp del: retries_after.simps simp add: retries_after.simps(2) [of outs "Suc k"])
  qed
qed

lemma stream_at_retries:
  "stream_at L c handler outs n = Some (b, r) \<Longrightarrow> r = int (retries_after outs n)"
  by (induction n arbitrary: b r)
    (auto simp: stream_step_def Let_def split: option.split_asm if_split_asm)

lemma stream_alive_Suc:
  "stream_at L c handler outs (Suc n) \<noteq> None \<longleftrightarrow> stream_at L c handler outs n \<noteq> None \<and>
     \<not> ends_stream L (outs n) \<and> \<not> (lc_max_retries c > 0 \<and> int (retries_after outs (Suc n)) > lc_max_retries c)"
proof (cases "stream_at L c handler outs n")
  case None
  then show ?thesis by simp
next
  case (Some state)
  obtain b r where state: "state = (b, r)" by (cases state)
  from stream_at_retries [OF Some [unfolded state]] have "r = int (retries_after outs n)" .
  with Some state show ?thesis by (auto simp: stream_step_def ends_stream_def Let_def)
qed

lemma stream_alive:
  "stream_at L c handler outs n \<noteq> None \<longleftrightarrow>
     (\<forall>k < n. \<not> ends_stream L (outs k) \<and>
        \<not> (lc_max_retries c > 0 \<and> int (retries_after outs (Suc k)) > lc_max_retries c))"
proof (induction n)
  case 0
  show ?case by simp
next
  case (Suc n)
  then show ?case unfolding stream_alive_Suc less_Suc_eq by blast
qed

text \<open>Outages that a configuration endures: with a limit \<open>m\<close>, \<open>m\<close> failed subscriptions in a row are too many.\<close>

definition outages_endured :: "listener_config \<Rightarrow> (nat \<Rightarrow> outcome) \<Rightarrow> bool" where
  "outages_endured c outs \<longleftrightarrow> lc_max_retries c \<le> 0 \<or>
     (\<forall>k \<ge> nat (lc_max_retries c). \<exists>j \<in> {Suc k - nat (lc_max_retries c) ..< Suc k}. oc_delivered (outs j) > 0)"

lemma endured_retries:
  "outages_endured c outs \<longleftrightarrow>
     (\<forall>k. \<not> (lc_max_retries c > 0 \<and> int (retries_after outs (Suc k)) > lc_max_retries c))"
proof (cases "lc_max_retries c > 0")
  case True
  have "int (retries_after outs (Suc k)) > lc_max_retries c \<longleftrightarrow> retries_after outs (Suc k) > nat (lc_max_retries c)" for k
    using True by linarith
  then show ?thesis using True unfolding outages_endured_def retries_after_outage by auto
qed (simp add: outages_endured_def)

text \<open>
  C25. The listener never gives up by itself: it stops only when the context is cancelled, on an
  error that is fatal, or after as many failed subscriptions in a row as \<open>MaxRetries\<close> allows. As long
  as none of these happens every subscription is made, and a daemon that delivers again and again is
  heard: the number of events handed over exceeds every bound.
\<close>

theorem listener_keeps_listening:
  assumes "\<forall>k. \<not> ends_stream L (outs k)" and "outages_endured c outs"
  shows "(\<forall>n. stream_at L c handler outs n \<noteq> None) \<and>
    ((\<forall>k. \<exists>j \<ge> k. oc_delivered (outs j) > 0) \<longrightarrow> (\<forall>bound. \<exists>n. delivered_before L c handler outs n \<ge> bound))"
proof -
  have alive: "stream_at L c handler outs n \<noteq> None" for n
    using assms endured_retries [of c outs] by (simp only: stream_alive) blast
  have step: "delivered_before L c handler outs (Suc n) = delivered_before L c handler outs n + oc_delivered (outs n)" for n
    by (simp add: alive del: not_None_eq)
  have mono: "m \<le> n \<Longrightarrow> delivered_before L c handler outs m \<le> delivered_before L c handler outs n" for m n
    by (rule lift_Suc_mono_le [of "delivered_before L c handler outs"]) (simp_all only: step le_add1)
  have "\<exists>n. delivered_before L c handler outs n \<ge> bound" if often: "\<forall>k. \<exists>j \<ge> k. oc_delivered (outs j) > 0" for bound
  proof (induction bound)
    case 0
    show ?case by simp
  next
    case (Suc bound)
    then obtain n where n: "delivered_before L c handler outs n \<ge> bound" by blast
    from often obtain j where j: "j \<ge> n" "oc_delivered (outs j) > 0" by blast
    have "delivered_before L c handler outs (Suc j) \<ge> Suc bound"
      using n mono [OF j(1)] j(2) step [of j] by linarith
    then show ?case by blast
  qed
  with alive show ?thesis by blast
qed

definition sample_outcome :: "nat \<Rightarrow> outcome" where
  "sample_outcome k = \<lparr>oc_err = None, oc_delivered = (if even k then 1 else 0), oc_cancelled = False,
     oc_cancelled_waiting = False, oc_random = 0\<rparr>"

definition sample_config :: listener_config where
  "sample_config = \<lparr>lc_max_retries = 2, lc_initial_backoff = 1, lc_max_backoff = 60, lc_backoff_multiplier = (2, 0)\<rparr>"

definition sample_handler :: event_handler where
  "sample_handler = \<lparr>eh_on_receive = True, eh_on_send = True, eh_on_mint = False, eh_on_error = True, eh_on_disconnect = False\<rparr>"

theorem listener_keeps_listening_witness:
  "\<exists>n. delivered_before sample_lib sample_config sample_handler sample_outcome n \<ge> 1000"
proof -
  have endless: "\<forall>k. \<not> ends_stream sample_lib (sample_outcome k)"
    by (simp add: ends_stream_def sample_outcome_def is_fatal_error_def)
  have "outages_endured sample_config sample_outcome"
    unfolding outages_endured_def
  proof (intro disjI2 allI impI)
    fix k
    assume "nat (lc_max_retries sample_config) \<le> k"
    then have "2 \<le> k" by (simp add: sample_config_def)
    then have "k \<in> {Suc k - 2 ..< Suc k}" "k - 1 \<in> {Suc k - 2 ..< Suc k}" by auto
    moreover have "even k \<or> even (k - 1)" using \<open>2 \<le> k\<close> by auto
    ultimately have "\<exists>j \<in> {Suc k - 2 ..< Suc k}. even j" by blast
    then show "\<exists>j \<in> {Suc k - nat (lc_max_retries sample_config) ..< Suc k}. oc_delivered (sample_outcome j) > 0"
      by (simp add: sample_config_def sample_outcome_def)
  qed
  note result = listener_keeps_listening [OF endless this, of sample_handler]
  have "\<forall>k. \<exists>j \<ge> k. oc_delivered (sample_outcome j) > 0"
  proof
    fix k :: nat
    show "\<exists>j \<ge> k. oc_delivered (sample_outcome j) > 0"
      by (rule exI [of _ "2 * k"]) (simp add: sample_outcome_def)
  qed
  with result show ?thesis by blast
qed

section \<open>The default schedule\<close>

lemma bit_length_le: "n < 2 ^ k \<Longrightarrow> bit_length n \<le> k"
proof (induction n arbitrary: k rule: bit_length.induct)
  case (1 n)
  show ?case
  proof (cases "n = 0")
    case True
    then show ?thesis by (simp add: bit_length.simps)
  next
    case False
    with 1 obtain l where "k = Suc l" by (cases k) auto
    with 1 False show ?thesis by (subst bit_length.simps) (auto simp: less_mult_imp_div_less mult.commute)
  qed
qed

lemma f64_round_exact: "\<bar>m\<bar> < 2 ^ 53 \<Longrightarrow> f64_round (m, e) = (m, e)"
proof -
  assume "\<bar>m\<bar> < 2 ^ 53"
  then have "nat \<bar>m\<bar> < 2 ^ 53" by simp
  then have "bit_length (nat \<bar>m\<bar>) - 53 = 0" using bit_length_le by simp
  then show ?thesis by (simp add: f64_round_def round_shift_def Let_def)
qed

definition default_config :: listener_config where
  "default_config = el_config (new_event_listener \<lparr>eh_on_receive = True, eh_on_send = True, eh_on_mint = True,
     eh_on_error = True, eh_on_disconnect = True\<rparr> [])"

lemma default_grow:
  assumes "0 \<le> b" and "b \<le> 60000000000"
  shows "grow_backoff default_config b = min (2 * b) 60000000000"
proof -
  have "f64_of_int b = (b, 0)" using assms by (simp add: f64_of_int_def f64_round_exact)
  moreover have "f64_mult (b, 0) (2, 0) = (2 * b, 0)" using assms by (simp add: f64_mult_def f64_round_exact)
  ultimately show ?thesis
    by (simp add: grow_backoff_def default_config_def new_event_listener_def default_backoff_multiplier_def
        default_max_backoff_def f64_trunc_def)
qed

text \<open>
  With the default configuration the waits of an outage, before jitter, are one second,
  doubled after every attempt, and never more than a minute; the retries are unlimited.
\<close>

theorem default_backoff_schedule:
  assumes "\<forall>k < n. \<not> ends_stream L (outs k) \<and> oc_delivered (outs k) = 0"
  shows "stream_at L default_config handler outs n = Some (min (2 ^ n * 1000000000) 60000000000, int n)"
  using assms
proof (induction n)
  case 0
  show ?case
    by (simp add: default_config_def new_event_listener_def default_initial_backoff_def)
next
  case (Suc n)
  let ?b = "min (2 ^ n * 1000000000) 60000000000 :: int"
  have "grow_backoff default_config ?b = min (2 * ?b) 60000000000" by (rule default_grow) simp_all
  also have "\<dots> = min (2 ^ Suc n * 1000000000) 60000000000" by (auto simp: min_def)
  finally have grow: "grow_backoff default_config ?b = min (2 ^ Suc n * 1000000000) 60000000000" .
  have unlimited: "lc_max_retries default_config = 0" by (simp add: default_config_def new_event_listener_def)
  from Suc have "stream_at L default_config handler outs n = Some (?b, int n)"
    "\<not> ends_stream L (outs n)" "oc_delivered (outs n) = 0" by simp_all
  then show ?case
    by (simp add: stream_step_def ends_stream_def unlimited grow Let_def del: power_Suc)
qed

theorem default_backoff_schedule_witness:
  "stream_at sample_lib default_config sample_handler (\<lambda>_. sample_outcome 1) 7 = Some (60000000000, 7)"
proof -
  have "\<forall>k < 7. \<not> ends_stream sample_lib (sample_outcome 1) \<and> oc_delivered (sample_outcome 1) = 0"
    by (simp add: ends_stream_def sample_outcome_def is_fatal_error_def)
  from default_backoff_schedule [OF this] show ?thesis by simp
qed

section \<open>The assets of an event\<close>

text \<open>What an event is about: the assets of its transfer, or those of its addresses before there is one.\<close>

definition event_assets :: "'k lib \<Rightarrow> transfer option \<Rightarrow> address option list \<Rightarrow> ref_identity set" where
  "event_assets L t addrs =
     (let moved = (case t of None \<Rightarrow> {} | Some x \<Rightarrow> ref_identity_of L ` ta_asset_ref ` (set (tr_inputs x) \<union> set (tr_outputs x))) in
      if moved \<noteq> {} then moved else ref_identity_of L ` set (address_refs addrs))"

text \<open>
  C27. \<open>NewSendEvent\<close> implements a set of assets by a list: each asset the transfer moves, or else
  each asset of the addresses, is in \<open>AssetRefs\<close> exactly once, and nothing else is.
\<close>

theorem send_event_assets:
  assumes "new_send_event L (Some e) = Inr (Some event)"
  shows "ref_set L (se_asset_refs event) = event_assets L (se_transfer event) (sd_addresses e) \<and>
    distinct (map (ref_identity_of L) (se_asset_refs event))"
proof (cases "sd_transfer e")
  case None
  with assms show ?thesis
    by (auto simp: new_send_event_def Let_def event_assets_def collect_refs(2) collect_refs(1) ref_set_def [of L "[]"])
next
  case (Some raw)
  then obtain t where t: "new_transfer L raw = Inr t" using assms by (auto simp: new_send_event_def Let_def and_then_eq_Inr)
  define refs where "refs = foldl (append_unique_asset_ref L) [] (map ta_asset_ref (tr_inputs t) @ map ta_asset_ref (tr_outputs t))"
  have event: "se_transfer event = Some t" "se_asset_refs event = (if refs \<noteq> [] then refs
      else foldl (append_unique_asset_ref L) [] (address_refs (sd_addresses e)))"
    using Some assms t by (auto simp: new_send_event_def Let_def refs_def)
  have refs: "ref_set L refs = ref_identity_of L ` ta_asset_ref ` (set (tr_inputs t) \<union> set (tr_outputs t))"
    "distinct (map (ref_identity_of L) refs)"
    unfolding refs_def collect_refs(1) by (auto simp: ref_set_def collect_refs(2) simp del: foldl_append)
  have "refs = [] \<longleftrightarrow> ref_set L refs = {}" by (simp add: ref_set_def)
  then have "refs = [] \<longleftrightarrow> ref_identity_of L ` ta_asset_ref ` (set (tr_inputs t) \<union> set (tr_outputs t)) = {}"
    by (simp only: refs(1))
  then show ?thesis
    by (cases "refs = []") (simp_all add: event event_assets_def refs collect_refs ref_set_def [of L "[]"] del: image_is_empty)
qed

definition sample_send_record :: send_event_record where
  "sample_send_record = \<lparr>sd_timestamp = 1, sd_send_state = [], sd_parcel_type = 0,
     sd_addresses = [Some ((zero_address [])\<lparr>addr_asset_ref := ''a''\<rparr>), None,
       Some ((zero_address [])\<lparr>addr_asset_ref := ''a''\<rparr>)],
     sd_virtual_packets = [], sd_passive_virtual_packets = [], sd_anchor_transaction = None, sd_transfer = None, sd_error = [], sd_transfer_label = [],
     sd_next_send_state = []\<rparr>"

theorem send_event_assets_witness:
  "\<exists>event. new_send_event sample_lib (Some sample_send_record) = Inr (Some event) \<and>
     distinct (map (ref_identity_of sample_lib) (se_asset_refs event)) \<and> ref_set sample_lib (se_asset_refs event) \<noteq> {}"
proof -
  obtain event where event: "new_send_event sample_lib (Some sample_send_record) = Inr (Some event)"
    by (simp add: new_send_event_def sample_send_record_def Let_def)
  from send_event_assets [OF this] event show ?thesis
    by (intro exI [of _ event])
      (auto simp: event_assets_def new_send_event_def sample_send_record_def address_refs_def asset_ref_is_zero_def
        List.map_filter_simps Let_def)
qed

end
