(* ===== verification/Tap_AnchorPlan.thy ===== *)
theory Tap_AnchorPlan
  imports Tap_PackageOps
begin

text \<open>
  The plan that the custom-anchor builder hands out and what is computed from it: its identifier,
  the preview of its output commitments, the summaries of the committed transaction, its funding
  and the capabilities it asks for (\<open>custom_anchor_builder.go\<close>, \<open>custom_anchor_lifecycle.go\<close>).

  A plan comes from \<open>Build\<close>, which sets the client and the request: the tests for a nil plan have
  no counterpart, and the client is an argument of its own. \<open>json.Marshal\<close> on a request is the
  parameter \<open>J\<close>. \<open>vl_create_commitments\<close> with \<open>True\<close> is \<open>CreateOutputCommitments\<close> with the
  option \<open>WithNoSTXOProofs\<close>, with \<open>False\<close> with \<open>WithSpenderLeaves\<close>.
\<close>

section \<open>Plans\<close>

record planned_output =
  ppo_logical_id :: string
  ppo_request_index :: u32
  ppo_packet_role :: packet_role
  ppo_packet_index :: u32
  ppo_virtual_output :: u32
  ppo_anchor_output :: u32
  ppo_asset_ref :: string
  ppo_issuance_id :: bytes
  ppo_asset_type :: byte
  ppo_amount :: u64
  ppo_anchor_value_sat :: u64
  ppo_script_key :: bytes
  ppo_script_mode :: script_mode
  ppo_proof_delivery :: proof_delivery
  ppo_op_true_spend :: "op_true_spend_info option"

record anchor_plan =
  apl_request :: custom_anchor_request
  apl_anchor_psbt :: bytes
  apl_active :: "bytes list"
  apl_passive :: "bytes list"
  apl_backend_signing :: "bool list"
  apl_inputs :: "input_summary list"
  apl_outputs :: "planned_output list"
  apl_verification :: verification_result

type_synonym request_json = "custom_anchor_request \<Rightarrow> bytes result"

text \<open>\<open>CustomAnchorPlannedOutputSummary\<close> has the fields of the planned output in another order.\<close>

record planned_summary =
  pls_logical_id :: string
  pls_logical_index :: u32
  pls_packet_index :: u32
  pls_packet_role :: packet_role
  pls_virtual_index :: u32
  pls_anchor_index :: u32
  pls_asset_ref :: string
  pls_issuance_id :: bytes
  pls_asset_type :: byte
  pls_amount :: u64
  pls_anchor_value_sat :: u64
  pls_script_key :: bytes
  pls_script_mode :: script_mode
  pls_proof_delivery :: proof_delivery
  pls_op_true_spend :: "op_true_spend_info option"

definition plan_outputs :: "anchor_plan \<Rightarrow> planned_summary list" where
  "plan_outputs p = map (\<lambda>out.
     \<lparr>pls_logical_id = ppo_logical_id out, pls_logical_index = ppo_request_index out,
      pls_packet_index = ppo_packet_index out, pls_packet_role = ppo_packet_role out,
      pls_virtual_index = ppo_virtual_output out, pls_anchor_index = ppo_anchor_output out,
      pls_asset_ref = ppo_asset_ref out, pls_issuance_id = ppo_issuance_id out,
      pls_asset_type = ppo_asset_type out, pls_amount = ppo_amount out,
      pls_anchor_value_sat = ppo_anchor_value_sat out, pls_script_key = ppo_script_key out,
      pls_script_mode = ppo_script_mode out, pls_proof_delivery = ppo_proof_delivery out,
      pls_op_true_spend = ppo_op_true_spend out\<rparr>) (apl_outputs p)"

section \<open>The identifier\<close>

definition plan_digest_domain :: bytes where
  "plan_digest_domain = domain_bytes ''tap-sdk/custom-anchor/plan/v1''"

definition plan_digest_bytes :: "bytes \<Rightarrow> bytes" where
  "plan_digest_bytes v = be_bytes 8 (length v) @ v"

definition plan_payload :: "bytes \<Rightarrow> anchor_plan \<Rightarrow> bytes" where
  "plan_payload request_bytes p =
     plan_digest_bytes request_bytes @ plan_digest_bytes (apl_anchor_psbt p) @
     concat (map plan_digest_bytes (apl_active p)) @ concat (map plan_digest_bytes (apl_passive p))"

definition plan_id ::
    "('k, 'g, 'f, 'y) native_lib_scheme \<Rightarrow> ('k, 's, 'z) btc_lib_scheme \<Rightarrow> request_json \<Rightarrow> anchor_plan \<Rightarrow> bytes result" where
  "plan_id N B J p =
     and_then (wrap_with (\<lambda>e. Wrapf ''invalid custom anchor plan request: '' e []) (request_validate N (Some (apl_request p)))) (\<lambda>_.
     and_then (wrap_with (\<lambda>e. Wrapf ''encode custom anchor plan request: '' e []) (J (apl_request p))) (\<lambda>request_bytes.
       Inr (anchor_digest B plan_digest_domain (plan_payload request_bytes p))))"

section \<open>Previews\<close>

record commitment_preview =
  cpv_logical_id :: string
  cpv_logical_index :: u32
  cpv_packet_index :: u32
  cpv_packet_role :: packet_role
  cpv_virtual_index :: u32
  cpv_anchor_index :: u32
  cpv_asset_root :: bytes
  cpv_merkle_root :: bytes

text \<open>The virtual output a planned output points to, as both loops over the planned outputs find it.\<close>

definition planned_voutput ::
    "('k, 'g, 'f) tap_vpacket list \<Rightarrow> ('k, 'g, 'f) tap_vpacket list \<Rightarrow> planned_output \<Rightarrow>
     ('k, 'g, 'f) tap_voutput result" where
  "planned_voutput active passive planned =
     and_then (case ppo_packet_role planned of
                 RoleActive \<Rightarrow> Inr active | RolePassive \<Rightarrow> Inr passive
               | RoleOther _ \<Rightarrow> Inl (Plain ''planned output has unknown packet role'')) (\<lambda>packets.
       if unat (ppo_packet_index planned) \<ge> length packets then Inl (Plain ''planned output packet index is out of range'')
       else (let packet = packets ! unat (ppo_packet_index planned) in
         if unat (ppo_virtual_output planned) \<ge> length (tvp_outputs packet)
         then Inl (Plain ''planned output virtual index is out of range'')
         else Inr (tvp_outputs packet ! unat (ppo_virtual_output planned))))"

definition preview_output ::
    "('k, 'g, 'f, 'c, 'x) vpacket_lib_scheme \<Rightarrow> ('k, 'g, 'f) tap_vpacket list \<Rightarrow> ('k, 'g, 'f) tap_vpacket list \<Rightarrow>
     (u32 \<Rightarrow> 'c option) \<Rightarrow> planned_output \<Rightarrow> commitment_preview result" where
  "preview_output V active passive commitments planned =
     and_then (planned_voutput active passive planned) (\<lambda>out.
     and_then (wrap_with (\<lambda>e. Wrapf ''preview output commitment roots: '' e []) (derive_output_roots V commitments out))
       (\<lambda>(asset_root, merkle_root).
         Inr \<lparr>cpv_logical_id = ppo_logical_id planned, cpv_logical_index = ppo_request_index planned,
              cpv_packet_index = ppo_packet_index planned, cpv_packet_role = ppo_packet_role planned,
              cpv_virtual_index = ppo_virtual_output planned, cpv_anchor_index = ppo_anchor_output planned,
              cpv_asset_root = asset_root, cpv_merkle_root = merkle_root\<rparr>))"

definition preview_output_commitments ::
    "('k, 'g, 'f, 'c, 'x) vpacket_lib_scheme \<Rightarrow> anchor_plan \<Rightarrow> commitment_preview list result" where
  "preview_output_commitments V p =
     (if \<not> result_valid (Some (apl_verification p)) then Inl (Plain ''custom anchor plan verification is not valid'')
      else if length (apl_active p) \<noteq> length (apl_backend_signing p)
      then Inl (Plain ''custom anchor plan signing classification is incomplete'')
      else
        and_then (decode_virtual_packets V ''preview active'' (apl_active p)) (\<lambda>active.
        and_then (decode_virtual_packets V ''preview passive'' (apl_passive p)) (\<lambda>passive.
        and_then (wrap_with (\<lambda>e. Wrapf ''preview output commitments: '' e [])
                    (vl_create_commitments V (active @ passive) False)) (\<lambda>commitments.
          fold_res (\<lambda>previews planned. and_then (preview_output V active passive commitments planned)
                      (\<lambda>preview. Inr (previews @ [preview]))) [] (apl_outputs p)))))"

section \<open>Summaries of the committed transaction\<close>

definition planned_input_for ::
    "packet_role \<Rightarrow> outpoint \<Rightarrow> bytes \<Rightarrow> bytes \<Rightarrow> u64 \<Rightarrow> input_summary list \<Rightarrow> input_summary option" where
  "planned_input_for role op issuance_id script_key amount inputs =
     find (\<lambda>c. cin_packet_role c = role \<and> cin_anchor_outpoint c = op \<and> cin_issuance_id c = issuance_id \<and>
               cin_script_key c = script_key \<and> cin_amount c = amount) inputs"

definition committed_input ::
    "('k, 'g, 'f, 'y) native_lib_scheme \<Rightarrow> ('k, 'g, 'f, 'c, 'x) vpacket_lib_scheme \<Rightarrow> input_summary list \<Rightarrow>
     psbt_packet \<Rightarrow> packet_role \<Rightarrow> nat \<Rightarrow> nat \<Rightarrow> input_summary list \<Rightarrow> ('k, 'g, 'f) tap_vinput \<Rightarrow>
     input_summary list result" where
  "committed_input N V inputs anchor role packet_idx input_idx acc vin =
     (case tvi_asset vin of
        None \<Rightarrow> Inl (Plain ''committed virtual input has no asset'')
      | Some a \<Rightarrow>
          and_then (wrap_with (\<lambda>e. Wrapf ''committed virtual input script key: '' e [])
                      (vl_to_pub_key V (pid_script_key (tvi_prev_id vin)))) (\<lambda>key.
          and_then (parse_pub_key (lib.truncate N) (serialize_compressed N key)) (\<lambda>key_bytes.
            case find_anchor_input anchor (pid_outpoint (tvi_prev_id vin)) of
              None \<Rightarrow> Inl (Plain ''committed virtual input has no anchor input'')
            | Some anchor_idx \<Rightarrow>
                (case planned_input_for role (pid_outpoint (tvi_prev_id vin)) (pid_issuance_id (tvi_prev_id vin)) key_bytes
                        (na_amount a) inputs of
                   None \<Rightarrow> Inl (Plain ''committed virtual input has no logical input'')
                 | Some planned \<Rightarrow>
                     Inr (acc @ [planned\<lparr>cin_packet_role := role, cin_packet_index := of_nat packet_idx,
                                         cin_virtual_index := of_nat input_idx,
                                         cin_anchor_index := of_nat anchor_idx\<rparr>])))))"

definition committed_collection ::
    "('k, 'g, 'f, 'y) native_lib_scheme \<Rightarrow> ('k, 'g, 'f, 'c, 'x) vpacket_lib_scheme \<Rightarrow> input_summary list \<Rightarrow>
     psbt_packet \<Rightarrow> packet_role \<Rightarrow> ('k, 'g, 'f) tap_vpacket list \<Rightarrow> input_summary list \<Rightarrow>
     input_summary list result" where
  "committed_collection N V inputs anchor role packets acc =
     fold_idx (\<lambda>i acc1 packet. fold_idx (\<lambda>j. committed_input N V inputs anchor role i j) 0 acc1 (tvp_inputs packet))
       0 acc packets"

definition committed_input_summaries ::
    "('k, 'g, 'f, 'y) native_lib_scheme \<Rightarrow> ('k, 'g, 'f, 'c, 'x) vpacket_lib_scheme \<Rightarrow> anchor_plan \<Rightarrow> psbt_packet \<Rightarrow>
     ('k, 'g, 'f) tap_vpacket list \<Rightarrow> ('k, 'g, 'f) tap_vpacket list \<Rightarrow> input_summary list result" where
  "committed_input_summaries N V p anchor active passive =
     and_then (committed_collection N V (apl_inputs p) anchor RoleActive active []) (\<lambda>acc.
       committed_collection N V (apl_inputs p) anchor RolePassive passive acc)"

definition committed_output ::
    "('k, 'g, 'f, 'y) native_lib_scheme \<Rightarrow> ('k, 'g, 'f, 'c, 'x) vpacket_lib_scheme \<Rightarrow> psbt_packet \<Rightarrow> bytes \<Rightarrow>
     (u32 \<Rightarrow> 'c option) \<Rightarrow> ('k, 'g, 'f) tap_vpacket list \<Rightarrow> ('k, 'g, 'f) tap_vpacket list \<Rightarrow>
     output_summary list \<times> proof_update list \<Rightarrow> planned_output \<Rightarrow> (output_summary list \<times> proof_update list) result" where
  "committed_output N V anchor txid commitments active passive acc planned =
     and_then (planned_voutput active passive planned) (\<lambda>out.
       case tvo_proof_suffix out of
         None \<Rightarrow> Inl (Plain ''committed output does not match its inspected mapping'')
       | Some suffix \<Rightarrow>
           (if tvo_anchor_output_index out \<noteq> ppo_anchor_output planned \<or> tvo_amount out \<noteq> ppo_amount planned
            then Inl (Plain ''committed output does not match its inspected mapping'')
            else if unat (ppo_anchor_output planned) \<ge> length (wtx_outs (ppk_tx anchor))
            then Inl (Plain ''committed output anchor index is out of range'')
            else (let op = \<lparr>op_txid = txid, op_index = ppo_anchor_output planned\<rparr>;
                      anchor_value = txo_value (wtx_outs (ppk_tx anchor) ! unat (ppo_anchor_output planned)) in
              if anchor_value < 0 \<or> of_int anchor_value \<noteq> ppo_anchor_value_sat planned
              then Inl (Plain ''committed output anchor value changed'')
              else
                and_then (wrap_with (\<lambda>e. Wrapf ''derive output commitment roots: '' e [])
                            (derive_output_roots V commitments out)) (\<lambda>(asset_root, merkle_root).
                and_then (wrap_with (\<lambda>e. Wrapf ''encode output proof suffix: '' e []) (nl_proof_bytes N suffix)) (\<lambda>proof_blob.
                  Inr (fst acc @
                         [\<lparr>cou_logical_id = ppo_logical_id planned, cou_logical_index = ppo_request_index planned,
                           cou_packet_index = ppo_packet_index planned, cou_packet_role = ppo_packet_role planned,
                           cou_virtual_index = ppo_virtual_output planned, cou_anchor_index = ppo_anchor_output planned,
                           cou_asset_ref = ppo_asset_ref planned, cou_issuance_id = ppo_issuance_id planned,
                           cou_asset_type = ppo_asset_type planned, cou_anchor_outpoint = op,
                           cou_anchor_value_sat = anchor_value, cou_asset_root = asset_root,
                           cou_merkle_root = merkle_root, cou_script_key = ppo_script_key planned,
                           cou_amount = ppo_amount planned, cou_script_mode = ppo_script_mode planned,
                           cou_proof_delivery = ppo_proof_delivery planned,
                           cou_op_true_spend = ppo_op_true_spend planned\<rparr>],
                       snd acc @
                         [\<lparr>cpu_logical_id = ppo_logical_id planned, cpu_logical_index = ppo_request_index planned,
                           cpu_packet_index = ppo_packet_index planned, cpu_packet_role = ppo_packet_role planned,
                           cpu_virtual_index = ppo_virtual_output planned, cpu_anchor_index = ppo_anchor_output planned,
                           cpu_asset_ref = ppo_asset_ref planned, cpu_issuance_id = ppo_issuance_id planned,
                           cpu_script_key = ppo_script_key planned, cpu_anchor_outpoint = op,
                           cpu_proof_blob = proof_blob, cpu_proof_delivery = ppo_proof_delivery planned\<rparr>]))))))"

definition committed_output_summaries ::
    "('k, 'g, 'f, 'y) native_lib_scheme \<Rightarrow> ('k, 's, 'z) btc_lib_scheme \<Rightarrow> ('k, 'g, 'f, 'c, 'x) vpacket_lib_scheme \<Rightarrow>
     anchor_plan \<Rightarrow> psbt_packet \<Rightarrow> ('k, 'g, 'f) tap_vpacket list \<Rightarrow> ('k, 'g, 'f) tap_vpacket list \<Rightarrow>
     (output_summary list \<times> proof_update list) result" where
  "committed_output_summaries N B V p anchor active passive =
     and_then (wrap_with (\<lambda>e. Wrapf ''derive committed output roots: '' e [])
                 (vl_create_commitments V (active @ passive) True)) (\<lambda>commitments.
       fold_res (committed_output N V anchor (bl_tx_hash B (ppk_tx anchor)) commitments active passive) ([], [])
         (apl_outputs p))"

section \<open>Funding and capabilities\<close>

definition funding_lock_metadata :: "funding_plan \<Rightarrow> funding_lock" where
  "funding_lock_metadata f =
     (case (fp_mode f, fp_wallet_funded f) of
        (FundingWalletFunded, Some w) \<Rightarrow>
          \<lparr>flk_custom_lock_id = wf_custom_lock_id w, flk_expiration_seconds = wf_lock_expiration_seconds w\<rparr>
      | _ \<Rightarrow> \<lparr>flk_custom_lock_id = [], flk_expiration_seconds = 0\<rparr>)"

definition anchor_funding_summary :: "funding_plan \<Rightarrow> u64 \<Rightarrow> funding_summary" where
  "anchor_funding_summary f actual_fee =
     \<lparr>fsm_mode = fp_mode f, fsm_p2a_output_index = fp_external_p2a f, fsm_actual_fee_sat = actual_fee,
      fsm_max_fee_sat = (case fp_wallet_funded f of None \<Rightarrow> 0 | Some w \<Rightarrow> wf_max_fee_sat w)\<rparr>"

definition skip_funding_plan :: anchor_funding_plan where
  "skip_funding_plan =
     \<lparr>afp_change_output = \<lparr>aco_mode = AnchorChangeOutputUnspecified, aco_existing_output_index = 0\<rparr>,
      afp_fee = \<lparr>af_mode = AnchorFeeUnspecified, af_fee_rate = \<lparr>sat_per_kvbyte = 0\<rparr>, af_target_conf = 0\<rparr>,
      afp_custom_lock_id = [], afp_lock_expiration_seconds = 0, afp_skip_funding = True\<rparr>"

definition low_level_funding :: "funding_plan \<Rightarrow> anchor_funding_plan result" where
  "low_level_funding f =
     (case fp_mode f of
        FundingWalletFunded \<Rightarrow>
          (case fp_wallet_funded f of
             None \<Rightarrow> Inl (Plain ''nil pointer dereference'')
           | Some w \<Rightarrow> Inr \<lparr>afp_change_output = wf_change_output w, afp_fee = wf_fee w,
                            afp_custom_lock_id = wf_custom_lock_id w,
                            afp_lock_expiration_seconds = wf_lock_expiration_seconds w, afp_skip_funding = False\<rparr>)
      | FundingCallerFundedExact \<Rightarrow> Inr skip_funding_plan
      | FundingExternalP2AFeeBump \<Rightarrow> Inr skip_funding_plan
      | _ \<Rightarrow> Inl (Plain ''unknown custom anchor funding mode''))"

text \<open>\<open>customAnchorCommitOutcomeUnknown\<close> and \<open>customAnchorPublishOutcomeUnknown\<close> are the same function of a non-nil error.\<close>

definition outcome_unknown :: "'k lib \<Rightarrow> go_error \<Rightarrow> bool" where
  "outcome_unknown L err =
     (if errors_is err ContextCanceled \<or> errors_is err ContextDeadlineExceeded then True
      else case status_from_error L err of
        None \<Rightarrow> True
      | Some (code, _) \<Rightarrow>
          code \<notin> {InvalidArgument, FailedPrecondition, PermissionDenied, Unauthenticated, NotFound, Unimplemented})"

definition require_capability :: "client \<Rightarrow> capability \<Rightarrow> unit io" where
  "require_capability c k =
     (case c_capability_provider c of
        None \<Rightarrow> lift_io (require_capabilities no_capabilities [k])
      | Some provider \<Rightarrow>
          bind_io (try_io (call_io CustomAnchorCapabilitiesCall provider)) (\<lambda>r.
            case r of
              Inl e \<Rightarrow> lift_io (Inl (Wrapf ''load custom anchor capabilities: '' e []))
            | Inr caps \<Rightarrow> lift_io (require_capabilities (case caps of None \<Rightarrow> no_capabilities | Some x \<Rightarrow> x) [k])))"

definition commit_capabilities :: "funding_plan \<Rightarrow> publish_metadata \<Rightarrow> capability list result" where
  "commit_capabilities f publish =
     and_then
       (if fp_mode f = FundingWalletFunded
        then case fp_wallet_funded f of
          None \<Rightarrow> Inl (Plain ''nil pointer dereference'')
        | Some w \<Rightarrow> Inr (CapWalletFunding # (if aco_mode (wf_change_output w) = AnchorChangeOutputNoNew then [CapNoChangeOutput] else []))
        else Inr [CapSkipFunding]) (\<lambda>funding.
       Inr ([CapCommit, CapCallerAnchorPSBT] @ funding @
            (if pmd_skip_anchor_tx_broadcast publish then [CapSkipBroadcast] else [])))"

definition require_commit_capabilities :: "client \<Rightarrow> funding_plan \<Rightarrow> publish_metadata \<Rightarrow> unit io" where
  "require_commit_capabilities c f publish =
     bind_io (lift_io (commit_capabilities f publish)) (\<lambda>required. for_io (\<lambda>_. require_capability c) () required)"

end
