(* ===== verification/Tap_AnchorLifecycle.thy ===== *)
theory Tap_AnchorLifecycle
  imports Tap_AnchorPlan
begin

text \<open>
  Committing a plan and publishing the committed transfer (\<open>custom_anchor_lifecycle.go\<close>): the calls
  to the daemon in their order, the checks of what it answers, and the errors that say whether the
  daemon may hold locks or may have broadcast.

  The typed errors are a datatype of their own. A wallet without a client and a nil package have
  no counterpart.
\<close>

section \<open>Errors\<close>

datatype lifecycle_error =
    LocalError go_error
  | CommitAttemptError go_error funding_lock bool
  | CommitResponseError go_error "outpoint list"
  | PublishAttemptError go_error bool

type_synonym 'a attempt = "call list \<Rightarrow> (lifecycle_error + 'a) \<times> call list"

definition local_io :: "'a io \<Rightarrow> 'a attempt" where
  "local_io m = (\<lambda>h. case m h of (Inl e, h') \<Rightarrow> (Inl (LocalError e), h') | (Inr x, h') \<Rightarrow> (Inr x, h'))"

definition local_result :: "'a result \<Rightarrow> 'a attempt" where
  "local_result r = local_io (lift_io r)"

definition bind_attempt :: "'a attempt \<Rightarrow> ('a \<Rightarrow> 'b attempt) \<Rightarrow> 'b attempt" where
  "bind_attempt m f = (\<lambda>h. case m h of (Inl e, h') \<Rightarrow> (Inl e, h') | (Inr x, h') \<Rightarrow> f x h')"

text \<open>The deferred function of \<open>Commit\<close>: from the response on, every error carries the locks.\<close>

definition with_locks :: "outpoint list \<Rightarrow> 'a result \<Rightarrow> 'a attempt" where
  "with_locks locked r = (\<lambda>h. case r of Inl e \<Rightarrow> (Inl (CommitResponseError e locked), h) | Inr x \<Rightarrow> (Inr x, h))"

definition unsupported_client :: go_error where
  "unsupported_client = unsupported_capability"

section \<open>Commit\<close>

definition bind_publish_policy :: "funding_plan \<Rightarrow> publish_metadata \<Rightarrow> publish_metadata" where
  "bind_publish_policy f publish =
     (if fp_mode f = FundingExternalP2AFeeBump
      then publish\<lparr>pmd_skip_anchor_tx_broadcast := True, pmd_external_broadcast := True\<rparr> else publish)"

definition no_publish_metadata :: publish_metadata where
  "no_publish_metadata = \<lparr>pmd_skip_anchor_tx_broadcast = False, pmd_label = [], pmd_external_broadcast = False\<rparr>"

text \<open>The loop that signs the packets of the backend; its state is the list of packets sent on.\<close>

definition sign_active_packet ::
    "('k, 'g, 'f, 'c, 'x) vpacket_lib_scheme \<Rightarrow> client \<Rightarrow> bytes list \<Rightarrow> bytes \<times> bool \<Rightarrow> bytes list io" where
  "sign_active_packet V c acc packet =
     (if \<not> snd packet then return_io (acc @ [fst packet])
      else
        bind_io (try_io (call_io (SignVirtualPsbt (fst packet)) (\<lambda>h. c_sign_virtual_psbt c h (fst packet)))) (\<lambda>r.
          case r of
            Inl e \<Rightarrow> lift_io (Inl (Wrapf ''sign virtual packet: '' e []))
          | Inr signed_packet \<Rightarrow>
              bind_io (lift_io (wrap_with (\<lambda>e. Wrapf ''verify signed virtual packet: '' e [])
                (verify_backend_signed V (fst packet) signed_packet))) (\<lambda>_. return_io (acc @ [signed_packet]))))"

definition sign_active_packets ::
    "('k, 'g, 'f, 'c, 'x) vpacket_lib_scheme \<Rightarrow> client \<Rightarrow> anchor_plan \<Rightarrow> bytes list io" where
  "sign_active_packets V c p =
     (if length (apl_active p) \<noteq> length (apl_backend_signing p)
      then lift_io (Inl (Plain ''custom anchor plan signing classification is incomplete''))
      else for_io (sign_active_packet V c) [] (zip (apl_active p) (apl_backend_signing p)))"

definition plan_commit_request :: "anchor_plan \<Rightarrow> bytes list \<Rightarrow> anchor_funding_plan \<Rightarrow> commit_virtual_psbts_request" where
  "plan_commit_request p active funding =
     \<lparr>cv_anchor_psbt = apl_anchor_psbt p, cv_virtual_psbts = active,
      cv_passive_asset_psbts = apl_passive p, cv_funding = funding\<rparr>"

text \<open>The checks of the anchor transaction in a response: the decoded PSBT, the inputs the backend added, the fee.\<close>

definition check_committed_anchor ::
    "('k, 's, 'z) btc_lib_scheme \<Rightarrow> anchor_plan \<Rightarrow> commit_virtual_psbts_response \<Rightarrow>
     (psbt_packet \<times> u32 list \<times> u64) result" where
  "check_committed_anchor B p response =
     and_then (decode_anchor_psbt B (apl_anchor_psbt p)) (\<lambda>pre_commit.
     and_then (wrap_with (\<lambda>e. Wrapf ''decode committed anchor PSBT: '' e [])
                 (decode_anchor_psbt B (cr_anchor_psbt response))) (\<lambda>committed.
     and_then (verify_committed_shape B (apl_request p) pre_commit committed (cr_change_output_index response)) (\<lambda>_.
     and_then (wrap_with (\<lambda>e. Wrapf ''validate committed anchor inputs: '' e []) (validate_txid_stable_inputs B committed)) (\<lambda>_.
     and_then (wrap_with (\<lambda>e. Wrapf ''validate committed anchor transaction: '' e [])
                 (validate_bitcoin_transaction B committed True)) (\<lambda>_.
     and_then (wrap_with (\<lambda>e. Wrapf ''calculate committed anchor fee: '' e []) (transaction_fee B committed)) (\<lambda>actual_fee.
     and_then
       (if fp_mode (rq_funding (apl_request p)) = FundingWalletFunded
        then case fp_wallet_funded (rq_funding (apl_request p)) of
          None \<Rightarrow> Inl (Plain ''nil pointer dereference'')
        | Some w \<Rightarrow> (if actual_fee > wf_max_fee_sat w then Inl (Plain ''committed anchor fee exceeds maximum'') else Inr ())
        else Inr ()) (\<lambda>_.
     let backend_managed = added_input_indices pre_commit committed in
     and_then (validate_lock_inventory (fp_mode (rq_funding (apl_request p))) committed backend_managed
                 (cr_locked_utxos response)) (\<lambda>_.
       Inr (committed, backend_managed, actual_fee)))))))))"

text \<open>The checks of the virtual packets in a response, against those that were sent.\<close>

definition check_committed_packets ::
    "('k, 'g, 'f, 'y) native_lib_scheme \<Rightarrow> ('k, 'g, 'f, 'c, 'x) vpacket_lib_scheme \<Rightarrow> anchor_plan \<Rightarrow> bytes list \<Rightarrow>
     commit_virtual_psbts_response \<Rightarrow> psbt_packet \<Rightarrow> (('k, 'g, 'f) tap_vpacket list \<times> ('k, 'g, 'f) tap_vpacket list) result" where
  "check_committed_packets N V p active response committed =
     and_then (decode_virtual_packets V ''committed active'' (cr_virtual_psbts response)) (\<lambda>active_packets.
     and_then (decode_virtual_packets V ''committed passive'' (cr_passive_asset_psbts response)) (\<lambda>passive_packets.
     and_then (decode_virtual_packets V ''submitted active'' active) (\<lambda>expected_active.
     and_then (decode_virtual_packets V ''submitted passive'' (apl_passive p)) (\<lambda>expected_passive.
     and_then (wrap_with (\<lambda>e. Wrapf ''derive expected committed virtual packets: '' e [])
                 (vl_create_commitments V (expected_active @ expected_passive) False)) (\<lambda>commitments.
     and_then (verify_committed_vpackets N V expected_active active_packets) (\<lambda>_.
     and_then (verify_committed_vpackets N V expected_passive passive_packets) (\<lambda>_.
     let all_packets = active_packets @ passive_packets in
     and_then (verify_committed_suffixes N V committed (expected_active @ expected_passive) all_packets commitments) (\<lambda>_.
     and_then (wrap_with (\<lambda>e. Wrapf ''verify committed anchor inputs: '' e [])
                 (vl_validate_anchor_inputs V committed all_packets)) (\<lambda>_.
     and_then (wrap_with (\<lambda>e. Wrapf ''verify committed anchor outputs: '' e [])
                 (vl_validate_anchor_outputs V committed all_packets False)) (\<lambda>_.
       Inr (active_packets, passive_packets)))))))))))"

text \<open>The package of a checked response; \<open>Seal\<close> sets the version, the digests and the committed PSBT.\<close>

definition committed_package ::
    "('k, 'g, 'f, 'y) native_lib_scheme \<Rightarrow> ('k, 's, 'z) package_lib_scheme \<Rightarrow> ('k, 'g, 'f, 'c, 'x) vpacket_lib_scheme \<Rightarrow> request_json \<Rightarrow>
     anchor_plan \<Rightarrow> publish_metadata \<Rightarrow> bytes list \<Rightarrow> commit_virtual_psbts_response \<Rightarrow> transfer_package result" where
  "committed_package N B V J p publish active response =
     (if length (cr_virtual_psbts response) \<noteq> length active \<or>
         length (cr_passive_asset_psbts response) \<noteq> length (apl_passive p)
      then Inl (Plain ''commit custom anchor changed virtual packet counts'')
      else
        and_then (check_committed_anchor B p response) (\<lambda>(committed, backend_managed, actual_fee).
        and_then (check_committed_packets N V p active response committed) (\<lambda>(active_packets, passive_packets).
        and_then (plan_id N B J p) (\<lambda>pid.
        and_then (committed_input_summaries N V p committed active_packets passive_packets) (\<lambda>inputs.
        and_then (committed_output_summaries N B V p committed active_packets passive_packets) (\<lambda>(outputs, updates).
          Inr \<lparr>tpk_schema_version = 0, tpk_plan_id = pid, tpk_committed_digest = zero_hash,
               tpk_unsigned_digest = zero_hash, tpk_package_digest = zero_hash, tpk_committed_psbt = [],
               tpk_anchor_psbt = cr_anchor_psbt response, tpk_active = cr_virtual_psbts response,
               tpk_passive = cr_passive_asset_psbts response,
               tpk_change_output_index = cr_change_output_index response, tpk_locked = cr_locked_utxos response,
               tpk_funding_lock = funding_lock_metadata (rq_funding (apl_request p)),
               tpk_funding = anchor_funding_summary (rq_funding (apl_request p)) actual_fee,
               tpk_inputs = inputs, tpk_outputs = outputs, tpk_updates = updates,
               tpk_signing_plans = rq_signing_plans (apl_request p), tpk_backend_managed = backend_managed,
               tpk_publish = publish\<rparr>))))))"

definition accept_response ::
    "('k, 'g, 'f, 'y) native_lib_scheme \<Rightarrow> ('k, 's, 'z) package_lib_scheme \<Rightarrow> ('k, 'g, 'f, 'c, 'x) vpacket_lib_scheme \<Rightarrow> request_json \<Rightarrow>
     anchor_plan \<Rightarrow> publish_metadata \<Rightarrow> bytes list \<Rightarrow> commit_virtual_psbts_response \<Rightarrow> transfer_package result" where
  "accept_response N B V J p publish active response =
     and_then (committed_package N B V J p publish active response) (\<lambda>package_snapshot.
       wrap_with (\<lambda>e. Wrapf ''seal committed custom anchor package: '' e []) (seal N B V package_snapshot))"

definition send_commit ::
    "'k lib \<Rightarrow> funding_plan \<Rightarrow> (call list \<Rightarrow> commit_virtual_psbts_request \<Rightarrow> commit_virtual_psbts_response option result) \<Rightarrow>
     commit_virtual_psbts_request \<Rightarrow> commit_virtual_psbts_response attempt" where
  "send_commit L f commit r =
     (\<lambda>h. case call_io (CommitVirtualPsbtsWithRequest r) (\<lambda>h. commit h r) h of
        (Inl e, h') \<Rightarrow>
          (Inl (CommitAttemptError (Wrapf ''commit custom anchor virtual packets: '' e []) (funding_lock_metadata f)
                  (outcome_unknown L e)), h')
      | (Inr None, h') \<Rightarrow>
          (Inl (CommitAttemptError (Plain ''commit custom anchor returned no response'') (funding_lock_metadata f) True), h')
      | (Inr (Some response), h') \<Rightarrow> (Inr response, h'))"

definition commit_plan ::
    "('k, 'g, 'f, 'y) native_lib_scheme \<Rightarrow> ('k, 's, 'z) package_lib_scheme \<Rightarrow> ('k, 'g, 'f, 'c, 'x) vpacket_lib_scheme \<Rightarrow> request_json \<Rightarrow>
     client \<Rightarrow> anchor_plan \<Rightarrow> publish_metadata list \<Rightarrow> transfer_package attempt" where
  "commit_plan N B V J c p options =
     (if length options > 1
      then local_result (Inl (Plain ''at most one custom anchor commit option is allowed''))
      else
        (let funding = rq_funding (apl_request p);
             publish = bind_publish_policy funding (case options of [] \<Rightarrow> no_publish_metadata | o1 # _ \<Rightarrow> o1) in
         if \<not> result_valid (Some (apl_verification p))
         then local_result (Inl (Plain ''custom anchor plan verification is not valid''))
         else case c_custom_anchor c of
           None \<Rightarrow> local_result (Inl unsupported_client)
         | Some (commit, _) \<Rightarrow>
             bind_attempt (local_io (require_commit_capabilities c funding publish)) (\<lambda>_.
             bind_attempt (local_io (sign_active_packets V c p)) (\<lambda>active.
             bind_attempt (local_result (low_level_funding funding)) (\<lambda>low_level.
             bind_attempt (send_commit (lib.truncate N) funding commit (plan_commit_request p active low_level)) (\<lambda>response.
               with_locks (cr_locked_utxos response) (accept_response N B V J p publish active response)))))))"

section \<open>Publish\<close>

definition publish_request :: "transfer_package \<Rightarrow> bytes \<Rightarrow> publish_and_log_transfer_request" where
  "publish_request p final_psbt =
     \<lparr>pl_anchor_psbt = final_psbt, pl_virtual_psbts = tpk_active p, pl_passive_asset_psbts = tpk_passive p,
      pl_change_output_index = tpk_change_output_index p, pl_locked_utxos = tpk_locked p,
      pl_skip_anchor_tx_broadcast = pmd_skip_anchor_tx_broadcast (tpk_publish p), pl_label = pmd_label (tpk_publish p)\<rparr>"

text \<open>The checks before anything is sent: the finalised PSBT and its decoded packet.\<close>

definition prepare_publish ::
    "('k, 'g, 'f, 'y) native_lib_scheme \<Rightarrow> ('k, 's, 'z) package_lib_scheme \<Rightarrow> ('k, 'g, 'f, 'c, 'x) vpacket_lib_scheme \<Rightarrow>
     transfer_package \<Rightarrow> bytes \<Rightarrow> (bytes \<times> psbt_packet) result" where
  "prepare_publish N B V p final_bytes =
     and_then (wrap_with (\<lambda>e. Wrapf ''validate custom anchor package: '' e []) (validate_package N B V p)) (\<lambda>_.
     and_then (reject_unconfirmed_paths N p) (\<lambda>_.
       if final_bytes = [] then Inl (Plain ''final anchor PSBT is required'')
       else
         and_then (wrap_with (\<lambda>e. Wrapf ''verify final anchor PSBT: '' e []) (with_final_anchor_psbt N B V p final_bytes)) (\<lambda>finalized.
         and_then (wrap_with (\<lambda>e. Wrapf ''decode finalized anchor PSBT: '' e [])
                     (decode_anchor_psbt B (tpk_anchor_psbt finalized))) (\<lambda>final_anchor.
         and_then (wrap_with (\<lambda>e. Wrapf ''validate final anchor transaction: '' e [])
                     (validate_bitcoin_transaction B final_anchor True)) (\<lambda>_.
         and_then (decode_virtual_packets V ''active'' (tpk_active p)) (\<lambda>active.
         and_then (decode_virtual_packets V ''passive'' (tpk_passive p)) (\<lambda>passive.
         and_then (wrap_with (\<lambda>e. Wrapf ''verify final anchor inputs: '' e [])
                     (vl_validate_anchor_inputs V final_anchor (active @ passive))) (\<lambda>_.
         and_then (wrap_with (\<lambda>e. Wrapf ''verify final anchor outputs: '' e [])
                     (vl_validate_anchor_outputs V final_anchor (active @ passive) False)) (\<lambda>_.
           Inr (tpk_anchor_psbt finalized, final_anchor))))))))))"

definition send_publish ::
    "'k lib \<Rightarrow> (call list \<Rightarrow> publish_and_log_transfer_request \<Rightarrow> asset_packet option result) \<Rightarrow>
     publish_and_log_transfer_request \<Rightarrow> asset_packet attempt" where
  "send_publish L publish r =
     (\<lambda>h. case call_io (PublishAndLogTransferWithRequest r) (\<lambda>h. publish h r) h of
        (Inl e, h') \<Rightarrow>
          (Inl (PublishAttemptError (Wrapf ''publish custom anchor transfer: '' e []) (outcome_unknown L e)), h')
      | (Inr None, h') \<Rightarrow>
          (Inl (PublishAttemptError (Plain ''publish custom anchor returned no usable response'') True), h')
      | (Inr (Some result), h') \<Rightarrow>
          (if ap_anchor_transaction result = []
           then (Inl (PublishAttemptError (Plain ''publish custom anchor returned no usable response'') True), h')
           else (Inr result, h')))"

definition accept_published ::
    "('k, 's, 'z) btc_lib_scheme \<Rightarrow> transfer_package \<Rightarrow> psbt_packet \<Rightarrow> asset_packet \<Rightarrow> asset_packet attempt" where
  "accept_published B p final_anchor result =
     bind_attempt (local_result (wrap_with (\<lambda>e. Wrapf ''extract final anchor transaction: '' e []) (bl_extract B final_anchor))) (\<lambda>final_tx.
     bind_attempt (local_result (wrap_with (\<lambda>e. Wrapf ''serialize final anchor transaction: '' e [])
                     (bl_serialize_tx B final_tx))) (\<lambda>expected.
       \<lambda>h. if ap_anchor_transaction result \<noteq> expected \<or> ap_virtual_transactions result \<noteq> tpk_active p \<or>
             ap_passive_asset_transactions result \<noteq> tpk_passive p
         then (Inl (PublishAttemptError (Plain ''publish custom anchor response does not match the finalized transfer'') True), h)
         else (Inr result, h)))"

definition publish_transfer ::
    "('k, 'g, 'f, 'y) native_lib_scheme \<Rightarrow> ('k, 's, 'z) package_lib_scheme \<Rightarrow> ('k, 'g, 'f, 'c, 'x) vpacket_lib_scheme \<Rightarrow>
     client \<Rightarrow> transfer_package \<Rightarrow> bytes \<Rightarrow> asset_packet attempt" where
  "publish_transfer N B V c p final_bytes =
     bind_attempt (local_result (prepare_publish N B V p final_bytes)) (\<lambda>(final_psbt, final_anchor).
     bind_attempt (local_io (if pmd_skip_anchor_tx_broadcast (tpk_publish p) then require_capability c CapSkipBroadcast
                             else return_io ())) (\<lambda>_.
       case c_custom_anchor c of
         None \<Rightarrow> local_result (Inl unsupported_client)
       | Some (_, publish) \<Rightarrow>
           bind_attempt (send_publish (lib.truncate N) publish (publish_request p final_psbt)) (\<lambda>result.
             accept_published B p final_anchor result)))"

end
