(* ===== verification/Tap_PlanDemo.thy ===== *)
theory Tap_PlanDemo
  imports Tap_AnchorLifecycle Tap_Demo
begin

text \<open>
  A plan whose commitment is the package of \<open>Tap_Demo\<close>, and a daemon that signs and commits it.
\<close>

definition demo_anchor_request :: custom_anchor_request where
  "demo_anchor_request = \<lparr>
     rq_inputs = [\<lparr>xi_id = ''in'', xi_asset_ref = ''ref'', xi_amount = 5, xi_proof_file = [1], xi_proof_path = None,
       xi_witness = \<lparr>wp_mode = WitnessBackendSigner, wp_stack = []\<rparr>\<rparr>],
     rq_outputs = [\<lparr>xo_id = ''out'', xo_asset_ref = ''ref'', xo_amount = 5, xo_anchor_output_index = 0,
       xo_anchor_value_sat = 1500,
       xo_script = \<lparr>sl_mode = ScriptWallet, sl_wallet = Some None, sl_external = None, sl_op_true = None, sl_burn = None\<rparr>,
       xo_anchor = \<lparr>aop_internal_key = \<lparr>ik_pub_key = key33, ik_locator = \<lparr>kl_family = 0, kl_index = 0\<rparr>\<rparr>,
         aop_tapscript = \<lparr>tp_tap_leaves = [], tp_serialized_sibling = []\<rparr>\<rparr>,
       xo_proof_delivery = demo_delivery, xo_absolute_timelock = 0, xo_relative_timelock = 0\<rparr>],
     rq_anchor_psbt = [1],
     rq_funding = \<lparr>fp_mode = FundingCallerFundedExact, fp_wallet_funded = None, fp_caller_funded_exact = Some (),
       fp_external_p2a = None\<rparr>,
     rq_passive_assets = \<lparr>pa_policy = PassiveReject, pa_packets = []\<rparr>,
     rq_loss_policy = \<lparr>lp_mode = LossReject, lp_allowances = [], lp_confirm_irreversible_loss = False\<rparr>,
     rq_signing_plans = [demo_key_plan, demo_script_plan]\<rparr>"

definition demo_planned :: planned_output where
  "demo_planned = \<lparr>ppo_logical_id = ''out'', ppo_request_index = 0, ppo_packet_role = RoleActive, ppo_packet_index = 0,
     ppo_virtual_output = 0, ppo_anchor_output = 0, ppo_asset_ref = ''ref'', ppo_issuance_id = id7, ppo_asset_type = 0,
     ppo_amount = 5, ppo_anchor_value_sat = 1500, ppo_script_key = key33, ppo_script_mode = ScriptWallet,
     ppo_proof_delivery = demo_delivery, ppo_op_true_spend = None\<rparr>"

definition demo_check :: verification_check where
  "demo_check = \<lparr>vc_code = ''request_valid'', vc_scope = ''request'', vc_origin = OriginLocal, vc_passed = True,
     vc_input_index = None, vc_output_index = None, vc_output_id = [], vc_message = ''ok''\<rparr>"

definition demo_plan :: anchor_plan where
  "demo_plan = \<lparr>apl_request = demo_anchor_request, apl_anchor_psbt = [1], apl_active = [[1]], apl_passive = [],
     apl_backend_signing = [True], apl_inputs = [demo_input_summary], apl_outputs = [demo_planned],
     apl_verification = \<lparr>vr_checks = [demo_check], vr_issues = []\<rparr>\<rparr>"

definition demo_response :: commit_virtual_psbts_response where
  "demo_response = \<lparr>cr_anchor_psbt = [1], cr_virtual_psbts = [[1]], cr_passive_asset_psbts = [],
     cr_change_output_index = -1, cr_locked_utxos = []\<rparr>"

definition demo_client :: client where
  "demo_client = offline_client\<lparr>c_sign_virtual_psbt := \<lambda>_ _. Inr [1],
     c_custom_anchor := Some (\<lambda>_ _. Inr (Some demo_response), \<lambda>_ _. Inl offline),
     c_capability_provider := Some (\<lambda>_. Inr (Some default_tapd_capabilities))\<rparr>"

definition demo_json :: request_json where
  "demo_json = (\<lambda>_. Inr [])"

lemma demo_plan_fields [simp]:
  "apl_request demo_plan = demo_anchor_request" "apl_anchor_psbt demo_plan = [1]" "apl_active demo_plan = [[1]]"
  "apl_passive demo_plan = []" "apl_backend_signing demo_plan = [True]" "apl_inputs demo_plan = [demo_input_summary]"
  "apl_outputs demo_plan = [demo_planned]"
  by (simp_all add: demo_plan_def)

lemma demo_client_fields [simp]:
  "c_sign_virtual_psbt demo_client h q = Inr [1]"
  "c_custom_anchor demo_client = Some (\<lambda>_ _. Inr (Some demo_response), \<lambda>_ _. Inl offline)"
  "c_capability_provider demo_client = Some (\<lambda>_. Inr (Some default_tapd_capabilities))"
  by (simp_all add: demo_client_def)

lemma demo_response_fields [simp]:
  "cr_anchor_psbt demo_response = [1]" "cr_virtual_psbts demo_response = [[1]]" "cr_passive_asset_psbts demo_response = []"
  "cr_change_output_index demo_response = -1" "cr_locked_utxos demo_response = []"
  by (simp_all add: demo_response_def)

lemma demo_request_ok [simp]: "request_validate demo_native (Some demo_anchor_request) = Inr ()"
  by (simp add: request_validate_def demo_anchor_request_def funding_plan_validate_def count_variants_def
    passive_assets_validate_def loss_policy_validate_def check_input_def input_validate_def witness_plan_validate_def
    check_output_def output_validate_def script_plan_validate_def anchor_output_plan_validate_def validate_anchor_pub_key_def
    parse_pub_key_def tapscript_plan_validate_def validate_amounts_def add_input_def add_output_def anchor_totals_def
    check_balance_def check_loss_def checked_add_def add64_def)

lemma demo_funding_plan [simp]: "fp_mode (rq_funding demo_anchor_request) = FundingCallerFundedExact"
  "fp_wallet_funded (rq_funding demo_anchor_request) = None" "fp_external_p2a (rq_funding demo_anchor_request) = None"
  by (simp_all add: demo_anchor_request_def)

lemma demo_plan_valid [simp]: "result_valid (Some (apl_verification demo_plan))"
  by (simp add: result_valid_def result_validate_def demo_plan_def demo_check_def check_validate_def scope_valid_def
    verification_scopes_def origin_valid_def)

lemma demo_plan_id [simp]: "plan_id demo_native demo_btc demo_json demo_plan = Inr id7"
  by (simp add: plan_id_def demo_json_def anchor_digest_def plan_digest_domain_def demo_sha_def domain_bytes_def)

lemma demo_transition_equal [simp]: "transition_proofs_equal demo_native demo_vlib (Some demo_proof) (Some demo_proof) = Inr True"
  "transition_proofs_equal demo_native demo_vlib None None = Inr True"
  by (simp_all add: transition_proofs_equal_def alt_leaves_equal_def demo_proof_def)

lemma demo_encode [simp]: "vl_encode demo_vlib q = Inr [1]"
  by (simp add: demo_vlib_def)

lemma demo_signed [simp]: "verify_backend_signed demo_vlib [1] [1] = Inr ()"
  by (simp add: verify_backend_signed_def)

lemma demo_vpackets [simp]: "verify_committed_vpackets demo_native demo_vlib [demo_vpacket] [demo_vpacket] = Inr ()"
  "verify_committed_vpackets demo_native demo_vlib [] [] = Inr ()"
  by (simp_all add: verify_committed_vpackets_def committed_vpacket_ok_def committed_voutput_ok_def alt_leaves_equal_def
    committed_vinput_ok_def demo_vpacket_def)

lemma demo_suffixes [simp]: "verify_committed_suffixes demo_native demo_vlib packet [demo_vpacket] [demo_vpacket] cs = Inr ()"
  by (simp add: verify_committed_suffixes_def proof_suffix_ok_def demo_vpacket_def)

lemma demo_packets_ok: "check_committed_packets demo_native demo_vlib demo_plan [[1]] demo_response packet = Inr ([demo_vpacket], [])"
  by (simp add: check_committed_packets_def)

lemma plan_demo_shape [simp]: "verify_committed_shape demo_btc demo_anchor_request (demo_psbt [] [] []) (demo_psbt [] [] []) (-1) = Inr ()"
  by (simp add: verify_committed_shape_def committed_inputs_ok_def committed_change_ok_def committed_output_ok_def
    input_metadata_compatible_def output_metadata_equal_def demo_tx_def demo_anchor_request_def list_all_iff)

lemma plan_demo_stable [simp]: "validate_txid_stable_inputs demo_btc (demo_psbt [] [] []) = Inr ()"
  by (simp add: validate_txid_stable_inputs_def demo_prevs_def demo_tx_def)

lemma demo_anchor_ok: "check_committed_anchor demo_btc demo_plan demo_response = Inr (demo_psbt [] [] [], [], 500)"
  by (simp add: check_committed_anchor_def validate_lock_inventory_def added_input_indices_def)

lemma demo_committed_inputs: "committed_input_summaries demo_native demo_vlib demo_plan (demo_psbt [] [] []) [demo_vpacket] [] =
   Inr [demo_input_summary]"
  by (simp add: committed_input_summaries_def committed_collection_def committed_input_def demo_vpacket_def
    demo_prev_id_def find_anchor_input_def demo_tx_def planned_input_for_def demo_input_summary_def parse_pub_key_def upt_rec)

lemma demo_committed_outputs: "committed_output_summaries demo_native demo_btc demo_vlib demo_plan (demo_psbt [] [] []) [demo_vpacket] [] =
   Inr ([demo_output_summary], [demo_update])"
  by (simp add: committed_output_summaries_def committed_output_def planned_voutput_def demo_planned_def demo_vpacket_def
    demo_tx_def derive_output_roots_def demo_output_summary_def demo_update_def demo_op_def Let_def)

lemma seal_intro:
  assumes "canonical_anchor_psbt B (tpk_anchor_psbt p) False = Inr a" "seal_committed B (tpk_committed_psbt p) a = Inr cm"
    and "p1 = p\<lparr>tpk_schema_version := package_version, tpk_committed_digest := zero_hash,
           tpk_unsigned_digest := zero_hash, tpk_package_digest := zero_hash, tpk_anchor_psbt := a,
           tpk_committed_psbt := cm, tpk_signing_plans := sort_key gp_input_index (tpk_signing_plans p),
           tpk_backend_managed := sort (tpk_backend_managed p)\<rparr>"
    and "validate_structure N B V p1 = Inr ()" "unsigned_tx_digest B cm = Inr u"
    and "committed_digest B (p1\<lparr>tpk_unsigned_digest := u\<rparr>) = Inr d"
    and "refresh_package_digest B (p1\<lparr>tpk_unsigned_digest := u, tpk_committed_digest := d\<rparr>) = Inr p3"
    and "validate_package N B V p3 = Inr ()"
  shows "seal N B V p = Inr p3"
  using assms by (simp add: seal_def Let_def)

lemma demo_sealed: "seal demo_native demo_btc demo_vlib ((demo_package [1])\<lparr>tpk_schema_version := 0, tpk_committed_psbt := []\<rparr>) =
   Inr (demo_package [1])"
proof (rule seal_intro)
  have "(demo_package [1])\<lparr>tpk_unsigned_digest := zero_hash\<rparr> = demo_package [1]"
    "(demo_package [1])\<lparr>tpk_package_digest := zero_hash\<rparr> = demo_package [1]"
    "(demo_package [1])\<lparr>tpk_unsigned_digest := zero_hash, tpk_committed_digest := zero_hash\<rparr> = demo_package [1]"
    by (simp_all add: demo_package_def)
  then show "committed_digest demo_btc ((demo_package [1])\<lparr>tpk_unsigned_digest := zero_hash\<rparr>) = Inr zero_hash"
    "refresh_package_digest demo_btc ((demo_package [1])\<lparr>tpk_unsigned_digest := zero_hash, tpk_committed_digest := zero_hash\<rparr>) =
      Inr (demo_package [1])"
    by (simp_all only: demo_digests refresh_package_digest_def) simp
  show "demo_package [1] = (demo_package [1])\<lparr>tpk_schema_version := 0, tpk_committed_psbt := []\<rparr>
     \<lparr>tpk_schema_version := package_version, tpk_committed_digest := zero_hash,
      tpk_unsigned_digest := zero_hash, tpk_package_digest := zero_hash, tpk_anchor_psbt := [1],
      tpk_committed_psbt := [1], tpk_signing_plans := sort_key gp_input_index
        (tpk_signing_plans ((demo_package [1])\<lparr>tpk_schema_version := 0, tpk_committed_psbt := []\<rparr>)),
      tpk_backend_managed := sort (tpk_backend_managed ((demo_package [1])\<lparr>tpk_schema_version := 0, tpk_committed_psbt := []\<rparr>))\<rparr>"
    by (simp add: demo_package_def package_version_def demo_key_plan_def demo_script_plan_def)
  show "validate_package demo_native demo_btc demo_vlib (demo_package [1]) = Inr ()" by (rule demo_valid) simp
qed (simp_all add: seal_committed_def)

lemma demo_accepted: "accept_response demo_native demo_btc demo_vlib demo_json demo_plan no_publish_metadata [[1]] demo_response =
   Inr (demo_package [1])"
proof -
  have "committed_package demo_native demo_btc demo_vlib demo_json demo_plan no_publish_metadata [[1]] demo_response =
    Inr ((demo_package [1])\<lparr>tpk_schema_version := 0, tpk_committed_psbt := []\<rparr>)"
    by (simp add: committed_package_def demo_anchor_ok demo_packets_ok demo_committed_inputs demo_committed_outputs)
      (simp add: demo_package_def funding_lock_metadata_def anchor_funding_summary_def no_publish_metadata_def demo_anchor_request_def)
  then show ?thesis by (simp add: accept_response_def demo_sealed)
qed

lemma demo_capability: "k \<in> {CapCommit, CapCallerAnchorPSBT, CapSkipFunding} \<Longrightarrow>
   require_capability demo_client k h = (Inr (), h @ [CustomAnchorCapabilitiesCall])"
  by (auto simp: require_capability_def bind_io_apply try_io_apply require_capabilities_def support_def
    default_tapd_capabilities_def status_supported_def)

lemma demo_commit:
  "\<exists>h'. commit_plan demo_native demo_btc demo_vlib demo_json demo_client demo_plan [] [] = (Inr (demo_package [1]), h')"
proof -
  have "bind_publish_policy (rq_funding demo_anchor_request) no_publish_metadata = no_publish_metadata"
    by (simp add: bind_publish_policy_def)
  moreover have "commit_capabilities (rq_funding demo_anchor_request) no_publish_metadata = Inr [CapCommit, CapCallerAnchorPSBT, CapSkipFunding]"
    by (simp add: commit_capabilities_def no_publish_metadata_def)
  moreover have "sign_active_packets demo_vlib demo_client demo_plan h = (Inr [[1]], h @ [SignVirtualPsbt [1]])" for h
    by (simp add: sign_active_packets_def sign_active_packet_def bind_io_apply try_io_apply)
  moreover have "low_level_funding (rq_funding demo_anchor_request) = Inr skip_funding_plan" by (simp add: low_level_funding_def)
  ultimately show ?thesis
    by (simp add: commit_plan_def bind_attempt_def local_io_def local_result_def require_commit_capabilities_def bind_io_apply
      demo_capability send_commit_def with_locks_def demo_accepted Let_def)
qed

end
