(* ===== verification/Tap_LifecycleFacts.thy ===== *)
theory Tap_LifecycleFacts
  imports Tap_PlanDemo
begin

text \<open>
  What committing and publishing promise: which calls are made, what an error says about locks and
  broadcasts, and what a returned package or packet is made of.
\<close>

section \<open>Calls of an operation\<close>

definition appends_only :: "(call \<Rightarrow> bool) \<Rightarrow> 'a io \<Rightarrow> bool" where
  "appends_only P m \<longleftrightarrow> (\<forall>h. \<exists>cs. snd (m h) = h @ cs \<and> list_all P cs)"

lemma appends_only_basic [intro, simp]: "appends_only P (return_io x)" "appends_only P (lift_io r)"
  by (auto simp: appends_only_def)

lemma appends_only_call [intro]: "P c \<Longrightarrow> appends_only P (call_io c resp)"
  by (auto simp: appends_only_def)

lemma appends_only_try [intro]: "appends_only P m \<Longrightarrow> appends_only P (try_io m)"
  by (auto simp: appends_only_def try_io_apply)

lemma appends_only_bind [intro]:
  assumes "appends_only P m" and "\<And>x. appends_only P (f x)"
  shows "appends_only P (bind_io m f)"
  unfolding appends_only_def
proof
  fix h
  obtain r cs where m: "m h = (r, h @ cs)" "list_all P cs"
    using assms(1) unfolding appends_only_def by (metis prod.collapse)
  show "\<exists>cs. snd (bind_io m f h) = h @ cs \<and> list_all P cs"
  proof (cases r)
    case (Inl e)
    with m show ?thesis by (simp add: bind_io_apply)
  next
    case (Inr x)
    obtain ds where "snd (f x (h @ cs)) = (h @ cs) @ ds" "list_all P ds"
      using assms(2) [of x] unfolding appends_only_def by blast
    with m Inr show ?thesis by (intro exI [of _ "cs @ ds"]) (simp add: bind_io_apply)
  qed
qed

lemma appends_only_for [intro]: "(\<And>s x. appends_only P (f s x)) \<Longrightarrow> appends_only P (for_io f s xs)"
  by (induction f s xs rule: for_io.induct) auto

lemma appends_onlyE:
  assumes "appends_only P m"
  obtains r cs where "m h = (r, h @ cs)" "list_all P cs"
  using assms unfolding appends_only_def by (metis prod.collapse)

text \<open>The calls made before the one that commits or publishes.\<close>

definition harmless :: "call \<Rightarrow> bool" where
  "harmless c \<longleftrightarrow> c = CustomAnchorCapabilitiesCall \<or> (\<exists>p. c = SignVirtualPsbt p)"

lemma require_capability_calls [intro]: "appends_only harmless (require_capability c k)"
proof (cases "c_capability_provider c")
  case (Some provider)
  have "appends_only harmless (case r of Inl e \<Rightarrow> lift_io (Inl (f e)) | Inr caps \<Rightarrow> lift_io (g caps))"
    for r :: "go_error + 'x" and f and g :: "'x \<Rightarrow> unit result"
    by (cases r) auto
  with Some show ?thesis
    by (auto simp: require_capability_def harmless_def intro!: appends_only_bind appends_only_try appends_only_call)
qed (simp add: require_capability_def)

lemma require_commit_calls [intro]: "appends_only harmless (require_commit_capabilities c f publish)"
  unfolding require_commit_capabilities_def by (intro appends_only_bind appends_only_basic appends_only_for require_capability_calls)

lemma sign_active_packet_calls [intro]: "appends_only harmless (sign_active_packet V c acc packet)"
proof -
  have "appends_only harmless (case r of Inl e \<Rightarrow> lift_io (Inl (f e)) | Inr x \<Rightarrow> bind_io (lift_io (g x)) (\<lambda>_. return_io (k x)))"
    for r :: "go_error + 'x" and f and g :: "'x \<Rightarrow> unit result" and k :: "'x \<Rightarrow> bytes list"
    by (cases r) auto
  then show ?thesis
    by (auto simp: sign_active_packet_def harmless_def intro!: appends_only_bind appends_only_try appends_only_call)
qed

lemma sign_active_packets_calls [intro]: "appends_only harmless (sign_active_packets V c p)"
  by (auto simp: sign_active_packets_def)

section \<open>The packets that are sent\<close>

text \<open>Packet by packet: signed by the backend where the plan says so, as planned otherwise.\<close>

definition packet_as_planned :: "('k, 'g, 'f, 'c, 'x) vpacket_lib_scheme \<Rightarrow> bytes \<times> bool \<Rightarrow> bytes \<Rightarrow> bool" where
  "packet_as_planned V planned sent \<longleftrightarrow>
     (if snd planned then verify_backend_signed V (fst planned) sent = Inr () else sent = fst planned)"

definition signed_as_planned :: "('k, 'g, 'f, 'c, 'x) vpacket_lib_scheme \<Rightarrow> anchor_plan \<Rightarrow> bytes list \<Rightarrow> bool" where
  "signed_as_planned V p active \<longleftrightarrow>
     list_all2 (packet_as_planned V) (zip (apl_active p) (apl_backend_signing p)) active \<and>
     length (apl_active p) = length (apl_backend_signing p)"

lemma sign_loop:
  assumes "for_io (sign_active_packet V c) acc xs h = (Inr active, h')"
  shows "\<exists>sent. active = acc @ sent \<and>
    list_all2 (packet_as_planned V) xs sent"
  using assms
proof (induction xs arbitrary: acc h)
  case Nil
  then show ?case by simp
next
  case (Cons x xs)
  from Cons.prems obtain acc1 h1 where step: "sign_active_packet V c acc x h = (Inr acc1, h1)"
    and rest: "for_io (sign_active_packet V c) acc1 xs h1 = (Inr active, h')"
    by (auto simp: bind_io_apply split: prod.splits sum.splits)
  from step obtain s where s: "acc1 = acc @ [s]"
    "packet_as_planned V x s"
    by (auto simp: packet_as_planned_def sign_active_packet_def bind_io_apply try_io_apply split: if_splits sum.splits prod.splits)
  from Cons.IH [OF rest] obtain sent where "active = acc1 @ sent"
    "list_all2 (packet_as_planned V) xs sent"
    by blast
  with s show ?case by (intro exI [of _ "s # sent"]) simp
qed

lemma sign_active_packets_ok: "sign_active_packets V c p h = (Inr active, h') \<Longrightarrow> signed_as_planned V p active"
  using sign_loop [of V c "[]" "zip (apl_active p) (apl_backend_signing p)" h active h']
  by (auto simp: sign_active_packets_def signed_as_planned_def split: if_splits)

section \<open>Commit\<close>

text \<open>
  The commit call went out as the last call of \<open>h'\<close>, with the given packets, and the daemon
  answered as given.
\<close>

definition commit_sent ::
    "('k, 'g, 'f, 'c, 'x) vpacket_lib_scheme \<Rightarrow> client \<Rightarrow> anchor_plan \<Rightarrow> call list \<Rightarrow> call list \<Rightarrow> bytes list \<Rightarrow>
     commit_virtual_psbts_response option result \<Rightarrow> bool" where
  "commit_sent V c p h h' active answer \<longleftrightarrow>
     (\<exists>cs commit publish low_level.
        c_custom_anchor c = Some (commit, publish) \<and> list_all harmless cs \<and> signed_as_planned V p active \<and>
        low_level_funding (rq_funding (apl_request p)) = Inr low_level \<and>
        h' = h @ cs @ [CommitVirtualPsbtsWithRequest (plan_commit_request p active low_level)] \<and>
        answer = commit (h @ cs) (plan_commit_request p active low_level))"

definition nothing_sent :: "call list \<Rightarrow> call list \<Rightarrow> bool" where
  "nothing_sent h h' \<longleftrightarrow> (\<exists>cs. h' = h @ cs \<and> list_all harmless cs)"

definition plan_publish :: "anchor_plan \<Rightarrow> publish_metadata list \<Rightarrow> publish_metadata" where
  "plan_publish p options =
     bind_publish_policy (rq_funding (apl_request p)) (case options of [] \<Rightarrow> no_publish_metadata | o1 # _ \<Rightarrow> o1)"

lemma commit_plan_cases:
  obtains e h' where "commit_plan N B V J c p options h = (Inl (LocalError e), h')" "nothing_sent h h'"
  | active answer h' where "commit_sent V c p h h' active answer" "result_valid (Some (apl_verification p))"
      "length options \<le> 1"
      "commit_plan N B V J c p options h =
        (case answer of
           Inl e \<Rightarrow> (Inl (CommitAttemptError (Wrapf ''commit custom anchor virtual packets: '' e [])
                       (funding_lock_metadata (rq_funding (apl_request p))) (outcome_unknown (lib.truncate N) e)), h')
         | Inr None \<Rightarrow> (Inl (CommitAttemptError (Plain ''commit custom anchor returned no response'')
                       (funding_lock_metadata (rq_funding (apl_request p))) True), h')
         | Inr (Some response) \<Rightarrow>
             (case accept_response N B V J p (plan_publish p options) active response of
                Inl e \<Rightarrow> (Inl (CommitResponseError e (cr_locked_utxos response)), h')
              | Inr pkg \<Rightarrow> (Inr pkg, h')))"
proof -
  let ?f = "rq_funding (apl_request p)"
  let ?publish = "plan_publish p options"
  note defs = commit_plan_def local_result_def local_io_def bind_attempt_def plan_publish_def [symmetric] Let_def
  show thesis
  proof (cases "length options > 1 \<or> \<not> result_valid (Some (apl_verification p)) \<or> c_custom_anchor c = None")
    case True
    then have "\<exists>e. commit_plan N B V J c p options h = (Inl (LocalError e), h)" by (auto simp: defs)
    then obtain e where "commit_plan N B V J c p options h = (Inl (LocalError e), h)" by blast
    then show ?thesis by (rule that(1)) (simp add: nothing_sent_def)
  next
    case False
    then obtain commit publish where client: "c_custom_anchor c = Some (commit, publish)" by auto
    obtain r1 cs1 where r1: "require_commit_capabilities c ?f ?publish h = (r1, h @ cs1)" and cs1: "list_all harmless cs1"
      using require_commit_calls by (rule appends_onlyE)
    show ?thesis
    proof (cases r1)
      case (Inl e)
      with False client r1 have "commit_plan N B V J c p options h = (Inl (LocalError e), h @ cs1)" by (simp add: defs)
      with cs1 show ?thesis by (intro that(1)) (auto simp: nothing_sent_def)
    next
      case caps: (Inr u)
      obtain r2 cs2 where r2: "sign_active_packets V c p (h @ cs1) = (r2, (h @ cs1) @ cs2)" and cs2: "list_all harmless cs2"
        using sign_active_packets_calls by (rule appends_onlyE)
      show ?thesis
      proof (cases r2)
        case (Inl e)
        with False client r1 r2 caps
        have "commit_plan N B V J c p options h = (Inl (LocalError e), h @ cs1 @ cs2)" by (simp add: defs)
        with cs1 cs2 show ?thesis by (intro that(1)) (auto simp: nothing_sent_def)
      next
        case active: (Inr active)
        with r2 have planned: "signed_as_planned V p active" by (simp add: sign_active_packets_ok)
        show ?thesis
        proof (cases "low_level_funding ?f")
          case (Inl e)
          with False client r1 r2 caps active
          have "commit_plan N B V J c p options h = (Inl (LocalError e), h @ cs1 @ cs2)" by (simp add: defs)
          with cs1 cs2 show ?thesis by (intro that(1)) (auto simp: nothing_sent_def)
        next
          case low: (Inr low_level)
          let ?r = "plan_commit_request p active low_level"
          let ?h' = "h @ (cs1 @ cs2) @ [CommitVirtualPsbtsWithRequest ?r]"
          have "commit_sent V c p h ?h' active (commit (h @ (cs1 @ cs2)) ?r)"
            unfolding commit_sent_def
            by (intro exI [of _ "cs1 @ cs2"] exI [of _ commit] exI [of _ publish] exI [of _ low_level])
              (simp add: client cs1 cs2 planned low)
          with False client r1 r2 caps active low show ?thesis
            by (intro that(2)) (auto simp: defs send_commit_def with_locks_def split: sum.split option.split)
        qed
      qed
    qed
  qed
qed

text \<open>What \<open>Seal\<close> keeps of the package it gets.\<close>

lemma seal_ok:
  assumes "seal N B V p = Inr pkg"
  shows "validate_package N B V pkg = Inr ()"
    and "tpk_plan_id pkg = tpk_plan_id p" "tpk_active pkg = tpk_active p" "tpk_passive pkg = tpk_passive p"
      "tpk_change_output_index pkg = tpk_change_output_index p" "tpk_locked pkg = tpk_locked p"
      "tpk_funding_lock pkg = tpk_funding_lock p" "tpk_funding pkg = tpk_funding p" "tpk_inputs pkg = tpk_inputs p"
      "tpk_outputs pkg = tpk_outputs p" "tpk_updates pkg = tpk_updates p" "tpk_publish pkg = tpk_publish p"
      "canonical_anchor_psbt B (tpk_anchor_psbt p) False = Inr (tpk_anchor_psbt pkg)"
  using assms by (auto simp: seal_def Let_def and_then_eq_Inr refresh_package_digest_def)

text \<open>What an accepted response fulfils.\<close>

definition response_checked ::
    "('k, 's, 'z) btc_lib_scheme \<Rightarrow> anchor_plan \<Rightarrow> commit_virtual_psbts_response \<Rightarrow> u64 \<Rightarrow> bool" where
  "response_checked B p response fee \<longleftrightarrow>
     (\<exists>before after. decode_anchor_psbt B (apl_anchor_psbt p) = Inr before \<and>
        decode_anchor_psbt B (cr_anchor_psbt response) = Inr after \<and>
        verify_committed_shape B (apl_request p) before after (cr_change_output_index response) = Inr () \<and>
        validate_lock_inventory (fp_mode (rq_funding (apl_request p))) after (added_input_indices before after)
          (cr_locked_utxos response) = Inr () \<and>
        transaction_fee B after = Inr fee \<and>
        fee \<le> (case (fp_mode (rq_funding (apl_request p)), fp_wallet_funded (rq_funding (apl_request p))) of
                 (FundingWalletFunded, Some w) \<Rightarrow> wf_max_fee_sat w | _ \<Rightarrow> fee))"

lemma check_committed_anchor_ok:
  "check_committed_anchor B p response = Inr (after, managed, fee) \<Longrightarrow> response_checked B p response fee"
  by (auto simp: check_committed_anchor_def response_checked_def and_then_eq_Inr Let_def not_less
      split: if_splits option.splits funding_mode.split)

text \<open>
  What a commit may change of a virtual packet: proof suffixes and the order of alternate leaves of its
  outputs. Every output has a suffix then; the inputs keep their proofs, and the rest has one encoding.
\<close>

definition packet_kept ::
    "('k, 'g, 'f, 'y) native_lib_scheme \<Rightarrow> ('k, 'g, 'f, 'c, 'z) vpacket_lib_scheme \<Rightarrow>
     ('k, 'g, 'f) tap_vpacket \<Rightarrow> ('k, 'g, 'f) tap_vpacket \<Rightarrow> bool" where
  "packet_kept N V sent got \<longleftrightarrow>
     list_all (\<lambda>out. tvo_proof_suffix out \<noteq> None) (tvp_outputs got) \<and>
     list_all (\<lambda>(x, y). alt_leaves_equal V (tvo_alt_leaves x) (tvo_alt_leaves y)) (zip (tvp_outputs sent) (tvp_outputs got)) \<and>
     list_all2 (\<lambda>i j. transition_proofs_equal N V (tvi_proof i) (tvi_proof j) = Inr True) (tvp_inputs sent) (tvp_inputs got) \<and>
     (\<exists>bs. vl_encode V (without_proof_suffixes sent) = Inr bs \<and> vl_encode V (without_proof_suffixes got) = Inr bs)"

definition packets_kept ::
    "('k, 'g, 'f, 'y) native_lib_scheme \<Rightarrow> ('k, 'g, 'f, 'c, 'z) vpacket_lib_scheme \<Rightarrow> bytes list \<Rightarrow> bytes list \<Rightarrow> bool" where
  "packets_kept N V sent got \<longleftrightarrow>
     (\<exists>es cs. list_all2 (\<lambda>b e. vl_decode V b = Inr e) sent es \<and> list_all2 (\<lambda>b c. vl_decode V b = Inr c) got cs \<and>
        list_all2 (packet_kept N V) es cs)"

lemma packets_kept_length: "packets_kept N V sent got \<Longrightarrow> length got = length sent"
  by (auto simp: packets_kept_def dest!: list_all2_lengthD)

lemma committed_voutput_ok_iff:
  "is_ok (committed_voutput_ok V expected i u out) \<longleftrightarrow> tvo_proof_suffix out \<noteq> None \<and>
     (i < length expected \<longrightarrow> alt_leaves_equal V (tvo_alt_leaves (expected ! i)) (tvo_alt_leaves out))"
  by (auto simp: committed_voutput_ok_def)

lemma committed_vinput_ok_iff:
  "is_ok (committed_vinput_ok N V u ins) \<longleftrightarrow>
     transition_proofs_equal N V (tvi_proof (fst ins)) (tvi_proof (snd ins)) = Inr True"
  by (auto simp: committed_vinput_ok_def is_ok_iff result_simps)

lemma committed_vpacket_ok_kept:
  assumes "is_ok (committed_vpacket_ok N V u (sent, got))"
  shows "packet_kept N V sent got"
proof -
  from assms have outs: "is_ok (fold_idx (committed_voutput_ok V (tvp_outputs sent)) 0 () (tvp_outputs got))"
    and len: "length (tvp_inputs sent) = length (tvp_inputs got)"
    and ins: "is_ok (fold_res (committed_vinput_ok N V) () (zip (tvp_inputs sent) (tvp_inputs got)))"
    and bytes: "\<exists>bs. vl_encode V (without_proof_suffixes sent) = Inr bs \<and> vl_encode V (without_proof_suffixes got) = Inr bs"
    by (auto simp: committed_vpacket_ok_def is_ok_iff result_simps split: if_split_asm)
  from outs have "list_all (\<lambda>out. tvo_proof_suffix out \<noteq> None) (tvp_outputs got)"
    by (auto simp: fold_idx_unit_ok committed_voutput_ok_iff list_all_length)
  moreover from outs have "list_all (\<lambda>(x, y). alt_leaves_equal V (tvo_alt_leaves x) (tvo_alt_leaves y))
      (zip (tvp_outputs sent) (tvp_outputs got))"
    by (auto simp: fold_idx_unit_ok committed_voutput_ok_iff list_all_length)
  moreover from ins len have "list_all2 (\<lambda>i j. transition_proofs_equal N V (tvi_proof i) (tvi_proof j) = Inr True)
      (tvp_inputs sent) (tvp_inputs got)"
    by (auto simp: fold_res_unit_ok committed_vinput_ok_iff list_all2_iff)
  ultimately show ?thesis using bytes by (simp add: packet_kept_def)
qed

lemma verify_committed_vpackets_kept:
  assumes "verify_committed_vpackets N V sent got = Inr ()"
  shows "list_all2 (packet_kept N V) sent got"
proof -
  have "length sent = length got" "is_ok (fold_res (committed_vpacket_ok N V) () (zip sent got))"
    using assms by (auto simp: verify_committed_vpackets_def split: if_split_asm)
  then show ?thesis by (auto simp: list_all2_iff fold_res_unit_ok intro: committed_vpacket_ok_kept)
qed

lemma decode_virtual_packets_eq:
  "decode_virtual_packets V label bs = Inr ps \<longleftrightarrow> list_all2 (\<lambda>b p. vl_decode V b = Inr p) bs ps"
  by (induction bs arbitrary: ps) (auto simp: and_then_eq_Inr list_all2_Cons1)

lemma check_committed_packets_kept:
  assumes "check_committed_packets N V p active response committed = Inr packets"
  shows "packets_kept N V active (cr_virtual_psbts response)"
    and "packets_kept N V (apl_passive p) (cr_passive_asset_psbts response)"
  using assms
  by (auto simp: check_committed_packets_def and_then_eq_Inr Let_def decode_virtual_packets_eq packets_kept_def
      dest!: verify_committed_vpackets_kept)

lemma accept_response_ok:
  assumes "accept_response N B V J p publish active response = Inr pkg"
  shows "validate_package N B V pkg = Inr ()"
    and "tpk_active pkg = cr_virtual_psbts response" "tpk_passive pkg = cr_passive_asset_psbts response"
      "length (tpk_active pkg) = length active" "length (tpk_passive pkg) = length (apl_passive p)"
      "tpk_locked pkg = cr_locked_utxos response" "tpk_publish pkg = publish"
      "tpk_funding_lock pkg = funding_lock_metadata (rq_funding (apl_request p))"
      "plan_id N B J p = Inr (tpk_plan_id pkg)"
      "response_checked B p response (fsm_actual_fee_sat (tpk_funding pkg))"
      "canonical_anchor_psbt B (cr_anchor_psbt response) False = Inr (tpk_anchor_psbt pkg)"
      "packets_kept N V active (tpk_active pkg)" "packets_kept N V (apl_passive p) (tpk_passive pkg)"
proof -
  from assms obtain snapshot where snapshot: "committed_package N B V J p publish active response = Inr snapshot"
    and sealed: "seal N B V snapshot = Inr pkg"
    by (auto simp: accept_response_def and_then_eq_Inr)
  note kept = seal_ok [OF sealed]
  from snapshot obtain committed packets where
    "check_committed_packets N V p active response committed = Inr packets"
    by (auto simp: committed_package_def and_then_eq_Inr split: if_split_asm)
  note same = check_committed_packets_kept [OF this]
  from snapshot obtain committed managed fee where anchor: "check_committed_anchor B p response = Inr (committed, managed, fee)"
    and snap: "tpk_active snapshot = cr_virtual_psbts response" "tpk_passive snapshot = cr_passive_asset_psbts response"
      "length (cr_virtual_psbts response) = length active" "length (cr_passive_asset_psbts response) = length (apl_passive p)"
      "tpk_locked snapshot = cr_locked_utxos response" "tpk_publish snapshot = publish"
      "tpk_funding_lock snapshot = funding_lock_metadata (rq_funding (apl_request p))"
      "plan_id N B J p = Inr (tpk_plan_id snapshot)" "tpk_anchor_psbt snapshot = cr_anchor_psbt response"
      "tpk_funding snapshot = anchor_funding_summary (rq_funding (apl_request p)) fee"
    by (auto simp: committed_package_def and_then_eq_Inr split: if_split_asm)
  show "validate_package N B V pkg = Inr ()" by (rule kept)
  show "tpk_active pkg = cr_virtual_psbts response" "tpk_passive pkg = cr_passive_asset_psbts response"
    "length (tpk_active pkg) = length active" "length (tpk_passive pkg) = length (apl_passive p)"
    "tpk_locked pkg = cr_locked_utxos response" "tpk_publish pkg = publish"
    "tpk_funding_lock pkg = funding_lock_metadata (rq_funding (apl_request p))"
    "plan_id N B J p = Inr (tpk_plan_id pkg)"
    "canonical_anchor_psbt B (cr_anchor_psbt response) False = Inr (tpk_anchor_psbt pkg)"
    using kept snap by simp_all
  show "packets_kept N V active (tpk_active pkg)" "packets_kept N V (apl_passive p) (tpk_passive pkg)"
    using kept snap same by simp_all
  show "response_checked B p response (fsm_actual_fee_sat (tpk_funding pkg))"
    using check_committed_anchor_ok [OF anchor] kept snap by (simp add: anchor_funding_summary_def)
qed

text \<open>
  C10. Whatever the daemon does, an error of \<open>Commit\<close> says what may be locked. A plain error means that
  no commit was sent. An attempt error carries the funding lock of the request and says whether the
  outcome is unknown: it is unless the daemon refused with one of six status codes. Once a response is
  there, every error carries the locks it lists.
\<close>

theorem commit_failure_reports_locks:
  "case commit_plan N B V J c p options h of
     (Inl (LocalError e), h') \<Rightarrow> nothing_sent h h'
   | (Inl (CommitAttemptError e lock unknown), h') \<Rightarrow>
       lock = funding_lock_metadata (rq_funding (apl_request p)) \<and>
       (\<exists>active answer. commit_sent V c p h h' active answer \<and>
          (answer = Inr None \<and> unknown \<or> (\<exists>err. answer = Inl err \<and> unknown = outcome_unknown (lib.truncate N) err)))
   | (Inl (CommitResponseError e locks), h') \<Rightarrow>
       (\<exists>active response. commit_sent V c p h h' active (Inr (Some response)) \<and> locks = cr_locked_utxos response)
   | (Inl (PublishAttemptError e unknown), h') \<Rightarrow> False
   | (Inr pkg, h') \<Rightarrow>
       (\<exists>active response. commit_sent V c p h h' active (Inr (Some response)) \<and> tpk_locked pkg = cr_locked_utxos response)"
proof (rule commit_plan_cases [of N B V J c p options h])
  fix active answer h'
  assume sent: "commit_sent V c p h h' active answer"
    and eq: "commit_plan N B V J c p options h = (case answer of
           Inl e \<Rightarrow> (Inl (CommitAttemptError (Wrapf ''commit custom anchor virtual packets: '' e [])
                       (funding_lock_metadata (rq_funding (apl_request p))) (outcome_unknown (lib.truncate N) e)), h')
         | Inr None \<Rightarrow> (Inl (CommitAttemptError (Plain ''commit custom anchor returned no response'')
                       (funding_lock_metadata (rq_funding (apl_request p))) True), h')
         | Inr (Some response) \<Rightarrow>
             (case accept_response N B V J p (plan_publish p options) active response of
                Inl e \<Rightarrow> (Inl (CommitResponseError e (cr_locked_utxos response)), h')
              | Inr pkg \<Rightarrow> (Inr pkg, h')))"
  show ?thesis
  proof (cases answer)
    case (Inl e)
    with sent eq show ?thesis by auto
  next
    case (Inr reply)
    show ?thesis
    proof (cases reply)
      case None
      with sent eq Inr show ?thesis by auto
    next
      case (Some response)
      with sent eq Inr show ?thesis
        by (cases "accept_response N B V J p (plan_publish p options) active response")
          (auto dest: accept_response_ok)
    qed
  qed
qed auto

text \<open>
  C11. A package that \<open>Commit\<close> returns is valid and is the plan: its identifier and its publish policy
  are those of the plan; the daemon got the planned packets, signed where the plan leaves them to it; the
  packets of the package are the active packets it got and the passive packets of the plan, one by one and
  unchanged but for the proof suffixes of their outputs and the order of alternate leaves; the anchor
  transaction it answered with differs from the plan's only as funding allows, locks exactly the added
  inputs and pays at most the maximal fee.
\<close>

theorem committed_package_follows_plan:
  assumes "commit_plan N B V J c p options h = (Inr pkg, h')"
  shows "\<exists>active response. commit_sent V c p h h' active (Inr (Some response)) \<and> validate_package N B V pkg = Inr () \<and>
    tpk_active pkg = cr_virtual_psbts response \<and> tpk_passive pkg = cr_passive_asset_psbts response \<and>
    packets_kept N V active (tpk_active pkg) \<and> packets_kept N V (apl_passive p) (tpk_passive pkg) \<and>
    length (tpk_active pkg) = length (apl_active p) \<and> length (tpk_passive pkg) = length (apl_passive p) \<and>
    plan_id N B J p = Inr (tpk_plan_id pkg) \<and> tpk_publish pkg = plan_publish p options \<and>
    response_checked B p response (fsm_actual_fee_sat (tpk_funding pkg)) \<and>
    canonical_anchor_psbt B (cr_anchor_psbt response) False = Inr (tpk_anchor_psbt pkg)"
proof (rule commit_plan_cases [of N B V J c p options h])
  fix e k
  assume "commit_plan N B V J c p options h = (Inl (LocalError e), k)"
  with assms show ?thesis by simp
next
  fix active answer k
  assume sent: "commit_sent V c p h k active answer"
    and eq: "commit_plan N B V J c p options h = (case answer of
           Inl e \<Rightarrow> (Inl (CommitAttemptError (Wrapf ''commit custom anchor virtual packets: '' e [])
                       (funding_lock_metadata (rq_funding (apl_request p))) (outcome_unknown (lib.truncate N) e)), k)
         | Inr None \<Rightarrow> (Inl (CommitAttemptError (Plain ''commit custom anchor returned no response'')
                       (funding_lock_metadata (rq_funding (apl_request p))) True), k)
         | Inr (Some response) \<Rightarrow>
             (case accept_response N B V J p (plan_publish p options) active response of
                Inl e \<Rightarrow> (Inl (CommitResponseError e (cr_locked_utxos response)), k)
              | Inr pkg \<Rightarrow> (Inr pkg, k)))"
  from assms eq obtain response where answer: "answer = Inr (Some response)" "k = h'"
    and accepted: "accept_response N B V J p (plan_publish p options) active response = Inr pkg"
    by (auto split: sum.split_asm option.split_asm)
  have "length active = length (apl_active p)"
    using sent by (auto simp: commit_sent_def signed_as_planned_def dest: list_all2_lengthD)
  with sent answer accept_response_ok [OF accepted] show ?thesis
    by (intro exI [of _ active] exI [of _ response]) simp
qed

theorem committed_package_follows_plan_witness:
  "\<exists>h'. commit_plan demo_native demo_btc demo_vlib demo_json demo_client demo_plan [] [] = (Inr (demo_package [1]), h') \<and>
     (\<exists>active response. commit_sent demo_vlib demo_client demo_plan [] h' active (Inr (Some response)) \<and>
        packets_kept demo_native demo_vlib active (tpk_active (demo_package [1])) \<and>
        response_checked demo_btc demo_plan response 500)"
proof -
  obtain h' where "commit_plan demo_native demo_btc demo_vlib demo_json demo_client demo_plan [] [] = (Inr (demo_package [1]), h')"
    using demo_commit by blast
  moreover from committed_package_follows_plan [OF this] obtain active response
    where sent: "commit_sent demo_vlib demo_client demo_plan [] h' active (Inr (Some response))"
      and checked: "packets_kept demo_native demo_vlib active (tpk_active (demo_package [1]))"
        "response_checked demo_btc demo_plan response 500" by auto
  ultimately show ?thesis by blast
qed

section \<open>Publish\<close>

definition publish_sent ::
    "client \<Rightarrow> transfer_package \<Rightarrow> bytes \<Rightarrow> call list \<Rightarrow> call list \<Rightarrow> asset_packet option result \<Rightarrow> bool" where
  "publish_sent c p final_psbt h h' answer \<longleftrightarrow>
     (\<exists>cs commit publish.
        c_custom_anchor c = Some (commit, publish) \<and> list_all harmless cs \<and>
        h' = h @ cs @ [PublishAndLogTransferWithRequest (publish_request p final_psbt)] \<and>
        answer = publish (h @ cs) (publish_request p final_psbt))"

lemma skip_capability_calls: "appends_only harmless (if b then require_capability c k else return_io ())"
  by auto

lemma publish_transfer_cases:
  obtains e h' where "publish_transfer N B V c p final_bytes h = (Inl (LocalError e), h')" "nothing_sent h h'"
  | final_psbt final_anchor answer h' where "prepare_publish N B V p final_bytes = Inr (final_psbt, final_anchor)"
      "publish_sent c p final_psbt h h' answer"
      "publish_transfer N B V c p final_bytes h =
        (case answer of
           Inl e \<Rightarrow> (Inl (PublishAttemptError (Wrapf ''publish custom anchor transfer: '' e []) (outcome_unknown (lib.truncate N) e)), h')
         | Inr None \<Rightarrow> (Inl (PublishAttemptError (Plain ''publish custom anchor returned no usable response'') True), h')
         | Inr (Some result) \<Rightarrow>
             (if ap_anchor_transaction result = []
              then (Inl (PublishAttemptError (Plain ''publish custom anchor returned no usable response'') True), h')
              else accept_published B p final_anchor result h'))"
proof -
  note defs = publish_transfer_def local_result_def local_io_def bind_attempt_def
  show thesis
  proof (cases "prepare_publish N B V p final_bytes")
    case (Inl e)
    then have "publish_transfer N B V c p final_bytes h = (Inl (LocalError e), h)" by (simp add: defs)
    then show ?thesis by (rule that(1)) (simp add: nothing_sent_def)
  next
    case prepared: (Inr pair)
    obtain final_psbt final_anchor where pair: "pair = (final_psbt, final_anchor)" by (cases pair)
    obtain r1 cs where r1: "(if pmd_skip_anchor_tx_broadcast (tpk_publish p) then require_capability c CapSkipBroadcast
        else return_io ()) h = (r1, h @ cs)" and cs: "list_all harmless cs"
      using skip_capability_calls by (rule appends_onlyE)
    show ?thesis
    proof (cases "(\<exists>e. r1 = Inl e) \<or> c_custom_anchor c = None")
      case True
      then have "\<exists>e. publish_transfer N B V c p final_bytes h = (Inl (LocalError e), h @ cs)"
        using prepared pair r1 by (cases r1) (auto simp: defs)
      then obtain e where "publish_transfer N B V c p final_bytes h = (Inl (LocalError e), h @ cs)" by blast
      then show ?thesis by (rule that(1)) (auto simp: nothing_sent_def cs)
    next
      case False
      then obtain commit publish where client: "c_custom_anchor c = Some (commit, publish)" and ok: "r1 = Inr ()"
        by (cases r1) auto
      let ?r = "publish_request p final_psbt"
      let ?h' = "h @ cs @ [PublishAndLogTransferWithRequest ?r]"
      have "publish_sent c p final_psbt h ?h' (publish (h @ cs) ?r)"
        using client cs by (auto simp: publish_sent_def)
      with prepared pair client ok r1 show ?thesis
        by (intro that(2)) (auto simp: defs send_publish_def split: sum.split option.split)
    qed
  qed
qed

text \<open>
  A PSBT that extracts does so again once it is serialised and read back, and a transaction serialises
  into memory without an error.
\<close>

definition final_psbts_reload :: "('k, 's, 'z) btc_lib_scheme \<Rightarrow> bool" where
  "final_psbts_reload B \<longleftrightarrow>
     (\<forall>packet bs again. is_ok (bl_extract B packet) \<longrightarrow> serialize_anchor_psbt B packet = Inr bs \<longrightarrow>
        decode_anchor_psbt B bs = Inr again \<longrightarrow> is_ok (bl_extract B again)) \<and>
     (\<forall>tx. is_ok (bl_serialize_tx B tx))"

lemma prepared_extracts:
  assumes "final_psbts_reload B" and "prepare_publish N B V p final_bytes = Inr (final_psbt, anchor)"
  obtains tx bs where "bl_extract B anchor = Inr tx" "bl_serialize_tx B tx = Inr bs"
proof -
  from assms(2) obtain finalized where final: "with_final_anchor_psbt N B V p final_bytes = Inr finalized"
    and anchor: "decode_anchor_psbt B (tpk_anchor_psbt finalized) = Inr anchor"
    by (auto simp: prepare_publish_def and_then_eq_Inr split: if_split_asm)
  from final obtain sanitized packet where "sanitize_final_psbt B (tpk_committed_psbt p) final_bytes = Inr (sanitized, packet)"
    and "is_ok (bl_extract B packet)" and "tpk_anchor_psbt finalized = sanitized"
    by (auto simp: with_final_anchor_psbt_def refresh_package_digest_def and_then_eq_Inr)
  moreover from this have "serialize_anchor_psbt B packet = Inr sanitized"
    by (auto simp: sanitize_final_psbt_def and_then_eq_Inr Let_def split: if_split_asm)
  ultimately have "is_ok (bl_extract B anchor)"
    using assms(1) anchor unfolding final_psbts_reload_def by blast
  then obtain tx where tx: "bl_extract B anchor = Inr tx" by (auto simp: is_ok_iff)
  moreover from assms(1) have "is_ok (bl_serialize_tx B tx)" unfolding final_psbts_reload_def by blast
  ultimately show ?thesis using that by (auto simp: is_ok_iff)
qed

text \<open>
  C12. An error of \<open>PublishCustomAnchorTransfer\<close> says what may have been broadcast. A plain error means
  that no publish call was made. An attempt error is of unknown outcome unless the daemon refused with one of
  six status codes. A result is returned only when it is the prepared final transaction with the
  packets of the package.
\<close>

theorem publish_failure_reports_outcome:
  assumes "final_psbts_reload B"
  shows "case publish_transfer N B V c p final_bytes h of
     (Inl (LocalError e), h') \<Rightarrow> nothing_sent h h'
   | (Inl (PublishAttemptError e unknown), h') \<Rightarrow>
       (\<exists>final_psbt anchor answer. prepare_publish N B V p final_bytes = Inr (final_psbt, anchor) \<and>
          publish_sent c p final_psbt h h' answer \<and>
          (unknown \<and> (\<exists>reply. answer = Inr reply) \<or>
           (\<exists>err. answer = Inl err \<and> unknown = outcome_unknown (lib.truncate N) err)))
   | (Inr result, h') \<Rightarrow>
       (\<exists>final_psbt anchor tx. prepare_publish N B V p final_bytes = Inr (final_psbt, anchor) \<and>
          publish_sent c p final_psbt h h' (Inr (Some result)) \<and> bl_extract B anchor = Inr tx \<and>
          bl_serialize_tx B tx = Inr (ap_anchor_transaction result) \<and>
          ap_virtual_transactions result = tpk_active p \<and> ap_passive_asset_transactions result = tpk_passive p)
   | _ \<Rightarrow> False"
proof (rule publish_transfer_cases [of N B V c p final_bytes h])
  fix final_psbt final_anchor answer h'
  assume prepared: "prepare_publish N B V p final_bytes = Inr (final_psbt, final_anchor)"
    and sent: "publish_sent c p final_psbt h h' answer"
    and eq: "publish_transfer N B V c p final_bytes h =
        (case answer of
           Inl e \<Rightarrow> (Inl (PublishAttemptError (Wrapf ''publish custom anchor transfer: '' e []) (outcome_unknown (lib.truncate N) e)), h')
         | Inr None \<Rightarrow> (Inl (PublishAttemptError (Plain ''publish custom anchor returned no usable response'') True), h')
         | Inr (Some result) \<Rightarrow>
             (if ap_anchor_transaction result = []
              then (Inl (PublishAttemptError (Plain ''publish custom anchor returned no usable response'') True), h')
              else accept_published B p final_anchor result h'))"
  note accept = accept_published_def bind_attempt_def local_result_def local_io_def
  show ?thesis
  proof (cases answer)
    case (Inl e)
    with prepared sent eq show ?thesis by auto
  next
    case (Inr reply)
    show ?thesis
    proof (cases reply)
      case None
      with prepared sent eq Inr show ?thesis by auto
    next
      case (Some result)
      show ?thesis
      proof (rule prepared_extracts [OF assms prepared])
        fix tx bs
        assume "bl_extract B final_anchor = Inr tx" "bl_serialize_tx B tx = Inr bs"
        with prepared sent eq Inr Some show ?thesis by (auto simp: accept)
      qed
    qed
  qed
qed auto

lemma demo_reload: "final_psbts_reload demo_btc"
proof -
  have "is_ok (bl_serialize_tx demo_btc tx)" for tx by (simp add: demo_btc_def)
  then show ?thesis by (simp add: final_psbts_reload_def demo_extract_def)
qed

lemma demo_publish_prepared:
  "prepare_publish demo_native demo_btc demo_vlib (demo_package [1]) [3] = Inr ([3], demo_psbt [] [1] [1])"
  by (simp add: prepare_publish_def demo_valid demo_final reject_unconfirmed_paths_def demo_input_summary_def)

lemma demo_publish:
  "publish_transfer demo_native demo_btc demo_vlib demo_client (demo_package [1]) [3] [] =
     (Inl (PublishAttemptError (Wrapf ''publish custom anchor transfer: '' offline []) (outcome_unknown demo_lib offline)),
      [PublishAndLogTransferWithRequest (publish_request (demo_package [1]) [3])])"
proof -
  have "\<not> pmd_skip_anchor_tx_broadcast (tpk_publish (demo_package [1]))" by (simp add: demo_package_def)
  then show ?thesis
    by (simp add: publish_transfer_def demo_publish_prepared bind_attempt_def local_result_def local_io_def send_publish_def)
qed

theorem publish_failure_reports_outcome_witness:
  "\<exists>answer. publish_sent demo_client (demo_package [1]) [3] []
     [PublishAndLogTransferWithRequest (publish_request (demo_package [1]) [3])] answer"
  using publish_failure_reports_outcome [OF demo_reload, where N = demo_native and V = demo_vlib and c = demo_client
      and p = "demo_package [1]" and final_bytes = "[3]" and h = "[]"]
  by (auto simp: demo_publish demo_publish_prepared)

end
