(* ===== verification/Tap_AnchorBuild.thy ===== *)
theory Tap_AnchorBuild
  imports Tap_AnchorPlan Tap_Wallet "HOL-Library.List_Lexorder" "HOL-Library.Char_ord"
begin

text \<open>
  The custom-anchor builder (\<open>custom_anchor_builder.go\<close>): it resolves the inputs from their proofs,
  the outputs from their script and anchor plans, distributes the assets over virtual packets, checks
  the passive packets, merges what the packets require into the caller's PSBT and maps every virtual
  input and output to the request.

  What \<open>asset\<close>, \<open>commitment\<close>, \<open>tapsend\<close> and \<open>tappsbt\<close> compute for the builder is a function of the record
  \<open>build_lib\<close>. A proof courier is the text of its URL. A tapscript preimage and the nodes it is made
  from are bytes. \<open>kb_set_input_key\<close> stands for \<open>SetInputAsset\<close> with a copy of the input's asset that
  carries the key. A proof whose asset has no script key makes the code panic before it is mapped.
\<close>

section \<open>Keys and allocations\<close>

datatype script_key_type = KeyBip86 | KeyScriptPathExternal

record 'k tweaked_key =
  tk_locator :: key_locator
  tk_raw_key :: 'k
  tk_tweak :: bytes
  tk_type :: script_key_type

record 'k asset_script_key =
  ak_pub_key :: 'k
  ak_tweaked :: "'k tweaked_key option"

type_synonym 'k script_key_gen = "bytes \<Rightarrow> 'k asset_script_key result"

text \<open>\<open>tapsend.Allocation\<close>; its type is \<open>CommitAllocationToRemote\<close>, its asset version \<open>V1\<close>.\<close>

record 'k allocation =
  al_output_index :: u32
  al_internal_key :: 'k
  al_bip32 :: "bytes list"
  al_tr_bip32 :: "bytes list"
  al_sibling :: "bytes option"
  al_gen_script_key :: "'k script_key_gen"
  al_amount :: u64
  al_btc_amount :: int
  al_proof_url :: "string option"

record ('k, 'g, 'f, 'c) build_lib = "('k, 'g, 'f, 'c) vpacket_lib" +
  kb_parse_uri :: "string \<Rightarrow> string result"
  kb_unique_script_key :: "'k \<Rightarrow> bytes \<Rightarrow> 'k asset_script_key result"
  kb_burn_key :: "prev_id \<Rightarrow> 'k"
  kb_new_script_key :: "'k \<Rightarrow> 'k"
  kb_nums_script_key :: "'k asset_script_key"
  kb_non_spendable_leaf :: "bytes \<Rightarrow> bytes result"
  kb_tree_root :: "bytes \<Rightarrow> bytes \<Rightarrow> bytes"
  kb_control_block :: "'k \<Rightarrow> bytes \<Rightarrow> bytes \<Rightarrow> bytes result option"
  kb_decode_preimage :: "bytes \<Rightarrow> bytes option result"
  kb_tree_nodes :: "bytes list \<Rightarrow> bytes result"
  kb_preimage_from_nodes :: "bytes \<Rightarrow> bytes option result"
  kb_bip32 :: "key_locator \<Rightarrow> 'k \<Rightarrow> u32 \<Rightarrow> bytes \<times> bytes"
  kb_distribute :: "('k, 'g, 'f) native_proof list \<Rightarrow> 'k allocation list \<Rightarrow> string \<Rightarrow> ('k, 'g, 'f) tap_vpacket list result"
  kb_prepare_outputs :: "('k, 'g, 'f) tap_vpacket \<Rightarrow> ('k, 'g, 'f) tap_vpacket result"
  kb_set_input_key :: "'k asset_script_key \<Rightarrow> ('k, 'g, 'f) tap_vinput \<Rightarrow> ('k, 'g, 'f) tap_vinput"
  kb_keys_unique :: "('k, 'g, 'f) tap_vpacket list \<Rightarrow> unit result"
  kb_anchoring_template :: "('k, 'g, 'f) tap_vpacket list \<Rightarrow> psbt_packet result"

text \<open>\<open>asset.NewScriptKey\<close>; the key it stores is the parameter \<open>kb_new_script_key\<close>.\<close>

definition new_script_key :: "('k, 'g, 'f, 'c, 'x) build_lib_scheme \<Rightarrow> 'k \<Rightarrow> 'k asset_script_key" where
  "new_script_key V k = \<lparr>ak_pub_key = kb_new_script_key V k, ak_tweaked = None\<rparr>"

definition zero_pub_key :: bytes where "zero_pub_key = replicate 33 0"

text \<open>\<open>schnorr.ParsePubKey(schnorr.SerializePubKey(key))\<close>.\<close>

definition even_key :: "'k lib \<Rightarrow> 'k \<Rightarrow> 'k result" where
  "even_key L k = schnorr_parse_pub_key L (schnorr_serialize_pub_key L k)"

definition tap_asset_script_key ::
    "'k lib \<Rightarrow> ('k, 'g, 'f, 'c, 'x) build_lib_scheme \<Rightarrow> script_key \<Rightarrow> 'k asset_script_key result" where
  "tap_asset_script_key L V k =
     and_then (wrap_with (\<lambda>e. Wrapf ''parse asset script key: '' e []) (btcec_parse_pub_key L (sk_pub_key k))) (\<lambda>parsed.
       if kd_raw_key_bytes (sk_key_desc k) = zero_pub_key then Inr (new_script_key V parsed)
       else
         and_then (wrap_with (\<lambda>e. Wrapf ''parse raw asset script key: '' e [])
                     (btcec_parse_pub_key L (kd_raw_key_bytes (sk_key_desc k)))) (\<lambda>raw_key.
           Inr ((new_script_key V parsed)\<lparr>ak_tweaked := Some \<lparr>tk_locator = kd_locator (sk_key_desc k), tk_raw_key = raw_key,
                tk_tweak = sk_tap_tweak k,
                tk_type = (if sk_tap_tweak k \<noteq> [] then KeyScriptPathExternal else KeyBip86)\<rparr>\<rparr>)))"

definition unique_script_key_gen ::
    "('k, 'g, 'f, 'c, 'x) build_lib_scheme \<Rightarrow> 'k asset_script_key \<Rightarrow> 'k script_key_gen result" where
  "unique_script_key_gen V key =
     (case ak_tweaked key of
        None \<Rightarrow> Inl (Plain ''multi-issuance grouped output requires the raw asset script key'')
      | Some t \<Rightarrow> Inr (kb_unique_script_key V (tk_raw_key t)))"

definition op_true_script_key ::
    "'k lib \<Rightarrow> ('k, 's, 'z) btc_lib_scheme \<Rightarrow> ('k, 'g, 'f, 'c, 'x) build_lib_scheme \<Rightarrow> 'k \<Rightarrow> key_locator \<Rightarrow> bytes \<Rightarrow>
     ('k asset_script_key \<times> op_true_spend_info) result" where
  "op_true_script_key L B V internal_key locator asset_id =
     and_then (kb_non_spendable_leaf V asset_id) (\<lambda>unique_leaf.
     let root = kb_tree_root V [op_true_code] unique_leaf in
     and_then (even_key L (compute_taproot_output_key L internal_key root)) (\<lambda>output_key.
       case kb_control_block V internal_key [op_true_code] unique_leaf of
         None \<Rightarrow> Inl (Plain ''OP_TRUE leaf proof missing'')
       | Some control_block \<Rightarrow>
           and_then (wrap_with (\<lambda>e. Wrapf ''encode OP_TRUE control block: '' e []) control_block) (\<lambda>control_bytes.
           and_then (parse_pub_key L (serialize_compressed L internal_key)) (\<lambda>internal_bytes.
           and_then (parse_pub_key L (serialize_compressed L output_key)) (\<lambda>parsed.
             let info = \<lparr>si_leaf_script = [op_true_code], si_leaf_version = base_leaf_version,
                         si_control_block = control_bytes, si_internal_key = internal_bytes\<rparr> in
             and_then (wrap_with (\<lambda>e. Wrapf ''validate OP_TRUE spend info: '' e []) (spend_info_validate L B (Some info) parsed)) (\<lambda>_.
               Inr (\<lparr>ak_pub_key = output_key, ak_tweaked = Some \<lparr>tk_locator = locator, tk_raw_key = internal_key,
                      tk_tweak = root, tk_type = KeyScriptPathExternal\<rparr>\<rparr>, info)))))))"

definition op_true_script_key_gen ::
    "'k lib \<Rightarrow> ('k, 's, 'z) btc_lib_scheme \<Rightarrow> ('k, 'g, 'f, 'c, 'x) build_lib_scheme \<Rightarrow> 'k \<Rightarrow> key_locator \<Rightarrow> 'k script_key_gen" where
  "op_true_script_key_gen L B V internal_key locator asset_id =
     and_then (op_true_script_key L B V internal_key locator asset_id) (\<lambda>(key, _). Inr key)"

text \<open>\<open>tapsend.StaticScriptKeyGen\<close>.\<close>

definition static_script_key_gen :: "'k asset_script_key \<Rightarrow> 'k script_key_gen" where
  "static_script_key_gen key = (\<lambda>_. Inr key)"

definition anchor_sibling :: "('k, 'g, 'f, 'c, 'x) build_lib_scheme \<Rightarrow> tapscript_plan \<Rightarrow> bytes option result" where
  "anchor_sibling V p =
     (if tp_serialized_sibling p \<noteq> [] then kb_decode_preimage V (tp_serialized_sibling p)
      else if tp_tap_leaves p = [] then Inr None
      else and_then (kb_tree_nodes V (tp_tap_leaves p)) (kb_preimage_from_nodes V))"

definition anchor_key_derivations ::
    "'k lib \<Rightarrow> ('k, 'g, 'f, 'c, 'x) build_lib_scheme \<Rightarrow> internal_key \<Rightarrow> u32 \<Rightarrow> bytes list \<times> bytes list" where
  "anchor_key_derivations L V key coin_type =
     (if ik_locator key = \<lparr>kl_family = 0, kl_index = 0\<rparr> then ([], [])
      else case btcec_parse_pub_key L (ik_pub_key key) of
        Inl _ \<Rightarrow> ([], [])
      | Inr k \<Rightarrow> (case kb_bip32 V (ik_locator key) k coin_type of (b, t) \<Rightarrow> ([b], [t])))"

text \<open>\<open>customAssetScriptKey\<close>; the wallet mode asks the daemon for a key.\<close>

definition custom_asset_script_key ::
    "'k lib \<Rightarrow> ('k, 's, 'z) btc_lib_scheme \<Rightarrow> ('k, 'g, 'f, 'c, 'x) build_lib_scheme \<Rightarrow> client \<Rightarrow> script_plan \<Rightarrow> bool \<Rightarrow>
     'k script_key_gen io" where
  "custom_asset_script_key L B V c plan multi_issuance =
     (case sl_mode plan of
        ScriptWallet \<Rightarrow>
          (case sl_wallet plan of
             None \<Rightarrow> lift_io (Inl (Plain ''nil pointer dereference''))
           | Some (Some _) \<Rightarrow> lift_io (Inl (Plain ''selecting a wallet script key locator is not supported by the current tapd API''))
           | Some None \<Rightarrow>
               bind_io (\<lambda>h. case call_io DeriveScriptKey (c_derive_script_key c) h of
                          (r, h') \<Rightarrow> (wrap_with (\<lambda>e. Wrapf ''derive wallet script key: '' e []) r, h')) (\<lambda>derived.
               lift_io (and_then (tap_asset_script_key L V derived) (\<lambda>key.
                 if multi_issuance then unique_script_key_gen V key else Inr (static_script_key_gen key)))))
      | ScriptExternal \<Rightarrow>
          (case sl_external plan of
             None \<Rightarrow> lift_io (Inl (Plain ''nil pointer dereference''))
           | Some k \<Rightarrow>
               lift_io (and_then (tap_asset_script_key L V k) (\<lambda>key.
                 if \<not> multi_issuance then Inr (static_script_key_gen key)
                 else if sk_tap_tweak k \<noteq> []
                 then Inl (Plain ''multi-issuance grouped outputs cannot preserve a pre-tweaked external script key'')
                 else unique_script_key_gen V key)))
      | ScriptOPTrue \<Rightarrow>
          (case sl_op_true plan of
             None \<Rightarrow> lift_io (Inl (Plain ''nil pointer dereference''))
           | Some k \<Rightarrow>
               lift_io (and_then (btcec_parse_pub_key L (kd_raw_key_bytes k)) (\<lambda>internal_key.
                 Inr (op_true_script_key_gen L B V internal_key (kd_locator k)))))
      | ScriptBurn \<Rightarrow> return_io (static_script_key_gen (kb_nums_script_key V))
      | _ \<Rightarrow> lift_io (Inl (Plain ''unsupported asset script mode'')))"

section \<open>Inputs\<close>

definition passed_check :: "string \<Rightarrow> string \<Rightarrow> verification_origin \<Rightarrow> u32 option \<Rightarrow> string \<Rightarrow> string \<Rightarrow> verification_check" where
  "passed_check code scope orig index output_id message =
     \<lparr>vc_code = code, vc_scope = scope, vc_origin = orig, vc_passed = True, vc_input_index = index,
      vc_output_index = None, vc_output_id = output_id, vc_message = message\<rparr>"

record ('k, 'g, 'f) input_material =
  im_request_index :: u32
  im_request :: custom_asset_input
  im_proof :: "('k, 'g, 'f) native_proof"
  im_asset_ref :: string
  im_issuance_id :: bytes
  im_asset_type :: byte

definition proof_prev_id ::
    "('k, 'g, 'f, 'y) native_lib_scheme \<Rightarrow> ('k, 'g, 'f, 'c, 'x) vpacket_lib_scheme \<Rightarrow> ('k, 'g, 'f) native_proof \<Rightarrow> prev_id" where
  "proof_prev_id N V t =
     \<lparr>pid_outpoint = nl_out_point N t, pid_issuance_id = nl_asset_id N (np_asset t),
      pid_script_key = (case na_script_key (np_asset t) of None \<Rightarrow> [] | Some k \<Rightarrow> vl_to_serialized V k)\<rparr>"

text \<open>The last proof of a request's proof source, with the summary of a verified path.\<close>

definition input_tip ::
    "('k, 'g, 'f, 'y) native_lib_scheme \<Rightarrow> path_verifier option \<Rightarrow> custom_asset_input \<Rightarrow>
     (('k, 'g, 'f) native_proof \<times> path_summary option) result" where
  "input_tip N verifier i =
     (case xi_proof_path i of
        Some path \<Rightarrow>
          (if verifier = None then Inl (Plain ''input proof path: confirmed proof verifier is required'')
           else
             and_then (wrap_with (\<lambda>e. Wrapf ''verify input proof path: '' e []) (verify_path N verifier path)) (\<lambda>summary.
             and_then (wrap_with (\<lambda>e. Wrapf ''decode input proof path tip: '' e []) (compact_path_tip N path)) (\<lambda>tip.
               Inr (tip, Some summary))))
      | None \<Rightarrow>
          and_then (wrap_with (\<lambda>e. Wrapf ''decode input proof file: '' e []) (nl_decode_file N (xi_proof_file i))) (\<lambda>f.
          and_then (wrap_with (\<lambda>e. Wrapf ''read input last proof: '' e []) (nl_last_proof N f)) (\<lambda>tip.
            Inr (tip, None))))"

definition tip_matches_request ::
    "('k, 'g, 'f, 'y) native_lib_scheme \<Rightarrow> custom_asset_input \<Rightarrow> ('k, 'g, 'f) native_proof \<Rightarrow> (string \<times> bytes \<times> byte) result" where
  "tip_matches_request N i tip =
     (if na_lock_time (np_asset tip) \<noteq> 0 \<or> na_relative_lock_time (np_asset tip) \<noteq> 0
      then Inl (Plain ''input asset timelocks are not supported'')
      else
        and_then (wrap_with (\<lambda>e. Wrapf ''resolve input asset identity: '' e []) (asset_identity N (Some (np_asset tip))))
          (\<lambda>(actual_ref, issuance_id, asset_type).
            if \<not> ref_matches_issuance (lib.truncate N) (xi_asset_ref i) actual_ref issuance_id
            then Inl (Plain ''input asset ref does not match requested'')
            else if xi_amount i \<noteq> na_amount (np_asset tip) then Inl (Plain ''input amount does not match requested'')
            else Inr (actual_ref, issuance_id, asset_type)))"

definition path_summary_matches ::
    "('k, 'g, 'f, 'y) native_lib_scheme \<Rightarrow> ('k, 'g, 'f) native_proof \<Rightarrow> string \<times> bytes \<times> byte \<Rightarrow> path_summary \<Rightarrow> unit result" where
  "path_summary_matches N tip ident summary =
     (case ident of (actual_ref, issuance_id, asset_type) \<Rightarrow>
        and_then (serialized_script_key N (na_script_key (np_asset tip))) (\<lambda>script_key.
        let d = ps_derived summary in
        if \<not> asset_ref_equivalent (lib.truncate N) (ds_asset_ref d) actual_ref \<or> ds_issuance_id d \<noteq> issuance_id \<or>
           ds_asset_type d \<noteq> asset_type \<or> ds_amount d \<noteq> na_amount (np_asset tip) \<or> ds_script_key d \<noteq> script_key \<or>
           ds_anchor_outpoint d \<noteq> nl_out_point N tip
        then Inl (Plain ''input proof path summary does not match its verified tip'') else Inr ()))"

text \<open>What the daemon says of a proof file, compared with the decoded proof.\<close>

definition verified_proof_matches ::
    "('k, 'g, 'f, 'y) native_lib_scheme \<Rightarrow> custom_asset_input \<Rightarrow> ('k, 'g, 'f) native_proof \<Rightarrow> bytes \<Rightarrow>
     verify_proof_response option \<Rightarrow> unit result" where
  "verified_proof_matches N i tip issuance_id verified =
     (case verified of
        None \<Rightarrow> Inl (Plain ''input proof chain is not valid'')
      | Some v \<Rightarrow>
          (case (vp_valid v, vp_decoded_proof v) of
             (True, Some d) \<Rightarrow>
               and_then (serialized_script_key N (na_script_key (np_asset tip))) (\<lambda>script_key.
                 if \<not> (is_asset_id_ref (lib.truncate N) (xi_asset_ref i) \<or>
                        asset_ref_equivalent (lib.truncate N) (dp_asset_ref d) (xi_asset_ref i)) \<or>
                    dp_issuance_id d \<noteq> issuance_id \<or> dp_amount d \<noteq> xi_amount i \<or>
                    dp_script_key d \<noteq> script_key \<or> dp_outpoint d \<noteq> nl_out_point N tip
                 then Inl (Plain ''input backend proof summary does not match the locally decoded proof'') else Inr ())
           | _ \<Rightarrow> Inl (Plain ''input proof chain is not valid'')))"

definition input_checks :: "u32 \<Rightarrow> custom_asset_input \<Rightarrow> verification_check list" where
  "input_checks index i =
     (case xi_proof_path i of
        None \<Rightarrow> [passed_check ''proof_chain_valid'' ''input_proof'' OriginBackend (Some index) []
                   ''backend verified the confirmed proof chain'']
      | Some path \<Rightarrow>
          [passed_check ''proof_chain_valid'' ''input_proof'' OriginHost (Some index) []
             ''host verified the confirmed proof base''] @
          (if path_steps path \<noteq> []
           then [passed_check ''unconfirmed_anchor_valid'' ''input_proof'' OriginHost (Some index) []
                   ''host attested every unconfirmed Bitcoin anchor'']
           else []) @
          [passed_check ''asset_proof_path_valid'' ''input_proof'' OriginLocal (Some index) []
             ''SDK verified the compact Taproot Assets path'']) @
     [passed_check ''proof_identity_valid'' ''asset_identity'' OriginLocal (Some index) []
        ''proof identity and exact amount match the request'']"

text \<open>One round of \<open>resolveInputs\<close>: the materials and the checks so far.\<close>

definition resolve_input ::
    "('k, 'g, 'f, 'y) native_lib_scheme \<Rightarrow> ('k, 'g, 'f, 'c, 'x) vpacket_lib_scheme \<Rightarrow> client \<Rightarrow> path_verifier option \<Rightarrow>
     ('k, 'g, 'f) input_material list \<times> verification_check list \<Rightarrow> custom_asset_input \<Rightarrow>
     (('k, 'g, 'f) input_material list \<times> verification_check list) io" where
  "resolve_input N V c verifier st i =
     (case st of (inputs, checks) \<Rightarrow>
        bind_io (lift_io (input_tip N verifier i)) (\<lambda>(tip, summary).
        bind_io (lift_io (tip_matches_request N i tip)) (\<lambda>ident.
        bind_io (case summary of
                   Some s \<Rightarrow> lift_io (path_summary_matches N tip ident s)
                 | None \<Rightarrow>
                     bind_io (try_io (call_io (VerifyProof (xi_proof_file i)) (\<lambda>h. c_verify_proof c h (xi_proof_file i)))) (\<lambda>r.
                       lift_io (and_then (wrap_with (\<lambda>e. Wrapf ''verify input proof chain: '' e []) r)
                                  (verified_proof_matches N i tip (fst (snd ident)))))) (\<lambda>_.
          let index = of_nat (length inputs);
              input = \<lparr>im_request_index = index, im_request = i, im_proof = tip, im_asset_ref = fst ident,
                       im_issuance_id = fst (snd ident), im_asset_type = snd (snd ident)\<rparr> in
          if \<exists>j \<in> set inputs. proof_prev_id N V (im_proof j) = proof_prev_id N V tip
          then lift_io (Inl (Plain ''input duplicates asset predecessor''))
          else return_io (inputs @ [input], checks @ input_checks index i)))))"

definition resolve_inputs ::
    "('k, 'g, 'f, 'y) native_lib_scheme \<Rightarrow> ('k, 'g, 'f, 'c, 'x) vpacket_lib_scheme \<Rightarrow> client \<Rightarrow> path_verifier option \<Rightarrow>
     custom_anchor_request \<Rightarrow> verification_check list \<Rightarrow> (('k, 'g, 'f) input_material list \<times> verification_check list) io" where
  "resolve_inputs N V c verifier r checks = for_io (resolve_input N V c verifier) ([], checks) (rq_inputs r)"

section \<open>Outputs\<close>

record 'k output_material =
  om_request_index :: u32
  om_request :: custom_asset_output
  om_internal_key :: 'k
  om_sibling :: "bytes option"
  om_script_key :: "'k script_key_gen"
  om_proof_url :: "string option"

definition parse_courier :: "('k, 'g, 'f, 'c, 'x) build_lib_scheme \<Rightarrow> string \<Rightarrow> string \<Rightarrow> string option result" where
  "parse_courier V what courier =
     (if courier = [] then Inr None
      else and_then (wrap_with (\<lambda>e. Wrapf what e []) (kb_parse_uri V courier)) (\<lambda>u. Inr (Some u)))"

text \<open>Whether the inputs of an asset come from several issuances.\<close>

definition multi_issuance :: "'k lib \<Rightarrow> ('k, 'g, 'f) input_material list \<Rightarrow> string \<Rightarrow> bool" where
  "multi_issuance L inputs ref \<longleftrightarrow>
     card (im_issuance_id ` {i \<in> set inputs. asset_key L (xi_asset_ref (im_request i)) = asset_key L ref}) > 1"

definition resolve_output ::
    "'k lib \<Rightarrow> ('k, 's, 'z) btc_lib_scheme \<Rightarrow> ('k, 'g, 'f, 'c, 'x) build_lib_scheme \<Rightarrow> client \<Rightarrow>
     ('k, 'g, 'f) input_material list \<Rightarrow> 'k output_material list \<Rightarrow> custom_asset_output \<Rightarrow> 'k output_material list io" where
  "resolve_output L B V c inputs outputs out =
     (if unat (xo_anchor_value_sat out) > 2 ^ 63 - 1 then lift_io (Inl (Plain ''output anchor value exceeds int64''))
      else if \<exists>o1 \<in> set outputs. asset_key L (xo_asset_ref (om_request o1)) = asset_key L (xo_asset_ref out) \<and>
                xo_anchor_output_index (om_request o1) = xo_anchor_output_index out
      then lift_io (Inl (Plain ''output duplicates asset ref and anchor output index''))
      else
        bind_io (lift_io (wrap_with (\<lambda>e. Wrapf ''parse output anchor internal key: '' e [])
                   (btcec_parse_pub_key L (ik_pub_key (aop_internal_key (xo_anchor out)))))) (\<lambda>internal_key.
        bind_io (lift_io (wrap_with (\<lambda>e. Wrapf ''build output anchor sibling: '' e [])
                   (anchor_sibling V (aop_tapscript (xo_anchor out))))) (\<lambda>sibling.
        bind_io (try_io (custom_asset_script_key L B V c (xo_script out) (multi_issuance L inputs (xo_asset_ref out)))) (\<lambda>key.
        bind_io (lift_io (wrap_with (\<lambda>e. Wrapf ''build output asset script: '' e []) key)) (\<lambda>script_key.
        bind_io (lift_io (parse_courier V ''parse output proof courier: '' (pd_courier_address (xo_proof_delivery out)))) (\<lambda>url.
          return_io (outputs @ [\<lparr>om_request_index = of_nat (length outputs), om_request = out, om_internal_key = internal_key,
                                 om_sibling = sibling, om_script_key = script_key, om_proof_url = url\<rparr>])))))))"

definition resolve_outputs ::
    "'k lib \<Rightarrow> ('k, 's, 'z) btc_lib_scheme \<Rightarrow> ('k, 'g, 'f, 'c, 'x) build_lib_scheme \<Rightarrow> client \<Rightarrow>
     custom_anchor_request \<Rightarrow> ('k, 'g, 'f) input_material list \<Rightarrow> 'k output_material list io" where
  "resolve_outputs L B V c r inputs = for_io (resolve_output L B V c inputs) [] (rq_outputs r)"

section \<open>Active packets\<close>

definition material_for ::
    "('k, 'g, 'f, 'y) native_lib_scheme \<Rightarrow> ('k, 'g, 'f, 'c, 'x) vpacket_lib_scheme \<Rightarrow> ('k, 'g, 'f) input_material list \<Rightarrow>
     prev_id \<Rightarrow> ('k, 'g, 'f) input_material option" where
  "material_for N V inputs pid = find (\<lambda>i. proof_prev_id N V (im_proof i) = pid) inputs"

definition packet_witness_mode ::
    "('k, 'g, 'f, 'y) native_lib_scheme \<Rightarrow> ('k, 'g, 'f, 'c, 'x) vpacket_lib_scheme \<Rightarrow> ('k, 'g, 'f) input_material list \<Rightarrow>
     ('k, 'g, 'f) tap_vpacket \<Rightarrow> witness_mode result" where
  "packet_witness_mode N V inputs packet =
     fold_res (\<lambda>mode vin.
       let input_mode = (case material_for N V inputs (tvi_prev_id vin) of
             None \<Rightarrow> WitnessUnspecified | Some i \<Rightarrow> wp_mode (xi_witness (im_request i))) in
       if input_mode = WitnessUnspecified then Inl (Plain ''virtual packet input has no witness mode mapping'')
       else if mode = WitnessUnspecified then Inr input_mode
       else if mode \<noteq> input_mode then Inl (Plain ''virtual packet mixes backend and caller asset witness modes'')
       else Inr mode) WitnessUnspecified (tvp_inputs packet)"

text \<open>The witnesses of a packet's inputs; an input without a request was refused with the mode.\<close>

definition request_witnesses ::
    "('k, 'g, 'f, 'y) native_lib_scheme \<Rightarrow> ('k, 'g, 'f, 'c, 'x) vpacket_lib_scheme \<Rightarrow> ('k, 'g, 'f) input_material list \<Rightarrow>
     ('k, 'g, 'f) tap_vpacket \<Rightarrow> prev_id \<Rightarrow> bytes list option" where
  "request_witnesses N V inputs packet pid =
     (if pid \<in> set (map tvi_prev_id (tvp_inputs packet))
      then map_option (\<lambda>i. wp_stack (xi_witness (im_request i))) (material_for N V inputs pid) else None)"

definition apply_asset_witnesses ::
    "('k, 'g, 'f, 'y) native_lib_scheme \<Rightarrow> ('k, 'g, 'f, 'c, 'x) vpacket_lib_scheme \<Rightarrow> ('k, 'g, 'f) input_material list \<Rightarrow>
     ('k, 'g, 'f) tap_vpacket \<Rightarrow> ('k, 'g, 'f) tap_vpacket result" where
  "apply_asset_witnesses N V inputs packet =
     and_then (packet_witness_mode N V inputs packet) (\<lambda>mode.
       if mode = WitnessBackendSigner then Inr packet
       else apply_caller_witnesses V packet (request_witnesses N V inputs packet))"

text \<open>\<open>resolveInputSigningKeys\<close> on one input; the key keeps the point of the proof.\<close>

definition signing_key_for ::
    "'k lib \<Rightarrow> ('k, 'g, 'f, 'c, 'x) build_lib_scheme \<Rightarrow> 'k \<Rightarrow> script_key option \<Rightarrow> 'k asset_script_key result" where
  "signing_key_for L V proof_key resolved =
     (case resolved of
        None \<Rightarrow> Inl (Plain ''wallet returned no key for input signing key'')
      | Some k \<Rightarrow>
          (if sk_tap_tweak k \<noteq> [] \<and> length (sk_tap_tweak k) \<noteq> 32
           then Inl (Plain ''input signing key has a tweak of the wrong size'')
           else
             and_then (wrap_with (\<lambda>e. Wrapf ''input signing key metadata: '' e []) (tap_asset_script_key L V k)) (\<lambda>key.
               case ak_tweaked key of
                 None \<Rightarrow> Inl (Plain ''input signing key has no raw key derivation'')
               | Some t \<Rightarrow>
                   (if schnorr_serialize_pub_key L (ak_pub_key key) \<noteq> schnorr_serialize_pub_key L proof_key
                    then Inl (Plain ''wallet returned another key for input signing key'')
                    else if schnorr_serialize_pub_key L (compute_taproot_output_key L (tk_raw_key t) (tk_tweak t)) \<noteq>
                            schnorr_serialize_pub_key L proof_key
                    then Inl (Plain ''input raw key and tweak do not derive signing key'')
                    else Inr (key\<lparr>ak_pub_key := proof_key\<rparr>)))))"

definition resolve_signing_key ::
    "'k lib \<Rightarrow> ('k, 'g, 'f, 'c, 'x) build_lib_scheme \<Rightarrow> client \<Rightarrow> ('k, 'g, 'f) tap_vinput list \<Rightarrow> ('k, 'g, 'f) tap_vinput \<Rightarrow>
     ('k, 'g, 'f) tap_vinput list io" where
  "resolve_signing_key L V c acc vin =
     (case (case tvi_asset vin of None \<Rightarrow> None | Some a \<Rightarrow> na_script_key a) of
        None \<Rightarrow> lift_io (Inl (Plain ''nil pointer dereference''))
      | Some proof_key \<Rightarrow>
          (let key_bytes = schnorr_serialize_pub_key L proof_key in
           bind_io (try_io (call_io (QueryScriptKey key_bytes) (\<lambda>h. c_query_script_key c h key_bytes))) (\<lambda>r.
           bind_io (lift_io (and_then (wrap_with (\<lambda>e. Wrapf ''resolve input signing key: '' e []) r) (signing_key_for L V proof_key))) (\<lambda>key.
             return_io (acc @ [kb_set_input_key V key vin])))))"

definition resolve_signing_keys ::
    "'k lib \<Rightarrow> ('k, 'g, 'f, 'c, 'x) build_lib_scheme \<Rightarrow> client \<Rightarrow> ('k, 'g, 'f) tap_vpacket \<Rightarrow> ('k, 'g, 'f) tap_vpacket io" where
  "resolve_signing_keys L V c packet =
     bind_io (for_io (resolve_signing_key L V c) [] (tvp_inputs packet)) (\<lambda>ins. return_io (packet\<lparr>tvp_inputs := ins\<rparr>))"

text \<open>One packet of a group: burn keys, output assets, witnesses, signing keys.\<close>

definition set_burn_keys ::
    "('k, 'g, 'f, 'c, 'x) build_lib_scheme \<Rightarrow> u32 set \<Rightarrow> ('k, 'g, 'f) tap_vpacket \<Rightarrow> ('k, 'g, 'f) tap_vpacket" where
  "set_burn_keys V burn_outputs packet =
     packet\<lparr>tvp_outputs := map (\<lambda>out.
       if tvo_anchor_output_index out \<in> burn_outputs
       then out\<lparr>tvo_script_key := Some (ak_pub_key (new_script_key V (kb_burn_key V (tvi_prev_id (hd (tvp_inputs packet))))))\<rparr>
       else out) (tvp_outputs packet)\<rparr>"

definition build_group_packet ::
    "('k, 'g, 'f, 'y) native_lib_scheme \<Rightarrow> ('k, 'g, 'f, 'c, 'x) build_lib_scheme \<Rightarrow> client \<Rightarrow>
     ('k, 'g, 'f) input_material list \<Rightarrow> u32 set \<Rightarrow> ('k, 'g, 'f) tap_vpacket list \<times> bool list \<Rightarrow>
     ('k, 'g, 'f) tap_vpacket \<Rightarrow> (('k, 'g, 'f) tap_vpacket list \<times> bool list) io" where
  "build_group_packet N V c inputs burn_outputs acc packet =
     (if tvp_inputs packet = [] then lift_io (Inl (Plain ''virtual packet has no inputs''))
      else
        bind_io (lift_io (wrap_with (\<lambda>e. Wrapf ''prepare virtual packet output assets: '' e [])
                   (kb_prepare_outputs V (set_burn_keys V burn_outputs packet)))) (\<lambda>prepared.
        bind_io (lift_io (apply_asset_witnesses N V inputs prepared)) (\<lambda>witnessed.
        bind_io (lift_io (packet_witness_mode N V inputs witnessed)) (\<lambda>mode.
        bind_io (if mode = WitnessBackendSigner then resolve_signing_keys (lib.truncate N) V c witnessed
                 else return_io witnessed) (\<lambda>ready.
          return_io (fst acc @ [ready], snd acc @ [mode = WitnessBackendSigner]))))))"

definition output_allocation ::
    "'k lib \<Rightarrow> ('k, 'g, 'f, 'c, 'x) build_lib_scheme \<Rightarrow> wallet \<Rightarrow> 'k output_material \<Rightarrow> 'k allocation" where
  "output_allocation L V w out =
     (let r = om_request out; ds = anchor_key_derivations L V (aop_internal_key (xo_anchor r)) (w_coin_type w) in
      \<lparr>al_output_index = xo_anchor_output_index r, al_internal_key = om_internal_key out, al_bip32 = fst ds,
       al_tr_bip32 = snd ds, al_sibling = om_sibling out, al_gen_script_key = om_script_key out,
       al_amount = xo_amount r, al_btc_amount = sint (xo_anchor_value_sat r), al_proof_url = om_proof_url out\<rparr>)"

definition group_inputs :: "'k lib \<Rightarrow> string \<Rightarrow> ('k, 'g, 'f) input_material list \<Rightarrow> ('k, 'g, 'f) input_material list" where
  "group_inputs L key inputs = filter (\<lambda>i. asset_key L (xi_asset_ref (im_request i)) = key) inputs"

definition group_outputs :: "'k lib \<Rightarrow> string \<Rightarrow> 'k output_material list \<Rightarrow> 'k output_material list" where
  "group_outputs L key outputs = filter (\<lambda>out. asset_key L (xo_asset_ref (om_request out)) = key) outputs"

definition group_keys :: "'k lib \<Rightarrow> ('k, 'g, 'f) input_material list \<Rightarrow> string list" where
  "group_keys L inputs = sort (remdups (map (\<lambda>i. asset_key L (xi_asset_ref (im_request i))) inputs))"

definition build_group ::
    "('k, 'g, 'f, 'y) native_lib_scheme \<Rightarrow> ('k, 'g, 'f, 'c, 'x) build_lib_scheme \<Rightarrow> wallet \<Rightarrow>
     ('k, 'g, 'f) input_material list \<Rightarrow> 'k output_material list \<Rightarrow> ('k, 'g, 'f) tap_vpacket list \<times> bool list \<Rightarrow> string \<Rightarrow>
     (('k, 'g, 'f) tap_vpacket list \<times> bool list) io" where
  "build_group N V w inputs outputs acc key =
     (let L = lib.truncate N; ins = group_inputs L key inputs; outs = group_outputs L key outputs in
      if outs = [] then lift_io (Inl (Plain ''asset input group has no matching outputs''))
      else
        bind_io (lift_io (wrap_with (\<lambda>e. Wrapf ''distribute asset group: '' e [])
                   (kb_distribute V (map im_proof ins) (map (output_allocation L V w) outs) (w_network_hrp w)))) (\<lambda>packets.
          for_io (build_group_packet N V (w_client w) ins
                    (xo_anchor_output_index ` om_request ` {out \<in> set outs. sl_mode (xo_script (om_request out)) = ScriptBurn}))
            acc packets))"

section \<open>Mapping the outputs\<close>

definition expected_script_key ::
    "('k, 'g, 'f, 'c, 'x) build_lib_scheme \<Rightarrow> prev_id \<Rightarrow> bytes \<Rightarrow> 'k output_material \<Rightarrow> 'k asset_script_key result" where
  "expected_script_key V first_prev_id issuance out =
     (if sl_mode (xo_script (om_request out)) = ScriptBurn then Inr (new_script_key V (kb_burn_key V first_prev_id))
      else wrap_with (\<lambda>e. Wrapf ''derive logical output script key: '' e []) (om_script_key out issuance))"

text \<open>The first requested output whose index, asset and script key are those of the virtual output.\<close>

fun find_requested ::
    "('k, 'g, 'f, 'y) native_lib_scheme \<Rightarrow> ('k, 'g, 'f, 'c, 'x) build_lib_scheme \<Rightarrow> prev_id \<Rightarrow> bytes \<Rightarrow> string \<Rightarrow>
     ('k, 'g, 'f) tap_voutput \<Rightarrow> 'k output_material list \<Rightarrow> 'k output_material option result" where
  "find_requested N V pid issuance actual_ref vout [] = Inr None"
| "find_requested N V pid issuance actual_ref vout (out # outs) =
     (if xo_anchor_output_index (om_request out) \<noteq> tvo_anchor_output_index vout \<or>
         \<not> ref_matches_issuance (lib.truncate N) (xo_asset_ref (om_request out)) actual_ref issuance
      then find_requested N V pid issuance actual_ref vout outs
      else and_then (expected_script_key V pid issuance out) (\<lambda>key.
        if keys_equal N (Some (ak_pub_key key)) (tvo_script_key vout) then Inr (Some out)
        else find_requested N V pid issuance actual_ref vout outs))"

definition op_true_spend_for ::
    "('k, 'g, 'f, 'y) native_lib_scheme \<Rightarrow> ('k, 's, 'z) btc_lib_scheme \<Rightarrow> ('k, 'g, 'f, 'c, 'x) build_lib_scheme \<Rightarrow> bytes \<Rightarrow>
     ('k, 'g, 'f) tap_voutput \<Rightarrow> 'k output_material \<Rightarrow> op_true_spend_info option result" where
  "op_true_spend_for N B V issuance vout out =
     (if sl_mode (xo_script (om_request out)) \<noteq> ScriptOPTrue then Inr None
      else case sl_op_true (xo_script (om_request out)) of
        None \<Rightarrow> Inl (Plain ''nil pointer dereference'')
      | Some k \<Rightarrow>
          and_then (wrap_with (\<lambda>e. Wrapf ''parse output OP_TRUE internal key: '' e []) (btcec_parse_pub_key N (kd_raw_key_bytes k)))
            (\<lambda>internal_key.
          and_then (wrap_with (\<lambda>e. Wrapf ''derive output OP_TRUE spend info: '' e [])
                      (op_true_script_key (lib.truncate N) B V internal_key (kd_locator k) issuance)) (\<lambda>(key, info).
            if \<not> keys_equal N (Some (ak_pub_key key)) (tvo_script_key vout)
            then Inl (Plain ''output OP_TRUE script key does not match its spend info'') else Inr (Some info))))"

text \<open>One virtual output: its planned output, and the amount mapped to its request.\<close>

definition map_voutput ::
    "('k, 'g, 'f, 'y) native_lib_scheme \<Rightarrow> ('k, 's, 'z) btc_lib_scheme \<Rightarrow> ('k, 'g, 'f, 'c, 'x) build_lib_scheme \<Rightarrow>
     'k output_material list \<Rightarrow> prev_id \<Rightarrow> bytes \<Rightarrow> byte \<Rightarrow> nat \<Rightarrow> nat \<Rightarrow> planned_output list \<times> (u32 \<Rightarrow> u64) \<Rightarrow>
     ('k, 'g, 'f) tap_voutput \<Rightarrow> (planned_output list \<times> (u32 \<Rightarrow> u64)) result" where
  "map_voutput N B V outputs pid issuance asset_type packet_idx output_idx acc vout =
     and_then (asset_identity N (tvo_asset vout)) (\<lambda>(actual_ref, _, _).
     and_then (find_requested N V pid issuance actual_ref vout outputs) (\<lambda>requested.
       case requested of
         None \<Rightarrow> Inl (Plain ''virtual packet output has no logical output mapping'')
       | Some out \<Rightarrow>
           and_then (serialized_script_key N (tvo_script_key vout)) (\<lambda>script_key.
           and_then (op_true_spend_for N B V issuance vout out) (\<lambda>spend.
           and_then (wrap_with (\<lambda>e. Wrapf ''mapped output amount: '' e [])
                       (checked_add (snd acc (om_request_index out)) (tvo_amount vout))) (\<lambda>amount.
             let r = om_request out in
             Inr (fst acc @
                  [\<lparr>ppo_logical_id = xo_id r, ppo_request_index = om_request_index out, ppo_packet_role = RoleActive,
                    ppo_packet_index = of_nat packet_idx, ppo_virtual_output = of_nat output_idx,
                    ppo_anchor_output = tvo_anchor_output_index vout, ppo_asset_ref = xo_asset_ref r,
                    ppo_issuance_id = issuance, ppo_asset_type = asset_type, ppo_amount = tvo_amount vout,
                    ppo_anchor_value_sat = xo_anchor_value_sat r, ppo_script_key = script_key,
                    ppo_script_mode = sl_mode (xo_script r),
                    ppo_proof_delivery = (xo_proof_delivery r)\<lparr>pd_courier_address := courier_string (tvo_courier vout)\<rparr>,
                    ppo_op_true_spend = spend\<rparr>],
                  (snd acc)(om_request_index out := amount)))))))"

definition map_packet_outputs ::
    "('k, 'g, 'f, 'y) native_lib_scheme \<Rightarrow> ('k, 's, 'z) btc_lib_scheme \<Rightarrow> ('k, 'g, 'f, 'c, 'x) build_lib_scheme \<Rightarrow>
     'k output_material list \<Rightarrow> nat \<Rightarrow> planned_output list \<times> (u32 \<Rightarrow> u64) \<Rightarrow> ('k, 'g, 'f) tap_vpacket \<Rightarrow>
     (planned_output list \<times> (u32 \<Rightarrow> u64)) result" where
  "map_packet_outputs N B V outputs packet_idx acc packet =
     and_then (vl_packet_asset_id V packet) (\<lambda>issuance.
       case tvp_inputs packet of
         [] \<Rightarrow> Inl (Plain ''virtual packet has no input asset'')
       | vin # _ \<Rightarrow>
           (if tvi_asset vin = None then Inl (Plain ''virtual packet has no input asset'')
            else
              and_then (asset_identity N (tvi_asset vin)) (\<lambda>(_, _, asset_type).
                fold_idx (map_voutput N B V outputs (tvi_prev_id vin) issuance asset_type packet_idx) 0 acc (tvp_outputs packet))))"

definition map_outputs ::
    "('k, 'g, 'f, 'y) native_lib_scheme \<Rightarrow> ('k, 's, 'z) btc_lib_scheme \<Rightarrow> ('k, 'g, 'f, 'c, 'x) build_lib_scheme \<Rightarrow>
     'k output_material list \<Rightarrow> ('k, 'g, 'f) tap_vpacket list \<Rightarrow> planned_output list result" where
  "map_outputs N B V outputs packets =
     and_then (fold_idx (map_packet_outputs N B V outputs) 0 ([], \<lambda>_. 0) packets) (\<lambda>(planned, mapped).
     and_then (fold_res (\<lambda>_ out. if mapped (om_request_index out) \<noteq> xo_amount (om_request out)
                 then Inl (Plain ''logical output mapped amount differs'') else Inr ()) () outputs) (\<lambda>_.
       Inr planned))"

definition build_active_packets ::
    "('k, 'g, 'f, 'y) native_lib_scheme \<Rightarrow> ('k, 's, 'z) btc_lib_scheme \<Rightarrow> ('k, 'g, 'f, 'c, 'x) build_lib_scheme \<Rightarrow> wallet \<Rightarrow>
     ('k, 'g, 'f) input_material list \<Rightarrow> 'k output_material list \<Rightarrow>
     (('k, 'g, 'f) tap_vpacket list \<times> planned_output list \<times> bool list) io" where
  "build_active_packets N B V w inputs outputs =
     bind_io (for_io (build_group N V w inputs outputs) ([], []) (group_keys (lib.truncate N) inputs)) (\<lambda>(packets, backend_signing).
     bind_io (lift_io (map_outputs N B V outputs packets)) (\<lambda>planned.
       return_io (packets, planned, backend_signing)))"

end
