(* ===== verification/Tap_AnchorBuilder.thy ===== *)
theory Tap_AnchorBuilder
  imports Tap_AnchorBuild
begin

text \<open>
  The passive packets of a custom-anchor request, the maps of virtual inputs to the request, and the
  whole \<open>Build\<close> (\<open>custom_anchor_builder.go\<close>). Decoded packets have no nil input or output.
\<close>

section \<open>Passive packets\<close>

definition passive_identity_kept ::
    "('k, 'g, 'f, 'y) native_lib_scheme \<Rightarrow> ('k, 'g) native_asset \<Rightarrow> ('k, 'g) native_asset \<Rightarrow> unit result" where
  "passive_identity_kept N inp out =
     (if na_type out \<noteq> na_type inp \<or> na_genesis out \<noteq> na_genesis inp \<or>
         \<not> nl_group_is_equal N (na_group_key inp) (na_group_key out)
      then Inl (Plain ''passive output changed immutable asset identity'') else Inr ())"

definition shares_active_anchor :: "outpoint \<Rightarrow> ('k, 'g, 'f) tap_vpacket list \<Rightarrow> bool" where
  "shares_active_anchor op active \<longleftrightarrow>
     (\<exists>packet \<in> set active. \<exists>vin \<in> set (tvp_inputs packet). pid_outpoint (tvi_prev_id vin) = op)"

definition same_passive_output ::
    "('k, 'g, 'f, 'y) native_lib_scheme \<Rightarrow> ('k, 'g, 'f) tap_voutput \<Rightarrow> ('k, 'g, 'f) tap_voutput \<Rightarrow> bool" where
  "same_passive_output N left right \<longleftrightarrow>
     tvo_anchor_output_index left = tvo_anchor_output_index right \<and>
     keys_equal N (tvo_anchor_internal_key left) (tvo_anchor_internal_key right) \<and> tvo_sibling left = tvo_sibling right"

definition matches_active_anchor ::
    "('k, 'g, 'f, 'y) native_lib_scheme \<Rightarrow> ('k, 'g, 'f) tap_voutput \<Rightarrow> ('k, 'g, 'f) tap_vpacket list \<Rightarrow> bool" where
  "matches_active_anchor N passive active \<longleftrightarrow>
     (\<exists>packet \<in> set active. \<exists>out \<in> set (tvp_outputs packet). same_passive_output N passive out)"

record ('k, 'g, 'f) passive_material =
  pm_request_index :: u32
  pm_request :: passive_packet
  pm_packet :: "('k, 'g, 'f) tap_vpacket"
  pm_proof :: "('k, 'g, 'f) native_proof"
  pm_asset_ref :: string
  pm_issuance_id :: bytes
  pm_asset_type :: byte

text \<open>The shape of a decoded passive packet: its one input and output with their assets.\<close>

definition passive_shape ::
    "('k, 'g, 'f, 'y) native_lib_scheme \<Rightarrow> ('k, 'g, 'f, 'c, 'x) vpacket_lib_scheme \<Rightarrow> ('k, 'g, 'f) tap_vpacket \<Rightarrow>
     (('k, 'g, 'f) tap_vinput \<times> ('k, 'g, 'f) tap_voutput) result" where
  "passive_shape N V packet =
     (if tvp_version packet \<noteq> vl_packet_v1 V then Inl (Plain ''passive packet must use virtual packet V1'')
      else case (tvp_inputs packet, tvp_outputs packet) of
        ([vin], [out]) \<Rightarrow> Inr (vin, out)
      | _ \<Rightarrow> Inl (Plain ''passive packet must have exactly one input and one output''))"

text \<open>The comparisons of a passive packet with the proof tip and the request.\<close>

definition passive_assets_kept ::
    "('k, 'g, 'f, 'y) native_lib_scheme \<Rightarrow> ('k, 'g, 'f, 'c, 'x) build_lib_scheme \<Rightarrow> passive_packet \<Rightarrow>
     ('k, 'g, 'f) native_proof \<Rightarrow> ('k, 'g, 'f) tap_vinput \<Rightarrow> ('k, 'g, 'f) tap_voutput \<Rightarrow>
     ('k, 'g) native_asset \<Rightarrow> ('k, 'g) native_asset \<Rightarrow> unit result" where
  "passive_assets_kept N V planned tip vin out a b =
     (if na_version a \<noteq> nl_asset_v1 N \<or> tvo_asset_version out \<noteq> nl_asset_v1 N \<or> na_version b \<noteq> nl_asset_v1 N \<or>
         tvo_type out \<noteq> VOutSimple \<or> \<not> tvo_interactive out \<or> tvo_split_asset out \<noteq> None
      then Inl (Plain ''passive packet must be a simple interactive V1 reanchor'')
      else if na_lock_time a \<noteq> 0 \<or> na_relative_lock_time a \<noteq> 0 \<or> na_lock_time b \<noteq> 0 \<or> na_relative_lock_time b \<noteq> 0
      then Inl (Plain ''passive packet asset timelocks are not supported'')
      else
        and_then (parse_courier V ''parse passive packet proof courier: '' (pd_courier_address (pk_proof_delivery planned))) (\<lambda>url.
          if url \<noteq> tvo_courier out then Inl (Plain ''passive packet proof courier does not match requested delivery'')
          else if tvi_prev_id vin \<noteq> proof_prev_id N V tip then Inl (Plain ''passive packet input does not match its proof tip'')
          else if \<not> vl_asset_equal V a (np_asset tip)
          then Inl (Plain ''passive packet input asset does not match its proof tip'')
          else
            and_then (wrap_with (\<lambda>e. Wrapf ''passive packet: '' e []) (passive_identity_kept N a b)) (\<lambda>_.
              if na_amount a \<noteq> pk_amount planned \<or> tvo_amount out \<noteq> pk_amount planned \<or> na_amount b \<noteq> pk_amount planned
              then Inl (Plain ''passive packet amount does not match requested'')
              else if \<not> keys_equal N (na_script_key a) (tvo_script_key out) \<or> \<not> keys_equal N (na_script_key a) (na_script_key b)
              then Inl (Plain ''passive packet changed the asset script key'') else Inr ())))"

definition passive_backend_ok ::
    "('k, 'g, 'f, 'y) native_lib_scheme \<Rightarrow> passive_packet \<Rightarrow> ('k, 'g, 'f) native_proof \<Rightarrow> bytes \<Rightarrow>
     verify_proof_response option \<Rightarrow> unit result" where
  "passive_backend_ok N planned tip issuance_id verified =
     and_then (serialized_script_key N (na_script_key (np_asset tip))) (\<lambda>script_key.
       case verified of
         Some v \<Rightarrow>
           (case (vp_valid v, vp_decoded_proof v) of
              (True, Some d) \<Rightarrow>
                (if dp_issuance_id d = issuance_id \<and> dp_amount d = pk_amount planned \<and> dp_script_key d = script_key \<and>
                    dp_outpoint d = nl_out_point N tip
                 then Inr () else Inl (Plain ''passive packet backend proof summary does not match the locally decoded proof''))
            | _ \<Rightarrow> Inl (Plain ''passive packet backend proof summary does not match the locally decoded proof''))
       | None \<Rightarrow> Inl (Plain ''passive packet backend proof summary does not match the locally decoded proof''))"

text \<open>What is checked of a passive packet before the daemon is asked: the material of the packet.\<close>

definition passive_material_of ::
    "('k, 'g, 'f, 'y) native_lib_scheme \<Rightarrow> ('k, 'g, 'f, 'c, 'x) build_lib_scheme \<Rightarrow> ('k, 'g, 'f) tap_vpacket list \<Rightarrow>
     u32 \<Rightarrow> passive_packet \<Rightarrow> ('k, 'g, 'f) passive_material result" where
  "passive_material_of N V active index planned =
     and_then (wrap_with (\<lambda>e. Wrapf ''decode passive packet: '' e []) (vl_decode V (pk_virtual_psbt planned))) (\<lambda>packet.
     and_then (passive_shape N V packet) (\<lambda>(vin, out).
     and_then (wrap_with (\<lambda>e. Wrapf ''decode passive packet proof file: '' e []) (nl_decode_file N (pk_proof_file planned))) (\<lambda>f.
     and_then (wrap_with (\<lambda>e. Wrapf ''read passive packet proof tip: '' e []) (nl_last_proof N f)) (\<lambda>tip.
       case (tvi_asset vin, tvo_asset out) of
         (Some a, Some b) \<Rightarrow>
           and_then (passive_assets_kept N V planned tip vin out a b) (\<lambda>_.
           and_then (asset_identity N (Some a)) (\<lambda>(actual_ref, issuance_id, asset_type).
             if \<not> asset_ref_equivalent (lib.truncate N) (pk_asset_ref planned) actual_ref
             then Inl (Plain ''passive packet asset ref does not match'')
             else if \<not> shares_active_anchor (pid_outpoint (tvi_prev_id vin)) active
             then Inl (Plain ''passive packet input is not co-anchored with an active input'')
             else if \<not> matches_active_anchor N out active
             then Inl (Plain ''passive packet output does not reuse an active anchor output'')
             else
               and_then (wrap_with (\<lambda>e. Wrapf ''passive packet: '' e []) (validate_packet_witnesses V packet)) (\<lambda>_.
                 Inr \<lparr>pm_request_index = index, pm_request = planned, pm_packet = packet, pm_proof = tip,
                      pm_asset_ref = actual_ref, pm_issuance_id = issuance_id, pm_asset_type = asset_type\<rparr>)))
       | _ \<Rightarrow> Inl (Plain ''passive packet asset is missing'')))))"

definition resolve_passive_packet ::
    "('k, 'g, 'f, 'y) native_lib_scheme \<Rightarrow> ('k, 'g, 'f, 'c, 'x) build_lib_scheme \<Rightarrow> client \<Rightarrow> ('k, 'g, 'f) tap_vpacket list \<Rightarrow>
     ('k, 'g, 'f) passive_material list \<times> verification_check list \<Rightarrow> passive_packet \<Rightarrow>
     (('k, 'g, 'f) passive_material list \<times> verification_check list) io" where
  "resolve_passive_packet N V c active st planned =
     (case st of (materials, checks) \<Rightarrow>
        let index = of_nat (length materials) in
        bind_io (lift_io (passive_material_of N V active index planned)) (\<lambda>m.
        bind_io (try_io (call_io (VerifyProof (pk_proof_file planned)) (\<lambda>h. c_verify_proof c h (pk_proof_file planned)))) (\<lambda>r.
        bind_io (lift_io (and_then (wrap_with (\<lambda>e. Wrapf ''verify passive packet proof chain: '' e []) r)
                            (passive_backend_ok N planned (pm_proof m) (pm_issuance_id m)))) (\<lambda>_.
          return_io (materials @ [m],
            checks @ [passed_check ''proof_chain_valid'' ''passive_assets'' OriginBackend (Some index) (pk_id planned)
                        ''backend verified the passive proof chain'']))))) "

definition passive_outputs_shared :: "('k, 'g, 'f, 'y) native_lib_scheme \<Rightarrow> ('k, 'g, 'f) tap_vpacket list \<Rightarrow> unit result" where
  "passive_outputs_shared N packets =
     (case packets of
        [] \<Rightarrow> Inr ()
      | first # rest \<Rightarrow>
          fold_res (\<lambda>_ packet. if \<not> same_passive_output N (hd (tvp_outputs first)) (hd (tvp_outputs packet))
            then Inl (Plain ''passive packet does not use the shared passive anchor output'') else Inr ()) () rest)"

definition resolve_passive_packets ::
    "('k, 'g, 'f, 'y) native_lib_scheme \<Rightarrow> ('k, 'g, 'f, 'c, 'x) build_lib_scheme \<Rightarrow> client \<Rightarrow> passive_assets \<Rightarrow>
     ('k, 'g, 'f) tap_vpacket list \<Rightarrow> verification_check list \<Rightarrow>
     (('k, 'g, 'f) passive_material list \<times> verification_check list) io" where
  "resolve_passive_packets N V c plan active checks =
     (case pa_policy plan of
        PassiveReject \<Rightarrow> return_io ([], checks)
      | PassivePreserve \<Rightarrow>
          lift_io (Inl (Plain ''backend-discovered passive preservation is not supported for proof-selected inputs; provide every passive packet with caller re-anchor policy''))
      | PassiveOther _ \<Rightarrow> lift_io (Inl (Plain ''unknown passive asset policy''))
      | PassiveCallerReanchor \<Rightarrow>
          bind_io (for_io (resolve_passive_packet N V c active) ([], checks) (pa_packets plan)) (\<lambda>(materials, checks1).
          bind_io (lift_io (passive_outputs_shared N (map pm_packet materials))) (\<lambda>_.
            return_io (materials, checks1))))"

section \<open>Mapping the inputs\<close>

definition request_proof_source ::
    "('k, 'g, 'f, 'y) native_lib_scheme \<Rightarrow> ('k, 's, 'z) btc_lib_scheme \<Rightarrow> custom_asset_input \<Rightarrow> proof_source result" where
  "request_proof_source N B i =
     (case xi_proof_path i of
        Some path \<Rightarrow>
          and_then (wrap_with (\<lambda>e. Wrapf ''proof path content ID: '' e []) (path_content_id N path)) (\<lambda>content_id.
          and_then (wrap_with (\<lambda>e. Wrapf ''encode proof path: '' e []) (marshal_binary N path)) (\<lambda>blob.
            Inr \<lparr>psm_kind = ProofSourceCompactPath, psm_content_id = content_id, psm_blob = blob\<rparr>))
      | None \<Rightarrow>
          Inr \<lparr>psm_kind = ProofSourceConfirmedFile, psm_content_id = anchor_digest B proof_file_domain (xi_proof_file i),
               psm_blob = xi_proof_file i\<rparr>)"

text \<open>The script key was parsed when the input was resolved; its error is ignored here.\<close>

definition input_summary_of ::
    "('k, 'g, 'f, 'y) native_lib_scheme \<Rightarrow> ('k, 's, 'z) btc_lib_scheme \<Rightarrow> ('k, 'g, 'f) input_material \<Rightarrow> input_summary result" where
  "input_summary_of N B i =
     and_then (request_proof_source N B (im_request i)) (\<lambda>src.
       Inr \<lparr>cin_logical_id = xi_id (im_request i), cin_logical_index = im_request_index i, cin_packet_index = 0,
            cin_packet_role = RoleActive, cin_virtual_index = 0, cin_anchor_index = 0,
            cin_asset_ref = xi_asset_ref (im_request i), cin_issuance_id = im_issuance_id i,
            cin_asset_type = im_asset_type i, cin_anchor_outpoint = nl_out_point N (im_proof i),
            cin_script_key = (case serialized_script_key N (na_script_key (np_asset (im_proof i))) of
                                Inl _ \<Rightarrow> zero_pub_key | Inr k \<Rightarrow> k),
            cin_amount = xi_amount (im_request i), cin_proof_source = src\<rparr>)"

text \<open>The position of the first input with a predecessor; \<open>None\<close> is the index -1.\<close>

definition input_position ::
    "('k, 'g, 'f, 'y) native_lib_scheme \<Rightarrow> ('k, 'g, 'f, 'c, 'x) vpacket_lib_scheme \<Rightarrow> ('k, 'g, 'f) input_material list \<Rightarrow>
     prev_id \<Rightarrow> nat option" where
  "input_position N V inputs pid =
     find (\<lambda>k. proof_prev_id N V (im_proof (inputs ! k)) = pid) [0 ..< length inputs]"

text \<open>The summaries found so far, by input; \<open>seen\<close> of the code is where there is one.\<close>

definition map_vinput ::
    "('k, 'g, 'f, 'y) native_lib_scheme \<Rightarrow> ('k, 's, 'z) btc_lib_scheme \<Rightarrow> ('k, 'g, 'f, 'c, 'x) vpacket_lib_scheme \<Rightarrow> psbt_packet \<Rightarrow>
     ('k, 'g, 'f) input_material list \<Rightarrow> nat \<Rightarrow> nat \<Rightarrow> input_summary option list \<Rightarrow> ('k, 'g, 'f) tap_vinput \<Rightarrow>
     input_summary option list result" where
  "map_vinput N B V anchor inputs packet_idx input_idx found vin =
     (case input_position N V inputs (tvi_prev_id vin) of
        None \<Rightarrow> Inl (Plain ''virtual packet input has no unique logical input mapping'')
      | Some k \<Rightarrow>
          (if found ! k \<noteq> None then Inl (Plain ''virtual packet input has no unique logical input mapping'')
           else
             and_then (input_summary_of N B (inputs ! k)) (\<lambda>s.
               case find_anchor_input anchor (pid_outpoint (tvi_prev_id vin)) of
                 None \<Rightarrow> Inl (Plain ''virtual packet input has no anchor input'')
               | Some anchor_idx \<Rightarrow>
                   Inr (found[k := Some (s\<lparr>cin_packet_index := of_nat packet_idx, cin_virtual_index := of_nat input_idx,
                                           cin_anchor_index := of_nat anchor_idx\<rparr>)]))))"

definition map_inputs ::
    "('k, 'g, 'f, 'y) native_lib_scheme \<Rightarrow> ('k, 's, 'z) btc_lib_scheme \<Rightarrow> ('k, 'g, 'f, 'c, 'x) vpacket_lib_scheme \<Rightarrow> psbt_packet \<Rightarrow>
     ('k, 'g, 'f) input_material list \<Rightarrow> ('k, 'g, 'f) tap_vpacket list \<Rightarrow> input_summary list result" where
  "map_inputs N B V anchor inputs packets =
     and_then (fold_idx (\<lambda>i found packet. fold_idx (map_vinput N B V anchor inputs i) 0 found (tvp_inputs packet))
                 0 (replicate (length inputs) None) packets) (\<lambda>found.
       if None \<in> set found then Inl (Plain ''logical input has no virtual mapping'') else Inr (map the found))"

definition map_passive_packet ::
    "('k, 'g, 'f, 'y) native_lib_scheme \<Rightarrow> ('k, 's, 'z) btc_lib_scheme \<Rightarrow> psbt_packet \<Rightarrow> nat \<Rightarrow>
     input_summary list \<times> planned_output list \<Rightarrow> ('k, 'g, 'f) passive_material \<Rightarrow>
     (input_summary list \<times> planned_output list) result" where
  "map_passive_packet N B anchor idx acc m =
     (let vin = hd (tvp_inputs (pm_packet m)); out = hd (tvp_outputs (pm_packet m)); r = pm_request m in
      case find_anchor_input anchor (pid_outpoint (tvi_prev_id vin)) of
        None \<Rightarrow> Inl (Plain ''passive packet has no anchor input'')
      | Some anchor_idx \<Rightarrow>
          (if unat (tvo_anchor_output_index out) \<ge> length (wtx_outs (ppk_tx anchor))
           then Inl (Plain ''passive packet anchor output is out of range'')
           else
             (let anchor_value = txo_value (wtx_outs (ppk_tx anchor) ! unat (tvo_anchor_output_index out)) in
              if anchor_value < 0 then Inl (Plain ''passive packet anchor output is negative'')
              else
                and_then (serialized_script_key N (na_script_key (np_asset (pm_proof m)))) (\<lambda>script_key.
                  Inr (fst acc @
                    [\<lparr>cin_logical_id = pk_id r, cin_logical_index = pm_request_index m, cin_packet_index = of_nat idx,
                      cin_packet_role = RolePassive, cin_virtual_index = 0, cin_anchor_index = of_nat anchor_idx,
                      cin_asset_ref = pk_asset_ref r, cin_issuance_id = pm_issuance_id m,
                      cin_asset_type = pm_asset_type m, cin_anchor_outpoint = pid_outpoint (tvi_prev_id vin),
                      cin_script_key = script_key, cin_amount = pk_amount r,
                      cin_proof_source = \<lparr>psm_kind = ProofSourceConfirmedFile,
                        psm_content_id = anchor_digest B proof_file_domain (pk_proof_file r), psm_blob = pk_proof_file r\<rparr>\<rparr>],
                  snd acc @
                    [\<lparr>ppo_logical_id = pk_id r, ppo_request_index = pm_request_index m, ppo_packet_role = RolePassive,
                      ppo_packet_index = of_nat idx, ppo_virtual_output = 0,
                      ppo_anchor_output = tvo_anchor_output_index out, ppo_asset_ref = pk_asset_ref r,
                      ppo_issuance_id = pm_issuance_id m, ppo_asset_type = pm_asset_type m, ppo_amount = tvo_amount out,
                      ppo_anchor_value_sat = of_int anchor_value, ppo_script_key = script_key,
                      ppo_script_mode = ScriptUnspecified,
                      ppo_proof_delivery = (pk_proof_delivery r)\<lparr>pd_courier_address := courier_string (tvo_courier out)\<rparr>,
                      ppo_op_true_spend = None\<rparr>])))))"

definition map_passive_packets ::
    "('k, 'g, 'f, 'y) native_lib_scheme \<Rightarrow> ('k, 's, 'z) btc_lib_scheme \<Rightarrow> psbt_packet \<Rightarrow> ('k, 'g, 'f) passive_material list \<Rightarrow>
     (input_summary list \<times> planned_output list) result" where
  "map_passive_packets N B anchor materials = fold_idx (map_passive_packet N B anchor) 0 ([], []) materials"

section \<open>Build\<close>

text \<open>The prepared anchor PSBT of the packets, checked as \<open>Build\<close> checks it.\<close>

definition prepare_anchor ::
    "('k, 'g, 'f, 'y) native_lib_scheme \<Rightarrow> ('k, 's, 'z) btc_lib_scheme \<Rightarrow> ('k, 'g, 'f, 'c, 'x) build_lib_scheme \<Rightarrow>
     custom_anchor_request \<Rightarrow> ('k, 'g, 'f) tap_vpacket list \<Rightarrow> psbt_packet result" where
  "prepare_anchor N B V r packets =
     and_then (wrap_with (\<lambda>e. Wrapf ''validate virtual packet commitment keys: '' e []) (kb_keys_unique V packets)) (\<lambda>_.
     and_then (prepare_custom_anchor_psbt B r (kb_anchoring_template V packets)) (\<lambda>anchor.
     and_then (wrap_with (\<lambda>e. Wrapf ''validate anchor signing plans: '' e [])
                 (derive_signing_requests (lib.truncate N) B anchor (rq_signing_plans r) [] zero_hash)) (\<lambda>_.
     and_then (wrap_with (\<lambda>e. Wrapf ''validate anchor transaction: '' e [])
                 (validate_bitcoin_transaction B anchor (fp_mode (rq_funding r) \<noteq> FundingWalletFunded))) (\<lambda>_.
     and_then (wrap_with (\<lambda>e. Wrapf ''validate complete anchor input commitment: '' e [])
                 (vl_validate_anchor_inputs V anchor packets)) (\<lambda>_. Inr anchor)))))"

text \<open>The plan of resolved inputs and packets; the caller's bytes of a passive packet are kept.\<close>

definition assemble_plan ::
    "('k, 'g, 'f, 'y) native_lib_scheme \<Rightarrow> ('k, 's, 'z) btc_lib_scheme \<Rightarrow> ('k, 'g, 'f, 'c, 'x) build_lib_scheme \<Rightarrow>
     custom_anchor_request \<Rightarrow> ('k, 'g, 'f) input_material list \<Rightarrow> ('k, 'g, 'f) tap_vpacket list \<Rightarrow> planned_output list \<Rightarrow>
     bool list \<Rightarrow> ('k, 'g, 'f) passive_material list \<Rightarrow> verification_check list \<Rightarrow> anchor_plan result" where
  "assemble_plan N B V r inputs active planned backend_signing passive checks =
     and_then (prepare_anchor N B V r (active @ map pm_packet passive)) (\<lambda>anchor.
     and_then (wrap_with (\<lambda>e. Wrapf ''serialize prepared anchor PSBT: '' e []) (bl_serialize_psbt B anchor)) (\<lambda>anchor_bytes.
     and_then (encode_virtual_packets V active) (\<lambda>active_bytes.
     and_then (map_inputs N B V anchor inputs active) (\<lambda>summaries.
     and_then (map_passive_packets N B anchor passive) (\<lambda>(passive_inputs, passive_outputs).
       Inr \<lparr>apl_request = r, apl_anchor_psbt = anchor_bytes, apl_active = active_bytes,
            apl_passive = map (pk_virtual_psbt \<circ> pm_request) passive, apl_backend_signing = backend_signing,
            apl_inputs = summaries @ passive_inputs, apl_outputs = planned @ passive_outputs,
            apl_verification = \<lparr>vr_checks = checks @
              [passed_check ''anchor_input_commitment_valid'' ''input_proof'' OriginLocal None []
                 ''active and passive packets exactly reconstruct every asset input'',
               passed_check ''virtual_packets_valid'' ''output_commitment'' OriginLocal None []
                 ''V1 virtual packets are prepared with unique commitment keys''],
              vr_issues = []\<rparr>\<rparr>)))))"

definition build_plan ::
    "('k, 'g, 'f, 'y) native_lib_scheme \<Rightarrow> ('k, 's, 'z) btc_lib_scheme \<Rightarrow> ('k, 'g, 'f, 'c, 'x) build_lib_scheme \<Rightarrow>
     wallet \<Rightarrow> path_verifier option \<Rightarrow> custom_anchor_request \<Rightarrow> anchor_plan io" where
  "build_plan N B V w verifier r =
     bind_io (lift_io (wrap_with (\<lambda>e. Wrapf ''validate custom anchor request: '' e []) (request_validate N (Some r)))) (\<lambda>_.
     bind_io (resolve_inputs N V (w_client w) verifier r
                [passed_check ''request_valid'' ''request'' OriginLocal None []
                   ''request structure and amount conservation are valid'']) (\<lambda>(inputs, checks).
     bind_io (resolve_outputs (lib.truncate N) B V (w_client w) r inputs) (\<lambda>outputs.
     bind_io (build_active_packets N B V w inputs outputs) (\<lambda>(active, planned, backend_signing).
     bind_io (resolve_passive_packets N V (w_client w) (rq_passive_assets r) active checks) (\<lambda>(passive, checks1).
       lift_io (assemble_plan N B V r inputs active planned backend_signing passive checks1))))))"

end
