(* ===== verification/Tap_BuildDemo.thy ===== *)
theory Tap_BuildDemo
  imports Tap_AnchorBuilder Tap_PlanDemo
begin

text \<open>
  A builder library, a wallet and a daemon on which a plan is built: one input, one output to a wallet
  key, one virtual packet; and a passive packet that shares their anchors.
\<close>

definition demo_tweaked :: "unit asset_script_key" where
  "demo_tweaked = \<lparr>ak_pub_key = (), ak_tweaked = None\<rparr>"

definition demo_blib :: "(unit, unit, unit, unit) build_lib" where
  "demo_blib = vpacket_lib.extend demo_vlib (build_lib.fields
     (\<lambda>u. Inr u) (\<lambda>_ _. Inr demo_tweaked) (\<lambda>_. ()) (\<lambda>_. ()) demo_tweaked (\<lambda>b. Inr b) (\<lambda>b _. b) (\<lambda>_ _ b. Some (Inr b))
     (\<lambda>b. Inr (Some b)) (\<lambda>_. Inr []) (\<lambda>b. Inr (Some b)) (\<lambda>_ _ _. ([], [])) (\<lambda>_ _ _. Inr [demo_vpacket])
     (\<lambda>p. Inr p) (\<lambda>_ i. i) (\<lambda>_. Inr ()) (\<lambda>_. Inr (demo_psbt [] [] [])))"

definition demo_script_key_desc :: script_key where
  "demo_script_key_desc = \<lparr>sk_pub_key = key33, sk_key_desc = \<lparr>kd_raw_key_bytes = key33,
     kd_locator = \<lparr>kl_family = 0, kl_index = 0\<rparr>\<rparr>, sk_tap_tweak = []\<rparr>"

definition demo_decoded :: decoded_proof where
  "demo_decoded = \<lparr>dp_proof_at_depth = 0, dp_number_of_proofs = 1, dp_asset_ref = ''ref'', dp_issuance_id = id7,
     dp_script_key = key33, dp_amount = 5, dp_outpoint = demo_op 0, dp_alt_leaves = [], dp_prev_ids = [],
     dp_is_issuance = False\<rparr>"

definition demo_wallet :: wallet where
  "demo_wallet = \<lparr>w_client = demo_client\<lparr>
       c_verify_proof := \<lambda>_ _. Inr (Some \<lparr>vp_valid = True, vp_decoded_proof = Some demo_decoded\<rparr>),
       c_query_script_key := \<lambda>_ _. Inr (Some demo_script_key_desc), c_derive_script_key := \<lambda>_. Inr demo_script_key_desc\<rparr>,
     w_network_hrp = ''bcrt'', w_coin_type = 1, w_default_proof_courier_addr = []\<rparr>"

lemma demo_blib_fields [simp]:
  "vl_decode demo_blib b = Inr demo_vpacket" "vl_packet_v1 demo_blib = 1" "vl_has_split demo_blib q = Inr False"
  "vl_packet_asset_id demo_blib q = Inr id7" "vl_validate_witnesses demo_blib a splits ins = Inr ()"
  "vl_validate_anchor_inputs demo_blib packet qs = Inr ()" "vl_to_serialized demo_blib k = key33"
  "vl_asset_equal demo_blib a a' = True" "vl_encode demo_blib q = Inr [1]"
  "kb_distribute demo_blib ps as p = Inr [demo_vpacket]" "kb_prepare_outputs demo_blib q = Inr q"
  "kb_set_input_key demo_blib key i = i" "kb_keys_unique demo_blib qs = Inr ()"
  "kb_anchoring_template demo_blib qs = Inr (demo_psbt [] [] [])"
  by (simp_all add: demo_blib_def demo_vlib_def vpacket_lib.defs build_lib.defs)

lemma demo_wallet_fields [simp]:
  "c_verify_proof (w_client demo_wallet) h b = Inr (Some \<lparr>vp_valid = True, vp_decoded_proof = Some demo_decoded\<rparr>)"
  "c_query_script_key (w_client demo_wallet) h b = Inr (Some demo_script_key_desc)"
  "c_derive_script_key (w_client demo_wallet) h = Inr demo_script_key_desc"
  by (simp_all add: demo_wallet_def)

lemma demo_key_not_zero [simp]: "key33 \<noteq> zero_pub_key"
  by (simp add: key33_def zero_pub_key_def)

lemma demo_prev_id_of [simp]: "proof_prev_id demo_native demo_blib demo_proof = demo_prev_id"
  by (simp add: proof_prev_id_def demo_proof_def demo_prev_id_def)

section \<open>Inputs and outputs\<close>

definition demo_input :: custom_asset_input where
  "demo_input = \<lparr>xi_id = ''in'', xi_asset_ref = ''ref'', xi_amount = 5, xi_proof_file = [1], xi_proof_path = None,
     xi_witness = \<lparr>wp_mode = WitnessBackendSigner, wp_stack = []\<rparr>\<rparr>"

definition demo_output :: custom_asset_output where
  "demo_output = \<lparr>xo_id = ''out'', xo_asset_ref = ''ref'', xo_amount = 5, xo_anchor_output_index = 0,
       xo_anchor_value_sat = 1500,
       xo_script = \<lparr>sl_mode = ScriptWallet, sl_wallet = Some None, sl_external = None, sl_op_true = None, sl_burn = None\<rparr>,
       xo_anchor = \<lparr>aop_internal_key = \<lparr>ik_pub_key = key33, ik_locator = \<lparr>kl_family = 0, kl_index = 0\<rparr>\<rparr>,
         aop_tapscript = \<lparr>tp_tap_leaves = [], tp_serialized_sibling = []\<rparr>\<rparr>,
       xo_proof_delivery = demo_delivery, xo_absolute_timelock = 0, xo_relative_timelock = 0\<rparr>"

lemma demo_request_lists [simp]: "rq_inputs demo_anchor_request = [demo_input]" "rq_outputs demo_anchor_request = [demo_output]"
  by (simp_all add: demo_anchor_request_def demo_input_def demo_output_def)

definition demo_material :: "(unit, unit, unit) input_material" where
  "demo_material = \<lparr>im_request_index = 0, im_request = demo_input, im_proof = demo_proof, im_asset_ref = ''ref'',
     im_issuance_id = id7, im_asset_type = 0\<rparr>"

lemma demo_resolved: "\<exists>cs h'. resolve_inputs demo_native demo_blib (w_client demo_wallet) None demo_anchor_request checks h =
   (Inr ([demo_material], cs), h')"
proof -
  have tip: "input_tip demo_native None demo_input = Inr (demo_proof, None)" by (simp add: input_tip_def demo_input_def)
  have "np_asset demo_proof = demo_asset" "na_lock_time demo_asset = 0" "na_relative_lock_time demo_asset = 0"
    by (simp_all add: demo_proof_def demo_asset_def)
  then have matches: "tip_matches_request demo_native demo_input demo_proof = Inr (''ref'', id7, 0)"
      "verified_proof_matches demo_native demo_input demo_proof id7 (Some \<lparr>vp_valid = True, vp_decoded_proof = Some demo_decoded\<rparr>) = Inr ()"
    by (simp_all add: tip_matches_request_def demo_input_def verified_proof_matches_def demo_decoded_def)
  have "resolve_input demo_native demo_blib (w_client demo_wallet) None ([], checks) demo_input h =
      (Inr ([demo_material], checks @ input_checks 0 demo_input), h @ [VerifyProof [1]])"
    using tip matches by (simp add: resolve_input_def bind_io_apply try_io_apply demo_material_def Let_def)
      (simp add: demo_input_def)
  then show ?thesis by (simp add: resolve_inputs_def bind_io_apply)
qed

definition demo_out_material :: "unit output_material" where
  "demo_out_material = \<lparr>om_request_index = 0, om_request = demo_output, om_internal_key = (), om_sibling = None,
     om_script_key = static_script_key_gen \<lparr>ak_pub_key = (), ak_tweaked = Some \<lparr>tk_locator = \<lparr>kl_family = 0, kl_index = 0\<rparr>,
       tk_raw_key = (), tk_tweak = [], tk_type = KeyBip86\<rparr>\<rparr>, om_proof_url = None\<rparr>"

lemma demo_tap_key: "tap_asset_script_key demo_lib demo_blib demo_script_key_desc =
   Inr \<lparr>ak_pub_key = (), ak_tweaked = Some \<lparr>tk_locator = \<lparr>kl_family = 0, kl_index = 0\<rparr>,
       tk_raw_key = (), tk_tweak = [], tk_type = KeyBip86\<rparr>\<rparr>"
  by (simp add: tap_asset_script_key_def demo_script_key_desc_def new_script_key_def)

lemma demo_resolved_out: "\<exists>h'. resolve_outputs demo_lib demo_btc demo_blib (w_client demo_wallet) demo_anchor_request [demo_material] h =
   (Inr [demo_out_material], h')"
proof -
  have "\<not> multi_issuance demo_lib [demo_material] (xo_asset_ref demo_output)"
  proof -
    have "card (im_issuance_id ` {i \<in> set [demo_material]. asset_key demo_lib (xi_asset_ref (im_request i)) =
        asset_key demo_lib (xo_asset_ref demo_output)}) \<le> card (im_issuance_id ` {demo_material})"
      by (intro card_mono) auto
    then show ?thesis by (simp add: multi_issuance_def)
  qed
  moreover have "sl_mode (xo_script demo_output) = ScriptWallet" "sl_wallet (xo_script demo_output) = Some None"
    "unat (xo_anchor_value_sat demo_output) = 1500" "aop_tapscript (xo_anchor demo_output) = \<lparr>tp_tap_leaves = [], tp_serialized_sibling = []\<rparr>"
    "pd_courier_address (xo_proof_delivery demo_output) = []"
    by (simp_all add: demo_output_def demo_delivery_def)
  ultimately have "resolve_output demo_lib demo_btc demo_blib (w_client demo_wallet) [demo_material] [] demo_output h =
      (Inr [demo_out_material], h @ [DeriveScriptKey])"
    by (simp add: resolve_output_def custom_asset_script_key_def bind_io_apply try_io_apply demo_tap_key anchor_sibling_def
      parse_courier_def demo_out_material_def)
  then show ?thesis by (simp add: resolve_outputs_def bind_io_apply)
qed

section \<open>Packets\<close>

lemma demo_vpacket_fields [simp]:
  "tvp_inputs demo_vpacket = [\<lparr>tvi_asset = Some demo_asset, tvi_prev_id = demo_prev_id, tvi_proof = None, tvi_bip32 = [],
       tvi_tr_bip32 = [], tvi_other = []\<rparr>]"
  "tvp_outputs demo_vpacket = [\<lparr>tvo_asset = Some demo_asset, tvo_split_asset = None, tvo_script_key = Some (), tvo_amount = 5,
       tvo_type = VOutSimple, tvo_interactive = True, tvo_asset_version = 1, tvo_anchor_output_index = 0,
       tvo_anchor_internal_key = Some (), tvo_sibling = None, tvo_courier = None, tvo_alt_leaves = [],
       tvo_proof_suffix = Some demo_proof, tvo_other = []\<rparr>]"
  "tvp_version demo_vpacket = 1"
  by (simp_all add: demo_vpacket_def)

lemma demo_mode [simp]: "packet_witness_mode demo_native demo_blib [demo_material] demo_vpacket = Inr WitnessBackendSigner"
  by (simp add: packet_witness_mode_def material_for_def demo_material_def) (simp add: demo_input_def)

lemma demo_signing_key: "signing_key_for demo_lib demo_blib () (Some demo_script_key_desc) =
   Inr \<lparr>ak_pub_key = (), ak_tweaked = Some \<lparr>tk_locator = \<lparr>kl_family = 0, kl_index = 0\<rparr>,
       tk_raw_key = (), tk_tweak = [], tk_type = KeyBip86\<rparr>\<rparr>"
  using demo_tap_key by (simp add: signing_key_for_def) (simp add: demo_script_key_desc_def)

lemma demo_keys_resolved: "\<exists>h'. resolve_signing_keys demo_lib demo_blib (w_client demo_wallet) demo_vpacket h = (Inr demo_vpacket, h')"
  by (simp add: resolve_signing_keys_def resolve_signing_key_def bind_io_apply try_io_apply demo_signing_key)

lemma demo_group_packet: "\<exists>h'. build_group_packet demo_native demo_blib (w_client demo_wallet) [demo_material] {} ([], []) demo_vpacket h =
   (Inr ([demo_vpacket], [True]), h')"
proof -
  have "set_burn_keys demo_blib {} demo_vpacket = demo_vpacket" by (simp add: set_burn_keys_def demo_vpacket_def)
  then show ?thesis
    using demo_keys_resolved [of h] by (auto simp: build_group_packet_def bind_io_apply apply_asset_witnesses_def)
qed

lemma demo_active: "\<exists>planned h'. build_active_packets demo_native demo_btc demo_blib demo_wallet [demo_material] [demo_out_material] h =
   (Inr ([demo_vpacket], planned, [True]), h')"
proof -
  let ?key = "asset_key demo_lib ''ref''"
  have groups: "group_keys demo_lib [demo_material] = [?key]" "group_inputs demo_lib ?key [demo_material] = [demo_material]"
    "group_outputs demo_lib ?key [demo_out_material] = [demo_out_material]"
    by (simp_all add: group_keys_def group_inputs_def group_outputs_def demo_material_def demo_input_def demo_out_material_def
      demo_output_def)
  have none: "{out \<in> set [demo_out_material]. sl_mode (xo_script (om_request out)) = ScriptBurn} = {}"
    by (auto simp: demo_out_material_def demo_output_def)
  have "\<exists>h'. build_group demo_native demo_blib demo_wallet [demo_material] [demo_out_material] ([], []) ?key h =
      (Inr ([demo_vpacket], [True]), h')" for h
    using demo_group_packet [of h] unfolding build_group_def Let_def demo_lib_sel groups none
    by (auto simp: bind_io_apply)
  then obtain h' where group: "build_group demo_native demo_blib demo_wallet [demo_material] [demo_out_material] ([], []) ?key h =
      (Inr ([demo_vpacket], [True]), h')" by blast
  have "\<exists>planned. map_outputs demo_native demo_btc demo_blib [demo_out_material] [demo_vpacket] = Inr planned"
    by (simp add: map_outputs_def map_packet_outputs_def map_voutput_def demo_out_material_def demo_output_def
      expected_script_key_def static_script_key_gen_def keys_equal_def op_true_spend_for_def checked_add_def add64_def)
  then obtain planned where "map_outputs demo_native demo_btc demo_blib [demo_out_material] [demo_vpacket] = Inr planned" by blast
  with group show ?thesis by (simp add: build_active_packets_def groups bind_io_apply)
qed

section \<open>The plan\<close>

lemma demo_anchor_template: "validate_anchor_template demo_btc demo_anchor_request (demo_psbt [] [] []) = Inr ()"
  by (simp add: validate_anchor_template_def has_signature_data_def) (simp add: demo_tx_def demo_pin_def demo_output_def)

lemma demo_anchor_psbt: "rq_anchor_psbt demo_anchor_request = [1]"
  by (simp add: demo_anchor_request_def)

lemma demo_anchor_prepared:
  "prepare_custom_anchor_psbt demo_btc demo_anchor_request (Inr (demo_psbt [] [] [])) = Inr (demo_psbt [] [] [])"
  using demo_merged by (simp add: prepare_custom_anchor_psbt_def demo_anchor_template demo_merged_outputs demo_anchor_psbt)

lemma demo_prepare: "prepare_anchor demo_native demo_btc demo_blib demo_anchor_request qs = Inr (demo_psbt [] [] [])"
proof -
  have "rq_signing_plans demo_anchor_request = [demo_key_plan, demo_script_plan]" by (simp add: demo_anchor_request_def)
  moreover have "derive_signing_requests demo_lib demo_btc (demo_psbt [] [] []) [demo_key_plan, demo_script_plan] [] zero_hash =
      Inr demo_requests"
    using demo_signing_requests [of 1]
    by (simp add: package_signing_requests_def demo_valid)
  ultimately show ?thesis by (simp add: prepare_anchor_def demo_anchor_prepared)
qed

lemma demo_summary: "\<exists>s. input_summary_of demo_native demo_btc demo_material = Inr s"
  by (simp add: input_summary_of_def request_proof_source_def demo_material_def demo_input_def)

lemma demo_inputs_mapped: "\<exists>ss. map_inputs demo_native demo_btc demo_blib (demo_psbt [] [] []) [demo_material] [demo_vpacket] = Inr ss"
proof -
  obtain s where s: "input_summary_of demo_native demo_btc demo_material = Inr s" using demo_summary by blast
  have "input_position demo_native demo_blib [demo_material] demo_prev_id = Some 0"
    by (simp add: input_position_def demo_material_def upt_rec)
  moreover have "find_anchor_input (demo_psbt [] [] []) (pid_outpoint demo_prev_id) = Some 0"
    by (simp add: find_anchor_input_def demo_tx_def demo_prev_id_def upt_rec)
  ultimately show ?thesis using s by (simp add: map_inputs_def map_vinput_def)
qed

lemma demo_built: "\<exists>p h'. build_plan demo_native demo_btc demo_blib demo_wallet None demo_anchor_request [] = (Inr p, h')"
proof -
  let ?checks = "[passed_check ''request_valid'' ''request'' OriginLocal None []
    ''request structure and amount conservation are valid'']"
  obtain cs h1 where inputs: "resolve_inputs demo_native demo_blib (w_client demo_wallet) None demo_anchor_request ?checks [] =
      (Inr ([demo_material], cs), h1)" using demo_resolved by blast
  obtain h2 where outputs: "resolve_outputs demo_lib demo_btc demo_blib (w_client demo_wallet) demo_anchor_request [demo_material] h1 =
      (Inr [demo_out_material], h2)" using demo_resolved_out by blast
  obtain planned h3 where active: "build_active_packets demo_native demo_btc demo_blib demo_wallet [demo_material] [demo_out_material] h2 =
      (Inr ([demo_vpacket], planned, [True]), h3)" using demo_active by blast
  have "rq_passive_assets demo_anchor_request = \<lparr>pa_policy = PassiveReject, pa_packets = []\<rparr>"
    by (simp add: demo_anchor_request_def)
  then have pass: "resolve_passive_packets demo_native demo_blib (w_client demo_wallet) (rq_passive_assets demo_anchor_request)
      [demo_vpacket] cs h3 = (Inr ([], cs), h3)" by (simp add: resolve_passive_packets_def)
  obtain ss where "map_inputs demo_native demo_btc demo_blib (demo_psbt [] [] []) [demo_material] [demo_vpacket] = Inr ss"
    using demo_inputs_mapped by blast
  then have "\<exists>p. assemble_plan demo_native demo_btc demo_blib demo_anchor_request [demo_material] [demo_vpacket] planned [True] [] cs = Inr p"
    by (simp add: assemble_plan_def demo_prepare map_passive_packets_def)
  then obtain p where assembled: "assemble_plan demo_native demo_btc demo_blib demo_anchor_request [demo_material] [demo_vpacket] planned
      [True] [] cs = Inr p" by blast
  show ?thesis
    by (intro exI [of _ p] exI [of _ h3]) (simp add: build_plan_def bind_io_apply inputs outputs active pass assembled)
qed

section \<open>A passive packet\<close>

definition demo_passive :: passive_assets where
  "demo_passive = \<lparr>pa_policy = PassiveCallerReanchor, pa_packets = [\<lparr>pk_id = ''passive'', pk_asset_ref = ''ref'', pk_amount = 5,
     pk_virtual_psbt = [1], pk_proof_file = [1], pk_proof_delivery = demo_delivery\<rparr>]\<rparr>"

lemma demo_reanchored: "\<exists>m cs h'. resolve_passive_packets demo_native demo_blib (w_client demo_wallet) demo_passive [demo_vpacket] [] [] =
   (Inr ([m], cs), h')"
proof -
  let ?planned = "\<lparr>pk_id = ''passive'', pk_asset_ref = ''ref'', pk_amount = 5,
     pk_virtual_psbt = [1], pk_proof_file = [1], pk_proof_delivery = demo_delivery\<rparr>"
  have versions: "nl_asset_v1 demo_native = 1" "na_version demo_asset = 1" "na_lock_time demo_asset = 0" "na_relative_lock_time demo_asset = 0"
    "np_asset demo_proof = demo_asset" "pd_courier_address demo_delivery = []" "na_group_key demo_asset = None"
    by (simp_all add: demo_native_def lib.defs native_lib.defs demo_asset_def demo_proof_def demo_delivery_def demo_lib_def)
  have group: "nl_group_is_equal demo_native a b" for a b
    by (simp add: demo_native_def lib.defs native_lib.defs demo_lib_def)
  have "validate_packet_witnesses demo_blib demo_vpacket = Inr ()"
    by (simp add: validate_packet_witnesses_def root_output_def authorised_asset_def)
  then have "\<exists>m. passive_material_of demo_native demo_blib [demo_vpacket] 0 ?planned = Inr m \<and> pm_proof m = demo_proof \<and>
      pm_issuance_id m = id7"
    by (simp add: passive_material_of_def passive_shape_def passive_assets_kept_def versions group parse_courier_def
      passive_identity_kept_def keys_equal_def shares_active_anchor_def matches_active_anchor_def same_passive_output_def)
  then obtain m where m: "passive_material_of demo_native demo_blib [demo_vpacket] 0 ?planned = Inr m" "pm_proof m = demo_proof"
      "pm_issuance_id m = id7" by blast
  have "passive_backend_ok demo_native ?planned demo_proof id7 (Some \<lparr>vp_valid = True, vp_decoded_proof = Some demo_decoded\<rparr>) = Inr ()"
    by (simp add: passive_backend_ok_def versions demo_decoded_def)
  with m show ?thesis
    by (simp add: resolve_passive_packets_def demo_passive_def bind_io_apply try_io_apply resolve_passive_packet_def Let_def
      passive_outputs_shared_def)
qed

end
