(* ===== verification/Tap_BuilderFacts.thy ===== *)
theory Tap_BuilderFacts
  imports Tap_BuildDemo Tap_AnchorAmounts "HOL-Library.Multiset"
begin

text \<open>
  What a plan that \<open>Build\<close> returns says of the request, the proofs and the virtual packets.
\<close>

section \<open>Loops with calls\<close>

lemma for_io_prefix:
  assumes "for_io f s xs h = (Inr t, h')" and "P [] s"
    and "\<And>ys x u u' k k'. x \<in> set xs \<Longrightarrow> P ys u \<Longrightarrow> f u x k = (Inr u', k') \<Longrightarrow> P (ys @ [x]) u'"
  shows "P xs t"
proof -
  have "for_io f s zs h = (Inr t, h') \<Longrightarrow> P ys s \<Longrightarrow> set zs \<subseteq> set xs \<Longrightarrow> P (ys @ zs) t" for zs ys s h
  proof (induction zs arbitrary: s ys h)
    case Nil
    then show ?case by simp
  next
    case (Cons z zs)
    from Cons.prems(1) obtain s' k where
      step: "f s z h = (Inr s', k)" and rest: "for_io f s' zs k = (Inr t, h')"
      by (auto simp: bind_io_apply split: prod.splits sum.splits)
    from Cons.prems(2,3) step have "P (ys @ [z]) s'" by (auto intro: assms(3))
    from Cons.IH [OF rest this] Cons.prems(3) show ?case by simp
  qed
  from this [of s xs h "[]"] assms(1,2) show ?thesis by simp
qed

lemma for_io_each:
  assumes "for_io f s xs h = (Inr t, h')" and "x \<in> set xs"
  obtains u u' k k' where "f u x k = (Inr u', k')"
proof -
  have "list_all (\<lambda>x. \<exists>u u' k k'. f u x k = (Inr u', k')) xs"
    by (rule for_io_prefix [OF assms(1), where P = "\<lambda>ys _. list_all (\<lambda>x. \<exists>u u' k k'. f u x k = (Inr u', k')) ys"]) auto
  with assms(2) that show ?thesis by (auto simp: list_all_iff)
qed

lemma bind_io_Inr: "bind_io m f h = (Inr y, h') \<longleftrightarrow> (\<exists>x k. m h = (Inr x, k) \<and> f x k = (Inr y, h'))"
  by (auto simp: bind_io_apply split: prod.splits sum.splits)

lemma try_io_Inr: "try_io m h = (Inr r, h') \<longleftrightarrow> m h = (r, h')"
  by (auto simp: try_io_apply split: prod.splits)

lemma if_io_Inr: "(if b then lift_io (Inl e) else m) h = (Inr y, h') \<longleftrightarrow> \<not> b \<and> m h = (Inr y, h')"
  by simp

lemmas io_Inr = bind_io_Inr try_io_Inr if_io_Inr

section \<open>The inputs\<close>

text \<open>What stands behind the tip of an input: a verified path, or a proof file that the daemon found valid.\<close>

definition tip_proven ::
    "('k, 'g, 'f, 'y) native_lib_scheme \<Rightarrow> client \<Rightarrow> path_verifier option \<Rightarrow> custom_asset_input \<Rightarrow>
     ('k, 'g, 'f) native_proof \<Rightarrow> bytes \<Rightarrow> bool" where
  "tip_proven N c verifier i tip issuance_id \<longleftrightarrow>
     (case xi_proof_path i of
        Some path \<Rightarrow>
          (\<exists>summary. verify_path N verifier path = Inr summary \<and> compact_path_tip N path = Inr tip \<and>
             ds_issuance_id (ps_derived summary) = issuance_id \<and> ds_amount (ps_derived summary) = xi_amount i \<and>
             ds_anchor_outpoint (ps_derived summary) = nl_out_point N tip)
      | None \<Rightarrow>
          (\<exists>f h v d. nl_decode_file N (xi_proof_file i) = Inr f \<and> nl_last_proof N f = Inr tip \<and>
             c_verify_proof c h (xi_proof_file i) = Inr (Some v) \<and> vp_valid v \<and> vp_decoded_proof v = Some d \<and>
             dp_issuance_id d = issuance_id \<and> dp_amount d = xi_amount i \<and> dp_outpoint d = nl_out_point N tip))"

definition material_proven ::
    "('k, 'g, 'f, 'y) native_lib_scheme \<Rightarrow> client \<Rightarrow> path_verifier option \<Rightarrow> ('k, 'g, 'f) input_material \<Rightarrow> bool" where
  "material_proven N c verifier m \<longleftrightarrow>
     tip_proven N c verifier (im_request m) (im_proof m) (im_issuance_id m) \<and>
     asset_identity N (Some (np_asset (im_proof m))) = Inr (im_asset_ref m, im_issuance_id m, im_asset_type m) \<and>
     ref_matches_issuance (lib.truncate N) (xi_asset_ref (im_request m)) (im_asset_ref m) (im_issuance_id m) \<and>
     na_amount (np_asset (im_proof m)) = xi_amount (im_request m) \<and>
     na_lock_time (np_asset (im_proof m)) = 0 \<and> na_relative_lock_time (np_asset (im_proof m)) = 0"

lemma tip_matches_request_ok:
  "tip_matches_request N i tip = Inr ident \<longleftrightarrow>
     na_lock_time (np_asset tip) = 0 \<and> na_relative_lock_time (np_asset tip) = 0 \<and>
     asset_identity N (Some (np_asset tip)) = Inr ident \<and>
     ref_matches_issuance (lib.truncate N) (xi_asset_ref i) (fst ident) (fst (snd ident)) \<and>
     na_amount (np_asset tip) = xi_amount i"
proof -
  obtain a b d where "ident = (a, b, d)" by (cases ident)
  then show ?thesis by (cases "asset_identity N (Some (np_asset tip))") (auto simp: tip_matches_request_def split: if_splits)
qed

lemma verified_proof_matches_ok:
  assumes "verified_proof_matches N i tip issuance_id verified = Inr ()"
  obtains v d where "verified = Some v" "vp_valid v" "vp_decoded_proof v = Some d" "dp_issuance_id d = issuance_id"
    "dp_amount d = xi_amount i" "dp_outpoint d = nl_out_point N tip"
  using assms by (auto simp: verified_proof_matches_def and_then_eq_Inr split: option.splits bool.splits if_splits)

lemma path_summary_matches_ok:
  assumes "path_summary_matches N tip ident summary = Inr ()"
  shows "ds_issuance_id (ps_derived summary) = fst (snd ident)" "ds_amount (ps_derived summary) = na_amount (np_asset tip)"
    "ds_anchor_outpoint (ps_derived summary) = nl_out_point N tip"
  using assms by (auto simp: path_summary_matches_def and_then_eq_Inr Let_def split: if_splits prod.splits)

text \<open>One round: the input that is added, and what is known of it.\<close>

lemma resolve_input_ok:
  assumes "resolve_input N V c verifier (inputs, checks) i h = (Inr (inputs', checks'), h')"
  obtains m where "inputs' = inputs @ [m]" "checks' = checks @ input_checks (of_nat (length inputs)) i"
    "im_request m = i" "im_request_index m = of_nat (length inputs)" "material_proven N c verifier m"
    "\<forall>j \<in> set inputs. proof_prev_id N V (im_proof j) \<noteq> proof_prev_id N V (im_proof m)"
proof -
  from assms obtain tip summary ident k k' where
    tip: "input_tip N verifier i = Inr (tip, summary)" and ident: "tip_matches_request N i tip = Inr ident"
    and proven: "(case summary of
                   Some s \<Rightarrow> lift_io (path_summary_matches N tip ident s)
                 | None \<Rightarrow>
                     bind_io (try_io (call_io (VerifyProof (xi_proof_file i)) (\<lambda>h. c_verify_proof c h (xi_proof_file i)))) (\<lambda>r.
                       lift_io (and_then (wrap_with (\<lambda>e. Wrapf ''verify input proof chain: '' e []) r)
                                  (verified_proof_matches N i tip (fst (snd ident)))))) k = (Inr (), k')"
    and fresh: "\<not> (\<exists>j \<in> set inputs. proof_prev_id N V (im_proof j) = proof_prev_id N V tip)"
    and new: "inputs' = inputs @ [\<lparr>im_request_index = of_nat (length inputs), im_request = i, im_proof = tip,
        im_asset_ref = fst ident, im_issuance_id = fst (snd ident), im_asset_type = snd (snd ident)\<rparr>]"
      "checks' = checks @ input_checks (of_nat (length inputs)) i"
    unfolding resolve_input_def Let_def by (auto simp: bind_io_Inr split: if_splits)
  from ident have amount: "na_amount (np_asset tip) = xi_amount i" by (simp add: tip_matches_request_ok)
  have "tip_proven N c verifier i tip (fst (snd ident))"
  proof (cases "xi_proof_path i")
    case None
    with tip obtain f where f: "summary = None" "nl_decode_file N (xi_proof_file i) = Inr f" "nl_last_proof N f = Inr tip"
      by (auto simp: input_tip_def and_then_eq_Inr)
    with proven obtain verified where v: "c_verify_proof c k (xi_proof_file i) = Inr verified"
      and matches: "verified_proof_matches N i tip (fst (snd ident)) verified = Inr ()"
      by (auto simp: io_Inr and_then_eq_Inr)
    from matches obtain v' d where "verified = Some v'" "vp_valid v'" "vp_decoded_proof v' = Some d"
      "dp_issuance_id d = fst (snd ident)" "dp_amount d = xi_amount i" "dp_outpoint d = nl_out_point N tip"
      by (rule verified_proof_matches_ok)
    with None f v show ?thesis unfolding tip_proven_def by auto
  next
    case (Some path)
    with tip obtain s where s: "summary = Some s" "verify_path N verifier path = Inr s" "compact_path_tip N path = Inr tip"
      by (auto simp: input_tip_def and_then_eq_Inr split: if_splits)
    with proven have "path_summary_matches N tip ident s = Inr ()" by simp
    note path_summary_matches_ok [OF this]
    with Some s amount show ?thesis unfolding tip_proven_def by auto
  qed
  with ident have "material_proven N c verifier \<lparr>im_request_index = of_nat (length inputs), im_request = i, im_proof = tip,
      im_asset_ref = fst ident, im_issuance_id = fst (snd ident), im_asset_type = snd (snd ident)\<rparr>"
    by (simp add: material_proven_def tip_matches_request_ok)
  with new fresh show ?thesis by (intro that) auto
qed

text \<open>The whole loop.\<close>

lemma resolve_inputs_ok:
  assumes "resolve_inputs N V c verifier r checks h = (Inr (inputs, checks'), h')"
  shows "map im_request inputs = rq_inputs r" "list_all (material_proven N c verifier) inputs"
    "distinct (map (\<lambda>m. proof_prev_id N V (im_proof m)) inputs)"
    "map im_request_index inputs = map of_nat [0 ..< length (rq_inputs r)]"
    "checks' = checks @ concat (map (\<lambda>(k, i). input_checks (of_nat k) i) (zip [0 ..< length (rq_inputs r)] (rq_inputs r)))"
proof -
  let ?P = "\<lambda>is (inputs, checks'). map im_request inputs = is \<and> list_all (material_proven N c verifier) inputs \<and>
    distinct (map (\<lambda>m. proof_prev_id N V (im_proof m)) inputs) \<and>
    map im_request_index inputs = map of_nat [0 ..< length is] \<and>
    checks' = checks @ concat (map (\<lambda>(k, i). input_checks (of_nat k) i) (zip [0 ..< length is] is))"
  have "?P (rq_inputs r) (inputs, checks')"
  proof (rule for_io_prefix [OF assms [unfolded resolve_inputs_def], of ?P])
    fix ys i k k' and u u' :: "('a, 'b, 'c) input_material list \<times> verification_check list"
    assume inv: "?P ys u" and step: "resolve_input N V c verifier u i k = (Inr u', k')"
    obtain inputs checks1 inputs' checks2 where u: "u = (inputs, checks1)" "u' = (inputs', checks2)" by (cases u, cases u')
    from step [unfolded u] show "?P (ys @ [i]) u'"
    proof (rule resolve_input_ok)
      fix m :: "('a, 'b, 'c) input_material"
      assume new: "inputs' = inputs @ [m]" "checks2 = checks1 @ input_checks (of_nat (length inputs)) i"
        "im_request m = i" "im_request_index m = of_nat (length inputs)" "material_proven N c verifier m"
        "\<forall>j \<in> set inputs. proof_prev_id N V (im_proof j) \<noteq> proof_prev_id N V (im_proof m)"
      from inv u have old: "map im_request inputs = ys" "list_all (material_proven N c verifier) inputs"
        "distinct (map (\<lambda>m. proof_prev_id N V (im_proof m)) inputs)"
        "map im_request_index inputs = map of_nat [0 ..< length ys]"
        "checks1 = checks @ concat (map (\<lambda>(k, i). input_checks (of_nat k) i) (zip [0 ..< length ys] ys))" by simp_all
      from old(1) have len: "length inputs = length ys" by auto
      have "distinct (map (\<lambda>m. proof_prev_id N V (im_proof m)) (inputs @ [m]))"
        using old(3) new(6) by auto
      with new(1-5) old u len show ?thesis by simp
    qed
  qed simp
  then show "map im_request inputs = rq_inputs r" "list_all (material_proven N c verifier) inputs"
    "distinct (map (\<lambda>m. proof_prev_id N V (im_proof m)) inputs)"
    "map im_request_index inputs = map of_nat [0 ..< length (rq_inputs r)]"
    "checks' = checks @ concat (map (\<lambda>(k, i). input_checks (of_nat k) i) (zip [0 ..< length (rq_inputs r)] (rq_inputs r)))"
    by simp_all
qed

section \<open>The outputs\<close>

lemma resolve_output_ok:
  assumes "resolve_output L B V c inputs outputs out h = (Inr outputs', h')"
  obtains m where "outputs' = outputs @ [m]" "om_request m = out" "om_request_index m = of_nat (length outputs)"
  using assms by (auto simp: resolve_output_def io_Inr split: if_splits)

lemma resolve_outputs_ok:
  assumes "resolve_outputs L B V c r inputs h = (Inr outputs, h')"
  shows "map om_request outputs = rq_outputs r" "map om_request_index outputs = map of_nat [0 ..< length (rq_outputs r)]"
proof -
  let ?P = "\<lambda>xs outputs. map om_request outputs = xs \<and> map om_request_index outputs = map of_nat [0 ..< length xs]"
  have "?P (rq_outputs r) outputs"
  proof (rule for_io_prefix [OF assms [unfolded resolve_outputs_def], of ?P])
    fix ys x u u' k k'
    assume inv: "?P ys u" and step: "resolve_output L B V c inputs u x k = (Inr u', k')"
    from inv have len: "length u = length ys" by auto
    from step show "?P (ys @ [x]) u'" by (rule resolve_output_ok) (use inv len in simp)
  qed simp
  then show "map om_request outputs = rq_outputs r"
    "map om_request_index outputs = map of_nat [0 ..< length (rq_outputs r)]" by simp_all
qed

lemma distinct_request_indices: "n \<le> 2 ^ 32 \<Longrightarrow> distinct (map (of_nat :: nat \<Rightarrow> u32) [0 ..< n])"
  by (auto simp: distinct_map inj_on_def word_of_nat_eq_iff take_bit_nat_eq_self)

section \<open>The planned outputs\<close>

definition planned_total :: "planned_output list \<Rightarrow> u32 \<Rightarrow> nat" where
  "planned_total ps k = sum_list (map (unat \<circ> ppo_amount) (filter (\<lambda>p. ppo_request_index p = k) ps))"

lemma planned_total_simps [simp]:
  "planned_total [] k = 0" "planned_total (ps @ qs) k = planned_total ps k + planned_total qs k"
  by (simp_all add: planned_total_def)

text \<open>A planned output carries what its requested output asks for.\<close>

definition planned_for :: "custom_asset_output \<Rightarrow> planned_output \<Rightarrow> bool" where
  "planned_for x p \<longleftrightarrow>
     ppo_packet_role p = RoleActive \<and> ppo_logical_id p = xo_id x \<and> ppo_asset_ref p = xo_asset_ref x \<and>
     ppo_anchor_output p = xo_anchor_output_index x \<and> ppo_anchor_value_sat p = xo_anchor_value_sat x \<and>
     ppo_script_mode p = sl_mode (xo_script x)"

definition planned_from :: "'k output_material list \<Rightarrow> planned_output \<Rightarrow> bool" where
  "planned_from outputs p \<longleftrightarrow>
     (\<exists>out \<in> set outputs. ppo_request_index p = om_request_index out \<and> planned_for (om_request out) p)"

lemma find_requested_ok:
  "find_requested N V pid issuance actual_ref vout outputs = Inr (Some out) \<Longrightarrow>
     out \<in> set outputs \<and> xo_anchor_output_index (om_request out) = tvo_anchor_output_index vout"
  by (induction outputs) (auto simp: and_then_eq_Inr split: if_splits)

text \<open>The state after the virtual outputs \<open>vouts\<close>: what was added, and by how much every request grew.\<close>

definition outputs_mapped ::
    "'k output_material list \<Rightarrow> planned_output list \<times> (u32 \<Rightarrow> u64) \<Rightarrow> ('k, 'g, 'f) tap_voutput list \<Rightarrow>
     planned_output list \<times> (u32 \<Rightarrow> u64) \<Rightarrow> bool" where
  "outputs_mapped outputs st vouts st' \<longleftrightarrow>
     (\<exists>added. fst st' = fst st @ added \<and> list_all (planned_from outputs) added \<and>
        map ppo_amount added = map tvo_amount vouts \<and>
        (\<forall>k. unat (snd st' k) = unat (snd st k) + planned_total added k))"

lemma outputs_mapped_Nil [simp]: "outputs_mapped outputs st [] st"
  by (simp add: outputs_mapped_def)

lemma outputs_mapped_append:
  assumes "outputs_mapped outputs st xs st1" and "outputs_mapped outputs st1 ys st2"
  shows "outputs_mapped outputs st (xs @ ys) st2"
proof -
  from assms obtain a b where
    "fst st1 = fst st @ a" "list_all (planned_from outputs) a" "map ppo_amount a = map tvo_amount xs"
      "\<forall>k. unat (snd st1 k) = unat (snd st k) + planned_total a k"
    and "fst st2 = fst st1 @ b" "list_all (planned_from outputs) b" "map ppo_amount b = map tvo_amount ys"
      "\<forall>k. unat (snd st2 k) = unat (snd st1 k) + planned_total b k"
    unfolding outputs_mapped_def by blast
  then show ?thesis unfolding outputs_mapped_def by (intro exI [of _ "a @ b"]) simp
qed

lemma map_voutput_ok:
  assumes "map_voutput N B V outputs pid issuance asset_type i j st vout = Inr st'"
  shows "outputs_mapped outputs st [vout] st'"
proof -
  from assms obtain out actual_ref where
    "find_requested N V pid issuance actual_ref vout outputs = Inr (Some out)"
    and step: "\<exists>amount p. checked_add (snd st (om_request_index out)) (tvo_amount vout) = Inr amount \<and>
      st' = (fst st @ [p], (snd st)(om_request_index out := amount)) \<and> ppo_request_index p = om_request_index out \<and>
      ppo_amount p = tvo_amount vout \<and>
      planned_for ((om_request out)\<lparr>xo_anchor_output_index := tvo_anchor_output_index vout\<rparr>) p"
    by (auto simp: map_voutput_def and_then_eq_Inr planned_for_def Let_def split: option.splits)
  then have out: "out \<in> set outputs" "xo_anchor_output_index (om_request out) = tvo_anchor_output_index vout"
    by (auto dest: find_requested_ok)
  have "(om_request out)\<lparr>xo_anchor_output_index := tvo_anchor_output_index vout\<rparr> = om_request out"
    by (simp flip: out(2))
  with step obtain amount p where amount: "checked_add (snd st (om_request_index out)) (tvo_amount vout) = Inr amount"
    and st': "st' = (fst st @ [p], (snd st)(om_request_index out := amount))"
    and p: "ppo_request_index p = om_request_index out" "ppo_amount p = tvo_amount vout"
      "planned_for (om_request out) p"
    by auto
  from amount p out st' show ?thesis
    unfolding outputs_mapped_def
    by (intro exI [of _ "[p]"]) (auto simp: checked_add_Inr planned_from_def planned_total_def)
qed

lemma map_packet_outputs_ok:
  assumes "map_packet_outputs N B V outputs i st packet = Inr st'"
  shows "outputs_mapped outputs st (tvp_outputs packet) st'"
proof -
  from assms obtain pid issuance asset_type where
    "fold_idx (map_voutput N B V outputs pid issuance asset_type i) 0 st (tvp_outputs packet) = Inr st'"
    by (cases "tvp_inputs packet") (auto simp: map_packet_outputs_def and_then_eq_Inr split: if_splits)
  then show ?thesis
    by (rule fold_idx_prefix [where P = "\<lambda>ys. outputs_mapped outputs st ys"])
      (auto intro: outputs_mapped_append map_voutput_ok)
qed

lemma map_outputs_ok:
  assumes "map_outputs N B V outputs packets = Inr planned"
  shows "list_all (planned_from outputs) planned"
    and "map ppo_amount planned = map tvo_amount (concat (map tvp_outputs packets))"
    and "out \<in> set outputs \<Longrightarrow> planned_total planned (om_request_index out) = unat (xo_amount (om_request out))"
proof -
  from assms obtain mapped where
    loop: "fold_idx (map_packet_outputs N B V outputs) 0 ([], \<lambda>_. 0) packets = Inr (planned, mapped)"
    and "fold_res (\<lambda>_ out. if mapped (om_request_index out) \<noteq> xo_amount (om_request out)
                 then Inl (Plain ''logical output mapped amount differs'') else Inr ()) () outputs = Inr ()"
    by (auto simp: map_outputs_def and_then_eq_Inr)
  then have "is_ok (fold_res (\<lambda>_ out. if mapped (om_request_index out) \<noteq> xo_amount (om_request out)
                 then Inl (Plain ''logical output mapped amount differs'') else Inr ()) () outputs)" by simp
  then have amounts: "\<forall>out \<in> set outputs. mapped (om_request_index out) = xo_amount (om_request out)"
    by (auto simp: fold_res_unit_ok split: if_splits)
  have "outputs_mapped outputs ([], \<lambda>_. 0) (concat (map tvp_outputs packets)) (planned, mapped)"
    by (rule fold_idx_prefix [OF loop, where P = "\<lambda>ys. outputs_mapped outputs ([], \<lambda>_. 0) (concat (map tvp_outputs ys))"])
      (auto intro: outputs_mapped_append map_packet_outputs_ok)
  with amounts show "list_all (planned_from outputs) planned"
    "map ppo_amount planned = map tvo_amount (concat (map tvp_outputs packets))"
    "out \<in> set outputs \<Longrightarrow> planned_total planned (om_request_index out) = unat (xo_amount (om_request out))"
    by (auto simp: outputs_mapped_def simp flip: amounts [rule_format])
qed

text \<open>The planned outputs of an asset, summed request by request.\<close>

lemma sum_list_one:
  fixes a :: nat
  assumes "distinct (map idx outs)" and "o1 \<in> set outs"
  shows "sum_list (map (\<lambda>x. if idx o1 = idx x then a else 0) (filter E outs)) = (if E o1 then a else 0)"
  using assms
proof (induction outs)
  case Nil
  then show ?case by simp
next
  case (Cons y outs)
  show ?case
  proof (cases "o1 = y")
    case True
    have "\<forall>x \<in> set outs. idx y \<noteq> idx x" using Cons.prems by auto
    then have "sum_list (map (\<lambda>x. if idx y = idx x then a else 0) (filter E outs)) = 0" by auto
    with True show ?thesis by simp
  next
    case False
    with Cons.prems have o1: "o1 \<in> set outs" and "distinct (map idx outs)" by auto
    moreover have "idx y \<noteq> idx o1" using Cons.prems(1) o1 by (metis distinct.simps(2) image_eqI list.set_map list.simps(9))
    ultimately show ?thesis using Cons.IH by (simp del: sum_list_eq_0_iff)
  qed
qed

lemma sum_by_request:
  fixes amt :: "'p \<Rightarrow> nat"
  assumes "distinct (map idx outs)"
    and "list_all (\<lambda>p. \<exists>x \<in> set outs. ridx p = idx x \<and> pref p = xref x) ps"
  shows "sum_list (map amt (filter (\<lambda>p. E (pref p)) ps)) =
    sum_list (map (\<lambda>x. sum_list (map amt (filter (\<lambda>p. ridx p = idx x) ps))) (filter (\<lambda>x. E (xref x)) outs))"
  using assms(2)
proof (induction ps)
  case Nil
  show ?case by simp
next
  case (Cons p ps)
  then obtain x where x: "x \<in> set outs" "ridx p = idx x" "pref p = xref x" by auto
  have "sum_list (map (\<lambda>y. sum_list (map amt (filter (\<lambda>q. ridx q = idx y) (p # ps)))) (filter (\<lambda>y. E (xref y)) outs)) =
      sum_list (map (\<lambda>y. (if idx x = idx y then amt p else 0) + sum_list (map amt (filter (\<lambda>q. ridx q = idx y) ps)))
        (filter (\<lambda>y. E (xref y)) outs))"
    by (rule arg_cong [of _ _ sum_list], rule map_cong) (auto simp: x(2))
  also have "\<dots> = (if E (xref x) then amt p else 0) +
      sum_list (map (\<lambda>y. sum_list (map amt (filter (\<lambda>q. ridx q = idx y) ps))) (filter (\<lambda>y. E (xref y)) outs))"
    using sum_list_one [OF assms(1) x(1), of "amt p" "\<lambda>y. E (xref y)"] by (simp add: sum_list_addf)
  finally show ?case using Cons x by simp
qed

section \<open>The input summaries\<close>

text \<open>The summary of an input carries what was resolved for it.\<close>

definition summary_for ::
    "('k, 'g, 'f, 'y) native_lib_scheme \<Rightarrow> ('k, 'g, 'f) input_material \<Rightarrow> input_summary \<Rightarrow> bool" where
  "summary_for N m s \<longleftrightarrow>
     cin_packet_role s = RoleActive \<and> cin_logical_id s = xi_id (im_request m) \<and> cin_logical_index s = im_request_index m \<and>
     cin_asset_ref s = xi_asset_ref (im_request m) \<and> cin_amount s = xi_amount (im_request m) \<and>
     cin_issuance_id s = im_issuance_id m \<and> cin_anchor_outpoint s = nl_out_point N (im_proof m)"

text \<open>The inputs that have a summary are those of the virtual inputs seen so far, one by one.\<close>

definition inputs_mapped ::
    "('k, 'g, 'f, 'y) native_lib_scheme \<Rightarrow> ('k, 'g, 'f, 'c, 'x) vpacket_lib_scheme \<Rightarrow> ('k, 'g, 'f) input_material list \<Rightarrow>
     ('k, 'g, 'f) tap_vinput list \<Rightarrow> input_summary option list \<Rightarrow> bool" where
  "inputs_mapped N V inputs vins found \<longleftrightarrow>
     length found = length inputs \<and>
     (\<forall>k < length inputs. \<forall>s. found ! k = Some s \<longrightarrow> summary_for N (inputs ! k) s) \<and>
     mset (map tvi_prev_id vins) =
       image_mset (\<lambda>k. proof_prev_id N V (im_proof (inputs ! k))) (mset_set {k. k < length inputs \<and> found ! k \<noteq> None})"

lemma input_position_ok:
  "input_position N V inputs pid = Some k \<Longrightarrow> k < length inputs \<and> proof_prev_id N V (im_proof (inputs ! k)) = pid"
  by (auto simp: input_position_def find_Some_iff)

lemma input_summary_of_ok: "input_summary_of N B m = Inr s \<Longrightarrow> summary_for N m s"
  by (auto simp: input_summary_of_def and_then_eq_Inr summary_for_def)

lemma map_vinput_ok:
  assumes "map_vinput N B V anchor inputs i j found vin = Inr found'" and "inputs_mapped N V inputs vins found"
  shows "inputs_mapped N V inputs (vins @ [vin]) found'"
proof -
  from assms(1) obtain k s a where k: "input_position N V inputs (tvi_prev_id vin) = Some k" "found ! k = None"
    and s: "input_summary_of N B (inputs ! k) = Inr s"
    and found': "found' = found[k := Some (s\<lparr>cin_packet_index := of_nat i, cin_virtual_index := of_nat j,
                                          cin_anchor_index := of_nat a\<rparr>)]"
    by (auto simp: map_vinput_def and_then_eq_Inr split: option.splits if_splits)
  note pos = input_position_ok [OF k(1)]
  from assms(2) have len: "length found = length inputs" by (simp add: inputs_mapped_def)
  have "summary_for N (inputs ! k) (s\<lparr>cin_packet_index := of_nat i, cin_virtual_index := of_nat j, cin_anchor_index := of_nat a\<rparr>)"
    using input_summary_of_ok [OF s] by (simp add: summary_for_def)
  moreover have "{l. l < length inputs \<and> found' ! l \<noteq> None} = insert k {l. l < length inputs \<and> found ! l \<noteq> None}"
    using pos len unfolding found' by (auto simp: nth_list_update split: if_splits)
  then have "mset_set {l. l < length inputs \<and> found' ! l \<noteq> None} =
      add_mset k (mset_set {l. l < length inputs \<and> found ! l \<noteq> None})"
    using k(2) by simp
  ultimately show ?thesis
    using assms(2) pos unfolding inputs_mapped_def
    by (auto simp: found' nth_list_update)
qed

lemma map_packet_inputs_ok:
  assumes "fold_idx (map_vinput N B V anchor inputs i) 0 found vins = Inr found'" and "inputs_mapped N V inputs before found"
  shows "inputs_mapped N V inputs (before @ vins) found'"
  by (rule fold_idx_prefix [OF assms(1), where P = "\<lambda>ys. inputs_mapped N V inputs (before @ ys)"])
    (use assms(2) in \<open>auto simp flip: append_assoc intro: map_vinput_ok\<close>)

lemma map_inputs_ok:
  assumes "map_inputs N B V anchor inputs packets = Inr summaries"
  shows "list_all2 (summary_for N) inputs summaries"
    and "mset (map tvi_prev_id (concat (map tvp_inputs packets))) = mset (map (\<lambda>m. proof_prev_id N V (im_proof m)) inputs)"
proof -
  from assms obtain found where
    loop: "fold_idx (\<lambda>i found packet. fold_idx (map_vinput N B V anchor inputs i) 0 found (tvp_inputs packet))
                 0 (replicate (length inputs) None) packets = Inr found"
    and all: "None \<notin> set found" and summaries: "summaries = map the found"
    by (auto simp: map_inputs_def and_then_eq_Inr split: if_splits)
  have none: "{k. k < length inputs \<and> replicate (length inputs) None ! k \<noteq> (None :: input_summary option)} = {}" by auto
  have start: "inputs_mapped N V inputs [] (replicate (length inputs) None)"
    unfolding inputs_mapped_def none by simp
  have mapped: "inputs_mapped N V inputs (concat (map tvp_inputs packets)) found"
    by (rule fold_idx_prefix [OF loop, where P = "\<lambda>ys. inputs_mapped N V inputs (concat (map tvp_inputs ys))"])
      (use start in \<open>auto intro: map_packet_inputs_ok\<close>)
  then have len: "length found = length inputs" by (simp add: inputs_mapped_def)
  with all have some: "found ! k \<noteq> None" if "k < length inputs" for k using that by (metis nth_mem)
  show "list_all2 (summary_for N) inputs summaries"
  proof (rule list_all2_all_nthI)
    show "length inputs = length summaries" by (simp add: summaries len)
  next
    fix k
    assume k: "k < length inputs"
    with some obtain s where "found ! k = Some s" by blast
    with mapped k len show "summary_for N (inputs ! k) (summaries ! k)" by (auto simp: inputs_mapped_def summaries)
  qed
  have "{k. k < length inputs \<and> found ! k \<noteq> None} = {0 ..< length inputs}" using some by auto
  with mapped have "mset (map tvi_prev_id (concat (map tvp_inputs packets))) =
      image_mset (\<lambda>k. proof_prev_id N V (im_proof (inputs ! k))) (mset [0 ..< length inputs])"
    unfolding inputs_mapped_def by (simp only: mset_upt)
  also have "\<dots> = mset (map (\<lambda>k. proof_prev_id N V (im_proof (inputs ! k))) [0 ..< length inputs])" by simp
  also have "map (\<lambda>k. proof_prev_id N V (im_proof (inputs ! k))) [0 ..< length inputs] =
      map (\<lambda>m. proof_prev_id N V (im_proof m)) inputs"
    by (rule nth_equalityI) simp_all
  finally show "mset (map tvi_prev_id (concat (map tvp_inputs packets))) =
      mset (map (\<lambda>m. proof_prev_id N V (im_proof m)) inputs)" .
qed

section \<open>The plan\<close>

text \<open>No input is taken of an asset that no output is of.\<close>

definition inputs_matched :: "'k lib \<Rightarrow> ('k, 'g, 'f) input_material list \<Rightarrow> 'k output_material list \<Rightarrow> bool" where
  "inputs_matched L inputs outputs \<longleftrightarrow>
     (\<forall>m \<in> set inputs. \<exists>out \<in> set outputs.
        asset_ref_equivalent L (xo_asset_ref (om_request out)) (xi_asset_ref (im_request m)))"

lemma build_active_packets_matched:
  assumes "build_active_packets N B V w inputs outputs h = (Inr x, h')"
  shows "inputs_matched (lib.truncate N) inputs outputs"
  unfolding inputs_matched_def
proof
  fix m
  assume m: "m \<in> set inputs"
  let ?key = "asset_key (lib.truncate N) (xi_asset_ref (im_request m))"
  from assms obtain acc k where
    loop: "for_io (build_group N V w inputs outputs) ([], []) (group_keys (lib.truncate N) inputs) h = (Inr acc, k)"
    by (auto simp: build_active_packets_def bind_io_Inr)
  from m have "?key \<in> set (group_keys (lib.truncate N) inputs)" by (simp add: group_keys_def)
  from for_io_each [OF loop this] obtain u u' k1 k2 where "build_group N V w inputs outputs u ?key k1 = (Inr u', k2)" .
  then have "group_outputs (lib.truncate N) ?key outputs \<noteq> []"
    by (auto simp: build_group_def Let_def)
  then show "\<exists>out \<in> set outputs.
      asset_ref_equivalent (lib.truncate N) (xo_asset_ref (om_request out)) (xi_asset_ref (im_request m))"
    by (auto simp: group_outputs_def filter_empty_conv asset_key_equivalent)
qed

lemma passive_roles:
  assumes "map_passive_packets N B anchor passive = Inr (ins, outs)"
  shows "list_all (\<lambda>s. cin_packet_role s = RolePassive) ins" "list_all (\<lambda>p. ppo_packet_role p = RolePassive) outs"
proof -
  let ?P = "\<lambda>st. list_all (\<lambda>s. cin_packet_role s = RolePassive) (fst st) \<and> list_all (\<lambda>p. ppo_packet_role p = RolePassive) (snd st)"
  have "?P (ins, outs)"
    by (rule fold_idx_prefix [OF assms [unfolded map_passive_packets_def], where P = "\<lambda>_. ?P"])
      (auto simp: map_passive_packet_def and_then_eq_Inr Let_def split: option.splits if_splits)
  then show "list_all (\<lambda>s. cin_packet_role s = RolePassive) ins" "list_all (\<lambda>p. ppo_packet_role p = RolePassive) outs" by simp_all
qed

definition active_inputs :: "anchor_plan \<Rightarrow> input_summary list" where
  "active_inputs p = filter (\<lambda>s. cin_packet_role s = RoleActive) (apl_inputs p)"

definition active_outputs :: "anchor_plan \<Rightarrow> planned_output list" where
  "active_outputs p = filter (\<lambda>o1. ppo_packet_role o1 = RoleActive) (apl_outputs p)"

lemma planned_from_active: "list_all (planned_from outputs) ps \<Longrightarrow> filter (\<lambda>o1. ppo_packet_role o1 = RoleActive) ps = ps"
  by (induction ps) (auto simp: planned_from_def planned_for_def)

lemma no_passive: "list_all (\<lambda>x. role x = RolePassive) xs \<Longrightarrow> filter (\<lambda>x. role x = RoleActive) xs = []"
  by (induction xs) auto

lemma summary_active: "list_all2 (summary_for N) inputs ss \<Longrightarrow> filter (\<lambda>s. cin_packet_role s = RoleActive) ss = ss"
  by (induction rule: list_all2_induct) (auto simp: summary_for_def)

text \<open>What a finished \<open>Build\<close> is made of.\<close>

lemma build_plan_parts:
  assumes "build_plan N B V w verifier r h = (Inr p, h')"
  obtains inputs outputs packets where
    "request_validate N (Some r) = Inr ()" "apl_request p = r"
    "map im_request inputs = rq_inputs r" "list_all (material_proven N (w_client w) verifier) inputs"
    "distinct (map (\<lambda>m. proof_prev_id N V (im_proof m)) inputs)"
    "map im_request_index inputs = map of_nat [0 ..< length (rq_inputs r)]"
    "map om_request outputs = rq_outputs r" "map om_request_index outputs = map of_nat [0 ..< length (rq_outputs r)]"
    "map_outputs N B V outputs packets = Inr (active_outputs p)"
    "encode_virtual_packets V packets = Inr (apl_active p)"
    "list_all2 (summary_for N) inputs (active_inputs p)"
    "mset (map tvi_prev_id (concat (map tvp_inputs packets))) = mset (map (\<lambda>m. proof_prev_id N V (im_proof m)) inputs)"
    "inputs_matched (lib.truncate N) inputs outputs"
proof -
  from assms obtain inputs checks outputs active planned backend_signing pass checks1 h1 h2 h3 h4 where
    valid: "request_validate N (Some r) = Inr ()"
    and inputs: "resolve_inputs N V (w_client w) verifier r
                [passed_check ''request_valid'' ''request'' OriginLocal None []
                   ''request structure and amount conservation are valid''] h1 = (Inr (inputs, checks), h2)"
    and outputs: "resolve_outputs (lib.truncate N) B V (w_client w) r inputs h2 = (Inr outputs, h3)"
    and active: "build_active_packets N B V w inputs outputs h3 = (Inr (active, planned, backend_signing), h4)"
    and assemble: "assemble_plan N B V r inputs active planned backend_signing pass checks1 = Inr p"
    unfolding build_plan_def by (auto simp: bind_io_Inr)
  from active have planned: "map_outputs N B V outputs active = Inr planned"
    by (auto simp: build_active_packets_def bind_io_Inr)
  from assemble obtain anchor summaries passive_inputs passive_outputs where
    "encode_virtual_packets V active = Inr (apl_active p)" "apl_request p = r"
    and maps: "map_inputs N B V anchor inputs active = Inr summaries"
      "map_passive_packets N B anchor pass = Inr (passive_inputs, passive_outputs)"
    and "apl_inputs p = summaries @ passive_inputs" "apl_outputs p = planned @ passive_outputs"
    by (auto simp: assemble_plan_def and_then_eq_Inr)
  moreover from this have "active_outputs p = planned" "active_inputs p = summaries"
    using passive_roles [OF maps(2)] map_outputs_ok(1) [OF planned] map_inputs_ok(1) [OF maps(1)]
    by (simp_all add: active_outputs_def active_inputs_def planned_from_active no_passive summary_active)
  ultimately show ?thesis
    using that [of inputs outputs active] valid resolve_inputs_ok [OF inputs] resolve_outputs_ok [OF outputs] planned
      map_inputs_ok [OF maps(1)] build_active_packets_matched [OF active] by simp
qed

text \<open>The amounts that a plan spends and plans of an asset.\<close>

definition asset_spent :: "'k lib \<Rightarrow> anchor_plan \<Rightarrow> string \<Rightarrow> nat" where
  "asset_spent L p ref =
     sum_list (map (unat \<circ> cin_amount) (filter (\<lambda>s. asset_ref_equivalent L (cin_asset_ref s) ref) (active_inputs p)))"

definition asset_planned :: "'k lib \<Rightarrow> anchor_plan \<Rightarrow> string \<Rightarrow> nat" where
  "asset_planned L p ref =
     sum_list (map (unat \<circ> ppo_amount) (filter (\<lambda>o1. asset_ref_equivalent L (ppo_asset_ref o1) ref) (active_outputs p)))"

lemma spent_is_requested:
  assumes "list_all2 (summary_for N) inputs (active_inputs p)" and "map im_request inputs = rq_inputs r"
  shows "asset_spent L p ref = total_input L r ref"
proof -
  have "sum_list (map (unat \<circ> cin_amount) (filter (\<lambda>s. asset_ref_equivalent L (cin_asset_ref s) ref) ss)) =
      sum_list (map (unat \<circ> xi_amount) (filter (\<lambda>i. asset_ref_equivalent L (xi_asset_ref i) ref) (map im_request is)))"
    if "list_all2 (summary_for N) is ss" for "is" ss
    using that by (induction rule: list_all2_induct) (auto simp: summary_for_def)
  from this [OF assms(1)] assms(2) show ?thesis by (simp add: asset_spent_def total_input_def)
qed

lemma planned_by_request:
  assumes "map_outputs N B V outputs packets = Inr planned" and "map om_request outputs = rq_outputs r"
    and "distinct (map om_request_index outputs)"
  shows "sum_list (map (unat \<circ> ppo_amount) (filter (\<lambda>o1. asset_ref_equivalent L (ppo_asset_ref o1) ref) planned)) =
    total_output L r ref"
proof -
  have "list_all (\<lambda>p. \<exists>out \<in> set outputs. ppo_request_index p = om_request_index out \<and>
      ppo_asset_ref p = xo_asset_ref (om_request out)) planned"
    using map_outputs_ok(1) [OF assms(1)] by (auto simp: list_all_iff planned_from_def planned_for_def)
  from sum_by_request [OF assms(3) this, of "unat \<circ> ppo_amount" "\<lambda>a. asset_ref_equivalent L a ref"]
  have "sum_list (map (unat \<circ> ppo_amount) (filter (\<lambda>o1. asset_ref_equivalent L (ppo_asset_ref o1) ref) planned)) =
      sum_list (map (\<lambda>out. planned_total planned (om_request_index out))
        (filter (\<lambda>out. asset_ref_equivalent L (xo_asset_ref (om_request out)) ref) outputs))"
    by (simp add: planned_total_def)
  also have "\<dots> = sum_list (map (unat \<circ> xo_amount \<circ> om_request)
        (filter (\<lambda>out. asset_ref_equivalent L (xo_asset_ref (om_request out)) ref) outputs))"
    using map_outputs_ok(3) [OF assms(1)] by (intro arg_cong [of _ _ sum_list] map_cong) auto
  also have "\<dots> = total_output L r ref"
    by (simp add: total_output_def filter_map comp_def flip: assms(2))
  finally show ?thesis .
qed

lemma equivalent_to_none:
  assumes "list_all (\<lambda>x. \<not> asset_ref_equivalent L (f x) ref) xs"
  shows "filter (\<lambda>x. asset_ref_equivalent L (f x) ref) xs = []"
  using assms by (simp add: filter_empty_conv list_all_iff)

text \<open>Of every asset at all, what an accepted request with matched inputs takes in is what it gives out.\<close>

lemma matched_totals:
  assumes valid: "request_validate N (Some r) = Inr ()"
    and inputs: "map im_request inputs = rq_inputs r" and outputs: "map om_request outputs = rq_outputs r"
    and matched: "inputs_matched (lib.truncate N) inputs outputs"
  shows "total_output (lib.truncate N) r ref = total_input (lib.truncate N) r ref \<and>
    total_input (lib.truncate N) r ref < 2 ^ 64"
proof (cases "\<exists>x \<in> set (rq_outputs r). asset_ref_equivalent (lib.truncate N) (xo_asset_ref x) ref")
  case True
  then obtain x where x: "x \<in> set (rq_outputs r)" "asset_ref_equivalent (lib.truncate N) (xo_asset_ref x) ref" by blast
  with accepted_request(2,3) [OF valid x(1)] equivalent_totals [OF x(2), of r] show ?thesis by simp
next
  case False
  have "\<not> asset_ref_equivalent (lib.truncate N) (xi_asset_ref i) ref" if i: "i \<in> set (rq_inputs r)" for i
  proof
    assume ref: "asset_ref_equivalent (lib.truncate N) (xi_asset_ref i) ref"
    from i obtain m where "m \<in> set inputs" "im_request m = i" unfolding inputs [symmetric] by auto
    with matched obtain out where "out \<in> set outputs"
        "asset_ref_equivalent (lib.truncate N) (xo_asset_ref (om_request out)) (xi_asset_ref i)"
      unfolding inputs_matched_def by blast
    moreover from this have "om_request out \<in> set (rq_outputs r)" unfolding outputs [symmetric] by simp
    ultimately show False using False ref by (simp flip: asset_key_equivalent)
  qed
  then have "total_input (lib.truncate N) r ref = 0" "total_output (lib.truncate N) r ref = 0"
    using False by (simp_all add: total_input_def total_output_def equivalent_to_none list_all_iff)
  then show ?thesis by simp
qed

text \<open>
  C3. A plan that \<open>Build\<close> returns plans for every requested output exactly its amount, whatever the
  distribution of the coins does; and of every asset, one that only inputs are of included, its
  outputs are planned to receive in all exactly what its inputs spend, without overflow.
\<close>

theorem built_plan_conserves:
  assumes "build_plan N B V w verifier r h = (Inr p, h')" and "length (rq_outputs r) \<le> 2 ^ 32"
  shows "map (\<lambda>k. planned_total (active_outputs p) (of_nat k)) [0 ..< length (rq_outputs r)] =
      map (unat \<circ> xo_amount) (rq_outputs r) \<and>
    asset_planned (lib.truncate N) p ref = asset_spent (lib.truncate N) p ref \<and>
    asset_spent (lib.truncate N) p ref < 2 ^ 64"
  using assms(1)
proof (rule build_plan_parts)
  fix inputs outputs packets
  assume valid: "request_validate N (Some r) = Inr ()"
    and inputs: "map im_request inputs = rq_inputs r" "list_all2 (summary_for N) inputs (active_inputs p)"
    and outputs: "map om_request outputs = rq_outputs r"
      "map om_request_index outputs = map of_nat [0 ..< length (rq_outputs r)]"
    and mapped: "map_outputs N B V outputs packets = Inr (active_outputs p)"
    and matched: "inputs_matched (lib.truncate N) inputs outputs"
  have "map (\<lambda>k. planned_total (active_outputs p) (of_nat k)) [0 ..< length (rq_outputs r)] =
      map (planned_total (active_outputs p)) (map om_request_index outputs)"
    unfolding outputs(2) by simp
  also have "\<dots> = map (\<lambda>out. unat (xo_amount (om_request out))) outputs"
    using map_outputs_ok(3) [OF mapped] by simp
  also have "\<dots> = map (unat \<circ> xo_amount) (rq_outputs r)"
    unfolding outputs(1) [symmetric] by simp
  finally have planned: "map (\<lambda>k. planned_total (active_outputs p) (of_nat k)) [0 ..< length (rq_outputs r)] =
      map (unat \<circ> xo_amount) (rq_outputs r)" .
  have "distinct (map om_request_index outputs)"
    unfolding outputs(2) by (rule distinct_request_indices [OF assms(2)])
  from planned_by_request [OF mapped outputs(1) this]
  have "asset_planned (lib.truncate N) p ref = total_output (lib.truncate N) r ref" by (simp add: asset_planned_def)
  moreover have "asset_spent (lib.truncate N) p ref = total_input (lib.truncate N) r ref"
    by (rule spent_is_requested [OF inputs(2,1)])
  ultimately show ?thesis
    using planned matched_totals [OF valid inputs(1) outputs(1) matched, of ref] by simp
qed

theorem built_plan_conserves_witness:
  "\<exists>p h'. build_plan demo_native demo_btc demo_blib demo_wallet None demo_anchor_request [] = (Inr p, h') \<and>
     planned_total (active_outputs p) 0 = 5 \<and> asset_planned demo_lib p ''ref'' = asset_spent demo_lib p ''ref''"
proof -
  obtain p h' where built: "build_plan demo_native demo_btc demo_blib demo_wallet None demo_anchor_request [] = (Inr p, h')"
    using demo_built by blast
  with built_plan_conserves [OF built, of "''ref''"] show ?thesis
    by (intro exI [of _ p] exI [of _ h']) (simp add: demo_output_def)
qed

text \<open>
  C4. A plan that \<open>Build\<close> returns is about proven assets only: every requested input has a proof tip of
  its own, from a verified path or a proof file the daemon found valid, of exactly the requested asset
  and amount; the virtual inputs of the planned packets are these tips, each once; and the planned
  outputs are the virtual outputs of the packets, one by one.
\<close>

theorem built_plan_spends_proofs:
  assumes "build_plan N B V w verifier r h = (Inr p, h')"
  shows "\<exists>inputs packets. map im_request inputs = rq_inputs r \<and> list_all (material_proven N (w_client w) verifier) inputs \<and>
    distinct (map (\<lambda>m. proof_prev_id N V (im_proof m)) inputs) \<and> list_all2 (summary_for N) inputs (active_inputs p) \<and>
    encode_virtual_packets V packets = Inr (apl_active p) \<and>
    mset (map tvi_prev_id (concat (map tvp_inputs packets))) = mset (map (\<lambda>m. proof_prev_id N V (im_proof m)) inputs) \<and>
    map ppo_amount (active_outputs p) = map tvo_amount (concat (map tvp_outputs packets))"
  using assms
proof (rule build_plan_parts)
  fix inputs outputs packets
  assume "map im_request inputs = rq_inputs r" "list_all (material_proven N (w_client w) verifier) inputs"
    "distinct (map (\<lambda>m. proof_prev_id N V (im_proof m)) inputs)" "list_all2 (summary_for N) inputs (active_inputs p)"
    "encode_virtual_packets V packets = Inr (apl_active p)"
    "mset (map tvi_prev_id (concat (map tvp_inputs packets))) = mset (map (\<lambda>m. proof_prev_id N V (im_proof m)) inputs)"
    and "map_outputs N B V outputs packets = Inr (active_outputs p)"
  with map_outputs_ok(2) [of N B V outputs packets "active_outputs p"] show ?thesis
    by (intro exI [of _ inputs] exI [of _ packets]) simp
qed

theorem built_plan_spends_proofs_witness:
  "\<exists>p h' m packets. build_plan demo_native demo_btc demo_blib demo_wallet None demo_anchor_request [] = (Inr p, h') \<and>
     im_request m = demo_input \<and> material_proven demo_native (w_client demo_wallet) None m \<and>
     encode_virtual_packets demo_blib packets = Inr (apl_active p) \<and>
     mset (map tvi_prev_id (concat (map tvp_inputs packets))) = {#proof_prev_id demo_native demo_blib (im_proof m)#}"
proof -
  obtain p h' where built: "build_plan demo_native demo_btc demo_blib demo_wallet None demo_anchor_request [] = (Inr p, h')"
    using demo_built by blast
  from built_plan_spends_proofs [OF built] obtain ms packets where
    "map im_request ms = rq_inputs demo_anchor_request" "list_all (material_proven demo_native (w_client demo_wallet) None) ms"
    and encoded: "encode_virtual_packets demo_blib packets = Inr (apl_active p)"
    and ids: "mset (map tvi_prev_id (concat (map tvp_inputs packets))) = mset (map (\<lambda>m. proof_prev_id demo_native demo_blib (im_proof m)) ms)"
    by blast
  moreover from this obtain m where m: "ms = [m]" by auto
  moreover have "mset (map tvi_prev_id (concat (map tvp_inputs packets))) = {#proof_prev_id demo_native demo_blib (im_proof m)#}"
    using ids unfolding m by simp
  ultimately show ?thesis using built encoded by (intro exI [of _ p] exI [of _ h'] exI [of _ m] exI [of _ packets]) simp
qed

section \<open>A plan can be committed\<close>

lemma passed_check_ok [simp]:
  "check_validate u (passed_check code scope orig index oid msg) = Inr () \<longleftrightarrow> code \<noteq> [] \<and> scope_valid scope \<and> origin_valid orig"
  "vc_passed (passed_check code scope orig index oid msg)"
  by (simp_all add: check_validate_def passed_check_def)

definition checks_pass :: "verification_check list \<Rightarrow> bool" where
  "checks_pass cs \<longleftrightarrow> list_all (\<lambda>c. check_validate () c = Inr () \<and> vc_passed c) cs"

lemma checks_pass_simps [simp]:
  "checks_pass []" "checks_pass (c # cs) \<longleftrightarrow> check_validate () c = Inr () \<and> vc_passed c \<and> checks_pass cs"
  "checks_pass (cs @ ds) \<longleftrightarrow> checks_pass cs \<and> checks_pass ds"
  by (auto simp: checks_pass_def)

lemma input_checks_pass: "checks_pass (input_checks index i)"
  by (auto simp: input_checks_def scope_valid_def verification_scopes_def origin_valid_def split: option.splits)

lemma checks_pass_valid: "checks_pass cs \<Longrightarrow> cs \<noteq> [] \<Longrightarrow> result_valid (Some \<lparr>vr_checks = cs, vr_issues = []\<rparr>)"
proof -
  assume cs: "checks_pass cs" "cs \<noteq> []"
  then have "is_ok (fold_res check_validate () cs)" by (simp add: checks_pass_def list_all_iff fold_res_unit_ok)
  then have "fold_res check_validate () cs = Inr ()" by (simp add: is_ok_unit)
  with cs show ?thesis by (simp add: result_valid_def result_validate_def checks_pass_def list_all_iff)
qed

lemma resolve_inputs_pass:
  "resolve_inputs N V c verifier r checks h = (Inr (inputs, checks'), h') \<Longrightarrow> checks_pass checks \<Longrightarrow> checks_pass checks'"
  using resolve_inputs_ok(5) [of N V c verifier r checks h inputs checks' h']
  by (auto simp: checks_pass_def list_all_iff dest: input_checks_pass [unfolded checks_pass_def list_all_iff, rule_format])

lemma resolve_passive_packet_ok:
  assumes "resolve_passive_packet N V c active (ms, checks) planned h = (Inr (ms', checks'), h')"
  obtains m where "ms' = ms @ [m]" "checks_pass checks \<Longrightarrow> checks_pass checks'"
    "passive_material_of N V active (of_nat (length ms)) planned = Inr m"
  using assms
  by (auto simp: resolve_passive_packet_def Let_def io_Inr scope_valid_def verification_scopes_def origin_valid_def)

lemma resolve_passive_pass:
  assumes "resolve_passive_packets N V c plan active checks h = (Inr (ms, checks'), h')" and "checks_pass checks"
  shows "checks_pass checks'"
proof (cases "pa_policy plan")
  case PassiveCallerReanchor
  with assms(1) obtain k where loop: "for_io (resolve_passive_packet N V c active) ([], checks) (pa_packets plan) h = (Inr (ms, checks'), k)"
    by (auto simp: resolve_passive_packets_def io_Inr)
  have "checks_pass (snd (ms, checks'))"
    by (rule for_io_prefix [OF loop, where P = "\<lambda>_ st. checks_pass (snd st)"])
      (use assms(2) in \<open>auto elim: resolve_passive_packet_ok\<close>)
  then show ?thesis by simp
qed (use assms in \<open>auto simp: resolve_passive_packets_def\<close>)

text \<open>Every packet has its place in the signing classification.\<close>

lemma build_group_packet_ok:
  "build_group_packet N V c ins bs acc packet h = (Inr acc', h') \<Longrightarrow>
     length (fst acc) = length (snd acc) \<Longrightarrow> length (fst acc') = length (snd acc')"
  by (auto simp: build_group_packet_def io_Inr split: if_splits)

lemma build_group_ok:
  assumes "build_group N V w inputs outputs acc key h = (Inr acc', h')" and "length (fst acc) = length (snd acc)"
  shows "length (fst acc') = length (snd acc')"
proof -
  from assms(1) obtain c ins bs packets k where "for_io (build_group_packet N V c ins bs) acc packets k = (Inr acc', h')"
    by (auto simp: build_group_def Let_def io_Inr)
  then show ?thesis
    by (rule for_io_prefix [where P = "\<lambda>_ st. length (fst st) = length (snd st)"])
      (use assms(2) in \<open>auto intro: build_group_packet_ok\<close>)
qed

lemma build_active_packets_ok:
  assumes "build_active_packets N B V w inputs outputs h = (Inr (active, planned, backend_signing), h')"
  shows "length active = length backend_signing"
proof -
  from assms obtain k where loop: "for_io (build_group N V w inputs outputs) ([], []) (group_keys (lib.truncate N) inputs) h =
      (Inr (active, backend_signing), k)"
    by (auto simp: build_active_packets_def bind_io_Inr)
  have "length (fst (active, backend_signing)) = length (snd (active, backend_signing))"
    by (rule for_io_prefix [OF loop, where P = "\<lambda>_ st. length (fst st) = length (snd st)"]) (auto intro: build_group_ok)
  then show ?thesis by simp
qed

lemma encode_virtual_packets_length: "encode_virtual_packets V packets = Inr encoded \<Longrightarrow> length encoded = length packets"
  by (induction packets arbitrary: encoded) (auto simp: and_then_eq_Inr)

text \<open>
  C5. A plan that \<open>Build\<close> returns is well formed: all its checks are known and passed, so that its
  verification is valid, and every active packet has its place in the signing classification. \<open>Commit\<close>
  and the preview never refuse it for either.
\<close>

theorem built_plan_well_formed:
  assumes "build_plan N B V w verifier r h = (Inr p, h')"
  shows "apl_request p = r \<and> request_validate N (Some r) = Inr () \<and> result_valid (Some (apl_verification p)) \<and>
    length (apl_active p) = length (apl_backend_signing p)"
proof -
  from assms obtain inputs checks outputs active planned backend_signing pass checks1 h1 h2 h3 h4 h5 where
    valid: "request_validate N (Some r) = Inr ()"
    and inputs: "resolve_inputs N V (w_client w) verifier r
                [passed_check ''request_valid'' ''request'' OriginLocal None []
                   ''request structure and amount conservation are valid''] h1 = (Inr (inputs, checks), h2)"
    and active: "build_active_packets N B V w inputs outputs h3 = (Inr (active, planned, backend_signing), h4)"
    and pass: "resolve_passive_packets N V (w_client w) (rq_passive_assets r) active checks h4 = (Inr (pass, checks1), h5)"
    and assemble: "assemble_plan N B V r inputs active planned backend_signing pass checks1 = Inr p"
    unfolding build_plan_def by (auto simp: bind_io_Inr)
  have "checks_pass checks"
    by (rule resolve_inputs_pass [OF inputs]) (simp add: scope_valid_def verification_scopes_def origin_valid_def)
  with pass have checks1: "checks_pass checks1" by (rule resolve_passive_pass)
  from assemble obtain cs where "apl_verification p = \<lparr>vr_checks = checks1 @ cs, vr_issues = []\<rparr>" "checks_pass cs" "cs \<noteq> []"
    and packets: "encode_virtual_packets V active = Inr (apl_active p)" "apl_request p = r"
      "apl_backend_signing p = backend_signing"
    by (auto simp: assemble_plan_def and_then_eq_Inr scope_valid_def verification_scopes_def origin_valid_def)
  with checks1 have "result_valid (Some (apl_verification p))" by (simp add: checks_pass_valid)
  with packets valid build_active_packets_ok [OF active] encode_virtual_packets_length [OF packets(1)]
  show ?thesis by simp
qed

theorem built_plan_well_formed_witness:
  "\<exists>p h'. build_plan demo_native demo_btc demo_blib demo_wallet None demo_anchor_request [] = (Inr p, h') \<and>
     result_valid (Some (apl_verification p))"
proof -
  obtain p h' where built: "build_plan demo_native demo_btc demo_blib demo_wallet None demo_anchor_request [] = (Inr p, h')"
    using demo_built by blast
  with built_plan_well_formed [OF built] show ?thesis by auto
qed

section \<open>Passive packets\<close>

text \<open>What a passive packet keeps: the asset, its amount and key, the anchors of the active packets.\<close>

definition passive_kept ::
    "('k, 'g, 'f, 'y) native_lib_scheme \<Rightarrow> ('k, 'g, 'f, 'c, 'x) build_lib_scheme \<Rightarrow> ('k, 'g, 'f) tap_vpacket list \<Rightarrow>
     passive_packet \<Rightarrow> ('k, 'g, 'f) passive_material \<Rightarrow> bool" where
  "passive_kept N V active planned m \<longleftrightarrow>
     (\<exists>vin out a b. vl_decode V (pk_virtual_psbt planned) = Inr (pm_packet m) \<and> pm_request m = planned \<and>
        tvp_inputs (pm_packet m) = [vin] \<and> tvp_outputs (pm_packet m) = [out] \<and>
        tvi_asset vin = Some a \<and> tvo_asset out = Some b \<and> tvi_prev_id vin = proof_prev_id N V (pm_proof m) \<and>
        vl_asset_equal V a (np_asset (pm_proof m)) \<and> na_type b = na_type a \<and> na_genesis b = na_genesis a \<and>
        na_amount a = pk_amount planned \<and> na_amount b = pk_amount planned \<and> tvo_amount out = pk_amount planned \<and>
        keys_equal N (na_script_key a) (na_script_key b) \<and> keys_equal N (na_script_key a) (tvo_script_key out) \<and>
        validate_packet_witnesses V (pm_packet m) = Inr () \<and>
        shares_active_anchor (pid_outpoint (tvi_prev_id vin)) active \<and> matches_active_anchor N out active)"

lemma passive_shape_ok:
  "passive_shape N V packet = Inr (vin, out) \<Longrightarrow> tvp_inputs packet = [vin] \<and> tvp_outputs packet = [out]"
  by (auto simp: passive_shape_def split: if_splits list.splits)

lemma passive_assets_kept_ok:
  assumes "passive_assets_kept N V planned tip vin out a b = Inr ()"
  shows "tvi_prev_id vin = proof_prev_id N V tip" "vl_asset_equal V a (np_asset tip)" "na_type b = na_type a"
    "na_genesis b = na_genesis a" "na_amount a = pk_amount planned" "na_amount b = pk_amount planned"
    "tvo_amount out = pk_amount planned" "keys_equal N (na_script_key a) (na_script_key b)"
    "keys_equal N (na_script_key a) (tvo_script_key out)"
  using assms by (auto simp: passive_assets_kept_def passive_identity_kept_def and_then_eq_Inr split: if_splits)

lemma passive_material_ok:
  assumes "passive_material_of N V active index planned = Inr m"
  shows "passive_kept N V active planned m" "pm_request_index m = index"
proof -
  from assms obtain packet vin out f tip where
    head: "vl_decode V (pk_virtual_psbt planned) = Inr packet" "passive_shape N V packet = Inr (vin, out)"
      "nl_decode_file N (pk_proof_file planned) = Inr f" "nl_last_proof N f = Inr tip"
    by (auto simp: passive_material_of_def and_then_eq_Inr)
  obtain a b where ab: "tvi_asset vin = Some a" "tvo_asset out = Some b"
    using assms by (cases "tvi_asset vin"; cases "tvo_asset out") (auto simp: passive_material_of_def head)
  from assms head have
    "vl_decode V (pk_virtual_psbt planned) = Inr (pm_packet m)" "passive_shape N V (pm_packet m) = Inr (vin, out)"
    "tvi_asset vin = Some a" "tvo_asset out = Some b" "pm_request m = planned"
    "passive_assets_kept N V planned (pm_proof m) vin out a b = Inr ()"
    "shares_active_anchor (pid_outpoint (tvi_prev_id vin)) active" "matches_active_anchor N out active"
    "validate_packet_witnesses V (pm_packet m) = Inr ()" and index: "pm_request_index m = index"
    by (auto simp: passive_material_of_def ab and_then_eq_Inr split: if_splits)
  note parts = this
  note shape = passive_shape_ok [OF parts(2)]
  note kept = passive_assets_kept_ok [OF parts(6)]
  show "passive_kept N V active planned m"
    unfolding passive_kept_def using parts shape kept
    by (intro exI [of _ vin] exI [of _ out] exI [of _ a] exI [of _ b]) simp
  show "pm_request_index m = index" by (rule index)
qed

text \<open>
  C6. Passive assets are carried along unchanged: every packet the caller supplies is taken, in order;
  it moves exactly the asset of its proof tip, with its amount and script key, is properly
  authorised, leaves an anchor output that an active input spends and joins an anchor output of an
  active packet, the same one for all passive packets.
\<close>

theorem passive_packets_preserved:
  assumes "resolve_passive_packets N V c plan active checks h = (Inr (ms, checks'), h')"
    and "pa_policy plan = PassiveCallerReanchor"
  shows "list_all2 (passive_kept N V active) (pa_packets plan) ms \<and>
    (\<forall>m \<in> set ms. pm_packet m = pm_packet (hd ms) \<or>
       same_passive_output N (hd (tvp_outputs (pm_packet (hd ms)))) (hd (tvp_outputs (pm_packet m))))"
proof -
  from assms obtain k where loop: "for_io (resolve_passive_packet N V c active) ([], checks) (pa_packets plan) h = (Inr (ms, checks'), k)"
    and shared: "passive_outputs_shared N (map pm_packet ms) = Inr ()"
    by (auto simp: resolve_passive_packets_def io_Inr)
  have "list_all2 (passive_kept N V active) (pa_packets plan) (fst (ms, checks'))"
  proof (rule for_io_prefix [OF loop, where P = "\<lambda>ys st. list_all2 (passive_kept N V active) ys (fst st)"])
    fix ys x k k' and u u' :: "('a, 'b, 'c) passive_material list \<times> verification_check list"
    assume inv: "list_all2 (passive_kept N V active) ys (fst u)" and step: "resolve_passive_packet N V c active u x k = (Inr u', k')"
    obtain ms1 checks1 ms2 checks2 where u: "u = (ms1, checks1)" "u' = (ms2, checks2)" by (cases u, cases u')
    from step [unfolded u] show "list_all2 (passive_kept N V active) (ys @ [x]) (fst u')"
      by (rule resolve_passive_packet_ok) (use inv u in \<open>auto dest: passive_material_ok intro: list_all2_appendI\<close>)
  qed simp
  moreover have "\<forall>m \<in> set ms. pm_packet m = pm_packet (hd ms) \<or>
       same_passive_output N (hd (tvp_outputs (pm_packet (hd ms)))) (hd (tvp_outputs (pm_packet m)))"
  proof (cases ms)
    case Nil
    then show ?thesis by simp
  next
    case (Cons m1 rest)
    with shared have "is_ok (fold_res (\<lambda>_ packet. if \<not> same_passive_output N (hd (tvp_outputs (pm_packet m1))) (hd (tvp_outputs packet))
            then Inl (Plain ''passive packet does not use the shared passive anchor output'') else Inr ()) () (map pm_packet rest))"
      by (simp add: passive_outputs_shared_def)
    with Cons show ?thesis by (auto simp: fold_res_unit_ok split: if_splits)
  qed
  ultimately show ?thesis by simp
qed

theorem passive_packets_preserved_witness:
  "\<exists>m cs h'. resolve_passive_packets demo_native demo_blib (w_client demo_wallet) demo_passive [demo_vpacket] [] [] =
     (Inr ([m], cs), h') \<and> passive_kept demo_native demo_blib [demo_vpacket] (hd (pa_packets demo_passive)) m"
proof -
  obtain m cs h' where r: "resolve_passive_packets demo_native demo_blib (w_client demo_wallet) demo_passive [demo_vpacket] [] [] =
     (Inr ([m], cs), h')" using demo_reanchored by blast
  have "pa_policy demo_passive = PassiveCallerReanchor" by (simp add: demo_passive_def)
  from passive_packets_preserved [OF r this] r show ?thesis
    by (intro exI [of _ m] exI [of _ cs] exI [of _ h']) (simp add: demo_passive_def)
qed

end
