(* ===== verification/Tap_RestText.thy ===== *)
theory Tap_RestText
  imports Tap_Client "HOL-Library.List_Lexorder" "HOL-Library.Char_ord"
begin

text \<open>
  The texts of the REST backend (\<open>rest/marshal.go\<close>): bytes in hexadecimal and in the four base64
  alphabets of Go, 64-bit integers in decimal, URL queries, and the enum names of the proto JSON
  mapping. The functions of Go's standard library that the code calls (\<open>encoding/base64\<close>,
  \<open>strconv\<close>, \<open>net/url\<close>) are written out. The locale \<open>wire_enum\<close> states what a pair of an enum
  printer and parser owes its callers and is interpreted for every such pair.
\<close>

section \<open>Byte strings\<close>

text \<open>\<open>copy(dst[:], src)\<close> into a zeroed array of \<open>n\<close> bytes.\<close>

definition copy_into :: "nat \<Rightarrow> bytes \<Rightarrow> bytes" where
  "copy_into n src = take n (src @ replicate n 0)"

lemma copy_into_exact [simp]: "length src = n \<Longrightarrow> copy_into n src = src"
  by (simp add: copy_into_def)

lemma length_copy_into [simp]: "length (copy_into n src) = n"
  by (simp add: copy_into_def)

definition parse_hex_bytes :: "string \<Rightarrow> bytes result" where
  "parse_hex_bytes s = (if s = [] then Inr [] else hex_decode s)"

lemma parse_hex_bytes_hex_decode [simp]: "parse_hex_bytes = hex_decode"
  by (rule ext) (simp add: parse_hex_bytes_def)

fun first_non_empty :: "string list \<Rightarrow> string" where
  "first_non_empty [] = []"
| "first_non_empty (v # vs) = (if v \<noteq> [] then v else first_non_empty vs)"

subsection \<open>Base64\<close>

text \<open>
  An encoding of \<open>encoding/base64\<close>: the URL alphabet ends in \<open>-_\<close>, the standard one in \<open>+/\<close>; the
  raw encodings neither write nor accept padding.
\<close>

record b64_encoding =
  b64_url :: bool
  b64_padded :: bool

definition std_encoding :: b64_encoding where "std_encoding = \<lparr>b64_url = False, b64_padded = True\<rparr>"
definition raw_std_encoding :: b64_encoding where "raw_std_encoding = \<lparr>b64_url = False, b64_padded = False\<rparr>"
definition url_encoding :: b64_encoding where "url_encoding = \<lparr>b64_url = True, b64_padded = True\<rparr>"
definition raw_url_encoding :: b64_encoding where "raw_url_encoding = \<lparr>b64_url = True, b64_padded = False\<rparr>"

lemmas b64_encodings = std_encoding_def raw_std_encoding_def url_encoding_def raw_url_encoding_def

definition b64_char :: "bool \<Rightarrow> nat \<Rightarrow> char" where
  "b64_char url n =
     (if n < 26 then char_of (65 + n)
      else if n < 52 then char_of (71 + n)
      else if n < 62 then char_of (n - 4)
      else if n = 62 then (if url then CHR ''-'' else CHR ''+'')
      else (if url then CHR ''_'' else CHR ''/''))"

definition b64_digit :: "bool \<Rightarrow> char \<Rightarrow> nat option" where
  "b64_digit url c =
     (let n = (of_char c :: nat) in
      if 65 \<le> n \<and> n \<le> 90 then Some (n - 65)
      else if 97 \<le> n \<and> n \<le> 122 then Some (n - 71)
      else if 48 \<le> n \<and> n \<le> 57 then Some (n + 4)
      else if c = (if url then CHR ''-'' else CHR ''+'') then Some 62
      else if c = (if url then CHR ''_'' else CHR ''/'') then Some 63
      else None)"

text \<open>\<open>EncodeToString\<close>: three bytes become four characters; a shorter rest is padded, or not.\<close>

definition quantum_chars :: "bool \<Rightarrow> nat \<Rightarrow> string" where
  "quantum_chars url v =
     [b64_char url (v div 262144 mod 64), b64_char url (v div 4096 mod 64),
      b64_char url (v div 64 mod 64), b64_char url (v mod 64)]"

fun b64_encode :: "b64_encoding \<Rightarrow> bytes \<Rightarrow> string" where
  "b64_encode E [] = []"
| "b64_encode E [x] =
     take 2 (quantum_chars (b64_url E) (unat x * 65536)) @ (if b64_padded E then ''=='' else [])"
| "b64_encode E [x, y] =
     take 3 (quantum_chars (b64_url E) (unat x * 65536 + unat y * 256)) @ (if b64_padded E then ''='' else [])"
| "b64_encode E (x # y # z # bs) =
     quantum_chars (b64_url E) (unat x * 65536 + unat y * 256 + unat z) @ b64_encode E bs"

text \<open>
  \<open>DecodeString\<close>. Line breaks are skipped wherever they stand; unused bits of the last quantum
  are not checked (the encodings are not strict).
\<close>

definition corrupt_input :: "bytes result" where
  "corrupt_input = Inl (Plain ''illegal base64 data at input byte'')"

definition quantum_bytes :: "nat \<Rightarrow> bytes" where
  "quantum_bytes w = [of_nat (w div 65536), of_nat (w div 256), of_nat w]"

fun b64_quanta :: "b64_encoding \<Rightarrow> string \<Rightarrow> bytes result" where
  "b64_quanta E [] = Inr []"
| "b64_quanta E [a] = corrupt_input"
| "b64_quanta E [a, b] =
     (case (b64_padded E, b64_digit (b64_url E) a, b64_digit (b64_url E) b) of
        (False, Some i, Some j) \<Rightarrow> Inr (take 1 (quantum_bytes (i * 262144 + j * 4096)))
      | _ \<Rightarrow> corrupt_input)"
| "b64_quanta E [a, b, c] =
     (case (b64_padded E, b64_digit (b64_url E) a, b64_digit (b64_url E) b, b64_digit (b64_url E) c) of
        (False, Some i, Some j, Some k) \<Rightarrow> Inr (take 2 (quantum_bytes (i * 262144 + j * 4096 + k * 64)))
      | _ \<Rightarrow> corrupt_input)"
| "b64_quanta E (a # b # c # d # s) =
     (case (b64_digit (b64_url E) a, b64_digit (b64_url E) b) of
        (Some i, Some j) \<Rightarrow>
          (case (b64_digit (b64_url E) c, b64_digit (b64_url E) d) of
             (Some k, Some l) \<Rightarrow>
               and_then (b64_quanta E s) (\<lambda>bs. Inr (quantum_bytes (i * 262144 + j * 4096 + k * 64 + l) @ bs))
           | (Some k, None) \<Rightarrow>
               (if b64_padded E \<and> d = CHR ''='' \<and> s = []
                then Inr (take 2 (quantum_bytes (i * 262144 + j * 4096 + k * 64))) else corrupt_input)
           | (None, _) \<Rightarrow>
               (if b64_padded E \<and> c = CHR ''='' \<and> d = CHR ''='' \<and> s = []
                then Inr (take 1 (quantum_bytes (i * 262144 + j * 4096))) else corrupt_input))
      | _ \<Rightarrow> corrupt_input)"

definition b64_decode :: "b64_encoding \<Rightarrow> string \<Rightarrow> bytes result" where
  "b64_decode E s = b64_quanta E (filter (\<lambda>c. c \<noteq> CHR 0x0A \<and> c \<noteq> CHR 0x0D) s)"

text \<open>The loop over the encodings: the first that accepts, or the error of the last.\<close>

fun try_encodings :: "go_error \<Rightarrow> b64_encoding list \<Rightarrow> string \<Rightarrow> bytes result" where
  "try_encodings err [] s = Inl err"
| "try_encodings err (E # Es) s =
     (case b64_decode E s of Inr out \<Rightarrow> Inr out | Inl e \<Rightarrow> try_encodings e Es s)"

definition parse_base64_bytes :: "string \<Rightarrow> bytes result" where
  "parse_base64_bytes s =
     (if s = [] then Inr []
      else try_encodings (Plain []) [std_encoding, raw_std_encoding, url_encoding, raw_url_encoding] s)"

section \<open>Decimal integers\<close>

text \<open>
  \<open>strconv.ParseUint(s, 10, 64)\<close> and \<open>strconv.ParseInt(s, 10, 64)\<close>: at least one digit, nothing but
  digits behind an optional sign of \<open>ParseInt\<close>, and the value in range.
\<close>

definition go_parse_uint :: "string \<Rightarrow> u64 result" where
  "go_parse_uint s =
     (if s = [] \<or> \<not> digits s then Inl (Plain ''strconv.ParseUint: invalid syntax'')
      else if 2 ^ 64 \<le> dec_value s then Inl (Plain ''strconv.ParseUint: value out of range'')
      else Inr (of_nat (dec_value s)))"

definition go_parse_int :: "string \<Rightarrow> int result" where
  "go_parse_int s =
     (let neg = (s \<noteq> [] \<and> hd s = CHR ''-'');
          body = (if s \<noteq> [] \<and> (hd s = CHR ''-'' \<or> hd s = CHR ''+'') then tl s else s) in
      if s = [] then Inl (Plain ''strconv.ParseInt: invalid syntax'')
      else and_then (go_parse_uint body) (\<lambda>un.
        if \<not> neg \<and> 2 ^ 63 \<le> unat un then Inl (Plain ''strconv.ParseInt: value out of range'')
        else if neg \<and> 2 ^ 63 < unat un then Inl (Plain ''strconv.ParseInt: value out of range'')
        else Inr (if neg then - int (unat un) else int (unat un))))"

definition parse_uint64 :: "string \<Rightarrow> u64 result" where
  "parse_uint64 s = (if s = [] then Inr 0 else go_parse_uint s)"

definition parse_int64 :: "string \<Rightarrow> int result" where
  "parse_int64 s = (if s = [] then Inr 0 else go_parse_int s)"

text \<open>\<open>fmt.Sprintf("%d", n)\<close> of a signed value.\<close>

definition int_string :: "int \<Rightarrow> string" where
  "int_string n = (if n < 0 then CHR ''-'' # dec_string (nat (- n)) else dec_string (nat n))"

section \<open>URL queries\<close>

text \<open>\<open>url.Values\<close> with one value per key: \<open>Set\<close> replaces, \<open>Encode\<close> sorts by key and escapes.\<close>

type_synonym url_values = "(string \<times> string) list"

definition params_set :: "string \<Rightarrow> string \<Rightarrow> url_values \<Rightarrow> url_values" where
  "params_set k v ps = filter (\<lambda>p. fst p \<noteq> k) ps @ [(k, v)]"

definition upper_hex_char :: "nat \<Rightarrow> char" where
  "upper_hex_char n = (if n < 10 then char_of (48 + n) else char_of (55 + n))"

definition unreserved :: "char \<Rightarrow> bool" where
  "unreserved c \<longleftrightarrow>
     (let n = (of_char c :: nat) in
      48 \<le> n \<and> n \<le> 57 \<or> 65 \<le> n \<and> n \<le> 90 \<or> 97 \<le> n \<and> n \<le> 122) \<or> c \<in> set ''-_.~''"

definition query_escape :: "string \<Rightarrow> string" where
  "query_escape s =
     concat (map (\<lambda>c. if unreserved c then [c]
                      else if c = CHR '' '' then ''+''
                      else [CHR ''%'', upper_hex_char (of_char c div 16), upper_hex_char (of_char c mod 16)]) s)"

fun join_with :: "string \<Rightarrow> string list \<Rightarrow> string" where
  "join_with sep [] = []"
| "join_with sep [x] = x"
| "join_with sep (x # y # ys) = x @ sep @ join_with sep (y # ys)"

definition params_encode :: "url_values \<Rightarrow> string" where
  "params_encode ps =
     join_with ''&'' (map (\<lambda>(k, v). query_escape k @ ''='' @ query_escape v) (sort_key fst ps))"

text \<open>\<open>if len(params) > 0 { path += "?" + params.Encode() }\<close>.\<close>

definition with_params :: "string \<Rightarrow> url_values \<Rightarrow> string" where
  "with_params path ps = (if ps = [] then path else path @ ''?'' @ params_encode ps)"

end
