(* ===== verification/Tap_RestEnums.thy ===== *)
theory Tap_RestEnums
  imports Tap_RestText
begin

text \<open>
  Enum values and their names in proto JSON: the printers of \<open>rest/wallet_client.go\<close>,
  \<open>rest/universe_client.go\<close>, \<open>rest/walletkit_client.go\<close> and \<open>rest/mint_client.go\<close>, the parsers
  of \<open>rest/marshal.go\<close> and \<open>rest/event_marshal.go\<close>. The locale \<open>wire_enum\<close> states what a printer
  and a parser owe each other; every pair of the backend is an interpretation.
\<close>

section \<open>The contract of a printer and a parser\<close>

locale wire_enum =
  fixes print :: "'v \<Rightarrow> string" and parse :: "string \<Rightarrow> 'v result" and known :: "'v set"
  assumes parse_print: "v \<in> known \<Longrightarrow> parse (print v) = Inr v"
    and parse_known: "parse s = Inr v \<Longrightarrow> v \<in> known"
begin

lemma print_inj: "v \<in> known \<Longrightarrow> w \<in> known \<Longrightarrow> print v = print w \<longleftrightarrow> v = w"
  using parse_print by (metis sum.inject(2))

lemma read_back: "parse s = Inr v \<Longrightarrow> parse (print v) = Inr v"
  by (rule parse_print [OF parse_known])

lemma accepted_iff: "v \<in> known \<longleftrightarrow> (\<exists>s. parse s = Inr v)"
  using parse_print parse_known by blast

end

section \<open>Assets, addresses and batches\<close>

definition parse_asset_type :: "string \<Rightarrow> asset_type result" where
  "parse_asset_type s =
     (if s = ''NORMAL'' then Inr asset_type_normal
      else if s = ''COLLECTIBLE'' then Inr asset_type_collectible
      else Inl (Plain ''unknown asset_type''))"

definition parse_burn_asset_type :: "string \<Rightarrow> asset_type result" where
  "parse_burn_asset_type s =
     (if s = ''NORMAL'' then Inr asset_type_normal
      else if s = ''COLLECTIBLE'' then Inr asset_type_collectible
      else Inl (Plain ''unknown burn asset_type''))"

definition marshal_asset_type_json :: "asset_type \<Rightarrow> string" where
  "marshal_asset_type_json t = (if t = asset_type_collectible then ''COLLECTIBLE'' else ''NORMAL'')"

text \<open>\<open>AssetVersion\<close> is a \<open>uint8\<close> with the values 0 and 1, \<open>AddressVersion\<close> one with 1, 2 and 3.\<close>

definition parse_asset_version :: "string \<Rightarrow> byte" where
  "parse_asset_version s = (if s = ''ASSET_VERSION_V1'' then 1 else 0)"

definition marshal_asset_version_json :: "byte \<Rightarrow> string" where
  "marshal_asset_version_json v = (if v = 1 then ''ASSET_VERSION_V1'' else ''ASSET_VERSION_V0'')"

definition parse_address_version :: "string \<Rightarrow> byte" where
  "parse_address_version s =
     (if s = ''ADDR_VERSION_V1'' then 2 else if s = ''ADDR_VERSION_V2'' then 3 else 1)"

definition marshal_address_version_json :: "byte \<Rightarrow> string" where
  "marshal_address_version_json v =
     (if v = 2 then ''ADDR_VERSION_V1'' else if v = 3 then ''ADDR_VERSION_V2'' else ''ADDR_VERSION_V0'')"

datatype backup_mode =
    BackupModeRaw | BackupModeCompact | BackupModeOptimistic | BackupModeOther byte

definition parse_backup_mode :: "string \<Rightarrow> backup_mode" where
  "parse_backup_mode s =
     (if s = ''COMPACT'' then BackupModeCompact
      else if s = ''OPTIMISTIC'' then BackupModeOptimistic else BackupModeRaw)"

definition marshal_backup_mode :: "backup_mode \<Rightarrow> string" where
  "marshal_backup_mode m =
     (case m of BackupModeCompact \<Rightarrow> ''COMPACT'' | BackupModeOptimistic \<Rightarrow> ''OPTIMISTIC'' | _ \<Rightarrow> ''RAW'')"

text \<open>\<open>AddressEventStatus\<close> is a \<open>uint8\<close> with the values 0 to 4; events carry it as a number.\<close>

definition parse_address_event_status :: "string \<Rightarrow> int" where
  "parse_address_event_status s =
     (if s = ''ADDR_EVENT_STATUS_TRANSACTION_DETECTED'' then 1
      else if s = ''ADDR_EVENT_STATUS_TRANSACTION_CONFIRMED'' then 2
      else if s = ''ADDR_EVENT_STATUS_PROOF_RECEIVED'' then 3
      else if s = ''ADDR_EVENT_STATUS_COMPLETED'' then 4
      else 0)"

definition marshal_addr_event_status_json :: "int \<Rightarrow> string" where
  "marshal_addr_event_status_json s =
     (if s = 1 then ''ADDR_EVENT_STATUS_TRANSACTION_DETECTED''
      else if s = 2 then ''ADDR_EVENT_STATUS_TRANSACTION_CONFIRMED''
      else if s = 3 then ''ADDR_EVENT_STATUS_PROOF_RECEIVED''
      else if s = 4 then ''ADDR_EVENT_STATUS_COMPLETED''
      else ''ADDR_EVENT_STATUS_UNKNOWN'')"

definition parse_batch_state :: "string \<Rightarrow> batch_state" where
  "parse_batch_state s =
     (if s = ''BATCH_STATE_PENDING'' then BatchStatePending
      else if s = ''BATCH_STATE_FROZEN'' then BatchStateFrozen
      else if s = ''BATCH_STATE_COMMITTED'' then BatchStateCommitted
      else if s = ''BATCH_STATE_BROADCAST'' then BatchStateBroadcast
      else if s = ''BATCH_STATE_CONFIRMED'' then BatchStateConfirmed
      else if s = ''BATCH_STATE_FINALIZED'' then BatchStateFinalized
      else if s = ''BATCH_STATE_SEEDLING_CANCELLED'' then BatchStateSeedlingCancelled
      else if s = ''BATCH_STATE_SPROUT_CANCELLED'' then BatchStateSproutCancelled
      else BatchStatePending)"

text \<open>\<open>AssetMetaType\<close> is a \<open>uint8\<close>: 0 for opaque data, 1 for JSON.\<close>

definition parse_asset_meta_type :: "string \<Rightarrow> byte" where
  "parse_asset_meta_type s = (if s = ''META_TYPE_JSON'' then 1 else 0)"

definition meta_type_text :: "byte \<Rightarrow> string" where
  "meta_type_text t = (if t = 1 then ''META_TYPE_JSON'' else ''META_TYPE_OPAQUE'')"

section \<open>Universe queries\<close>

definition parse_proof_type :: "string \<Rightarrow> proof_type" where
  "parse_proof_type s =
     (if s = ''PROOF_TYPE_ISSUANCE'' then proof_type_issuance
      else if s = ''PROOF_TYPE_TRANSFER'' then proof_type_transfer else proof_type_unspecified)"

definition marshal_proof_type :: "proof_type \<Rightarrow> string" where
  "marshal_proof_type pt =
     (if pt = proof_type_issuance then ''PROOF_TYPE_ISSUANCE''
      else if pt = proof_type_transfer then ''PROOF_TYPE_TRANSFER'' else ''PROOF_TYPE_UNSPECIFIED'')"

definition marshal_sort_direction :: "int \<Rightarrow> string" where
  "marshal_sort_direction sd = (if sd = 1 then ''SORT_DIRECTION_ASC'' else ''SORT_DIRECTION_DESC'')"

definition marshal_asset_query_sort :: "int \<Rightarrow> string" where
  "marshal_asset_query_sort s =
     (if s = 1 then ''SORT_BY_ASSET_NAME''
      else if s = 2 then ''SORT_BY_ASSET_ID''
      else if s = 3 then ''SORT_BY_ASSET_TYPE''
      else if s = 4 then ''SORT_BY_TOTAL_SYNCS''
      else if s = 5 then ''SORT_BY_TOTAL_PROOFS''
      else if s = 6 then ''SORT_BY_GENESIS_HEIGHT''
      else if s = 7 then ''SORT_BY_TOTAL_SUPPLY''
      else ''SORT_BY_NONE'')"

definition marshal_asset_type_filter :: "int \<Rightarrow> string" where
  "marshal_asset_type_filter f =
     (if f = 1 then ''FILTER_ASSET_NORMAL'' else if f = 2 then ''FILTER_ASSET_COLLECTIBLE'' else ''FILTER_ASSET_NONE'')"

definition marshal_sync_mode :: "int \<Rightarrow> string" where
  "marshal_sync_mode m = (if m = 1 then ''SYNC_FULL'' else ''SYNC_ISSUANCE_ONLY'')"

definition marshal_script_key_type :: "byte \<Rightarrow> string" where
  "marshal_script_key_type t =
     (if t = 0 then ''SCRIPT_KEY_UNKNOWN''
      else if t = 1 then ''SCRIPT_KEY_BIP86''
      else if t = 2 then ''SCRIPT_KEY_SCRIPT_PATH_EXTERNAL''
      else if t = 3 then ''SCRIPT_KEY_BURN''
      else if t = 4 then ''SCRIPT_KEY_TOMBSTONE''
      else if t = 5 then ''SCRIPT_KEY_CHANNEL''
      else if t = 6 then ''SCRIPT_KEY_UNIQUE_PEDERSEN''
      else [])"

text \<open>\<open>ParcelType\<close> is a \<open>uint8\<close> with the values 0 to 3.\<close>

definition parse_parcel_type :: "string \<Rightarrow> byte" where
  "parse_parcel_type s =
     (if s = ''PARCEL_TYPE_PRE_SIGNED'' then 1
      else if s = ''PARCEL_TYPE_PENDING'' then 2
      else if s = ''PARCEL_TYPE_PRE_ANCHORED'' then 3 else 0)"

section \<open>The pairs of the backend\<close>

interpretation asset_type: wire_enum marshal_asset_type_json parse_asset_type "{asset_type_normal, asset_type_collectible}"
  by unfold_locales (auto simp: marshal_asset_type_json_def parse_asset_type_def split: if_splits)

interpretation asset_version: wire_enum marshal_asset_version_json "Inr \<circ> parse_asset_version" "{0, 1}"
  by unfold_locales (auto simp: marshal_asset_version_json_def parse_asset_version_def split: if_splits)

interpretation address_version: wire_enum marshal_address_version_json "Inr \<circ> parse_address_version" "{1, 2, 3}"
  by unfold_locales (auto simp: marshal_address_version_json_def parse_address_version_def split: if_splits)

interpretation backup_mode: wire_enum marshal_backup_mode "Inr \<circ> parse_backup_mode"
    "{BackupModeRaw, BackupModeCompact, BackupModeOptimistic}"
  by unfold_locales (auto simp: marshal_backup_mode_def parse_backup_mode_def split: if_splits)

interpretation event_status: wire_enum marshal_addr_event_status_json "Inr \<circ> parse_address_event_status" "{0, 1, 2, 3, 4}"
  by unfold_locales (auto simp: marshal_addr_event_status_json_def parse_address_event_status_def split: if_splits)

interpretation meta_type: wire_enum meta_type_text "Inr \<circ> parse_asset_meta_type" "{0, 1}"
  by unfold_locales (auto simp: meta_type_text_def parse_asset_meta_type_def split: if_splits)

interpretation proof_type: wire_enum marshal_proof_type "Inr \<circ> parse_proof_type"
    "{proof_type_unspecified, proof_type_issuance, proof_type_transfer}"
  by unfold_locales (auto simp: marshal_proof_type_def parse_proof_type_def proof_type_unspecified_def
      proof_type_issuance_def proof_type_transfer_def split: if_splits)

end
