(* ===== verification/Tap_RestTypes.thy ===== *)
theory Tap_RestTypes
  imports Tap_RestEnums
begin

text \<open>
  The JSON messages of tapd's REST proxy (\<open>rest/types.go\<close>) and the SDK types that only the backends
  fill in (\<open>info.go\<close>, \<open>address.go\<close>, \<open>utxo.go\<close>, \<open>burn.go\<close>, \<open>universe_entities.go\<close>, \<open>events.go\<close>).

  A struct is a record with the fields in the order of the source; pointers are options, slices are
  lists, whose elements may be null, a JSON object used as a map is the list of its entries in the
  order of an iteration over it. \<open>int32\<close> fields are 32-bit words, read with \<open>sint\<close> where the sign
  matters. A response with one field is a synonym of that field's type. Of the split commitment and
  the genesis reveal the code only tests the presence.
\<close>

section \<open>Messages\<close>

record json_get_info_response =
  jgi_version :: string
  jgi_lnd_version :: string
  jgi_network :: string
  jgi_lnd_identity_pubkey :: string
  jgi_node_alias :: string
  jgi_block_height :: u32
  jgi_block_hash :: string
  jgi_sync_to_chain :: bool

record json_genesis_info =
  jge_genesis_point :: string
  jge_name :: string
  jge_meta_hash :: string
  jge_asset_id :: string
  jge_asset_type :: string
  jge_output_index :: u32

record json_asset_group =
  jgr_raw_group_key :: string
  jgr_tweaked_group_key :: string
  jgr_tapscript_root :: string

record json_chain_anchor =
  jca_anchor_outpoint :: string

record json_asset =
  jas_version :: string
  jas_asset_genesis :: "json_genesis_info option"
  jas_amount :: string
  jas_lock_time :: u32
  jas_relative_lock_time :: u32
  jas_script_version :: u32
  jas_script_key :: string
  jas_asset_group :: "json_asset_group option"
  jas_chain_anchor :: "json_chain_anchor option"

type_synonym json_list_assets_response = "json_asset option list"

record json_asset_balance =
  jab_asset_genesis :: "json_genesis_info option"
  jab_balance :: string
  jab_group_key :: string

record json_asset_group_balance =
  jgb_group_key :: string
  jgb_balance :: string

record json_list_balances_response =
  jlb_asset_balances :: "(string \<times> json_asset_balance option) list"
  jlb_asset_group_balances :: "(string \<times> json_asset_group_balance option) list"
  jlb_unconfirmed_transfers :: string

record json_anchor_info =
  jan_outpoint :: string
  jan_value :: string

record json_transfer_output =
  jto_amount :: string
  jto_asset_id :: string
  jto_asset_type :: string
  jto_script_key :: string
  jto_new_proof_blob :: string
  jto_anchor :: "json_anchor_info option"
  jto_group_key :: string

record json_transfer_input =
  jti_anchor_point :: string
  jti_asset_id :: string
  jti_asset_type :: string
  jti_script_key :: string
  jti_amount :: string
  jti_group_key :: string

record json_block_hash =
  jbh_hash :: string
  jbh_hash_str :: string

record json_asset_transfer =
  jat_transfer_timestamp :: string
  jat_anchor_tx_hash :: string
  jat_anchor_tx_height_hint :: u32
  jat_anchor_tx_chain_fees :: string
  jat_inputs :: "json_transfer_input option list"
  jat_outputs :: "json_transfer_output option list"
  jat_anchor_tx_block_hash :: "json_block_hash option"
  jat_anchor_tx_block_height :: u32
  jat_label :: string
  jat_anchor_tx :: string

type_synonym json_list_transfers_response = "json_asset_transfer option list"

type_synonym json_send_asset_response = "json_asset_transfer option"

record json_addr =
  jad_encoded :: string
  jad_asset_id :: string
  jad_asset_type :: string
  jad_amount :: string
  jad_group_key :: string
  jad_script_key :: string
  jad_internal_key :: string
  jad_tapscript_sibling :: string
  jad_taproot_output_key :: string
  jad_proof_courier_addr :: string
  jad_asset_version :: string
  jad_address_version :: string

type_synonym json_query_addrs_response = "json_addr option list"

record json_addr_event =
  jae_creation_time_unix_seconds :: string
  jae_addr :: "json_addr option"
  jae_status :: string
  jae_outpoint :: string
  jae_utxo_amt_sat :: string
  jae_taproot_sibling :: string
  jae_confirmation_height :: u32
  jae_has_proof :: bool

type_synonym json_addr_receives_response = "json_addr_event option list"

record json_proof_file =
  jpf_raw_proof_file :: string
  jpf_genesis_point :: string

type_synonym json_unpack_proof_file_response = "string list"

record json_prev_id =
  jpi_anchor_point :: string
  jpi_asset_id :: string
  jpi_script_key :: string

record json_prev_witness =
  jpw_prev_id :: "json_prev_id option"
  jpw_split_commitment :: bool

record json_decoded_asset =
  jda_asset_genesis :: "json_genesis_info option"
  jda_amount :: string
  jda_script_key :: string
  jda_chain_anchor :: "json_chain_anchor option"
  jda_asset_group :: "json_asset_group option"
  jda_prev_witnesses :: "json_prev_witness option list"

record json_decoded_proof =
  jdp_proof_at_depth :: u32
  jdp_number_of_proofs :: u32
  jdp_asset :: "json_decoded_asset option"
  jdp_genesis_reveal :: bool
  jdp_alt_leaves :: string

type_synonym json_decode_proof_response = "json_decoded_proof option"

record json_registered_asset =
  jra_asset_genesis :: "json_genesis_info option"
  jra_amount :: string
  jra_script_key :: string
  jra_chain_anchor :: "json_chain_anchor option"

type_synonym json_register_transfer_response = "json_registered_asset option"

record json_key_locator =
  jkl_key_family :: u32
  jkl_key_index :: u32

record json_key_descriptor =
  jkd_raw_key_bytes :: string
  jkd_key_loc :: "json_key_locator option"

record json_script_key =
  jsk_pub_key :: string
  jsk_key_desc :: "json_key_descriptor option"
  jsk_tap_tweak :: string

record json_external_key =
  jek_xpub :: string
  jek_master_fingerprint :: string
  jek_derivation_path :: string

type_synonym json_next_script_key_response = "json_script_key option"

type_synonym json_next_internal_key_response = "json_key_descriptor option"

record json_fund_virtual_psbt_response =
  jfv_funded_psbt :: string
  jfv_passive_asset_psbts :: "string list"

type_synonym json_sign_virtual_psbt_response = string

record json_outpoint =
  jop_txid :: string
  jop_hash_str :: string
  jop_output_index :: u32
  jop_index :: u32

record json_commit_virtual_psbts_response =
  jcv_anchor_psbt :: string
  jcv_virtual_psbts :: "string list"
  jcv_passive_asset_psbts :: "string list"
  jcv_change_output_index :: u32
  jcv_lnd_locked_utxos :: "json_outpoint option list"

type_synonym json_publish_and_log_response = "string option"

record json_asset_meta =
  jam_data :: string
  jam_type :: string
  jam_meta_hash :: string

record json_pending_asset =
  jpa_asset_version :: string
  jpa_asset_type :: string
  jpa_name :: string
  jpa_amount :: string
  jpa_new_grouped_asset :: bool
  jpa_group_key :: string
  jpa_group_anchor :: string
  jpa_group_tapscript_root :: string
  jpa_asset_meta :: "json_asset_meta option"
  jpa_script_key :: "json_script_key option"
  jpa_group_internal_key :: "json_key_descriptor option"

record json_tx_out =
  jtx_value :: string
  jtx_pk_script :: string

record json_group_key_request =
  jgk_raw_key :: "json_key_descriptor option"
  jgk_anchor_genesis :: "json_genesis_info option"
  jgk_tapscript_root :: string
  jgk_new_asset :: string
  jgk_external_key :: "json_external_key option"

record json_group_virtual_tx =
  jgv_transaction :: string
  jgv_prev_out :: "json_tx_out option"
  jgv_genesis_id :: string
  jgv_tweaked_key :: string

record json_unsealed_asset =
  jua_asset :: "json_pending_asset option"
  jua_group_key_request :: "json_group_key_request option"
  jua_group_virtual_tx :: "json_group_virtual_tx option"
  jua_group_virtual_psbt :: string

record json_minting_batch =
  jmb_batch_key :: string
  jmb_batch_txid :: string
  jmb_state :: string
  jmb_created_at :: string
  jmb_height_hint :: u32
  jmb_batch_psbt :: string
  jmb_assets :: "json_pending_asset option list"

type_synonym json_batch_response = "json_minting_batch option"

record json_verbose_batch =
  jvb_batch :: "json_minting_batch option"
  jvb_unsealed_assets :: "json_unsealed_asset option list"

type_synonym json_fund_batch_response = "json_verbose_batch option"

type_synonym json_cancel_batch_response = string

type_synonym json_list_batches_response = "json_verbose_batch option list"

record json_managed_utxo =
  jmu_out_point :: string
  jmu_amt_sat :: string
  jmu_internal_key :: string
  jmu_taproot_asset_root :: string
  jmu_merkle_root :: string
  jmu_assets :: "json_asset option list"
  jmu_lease_owner :: string
  jmu_lease_expiry_unix :: string

type_synonym json_list_utxos_response = "(string \<times> json_managed_utxo option) list"

record json_asset_human_readable =
  jah_id :: string
  jah_amount :: string
  jah_lock_time :: u32
  jah_relative_lock_time :: u32
  jah_tag :: string
  jah_meta_hash :: string
  jah_type :: string
  jah_version :: string

type_synonym json_grouped_assets = "json_asset_human_readable option list"

type_synonym json_list_groups_response = "(string \<times> json_grouped_assets option) list"

record json_burn_asset_response =
  jba_burn_transfer :: "json_asset_transfer option"
  jba_burn_proof :: "json_decoded_proof option"

record json_asset_burn =
  jbu_note :: string
  jbu_asset_id :: string
  jbu_tweaked_group_key :: string
  jbu_amount :: string
  jbu_anchor_txid :: string
  jbu_asset_type :: string

type_synonym json_list_burns_response = "json_asset_burn option list"

record json_verify_proof_response =
  jvp_valid :: bool
  jvp_decoded_proof :: "json_decoded_proof option"

type_synonym json_query_internal_key_response = "json_key_descriptor option"

type_synonym json_query_script_key_response = "json_script_key option"

type_synonym json_ownership_proof = string

record json_verify_ownership_response =
  jvo_valid_proof :: bool
  jvo_outpoint :: "json_outpoint option"
  jvo_outpoint_str :: string
  jvo_block_hash :: string
  jvo_block_hash_str :: string
  jvo_block_height :: u32

type_synonym json_import_backup_response = u32

record json_merkle_sum_node =
  jms_root_hash :: string
  jms_root_sum :: string

record json_universe_id =
  jui_asset_id :: string
  jui_group_key :: string
  jui_proof_type :: string

record json_universe_root =
  jur_id :: "json_universe_id option"
  jur_mssmt_root :: "json_merkle_sum_node option"
  jur_asset_name :: string
  jur_amounts_by_asset_id :: "(string \<times> string) list"

type_synonym json_asset_roots_response = "(string \<times> json_universe_root option) list"

record json_query_root_response =
  jqr_issuance_root :: "json_universe_root option"
  jqr_transfer_root :: "json_universe_root option"

record json_asset_key =
  jak_outpoint :: "json_outpoint option"
  jak_op :: "json_outpoint option"
  jak_op_str :: string
  jak_script_key :: string
  jak_script_key_bytes :: string
  jak_script_key_str :: string

type_synonym json_asset_leaf_keys_response = "json_asset_key option list"

record json_asset_leaf_resp =
  jal_asset :: "json_asset option"
  jal_proof :: string

type_synonym json_asset_leaves_response = "json_asset_leaf_resp option list"

record json_universe_key =
  juk_id :: "json_universe_id option"
  juk_leaf_key :: "json_asset_key option"

record json_query_proof_response =
  jqp_req :: "json_universe_key option"
  jqp_universe_root :: "json_universe_root option"
  jqp_universe_inclusion_proof :: string
  jqp_asset_leaf :: "json_asset_leaf_resp option"
  jqp_multiverse_root :: "json_merkle_sum_node option"
  jqp_multiverse_inclusion_proof :: string

record json_universe_stats_response =
  jus_num_total_assets :: string
  jus_num_total_groups :: string
  jus_num_total_syncs :: string
  jus_num_total_proofs :: string

record json_asset_stats_asset =
  jaa_asset_id :: string
  jaa_genesis_point :: string
  jaa_total_supply :: string
  jaa_asset_name :: string
  jaa_asset_type :: string
  jaa_genesis_height :: u32
  jaa_genesis_timestamp :: string
  jaa_anchor_point :: string
  jaa_decimal_display :: u32

record json_asset_stats_snapshot =
  jss_asset_id :: string
  jss_group_key :: string
  jss_group_supply :: string
  jss_group_anchor :: "json_asset_stats_asset option"
  jss_asset :: "json_asset_stats_asset option"
  jss_total_syncs :: string
  jss_total_proofs :: string

type_synonym json_asset_stats_response = "json_asset_stats_snapshot option list"

record json_grouped_universe_events =
  jgu_date :: string
  jgu_sync_events :: string
  jgu_new_proof_events :: string

type_synonym json_query_events_response = "json_grouped_universe_events option list"

record json_federation_server =
  jfs_host :: string
  jfs_id :: u32

type_synonym json_list_federation_servers_response = "json_federation_server option list"

record json_global_sync_config =
  jgs_proof_type :: string
  jgs_allow_sync_insert :: bool
  jgs_allow_sync_export :: bool

record json_asset_sync_config =
  jac_id :: "json_universe_id option"
  jac_allow_sync_insert :: bool
  jac_allow_sync_export :: bool

record json_query_sync_config_response =
  jqc_global_sync_configs :: "json_global_sync_config option list"
  jqc_asset_sync_configs :: "json_asset_sync_config option list"

type_synonym json_info_response = string

record json_synced_universe =
  jsu_old_asset_root :: "json_universe_root option"
  jsu_new_asset_root :: "json_universe_root option"
  jsu_new_asset_leaves :: "json_asset_leaf_resp option list"

type_synonym json_sync_universe_response = "json_synced_universe option list"

record json_receive_event =
  jre_timestamp :: string
  jre_address :: "json_addr option"
  jre_outpoint :: string
  jre_status :: string
  jre_confirmation_height :: u32
  jre_error :: string

record json_anchor_transaction =
  jax_anchor_psbt :: string
  jax_change_output_index :: u32
  jax_chain_fees_sats :: string
  jax_target_fee_rate_sat_kw :: u32
  jax_lnd_locked_utxos :: "json_outpoint option list"
  jax_final_tx :: string

record json_send_event =
  jse_timestamp :: string
  jse_send_state :: string
  jse_parcel_type :: string
  jse_addresses :: "json_addr option list"
  jse_virtual_packets :: "string list"
  jse_passive_virtual_packets :: "string list"
  jse_anchor_transaction :: "json_anchor_transaction option"
  jse_transfer :: "json_asset_transfer option"
  jse_error :: string
  jse_transfer_label :: string
  jse_next_send_state :: string

record json_mint_event =
  jme_timestamp :: string
  jme_batch_state :: string
  jme_batch :: "json_minting_batch option"
  jme_error :: string

section \<open>SDK types of the backends\<close>

record node_info =
  ni_version :: string
  ni_lnd_version :: string
  ni_network :: string
  ni_lnd_identity_pubkey :: bytes
  ni_node_alias :: string
  ni_block_height :: u32
  ni_block_hash :: bytes
  ni_synced_to_chain :: bool

record address_event =
  ae_creation_time :: u64
  ae_address :: "address option"
  ae_status :: int
  ae_outpoint :: string
  ae_utxo_amount_sat :: u64
  ae_taproot_sibling :: bytes
  ae_confirmation_height :: u32
  ae_has_proof :: bool

record asset_group_member =
  gm_asset_ref :: string
  gm_issuance_id :: bytes
  gm_amount :: u64
  gm_lock_time :: u32
  gm_relative_lock_time :: u32
  gm_tag :: string
  gm_meta_hash :: bytes
  gm_type :: asset_type
  gm_version :: byte

record asset_group_record =
  gr_asset_ref :: string
  gr_members :: "asset_group_member list"

record burn_record =
  bn_note :: string
  bn_asset_ref :: string
  bn_collection_ref :: "string option"
  bn_type :: asset_type
  bn_issuance_id :: bytes
  bn_amount :: u64
  bn_anchor_txid :: bytes

record universe_stats =
  us_num_total_assets :: int
  us_num_total_groups :: int
  us_num_total_syncs :: int
  us_num_total_proofs :: int

record asset_stats_asset =
  sa_asset_ref :: string
  sa_issuance_id :: bytes
  sa_genesis_point :: string
  sa_total_supply :: int
  sa_asset_name :: string
  sa_asset_type :: asset_type
  sa_genesis_height :: u32
  sa_genesis_timestamp :: int
  sa_anchor_point :: string
  sa_decimal_display :: u32

record asset_stats_snapshot =
  ss_asset_ref :: string
  ss_group_key :: "bytes option"
  ss_group_supply :: int
  ss_group_anchor :: "asset_stats_asset option"
  ss_asset :: "asset_stats_asset option"
  ss_total_syncs :: int
  ss_total_proofs :: int

record grouped_universe_events =
  ge_date :: string
  ge_sync_events :: u64
  ge_new_proof_events :: u64

record federation_server =
  fs_host :: string
  fs_id :: u32

record global_sync_config =
  gc_proof_type :: proof_type
  gc_allow_sync_insert :: bool
  gc_allow_sync_export :: bool

record asset_sync_config =
  sc_id :: universe_id
  sc_allow_sync_insert :: bool
  sc_allow_sync_export :: bool

record federation_sync_config =
  fc_global :: "global_sync_config list"
  fc_asset :: "asset_sync_config list"

end
