(* ===== verification/Tap_RestMarshal.thy ===== *)
theory Tap_RestMarshal
  imports Tap_RestTypes
begin

text \<open>
  Decoding of the wallet, address, transfer, proof and mint messages of the REST proxy
  (\<open>rest/marshal.go\<close>, the decoders of \<open>rest/proof_client.go\<close> and \<open>rest/mint_client.go\<close>). Every
  function has the checks of the source in their order; \<open>errorf\<close> is \<open>fmt.Errorf("...: %w", err)\<close>.
  Hashes and outpoints in display form belong to \<open>btcd\<close> and are the record \<open>chain_lib\<close>.
\<close>

section \<open>Outpoints, errors and loops\<close>

text \<open>\<open>wire.NewOutPointFromString\<close>, \<open>chainhash.Hash.String\<close> and \<open>chainhash.NewHashFromStr\<close>.\<close>

record chain_lib =
  cl_outpoint_from_string :: "string \<Rightarrow> (bytes \<times> u32) result"
  cl_hash_string :: "bytes \<Rightarrow> string"
  cl_hash_from_string :: "string \<Rightarrow> bytes result"

definition new_outpoint_from_str :: "chain_lib \<Rightarrow> string \<Rightarrow> outpoint result" where
  "new_outpoint_from_str X s =
     and_then (cl_outpoint_from_string X s) (\<lambda>(h, i). Inr \<lparr>op_txid = h, op_index = i\<rparr>)"

definition outpoint_string :: "chain_lib \<Rightarrow> outpoint \<Rightarrow> string" where
  "outpoint_string X o1 = cl_hash_string X (op_txid o1) @ '':'' @ dec_string (unat (op_index o1))"

definition zero_outpoint :: outpoint where
  "zero_outpoint = \<lparr>op_txid = zero32, op_index = 0\<rparr>"

definition errorf :: "string \<Rightarrow> 'a result \<Rightarrow> 'a result" where
  "errorf msg r = wrap_with (\<lambda>e. Wrapf msg e []) r"

lemma errorf_simps [simp]:
  "errorf msg (Inr x) = Inr x" "errorf msg (Inl e) = Inl (Wrapf msg e [])"
  "errorf msg r = Inr x \<longleftrightarrow> r = Inr x" "is_ok (errorf msg r) \<longleftrightarrow> is_ok r"
  by (simp_all add: errorf_def)

text \<open>\<open>if p == nil { return nil, errors.New(msg) }\<close>.\<close>

definition not_nil :: "string \<Rightarrow> 'a option \<Rightarrow> 'a result" where
  "not_nil msg p = (case p of None \<Rightarrow> Inl (Plain msg) | Some x \<Rightarrow> Inr x)"

lemma not_nil_simps [simp]:
  "not_nil msg None = Inl (Plain msg)" "not_nil msg (Some x) = Inr x"
  "not_nil msg p = Inr x \<longleftrightarrow> p = Some x"
  by (cases p; simp add: not_nil_def)+

text \<open>\<open>if len(b) != n { return nil, errors.New(msg) }\<close>.\<close>

definition exact_length :: "string \<Rightarrow> nat \<Rightarrow> bytes \<Rightarrow> bytes result" where
  "exact_length msg n b = (if length b \<noteq> n then Inl (Plain msg) else Inr b)"

lemma exact_length_eq [simp]: "exact_length msg n b = Inr c \<longleftrightarrow> length b = n \<and> c = b"
  by (auto simp: exact_length_def)

text \<open>A field that is decoded only when it is set.\<close>

definition when_set :: "('a \<Rightarrow> 'b result) \<Rightarrow> 'a option \<Rightarrow> 'b option result" where
  "when_set f p = (case p of None \<Rightarrow> Inr None | Some x \<Rightarrow> and_then (f x) (\<lambda>y. Inr (Some y)))"

lemma when_set_eq:
  "when_set f p = Inr q \<longleftrightarrow> (p = None \<and> q = None) \<or> (\<exists>x y. p = Some x \<and> q = Some y \<and> f x = Inr y)"
  by (cases p) (auto simp: when_set_def result_simps)

text \<open>The loop that decodes the elements of a slice and returns at the first error.\<close>

primrec decode_all :: "('a \<Rightarrow> 'b result) \<Rightarrow> 'a list \<Rightarrow> 'b list result" where
  "decode_all f [] = Inr []"
| "decode_all f (x # xs) = and_then (f x) (\<lambda>y. and_then (decode_all f xs) (\<lambda>ys. Inr (y # ys)))"

lemma decode_all_eq: "decode_all f xs = Inr ys \<longleftrightarrow> list_all2 (\<lambda>x y. f x = Inr y) xs ys"
  by (induction xs arbitrary: ys) (auto simp: result_simps list_all2_Cons1)

section \<open>Node information\<close>

definition unmarshal_info :: "json_get_info_response \<Rightarrow> node_info result" where
  "unmarshal_info resp =
     and_then (errorf ''invalid lnd_identity_pubkey: '' (parse_hex_bytes (jgi_lnd_identity_pubkey resp))) (\<lambda>pub.
     Inr \<lparr>ni_version = jgi_version resp, ni_lnd_version = jgi_lnd_version resp, ni_network = jgi_network resp,
          ni_lnd_identity_pubkey = copy_into 33 pub, ni_node_alias = jgi_node_alias resp,
          ni_block_height = jgi_block_height resp, ni_block_hash = zero32,
          ni_synced_to_chain = jgi_sync_to_chain resp\<rparr>)"

section \<open>Assets\<close>

definition unmarshal_issuance_genesis :: "chain_lib \<Rightarrow> json_genesis_info option \<Rightarrow> issuance_genesis result" where
  "unmarshal_issuance_genesis X genesis =
     and_then (not_nil ''nil asset genesis'' genesis) (\<lambda>g.
     if jge_genesis_point g = [] then Inl (Plain ''missing genesis point'')
     else
     and_then (errorf ''invalid genesis point: '' (new_outpoint_from_str X (jge_genesis_point g))) (\<lambda>first_prev_out.
     and_then (errorf ''invalid asset ID: '' (parse_hex_bytes (jge_asset_id g))) (\<lambda>id_bytes.
     and_then (exact_length ''invalid asset ID length'' 32 id_bytes) (\<lambda>asset_id.
     and_then (errorf ''invalid meta hash: '' (parse_hex_bytes (jge_meta_hash g))) (\<lambda>meta.
     and_then (parse_asset_type (jge_asset_type g)) (\<lambda>ty.
     Inr \<lparr>ig_first_prev_out = first_prev_out, ig_tag = jge_name g,
          ig_meta_hash = (if length meta = 32 then meta else zero32),
          ig_issuance_id = asset_id, ig_output_index = jge_output_index g, ig_type = ty\<rparr>))))))"

text \<open>The zero values of the structs that the literals of the source leave unset.\<close>

definition zero_key_descriptor :: key_descriptor where
  "zero_key_descriptor = \<lparr>kd_raw_key_bytes = replicate 33 0, kd_locator = \<lparr>kl_family = 0, kl_index = 0\<rparr>\<rparr>"

definition bare_script_key :: "bytes \<Rightarrow> script_key" where
  "bare_script_key k = \<lparr>sk_pub_key = k, sk_key_desc = zero_key_descriptor, sk_tap_tweak = []\<rparr>"

text \<open>The anchor outpoint must be the canonical text of the outpoint it parses to.\<close>

definition unmarshal_anchor_point :: "chain_lib \<Rightarrow> json_chain_anchor option \<Rightarrow> outpoint option result" where
  "unmarshal_anchor_point X anchor =
     (case anchor of
        None \<Rightarrow> Inr None
      | Some a \<Rightarrow>
          (if jca_anchor_outpoint a = [] then Inr None
           else case new_outpoint_from_str X (jca_anchor_outpoint a) of
             Inl _ \<Rightarrow> Inl (Plain ''invalid canonical anchor outpoint'')
           | Inr point \<Rightarrow>
               (if outpoint_string X point \<noteq> jca_anchor_outpoint a
                then Inl (Plain ''invalid canonical anchor outpoint'') else Inr (Some point))))"

definition unmarshal_tweaked_key :: "json_asset_group option \<Rightarrow> bytes option result" where
  "unmarshal_tweaked_key asset_group =
     (case asset_group of
        None \<Rightarrow> Inr None
      | Some g \<Rightarrow>
          (if jgr_tweaked_group_key g = [] then Inr None
           else and_then (errorf ''invalid tweaked group key: '' (parse_hex_bytes (jgr_tweaked_group_key g))) (\<lambda>tweaked.
             Inr (if length tweaked = 33 then Some tweaked else None))))"

text \<open>\<open>uint64(int32)\<close> extends the sign, \<open>uint16(int32)\<close> truncates.\<close>

definition unmarshal_asset :: "'k lib \<Rightarrow> chain_lib \<Rightarrow> json_asset option \<Rightarrow> asset_record result" where
  "unmarshal_asset L X asset =
     and_then (not_nil ''nil asset'' asset) (\<lambda>a.
     and_then (unmarshal_issuance_genesis X (jas_asset_genesis a)) (\<lambda>genesis.
     and_then (errorf ''invalid script key: '' (parse_hex_bytes (jas_script_key a))) (\<lambda>sk.
     and_then (exact_length ''invalid script key length'' 33 sk) (\<lambda>script_key.
     and_then (errorf ''invalid amount: '' (parse_uint64 (jas_amount a))) (\<lambda>amount.
     and_then (unmarshal_anchor_point X (jas_chain_anchor a)) (\<lambda>anchor.
     and_then (unmarshal_tweaked_key (jas_asset_group a)) (\<lambda>tweaked.
     and_then (asset_ref_from_asset L (ig_issuance_id genesis) tweaked) (\<lambda>ref.
     Inr \<lparr>ar_asset_ref = ref, ar_version = parse_asset_version (jas_version a), ar_genesis = genesis,
          ar_amount = amount, ar_lock_time = scast (jas_lock_time a),
          ar_relative_lock_time = scast (jas_relative_lock_time a),
          ar_script_version = ucast (jas_script_version a), ar_script_key = bare_script_key script_key,
          ar_anchor_outpoint = anchor, ar_alt_leaves = []\<rparr>))))))))"

section \<open>Addresses\<close>

text \<open>The \<open>switch\<close> that picks the reference of an address.\<close>

definition address_ref :: "'k lib \<Rightarrow> bytes option \<Rightarrow> bytes option \<Rightarrow> asset_type \<Rightarrow> string result" where
  "address_ref L asset_id group_key ty =
     (case (asset_id, group_key) of
        (Some i, Some k) \<Rightarrow>
          (if asset_id_is_zero i then asset_ref_from_group_key L k
           else asset_ref_from_typed_asset L i (Some k) ty)
      | (Some i, None) \<Rightarrow>
          (if asset_id_is_zero i then Inl (Plain ''address asset ID is zero with no group key'')
           else asset_ref_from_typed_asset L i None ty)
      | (None, Some k) \<Rightarrow> asset_ref_from_group_key L k
      | (None, None) \<Rightarrow> Inl (Plain ''address missing asset ID or group key''))"

definition unmarshal_addr :: "'k lib \<Rightarrow> json_addr option \<Rightarrow> address result" where
  "unmarshal_addr L addr =
     and_then (not_nil ''nil address'' addr) (\<lambda>a.
     and_then (errorf ''invalid script key: '' (parse_hex_bytes (jad_script_key a))) (\<lambda>sk.
     and_then (exact_length ''invalid script key length'' 33 sk) (\<lambda>script_key.
     and_then (errorf ''invalid internal key: '' (parse_hex_bytes (jad_internal_key a))) (\<lambda>ik.
     and_then (exact_length ''invalid internal key length'' 33 ik) (\<lambda>internal_key.
     and_then (errorf ''invalid taproot output key: '' (parse_hex_bytes (jad_taproot_output_key a))) (\<lambda>ok.
     and_then (exact_length ''invalid taproot output key length'' 32 ok) (\<lambda>output_key.
     and_then (parse_asset_type (jad_asset_type a)) (\<lambda>ty.
     and_then (errorf ''invalid amount: '' (parse_uint64 (jad_amount a))) (\<lambda>amount.
     and_then (errorf ''invalid asset ID: '' (parse_hex_bytes (jad_asset_id a))) (\<lambda>id_bytes.
     and_then (errorf ''invalid group key: '' (parse_hex_bytes (jad_group_key a))) (\<lambda>gk_bytes.
     and_then (address_ref L (if length id_bytes = 32 then Some id_bytes else None)
                 (if length gk_bytes = 33 then Some gk_bytes else None) ty) (\<lambda>ref.
     and_then (errorf ''invalid tapscript sibling: '' (parse_hex_bytes (jad_tapscript_sibling a))) (\<lambda>sibling.
     Inr \<lparr>addr_encoded = jad_encoded a, addr_asset_ref = ref, addr_asset_type = ty, addr_amount = amount,
          addr_script_key = script_key, addr_internal_key = internal_key, addr_tapscript_sibling = sibling,
          addr_taproot_output_key = output_key, addr_proof_courier = jad_proof_courier_addr a,
          addr_asset_version = parse_asset_version (jad_asset_version a),
          addr_version = parse_address_version (jad_address_version a)\<rparr>)))))))))))))"

definition unmarshal_addr_event :: "'k lib \<Rightarrow> json_addr_event option \<Rightarrow> address_event result" where
  "unmarshal_addr_event L event =
     and_then (not_nil ''nil address event'' event) (\<lambda>e.
     and_then (errorf ''invalid creation time: '' (parse_uint64 (jae_creation_time_unix_seconds e))) (\<lambda>created.
     and_then (errorf ''invalid utxo amount: '' (parse_uint64 (jae_utxo_amt_sat e))) (\<lambda>amt.
     and_then (errorf ''invalid taproot sibling: '' (parse_hex_bytes (jae_taproot_sibling e))) (\<lambda>sibling.
     and_then (when_set (\<lambda>a. errorf ''invalid address in event: '' (unmarshal_addr L (Some a))) (jae_addr e)) (\<lambda>addr.
     Inr \<lparr>ae_creation_time = created, ae_address = addr, ae_status = parse_address_event_status (jae_status e),
          ae_outpoint = jae_outpoint e, ae_utxo_amount_sat = amt, ae_taproot_sibling = sibling,
          ae_confirmation_height = jae_confirmation_height e, ae_has_proof = jae_has_proof e\<rparr>)))))"

section \<open>Transfers\<close>

text \<open>
  The optional group key of an input or output. A null element of \<open>outputs\<close> is dereferenced by the
  source without a test: the panic is an error here.
\<close>

definition unmarshal_transfer_group :: "'k lib \<Rightarrow> string \<Rightarrow> string \<Rightarrow> bytes option result" where
  "unmarshal_transfer_group L msg s =
     (if s = [] then Inr None
      else and_then (errorf msg (parse_hex_bytes s)) (\<lambda>b.
        if b = [] then Inr None
        else and_then (errorf msg (parse_pub_key L b)) (\<lambda>k. Inr (Some k))))"

definition unmarshal_transfer_output ::
    "'k lib \<Rightarrow> chain_lib \<Rightarrow> json_transfer_output option \<Rightarrow> transfer_output result" where
  "unmarshal_transfer_output L X output =
     and_then (not_nil ''nil pointer dereference'' output) (\<lambda>out.
     and_then (errorf ''invalid output amount: '' (parse_uint64 (jto_amount out))) (\<lambda>amount.
     and_then (errorf ''invalid proof blob: '' (parse_hex_bytes (jto_new_proof_blob out))) (\<lambda>blob.
     and_then (parse_asset_type (jto_asset_type out)) (\<lambda>ty.
     and_then (if jto_asset_id out = [] then Inr zero32
               else and_then (errorf ''invalid output asset ID: '' (parse_hex_bytes (jto_asset_id out)))
                      (exact_length ''invalid output asset ID length'' 32)) (\<lambda>issuance_id.
     and_then (errorf ''invalid output script key: '' (parse_hex_bytes (jto_script_key out))) (\<lambda>sk.
     and_then (when_set (\<lambda>a.
                 and_then (errorf ''invalid anchor outpoint: '' (new_outpoint_from_str X (jan_outpoint a))) (\<lambda>op.
                 and_then (errorf ''invalid anchor value: '' (parse_int64 (jan_value a))) (\<lambda>value.
                 Inr (op, value)))) (jto_anchor out)) (\<lambda>anchor.
     and_then (unmarshal_transfer_group L ''invalid output group key: '' (jto_group_key out)) (\<lambda>group_key.
     Inr \<lparr>to_anchor_outpoint = (case anchor of None \<Rightarrow> zero_outpoint | Some (op, v) \<Rightarrow> op),
          to_issuance_id = issuance_id, to_asset_type = ty,
          to_anchor_value = (case anchor of None \<Rightarrow> 0 | Some (op, v) \<Rightarrow> v),
          to_script_key = (if length sk = 33 then sk else replicate 33 0), to_amount = amount,
          to_proof_blob = blob, to_alt_leaves = [], to_group_key = group_key\<rparr>))))))))"

definition unmarshal_transfer_input ::
    "'k lib \<Rightarrow> chain_lib \<Rightarrow> json_transfer_input option \<Rightarrow> transfer_input result" where
  "unmarshal_transfer_input L X input =
     and_then (not_nil ''nil transfer input'' input) (\<lambda>i.
     and_then (errorf ''invalid input asset ID: '' (parse_hex_bytes (jti_asset_id i))) (\<lambda>id_bytes.
     and_then (exact_length ''invalid input asset ID length'' 32 id_bytes) (\<lambda>asset_id.
     and_then (errorf ''invalid input script key: '' (parse_hex_bytes (jti_script_key i))) (\<lambda>sk.
     and_then (exact_length ''invalid input script key length'' 33 sk) (\<lambda>script_key.
     and_then (errorf ''invalid input amount: '' (parse_uint64 (jti_amount i))) (\<lambda>amount.
     and_then (errorf ''invalid anchor point: '' (new_outpoint_from_str X (jti_anchor_point i))) (\<lambda>point.
     and_then (parse_asset_type (jti_asset_type i)) (\<lambda>ty.
     and_then (unmarshal_transfer_group L ''invalid input group key: '' (jti_group_key i)) (\<lambda>group_key.
     Inr \<lparr>ti_anchor_point = point, ti_issuance_id = asset_id, ti_asset_type = ty, ti_script_key = script_key,
          ti_amount = amount, ti_group_key = group_key\<rparr>)))))))))"

definition unmarshal_asset_transfer ::
    "'k lib \<Rightarrow> chain_lib \<Rightarrow> json_asset_transfer option \<Rightarrow> asset_transfer result" where
  "unmarshal_asset_transfer L X transfer =
     and_then (not_nil ''nil transfer'' transfer) (\<lambda>t.
     and_then (errorf ''invalid anchor_tx_hash: '' (parse_hex_bytes (jat_anchor_tx_hash t))) (\<lambda>hash.
     and_then (decode_all (unmarshal_transfer_output L X) (jat_outputs t)) (\<lambda>outputs.
     and_then (decode_all (unmarshal_transfer_input L X) (jat_inputs t)) (\<lambda>inputs.
     and_then (case jat_anchor_tx_block_hash t of
                 None \<Rightarrow> Inr (zero32, [])
               | Some bh \<Rightarrow>
                   and_then (errorf ''invalid block hash: '' (parse_hex_bytes (jbh_hash bh))) (\<lambda>b.
                     Inr (if length b = 32 then b else zero32, jbh_hash_str bh))) (\<lambda>(block_hash, block_hash_str).
     and_then (errorf ''invalid anchor_tx: '' (parse_hex_bytes (jat_anchor_tx t))) (\<lambda>anchor_tx.
     and_then (errorf ''invalid transfer_timestamp: '' (parse_int64 (jat_transfer_timestamp t))) (\<lambda>timestamp.
     and_then (errorf ''invalid anchor_tx_chain_fees: '' (parse_int64 (jat_anchor_tx_chain_fees t))) (\<lambda>fees.
     Inr \<lparr>at_timestamp = timestamp, at_txid = (if length hash = 32 then hash else zero32),
          at_anchor_txid = (if length hash = 32 then cl_hash_string X hash else []),
          at_height_hint = jat_anchor_tx_height_hint t, at_chain_fees = fees,
          at_inputs = inputs, at_outputs = outputs, at_block_hash = block_hash,
          at_block_hash_str = block_hash_str, at_block_height = jat_anchor_tx_block_height t,
          at_label = jat_label t, at_anchor_tx = anchor_tx\<rparr>))))))))"

section \<open>Keys\<close>

definition unmarshal_key_descriptor :: "'k lib \<Rightarrow> json_key_descriptor option \<Rightarrow> key_descriptor result" where
  "unmarshal_key_descriptor L desc =
     and_then (not_nil ''nil key descriptor'' desc) (\<lambda>d.
     and_then (errorf ''invalid raw_key_bytes: '' (parse_hex_bytes (jkd_raw_key_bytes d))) (\<lambda>b.
     and_then (errorf ''invalid raw key bytes: '' (parse_pub_key L b)) (\<lambda>k.
     Inr \<lparr>kd_raw_key_bytes = k,
          kd_locator = (case jkd_key_loc d of
             None \<Rightarrow> \<lparr>kl_family = 0, kl_index = 0\<rparr>
           | Some l \<Rightarrow> \<lparr>kl_family = jkl_key_family l, kl_index = jkl_key_index l\<rparr>)\<rparr>)))"

definition unmarshal_script_key :: "'k lib \<Rightarrow> json_script_key option \<Rightarrow> script_key result" where
  "unmarshal_script_key L key =
     and_then (not_nil ''nil script key'' key) (\<lambda>k.
     and_then (errorf ''invalid script key pub_key: '' (parse_hex_bytes (jsk_pub_key k))) (\<lambda>b.
     and_then (errorf ''invalid script key public key: '' (parse_taproot_pub_key L b)) (\<lambda>pub.
     and_then (errorf ''invalid tap_tweak: '' (parse_hex_bytes (jsk_tap_tweak k))) (\<lambda>tweak.
     and_then (when_set (\<lambda>d. unmarshal_key_descriptor L (Some d)) (jsk_key_desc k)) (\<lambda>desc.
     Inr \<lparr>sk_pub_key = pub,
          sk_key_desc = (case desc of None \<Rightarrow> zero_key_descriptor | Some d \<Rightarrow> d),
          sk_tap_tweak = tweak\<rparr>)))))"

end
