(* ===== verification/Tap_RestDecode.thy ===== *)
theory Tap_RestDecode
  imports Tap_RestMarshal
begin

text \<open>
  Decoding of the mint, UTXO, group, burn, ownership, proof and universe messages of the REST proxy
  (\<open>rest/marshal.go\<close>, \<open>rest/proof_client.go\<close>, \<open>rest/mint_client.go\<close>).
\<close>

section \<open>Minting\<close>

definition unmarshal_asset_meta :: "json_asset_meta option \<Rightarrow> asset_meta result" where
  "unmarshal_asset_meta meta =
     and_then (not_nil ''nil asset meta'' meta) (\<lambda>m.
     and_then (errorf ''invalid meta data: '' (parse_hex_bytes (jam_data m))) (\<lambda>data.
     and_then (errorf ''invalid meta hash: '' (parse_hex_bytes (jam_meta_hash m))) (\<lambda>hash_bytes.
     and_then (errorf ''invalid asset meta hash: '' (parse_hash hash_bytes)) (\<lambda>hash.
     Inr \<lparr>am_data = data, am_type = parse_asset_meta_type (jam_type m), am_meta_hash = hash,
          am_unknown_odd_types = Map.empty, am_decimal_display = 0, am_universe_commitments = False,
          am_canonical_universe_urls = [], am_delegation_key = []\<rparr>))))"

text \<open>A key in hexadecimal that is parsed only when the text is not empty.\<close>

definition unmarshal_optional_key :: "'k lib \<Rightarrow> string \<Rightarrow> string \<Rightarrow> bytes option result" where
  "unmarshal_optional_key L msg s =
     (if s = [] then Inr None
      else and_then (errorf msg (parse_hex_bytes s)) (\<lambda>b.
           and_then (errorf msg (parse_pub_key L b)) (\<lambda>k. Inr (Some k))))"

definition unmarshal_pending_mint_asset :: "'k lib \<Rightarrow> json_pending_asset option \<Rightarrow> pending_mint_asset result" where
  "unmarshal_pending_mint_asset L asset =
     and_then (not_nil ''nil pending mint asset'' asset) (\<lambda>a.
     and_then (errorf ''invalid amount: '' (parse_uint64 (jpa_amount a))) (\<lambda>amount.
     and_then (errorf ''invalid group tapscript root: '' (parse_hex_bytes (jpa_group_tapscript_root a))) (\<lambda>root.
     and_then (parse_asset_type (jpa_asset_type a)) (\<lambda>ty.
     and_then (unmarshal_optional_key L ''invalid group key: '' (jpa_group_key a)) (\<lambda>group_key.
     and_then (when_set (\<lambda>d. errorf ''invalid group internal key: '' (unmarshal_key_descriptor L (Some d)))
                 (jpa_group_internal_key a)) (\<lambda>internal.
     and_then (when_set (\<lambda>k. errorf ''invalid script key: '' (unmarshal_script_key L (Some k)))
                 (jpa_script_key a)) (\<lambda>script_key.
     and_then (when_set (\<lambda>m. unmarshal_asset_meta (Some m)) (jpa_asset_meta a)) (\<lambda>meta.
     Inr \<lparr>pm_asset_version = parse_asset_version (jpa_asset_version a), pm_asset_type = ty,
          pm_name = jpa_name a, pm_asset_meta = meta, pm_amount = amount,
          pm_new_grouped_asset = jpa_new_grouped_asset a, pm_group_key = group_key,
          pm_group_anchor = jpa_group_anchor a, pm_group_internal_key = internal,
          pm_group_tapscript_root = root, pm_script_key = script_key\<rparr>))))))))"

definition unmarshal_minting_batch :: "'k lib \<Rightarrow> json_minting_batch option \<Rightarrow> minting_batch result" where
  "unmarshal_minting_batch L batch =
     and_then (not_nil ''nil minting batch'' batch) (\<lambda>b.
     and_then (errorf ''invalid created_at: '' (parse_int64 (jmb_created_at b))) (\<lambda>created.
     and_then (errorf ''invalid batch_psbt: '' (parse_hex_bytes (jmb_batch_psbt b))) (\<lambda>psbt.
     and_then (unmarshal_optional_key L ''invalid batch key: '' (jmb_batch_key b)) (\<lambda>key.
     and_then (decode_all (unmarshal_pending_mint_asset L) (jmb_assets b)) (\<lambda>assets.
     Inr \<lparr>mb_batch_key = (case key of None \<Rightarrow> replicate 33 0 | Some k \<Rightarrow> k), mb_batch_txid = jmb_batch_txid b,
          mb_state = parse_batch_state (jmb_state b), mb_assets = assets, mb_created_at = created,
          mb_height_hint = jmb_height_hint b, mb_batch_psbt = psbt\<rparr>)))))"

definition unmarshal_external_key :: "json_external_key option \<Rightarrow> external_key result" where
  "unmarshal_external_key key =
     and_then (not_nil ''nil external key'' key) (\<lambda>k.
     and_then (errorf ''invalid master fingerprint: '' (parse_hex_bytes (jek_master_fingerprint k))) (\<lambda>b.
     and_then (exact_length ''invalid master fingerprint length'' 4 b) (\<lambda>fingerprint.
     Inr \<lparr>ek_xpub = jek_xpub k, ek_master_fingerprint = fingerprint, ek_derivation_path = jek_derivation_path k\<rparr>)))"

definition unmarshal_genesis_info :: "json_genesis_info option \<Rightarrow> genesis_info result" where
  "unmarshal_genesis_info genesis =
     and_then (not_nil ''nil genesis info'' genesis) (\<lambda>g.
     and_then (errorf ''invalid genesis meta hash: '' (parse_hash_hex (jge_meta_hash g))) (\<lambda>hash.
     and_then (errorf ''invalid genesis issuance ID: '' (parse_asset_id_hex (jge_asset_id g))) (\<lambda>issuance_id.
     and_then (parse_asset_type (jge_asset_type g)) (\<lambda>ty.
     Inr \<lparr>gi_genesis_point = jge_genesis_point g, gi_name = jge_name g, gi_meta_hash = hash,
          gi_issuance_id = issuance_id, gi_asset_type = ty, gi_output_index = jge_output_index g\<rparr>))))"

definition unmarshal_group_key_request :: "'k lib \<Rightarrow> json_group_key_request option \<Rightarrow> group_key_request result" where
  "unmarshal_group_key_request L request =
     and_then (not_nil ''nil group key request'' request) (\<lambda>r.
     and_then (errorf ''invalid tapscript root: '' (parse_hex_bytes (jgk_tapscript_root r))) (\<lambda>root.
     and_then (errorf ''invalid new asset: '' (parse_hex_bytes (jgk_new_asset r))) (\<lambda>new_asset.
     and_then (when_set (\<lambda>d. errorf ''invalid raw key: '' (unmarshal_key_descriptor L (Some d)))
                 (jgk_raw_key r)) (\<lambda>raw_key.
     and_then (when_set (\<lambda>g. unmarshal_genesis_info (Some g)) (jgk_anchor_genesis r)) (\<lambda>anchor_genesis.
     and_then (when_set (\<lambda>k. unmarshal_external_key (Some k)) (jgk_external_key r)) (\<lambda>external_key.
     Inr \<lparr>gk_raw_key = raw_key, gk_anchor_genesis = anchor_genesis, gk_tapscript_root = root,
          gk_new_asset = new_asset, gk_external_key = external_key\<rparr>))))))"

definition unmarshal_group_virtual_tx :: "'k lib \<Rightarrow> json_group_virtual_tx option \<Rightarrow> group_virtual_tx result" where
  "unmarshal_group_virtual_tx L tx =
     and_then (not_nil ''nil group virtual tx'' tx) (\<lambda>t.
     and_then (errorf ''invalid group virtual tx: '' (parse_hex_bytes (jgv_transaction t))) (\<lambda>transaction.
     and_then (when_set (\<lambda>p.
                 and_then (errorf ''invalid prev out value: '' (parse_int64 (jtx_value p))) (\<lambda>value.
                 and_then (errorf ''invalid prev out script: '' (parse_hex_bytes (jtx_pk_script p))) (\<lambda>pk_script.
                 Inr \<lparr>txo_value = value, txo_pk_script = pk_script\<rparr>))) (jgv_prev_out t)) (\<lambda>prev_out.
     and_then (if jgv_genesis_id t = [] then Inr zero32
               else errorf ''invalid group tx genesis ID: '' (parse_asset_id_hex (jgv_genesis_id t))) (\<lambda>genesis_id.
     and_then (unmarshal_optional_key L ''invalid tweaked key: '' (jgv_tweaked_key t)) (\<lambda>tweaked.
     Inr \<lparr>gv_transaction = transaction, gv_prev_out = prev_out, gv_genesis_id = genesis_id,
          gv_tweaked_key = tweaked\<rparr>)))))"

definition unmarshal_unsealed_mint_asset :: "'k lib \<Rightarrow> json_unsealed_asset option \<Rightarrow> unsealed_mint_asset result" where
  "unmarshal_unsealed_mint_asset L asset =
     and_then (not_nil ''nil unsealed mint asset'' asset) (\<lambda>a.
     and_then (when_set (\<lambda>p. unmarshal_pending_mint_asset L (Some p)) (jua_asset a)) (\<lambda>pending.
     and_then (when_set (\<lambda>r. unmarshal_group_key_request L (Some r)) (jua_group_key_request a)) (\<lambda>request.
     and_then (when_set (\<lambda>t. unmarshal_group_virtual_tx L (Some t)) (jua_group_virtual_tx a)) (\<lambda>tx.
     Inr \<lparr>um_asset = pending, um_group_key_request = request, um_group_virtual_tx = tx,
          um_group_virtual_psbt = jua_group_virtual_psbt a\<rparr>))))"

definition unmarshal_rest_verbose_batch :: "'k lib \<Rightarrow> json_verbose_batch option \<Rightarrow> verbose_minting_batch result" where
  "unmarshal_rest_verbose_batch L batch =
     and_then (not_nil ''nil verbose batch'' batch) (\<lambda>b.
     and_then (unmarshal_minting_batch L (jvb_batch b)) (\<lambda>mb.
     and_then (decode_all (unmarshal_unsealed_mint_asset L) (jvb_unsealed_assets b)) (\<lambda>unsealed.
     Inr \<lparr>vb_batch = mb, vb_unsealed_assets = unsealed\<rparr>)))"

section \<open>UTXOs, groups and burns\<close>

text \<open>\<open>h, _ := ParseHash(b)\<close>: the zero hash where the parse fails.\<close>

definition hash_or_zero :: "bytes \<Rightarrow> bytes" where
  "hash_or_zero b = (case parse_hash b of Inl _ \<Rightarrow> zero32 | Inr h \<Rightarrow> h)"

text \<open>\<open>int64(uint64)\<close> keeps the bits.\<close>

definition unmarshal_managed_utxo :: "'k lib \<Rightarrow> chain_lib \<Rightarrow> json_managed_utxo option \<Rightarrow> managed_utxo result" where
  "unmarshal_managed_utxo L X utxo =
     and_then (not_nil ''nil managed utxo'' utxo) (\<lambda>u.
     and_then (errorf ''invalid amt_sat: '' (parse_uint64 (jmu_amt_sat u))) (\<lambda>amt.
     and_then (errorf ''invalid internal_key: '' (parse_hex_bytes (jmu_internal_key u))) (\<lambda>internal_key.
     and_then (decode_all (\<lambda>a. errorf ''unmarshal utxo asset: '' (unmarshal_asset L X a)) (jmu_assets u)) (\<lambda>assets.
     and_then (errorf ''invalid taproot_root: '' (parse_hex_bytes (jmu_taproot_asset_root u))) (\<lambda>taproot_root.
     and_then (errorf ''invalid merkle_root: '' (parse_hex_bytes (jmu_merkle_root u))) (\<lambda>merkle_root.
     and_then (errorf ''invalid outpoint: '' (new_outpoint_from_str X (jmu_out_point u))) (\<lambda>outpoint.
     and_then (errorf ''invalid lease_owner: '' (parse_hex_bytes (jmu_lease_owner u))) (\<lambda>lease_owner.
     and_then (errorf ''invalid lease_expiry_unix: '' (parse_int64 (jmu_lease_expiry_unix u))) (\<lambda>expiry.
     Inr \<lparr>mu_out_point = outpoint, mu_amt_sat = sint amt, mu_internal_key = copy_into 33 internal_key,
          mu_taproot_asset_root = hash_or_zero taproot_root, mu_merkle_root = hash_or_zero merkle_root,
          mu_assets = map Some assets, mu_lease_owner = lease_owner,
          mu_lease_expiry_unix = max 0 expiry\<rparr>)))))))))"

definition unmarshal_asset_group_member :: "'k lib \<Rightarrow> json_asset_human_readable option \<Rightarrow> asset_group_member result" where
  "unmarshal_asset_group_member L asset =
     and_then (not_nil ''nil asset'' asset) (\<lambda>a.
     and_then (errorf ''invalid amount: '' (parse_uint64 (jah_amount a))) (\<lambda>amount.
     and_then (errorf ''invalid asset id: '' (parse_hex_bytes (jah_id a))) (\<lambda>id_bytes.
     and_then (errorf ''invalid meta hash: '' (parse_hex_bytes (jah_meta_hash a))) (\<lambda>hash_bytes.
     and_then (parse_asset_type (jah_type a)) (\<lambda>ty.
     and_then (asset_ref_from_asset_id L (copy_into 32 id_bytes)) (\<lambda>ref.
     Inr \<lparr>gm_asset_ref = ref, gm_issuance_id = copy_into 32 id_bytes, gm_amount = amount,
          gm_lock_time = jah_lock_time a, gm_relative_lock_time = jah_relative_lock_time a, gm_tag = jah_tag a,
          gm_meta_hash = hash_or_zero hash_bytes, gm_type = ty,
          gm_version = parse_asset_version (jah_version a)\<rparr>))))))"

definition unmarshal_asset_group_record ::
    "'k lib \<Rightarrow> string \<Rightarrow> json_grouped_assets option \<Rightarrow> asset_group_record result" where
  "unmarshal_asset_group_record L group_key_hex assets =
     and_then (not_nil ''nil grouped assets'' assets) (\<lambda>g.
     and_then (errorf ''invalid group key: '' (parse_group_ref_key L group_key_hex)) (\<lambda>group_key.
     and_then (asset_ref_from_group_key L group_key) (\<lambda>group_ref.
     and_then (decode_all (\<lambda>a. errorf ''unmarshal grouped asset: '' (unmarshal_asset_group_member L a)) g) (\<lambda>members.
     Inr \<lparr>gr_asset_ref = group_ref, gr_members = map (\<lambda>m. m\<lparr>gm_asset_ref := group_ref\<rparr>) members\<rparr>))))"

definition unmarshal_burn_asset_response ::
    "'k lib \<Rightarrow> chain_lib \<Rightarrow> json_burn_asset_response \<Rightarrow> burn_asset_response result" where
  "unmarshal_burn_asset_response L X r =
     and_then (when_set (\<lambda>t. errorf ''unmarshal burn transfer: '' (unmarshal_asset_transfer L X (Some t)))
                 (jba_burn_transfer r)) (\<lambda>transfer.
     Inr \<lparr>bp_burn_transfer = transfer, bp_burn_proof = None\<rparr>)"

definition unmarshal_burn_record :: "'k lib \<Rightarrow> json_asset_burn option \<Rightarrow> burn_record result" where
  "unmarshal_burn_record L burn =
     and_then (not_nil ''nil asset burn'' burn) (\<lambda>b.
     and_then (errorf ''invalid burn amount: '' (parse_uint64 (jbu_amount b))) (\<lambda>amount.
     and_then (errorf ''invalid burn asset_id: '' (parse_hex_bytes (jbu_asset_id b))) (\<lambda>id_bytes.
     and_then (errorf ''invalid burn asset_id: '' (parse_asset_id id_bytes)) (\<lambda>asset_id.
     and_then (errorf ''invalid burn tweaked_group_key: '' (parse_hex_bytes (jbu_tweaked_group_key b))) (\<lambda>gk_bytes.
     and_then (if gk_bytes = [] then Inr None
               else and_then (errorf ''invalid burn tweaked_group_key: '' (parse_pub_key L gk_bytes)) (\<lambda>k. Inr (Some k)))
       (\<lambda>group_key.
     and_then (parse_burn_asset_type (jbu_asset_type b)) (\<lambda>ty.
     if ty = asset_type_collectible \<and> amount \<noteq> 1 then Inl (Plain ''invalid collectible burn amount'')
     else
     and_then (errorf ''invalid burn txid: '' (parse_hex_bytes (jbu_anchor_txid b))) (\<lambda>txid_bytes.
     and_then (errorf ''invalid burn txid: '' (parse_hash txid_bytes)) (\<lambda>txid.
     and_then (case group_key of
                 Some k \<Rightarrow> (if ty = asset_type_collectible
                           then and_then (asset_ref_from_group_key L k) (\<lambda>r. Inr (Some r)) else Inr None)
               | None \<Rightarrow> Inr None) (\<lambda>collection_ref.
     and_then (asset_ref_from_typed_asset L asset_id group_key ty) (\<lambda>ref.
     Inr \<lparr>bn_note = jbu_note b, bn_asset_ref = ref, bn_collection_ref = collection_ref, bn_type = ty,
          bn_issuance_id = asset_id, bn_amount = amount, bn_anchor_txid = txid\<rparr>)))))))))))"

section \<open>Outpoints and ownership\<close>

text \<open>
  A message with a hash that holds a colon is the text of an outpoint; otherwise the hash is the
  hexadecimal text of the bytes as they stand.
\<close>

definition unmarshal_json_outpoint :: "chain_lib \<Rightarrow> json_outpoint \<Rightarrow> outpoint result" where
  "unmarshal_json_outpoint X op =
     (let op_str = first_non_empty [jop_txid op, jop_hash_str op] in
      if op_str = [] then Inl (Plain ''empty outpoint'')
      else if contains op_str '':'' then new_outpoint_from_str X op_str
      else and_then (errorf ''invalid txid: '' (parse_hex_bytes op_str)) (\<lambda>b.
           and_then (exact_length ''invalid txid length'' 32 b) (\<lambda>txid.
           Inr \<lparr>op_txid = txid, op_index = (if jop_output_index op = 0 then jop_index op else jop_output_index op)\<rparr>)))"

definition parse_ownership_block_hash :: "chain_lib \<Rightarrow> json_verify_ownership_response \<Rightarrow> bytes result" where
  "parse_ownership_block_hash X resp =
     (if jvo_block_hash resp \<noteq> []
      then (case parse_hex_bytes (jvo_block_hash resp) of
              Inr h \<Rightarrow> Inr h
            | Inl _ \<Rightarrow> errorf ''invalid block_hash: '' (parse_base64_bytes (jvo_block_hash resp)))
      else if jvo_block_hash_str resp = [] then Inr []
      else errorf ''invalid block_hash_str: '' (cl_hash_from_string X (jvo_block_hash_str resp)))"

definition unmarshal_verify_ownership_response ::
    "chain_lib \<Rightarrow> json_verify_ownership_response \<Rightarrow> verify_ownership_response result" where
  "unmarshal_verify_ownership_response X resp =
     and_then (case jvo_outpoint resp of
                 Some op \<Rightarrow> errorf ''invalid outpoint: '' (unmarshal_json_outpoint X op)
               | None \<Rightarrow>
                   (if jvo_outpoint_str resp \<noteq> []
                    then errorf ''invalid outpoint: '' (new_outpoint_from_str X (jvo_outpoint_str resp))
                    else Inr zero_outpoint)) (\<lambda>outpoint.
     and_then (parse_ownership_block_hash X resp) (\<lambda>hash_bytes.
     and_then (if hash_bytes = [] then Inr zero32
               else exact_length ''invalid block hash length'' 32 hash_bytes) (\<lambda>hash.
     if jvo_valid_proof resp \<and> outpoint = zero_outpoint
     then Inl (Plain ''valid ownership proof response missing outpoint'')
     else Inr \<lparr>vr_valid = jvo_valid_proof resp, vr_outpoint = outpoint, vr_block_hash = hash,
               vr_block_height = jvo_block_height resp\<rparr>)))"

section \<open>Proofs\<close>

definition is_zero_decoded_proof_prev_id :: "outpoint \<Rightarrow> bytes \<Rightarrow> bytes \<Rightarrow> bool" where
  "is_zero_decoded_proof_prev_id outpoint asset_id script_key \<longleftrightarrow>
     outpoint = zero_outpoint \<and> asset_id = zero32 \<and> script_key = replicate 33 0"

text \<open>One round of the loop over the witnesses: a zero reference contributes nothing.\<close>

definition unmarshal_prev_witness ::
    "'k lib \<Rightarrow> chain_lib \<Rightarrow> bool \<Rightarrow> json_prev_witness option \<Rightarrow> prev_id list result" where
  "unmarshal_prev_witness L X genesis_reveal witness =
     and_then (not_nil ''missing prev_id for witness'' witness) (\<lambda>w.
     and_then (not_nil ''missing prev_id for witness'' (jpw_prev_id w)) (\<lambda>prev.
     and_then (errorf ''invalid prev_id outpoint for witness: '' (new_outpoint_from_str X (jpi_anchor_point prev))) (\<lambda>op.
     and_then (errorf ''invalid prev_id asset_id for witness: '' (parse_hex_bytes (jpi_asset_id prev))) (\<lambda>id_bytes.
     and_then (errorf ''invalid prev_id asset_id for witness: '' (parse_asset_id id_bytes)) (\<lambda>asset_id.
     and_then (errorf ''invalid prev_id script_key for witness: '' (parse_hex_bytes (jpi_script_key prev))) (\<lambda>sk_bytes.
     if is_zero_decoded_proof_prev_id op asset_id sk_bytes
     then (if \<not> genesis_reveal \<and> \<not> jpw_split_commitment w
           then Inl (Plain ''zero prev_id is only valid for issuance or split witness'') else Inr [])
     else
     and_then (errorf ''invalid prev_id script_key for witness: '' (parse_pub_key L sk_bytes)) (\<lambda>script_key.
     Inr [\<lparr>pid_outpoint = op, pid_issuance_id = asset_id, pid_script_key = script_key\<rparr>])))))))"

definition unmarshal_decoded_proof :: "'k lib \<Rightarrow> chain_lib \<Rightarrow> json_decoded_proof option \<Rightarrow> decoded_proof result" where
  "unmarshal_decoded_proof L X decoded =
     and_then (not_nil ''nil decoded proof'' decoded) (\<lambda>d.
     and_then (not_nil ''nil decoded asset'' (jdp_asset d)) (\<lambda>a.
     and_then (not_nil ''nil proof asset genesis'' (jda_asset_genesis a)) (\<lambda>g.
     and_then (errorf ''invalid asset ID: '' (parse_hex_bytes (jge_asset_id g))) (\<lambda>id_bytes.
     and_then (errorf ''invalid asset ID: '' (parse_asset_id id_bytes)) (\<lambda>asset_id.
     and_then (if jge_asset_type g = [] then Inr asset_type_normal
               else errorf ''invalid asset type: '' (parse_asset_type (jge_asset_type g))) (\<lambda>ty.
     and_then (errorf ''invalid script key: '' (parse_hex_bytes (jda_script_key a))) (\<lambda>sk_bytes.
     and_then (errorf ''invalid script key: '' (parse_pub_key L sk_bytes)) (\<lambda>script_key.
     and_then (errorf ''invalid amount: '' (parse_uint64 (jda_amount a))) (\<lambda>amount.
     and_then (case jda_chain_anchor a of
                 None \<Rightarrow> Inr zero_outpoint
               | Some c \<Rightarrow> errorf ''invalid anchor outpoint: '' (new_outpoint_from_str X (jca_anchor_outpoint c))) (\<lambda>outpoint.
     and_then (case jda_asset_group a of
                 None \<Rightarrow> Inr None
               | Some grp \<Rightarrow> unmarshal_optional_key L ''invalid group key: '' (jgr_tweaked_group_key grp)) (\<lambda>group_key.
     and_then (asset_ref_from_typed_asset L asset_id group_key ty) (\<lambda>ref.
     and_then (if jdp_alt_leaves d = [] then Inr []
               else and_then (errorf ''invalid alt leaves: '' (parse_hex_bytes (jdp_alt_leaves d))) (\<lambda>b.
                      errorf ''decode alt leaves: '' (decode_alt_leaves b))) (\<lambda>alt_leaves.
     and_then (decode_all (unmarshal_prev_witness L X (jdp_genesis_reveal d)) (jda_prev_witnesses a)) (\<lambda>prev_ids.
     Inr \<lparr>dp_proof_at_depth = jdp_proof_at_depth d, dp_number_of_proofs = jdp_number_of_proofs d,
          dp_asset_ref = ref, dp_issuance_id = asset_id, dp_script_key = script_key, dp_amount = amount,
          dp_outpoint = outpoint, dp_alt_leaves = alt_leaves, dp_prev_ids = concat prev_ids,
          dp_is_issuance = jdp_genesis_reveal d\<rparr>))))))))))))))"

definition unmarshal_verify_proof_response ::
    "'k lib \<Rightarrow> chain_lib \<Rightarrow> json_verify_proof_response \<Rightarrow> verify_proof_response result" where
  "unmarshal_verify_proof_response L X r =
     and_then (when_set (\<lambda>d. errorf ''decoded proof: '' (unmarshal_decoded_proof L X (Some d))) (jvp_decoded_proof r)) (\<lambda>decoded.
     Inr \<lparr>vp_valid = jvp_valid r, vp_decoded_proof = decoded\<rparr>)"

definition unmarshal_registered_asset ::
    "'k lib \<Rightarrow> chain_lib \<Rightarrow> json_registered_asset option \<Rightarrow> registered_asset result" where
  "unmarshal_registered_asset L X asset =
     and_then (not_nil ''nil registered asset'' asset) (\<lambda>a.
     and_then (errorf ''invalid amount: '' (parse_uint64 (jra_amount a))) (\<lambda>amount.
     and_then (case jra_asset_genesis a of
                 None \<Rightarrow> Inr ([], zero32)
               | Some g \<Rightarrow>
                   and_then (errorf ''invalid asset ID: '' (parse_hex_bytes (jge_asset_id g))) (\<lambda>b.
                     if length b = 32
                     then and_then (asset_ref_from_asset_id L b) (\<lambda>ref. Inr (ref, b)) else Inr ([], zero32)))
       (\<lambda>(ref, issuance_id).
     and_then (errorf ''invalid script key: '' (parse_hex_bytes (jra_script_key a))) (\<lambda>sk.
     and_then (case jra_chain_anchor a of
                 None \<Rightarrow> Inr zero_outpoint
               | Some c \<Rightarrow> errorf ''invalid anchor outpoint: '' (new_outpoint_from_str X (jca_anchor_outpoint c))) (\<lambda>outpoint.
     Inr \<lparr>ra_asset_ref = ref, ra_issuance_id = issuance_id,
          ra_script_key = (if length sk = 33 then sk else replicate 33 0), ra_amount = amount,
          ra_outpoint = outpoint\<rparr>)))))"

section \<open>Universes\<close>

text \<open>A nil node or root decodes to nil, and so does a root without an ID.\<close>

definition unmarshal_merkle_sum_node :: "json_merkle_sum_node option \<Rightarrow> merkle_sum_node option result" where
  "unmarshal_merkle_sum_node node =
     when_set (\<lambda>n.
       and_then (errorf ''invalid root_hash: '' (parse_hex_bytes (jms_root_hash n))) (\<lambda>b.
       and_then (errorf ''invalid root hash: '' (parse_hash b)) (\<lambda>hash.
       and_then (errorf ''invalid root_sum: '' (parse_int64 (jms_root_sum n))) (\<lambda>root_sum.
       Inr \<lparr>ms_root_hash = hash, ms_root_sum = root_sum\<rparr>)))) node"

definition unmarshal_universe_id :: "'k lib \<Rightarrow> json_universe_id option \<Rightarrow> universe_id result" where
  "unmarshal_universe_id L uid =
     and_then (not_nil ''nil universe ID'' uid) (\<lambda>i.
     and_then (errorf ''invalid asset_id: '' (parse_hex_bytes (jui_asset_id i))) (\<lambda>id_bytes.
     and_then (errorf ''invalid group_key: '' (parse_hex_bytes (jui_group_key i))) (\<lambda>gk_bytes.
     and_then (if length gk_bytes = 32 \<or> length gk_bytes = 33
               then and_then (errorf ''invalid group_key: '' (parse_taproot_pub_key L gk_bytes)) (\<lambda>k. Inr (Some k))
               else Inr None) (\<lambda>group_key.
     and_then (let asset_id = (if length id_bytes = 32 then Some id_bytes else None) in
               if asset_id \<noteq> None \<or> group_key \<noteq> None
               then asset_ref_from_specifier L asset_id group_key else Inr []) (\<lambda>ref.
     Inr \<lparr>un_asset_ref = ref, un_proof_type = parse_proof_type (jui_proof_type i)\<rparr>)))))"

definition unmarshal_universe_root :: "'k lib \<Rightarrow> json_universe_root option \<Rightarrow> universe_root option result" where
  "unmarshal_universe_root L root =
     (case root of
        None \<Rightarrow> Inr None
      | Some r \<Rightarrow>
          (if jur_id r = None then Inr None
           else
           and_then (errorf ''invalid universe ID: '' (unmarshal_universe_id L (jur_id r))) (\<lambda>uid.
           and_then (errorf ''invalid mssmt_root: '' (unmarshal_merkle_sum_node (jur_mssmt_root r))) (\<lambda>mssmt.
           and_then (decode_all (\<lambda>(k, v). and_then (errorf ''invalid amount: '' (parse_uint64 v)) (\<lambda>n. Inr (k, n)))
                       (jur_amounts_by_asset_id r)) (\<lambda>amounts.
           Inr (Some \<lparr>ur_id = uid, ur_mssmt_root = mssmt, ur_asset_name = jur_asset_name r,
                      ur_amounts_by_issuance_id = map_of (rev amounts)\<rparr>))))))"

definition unmarshal_asset_key_outpoint :: "chain_lib \<Rightarrow> json_asset_key \<Rightarrow> outpoint result" where
  "unmarshal_asset_key_outpoint X k =
     (if jak_op_str k \<noteq> [] then errorf ''invalid outpoint: '' (new_outpoint_from_str X (jak_op_str k))
      else case (case jak_outpoint k of Some op \<Rightarrow> Some op | None \<Rightarrow> jak_op k) of
        None \<Rightarrow> Inl (Plain ''nil outpoint'')
      | Some op \<Rightarrow> unmarshal_json_outpoint X op)"

definition asset_key_script_key :: "json_asset_key \<Rightarrow> string" where
  "asset_key_script_key k = first_non_empty [jak_script_key k, jak_script_key_bytes k, jak_script_key_str k]"

definition unmarshal_asset_leaf_key :: "'k lib \<Rightarrow> chain_lib \<Rightarrow> json_asset_key option \<Rightarrow> asset_leaf_key result" where
  "unmarshal_asset_leaf_key L X key =
     and_then (not_nil ''nil asset key'' key) (\<lambda>k.
     and_then (unmarshal_asset_key_outpoint X k) (\<lambda>outpoint.
     and_then (errorf ''invalid script_key: '' (parse_hex_bytes (asset_key_script_key k))) (\<lambda>b.
     and_then (errorf ''invalid script_key: '' (parse_script_key L b)) (\<lambda>script_key.
     Inr \<lparr>lk_outpoint = outpoint, lk_script_key = script_key\<rparr>))))"

definition unmarshal_asset_leaf :: "'k lib \<Rightarrow> chain_lib \<Rightarrow> json_asset_leaf_resp option \<Rightarrow> asset_leaf result" where
  "unmarshal_asset_leaf L X leaf =
     and_then (not_nil ''nil asset leaf'' leaf) (\<lambda>l.
     and_then (when_set (\<lambda>a. errorf ''invalid asset: '' (unmarshal_asset L X (Some a))) (jal_asset l)) (\<lambda>asset.
     and_then (errorf ''invalid proof: '' (parse_hex_bytes (jal_proof l))) (\<lambda>pf.
     Inr \<lparr>al_asset = asset, al_proof = pf\<rparr>)))"

definition zero_universe_key :: universe_key where
  "zero_universe_key =
     \<lparr>uk_id = \<lparr>un_asset_ref = [], un_proof_type = 0\<rparr>,
      uk_leaf_key = \<lparr>lk_outpoint = zero_outpoint, lk_script_key = replicate 33 0\<rparr>\<rparr>"

definition unmarshal_asset_proof_response ::
    "'k lib \<Rightarrow> chain_lib \<Rightarrow> json_query_proof_response \<Rightarrow> asset_proof_response result" where
  "unmarshal_asset_proof_response L X r =
     and_then (case jqp_req r of
                 None \<Rightarrow> Inr zero_universe_key
               | Some req \<Rightarrow>
                   and_then (errorf ''invalid req ID: '' (unmarshal_universe_id L (juk_id req))) (\<lambda>uid.
                   and_then (when_set (\<lambda>k. errorf ''invalid leaf_key: '' (unmarshal_asset_leaf_key L X (Some k)))
                               (juk_leaf_key req)) (\<lambda>leaf_key.
                   Inr \<lparr>uk_id = uid,
                        uk_leaf_key = (case leaf_key of None \<Rightarrow> uk_leaf_key zero_universe_key | Some k \<Rightarrow> k)\<rparr>))) (\<lambda>key.
     and_then (errorf ''invalid universe_root: '' (unmarshal_universe_root L (jqp_universe_root r))) (\<lambda>root.
     and_then (errorf ''invalid universe_inclusion_proof: '' (parse_hex_bytes (jqp_universe_inclusion_proof r))) (\<lambda>inclusion.
     and_then (when_set (\<lambda>l. errorf ''invalid asset_leaf: '' (unmarshal_asset_leaf L X (Some l))) (jqp_asset_leaf r)) (\<lambda>leaf.
     and_then (errorf ''invalid multiverse_root: '' (unmarshal_merkle_sum_node (jqp_multiverse_root r))) (\<lambda>mroot.
     and_then (errorf ''invalid multiverse_inclusion_proof: '' (parse_hex_bytes (jqp_multiverse_inclusion_proof r))) (\<lambda>minclusion.
     Inr \<lparr>apr_key = key, apr_universe_root = root, apr_universe_inclusion_proof = inclusion,
          apr_asset_leaf = leaf, apr_multiverse_root = mroot, apr_multiverse_inclusion_proof = minclusion\<rparr>))))))"

definition unmarshal_universe_stats :: "json_universe_stats_response \<Rightarrow> universe_stats result" where
  "unmarshal_universe_stats r =
     and_then (errorf ''invalid num_total_assets: '' (parse_int64 (jus_num_total_assets r))) (\<lambda>assets.
     and_then (errorf ''invalid num_total_groups: '' (parse_int64 (jus_num_total_groups r))) (\<lambda>groups.
     and_then (errorf ''invalid num_total_syncs: '' (parse_int64 (jus_num_total_syncs r))) (\<lambda>syncs.
     and_then (errorf ''invalid num_total_proofs: '' (parse_int64 (jus_num_total_proofs r))) (\<lambda>proofs.
     Inr \<lparr>us_num_total_assets = assets, us_num_total_groups = groups, us_num_total_syncs = syncs,
          us_num_total_proofs = proofs\<rparr>))))"

definition unmarshal_asset_stats_asset :: "'k lib \<Rightarrow> json_asset_stats_asset option \<Rightarrow> asset_stats_asset option result" where
  "unmarshal_asset_stats_asset L asset =
     when_set (\<lambda>a.
       and_then (errorf ''invalid asset_id: '' (parse_hex_bytes (jaa_asset_id a))) (\<lambda>b.
       and_then (errorf ''invalid total_supply: '' (parse_int64 (jaa_total_supply a))) (\<lambda>supply.
       and_then (errorf ''invalid genesis_timestamp: '' (parse_int64 (jaa_genesis_timestamp a))) (\<lambda>timestamp.
       and_then (parse_asset_type (jaa_asset_type a)) (\<lambda>ty.
       and_then (asset_ref_from_asset_id L (if length b = 32 then b else zero32)) (\<lambda>ref.
       Inr \<lparr>sa_asset_ref = ref, sa_issuance_id = (if length b = 32 then b else zero32),
            sa_genesis_point = jaa_genesis_point a, sa_total_supply = supply, sa_asset_name = jaa_asset_name a,
            sa_asset_type = ty, sa_genesis_height = jaa_genesis_height a, sa_genesis_timestamp = timestamp,
            sa_anchor_point = jaa_anchor_point a, sa_decimal_display = jaa_decimal_display a\<rparr>)))))) asset"

definition unmarshal_asset_stats_snapshot ::
    "'k lib \<Rightarrow> json_asset_stats_snapshot option \<Rightarrow> asset_stats_snapshot result" where
  "unmarshal_asset_stats_snapshot L snapshot =
     and_then (not_nil ''nil asset stats snapshot'' snapshot) (\<lambda>s.
     and_then (if jss_group_key s = [] then Inr ([], None)
               else and_then (errorf ''invalid group_key: '' (parse_group_ref_key L (jss_group_key s))) (\<lambda>k.
                    and_then (asset_ref_from_group_key L k) (\<lambda>ref. Inr (ref, Some k)))) (\<lambda>(group_ref, group_key).
     and_then (errorf ''invalid group_supply: '' (parse_int64 (jss_group_supply s))) (\<lambda>supply.
     and_then (errorf ''invalid group_anchor: '' (unmarshal_asset_stats_asset L (jss_group_anchor s))) (\<lambda>anchor.
     and_then (errorf ''invalid asset: '' (unmarshal_asset_stats_asset L (jss_asset s))) (\<lambda>asset.
     and_then (errorf ''invalid total_syncs: '' (parse_int64 (jss_total_syncs s))) (\<lambda>syncs.
     and_then (errorf ''invalid total_proofs: '' (parse_int64 (jss_total_proofs s))) (\<lambda>proofs.
     Inr \<lparr>ss_asset_ref = (case asset of
            Some a \<Rightarrow> (if asset_ref_is_zero group_ref then sa_asset_ref a else group_ref) | None \<Rightarrow> group_ref),
          ss_group_key = group_key, ss_group_supply = supply, ss_group_anchor = anchor, ss_asset = asset,
          ss_total_syncs = syncs, ss_total_proofs = proofs\<rparr>)))))))"

definition unmarshal_grouped_universe_events ::
    "json_grouped_universe_events option \<Rightarrow> grouped_universe_events result" where
  "unmarshal_grouped_universe_events events =
     and_then (not_nil ''nil grouped universe events'' events) (\<lambda>e.
     and_then (errorf ''invalid sync_events: '' (parse_uint64 (jgu_sync_events e))) (\<lambda>syncs.
     and_then (errorf ''invalid new_proof_events: '' (parse_uint64 (jgu_new_proof_events e))) (\<lambda>proofs.
     Inr \<lparr>ge_date = jgu_date e, ge_sync_events = syncs, ge_new_proof_events = proofs\<rparr>)))"

definition unmarshal_federation_server :: "json_federation_server option \<Rightarrow> federation_server result" where
  "unmarshal_federation_server server =
     and_then (not_nil ''nil federation server'' server) (\<lambda>s. Inr \<lparr>fs_host = jfs_host s, fs_id = jfs_id s\<rparr>)"

definition unmarshal_global_sync_config :: "json_global_sync_config option \<Rightarrow> global_sync_config result" where
  "unmarshal_global_sync_config config =
     and_then (not_nil ''nil global federation sync config'' config) (\<lambda>c.
     Inr \<lparr>gc_proof_type = parse_proof_type (jgs_proof_type c), gc_allow_sync_insert = jgs_allow_sync_insert c,
          gc_allow_sync_export = jgs_allow_sync_export c\<rparr>)"

definition unmarshal_asset_sync_config :: "'k lib \<Rightarrow> json_asset_sync_config option \<Rightarrow> asset_sync_config result" where
  "unmarshal_asset_sync_config L config =
     and_then (not_nil ''nil asset federation sync config'' config) (\<lambda>c.
     and_then (errorf ''invalid ID: '' (unmarshal_universe_id L (jac_id c))) (\<lambda>uid.
     Inr \<lparr>sc_id = uid, sc_allow_sync_insert = jac_allow_sync_insert c, sc_allow_sync_export = jac_allow_sync_export c\<rparr>))"

definition unmarshal_synced_universe :: "'k lib \<Rightarrow> chain_lib \<Rightarrow> json_synced_universe option \<Rightarrow> synced_universe result" where
  "unmarshal_synced_universe L X synced =
     and_then (not_nil ''nil synced universe'' synced) (\<lambda>s.
     and_then (errorf ''invalid old_asset_root: '' (unmarshal_universe_root L (jsu_old_asset_root s))) (\<lambda>old_root.
     and_then (errorf ''invalid new_asset_root: '' (unmarshal_universe_root L (jsu_new_asset_root s))) (\<lambda>new_root.
     and_then (decode_all (\<lambda>l. errorf ''invalid asset leaf: '' (unmarshal_asset_leaf L X l)) (jsu_new_asset_leaves s)) (\<lambda>leaves.
     Inr \<lparr>su_old_asset_root = old_root, su_new_asset_root = new_root, su_new_asset_leaves = leaves\<rparr>))))"

end
