(* ===== verification/Tap_RestBase64.thy ===== *)
theory Tap_RestBase64
  imports Tap_RestDecode
begin

text \<open>
  Base64 texts read back as the bytes they were written from, whichever of the four encodings of Go
  wrote them and whichever reads them, and never read as hexadecimal when they hold a hash.
\<close>

section \<open>A chain library\<close>

text \<open>The byte-reversed hexadecimal display form of hashes, as \<open>btcd\<close> documents it.\<close>

definition sample_chain :: chain_lib where
  "sample_chain =
     \<lparr>cl_outpoint_from_string = (\<lambda>s. case cut CHR '':'' s of (hash, index, found) \<Rightarrow>
        and_then (hex_decode hash) (\<lambda>b. and_then (go_parse_uint index) (\<lambda>n. Inr (rev b, ucast n)))),
      cl_hash_string = (\<lambda>h. hex_encode (rev h)),
      cl_hash_from_string = (\<lambda>s. and_then (hex_decode s) (\<lambda>b. Inr (rev b)))\<rparr>"

section \<open>Base64 reads back\<close>

lemma of_char_b64_char:
  assumes "n < 64"
  shows "(of_char (b64_char u n) :: nat) =
    (if n < 26 then 65 + n else if n < 52 then 71 + n else if n < 62 then n - 4
     else if n = 62 then (if u then 45 else 43) else (if u then 95 else 47))"
  using assms by (simp add: b64_char_def)

lemma b64_digit_eq:
  "b64_digit u c =
     (let n = (of_char c :: nat) in
      if 65 \<le> n \<and> n \<le> 90 then Some (n - 65)
      else if 97 \<le> n \<and> n \<le> 122 then Some (n - 71)
      else if 48 \<le> n \<and> n \<le> 57 then Some (n + 4)
      else if n = (if u then 45 else 43) then Some 62
      else if n = (if u then 95 else 47) then Some 63
      else None)"
proof -
  have code: "c = CHR ''-'' \<longleftrightarrow> of_char c = (45 :: nat)" "c = CHR ''+'' \<longleftrightarrow> of_char c = (43 :: nat)"
      "c = CHR ''_'' \<longleftrightarrow> of_char c = (95 :: nat)" "c = CHR ''/'' \<longleftrightarrow> of_char c = (47 :: nat)"
    by (simp_all flip: of_char_eq_iff [where 'a = nat])
  show ?thesis by (cases u) (simp_all add: b64_digit_def code Let_def)
qed

lemma b64_digit_char:
  assumes "n < 64"
  shows b64_digit_char_same: "b64_digit u (b64_char u n) = Some n"
    and b64_digit_char_other: "b64_digit u (b64_char u' n) = Some k \<Longrightarrow> k = n"
    and b64_char_plain: "b64_char u n \<noteq> CHR ''=''" "b64_char u n \<noteq> CHR 0x0A" "b64_char u n \<noteq> CHR 0x0D"
  using assms
  by (simp_all add: b64_digit_eq of_char_b64_char Let_def split: if_splits flip: of_char_eq_iff [where 'a = nat])
    presburger+

lemma b64_digit_pad [simp]: "b64_digit u CHR ''='' = None"
  by (cases u) (simp_all add: b64_digit_eq)

lemma sextets:
  assumes "(v :: nat) < 16777216"
  shows "v div 262144 mod 64 * 262144 + v div 4096 mod 64 * 4096 + v div 64 mod 64 * 64 + v mod 64 = v"
proof -
  have a: "v = v div 64 * 64 + v mod 64" by simp
  have b: "v div 64 = v div 4096 * 64 + v div 64 mod 64"
    using div_mult_mod_eq [of "v div 64" 64] by (simp flip: div_mult2_eq)
  have c: "v div 4096 = v div 262144 * 64 + v div 4096 mod 64"
    using div_mult_mod_eq [of "v div 4096" 64] by (simp flip: div_mult2_eq)
  have d: "v div 262144 mod 64 = v div 262144" using assms by simp
  from a b c d show ?thesis by linarith
qed


lemma quantum_bytes_unat [simp]:
  fixes x y z :: byte
  shows "quantum_bytes (unat x * 65536 + unat y * 256 + unat z) = [x, y, z]"
proof -
  have b: "unat x < 256" "unat y < 256" "unat z < 256" using unsigned_less [of x] unsigned_less [of y] unsigned_less [of z] by simp_all
  have "(unat x * 65536 + unat y * 256 + unat z) div 65536 = unat x"
    "(unat x * 65536 + unat y * 256 + unat z) div 256 = unat x * 256 + unat y"
    using b by linarith+
  moreover have zero: "(256 :: byte) = 0" "(65536 :: byte) = 0" by (transfer; simp)+
  moreover have "of_nat (unat x * 256 + unat y) = y" "of_nat (unat x * 65536 + unat y * 256 + unat z) = z"
    by (simp_all add: zero)
  ultimately show ?thesis by (simp add: quantum_bytes_def)
qed

text \<open>One quantum of four characters, read with any alphabet and with its own.\<close>

lemma b64_quanta_foreign:
  assumes "b64_quanta E' (quantum_chars u v @ s) = Inr cs" "v < 16777216"
  shows "\<exists>ds. b64_quanta E' s = Inr ds \<and> cs = quantum_bytes v @ ds"
  using assms sextets [of v]
  by (auto simp: quantum_chars_def corrupt_input_def b64_char_plain and_then_eq_Inr
      split: option.splits if_splits dest!: b64_digit_char_other [rotated])

lemma b64_quanta_own:
  "v < 16777216 \<Longrightarrow> b64_quanta E (quantum_chars (b64_url E) v @ s)
     = and_then (b64_quanta E s) (\<lambda>bs. Inr (quantum_bytes v @ bs))"
  using sextets [of v] by (simp add: quantum_chars_def b64_digit_char_same)


text \<open>A last quantum of two or three characters.\<close>

definition pad_if :: "bool \<Rightarrow> string \<Rightarrow> string" where
  "pad_if p s = (if p then s else [])"

lemma b64_digit_char_cases: "n < 64 \<Longrightarrow> b64_digit u (b64_char u' n) = None \<or> b64_digit u (b64_char u' n) = Some n"
  by (cases "b64_digit u (b64_char u' n)") (auto dest: b64_digit_char_other)

lemma two_chars:
  assumes "i < 64" "j < 64"
  shows "b64_quanta E' ([b64_char u i, b64_char u j] @ pad_if p ''=='') = Inr cs \<Longrightarrow>
      cs = take 1 (quantum_bytes (i * 262144 + j * 4096))"
    and "b64_quanta E ([b64_char (b64_url E) i, b64_char (b64_url E) j] @ pad_if (b64_padded E) ''=='')
      = Inr (take 1 (quantum_bytes (i * 262144 + j * 4096)))"
  using assms b64_digit_char_cases [of i "b64_url E'" u] b64_digit_char_cases [of j "b64_url E'" u]
  by (auto simp: pad_if_def corrupt_input_def b64_digit_char_same split: if_splits bool.splits)

lemma three_chars:
  assumes "i < 64" "j < 64" "k < 64"
  shows "b64_quanta E' ([b64_char u i, b64_char u j, b64_char u k] @ pad_if p ''='') = Inr cs \<Longrightarrow>
      cs = take 2 (quantum_bytes (i * 262144 + j * 4096 + k * 64))"
    and "b64_quanta E ([b64_char (b64_url E) i, b64_char (b64_url E) j, b64_char (b64_url E) k] @ pad_if (b64_padded E) ''='')
      = Inr (take 2 (quantum_bytes (i * 262144 + j * 4096 + k * 64)))"
  using assms b64_digit_char_cases [of i "b64_url E'" u] b64_digit_char_cases [of j "b64_url E'" u]
    b64_digit_char_cases [of k "b64_url E'" u] b64_char_plain(1) [of k u]
  by (auto simp: pad_if_def corrupt_input_def b64_digit_char_same split: if_splits bool.splits)

lemma b64_quanta_two:
  assumes "v < 16777216" "v mod 4096 = 0"
  shows "b64_quanta E' (take 2 (quantum_chars u v) @ pad_if p ''=='') = Inr cs \<Longrightarrow> cs = take 1 (quantum_bytes v)"
    and "b64_quanta E (take 2 (quantum_chars (b64_url E) v) @ pad_if (b64_padded E) ''=='') = Inr (take 1 (quantum_bytes v))"
proof -
  have "v mod 64 = 0" using mod_mod_cancel [of 64 4096 v] assms by simp
  moreover have "v div 64 mod 64 = 0" using assms mod_mult2_eq [of v 64 64] by simp
  ultimately have sum: "v div 262144 mod 64 * 262144 + v div 4096 mod 64 * 4096 = v" using sextets [of v] assms by linarith
  have chars: "take 2 (quantum_chars w v) = [b64_char w (v div 262144 mod 64), b64_char w (v div 4096 mod 64)]" for w
    by (simp add: quantum_chars_def)
  have "v div 262144 mod 64 < 64" "v div 4096 mod 64 < 64" by simp_all
  from two_chars [OF this, unfolded sum, folded chars]
  show "b64_quanta E' (take 2 (quantum_chars u v) @ pad_if p ''=='') = Inr cs \<Longrightarrow> cs = take 1 (quantum_bytes v)"
    and "b64_quanta E (take 2 (quantum_chars (b64_url E) v) @ pad_if (b64_padded E) ''=='') = Inr (take 1 (quantum_bytes v))"
    by blast+
qed

lemma b64_quanta_three:
  assumes "v < 16777216" "v mod 64 = 0"
  shows "b64_quanta E' (take 3 (quantum_chars u v) @ pad_if p ''='') = Inr cs \<Longrightarrow> cs = take 2 (quantum_bytes v)"
    and "b64_quanta E (take 3 (quantum_chars (b64_url E) v) @ pad_if (b64_padded E) ''='') = Inr (take 2 (quantum_bytes v))"
proof -
  have sum: "v div 262144 mod 64 * 262144 + v div 4096 mod 64 * 4096 + v div 64 mod 64 * 64 = v"
    using sextets [of v] assms by linarith
  have chars: "take 3 (quantum_chars w v) =
      [b64_char w (v div 262144 mod 64), b64_char w (v div 4096 mod 64), b64_char w (v div 64 mod 64)]" for w
    by (simp add: quantum_chars_def)
  have "v div 262144 mod 64 < 64" "v div 4096 mod 64 < 64" "v div 64 mod 64 < 64" by simp_all
  from three_chars [OF this, unfolded sum, folded chars]
  show "b64_quanta E' (take 3 (quantum_chars u v) @ pad_if p ''='') = Inr cs \<Longrightarrow> cs = take 2 (quantum_bytes v)"
    and "b64_quanta E (take 3 (quantum_chars (b64_url E) v) @ pad_if (b64_padded E) ''='') = Inr (take 2 (quantum_bytes v))"
    by blast+
qed

lemma unat_byte_bounds:
  fixes x y z :: byte
  shows "unat x * 65536 + unat y * 256 + unat z < 16777216" "unat x * 65536 + unat y * 256 < 16777216"
    "unat x * 65536 < 16777216"
proof -
  have "unat x < 256" "unat y < 256" "unat z < 256"
    using unsigned_less [where 'a = nat and w = x] unsigned_less [where 'a = nat and w = y]
      unsigned_less [where 'a = nat and w = z] by simp_all
  then show "unat x * 65536 + unat y * 256 + unat z < 16777216" "unat x * 65536 + unat y * 256 < 16777216"
    "unat x * 65536 < 16777216" by linarith+
qed

lemma b64_encode_short:
  "b64_encode E [x] = take 2 (quantum_chars (b64_url E) (unat x * 65536)) @ pad_if (b64_padded E) ''==''"
  "b64_encode E [x, y] = take 3 (quantum_chars (b64_url E) (unat x * 65536 + unat y * 256)) @ pad_if (b64_padded E) ''=''"
  by (simp_all add: pad_if_def)

lemma quantum_bytes_short:
  "take 1 (quantum_bytes (unat (x :: byte) * 65536)) = [x]"
  "take 2 (quantum_bytes (unat (x :: byte) * 65536 + unat (y :: byte) * 256)) = [x, y]"
  using quantum_bytes_unat [of x 0 0] quantum_bytes_unat [of x y 0] by simp_all

lemma b64_quanta_encoded_foreign: "b64_quanta E' (b64_encode E bs) = Inr cs \<Longrightarrow> cs = bs"
proof (induction E bs arbitrary: cs rule: b64_encode.induct)
  case (2 E x)
  from b64_quanta_two(1) [OF unat_byte_bounds(3) _ this [unfolded b64_encode_short]]
  show ?case by (simp only: quantum_bytes_short) simp
next
  case (3 E x y)
  have "(unat x * 65536 + unat y * 256) mod 64 = 0" by presburger
  from b64_quanta_three(1) [OF unat_byte_bounds(2) this 3 [unfolded b64_encode_short]]
  show ?case by (simp only: quantum_bytes_short)
next
  case (4 E x y z bs)
  then show ?case by (auto dest!: b64_quanta_foreign [OF _ unat_byte_bounds(1)])
qed simp

lemma b64_quanta_encoded: "b64_quanta E (b64_encode E bs) = Inr bs"
proof (induction E bs rule: b64_encode.induct)
  case (2 E x)
  then show ?case
    using b64_quanta_two(2) [OF unat_byte_bounds(3) [of x]] by (simp only: b64_encode_short quantum_bytes_short) simp
next
  case (3 E x y)
  have "(unat x * 65536 + unat y * 256) mod 64 = 0" by presburger
  from b64_quanta_three(2) [OF unat_byte_bounds(2) this] show ?case
    by (simp only: b64_encode_short quantum_bytes_short)
next
  case (4 E x y z bs)
  then show ?case by (simp add: b64_quanta_own [OF unat_byte_bounds(1)])
qed simp


lemma b64_encode_plain: "c \<in> set (b64_encode E bs) \<Longrightarrow> c \<noteq> CHR 0x0A \<and> c \<noteq> CHR 0x0D"
  by (induction E bs rule: b64_encode.induct)
    (auto simp: quantum_chars_def b64_char_plain split: if_splits dest: sym)

lemma b64_decode_encode: "b64_decode E' (b64_encode E bs) = b64_quanta E' (b64_encode E bs)"
proof -
  have "filter (\<lambda>c. c \<noteq> CHR 0x0A \<and> c \<noteq> CHR 0x0D) (b64_encode E bs) = b64_encode E bs"
    by (rule filter_True) (auto dest: b64_encode_plain)
  then show ?thesis by (simp add: b64_decode_def)
qed

lemma try_encodings_encoded: "E \<in> set Es \<Longrightarrow> try_encodings e Es (b64_encode E bs) = Inr bs"
proof (induction Es arbitrary: e)
  case (Cons E' Es)
  show ?case
  proof (cases "b64_decode E' (b64_encode E bs)")
    case (Inl e')
    then have "E \<noteq> E'" by (auto simp: b64_decode_encode b64_quanta_encoded)
    then show ?thesis using Cons Inl by simp
  next
    case (Inr cs)
    then have "cs = bs" by (simp add: b64_decode_encode b64_quanta_encoded_foreign)
    then show ?thesis using Inr by simp
  qed
qed simp

lemma parse_base64_encoded:
  assumes "E \<in> {std_encoding, raw_std_encoding, url_encoding, raw_url_encoding}"
  shows "parse_base64_bytes (b64_encode E bs) = Inr bs"
proof (cases "b64_encode E bs = []")
  case True
  then show ?thesis using b64_quanta_encoded [of E bs] by (simp add: parse_base64_bytes_def)
next
  case False
  then show ?thesis using assms by (simp only: parse_base64_bytes_def if_False) (rule try_encodings_encoded; auto)
qed

text \<open>The base64 text of 32 bytes is never a hexadecimal text: it is padded or has odd length.\<close>

lemma hex_decode_even: "is_ok (hex_decode s) \<Longrightarrow> even (length s)"
  by (induction s rule: hex_decode.induct) (auto split: option.splits simp: is_ok_def and_then_def split: sum.splits)

lemma hex_decode_alphabet: "is_ok (hex_decode s) \<Longrightarrow> c \<in> set s \<Longrightarrow> hex_digit c \<noteq> None"
  by (induction s rule: hex_decode.induct) (auto split: option.splits sum.splits simp: is_ok_def and_then_def)

lemma length_b64_encode_raw: "\<not> b64_padded E \<Longrightarrow> length (b64_encode E bs) = (4 * length bs + 2) div 3"
  by (induction E bs rule: b64_encode.induct) (auto simp: quantum_chars_def)

lemma b64_encode_padded: "b64_padded E \<Longrightarrow> length bs mod 3 \<noteq> 0 \<Longrightarrow> CHR ''='' \<in> set (b64_encode E bs)"
proof (induction E bs rule: b64_encode.induct)
  case (4 E x y z bs)
  have "length (x # y # z # bs) mod 3 = length bs mod 3" by (simp only: list.size) presburger
  with 4 show ?case by simp
qed simp_all

lemma b64_of_hash_not_hex:
  assumes "length h = 32"
  shows "\<not> is_ok (hex_decode (b64_encode E h))" "b64_encode E h \<noteq> []"
proof -
  show "\<not> is_ok (hex_decode (b64_encode E h))"
  proof (cases "b64_padded E")
    case True
    have "hex_digit CHR ''='' = None" by (simp add: hex_digit_def)
    with True assms b64_encode_padded [of E h] hex_decode_alphabet [of "b64_encode E h" "CHR ''=''"]
    show ?thesis by auto
  next
    case False
    then have "length (b64_encode E h) = 43" using assms by (simp add: length_b64_encode_raw)
    then show ?thesis using hex_decode_even [of "b64_encode E h"] by auto
  qed
  show "b64_encode E h \<noteq> []" using assms b64_quanta_encoded [of E h] by auto
qed


text \<open>
  C39. The block hash of an ownership verification is read, as the same 32 bytes and with the same
  response around it, whether the daemon writes it in hexadecimal or in any of the four base64
  encodings: the hexadecimal reader, which is
  tried first, accepts no base64 text of a hash, and every base64 reader that accepts a text of
  another encoding reads the same bytes.
\<close>

theorem ownership_hash_any_text:
  assumes "length h = 32" "E \<in> {std_encoding, raw_std_encoding, url_encoding, raw_url_encoding}"
    and "t \<in> {hex_encode h, b64_encode E h}"
  shows "parse_ownership_block_hash X (resp\<lparr>jvo_block_hash := t\<rparr>) = Inr h \<and>
    unmarshal_verify_ownership_response X (resp\<lparr>jvo_block_hash := t\<rparr>) =
      unmarshal_verify_ownership_response X (resp\<lparr>jvo_block_hash := hex_encode h\<rparr>) \<and>
    (case unmarshal_verify_ownership_response X (resp\<lparr>jvo_block_hash := t\<rparr>) of
       Inr v \<Rightarrow> vr_block_hash v = h | Inl _ \<Rightarrow> True)"
proof -
  have hex: "hex_encode h \<noteq> []" using assms(1) length_hex_encode [of h] by force
  have hex_parsed: "parse_ownership_block_hash X (resp\<lparr>jvo_block_hash := hex_encode h\<rparr>) = Inr h"
    using hex by (simp add: parse_ownership_block_hash_def)
  have parsed: "parse_ownership_block_hash X (resp\<lparr>jvo_block_hash := t\<rparr>) = Inr h"
  proof (cases "t = hex_encode h")
    case True
    then show ?thesis using hex_parsed by simp
  next
    case False
    then have b64: "t = b64_encode E h" using assms(3) by simp
    obtain e where "hex_decode (b64_encode E h) = Inl e"
      using b64_of_hash_not_hex(1) [OF assms(1), of E] by (cases "hex_decode (b64_encode E h)") auto
    then show ?thesis
      using b64_of_hash_not_hex(2) [OF assms(1)] by (simp add: parse_ownership_block_hash_def b64 parse_base64_encoded [OF assms(2)])
  qed
  have same: "jvo_outpoint (resp\<lparr>jvo_block_hash := u\<rparr>) = jvo_outpoint resp"
    "jvo_outpoint_str (resp\<lparr>jvo_block_hash := u\<rparr>) = jvo_outpoint_str resp"
    "jvo_valid_proof (resp\<lparr>jvo_block_hash := u\<rparr>) = jvo_valid_proof resp"
    "jvo_block_height (resp\<lparr>jvo_block_hash := u\<rparr>) = jvo_block_height resp" for u
    by simp_all
  have "h \<noteq> []" using assms(1) by auto
  then have "vr_block_hash v = h" if "unmarshal_verify_ownership_response X (resp\<lparr>jvo_block_hash := t\<rparr>) = Inr v" for v
    using that by (auto simp: unmarshal_verify_ownership_response_def parsed and_then_eq_Inr split: if_splits)
  moreover have "unmarshal_verify_ownership_response X (resp\<lparr>jvo_block_hash := t\<rparr>) =
      unmarshal_verify_ownership_response X (resp\<lparr>jvo_block_hash := hex_encode h\<rparr>)"
    unfolding unmarshal_verify_ownership_response_def parsed hex_parsed same ..
  ultimately show ?thesis using parsed by (simp split: sum.split)
qed

definition sample_ownership_reply :: "string \<Rightarrow> json_verify_ownership_response" where
  "sample_ownership_reply hash =
     \<lparr>jvo_valid_proof = False, jvo_outpoint = None, jvo_outpoint_str = [], jvo_block_hash = hash,
      jvo_block_hash_str = [], jvo_block_height = 7\<rparr>"

theorem ownership_hash_any_text_witness:
  "parse_ownership_block_hash sample_chain
      (sample_ownership_reply (b64_encode raw_url_encoding (replicate 32 255))) = Inr (replicate 32 255)"
  using ownership_hash_any_text [of "replicate 32 255" raw_url_encoding "b64_encode raw_url_encoding (replicate 32 255)"
      sample_chain "sample_ownership_reply []"]
  by (simp add: sample_ownership_reply_def)

end
