(* ===== verification/Tap_RestTransport.thy ===== *)
theory Tap_RestTransport
  imports Tap_RestDecode
begin

text \<open>
  The HTTP transport of the REST backend (\<open>rest/transport.go\<close>, \<open>rest/errors.go\<close>, \<open>rest/config.go\<close>,
  \<open>rest/fee_rate.go\<close>) and the macaroons it sends (\<open>macaroon/macaroon.go\<close>, \<open>macaroon/source.go\<close>).

  The exchange with the server is a function of the record \<open>transport\<close>: it may answer depending on
  all requests sent before. An operation of the backend is a function from the requests sent so far to
  its result and the longer list. Request bodies are JSON trees with the fields in the order and under
  the names of the struct tags, \<open>omitempty\<close> included. Decoding of a response body into a struct is
  reflection over the tags of \<open>types.go\<close> and is a parameter of each operation.
\<close>

section \<open>Macaroons\<close>

datatype service_mac =
    WalletKitServiceMac | AdminServiceMac | ProofServiceMac | UniverseServiceMac | MintServiceMac | ReadOnlyServiceMac

primrec mac_file :: "service_mac \<Rightarrow> string" where
  "mac_file WalletKitServiceMac = ''walletkit.macaroon''"
| "mac_file AdminServiceMac = ''admin.macaroon''"
| "mac_file ProofServiceMac = ''proof.macaroon''"
| "mac_file UniverseServiceMac = ''universe.macaroon''"
| "mac_file MintServiceMac = ''mint.macaroon''"
| "mac_file ReadOnlyServiceMac = ''readonly.macaroon''"

definition macaroon_services :: "service_mac list" where
  "macaroon_services =
     [WalletKitServiceMac, AdminServiceMac, ProofServiceMac, UniverseServiceMac, MintServiceMac, ReadOnlyServiceMac]"

type_synonym pouch = "service_mac \<rightharpoonup> string"

text \<open>The operating system: \<open>os.ReadFile\<close> and \<open>filepath.Join\<close>.\<close>

record file_system =
  os_read_file :: "string \<Rightarrow> bytes result"
  os_join :: "string \<Rightarrow> string \<Rightarrow> string"

definition new_serialized_macaroon :: "file_system \<Rightarrow> string \<Rightarrow> string result" where
  "new_serialized_macaroon F path = and_then (os_read_file F path) (\<lambda>b. Inr (hex_encode b))"

definition pouch_for_all_services :: "string \<Rightarrow> pouch" where
  "pouch_for_all_services mac = map_of (map (\<lambda>s. (s, mac)) macaroon_services)"

datatype mac_source = PathSource string | DirSource string | HexSource string

definition load_dir_step :: "file_system \<Rightarrow> string \<Rightarrow> pouch \<Rightarrow> service_mac \<Rightarrow> pouch result" where
  "load_dir_step F dir p name =
     and_then (new_serialized_macaroon F (os_join F dir (mac_file name))) (\<lambda>mac. Inr (p(name \<mapsto> mac)))"

definition load_pouch :: "file_system \<Rightarrow> mac_source \<Rightarrow> pouch result" where
  "load_pouch F src =
     (case src of
        PathSource path \<Rightarrow> and_then (new_serialized_macaroon F path) (\<lambda>mac. Inr (pouch_for_all_services mac))
      | DirSource dir \<Rightarrow> fold_res (load_dir_step F dir) Map.empty macaroon_services
      | HexSource hex \<Rightarrow>
          (let trimmed = trim_space hex in
           if trimmed = [] then Inl (Plain ''macaroon hex must not be empty'')
           else and_then (errorf ''invalid macaroon hex: '' (hex_decode trimmed)) (\<lambda>_.
                  Inr (pouch_for_all_services trimmed))))"

section \<open>Configuration\<close>

text \<open>\<open>url.Parse\<close> of the base URL yields its scheme and host.\<close>

definition validate_base_url :: "(string \<Rightarrow> (string \<times> string) result) \<Rightarrow> string \<Rightarrow> unit result" where
  "validate_base_url url_parse base_url =
     and_then (errorf ''invalid base URL: '' (url_parse base_url)) (\<lambda>(scheme, host).
       if scheme \<noteq> ''https'' then Inl (Plain ''unsupported base URL scheme'')
       else if host = [] then Inl (Plain ''base URL must include a host'')
       else Inr ())"

definition default_http_timeout :: int where
  "default_http_timeout = 30000000000"

definition config_timeout :: "int \<Rightarrow> int" where
  "config_timeout timeout = (if timeout > 0 then timeout else default_http_timeout)"

definition default_macaroon_subdir :: "string \<Rightarrow> string result" where
  "default_macaroon_subdir network =
     (if network = network_testnet then Inr ''testnet''
      else if network = network_testnet4 then Inr ''testnet4''
      else if network = network_mainnet then Inr ''mainnet''
      else if network = network_simnet then Inr ''simnet''
      else if network = network_signet then Inr ''signet''
      else if network = network_regtest then Inr ''regtest''
      else Inl (Plain ''unsupported network''))"

text \<open>
  Certificate pinning of \<open>buildTLSConfig\<close>: the digest that the configuration names, and the check of
  the certificates a server presents; \<open>sha\<close> is SHA-256.
\<close>

definition pinned_digest :: "string \<Rightarrow> string result" where
  "pinned_digest fingerprint =
     (let expected = to_lower (filter (\<lambda>c. c \<noteq> CHR '':'') fingerprint) in
      if \<not> is_ok (hex_decode expected) \<or> length expected \<noteq> 64
      then Inl (Plain ''TLSPinnedCertFingerprint must be a 64-char hex SHA-256 digest'')
      else Inr expected)"

definition verify_peer_certificate :: "(bytes \<Rightarrow> bytes) \<Rightarrow> string \<Rightarrow> bytes list \<Rightarrow> unit result" where
  "verify_peer_certificate sha expected raw_certs =
     (case raw_certs of
        [] \<Rightarrow> Inl (Plain ''server presented no certificates'')
      | cert # _ \<Rightarrow>
          (if hex_encode (sha cert) \<noteq> expected then Inl (Plain ''certificate fingerprint mismatch'') else Inr ()))"

section \<open>Fee rates\<close>

definition fee_rate_sat_per_kweight :: "fee_rate \<Rightarrow> u32 result" where
  "fee_rate_sat_per_kweight r =
     (if sat_per_kweight r > 0xFFFFFFFF then Inl (Plain ''fee rate overflows sat/kWU'')
      else Inr (ucast (sat_per_kweight r)))"

text \<open>The argument is an \<open>int32\<close>.\<close>

definition fee_rate_from_sat_per_kweight :: "u32 \<Rightarrow> fee_rate" where
  "fee_rate_from_sat_per_kweight w =
     (if sint w \<le> 0 then new_fee_rate_sat_per_kvbyte 0 else new_fee_rate_sat_per_kvbyte (scast w * 4))"

section \<open>JSON bodies\<close>

datatype json =
    JNull | JBool bool | JNum int | JStr string | JArr "json list" | JObj "(string \<times> json) list"

text \<open>Fields with the option \<open>omitempty\<close>, which are left out at their zero value.\<close>

definition omit_str :: "string \<Rightarrow> string \<Rightarrow> (string \<times> json) list" where
  "omit_str k s = (if s = [] then [] else [(k, JStr s)])"

definition omit_num :: "string \<Rightarrow> int \<Rightarrow> (string \<times> json) list" where
  "omit_num k n = (if n = 0 then [] else [(k, JNum n)])"

definition omit_true :: "string \<Rightarrow> bool \<Rightarrow> (string \<times> json) list" where
  "omit_true k b = (if b then [(k, JBool True)] else [])"

definition omit_list :: "string \<Rightarrow> json list \<Rightarrow> (string \<times> json) list" where
  "omit_list k xs = (if xs = [] then [] else [(k, JArr xs)])"

definition omit_nil :: "string \<Rightarrow> json option \<Rightarrow> (string \<times> json) list" where
  "omit_nil k p = (case p of None \<Rightarrow> [] | Some j \<Rightarrow> [(k, j)])"

lemmas omit_defs = omit_str_def omit_num_def omit_true_def omit_list_def omit_nil_def

text \<open>A pointer without \<open>omitempty\<close>.\<close>

definition nullable :: "json option \<Rightarrow> json" where
  "nullable p = (case p of None \<Rightarrow> JNull | Some j \<Rightarrow> j)"

definition json_strings :: "string list \<Rightarrow> json" where
  "json_strings xs = JArr (map JStr xs)"

definition json_hex :: "bytes \<Rightarrow> json" where
  "json_hex b = JStr (hex_encode b)"

section \<open>Exchanges\<close>

record rest_request =
  rq_method :: string
  rq_path :: string
  rq_mac :: service_mac
  rq_body :: "json option"

definition get_request :: "string \<Rightarrow> service_mac \<Rightarrow> rest_request" where
  "get_request path mac = \<lparr>rq_method = ''GET'', rq_path = path, rq_mac = mac, rq_body = None\<rparr>"

definition post_request :: "string \<Rightarrow> service_mac \<Rightarrow> json \<Rightarrow> rest_request" where
  "post_request path mac body = \<lparr>rq_method = ''POST'', rq_path = path, rq_mac = mac, rq_body = Some body\<rparr>"

record http_request =
  hr_method :: string
  hr_url :: string
  hr_macaroon :: string
  hr_body :: "json option"

record api_error =
  ape_code :: int
  ape_message :: string
  ape_details :: string

text \<open>
  \<open>tp_url_error\<close> is the failure of \<open>http.NewRequestWithContext\<close> on a URL, if it fails; \<open>tp_exchange\<close>
  yields the status and the body, whose reading may fail on its own; \<open>tp_api_error\<close> decodes an error
  body.
\<close>

record transport =
  tp_base_url :: string
  tp_pouch :: pouch
  tp_url_error :: "string \<Rightarrow> go_error option"
  tp_exchange :: "http_request list \<Rightarrow> http_request \<Rightarrow> (int \<times> string result) result"
  tp_api_error :: "string \<Rightarrow> api_error result"

definition details_string :: "string \<Rightarrow> string" where
  "details_string raw =
     (let trimmed = trim_space raw in
      if trimmed = [] \<or> trimmed = ''null'' \<or> trimmed = ''[]'' \<or> trimmed = [CHR 0x22, CHR 0x22]
      then [] else trimmed)"

definition grpc_codes :: "grpc_code list" where
  "grpc_codes =
     [OK, Canceled, Unknown, InvalidArgument, DeadlineExceeded, NotFound, AlreadyExists, PermissionDenied,
      ResourceExhausted, FailedPrecondition, Aborted, OutOfRange, Unimplemented, Internal, Unavailable,
      DataLoss, Unauthenticated]"

definition grpc_code_from_gateway :: "int \<Rightarrow> grpc_code" where
  "grpc_code_from_gateway code = (if code < 0 \<or> code > 16 then Unknown else grpc_codes ! nat code)"

text \<open>
  \<open>APIError\<close> with its \<open>Error\<close> and \<open>GRPCStatus\<close> methods: an error from outside that carries a status.
\<close>

definition api_error_value :: "int \<Rightarrow> grpc_code \<Rightarrow> string \<Rightarrow> string \<Rightarrow> go_error" where
  "api_error_value status code msg details =
     External (Some (code, msg))
       (if details \<noteq> []
        then ''tapd REST API error '' @ int_string status @ '': '' @ msg @ '' ('' @ details @ '')''
        else ''tapd REST API error '' @ int_string status @ '': '' @ msg)"

definition response_error :: "transport \<Rightarrow> int \<Rightarrow> string \<Rightarrow> go_error" where
  "response_error T status body =
     (case tp_api_error T body of
        Inr err \<Rightarrow>
          (if ape_message err \<noteq> []
           then api_error_value status (grpc_code_from_gateway (ape_code err)) (ape_message err)
                  (details_string (ape_details err))
           else api_error_value status Unknown body [])
      | Inl _ \<Rightarrow> api_error_value status Unknown body [])"

definition http_request_of :: "transport \<Rightarrow> rest_request \<Rightarrow> http_request" where
  "http_request_of T r =
     \<lparr>hr_method = rq_method r, hr_url = tp_base_url T @ rq_path r,
      hr_macaroon = (case tp_pouch T (rq_mac r) of None \<Rightarrow> [] | Some m \<Rightarrow> m), hr_body = rq_body r\<rparr>"

definition read_response :: "transport \<Rightarrow> (string \<Rightarrow> 'r result) \<Rightarrow> (int \<times> string result) result \<Rightarrow> 'r result" where
  "read_response T decode r =
     and_then (errorf ''HTTP request failed: '' r) (\<lambda>(status, raw).
     and_then (errorf ''failed to read response: '' raw) (\<lambda>body.
     if status < 200 \<or> status \<ge> 300 then Inl (response_error T status body)
     else errorf ''failed to decode response: '' (decode body)))"

type_synonym 'a rest = "http_request list \<Rightarrow> 'a result \<times> http_request list"

definition transport_do :: "transport \<Rightarrow> (string \<Rightarrow> 'r result) \<Rightarrow> rest_request \<Rightarrow> 'r rest" where
  "transport_do T decode r =
     (\<lambda>h. let req = http_request_of T r in
       case tp_url_error T (hr_url req) of
         Some e \<Rightarrow> (Inl (Wrapf ''failed to create request: '' e []), h)
       | None \<Rightarrow> (read_response T decode (tp_exchange T h req), h @ [req]))"

text \<open>
  A method of a client: build the request, send it, decode the message. Nothing is sent when the
  request cannot be built.
\<close>

definition rest_method ::
    "transport \<Rightarrow> (string \<Rightarrow> 'r result) \<Rightarrow> rest_request result \<Rightarrow> ('r \<Rightarrow> 'a result) \<Rightarrow> 'a rest" where
  "rest_method T decode request answer =
     (\<lambda>h. case request of
        Inl e \<Rightarrow> (Inl e, h)
      | Inr r \<Rightarrow> (case transport_do T decode r h of (res, h') \<Rightarrow> (and_then res answer, h')))"

end
