(* ===== verification/Tap_RestClient.thy ===== *)
theory Tap_RestClient
  imports Tap_RestTransport
begin

text \<open>
  The wallet and proof clients of the REST backend (\<open>rest/wallet_client.go\<close>,
  \<open>rest/proof_client.go\<close>). A method is the request it builds, the message it decodes the response
  body to and what it makes of the message, put together by \<open>rest_method\<close>. The functions that decode
  a response body into a struct of \<open>types.go\<close> are the record \<open>json_decoders\<close>.
\<close>

record json_decoders =
  jd_info :: "string \<Rightarrow> json_get_info_response result"
  jd_list_assets :: "string \<Rightarrow> json_list_assets_response result"
  jd_list_balances :: "string \<Rightarrow> json_list_balances_response result"
  jd_list_transfers :: "string \<Rightarrow> json_list_transfers_response result"
  jd_send_asset :: "string \<Rightarrow> json_send_asset_response result"
  jd_addr :: "string \<Rightarrow> json_addr result"
  jd_query_addrs :: "string \<Rightarrow> json_query_addrs_response result"
  jd_addr_receives :: "string \<Rightarrow> json_addr_receives_response result"
  jd_list_utxos :: "string \<Rightarrow> json_list_utxos_response result"
  jd_list_groups :: "string \<Rightarrow> json_list_groups_response result"
  jd_burn_asset :: "string \<Rightarrow> json_burn_asset_response result"
  jd_list_burns :: "string \<Rightarrow> json_list_burns_response result"
  jd_asset_meta :: "string \<Rightarrow> json_asset_meta result"
  jd_verify_proof :: "string \<Rightarrow> json_verify_proof_response result"
  jd_proof_file :: "string \<Rightarrow> json_proof_file result"
  jd_unpack :: "string \<Rightarrow> json_unpack_proof_file_response result"
  jd_decode_proof :: "string \<Rightarrow> json_decode_proof_response result"
  jd_register :: "string \<Rightarrow> json_register_transfer_response result"
  jd_next_script_key :: "string \<Rightarrow> json_next_script_key_response result"
  jd_next_internal_key :: "string \<Rightarrow> json_next_internal_key_response result"
  jd_fund :: "string \<Rightarrow> json_fund_virtual_psbt_response result"
  jd_sign :: "string \<Rightarrow> json_sign_virtual_psbt_response result"
  jd_commit :: "string \<Rightarrow> json_commit_virtual_psbts_response result"
  jd_publish :: "string \<Rightarrow> json_publish_and_log_response result"
  jd_ownership_proof :: "string \<Rightarrow> json_ownership_proof result"
  jd_verify_ownership :: "string \<Rightarrow> json_verify_ownership_response result"
  jd_text :: "string \<Rightarrow> string result"
  jd_number :: "string \<Rightarrow> u32 result"
  jd_empty :: "string \<Rightarrow> unit result"
  jd_asset_roots :: "string \<Rightarrow> json_asset_roots_response result"
  jd_query_root :: "string \<Rightarrow> json_query_root_response result"
  jd_leaf_keys :: "string \<Rightarrow> json_asset_leaf_keys_response result"
  jd_leaves :: "string \<Rightarrow> json_asset_leaves_response result"
  jd_query_proof :: "string \<Rightarrow> json_query_proof_response result"
  jd_stats :: "string \<Rightarrow> json_universe_stats_response result"
  jd_asset_stats :: "string \<Rightarrow> json_asset_stats_response result"
  jd_events :: "string \<Rightarrow> json_query_events_response result"
  jd_servers :: "string \<Rightarrow> json_list_federation_servers_response result"
  jd_sync_config :: "string \<Rightarrow> json_query_sync_config_response result"
  jd_sync :: "string \<Rightarrow> json_sync_universe_response result"
  jd_batch :: "string \<Rightarrow> json_batch_response result"
  jd_fund_batch :: "string \<Rightarrow> json_fund_batch_response result"
  jd_list_batches :: "string \<Rightarrow> json_list_batches_response result"

section \<open>Listing assets\<close>

definition marshal_script_key_type_query_params ::
    "url_values \<Rightarrow> script_key_type_query option \<Rightarrow> url_values result" where
  "marshal_script_key_type_query_params params query =
     and_then (script_key_type_query_validate query) (\<lambda>_.
       case query of
         None \<Rightarrow> Inr params
       | Some q \<Rightarrow>
           (case sq_explicit_type q of
              Some t \<Rightarrow> Inr (params_set ''script_key_type.explicit_type'' (marshal_script_key_type t) params)
            | None \<Rightarrow>
                Inr (if sq_all_types q then params_set ''script_key_type.all_types'' ''true'' params else params)))"

text \<open>\<open>if flag { params.Set(key, value) }\<close>.\<close>

definition set_if :: "bool \<Rightarrow> string \<Rightarrow> string \<Rightarrow> url_values \<Rightarrow> url_values" where
  "set_if c k v params = (if c then params_set k v params else params)"

definition list_asset_records_query_params ::
    "'k lib \<Rightarrow> list_assets_request option \<Rightarrow> (url_values \<times> string option) result" where
  "list_asset_records_query_params L request =
     (case request of
        None \<Rightarrow> Inr ([], None)
      | Some req \<Rightarrow>
          (let p1 = set_if (lr_with_witness req) ''with_witness'' ''true'' [];
               p2 = set_if (lr_include_spent req) ''include_spent'' ''true'' p1;
               p3 = set_if (lr_include_leased req) ''include_leased'' ''true'' p2;
               p4 = set_if (lr_include_unconfirmed_mints req) ''include_unconfirmed_mints'' ''true'' p3;
               p5 = set_if (lr_min_amount req \<noteq> 0) ''min_amount'' (dec_string (unat (lr_min_amount req))) p4;
               p6 = set_if (lr_max_amount req \<noteq> 0) ''max_amount'' (dec_string (unat (lr_max_amount req))) p5 in
           and_then (case lr_asset_ref req of
                       None \<Rightarrow> Inr p6
                     | Some ref \<Rightarrow>
                         and_then (asset_ref_validate L ref) (\<lambda>_.
                           Inr (case ref_group_key L ref of
                                  Some k \<Rightarrow> params_set ''group_key'' (b64_encode url_encoding k) p6
                                | None \<Rightarrow> p6))) (\<lambda>p7.
           let p8 = (case lr_anchor_outpoint req of
                       None \<Rightarrow> p7
                     | Some op \<Rightarrow>
                         params_set ''anchor_outpoint.output_index'' (dec_string (unat (op_index op)))
                           (params_set ''anchor_outpoint.txid'' (b64_encode url_encoding (op_txid op)) p7)) in
           and_then (marshal_script_key_type_query_params p8 (lr_script_key_type req)) (\<lambda>p9.
           Inr (p9, lr_asset_ref req)))))"

definition asset_record_matches_ref :: "'k lib \<Rightarrow> asset_record \<Rightarrow> string \<Rightarrow> bool" where
  "asset_record_matches_ref L asset ref \<longleftrightarrow>
     asset_ref_equivalent L (ar_asset_ref asset) ref \<or>
     (case ref_asset_id L ref of None \<Rightarrow> False | Some i \<Rightarrow> ig_issuance_id (ar_genesis asset) = i)"

definition rest_list_asset_records ::
    "'k lib \<Rightarrow> chain_lib \<Rightarrow> transport \<Rightarrow> json_decoders \<Rightarrow> list_assets_request option \<Rightarrow> asset_record list rest" where
  "rest_list_asset_records L X T D req =
     (case list_asset_records_query_params L req of
        Inl e \<Rightarrow> (\<lambda>h. (Inl e, h))
      | Inr (params, asset_ref_filter) \<Rightarrow>
          rest_method T (jd_list_assets D)
            (Inr (get_request (with_params ''/v1/taproot-assets/assets'' params) AdminServiceMac))
            (\<lambda>resp. and_then (decode_all (unmarshal_asset L X) resp) (\<lambda>assets.
               Inr (case asset_ref_filter of
                      None \<Rightarrow> assets
                    | Some ref \<Rightarrow> filter (\<lambda>a. asset_record_matches_ref L a ref) assets))))"

definition rest_get_info :: "transport \<Rightarrow> json_decoders \<Rightarrow> node_info rest" where
  "rest_get_info T D =
     rest_method T (jd_info D) (Inr (get_request ''/v1/taproot-assets/getinfo'' AdminServiceMac)) unmarshal_info"

section \<open>Balances\<close>

text \<open>One round of the loop over the balances by asset ID: the sum of a reference wraps at 64 bits.\<close>

definition balance_row_ref :: "'k lib \<Rightarrow> issuance_genesis option \<Rightarrow> string \<Rightarrow> string result" where
  "balance_row_ref L genesis group_key =
     (if group_key \<noteq> [] \<and> (case genesis of None \<Rightarrow> True | Some g \<Rightarrow> ig_type g \<noteq> asset_type_collectible)
      then and_then (errorf ''balance group key: '' (parse_hex_bytes group_key)) (\<lambda>b.
           and_then (errorf ''balance group key: '' (parse_pub_key L b)) (asset_ref_from_group_key L))
      else case genesis of
        None \<Rightarrow> Inl (Plain ''balance genesis: missing asset genesis'')
      | Some g \<Rightarrow> asset_ref_from_asset_id L (ig_issuance_id g))"

definition balance_step ::
    "'k lib \<Rightarrow> chain_lib \<Rightarrow> (string \<rightharpoonup> balance) \<Rightarrow> json_asset_balance option \<Rightarrow> (string \<rightharpoonup> balance) result" where
  "balance_step L X balances entry =
     and_then (not_nil ''nil pointer dereference'' entry) (\<lambda>ab.
     and_then (when_set (\<lambda>g. errorf ''balance genesis: '' (unmarshal_issuance_genesis X (Some g))) (jab_asset_genesis ab)) (\<lambda>genesis.
     and_then (balance_row_ref L genesis (jab_group_key ab)) (\<lambda>ref.
     and_then (errorf ''balance amount: '' (parse_uint64 (jab_balance ab))) (\<lambda>bal.
     let prev = (case balances ref of None \<Rightarrow> \<lparr>ba_asset_ref = ref, ba_balance = 0\<rparr> | Some b \<Rightarrow> b) in
     Inr (balances(ref \<mapsto> prev\<lparr>ba_balance := ba_balance prev + bal\<rparr>))))))"

definition list_balances_params :: "'k lib \<Rightarrow> list_balances_request option \<Rightarrow> url_values" where
  "list_balances_params L request =
     (case request of
        None \<Rightarrow> [(''asset_id'', ''true'')]
      | Some req \<Rightarrow>
          (let p1 = set_if (lb_include_leased req) ''include_leased'' ''true'' [(''asset_id'', ''true'')] in
           case lb_asset_ref req of
             None \<Rightarrow> p1
           | Some ref \<Rightarrow>
               (case ref_asset_id L ref of
                  None \<Rightarrow> p1 | Some i \<Rightarrow> params_set ''asset_filter'' (b64_encode url_encoding i) p1)))"

definition group_balance_request :: "'k lib \<Rightarrow> list_balances_request \<Rightarrow> string \<Rightarrow> rest_request result" where
  "group_balance_request L req ref =
     (case ref_group_key L ref of
        None \<Rightarrow> Inl (Plain ''group balance requires a group asset ref'')
      | Some k \<Rightarrow>
          Inr (get_request
            (''/v1/taproot-assets/assets/balance?'' @
             params_encode (set_if (lb_include_leased req) ''include_leased'' ''true''
               [(''group_key'', ''true''), (''group_key_filter'', b64_encode url_encoding k)])) AdminServiceMac))"

definition group_balance_answer ::
    "'k lib \<Rightarrow> string \<Rightarrow> json_list_balances_response \<Rightarrow> list_balances_response result" where
  "group_balance_answer L ref resp =
     and_then (errorf ''unconfirmed_transfers: '' (parse_uint64 (jlb_unconfirmed_transfers resp))) (\<lambda>unconfirmed.
     let none = \<lparr>lp_balances = Map.empty, lp_unconfirmed_transfers = unconfirmed\<rparr> in
     case map_of (jlb_asset_group_balances resp) (case ref_group_key L ref of None \<Rightarrow> [] | Some k \<Rightarrow> hex_encode k) of
       Some (Some gb) \<Rightarrow>
         and_then (errorf ''balance amount: '' (parse_uint64 (jgb_balance gb))) (\<lambda>amount.
           Inr (if amount = 0 then none
                else none\<lparr>lp_balances := [ref \<mapsto> \<lparr>ba_asset_ref = ref, ba_balance = amount\<rparr>]\<rparr>))
     | _ \<Rightarrow> Inr none)"

definition rest_list_group_balance ::
    "'k lib \<Rightarrow> transport \<Rightarrow> json_decoders \<Rightarrow> list_balances_request \<Rightarrow> string \<Rightarrow> list_balances_response rest" where
  "rest_list_group_balance L T D req ref =
     rest_method T (jd_list_balances D) (group_balance_request L req ref) (group_balance_answer L ref)"

definition balances_answer ::
    "'k lib \<Rightarrow> chain_lib \<Rightarrow> json_list_balances_response \<Rightarrow> list_balances_response result" where
  "balances_answer L X resp =
     and_then (errorf ''unconfirmed_transfers: '' (parse_uint64 (jlb_unconfirmed_transfers resp))) (\<lambda>unconfirmed.
     and_then (fold_res (balance_step L X) Map.empty (map snd (jlb_asset_balances resp))) (\<lambda>balances.
     Inr \<lparr>lp_balances = balances, lp_unconfirmed_transfers = unconfirmed\<rparr>))"

text \<open>A request for a group reference goes to the daemon's balance by group key.\<close>

definition group_filter :: "'k lib \<Rightarrow> list_balances_request option \<Rightarrow> (list_balances_request \<times> string) option" where
  "group_filter L request =
     (case request of
        None \<Rightarrow> None
      | Some req \<Rightarrow>
          (case lb_asset_ref req of
             None \<Rightarrow> None | Some ref \<Rightarrow> (if is_group_ref L ref then Some (req, ref) else None)))"

definition rest_list_balances ::
    "'k lib \<Rightarrow> chain_lib \<Rightarrow> transport \<Rightarrow> json_decoders \<Rightarrow> list_balances_request option \<Rightarrow> list_balances_response rest" where
  "rest_list_balances L X T D request =
     (case group_filter L request of
        Some (req, ref) \<Rightarrow> rest_list_group_balance L T D req ref
      | None \<Rightarrow> rest_method T (jd_list_balances D)
          (Inr (get_request (''/v1/taproot-assets/assets/balance?'' @
             params_encode (list_balances_params L request)) AdminServiceMac)) (balances_answer L X))"

section \<open>Transfers\<close>

definition rest_list_transfers ::
    "'k lib \<Rightarrow> chain_lib \<Rightarrow> transport \<Rightarrow> json_decoders \<Rightarrow> string option \<Rightarrow> asset_transfer list rest" where
  "rest_list_transfers L X T D anchor_txid =
     rest_method T (jd_list_transfers D)
       (Inr (get_request (with_params ''/v1/taproot-assets/assets/transfers''
          (case anchor_txid of
             None \<Rightarrow> [] | Some t \<Rightarrow> set_if (t \<noteq> []) ''anchor_txid'' t [])) AdminServiceMac))
       (decode_all (unmarshal_asset_transfer L X))"

definition json_address_with_amount :: "string \<Rightarrow> u64 \<Rightarrow> json" where
  "json_address_with_amount addr amount =
     JObj [(''tap_addr'', JStr addr), (''amount'', JStr (dec_string (unat amount)))]"

text \<open>The fields \<open>tap_addrs\<close> and \<open>addresses_with_amounts\<close> of the body.\<close>

definition marshal_send_recipients :: "recipient list \<Rightarrow> (string list \<times> json list) result" where
  "marshal_send_recipients recipients =
     (if recipients = [] then Inr ([], [])
      else
      (let all_embedded = list_all (\<lambda>r. \<not> snd (recipient_amount r)) recipients;
           any_embedded = list_ex (\<lambda>r. \<not> snd (recipient_amount r)) recipients in
       if \<not> all_embedded \<and> any_embedded then Inl (Sentinel ErrMixedRecipientAmounts)
       else if all_embedded then Inr (map rc_address recipients, [])
       else Inr ([], map (\<lambda>r. json_address_with_amount (rc_address r) (fst (recipient_amount r))) recipients)))"

definition send_asset_body :: "send_asset_request option \<Rightarrow> json result" where
  "send_asset_body request =
     (case request of
        None \<Rightarrow> Inr (JObj [])
      | Some req \<Rightarrow>
          and_then (fee_rate_sat_per_kweight (sr_fee_rate req)) (\<lambda>fee_rate.
          and_then (marshal_send_recipients (sr_recipients req)) (\<lambda>(tap_addrs, with_amounts).
          Inr (JObj (omit_list ''tap_addrs'' (map JStr tap_addrs) @ omit_num ''fee_rate'' (uint fee_rate) @
                     omit_str ''label'' (sr_label req) @ omit_list ''addresses_with_amounts'' with_amounts @
                     omit_true ''skip_proof_courier_ping_check'' (sr_skip_ping req))))))"

definition rest_send_asset ::
    "'k lib \<Rightarrow> chain_lib \<Rightarrow> transport \<Rightarrow> json_decoders \<Rightarrow> send_asset_request option \<Rightarrow> asset_transfer rest" where
  "rest_send_asset L X T D req =
     rest_method T (jd_send_asset D)
       (and_then (send_asset_body req) (\<lambda>body. Inr (post_request ''/v1/taproot-assets/send'' AdminServiceMac body)))
       (unmarshal_asset_transfer L X)"

section \<open>Addresses\<close>

definition marshal_key_descriptor_json :: "key_descriptor \<Rightarrow> json" where
  "marshal_key_descriptor_json desc =
     JObj [(''raw_key_bytes'', json_hex (kd_raw_key_bytes desc)),
           (''key_loc'', JObj [(''key_family'', JNum (sint (kl_family (kd_locator desc)))),
                              (''key_index'', JNum (sint (kl_index (kd_locator desc))))])]"

definition marshal_script_key_json :: "script_key \<Rightarrow> json" where
  "marshal_script_key_json key =
     JObj [(''pub_key'', json_hex (sk_pub_key key)),
           (''key_desc'', (if sk_key_desc key \<noteq> zero_key_descriptor
                          then marshal_key_descriptor_json (sk_key_desc key) else JNull)),
           (''tap_tweak'', json_hex (sk_tap_tweak key))]"

text \<open>The hexadecimal text of an optional identifier, empty when there is none.\<close>

definition hex_or_empty :: "bytes option \<Rightarrow> string" where
  "hex_or_empty p = (case p of None \<Rightarrow> [] | Some b \<Rightarrow> hex_encode b)"

definition new_addr_body :: "'k lib \<Rightarrow> new_address_request \<Rightarrow> bool \<Rightarrow> json result" where
  "new_addr_body L req skip_conn_check =
     and_then (if asset_ref_is_zero (na_asset_ref req) then Inr () else asset_ref_validate L (na_asset_ref req)) (\<lambda>_.
     Inr (JObj
       (omit_str ''asset_id'' (hex_or_empty (ref_asset_id L (na_asset_ref req))) @
        omit_str ''amt'' (if na_amount req > 0 then dec_string (unat (na_amount req)) else []) @
        omit_str ''group_key'' (hex_or_empty (ref_group_key L (na_asset_ref req))) @
        omit_nil ''script_key'' (map_option marshal_script_key_json (na_script_key req)) @
        omit_nil ''internal_key'' (map_option marshal_key_descriptor_json (na_internal_key req)) @
        omit_str ''tapscript_sibling'' (hex_encode (na_tapscript_sibling req)) @
        omit_str ''proof_courier_addr'' (na_proof_courier_addr req) @
        omit_true ''skip_proof_courier_conn_check'' skip_conn_check @
        omit_str ''asset_version'' (case na_asset_version req of None \<Rightarrow> [] | Some v \<Rightarrow> marshal_asset_version_json v) @
        omit_str ''address_version'' (case na_address_version req of None \<Rightarrow> [] | Some v \<Rightarrow> marshal_address_version_json v))))"

definition rest_new_addr ::
    "'k lib \<Rightarrow> transport \<Rightarrow> json_decoders \<Rightarrow> new_address_request option \<Rightarrow> bool \<Rightarrow> address rest" where
  "rest_new_addr L T D request skip_conn_check =
     rest_method T (jd_addr D)
       (and_then (case request of None \<Rightarrow> Inr (JObj []) | Some req \<Rightarrow> new_addr_body L req skip_conn_check) (\<lambda>body.
          Inr (post_request ''/v1/taproot-assets/addrs'' AdminServiceMac body)))
       (\<lambda>resp. unmarshal_addr L (Some resp))"

definition rest_decode_addr :: "'k lib \<Rightarrow> transport \<Rightarrow> json_decoders \<Rightarrow> string \<Rightarrow> address rest" where
  "rest_decode_addr L T D addr =
     rest_method T (jd_addr D)
       (Inr (post_request ''/v1/taproot-assets/addrs/decode'' AdminServiceMac (JObj [(''addr'', JStr addr)])))
       (\<lambda>resp. unmarshal_addr L (Some resp))"

record address_query =
  aq_created_after :: int
  aq_created_before :: int
  aq_limit :: int
  aq_offset :: int

definition address_query_params :: "address_query option \<Rightarrow> url_values" where
  "address_query_params query =
     (case query of
        None \<Rightarrow> []
      | Some q \<Rightarrow>
          set_if (aq_offset q > 0) ''offset'' (int_string (aq_offset q))
            (set_if (aq_limit q > 0) ''limit'' (int_string (aq_limit q))
              (set_if (aq_created_before q > 0) ''created_before'' (int_string (aq_created_before q))
                (set_if (aq_created_after q > 0) ''created_after'' (int_string (aq_created_after q)) []))))"

definition rest_query_addrs :: "'k lib \<Rightarrow> transport \<Rightarrow> json_decoders \<Rightarrow> address_query option \<Rightarrow> address list rest" where
  "rest_query_addrs L T D query =
     rest_method T (jd_query_addrs D)
       (Inr (get_request (with_params ''/v1/taproot-assets/addrs'' (address_query_params query)) AdminServiceMac))
       (decode_all (unmarshal_addr L))"

record address_receives_query =
  rv_filter_addr :: string
  rv_filter_status :: int
  rv_start_timestamp :: u64
  rv_end_timestamp :: u64
  rv_offset :: int
  rv_limit :: int
  rv_direction :: int

definition addr_receives_body :: "address_receives_query option \<Rightarrow> json" where
  "addr_receives_body query =
     (case query of
        None \<Rightarrow> JObj []
      | Some q \<Rightarrow> JObj
          (omit_str ''filter_addr'' (rv_filter_addr q) @
           omit_str ''filter_status'' (marshal_addr_event_status_json (rv_filter_status q)) @
           omit_num ''start_timestamp'' (uint (rv_start_timestamp q)) @
           omit_num ''end_timestamp'' (uint (rv_end_timestamp q)) @
           omit_num ''offset'' (rv_offset q) @ omit_num ''limit'' (rv_limit q)))"

definition rest_addr_receives ::
    "'k lib \<Rightarrow> transport \<Rightarrow> json_decoders \<Rightarrow> address_receives_query option \<Rightarrow> address_event list rest" where
  "rest_addr_receives L T D query =
     rest_method T (jd_addr_receives D)
       (Inr (post_request ''/v1/taproot-assets/addrs/receives'' AdminServiceMac (addr_receives_body query)))
       (decode_all (unmarshal_addr_event L))"

section \<open>UTXOs, groups and burns\<close>

definition list_utxos_params :: "list_utxos_request option \<Rightarrow> url_values" where
  "list_utxos_params request =
     (case request of None \<Rightarrow> [] | Some req \<Rightarrow> set_if (lu_include_leased req) ''include_leased'' ''true'' [])"

text \<open>The result is the list of the entries of the map.\<close>

definition rest_list_utxos ::
    "'k lib \<Rightarrow> chain_lib \<Rightarrow> transport \<Rightarrow> json_decoders \<Rightarrow> list_utxos_request option \<Rightarrow> (string \<times> managed_utxo) list rest" where
  "rest_list_utxos L X T D request =
     rest_method T (jd_list_utxos D)
       (Inr (get_request (with_params ''/v1/taproot-assets/assets/utxos'' (list_utxos_params request)) AdminServiceMac))
       (decode_all (\<lambda>(k, v). and_then (errorf ''unmarshal utxo: '' (unmarshal_managed_utxo L X v)) (\<lambda>u. Inr (k, u))))"

definition rest_list_asset_groups :: "'k lib \<Rightarrow> transport \<Rightarrow> json_decoders \<Rightarrow> asset_group_record list rest" where
  "rest_list_asset_groups L T D =
     rest_method T (jd_list_groups D)
       (Inr (get_request ''/v1/taproot-assets/assets/groups'' AdminServiceMac))
       (decode_all (\<lambda>(k, v). errorf ''unmarshal group: '' (unmarshal_asset_group_record L k v)))"

text \<open>The body is a Go map, whose keys are written in sorted order.\<close>

definition burn_asset_request_body :: "'k lib \<Rightarrow> burn_asset_request \<Rightarrow> json result" where
  "burn_asset_request_body L req =
     (if asset_ref_is_zero (br_asset_ref req) then Inl (Plain ''asset ref is required'')
      else and_then (asset_ref_validate L (br_asset_ref req)) (\<lambda>_.
        Inr (JObj
          ([(''amount_to_burn'', JStr (dec_string (unat (br_amount_to_burn req))))] @
           (if is_group_ref L (br_asset_ref req)
            then [(''asset_specifier'', JObj [(''group_key_str'', JStr (hex_or_empty (ref_group_key L (br_asset_ref req))))])]
            else if is_asset_id_ref L (br_asset_ref req)
            then [(''asset_specifier'', JObj [(''asset_id_str'', JStr (hex_or_empty (ref_asset_id L (br_asset_ref req))))])]
            else []) @
           [(''confirmation_text'', JStr (br_confirmation_text req))] @
           omit_str ''note'' (br_note req)))))"

definition rest_burn_asset ::
    "'k lib \<Rightarrow> chain_lib \<Rightarrow> transport \<Rightarrow> json_decoders \<Rightarrow> burn_asset_request \<Rightarrow> burn_asset_response rest" where
  "rest_burn_asset L X T D req =
     rest_method T (jd_burn_asset D)
       (and_then (burn_asset_request_body L req) (\<lambda>body.
          Inr (post_request ''/v1/taproot-assets/burn'' AdminServiceMac body)))
       (unmarshal_burn_asset_response L X)"

record list_burns_request =
  lbr_asset_ref :: "string option"
  lbr_anchor_txid :: "bytes option"

definition list_burns_params :: "'k lib \<Rightarrow> list_burns_request option \<Rightarrow> url_values result" where
  "list_burns_params L request =
     (case request of
        None \<Rightarrow> Inr []
      | Some req \<Rightarrow>
          and_then (case lbr_asset_ref req of
                      None \<Rightarrow> Inr []
                    | Some ref \<Rightarrow>
                        and_then (asset_ref_validate L ref) (\<lambda>_.
                        let p1 = (case ref_asset_id L ref of
                                    None \<Rightarrow> [] | Some i \<Rightarrow> params_set ''asset_id'' (b64_encode url_encoding i) []) in
                        Inr (case ref_group_key L ref of
                               None \<Rightarrow> p1 | Some k \<Rightarrow> params_set ''tweaked_group_key'' (b64_encode url_encoding k) p1))) (\<lambda>p2.
          Inr (case lbr_anchor_txid req of
                 None \<Rightarrow> p2 | Some t \<Rightarrow> params_set ''anchor_txid'' (b64_encode url_encoding t) p2)))"

definition rest_list_burns :: "'k lib \<Rightarrow> transport \<Rightarrow> json_decoders \<Rightarrow> list_burns_request option \<Rightarrow> burn_record list rest" where
  "rest_list_burns L T D req =
     rest_method T (jd_list_burns D)
       (and_then (list_burns_params L req) (\<lambda>params.
          Inr (get_request (with_params ''/v1/taproot-assets/burns'' params) AdminServiceMac)))
       (decode_all (unmarshal_burn_record L))"

section \<open>Metadata and verification\<close>

record fetch_asset_meta_request =
  fm_asset_ref :: "string option"
  fm_meta_hash :: "bytes option"

definition fetch_asset_meta_path :: "'k lib \<Rightarrow> fetch_asset_meta_request \<Rightarrow> string result" where
  "fetch_asset_meta_path L req =
     (case fm_asset_ref req of
        Some ref \<Rightarrow>
          and_then (asset_ref_validate L ref) (\<lambda>_.
            case ref_asset_id L ref of
              None \<Rightarrow> Inl (Plain ''metadata lookup requires an asset-ID ref; tapd does not support group-key metadata lookup'')
            | Some i \<Rightarrow> Inr (''/v1/taproot-assets/assets/meta/asset-id/'' @ hex_encode i))
      | None \<Rightarrow>
          (case fm_meta_hash req of
             Some h \<Rightarrow> Inr (''/v1/taproot-assets/assets/meta/hash/'' @ hex_encode h)
           | None \<Rightarrow> Inl (Plain ''either asset_ref or meta_hash must be set'')))"

definition unmarshal_fetch_asset_meta_response :: "json_asset_meta \<Rightarrow> asset_meta result" where
  "unmarshal_fetch_asset_meta_response r =
     unmarshal_asset_meta (Some \<lparr>jam_data = jam_data r, jam_type = jam_type r, jam_meta_hash = jam_meta_hash r\<rparr>)"

definition rest_fetch_asset_meta :: "'k lib \<Rightarrow> transport \<Rightarrow> json_decoders \<Rightarrow> fetch_asset_meta_request \<Rightarrow> asset_meta rest" where
  "rest_fetch_asset_meta L T D req =
     rest_method T (jd_asset_meta D)
       (and_then (fetch_asset_meta_path L req) (\<lambda>path. Inr (get_request path AdminServiceMac)))
       unmarshal_fetch_asset_meta_response"

definition rest_verify_proof ::
    "'k lib \<Rightarrow> chain_lib \<Rightarrow> transport \<Rightarrow> json_decoders \<Rightarrow> bytes \<Rightarrow> verify_proof_response rest" where
  "rest_verify_proof L X T D raw_proof_file =
     rest_method T (jd_verify_proof D)
       (Inr (post_request ''/v1/taproot-assets/proofs/verify'' AdminServiceMac
          (JObj [(''raw_proof_file'', json_hex raw_proof_file)])))
       (unmarshal_verify_proof_response L X)"

section \<open>Proofs\<close>

definition json_outpoint_req :: "outpoint \<Rightarrow> json" where
  "json_outpoint_req op =
     JObj [(''txid'', json_hex (op_txid op)), (''output_index'', JNum (uint (op_index op)))]"

definition export_proof_request :: "'k lib \<Rightarrow> string \<Rightarrow> bytes \<Rightarrow> outpoint option \<Rightarrow> rest_request result" where
  "export_proof_request L ref script_key outpoint =
     and_then (asset_ref_validate L ref) (\<lambda>_.
       case ref_asset_id L ref of
         None \<Rightarrow> Inl (Plain ''export proof requires an asset-ID ref; group-key refs commit to multiple tranches'')
       | Some i \<Rightarrow>
           Inr (post_request ''/v1/taproot-assets/proofs/export'' ProofServiceMac
             (JObj ([(''asset_id'', json_hex i), (''script_key'', json_hex script_key)] @
                    omit_nil ''outpoint'' (map_option json_outpoint_req outpoint)))))"

definition rest_export_proof ::
    "'k lib \<Rightarrow> chain_lib \<Rightarrow> transport \<Rightarrow> json_decoders \<Rightarrow> string \<Rightarrow> bytes \<Rightarrow> outpoint option \<Rightarrow> proof_file rest" where
  "rest_export_proof L X T D ref script_key outpoint =
     rest_method T (jd_proof_file D) (export_proof_request L ref script_key outpoint)
       (\<lambda>resp.
          and_then (errorf ''invalid raw_proof_file: '' (parse_hex_bytes (jpf_raw_proof_file resp))) (\<lambda>raw.
          and_then (if jpf_genesis_point resp = [] then Inr zero_outpoint
                    else errorf ''invalid genesis point: '' (new_outpoint_from_str X (jpf_genesis_point resp))) (\<lambda>gp.
          Inr \<lparr>pf_raw = raw, pf_genesis_point = gp\<rparr>)))"

definition rest_unpack_proof_file :: "transport \<Rightarrow> json_decoders \<Rightarrow> bytes \<Rightarrow> bytes list rest" where
  "rest_unpack_proof_file T D raw_proof_file =
     rest_method T (jd_unpack D)
       (Inr (post_request ''/v1/taproot-assets/proofs/unpack-file'' ProofServiceMac
          (JObj [(''raw_proof_file'', json_hex raw_proof_file)])))
       (decode_all (\<lambda>p. errorf ''invalid raw proof: '' (parse_hex_bytes p)))"

definition rest_decode_proof ::
    "'k lib \<Rightarrow> chain_lib \<Rightarrow> transport \<Rightarrow> json_decoders \<Rightarrow> bytes \<Rightarrow> decoded_proof rest" where
  "rest_decode_proof L X T D raw_proof =
     rest_method T (jd_decode_proof D)
       (Inr (post_request ''/v1/taproot-assets/proofs/decode'' ProofServiceMac
          (JObj [(''raw_proof'', json_hex raw_proof), (''with_meta_reveal'', JBool True),
                 (''with_prev_witnesses'', JBool True)])))
       (\<lambda>resp. case resp of
          None \<Rightarrow> Inl (Plain ''invalid decoded proof response'')
        | Some d \<Rightarrow>
            (if jdp_asset d = None then Inl (Plain ''invalid decoded proof response'')
             else unmarshal_decoded_proof L X resp))"

text \<open>\<open>issuance_id\<close> is the zero ID when the caller gives none.\<close>

definition register_transfer_request ::
    "'k lib \<Rightarrow> string \<Rightarrow> bytes \<Rightarrow> bytes \<Rightarrow> outpoint \<Rightarrow> rest_request result" where
  "register_transfer_request L ref issuance_id script_key outpoint =
     and_then (asset_ref_validate L ref) (\<lambda>_.
       let asset_id0 = hex_or_empty (ref_asset_id L ref);
           asset_id = (if is_group_ref L ref \<and> issuance_id \<noteq> zero32 then hex_encode issuance_id else asset_id0) in
       Inr (post_request ''/v1/taproot-assets/assets/transfers/register'' ProofServiceMac
         (JObj (omit_str ''asset_id'' asset_id @ omit_str ''group_key'' (hex_or_empty (ref_group_key L ref)) @
                [(''script_key'', json_hex script_key), (''outpoint'', json_outpoint_req outpoint)]))))"

definition rest_register_transfer_with_issuance ::
    "'k lib \<Rightarrow> chain_lib \<Rightarrow> transport \<Rightarrow> json_decoders \<Rightarrow> string \<Rightarrow> bytes \<Rightarrow> bytes \<Rightarrow> outpoint \<Rightarrow> registered_asset rest" where
  "rest_register_transfer_with_issuance L X T D ref issuance_id script_key outpoint =
     rest_method T (jd_register D) (register_transfer_request L ref issuance_id script_key outpoint)
       (\<lambda>resp. and_then (not_nil ''invalid registered asset response'' resp) (\<lambda>a.
          and_then (unmarshal_registered_asset L X (Some a)) (\<lambda>reg.
          Inr (if asset_ref_is_zero (ra_asset_ref reg) then reg\<lparr>ra_asset_ref := ref\<rparr> else reg))))"

definition rest_register_transfer ::
    "'k lib \<Rightarrow> chain_lib \<Rightarrow> transport \<Rightarrow> json_decoders \<Rightarrow> string \<Rightarrow> bytes \<Rightarrow> outpoint \<Rightarrow> registered_asset rest" where
  "rest_register_transfer L X T D ref script_key outpoint =
     rest_register_transfer_with_issuance L X T D ref zero32 script_key outpoint"

end
