(* ===== verification/Tap_RestWalletKit.thy ===== *)
theory Tap_RestWalletKit
  imports Tap_RestClient Tap_AnchorTypes Tap_Psbt Tap_Ownership
begin

text \<open>
  The wallet kit and mint clients of the REST backend (\<open>rest/walletkit_client.go\<close>,
  \<open>rest/mint_client.go\<close>).
\<close>

section \<open>Keys\<close>

definition taproot_assets_key_family :: int where
  "taproot_assets_key_family = 212"

definition key_family_body :: json where
  "key_family_body = JObj [(''key_family'', JNum taproot_assets_key_family)]"

definition rest_derive_script_key :: "'k lib \<Rightarrow> transport \<Rightarrow> json_decoders \<Rightarrow> script_key rest" where
  "rest_derive_script_key L T D =
     rest_method T (jd_next_script_key D)
       (Inr (post_request ''/v1/taproot-assets/wallet/script-key/next'' WalletKitServiceMac key_family_body))
       (\<lambda>resp. and_then (not_nil ''invalid script key response'' resp) (\<lambda>k. unmarshal_script_key L (Some k)))"

definition rest_derive_internal_key :: "'k lib \<Rightarrow> transport \<Rightarrow> json_decoders \<Rightarrow> internal_key rest" where
  "rest_derive_internal_key L T D =
     rest_method T (jd_next_internal_key D)
       (Inr (post_request ''/v1/taproot-assets/wallet/internal-key/next'' WalletKitServiceMac key_family_body))
       (\<lambda>resp. and_then (not_nil ''invalid internal key response'' resp) (\<lambda>k.
          and_then (errorf ''failed to unmarshal internal key: '' (unmarshal_key_descriptor L (Some k))) (\<lambda>desc.
          Inr \<lparr>ik_pub_key = kd_raw_key_bytes desc, ik_locator = kd_locator desc\<rparr>)))"

definition rest_query_internal_key :: "'k lib \<Rightarrow> transport \<Rightarrow> json_decoders \<Rightarrow> bytes \<Rightarrow> key_descriptor rest" where
  "rest_query_internal_key L T D key =
     rest_method T (jd_next_internal_key D)
       (Inr (get_request (''/v1/taproot-assets/wallet/internal-key/'' @ b64_encode url_encoding key) AdminServiceMac))
       (\<lambda>resp. and_then (not_nil ''empty internal key response'' resp) (\<lambda>k. unmarshal_key_descriptor L (Some k)))"

definition rest_query_script_key :: "'k lib \<Rightarrow> transport \<Rightarrow> json_decoders \<Rightarrow> bytes \<Rightarrow> script_key rest" where
  "rest_query_script_key L T D key =
     rest_method T (jd_next_script_key D)
       (Inr (get_request (''/v1/taproot-assets/wallet/script-key/'' @ b64_encode url_encoding key) AdminServiceMac))
       (\<lambda>resp. and_then (not_nil ''empty script key response'' resp) (\<lambda>k. unmarshal_script_key L (Some k)))"

text \<open>The body is built of Go maps; the key locator is written as unsigned numbers.\<close>

definition declare_script_key_body :: "script_key \<Rightarrow> json" where
  "declare_script_key_body key =
     JObj [(''script_key'', JObj
       ([(''key_desc'', JObj
          [(''key_loc'', JObj [(''key_family'', JNum (uint (kl_family (kd_locator (sk_key_desc key))))),
                              (''key_index'', JNum (uint (kl_index (kd_locator (sk_key_desc key)))))]),
           (''raw_key_bytes'', json_hex (kd_raw_key_bytes (sk_key_desc key)))]),
         (''pub_key'', json_hex (sk_pub_key key))] @
        omit_str ''tap_tweak'' (hex_encode (sk_tap_tweak key))))]"

definition rest_declare_script_key :: "'k lib \<Rightarrow> transport \<Rightarrow> json_decoders \<Rightarrow> script_key \<Rightarrow> script_key rest" where
  "rest_declare_script_key L T D key =
     rest_method T (jd_next_script_key D)
       (Inr (post_request ''/v1/taproot-assets/wallet/script-key/declare'' AdminServiceMac (declare_script_key_body key)))
       (\<lambda>resp. and_then (not_nil ''empty script key response'' resp) (\<lambda>k. unmarshal_script_key L (Some k)))"

section \<open>Virtual PSBTs\<close>

definition json_prev_id_req :: "prev_id \<Rightarrow> json" where
  "json_prev_id_req p =
     JObj [(''outpoint'', json_outpoint_req (pid_outpoint p)), (''id'', json_hex (pid_issuance_id p)),
           (''script_key'', json_hex (pid_script_key p))]"

definition fund_recipient :: "recipient \<Rightarrow> json result" where
  "fund_recipient r =
     (case recipient_amount r of (amount, ok) \<Rightarrow>
        (if \<not> ok \<or> amount = 0 then Inl (Plain ''FundTransfer recipient requires an explicit amount'')
         else Inr (json_address_with_amount (rc_address r) amount)))"

definition fund_answer :: "json_fund_virtual_psbt_response \<Rightarrow> funded_transfer result" where
  "fund_answer resp =
     and_then (errorf ''invalid funded_psbt: '' (parse_hex_bytes (jfv_funded_psbt resp))) (\<lambda>funded.
     and_then (decode_all (\<lambda>p. errorf ''invalid passive_asset_psbt: '' (parse_hex_bytes p)) (jfv_passive_asset_psbts resp)) (\<lambda>passives.
     Inr \<lparr>ft_funded_psbt = funded, ft_passive_asset_psbts = passives\<rparr>))"

definition fund_request :: "json \<Rightarrow> rest_request" where
  "fund_request body = post_request ''/v1/taproot-assets/wallet/virtual-psbt/fund'' WalletKitServiceMac body"

definition rest_fund_transfer ::
    "transport \<Rightarrow> json_decoders \<Rightarrow> recipient list \<Rightarrow> prev_id list \<Rightarrow> funded_transfer rest" where
  "rest_fund_transfer T D recipients inputs =
     rest_method T (jd_fund D)
       (and_then (decode_all fund_recipient recipients) (\<lambda>rs.
          Inr (fund_request (JObj [(''raw'', JObj (omit_list ''inputs'' (map json_prev_id_req inputs) @
            omit_list ''addresses_with_amounts'' rs))]))))
       fund_answer"

definition rest_fund_interactive_psbt :: "transport \<Rightarrow> json_decoders \<Rightarrow> bytes \<Rightarrow> funded_transfer rest" where
  "rest_fund_interactive_psbt T D psbt =
     rest_method T (jd_fund D) (Inr (fund_request (JObj (omit_str ''psbt'' (hex_encode psbt))))) fund_answer"

definition rest_sign_virtual_psbt :: "transport \<Rightarrow> json_decoders \<Rightarrow> bytes \<Rightarrow> bytes rest" where
  "rest_sign_virtual_psbt T D funded_psbt =
     rest_method T (jd_sign D)
       (Inr (post_request ''/v1/taproot-assets/wallet/virtual-psbt/sign'' WalletKitServiceMac
          (JObj [(''funded_psbt'', json_hex funded_psbt)])))
       parse_hex_bytes"

text \<open>\<open>*bool\<close>, \<open>*int32\<close> and \<open>*uint32\<close> fields are left out when nil.\<close>

definition marshal_commit_virtual_psbts_request :: "commit_virtual_psbts_request option \<Rightarrow> json result" where
  "marshal_commit_virtual_psbts_request request =
     and_then (commit_request_validate request) (\<lambda>_.
       case request of
         None \<Rightarrow> Inl (Plain ''nil pointer dereference'')
       | Some req \<Rightarrow>
           (let funding = cv_funding req;
                change = (if afp_skip_funding funding then [] else
                  (case aco_mode (afp_change_output funding) of
                     AnchorChangeOutputAdd \<Rightarrow> [(''add'', JBool True)]
                   | AnchorChangeOutputNoNew \<Rightarrow> [(''add'', JBool False)]
                   | AnchorChangeOutputExisting \<Rightarrow>
                       [(''existing_output_index'', JNum (sint (aco_existing_output_index (afp_change_output funding))))]
                   | _ \<Rightarrow> []));
                fee = (if afp_skip_funding funding then [] else
                  (case af_mode (afp_fee funding) of
                     AnchorFeeSatPerVByte \<Rightarrow>
                       [(''sat_per_vbyte'', JStr (dec_string (unat (sat_per_vbyte_ceil (af_fee_rate (afp_fee funding))))))]
                   | AnchorFeeTargetConf \<Rightarrow> [(''target_conf'', JNum (uint (af_target_conf (afp_fee funding))))]
                   | _ \<Rightarrow> [])) in
            Inr (JObj
              ([(''virtual_psbts'', JArr (map json_hex (cv_virtual_psbts req)))] @
               omit_list ''passive_asset_psbts'' (map json_hex (cv_passive_asset_psbts req)) @
               [(''anchor_psbt'', json_hex (cv_anchor_psbt req)),
                (''transition_proof_version'', JStr ''TRANSITION_PROOF_VERSION_V1'')] @
               change @ fee @
               omit_str ''custom_lock_id'' (hex_encode (afp_custom_lock_id funding)) @
               omit_str ''lock_expiration_seconds''
                 (if afp_lock_expiration_seconds funding > 0
                  then dec_string (unat (afp_lock_expiration_seconds funding)) else []) @
               omit_true ''skip_funding'' (afp_skip_funding funding)))))"

definition unmarshal_commit_virtual_psbts_response ::
    "chain_lib \<Rightarrow> json_commit_virtual_psbts_response \<Rightarrow> commit_virtual_psbts_response result" where
  "unmarshal_commit_virtual_psbts_response X resp =
     and_then (errorf ''invalid anchor_psbt: '' (parse_hex_bytes (jcv_anchor_psbt resp))) (\<lambda>anchor.
     and_then (decode_all (\<lambda>p. errorf ''invalid virtual_psbt: '' (parse_hex_bytes p)) (jcv_virtual_psbts resp)) (\<lambda>virtuals.
     and_then (decode_all (\<lambda>p. errorf ''invalid passive_psbt: '' (parse_hex_bytes p)) (jcv_passive_asset_psbts resp)) (\<lambda>passives.
     and_then (decode_all (\<lambda>op. and_then (not_nil ''invalid locked utxo: null outpoint'' op) (\<lambda>p1.
                 errorf ''invalid locked utxo: '' (unmarshal_json_outpoint X p1))) (jcv_lnd_locked_utxos resp)) (\<lambda>locked.
     Inr \<lparr>cr_anchor_psbt = anchor, cr_virtual_psbts = virtuals, cr_passive_asset_psbts = passives,
          cr_change_output_index = sint (jcv_change_output_index resp), cr_locked_utxos = locked\<rparr>))))"

definition rest_commit_virtual_psbts_with_request ::
    "chain_lib \<Rightarrow> transport \<Rightarrow> json_decoders \<Rightarrow> commit_virtual_psbts_request option \<Rightarrow> commit_virtual_psbts_response rest" where
  "rest_commit_virtual_psbts_with_request X T D req =
     rest_method T (jd_commit D)
       (and_then (marshal_commit_virtual_psbts_request req) (\<lambda>body.
          Inr (post_request ''/v1/taproot-assets/wallet/virtual-psbt/commit'' WalletKitServiceMac body)))
       (unmarshal_commit_virtual_psbts_response X)"

definition legacy_commit_request :: "bytes \<Rightarrow> bytes list \<Rightarrow> bytes list \<Rightarrow> fee_rate \<Rightarrow> commit_virtual_psbts_request" where
  "legacy_commit_request anchor virtuals passives fee_rate =
     \<lparr>cv_anchor_psbt = anchor, cv_virtual_psbts = virtuals, cv_passive_asset_psbts = passives,
      cv_funding = \<lparr>afp_change_output = \<lparr>aco_mode = AnchorChangeOutputAdd, aco_existing_output_index = 0\<rparr>,
        afp_fee = \<lparr>af_mode = AnchorFeeSatPerVByte, af_fee_rate = fee_rate, af_target_conf = 0\<rparr>,
        afp_custom_lock_id = [], afp_lock_expiration_seconds = 0, afp_skip_funding = False\<rparr>\<rparr>"

text \<open>\<open>None\<close>: \<open>anchor.PreparePsbt\<close> does not return.\<close>

definition rest_commit_virtual_psbts ::
    "'k lib \<Rightarrow> 'k psbt_lib \<Rightarrow> chain_lib \<Rightarrow> transport \<Rightarrow> json_decoders \<Rightarrow> bytes list \<Rightarrow> bytes list \<Rightarrow> fee_rate \<Rightarrow>
      committed_transfer rest option" where
  "rest_commit_virtual_psbts L P X T D virtuals passives fee_rate =
     map_option (\<lambda>prepared h.
       case errorf ''prepare anchor PSBT: '' prepared of
         Inl e \<Rightarrow> (Inl e, h)
       | Inr anchor \<Rightarrow>
           (case rest_commit_virtual_psbts_with_request X T D
                   (Some (legacy_commit_request anchor virtuals passives fee_rate)) h of
              (r, h') \<Rightarrow> (and_then r (\<lambda>resp. Inr \<lparr>ct_anchor_psbt = cr_anchor_psbt resp,
                 ct_virtual_psbts = cr_virtual_psbts resp, ct_passive_asset_psbts = cr_passive_asset_psbts resp\<rparr>), h')))
       (prepare_psbt L P virtuals passives)"

definition rest_anchor_virtual_psbts ::
    "'k lib \<Rightarrow> chain_lib \<Rightarrow> transport \<Rightarrow> json_decoders \<Rightarrow> bytes list \<Rightarrow> asset_transfer rest" where
  "rest_anchor_virtual_psbts L X T D signed_psbts =
     rest_method T (jd_send_asset D)
       (Inr (post_request ''/v1/taproot-assets/wallet/virtual-psbt/anchor'' WalletKitServiceMac
          (JObj [(''virtual_psbts'', JArr (map json_hex signed_psbts))])))
       (unmarshal_asset_transfer L X)"

definition marshal_publish_and_log_transfer_request :: "publish_and_log_transfer_request \<Rightarrow> json result" where
  "marshal_publish_and_log_transfer_request req =
     and_then (publish_request_validate (Some req)) (\<lambda>_.
     Inr (JObj
       ([(''anchor_psbt'', json_hex (pl_anchor_psbt req)),
         (''virtual_psbts'', JArr (map json_hex (pl_virtual_psbts req)))] @
        omit_list ''passive_asset_psbts'' (map json_hex (pl_passive_asset_psbts req)) @
        [(''change_output_index'', JNum (pl_change_output_index req))] @
        omit_list ''lnd_locked_utxos'' (map json_outpoint_req (pl_locked_utxos req)) @
        omit_true ''skip_anchor_tx_broadcast'' (pl_skip_anchor_tx_broadcast req) @
        omit_str ''label'' (pl_label req))))"

definition rest_publish_and_log_transfer_with_request ::
    "transport \<Rightarrow> json_decoders \<Rightarrow> publish_and_log_transfer_request \<Rightarrow> asset_packet rest" where
  "rest_publish_and_log_transfer_with_request T D req =
     rest_method T (jd_publish D)
       (and_then (marshal_publish_and_log_transfer_request req) (\<lambda>body.
          Inr (post_request ''/v1/taproot-assets/wallet/virtual-psbt/log-transfer'' WalletKitServiceMac body)))
       (\<lambda>resp. and_then (not_nil ''invalid transfer response'' resp) (\<lambda>tx.
          and_then (errorf ''invalid anchor_tx: '' (parse_hex_bytes tx)) (\<lambda>anchor_tx.
          Inr \<lparr>ap_anchor_transaction = anchor_tx, ap_virtual_transactions = pl_virtual_psbts req,
               ap_passive_asset_transactions = pl_passive_asset_psbts req\<rparr>)))"

definition rest_publish_and_log_transfer ::
    "transport \<Rightarrow> json_decoders \<Rightarrow> bytes \<Rightarrow> bytes list \<Rightarrow> bytes list \<Rightarrow> bool \<Rightarrow> asset_packet rest" where
  "rest_publish_and_log_transfer T D anchor virtuals passives skip_broadcast =
     rest_publish_and_log_transfer_with_request T D
       \<lparr>pl_anchor_psbt = anchor, pl_virtual_psbts = virtuals, pl_passive_asset_psbts = passives,
        pl_change_output_index = 0, pl_locked_utxos = [], pl_skip_anchor_tx_broadcast = skip_broadcast, pl_label = []\<rparr>"

section \<open>Ownership, leases and backups\<close>

definition prove_ownership_body :: "'k lib \<Rightarrow> prove_ownership_request \<Rightarrow> json result" where
  "prove_ownership_body L req =
     and_then (asset_ref_validate L (po_asset_ref req)) (\<lambda>_.
       case ref_asset_id L (po_asset_ref req) of
         None \<Rightarrow> Inl (Plain ''prove ownership requires an asset-ID ref'')
       | Some i \<Rightarrow>
           and_then (validate_challenge (po_challenge req)) (\<lambda>_.
           Inr (JObj ([(''asset_id'', json_hex i)] @ omit_str ''challenge'' (hex_encode (po_challenge req)) @
                      [(''outpoint'', JObj [(''output_index'', JNum (uint (op_index (po_outpoint req)))),
                                           (''txid'', json_hex (op_txid (po_outpoint req)))]),
                       (''script_key'', json_hex (po_script_key req))]))))"

definition rest_prove_asset_ownership ::
    "'k lib \<Rightarrow> transport \<Rightarrow> json_decoders \<Rightarrow> prove_ownership_request \<Rightarrow> ownership_proof rest" where
  "rest_prove_asset_ownership L T D req =
     rest_method T (jd_ownership_proof D)
       (and_then (prove_ownership_body L req) (\<lambda>body.
          Inr (post_request ''/v1/taproot-assets/wallet/ownership/prove'' AdminServiceMac body)))
       (\<lambda>resp. and_then (errorf ''decode ownership proof: '' (parse_hex_bytes resp)) (\<lambda>b.
          Inr \<lparr>wp_asset_ref = po_asset_ref req,
               wp_issuance_id = (case ref_asset_id L (po_asset_ref req) of None \<Rightarrow> zero32 | Some i \<Rightarrow> i),
               wp_script_key = po_script_key req, wp_outpoint = po_outpoint req, wp_amount = 0,
               wp_proof_with_witness = b\<rparr>))"

definition verify_ownership_body :: "verify_ownership_request \<Rightarrow> json result" where
  "verify_ownership_body req =
     and_then (validate_challenge (vo_challenge req)) (\<lambda>_.
     Inr (JObj (omit_str ''challenge'' (hex_encode (vo_challenge req)) @
                [(''proof_with_witness'', json_hex (vo_proof_with_witness req))])))"

definition rest_verify_asset_ownership ::
    "chain_lib \<Rightarrow> transport \<Rightarrow> json_decoders \<Rightarrow> verify_ownership_request \<Rightarrow> verify_ownership_response rest" where
  "rest_verify_asset_ownership X T D req =
     rest_method T (jd_verify_ownership D)
       (and_then (verify_ownership_body req) (\<lambda>body.
          Inr (post_request ''/v1/taproot-assets/wallet/ownership/verify'' AdminServiceMac body)))
       (unmarshal_verify_ownership_response X)"

text \<open>The response is not looked at.\<close>

definition rest_remove_utxo_lease :: "transport \<Rightarrow> outpoint \<Rightarrow> unit rest" where
  "rest_remove_utxo_lease T op =
     rest_method T (\<lambda>_. Inr ())
       (Inr (post_request ''/v1/taproot-assets/wallet/utxo-lease/delete'' AdminServiceMac
          (JObj [(''outpoint'', JObj [(''output_index'', JNum (uint (op_index op))), (''txid'', json_hex (op_txid op))])])))
       Inr"

definition rest_export_backup :: "transport \<Rightarrow> json_decoders \<Rightarrow> backup_mode \<Rightarrow> bytes rest" where
  "rest_export_backup T D mode =
     rest_method T (jd_text D)
       (Inr (post_request ''/v1/taproot-assets/wallet/backup/export'' WalletKitServiceMac
          (JObj [(''mode'', JStr (marshal_backup_mode mode))])))
       (\<lambda>resp. errorf ''invalid backup: '' (parse_hex_bytes resp))"

definition rest_import_backup :: "transport \<Rightarrow> json_decoders \<Rightarrow> bytes \<Rightarrow> u32 rest" where
  "rest_import_backup T D backup =
     rest_method T (jd_number D)
       (Inr (post_request ''/v1/taproot-assets/wallet/backup/import'' WalletKitServiceMac
          (JObj [(''backup'', json_hex backup)]))) Inr"

text \<open>\<open>CustomAnchorCapabilities\<close> makes no request; \<open>err\<close> is the error of the caller's context.\<close>

definition rest_custom_anchor_capabilities :: "go_error option \<Rightarrow> capabilities result" where
  "rest_custom_anchor_capabilities err =
     (case err of Some e \<Rightarrow> Inl e | None \<Rightarrow> Inr default_tapd_capabilities)"

end
