(* ===== verification/Tap_RestMint.thy ===== *)
theory Tap_RestMint
  imports Tap_RestClient
begin

text \<open>
  The mint client of the REST backend (\<open>rest/mint_client.go\<close>). Bytes of a group witness are a Go
  \<open>[]byte\<close> in the body, which \<open>encoding/json\<close> writes in padded base64.
\<close>

section \<open>Requests\<close>

text \<open>The low-level request: \<open>tapsdk.PendingMintAsset\<close> with four more fields.\<close>

record rest_mint_asset =
  rm_asset :: pending_mint_asset
  rm_grouped_asset :: bool
  rm_decimal_display :: u32
  rm_external_group_key :: "external_key option"
  rm_enable_supply_commitments :: bool

record rest_mint_request =
  rmr_asset :: "rest_mint_asset option"
  rmr_short_response :: bool

definition mint_request_from_mint_asset :: "mint_asset option \<Rightarrow> bool \<Rightarrow> rest_mint_request" where
  "mint_request_from_mint_asset asset short =
     \<lparr>rmr_asset = map_option (\<lambda>a.
        \<lparr>rm_asset = \<lparr>pm_asset_version = ma_asset_version a, pm_asset_type = ma_asset_type a, pm_name = ma_name a,
           pm_asset_meta = ma_asset_meta a, pm_amount = ma_initial_supply a,
           pm_new_grouped_asset = ma_allow_issuance a, pm_group_key = None, pm_group_anchor = [],
           pm_group_internal_key = ma_group_internal_key a, pm_group_tapscript_root = ma_group_tapscript_root a,
           pm_script_key = ma_script_key a\<rparr>,
         rm_grouped_asset = False, rm_decimal_display = ma_decimal_display a,
         rm_external_group_key = ma_external_group_key a,
         rm_enable_supply_commitments = ma_enable_supply_commitments a\<rparr>) asset,
      rmr_short_response = short\<rparr>"

definition mint_request_from_mint_issuance :: "'k lib \<Rightarrow> mint_issuance option \<Rightarrow> bool \<Rightarrow> rest_mint_request result" where
  "mint_request_from_mint_issuance L issuance short =
     (case issuance of
        None \<Rightarrow> Inr \<lparr>rmr_asset = None, rmr_short_response = short\<rparr>
      | Some i \<Rightarrow>
          (case ref_group_key L (mi_asset_ref i) of
             None \<Rightarrow> Inl (Plain ''asset ref must resolve to a group key to mint an issuance'')
           | Some group_key \<Rightarrow> Inr
               \<lparr>rmr_asset = Some
                  \<lparr>rm_asset = \<lparr>pm_asset_version = mi_asset_version i, pm_asset_type = mi_asset_type i,
                     pm_name = mi_name i, pm_asset_meta = mi_asset_meta i, pm_amount = mi_amount i,
                     pm_new_grouped_asset = False, pm_group_key = Some group_key, pm_group_anchor = [],
                     pm_group_internal_key = None, pm_group_tapscript_root = [], pm_script_key = mi_script_key i\<rparr>,
                   rm_grouped_asset = True, rm_decimal_display = mi_decimal_display i,
                   rm_external_group_key = mi_external_group_key i, rm_enable_supply_commitments = False\<rparr>,
                rmr_short_response = short\<rparr>))"

definition marshal_external_key_json :: "external_key \<Rightarrow> json" where
  "marshal_external_key_json k =
     JObj [(''xpub'', JStr (ek_xpub k)), (''master_fingerprint'', json_hex (ek_master_fingerprint k)),
           (''derivation_path'', JStr (ek_derivation_path k))]"

definition marshal_asset_meta_json :: "asset_meta \<Rightarrow> json" where
  "marshal_asset_meta_json m =
     JObj [(''data'', json_hex (am_data m)), (''type'', JStr (meta_type_text (am_type m))),
           (''meta_hash'', JStr (if am_meta_hash m \<noteq> zero32 then hex_encode (am_meta_hash m) else []))]"

definition marshal_mint_asset_json :: "rest_mint_asset \<Rightarrow> json" where
  "marshal_mint_asset_json m =
     (let a = rm_asset m in
      JObj [(''asset_version'', JStr (marshal_asset_version_json (pm_asset_version a))),
            (''asset_type'', JStr (marshal_asset_type_json (pm_asset_type a))),
            (''name'', JStr (pm_name a)),
            (''amount'', JStr (dec_string (unat (pm_amount a)))),
            (''new_grouped_asset'', JBool (pm_new_grouped_asset a)),
            (''grouped_asset'', JBool (rm_grouped_asset m)),
            (''group_key'', JStr (hex_or_empty (pm_group_key a))),
            (''group_anchor'', JStr (pm_group_anchor a)),
            (''group_tapscript_root'', json_hex (pm_group_tapscript_root a)),
            (''script_key'', nullable (map_option marshal_script_key_json (pm_script_key a))),
            (''decimal_display'', JNum (uint (rm_decimal_display m))),
            (''asset_meta'', nullable (map_option marshal_asset_meta_json (pm_asset_meta a))),
            (''group_internal_key'', nullable (map_option marshal_key_descriptor_json (pm_group_internal_key a))),
            (''external_group_key'', nullable (map_option marshal_external_key_json (rm_external_group_key m))),
            (''enable_supply_commitments'', JBool (rm_enable_supply_commitments m))])"

definition mint_asset_body :: "rest_mint_request option \<Rightarrow> json" where
  "mint_asset_body request =
     (case request of
        None \<Rightarrow> JObj [(''asset'', JNull)]
      | Some req \<Rightarrow> JObj ([(''asset'', nullable (map_option marshal_mint_asset_json (rmr_asset req)))] @
                          omit_true ''short_response'' (rmr_short_response req)))"

section \<open>Methods\<close>

definition rest_mint_asset_rpc :: "'k lib \<Rightarrow> transport \<Rightarrow> json_decoders \<Rightarrow> rest_mint_request option \<Rightarrow> minting_batch rest" where
  "rest_mint_asset_rpc L T D req =
     rest_method T (jd_batch D) (Inr (post_request ''/v1/taproot-assets/assets'' MintServiceMac (mint_asset_body req)))
       (unmarshal_minting_batch L)"

definition rest_mint_new_asset ::
    "'k lib \<Rightarrow> transport \<Rightarrow> json_decoders \<Rightarrow> (mint_asset option \<times> bool) option \<Rightarrow> minting_batch rest" where
  "rest_mint_new_asset L T D req =
     rest_mint_asset_rpc L T D (map_option (\<lambda>(a, short). mint_request_from_mint_asset a short) req)"

definition rest_mint_issuance ::
    "'k lib \<Rightarrow> transport \<Rightarrow> json_decoders \<Rightarrow> (mint_issuance option \<times> bool) option \<Rightarrow> minting_batch rest" where
  "rest_mint_issuance L T D req =
     (case req of
        None \<Rightarrow> rest_mint_asset_rpc L T D None
      | Some (i, short) \<Rightarrow>
          (case mint_request_from_mint_issuance L i short of
             Inl e \<Rightarrow> (\<lambda>h. (Inl e, h))
           | Inr r \<Rightarrow> rest_mint_asset_rpc L T D (Some r)))"

text \<open>
  \<open>FundBatchRequest\<close> and \<open>FinalizeBatchRequest\<close> have the same fields; the sibling is a full tree of
  scripts, the two hashes of a branch, or neither.
\<close>

record batch_sibling =
  bs_full_tree :: "bytes list option"
  bs_branch :: "(bytes \<times> bytes) option"

record batch_request =
  bq_short_response :: bool
  bq_fee_rate :: fee_rate
  bq_batch_sibling :: "batch_sibling option"

definition batch_request_body :: "batch_request option \<Rightarrow> json result" where
  "batch_request_body request =
     (case request of
        None \<Rightarrow> Inr (JObj [])
      | Some req \<Rightarrow>
          and_then (fee_rate_sat_per_kweight (bq_fee_rate req)) (\<lambda>fee_rate.
          Inr (JObj (omit_true ''short_response'' (bq_short_response req) @ omit_num ''fee_rate'' (uint fee_rate)))))"

definition rest_fund_batch :: "'k lib \<Rightarrow> transport \<Rightarrow> json_decoders \<Rightarrow> batch_request option \<Rightarrow> verbose_minting_batch rest" where
  "rest_fund_batch L T D req =
     rest_method T (jd_fund_batch D)
       (and_then (batch_request_body req) (\<lambda>body.
          Inr (post_request ''/v1/taproot-assets/assets/mint/fund'' MintServiceMac body)))
       (unmarshal_rest_verbose_batch L)"

definition rest_finalize_batch :: "'k lib \<Rightarrow> transport \<Rightarrow> json_decoders \<Rightarrow> batch_request option \<Rightarrow> minting_batch rest" where
  "rest_finalize_batch L T D req =
     rest_method T (jd_batch D)
       (and_then (batch_request_body req) (\<lambda>body.
          Inr (post_request ''/v1/taproot-assets/assets/mint/finalize'' MintServiceMac body)))
       (unmarshal_minting_batch L)"

record group_witness =
  gw_genesis_id :: bytes
  gw_witness :: "bytes list"

definition json_group_witness :: "group_witness \<Rightarrow> json" where
  "json_group_witness w =
     JObj [(''genesis_id'', json_hex (gw_genesis_id w)),
           (''witness'', JArr (map (\<lambda>b. JStr (b64_encode std_encoding b)) (gw_witness w)))]"

record seal_batch_request =
  sb_short_response :: bool
  sb_group_witnesses :: "group_witness list"
  sb_signed_group_virtual_psbts :: "string list"

definition seal_batch_body :: "seal_batch_request option \<Rightarrow> json" where
  "seal_batch_body request =
     (case request of
        None \<Rightarrow> JObj []
      | Some req \<Rightarrow> JObj
          (omit_true ''short_response'' (sb_short_response req) @
           omit_list ''group_witnesses'' (map json_group_witness (sb_group_witnesses req)) @
           omit_list ''signed_group_virtual_psbts'' (map JStr (sb_signed_group_virtual_psbts req))))"

definition rest_seal_batch :: "'k lib \<Rightarrow> transport \<Rightarrow> json_decoders \<Rightarrow> seal_batch_request option \<Rightarrow> minting_batch rest" where
  "rest_seal_batch L T D req =
     rest_method T (jd_batch D)
       (Inr (post_request ''/v1/taproot-assets/assets/mint/seal'' MintServiceMac (seal_batch_body req)))
       (unmarshal_minting_batch L)"

text \<open>A nil body is sent as no body.\<close>

definition rest_cancel_batch :: "'k lib \<Rightarrow> transport \<Rightarrow> json_decoders \<Rightarrow> bytes rest" where
  "rest_cancel_batch L T D =
     rest_method T (jd_text D)
       (Inr \<lparr>rq_method = ''POST'', rq_path = ''/v1/taproot-assets/assets/mint/cancel'', rq_mac = MintServiceMac,
             rq_body = None\<rparr>)
       (\<lambda>resp. and_then (errorf ''invalid batch key: '' (parse_hex_bytes resp)) (\<lambda>b.
          errorf ''invalid batch key: '' (parse_pub_key L b)))"

text \<open>\<open>ListBatchesRequest\<close>: an optional batch key and the flag \<open>Verbose\<close>.\<close>

definition list_batches_path :: "(bytes option \<times> bool) option \<Rightarrow> string" where
  "list_batches_path request =
     with_params (''/v1/taproot-assets/assets/mint/batches/'' @
         (case request of Some (Some k, _) \<Rightarrow> b64_encode raw_url_encoding k | _ \<Rightarrow> []))
       (case request of Some (_, True) \<Rightarrow> [(''verbose'', ''true'')] | _ \<Rightarrow> [])"

definition rest_list_batches ::
    "'k lib \<Rightarrow> transport \<Rightarrow> json_decoders \<Rightarrow> (bytes option \<times> bool) option \<Rightarrow> verbose_minting_batch list rest" where
  "rest_list_batches L T D req =
     rest_method T (jd_list_batches D) (Inr (get_request (list_batches_path req) MintServiceMac))
       (decode_all (unmarshal_rest_verbose_batch L))"

end
