(* ===== verification/Tap_RestUniverse.thy ===== *)
theory Tap_RestUniverse
  imports Tap_RestClient
begin

text \<open>The universe client of the REST backend (\<open>rest/universe_client.go\<close>).\<close>

section \<open>Paths and identifiers\<close>

definition split_outpoint :: "string \<Rightarrow> string \<times> string" where
  "split_outpoint s =
     (case split_last CHR '':'' s of
        Some pre \<Rightarrow> (pre, drop (length pre + 1) s) | None \<Rightarrow> (s, ''0''))"

definition universe_asset_path :: "'k lib \<Rightarrow> string \<Rightarrow> (string \<times> string) result" where
  "universe_asset_path L ref =
     and_then (asset_ref_validate L ref) (\<lambda>_.
       case ref_asset_id L ref of
         Some i \<Rightarrow> Inr (''asset-id'', hex_encode i)
       | None \<Rightarrow>
           (case ref_group_key L ref of
              Some k \<Rightarrow> Inr (''group-key'', hex_encode k)
            | None \<Rightarrow> Inl (Plain ''asset ref is required'')))"

definition universe_json_id :: "'k lib \<Rightarrow> universe_id \<Rightarrow> json_universe_id result" where
  "universe_json_id L uid =
     and_then (asset_ref_validate L (un_asset_ref uid)) (\<lambda>_.
     Inr \<lparr>jui_asset_id = hex_or_empty (ref_asset_id L (un_asset_ref uid)),
          jui_group_key = hex_or_empty (ref_group_key L (un_asset_ref uid)),
          jui_proof_type = marshal_proof_type (un_proof_type uid)\<rparr>)"

text \<open>The tags of \<open>jsonUniverseID\<close>.\<close>

definition json_of_universe_id :: "json_universe_id \<Rightarrow> json" where
  "json_of_universe_id i =
     JObj (omit_str ''asset_id'' (jui_asset_id i) @ omit_str ''group_key'' (jui_group_key i) @
           [(''proof_type'', JStr (jui_proof_type i))])"

definition proof_type_param :: "proof_type \<Rightarrow> string" where
  "proof_type_param pt = ''?id.proof_type='' @ marshal_proof_type pt"

definition asset_path :: "'k lib \<Rightarrow> string \<Rightarrow> string \<Rightarrow> string result" where
  "asset_path L prefix ref =
     and_then (universe_asset_path L ref) (\<lambda>(kind, value). Inr (prefix @ kind @ ''/'' @ value))"

definition universe_get :: "string \<Rightarrow> rest_request" where
  "universe_get path = get_request path UniverseServiceMac"

section \<open>Proofs\<close>

definition insert_proof_path :: "'k lib \<Rightarrow> chain_lib \<Rightarrow> decoded_proof \<Rightarrow> string result" where
  "insert_proof_path L X decoded =
     and_then (asset_path L ''/v1/taproot-assets/universe/proofs/'' (dp_asset_ref decoded)) (\<lambda>base.
     Inr (base @ ''/'' @ fst (split_outpoint (outpoint_string X (dp_outpoint decoded))) @ ''/'' @
          dec_string (unat (op_index (dp_outpoint decoded))) @ ''/'' @ hex_encode (dp_script_key decoded)))"

definition insert_proof_body :: "bytes \<Rightarrow> decoded_proof \<Rightarrow> json" where
  "insert_proof_body raw_proof decoded =
     JObj [(''key'', JObj
              [(''id'', json_of_universe_id \<lparr>jui_asset_id = [], jui_group_key = [],
                  jui_proof_type = (if dp_is_issuance decoded then ''PROOF_TYPE_ISSUANCE'' else ''PROOF_TYPE_TRANSFER'')\<rparr>),
               (''leaf_key'', JNull)]),
           (''asset_leaf'', JObj [(''proof'', json_hex raw_proof)])]"

definition rest_insert_proof ::
    "'k lib \<Rightarrow> chain_lib \<Rightarrow> transport \<Rightarrow> json_decoders \<Rightarrow> bytes \<Rightarrow> decoded_proof \<Rightarrow> unit rest" where
  "rest_insert_proof L X T D raw_proof decoded =
     rest_method T (jd_empty D)
       (and_then (insert_proof_path L X decoded) (\<lambda>path.
          Inr (post_request path UniverseServiceMac (insert_proof_body raw_proof decoded)))) Inr"

definition query_proof_path :: "'k lib \<Rightarrow> chain_lib \<Rightarrow> universe_key \<Rightarrow> string result" where
  "query_proof_path L X key =
     and_then (asset_path L ''/v1/taproot-assets/universe/proofs/'' (un_asset_ref (uk_id key))) (\<lambda>base.
     let op = lk_outpoint (uk_leaf_key key) in
     Inr (base @ ''/'' @ fst (split_outpoint (outpoint_string X op)) @ ''/'' @ dec_string (unat (op_index op)) @ ''/'' @
          hex_encode (lk_script_key (uk_leaf_key key)) @ proof_type_param (un_proof_type (uk_id key))))"

definition rest_query_proof ::
    "'k lib \<Rightarrow> chain_lib \<Rightarrow> transport \<Rightarrow> json_decoders \<Rightarrow> universe_key option \<Rightarrow> asset_proof_response rest" where
  "rest_query_proof L X T D key =
     rest_method T (jd_query_proof D)
       (and_then (not_nil ''nil universe key'' key) (\<lambda>k.
        and_then (query_proof_path L X k) (\<lambda>path. Inr (universe_get path))))
       (unmarshal_asset_proof_response L X)"

section \<open>Roots and leaves\<close>

record asset_root_request =
  rt_with_amounts_by_id :: bool
  rt_offset :: int
  rt_limit :: int
  rt_direction :: int

text \<open>
  The parameters are collected in a Go map; \<open>order\<close> is the order in which the iteration visits its
  entries. They are not escaped.
\<close>

definition plain_query :: "(string \<times> string) list \<Rightarrow> string" where
  "plain_query ps =
     (if ps = [] then [] else ''?'' @ join_with ''&'' (map (\<lambda>(k, v). k @ ''='' @ v) ps))"

definition asset_roots_params :: "asset_root_request option \<Rightarrow> (string \<times> string) list" where
  "asset_roots_params request =
     (case request of
        None \<Rightarrow> []
      | Some req \<Rightarrow>
          set_if (rt_direction req \<noteq> 0) ''direction'' (marshal_sort_direction (rt_direction req))
            (set_if (rt_limit req \<noteq> 0) ''limit'' (int_string (rt_limit req))
              (set_if (rt_offset req \<noteq> 0) ''offset'' (int_string (rt_offset req))
                (set_if (rt_with_amounts_by_id req) ''with_amounts_by_id'' ''true'' []))))"

definition rest_asset_roots ::
    "'k lib \<Rightarrow> transport \<Rightarrow> json_decoders \<Rightarrow> ((string \<times> string) list \<Rightarrow> (string \<times> string) list) \<Rightarrow>
      asset_root_request option \<Rightarrow> (string \<times> universe_root option) list rest" where
  "rest_asset_roots L T D order req =
     rest_method T (jd_asset_roots D)
       (Inr (universe_get (''/v1/taproot-assets/universe/roots'' @ plain_query (order (asset_roots_params req)))))
       (decode_all (\<lambda>(k, v). and_then (errorf ''unmarshal root: '' (unmarshal_universe_root L v)) (\<lambda>r. Inr (k, r))))"

definition query_roots_path :: "'k lib \<Rightarrow> universe_id \<Rightarrow> string result" where
  "query_roots_path L uid =
     and_then (asset_path L ''/v1/taproot-assets/universe/roots/'' (un_asset_ref uid)) (\<lambda>base.
     Inr (base @ proof_type_param (un_proof_type uid)))"

definition query_roots_answer :: "'k lib \<Rightarrow> json_query_root_response \<Rightarrow> query_root_response result" where
  "query_roots_answer L resp =
     and_then (errorf ''unmarshal issuance root: '' (unmarshal_universe_root L (jqr_issuance_root resp))) (\<lambda>i.
     and_then (errorf ''unmarshal transfer root: '' (unmarshal_universe_root L (jqr_transfer_root resp))) (\<lambda>t.
     Inr \<lparr>qr_issuance_root = i, qr_transfer_root = t\<rparr>))"

definition rest_query_asset_roots ::
    "'k lib \<Rightarrow> transport \<Rightarrow> json_decoders \<Rightarrow> universe_id option \<Rightarrow> query_root_response rest" where
  "rest_query_asset_roots L T D uid =
     rest_method T (jd_query_root D)
       (and_then (not_nil ''nil universe ID'' uid) (\<lambda>i.
        and_then (query_roots_path L i) (\<lambda>path. Inr (universe_get path))))
       (query_roots_answer L)"

definition delete_root_path :: "'k lib \<Rightarrow> universe_id \<Rightarrow> string result" where
  "delete_root_path L uid =
     and_then (universe_json_id L uid) (\<lambda>j.
     Inr (''/v1/taproot-assets/universe/delete'' @ proof_type_param (un_proof_type uid) @
          (if jui_asset_id j \<noteq> [] then ''&id.asset_id_str='' @ jui_asset_id j else []) @
          (if jui_group_key j \<noteq> [] then ''&id.group_key_str='' @ jui_group_key j else [])))"

definition rest_delete_asset_root :: "'k lib \<Rightarrow> transport \<Rightarrow> json_decoders \<Rightarrow> universe_id option \<Rightarrow> unit rest" where
  "rest_delete_asset_root L T D uid =
     rest_method T (jd_empty D)
       (and_then (not_nil ''nil universe ID'' uid) (\<lambda>i.
        and_then (delete_root_path L i) (\<lambda>path.
        Inr \<lparr>rq_method = ''DELETE'', rq_path = path, rq_mac = UniverseServiceMac, rq_body = None\<rparr>))) Inr"

definition leaf_keys_path :: "'k lib \<Rightarrow> asset_leaf_keys_request \<Rightarrow> string result" where
  "leaf_keys_path L req =
     and_then (asset_path L ''/v1/taproot-assets/universe/keys/'' (un_asset_ref (kq_id req))) (\<lambda>base.
     Inr (base @ proof_type_param (un_proof_type (kq_id req)) @
          (if kq_offset req \<noteq> 0 then ''&offset='' @ int_string (kq_offset req) else []) @
          (if kq_limit req \<noteq> 0 then ''&limit='' @ int_string (kq_limit req) else []) @
          (if kq_direction req \<noteq> 0 then ''&direction='' @ marshal_sort_direction (kq_direction req) else [])))"

definition rest_asset_leaf_keys ::
    "'k lib \<Rightarrow> chain_lib \<Rightarrow> transport \<Rightarrow> json_decoders \<Rightarrow> asset_leaf_keys_request option \<Rightarrow> asset_leaf_key list rest" where
  "rest_asset_leaf_keys L X T D req =
     rest_method T (jd_leaf_keys D)
       (and_then (not_nil ''nil request'' req) (\<lambda>r.
        and_then (leaf_keys_path L r) (\<lambda>path. Inr (universe_get path))))
       (decode_all (\<lambda>k. errorf ''unmarshal asset key: '' (unmarshal_asset_leaf_key L X k)))"

definition leaves_path :: "'k lib \<Rightarrow> universe_id \<Rightarrow> string result" where
  "leaves_path L uid =
     and_then (asset_path L ''/v1/taproot-assets/universe/leaves/'' (un_asset_ref uid)) (\<lambda>base.
     Inr (base @ proof_type_param (un_proof_type uid)))"

definition rest_asset_leaves ::
    "'k lib \<Rightarrow> chain_lib \<Rightarrow> transport \<Rightarrow> json_decoders \<Rightarrow> universe_id option \<Rightarrow> asset_leaf list rest" where
  "rest_asset_leaves L X T D uid =
     rest_method T (jd_leaves D)
       (and_then (not_nil ''nil universe ID'' uid) (\<lambda>i.
        and_then (leaves_path L i) (\<lambda>path. Inr (universe_get path))))
       (decode_all (\<lambda>l. errorf ''unmarshal asset leaf: '' (unmarshal_asset_leaf L X l)))"

section \<open>Statistics\<close>

definition rest_universe_stats :: "transport \<Rightarrow> json_decoders \<Rightarrow> universe_stats rest" where
  "rest_universe_stats T D =
     rest_method T (jd_stats D) (Inr (universe_get ''/v1/taproot-assets/universe/stats'')) unmarshal_universe_stats"

record asset_stats_query =
  aq_asset_name_filter :: string
  aq_asset_ref_filter :: "string option"
  aq_asset_type_filter :: int
  aq_sort_by :: int
  aq_stats_offset :: int
  aq_stats_limit :: int
  aq_stats_direction :: int

definition asset_stats_params :: "'k lib \<Rightarrow> asset_stats_query option \<Rightarrow> (string \<times> string) list result" where
  "asset_stats_params L request =
     (case request of
        None \<Rightarrow> Inr []
      | Some req \<Rightarrow>
          and_then (case aq_asset_ref_filter req of
                      None \<Rightarrow> Inr []
                    | Some ref \<Rightarrow>
                        and_then (asset_ref_validate L ref) (\<lambda>_.
                        Inr (case ref_asset_id L ref of None \<Rightarrow> [] | Some i \<Rightarrow> [(''asset_id_filter'', hex_encode i)]))) (\<lambda>id_filter.
          Inr ((if aq_asset_name_filter req \<noteq> [] then [(''asset_name_filter'', aq_asset_name_filter req)] else []) @
               id_filter @
               (if aq_asset_type_filter req \<noteq> 0
                then [(''asset_type_filter'', marshal_asset_type_filter (aq_asset_type_filter req))] else []) @
               (if aq_sort_by req \<noteq> 0 then [(''sort_by'', marshal_asset_query_sort (aq_sort_by req))] else []) @
               (if aq_stats_offset req \<noteq> 0 then [(''offset'', int_string (aq_stats_offset req))] else []) @
               (if aq_stats_limit req \<noteq> 0 then [(''limit'', int_string (aq_stats_limit req))] else []) @
               (if aq_stats_direction req \<noteq> 0 then [(''direction'', marshal_sort_direction (aq_stats_direction req))] else []))))"

definition asset_stats_path :: "'k lib \<Rightarrow> asset_stats_query option \<Rightarrow> string result" where
  "asset_stats_path L req =
     and_then (asset_stats_params L req) (\<lambda>ps. Inr (''/v1/taproot-assets/universe/stats/assets'' @ plain_query ps))"

definition rest_query_asset_stats ::
    "'k lib \<Rightarrow> transport \<Rightarrow> json_decoders \<Rightarrow> asset_stats_query option \<Rightarrow> asset_stats_snapshot list rest" where
  "rest_query_asset_stats L T D req =
     rest_method T (jd_asset_stats D) (and_then (asset_stats_path L req) (\<lambda>path. Inr (universe_get path)))
       (decode_all (\<lambda>s. errorf ''unmarshal asset stats snapshot: '' (unmarshal_asset_stats_snapshot L s)))"

text \<open>\<open>QueryEventsRequest\<close>: the first and the last second of the range.\<close>

definition events_path :: "(int \<times> int) option \<Rightarrow> string" where
  "events_path request =
     ''/v1/taproot-assets/universe/stats/events'' @
     (case request of
        None \<Rightarrow> []
      | Some (first, final) \<Rightarrow> ''?start_timestamp='' @ int_string first @ ''&end_timestamp='' @ int_string final)"

definition rest_query_events :: "transport \<Rightarrow> json_decoders \<Rightarrow> (int \<times> int) option \<Rightarrow> grouped_universe_events list rest" where
  "rest_query_events T D req =
     rest_method T (jd_events D) (Inr (universe_get (events_path req)))
       (decode_all (\<lambda>e. errorf ''unmarshal grouped events: '' (unmarshal_grouped_universe_events e)))"

section \<open>Federation\<close>

definition federation_path :: string where
  "federation_path = ''/v1/taproot-assets/universe/federation''"

definition rest_list_federation_servers :: "transport \<Rightarrow> json_decoders \<Rightarrow> federation_server list rest" where
  "rest_list_federation_servers T D =
     rest_method T (jd_servers D) (Inr (universe_get federation_path))
       (decode_all (\<lambda>s. errorf ''unmarshal federation server: '' (unmarshal_federation_server s)))"

definition servers_body :: "federation_server list \<Rightarrow> json" where
  "servers_body servers =
     JObj [(''servers'', JArr (map (\<lambda>s. JObj [(''host'', JStr (fs_host s)), (''id'', JNum (sint (fs_id s)))]) servers))]"

definition rest_add_federation_server :: "transport \<Rightarrow> json_decoders \<Rightarrow> federation_server list \<Rightarrow> unit rest" where
  "rest_add_federation_server T D servers =
     rest_method T (jd_empty D) (Inr (post_request federation_path UniverseServiceMac (servers_body servers))) Inr"

definition rest_delete_federation_server :: "transport \<Rightarrow> json_decoders \<Rightarrow> federation_server list \<Rightarrow> unit rest" where
  "rest_delete_federation_server T D servers =
     rest_method T (jd_empty D)
       (Inr \<lparr>rq_method = ''DELETE'', rq_path = federation_path, rq_mac = UniverseServiceMac,
             rq_body = Some (servers_body servers)\<rparr>) Inr"

definition json_global_config :: "global_sync_config \<Rightarrow> json" where
  "json_global_config c =
     JObj [(''proof_type'', JStr (marshal_proof_type (gc_proof_type c))),
           (''allow_sync_insert'', JBool (gc_allow_sync_insert c)), (''allow_sync_export'', JBool (gc_allow_sync_export c))]"

definition json_asset_config :: "'k lib \<Rightarrow> asset_sync_config \<Rightarrow> json result" where
  "json_asset_config L c =
     and_then (universe_json_id L (sc_id c)) (\<lambda>i.
     Inr (JObj [(''id'', json_of_universe_id i), (''allow_sync_insert'', JBool (sc_allow_sync_insert c)),
                (''allow_sync_export'', JBool (sc_allow_sync_export c))]))"

definition sync_config_path :: string where
  "sync_config_path = ''/v1/taproot-assets/universe/sync/config''"

definition rest_set_federation_sync_config ::
    "'k lib \<Rightarrow> transport \<Rightarrow> json_decoders \<Rightarrow> global_sync_config list \<Rightarrow> asset_sync_config list \<Rightarrow> unit rest" where
  "rest_set_federation_sync_config L T D global assets =
     rest_method T (jd_empty D)
       (and_then (decode_all (json_asset_config L) assets) (\<lambda>js.
        Inr (post_request sync_config_path UniverseServiceMac
          (JObj [(''global_sync_configs'', JArr (map json_global_config global)), (''asset_sync_configs'', JArr js)])))) Inr"

text \<open>The identifiers given by the caller are not used.\<close>

definition rest_query_federation_sync_config ::
    "'k lib \<Rightarrow> transport \<Rightarrow> json_decoders \<Rightarrow> universe_id list \<Rightarrow> federation_sync_config rest" where
  "rest_query_federation_sync_config L T D uids =
     rest_method T (jd_sync_config D) (Inr (universe_get sync_config_path))
       (\<lambda>resp.
          and_then (decode_all (\<lambda>g. errorf ''unmarshal global sync config: '' (unmarshal_global_sync_config g))
                      (jqc_global_sync_configs resp)) (\<lambda>global.
          and_then (decode_all (\<lambda>a. errorf ''unmarshal asset sync config: '' (unmarshal_asset_sync_config L a))
                      (jqc_asset_sync_configs resp)) (\<lambda>assets.
          Inr \<lparr>fc_global = global, fc_asset = assets\<rparr>)))"

definition rest_universe_info :: "transport \<Rightarrow> json_decoders \<Rightarrow> int rest" where
  "rest_universe_info T D =
     rest_method T (jd_text D) (Inr (universe_get ''/v1/taproot-assets/universe/info''))
       (\<lambda>runtime_id. errorf ''invalid runtime_id: '' (parse_int64 runtime_id))"

section \<open>Synchronisation\<close>

definition sync_body :: "'k lib \<Rightarrow> sync_request \<Rightarrow> json result" where
  "sync_body L req =
     and_then (decode_all (universe_json_id L) (sy_sync_targets req)) (\<lambda>uids.
     Inr (JObj [(''universe_host'', JStr (sy_universe_host req)),
                (''sync_mode'', JStr (marshal_sync_mode (sy_sync_mode req))),
                (''sync_targets'', JArr (map (\<lambda>i. JObj [(''id'', json_of_universe_id i)]) uids))]))"

definition rest_sync_universe ::
    "'k lib \<Rightarrow> chain_lib \<Rightarrow> transport \<Rightarrow> json_decoders \<Rightarrow> sync_request option \<Rightarrow> synced_universe list rest" where
  "rest_sync_universe L X T D req =
     rest_method T (jd_sync D)
       (and_then (not_nil ''nil sync request'' req) (\<lambda>r.
        and_then (sync_body L r) (\<lambda>body.
        Inr (post_request ''/v1/taproot-assets/universe/sync'' UniverseServiceMac body))))
       (decode_all (\<lambda>s. errorf ''unmarshal synced universe: '' (unmarshal_synced_universe L X s)))"

end
