(* ===== verification/Tap_RestFacts.thy ===== *)
theory Tap_RestFacts
  imports Tap_RestBase64 Tap_RestWalletKit Tap_RestMint Tap_RestUniverse
begin

text \<open>
  What the REST backend guarantees: sends pay every recipient or are not made, balances are the sums
  of the rows, errors keep the code of the gateway, credentials are complete, queries and universe
  addresses are unambiguous; and two places where the backend does not do what it should.
\<close>

section \<open>Requests\<close>

lemma rest_method_history:
  "snd (rest_method T decode request answer h) =
     (case request of
        Inl e \<Rightarrow> h
      | Inr r \<Rightarrow> (if tp_url_error T (tp_base_url T @ rq_path r) = None then h @ [http_request_of T r] else h))"
  by (simp add: rest_method_def transport_do_def http_request_of_def Let_def split: sum.split option.split prod.split)

lemma rest_method_refused: "request = Inl e \<Longrightarrow> rest_method T decode request answer h = (Inl e, h)"
  by (simp add: rest_method_def)

section \<open>Sends\<close>

text \<open>The recipients that name an amount of their own, and the two fields of the body.\<close>

definition explicit_amount :: "recipient \<Rightarrow> bool" where
  "explicit_amount r \<longleftrightarrow> snd (recipient_amount r)"

definition mixed_amounts :: "recipient list \<Rightarrow> bool" where
  "mixed_amounts rs \<longleftrightarrow> filter explicit_amount rs \<noteq> [] \<and> filter (\<lambda>r. \<not> explicit_amount r) rs \<noteq> []"

definition recipient_fields :: "recipient list \<Rightarrow> json option \<times> json option" where
  "recipient_fields rs =
     (if rs = [] then (None, None)
      else if filter explicit_amount rs = [] then (Some (JArr (map (\<lambda>r. JStr (rc_address r)) rs)), None)
      else (None, Some (JArr (map (\<lambda>r. json_address_with_amount (rc_address r) (fst (recipient_amount r))) rs))))"

lemma marshal_send_recipients_eq:
  "marshal_send_recipients rs =
     (if mixed_amounts rs then Inl (Sentinel ErrMixedRecipientAmounts)
      else if filter explicit_amount rs = [] then Inr (map rc_address rs, [])
      else Inr ([], map (\<lambda>r. json_address_with_amount (rc_address r) (fst (recipient_amount r))) rs))"
  by (auto simp: marshal_send_recipients_def mixed_amounts_def explicit_amount_def Let_def filter_empty_conv
      list_all_iff list_ex_iff)

lemma map_of_omit [simp]:
  "map_of (omit_list k xs) k' = (if k' = k \<and> xs \<noteq> [] then Some (JArr xs) else None)"
  "map_of (omit_num k n) k' = (if k' = k \<and> n \<noteq> 0 then Some (JNum n) else None)"
  "map_of (omit_str k s) k' = (if k' = k \<and> s \<noteq> [] then Some (JStr s) else None)"
  "map_of (omit_true k b) k' = (if k' = k \<and> b then Some (JBool True) else None)"
  by (simp_all add: omit_defs)

text \<open>
  C33. A send either makes no request, or makes exactly one, to the send path, whose body lists every
  recipient once and in order: all by address alone when no recipient names an amount, all with their
  amounts when every recipient names one. Nothing is sent when the recipients mix the two, when the
  fee rate does not fit the wire, or when the URL is refused; a mixed list is reported as such.
\<close>

theorem send_pays_every_recipient:
  "\<exists>fs. snd (rest_send_asset L X T D (Some req) h) =
      (if \<not> 0xFFFFFFFF < sat_per_kweight (sr_fee_rate req) \<and> \<not> mixed_amounts (sr_recipients req) \<and>
          tp_url_error T (tp_base_url T @ ''/v1/taproot-assets/send'') = None
       then h @ [\<lparr>hr_method = ''POST'', hr_url = tp_base_url T @ ''/v1/taproot-assets/send'',
                   hr_macaroon = (case tp_pouch T AdminServiceMac of None \<Rightarrow> [] | Some m \<Rightarrow> m),
                   hr_body = Some (JObj fs)\<rparr>]
       else h) \<and>
     (map_of fs ''tap_addrs'', map_of fs ''addresses_with_amounts'') = recipient_fields (sr_recipients req) \<and>
     fst (rest_send_asset L X T D (Some req) h) \<in>
       (if mixed_amounts (sr_recipients req) \<and> \<not> 0xFFFFFFFF < sat_per_kweight (sr_fee_rate req)
        then {Inl (Sentinel ErrMixedRecipientAmounts)} else UNIV)"
proof -
  define rs where "rs = sr_recipients req"
  define fs where "fs =
    omit_list ''tap_addrs'' (if filter explicit_amount rs = [] then map (\<lambda>r. JStr (rc_address r)) rs else []) @
    omit_num ''fee_rate'' (uint (ucast (sat_per_kweight (sr_fee_rate req)) :: u32)) @ omit_str ''label'' (sr_label req) @
    omit_list ''addresses_with_amounts'' (if filter explicit_amount rs = [] then []
      else map (\<lambda>r. json_address_with_amount (rc_address r) (fst (recipient_amount r))) rs) @
    omit_true ''skip_proof_courier_ping_check'' (sr_skip_ping req)"
  have fields: "(map_of fs ''tap_addrs'', map_of fs ''addresses_with_amounts'') = recipient_fields rs"
    by (auto simp: fs_def recipient_fields_def map_add_def)
  have body: "send_asset_body (Some req) =
      (if 0xFFFFFFFF < sat_per_kweight (sr_fee_rate req) then Inl (Plain ''fee rate overflows sat/kWU'')
       else if mixed_amounts rs then Inl (Sentinel ErrMixedRecipientAmounts) else Inr (JObj fs))"
    by (simp add: send_asset_body_def fee_rate_sat_per_kweight_def marshal_send_recipients_eq fs_def rs_def comp_def)
  show ?thesis
    unfolding rs_def [symmetric]
    by (rule exI [of _ fs])
      (simp add: rest_send_asset_def body rest_method_history rest_method_refused http_request_of_def post_request_def fields)
qed

section \<open>Balances\<close>

text \<open>The reference and amount of one row, and the sums over rows.\<close>

definition balance_row :: "'k lib \<Rightarrow> chain_lib \<Rightarrow> json_asset_balance option \<Rightarrow> (string \<times> u64) result" where
  "balance_row L X entry =
     and_then (not_nil ''nil pointer dereference'' entry) (\<lambda>ab.
     and_then (when_set (\<lambda>g. errorf ''balance genesis: '' (unmarshal_issuance_genesis X (Some g))) (jab_asset_genesis ab)) (\<lambda>genesis.
     and_then (balance_row_ref L genesis (jab_group_key ab)) (\<lambda>ref.
     and_then (errorf ''balance amount: '' (parse_uint64 (jab_balance ab))) (\<lambda>bal. Inr (ref, bal)))))"

definition summed :: "(string \<times> u64) list \<Rightarrow> string \<Rightarrow> balance option" where
  "summed rows ref =
     (if filter (\<lambda>r. fst r = ref) rows = [] then None
      else Some \<lparr>ba_asset_ref = ref, ba_balance = sum_list (map snd (filter (\<lambda>r. fst r = ref) rows))\<rparr>)"

definition add_row :: "(string \<rightharpoonup> balance) \<Rightarrow> string \<times> u64 \<Rightarrow> (string \<rightharpoonup> balance)" where
  "add_row m r =
     (let prev = (case m (fst r) of None \<Rightarrow> \<lparr>ba_asset_ref = fst r, ba_balance = 0\<rparr> | Some b \<Rightarrow> b) in
      m(fst r \<mapsto> prev\<lparr>ba_balance := ba_balance prev + snd r\<rparr>))"

lemma balance_step_row: "balance_step L X m entry = and_then (balance_row L X entry) (\<lambda>r. Inr (add_row m r))"
  by (simp add: balance_step_def balance_row_def add_row_def and_then_def Let_def split: sum.split option.split)

lemma add_row_summed: "add_row (summed rows) r = summed (rows @ [r])"
  by (rule ext) (simp add: add_row_def summed_def Let_def filter_empty_conv)

lemma fold_balance_step:
  "fold_res (balance_step L X) (summed rows) entries
     = and_then (decode_all (balance_row L X) entries) (\<lambda>more. Inr (summed (rows @ more)))"
proof (induction entries arbitrary: rows)
  case (Cons entry entries)
  have "balance_step L X m entry = and_then (balance_row L X entry) (\<lambda>r. Inr (add_row m r))" for m
    by (rule balance_step_row)
  then show ?case
    by (cases "balance_row L X entry") (simp_all add: add_row_summed Cons and_then_def split: sum.split)
qed simp

text \<open>
  C35. The balances the backend returns are the sums, modulo 2^64, of the rows of each reference, one
  entry per reference that has a row; the first row that cannot be read is the error, and then there
  is no partial result.
\<close>

theorem balances_are_sums:
  "balances_answer L X resp =
     and_then (errorf ''unconfirmed_transfers: '' (parse_uint64 (jlb_unconfirmed_transfers resp))) (\<lambda>unconfirmed.
     and_then (decode_all (balance_row L X) (map snd (jlb_asset_balances resp))) (\<lambda>rows.
     Inr \<lparr>lp_balances = summed rows, lp_unconfirmed_transfers = unconfirmed\<rparr>))"
proof -
  have "summed [] = Map.empty" by (rule ext) (simp add: summed_def)
  with fold_balance_step [of L X "[]"]
  have "fold_res (balance_step L X) Map.empty es = and_then (decode_all (balance_row L X) es) (\<lambda>rows. Inr (summed rows))" for es
    by simp
  then show ?thesis by (simp add: balances_answer_def and_then_def split: sum.split)
qed


section \<open>Errors\<close>

text \<open>
  C34. An answer outside 200 to 299 whose body is the gateway's error message carries the code of that
  message, as an error of the gRPC backend carries its own: the status accessors read it, and, where
  the text itself names no error of the SDK, wrapping adds the sentinel of that code and no other.
  Codes the gateway cannot have sent read as Unknown.
\<close>

theorem gateway_error_keeps_code:
  assumes status: "\<And>c m t. status_from_error L (External (Some (c, m)) t) = Some (c, m)"
    and sent: "tp_url_error T (tp_base_url T @ rq_path r) = None"
      "tp_exchange T h (http_request_of T r) = Inr (code, Inr body)"
    and failed: "code < 200 \<or> 300 \<le> code"
    and decoded: "tp_api_error T body = Inr err" "ape_message err \<noteq> []"
    and silent: "match_error_message op (err_text (response_error T code body)) = None"
  shows "\<exists>e. transport_do T decode r h = (Inl e, h @ [http_request_of T r]) \<and>
     grpc_code_of (status_from_error L) (Some e) =
       (if 0 \<le> ape_code err \<and> ape_code err \<le> 16 then grpc_codes ! nat (ape_code err) else Unknown) \<and>
     {s. errors_is (wrap_err (status_from_error L) op e) s} =
       set_option (status_sentinel op (grpc_code_from_gateway (ape_code err)) (ape_message err))"
proof -
  define e where "e = response_error T code body"
  have st: "status_from_error L e = Some (grpc_code_from_gateway (ape_code err), ape_message err)"
    by (simp add: e_def response_error_def decoded api_error_value_def status)
  have "\<exists>st t. e = External st t" by (simp add: e_def response_error_def decoded api_error_value_def)
  then have plain: "\<not> errors_is e s" for s by auto
  then have "\<not> wraps_known_err e" by (simp add: wraps_known_err_def list_ex_iff)
  with silent have "added_sentinel (status_from_error L) op e =
      status_sentinel op (grpc_code_from_gateway (ape_code err)) (ape_message err)"
    by (simp add: added_sentinel_def st flip: e_def)
  moreover have "transport_do T decode r h = (Inl e, h @ [http_request_of T r])"
    using sent failed by (simp add: transport_do_def read_response_def http_request_of_def Let_def e_def)
  ultimately show ?thesis
    by (intro exI [of _ e]) (auto simp: wrap_err_identity plain grpc_code_of_def st grpc_code_from_gateway_def)
qed

definition sample_transport :: "int \<Rightarrow> api_error \<Rightarrow> transport" where
  "sample_transport code err =
     \<lparr>tp_base_url = ''https://host'', tp_pouch = pouch_for_all_services ''00'', tp_url_error = (\<lambda>_. None),
      tp_exchange = (\<lambda>_ _. Inr (code, Inr ''body'')), tp_api_error = (\<lambda>_. Inr err)\<rparr>"

theorem gateway_error_keeps_code_witness:
  "\<exists>e. transport_do (sample_transport 404 \<lparr>ape_code = 5, ape_message = ''gone'', ape_details = []\<rparr>)
       (\<lambda>_. Inr ()) (get_request ''/p'' AdminServiceMac) [] = (Inl e, [http_request_of
         (sample_transport 404 \<lparr>ape_code = 5, ape_message = ''gone'', ape_details = []\<rparr>) (get_request ''/p'' AdminServiceMac)]) \<and>
     is_not_found (status_from_error sample_lib) (Some e)"
proof -
  let ?T = "sample_transport 404 \<lparr>ape_code = 5, ape_message = ''gone'', ape_details = []\<rparr>"
  have "to_lower (err_text (response_error ?T 404 ''body'')) = ''tapd rest api error 404: gone''"
    by (simp add: response_error_def sample_transport_def api_error_value_def details_string_def trim_space_def
        int_string_def to_lower_def to_lower_char_def char_of_def dec_string.simps digit_char_def bit_0)
  then have "match_error_message ''GetMeta'' (err_text (response_error ?T 404 ''body'')) = None"
    by (simp add: match_error_message_def is_proof_op_def)
  with gateway_error_keeps_code [of sample_lib ?T "get_request ''/p'' AdminServiceMac" "[]" 404 "''body''"
      "\<lparr>ape_code = 5, ape_message = ''gone'', ape_details = []\<rparr>" "''GetMeta''" "\<lambda>_. Inr ()"]
  obtain e where "transport_do ?T (\<lambda>_. Inr ()) (get_request ''/p'' AdminServiceMac) [] =
      (Inl e, [http_request_of ?T (get_request ''/p'' AdminServiceMac)])"
    "grpc_code_of (status_from_error sample_lib) (Some e) = NotFound"
    by (auto simp: sample_transport_def grpc_codes_def eval_nat_numeral)
  then show ?thesis by (auto simp: grpc_code_of_def is_not_found_def split: option.splits)
qed

section \<open>Credentials\<close>

lemma set_macaroon_services [simp]: "set macaroon_services = UNIV"
proof -
  have "s \<in> set macaroon_services" for s by (cases s) (simp_all add: macaroon_services_def)
  then show ?thesis by blast
qed

lemma load_dir_fold:
  "fold_res (load_dir_step F dir) p0 ss = Inr p \<longleftrightarrow>
     list_all (\<lambda>s. is_ok (os_read_file F (os_join F dir (mac_file s)))) ss \<and>
     p = (\<lambda>s. if s \<in> set ss then (case os_read_file F (os_join F dir (mac_file s)) of
            Inl _ \<Rightarrow> None | Inr b \<Rightarrow> Some (hex_encode b)) else p0 s)"
proof (induction ss arbitrary: p0)
  case (Cons s ss)
  have "load_dir_step F dir m s = and_then (os_read_file F (os_join F dir (mac_file s))) (\<lambda>b. Inr (m(s \<mapsto> hex_encode b)))" for m
    by (simp add: load_dir_step_def new_serialized_macaroon_def and_then_def split: sum.split)
  then show ?case
    by (cases "os_read_file F (os_join F dir (mac_file s))") (auto simp: Cons fun_eq_iff)
qed (auto simp: fun_eq_iff)

text \<open>
  What a macaroon source loads: a pouch is complete or not loaded. A file or a hexadecimal text
  serves every service; a directory yields to each service the macaroon of its own file, and only if
  all six files can be read; a text is refused when it is blank or not hexadecimal.
\<close>

theorem pouch_complete_or_refused:
  "load_pouch F src = Inr p \<longleftrightarrow>
     (case src of
        PathSource path \<Rightarrow> (\<exists>b. os_read_file F path = Inr b \<and> p = (\<lambda>s. Some (hex_encode b)))
      | DirSource dir \<Rightarrow>
          (\<forall>s. \<exists>b. os_read_file F (os_join F dir (mac_file s)) = Inr b \<and> p s = Some (hex_encode b))
      | HexSource hex \<Rightarrow>
          trim_space hex \<noteq> [] \<and> is_ok (hex_decode (trim_space hex)) \<and> p = (\<lambda>s. Some (trim_space hex)))"
proof -
  have everyone: "pouch_for_all_services mac = (\<lambda>s. Some mac)" for mac
    by (rule ext) (simp add: pouch_for_all_services_def map_of_map_restrict [of "\<lambda>_. mac"])
  show ?thesis
  proof (cases src)
    case (DirSource dir)
    have pointwise: "is_ok r \<and> q = (case r of Inl _ \<Rightarrow> None | Inr b \<Rightarrow> Some (hex_encode b)) \<longleftrightarrow>
        (\<exists>b. r = Inr b \<and> q = Some (hex_encode b))" for r :: "bytes result" and q
      by (cases r) simp_all
    have "load_pouch F src = Inr p \<longleftrightarrow>
      (\<forall>s. is_ok (os_read_file F (os_join F dir (mac_file s)))) \<and>
      p = (\<lambda>s. case os_read_file F (os_join F dir (mac_file s)) of Inl _ \<Rightarrow> None | Inr b \<Rightarrow> Some (hex_encode b))"
      by (simp add: load_pouch_def DirSource load_dir_fold list_all_iff)
    also have "\<dots> \<longleftrightarrow> (\<forall>s. \<exists>b. os_read_file F (os_join F dir (mac_file s)) = Inr b \<and> p s = Some (hex_encode b))"
      by (simp only: fun_eq_iff all_conj_distrib [symmetric] pointwise)
    finally show ?thesis by (simp add: DirSource)
  qed (auto simp: load_pouch_def new_serialized_macaroon_def everyone and_then_eq_Inr is_ok_iff Let_def)
qed


section \<open>Outpoints and universe addresses\<close>

lemma separator_split: "b \<notin> set x \<Longrightarrow> b \<notin> set y \<Longrightarrow> x @ b # u = y @ b # v \<longleftrightarrow> x = y \<and> u = v"
  by (induction x arbitrary: y) (case_tac y; auto)+

text \<open>What \<open>btcd\<close> documents of hashes and outpoints in display form.\<close>

definition display_laws :: "chain_lib \<Rightarrow> bool" where
  "display_laws X \<longleftrightarrow>
     (\<forall>h. cl_hash_string X h = hex_encode (rev h)) \<and>
     (\<forall>h i. length h = 32 \<longrightarrow> cl_outpoint_from_string X (cl_hash_string X h @ '':'' @ dec_string (unat i)) = Inr (h, i))"

lemma hex_chars: "c \<in> set (hex_encode bs) \<Longrightarrow> c \<noteq> CHR ''/'' \<and> c \<noteq> CHR '':''"
proof -
  have "hex_char n \<noteq> CHR ''/'' \<and> hex_char n \<noteq> CHR '':''" if "n < 16" for n
    using hex_digit_char [OF that] by (auto simp: hex_digit_def)
  moreover have "unat b div 16 < 16" "unat b mod 16 < 16" for b :: byte
    using unat_byte_bounds(3) [of b] by (simp_all add: less_mult_imp_div_less)
  ultimately show "c \<in> set (hex_encode bs) \<Longrightarrow> c \<noteq> CHR ''/'' \<and> c \<noteq> CHR '':''"
    by (auto simp: hex_encode_def)
qed

lemma dec_chars: "c \<in> set (dec_string n) \<Longrightarrow> c \<noteq> CHR ''/'' \<and> c \<noteq> CHR '':''"
  using dec_string_digits [of c n] by (auto simp: is_digit_def)

lemma dec_string_inj: "dec_string m = dec_string n \<longleftrightarrow> m = n"
  by (metis dec_value_dec_string)

lemma contains_char: "contains s [c] \<longleftrightarrow> c \<in> set s"
  by (induction s) auto

lemma split_outpoint_display: "fst (split_outpoint (outpoint_string X op)) = cl_hash_string X (op_txid op)"
proof -
  have "CHR '':'' \<notin> set (dec_string (unat (op_index op)))" by (auto dest: dec_chars)
  then show ?thesis
    using split_last_sep [of "CHR '':''" "dec_string (unat (op_index op))" "cl_hash_string X (op_txid op)"]
    by (simp add: split_outpoint_def outpoint_string_def)
qed

text \<open>
  C37. An outpoint that the daemon describes by \<open>hash_str\<close> and \<open>index\<close> is read with the bytes of its
  transaction hash in the wrong order: the display form is byte-reversed, and is decoded as it
  stands. The same outpoint as one text is read right, so the two forms agree only for a hash that is
  its own reverse.
\<close>

theorem hash_str_read_reversed:
  assumes "display_laws X" "length h = 32"
  shows "unmarshal_json_outpoint X \<lparr>jop_txid = [], jop_hash_str = cl_hash_string X h, jop_output_index = 0, jop_index = i\<rparr>
      = Inr \<lparr>op_txid = rev h, op_index = i\<rparr> \<and>
    unmarshal_json_outpoint X \<lparr>jop_txid = [], jop_hash_str = cl_hash_string X h @ '':'' @ dec_string (unat i),
        jop_output_index = 0, jop_index = i\<rparr>
      = Inr \<lparr>op_txid = h, op_index = i\<rparr>"
proof -
  have law: "cl_outpoint_from_string X (cl_hash_string X h @ '':'' @ dec_string (unat i)) = Inr (h, i)"
    using assms unfolding display_laws_def by blast
  have str: "cl_hash_string X h = hex_encode (rev h)" using assms(1) by (simp add: display_laws_def)
  moreover have "hex_encode (rev h) \<noteq> []" using assms(2) length_hex_encode [of "rev h"] by force
  moreover have "\<not> contains (hex_encode (rev h)) '':''" by (auto simp: contains_char dest: hex_chars)
  moreover have "contains (hex_encode (rev h) @ '':'' @ dec_string (unat i)) '':''" by (simp add: contains_char)
  moreover have "new_outpoint_from_str X (hex_encode (rev h) @ '':'' @ dec_string (unat i)) = Inr \<lparr>op_txid = h, op_index = i\<rparr>"
    using law by (simp add: new_outpoint_from_str_def str)
  ultimately show ?thesis using assms(2) by (simp add: unmarshal_json_outpoint_def exact_length_def)
qed

lemma go_parse_uint_dec: "n < 2 ^ 64 \<Longrightarrow> go_parse_uint (dec_string n) = Inr (of_nat n)"
  by (simp add: go_parse_uint_def)

lemma sample_chain_display: "display_laws sample_chain"
proof -
  have "cut CHR '':'' (hex_encode (rev h) @ CHR '':'' # t) = (hex_encode (rev h), t, True)" for h t
    by (rule cut_sep) (auto dest: hex_chars)
  moreover have "go_parse_uint (dec_string (unat i)) = Inr (of_nat (unat i))" for i :: u32
    using unsigned_less [where 'a = nat and w = i] by (intro go_parse_uint_dec) simp
  moreover have "ucast (of_nat (unat i) :: u64) = i" for i :: u32
    by (simp only: of_nat_unat) (transfer, simp)
  ultimately show ?thesis by (simp add: display_laws_def sample_chain_def)
qed

theorem hash_str_read_reversed_witness:
  "unmarshal_json_outpoint sample_chain
      \<lparr>jop_txid = [], jop_hash_str = cl_hash_string sample_chain (1 # replicate 31 0), jop_output_index = 0, jop_index = 3\<rparr>
    = Inr \<lparr>op_txid = replicate 31 0 @ [1], op_index = 3\<rparr>"
  using hash_str_read_reversed [OF sample_chain_display, of "1 # replicate 31 0" 3] by simp

lemma asset_path_identity:
  assumes "universe_asset_path L r = Inr (k, v)" "universe_asset_path L s = Inr (k, v)"
  shows "asset_ref_equivalent L r s"
  using assms
  by (cases r rule: ref_cases [where L = L]; cases s rule: ref_cases [where L = L])
    (auto simp: universe_asset_path_def asset_ref_validate_def ref_facts hex_encode_inj equivalent_iff_identity)

text \<open>
  C38. The path under which the universe stores a proof names its leaf: two proofs with one path have
  equivalent references, the same outpoint and the same script key, and a proof is
  queried under the path it was inserted with.
\<close>

theorem proof_path_names_leaf:
  assumes "display_laws X"
    and "insert_proof_path L X d = Inr path" "insert_proof_path L X d' = Inr path"
  shows "asset_ref_equivalent L (dp_asset_ref d) (dp_asset_ref d') \<and>
    dp_outpoint d = dp_outpoint d' \<and> dp_script_key d = dp_script_key d' \<and>
    query_proof_path L X \<lparr>uk_id = \<lparr>un_asset_ref = dp_asset_ref d, un_proof_type = pt\<rparr>,
        uk_leaf_key = \<lparr>lk_outpoint = dp_outpoint d, lk_script_key = dp_script_key d\<rparr>\<rparr>
      = Inr (path @ proof_type_param pt)"
proof -
  have kinds: "\<exists>b. value = hex_encode b \<and> kind \<in> {''asset-id'', ''group-key''}"
    if "universe_asset_path L r = Inr (kind, value)" for r kind "value"
    using that by (auto simp: universe_asset_path_def and_then_eq_Inr split: option.splits)
  have str: "cl_hash_string X h = hex_encode (rev h)" for h using assms(1) by (simp add: display_laws_def)
  obtain k v where a: "universe_asset_path L (dp_asset_ref d) = Inr (k, v)"
    and p: "path = ''/v1/taproot-assets/universe/proofs/'' @ (k @ CHR ''/'' # v @ CHR ''/'' # hex_encode (rev (op_txid (dp_outpoint d))) @
      CHR ''/'' # dec_string (unat (op_index (dp_outpoint d))) @ CHR ''/'' # hex_encode (dp_script_key d))"
    using assms(2) by (auto simp: insert_proof_path_def asset_path_def split_outpoint_display str and_then_eq_Inr)
  obtain k' v' where a': "universe_asset_path L (dp_asset_ref d') = Inr (k', v')"
    and p': "path = ''/v1/taproot-assets/universe/proofs/'' @ (k' @ CHR ''/'' # v' @ CHR ''/'' # hex_encode (rev (op_txid (dp_outpoint d'))) @
      CHR ''/'' # dec_string (unat (op_index (dp_outpoint d'))) @ CHR ''/'' # hex_encode (dp_script_key d'))"
    using assms(3) by (auto simp: insert_proof_path_def asset_path_def split_outpoint_display str and_then_eq_Inr)
  have hex: "CHR ''/'' \<notin> set (hex_encode b)" "CHR ''/'' \<notin> set (dec_string n)" for b n
    by (auto dest: hex_chars dec_chars)
  have sep: "CHR ''/'' \<notin> set k" "CHR ''/'' \<notin> set k'" "CHR ''/'' \<notin> set v" "CHR ''/'' \<notin> set v'"
    using kinds [OF a] kinds [OF a'] hex by auto
  from p p' have "k @ CHR ''/'' # v @ CHR ''/'' # hex_encode (rev (op_txid (dp_outpoint d))) @
      CHR ''/'' # dec_string (unat (op_index (dp_outpoint d))) @ CHR ''/'' # hex_encode (dp_script_key d) =
    k' @ CHR ''/'' # v' @ CHR ''/'' # hex_encode (rev (op_txid (dp_outpoint d'))) @
      CHR ''/'' # dec_string (unat (op_index (dp_outpoint d'))) @ CHR ''/'' # hex_encode (dp_script_key d')" by simp
  then have "k = k' \<and> v = v' \<and> rev (op_txid (dp_outpoint d)) = rev (op_txid (dp_outpoint d')) \<and>
      dec_string (unat (op_index (dp_outpoint d))) = dec_string (unat (op_index (dp_outpoint d'))) \<and>
      dp_script_key d = dp_script_key d'"
    by (simp only: separator_split sep hex not_False_eq_True simp_thms hex_encode_inj)
  moreover from this have "dp_outpoint d = dp_outpoint d'"
    by (intro outpoint.equality) (auto simp: dec_string_inj word_unat_eq_iff)
  moreover have "query_proof_path L X \<lparr>uk_id = \<lparr>un_asset_ref = dp_asset_ref d, un_proof_type = pt\<rparr>,
        uk_leaf_key = \<lparr>lk_outpoint = dp_outpoint d, lk_script_key = dp_script_key d\<rparr>\<rparr>
      = Inr (path @ proof_type_param pt)"
    by (simp add: query_proof_path_def asset_path_def a p split_outpoint_display str Let_def)
  ultimately show ?thesis using asset_path_identity [OF a] a' by simp
qed


theorem proof_path_names_leaf_witness:
  "\<exists>ref path. query_proof_path sample_lib sample_chain
      \<lparr>uk_id = \<lparr>un_asset_ref = ref, un_proof_type = proof_type_transfer\<rparr>,
       uk_leaf_key = \<lparr>lk_outpoint = zero_outpoint, lk_script_key = replicate 33 2\<rparr>\<rparr>
    = Inr (path @ ''?id.proof_type=PROOF_TYPE_TRANSFER'')"
proof -
  have "valid_payload sample_lib kind_asset_id (replicate 32 7)" by (simp add: valid_payload_def id32_def)
  from encode_asset_ref_ok [OF sample_bech32m_laws this] obtain ref where
    dec: "decode_asset_ref_string sample_lib ref = Inr (kind_asset_id, replicate 32 7, ref)" by blast
  have "ref_asset_id sample_lib ref = Some (replicate 32 7)"
    by (rule ref_facts_asset [OF dec]) (simp add: id32_def)
  with dec have ref: "universe_asset_path sample_lib ref = Inr (''asset-id'', hex_encode (replicate 32 7))"
    by (simp add: universe_asset_path_def asset_ref_validate_def)
  define d where "d = \<lparr>dp_proof_at_depth = 0, dp_number_of_proofs = 1, dp_asset_ref = ref,
    dp_issuance_id = replicate 32 7, dp_script_key = replicate 33 2, dp_amount = 5, dp_outpoint = zero_outpoint,
    dp_alt_leaves = [], dp_prev_ids = [], dp_is_issuance = False\<rparr>"
  obtain path where path: "insert_proof_path sample_lib sample_chain d = Inr path"
    using ref by (auto simp: insert_proof_path_def asset_path_def d_def)
  from proof_path_names_leaf [OF sample_chain_display path path, of proof_type_transfer] show ?thesis
    by (auto simp: d_def proof_type_param_def marshal_proof_type_def proof_type_transfer_def proof_type_issuance_def
        proof_type_unspecified_def)
qed

end
