(* ===== verification/Tap_GrpcTypes.thy ===== *)
theory Tap_GrpcTypes
  imports Tap_RestMint Tap_RestUniverse
begin

text \<open>
  The messages that the daemon sends to the gRPC backend (\<open>grpc/*.go\<close>).

  The message types are generated from tapd's protocol buffers and are not part of the repository. A
  message is the record of the fields that the backend reads or sets: a message field is an option, a
  repeated field a list, a map the list of its entries in the order of an iteration over it, an enum
  the number it carries (enums are open), \<open>int32\<close> a 32-bit word, a \<open>oneof\<close> an optional datatype.
  A message with one such field is that field.
\<close>

section \<open>Messages of the daemon\<close>

record rpc_genesis_info =
  xge_genesis_point :: string
  xge_name :: string
  xge_meta_hash :: bytes
  xge_asset_id :: bytes
  xge_asset_type :: int
  xge_output_index :: u32

text \<open>An asset group is its tweaked group key, a chain anchor its outpoint.\<close>

record rpc_asset =
  xas_version :: int
  xas_asset_genesis :: "rpc_genesis_info option"
  xas_amount :: u64
  xas_lock_time :: u32
  xas_relative_lock_time :: u32
  xas_script_version :: u32
  xas_script_key :: bytes
  xas_asset_group :: "bytes option"
  xas_chain_anchor :: "string option"

record rpc_asset_balance =
  xab_asset_genesis :: "rpc_genesis_info option"
  xab_balance :: u64
  xab_group_key :: bytes

record rpc_list_balances_response =
  xlb_asset_balances :: "(string \<times> rpc_asset_balance option) list"
  xlb_asset_group_balances :: "(string \<times> u64 option) list"
  xlb_unconfirmed_transfers :: u64

text \<open>The anchor of an output is its outpoint and value, a block hash its bytes and text.\<close>

record rpc_transfer_output =
  xto_amount :: u64
  xto_asset_id :: bytes
  xto_asset_type :: int
  xto_script_key :: bytes
  xto_new_proof_blob :: bytes
  xto_anchor :: "(string \<times> int) option"
  xto_group_key :: bytes

record rpc_transfer_input =
  xti_anchor_point :: string
  xti_asset_id :: bytes
  xti_asset_type :: int
  xti_script_key :: bytes
  xti_amount :: u64
  xti_group_key :: bytes

record rpc_asset_transfer =
  xat_transfer_timestamp :: int
  xat_anchor_tx_hash :: bytes
  xat_anchor_tx_height_hint :: u32
  xat_anchor_tx_chain_fees :: int
  xat_inputs :: "rpc_transfer_input option list"
  xat_outputs :: "rpc_transfer_output option list"
  xat_anchor_tx_block_hash :: "(bytes \<times> string) option"
  xat_anchor_tx_block_height :: u32
  xat_label :: string
  xat_anchor_tx :: bytes

record rpc_addr =
  xad_encoded :: string
  xad_asset_id :: bytes
  xad_asset_type :: int
  xad_amount :: u64
  xad_group_key :: bytes
  xad_script_key :: bytes
  xad_internal_key :: bytes
  xad_tapscript_sibling :: bytes
  xad_taproot_output_key :: bytes
  xad_proof_courier_addr :: string
  xad_asset_version :: int
  xad_address_version :: int

record rpc_addr_event =
  xae_creation_time_unix_seconds :: u64
  xae_addr :: "rpc_addr option"
  xae_status :: int
  xae_outpoint :: string
  xae_utxo_amt_sat :: u64
  xae_taproot_sibling :: bytes
  xae_confirmation_height :: u32
  xae_has_proof :: bool

record rpc_managed_utxo =
  xmu_out_point :: string
  xmu_amt_sat :: int
  xmu_internal_key :: bytes
  xmu_taproot_asset_root :: bytes
  xmu_merkle_root :: bytes
  xmu_assets :: "rpc_asset option list"
  xmu_lease_owner :: bytes
  xmu_lease_expiry_unix :: int

record rpc_asset_human_readable =
  xah_id :: bytes
  xah_amount :: u64
  xah_lock_time :: u32
  xah_relative_lock_time :: u32
  xah_tag :: string
  xah_meta_hash :: bytes
  xah_type :: int
  xah_version :: int

type_synonym rpc_grouped_assets = "rpc_asset_human_readable option list"

record rpc_asset_burn =
  xbu_note :: string
  xbu_asset_id :: bytes
  xbu_tweaked_group_key :: bytes
  xbu_amount :: u64
  xbu_anchor_txid :: bytes
  xbu_asset_type :: int

record rpc_fetch_asset_meta_response =
  xfm_data :: bytes
  xfm_type :: int
  xfm_meta_hash :: bytes
  xfm_unknown_odd_types :: "(u64 \<times> bytes) list"
  xfm_decimal_display :: u32
  xfm_universe_commitments :: bool
  xfm_canonical_universe_urls :: "string list"
  xfm_delegation_key :: bytes

record rpc_prev_input =
  xpi_anchor_point :: string
  xpi_asset_id :: bytes
  xpi_script_key :: bytes

text \<open>Of the split commitment and the genesis reveal the code only tests the presence.\<close>

record rpc_prev_witness =
  xpw_prev_id :: "rpc_prev_input option"
  xpw_split_commitment :: bool

record rpc_proof_asset =
  xpa_asset_genesis :: "rpc_genesis_info option"
  xpa_amount :: u64
  xpa_script_key :: bytes
  xpa_chain_anchor :: "string option"
  xpa_asset_group :: "bytes option"
  xpa_prev_witnesses :: "rpc_prev_witness option list"

record rpc_decoded_proof =
  xdp_proof_at_depth :: u32
  xdp_number_of_proofs :: u32
  xdp_asset :: "rpc_proof_asset option"
  xdp_genesis_reveal :: bool
  xdp_alt_leaves :: bytes

record rpc_burn_asset_response =
  xba_burn_transfer :: "rpc_asset_transfer option"
  xba_burn_proof :: "rpc_decoded_proof option"

record rpc_verify_proof_response =
  xvp_valid :: bool
  xvp_decoded_proof :: "rpc_decoded_proof option"

record rpc_get_info_response =
  xgi_version :: string
  xgi_lnd_version :: string
  xgi_network :: string
  xgi_lnd_identity_pubkey :: string
  xgi_node_alias :: string
  xgi_block_height :: u32
  xgi_sync_to_chain :: bool

record rpc_proof_file =
  xpf_raw_proof_file :: bytes
  xpf_genesis_point :: string

section \<open>Messages of the wallet kit and the mint\<close>

record rpc_out_point =
  xop_txid :: bytes
  xop_output_index :: u32

text \<open>A key locator is the family and the index.\<close>

record rpc_key_descriptor =
  xkd_raw_key_bytes :: bytes
  xkd_key_loc :: "(u32 \<times> u32) option"

record rpc_script_key =
  xsk_pub_key :: bytes
  xsk_key_desc :: "rpc_key_descriptor option"
  xsk_tap_tweak :: bytes

record rpc_fund_virtual_psbt_response =
  xfv_funded_psbt :: bytes
  xfv_passive_asset_psbts :: "bytes list"

record rpc_commit_virtual_psbts_response =
  xcv_anchor_psbt :: bytes
  xcv_virtual_psbts :: "bytes list"
  xcv_passive_asset_psbts :: "bytes list"
  xcv_change_output_index :: u32
  xcv_lnd_locked_utxos :: "rpc_out_point option list"

record rpc_verify_ownership_response =
  xvo_valid_proof :: bool
  xvo_outpoint :: "rpc_out_point option"
  xvo_block_hash :: bytes
  xvo_block_height :: u32

record rpc_asset_meta =
  xam_data :: bytes
  xam_type :: int
  xam_meta_hash :: bytes

record rpc_pending_asset =
  xpd_asset_version :: int
  xpd_asset_type :: int
  xpd_name :: string
  xpd_amount :: u64
  xpd_new_grouped_asset :: bool
  xpd_group_key :: bytes
  xpd_group_anchor :: string
  xpd_group_tapscript_root :: bytes
  xpd_asset_meta :: "rpc_asset_meta option"
  xpd_script_key :: "rpc_script_key option"
  xpd_group_internal_key :: "rpc_key_descriptor option"

record rpc_external_key =
  xek_xpub :: string
  xek_master_fingerprint :: bytes
  xek_derivation_path :: string

record rpc_group_key_request =
  xgk_raw_key :: "rpc_key_descriptor option"
  xgk_anchor_genesis :: "rpc_genesis_info option"
  xgk_tapscript_root :: bytes
  xgk_new_asset :: bytes
  xgk_external_key :: "rpc_external_key option"

record rpc_group_virtual_tx =
  xgv_transaction :: bytes
  xgv_prev_out :: "(int \<times> bytes) option"
  xgv_genesis_id :: bytes
  xgv_tweaked_key :: bytes

record rpc_unsealed_asset =
  xua_asset :: "rpc_pending_asset option"
  xua_group_key_request :: "rpc_group_key_request option"
  xua_group_virtual_tx :: "rpc_group_virtual_tx option"
  xua_group_virtual_psbt :: string

record rpc_minting_batch =
  xmb_batch_key :: bytes
  xmb_batch_txid :: string
  xmb_state :: int
  xmb_created_at :: int
  xmb_height_hint :: u32
  xmb_batch_psbt :: bytes
  xmb_assets :: "rpc_pending_asset option list"

record rpc_verbose_batch =
  xvb_batch :: "rpc_minting_batch option"
  xvb_unsealed_assets :: "rpc_unsealed_asset option list"

section \<open>Messages of the universe\<close>

datatype rpc_id = IdAssetId bytes | IdAssetIdStr string | IdGroupKey bytes | IdGroupKeyStr string

record rpc_universe_id =
  xui_id :: "rpc_id option"
  xui_proof_type :: int

record rpc_merkle_sum_node =
  xms_root_hash :: bytes
  xms_root_sum :: int

record rpc_universe_root =
  xur_id :: "rpc_universe_id option"
  xur_mssmt_root :: "rpc_merkle_sum_node option"
  xur_asset_name :: string
  xur_amounts_by_asset_id :: "(string \<times> u64) list"

record rpc_query_root_response =
  xqr_issuance_root :: "rpc_universe_root option"
  xqr_transfer_root :: "rpc_universe_root option"

text \<open>The outpoint of a leaf is its text, or the text of the hash and an \<open>int32\<close> index.\<close>

datatype rpc_leaf_outpoint = OpStr string | Op "(string \<times> u32) option"

datatype rpc_leaf_script_key = ScriptKeyBytes bytes | ScriptKeyStr string

record rpc_asset_key =
  xak_outpoint :: "rpc_leaf_outpoint option"
  xak_script_key :: "rpc_leaf_script_key option"

record rpc_asset_leaf =
  xal_asset :: "rpc_asset option"
  xal_proof :: bytes

record rpc_universe_key =
  xuk_id :: "rpc_universe_id option"
  xuk_leaf_key :: "rpc_asset_key option"

record rpc_asset_proof_response =
  xqp_req :: "rpc_universe_key option"
  xqp_universe_root :: "rpc_universe_root option"
  xqp_universe_inclusion_proof :: bytes
  xqp_asset_leaf :: "rpc_asset_leaf option"
  xqp_multiverse_root :: "rpc_merkle_sum_node option"
  xqp_multiverse_inclusion_proof :: bytes

record rpc_asset_stats_asset =
  xaa_asset_id :: bytes
  xaa_genesis_point :: string
  xaa_total_supply :: int
  xaa_asset_name :: string
  xaa_asset_type :: int
  xaa_genesis_height :: u32
  xaa_genesis_timestamp :: int
  xaa_anchor_point :: string
  xaa_decimal_display :: u32

record rpc_asset_stats_snapshot =
  xss_group_key :: bytes
  xss_group_supply :: int
  xss_group_anchor :: "rpc_asset_stats_asset option"
  xss_asset :: "rpc_asset_stats_asset option"
  xss_total_syncs :: int
  xss_total_proofs :: int

record rpc_global_sync_config =
  xgs_proof_type :: int
  xgs_allow_sync_insert :: bool
  xgs_allow_sync_export :: bool

record rpc_asset_sync_config =
  xac_id :: "rpc_universe_id option"
  xac_allow_sync_insert :: bool
  xac_allow_sync_export :: bool

record rpc_sync_config_response =
  xqc_global_sync_configs :: "rpc_global_sync_config option list"
  xqc_asset_sync_configs :: "rpc_asset_sync_config option list"

record rpc_synced_universe =
  xsu_old_asset_root :: "rpc_universe_root option"
  xsu_new_asset_root :: "rpc_universe_root option"
  xsu_new_asset_leaves :: "rpc_asset_leaf option list"

end
