(* ===== verification/Tap_GrpcCalls.thy ===== *)
theory Tap_GrpcCalls
  imports Tap_GrpcTypes
begin

text \<open>
  The requests of the gRPC backend, the calls that its sub-clients make and the daemon they are made
  to (\<open>grpc/client.go\<close>, \<open>grpc/*_client.go\<close>); the conventions of \<open>Tap_GrpcTypes\<close> hold here too.
\<close>

section \<open>Requests\<close>

datatype rpc_script_key_type = ExplicitType int | AllTypes bool

record rpc_list_asset_request =
  qla_with_witness :: bool
  qla_include_spent :: bool
  qla_include_leased :: bool
  qla_include_unconfirmed_mints :: bool
  qla_min_amount :: u64
  qla_max_amount :: u64
  qla_group_key :: bytes
  qla_anchor_outpoint :: "rpc_out_point option"
  qla_script_key_type :: "rpc_script_key_type option"

datatype rpc_group_by = ByAssetId | ByGroupKey

record rpc_list_balances_request =
  qlb_group_by :: rpc_group_by
  qlb_include_leased :: bool
  qlb_asset_filter :: bytes
  qlb_group_key_filter :: bytes
  qlb_script_key_type :: "rpc_script_key_type option"

record rpc_send_asset_request =
  qsa_tap_addrs :: "string list"
  qsa_fee_rate :: u32
  qsa_label :: string
  qsa_addresses_with_amounts :: "(string \<times> u64) list"
  qsa_skip_proof_courier_ping_check :: bool

record rpc_new_addr_request =
  qna_asset_id :: bytes
  qna_amt :: u64
  qna_group_key :: bytes
  qna_script_key :: "rpc_script_key option"
  qna_internal_key :: "rpc_key_descriptor option"
  qna_tapscript_sibling :: bytes
  qna_proof_courier_addr :: string
  qna_skip_conn_check :: bool
  qna_asset_version :: int
  qna_address_version :: int

datatype rpc_specifier = SpecAssetId bytes | SpecGroupKey bytes

record rpc_burn_asset_request =
  qba_specifier :: rpc_specifier
  qba_amount_to_burn :: u64
  qba_confirmation_text :: string
  qba_note :: string

datatype rpc_meta_key = MetaByAssetId bytes | MetaByHash bytes

record rpc_list_burns_request =
  qbl_asset_id :: bytes
  qbl_tweaked_group_key :: bytes
  qbl_anchor_txid :: bytes

record rpc_register_transfer_request =
  qrt_asset_id :: bytes
  qrt_group_key :: bytes
  qrt_script_key :: bytes
  qrt_outpoint :: rpc_out_point

record rpc_prev_id =
  qpi_outpoint :: rpc_out_point
  qpi_id :: bytes
  qpi_script_key :: bytes

datatype rpc_template = RawTemplate "rpc_prev_id list" "(string \<times> u64) list" | PsbtTemplate bytes

datatype rpc_change_output = AddChange bool | ExistingChange u32

datatype rpc_fees = SatPerVbyte u64 | TargetConf u32

record rpc_commit_request =
  qcv_virtual_psbts :: "bytes list"
  qcv_passive_asset_psbts :: "bytes list"
  qcv_anchor_psbt :: bytes
  qcv_change_output :: "rpc_change_output option"
  qcv_fees :: "rpc_fees option"
  qcv_custom_lock_id :: bytes
  qcv_lock_expiration_seconds :: u64
  qcv_skip_funding :: bool
  qcv_transition_proof_version :: int

record rpc_publish_request =
  qpl_anchor_psbt :: bytes
  qpl_virtual_psbts :: "bytes list"
  qpl_passive_asset_psbts :: "bytes list"
  qpl_change_output_index :: int
  qpl_lnd_locked_utxos :: "rpc_out_point list"
  qpl_skip_anchor_tx_broadcast :: bool
  qpl_label :: string

record rpc_prove_ownership_request =
  qpo_asset_id :: bytes
  qpo_script_key :: bytes
  qpo_outpoint :: rpc_out_point
  qpo_challenge :: bytes

record rpc_mint_asset =
  qma_asset_version :: int
  qma_asset_type :: int
  qma_name :: string
  qma_amount :: u64
  qma_new_grouped_asset :: bool
  qma_grouped_asset :: bool
  qma_group_key :: bytes
  qma_group_anchor :: string
  qma_group_tapscript_root :: bytes
  qma_script_key :: "rpc_script_key option"
  qma_decimal_display :: u32
  qma_asset_meta :: "rpc_asset_meta option"
  qma_group_internal_key :: "rpc_key_descriptor option"
  qma_external_group_key :: "rpc_external_key option"
  qma_enable_supply_commitments :: bool

text \<open>A full tree is the scripts of its leaves, a branch its two hashes.\<close>

datatype rpc_sibling = FullTree "bytes list" | Branch bytes bytes

record rpc_batch_request =
  qbr_short_response :: bool
  qbr_fee_rate :: u32
  qbr_batch_sibling :: "rpc_sibling option"

record rpc_seal_request =
  qsb_short_response :: bool
  qsb_group_witnesses :: "(bytes \<times> bytes list) list"
  qsb_signed_group_virtual_psbts :: "string list"

record rpc_leaf_keys_request =
  qlk_id :: rpc_universe_id
  qlk_offset :: int
  qlk_limit :: int
  qlk_direction :: int

record rpc_asset_stats_query =
  qas_asset_name_filter :: string
  qas_asset_id_filter :: bytes
  qas_asset_type_filter :: int
  qas_sort_by :: int
  qas_offset :: int
  qas_limit :: int
  qas_direction :: int

record rpc_sync_request =
  qsy_universe_host :: string
  qsy_sync_mode :: int
  qsy_sync_targets :: "rpc_universe_id list"

section \<open>Calls\<close>

text \<open>One datatype per service of the daemon, one constructor per RPC.\<close>

datatype taproot_call =
    RpcGetInfo
  | RpcListAssets rpc_list_asset_request
  | RpcListBalances rpc_list_balances_request
  | RpcListTransfers string
  | RpcSendAsset rpc_send_asset_request
  | RpcNewAddr rpc_new_addr_request
  | RpcDecodeAddr string
  | RpcQueryAddrs address_query
  | RpcAddrReceives address_receives_query
  | RpcListUtxos bool "rpc_script_key_type option"
  | RpcListGroups
  | RpcBurnAsset rpc_burn_asset_request
  | RpcListBurns rpc_list_burns_request
  | RpcFetchAssetMeta "rpc_meta_key option"
  | RpcVerifyProof bytes
  | RpcExportProof bytes bytes "rpc_out_point option"
  | RpcUnpackProofFile bytes
  | RpcDecodeProof bytes bool bool
  | RpcRegisterTransfer rpc_register_transfer_request
  | RpcSubscribeReceiveEvents string int
  | RpcSubscribeSendEvents bytes string int

datatype asset_wallet_call =
    RpcNextScriptKey int
  | RpcNextInternalKey int
  | RpcQueryInternalKey bytes
  | RpcQueryScriptKey bytes
  | RpcDeclareScriptKey rpc_script_key
  | RpcFundVirtualPsbt rpc_template
  | RpcSignVirtualPsbt bytes
  | RpcCommitVirtualPsbts rpc_commit_request
  | RpcAnchorVirtualPsbts "bytes list"
  | RpcPublishAndLogTransfer rpc_publish_request
  | RpcProveAssetOwnership rpc_prove_ownership_request
  | RpcVerifyAssetOwnership bytes bytes
  | RpcRemoveUtxoLease rpc_out_point
  | RpcExportBackup int
  | RpcImportBackup bytes

datatype mint_call =
    RpcMintAsset "rpc_mint_asset option" bool
  | RpcFundBatch rpc_batch_request
  | RpcSealBatch rpc_seal_request
  | RpcFinalizeBatch rpc_batch_request
  | RpcCancelBatch
  | RpcListBatches "bytes option" bool
  | RpcSubscribeMintEvents bool

datatype universe_call =
    RpcInsertProof rpc_universe_key bytes
  | RpcAssetRoots asset_root_request
  | RpcQueryAssetRoots rpc_universe_id
  | RpcDeleteAssetRoot rpc_universe_id
  | RpcAssetLeafKeys rpc_leaf_keys_request
  | RpcAssetLeaves rpc_universe_id
  | RpcQueryProof rpc_universe_key
  | RpcUniverseStats
  | RpcQueryAssetStats "rpc_asset_stats_query option"
  | RpcQueryEvents int int
  | RpcListFederationServers
  | RpcAddFederationServer "federation_server list"
  | RpcDeleteFederationServer "federation_server list"
  | RpcSetFederationSyncConfig "rpc_global_sync_config list" "rpc_asset_sync_config list"
  | RpcQueryFederationSyncConfig "rpc_universe_id list"
  | RpcUniverseInfo
  | RpcSyncUniverse rpc_sync_request

datatype grpc_call =
    TaprootAssets taproot_call | AssetWallet asset_wallet_call | Mint mint_call | Universe universe_call

text \<open>A call with the macaroon of its context.\<close>

type_synonym grpc_log = "(string \<times> grpc_call) list"

text \<open>
  The daemon, one stub per service: the response of an RPC may depend on all calls made up to it,
  itself included. The stubs return no nil response without an error; a response that the code still
  compares with nil is an option. \<open>gn_pouch\<close> are the macaroons the client was made with.
\<close>

record taproot_stub =
  gn_get_info :: "grpc_log \<Rightarrow> rpc_get_info_response result"
  gn_list_assets :: "grpc_log \<Rightarrow> rpc_asset option list result"
  gn_list_balances :: "grpc_log \<Rightarrow> rpc_list_balances_response result"
  gn_list_transfers :: "grpc_log \<Rightarrow> rpc_asset_transfer option list result"
  gn_send_asset :: "grpc_log \<Rightarrow> rpc_asset_transfer option result"
  gn_addr :: "grpc_log \<Rightarrow> rpc_addr option result"
  gn_query_addrs :: "grpc_log \<Rightarrow> rpc_addr option list result"
  gn_addr_receives :: "grpc_log \<Rightarrow> rpc_addr_event option list result"
  gn_list_utxos :: "grpc_log \<Rightarrow> (string \<times> rpc_managed_utxo option) list result"
  gn_list_groups :: "grpc_log \<Rightarrow> (string \<times> rpc_grouped_assets option) list result"
  gn_burn_asset :: "grpc_log \<Rightarrow> rpc_burn_asset_response result"
  gn_list_burns :: "grpc_log \<Rightarrow> rpc_asset_burn option list result"
  gn_fetch_asset_meta :: "grpc_log \<Rightarrow> rpc_fetch_asset_meta_response option result"
  gn_verify_proof :: "grpc_log \<Rightarrow> rpc_verify_proof_response result"
  gn_export_proof :: "grpc_log \<Rightarrow> rpc_proof_file result"
  gn_unpack_proof_file :: "grpc_log \<Rightarrow> bytes list result"
  gn_decode_proof :: "grpc_log \<Rightarrow> rpc_decoded_proof option result"
  gn_register_transfer :: "grpc_log \<Rightarrow> rpc_asset option result"

text \<open>RPCs with responses of one type share a function: the log tells them apart.\<close>

record asset_wallet_stub =
  gn_script_key :: "grpc_log \<Rightarrow> rpc_script_key option result"
  gn_internal_key :: "grpc_log \<Rightarrow> rpc_key_descriptor option result"
  gn_fund_virtual_psbt :: "grpc_log \<Rightarrow> rpc_fund_virtual_psbt_response result"
  gn_signed_psbt :: "grpc_log \<Rightarrow> bytes result"
  gn_commit_virtual_psbts :: "grpc_log \<Rightarrow> rpc_commit_virtual_psbts_response option result"
  gn_transfer :: "grpc_log \<Rightarrow> rpc_asset_transfer option result"
  gn_prove_ownership :: "grpc_log \<Rightarrow> bytes result"
  gn_verify_ownership :: "grpc_log \<Rightarrow> rpc_verify_ownership_response option result"
  gn_remove_lease :: "grpc_log \<Rightarrow> unit result"
  gn_export_backup :: "grpc_log \<Rightarrow> bytes result"
  gn_import_backup :: "grpc_log \<Rightarrow> u32 result"

record mint_stub =
  gn_batch :: "grpc_log \<Rightarrow> rpc_minting_batch option result"
  gn_verbose_batch :: "grpc_log \<Rightarrow> rpc_verbose_batch option result"
  gn_cancel_batch :: "grpc_log \<Rightarrow> bytes result"
  gn_list_batches :: "grpc_log \<Rightarrow> rpc_verbose_batch option list result"

record universe_stub =
  gn_insert_proof :: "grpc_log \<Rightarrow> unit option result"
  gn_asset_roots :: "grpc_log \<Rightarrow> (string \<times> rpc_universe_root option) list result"
  gn_query_roots :: "grpc_log \<Rightarrow> rpc_query_root_response result"
  gn_leaf_keys :: "grpc_log \<Rightarrow> rpc_asset_key option list result"
  gn_leaves :: "grpc_log \<Rightarrow> rpc_asset_leaf option list result"
  gn_query_proof :: "grpc_log \<Rightarrow> rpc_asset_proof_response option result"
  gn_stats :: "grpc_log \<Rightarrow> universe_stats result"
  gn_asset_stats :: "grpc_log \<Rightarrow> rpc_asset_stats_snapshot option list result"
  gn_events :: "grpc_log \<Rightarrow> grouped_universe_events option list result"
  gn_servers :: "grpc_log \<Rightarrow> federation_server option list result"
  gn_sync_config :: "grpc_log \<Rightarrow> rpc_sync_config_response result"
  gn_info :: "grpc_log \<Rightarrow> int result"
  gn_sync :: "grpc_log \<Rightarrow> rpc_synced_universe option list result"
  gn_done :: "grpc_log \<Rightarrow> unit result"

record grpc_conn =
  gn_pouch :: pouch
  gn_taproot :: taproot_stub
  gn_wallet :: asset_wallet_stub
  gn_mint :: mint_stub
  gn_universe :: universe_stub

type_synonym 'a grpc = "grpc_log \<Rightarrow> 'a result \<times> grpc_log"

text \<open>\<open>SerializedMacaroon.WithMacaroonAuth\<close> of the macaroon that \<open>NewClient\<close> gives a sub-client.\<close>

definition grpc_macaroon :: "grpc_conn \<Rightarrow> service_mac \<Rightarrow> string" where
  "grpc_macaroon G svc = (case gn_pouch G svc of None \<Rightarrow> [] | Some m \<Rightarrow> m)"

text \<open>
  A method of a sub-client: build the request, call the daemon, convert the response. Nothing is sent
  when the request cannot be built.
\<close>

definition grpc_method ::
    "grpc_conn \<Rightarrow> service_mac \<Rightarrow> grpc_call result \<Rightarrow> (grpc_log \<Rightarrow> 'r result) \<Rightarrow> ('r \<Rightarrow> 'a result) \<Rightarrow> 'a grpc" where
  "grpc_method G svc request respond answer =
     (\<lambda>h. case request of
        Inl e \<Rightarrow> (Inl e, h)
      | Inr c \<Rightarrow> (let h' = h @ [(grpc_macaroon G svc, c)] in (and_then (respond h') answer, h')))"

lemma grpc_method_sent:
  "grpc_method G svc (Inr c) respond answer h =
     (and_then (respond (h @ [(grpc_macaroon G svc, c)])) answer, h @ [(grpc_macaroon G svc, c)])"
  by (simp add: grpc_method_def Let_def)

lemma grpc_method_refused [simp]: "grpc_method G svc (Inl e) respond answer h = (Inl e, h)"
  by (simp add: grpc_method_def)

text \<open>The methods of the sub-clients, by the service they call.\<close>

definition taproot_method ::
    "grpc_conn \<Rightarrow> service_mac \<Rightarrow> taproot_call result \<Rightarrow> (taproot_stub \<Rightarrow> grpc_log \<Rightarrow> 'r result) \<Rightarrow>
      ('r \<Rightarrow> 'a result) \<Rightarrow> 'a grpc" where
  "taproot_method G svc request respond answer =
     grpc_method G svc (and_then request (\<lambda>c. Inr (TaprootAssets c))) (respond (gn_taproot G)) answer"

definition wallet_kit_method ::
    "grpc_conn \<Rightarrow> asset_wallet_call result \<Rightarrow> (asset_wallet_stub \<Rightarrow> grpc_log \<Rightarrow> 'r result) \<Rightarrow>
      ('r \<Rightarrow> 'a result) \<Rightarrow> 'a grpc" where
  "wallet_kit_method G request respond answer =
     grpc_method G WalletKitServiceMac (and_then request (\<lambda>c. Inr (AssetWallet c))) (respond (gn_wallet G)) answer"

definition mint_method ::
    "grpc_conn \<Rightarrow> mint_call result \<Rightarrow> (mint_stub \<Rightarrow> grpc_log \<Rightarrow> 'r result) \<Rightarrow> ('r \<Rightarrow> 'a result) \<Rightarrow> 'a grpc" where
  "mint_method G request respond answer =
     grpc_method G MintServiceMac (and_then request (\<lambda>c. Inr (Mint c))) (respond (gn_mint G)) answer"

definition universe_method ::
    "grpc_conn \<Rightarrow> universe_call result \<Rightarrow> (universe_stub \<Rightarrow> grpc_log \<Rightarrow> 'r result) \<Rightarrow>
      ('r \<Rightarrow> 'a result) \<Rightarrow> 'a grpc" where
  "universe_method G request respond answer =
     grpc_method G UniverseServiceMac (and_then request (\<lambda>c. Inr (Universe c))) (respond (gn_universe G)) answer"

text \<open>\<open>fmt.Errorf("...: %v", err)\<close> keeps the text of the error but not the error.\<close>

definition errorf_text :: "string \<Rightarrow> 'a result \<Rightarrow> 'a result" where
  "errorf_text msg r = wrap_with (\<lambda>e. Plain (msg @ err_text e)) r"

lemma errorf_text_Inr [simp]: "errorf_text msg r = Inr x \<longleftrightarrow> r = Inr x"
  by (simp add: errorf_text_def)

text \<open>A pointer that the code dereferences without a test.\<close>

definition deref :: "'a option \<Rightarrow> 'a result" where
  "deref p = not_nil ''nil pointer dereference'' p"

lemma deref_simps [simp]:
  "deref None = Inl (Plain ''nil pointer dereference'')" "deref (Some x) = Inr x"
  "deref p = Inr x \<longleftrightarrow> p = Some x"
  by (simp_all add: deref_def)

text \<open>Conversions between the integer types of Go.\<close>

definition to_uint8 :: "int \<Rightarrow> byte" where
  "to_uint8 n = word_of_int n"

definition to_int32 :: "int \<Rightarrow> int" where
  "to_int32 n = sint (word_of_int n :: 32 word)"

end
