(* ===== verification/Tap_GrpcMarshal.thy ===== *)
theory Tap_GrpcMarshal
  imports Tap_GrpcCalls
begin

text \<open>
  From the messages of the daemon to the types of the SDK (\<open>grpc/wallet_client.go\<close>,
  \<open>grpc/walletkit_client.go\<close>, \<open>grpc/mint_client.go\<close>, \<open>grpc/event_marshal.go\<close>). Every function has
  the checks of the source in their order.
\<close>

section \<open>Assets\<close>

definition grpc_unmarshal_asset_type :: "int \<Rightarrow> asset_type result" where
  "grpc_unmarshal_asset_type t =
     (if t = 0 then Inr asset_type_normal
      else if t = 1 then Inr asset_type_collectible
      else Inl (Plain ''unknown asset type''))"

definition grpc_unmarshal_issuance_genesis :: "chain_lib \<Rightarrow> rpc_genesis_info option \<Rightarrow> issuance_genesis result" where
  "grpc_unmarshal_issuance_genesis X genesis =
     and_then (not_nil ''nil asset genesis'' genesis) (\<lambda>g.
     if xge_genesis_point g = [] then Inl (Plain ''missing genesis point'')
     else
     and_then (exact_length ''invalid asset ID length'' 32 (xge_asset_id g)) (\<lambda>asset_id.
     if length (xge_meta_hash g) \<notin> {0, 32} then Inl (Plain ''invalid meta hash length'')
     else
     and_then (errorf ''invalid genesis point: '' (new_outpoint_from_str X (xge_genesis_point g))) (\<lambda>first_prev_out.
     and_then (grpc_unmarshal_asset_type (xge_asset_type g)) (\<lambda>ty.
     Inr \<lparr>ig_first_prev_out = first_prev_out, ig_tag = xge_name g,
          ig_meta_hash = (if length (xge_meta_hash g) = 32 then xge_meta_hash g else zero32),
          ig_issuance_id = asset_id, ig_output_index = xge_output_index g, ig_type = ty\<rparr>))))"

text \<open>The anchor outpoint must be the canonical text of the outpoint it parses to.\<close>

definition grpc_anchor_point :: "chain_lib \<Rightarrow> string option \<Rightarrow> outpoint option result" where
  "grpc_anchor_point X anchor =
     (case anchor of
        None \<Rightarrow> Inr None
      | Some raw \<Rightarrow>
          (if raw = [] then Inr None
           else case new_outpoint_from_str X raw of
             Inl _ \<Rightarrow> Inl (Plain ''invalid canonical anchor outpoint'')
           | Inr point \<Rightarrow>
               (if outpoint_string X point \<noteq> raw then Inl (Plain ''invalid canonical anchor outpoint'')
                else Inr (Some point))))"

definition grpc_unmarshal_asset :: "'k lib \<Rightarrow> chain_lib \<Rightarrow> rpc_asset option \<Rightarrow> asset_record result" where
  "grpc_unmarshal_asset L X asset =
     and_then (not_nil ''nil asset'' asset) (\<lambda>a.
     and_then (not_nil ''missing asset genesis'' (xas_asset_genesis a)) (\<lambda>_.
     and_then (exact_length ''invalid script key length'' 33 (xas_script_key a)) (\<lambda>script_key.
     and_then (grpc_unmarshal_issuance_genesis X (xas_asset_genesis a)) (\<lambda>genesis.
     and_then (grpc_anchor_point X (xas_chain_anchor a)) (\<lambda>anchor.
     and_then (asset_ref_from_asset L (ig_issuance_id genesis)
                 (case xas_asset_group a of
                    Some k \<Rightarrow> (if length k = 33 then Some k else None) | None \<Rightarrow> None)) (\<lambda>ref.
     Inr \<lparr>ar_asset_ref = ref, ar_version = to_uint8 (xas_version a), ar_genesis = genesis,
          ar_amount = xas_amount a, ar_lock_time = scast (xas_lock_time a),
          ar_relative_lock_time = scast (xas_relative_lock_time a),
          ar_script_version = ucast (xas_script_version a), ar_script_key = bare_script_key script_key,
          ar_anchor_outpoint = anchor, ar_alt_leaves = []\<rparr>))))))"

definition grpc_unmarshal_balance :: "'k lib \<Rightarrow> chain_lib \<Rightarrow> rpc_asset_balance option \<Rightarrow> balance result" where
  "grpc_unmarshal_balance L X balance =
     and_then (not_nil ''nil asset balance'' balance) (\<lambda>b.
     and_then (when_set (\<lambda>g. grpc_unmarshal_issuance_genesis X (Some g)) (xab_asset_genesis b)) (\<lambda>genesis.
     and_then
       (if xab_group_key b \<noteq> [] \<and>
           (case genesis of None \<Rightarrow> True | Some g \<Rightarrow> ig_type g \<noteq> asset_type_collectible)
        then and_then (exact_length ''invalid group key length'' 33 (xab_group_key b)) (asset_ref_from_group_key L)
        else case genesis of
          None \<Rightarrow> Inl (Plain ''missing asset genesis'')
        | Some g \<Rightarrow> asset_ref_from_asset L (ig_issuance_id g) None) (\<lambda>ref.
     Inr \<lparr>ba_asset_ref = ref, ba_balance = xab_balance b\<rparr>)))"

section \<open>Addresses\<close>

definition grpc_unmarshal_addr :: "'k lib \<Rightarrow> rpc_addr option \<Rightarrow> address result" where
  "grpc_unmarshal_addr L addr =
     and_then (not_nil ''nil address'' addr) (\<lambda>a.
     and_then (grpc_unmarshal_asset_type (xad_asset_type a)) (\<lambda>ty.
     and_then (if length (xad_asset_id a) = 32
               then and_then (errorf ''invalid asset ID: '' (parse_asset_id (xad_asset_id a))) (\<lambda>i. Inr (Some i))
               else Inr None) (\<lambda>asset_id.
     and_then (if length (xad_group_key a) = 33
               then and_then (errorf ''invalid group key: '' (parse_pub_key L (xad_group_key a))) (\<lambda>k. Inr (Some k))
               else Inr None) (\<lambda>group_key.
     and_then (address_ref L asset_id group_key ty) (\<lambda>ref.
     and_then (exact_length ''invalid script key length'' 33 (xad_script_key a)) (\<lambda>script_key.
     and_then (exact_length ''invalid internal key length'' 33 (xad_internal_key a)) (\<lambda>internal_key.
     and_then (exact_length ''invalid taproot output key length'' 32 (xad_taproot_output_key a)) (\<lambda>output_key.
     Inr \<lparr>addr_encoded = xad_encoded a, addr_asset_ref = ref, addr_asset_type = ty, addr_amount = xad_amount a,
          addr_script_key = script_key, addr_internal_key = internal_key,
          addr_tapscript_sibling = xad_tapscript_sibling a, addr_taproot_output_key = output_key,
          addr_proof_courier = xad_proof_courier_addr a,
          addr_asset_version = to_uint8 (xad_asset_version a),
          addr_version = to_uint8 (xad_address_version a)\<rparr>))))))))"

definition grpc_unmarshal_addr_event :: "'k lib \<Rightarrow> rpc_addr_event option \<Rightarrow> address_event result" where
  "grpc_unmarshal_addr_event L event =
     and_then (not_nil ''nil address event'' event) (\<lambda>e.
     and_then (when_set (\<lambda>a. errorf ''invalid address in event: '' (grpc_unmarshal_addr L (Some a))) (xae_addr e)) (\<lambda>addr.
     Inr \<lparr>ae_creation_time = xae_creation_time_unix_seconds e, ae_address = addr,
          ae_status = uint (to_uint8 (xae_status e)), ae_outpoint = xae_outpoint e,
          ae_utxo_amount_sat = xae_utxo_amt_sat e, ae_taproot_sibling = xae_taproot_sibling e,
          ae_confirmation_height = xae_confirmation_height e, ae_has_proof = xae_has_proof e\<rparr>))"

section \<open>Transfers\<close>

text \<open>An empty group key is no group.\<close>

definition grpc_optional_key :: "'k lib \<Rightarrow> string \<Rightarrow> bytes \<Rightarrow> bytes option result" where
  "grpc_optional_key L msg b =
     (if b = [] then Inr None else and_then (errorf msg (parse_pub_key L b)) (\<lambda>k. Inr (Some k)))"

definition grpc_unmarshal_transfer_output ::
    "'k lib \<Rightarrow> chain_lib \<Rightarrow> rpc_transfer_output option \<Rightarrow> transfer_output result" where
  "grpc_unmarshal_transfer_output L X output =
     and_then (deref output) (\<lambda>out.
     and_then (errorf ''invalid output asset type: '' (grpc_unmarshal_asset_type (xto_asset_type out))) (\<lambda>ty.
     and_then (if xto_asset_id out = [] then Inr zero32
               else exact_length ''invalid output asset ID length'' 32 (xto_asset_id out)) (\<lambda>issuance_id.
     and_then (when_set (\<lambda>(point, value).
                 and_then (errorf ''invalid anchor outpoint: '' (new_outpoint_from_str X point)) (\<lambda>op.
                 Inr (op, value))) (xto_anchor out)) (\<lambda>anchor.
     and_then (grpc_optional_key L ''invalid output group key: '' (xto_group_key out)) (\<lambda>group_key.
     Inr \<lparr>to_anchor_outpoint = (case anchor of None \<Rightarrow> zero_outpoint | Some (op, v) \<Rightarrow> op),
          to_issuance_id = issuance_id, to_asset_type = ty,
          to_anchor_value = (case anchor of None \<Rightarrow> 0 | Some (op, v) \<Rightarrow> v),
          to_script_key = (if length (xto_script_key out) = 33 then xto_script_key out else replicate 33 0),
          to_amount = xto_amount out, to_proof_blob = xto_new_proof_blob out, to_alt_leaves = [],
          to_group_key = group_key\<rparr>)))))"

definition grpc_unmarshal_transfer_input ::
    "'k lib \<Rightarrow> chain_lib \<Rightarrow> rpc_transfer_input option \<Rightarrow> transfer_input result" where
  "grpc_unmarshal_transfer_input L X input =
     and_then (not_nil ''nil transfer input'' input) (\<lambda>i.
     and_then (exact_length ''invalid input asset ID length'' 32 (xti_asset_id i)) (\<lambda>asset_id.
     and_then (exact_length ''invalid input script key length'' 33 (xti_script_key i)) (\<lambda>script_key.
     and_then (errorf ''invalid input asset type: '' (grpc_unmarshal_asset_type (xti_asset_type i))) (\<lambda>ty.
     and_then (errorf ''invalid anchor point: '' (new_outpoint_from_str X (xti_anchor_point i))) (\<lambda>point.
     and_then (grpc_optional_key L ''invalid input group key: '' (xti_group_key i)) (\<lambda>group_key.
     Inr \<lparr>ti_anchor_point = point, ti_issuance_id = asset_id, ti_asset_type = ty, ti_script_key = script_key,
          ti_amount = xti_amount i, ti_group_key = group_key\<rparr>))))))"

definition grpc_unmarshal_asset_transfer ::
    "'k lib \<Rightarrow> chain_lib \<Rightarrow> rpc_asset_transfer option \<Rightarrow> asset_transfer result" where
  "grpc_unmarshal_asset_transfer L X transfer =
     and_then (not_nil ''nil transfer'' transfer) (\<lambda>t.
     and_then (decode_all (grpc_unmarshal_transfer_output L X) (xat_outputs t)) (\<lambda>outputs.
     and_then (decode_all (grpc_unmarshal_transfer_input L X) (xat_inputs t)) (\<lambda>inputs.
     let hash = xat_anchor_tx_hash t;
         (block_hash, block_hash_str) =
           (case xat_anchor_tx_block_hash t of
              None \<Rightarrow> (zero32, []) | Some (h, s) \<Rightarrow> (if length h = 32 then h else zero32, s)) in
     Inr \<lparr>at_timestamp = xat_transfer_timestamp t, at_txid = (if length hash = 32 then hash else zero32),
          at_anchor_txid = (if length hash = 32 then cl_hash_string X hash else []),
          at_height_hint = xat_anchor_tx_height_hint t, at_chain_fees = xat_anchor_tx_chain_fees t,
          at_inputs = inputs, at_outputs = outputs, at_block_hash = block_hash,
          at_block_hash_str = block_hash_str, at_block_height = xat_anchor_tx_block_height t,
          at_label = xat_label t, at_anchor_tx = xat_anchor_tx t\<rparr>)))"

section \<open>UTXOs, groups and burns\<close>

definition grpc_unmarshal_managed_utxo :: "'k lib \<Rightarrow> chain_lib \<Rightarrow> rpc_managed_utxo option \<Rightarrow> managed_utxo result" where
  "grpc_unmarshal_managed_utxo L X utxo =
     and_then (not_nil ''nil managed utxo'' utxo) (\<lambda>u.
     and_then (errorf ''invalid outpoint: '' (new_outpoint_from_str X (xmu_out_point u))) (\<lambda>outpoint.
     and_then (errorf ''invalid internal key: '' (parse_pub_key L (xmu_internal_key u))) (\<lambda>internal_key.
     and_then (errorf ''invalid taproot asset root: '' (parse_hash (xmu_taproot_asset_root u))) (\<lambda>taproot_root.
     and_then (errorf ''invalid merkle root: '' (parse_hash (xmu_merkle_root u))) (\<lambda>merkle_root.
     and_then (decode_all (\<lambda>a. errorf ''failed to unmarshal asset: '' (grpc_unmarshal_asset L X a)) (xmu_assets u)) (\<lambda>assets.
     Inr \<lparr>mu_out_point = outpoint, mu_amt_sat = xmu_amt_sat u, mu_internal_key = internal_key,
          mu_taproot_asset_root = taproot_root, mu_merkle_root = merkle_root, mu_assets = map Some assets,
          mu_lease_owner = xmu_lease_owner u, mu_lease_expiry_unix = max (xmu_lease_expiry_unix u) 0\<rparr>))))))"

definition grpc_unmarshal_group_member :: "string \<Rightarrow> rpc_asset_human_readable option \<Rightarrow> asset_group_member result" where
  "grpc_unmarshal_group_member group_ref asset =
     and_then (not_nil ''nil asset in group'' asset) (\<lambda>a.
     and_then (errorf ''invalid asset ID: '' (parse_asset_id (xah_id a))) (\<lambda>asset_id.
     and_then (errorf ''invalid meta hash: '' (parse_hash (xah_meta_hash a))) (\<lambda>meta_hash.
     and_then (grpc_unmarshal_asset_type (xah_type a)) (\<lambda>ty.
     Inr \<lparr>gm_asset_ref = group_ref, gm_issuance_id = asset_id, gm_amount = xah_amount a,
          gm_lock_time = xah_lock_time a, gm_relative_lock_time = xah_relative_lock_time a, gm_tag = xah_tag a,
          gm_meta_hash = meta_hash, gm_type = ty, gm_version = to_uint8 (xah_version a)\<rparr>))))"

definition grpc_unmarshal_asset_group_record ::
    "'k lib \<Rightarrow> string \<Rightarrow> rpc_grouped_assets option \<Rightarrow> asset_group_record result" where
  "grpc_unmarshal_asset_group_record L group_key_hex assets =
     and_then (not_nil ''nil grouped assets'' assets) (\<lambda>g.
     and_then (errorf ''invalid group key: '' (parse_group_ref_key L group_key_hex)) (\<lambda>group_key.
     and_then (asset_ref_from_group_key L group_key) (\<lambda>group_ref.
     and_then (decode_all (grpc_unmarshal_group_member group_ref) g) (\<lambda>members.
     Inr \<lparr>gr_asset_ref = group_ref, gr_members = members\<rparr>))))"

definition grpc_unmarshal_burn_asset_type :: "int \<Rightarrow> asset_type result" where
  "grpc_unmarshal_burn_asset_type t =
     (if t = 0 then Inr asset_type_normal
      else if t = 1 then Inr asset_type_collectible
      else Inl (Plain ''unknown burn asset type''))"

definition grpc_unmarshal_burn_record :: "'k lib \<Rightarrow> rpc_asset_burn option \<Rightarrow> burn_record result" where
  "grpc_unmarshal_burn_record L burn =
     and_then (not_nil ''nil asset burn'' burn) (\<lambda>b.
     and_then (errorf ''invalid asset ID: '' (parse_asset_id (xbu_asset_id b))) (\<lambda>asset_id.
     and_then (errorf ''invalid anchor txid: '' (parse_hash (xbu_anchor_txid b))) (\<lambda>txid.
     and_then (grpc_unmarshal_burn_asset_type (xbu_asset_type b)) (\<lambda>ty.
     if ty = asset_type_collectible \<and> xbu_amount b \<noteq> 1 then Inl (Plain ''invalid collectible burn amount'')
     else
     and_then (grpc_optional_key L ''invalid tweaked group key: '' (xbu_tweaked_group_key b)) (\<lambda>group_key.
     and_then (case group_key of
                 Some k \<Rightarrow> (if ty = asset_type_collectible
                           then and_then (asset_ref_from_group_key L k) (\<lambda>r. Inr (Some r)) else Inr None)
               | None \<Rightarrow> Inr None) (\<lambda>collection_ref.
     and_then (asset_ref_from_typed_asset L asset_id group_key ty) (\<lambda>ref.
     Inr \<lparr>bn_note = xbu_note b, bn_asset_ref = ref, bn_collection_ref = collection_ref, bn_type = ty,
          bn_issuance_id = asset_id, bn_amount = xbu_amount b, bn_anchor_txid = txid\<rparr>)))))))"

definition grpc_unmarshal_fetch_asset_meta_response :: "rpc_fetch_asset_meta_response option \<Rightarrow> asset_meta result" where
  "grpc_unmarshal_fetch_asset_meta_response resp =
     and_then (not_nil ''nil asset meta response'' resp) (\<lambda>r.
     and_then (errorf ''invalid meta hash: '' (parse_hash (xfm_meta_hash r))) (\<lambda>hash.
     Inr \<lparr>am_data = xfm_data r, am_type = to_uint8 (xfm_type r), am_meta_hash = hash,
          am_unknown_odd_types = map_of (rev (xfm_unknown_odd_types r)),
          am_decimal_display = xfm_decimal_display r, am_universe_commitments = xfm_universe_commitments r,
          am_canonical_universe_urls = xfm_canonical_universe_urls r,
          am_delegation_key = xfm_delegation_key r\<rparr>))"

section \<open>Proofs\<close>

text \<open>The code compares the outpoint, the asset ID, and the key byte by byte.\<close>

definition grpc_is_zero_prev_id :: "outpoint \<Rightarrow> bytes \<Rightarrow> bytes \<Rightarrow> bool" where
  "grpc_is_zero_prev_id outpoint asset_id script_key \<longleftrightarrow>
     outpoint = zero_outpoint \<and> asset_id = zero32 \<and> length script_key = 33 \<and> list_all (\<lambda>b. b = 0) script_key"

definition grpc_unmarshal_prev_witness ::
    "'k lib \<Rightarrow> chain_lib \<Rightarrow> bool \<Rightarrow> rpc_prev_witness option \<Rightarrow> prev_id list result" where
  "grpc_unmarshal_prev_witness L X genesis_reveal witness =
     and_then (not_nil ''missing prev_id for witness'' witness) (\<lambda>w.
     and_then (not_nil ''missing prev_id for witness'' (xpw_prev_id w)) (\<lambda>prev.
     and_then (errorf ''invalid prev_id outpoint for witness: '' (new_outpoint_from_str X (xpi_anchor_point prev))) (\<lambda>op.
     and_then (errorf ''invalid prev_id asset ID for witness: '' (parse_asset_id (xpi_asset_id prev))) (\<lambda>asset_id.
     if grpc_is_zero_prev_id op asset_id (xpi_script_key prev)
     then (if \<not> genesis_reveal \<and> \<not> xpw_split_commitment w
           then Inl (Plain ''zero prev_id is only valid for issuance or split witness'') else Inr [])
     else
     and_then (errorf ''invalid prev_id script key for witness: '' (parse_pub_key L (xpi_script_key prev))) (\<lambda>script_key.
     Inr [\<lparr>pid_outpoint = op, pid_issuance_id = asset_id, pid_script_key = script_key\<rparr>])))))"

text \<open>
  The reference is first made without a group and made again when the asset has one; the zero
  outpoint stands for a missing anchor.
\<close>

definition grpc_unmarshal_decoded_proof :: "'k lib \<Rightarrow> chain_lib \<Rightarrow> rpc_decoded_proof option \<Rightarrow> decoded_proof result" where
  "grpc_unmarshal_decoded_proof L X decoded =
     and_then (not_nil ''nil decoded proof'' decoded) (\<lambda>d.
     and_then (not_nil ''nil proof asset'' (xdp_asset d)) (\<lambda>a.
     and_then (not_nil ''nil proof asset genesis'' (xpa_asset_genesis a)) (\<lambda>g.
     and_then (errorf ''invalid asset ID: '' (parse_asset_id (xge_asset_id g))) (\<lambda>asset_id.
     and_then (errorf ''invalid asset type: '' (grpc_unmarshal_asset_type (xge_asset_type g))) (\<lambda>ty.
     and_then (errorf ''invalid script key: '' (parse_pub_key L (xpa_script_key a))) (\<lambda>script_key.
     and_then (asset_ref_from_typed_asset L asset_id None ty) (\<lambda>ref0.
     and_then (case xpa_chain_anchor a of
                 None \<Rightarrow> Inr zero_outpoint
               | Some point \<Rightarrow> errorf ''invalid anchor outpoint: '' (new_outpoint_from_str X point)) (\<lambda>outpoint.
     and_then (case xpa_asset_group a of
                 None \<Rightarrow> Inr ref0
               | Some k \<Rightarrow>
                   (if k = [] then Inr ref0
                    else and_then (errorf ''invalid group key: '' (parse_pub_key L k)) (\<lambda>group_key.
                         asset_ref_from_typed_asset L asset_id (Some group_key) ty))) (\<lambda>ref.
     and_then (if xdp_alt_leaves d = [] then Inr []
               else errorf ''decode alt leaves: '' (decode_alt_leaves (xdp_alt_leaves d))) (\<lambda>alt_leaves.
     and_then (decode_all (grpc_unmarshal_prev_witness L X (xdp_genesis_reveal d)) (xpa_prev_witnesses a)) (\<lambda>prev_ids.
     Inr \<lparr>dp_proof_at_depth = xdp_proof_at_depth d, dp_number_of_proofs = xdp_number_of_proofs d,
          dp_asset_ref = ref, dp_issuance_id = asset_id, dp_script_key = script_key, dp_amount = xpa_amount a,
          dp_outpoint = outpoint, dp_alt_leaves = alt_leaves, dp_prev_ids = concat prev_ids,
          dp_is_issuance = xdp_genesis_reveal d\<rparr>)))))))))))"

section \<open>Keys and outpoints\<close>

definition grpc_unmarshal_key_descriptor :: "'k lib \<Rightarrow> rpc_key_descriptor option \<Rightarrow> key_descriptor result" where
  "grpc_unmarshal_key_descriptor L desc =
     and_then (deref desc) (\<lambda>d.
     and_then (errorf ''invalid raw key bytes: '' (parse_pub_key L (xkd_raw_key_bytes d))) (\<lambda>k.
     Inr \<lparr>kd_raw_key_bytes = k,
          kd_locator = (case xkd_key_loc d of
             None \<Rightarrow> \<lparr>kl_family = 0, kl_index = 0\<rparr>
           | Some (family, index) \<Rightarrow> \<lparr>kl_family = family, kl_index = index\<rparr>)\<rparr>))"

definition grpc_unmarshal_script_key :: "'k lib \<Rightarrow> rpc_script_key option \<Rightarrow> script_key result" where
  "grpc_unmarshal_script_key L key =
     and_then (deref key) (\<lambda>k.
     and_then (errorf ''invalid script key public key: '' (parse_taproot_pub_key L (xsk_pub_key k))) (\<lambda>pub.
     and_then (when_set (\<lambda>d. grpc_unmarshal_key_descriptor L (Some d)) (xsk_key_desc k)) (\<lambda>desc.
     Inr \<lparr>sk_pub_key = pub, sk_key_desc = (case desc of None \<Rightarrow> zero_key_descriptor | Some d \<Rightarrow> d),
          sk_tap_tweak = xsk_tap_tweak k\<rparr>)))"

definition grpc_unmarshal_out_point :: "rpc_out_point option \<Rightarrow> outpoint result" where
  "grpc_unmarshal_out_point op =
     and_then (not_nil ''nil outpoint'' op) (\<lambda>o1.
     and_then (exact_length ''invalid txid length'' 32 (xop_txid o1)) (\<lambda>txid.
     Inr \<lparr>op_txid = txid, op_index = xop_output_index o1\<rparr>))"

end
