(* ===== verification/Tap_GrpcClient.thy ===== *)
theory Tap_GrpcClient
  imports Tap_GrpcMarshal
begin

text \<open>
  The wallet and proof clients of the gRPC backend (\<open>grpc/wallet_client.go\<close>,
  \<open>grpc/proof_client.go\<close>). A method is the request it builds, the RPC it makes and what it makes of
  the response, put together by \<open>taproot_method\<close>.
\<close>

section \<open>Assets\<close>

definition grpc_get_info :: "grpc_conn \<Rightarrow> node_info grpc" where
  "grpc_get_info G =
     taproot_method G AdminServiceMac (Inr RpcGetInfo) gn_get_info
       (\<lambda>resp. and_then (hex_decode (xgi_lnd_identity_pubkey resp)) (\<lambda>pub.
          Inr \<lparr>ni_version = xgi_version resp, ni_lnd_version = xgi_lnd_version resp, ni_network = xgi_network resp,
               ni_lnd_identity_pubkey = copy_into 33 pub, ni_node_alias = xgi_node_alias resp,
               ni_block_height = xgi_block_height resp, ni_block_hash = zero32,
               ni_synced_to_chain = xgi_sync_to_chain resp\<rparr>))"

definition rpc_out_point_of :: "outpoint \<Rightarrow> rpc_out_point" where
  "rpc_out_point_of op = \<lparr>xop_txid = op_txid op, xop_output_index = op_index op\<rparr>"

definition grpc_marshal_script_key_type_query ::
    "script_key_type_query option \<Rightarrow> rpc_script_key_type option result" where
  "grpc_marshal_script_key_type_query query =
     and_then (script_key_type_query_validate query) (\<lambda>_.
       case query of
         None \<Rightarrow> Inr None
       | Some q \<Rightarrow>
           (case sq_explicit_type q of
              Some t \<Rightarrow> Inr (Some (ExplicitType (uint t)))
            | None \<Rightarrow> Inr (if sq_all_types q then Some (AllTypes True) else None)))"

definition empty_list_asset_request :: rpc_list_asset_request where
  "empty_list_asset_request =
     \<lparr>qla_with_witness = False, qla_include_spent = False, qla_include_leased = False,
      qla_include_unconfirmed_mints = False, qla_min_amount = 0, qla_max_amount = 0, qla_group_key = [],
      qla_anchor_outpoint = None, qla_script_key_type = None\<rparr>"

text \<open>The field of an optional identifier; unset it is empty.\<close>

definition bytes_or_empty :: "bytes option \<Rightarrow> bytes" where
  "bytes_or_empty p = (case p of None \<Rightarrow> [] | Some b \<Rightarrow> b)"

definition marshal_list_asset_records_request ::
    "'k lib \<Rightarrow> list_assets_request option \<Rightarrow> (rpc_list_asset_request \<times> string option) result" where
  "marshal_list_asset_records_request L request =
     (case request of
        None \<Rightarrow> Inr (empty_list_asset_request, None)
      | Some req \<Rightarrow>
          and_then (case lr_asset_ref req of
                      None \<Rightarrow> Inr []
                    | Some ref \<Rightarrow>
                        and_then (asset_ref_validate L ref) (\<lambda>_. Inr (bytes_or_empty (ref_group_key L ref)))) (\<lambda>group_key.
          and_then (grpc_marshal_script_key_type_query (lr_script_key_type req)) (\<lambda>script_key_type.
          Inr (\<lparr>qla_with_witness = lr_with_witness req, qla_include_spent = lr_include_spent req,
                qla_include_leased = lr_include_leased req,
                qla_include_unconfirmed_mints = lr_include_unconfirmed_mints req,
                qla_min_amount = lr_min_amount req, qla_max_amount = lr_max_amount req, qla_group_key = group_key,
                qla_anchor_outpoint = map_option rpc_out_point_of (lr_anchor_outpoint req),
                qla_script_key_type = script_key_type\<rparr>, lr_asset_ref req))))"

definition grpc_asset_record_matches_ref :: "'k lib \<Rightarrow> asset_record \<Rightarrow> string \<Rightarrow> bool" where
  "grpc_asset_record_matches_ref L asset ref \<longleftrightarrow>
     asset_ref_equivalent L (ar_asset_ref asset) ref \<or>
     (case ref_asset_id L ref of None \<Rightarrow> False | Some i \<Rightarrow> ig_issuance_id (ar_genesis asset) = i)"

definition grpc_list_asset_records ::
    "'k lib \<Rightarrow> chain_lib \<Rightarrow> grpc_conn \<Rightarrow> list_assets_request option \<Rightarrow> asset_record list grpc" where
  "grpc_list_asset_records L X G req =
     (case marshal_list_asset_records_request L req of
        Inl e \<Rightarrow> (\<lambda>h. (Inl e, h))
      | Inr (rpc_req, asset_ref_filter) \<Rightarrow>
          taproot_method G AdminServiceMac (Inr (RpcListAssets rpc_req)) gn_list_assets
            (\<lambda>resp. and_then (decode_all (grpc_unmarshal_asset L X) resp) (\<lambda>assets.
               Inr (case asset_ref_filter of
                      None \<Rightarrow> assets
                    | Some ref \<Rightarrow> filter (\<lambda>a. grpc_asset_record_matches_ref L a ref) assets))))"

section \<open>Balances\<close>

definition grpc_marshal_list_balances_request ::
    "'k lib \<Rightarrow> list_balances_request option \<Rightarrow> rpc_list_balances_request result" where
  "grpc_marshal_list_balances_request L request =
     (case request of
        None \<Rightarrow> Inr \<lparr>qlb_group_by = ByAssetId, qlb_include_leased = False, qlb_asset_filter = [],
                    qlb_group_key_filter = [], qlb_script_key_type = None\<rparr>
      | Some req \<Rightarrow>
          and_then (grpc_marshal_script_key_type_query (lb_script_key_type req)) (\<lambda>script_key_type.
          Inr \<lparr>qlb_group_by = ByAssetId, qlb_include_leased = lb_include_leased req,
               qlb_asset_filter = (case lb_asset_ref req of
                  None \<Rightarrow> [] | Some ref \<Rightarrow> bytes_or_empty (ref_asset_id L ref)),
               qlb_group_key_filter = [], qlb_script_key_type = script_key_type\<rparr>))"

definition grpc_group_balance_request ::
    "'k lib \<Rightarrow> list_balances_request \<Rightarrow> string \<Rightarrow> rpc_list_balances_request result" where
  "grpc_group_balance_request L req ref =
     and_then (not_nil ''group balance requires a group asset ref'' (ref_group_key L ref)) (\<lambda>k.
     and_then (grpc_marshal_script_key_type_query (lb_script_key_type req)) (\<lambda>script_key_type.
     Inr \<lparr>qlb_group_by = ByGroupKey, qlb_include_leased = lb_include_leased req, qlb_asset_filter = [],
          qlb_group_key_filter = k, qlb_script_key_type = script_key_type\<rparr>))"

definition grpc_group_balance_answer ::
    "'k lib \<Rightarrow> string \<Rightarrow> rpc_list_balances_response \<Rightarrow> list_balances_response result" where
  "grpc_group_balance_answer L ref resp =
     (let none = \<lparr>lp_balances = Map.empty, lp_unconfirmed_transfers = xlb_unconfirmed_transfers resp\<rparr> in
      case map_of (xlb_asset_group_balances resp) (hex_encode (bytes_or_empty (ref_group_key L ref))) of
        Some (Some amount) \<Rightarrow>
          Inr (if amount = 0 then none
               else none\<lparr>lp_balances := [ref \<mapsto> \<lparr>ba_asset_ref = ref, ba_balance = amount\<rparr>]\<rparr>)
      | _ \<Rightarrow> Inr none)"

text \<open>One round of the loop over the balances by asset ID: the sum of a reference wraps at 64 bits.\<close>

definition grpc_balance_step ::
    "'k lib \<Rightarrow> chain_lib \<Rightarrow> (string \<rightharpoonup> balance) \<Rightarrow> rpc_asset_balance option \<Rightarrow> (string \<rightharpoonup> balance) result" where
  "grpc_balance_step L X balances entry =
     and_then (errorf ''balance: '' (grpc_unmarshal_balance L X entry)) (\<lambda>row.
     case balances (ba_asset_ref row) of
       None \<Rightarrow> Inr (balances(ba_asset_ref row \<mapsto> row))
     | Some b \<Rightarrow> Inr (balances(ba_asset_ref row \<mapsto> b\<lparr>ba_balance := ba_balance b + ba_balance row\<rparr>)))"

definition grpc_balances_answer ::
    "'k lib \<Rightarrow> chain_lib \<Rightarrow> rpc_list_balances_response \<Rightarrow> list_balances_response result" where
  "grpc_balances_answer L X resp =
     and_then (fold_res (grpc_balance_step L X) Map.empty (map snd (xlb_asset_balances resp))) (\<lambda>balances.
     Inr \<lparr>lp_balances = balances, lp_unconfirmed_transfers = xlb_unconfirmed_transfers resp\<rparr>)"

definition grpc_list_group_balance ::
    "'k lib \<Rightarrow> grpc_conn \<Rightarrow> list_balances_request \<Rightarrow> string \<Rightarrow> list_balances_response grpc" where
  "grpc_list_group_balance L G req ref =
     taproot_method G AdminServiceMac (and_then (grpc_group_balance_request L req ref) (\<lambda>r. Inr (RpcListBalances r)))
       gn_list_balances (grpc_group_balance_answer L ref)"

definition grpc_list_balances ::
    "'k lib \<Rightarrow> chain_lib \<Rightarrow> grpc_conn \<Rightarrow> list_balances_request option \<Rightarrow> list_balances_response grpc" where
  "grpc_list_balances L X G request =
     (case group_filter L request of
        Some (req, ref) \<Rightarrow> grpc_list_group_balance L G req ref
      | None \<Rightarrow> taproot_method G AdminServiceMac
          (and_then (grpc_marshal_list_balances_request L request) (\<lambda>r. Inr (RpcListBalances r)))
          gn_list_balances (grpc_balances_answer L X))"

section \<open>Transfers\<close>

definition grpc_list_transfers ::
    "'k lib \<Rightarrow> chain_lib \<Rightarrow> grpc_conn \<Rightarrow> string option \<Rightarrow> asset_transfer list grpc" where
  "grpc_list_transfers L X G anchor_txid =
     taproot_method G AdminServiceMac
       (Inr (RpcListTransfers (case anchor_txid of None \<Rightarrow> [] | Some t \<Rightarrow> t)))
       gn_list_transfers (decode_all (grpc_unmarshal_asset_transfer L X))"

text \<open>The loop that looks whether all recipients embed their amount and whether any does.\<close>

definition embedded_amounts :: "recipient list \<Rightarrow> bool \<times> bool" where
  "embedded_amounts recipients =
     foldl (\<lambda>(all_embedded, any_embedded) r.
       if snd (recipient_amount r) then (False, any_embedded) else (all_embedded, True)) (True, False) recipients"

definition grpc_marshal_send_asset_request :: "send_asset_request option \<Rightarrow> rpc_send_asset_request result" where
  "grpc_marshal_send_asset_request request =
     (case request of
        None \<Rightarrow> Inr \<lparr>qsa_tap_addrs = [], qsa_fee_rate = 0, qsa_label = [], qsa_addresses_with_amounts = [],
                    qsa_skip_proof_courier_ping_check = False\<rparr>
      | Some req \<Rightarrow>
          and_then (fee_rate_sat_per_kweight (sr_fee_rate req)) (\<lambda>fee_rate.
          let rpc_req = \<lparr>qsa_tap_addrs = [], qsa_fee_rate = fee_rate, qsa_label = sr_label req,
                qsa_addresses_with_amounts = [], qsa_skip_proof_courier_ping_check = sr_skip_ping req\<rparr>;
              (all_embedded, any_embedded) = embedded_amounts (sr_recipients req) in
          if sr_recipients req = [] then Inr rpc_req
          else if \<not> all_embedded \<and> any_embedded then Inl (Sentinel ErrMixedRecipientAmounts)
          else if all_embedded then Inr (rpc_req\<lparr>qsa_tap_addrs := map rc_address (sr_recipients req)\<rparr>)
          else Inr (rpc_req\<lparr>qsa_addresses_with_amounts :=
            map (\<lambda>r. (rc_address r, fst (recipient_amount r))) (sr_recipients req)\<rparr>)))"

definition grpc_send_asset ::
    "'k lib \<Rightarrow> chain_lib \<Rightarrow> grpc_conn \<Rightarrow> send_asset_request option \<Rightarrow> asset_transfer grpc" where
  "grpc_send_asset L X G req =
     taproot_method G AdminServiceMac (and_then (grpc_marshal_send_asset_request req) (\<lambda>r. Inr (RpcSendAsset r)))
       gn_send_asset (grpc_unmarshal_asset_transfer L X)"

section \<open>Addresses\<close>

text \<open>\<open>int32(uint32)\<close> keeps the bits.\<close>

definition rpc_key_descriptor_of :: "key_descriptor \<Rightarrow> rpc_key_descriptor" where
  "rpc_key_descriptor_of desc =
     \<lparr>xkd_raw_key_bytes = kd_raw_key_bytes desc,
      xkd_key_loc = Some (kl_family (kd_locator desc), kl_index (kd_locator desc))\<rparr>"

text \<open>The key descriptor is sent when its key is not the zero key.\<close>

definition rpc_address_script_key :: "script_key \<Rightarrow> rpc_script_key" where
  "rpc_address_script_key key =
     \<lparr>xsk_pub_key = sk_pub_key key,
      xsk_key_desc = (if kd_raw_key_bytes (sk_key_desc key) \<noteq> replicate 33 0
                      then Some (rpc_key_descriptor_of (sk_key_desc key)) else None),
      xsk_tap_tweak = sk_tap_tweak key\<rparr>"

definition grpc_marshal_new_addr_request ::
    "'k lib \<Rightarrow> new_address_request option \<Rightarrow> bool \<Rightarrow> rpc_new_addr_request result" where
  "grpc_marshal_new_addr_request L request skip_conn_check =
     (case request of
        None \<Rightarrow> Inr \<lparr>qna_asset_id = [], qna_amt = 0, qna_group_key = [], qna_script_key = None,
                    qna_internal_key = None, qna_tapscript_sibling = [], qna_proof_courier_addr = [],
                    qna_skip_conn_check = False, qna_asset_version = 0, qna_address_version = 0\<rparr>
      | Some req \<Rightarrow>
          and_then (if asset_ref_is_zero (na_asset_ref req) then Inr ([], [])
                    else and_then (asset_ref_validate L (na_asset_ref req)) (\<lambda>_.
                         Inr (bytes_or_empty (ref_asset_id L (na_asset_ref req)),
                              bytes_or_empty (ref_group_key L (na_asset_ref req))))) (\<lambda>(asset_id, group_key).
          Inr \<lparr>qna_asset_id = asset_id, qna_amt = na_amount req, qna_group_key = group_key,
               qna_script_key = map_option rpc_address_script_key (na_script_key req),
               qna_internal_key = map_option rpc_key_descriptor_of (na_internal_key req),
               qna_tapscript_sibling = na_tapscript_sibling req,
               qna_proof_courier_addr = na_proof_courier_addr req, qna_skip_conn_check = skip_conn_check,
               qna_asset_version = (case na_asset_version req of None \<Rightarrow> 0 | Some v \<Rightarrow> uint v),
               qna_address_version = (case na_address_version req of None \<Rightarrow> 0 | Some v \<Rightarrow> uint v)\<rparr>))"

definition grpc_new_addr ::
    "'k lib \<Rightarrow> grpc_conn \<Rightarrow> new_address_request option \<Rightarrow> bool \<Rightarrow> address grpc" where
  "grpc_new_addr L G request skip_conn_check =
     taproot_method G AdminServiceMac
       (and_then (grpc_marshal_new_addr_request L request skip_conn_check) (\<lambda>r. Inr (RpcNewAddr r)))
       gn_addr (grpc_unmarshal_addr L)"

definition grpc_decode_addr :: "'k lib \<Rightarrow> grpc_conn \<Rightarrow> string \<Rightarrow> address grpc" where
  "grpc_decode_addr L G addr =
     taproot_method G AdminServiceMac (Inr (RpcDecodeAddr addr)) gn_addr (grpc_unmarshal_addr L)"

definition grpc_query_addrs :: "'k lib \<Rightarrow> grpc_conn \<Rightarrow> address_query option \<Rightarrow> address list grpc" where
  "grpc_query_addrs L G query =
     taproot_method G AdminServiceMac
       (Inr (RpcQueryAddrs (case query of
          None \<Rightarrow> \<lparr>aq_created_after = 0, aq_created_before = 0, aq_limit = 0, aq_offset = 0\<rparr> | Some q \<Rightarrow> q)))
       gn_query_addrs (decode_all (grpc_unmarshal_addr L))"

definition grpc_addr_receives ::
    "'k lib \<Rightarrow> grpc_conn \<Rightarrow> address_receives_query option \<Rightarrow> address_event list grpc" where
  "grpc_addr_receives L G query =
     taproot_method G AdminServiceMac
       (Inr (RpcAddrReceives (case query of
          None \<Rightarrow> \<lparr>rv_filter_addr = [], rv_filter_status = 0, rv_start_timestamp = 0, rv_end_timestamp = 0,
                  rv_offset = 0, rv_limit = 0, rv_direction = 0\<rparr>
        | Some q \<Rightarrow> q)))
       gn_addr_receives (decode_all (grpc_unmarshal_addr_event L))"

section \<open>UTXOs, groups and burns\<close>

text \<open>The result is the list of the entries of the map.\<close>

definition grpc_list_utxos ::
    "'k lib \<Rightarrow> chain_lib \<Rightarrow> grpc_conn \<Rightarrow> list_utxos_request option \<Rightarrow> (string \<times> managed_utxo) list grpc" where
  "grpc_list_utxos L X G request =
     taproot_method G AdminServiceMac
       (case request of
          None \<Rightarrow> Inr (RpcListUtxos False None)
        | Some req \<Rightarrow>
            and_then (grpc_marshal_script_key_type_query (lu_script_key_type req)) (\<lambda>script_key_type.
            Inr (RpcListUtxos (lu_include_leased req) script_key_type)))
       gn_list_utxos
       (decode_all (\<lambda>(k, v). and_then (errorf ''failed to unmarshal utxo: '' (grpc_unmarshal_managed_utxo L X v))
          (\<lambda>u. Inr (k, u))))"

definition grpc_list_asset_groups :: "'k lib \<Rightarrow> grpc_conn \<Rightarrow> asset_group_record list grpc" where
  "grpc_list_asset_groups L G =
     taproot_method G AdminServiceMac (Inr RpcListGroups) gn_list_groups
       (decode_all (\<lambda>(k, v). errorf ''failed to unmarshal group: '' (grpc_unmarshal_asset_group_record L k v)))"

definition grpc_marshal_asset_specifier :: "'k lib \<Rightarrow> string \<Rightarrow> rpc_specifier result" where
  "grpc_marshal_asset_specifier L ref =
     (if asset_ref_is_zero ref then Inl (Plain ''asset ref is required'')
      else and_then (asset_ref_validate L ref) (\<lambda>_.
        case ref_group_key L ref of
          Some k \<Rightarrow> Inr (SpecGroupKey k)
        | None \<Rightarrow>
            (case ref_asset_id L ref of
               Some i \<Rightarrow> Inr (SpecAssetId i)
             | None \<Rightarrow> Inl (Plain ''asset ref must contain an asset ID or group key''))))"

definition grpc_marshal_burn_asset_request :: "'k lib \<Rightarrow> burn_asset_request \<Rightarrow> rpc_burn_asset_request result" where
  "grpc_marshal_burn_asset_request L req =
     and_then (grpc_marshal_asset_specifier L (br_asset_ref req)) (\<lambda>spec.
     Inr \<lparr>qba_specifier = spec, qba_amount_to_burn = br_amount_to_burn req,
          qba_confirmation_text = br_confirmation_text req, qba_note = br_note req\<rparr>)"

definition grpc_burn_asset ::
    "'k lib \<Rightarrow> chain_lib \<Rightarrow> grpc_conn \<Rightarrow> burn_asset_request \<Rightarrow> burn_asset_response grpc" where
  "grpc_burn_asset L X G req =
     taproot_method G AdminServiceMac (and_then (grpc_marshal_burn_asset_request L req) (\<lambda>r. Inr (RpcBurnAsset r)))
       gn_burn_asset
       (\<lambda>resp.
          and_then (when_set (\<lambda>t. errorf ''failed to unmarshal burn transfer: ''
                      (grpc_unmarshal_asset_transfer L X (Some t))) (xba_burn_transfer resp)) (\<lambda>transfer.
          and_then (when_set (\<lambda>d. errorf ''failed to unmarshal burn proof: ''
                      (grpc_unmarshal_decoded_proof L X (Some d))) (xba_burn_proof resp)) (\<lambda>pf.
          Inr \<lparr>bp_burn_transfer = transfer, bp_burn_proof = pf\<rparr>)))"

definition grpc_marshal_list_burns_request :: "'k lib \<Rightarrow> list_burns_request option \<Rightarrow> rpc_list_burns_request result" where
  "grpc_marshal_list_burns_request L request =
     (case request of
        None \<Rightarrow> Inr \<lparr>qbl_asset_id = [], qbl_tweaked_group_key = [], qbl_anchor_txid = []\<rparr>
      | Some req \<Rightarrow>
          and_then (case lbr_asset_ref req of
                      None \<Rightarrow> Inr ([], [])
                    | Some ref \<Rightarrow>
                        and_then (asset_ref_validate L ref) (\<lambda>_.
                        Inr (bytes_or_empty (ref_asset_id L ref), bytes_or_empty (ref_group_key L ref)))) (\<lambda>(asset_id, group_key).
          Inr \<lparr>qbl_asset_id = asset_id, qbl_tweaked_group_key = group_key,
               qbl_anchor_txid = bytes_or_empty (lbr_anchor_txid req)\<rparr>))"

definition grpc_list_burns :: "'k lib \<Rightarrow> grpc_conn \<Rightarrow> list_burns_request option \<Rightarrow> burn_record list grpc" where
  "grpc_list_burns L G req =
     taproot_method G AdminServiceMac (and_then (grpc_marshal_list_burns_request L req) (\<lambda>r. Inr (RpcListBurns r)))
       gn_list_burns (decode_all (grpc_unmarshal_burn_record L))"

section \<open>Metadata and verification\<close>

definition grpc_marshal_fetch_asset_meta_request ::
    "'k lib \<Rightarrow> fetch_asset_meta_request option \<Rightarrow> rpc_meta_key option result" where
  "grpc_marshal_fetch_asset_meta_request L request =
     (case request of
        None \<Rightarrow> Inr None
      | Some req \<Rightarrow>
          (case fm_asset_ref req of
             Some ref \<Rightarrow>
               and_then (asset_ref_validate L ref) (\<lambda>_.
               and_then (not_nil ''metadata lookup requires an asset-ID ref; tapd does not support group-key metadata lookup''
                           (ref_asset_id L ref)) (\<lambda>i. Inr (Some (MetaByAssetId i))))
           | None \<Rightarrow> Inr (map_option MetaByHash (fm_meta_hash req))))"

definition grpc_fetch_asset_meta :: "'k lib \<Rightarrow> grpc_conn \<Rightarrow> fetch_asset_meta_request option \<Rightarrow> asset_meta grpc" where
  "grpc_fetch_asset_meta L G req =
     taproot_method G AdminServiceMac
       (and_then (grpc_marshal_fetch_asset_meta_request L req) (\<lambda>k. Inr (RpcFetchAssetMeta k)))
       gn_fetch_asset_meta grpc_unmarshal_fetch_asset_meta_response"

definition grpc_verify_proof :: "'k lib \<Rightarrow> chain_lib \<Rightarrow> grpc_conn \<Rightarrow> bytes \<Rightarrow> verify_proof_response grpc" where
  "grpc_verify_proof L X G raw_proof_file =
     taproot_method G AdminServiceMac (Inr (RpcVerifyProof raw_proof_file)) gn_verify_proof
       (\<lambda>resp.
          and_then (when_set (\<lambda>d. errorf ''failed to unmarshal decoded proof: ''
                      (grpc_unmarshal_decoded_proof L X (Some d))) (xvp_decoded_proof resp)) (\<lambda>decoded.
          Inr \<lparr>vp_valid = xvp_valid resp, vp_decoded_proof = decoded\<rparr>))"

section \<open>Proofs\<close>

definition grpc_export_proof_request ::
    "'k lib \<Rightarrow> string \<Rightarrow> bytes \<Rightarrow> outpoint option \<Rightarrow> taproot_call result" where
  "grpc_export_proof_request L ref script_key outpoint =
     and_then (asset_ref_validate L ref) (\<lambda>_.
     and_then (not_nil ''export proof requires an asset-ID ref; group-key refs commit to multiple tranches''
                 (ref_asset_id L ref)) (\<lambda>i.
     Inr (RpcExportProof i script_key (map_option rpc_out_point_of outpoint))))"

definition grpc_export_proof ::
    "'k lib \<Rightarrow> chain_lib \<Rightarrow> grpc_conn \<Rightarrow> string \<Rightarrow> bytes \<Rightarrow> outpoint option \<Rightarrow> proof_file grpc" where
  "grpc_export_proof L X G ref script_key outpoint =
     taproot_method G ProofServiceMac (grpc_export_proof_request L ref script_key outpoint) gn_export_proof
       (\<lambda>resp.
          and_then (if xpf_genesis_point resp = [] then Inr zero_outpoint
                    else errorf_text ''invalid genesis point: '' (new_outpoint_from_str X (xpf_genesis_point resp))) (\<lambda>gp.
          Inr \<lparr>pf_raw = xpf_raw_proof_file resp, pf_genesis_point = gp\<rparr>))"

definition grpc_unpack_proof_file :: "grpc_conn \<Rightarrow> bytes \<Rightarrow> bytes list grpc" where
  "grpc_unpack_proof_file G raw_proof_file =
     taproot_method G ProofServiceMac (Inr (RpcUnpackProofFile raw_proof_file)) gn_unpack_proof_file Inr"

definition grpc_decode_proof :: "'k lib \<Rightarrow> chain_lib \<Rightarrow> grpc_conn \<Rightarrow> bytes \<Rightarrow> decoded_proof grpc" where
  "grpc_decode_proof L X G raw_proof =
     taproot_method G ProofServiceMac (Inr (RpcDecodeProof raw_proof True True)) gn_decode_proof
       (\<lambda>resp. case resp of
          None \<Rightarrow> Inl (Plain ''invalid decoded proof response'')
        | Some d \<Rightarrow>
            (if xdp_asset d = None then Inl (Plain ''invalid decoded proof response'')
             else grpc_unmarshal_decoded_proof L X resp))"

text \<open>\<open>issuance_id\<close> is the zero ID when the caller gives none.\<close>

definition grpc_register_transfer_request ::
    "'k lib \<Rightarrow> string \<Rightarrow> bytes \<Rightarrow> bytes \<Rightarrow> outpoint \<Rightarrow> rpc_register_transfer_request result" where
  "grpc_register_transfer_request L ref issuance_id script_key outpoint =
     and_then (asset_ref_validate L ref) (\<lambda>_.
       Inr \<lparr>qrt_asset_id = (if is_group_ref L ref \<and> issuance_id \<noteq> zero32 then issuance_id
                            else bytes_or_empty (ref_asset_id L ref)),
            qrt_group_key = bytes_or_empty (ref_group_key L ref), qrt_script_key = script_key,
            qrt_outpoint = rpc_out_point_of outpoint\<rparr>)"

definition grpc_registered_asset :: "chain_lib \<Rightarrow> string \<Rightarrow> rpc_asset option \<Rightarrow> registered_asset result" where
  "grpc_registered_asset X ref asset =
     and_then (not_nil ''invalid registered asset response'' asset) (\<lambda>a.
     and_then (case xas_chain_anchor a of
                 None \<Rightarrow> Inr zero_outpoint
               | Some point \<Rightarrow> errorf_text ''invalid anchor outpoint: '' (new_outpoint_from_str X point)) (\<lambda>outpoint.
     Inr \<lparr>ra_asset_ref = ref,
          ra_issuance_id = (case xas_asset_genesis a of
             Some g \<Rightarrow> (if length (xge_asset_id g) = 32 then xge_asset_id g else zero32) | None \<Rightarrow> zero32),
          ra_script_key = (if length (xas_script_key a) = 33 then xas_script_key a else replicate 33 0),
          ra_amount = xas_amount a, ra_outpoint = outpoint\<rparr>))"

definition grpc_register_transfer_with_issuance ::
    "'k lib \<Rightarrow> chain_lib \<Rightarrow> grpc_conn \<Rightarrow> string \<Rightarrow> bytes \<Rightarrow> bytes \<Rightarrow> outpoint \<Rightarrow> registered_asset grpc" where
  "grpc_register_transfer_with_issuance L X G ref issuance_id script_key outpoint =
     taproot_method G ProofServiceMac
       (and_then (grpc_register_transfer_request L ref issuance_id script_key outpoint)
          (\<lambda>r. Inr (RpcRegisterTransfer r)))
       gn_register_transfer (grpc_registered_asset X ref)"

definition grpc_register_transfer ::
    "'k lib \<Rightarrow> chain_lib \<Rightarrow> grpc_conn \<Rightarrow> string \<Rightarrow> bytes \<Rightarrow> outpoint \<Rightarrow> registered_asset grpc" where
  "grpc_register_transfer L X G ref script_key outpoint =
     grpc_register_transfer_with_issuance L X G ref zero32 script_key outpoint"

end
