(* ===== verification/Tap_GrpcMint.thy ===== *)
theory Tap_GrpcMint
  imports Tap_GrpcClient
begin

text \<open>The mint client of the gRPC backend (\<open>grpc/mint_client.go\<close>).\<close>

section \<open>Requests\<close>

text \<open>\<open>mintAsset\<close> and \<open>mintAssetRequest\<close> have the fields of the REST backend's types.\<close>

definition grpc_mint_request_from_mint_asset :: "(mint_asset option \<times> bool) option \<Rightarrow> rest_mint_request option" where
  "grpc_mint_request_from_mint_asset request =
     (case request of
        None \<Rightarrow> None
      | Some (None, short) \<Rightarrow> Some \<lparr>rmr_asset = None, rmr_short_response = short\<rparr>
      | Some (Some a, short) \<Rightarrow> Some
          \<lparr>rmr_asset = Some
             \<lparr>rm_asset = \<lparr>pm_asset_version = ma_asset_version a, pm_asset_type = ma_asset_type a, pm_name = ma_name a,
                pm_asset_meta = ma_asset_meta a, pm_amount = ma_initial_supply a,
                pm_new_grouped_asset = ma_allow_issuance a, pm_group_key = None, pm_group_anchor = [],
                pm_group_internal_key = ma_group_internal_key a, pm_group_tapscript_root = ma_group_tapscript_root a,
                pm_script_key = ma_script_key a\<rparr>,
              rm_grouped_asset = False, rm_decimal_display = ma_decimal_display a,
              rm_external_group_key = ma_external_group_key a,
              rm_enable_supply_commitments = ma_enable_supply_commitments a\<rparr>,
           rmr_short_response = short\<rparr>)"

definition grpc_mint_request_from_mint_issuance ::
    "'k lib \<Rightarrow> (mint_issuance option \<times> bool) option \<Rightarrow> rest_mint_request option result" where
  "grpc_mint_request_from_mint_issuance L request =
     (case request of
        None \<Rightarrow> Inr None
      | Some (None, short) \<Rightarrow> Inr (Some \<lparr>rmr_asset = None, rmr_short_response = short\<rparr>)
      | Some (Some i, short) \<Rightarrow>
          and_then (not_nil ''asset ref must resolve to a group key to mint an issuance''
                      (ref_group_key L (mi_asset_ref i))) (\<lambda>group_key.
          Inr (Some
            \<lparr>rmr_asset = Some
               \<lparr>rm_asset = \<lparr>pm_asset_version = mi_asset_version i, pm_asset_type = mi_asset_type i,
                  pm_name = mi_name i, pm_asset_meta = mi_asset_meta i, pm_amount = mi_amount i,
                  pm_new_grouped_asset = False, pm_group_key = Some group_key, pm_group_anchor = [],
                  pm_group_internal_key = None, pm_group_tapscript_root = [], pm_script_key = mi_script_key i\<rparr>,
                rm_grouped_asset = True, rm_decimal_display = mi_decimal_display i,
                rm_external_group_key = mi_external_group_key i, rm_enable_supply_commitments = False\<rparr>,
             rmr_short_response = short\<rparr>)))"

definition grpc_marshal_asset_meta :: "asset_meta \<Rightarrow> rpc_asset_meta" where
  "grpc_marshal_asset_meta m =
     \<lparr>xam_data = am_data m, xam_type = uint (am_type m),
      xam_meta_hash = (if am_meta_hash m \<noteq> zero32 then am_meta_hash m else [])\<rparr>"

definition grpc_marshal_script_key :: "script_key \<Rightarrow> rpc_script_key" where
  "grpc_marshal_script_key key =
     \<lparr>xsk_pub_key = sk_pub_key key,
      xsk_key_desc = (if sk_key_desc key \<noteq> zero_key_descriptor
                      then Some (rpc_key_descriptor_of (sk_key_desc key)) else None),
      xsk_tap_tweak = sk_tap_tweak key\<rparr>"

definition grpc_marshal_external_key :: "external_key \<Rightarrow> rpc_external_key" where
  "grpc_marshal_external_key k =
     \<lparr>xek_xpub = ek_xpub k, xek_master_fingerprint = ek_master_fingerprint k,
      xek_derivation_path = ek_derivation_path k\<rparr>"

definition grpc_marshal_mint_asset :: "rest_mint_asset \<Rightarrow> rpc_mint_asset" where
  "grpc_marshal_mint_asset m =
     (let a = rm_asset m in
      \<lparr>qma_asset_version = uint (pm_asset_version a), qma_asset_type = uint (pm_asset_type a),
       qma_name = pm_name a, qma_amount = pm_amount a, qma_new_grouped_asset = pm_new_grouped_asset a,
       qma_grouped_asset = rm_grouped_asset m, qma_group_key = bytes_or_empty (pm_group_key a),
       qma_group_anchor = pm_group_anchor a, qma_group_tapscript_root = pm_group_tapscript_root a,
       qma_script_key = map_option grpc_marshal_script_key (pm_script_key a),
       qma_decimal_display = rm_decimal_display m,
       qma_asset_meta = map_option grpc_marshal_asset_meta (pm_asset_meta a),
       qma_group_internal_key = map_option rpc_key_descriptor_of (pm_group_internal_key a),
       qma_external_group_key = map_option grpc_marshal_external_key (rm_external_group_key m),
       qma_enable_supply_commitments = rm_enable_supply_commitments m\<rparr>)"

definition grpc_marshal_mint_asset_request :: "rest_mint_request option \<Rightarrow> mint_call" where
  "grpc_marshal_mint_asset_request request =
     (case request of
        None \<Rightarrow> RpcMintAsset None False
      | Some req \<Rightarrow> RpcMintAsset (map_option grpc_marshal_mint_asset (rmr_asset req)) (rmr_short_response req))"

text \<open>The two callbacks set the same field of the request.\<close>

definition grpc_marshal_batch_sibling :: "batch_sibling option \<Rightarrow> rpc_sibling option result" where
  "grpc_marshal_batch_sibling sibling =
     (case sibling of
        None \<Rightarrow> Inr None
      | Some s \<Rightarrow>
          (case (bs_full_tree s, bs_branch s) of
             (Some _, Some _) \<Rightarrow> Inl (Plain ''batch sibling must set exactly one variant'')
           | (Some scripts, None) \<Rightarrow> Inr (Some (FullTree scripts))
           | (None, Some (left, right)) \<Rightarrow> Inr (Some (Branch left right))
           | (None, None) \<Rightarrow> Inr None))"

text \<open>\<open>marshalFundBatchRequest\<close> and \<open>marshalFinalizeBatchRequest\<close> have the same body.\<close>

definition grpc_marshal_batch_request :: "batch_request option \<Rightarrow> rpc_batch_request result" where
  "grpc_marshal_batch_request request =
     (case request of
        None \<Rightarrow> Inr \<lparr>qbr_short_response = False, qbr_fee_rate = 0, qbr_batch_sibling = None\<rparr>
      | Some req \<Rightarrow>
          and_then (fee_rate_sat_per_kweight (bq_fee_rate req)) (\<lambda>fee_rate.
          and_then (grpc_marshal_batch_sibling (bq_batch_sibling req)) (\<lambda>sibling.
          Inr \<lparr>qbr_short_response = bq_short_response req, qbr_fee_rate = fee_rate,
               qbr_batch_sibling = sibling\<rparr>)))"

definition grpc_marshal_seal_batch_request :: "seal_batch_request option \<Rightarrow> rpc_seal_request result" where
  "grpc_marshal_seal_batch_request request =
     (case request of
        None \<Rightarrow> Inr \<lparr>qsb_short_response = False, qsb_group_witnesses = [], qsb_signed_group_virtual_psbts = []\<rparr>
      | Some req \<Rightarrow>
          (if sb_group_witnesses req \<noteq> [] \<and> sb_signed_group_virtual_psbts req \<noteq> []
           then Inl (Plain ''seal batch request must choose one witness input'')
           else Inr \<lparr>qsb_short_response = sb_short_response req,
                     qsb_group_witnesses = map (\<lambda>w. (gw_genesis_id w, gw_witness w)) (sb_group_witnesses req),
                     qsb_signed_group_virtual_psbts = sb_signed_group_virtual_psbts req\<rparr>))"

definition grpc_marshal_list_batches_request :: "(bytes option \<times> bool) option \<Rightarrow> mint_call" where
  "grpc_marshal_list_batches_request request =
     (case request of None \<Rightarrow> RpcListBatches None False | Some (key, verbose) \<Rightarrow> RpcListBatches key verbose)"

section \<open>Responses\<close>

text \<open>\<open>tapsdk.BatchState(rpcBatch.State)\<close>: the low byte of the number.\<close>

definition grpc_batch_state :: "int \<Rightarrow> batch_state" where
  "grpc_batch_state n =
     (let b = to_uint8 n;
          states = [BatchStateUnknown, BatchStatePending, BatchStateFrozen, BatchStateCommitted, BatchStateBroadcast,
            BatchStateConfirmed, BatchStateFinalized, BatchStateSeedlingCancelled, BatchStateSproutCancelled] in
      if unat b < 9 then states ! unat b else BatchStateOther b)"

definition grpc_unmarshal_asset_meta :: "rpc_asset_meta option \<Rightarrow> asset_meta result" where
  "grpc_unmarshal_asset_meta meta =
     and_then (not_nil ''nil asset meta'' meta) (\<lambda>m.
     and_then (errorf ''invalid asset meta hash: '' (parse_hash (xam_meta_hash m))) (\<lambda>hash.
     Inr \<lparr>am_data = xam_data m, am_type = to_uint8 (xam_type m), am_meta_hash = hash,
          am_unknown_odd_types = Map.empty, am_decimal_display = 0, am_universe_commitments = False,
          am_canonical_universe_urls = [], am_delegation_key = []\<rparr>))"

definition grpc_unmarshal_pending_mint_asset :: "'k lib \<Rightarrow> rpc_pending_asset option \<Rightarrow> pending_mint_asset result" where
  "grpc_unmarshal_pending_mint_asset L asset =
     and_then (not_nil ''nil pending mint asset'' asset) (\<lambda>a.
     and_then (when_set (\<lambda>m. grpc_unmarshal_asset_meta (Some m)) (xpd_asset_meta a)) (\<lambda>meta.
     and_then (grpc_optional_key L ''invalid group key: '' (xpd_group_key a)) (\<lambda>group_key.
     and_then (when_set (\<lambda>d. errorf ''invalid group internal key: '' (grpc_unmarshal_key_descriptor L (Some d)))
                 (xpd_group_internal_key a)) (\<lambda>internal.
     and_then (when_set (\<lambda>k. errorf ''invalid script key: '' (grpc_unmarshal_script_key L (Some k)))
                 (xpd_script_key a)) (\<lambda>script_key.
     Inr \<lparr>pm_asset_version = to_uint8 (xpd_asset_version a), pm_asset_type = to_uint8 (xpd_asset_type a),
          pm_name = xpd_name a, pm_asset_meta = meta, pm_amount = xpd_amount a,
          pm_new_grouped_asset = xpd_new_grouped_asset a, pm_group_key = group_key,
          pm_group_anchor = xpd_group_anchor a, pm_group_internal_key = internal,
          pm_group_tapscript_root = xpd_group_tapscript_root a, pm_script_key = script_key\<rparr>)))))"

definition grpc_unmarshal_minting_batch :: "'k lib \<Rightarrow> rpc_minting_batch option \<Rightarrow> minting_batch result" where
  "grpc_unmarshal_minting_batch L batch =
     and_then (not_nil ''nil minting batch'' batch) (\<lambda>b.
     and_then (grpc_optional_key L ''invalid batch key: '' (xmb_batch_key b)) (\<lambda>key.
     and_then (decode_all (grpc_unmarshal_pending_mint_asset L) (xmb_assets b)) (\<lambda>assets.
     Inr \<lparr>mb_batch_key = (case key of None \<Rightarrow> replicate 33 0 | Some k \<Rightarrow> k), mb_batch_txid = xmb_batch_txid b,
          mb_state = grpc_batch_state (xmb_state b), mb_assets = assets, mb_created_at = xmb_created_at b,
          mb_height_hint = xmb_height_hint b, mb_batch_psbt = xmb_batch_psbt b\<rparr>)))"

definition grpc_unmarshal_genesis_info :: "rpc_genesis_info option \<Rightarrow> genesis_info result" where
  "grpc_unmarshal_genesis_info genesis =
     and_then (not_nil ''nil genesis info'' genesis) (\<lambda>g.
     and_then (errorf ''invalid genesis meta hash: '' (parse_hash (xge_meta_hash g))) (\<lambda>hash.
     and_then (errorf ''invalid genesis asset ID: '' (parse_asset_id (xge_asset_id g))) (\<lambda>issuance_id.
     Inr \<lparr>gi_genesis_point = xge_genesis_point g, gi_name = xge_name g, gi_meta_hash = hash,
          gi_issuance_id = issuance_id, gi_asset_type = to_uint8 (xge_asset_type g),
          gi_output_index = xge_output_index g\<rparr>)))"

text \<open>The fingerprint is copied into an array of four bytes, whatever its length.\<close>

definition grpc_unmarshal_group_key_request :: "'k lib \<Rightarrow> rpc_group_key_request option \<Rightarrow> group_key_request result" where
  "grpc_unmarshal_group_key_request L request =
     and_then (not_nil ''nil group key request'' request) (\<lambda>r.
     and_then (when_set (\<lambda>d. errorf ''invalid raw key: '' (grpc_unmarshal_key_descriptor L (Some d)))
                 (xgk_raw_key r)) (\<lambda>raw_key.
     and_then (when_set (\<lambda>g. grpc_unmarshal_genesis_info (Some g)) (xgk_anchor_genesis r)) (\<lambda>anchor_genesis.
     Inr \<lparr>gk_raw_key = raw_key, gk_anchor_genesis = anchor_genesis, gk_tapscript_root = xgk_tapscript_root r,
          gk_new_asset = xgk_new_asset r,
          gk_external_key = map_option (\<lambda>k.
            \<lparr>ek_xpub = xek_xpub k, ek_master_fingerprint = copy_into 4 (xek_master_fingerprint k),
             ek_derivation_path = xek_derivation_path k\<rparr>) (xgk_external_key r)\<rparr>)))"

definition grpc_unmarshal_group_virtual_tx :: "'k lib \<Rightarrow> rpc_group_virtual_tx option \<Rightarrow> group_virtual_tx result" where
  "grpc_unmarshal_group_virtual_tx L tx =
     and_then (not_nil ''nil group virtual tx'' tx) (\<lambda>t.
     and_then (if xgv_genesis_id t = [] then Inr zero32
               else errorf ''invalid group virtual tx genesis ID: '' (parse_asset_id (xgv_genesis_id t))) (\<lambda>genesis_id.
     and_then (grpc_optional_key L ''invalid tweaked key: '' (xgv_tweaked_key t)) (\<lambda>tweaked.
     Inr \<lparr>gv_transaction = xgv_transaction t,
          gv_prev_out = map_option (\<lambda>(v, s). \<lparr>txo_value = v, txo_pk_script = s\<rparr>) (xgv_prev_out t),
          gv_genesis_id = genesis_id, gv_tweaked_key = tweaked\<rparr>)))"

definition grpc_unmarshal_unsealed_mint_asset :: "'k lib \<Rightarrow> rpc_unsealed_asset option \<Rightarrow> unsealed_mint_asset result" where
  "grpc_unmarshal_unsealed_mint_asset L asset =
     and_then (not_nil ''nil unsealed mint asset'' asset) (\<lambda>a.
     and_then (when_set (\<lambda>p. grpc_unmarshal_pending_mint_asset L (Some p)) (xua_asset a)) (\<lambda>pending.
     and_then (when_set (\<lambda>r. grpc_unmarshal_group_key_request L (Some r)) (xua_group_key_request a)) (\<lambda>request.
     and_then (when_set (\<lambda>t. grpc_unmarshal_group_virtual_tx L (Some t)) (xua_group_virtual_tx a)) (\<lambda>tx.
     Inr \<lparr>um_asset = pending, um_group_key_request = request, um_group_virtual_tx = tx,
          um_group_virtual_psbt = xua_group_virtual_psbt a\<rparr>))))"

definition grpc_unmarshal_verbose_minting_batch :: "'k lib \<Rightarrow> rpc_verbose_batch option \<Rightarrow> verbose_minting_batch result" where
  "grpc_unmarshal_verbose_minting_batch L batch =
     and_then (not_nil ''nil verbose minting batch'' batch) (\<lambda>b.
     and_then (grpc_unmarshal_minting_batch L (xvb_batch b)) (\<lambda>mb.
     and_then (decode_all (grpc_unmarshal_unsealed_mint_asset L) (xvb_unsealed_assets b)) (\<lambda>unsealed.
     Inr \<lparr>vb_batch = mb, vb_unsealed_assets = unsealed\<rparr>)))"

section \<open>Methods\<close>

definition grpc_mint_asset_rpc :: "'k lib \<Rightarrow> grpc_conn \<Rightarrow> rest_mint_request option \<Rightarrow> minting_batch grpc" where
  "grpc_mint_asset_rpc L G req =
     mint_method G (Inr (grpc_marshal_mint_asset_request req)) gn_batch (grpc_unmarshal_minting_batch L)"

definition grpc_mint_new_asset :: "'k lib \<Rightarrow> grpc_conn \<Rightarrow> (mint_asset option \<times> bool) option \<Rightarrow> minting_batch grpc" where
  "grpc_mint_new_asset L G req = grpc_mint_asset_rpc L G (grpc_mint_request_from_mint_asset req)"

definition grpc_mint_issuance :: "'k lib \<Rightarrow> grpc_conn \<Rightarrow> (mint_issuance option \<times> bool) option \<Rightarrow> minting_batch grpc" where
  "grpc_mint_issuance L G req =
     (case grpc_mint_request_from_mint_issuance L req of
        Inl e \<Rightarrow> (\<lambda>h. (Inl e, h))
      | Inr r \<Rightarrow> grpc_mint_asset_rpc L G r)"

definition grpc_fund_batch :: "'k lib \<Rightarrow> grpc_conn \<Rightarrow> batch_request option \<Rightarrow> verbose_minting_batch grpc" where
  "grpc_fund_batch L G req =
     mint_method G (and_then (grpc_marshal_batch_request req) (\<lambda>r. Inr (RpcFundBatch r)))
       gn_verbose_batch (grpc_unmarshal_verbose_minting_batch L)"

definition grpc_seal_batch :: "'k lib \<Rightarrow> grpc_conn \<Rightarrow> seal_batch_request option \<Rightarrow> minting_batch grpc" where
  "grpc_seal_batch L G req =
     mint_method G (and_then (grpc_marshal_seal_batch_request req) (\<lambda>r. Inr (RpcSealBatch r)))
       gn_batch (grpc_unmarshal_minting_batch L)"

definition grpc_finalize_batch :: "'k lib \<Rightarrow> grpc_conn \<Rightarrow> batch_request option \<Rightarrow> minting_batch grpc" where
  "grpc_finalize_batch L G req =
     mint_method G (and_then (grpc_marshal_batch_request req) (\<lambda>r. Inr (RpcFinalizeBatch r)))
       gn_batch (grpc_unmarshal_minting_batch L)"

definition grpc_cancel_batch :: "'k lib \<Rightarrow> grpc_conn \<Rightarrow> bytes grpc" where
  "grpc_cancel_batch L G =
     mint_method G (Inr RpcCancelBatch) gn_cancel_batch
       (\<lambda>key. errorf ''invalid batch key: '' (parse_pub_key L key))"

definition grpc_list_batches ::
    "'k lib \<Rightarrow> grpc_conn \<Rightarrow> (bytes option \<times> bool) option \<Rightarrow> verbose_minting_batch list grpc" where
  "grpc_list_batches L G req =
     mint_method G (Inr (grpc_marshal_list_batches_request req)) gn_list_batches
       (decode_all (grpc_unmarshal_verbose_minting_batch L))"

end
