(* ===== verification/Tap_GrpcWalletKit.thy ===== *)
theory Tap_GrpcWalletKit
  imports Tap_GrpcClient Tap_RestWalletKit
begin

text \<open>
  The wallet kit client of the gRPC backend (\<open>grpc/walletkit_client.go\<close>, \<open>grpc/backup_mode.go\<close>,
  \<open>grpc/fee_rate.go\<close>). All its calls carry the wallet kit macaroon.
\<close>

section \<open>Keys\<close>

definition grpc_derive_script_key :: "'k lib \<Rightarrow> grpc_conn \<Rightarrow> script_key grpc" where
  "grpc_derive_script_key L G =
     wallet_kit_method G (Inr (RpcNextScriptKey taproot_assets_key_family)) gn_script_key
       (\<lambda>resp. and_then (not_nil ''invalid script key response'' resp) (\<lambda>k.
          errorf ''failed to unmarshal script key: '' (grpc_unmarshal_script_key L (Some k))))"

definition grpc_derive_internal_key :: "'k lib \<Rightarrow> grpc_conn \<Rightarrow> internal_key grpc" where
  "grpc_derive_internal_key L G =
     wallet_kit_method G (Inr (RpcNextInternalKey taproot_assets_key_family)) gn_internal_key
       (\<lambda>resp. and_then (not_nil ''invalid internal key response'' resp) (\<lambda>k.
          and_then (errorf ''failed to unmarshal internal key: '' (grpc_unmarshal_key_descriptor L (Some k))) (\<lambda>desc.
          Inr \<lparr>ik_pub_key = kd_raw_key_bytes desc, ik_locator = kd_locator desc\<rparr>)))"

definition grpc_query_internal_key :: "'k lib \<Rightarrow> grpc_conn \<Rightarrow> bytes \<Rightarrow> key_descriptor grpc" where
  "grpc_query_internal_key L G key =
     wallet_kit_method G (Inr (RpcQueryInternalKey key)) gn_internal_key
       (\<lambda>resp. and_then (not_nil ''nil internal key in response'' resp) (\<lambda>k.
          grpc_unmarshal_key_descriptor L (Some k)))"

definition grpc_query_script_key :: "'k lib \<Rightarrow> grpc_conn \<Rightarrow> bytes \<Rightarrow> script_key grpc" where
  "grpc_query_script_key L G key =
     wallet_kit_method G (Inr (RpcQueryScriptKey key)) gn_script_key
       (\<lambda>resp. and_then (not_nil ''nil script key in response'' resp) (\<lambda>k.
          grpc_unmarshal_script_key L (Some k)))"

text \<open>The script key travels as a 32-byte x-only key.\<close>

definition grpc_declare_script_key_request :: "script_key \<Rightarrow> rpc_script_key" where
  "grpc_declare_script_key_request key =
     \<lparr>xsk_pub_key = x_only (sk_pub_key key),
      xsk_key_desc = (if kd_raw_key_bytes (sk_key_desc key) \<noteq> replicate 33 0
                      then Some (rpc_key_descriptor_of (sk_key_desc key)) else None),
      xsk_tap_tweak = sk_tap_tweak key\<rparr>"

definition grpc_declare_script_key :: "'k lib \<Rightarrow> grpc_conn \<Rightarrow> script_key \<Rightarrow> script_key grpc" where
  "grpc_declare_script_key L G key =
     wallet_kit_method G (Inr (RpcDeclareScriptKey (grpc_declare_script_key_request key))) gn_script_key
       (\<lambda>resp. and_then (not_nil ''nil script key in response'' resp) (\<lambda>k.
          grpc_unmarshal_script_key L (Some k)))"

section \<open>Virtual PSBTs\<close>

definition grpc_prev_id :: "prev_id \<Rightarrow> rpc_prev_id" where
  "grpc_prev_id p =
     \<lparr>qpi_outpoint = rpc_out_point_of (pid_outpoint p), qpi_id = pid_issuance_id p,
      qpi_script_key = pid_script_key p\<rparr>"

definition grpc_fund_recipient :: "recipient \<Rightarrow> (string \<times> u64) result" where
  "grpc_fund_recipient r =
     (case recipient_amount r of (amount, ok) \<Rightarrow>
        (if \<not> ok \<or> amount = 0 then Inl (Plain ''FundTransfer recipient requires an explicit amount'')
         else Inr (rc_address r, amount)))"

definition grpc_fund_answer :: "rpc_fund_virtual_psbt_response \<Rightarrow> funded_transfer result" where
  "grpc_fund_answer resp =
     Inr \<lparr>ft_funded_psbt = xfv_funded_psbt resp, ft_passive_asset_psbts = xfv_passive_asset_psbts resp\<rparr>"

definition grpc_fund_transfer :: "grpc_conn \<Rightarrow> recipient list \<Rightarrow> prev_id list \<Rightarrow> funded_transfer grpc" where
  "grpc_fund_transfer G recipients inputs =
     wallet_kit_method G
       (and_then (decode_all grpc_fund_recipient recipients) (\<lambda>rs.
          Inr (RpcFundVirtualPsbt (RawTemplate (map grpc_prev_id inputs) rs))))
       gn_fund_virtual_psbt grpc_fund_answer"

definition grpc_fund_interactive_psbt :: "grpc_conn \<Rightarrow> bytes \<Rightarrow> funded_transfer grpc" where
  "grpc_fund_interactive_psbt G psbt =
     wallet_kit_method G (Inr (RpcFundVirtualPsbt (PsbtTemplate psbt))) gn_fund_virtual_psbt grpc_fund_answer"

definition grpc_sign_virtual_psbt :: "grpc_conn \<Rightarrow> bytes \<Rightarrow> bytes grpc" where
  "grpc_sign_virtual_psbt G funded_psbt =
     wallet_kit_method G (Inr (RpcSignVirtualPsbt funded_psbt)) gn_signed_psbt Inr"

definition grpc_change_output :: "anchor_change_output \<Rightarrow> rpc_change_output option" where
  "grpc_change_output change =
     (case aco_mode change of
        AnchorChangeOutputAdd \<Rightarrow> Some (AddChange True)
      | AnchorChangeOutputNoNew \<Rightarrow> Some (AddChange False)
      | AnchorChangeOutputExisting \<Rightarrow> Some (ExistingChange (aco_existing_output_index change))
      | _ \<Rightarrow> None)"

definition grpc_fees :: "anchor_fee \<Rightarrow> rpc_fees option" where
  "grpc_fees fee =
     (case af_mode fee of
        AnchorFeeSatPerVByte \<Rightarrow> Some (SatPerVbyte (sat_per_vbyte_ceil (af_fee_rate fee)))
      | AnchorFeeTargetConf \<Rightarrow> Some (TargetConf (af_target_conf fee))
      | _ \<Rightarrow> None)"

text \<open>\<open>TRANSITION_PROOF_VERSION_V1\<close> is the constant 1 of the generated package.\<close>

definition grpc_marshal_commit_virtual_psbts_request ::
    "commit_virtual_psbts_request option \<Rightarrow> rpc_commit_request result" where
  "grpc_marshal_commit_virtual_psbts_request request =
     and_then (commit_request_validate request) (\<lambda>_.
     and_then (deref request) (\<lambda>req.
     let funding = cv_funding req in
     Inr \<lparr>qcv_virtual_psbts = cv_virtual_psbts req, qcv_passive_asset_psbts = cv_passive_asset_psbts req,
          qcv_anchor_psbt = cv_anchor_psbt req,
          qcv_change_output = (if afp_skip_funding funding then None
                               else grpc_change_output (afp_change_output funding)),
          qcv_fees = (if afp_skip_funding funding then None else grpc_fees (afp_fee funding)),
          qcv_custom_lock_id = afp_custom_lock_id funding,
          qcv_lock_expiration_seconds = afp_lock_expiration_seconds funding,
          qcv_skip_funding = afp_skip_funding funding, qcv_transition_proof_version = 1\<rparr>))"

definition grpc_unmarshal_commit_virtual_psbts_response ::
    "rpc_commit_virtual_psbts_response option \<Rightarrow> commit_virtual_psbts_response result" where
  "grpc_unmarshal_commit_virtual_psbts_response resp =
     and_then (not_nil ''nil commit virtual PSBTs response'' resp) (\<lambda>r.
     and_then (decode_all (\<lambda>op. errorf ''invalid locked utxo: '' (grpc_unmarshal_out_point op))
                 (xcv_lnd_locked_utxos r)) (\<lambda>locked.
     Inr \<lparr>cr_anchor_psbt = xcv_anchor_psbt r, cr_virtual_psbts = xcv_virtual_psbts r,
          cr_passive_asset_psbts = xcv_passive_asset_psbts r,
          cr_change_output_index = sint (xcv_change_output_index r), cr_locked_utxos = locked\<rparr>))"

definition grpc_commit_virtual_psbts_with_request ::
    "grpc_conn \<Rightarrow> commit_virtual_psbts_request option \<Rightarrow> commit_virtual_psbts_response grpc" where
  "grpc_commit_virtual_psbts_with_request G req =
     wallet_kit_method G
       (and_then (grpc_marshal_commit_virtual_psbts_request req) (\<lambda>r. Inr (RpcCommitVirtualPsbts r)))
       gn_commit_virtual_psbts grpc_unmarshal_commit_virtual_psbts_response"

definition grpc_legacy_commit_request ::
    "bytes \<Rightarrow> bytes list \<Rightarrow> bytes list \<Rightarrow> fee_rate \<Rightarrow> commit_virtual_psbts_request" where
  "grpc_legacy_commit_request anchor virtuals passives fee_rate =
     \<lparr>cv_anchor_psbt = anchor, cv_virtual_psbts = virtuals, cv_passive_asset_psbts = passives,
      cv_funding = \<lparr>afp_change_output = \<lparr>aco_mode = AnchorChangeOutputAdd, aco_existing_output_index = 0\<rparr>,
        afp_fee = \<lparr>af_mode = AnchorFeeSatPerVByte, af_fee_rate = fee_rate, af_target_conf = 0\<rparr>,
        afp_custom_lock_id = [], afp_lock_expiration_seconds = 0, afp_skip_funding = False\<rparr>\<rparr>"

text \<open>\<open>None\<close>: \<open>anchor.PreparePsbt\<close> does not return.\<close>

definition grpc_commit_virtual_psbts ::
    "'k lib \<Rightarrow> 'k psbt_lib \<Rightarrow> grpc_conn \<Rightarrow> bytes list \<Rightarrow> bytes list \<Rightarrow> fee_rate \<Rightarrow> committed_transfer grpc option" where
  "grpc_commit_virtual_psbts L P G virtuals passives fee_rate =
     map_option (\<lambda>prepared h.
       case errorf ''prepare anchor PSBT: '' prepared of
         Inl e \<Rightarrow> (Inl e, h)
       | Inr anchor \<Rightarrow>
           (case grpc_commit_virtual_psbts_with_request G
                   (Some (grpc_legacy_commit_request anchor virtuals passives fee_rate)) h of
              (r, h') \<Rightarrow> (and_then r (\<lambda>resp. Inr \<lparr>ct_anchor_psbt = cr_anchor_psbt resp,
                 ct_virtual_psbts = cr_virtual_psbts resp, ct_passive_asset_psbts = cr_passive_asset_psbts resp\<rparr>), h')))
       (prepare_psbt L P virtuals passives)"

definition grpc_anchor_virtual_psbts :: "'k lib \<Rightarrow> chain_lib \<Rightarrow> grpc_conn \<Rightarrow> bytes list \<Rightarrow> asset_transfer grpc" where
  "grpc_anchor_virtual_psbts L X G signed_psbts =
     wallet_kit_method G (Inr (RpcAnchorVirtualPsbts signed_psbts)) gn_transfer
       (\<lambda>resp. and_then (not_nil ''invalid transfer response'' resp) (\<lambda>t.
          grpc_unmarshal_asset_transfer L X (Some t)))"

definition grpc_marshal_publish_and_log_transfer_request ::
    "publish_and_log_transfer_request \<Rightarrow> rpc_publish_request result" where
  "grpc_marshal_publish_and_log_transfer_request req =
     and_then (publish_request_validate (Some req)) (\<lambda>_.
     Inr \<lparr>qpl_anchor_psbt = pl_anchor_psbt req, qpl_virtual_psbts = pl_virtual_psbts req,
          qpl_passive_asset_psbts = pl_passive_asset_psbts req,
          qpl_change_output_index = pl_change_output_index req,
          qpl_lnd_locked_utxos = map rpc_out_point_of (pl_locked_utxos req),
          qpl_skip_anchor_tx_broadcast = pl_skip_anchor_tx_broadcast req, qpl_label = pl_label req\<rparr>)"

definition grpc_publish_and_log_transfer_with_request ::
    "grpc_conn \<Rightarrow> publish_and_log_transfer_request \<Rightarrow> asset_packet grpc" where
  "grpc_publish_and_log_transfer_with_request G req =
     wallet_kit_method G
       (and_then (grpc_marshal_publish_and_log_transfer_request req) (\<lambda>r. Inr (RpcPublishAndLogTransfer r)))
       gn_transfer
       (\<lambda>resp. and_then (not_nil ''invalid transfer response'' resp) (\<lambda>t.
          Inr \<lparr>ap_anchor_transaction = xat_anchor_tx t, ap_virtual_transactions = pl_virtual_psbts req,
               ap_passive_asset_transactions = pl_passive_asset_psbts req\<rparr>))"

definition grpc_publish_and_log_transfer ::
    "grpc_conn \<Rightarrow> bytes \<Rightarrow> bytes list \<Rightarrow> bytes list \<Rightarrow> bool \<Rightarrow> asset_packet grpc" where
  "grpc_publish_and_log_transfer G anchor virtuals passives skip_broadcast =
     grpc_publish_and_log_transfer_with_request G
       \<lparr>pl_anchor_psbt = anchor, pl_virtual_psbts = virtuals, pl_passive_asset_psbts = passives,
        pl_change_output_index = 0, pl_locked_utxos = [], pl_skip_anchor_tx_broadcast = skip_broadcast, pl_label = []\<rparr>"

section \<open>Ownership, leases and backups\<close>

definition grpc_prove_asset_ownership ::
    "'k lib \<Rightarrow> grpc_conn \<Rightarrow> prove_ownership_request \<Rightarrow> ownership_proof grpc" where
  "grpc_prove_asset_ownership L G req =
     wallet_kit_method G
       (and_then (asset_ref_validate L (po_asset_ref req)) (\<lambda>_.
        and_then (not_nil ''prove ownership requires an asset-ID ref'' (ref_asset_id L (po_asset_ref req))) (\<lambda>i.
        and_then (validate_challenge (po_challenge req)) (\<lambda>_.
        Inr (RpcProveAssetOwnership \<lparr>qpo_asset_id = i, qpo_script_key = po_script_key req,
          qpo_outpoint = rpc_out_point_of (po_outpoint req), qpo_challenge = po_challenge req\<rparr>)))))
       gn_prove_ownership
       (\<lambda>b. Inr \<lparr>wp_asset_ref = po_asset_ref req,
          wp_issuance_id = (case ref_asset_id L (po_asset_ref req) of None \<Rightarrow> zero32 | Some i \<Rightarrow> i),
          wp_script_key = po_script_key req, wp_outpoint = po_outpoint req, wp_amount = 0,
          wp_proof_with_witness = b\<rparr>)"

definition grpc_unmarshal_verify_ownership_response ::
    "rpc_verify_ownership_response option \<Rightarrow> verify_ownership_response result" where
  "grpc_unmarshal_verify_ownership_response response =
     and_then (not_nil ''nil verify ownership response'' response) (\<lambda>resp.
     and_then (case xvo_outpoint resp of
                 None \<Rightarrow> Inr zero_outpoint
               | Some op \<Rightarrow>
                   and_then (exact_length ''invalid outpoint txid length'' 32 (xop_txid op)) (\<lambda>txid.
                   Inr \<lparr>op_txid = txid, op_index = xop_output_index op\<rparr>)) (\<lambda>outpoint.
     and_then (if xvo_block_hash resp = [] then Inr zero32
               else exact_length ''invalid block hash length'' 32 (xvo_block_hash resp)) (\<lambda>hash.
     if xvo_valid_proof resp \<and> outpoint = zero_outpoint
     then Inl (Plain ''valid ownership proof response missing outpoint'')
     else Inr \<lparr>vr_valid = xvo_valid_proof resp, vr_outpoint = outpoint, vr_block_hash = hash,
               vr_block_height = xvo_block_height resp\<rparr>)))"

definition grpc_verify_asset_ownership ::
    "grpc_conn \<Rightarrow> verify_ownership_request \<Rightarrow> verify_ownership_response grpc" where
  "grpc_verify_asset_ownership G req =
     wallet_kit_method G
       (and_then (validate_challenge (vo_challenge req)) (\<lambda>_.
          Inr (RpcVerifyAssetOwnership (vo_proof_with_witness req) (vo_challenge req))))
       gn_verify_ownership grpc_unmarshal_verify_ownership_response"

definition grpc_remove_utxo_lease :: "grpc_conn \<Rightarrow> outpoint \<Rightarrow> unit grpc" where
  "grpc_remove_utxo_lease G op =
     wallet_kit_method G (Inr (RpcRemoveUtxoLease (rpc_out_point_of op))) gn_remove_lease Inr"

text \<open>The generated constants are \<open>RAW\<close> 0, \<open>COMPACT\<close> 1 and \<open>OPTIMISTIC\<close> 2.\<close>

definition grpc_marshal_backup_mode :: "backup_mode \<Rightarrow> int" where
  "grpc_marshal_backup_mode m = (case m of BackupModeCompact \<Rightarrow> 1 | BackupModeOptimistic \<Rightarrow> 2 | _ \<Rightarrow> 0)"

definition grpc_export_backup :: "grpc_conn \<Rightarrow> backup_mode \<Rightarrow> bytes grpc" where
  "grpc_export_backup G mode =
     wallet_kit_method G (Inr (RpcExportBackup (grpc_marshal_backup_mode mode))) gn_export_backup Inr"

definition grpc_import_backup :: "grpc_conn \<Rightarrow> bytes \<Rightarrow> u32 grpc" where
  "grpc_import_backup G backup =
     wallet_kit_method G (Inr (RpcImportBackup backup)) gn_import_backup Inr"

text \<open>\<open>CustomAnchorCapabilities\<close> makes no call; \<open>err\<close> is the error of the caller's context.\<close>

definition grpc_custom_anchor_capabilities :: "go_error option \<Rightarrow> capabilities result" where
  "grpc_custom_anchor_capabilities err =
     (case err of Some e \<Rightarrow> Inl e | None \<Rightarrow> Inr default_tapd_capabilities)"

end
