(* ===== verification/Tap_BackendEvents.thy ===== *)
theory Tap_BackendEvents
  imports Tap_GrpcMint Tap_GrpcWalletKit Tap_Events "HOL-Library.Sublist"
begin

text \<open>
  The event streams of both backends: \<open>grpc/event_client.go\<close> and \<open>grpc/event_marshal.go\<close>,
  \<open>rest/event_client.go\<close> and \<open>rest/event_marshal.go\<close>. A subscription is the call that opens the
  stream and a goroutine that reads messages, decodes them and hands the events over; the goroutine is
  a function of the rounds of its loop. The locale \<open>event_stream\<close> states what \<open>EventClient\<close>
  (\<open>clients.go\<close>) promises of such a goroutine, and both backends are interpretations.
\<close>

section \<open>Records\<close>

record mint_event =
  mv_timestamp :: int
  mv_batch_state :: batch_state
  mv_batch :: "minting_batch option"
  mv_error :: string

record subscribe_receive_request =
  sr_filter_addr :: string
  sr_start_timestamp :: int

record subscribe_send_request =
  ss_filter_script_key :: bytes
  ss_filter_label :: string
  ss_start_timestamp :: int

text \<open>Messages of the daemon, with the conventions of \<open>Tap_GrpcTypes\<close>.\<close>

record rpc_receive_event =
  xre_timestamp :: int
  xre_address :: "rpc_addr option"
  xre_outpoint :: string
  xre_status :: int
  xre_confirmation_height :: u32
  xre_error :: string

record rpc_anchor_transaction =
  xax_anchor_psbt :: bytes
  xax_change_output_index :: u32
  xax_chain_fees_sats :: int
  xax_target_fee_rate_sat_kw :: u32
  xax_lnd_locked_utxos :: "rpc_out_point option list"
  xax_final_tx :: bytes

record rpc_send_event =
  xse_timestamp :: int
  xse_send_state :: string
  xse_parcel_type :: int
  xse_addresses :: "rpc_addr option list"
  xse_virtual_packets :: "bytes list"
  xse_passive_virtual_packets :: "bytes list"
  xse_anchor_transaction :: "rpc_anchor_transaction option"
  xse_transfer :: "rpc_asset_transfer option"
  xse_error :: string
  xse_transfer_label :: string
  xse_next_send_state :: string

record rpc_mint_event =
  xme_timestamp :: int
  xme_batch_state :: int
  xme_batch :: "rpc_minting_batch option"
  xme_error :: string

section \<open>Decoding, gRPC\<close>

definition grpc_unmarshal_receive_event :: "'k lib \<Rightarrow> rpc_receive_event option \<Rightarrow> receive_event_record result" where
  "grpc_unmarshal_receive_event L event =
     and_then (not_nil ''nil receive event'' event) (\<lambda>e.
     and_then (when_set (\<lambda>a. errorf ''receive event address: '' (grpc_unmarshal_addr L (Some a))) (xre_address e)) (\<lambda>addr.
     Inr \<lparr>rr_timestamp = xre_timestamp e, rr_address = addr, rr_outpoint = xre_outpoint e,
          rr_status = uint (to_uint8 (xre_status e)), rr_confirmation_height = xre_confirmation_height e,
          rr_error = xre_error e\<rparr>))"

text \<open>Null entries of the locked outpoints are skipped.\<close>

definition grpc_unmarshal_anchor_transaction :: "rpc_anchor_transaction option \<Rightarrow> anchor_transaction result" where
  "grpc_unmarshal_anchor_transaction tx =
     and_then (not_nil ''nil anchor transaction'' tx) (\<lambda>t.
     and_then (decode_all (\<lambda>op. errorf ''locked utxo: '' (grpc_unmarshal_out_point op))
                 (filter (\<lambda>op. op \<noteq> None) (xax_lnd_locked_utxos t))) (\<lambda>locked.
     Inr \<lparr>ax_anchor_psbt = xax_anchor_psbt t, ax_change_output_index = xax_change_output_index t,
          ax_chain_fees_sats = xax_chain_fees_sats t,
          ax_target_fee_rate = fee_rate_from_sat_per_kweight (xax_target_fee_rate_sat_kw t),
          ax_lnd_locked_utxos = locked, ax_final_tx = xax_final_tx t\<rparr>))"

definition grpc_unmarshal_send_event :: "'k lib \<Rightarrow> chain_lib \<Rightarrow> rpc_send_event option \<Rightarrow> send_event_record result" where
  "grpc_unmarshal_send_event L X event =
     and_then (not_nil ''nil send event'' event) (\<lambda>e.
     and_then (decode_all (\<lambda>a. errorf ''send event address: '' (grpc_unmarshal_addr L a)) (xse_addresses e)) (\<lambda>addrs.
     and_then (when_set (\<lambda>t. errorf ''send event anchor tx: '' (grpc_unmarshal_anchor_transaction (Some t)))
                 (xse_anchor_transaction e)) (\<lambda>anchor.
     and_then (when_set (\<lambda>t. errorf ''send event transfer: '' (grpc_unmarshal_asset_transfer L X (Some t)))
                 (xse_transfer e)) (\<lambda>transfer.
     Inr \<lparr>sd_timestamp = xse_timestamp e, sd_send_state = xse_send_state e,
          sd_parcel_type = to_uint8 (xse_parcel_type e), sd_addresses = map Some addrs,
          sd_virtual_packets = xse_virtual_packets e, sd_passive_virtual_packets = xse_passive_virtual_packets e,
          sd_anchor_transaction = anchor, sd_transfer = transfer, sd_error = xse_error e,
          sd_transfer_label = xse_transfer_label e, sd_next_send_state = xse_next_send_state e\<rparr>))))"

definition grpc_unmarshal_mint_event :: "'k lib \<Rightarrow> rpc_mint_event option \<Rightarrow> mint_event result" where
  "grpc_unmarshal_mint_event L event =
     and_then (not_nil ''nil mint event'' event) (\<lambda>e.
     and_then (when_set (\<lambda>b. errorf ''mint event batch: '' (grpc_unmarshal_minting_batch L (Some b))) (xme_batch e)) (\<lambda>batch.
     Inr \<lparr>mv_timestamp = xme_timestamp e, mv_batch_state = grpc_batch_state (xme_batch_state e),
          mv_batch = batch, mv_error = xme_error e\<rparr>))"

section \<open>Decoding, REST\<close>

definition rest_unmarshal_receive_event :: "'k lib \<Rightarrow> json_receive_event option \<Rightarrow> receive_event_record result" where
  "rest_unmarshal_receive_event L event =
     and_then (not_nil ''nil receive event'' event) (\<lambda>e.
     and_then (errorf ''invalid timestamp: '' (parse_int64 (jre_timestamp e))) (\<lambda>ts.
     and_then (when_set (\<lambda>a. errorf ''receive event address: '' (unmarshal_addr L (Some a))) (jre_address e)) (\<lambda>addr.
     Inr \<lparr>rr_timestamp = ts, rr_address = addr, rr_outpoint = jre_outpoint e,
          rr_status = parse_address_event_status (jre_status e),
          rr_confirmation_height = jre_confirmation_height e, rr_error = jre_error e\<rparr>)))"

definition decode_hex_slice :: "string list \<Rightarrow> bytes list result" where
  "decode_hex_slice ss = decode_all parse_hex_bytes ss"

definition unmarshal_anchor_outpoint :: "json_outpoint \<Rightarrow> outpoint result" where
  "unmarshal_anchor_outpoint op =
     and_then (errorf ''invalid txid: '' (parse_hex_bytes (jop_txid op))) (\<lambda>b.
     and_then (exact_length ''invalid txid length'' 32 b) (\<lambda>txid.
     Inr \<lparr>op_txid = txid, op_index = jop_output_index op\<rparr>))"

definition rest_unmarshal_anchor_transaction :: "json_anchor_transaction option \<Rightarrow> anchor_transaction result" where
  "rest_unmarshal_anchor_transaction tx =
     and_then (not_nil ''nil anchor transaction'' tx) (\<lambda>t.
     and_then (errorf ''invalid anchor_psbt: '' (parse_hex_bytes (jax_anchor_psbt t))) (\<lambda>psbt.
     and_then (errorf ''invalid final_tx: '' (parse_hex_bytes (jax_final_tx t))) (\<lambda>final_tx.
     and_then (errorf ''invalid chain_fees_sats: '' (parse_int64 (jax_chain_fees_sats t))) (\<lambda>fees.
     and_then (decode_all (\<lambda>op. errorf ''locked utxo: '' (unmarshal_anchor_outpoint op))
                 (List.map_filter (\<lambda>op. op) (jax_lnd_locked_utxos t))) (\<lambda>locked.
     Inr \<lparr>ax_anchor_psbt = psbt, ax_change_output_index = jax_change_output_index t, ax_chain_fees_sats = fees,
          ax_target_fee_rate = fee_rate_from_sat_per_kweight (jax_target_fee_rate_sat_kw t),
          ax_lnd_locked_utxos = locked, ax_final_tx = final_tx\<rparr>)))))"

definition rest_unmarshal_send_event :: "'k lib \<Rightarrow> chain_lib \<Rightarrow> json_send_event option \<Rightarrow> send_event_record result" where
  "rest_unmarshal_send_event L X event =
     and_then (not_nil ''nil send event'' event) (\<lambda>e.
     and_then (errorf ''invalid timestamp: '' (parse_int64 (jse_timestamp e))) (\<lambda>ts.
     and_then (decode_all (\<lambda>a. errorf ''send event address: '' (unmarshal_addr L a)) (jse_addresses e)) (\<lambda>addrs.
     and_then (errorf ''virtual packets: '' (decode_hex_slice (jse_virtual_packets e))) (\<lambda>virtuals.
     and_then (errorf ''passive virtual packets: '' (decode_hex_slice (jse_passive_virtual_packets e))) (\<lambda>passives.
     and_then (when_set (\<lambda>t. errorf ''anchor transaction: '' (rest_unmarshal_anchor_transaction (Some t)))
                 (jse_anchor_transaction e)) (\<lambda>anchor.
     and_then (when_set (\<lambda>t. errorf ''transfer: '' (unmarshal_asset_transfer L X (Some t))) (jse_transfer e)) (\<lambda>transfer.
     Inr \<lparr>sd_timestamp = ts, sd_send_state = jse_send_state e, sd_parcel_type = parse_parcel_type (jse_parcel_type e),
          sd_addresses = map Some addrs, sd_virtual_packets = virtuals, sd_passive_virtual_packets = passives,
          sd_anchor_transaction = anchor, sd_transfer = transfer, sd_error = jse_error e,
          sd_transfer_label = jse_transfer_label e, sd_next_send_state = jse_next_send_state e\<rparr>)))))))"

definition rest_unmarshal_mint_event :: "'k lib \<Rightarrow> json_mint_event option \<Rightarrow> mint_event result" where
  "rest_unmarshal_mint_event L event =
     and_then (not_nil ''nil mint event'' event) (\<lambda>e.
     and_then (errorf ''invalid timestamp: '' (parse_int64 (jme_timestamp e))) (\<lambda>ts.
     and_then (when_set (\<lambda>b. errorf ''batch: '' (unmarshal_minting_batch L (Some b))) (jme_batch e)) (\<lambda>batch.
     Inr \<lparr>mv_timestamp = ts, mv_batch_state = parse_batch_state (jme_batch_state e), mv_batch = batch,
          mv_error = jme_error e\<rparr>)))"

section \<open>The contract of a stream\<close>

text \<open>
  What a goroutine has done after some rounds: the events taken from its channel, the values on its
  error channel, and whether it has returned and closed both.
\<close>

record 'e stream_result =
  st_events :: "'e list"
  st_errors :: "go_error list"
  st_ended :: bool

definition stream_open :: "'e stream_result" where
  "stream_open = \<lparr>st_events = [], st_errors = [], st_ended = False\<rparr>"

definition stream_ended :: "go_error list \<Rightarrow> 'e stream_result" where
  "stream_ended errs = \<lparr>st_events = [], st_errors = errs, st_ended = True\<rparr>"

definition deliver :: "'e \<Rightarrow> 'e stream_result \<Rightarrow> 'e stream_result" where
  "deliver event r = r\<lparr>st_events := event # st_events r\<rparr>"

lemma stream_simps [simp]:
  "st_events stream_open = []" "st_errors stream_open = []" "\<not> st_ended stream_open"
  "st_events (stream_ended errs) = []" "st_errors (stream_ended errs) = errs" "st_ended (stream_ended errs)"
  "st_events (deliver x r) = x # st_events r" "st_errors (deliver x r) = st_errors r"
  "st_ended (deliver x r) = st_ended r"
  by (simp_all add: stream_open_def stream_ended_def deliver_def)

text \<open>
  \<open>events_of\<close> are the events that the messages of the rounds carry, up to the first that does not
  decode: the stream hands over the first of them in their order, all while it runs, it publishes at
  most one error, when it returns, and it does nothing after that.
\<close>

locale event_stream =
  fixes run :: "'r list \<Rightarrow> 'e stream_result" and events_of :: "'r list \<Rightarrow> 'e list"
  assumes in_order: "prefix (st_events (run rs)) (events_of rs)"
    and nothing_missing: "\<not> st_ended (run rs) \<Longrightarrow> st_events (run rs) = events_of rs"
    and one_error: "length (st_errors (run rs)) \<le> 1"
    and no_error_while_open: "\<not> st_ended (run rs) \<Longrightarrow> st_errors (run rs) = []"
    and final: "st_ended (run rs) \<Longrightarrow> run (rs @ later) = run rs"
    and grows: "prefix (st_events (run rs)) (st_events (run (rs @ later)))"
begin

lemma error_is_final: "st_errors (run rs) \<noteq> [] \<Longrightarrow> run (rs @ later) = run rs"
  using no_error_while_open final by blast

lemma first_events: "st_events (run rs) = take (length (st_events (run rs))) (events_of rs)"
  using in_order [of rs] by (auto simp: prefix_def)

end

section \<open>The gRPC stream\<close>

text \<open>
  One round: what \<open>Recv\<close> returned, and the error of the caller's context if it ended before the event
  was taken.
\<close>

datatype 'm received = Message 'm | Failed go_error

type_synonym 'm round = "'m received \<times> go_error option"

fun grpc_forward :: "string \<Rightarrow> ('m \<Rightarrow> 'e result) \<Rightarrow> 'm round list \<Rightarrow> 'e stream_result" where
  "grpc_forward msg decode [] = stream_open"
| "grpc_forward msg decode ((Failed e, _) # rs) = stream_ended [e]"
| "grpc_forward msg decode ((Message m, ctx_err) # rs) =
     (case decode m of
        Inl e \<Rightarrow> stream_ended [Wrapf msg e []]
      | Inr event \<Rightarrow>
          (case ctx_err of
             Some e \<Rightarrow> stream_ended [e]
           | None \<Rightarrow> deliver event (grpc_forward msg decode rs)))"

fun grpc_events_of :: "('m \<Rightarrow> 'e result) \<Rightarrow> 'm round list \<Rightarrow> 'e list" where
  "grpc_events_of decode [] = []"
| "grpc_events_of decode ((Failed e, _) # rs) = []"
| "grpc_events_of decode ((Message m, _) # rs) =
     (case decode m of Inl e \<Rightarrow> [] | Inr event \<Rightarrow> event # grpc_events_of decode rs)"

lemma grpc_forward_append:
  "st_ended (grpc_forward msg decode rs) \<Longrightarrow> grpc_forward msg decode (rs @ later) = grpc_forward msg decode rs"
  by (induction msg decode rs rule: grpc_forward.induct) (auto split: sum.splits option.splits)

lemma grpc_forward_grows:
  "prefix (st_events (grpc_forward msg decode rs)) (st_events (grpc_forward msg decode (rs @ later)))"
  by (induction msg decode rs rule: grpc_forward.induct) (auto split: sum.splits option.splits)

lemma grpc_forward_errors:
  "length (st_errors (grpc_forward msg decode rs)) = (if st_ended (grpc_forward msg decode rs) then 1 else 0)"
  by (induction msg decode rs rule: grpc_forward.induct) (auto split: sum.splits option.splits)

lemma grpc_forward_events:
  "prefix (st_events (grpc_forward msg decode rs)) (grpc_events_of decode rs)"
  "\<not> st_ended (grpc_forward msg decode rs) \<Longrightarrow> st_events (grpc_forward msg decode rs) = grpc_events_of decode rs"
  by (induction msg decode rs rule: grpc_forward.induct) (auto split: sum.splits option.splits)

interpretation grpc_stream: event_stream "grpc_forward msg decode" "grpc_events_of decode"
proof unfold_locales
  fix rs :: "'a round list"
  show "length (st_errors (grpc_forward msg decode rs)) \<le> 1"
    by (simp add: grpc_forward_errors)
  show "\<not> st_ended (grpc_forward msg decode rs) \<Longrightarrow> st_errors (grpc_forward msg decode rs) = []"
    using grpc_forward_errors [of msg decode rs] by simp
qed (simp_all add: grpc_forward_events grpc_forward_append grpc_forward_grows)

text \<open>
  A subscription: the call that opens the stream, with the macaroon of the service, and the stream.
  \<open>open\<close> yields the rounds of the loop.
\<close>

definition grpc_subscribe ::
    "grpc_conn \<Rightarrow> service_mac \<Rightarrow> (grpc_log \<Rightarrow> 'm round list result) \<Rightarrow> string \<Rightarrow> string \<Rightarrow> grpc_call result \<Rightarrow>
      ('m \<Rightarrow> 'e result) \<Rightarrow> 'e stream_result grpc" where
  "grpc_subscribe G svc opening open_msg msg request decode =
     grpc_method G svc request (\<lambda>h. errorf open_msg (opening h)) (\<lambda>rounds. Inr (grpc_forward msg decode rounds))"

definition grpc_subscribe_receive_events ::
    "'k lib \<Rightarrow> grpc_conn \<Rightarrow> (grpc_log \<Rightarrow> rpc_receive_event option round list result) \<Rightarrow>
      subscribe_receive_request option \<Rightarrow> receive_event_record stream_result grpc" where
  "grpc_subscribe_receive_events L G opening request =
     grpc_subscribe G AdminServiceMac opening ''subscribe receive events: '' ''unmarshal receive event: ''
       (and_then (deref request) (\<lambda>r.
          Inr (TaprootAssets (RpcSubscribeReceiveEvents (sr_filter_addr r) (sr_start_timestamp r)))))
       (grpc_unmarshal_receive_event L)"

definition grpc_subscribe_send_events ::
    "'k lib \<Rightarrow> chain_lib \<Rightarrow> grpc_conn \<Rightarrow> (grpc_log \<Rightarrow> rpc_send_event option round list result) \<Rightarrow>
      subscribe_send_request option \<Rightarrow> send_event_record stream_result grpc" where
  "grpc_subscribe_send_events L X G opening request =
     grpc_subscribe G AdminServiceMac opening ''subscribe send events: '' ''unmarshal send event: ''
       (and_then (deref request) (\<lambda>r. Inr (TaprootAssets
          (RpcSubscribeSendEvents (ss_filter_script_key r) (ss_filter_label r) (ss_start_timestamp r)))))
       (grpc_unmarshal_send_event L X)"

text \<open>The request is the flag \<open>ShortResponse\<close>.\<close>

definition grpc_subscribe_mint_events ::
    "'k lib \<Rightarrow> grpc_conn \<Rightarrow> (grpc_log \<Rightarrow> rpc_mint_event option round list result) \<Rightarrow> bool option \<Rightarrow>
      mint_event stream_result grpc" where
  "grpc_subscribe_mint_events L G opening request =
     grpc_subscribe G MintServiceMac opening ''subscribe mint events: '' ''unmarshal mint event: ''
       (and_then (deref request) (\<lambda>short. Inr (Mint (RpcSubscribeMintEvents short))))
       (grpc_unmarshal_mint_event L)"

section \<open>The WebSocket stream\<close>

text \<open>
  One round of the loop of \<open>streamEvents\<close>: a frame, a close of the server with the status of a normal
  closure or of going away, or another error of \<open>Read\<close>, with the error of the context if it has one;
  and for a frame the error of the context if it ended before the event was taken.
\<close>

datatype ws_read = Frame string "go_error option" | CleanClose | ReadError go_error "go_error option"

record ws_stream_error =
  we_grpc_code :: int
  we_http_code :: int
  we_message :: string
  we_http_status :: string

text \<open>The result is raw JSON, empty when the envelope has none.\<close>

record ws_envelope =
  wv_result :: string
  wv_error :: "ws_stream_error option"

text \<open>A number that names no code is an unknown code.\<close>

definition ws_api_error :: "ws_stream_error \<Rightarrow> go_error" where
  "ws_api_error e = api_error_value (we_http_code e) (grpc_code_from_gateway (we_grpc_code e)) (we_message e) []"

fun rest_forward ::
    "(string \<Rightarrow> ws_envelope result) \<Rightarrow> (string \<Rightarrow> 'e result) \<Rightarrow> ws_read list \<Rightarrow> 'e stream_result" where
  "rest_forward envelope decode [] = stream_open"
| "rest_forward envelope decode (CleanClose # rs) = stream_ended []"
| "rest_forward envelope decode (ReadError err ctx_err # rs) =
     stream_ended [case ctx_err of Some e \<Rightarrow> e | None \<Rightarrow> Wrapf ''websocket read: '' err []]"
| "rest_forward envelope decode (Frame msg ctx_err # rs) =
     (case envelope msg of
        Inl e \<Rightarrow> stream_ended [Wrapf ''decode envelope: '' e []]
      | Inr env \<Rightarrow>
          (case wv_error env of
             Some e \<Rightarrow> stream_ended [ws_api_error e]
           | None \<Rightarrow>
               (if wv_result env = [] then rest_forward envelope decode rs
                else case decode (wv_result env) of
                  Inl e \<Rightarrow> stream_ended [Wrapf ''unmarshal event: '' e []]
                | Inr event \<Rightarrow>
                    (case ctx_err of
                       Some e \<Rightarrow> stream_ended [e]
                     | None \<Rightarrow> deliver event (rest_forward envelope decode rs)))))"

fun rest_events_of :: "(string \<Rightarrow> ws_envelope result) \<Rightarrow> (string \<Rightarrow> 'e result) \<Rightarrow> ws_read list \<Rightarrow> 'e list" where
  "rest_events_of envelope decode (Frame msg _ # rs) =
     (case envelope msg of
        Inl e \<Rightarrow> []
      | Inr env \<Rightarrow>
          (case wv_error env of
             Some e \<Rightarrow> []
           | None \<Rightarrow>
               (if wv_result env = [] then rest_events_of envelope decode rs
                else case decode (wv_result env) of
                  Inl e \<Rightarrow> [] | Inr event \<Rightarrow> event # rest_events_of envelope decode rs)))"
| "rest_events_of envelope decode _ = []"

lemma rest_forward_append:
  "st_ended (rest_forward envelope decode rs) \<Longrightarrow>
     rest_forward envelope decode (rs @ later) = rest_forward envelope decode rs"
  by (induction envelope decode rs rule: rest_forward.induct) (auto split: sum.splits option.splits if_splits)

lemma rest_forward_grows:
  "prefix (st_events (rest_forward envelope decode rs)) (st_events (rest_forward envelope decode (rs @ later)))"
  by (induction envelope decode rs rule: rest_forward.induct) (auto split: sum.splits option.splits)

lemma rest_forward_errors:
  "length (st_errors (rest_forward envelope decode rs)) \<le> 1"
  "\<not> st_ended (rest_forward envelope decode rs) \<Longrightarrow> st_errors (rest_forward envelope decode rs) = []"
  by (induction envelope decode rs rule: rest_forward.induct) (auto split: sum.splits option.splits if_splits)

lemma rest_forward_events:
  "prefix (st_events (rest_forward envelope decode rs)) (rest_events_of envelope decode rs)"
  "\<not> st_ended (rest_forward envelope decode rs) \<Longrightarrow>
     st_events (rest_forward envelope decode rs) = rest_events_of envelope decode rs"
  by (induction envelope decode rs rule: rest_forward.induct) (auto split: sum.splits option.splits if_splits)

interpretation rest_stream: event_stream "rest_forward envelope decode" "rest_events_of envelope decode"
  by unfold_locales
    (fact rest_forward_events rest_forward_append rest_forward_grows rest_forward_errors)+

section \<open>Opening a WebSocket\<close>

text \<open>The parts of a URL that the code looks at or changes; \<open>url_parse\<close> is \<open>url.Parse\<close>.\<close>

record ws_url =
  wu_scheme :: string
  wu_host :: string
  wu_path :: string
  wu_query :: url_values

definition trim_right :: "char \<Rightarrow> string \<Rightarrow> string" where
  "trim_right c s = rev (dropWhile (\<lambda>d. d = c) (rev s))"

definition websocket_url :: "(string \<Rightarrow> ws_url result) \<Rightarrow> string \<Rightarrow> string \<Rightarrow> ws_url result" where
  "websocket_url url_parse base_url path =
     and_then (errorf ''invalid base URL: '' (url_parse base_url)) (\<lambda>u.
       if wu_scheme u \<noteq> ''https'' then Inl (Plain ''unsupported base URL scheme'')
       else Inr (u\<lparr>wu_scheme := ''wss'', wu_path := trim_right CHR ''/'' (wu_path u) @ path,
                   wu_query := params_set ''method'' ''POST'' (wu_query u)\<rparr>))"

text \<open>
  The server: whether a connection opens, whether the first frame can be written, and the rounds of
  the loop. What the client does to the connection is part of the result.
\<close>

record ws_server =
  sv_url_parse :: "string \<Rightarrow> ws_url result"
  sv_dial :: "ws_url \<Rightarrow> string \<Rightarrow> unit result"
  sv_write :: "json \<Rightarrow> unit result"
  sv_reads :: "ws_read list"
  sv_envelope :: "string \<Rightarrow> ws_envelope result"

datatype ws_action = Dial ws_url string | WriteFrame json | CloseConn string

definition stream_events ::
    "transport \<Rightarrow> ws_server \<Rightarrow> string \<Rightarrow> service_mac \<Rightarrow> json \<Rightarrow> (string \<Rightarrow> 'e result) \<Rightarrow>
      'e stream_result result \<times> ws_action list" where
  "stream_events T S path mac body decode =
     (case websocket_url (sv_url_parse S) (tp_base_url T) path of
        Inl e \<Rightarrow> (Inl e, [])
      | Inr url \<Rightarrow>
          (let token = (case tp_pouch T mac of None \<Rightarrow> [] | Some m \<Rightarrow> m); opening = [Dial url token] in
           case sv_dial S url token of
             Inl e \<Rightarrow> (Inl (Wrapf ''websocket dial: '' e []), opening)
           | Inr _ \<Rightarrow>
               (case sv_write S body of
                  Inl e \<Rightarrow> (Inl (Wrapf ''websocket write: '' e []), opening @ [WriteFrame body, CloseConn ''write failed''])
                | Inr _ \<Rightarrow>
                    (let r = rest_forward (sv_envelope S) decode (sv_reads S) in
                     (Inr r, opening @ [WriteFrame body] @ (if st_ended r then [CloseConn ''done''] else []))))))"

text \<open>A frame is decoded by reflection into the struct of the event: \<open>parse\<close>.\<close>

definition rest_subscribe_receive_events ::
    "'k lib \<Rightarrow> transport \<Rightarrow> ws_server \<Rightarrow> (string \<Rightarrow> json_receive_event result) \<Rightarrow> subscribe_receive_request option \<Rightarrow>
      receive_event_record stream_result result \<times> ws_action list" where
  "rest_subscribe_receive_events L T S parse request =
     stream_events T S ''/v1/taproot-assets/events/asset-receive'' AdminServiceMac
       (JObj (case request of
          None \<Rightarrow> []
        | Some r \<Rightarrow> omit_str ''filter_addr'' (sr_filter_addr r) @
            omit_str ''start_timestamp'' (if sr_start_timestamp r \<noteq> 0 then int_string (sr_start_timestamp r) else [])))
       (\<lambda>raw. and_then (parse raw) (\<lambda>e. rest_unmarshal_receive_event L (Some e)))"

definition rest_subscribe_send_events ::
    "'k lib \<Rightarrow> chain_lib \<Rightarrow> transport \<Rightarrow> ws_server \<Rightarrow> (string \<Rightarrow> json_send_event result) \<Rightarrow> subscribe_send_request option \<Rightarrow>
      send_event_record stream_result result \<times> ws_action list" where
  "rest_subscribe_send_events L X T S parse request =
     stream_events T S ''/v1/taproot-assets/events/asset-send'' AdminServiceMac
       (JObj (case request of
          None \<Rightarrow> []
        | Some r \<Rightarrow> omit_str ''filter_script_key'' (hex_encode (ss_filter_script_key r)) @
            omit_str ''filter_label'' (ss_filter_label r) @
            omit_str ''start_timestamp'' (if ss_start_timestamp r \<noteq> 0 then int_string (ss_start_timestamp r) else [])))
       (\<lambda>raw. and_then (parse raw) (\<lambda>e. rest_unmarshal_send_event L X (Some e)))"

definition rest_subscribe_mint_events ::
    "'k lib \<Rightarrow> transport \<Rightarrow> ws_server \<Rightarrow> (string \<Rightarrow> json_mint_event result) \<Rightarrow> bool option \<Rightarrow>
      mint_event stream_result result \<times> ws_action list" where
  "rest_subscribe_mint_events L T S parse request =
     stream_events T S ''/v1/taproot-assets/events/asset-mint'' MintServiceMac
       (JObj (case request of None \<Rightarrow> [] | Some short \<Rightarrow> omit_true ''short_response'' short))
       (\<lambda>raw. and_then (parse raw) (\<lambda>e. rest_unmarshal_mint_event L (Some e)))"

end
