(* ===== verification/Tap_GrpcUniverse.thy ===== *)
theory Tap_GrpcUniverse
  imports Tap_GrpcClient
begin

text \<open>The universe client of the gRPC backend (\<open>grpc/universe_client.go\<close>).\<close>

section \<open>Identifiers\<close>

text \<open>The generated proof types are 0, 1 and 2, like those of the SDK.\<close>

definition grpc_marshal_proof_type :: "proof_type \<Rightarrow> int" where
  "grpc_marshal_proof_type pt =
     (if pt = proof_type_issuance then 1 else if pt = proof_type_transfer then 2 else 0)"

definition grpc_unmarshal_proof_type :: "int \<Rightarrow> proof_type" where
  "grpc_unmarshal_proof_type n =
     (if n = 1 then proof_type_issuance else if n = 2 then proof_type_transfer else proof_type_unspecified)"

definition grpc_marshal_universe_id :: "'k lib \<Rightarrow> universe_id option \<Rightarrow> rpc_universe_id result" where
  "grpc_marshal_universe_id L uid =
     and_then (not_nil ''nil universe ID'' uid) (\<lambda>i.
     and_then (errorf ''invalid universe asset ref: '' (asset_ref_validate L (un_asset_ref i))) (\<lambda>_.
     Inr \<lparr>xui_id =
            (if is_group_ref L (un_asset_ref i)
             then Some (IdGroupKey (case ref_group_key L (un_asset_ref i) of None \<Rightarrow> replicate 33 0 | Some k \<Rightarrow> k))
             else if is_asset_id_ref L (un_asset_ref i)
             then Some (IdAssetId (case ref_asset_id L (un_asset_ref i) of None \<Rightarrow> zero32 | Some a \<Rightarrow> a))
             else None),
          xui_proof_type = grpc_marshal_proof_type (un_proof_type i)\<rparr>))"

definition grpc_specifier :: "'k lib \<Rightarrow> rpc_id option \<Rightarrow> (bytes option \<times> bytes option) result" where
  "grpc_specifier L i =
     (case i of
        None \<Rightarrow> Inr (None, None)
      | Some (IdAssetId b) \<Rightarrow> and_then (errorf ''invalid asset ID: '' (parse_asset_id b)) (\<lambda>a. Inr (Some a, None))
      | Some (IdAssetIdStr s) \<Rightarrow>
          and_then (errorf ''invalid asset ID string: '' (parse_asset_id_hex s)) (\<lambda>a. Inr (Some a, None))
      | Some (IdGroupKey b) \<Rightarrow>
          and_then (errorf ''invalid group key: '' (parse_taproot_pub_key L b)) (\<lambda>k. Inr (None, Some k))
      | Some (IdGroupKeyStr s) \<Rightarrow>
          and_then (errorf ''invalid group key string: '' (hex_decode s)) (\<lambda>b.
          and_then (errorf ''invalid group key string: '' (parse_taproot_pub_key L b)) (\<lambda>k. Inr (None, Some k))))"

definition grpc_unmarshal_universe_id :: "'k lib \<Rightarrow> rpc_universe_id option \<Rightarrow> universe_id result" where
  "grpc_unmarshal_universe_id L uid =
     and_then (not_nil ''nil universe ID'' uid) (\<lambda>i.
     and_then (grpc_specifier L (xui_id i)) (\<lambda>(asset_id, group_key).
     and_then (if asset_id \<noteq> None \<or> group_key \<noteq> None
               then asset_ref_from_specifier L asset_id group_key else Inr []) (\<lambda>ref.
     Inr \<lparr>un_asset_ref = ref, un_proof_type = grpc_unmarshal_proof_type (xui_proof_type i)\<rparr>)))"

section \<open>Roots, leaves and proofs\<close>

definition grpc_unmarshal_merkle_sum_node :: "rpc_merkle_sum_node option \<Rightarrow> merkle_sum_node option result" where
  "grpc_unmarshal_merkle_sum_node node =
     when_set (\<lambda>n.
       and_then (errorf ''invalid root hash: '' (parse_hash (xms_root_hash n))) (\<lambda>hash.
       Inr \<lparr>ms_root_hash = hash, ms_root_sum = xms_root_sum n\<rparr>)) node"

text \<open>A root without an ID stands for no root.\<close>

definition grpc_unmarshal_universe_root :: "'k lib \<Rightarrow> rpc_universe_root option \<Rightarrow> universe_root option result" where
  "grpc_unmarshal_universe_root L root =
     and_then (not_nil ''nil universe root'' root) (\<lambda>r.
     if xur_id r = None then Inr None
     else
     and_then (grpc_unmarshal_universe_id L (xur_id r)) (\<lambda>uid.
     and_then (grpc_unmarshal_merkle_sum_node (xur_mssmt_root r)) (\<lambda>mssmt.
     Inr (Some \<lparr>ur_id = uid, ur_mssmt_root = mssmt, ur_asset_name = xur_asset_name r,
                ur_amounts_by_issuance_id = map_of (rev (xur_amounts_by_asset_id r))\<rparr>))))"

text \<open>A root that is decoded only when the response has one.\<close>

definition grpc_optional_root :: "'k lib \<Rightarrow> string \<Rightarrow> rpc_universe_root option \<Rightarrow> universe_root option result" where
  "grpc_optional_root L msg root =
     (case root of None \<Rightarrow> Inr None | Some r \<Rightarrow> errorf msg (grpc_unmarshal_universe_root L (Some r)))"

definition grpc_leaf_outpoint :: "chain_lib \<Rightarrow> rpc_leaf_outpoint option \<Rightarrow> outpoint result" where
  "grpc_leaf_outpoint X p =
     (case p of
        Some (OpStr s) \<Rightarrow> errorf ''invalid outpoint: '' (new_outpoint_from_str X s)
      | Some (Op (Some (hash_str, index))) \<Rightarrow>
          errorf ''invalid outpoint: '' (new_outpoint_from_str X (hash_str @ '':'' @ int_string (sint index)))
      | _ \<Rightarrow> Inr zero_outpoint)"

definition grpc_leaf_script_key :: "'k lib \<Rightarrow> rpc_leaf_script_key option \<Rightarrow> bytes result" where
  "grpc_leaf_script_key L p =
     (case p of
        Some (ScriptKeyBytes b) \<Rightarrow> errorf ''invalid script key: '' (parse_script_key L b)
      | Some (ScriptKeyStr s) \<Rightarrow>
          and_then (errorf ''invalid script key string: '' (hex_decode s)) (\<lambda>b.
          errorf ''invalid script key string: '' (parse_script_key L b))
      | None \<Rightarrow> Inr (replicate 33 0))"

definition grpc_unmarshal_asset_leaf_key :: "'k lib \<Rightarrow> chain_lib \<Rightarrow> rpc_asset_key option \<Rightarrow> asset_leaf_key result" where
  "grpc_unmarshal_asset_leaf_key L X key =
     and_then (not_nil ''nil asset key'' key) (\<lambda>k.
     and_then (grpc_leaf_outpoint X (xak_outpoint k)) (\<lambda>outpoint.
     and_then (grpc_leaf_script_key L (xak_script_key k)) (\<lambda>script_key.
     Inr \<lparr>lk_outpoint = outpoint, lk_script_key = script_key\<rparr>)))"

definition grpc_unmarshal_asset_leaf :: "'k lib \<Rightarrow> chain_lib \<Rightarrow> rpc_asset_leaf option \<Rightarrow> asset_leaf result" where
  "grpc_unmarshal_asset_leaf L X leaf =
     and_then (not_nil ''nil asset leaf'' leaf) (\<lambda>l.
     and_then (when_set (\<lambda>a. errorf ''invalid asset in leaf: '' (grpc_unmarshal_asset L X (Some a))) (xal_asset l)) (\<lambda>asset.
     Inr \<lparr>al_asset = asset, al_proof = xal_proof l\<rparr>))"

definition grpc_leaf_key :: "chain_lib \<Rightarrow> outpoint \<Rightarrow> bytes \<Rightarrow> rpc_asset_key" where
  "grpc_leaf_key X op script_key =
     \<lparr>xak_outpoint = Some (OpStr (outpoint_string X op)), xak_script_key = Some (ScriptKeyBytes script_key)\<rparr>"

definition grpc_marshal_universe_key :: "'k lib \<Rightarrow> chain_lib \<Rightarrow> universe_key option \<Rightarrow> rpc_universe_key result" where
  "grpc_marshal_universe_key L X key =
     and_then (deref key) (\<lambda>k.
     and_then (grpc_marshal_universe_id L (Some (uk_id k))) (\<lambda>uid.
     Inr \<lparr>xuk_id = Some uid,
          xuk_leaf_key = Some (grpc_leaf_key X (lk_outpoint (uk_leaf_key k)) (lk_script_key (uk_leaf_key k)))\<rparr>))"

definition grpc_unmarshal_universe_key :: "'k lib \<Rightarrow> chain_lib \<Rightarrow> rpc_universe_key option \<Rightarrow> universe_key result" where
  "grpc_unmarshal_universe_key L X key =
     and_then (not_nil ''nil universe key'' key) (\<lambda>k.
     and_then (when_set (\<lambda>i. grpc_unmarshal_universe_id L (Some i)) (xuk_id k)) (\<lambda>uid.
     and_then (when_set (\<lambda>l. grpc_unmarshal_asset_leaf_key L X (Some l)) (xuk_leaf_key k)) (\<lambda>leaf_key.
     Inr \<lparr>uk_id = (case uid of None \<Rightarrow> uk_id zero_universe_key | Some i \<Rightarrow> i),
          uk_leaf_key = (case leaf_key of None \<Rightarrow> uk_leaf_key zero_universe_key | Some l \<Rightarrow> l)\<rparr>)))"

definition grpc_unmarshal_asset_proof_response ::
    "'k lib \<Rightarrow> chain_lib \<Rightarrow> rpc_asset_proof_response option \<Rightarrow> asset_proof_response result" where
  "grpc_unmarshal_asset_proof_response L X resp =
     and_then (not_nil ''nil proof response'' resp) (\<lambda>r.
     and_then (when_set (\<lambda>k. errorf ''proof key: '' (grpc_unmarshal_universe_key L X (Some k))) (xqp_req r)) (\<lambda>key.
     and_then (grpc_optional_root L ''universe root: '' (xqp_universe_root r)) (\<lambda>root.
     and_then (when_set (\<lambda>l. errorf ''asset leaf: '' (grpc_unmarshal_asset_leaf L X (Some l))) (xqp_asset_leaf r)) (\<lambda>leaf.
     and_then (errorf ''multiverse root: '' (grpc_unmarshal_merkle_sum_node (xqp_multiverse_root r))) (\<lambda>mroot.
     Inr \<lparr>apr_key = (case key of None \<Rightarrow> zero_universe_key | Some k \<Rightarrow> k), apr_universe_root = root,
          apr_universe_inclusion_proof = xqp_universe_inclusion_proof r, apr_asset_leaf = leaf,
          apr_multiverse_root = mroot,
          apr_multiverse_inclusion_proof = xqp_multiverse_inclusion_proof r\<rparr>)))))"

definition grpc_insert_proof_request ::
    "'k lib \<Rightarrow> chain_lib \<Rightarrow> bytes \<Rightarrow> decoded_proof \<Rightarrow> universe_call result" where
  "grpc_insert_proof_request L X raw_proof decoded =
     and_then (grpc_marshal_universe_id L
        (Some \<lparr>un_asset_ref = dp_asset_ref decoded, un_proof_type = proof_type_transfer\<rparr>)) (\<lambda>uid.
     Inr (RpcInsertProof
       \<lparr>xuk_id = Some (if dp_is_issuance decoded then uid\<lparr>xui_proof_type := 1\<rparr> else uid),
        xuk_leaf_key = Some (grpc_leaf_key X (dp_outpoint decoded) (dp_script_key decoded))\<rparr> raw_proof))"

definition grpc_insert_proof ::
    "'k lib \<Rightarrow> chain_lib \<Rightarrow> grpc_conn \<Rightarrow> bytes \<Rightarrow> decoded_proof \<Rightarrow> unit grpc" where
  "grpc_insert_proof L X G raw_proof decoded =
     universe_method G (grpc_insert_proof_request L X raw_proof decoded) gn_insert_proof
       (not_nil ''invalid insert proof response'')"

definition grpc_asset_roots ::
    "'k lib \<Rightarrow> grpc_conn \<Rightarrow> asset_root_request option \<Rightarrow> (string \<times> universe_root option) list grpc" where
  "grpc_asset_roots L G req =
     universe_method G
       (Inr (RpcAssetRoots (case req of
          None \<Rightarrow> \<lparr>rt_with_amounts_by_id = False, rt_offset = 0, rt_limit = 0, rt_direction = 0\<rparr> | Some r \<Rightarrow> r)))
       gn_asset_roots
       (decode_all (\<lambda>(k, v). and_then (errorf ''root: '' (grpc_unmarshal_universe_root L v)) (\<lambda>r. Inr (k, r))))"

definition grpc_query_asset_roots :: "'k lib \<Rightarrow> grpc_conn \<Rightarrow> universe_id option \<Rightarrow> query_root_response grpc" where
  "grpc_query_asset_roots L G uid =
     universe_method G (and_then (grpc_marshal_universe_id L uid) (\<lambda>i. Inr (RpcQueryAssetRoots i))) gn_query_roots
       (\<lambda>resp.
          and_then (grpc_optional_root L ''issuance root: '' (xqr_issuance_root resp)) (\<lambda>i.
          and_then (grpc_optional_root L ''transfer root: '' (xqr_transfer_root resp)) (\<lambda>t.
          Inr \<lparr>qr_issuance_root = i, qr_transfer_root = t\<rparr>)))"

definition grpc_delete_asset_root :: "'k lib \<Rightarrow> grpc_conn \<Rightarrow> universe_id option \<Rightarrow> unit grpc" where
  "grpc_delete_asset_root L G uid =
     universe_method G (and_then (grpc_marshal_universe_id L uid) (\<lambda>i. Inr (RpcDeleteAssetRoot i))) gn_done Inr"

definition grpc_asset_leaf_keys ::
    "'k lib \<Rightarrow> chain_lib \<Rightarrow> grpc_conn \<Rightarrow> asset_leaf_keys_request option \<Rightarrow> asset_leaf_key list grpc" where
  "grpc_asset_leaf_keys L X G req =
     universe_method G
       (and_then (not_nil ''nil request'' req) (\<lambda>r.
        and_then (grpc_marshal_universe_id L (Some (kq_id r))) (\<lambda>i.
        Inr (RpcAssetLeafKeys \<lparr>qlk_id = i, qlk_offset = kq_offset r, qlk_limit = kq_limit r,
               qlk_direction = kq_direction r\<rparr>))))
       gn_leaf_keys (decode_all (grpc_unmarshal_asset_leaf_key L X))"

definition grpc_asset_leaves :: "'k lib \<Rightarrow> chain_lib \<Rightarrow> grpc_conn \<Rightarrow> universe_id option \<Rightarrow> asset_leaf list grpc" where
  "grpc_asset_leaves L X G uid =
     universe_method G (and_then (grpc_marshal_universe_id L uid) (\<lambda>i. Inr (RpcAssetLeaves i))) gn_leaves
       (decode_all (grpc_unmarshal_asset_leaf L X))"

definition grpc_query_proof ::
    "'k lib \<Rightarrow> chain_lib \<Rightarrow> grpc_conn \<Rightarrow> universe_key option \<Rightarrow> asset_proof_response grpc" where
  "grpc_query_proof L X G key =
     universe_method G (and_then (grpc_marshal_universe_key L X key) (\<lambda>k. Inr (RpcQueryProof k))) gn_query_proof
       (grpc_unmarshal_asset_proof_response L X)"

section \<open>Statistics\<close>

definition grpc_universe_stats :: "grpc_conn \<Rightarrow> universe_stats grpc" where
  "grpc_universe_stats G =
     universe_method G (Inr RpcUniverseStats) gn_stats
       (\<lambda>resp. Inr \<lparr>us_num_total_assets = us_num_total_assets resp, us_num_total_groups = us_num_total_groups resp,
                    us_num_total_syncs = us_num_total_syncs resp, us_num_total_proofs = us_num_total_proofs resp\<rparr>)"

text \<open>
  A nil query is dereferenced. A query whose reference is invalid becomes the nil message, which is
  sent.
\<close>

definition grpc_marshal_asset_stats_query ::
    "'k lib \<Rightarrow> asset_stats_query option \<Rightarrow> rpc_asset_stats_query option result" where
  "grpc_marshal_asset_stats_query L request =
     and_then (deref request) (\<lambda>req.
     let rpc_req = \<lparr>qas_asset_name_filter = aq_asset_name_filter req, qas_asset_id_filter = [],
           qas_asset_type_filter = to_int32 (aq_asset_type_filter req), qas_sort_by = to_int32 (aq_sort_by req),
           qas_offset = aq_stats_offset req, qas_limit = aq_stats_limit req,
           qas_direction = aq_stats_direction req\<rparr> in
     Inr (case aq_asset_ref_filter req of
            None \<Rightarrow> Some rpc_req
          | Some ref \<Rightarrow>
              (case asset_ref_validate L ref of
                 Inl _ \<Rightarrow> None
               | Inr _ \<Rightarrow> Some (rpc_req\<lparr>qas_asset_id_filter := bytes_or_empty (ref_asset_id L ref)\<rparr>))))"

definition grpc_unmarshal_asset_stats_asset :: "'k lib \<Rightarrow> rpc_asset_stats_asset option \<Rightarrow> asset_stats_asset result" where
  "grpc_unmarshal_asset_stats_asset L asset =
     and_then (not_nil ''nil stats asset'' asset) (\<lambda>a.
     and_then (errorf ''invalid asset ID: '' (parse_asset_id (xaa_asset_id a))) (\<lambda>asset_id.
     and_then (asset_ref_from_asset_id L asset_id) (\<lambda>ref.
     Inr \<lparr>sa_asset_ref = ref, sa_issuance_id = asset_id, sa_genesis_point = xaa_genesis_point a,
          sa_total_supply = xaa_total_supply a, sa_asset_name = xaa_asset_name a,
          sa_asset_type = (if xaa_asset_type a = 1 then asset_type_collectible else asset_type_normal),
          sa_genesis_height = xaa_genesis_height a, sa_genesis_timestamp = xaa_genesis_timestamp a,
          sa_anchor_point = xaa_anchor_point a, sa_decimal_display = xaa_decimal_display a\<rparr>)))"

definition grpc_unmarshal_asset_stats_snapshot ::
    "'k lib \<Rightarrow> rpc_asset_stats_snapshot option \<Rightarrow> asset_stats_snapshot result" where
  "grpc_unmarshal_asset_stats_snapshot L snapshot =
     and_then (not_nil ''nil stats snapshot'' snapshot) (\<lambda>s.
     and_then (if xss_group_key s = [] then Inr ([], None)
               else and_then (errorf ''invalid group key: '' (parse_pub_key L (xss_group_key s))) (\<lambda>k.
                    and_then (asset_ref_from_group_key L k) (\<lambda>ref. Inr (ref, Some k)))) (\<lambda>(group_ref, group_key).
     and_then (when_set (\<lambda>a. errorf ''group anchor: '' (grpc_unmarshal_asset_stats_asset L (Some a)))
                 (xss_group_anchor s)) (\<lambda>anchor.
     and_then (when_set (\<lambda>a. errorf ''asset: '' (grpc_unmarshal_asset_stats_asset L (Some a))) (xss_asset s)) (\<lambda>asset.
     Inr \<lparr>ss_asset_ref = (case asset of
            Some a \<Rightarrow> (if asset_ref_is_zero group_ref then sa_asset_ref a else group_ref) | None \<Rightarrow> group_ref),
          ss_group_key = group_key, ss_group_supply = xss_group_supply s, ss_group_anchor = anchor,
          ss_asset = asset, ss_total_syncs = xss_total_syncs s, ss_total_proofs = xss_total_proofs s\<rparr>))))"

definition grpc_query_asset_stats ::
    "'k lib \<Rightarrow> grpc_conn \<Rightarrow> asset_stats_query option \<Rightarrow> asset_stats_snapshot list grpc" where
  "grpc_query_asset_stats L G req =
     universe_method G (and_then (grpc_marshal_asset_stats_query L req) (\<lambda>q. Inr (RpcQueryAssetStats q))) gn_asset_stats
       (decode_all (grpc_unmarshal_asset_stats_snapshot L))"

definition grpc_query_events :: "grpc_conn \<Rightarrow> (int \<times> int) option \<Rightarrow> grouped_universe_events list grpc" where
  "grpc_query_events G req =
     universe_method G (and_then (deref req) (\<lambda>(first, final). Inr (RpcQueryEvents first final))) gn_events
       (decode_all (\<lambda>event. and_then (deref event) (\<lambda>e.
          Inr \<lparr>ge_date = ge_date e, ge_sync_events = ge_sync_events e,
               ge_new_proof_events = ge_new_proof_events e\<rparr>)))"

section \<open>Federation\<close>

definition grpc_list_federation_servers :: "grpc_conn \<Rightarrow> federation_server list grpc" where
  "grpc_list_federation_servers G =
     universe_method G (Inr RpcListFederationServers) gn_servers
       (decode_all (\<lambda>server. and_then (deref server) (\<lambda>s. Inr \<lparr>fs_host = fs_host s, fs_id = fs_id s\<rparr>)))"

definition grpc_add_federation_server :: "grpc_conn \<Rightarrow> federation_server list \<Rightarrow> unit grpc" where
  "grpc_add_federation_server G servers =
     universe_method G (Inr (RpcAddFederationServer servers)) gn_done Inr"

definition grpc_delete_federation_server :: "grpc_conn \<Rightarrow> federation_server list \<Rightarrow> unit grpc" where
  "grpc_delete_federation_server G servers =
     universe_method G (Inr (RpcDeleteFederationServer servers)) gn_done Inr"

definition grpc_global_config :: "global_sync_config \<Rightarrow> rpc_global_sync_config" where
  "grpc_global_config c =
     \<lparr>xgs_proof_type = grpc_marshal_proof_type (gc_proof_type c),
      xgs_allow_sync_insert = gc_allow_sync_insert c, xgs_allow_sync_export = gc_allow_sync_export c\<rparr>"

definition grpc_asset_config :: "'k lib \<Rightarrow> asset_sync_config \<Rightarrow> rpc_asset_sync_config result" where
  "grpc_asset_config L c =
     and_then (grpc_marshal_universe_id L (Some (sc_id c))) (\<lambda>i.
     Inr \<lparr>xac_id = Some i, xac_allow_sync_insert = sc_allow_sync_insert c,
          xac_allow_sync_export = sc_allow_sync_export c\<rparr>)"

definition grpc_set_federation_sync_config ::
    "'k lib \<Rightarrow> grpc_conn \<Rightarrow> global_sync_config list \<Rightarrow> asset_sync_config list \<Rightarrow> unit grpc" where
  "grpc_set_federation_sync_config L G global assets =
     universe_method G
       (and_then (decode_all (grpc_asset_config L) assets) (\<lambda>as.
          Inr (RpcSetFederationSyncConfig (map grpc_global_config global) as)))
       gn_done Inr"

definition grpc_query_federation_sync_config ::
    "'k lib \<Rightarrow> grpc_conn \<Rightarrow> universe_id list \<Rightarrow> federation_sync_config grpc" where
  "grpc_query_federation_sync_config L G uids =
     universe_method G
       (and_then (decode_all (\<lambda>i. grpc_marshal_universe_id L (Some i)) uids) (\<lambda>rpc_ids.
          Inr (RpcQueryFederationSyncConfig rpc_ids)))
       gn_sync_config
       (\<lambda>resp.
          and_then (decode_all (\<lambda>config. and_then (deref config) (\<lambda>g.
                      Inr \<lparr>gc_proof_type = grpc_unmarshal_proof_type (xgs_proof_type g),
                           gc_allow_sync_insert = xgs_allow_sync_insert g,
                           gc_allow_sync_export = xgs_allow_sync_export g\<rparr>)) (xqc_global_sync_configs resp)) (\<lambda>global.
          and_then (decode_all (\<lambda>config. and_then (deref config) (\<lambda>a.
                      and_then (errorf ''asset sync config ID: '' (grpc_unmarshal_universe_id L (xac_id a))) (\<lambda>uid.
                      Inr \<lparr>sc_id = uid, sc_allow_sync_insert = xac_allow_sync_insert a,
                           sc_allow_sync_export = xac_allow_sync_export a\<rparr>))) (xqc_asset_sync_configs resp)) (\<lambda>assets.
          Inr \<lparr>fc_global = global, fc_asset = assets\<rparr>)))"

definition grpc_universe_info :: "grpc_conn \<Rightarrow> int grpc" where
  "grpc_universe_info G = universe_method G (Inr RpcUniverseInfo) gn_info Inr"

section \<open>Synchronisation\<close>

definition grpc_unmarshal_synced_universe :: "'k lib \<Rightarrow> chain_lib \<Rightarrow> rpc_synced_universe option \<Rightarrow> synced_universe result" where
  "grpc_unmarshal_synced_universe L X synced =
     and_then (not_nil ''nil synced universe'' synced) (\<lambda>s.
     and_then (grpc_optional_root L ''old root: '' (xsu_old_asset_root s)) (\<lambda>old_root.
     and_then (grpc_optional_root L ''new root: '' (xsu_new_asset_root s)) (\<lambda>new_root.
     and_then (decode_all (\<lambda>l. errorf ''synced leaf: '' (grpc_unmarshal_asset_leaf L X l)) (xsu_new_asset_leaves s)) (\<lambda>leaves.
     Inr \<lparr>su_old_asset_root = old_root, su_new_asset_root = new_root, su_new_asset_leaves = leaves\<rparr>))))"

definition grpc_sync_universe :: "'k lib \<Rightarrow> chain_lib \<Rightarrow> grpc_conn \<Rightarrow> sync_request option \<Rightarrow> synced_universe list grpc" where
  "grpc_sync_universe L X G req =
     universe_method G
       (and_then (deref req) (\<lambda>r.
        and_then (decode_all (\<lambda>i. grpc_marshal_universe_id L (Some i)) (sy_sync_targets r)) (\<lambda>targets.
        Inr (RpcSyncUniverse \<lparr>qsy_universe_host = sy_universe_host r,
          qsy_sync_mode = to_int32 (sy_sync_mode r), qsy_sync_targets = targets\<rparr>))))
       gn_sync (decode_all (grpc_unmarshal_synced_universe L X))"

end
