(* ===== verification/Tap_GrpcFacts.thy ===== *)
theory Tap_GrpcFacts
  imports Tap_RestFacts Tap_BackendEvents Tap_GrpcUniverse
begin

text \<open>
  What the gRPC backend guarantees, and that the two backends agree: the proto JSON of a message is
  read by the REST backend as the message itself is read by the gRPC backend.
\<close>

section \<open>The proto JSON of a message\<close>

text \<open>
  How the gateway renders a message: bytes in hexadecimal, 64-bit integers as decimal text, an enum as
  its name, or as its number when it has none.
\<close>

definition enum_json :: "(int \<times> string) list \<Rightarrow> int \<Rightarrow> string" where
  "enum_json names n = (case map_of names n of Some s \<Rightarrow> s | None \<Rightarrow> int_string n)"

definition uint_json :: "u64 \<Rightarrow> string" where
  "uint_json n = dec_string (unat n)"

definition asset_type_json :: "int \<Rightarrow> string" where
  "asset_type_json = enum_json [(0, ''NORMAL''), (1, ''COLLECTIBLE'')]"

definition asset_version_json :: "int \<Rightarrow> string" where
  "asset_version_json = enum_json [(0, ''ASSET_VERSION_V0''), (1, ''ASSET_VERSION_V1'')]"

definition json_of_genesis :: "rpc_genesis_info \<Rightarrow> json_genesis_info" where
  "json_of_genesis g =
     \<lparr>jge_genesis_point = xge_genesis_point g, jge_name = xge_name g, jge_meta_hash = hex_encode (xge_meta_hash g),
      jge_asset_id = hex_encode (xge_asset_id g), jge_asset_type = asset_type_json (xge_asset_type g),
      jge_output_index = xge_output_index g\<rparr>"

text \<open>Of a group the backends read the tweaked key only; the other fields may hold anything.\<close>

definition json_of_asset :: "string \<Rightarrow> string \<Rightarrow> rpc_asset \<Rightarrow> json_asset" where
  "json_of_asset raw_key root a =
     \<lparr>jas_version = asset_version_json (xas_version a), jas_asset_genesis = map_option json_of_genesis (xas_asset_genesis a),
      jas_amount = uint_json (xas_amount a), jas_lock_time = xas_lock_time a,
      jas_relative_lock_time = xas_relative_lock_time a, jas_script_version = xas_script_version a,
      jas_script_key = hex_encode (xas_script_key a),
      jas_asset_group = map_option (\<lambda>k. \<lparr>jgr_raw_group_key = raw_key, jgr_tweaked_group_key = hex_encode k,
        jgr_tapscript_root = root\<rparr>) (xas_asset_group a),
      jas_chain_anchor = map_option (\<lambda>p. \<lparr>jca_anchor_outpoint = p\<rparr>) (xas_chain_anchor a)\<rparr>"

definition json_of_output :: "rpc_transfer_output \<Rightarrow> json_transfer_output" where
  "json_of_output out =
     \<lparr>jto_amount = uint_json (xto_amount out), jto_asset_id = hex_encode (xto_asset_id out),
      jto_asset_type = asset_type_json (xto_asset_type out), jto_script_key = hex_encode (xto_script_key out),
      jto_new_proof_blob = hex_encode (xto_new_proof_blob out),
      jto_anchor = map_option (\<lambda>(p, v). \<lparr>jan_outpoint = p, jan_value = int_string v\<rparr>) (xto_anchor out),
      jto_group_key = hex_encode (xto_group_key out)\<rparr>"

definition json_of_input :: "rpc_transfer_input \<Rightarrow> json_transfer_input" where
  "json_of_input i =
     \<lparr>jti_anchor_point = xti_anchor_point i, jti_asset_id = hex_encode (xti_asset_id i),
      jti_asset_type = asset_type_json (xti_asset_type i), jti_script_key = hex_encode (xti_script_key i),
      jti_amount = uint_json (xti_amount i), jti_group_key = hex_encode (xti_group_key i)\<rparr>"

definition json_of_transfer :: "rpc_asset_transfer \<Rightarrow> json_asset_transfer" where
  "json_of_transfer t =
     \<lparr>jat_transfer_timestamp = int_string (xat_transfer_timestamp t), jat_anchor_tx_hash = hex_encode (xat_anchor_tx_hash t),
      jat_anchor_tx_height_hint = xat_anchor_tx_height_hint t,
      jat_anchor_tx_chain_fees = int_string (xat_anchor_tx_chain_fees t),
      jat_inputs = map (map_option json_of_input) (xat_inputs t),
      jat_outputs = map (map_option json_of_output) (xat_outputs t),
      jat_anchor_tx_block_hash = map_option (\<lambda>(h, s). \<lparr>jbh_hash = hex_encode h, jbh_hash_str = s\<rparr>) (xat_anchor_tx_block_hash t),
      jat_anchor_tx_block_height = xat_anchor_tx_block_height t, jat_label = xat_label t,
      jat_anchor_tx = hex_encode (xat_anchor_tx t)\<rparr>"

section \<open>Reading a rendered value\<close>

lemma parse_uint_json [simp]: "parse_uint64 (uint_json n) = Inr n"
  using unsigned_less [where 'a = nat and w = n]
  by (simp add: uint_json_def parse_uint64_def go_parse_uint_dec)

lemma hex_encode_Nil_iff [simp]: "hex_encode b = [] \<longleftrightarrow> b = []"
  using hex_encode_inj [of b "[]"] by (simp add: hex_encode_def)

lemma dec_string_head: "hd (dec_string n) \<noteq> CHR ''-'' \<and> hd (dec_string n) \<noteq> CHR ''+''"
  using dec_string_digits [of "hd (dec_string n)" n] by (auto simp: is_digit_def)

lemma parse_int_string [simp]:
  assumes "- (2 ^ 63) \<le> i" "i < 2 ^ 63"
  shows "parse_int64 (int_string i) = Inr i"
proof -
  have "nat \<bar>i\<bar> < 2 ^ 64" using assms by (simp add: nat_less_iff abs_if)
  then have *: "go_parse_uint (dec_string (nat \<bar>i\<bar>)) = Inr (of_nat (nat \<bar>i\<bar>))"
    "unat (of_nat (nat \<bar>i\<bar>) :: u64) = nat \<bar>i\<bar>"
    by (simp_all only: go_parse_uint_dec unsigned_of_nat take_bit_nat_eq_self_iff [THEN iffD2] len_of_numeral_defs)
      (simp_all add: take_bit_nat_eq_self)
  show ?thesis
    using * assms dec_string_head [of "nat i"]
    by (cases "i < 0") (auto simp: parse_int64_def int_string_def go_parse_int_def Let_def nat_le_iff abs_if
        zero_le_imp_eq_int le_nat_iff split: if_splits)
qed

lemma int_string_head: "hd (int_string n) \<in> {CHR ''-''} \<union> {c. is_digit c}" "int_string n \<noteq> []"
  using dec_string_digits [of "hd (dec_string (nat n))" "nat n"] by (auto simp: int_string_def)

lemma int_string_not_name: "\<not> is_digit c \<Longrightarrow> c \<noteq> CHR ''-'' \<Longrightarrow> int_string n \<noteq> c # s"
  using int_string_head [of n] by auto

lemma parse_asset_type_json [simp]:
  "parse_asset_type (asset_type_json t) = Inr ty \<longleftrightarrow> grpc_unmarshal_asset_type t = Inr ty"
proof -
  have "int_string t \<noteq> ''NORMAL''" "int_string t \<noteq> ''COLLECTIBLE''"
    by (rule int_string_not_name; simp add: is_digit_def of_char_def)+
  then show ?thesis
    by (cases "t = 0"; cases "t = 1")
      (simp_all add: parse_asset_type_def asset_type_json_def enum_json_def grpc_unmarshal_asset_type_def)
qed

lemma parse_asset_version_json:
  "v \<in> {0, 1} \<Longrightarrow> parse_asset_version (asset_version_json v) = to_uint8 v"
  by (auto simp: parse_asset_version_def asset_version_json_def enum_json_def to_uint8_def)

section \<open>The backends agree\<close>

text \<open>
  The messages that both backends can read alike: a version that the SDK knows and, for an asset, a
  metadata hash of no or 32 bytes (gRPC refuses others, REST reads the zero hash).
\<close>

definition common_genesis :: "rpc_genesis_info \<Rightarrow> bool" where
  "common_genesis g \<longleftrightarrow> length (xge_meta_hash g) \<in> {0, 32}"

definition common_asset :: "rpc_asset \<Rightarrow> bool" where
  "common_asset a \<longleftrightarrow> xas_version a \<in> {0, 1} \<and> pred_option common_genesis (xas_asset_genesis a)"

lemma agree_genesis:
  "common_genesis g \<Longrightarrow>
     unmarshal_issuance_genesis X (Some (json_of_genesis g)) = Inr r \<longleftrightarrow>
     grpc_unmarshal_issuance_genesis X (Some g) = Inr r"
  by (auto simp: unmarshal_issuance_genesis_def grpc_unmarshal_issuance_genesis_def json_of_genesis_def
      common_genesis_def and_then_eq_Inr split: if_splits)

lemma agree_anchor_point [simp]:
  "unmarshal_anchor_point X (map_option (\<lambda>p. \<lparr>jca_anchor_outpoint = p\<rparr>) c) = grpc_anchor_point X c"
  by (simp add: unmarshal_anchor_point_def grpc_anchor_point_def split: option.split sum.split)

lemma tweaked_key_json [simp]:
  "unmarshal_tweaked_key (map_option (\<lambda>k. \<lparr>jgr_raw_group_key = raw_key, jgr_tweaked_group_key = hex_encode k,
       jgr_tapscript_root = root\<rparr>) g) =
     Inr (case g of Some k \<Rightarrow> (if length k = 33 then Some k else None) | None \<Rightarrow> None)"
  by (simp add: unmarshal_tweaked_key_def split: option.split)

lemma agree_asset:
  assumes "common_asset a"
  shows "unmarshal_asset L X (Some (json_of_asset raw_key root a)) = Inr r \<longleftrightarrow> grpc_unmarshal_asset L X (Some a) = Inr r"
proof (cases "xas_asset_genesis a")
  case None
  then show ?thesis
    by (simp add: unmarshal_asset_def grpc_unmarshal_asset_def json_of_asset_def unmarshal_issuance_genesis_def and_then_eq_Inr)
next
  case (Some g)
  with assms have "common_genesis g" "xas_version a \<in> {0, 1}" by (simp_all add: common_asset_def)
  then show ?thesis
    by (auto simp: unmarshal_asset_def grpc_unmarshal_asset_def json_of_asset_def Some and_then_eq_Inr agree_genesis
        parse_asset_version_json)
qed

lemma transfer_group_json [simp]: "unmarshal_transfer_group L msg (hex_encode k) = grpc_optional_key L msg k"
  by (simp add: unmarshal_transfer_group_def grpc_optional_key_def)

definition int64 :: "int \<Rightarrow> bool" where
  "int64 n \<longleftrightarrow> - (2 ^ 63) \<le> n \<and> n < 2 ^ 63"

lemma parse_int64_json [simp]: "int64 n \<Longrightarrow> parse_int64 (int_string n) = Inr n"
  unfolding int64_def by (rule parse_int_string) auto

lemma agree_output:
  assumes "pred_option (\<lambda>(p, v). int64 v) (xto_anchor out)"
  shows "unmarshal_transfer_output L X (Some (json_of_output out)) = Inr r \<longleftrightarrow>
     grpc_unmarshal_transfer_output L X (Some out) = Inr r"
proof (cases "xto_anchor out")
  case None
  show ?thesis
    by (auto simp: unmarshal_transfer_output_def grpc_unmarshal_transfer_output_def json_of_output_def None
        and_then_eq_Inr when_set_def)
next
  case (Some pv)
  moreover obtain p v where "pv = (p, v)" by (cases pv)
  ultimately show ?thesis using assms
    by (auto simp: unmarshal_transfer_output_def grpc_unmarshal_transfer_output_def json_of_output_def
        and_then_eq_Inr when_set_def)
qed

lemma agree_input:
  "unmarshal_transfer_input L X (Some (json_of_input i)) = Inr r \<longleftrightarrow> grpc_unmarshal_transfer_input L X (Some i) = Inr r"
  by (auto simp: unmarshal_transfer_input_def grpc_unmarshal_transfer_input_def json_of_input_def and_then_eq_Inr)

lemma agree_all:
  assumes "list_all (\<lambda>x. \<forall>r. f (h x) = Inr r \<longleftrightarrow> g x = Inr r) xs"
  shows "decode_all f (map h xs) = Inr ys \<longleftrightarrow> decode_all g xs = Inr ys"
  using assms by (induction xs arbitrary: ys) (auto simp: and_then_eq_Inr)

lemma nil_refused [simp]:
  "unmarshal_asset L X None = Inr a \<longleftrightarrow> False" "grpc_unmarshal_asset L X None = Inr a \<longleftrightarrow> False"
  "unmarshal_transfer_output L X None = Inr out \<longleftrightarrow> False" "grpc_unmarshal_transfer_output L X None = Inr out \<longleftrightarrow> False"
  "unmarshal_transfer_input L X None = Inr i \<longleftrightarrow> False" "grpc_unmarshal_transfer_input L X None = Inr i \<longleftrightarrow> False"
  by (simp_all add: unmarshal_asset_def grpc_unmarshal_asset_def unmarshal_transfer_output_def
      grpc_unmarshal_transfer_output_def unmarshal_transfer_input_def grpc_unmarshal_transfer_input_def and_then_eq_Inr)

text \<open>
  The backends read a list of assets alike: where the REST proxy renders the daemon's assets as
  proto JSON, REST returns exactly the records that gRPC returns, in the same order, or both refuse.
\<close>

theorem backends_agree_on_assets:
  assumes "list_all (pred_option common_asset) assets"
  shows "decode_all (unmarshal_asset L X) (map (map_option (json_of_asset raw_key root)) assets) = Inr rs \<longleftrightarrow>
    decode_all (grpc_unmarshal_asset L X) assets = Inr rs"
proof (rule agree_all)
  have "unmarshal_asset L X (map_option (json_of_asset raw_key root) a) = Inr r \<longleftrightarrow> grpc_unmarshal_asset L X a = Inr r"
    if "pred_option common_asset a" for a r
    using that by (cases a) (simp_all add: agree_asset)
  with assms show "list_all (\<lambda>x. \<forall>r. unmarshal_asset L X (map_option (json_of_asset raw_key root) x) = Inr r \<longleftrightarrow>
      grpc_unmarshal_asset L X x = Inr r) assets"
    by (simp add: list_all_iff)
qed

text \<open>The values of a transfer that Go holds in an \<open>int64\<close>.\<close>

definition int64_transfer :: "rpc_asset_transfer \<Rightarrow> bool" where
  "int64_transfer t \<longleftrightarrow>
     int64 (xat_transfer_timestamp t) \<and> int64 (xat_anchor_tx_chain_fees t) \<and>
     list_all (pred_option (\<lambda>out. pred_option (\<lambda>(p, v). int64 v) (xto_anchor out))) (xat_outputs t)"

text \<open>
  C40. The backends read a transfer alike: for the proto JSON of a transfer, as the daemon's REST proxy
  renders it, the REST backend returns exactly the record that the gRPC backend returns for the transfer
  itself, or both refuse it.
\<close>

theorem backends_agree_on_transfers:
  assumes "int64_transfer t"
  shows "unmarshal_asset_transfer L X (Some (json_of_transfer t)) = Inr r \<longleftrightarrow>
    grpc_unmarshal_asset_transfer L X (Some t) = Inr r"
proof -
  have "unmarshal_transfer_output L X (map_option json_of_output out) = Inr q \<longleftrightarrow>
      grpc_unmarshal_transfer_output L X out = Inr q"
    if "pred_option (\<lambda>out. pred_option (\<lambda>(p, v). int64 v) (xto_anchor out)) out" for out q
    using that by (cases out) (simp_all add: agree_output)
  with assms have "decode_all (unmarshal_transfer_output L X) (map (map_option json_of_output) (xat_outputs t)) = Inr outs \<longleftrightarrow>
      decode_all (grpc_unmarshal_transfer_output L X) (xat_outputs t) = Inr outs" for outs
    by (intro agree_all) (simp add: int64_transfer_def list_all_iff)
  moreover have "unmarshal_transfer_input L X (map_option json_of_input i) = Inr q \<longleftrightarrow> grpc_unmarshal_transfer_input L X i = Inr q" for i q
    by (cases i) (simp_all add: agree_input)
  then have "decode_all (unmarshal_transfer_input L X) (map (map_option json_of_input) (xat_inputs t)) = Inr ins \<longleftrightarrow>
      decode_all (grpc_unmarshal_transfer_input L X) (xat_inputs t) = Inr ins" for ins
    by (intro agree_all) (simp add: list_all_iff)
  ultimately show ?thesis using assms
    by (cases "xat_anchor_tx_block_hash t")
      (auto simp: unmarshal_asset_transfer_def grpc_unmarshal_asset_transfer_def json_of_transfer_def and_then_eq_Inr
        int64_transfer_def Let_def)
qed

definition sample_rpc_transfer :: rpc_asset_transfer where
  "sample_rpc_transfer =
     \<lparr>xat_transfer_timestamp = - 5, xat_anchor_tx_hash = replicate 32 3, xat_anchor_tx_height_hint = 7,
      xat_anchor_tx_chain_fees = 200, xat_inputs = [],
      xat_outputs = [Some \<lparr>xto_amount = 9, xto_asset_id = replicate 32 1, xto_asset_type = 1, xto_script_key = [],
        xto_new_proof_blob = [4, 5], xto_anchor = None, xto_group_key = []\<rparr>],
      xat_anchor_tx_block_hash = Some (replicate 32 2, ''block''), xat_anchor_tx_block_height = 8,
      xat_label = ''rent'', xat_anchor_tx = [6]\<rparr>"

theorem backends_agree_on_transfers_witness:
  "is_ok (unmarshal_asset_transfer sample_lib sample_chain (Some (json_of_transfer sample_rpc_transfer))) \<and>
   unmarshal_asset_transfer sample_lib sample_chain (Some (json_of_transfer sample_rpc_transfer)) =
     grpc_unmarshal_asset_transfer sample_lib sample_chain (Some sample_rpc_transfer)"
proof -
  have "is_ok (grpc_unmarshal_asset_transfer sample_lib sample_chain (Some sample_rpc_transfer))"
    by (simp add: grpc_unmarshal_asset_transfer_def sample_rpc_transfer_def grpc_unmarshal_transfer_output_def
        grpc_unmarshal_asset_type_def grpc_optional_key_def exact_length_def when_set_def Let_def)
  then obtain r where r: "grpc_unmarshal_asset_transfer sample_lib sample_chain (Some sample_rpc_transfer) = Inr r"
    by (auto simp: is_ok_iff)
  have "int64_transfer sample_rpc_transfer" by (simp add: int64_transfer_def int64_def sample_rpc_transfer_def)
  from backends_agree_on_transfers [OF this, of sample_lib sample_chain r] r show ?thesis by simp
qed

section \<open>Sends\<close>

lemma embedded_amounts_eq:
  "embedded_amounts rs = (filter explicit_amount rs = [], filter (\<lambda>r. \<not> explicit_amount r) rs \<noteq> [])"
proof -
  have "foldl (\<lambda>(all_embedded, any_embedded) r. if snd (recipient_amount r) then (False, any_embedded) else (all_embedded, True))
      (a, b) rs = (a \<and> filter explicit_amount rs = [], b \<or> filter (\<lambda>r. \<not> explicit_amount r) rs \<noteq> [])" for a b
    by (induction rs arbitrary: a b) (auto simp: explicit_amount_def)
  then show ?thesis by (simp add: embedded_amounts_def)
qed

lemma marshal_send_eq:
  "grpc_marshal_send_asset_request (Some req) =
     (if 0xFFFFFFFF < sat_per_kweight (sr_fee_rate req) then Inl (Plain ''fee rate overflows sat/kWU'')
      else if mixed_amounts (sr_recipients req) then Inl (Sentinel ErrMixedRecipientAmounts)
      else Inr \<lparr>qsa_tap_addrs = (if filter explicit_amount (sr_recipients req) = [] then map rc_address (sr_recipients req) else []),
        qsa_fee_rate = ucast (sat_per_kweight (sr_fee_rate req)), qsa_label = sr_label req,
        qsa_addresses_with_amounts = (if filter explicit_amount (sr_recipients req) = [] then []
          else map (\<lambda>r. (rc_address r, fst (recipient_amount r))) (sr_recipients req)),
        qsa_skip_proof_courier_ping_check = sr_skip_ping req\<rparr>)"
  by (simp add: grpc_marshal_send_asset_request_def fee_rate_sat_per_kweight_def embedded_amounts_eq mixed_amounts_def Let_def)

end
