(* ===== verification/Tap_BackendTls.thy ===== *)
theory Tap_BackendTls
  imports Tap_GrpcCalls
begin

text \<open>
  How both backends trust a server and authenticate to it (\<open>grpc/tls_source.go\<close>, \<open>grpc/client.go\<close>,
  \<open>grpc/config.go\<close>, \<open>rest/tls_source.go\<close>, \<open>rest/transport.go\<close>, \<open>rest/client.go\<close>).
\<close>

section \<open>Trust\<close>

text \<open>
  \<open>grpc/tls_source.go\<close>, \<open>grpc/client.go\<close> and \<open>rest/tls_source.go\<close>: where the trusted certificates
  come from. \<open>None\<close> as the pool is the pool of the system. \<open>pem_decode\<close> yields the type and the bytes
  of the first block, \<open>parse_certificate\<close> is \<open>x509.ParseCertificate\<close>.
\<close>

datatype tls_source = TLSFromPath string | TLSFromData bytes | TLSSystemCert | TLSInsecure

record 'c x509 =
  pem_decode :: "bytes \<Rightarrow> (string \<times> bytes) option"
  parse_certificate :: "bytes \<Rightarrow> 'c result"

record 'c tls_config =
  tc_root_cas :: "'c list option"
  tc_min_version :: u16
  tc_insecure_skip_verify :: bool

definition cert_pool_from_pem :: "'c x509 \<Rightarrow> bytes \<Rightarrow> 'c list result" where
  "cert_pool_from_pem C pem_data =
     (case pem_decode C pem_data of
        None \<Rightarrow> Inl (Plain ''failed to decode PEM block containing tls certificate'')
      | Some (ty, b) \<Rightarrow>
          (if ty \<noteq> ''CERTIFICATE'' then Inl (Plain ''failed to decode PEM block containing tls certificate'')
           else and_then (parse_certificate C b) (\<lambda>cert. Inr [cert])))"

definition cert_pool_from_file :: "'c x509 \<Rightarrow> file_system \<Rightarrow> string \<Rightarrow> 'c list result" where
  "cert_pool_from_file C F path =
     and_then (errorf_text ''unable to read TLS cert: '' (os_read_file F path)) (cert_pool_from_pem C)"

definition trust_pool :: "'c list \<Rightarrow> u16 \<Rightarrow> 'c tls_config" where
  "trust_pool pool min_version =
     \<lparr>tc_root_cas = Some pool, tc_min_version = min_version, tc_insecure_skip_verify = False\<rparr>"

primrec source_tls_config :: "'c x509 \<Rightarrow> file_system \<Rightarrow> u16 \<Rightarrow> tls_source \<Rightarrow> 'c tls_config result" where
  "source_tls_config C F min_version (TLSFromPath path) =
     and_then (cert_pool_from_file C F path) (\<lambda>pool. Inr (trust_pool pool min_version))"
| "source_tls_config C F min_version (TLSFromData pem) =
     and_then (cert_pool_from_pem C pem) (\<lambda>pool. Inr (trust_pool pool min_version))"
| "source_tls_config C F min_version TLSSystemCert =
     Inr \<lparr>tc_root_cas = None, tc_min_version = min_version, tc_insecure_skip_verify = False\<rparr>"
| "source_tls_config C F min_version TLSInsecure =
     Inr \<lparr>tc_root_cas = None, tc_min_version = min_version, tc_insecure_skip_verify = True\<rparr>"

text \<open>TLS 1.2.\<close>

definition default_tls_min_version :: u16 where
  "default_tls_min_version = 0x0303"

record tls_settings =
  ts_source :: "tls_source option"
  ts_min_version :: u16
  ts_fingerprint :: string

text \<open>
  \<open>getTLSCredentials\<close>: the trust configuration, and the check of the peer's certificates that a pinned
  fingerprint installs.
\<close>

definition get_tls_credentials ::
    "'c x509 \<Rightarrow> file_system \<Rightarrow> (bytes \<Rightarrow> bytes) \<Rightarrow> string \<Rightarrow> tls_settings \<Rightarrow>
      ('c tls_config \<times> (bytes list \<Rightarrow> unit result) option) result" where
  "get_tls_credentials C F sha default_path cfg =
     and_then (source_tls_config C F
        (if ts_min_version cfg = 0 then default_tls_min_version else ts_min_version cfg)
        (case ts_source cfg of None \<Rightarrow> TLSFromPath default_path | Some s \<Rightarrow> s)) (\<lambda>tls.
     if ts_fingerprint cfg = [] then Inr (tls, None)
     else and_then (pinned_digest (ts_fingerprint cfg)) (\<lambda>expected.
          Inr (tls, Some (verify_peer_certificate sha expected))))"

text \<open>
  \<open>buildTLSConfig\<close> of the REST backend looks for the default certificate first; \<open>os_stat\<close> is
  \<open>os.Stat\<close>.
\<close>

definition build_tls_config ::
    "'c x509 \<Rightarrow> file_system \<Rightarrow> (string \<Rightarrow> unit result) \<Rightarrow> (bytes \<Rightarrow> bytes) \<Rightarrow> string \<Rightarrow> tls_settings \<Rightarrow>
      ('c tls_config \<times> (bytes list \<Rightarrow> unit result) option) result" where
  "build_tls_config C F os_stat sha default_path cfg =
     and_then (case ts_source cfg of
                 Some s \<Rightarrow> Inr s
               | None \<Rightarrow> and_then (errorf_text ''couldn't find default TLS cert: '' (os_stat default_path)) (\<lambda>_.
                   Inr (TLSFromPath default_path))) (\<lambda>source.
     and_then (source_tls_config C F
        (if ts_min_version cfg = 0 then default_tls_min_version else ts_min_version cfg) source) (\<lambda>tls.
     if ts_fingerprint cfg = [] then Inr (tls, None)
     else and_then (pinned_digest (ts_fingerprint cfg)) (\<lambda>expected.
          Inr (tls, Some (verify_peer_certificate sha expected)))))"

section \<open>The client\<close>

text \<open>
  \<open>NewClient\<close> loads the macaroons after the connection is made; every sub-client gets the macaroon of
  its service from the pouch.
\<close>

record grpc_config =
  gf_network :: string
  gf_macaroon :: "mac_source option"
  gf_tls :: tls_settings
  gf_rpc_timeout :: int

definition default_rpc_timeout :: int where
  "default_rpc_timeout = 30000000000"

definition grpc_timeout :: "grpc_config \<Rightarrow> int" where
  "grpc_timeout cfg = (if gf_rpc_timeout cfg = 0 then default_rpc_timeout else gf_rpc_timeout cfg)"

text \<open>\<open>macaroon_dir\<close> joins the default directory of tapd with the subdirectory of the network.\<close>

definition new_grpc_pouch ::
    "'c x509 \<Rightarrow> file_system \<Rightarrow> (bytes \<Rightarrow> bytes) \<Rightarrow> string \<Rightarrow> (string \<Rightarrow> string) \<Rightarrow> unit result \<Rightarrow> grpc_config \<Rightarrow> pouch result" where
  "new_grpc_pouch C F sha default_path macaroon_dir dial cfg =
     and_then (case gf_macaroon cfg of
                 Some src \<Rightarrow> Inr src
               | None \<Rightarrow> and_then (default_macaroon_subdir (gf_network cfg)) (\<lambda>sub. Inr (DirSource (macaroon_dir sub)))) (\<lambda>src.
     and_then (errorf_text ''unable to get tls creds: '' (get_tls_credentials C F sha default_path (gf_tls cfg))) (\<lambda>_.
     and_then dial (\<lambda>_.
     errorf_text ''failed to read macaroons: '' (load_pouch F src))))"

text \<open>The REST client loads the macaroons before the transport is made.\<close>

definition new_rest_pouch ::
    "file_system \<Rightarrow> (string \<Rightarrow> string) \<Rightarrow> mac_source option \<Rightarrow> string \<Rightarrow> pouch result" where
  "new_rest_pouch F macaroon_dir source network =
     and_then (case source of
                 Some src \<Rightarrow> Inr src
               | None \<Rightarrow> and_then (default_macaroon_subdir network) (\<lambda>sub. Inr (DirSource (macaroon_dir sub)))) (\<lambda>src.
     errorf ''failed to read macaroons: '' (load_pouch F src))"

end
