(* ===== verification/Spec2Isabelle.thy ===== *)
theory Spec2Isabelle
  imports Tap_Issuer Tap_Interactive Tap_PathChain Tap_AnchorAmounts Tap_AnchorShape Tap_SigningFacts Tap_MixedSigning Tap_Demo Tap_Universe Tap_Ownership Tap_Events Tap_LifecycleFacts Tap_BuilderFacts Tap_RestFacts Tap_GrpcFacts Tap_BackendTls
begin

text \<open>
  tap-sdk (Go) is a client library for Taproot Assets. It parses and prints references, addresses and
  proof files' side data, drives a tapd daemon through client interfaces, and builds, checks, signs and
  seals the packets of transfers itself where the daemon does not.

  How the parts work together. A \<open>Wallet\<close>, \<open>Issuer\<close> or \<open>Universe\<close> holds a client; every
  operation validates its arguments, makes calls, and turns responses into the SDK's types. The custom
  anchor flow is the largest part: a request is validated, \<open>Build\<close> resolves it to a plan of virtual
  packets, \<open>Commit\<close> sends the plan to the daemon and seals what comes back into a package, signatures
  and witnesses are applied to the package, and \<open>PublishCustomAnchorTransfer\<close> hands it back.

  Foundations.
  \<^item> \<open>Tap_Prelude\<close>: results with an error branch (\<open>Inl\<close> the error), loops over slices that stop
    at the first error, byte orders, decimal and ASCII text.
  \<^item> \<open>Tap_Errors\<close> (\<open>errors.go\<close>): wrapping, sentinels, classification by gRPC status.
  \<^item> \<open>Tap_Lib\<close>: third-party functions, as a record of functions (curve, bech32, status).
  \<^item> \<open>Tap_Client\<close> (\<open>clients.go\<close> and the request and response types): the daemon is a record of
    response functions; a call may depend on all calls made before it, and an operation is a function
    from the calls made so far to its result and the calls made after it. A locale states that an
    operation only appends to the calls.

  Parsing and views.
  \<^item> \<open>Tap_Codec\<close> (\<open>internal/codec\<close>), \<open>Tap_FeeRate\<close> (\<open>fee_rate.go\<close>), \<open>Tap_AssetRef\<close> (\<open>keys.go\<close>,
    \<open>hash.go\<close>, \<open>asset.go\<close>, \<open>asset_ref.go\<close>), \<open>Tap_Address\<close> (\<open>decode_addr.go\<close>, \<open>address.go\<close>,
    \<open>network.go\<close>): round trips, order of TLV records, equivalence of references.
  \<^item> \<open>Tap_Assets\<close> (\<open>wallet.go\<close>'s aggregation, \<open>asset.go\<close>, \<open>requests.go\<close>): saturating totals per
    reference.

  Views on the daemon.
  \<^item> \<open>Tap_Wallet\<close> (\<open>wallet.go\<close>, \<open>recipient.go\<close>, options), \<open>Tap_Issuer\<close> (\<open>issuer.go\<close>, \<open>mint.go\<close>),
    \<open>Tap_Universe\<close> (\<open>universe.go\<close>), \<open>Tap_Ownership\<close> (\<open>ownership.go\<close>), \<open>Tap_Events\<close> (\<open>events.go\<close>,
    \<open>event_listener.go\<close>): which arguments are accepted, which calls are made, cancellation of batches,
    selection of candidates, the reconnect loop and the draining of a stream as a step relation.
  \<^item> \<open>Tap_Psbt\<close> (\<open>internal/vpsbt\<close>, \<open>internal/anchor\<close>), \<open>Tap_TxBuilder\<close> (\<open>tx_builder.go\<close>),
    \<open>Tap_Interactive\<close> (\<open>interactive_tx_builder.go\<close>): the stages of a builder as a state machine.

  Proof paths.
  \<^item> \<open>Tap_ProofPath\<close>, \<open>Tap_PathVerify\<close>, \<open>Tap_PathChain\<close> (\<open>custom_anchor_proof_path.go\<close>,
    \<open>custom_anchor_proof_confirm.go\<close>): codec, verification along the chain, confirmation.

  Custom anchors, in the order of the flow.
  \<^item> \<open>Tap_AnchorTypes\<close>, \<open>Tap_AnchorAmounts\<close> (\<open>custom_anchor_types.go\<close>, \<open>virtual_psbt.go\<close>): requests
    and their validation; which requests are accepted, and that these conserve every asset
    that has an output (inputs of other assets pass this check and are refused by \<open>Build\<close>).
  \<^item> \<open>Tap_Capabilities\<close> (\<open>custom_anchor_capabilities.go\<close>).
  \<^item> \<open>Tap_AnchorPsbt\<close>, \<open>Tap_AnchorShape\<close>: the checks of anchor PSBTs, the fee, the caller's template
    and its merge, what a committing backend may change, the lock inventory.
  \<^item> \<open>Tap_AnchorSigning\<close>, \<open>Tap_SigningFacts\<close> (\<open>custom_anchor_signing.go\<close>): signing plans, requests,
    signatures and final witnesses.
  \<^item> \<open>Tap_VirtualPackets\<close>: identities and witnesses of virtual packets and how a committed packet may
    differ from the one sent.
  \<^item> \<open>Tap_AnchorPackage\<close>, \<open>Tap_PackageChecks\<close>, \<open>Tap_PackageOps\<close>, \<open>Tap_PackageFacts\<close>,
    \<open>Tap_MixedSigning\<close> (\<open>custom_anchor_package.go\<close>): the sealed package, its validation, the operations
    that sign and finish it, its encodings. A package step is a step relation; validity and the sealed
    commitment are its invariants.
  \<^item> \<open>Tap_AnchorPlan\<close>, \<open>Tap_AnchorBuild\<close>, \<open>Tap_AnchorBuilder\<close>, \<open>Tap_BuilderFacts\<close>
    (\<open>custom_anchor_builder.go\<close>): the plan and \<open>Build\<close>. A built plan gives every output its amount,
    spends proven tips only and keeps passive assets.
  \<^item> \<open>Tap_AnchorLifecycle\<close>, \<open>Tap_LifecycleFacts\<close> (\<open>custom_anchor_lifecycle.go\<close>): \<open>Commit\<close> and
    publishing, with the typed errors that say what the daemon may have locked or broadcast.
  \<^item> \<open>Tap_Demo\<close>, \<open>Tap_PlanDemo\<close>, \<open>Tap_BuildDemo\<close>: concrete libraries, a daemon, a package, a plan and
    a build, on which properties are applied.

  The REST backend (\<open>rest\<close>).
  \<^item> \<open>Tap_RestText\<close>, \<open>Tap_RestEnums\<close>, \<open>Tap_RestBase64\<close>: hexadecimal, base64, decimal and query texts,
    with the functions of Go's standard library written out; enum names, with the contract of a
    printer and a parser as a locale; base64 texts read back whichever encoding wrote them.
  \<^item> \<open>Tap_RestTypes\<close> (\<open>types.go\<close>): the JSON messages as records.
  \<^item> \<open>Tap_RestMarshal\<close>, \<open>Tap_RestDecode\<close> (\<open>marshal.go\<close>): the decoders into the SDK's types.
  \<^item> \<open>Tap_RestTransport\<close> (\<open>transport.go\<close>, \<open>config.go\<close>, \<open>errors.go\<close>, \<open>macaroon\<close>): an operation is a
    function from the HTTP requests sent so far to its result and the requests sent after it; the
    exchange and the reflection of \<open>encoding/json\<close> are parameters; bodies are JSON trees.
  \<^item> \<open>Tap_RestClient\<close>, \<open>Tap_RestWalletKit\<close>, \<open>Tap_RestMint\<close>, \<open>Tap_RestUniverse\<close>: the methods of the five
    clients.
  \<^item> \<open>Tap_RestFacts\<close>: sends, balances, errors, credentials and universe paths.

  The gRPC backend (\<open>grpc\<close>) and what both backends share.
  \<^item> \<open>Tap_GrpcTypes\<close>, \<open>Tap_GrpcCalls\<close>: the messages as records of the fields that the code reads or
    writes, the calls, and the daemon as a record of stubs whose responses may depend on all calls so
    far; an operation is a function from those calls to its result and the calls after it.
  \<^item> \<open>Tap_GrpcMarshal\<close>, \<open>Tap_GrpcClient\<close>, \<open>Tap_GrpcWalletKit\<close>, \<open>Tap_GrpcMint\<close>, \<open>Tap_GrpcUniverse\<close>: the
    conversions and the methods of the five clients.
  \<^item> \<open>Tap_BackendEvents\<close> (\<open>event_client.go\<close>, \<open>event_marshal.go\<close> of both): the goroutine behind a
    subscription as a function of the rounds of its loop; what a stream promises is the locale
    \<open>event_stream\<close>, with the gRPC and the WebSocket stream as interpretations.
  \<^item> \<open>Tap_BackendTls\<close> (\<open>tls_source.go\<close>, \<open>client.go\<close>, \<open>transport.go\<close>): trust, pinning, macaroons.
  \<^item> \<open>Tap_GrpcFacts\<close>: from the proto JSON of a transfer or an asset the REST backend reads what the
    gRPC backend reads from the message itself.

  Bounds and termination. Every loop is a recursion over a list or over a schedule: waiting for a
  minted record polls once per tick of a schedule of ticks, and the listener's backoff is a function of
  the number of outages; one loop of \<open>internal/anchor\<close> may run forever and is a partial function whose
  divergence is proved. Integers have the width of the code; where the code relies on the absence of
  overflow the bound is a hypothesis or a result.

  Not modelled, everywhere. Text is ASCII. Messages of errors and checks keep their fixed text and leave
  out interpolated values. A panic is an error like any other. A nil slice is the empty slice, a deep
  copy is the value itself. The JSON text of a request or package, the generated code and the packages
  outside the repository (btcd, taproot-assets, gRPC) are parameters. Operations run one after the
  other; contexts are not cancelled while an operation runs, except in event streams. The float of the backoff neither
  overflows nor rounds to infinity.
  Enums of generated packages are their published numbers. Timeouts, the raw connections and the demos
  are left out.
\<close>

end
